(* ===== verification/Prelude.thy ===== *)
theory Prelude
  imports Main "HOL-Library.Word" "HOL-Library.Monad_Syntax"
begin

text \<open>
  Shared vocabulary of the development: machine integers, byte buffers with the
  bounds checks of Rust slices, little-endian conversion, and the two result types.

  A call that does not return a value (a slice index out of range, an \<open>unwrap\<close> of
  \<open>None\<close>, an explicit \<open>panic!\<close>, or a sampling loop that never finds what it looks
  for) is the value \<open>None\<close> of type \<open>'a run\<close>; a Rust \<open>Result\<close> is a sum, with
  \<open>Inl\<close> the error. Machine integers are words, so \<open>+\<close>, \<open>-\<close> and \<open>*\<close> wrap as in a
  release build.
\<close>

unbundle bit_operations_syntax

type_synonym u8 = "8 word"
type_synonym u16 = "16 word"
type_synonym u32 = "32 word"
type_synonym u64 = "64 word"
type_synonym i8 = "8 word"
type_synonym bytes = "8 word list"
type_synonym 'a run = "'a option"

named_theorems slice_simps "bounds-checked buffer operations on buffers that are long enough"
named_theorems le_simps "little-endian conversion"

section \<open>Runs and results\<close>

text \<open>The \<open>?\<close> operator: an error of a call that may also panic is passed on.\<close>

definition try_run :: "('e + 'a) run \<Rightarrow> ('a \<Rightarrow> ('e + 'b) run) \<Rightarrow> ('e + 'b) run" where
  "try_run m f = (case m of None \<Rightarrow> None
     | Some r \<Rightarrow> (case r of Inl e \<Rightarrow> Some (Inl e) | Inr x \<Rightarrow> f x))"

lemma try_run_simps [simp]:
  "try_run None f = None"
  "try_run (Some (Inl e)) f = Some (Inl e)"
  "try_run (Some (Inr x)) f = f x"
  by (simp_all add: try_run_def)

lemma try_run_eq_Inr:
  "try_run m f = Some (Inr y) \<longleftrightarrow> (\<exists>x. m = Some (Inr x) \<and> f x = Some (Inr y))"
  by (auto simp: try_run_def split: option.splits sum.splits)

text \<open>\<open>Option::ok_or\<close> and the Rust \<open>Result::ok\<close>.\<close>

definition ok_or :: "'a option \<Rightarrow> 'e \<Rightarrow> 'e + 'a" where
  "ok_or m e = (case m of None \<Rightarrow> Inl e | Some x \<Rightarrow> Inr x)"

definition result_ok :: "'e + 'a \<Rightarrow> 'a option" where
  "result_ok r = (case r of Inl _ \<Rightarrow> None | Inr x \<Rightarrow> Some x)"

lemma ok_or_simps [simp]: "ok_or None e = Inl e" "ok_or (Some x) e = Inr x"
  by (simp_all add: ok_or_def)

lemma result_ok_simps [simp]: "result_ok (Inl e) = None" "result_ok (Inr x) = Some x"
  by (simp_all add: result_ok_def)

lemma result_ok_eq_Some [simp]: "result_ok r = Some x \<longleftrightarrow> r = Inr x"
  by (cases r) simp_all

section \<open>Bounds-checked buffers\<close>

definition idx :: "'a list \<Rightarrow> nat \<Rightarrow> 'a run" where
  "idx xs i = (if i < length xs then Some (xs ! i) else None)"

definition subslice :: "'a list \<Rightarrow> nat \<Rightarrow> nat \<Rightarrow> 'a list run" where
  "subslice xs i j = (if i \<le> j \<and> j \<le> length xs then Some (take (j - i) (drop i xs)) else None)"

definition set_idx :: "'a list \<Rightarrow> nat \<Rightarrow> 'a \<Rightarrow> 'a list run" where
  "set_idx xs i x = (if i < length xs then Some (xs[i := x]) else None)"

text \<open>\<open>xs[i..j].copy_from_slice(ys)\<close>: the range must exist and the lengths agree.\<close>

definition copy_range :: "'a list \<Rightarrow> nat \<Rightarrow> nat \<Rightarrow> 'a list \<Rightarrow> 'a list run" where
  "copy_range xs i j ys =
     (if i \<le> j \<and> j \<le> length xs \<and> length ys = j - i
      then Some (take i xs @ ys @ drop j xs) else None)"

lemma idx_in [simp, slice_simps]: "i < length xs \<Longrightarrow> idx xs i = Some (xs ! i)"
  by (simp add: idx_def)

lemma idx_out [simp]: "length xs \<le> i \<Longrightarrow> idx xs i = None"
  by (simp add: idx_def)

lemma idx_eq_Some: "idx xs i = Some x \<longleftrightarrow> i < length xs \<and> xs ! i = x"
  by (simp add: idx_def)

lemma subslice_in [simp, slice_simps]:
  "i \<le> j \<Longrightarrow> j \<le> length xs \<Longrightarrow> subslice xs i j = Some (take (j - i) (drop i xs))"
  by (simp add: subslice_def)

lemma subslice_out [simp]: "length xs < j \<Longrightarrow> subslice xs i j = None"
  by (simp add: subslice_def)

lemma subslice_eq_Some:
  "subslice xs i j = Some ys \<longleftrightarrow> i \<le> j \<and> j \<le> length xs \<and> ys = take (j - i) (drop i xs)"
  by (auto simp: subslice_def)

lemma subslice_length: "subslice xs i j = Some ys \<Longrightarrow> length ys = j - i"
  by (auto simp: subslice_eq_Some)

lemma set_idx_in [simp, slice_simps]: "i < length xs \<Longrightarrow> set_idx xs i x = Some (xs[i := x])"
  by (simp add: set_idx_def)

lemma set_idx_out [simp]: "length xs \<le> i \<Longrightarrow> set_idx xs i x = None"
  by (simp add: set_idx_def)

lemma set_idx_eq_Some: "set_idx xs i x = Some ys \<longleftrightarrow> i < length xs \<and> ys = xs[i := x]"
  by (auto simp: set_idx_def)

lemma copy_range_in [simp, slice_simps]:
  "i \<le> j \<Longrightarrow> j \<le> length xs \<Longrightarrow> length ys = j - i \<Longrightarrow>
   copy_range xs i j ys = Some (take i xs @ ys @ drop j xs)"
  by (simp add: copy_range_def)

lemma copy_range_length: "copy_range xs i j ys = Some zs \<Longrightarrow> length zs = length xs"
  by (auto simp: copy_range_def split: if_splits)

text \<open>Filling a buffer from the front: the shape every \<open>build_into\<close> of the code has. The
  buffer is what was written so far, followed by what is left of the old contents.\<close>

lemma set_idx_front [slice_simps]: "out \<noteq> [] \<Longrightarrow> set_idx out 0 y = Some ([y] @ drop 1 out)"
  by (cases out) (simp_all add: set_idx_def)

lemma fill_set [slice_simps]:
  "length xs = i \<Longrightarrow> i < length out \<Longrightarrow>
   set_idx (xs @ drop i out) i y = Some ((xs @ [y]) @ drop (Suc i) out)"
  by (simp add: set_idx_def list_update_append drop_update_cancel Cons_nth_drop_Suc [symmetric])

lemma fill_copy [slice_simps]:
  "length xs = i \<Longrightarrow> j = i + length ys \<Longrightarrow> j \<le> length out \<Longrightarrow>
   copy_range (xs @ drop i out) i j ys = Some ((xs @ ys) @ drop j out)"
  by (auto simp: copy_range_def add.commute)

section \<open>Little-endian conversion\<close>

definition to_le_bytes :: "'a::len word \<Rightarrow> bytes" where
  "to_le_bytes w = map (\<lambda>i. ucast (drop_bit (8 * i) w)) [0..<LENGTH('a) div 8]"

fun from_le_bytes :: "bytes \<Rightarrow> 'a::len word" where
  "from_le_bytes [] = 0"
| "from_le_bytes (b # bs) = ucast b OR push_bit 8 (from_le_bytes bs)"

lemma length_to_le_bytes [simp]: "length (to_le_bytes (w :: 'a::len word)) = LENGTH('a) div 8"
  by (simp add: to_le_bytes_def)

lemma to_le_bytes_nth [simp, le_simps]:
  "i < LENGTH('a) div 8 \<Longrightarrow> to_le_bytes (w :: 'a::len word) ! i = ucast (drop_bit (8 * i) w)"
  by (simp add: to_le_bytes_def)

lemma bit_from_le_bytes [le_simps]:
  "bit (from_le_bytes bs :: 'a::len word) n \<longleftrightarrow>
   n < LENGTH('a) \<and> n div 8 < length bs \<and> bit (bs ! (n div 8)) (n mod 8)"
proof (induction bs arbitrary: n)
  case Nil
  then show ?case by simp
next
  case (Cons b bs)
  show ?case
  proof (cases "n < 8")
    case True
    then show ?thesis by (auto simp: bit_simps)
  next
    case False
    then have "n div 8 = Suc ((n - 8) div 8)" and "n mod 8 = (n - 8) mod 8"
      by (simp_all add: le_div_geq le_mod_geq)
    moreover have "\<not> bit b n" using False by (simp add: impossible_bit)
    ultimately show ?thesis using False Cons.IH [of "n - 8"]
      by (auto simp: bit_simps)
  qed
qed

lemma from_le_bytes_zeros [simp, le_simps]:
  "(from_le_bytes (bs @ replicate k 0) :: 'a::len word) = from_le_bytes bs"
  by (rule bit_word_eqI) (auto simp: bit_from_le_bytes nth_append)

lemma from_le_bytes_to_le_bytes [le_simps]:
  assumes "n \<le> LENGTH('a) div 8"
  shows "(from_le_bytes (take n (to_le_bytes (w :: 'a::len word))) :: 'a word) = take_bit (8 * n) w"
proof (rule bit_word_eqI)
  fix k assume k: "k < LENGTH('a)"
  have split: "8 * (k div 8) + k mod 8 = k" by simp
  have lt: "k div 8 < n \<longleftrightarrow> k < 8 * n" by (auto simp: less_mult_imp_div_less div_less_iff_less_mult mult.commute)
  show "bit (from_le_bytes (take n (to_le_bytes w)) :: 'a word) k = bit (take_bit (8 * n) w) k"
  proof (cases "k < 8 * n")
    case True
    with lt have "k div 8 < n" by simp
    with assms k True show ?thesis
      by (simp add: bit_from_le_bytes bit_simps split)
  next
    case False
    with lt show ?thesis by (simp add: bit_from_le_bytes bit_simps)
  qed
qed

lemma to_le_bytes_from_le_bytes [le_simps]:
  assumes "8 * length bs \<le> LENGTH('a::len)"
  shows "take (length bs) (to_le_bytes (from_le_bytes bs :: 'a word)) = bs"
proof (rule nth_equalityI)
  have len: "length bs \<le> LENGTH('a) div 8" using assms by (simp add: less_eq_div_iff_mult_less_eq mult.commute)
  then show "length (take (length bs) (to_le_bytes (from_le_bytes bs :: 'a word))) = length bs"
    by simp
  fix i assume "i < length (take (length bs) (to_le_bytes (from_le_bytes bs :: 'a word)))"
  then have i: "i < length bs" and i2: "i < LENGTH('a) div 8" using len by simp_all
  have "(ucast (drop_bit (8 * i) (from_le_bytes bs :: 'a word)) :: u8) = bs ! i"
  proof (rule bit_word_eqI)
    fix k assume "k < LENGTH(8)"
    then have k: "k < 8" by simp
    then have "8 * i + k < LENGTH('a)" using i assms by linarith
    moreover have "(8 * i + k) div 8 = i" "(8 * i + k) mod 8 = k" using k by simp_all
    ultimately show "bit (ucast (drop_bit (8 * i) (from_le_bytes bs :: 'a word)) :: u8) k = bit (bs ! i) k"
      using k i by (simp add: bit_simps bit_from_le_bytes)
  qed
  then show "take (length bs) (to_le_bytes (from_le_bytes bs :: 'a word)) ! i = bs ! i"
    using i i2 by simp
qed

section \<open>Words and bits\<close>

lemma u8_lt_256 [simp]: "unat (b :: u8) < 256"
  using unsigned_less [of b] by simp

lemma unat_and_mask: "unat ((w :: 'a::len word) AND mask n) = unat w mod 2 ^ n"
  by (simp add: unsigned_take_bit_eq flip: take_bit_eq_mask take_bit_eq_mod)

lemma unat_and_0xf: "unat ((b :: u8) AND 0x0F) = unat b mod 16"
  using unat_and_mask [of b 4] by (simp add: take_bit_eq_mask mask_eq_exp_minus_1)

lemma unat_and_7: "unat ((b :: u8) AND 0x07) = unat b mod 8"
  using unat_and_mask [of b 3] by (simp add: take_bit_eq_mask mask_eq_exp_minus_1)

lemma unat_and_low4 [simp]: "unat ((b :: u8) AND 0x0F) < 16"
  by (simp add: unat_and_0xf)

lemma take_eq_nth: "take n xs = take n ys \<Longrightarrow> i < n \<Longrightarrow> xs ! i = ys ! i"
  by (metis nth_take)

lemma take_eq_take: "take n xs = take n ys \<Longrightarrow> m \<le> n \<Longrightarrow> take m xs = take m ys"
  by (metis min.absorb1 take_take)

lemma drop_take_nth_eqI:
  assumes "i + n \<le> length xs" "length ys = n" "\<And>k. k < n \<Longrightarrow> xs ! (i + k) = ys ! k"
  shows "take n (drop i xs) = ys"
  by (rule nth_equalityI) (use assms in auto)

end
