(* ===== verification/Modulation.thy ===== *)
theory Modulation
  imports Prelude "HOL-Library.Signed_Division"
begin

text \<open>
  \<open>lora-modulation/src/lib.rs\<close>: bandwidth, spreading factor, coding rate, and the
  base-band parameters from which symbol times and the time on air are computed.
  \<open>u32\<close> is \<open>32 word\<close>. The \<open>i32\<close> arithmetic of \<open>time_on_air_us\<close> is over \<open>int\<close>: with
  \<open>len \<le> 255\<close> and \<open>sf \<le> 12\<close> none of it leaves \<open>i32\<close>, and Rust's \<open>/\<close>, which
  truncates, is \<open>sdiv\<close>.
\<close>

section \<open>Parameters\<close>

datatype bandwidth = BW_7KHz | BW_10KHz | BW_15KHz | BW_20KHz | BW_31KHz | BW_41KHz
  | BW_62KHz | BW_125KHz | BW_250KHz | BW_500KHz

fun bw_hz :: "bandwidth \<Rightarrow> u32" where
  "bw_hz BW_7KHz = 7810"
| "bw_hz BW_10KHz = 10420"
| "bw_hz BW_15KHz = 15630"
| "bw_hz BW_20KHz = 20830"
| "bw_hz BW_31KHz = 31250"
| "bw_hz BW_41KHz = 41670"
| "bw_hz BW_62KHz = 62500"
| "bw_hz BW_125KHz = 125000"
| "bw_hz BW_250KHz = 250000"
| "bw_hz BW_500KHz = 500000"

datatype spreading_factor = SF_5 | SF_6 | SF_7 | SF_8 | SF_9 | SF_10 | SF_11 | SF_12

fun sf_factor :: "spreading_factor \<Rightarrow> u32" where
  "sf_factor SF_5 = 5"
| "sf_factor SF_6 = 6"
| "sf_factor SF_7 = 7"
| "sf_factor SF_8 = 8"
| "sf_factor SF_9 = 9"
| "sf_factor SF_10 = 10"
| "sf_factor SF_11 = 11"
| "sf_factor SF_12 = 12"

datatype coding_rate = CR_4_5 | CR_4_6 | CR_4_7 | CR_4_8

fun cr_denom :: "coding_rate \<Rightarrow> u32" where
  "cr_denom CR_4_5 = 5"
| "cr_denom CR_4_6 = 6"
| "cr_denom CR_4_7 = 7"
| "cr_denom CR_4_8 = 8"

record bbmp =
  bb_sf :: spreading_factor
  bb_bw :: bandwidth
  bb_cr :: coding_rate
  ldro :: bool
  t_sym_us :: u32

definition bbmp_new :: "spreading_factor \<Rightarrow> bandwidth \<Rightarrow> coding_rate \<Rightarrow> bbmp" where
  "bbmp_new sf bw cr =
     (let t = 2 ^ unat (sf_factor sf) * 1000000 div bw_hz bw
      in \<lparr>bb_sf = sf, bb_bw = bw, bb_cr = cr, ldro = 16384 \<le> t, t_sym_us = t\<rparr>)"

definition delay_in_symbols :: "bbmp \<Rightarrow> u32 \<Rightarrow> u16" where
  "delay_in_symbols p delay_in_ms = ucast (delay_in_ms * 1000 div t_sym_us p)"

definition symbols_to_ms :: "bbmp \<Rightarrow> u32 \<Rightarrow> u32" where
  "symbols_to_ms p symbols = t_sym_us p * symbols div 1000"

section \<open>Time on air\<close>

definition div_ceil :: "int \<Rightarrow> int \<Rightarrow> int" where
  "div_ceil num denom = (num - 1) sdiv denom + 1"

definition toa_num :: "bbmp \<Rightarrow> bool \<Rightarrow> u8 \<Rightarrow> int" where
  "toa_num p explicit_header len =
     8 * uint len - 4 * uint (sf_factor (bb_sf p)) + 28 + 16
       - 20 * (if explicit_header then 0 else 1)"

definition toa_den :: "bbmp \<Rightarrow> int" where
  "toa_den p = 4 * (uint (sf_factor (bb_sf p)) - 2 * (if ldro p then 1 else 0))"

definition payload_symb_nb :: "bbmp \<Rightarrow> bool \<Rightarrow> u8 \<Rightarrow> u32" where
  "payload_symb_nb p explicit_header len =
     (let big_ratio = div_ceil (toa_num p explicit_header len) (toa_den p);
          big_ratio' = if 0 < big_ratio then big_ratio else 0
      in word_of_int (8 + big_ratio' * uint (cr_denom (bb_cr p))))"

definition time_on_air_us :: "bbmp \<Rightarrow> u8 option \<Rightarrow> bool \<Rightarrow> u8 \<Rightarrow> u32" where
  "time_on_air_us p preamble explicit_header len =
     (case preamble of
        None \<Rightarrow> t_sym_us p * payload_symb_nb p explicit_header len
      | Some pr \<Rightarrow> (4 * ucast pr + 17 + 4 * payload_symb_nb p explicit_header len)
                    * t_sym_us p div 4)"

section \<open>Lemmas\<close>

lemma sf_range: "5 \<le> uint (sf_factor sf) \<and> uint (sf_factor sf) \<le> 12"
  by (cases sf) simp_all

lemma cr_range: "5 \<le> uint (cr_denom cr) \<and> uint (cr_denom cr) \<le> 8"
  by (cases cr) simp_all

lemma t_sym_range:
  "64 \<le> uint (t_sym_us (bbmp_new sf bw cr)) \<and> uint (t_sym_us (bbmp_new sf bw cr)) \<le> 524455"
  by (cases sf; cases bw) (simp_all add: bbmp_new_def)

lemma bbmp_new_sel [simp]:
  "bb_sf (bbmp_new sf bw cr) = sf" "bb_bw (bbmp_new sf bw cr) = bw"
  "bb_cr (bbmp_new sf bw cr) = cr"
  by (simp_all add: bbmp_new_def Let_def)

lemma toa_den_range: "12 \<le> toa_den p \<and> toa_den p \<le> 48"
  using sf_range [of "bb_sf p"] by (auto simp: toa_den_def)

lemma toa_num_range: "24 - 4 * uint (sf_factor (bb_sf p)) \<le> toa_num p e len \<and> toa_num p e len \<le> 2064"
proof -
  have u: "uint len < 256" using uint_lt2p [of len] by simp
  have l: "0 \<le> uint len" by simp
  show ?thesis using sf_range [of "bb_sf p"] u l by (cases e) (simp_all only: toa_num_def if_True if_False, linarith+)
qed

lemma toa_num_den: "- toa_den p < toa_num p e len - 1"
  using toa_num_range [of p e len] by (auto simp: toa_den_def)

lemma sdiv_nonneg: "0 \<le> a \<Longrightarrow> 0 < b \<Longrightarrow> (a :: int) sdiv b = a div b"
  by (cases "a = 0") (simp_all add: signed_divide_int_def sgn_if)

lemma div_ceil_pos: "0 < num \<Longrightarrow> 0 < den \<Longrightarrow> div_ceil num den = - ((- num) div den)"
proof -
  assume a: "0 < num" "0 < den"
  have *: "num = (num - 1) div den * den + (num - 1) mod den + 1" by simp
  have m: "0 \<le> (num - 1) mod den" "(num - 1) mod den < den" using a by simp_all
  have "(- num) div den = - ((num - 1) div den) - 1"
    by (rule int_div_pos_eq [where r = "den - 1 - (num - 1) mod den"]) (use * m in \<open>auto simp: algebra_simps\<close>)
  then show ?thesis using a by (simp add: div_ceil_def sdiv_nonneg)
qed

lemma div_ceil_nonpos: "num \<le> 0 \<Longrightarrow> - den < num - 1 \<Longrightarrow> 0 < den \<Longrightarrow> div_ceil num den = 1"
  by (auto simp: div_ceil_def signed_divide_int_def sgn_if abs_if)

lemma div_ceil_bound:
  assumes "num \<le> 2064" "12 \<le> den"
  shows "div_ceil num den \<le> 172"
proof (cases "0 < num")
  case True
  then have "(num - 1) sdiv den = (num - 1) div den"
    using assms by (simp add: sdiv_nonneg)
  also have "\<dots> \<le> 2063 div den" using assms by (intro zdiv_mono1) auto
  also have "\<dots> \<le> 2063 div 12" using assms by (intro zdiv_mono2) auto
  finally show ?thesis by (simp add: div_ceil_def)
next
  case False
  then have "(num - 1) sdiv den \<le> 0"
    using assms by (simp add: signed_divide_int_def sgn_if pos_imp_zdiv_nonneg_iff)
  then show ?thesis by (simp add: div_ceil_def)
qed

text \<open>The symbol count as an integer: no wrap-around, and what it is in each case.\<close>

definition symb_int :: "bbmp \<Rightarrow> bool \<Rightarrow> u8 \<Rightarrow> int" where
  "symb_int p e len = 8 + max 0 (div_ceil (toa_num p e len) (toa_den p)) * uint (cr_denom (bb_cr p))"

lemma symb_int_range: "8 \<le> symb_int p e len \<and> symb_int p e len \<le> 1384"
proof -
  let ?b = "max 0 (div_ceil (toa_num p e len) (toa_den p))"
  have "?b \<le> 172"
    using div_ceil_bound [of "toa_num p e len" "toa_den p"] toa_num_range [of p e len] toa_den_range [of p]
    by auto
  then have "?b * uint (cr_denom (bb_cr p)) \<le> 172 * 8"
    using cr_range [of "bb_cr p"] by (intro mult_mono) auto
  then show ?thesis using cr_range [of "bb_cr p"] by (auto simp: symb_int_def)
qed

lemma uint_payload_symb_nb: "uint (payload_symb_nb p e len) = symb_int p e len"
proof -
  have "payload_symb_nb p e len = word_of_int (symb_int p e len)"
    by (auto simp: payload_symb_nb_def symb_int_def Let_def max_def)
  then show ?thesis using symb_int_range [of p e len]
    by (simp add: uint_word_of_int take_bit_int_eq_self)
qed

lemma symb_int_nonpos:
  "toa_num p e len \<le> 0 \<Longrightarrow> symb_int p e len = 8 + uint (cr_denom (bb_cr p))"
  using toa_den_range [of p] toa_num_den [of p e len] by (simp add: symb_int_def div_ceil_nonpos)

lemma uint_toa_no_wrap:
  assumes t: "uint (t_sym_us p) \<le> 524455"
  shows "uint (time_on_air_us p pre e len) =
     (case pre of None \<Rightarrow> uint (t_sym_us p) * symb_int p e len
      | Some pr \<Rightarrow> (4 * uint pr + 17 + 4 * symb_int p e len) * uint (t_sym_us p) div 4)"
proof (cases pre)
  case None
  have "uint (t_sym_us p) * symb_int p e len \<le> 524455 * 1384"
    using t symb_int_range [of p e len] by (intro mult_mono) auto
  then show ?thesis using None symb_int_range [of p e len]
    by (simp add: time_on_air_us_def uint_word_ariths uint_payload_symb_nb)
next
  case (Some pr)
  have pr: "0 \<le> uint pr" "uint pr < 256" using uint_lt2p [of pr] by simp_all
  have "(4 * uint pr + 17 + 4 * symb_int p e len) * uint (t_sym_us p) \<le> 6573 * 524455"
    using t symb_int_range [of p e len] pr by (intro mult_mono) auto
  moreover have "0 \<le> (4 * uint pr + 17 + 4 * symb_int p e len) * uint (t_sym_us p)"
    using symb_int_range [of p e len] pr by simp
  ultimately show ?thesis using Some pr symb_int_range [of p e len]
    by (simp add: time_on_air_us_def uint_word_ariths uint_payload_symb_nb uint_div_distrib
        unsigned_ucast_eq take_bit_int_eq_self mod_simps)
qed

end
