(* ===== verification/TimeOnAir.thy ===== *)
theory TimeOnAir
  imports Complex_Main Modulation
begin

text \<open>
  The time on air that \<open>time_on_air_us\<close> computes in 32-bit integers, against the formula of the Semtech data sheets
  (SX1276, section 4.1.1.7) over the real numbers. The formula is written here from the data sheet: its quantities are
  numbers of their own, not the ones the code computes.
\<close>

section \<open>The formula of the data sheet\<close>

text \<open>SF, CR and the bandwidth in Hz; the narrow bandwidths are fractions of 500 kHz.\<close>

fun ds_sf :: "spreading_factor \<Rightarrow> nat" where
  "ds_sf SF_5 = 5" | "ds_sf SF_6 = 6" | "ds_sf SF_7 = 7" | "ds_sf SF_8 = 8"
| "ds_sf SF_9 = 9" | "ds_sf SF_10 = 10" | "ds_sf SF_11 = 11" | "ds_sf SF_12 = 12"

fun ds_cr :: "coding_rate \<Rightarrow> nat" where
  "ds_cr CR_4_5 = 1" | "ds_cr CR_4_6 = 2" | "ds_cr CR_4_7 = 3" | "ds_cr CR_4_8 = 4"

fun ds_bw :: "bandwidth \<Rightarrow> real" where
  "ds_bw BW_7KHz = 500000 / 64" | "ds_bw BW_10KHz = 500000 / 48" | "ds_bw BW_15KHz = 500000 / 32"
| "ds_bw BW_20KHz = 500000 / 24" | "ds_bw BW_31KHz = 500000 / 16" | "ds_bw BW_41KHz = 500000 / 12"
| "ds_bw BW_62KHz = 500000 / 8" | "ds_bw BW_125KHz = 125000" | "ds_bw BW_250KHz = 250000" | "ds_bw BW_500KHz = 500000"

text \<open>The duration of a symbol in microseconds.\<close>

definition ds_symbol_us :: "spreading_factor \<Rightarrow> bandwidth \<Rightarrow> real" where
  "ds_symbol_us sf bw = 2 ^ ds_sf sf / ds_bw bw * 10 ^ 6"

text \<open>The number of payload symbols, with the CRC of the payload on: \<open>PL\<close> bytes of payload, \<open>IH\<close> is 1 without a header
  and \<open>DE\<close> 1 with the low data rate optimisation.\<close>

definition ds_payload_symbols :: "nat \<Rightarrow> nat \<Rightarrow> bool \<Rightarrow> bool \<Rightarrow> nat \<Rightarrow> real" where
  "ds_payload_symbols SF CR low header PL =
     (let IH = (if header then 0 else 1); DE = (if low then 1 else 0)
      in 8 + max (real_of_int \<lceil>(8 * real PL - 4 * real SF + 28 + 16 - 20 * IH) / (4 * (real SF - 2 * DE))\<rceil> * (real CR + 4)) 0)"

text \<open>The preamble lasts 4.25 symbols longer than its programmed length; without one only the payload counts.\<close>

definition ds_time_us ::
  "spreading_factor \<Rightarrow> bandwidth \<Rightarrow> coding_rate \<Rightarrow> bool \<Rightarrow> u8 option \<Rightarrow> bool \<Rightarrow> u8 \<Rightarrow> real" where
  "ds_time_us sf bw cr low preamble header len =
     ((case preamble of Some n \<Rightarrow> real (unat n) + 4.25 | None \<Rightarrow> 0) +
      ds_payload_symbols (ds_sf sf) (ds_cr cr) low header (unat len)) * ds_symbol_us sf bw"

text \<open>The frames whose quotient in the formula is not positive.\<close>

definition ds_short :: "spreading_factor \<Rightarrow> bool \<Rightarrow> u8 \<Rightarrow> bool" where
  "ds_short sf header len \<longleftrightarrow> 8 * unat len + 44 \<le> 4 * ds_sf sf + (if header then 0 else 20)"

section \<open>The code\<close>

lemma ds_sf_eq: "uint (sf_factor sf) = int (ds_sf sf)"
  by (cases sf) simp_all

lemma ds_cr_eq: "uint (cr_denom cr) = int (ds_cr cr) + 4"
  by (cases cr) simp_all

lemma symbol_us_exact:
  assumes "bw \<in> {BW_125KHz, BW_250KHz, BW_500KHz}"
  obtains k :: int where "uint (t_sym_us (bbmp_new sf bw cr)) = 4 * k" "ds_symbol_us sf bw = 4 * real_of_int k"
proof -
  have "\<exists>k. uint (t_sym_us (bbmp_new sf bw cr)) = 4 * k \<and> ds_symbol_us sf bw = 4 * real_of_int k"
    using assms
    by (intro exI [of _ "uint (t_sym_us (bbmp_new sf bw cr)) div 4"])
       (cases sf; cases bw; simp add: bbmp_new_def ds_symbol_us_def)
  then show thesis using that by blast
qed

lemma symb_int_real:
  "real_of_int (symb_int ((bbmp_new sf bw cr)\<lparr>ldro := low\<rparr>) header len) =
     ds_payload_symbols (ds_sf sf) (ds_cr cr) low header (unat len) + (if ds_short sf header len then real (ds_cr cr) + 4 else 0)"
proof -
  define p where "p = (bbmp_new sf bw cr)\<lparr>ldro := low\<rparr>"
  have n: "toa_num p header len = 8 * int (unat len) - 4 * int (ds_sf sf) + 44 - 20 * (if header then 0 else 1)"
    unfolding toa_num_def p_def by (simp add: ds_sf_eq)
  have d: "toa_den p = 4 * (int (ds_sf sf) - 2 * (if low then 1 else 0))"
    by (simp add: toa_den_def p_def ds_sf_eq)
  define q where "q = \<lceil>real_of_int (toa_num p header len) / real_of_int (toa_den p)\<rceil>"
  have den: "0 < toa_den p" using toa_den_range [of p] by simp
  have q: "q = - ((- toa_num p header len) div toa_den p)"
    unfolding q_def by (rule ceiling_divide_eq_div)
  have ds: "ds_payload_symbols (ds_sf sf) (ds_cr cr) low header (unat len) = 8 + max (real_of_int q * (real (ds_cr cr) + 4)) 0"
    by (simp add: ds_payload_symbols_def q_def n d Let_def add.commute)
  have short: "ds_short sf header len \<longleftrightarrow> toa_num p header len \<le> 0"
  proof -
    have l: "uint len = int (unat len)" by simp
    show ?thesis unfolding n ds_short_def l by (cases header) (simp_all only: if_True if_False, linarith+)
  qed
  have cr: "uint (cr_denom (bb_cr p)) = int (ds_cr cr) + 4" by (simp add: p_def ds_cr_eq)
  show ?thesis
  proof (cases "0 < toa_num p header len")
    case True
    then have "div_ceil (toa_num p header len) (toa_den p) = q" using den q by (simp add: div_ceil_pos)
    moreover have "0 \<le> q" using div_neg_pos_less0 [of "- toa_num p header len" "toa_den p"] True den by (simp add: q)
    ultimately show ?thesis using True short by (simp add: symb_int_def ds cr flip: p_def)
  next
    case False
    then have "q \<le> 0" using den by (simp add: q pos_imp_zdiv_nonneg_iff)
    then have "max (real_of_int q * (real (ds_cr cr) + 4)) 0 = 0" by (simp add: mult_nonpos_nonneg)
    moreover have "symb_int p header len = 8 + (int (ds_cr cr) + 4)" using False symb_int_nonpos [of p header len] cr by simp
    ultimately show ?thesis using False short by (simp add: ds flip: p_def)
  qed
qed

section \<open>Property\<close>

text \<open>C40. For the bandwidths of LoRaWAN, every spreading factor, coding rate, setting of the low data rate optimisation,
  preamble, header mode and length, the time on air that the code computes in truncating and wrapping 32-bit arithmetic is
  exactly the one of the data sheet, in microseconds, with one exception: for the frames so short that the
  quotient of the formula is not positive (say an empty payload at SF12) the code reports one block of CR + 4 symbols
  too many, because its rounding up of a quotient truncates towards zero. And \<open>new\<close> turns the optimisation on, at these
  bandwidths, exactly for symbols of 16.384 ms and more.\<close>

theorem time_on_air_datasheet:
  assumes "bw \<in> {BW_125KHz, BW_250KHz, BW_500KHz}"
  shows "real (unat (time_on_air_us ((bbmp_new sf bw cr)\<lparr>ldro := low\<rparr>) preamble header len)) =
      ds_time_us sf bw cr low preamble header len +
      (if ds_short sf header len then (real (ds_cr cr) + 4) * ds_symbol_us sf bw else 0) \<and>
    (ldro (bbmp_new sf bw cr) \<longleftrightarrow> 16384 \<le> ds_symbol_us sf bw)"
proof
  define p where "p = (bbmp_new sf bw cr)\<lparr>ldro := low\<rparr>"
  obtain k :: int where k: "uint (t_sym_us p) = 4 * k" "ds_symbol_us sf bw = 4 * real_of_int k"
    using symbol_us_exact [OF assms, of sf cr] by (auto simp: p_def)
  have t: "uint (t_sym_us p) \<le> 524455" using t_sym_range [of sf bw cr] by (simp add: p_def)
  have "uint (time_on_air_us p preamble header len) =
      (case preamble of None \<Rightarrow> 4 * symb_int p header len | Some n \<Rightarrow> 4 * int (unat n) + 17 + 4 * symb_int p header len) * k"
    by (auto simp: uint_toa_no_wrap [OF t] k(1) split: option.split)
  then have "int (unat (time_on_air_us p preamble header len)) =
      (case preamble of None \<Rightarrow> 4 * symb_int p header len | Some n \<Rightarrow> 4 * int (unat n) + 17 + 4 * symb_int p header len) * k"
    by simp
  then have "real_of_int (int (unat (time_on_air_us p preamble header len))) =
      (case preamble of None \<Rightarrow> 4 * real_of_int (symb_int p header len)
       | Some n \<Rightarrow> 4 * real (unat n) + 17 + 4 * real_of_int (symb_int p header len)) * real_of_int k"
    by (simp only:) (simp split: option.split)
  then show "real (unat (time_on_air_us ((bbmp_new sf bw cr)\<lparr>ldro := low\<rparr>) preamble header len)) =
      ds_time_us sf bw cr low preamble header len +
      (if ds_short sf header len then (real (ds_cr cr) + 4) * ds_symbol_us sf bw else 0)"
    unfolding p_def symb_int_real ds_time_us_def k(2)
    by (auto simp: algebra_simps split: option.split)
  show "ldro (bbmp_new sf bw cr) \<longleftrightarrow> 16384 \<le> ds_symbol_us sf bw"
    using assms by (cases sf; cases bw) (simp_all add: bbmp_new_def ds_symbol_us_def)
qed

lemma time_on_air_datasheet_witness:
  "unat (time_on_air_us ((bbmp_new SF_7 BW_250KHz CR_4_5)\<lparr>ldro := False\<rparr>) (Some 8) True 38) = 41088"
proof -
  have "real (unat (time_on_air_us ((bbmp_new SF_7 BW_250KHz CR_4_5)\<lparr>ldro := False\<rparr>) (Some 8) True 38)) = 41088"
    using time_on_air_datasheet [where bw = BW_250KHz and sf = SF_7 and cr = CR_4_5 and low = False and preamble = "Some 8" and header = True and len = 38]
    by (simp add: ds_time_us_def ds_payload_symbols_def ds_symbol_us_def ds_short_def Let_def)
  then show ?thesis by linarith
qed

end
