(* ===== verification/PhyBus.thy ===== *)
theory PhyBus
  imports Modulation
begin

text \<open>
  The ground of the radio drivers: the parameters of \<open>lora-phy/src/mod_params.rs\<close>, the effects a driver
  has on its hardware, and \<open>SpiInterface\<close> of \<open>interface.rs\<close>. The bus and the control lines implement
  traits outside the crate, so they are a parameter: a record of their functions over a state \<open>'w\<close> of the
  hardware, which also holds the delay provider. An \<open>await\<close> is a call; \<open>None\<close> is a panic or a future that
  never completes.
\<close>

type_synonym i16 = "16 word"
type_synonym i32 = "32 word"

section \<open>Parameters\<close>

datatype radio_error = SPI | Reset | RfSwitchRx | RfSwitchTx | Busy | Irq | DIO1 | InvalidConfiguration
  | InvalidRadioMode | InvalidSyncWord | OpError u8 | InvalidBaseAddress nat nat
  | PayloadSizeUnexpected nat | PayloadSizeMismatch nat nat | UnavailableSpreadingFactor
  | UnavailableBandwidth | InvalidBandwidthForFrequency | InvalidSF6ExplicitHeaderRequest
  | InvalidOutputPowerForFrequency | TransmitTimeout | ReceiveTimeout | DutyCycleUnsupported
  | RngUnsupported

record packet_status =
  ps_rssi :: i16
  ps_snr :: i16

record duty_cycle_params =
  dc_rx_time :: u32
  dc_sleep_time :: u32

datatype phy_rx_mode = RxSingle u16 | RxContinuous | RxDutyCycle duty_cycle_params

datatype radio_mode = Sleep | Standby | FrequencySynthesis | Transmit | Receive phy_rx_mode | Listen
  | ChannelActivityDetection

record modulation_params =
  mp_sf :: spreading_factor
  mp_bw :: bandwidth
  mp_cr :: coding_rate
  mp_ldro :: u8
  mp_frequency :: u32

record packet_params =
  pp_preamble_length :: u16
  pp_implicit_header :: bool
  pp_payload_length :: u8
  pp_crc_on :: bool
  pp_iq_inverted :: bool

definition bbmp_of_modulation :: "modulation_params \<Rightarrow> bbmp" where
  "bbmp_of_modulation m = bbmp_new (mp_sf m) (mp_bw m) (mp_cr m)"

definition set_payload_length :: "nat \<Rightarrow> packet_params \<Rightarrow> (radio_error + unit) \<times> packet_params" where
  "set_payload_length n p =
     (if 255 < n then (Inl (PayloadSizeUnexpected n), p)
      else (Inr (), p\<lparr>pp_payload_length := of_nat n\<rparr>))"

text \<open>The bytes of a \<open>u16\<close>, most significant first.\<close>

definition be16 :: "u16 \<Rightarrow> bytes" where
  "be16 w = [ucast (drop_bit 8 w), ucast w]"

definition of_be16 :: "u8 \<Rightarrow> u8 \<Rightarrow> u16" where
  "of_be16 hi lo = push_bit 8 (ucast hi) OR ucast lo"

definition sync_word_from_legacy :: "u8 \<Rightarrow> u16" where
  "sync_word_from_legacy w = of_be16 (w AND 0xF0 OR 0x04) (push_bit 4 (w AND 0x0F) OR 0x04)"

definition sync_word_to_legacy :: "u16 \<Rightarrow> radio_error + u8" where
  "sync_word_to_legacy w =
     (let msb = ucast (drop_bit 8 w) :: u8; lsb = ucast w :: u8
      in if msb AND 0x0F = 0x04 \<and> lsb AND 0x0F = 0x04
         then Inr (msb AND 0xF0 OR drop_bit 4 lsb) else Inl InvalidSyncWord)"

definition LORAWAN_PUBLIC_SYNCWORD :: u16 where "LORAWAN_PUBLIC_SYNCWORD = 0x3444"

definition LORAWAN_PRIVATE_SYNCWORD :: u16 where "LORAWAN_PRIVATE_SYNCWORD = 0x1424"

datatype irq_state = PreambleReceived | IrqDone

section \<open>Effects\<close>

type_synonym ('s, 'a) phy = "'s \<Rightarrow> ((radio_error + 'a) \<times> 's) run"

definition ret :: "'a \<Rightarrow> ('s, 'a) phy" where
  "ret x s = Some (Inr x, s)"

definition fail :: "radio_error \<Rightarrow> ('s, 'a) phy" where
  "fail e s = Some (Inl e, s)"

definition panic :: "('s, 'a) phy" where
  "panic s = None"

text \<open>The \<open>?\<close> operator.\<close>

definition bnd :: "('s, 'a) phy \<Rightarrow> ('a \<Rightarrow> ('s, 'b) phy) \<Rightarrow> ('s, 'b) phy" where
  "bnd m f s = (case m s of None \<Rightarrow> None
     | Some (r, s') \<Rightarrow> (case r of Inl e \<Rightarrow> Some (Inl e, s') | Inr x \<Rightarrow> f x s'))"

definition thn :: "('s, 'a) phy \<Rightarrow> ('s, 'b) phy \<Rightarrow> ('s, 'b) phy" where
  "thn m k = bnd m (\<lambda>_. k)"

definition steps :: "('s, unit) phy list \<Rightarrow> ('s, unit) phy" where
  "steps ms = foldr thn ms (ret ())"

text \<open>Without the \<open>?\<close>: the result becomes a value.\<close>

definition attempt :: "('s, 'a) phy \<Rightarrow> ('s, radio_error + 'a) phy" where
  "attempt m s = (case m s of None \<Rightarrow> None | Some (r, s') \<Rightarrow> Some (Inr r, s'))"

definition of_result :: "radio_error + 'a \<Rightarrow> ('s, 'a) phy" where
  "of_result r s = Some (r, s)"

text \<open>A bounds check or another panic of pure code.\<close>

definition of_run :: "'a run \<Rightarrow> ('s, 'a) phy" where
  "of_run x s = (case x of None \<Rightarrow> None | Some y \<Rightarrow> Some (Inr y, s))"

definition when_do :: "bool \<Rightarrow> ('s, unit) phy \<Rightarrow> ('s, unit) phy" where
  "when_do b m = (if b then m else ret ())"

definition modify :: "('s \<Rightarrow> 's) \<Rightarrow> ('s, unit) phy" where
  "modify f s = Some (Inr (), f s)"

text \<open>An effect that depends on the state it starts in.\<close>

definition peek :: "('s \<Rightarrow> ('s, 'a) phy) \<Rightarrow> ('s, 'a) phy" where
  "peek f s = f s s"

text \<open>An effect on the second component of a state; the first is a \<open>&mut\<close> argument of the caller.\<close>

definition on_snd :: "('s, 'a) phy \<Rightarrow> ('b \<times> 's, 'a) phy" where
  "on_snd m = (\<lambda>(b, s). case m s of None \<Rightarrow> None | Some (r, s') \<Rightarrow> Some (r, b, s'))"

text \<open>A local variable that is lent to an effect and then dropped.\<close>

definition with_local :: "'b \<Rightarrow> ('b \<times> 's, 'a) phy \<Rightarrow> ('s, 'a) phy" where
  "with_local b m s = (case m (b, s) of None \<Rightarrow> None | Some (r, _, s') \<Rightarrow> Some (r, s'))"

section \<open>Hardware\<close>

text \<open>An operation of an SPI transaction; a read gets a buffer and gives it back filled.\<close>

datatype spi_op = SpiWrite bytes | SpiRead bytes

record 'w hw =
  hw_write :: "bytes \<Rightarrow> 'w \<Rightarrow> ((unit + unit) \<times> 'w) run"
  hw_transaction :: "spi_op list \<Rightarrow> 'w \<Rightarrow> ((unit + unit) \<times> bytes list \<times> 'w) run"
  iv_reset :: "('w, unit) phy"
  iv_wait_on_busy :: "('w, unit) phy"
  iv_await_irq :: "('w, unit) phy"
  iv_rf_switch_rx :: "('w, unit) phy"
  iv_rf_switch_tx :: "('w, unit) phy"
  iv_disable_rf_switch :: "('w, unit) phy"
  hw_delay_ms :: "u32 \<Rightarrow> 'w \<Rightarrow> 'w"

fun read_lengths :: "spi_op list \<Rightarrow> nat list" where
  "read_lengths [] = []"
| "read_lengths (SpiWrite _ # ops) = read_lengths ops"
| "read_lengths (SpiRead b # ops) = length b # read_lengths ops"

text \<open>What a slice guarantees: every buffer of a transaction keeps its length.\<close>

definition hw_ok :: "'w hw \<Rightarrow> bool" where
  "hw_ok H \<longleftrightarrow> (\<forall>ops w r bufs w'. hw_transaction H ops w = Some (r, bufs, w') \<longrightarrow> map length bufs = read_lengths ops)"

section \<open>SPI interface\<close>

definition map_spi :: "((unit + unit) \<times> 'w) run \<Rightarrow> ((radio_error + unit) \<times> 'w) run" where
  "map_spi x = do { (r, w) \<leftarrow> x; Some (case r of Inl _ \<Rightarrow> Inl SPI | Inr _ \<Rightarrow> Inr (), w) }"

definition intf_write :: "'w hw \<Rightarrow> bytes \<Rightarrow> bool \<Rightarrow> ('w, unit) phy" where
  "intf_write H write_buffer is_sleep_command =
     thn (\<lambda>w. map_spi (hw_write H write_buffer w))
       (when_do (\<not> is_sleep_command) (iv_wait_on_busy H))"

definition intf_write_with_payload :: "'w hw \<Rightarrow> bytes \<Rightarrow> bytes \<Rightarrow> bool \<Rightarrow> ('w, unit) phy" where
  "intf_write_with_payload H write_buffer payload is_sleep_command =
     thn (\<lambda>w. do {
           (r, _, w') \<leftarrow> hw_transaction H [SpiWrite write_buffer, SpiWrite payload] w;
           map_spi (Some (r, w'))})
       (when_do (\<not> is_sleep_command) (iv_wait_on_busy H))"

text \<open>The read buffer belongs to the caller: it may be changed although the call fails.\<close>

definition intf_read :: "'w hw \<Rightarrow> bytes \<Rightarrow> (bytes \<times> 'w, unit) phy" where
  "intf_read H write_buffer =
     thn (\<lambda>(buf, w). do {
           (r, bufs, w') \<leftarrow> hw_transaction H [SpiWrite write_buffer, SpiRead buf] w;
           Some (case r of Inl _ \<Rightarrow> Inl SPI | Inr _ \<Rightarrow> Inr (), hd bufs, w')})
       (on_snd (iv_wait_on_busy H))"

definition intf_read_with_status :: "'w hw \<Rightarrow> bytes \<Rightarrow> (bytes \<times> 'w, u8) phy" where
  "intf_read_with_status H write_buffer =
     bnd (\<lambda>(buf, w). do {
           (r, bufs, w') \<leftarrow> hw_transaction H [SpiWrite write_buffer, SpiRead [0], SpiRead buf] w;
           Some (case r of Inl _ \<Rightarrow> Inl SPI | Inr _ \<Rightarrow> Inr (hd (hd bufs)), bufs ! 1, w')})
       (\<lambda>status. thn (on_snd (iv_wait_on_busy H)) (ret status))"

text \<open>An effect on the slice \<open>[..n]\<close> of the caller's buffer.\<close>

definition on_prefix :: "nat \<Rightarrow> (bytes \<times> 'w, 'a) phy \<Rightarrow> (bytes \<times> 'w, 'a) phy" where
  "on_prefix n m = (\<lambda>(buf, w).
     if length buf < n then None
     else case m (take n buf, w) of None \<Rightarrow> None | Some (r, b, w') \<Rightarrow> Some (r, b @ drop n buf, w'))"

text \<open>A read into an array of \<open>n\<close> zeros, which is used only when the read succeeds.\<close>

definition with_array :: "nat \<Rightarrow> (bytes \<times> 'w, 'a) phy \<Rightarrow> ('w, 'a \<times> bytes) phy" where
  "with_array n m w = (case m (replicate n 0, w) of None \<Rightarrow> None
     | Some (r, buf, w') \<Rightarrow> Some (case r of Inl e \<Rightarrow> Inl e | Inr x \<Rightarrow> Inr (x, buf), w'))"

section \<open>Lemmas\<close>

named_theorems run_simps "running the effects on a state"
named_theorems wp "what an effect guarantees, as an equation for each combinator"
named_theorems total_intros "effects that always return"

lemma run_effect [run_simps]:
  "ret x s = Some (Inr x, s)" "fail e s = Some (Inl e, s)" "modify f s = Some (Inr (), f s)"
  "of_result r s = Some (r, s)" "panic s = None" "of_run (Some y) s = Some (Inr y, s)" "of_run None s = None" "when_do b m s = (if b then m s else Some (Inr (), s))"
  by (simp_all add: ret_def fail_def modify_def of_result_def panic_def when_do_def of_run_def)

lemma run_bnd:
  "m s = Some (Inr x, s') \<Longrightarrow> bnd m f s = f x s'"
  "m s = Some (Inl e, s') \<Longrightarrow> bnd m f s = Some (Inl e, s')"
  "m s = None \<Longrightarrow> bnd m f s = None"
  "m s = Some (Inr x, s') \<Longrightarrow> thn m k s = k s'"
  "m s = Some (Inl e, s') \<Longrightarrow> thn m k s = Some (Inl e, s')"
  "m s = None \<Longrightarrow> thn m k s = None"
  by (simp_all add: bnd_def thn_def)

lemma steps_simps [run_simps]: "steps [] = ret ()" "steps (m # ms) = thn m (steps ms)"
  by (simp_all add: steps_def)

text \<open>The outcome of an effect, if it returns.\<close>

definition post :: "('s, 'a) phy \<Rightarrow> 's \<Rightarrow> (radio_error + 'a \<Rightarrow> 's \<Rightarrow> bool) \<Rightarrow> bool" where
  "post m s Q \<longleftrightarrow> (\<forall>r s'. m s = Some (r, s') \<longrightarrow> Q r s')"

text \<open>What holds of a state and of the value when there is one.\<close>

definition okay :: "('a \<Rightarrow> 's \<Rightarrow> bool) \<Rightarrow> ('s \<Rightarrow> bool) \<Rightarrow> radio_error + 'a \<Rightarrow> 's \<Rightarrow> bool" where
  "okay P E r s = (case r of Inl _ \<Rightarrow> E s | Inr x \<Rightarrow> P x s)"

lemma post_effect [wp]:
  "post (ret x) s Q = Q (Inr x) s"
  "post (fail e) s Q = Q (Inl e) s"
  "post (modify f) s Q' = Q' (Inr ()) (f s)"
  "post (of_result r) s Q = Q r s"
  "post panic s Q"
  "post (of_run z) s P = (case z of None \<Rightarrow> True | Some y \<Rightarrow> P (Inr y) s)"
  by (auto simp: post_def ret_def fail_def modify_def of_result_def panic_def of_run_def split: option.splits)

lemma post_bnd [wp]:
  "post (bnd m f) s Q = post m s (\<lambda>r s'. case r of Inl e \<Rightarrow> Q (Inl e) s' | Inr x \<Rightarrow> post (f x) s' Q)"
  unfolding post_def bnd_def by (fastforce split: option.splits sum.splits prod.splits)

lemma post_thn [wp]:
  "post (thn m k) s Q = post m s (\<lambda>r s'. case r of Inl e \<Rightarrow> Q (Inl e) s' | Inr x \<Rightarrow> post k s' Q)"
  by (simp add: thn_def post_bnd)

lemma post_when_do [wp]: "post (when_do b m) s Q = (if b then post m s Q else Q (Inr ()) s)"
  by (simp add: when_do_def post_effect)

lemma post_attempt [wp]: "post (attempt m) s Q = post m s (\<lambda>r s'. Q (Inr r) s')"
  by (auto simp: post_def attempt_def split: option.splits)

lemma post_on_snd [wp]: "post (on_snd m) t Q = post m (snd t) (\<lambda>r s'. Q r (fst t, s'))"
  by (cases t) (auto simp: post_def on_snd_def split: option.splits)

lemma post_peek [wp]: "post (peek f) s Q = post (f s) s Q"
  by (simp add: post_def peek_def)

lemma post_with_local [wp]: "post (with_local b m) s Q = post m (b, s) (\<lambda>r (_, s'). Q r s')"
  by (auto simp: post_def with_local_def split: option.splits)

lemma post_with_array [wp]:
  "post (with_array n m) w Q = post m (replicate n 0, w) (\<lambda>r (buf, w').
     Q (case r of Inl e \<Rightarrow> Inl e | Inr x \<Rightarrow> Inr (x, buf)) w')"
  by (auto simp: post_def with_array_def split: option.splits)

lemma post_on_prefix [wp]:
  "post (on_prefix n m) (buf, w) Q =
     (n \<le> length buf \<longrightarrow> post m (take n buf, w) (\<lambda>r (b, w'). Q r (b @ drop n buf, w')))"
  by (auto simp: post_def on_prefix_def split: option.splits)

lemma post_mono: "post m s Q \<Longrightarrow> (\<And>r s'. Q r s' \<Longrightarrow> R r s') \<Longrightarrow> post m s R"
  by (auto simp: post_def)

lemma post_conj: "post m s Q \<Longrightarrow> post m s R \<Longrightarrow> post m s (\<lambda>r s'. Q r s' \<and> R r s')"
  by (simp add: post_def)

lemma post_true: "post m s (\<lambda>r s'. True)"
  by (simp add: post_def)

lemma postD: "post m s Q \<Longrightarrow> m s = Some (r, s') \<Longrightarrow> Q r s'"
  by (simp add: post_def)

text \<open>An effect that neither panics nor waits forever.\<close>

definition total :: "('s, 'a) phy \<Rightarrow> bool" where
  "total m \<longleftrightarrow> (\<forall>s. m s \<noteq> None)"

lemma totalD: "total m \<Longrightarrow> \<exists>r s'. m s = Some (r, s')"
  by (auto simp: total_def)

lemma total_effect [total_intros]: "total (ret x)" "total (fail e)" "total (modify f)" "total (of_result r)"
  by (simp_all add: total_def run_effect)

lemma total_bnd [total_intros]: "total m \<Longrightarrow> (\<And>x. total (f x)) \<Longrightarrow> total (bnd m f)"
  by (fastforce simp: total_def bnd_def split: option.splits sum.splits)

lemma total_thn [total_intros]: "total m \<Longrightarrow> total k \<Longrightarrow> total (thn m k)"
  by (simp add: thn_def total_bnd)

lemma total_steps [total_intros]: "(\<And>m. m \<in> set ms \<Longrightarrow> total m) \<Longrightarrow> total (steps ms)"
  by (induction ms) (auto simp: steps_simps intro: total_effect total_thn)

lemma total_more [total_intros]:
  "(b \<Longrightarrow> total m) \<Longrightarrow> total (when_do b m)"
  "total m \<Longrightarrow> total (attempt m)"
  "total m \<Longrightarrow> total (on_snd m)"
  "total m' \<Longrightarrow> total (with_array n m')"
  "total m'' \<Longrightarrow> total (with_local b m'')"
  unfolding total_def when_do_def attempt_def on_snd_def with_array_def with_local_def
  by (auto simp: run_effect split: option.splits prod.splits if_splits)

lemma total_peek [total_intros]: "(\<And>s. total (f s)) \<Longrightarrow> total (peek f)"
  by (simp add: total_def peek_def)

lemma total_if [total_intros]: "(b \<Longrightarrow> total m) \<Longrightarrow> (\<not> b \<Longrightarrow> total k) \<Longrightarrow> total (if b then m else k)"
  by simp

text \<open>Hardware whose calls all return.\<close>

definition hw_total :: "'w hw \<Rightarrow> bool" where
  "hw_total H \<longleftrightarrow> (\<forall>b w. hw_write H b w \<noteq> None) \<and> (\<forall>ops w. hw_transaction H ops w \<noteq> None) \<and>
     total (iv_reset H) \<and> total (iv_wait_on_busy H) \<and> total (iv_await_irq H) \<and> total (iv_rf_switch_rx H) \<and>
     total (iv_rf_switch_tx H) \<and> total (iv_disable_rf_switch H)"

lemma hw_totalD [total_intros]:
  assumes "hw_total H"
  shows "total (iv_reset H)" "total (iv_wait_on_busy H)" "total (iv_await_irq H)" "total (iv_rf_switch_rx H)"
    "total (iv_rf_switch_tx H)" "total (iv_disable_rf_switch H)"
  using assms by (simp_all add: hw_total_def)

lemma total_intf [total_intros]:
  assumes "hw_total H"
  shows "total (intf_write H b z)" "total (intf_write_with_payload H b p z)" "total (intf_read H b)"
    "total (intf_read_with_status H b)"
proof -
  have 1: "\<exists>r w'. hw_write H b w = Some (r, w')" "\<exists>r bufs w'. hw_transaction H ops w = Some (r, bufs, w')" for b ops w
    using assms by (auto simp: hw_total_def)
  have w: "total (\<lambda>w. map_spi (hw_write H b w))" "total (\<lambda>w. do {
           (r, _, w') \<leftarrow> hw_transaction H [SpiWrite b, SpiWrite p] w; map_spi (Some (r, w'))})"
    "total (\<lambda>(buf, w). do {
           (r, bufs, w') \<leftarrow> hw_transaction H [SpiWrite b, SpiRead buf] w;
           Some (case r of Inl _ \<Rightarrow> Inl SPI | Inr _ \<Rightarrow> Inr (), hd bufs, w')})"
    "total (\<lambda>(buf, w). do {
           (r, bufs, w') \<leftarrow> hw_transaction H [SpiWrite b, SpiRead [0], SpiRead buf] w;
           Some (case r of Inl _ \<Rightarrow> Inl SPI | Inr _ \<Rightarrow> Inr (hd (hd bufs)), bufs ! 1, w')})"
    using 1 unfolding total_def map_spi_def by (fastforce simp: bind_eq_Some_conv)+
  show "total (intf_write H b z)" "total (intf_write_with_payload H b p z)" "total (intf_read H b)"
    "total (intf_read_with_status H b)"
    unfolding intf_write_def intf_write_with_payload_def intf_read_def intf_read_with_status_def
    by (intro total_intros w assms)+
qed

lemma unit_sum: "(x :: unit + unit) \<noteq> Inr () \<longleftrightarrow> x = Inl ()"
  by (cases x) simp_all

lemma u8_bit [simp]: "\<not> bit (w :: u8) (8 + n)"
  by (auto dest: bit_imp_le_length)

text \<open>A read keeps the length of the caller's buffer, whether it succeeds or not.\<close>

lemma intf_read_length:
  assumes "hw_ok H"
  shows "post (intf_read H b) (buf, w) (\<lambda>_ s. length (fst s) = length buf)"
    and "post (intf_read_with_status H b) (buf, w) (\<lambda>_ s. length (fst s) = length buf)"
proof -
  have 1: "length (hd bufs) = length buf" if "hw_transaction H [SpiWrite b, SpiRead buf] w = Some (r, bufs, w')" for bufs r w'
    using assms that by (fastforce simp: hw_ok_def)
  have 2: "length (bufs ! 1) = length buf"
    if "hw_transaction H [SpiWrite b, SpiRead [0], SpiRead buf] w = Some (r, bufs, w')" for bufs r w'
    using assms that by (fastforce simp: hw_ok_def)
  show "post (intf_read H b) (buf, w) (\<lambda>_ s. length (fst s) = length buf)"
    by (auto simp: intf_read_def post_def thn_def bnd_def on_snd_def bind_eq_Some_conv unit_sum dest: 1
        split: option.splits sum.splits prod.splits)
  show "post (intf_read_with_status H b) (buf, w) (\<lambda>_ s. length (fst s) = length buf)"
    by (auto simp: intf_read_with_status_def post_def thn_def bnd_def on_snd_def bind_eq_Some_conv ret_def unit_sum dest: 2
        split: option.splits sum.splits prod.splits)
qed

section \<open>Sync words\<close>

lemma be16_of_be16 [simp]: "be16 (of_be16 hi lo) = [hi, lo]"
  by (auto simp: be16_def of_be16_def bit_simps intro!: bit_word_eqI dest: bit_imp_le_length)

lemma of_be16_be16: "of_be16 (ucast (drop_bit 8 w)) (ucast w) = w"
  by (rule bit_word_eqI) (auto simp: of_be16_def bit_simps)

end
