(* ===== verification/Sx126xParams.thy ===== *)
theory Sx126xParams
  imports PhyBus
begin

text \<open>
  The constants of the SX126x driver (\<open>lora-phy/src/sx126x/{radio_kind_params,variant}.rs\<close>): op codes,
  registers, interrupt masks and the other enumerations with the numbers they stand for, the tables of the
  power amplifiers and the chip variants.
\<close>

section \<open>Enumerations\<close>

datatype packet_type = GFSK | PacketLoRa | PacketNone

fun packet_type_value :: "packet_type \<Rightarrow> u8" where
  "packet_type_value GFSK = 0x00"
| "packet_type_value PacketLoRa = 0x01"
| "packet_type_value PacketNone = 0x0F"

datatype sx126x_op = OpGetStatus | OpWriteRegister | OpReadRegister | OpWriteBuffer | OpReadBuffer
  | OpSetSleep | OpSetStandby | OpSetFS | OpSetTx | OpSetRx | OpSetRxDutyCycle | OpSetCAD
  | OpSetTxContinuousWave | OpSetTxContinuousPremable | OpSetPacketType | OpGetPacketType | OpSetRFFrequency
  | OpSetTxParams | OpSetPAConfig | OpSetCADParams | OpSetBufferBaseAddress | OpSetModulationParams
  | OpSetPacketParams | OpGetRxBufferStatus | OpGetPacketStatus | OpGetRSSIInst | OpGetStats | OpResetStats
  | OpCfgDIOIrq | OpGetIrqStatus | OpClrIrqStatus | OpCalibrate | OpCalibrateImage | OpSetRegulatorMode
  | OpGetDeviceErrors | OpClearDeviceErrors | OpSetTCXOMode | OpSetTxFallbackMode | OpSetDIO2AsRfSwitchCtrl
  | OpSetStopRxTimerOnPreamble | OpSetLoRaSymbTimeout

fun op_value :: "sx126x_op \<Rightarrow> u8" where
  "op_value OpGetStatus = 0xC0"
| "op_value OpWriteRegister = 0x0D"
| "op_value OpReadRegister = 0x1D"
| "op_value OpWriteBuffer = 0x0E"
| "op_value OpReadBuffer = 0x1E"
| "op_value OpSetSleep = 0x84"
| "op_value OpSetStandby = 0x80"
| "op_value OpSetFS = 0xC1"
| "op_value OpSetTx = 0x83"
| "op_value OpSetRx = 0x82"
| "op_value OpSetRxDutyCycle = 0x94"
| "op_value OpSetCAD = 0xC5"
| "op_value OpSetTxContinuousWave = 0xD1"
| "op_value OpSetTxContinuousPremable = 0xD2"
| "op_value OpSetPacketType = 0x8A"
| "op_value OpGetPacketType = 0x11"
| "op_value OpSetRFFrequency = 0x86"
| "op_value OpSetTxParams = 0x8E"
| "op_value OpSetPAConfig = 0x95"
| "op_value OpSetCADParams = 0x88"
| "op_value OpSetBufferBaseAddress = 0x8F"
| "op_value OpSetModulationParams = 0x8B"
| "op_value OpSetPacketParams = 0x8C"
| "op_value OpGetRxBufferStatus = 0x13"
| "op_value OpGetPacketStatus = 0x14"
| "op_value OpGetRSSIInst = 0x15"
| "op_value OpGetStats = 0x10"
| "op_value OpResetStats = 0x00"
| "op_value OpCfgDIOIrq = 0x08"
| "op_value OpGetIrqStatus = 0x12"
| "op_value OpClrIrqStatus = 0x02"
| "op_value OpCalibrate = 0x89"
| "op_value OpCalibrateImage = 0x98"
| "op_value OpSetRegulatorMode = 0x96"
| "op_value OpGetDeviceErrors = 0x17"
| "op_value OpClearDeviceErrors = 0x07"
| "op_value OpSetTCXOMode = 0x97"
| "op_value OpSetTxFallbackMode = 0x93"
| "op_value OpSetDIO2AsRfSwitchCtrl = 0x9d"
| "op_value OpSetStopRxTimerOnPreamble = 0x9F"
| "op_value OpSetLoRaSymbTimeout = 0xA0"

datatype sx126x_register = R6_PacketParams | R6_PayloadLength | R6_SynchTimeout | R6_Syncword
  | R6_LoRaSyncword | R6_GeneratedRandomNumber | R6_AnaLNA | R6_AnaMixer | R6_RxGain | R6_XTATrim | R6_OCP
  | R6_RetentionList | R6_IQPolarity | R6_TxModulation | R6_TxClampCfg | R6_RTCCtrl | R6_EvtClr

fun reg6_value :: "sx126x_register \<Rightarrow> u16" where
  "reg6_value R6_PacketParams = 0x0704"
| "reg6_value R6_PayloadLength = 0x0702"
| "reg6_value R6_SynchTimeout = 0x0706"
| "reg6_value R6_Syncword = 0x06C0"
| "reg6_value R6_LoRaSyncword = 0x0740"
| "reg6_value R6_GeneratedRandomNumber = 0x0819"
| "reg6_value R6_AnaLNA = 0x08E2"
| "reg6_value R6_AnaMixer = 0x08E5"
| "reg6_value R6_RxGain = 0x08AC"
| "reg6_value R6_XTATrim = 0x0911"
| "reg6_value R6_OCP = 0x08E7"
| "reg6_value R6_RetentionList = 0x029F"
| "reg6_value R6_IQPolarity = 0x0736"
| "reg6_value R6_TxModulation = 0x0889"
| "reg6_value R6_TxClampCfg = 0x08D8"
| "reg6_value R6_RTCCtrl = 0x0902"
| "reg6_value R6_EvtClr = 0x0944"

datatype sx126x_irq = Irq6_None | Irq6_TxDone | Irq6_RxDone | Irq6_PreambleDetected | Irq6_SyncwordValid
  | Irq6_HeaderValid | Irq6_HeaderError | Irq6_CRCError | Irq6_CADDone | Irq6_CADActivityDetected
  | Irq6_RxTxTimeout | Irq6_All

fun irq6_value :: "sx126x_irq \<Rightarrow> u16" where
  "irq6_value Irq6_None = 0x0000"
| "irq6_value Irq6_TxDone = 0x0001"
| "irq6_value Irq6_RxDone = 0x0002"
| "irq6_value Irq6_PreambleDetected = 0x0004"
| "irq6_value Irq6_SyncwordValid = 0x0008"
| "irq6_value Irq6_HeaderValid = 0x0010"
| "irq6_value Irq6_HeaderError = 0x0020"
| "irq6_value Irq6_CRCError = 0x0040"
| "irq6_value Irq6_CADDone = 0x0080"
| "irq6_value Irq6_CADActivityDetected = 0x0100"
| "irq6_value Irq6_RxTxTimeout = 0x0200"
| "irq6_value Irq6_All = 0xFFFF"

definition irq6_is_set :: "sx126x_irq \<Rightarrow> u16 \<Rightarrow> bool" where
  "irq6_is_set i flags \<longleftrightarrow> irq6_value i AND flags = irq6_value i"

definition addr1 :: "sx126x_register \<Rightarrow> u8" where
  "addr1 r = ucast (drop_bit 8 (reg6_value r AND 0xFF00))"

definition addr2 :: "sx126x_register \<Rightarrow> u8" where
  "addr2 r = ucast (reg6_value r AND 0x00FF)"

datatype op_status_error = OpTimeout | OpProcessingError | OpExecutionError

fun op_status_value :: "op_status_error \<Rightarrow> u8" where
  "op_status_value OpTimeout = push_bit 1 0x03"
| "op_status_value OpProcessingError = push_bit 1 0x04"
| "op_status_value OpExecutionError = push_bit 1 0x05"

definition is_op_error :: "u8 \<Rightarrow> bool" where
  "is_op_error status \<longleftrightarrow> (let error_flags = status AND 0x0e
     in op_status_value OpTimeout = error_flags \<or> op_status_value OpProcessingError = error_flags \<or>
        op_status_value OpExecutionError = error_flags)"

record sleep_params =
  sp_wakeup_rtc :: bool
  sp_reset :: bool
  sp_warm_start :: bool

definition sleep_params_value :: "sleep_params \<Rightarrow> u8" where
  "sleep_params_value p =
     push_bit 2 (of_bool (sp_warm_start p)) OR push_bit 1 (of_bool (sp_reset p)) OR of_bool (sp_wakeup_rtc p)"

datatype standby_mode = StandbyRC | StandbyXOSC

fun standby_mode_value :: "standby_mode \<Rightarrow> u8" where
  "standby_mode_value StandbyRC = 0x00"
| "standby_mode_value StandbyXOSC = 0x01"

datatype regulator_mode = UseLDO | UseDCDC

fun regulator_mode_value :: "regulator_mode \<Rightarrow> u8" where
  "regulator_mode_value UseLDO = 0x00"
| "regulator_mode_value UseDCDC = 0x01"

datatype tcxo_voltage = Ctrl1V6 | Ctrl1V7 | Ctrl1V8 | Ctrl2V2 | Ctrl2V4 | Ctrl2V7 | Ctrl3V0 | Ctrl3V3

fun tcxo_value :: "tcxo_voltage \<Rightarrow> u8" where
  "tcxo_value Ctrl1V6 = 0x00"
| "tcxo_value Ctrl1V7 = 0x01"
| "tcxo_value Ctrl1V8 = 0x02"
| "tcxo_value Ctrl2V2 = 0x03"
| "tcxo_value Ctrl2V4 = 0x04"
| "tcxo_value Ctrl2V7 = 0x05"
| "tcxo_value Ctrl3V0 = 0x06"
| "tcxo_value Ctrl3V3 = 0x07"

datatype sx126x_ramp = Ramp6_10Us | Ramp6_20Us | Ramp6_40Us | Ramp6_80Us | Ramp6_200Us | Ramp6_800Us
  | Ramp6_1700Us | Ramp6_3400Us

fun ramp6_value :: "sx126x_ramp \<Rightarrow> u8" where
  "ramp6_value Ramp6_10Us = 0x00"
| "ramp6_value Ramp6_20Us = 0x01"
| "ramp6_value Ramp6_40Us = 0x02"
| "ramp6_value Ramp6_80Us = 0x03"
| "ramp6_value Ramp6_200Us = 0x04"
| "ramp6_value Ramp6_800Us = 0x05"
| "ramp6_value Ramp6_1700Us = 0x06"
| "ramp6_value Ramp6_3400Us = 0x07"

fun sf6_value :: "spreading_factor \<Rightarrow> radio_error + u8" where
  "sf6_value SF_5 = Inr 0x05"
| "sf6_value SF_6 = Inr 0x06"
| "sf6_value SF_7 = Inr 0x07"
| "sf6_value SF_8 = Inr 0x08"
| "sf6_value SF_9 = Inr 0x09"
| "sf6_value SF_10 = Inr 0x0A"
| "sf6_value SF_11 = Inr 0x0B"
| "sf6_value SF_12 = Inr 0x0C"

fun bw6_value :: "bandwidth \<Rightarrow> radio_error + u8" where
  "bw6_value BW_7KHz = Inr 0x00"
| "bw6_value BW_10KHz = Inr 0x08"
| "bw6_value BW_15KHz = Inr 0x01"
| "bw6_value BW_20KHz = Inr 0x09"
| "bw6_value BW_31KHz = Inr 0x02"
| "bw6_value BW_41KHz = Inr 0x0a"
| "bw6_value BW_62KHz = Inr 0x03"
| "bw6_value BW_125KHz = Inr 0x04"
| "bw6_value BW_250KHz = Inr 0x05"
| "bw6_value BW_500KHz = Inr 0x06"

fun cr6_value :: "coding_rate \<Rightarrow> radio_error + u8" where
  "cr6_value CR_4_5 = Inr 0x01"
| "cr6_value CR_4_6 = Inr 0x02"
| "cr6_value CR_4_7 = Inr 0x03"
| "cr6_value CR_4_8 = Inr 0x04"

datatype cad_symbols = CadSymbols1 | CadSymbols2 | CadSymbols4 | CadSymbols8 | CadSymbols16

fun cad_symbols_value :: "cad_symbols \<Rightarrow> u8" where
  "cad_symbols_value CadSymbols1 = 0x00"
| "cad_symbols_value CadSymbols2 = 0x01"
| "cad_symbols_value CadSymbols4 = 0x02"
| "cad_symbols_value CadSymbols8 = 0x03"
| "cad_symbols_value CadSymbols16 = 0x04"

section \<open>Power amplifiers and variants\<close>

datatype device_sel = LowPowerPA | HighPowerPA

fun device_sel_value :: "device_sel \<Rightarrow> u8" where
  "device_sel_value LowPowerPA = 1"
| "device_sel_value HighPowerPA = 0"

record pa_table_entry =
  pe_max_dbm :: i8
  pe_pa_duty_cycle :: u8
  pe_hp_max :: u8
  pe_tx_params_at_max :: i8

record pa_table =
  pt_min_dbm :: i8
  pt_entries :: "pa_table_entry list"

definition i32_clamp :: "i32 \<Rightarrow> i32 \<Rightarrow> i32 \<Rightarrow> i32 run" where
  "i32_clamp lo hi x =
     (if sint hi < sint lo then None
      else Some (if sint x < sint lo then lo else if sint hi < sint x then hi else x))"

definition pa_lookup :: "pa_table \<Rightarrow> i32 \<Rightarrow> (pa_table_entry \<times> u8) run" where
  "pa_lookup t dbm =
     (if pt_entries t = [] then None
      else do {
        let row = last (pt_entries t);
        c \<leftarrow> i32_clamp (scast (pt_min_dbm t)) (scast (pe_max_dbm row)) dbm;
        let txp = (ucast c :: i8);
        let entry = (case find (\<lambda>e. sint txp \<le> sint (pe_max_dbm e)) (pt_entries t) of Some e \<Rightarrow> e | None \<Rightarrow> row);
        Some (entry, pe_tx_params_at_max entry - (pe_max_dbm entry - txp))})"

definition pa_entry :: "i8 \<Rightarrow> u8 \<Rightarrow> u8 \<Rightarrow> i8 \<Rightarrow> pa_table_entry" where
  "pa_entry dbm duty hp tx =
     \<lparr>pe_max_dbm = dbm, pe_pa_duty_cycle = duty, pe_hp_max = hp, pe_tx_params_at_max = tx\<rparr>"

definition SX1261_PA_TABLE :: pa_table where
  "SX1261_PA_TABLE = \<lparr>pt_min_dbm = -17, pt_entries =
     [pa_entry 10 0x01 0x00 13, pa_entry 14 0x04 0x00 14, pa_entry 15 0x06 0x00 14]\<rparr>"

definition SX1262_PA_TABLE :: pa_table where
  "SX1262_PA_TABLE = \<lparr>pt_min_dbm = -9, pt_entries =
     [pa_entry 14 0x02 0x02 22, pa_entry 17 0x02 0x03 22, pa_entry 20 0x03 0x05 22, pa_entry 22 0x04 0x07 22]\<rparr>"

definition STM32WL_HP_PA_TABLE :: pa_table where
  "STM32WL_HP_PA_TABLE = \<lparr>pt_min_dbm = -9, pt_entries =
     [pa_entry 14 0x02 0x02 14, pa_entry 17 0x02 0x03 22, pa_entry 20 0x03 0x05 22, pa_entry 22 0x04 0x07 22]\<rparr>"

text \<open>The trait \<open>Sx126xVariant\<close>, whose methods only read the variant; a board may bring its own.\<close>

record sx126x_variant =
  v6_device_sel :: device_sel
  v6_use_dio2_as_rfswitch :: bool
  v6_pa_table :: pa_table

definition default_pa_table :: "device_sel \<Rightarrow> pa_table" where
  "default_pa_table d = (case d of LowPowerPA \<Rightarrow> SX1261_PA_TABLE | HighPowerPA \<Rightarrow> SX1262_PA_TABLE)"

definition Sx1261 :: sx126x_variant where
  "Sx1261 = \<lparr>v6_device_sel = LowPowerPA, v6_use_dio2_as_rfswitch = True, v6_pa_table = default_pa_table LowPowerPA\<rparr>"

definition Sx1262 :: sx126x_variant where
  "Sx1262 = \<lparr>v6_device_sel = HighPowerPA, v6_use_dio2_as_rfswitch = True, v6_pa_table = default_pa_table HighPowerPA\<rparr>"

definition Stm32wl :: "bool \<Rightarrow> sx126x_variant" where
  "Stm32wl use_high_power_pa =
     \<lparr>v6_device_sel = (if use_high_power_pa then HighPowerPA else LowPowerPA), v6_use_dio2_as_rfswitch = False,
      v6_pa_table = (if use_high_power_pa then STM32WL_HP_PA_TABLE else SX1261_PA_TABLE)\<rparr>"

end
