(* ===== verification/Sx126x.thy ===== *)
theory Sx126x
  imports Sx126xParams
begin

text \<open>
  The SX126x driver (\<open>lora-phy/src/sx126x/mod.rs\<close>). Its state is the hardware behind \<open>SpiInterface\<close>; the
  configuration never changes and is an argument. A \<open>&mut\<close> argument of an operation (the receive buffer,
  the flag of a channel activity detection) is the first component of the operation's state.
\<close>

section \<open>Constants and configuration\<close>

definition MAX_NUMBER_REGS_IN_RETENTION :: u8 where "MAX_NUMBER_REGS_IN_RETENTION = 4"
definition SX126X_XTAL_FREQ :: u32 where "SX126X_XTAL_FREQ = 32000000"
definition SX126X_PLL_STEP_SHIFT_AMOUNT :: nat where "SX126X_PLL_STEP_SHIFT_AMOUNT = 14"
definition SX126X_PLL_STEP_SCALED :: u32 where
  "SX126X_PLL_STEP_SCALED = drop_bit (25 - SX126X_PLL_STEP_SHIFT_AMOUNT) SX126X_XTAL_FREQ"
definition SX126X_MAX_LORA_SYMB_NUM_TIMEOUT :: u8 where "SX126X_MAX_LORA_SYMB_NUM_TIMEOUT = 248"
definition BRD_TCXO_WAKEUP_TIME :: u32 where "BRD_TCXO_WAKEUP_TIME = 10"
definition RX_CONTINUOUS_TIMEOUT :: u32 where "RX_CONTINUOUS_TIMEOUT = 0xffffff"

record sx126x_config =
  c6_chip :: sx126x_variant
  c6_tcxo_ctrl :: "tcxo_voltage option"
  c6_use_dcdc :: bool
  c6_rx_boost :: bool

section \<open>Pure helpers\<close>

definition timeout_1 :: "u32 \<Rightarrow> u8" where
  "timeout_1 timeout = ucast (drop_bit 16 timeout AND 0xFF)"

definition timeout_2 :: "u32 \<Rightarrow> u8" where
  "timeout_2 timeout = ucast (drop_bit 8 timeout AND 0xFF)"

definition timeout_3 :: "u32 \<Rightarrow> u8" where
  "timeout_3 timeout = ucast (timeout AND 0xFF)"

definition convert_freq_in_hz_to_pll_step :: "u32 \<Rightarrow> u32" where
  "convert_freq_in_hz_to_pll_step freq_in_hz =
     (let steps_int = freq_in_hz div SX126X_PLL_STEP_SCALED;
          steps_frac = freq_in_hz - steps_int * SX126X_PLL_STEP_SCALED
      in push_bit SX126X_PLL_STEP_SHIFT_AMOUNT steps_int +
         (push_bit SX126X_PLL_STEP_SHIFT_AMOUNT steps_frac + drop_bit 1 SX126X_PLL_STEP_SCALED) div SX126X_PLL_STEP_SCALED)"

text \<open>The \<open>while\<close> loop of \<open>set_lora_symbol_num_timeout\<close>.\<close>

lemma symb_step_less: "(31 :: u8) < mant \<Longrightarrow> unat (drop_bit 2 (mant + 3)) < unat mant"
proof -
  assume a: "(31 :: u8) < mant"
  have "unat (drop_bit 2 (mant + 3)) = unat (mant + 3) div 4" by (simp add: drop_bit_eq_div unat_div_distrib)
  also have "\<dots> \<le> (unat mant + 3) div 4" by (rule div_le_mono) (simp add: unat_word_ariths)
  also have "\<dots> < unat mant" using a by (simp add: word_less_nat_alt)
  finally show ?thesis .
qed

function symb_timeout_loop :: "u8 \<Rightarrow> u8 \<Rightarrow> u8 \<times> u8" where
  "symb_timeout_loop mant ex =
     (if 31 < mant then symb_timeout_loop (drop_bit 2 (mant + 3)) (ex + 1) else (mant, ex))"
  by pat_completeness auto
termination by (relation "measure (unat \<circ> fst)") (use symb_step_less in simp_all)

declare symb_timeout_loop.simps [simp del]

definition symb_timeout :: "u16 \<Rightarrow> u8 \<times> u8" where
  "symb_timeout symbol_num =
     symb_timeout_loop (ucast (drop_bit 1 (min symbol_num (ucast SX126X_MAX_LORA_SYMB_NUM_TIMEOUT) + 1))) 0"

section \<open>Registers\<close>

definition reg_w_8 :: "'w hw \<Rightarrow> sx126x_register \<Rightarrow> u8 \<Rightarrow> ('w, unit) phy" where
  "reg_w_8 H reg value = intf_write H [op_value OpWriteRegister, addr1 reg, addr2 reg, value] False"

definition reg_r_8 :: "'w hw \<Rightarrow> sx126x_register \<Rightarrow> ('w, u8) phy" where
  "reg_r_8 H reg =
     bnd (with_array 1 (intf_read H [op_value OpReadRegister, addr1 reg, addr2 reg, 0]))
       (\<lambda>(_, buf). ret (hd buf))"

text \<open>The loop over the registers that the chip says are in the list; beyond the fourth the index is out of
  the buffer's bounds.\<close>

fun retention_scan :: "sx126x_register \<Rightarrow> bytes \<Rightarrow> nat list \<Rightarrow> bool run" where
  "retention_scan r buffer [] = Some False"
| "retention_scan r buffer (i # is) = do {
     a \<leftarrow> idx buffer (1 + 2 * i);
     found \<leftarrow> (if addr1 r = a then do { b \<leftarrow> idx buffer (2 + 2 * i); Some (addr2 r = b) } else Some False);
     if found then Some True else retention_scan r buffer is}"

definition retention_add :: "sx126x_register \<Rightarrow> bytes \<Rightarrow> bytes run" where
  "retention_add r buffer = do {
     let number_of_registers = unat (hd buffer);
     b1 \<leftarrow> set_idx buffer 0 (hd buffer + 1);
     b2 \<leftarrow> set_idx b1 (1 + 2 * number_of_registers) (addr1 r);
     set_idx b2 (2 + 2 * number_of_registers) (addr2 r)}"

definition add_register_to_retention_list :: "'w hw \<Rightarrow> sx126x_register \<Rightarrow> ('w, unit) phy" where
  "add_register_to_retention_list H r =
     bnd (with_array (unat (1 + 2 * MAX_NUMBER_REGS_IN_RETENTION))
           (intf_read H [op_value OpReadRegister, addr1 R6_RetentionList, addr2 R6_RetentionList, 0])) (\<lambda>(_, buffer).
     bnd (of_run (retention_scan r buffer [0..<unat (hd buffer)])) (\<lambda>found.
       if found then ret ()
       else if hd buffer < MAX_NUMBER_REGS_IN_RETENTION
       then bnd (of_run (retention_add r buffer)) (\<lambda>buffer'.
         intf_write_with_payload H
           [op_value OpWriteRegister, addr1 R6_RetentionList, addr2 R6_RetentionList] buffer' False)
       else fail InvalidConfiguration))"

definition update_retention_list :: "'w hw \<Rightarrow> ('w, unit) phy" where
  "update_retention_list H =
     thn (add_register_to_retention_list H R6_RxGain) (add_register_to_retention_list H R6_TxModulation)"

definition set_lora_symbol_num_timeout :: "'w hw \<Rightarrow> u16 \<Rightarrow> ('w, unit) phy" where
  "set_lora_symbol_num_timeout H symbol_num =
     (let (mant, ex) = symb_timeout symbol_num;
          val = push_bit (unat (2 * ex + 1)) mant
      in thn (intf_write H [op_value OpSetLoRaSymbTimeout, val] False)
           (when_do (0 < symbol_num) (reg_w_8 H R6_SynchTimeout (ex + push_bit 3 mant))))"

definition set_pa_config :: "'w hw \<Rightarrow> u8 \<Rightarrow> u8 \<Rightarrow> device_sel \<Rightarrow> ('w, unit) phy" where
  "set_pa_config H pa_duty_cycle hp_max device_sel =
     intf_write H [op_value OpSetPAConfig, pa_duty_cycle, hp_max, device_sel_value device_sel, 0x01] False"

definition handle_implicit_header_mode :: "'w hw \<Rightarrow> ('w, unit) phy" where
  "handle_implicit_header_mode H =
     thn (reg_w_8 H R6_RTCCtrl 0)
       (bnd (reg_r_8 H R6_EvtClr) (\<lambda>val. reg_w_8 H R6_EvtClr (val OR push_bit 1 1)))"

section \<open>Set-up\<close>

definition sx126x_set_tx_rx_buffer_base_address :: "'w hw \<Rightarrow> nat \<Rightarrow> nat \<Rightarrow> ('w, unit) phy" where
  "sx126x_set_tx_rx_buffer_base_address H tx_base_addr rx_base_addr =
     (if 255 < tx_base_addr \<or> 255 < rx_base_addr then fail (InvalidBaseAddress tx_base_addr rx_base_addr)
      else intf_write H [op_value OpSetBufferBaseAddress, of_nat tx_base_addr, of_nat rx_base_addr] False)"

definition sx126x_set_lora_sync_word :: "'w hw \<Rightarrow> u16 \<Rightarrow> ('w, unit) phy" where
  "sx126x_set_lora_sync_word H sync_word =
     intf_write_with_payload H
       [op_value OpWriteRegister, addr1 R6_LoRaSyncword, addr2 R6_LoRaSyncword] (be16 sync_word) False"

definition sx126x_init_tcxo :: "'w hw \<Rightarrow> tcxo_voltage \<Rightarrow> ('w, unit) phy" where
  "sx126x_init_tcxo H voltage =
     (let timeout = push_bit 6 BRD_TCXO_WAKEUP_TIME in
      thn (with_array 2 (intf_read_with_status H [op_value OpClearDeviceErrors]))
        (steps
          [intf_write H [op_value OpSetTCXOMode, tcxo_value voltage AND 0x07, timeout_1 timeout, timeout_2 timeout,
             timeout_3 timeout] False,
           intf_write H [op_value OpCalibrate, 0x7F] False,
           iv_wait_on_busy H]))"

definition sx126x_init_lora :: "'w hw \<Rightarrow> sx126x_config \<Rightarrow> u16 \<Rightarrow> ('w, unit) phy" where
  "sx126x_init_lora H cfg sync_word = steps
     [when_do (c6_use_dcdc cfg) (intf_write H [op_value OpSetRegulatorMode, regulator_mode_value UseDCDC] False),
      when_do (v6_use_dio2_as_rfswitch (c6_chip cfg))
        (intf_write H [op_value OpSetDIO2AsRfSwitchCtrl, of_bool (v6_use_dio2_as_rfswitch (c6_chip cfg))] False),
      (case c6_tcxo_ctrl cfg of Some voltage \<Rightarrow> sx126x_init_tcxo H voltage | None \<Rightarrow> ret ()),
      intf_write H [op_value OpSetPacketType, packet_type_value PacketLoRa] False,
      intf_write_with_payload H
        [op_value OpWriteRegister, addr1 R6_LoRaSyncword, addr2 R6_LoRaSyncword] (be16 sync_word) False,
      sx126x_set_tx_rx_buffer_base_address H 0 0,
      update_retention_list H]"

definition sx126x_create_modulation_params ::
  "spreading_factor \<Rightarrow> bandwidth \<Rightarrow> coding_rate \<Rightarrow> u32 \<Rightarrow> radio_error + modulation_params" where
  "sx126x_create_modulation_params sf bw cr frequency_in_hz =
     (case sf6_value sf of Inl e \<Rightarrow> Inl e | Inr _ \<Rightarrow>
      case bw6_value bw of Inl e \<Rightarrow> Inl e | Inr _ \<Rightarrow>
      case cr6_value cr of Inl e \<Rightarrow> Inl e | Inr _ \<Rightarrow>
        if (bw = BW_250KHz \<or> bw = BW_500KHz) \<and> frequency_in_hz < 400000000 then Inl InvalidBandwidthForFrequency
        else Inr \<lparr>mp_sf = sf, mp_bw = bw, mp_cr = cr,
          mp_ldro = (if (sf = SF_11 \<or> sf = SF_12) \<and> bw = BW_125KHz \<or> sf = SF_12 \<and> bw = BW_250KHz then 1 else 0),
          mp_frequency = frequency_in_hz\<rparr>)"

definition sx126x_create_packet_params ::
  "u16 \<Rightarrow> bool \<Rightarrow> u8 \<Rightarrow> bool \<Rightarrow> bool \<Rightarrow> modulation_params \<Rightarrow> radio_error + packet_params" where
  "sx126x_create_packet_params preamble_length implicit_header payload_length crc_on iq_inverted m =
     Inr \<lparr>pp_preamble_length =
            (if (mp_sf m = SF_5 \<or> mp_sf m = SF_6) \<and> preamble_length < 12 then 12 else preamble_length),
          pp_implicit_header = implicit_header, pp_payload_length = payload_length, pp_crc_on = crc_on,
          pp_iq_inverted = iq_inverted\<rparr>"

section \<open>Modes\<close>

definition sx126x_ensure_ready :: "'w hw \<Rightarrow> radio_mode \<Rightarrow> ('w, unit) phy" where
  "sx126x_ensure_ready H mode =
     (case mode of
        Sleep \<Rightarrow> intf_write H [op_value OpGetStatus, 0x00] False
      | Receive (RxDutyCycle _) \<Rightarrow> intf_write H [op_value OpGetStatus, 0x00] False
      | _ \<Rightarrow> iv_wait_on_busy H)"

definition sx126x_set_standby :: "'w hw \<Rightarrow> ('w, unit) phy" where
  "sx126x_set_standby H =
     thn (intf_write H [op_value OpSetStandby, standby_mode_value StandbyRC] False) (iv_disable_rf_switch H)"

definition sx126x_set_sleep :: "'w hw \<Rightarrow> bool \<Rightarrow> ('w, unit) phy" where
  "sx126x_set_sleep H warm_start_if_possible = steps
     [iv_disable_rf_switch H,
      intf_write H [op_value OpSetSleep, sleep_params_value
        \<lparr>sp_wakeup_rtc = False, sp_reset = False, sp_warm_start = warm_start_if_possible\<rparr>] True,
      modify (hw_delay_ms H 2)]"

section \<open>Radio parameters\<close>

definition sx126x_pa_preconditions :: "'w hw \<Rightarrow> sx126x_config \<Rightarrow> i32 \<Rightarrow> modulation_params option \<Rightarrow> ('w, unit) phy" where
  "sx126x_pa_preconditions H cfg output_power mdltn_params =
     (case v6_device_sel (c6_chip cfg) of
        LowPowerPA \<Rightarrow>
          (case mdltn_params of
             Some m_p \<Rightarrow>
               if 15 \<le> sint output_power \<and> mp_frequency m_p < 400000000 then fail InvalidOutputPowerForFrequency
               else ret ()
           | None \<Rightarrow> ret ())
      | HighPowerPA \<Rightarrow>
          bnd (reg_r_8 H R6_TxClampCfg) (\<lambda>tx_clamp_val. reg_w_8 H R6_TxClampCfg (tx_clamp_val OR 0x1E)))"

definition sx126x_set_tx_power_and_ramp_time ::
  "'w hw \<Rightarrow> sx126x_config \<Rightarrow> i32 \<Rightarrow> modulation_params option \<Rightarrow> bool \<Rightarrow> ('w, unit) phy" where
  "sx126x_set_tx_power_and_ramp_time H cfg output_power mdltn_params is_tx_prep =
     thn (sx126x_pa_preconditions H cfg output_power mdltn_params)
       (bnd (of_run (pa_lookup (v6_pa_table (c6_chip cfg)) output_power)) (\<lambda>(entry, tx_params_power).
         thn (set_pa_config H (pe_pa_duty_cycle entry) (pe_hp_max entry) (v6_device_sel (c6_chip cfg)))
           (intf_write H [op_value OpSetTxParams, tx_params_power,
              ramp6_value (if is_tx_prep then Ramp6_40Us else Ramp6_200Us)] False)))"

definition sx126x_set_modulation_params :: "'w hw \<Rightarrow> modulation_params \<Rightarrow> ('w, unit) phy" where
  "sx126x_set_modulation_params H m =
     bnd (of_result (sf6_value (mp_sf m))) (\<lambda>spreading_factor_val.
     bnd (of_result (bw6_value (mp_bw m))) (\<lambda>bandwidth_val.
     bnd (of_result (cr6_value (mp_cr m))) (\<lambda>coding_rate_val.
     thn (intf_write H [op_value OpSetModulationParams, spreading_factor_val, bandwidth_val, coding_rate_val,
            mp_ldro m] False)
       (bnd (reg_r_8 H R6_TxModulation) (\<lambda>mod_val.
         reg_w_8 H R6_TxModulation (if mp_bw m = BW_500KHz then mod_val AND 0xfb else mod_val OR 0x04))))))"

definition sx126x_set_packet_params :: "'w hw \<Rightarrow> packet_params \<Rightarrow> ('w, unit) phy" where
  "sx126x_set_packet_params H p =
     thn (intf_write H [op_value OpSetPacketParams, ucast (drop_bit 8 (pp_preamble_length p) AND 0xFF),
            ucast (pp_preamble_length p AND 0xFF), of_bool (pp_implicit_header p), pp_payload_length p,
            of_bool (pp_crc_on p), of_bool (pp_iq_inverted p)] False)
       (bnd (reg_r_8 H R6_IQPolarity) (\<lambda>val.
         reg_w_8 H R6_IQPolarity (if pp_iq_inverted p then val AND 0xfb else val OR 0x04)))"

definition cal_freq :: "u32 \<Rightarrow> u8 \<times> u8" where
  "cal_freq frequency_in_hz =
     (if 900000000 < frequency_in_hz then (0xE1, 0xE9)
      else if 850000000 < frequency_in_hz then (0xD7, 0xDB)
      else if 770000000 < frequency_in_hz then (0xC1, 0xC5)
      else if 460000000 < frequency_in_hz then (0x75, 0x81)
      else if 425000000 < frequency_in_hz then (0x6B, 0x6F)
      else (0x00, 0x00))"

definition sx126x_calibrate_image :: "'w hw \<Rightarrow> u32 \<Rightarrow> ('w, unit) phy" where
  "sx126x_calibrate_image H frequency_in_hz =
     intf_write H [op_value OpCalibrateImage, fst (cal_freq frequency_in_hz), snd (cal_freq frequency_in_hz)] False"

definition sx126x_set_channel :: "'w hw \<Rightarrow> u32 \<Rightarrow> ('w, unit) phy" where
  "sx126x_set_channel H frequency_in_hz =
     (let s = convert_freq_in_hz_to_pll_step frequency_in_hz
      in intf_write H [op_value OpSetRFFrequency, ucast (drop_bit 24 s AND 0xFF), ucast (drop_bit 16 s AND 0xFF),
           ucast (drop_bit 8 s AND 0xFF), ucast (s AND 0xFF)] False)"

section \<open>Sending and receiving\<close>

definition sx126x_set_payload :: "'w hw \<Rightarrow> bytes \<Rightarrow> ('w, unit) phy" where
  "sx126x_set_payload H payload = intf_write_with_payload H [op_value OpWriteBuffer, 0x00] payload False"

definition sx126x_do_tx :: "'w hw \<Rightarrow> ('w, unit) phy" where
  "sx126x_do_tx H =
     thn (iv_rf_switch_tx H) (intf_write H [op_value OpSetTx, timeout_1 0, timeout_2 0, timeout_3 0] False)"

definition sx126x_do_rx :: "'w hw \<Rightarrow> sx126x_config \<Rightarrow> phy_rx_mode \<Rightarrow> ('w, unit) phy" where
  "sx126x_do_rx H cfg rx_mode = steps
     [iv_rf_switch_rx H,
      intf_write H [op_value OpSetStopRxTimerOnPreamble, 0x01] False,
      set_lora_symbol_num_timeout H (case rx_mode of RxSingle n \<Rightarrow> n | _ \<Rightarrow> 0),
      reg_w_8 H R6_RxGain (if c6_rx_boost cfg then 0x96 else 0x94),
      (case rx_mode of
         RxDutyCycle args \<Rightarrow>
           intf_write H [op_value OpSetRxDutyCycle, timeout_1 (dc_rx_time args), timeout_2 (dc_rx_time args),
             timeout_3 (dc_rx_time args), timeout_1 (dc_sleep_time args), timeout_2 (dc_sleep_time args),
             timeout_3 (dc_sleep_time args)] False
       | RxSingle _ \<Rightarrow> intf_write H [op_value OpSetRx, timeout_1 0, timeout_2 0, timeout_3 0] False
       | RxContinuous \<Rightarrow>
           intf_write H [op_value OpSetRx, timeout_1 RX_CONTINUOUS_TIMEOUT, timeout_2 RX_CONTINUOUS_TIMEOUT,
             timeout_3 RX_CONTINUOUS_TIMEOUT] False)]"

text \<open>The receive buffer is the first component of the state.\<close>

definition sx126x_get_rx_payload :: "'w hw \<Rightarrow> packet_params \<Rightarrow> (bytes \<times> 'w, u8) phy" where
  "sx126x_get_rx_payload H p =
     bnd (on_snd (with_array 2 (intf_read_with_status H [op_value OpGetRxBufferStatus]))) (\<lambda>(status, st).
     if is_op_error status then fail (OpError status)
     else bnd (if pp_implicit_header p then on_snd (reg_r_8 H R6_PayloadLength) else ret (hd st)) (\<lambda>payload_length.
       peek (\<lambda>(receiving_buffer, _).
         if length receiving_buffer < unat payload_length
         then fail (PayloadSizeMismatch (unat payload_length) (length receiving_buffer))
         else thn (on_prefix (unat payload_length) (intf_read H [op_value OpReadBuffer, st ! 1, 0x00]))
                (ret payload_length))))"

text \<open>\<open>(-(b as i32)) >> 1\<close> and \<open>((b as i8) + 2) >> 2\<close>.\<close>

definition sx126x_rssi :: "u8 \<Rightarrow> i16" where
  "sx126x_rssi b = ucast (signed_drop_bit 1 (- (ucast b :: i32)))"

definition sx126x_snr :: "u8 \<Rightarrow> i16" where
  "sx126x_snr b = scast (signed_drop_bit 2 (b + 2 :: i8))"

definition sx126x_get_rx_packet_status :: "'w hw \<Rightarrow> ('w, packet_status) phy" where
  "sx126x_get_rx_packet_status H =
     bnd (with_array 3 (intf_read_with_status H [op_value OpGetPacketStatus])) (\<lambda>(status, pkt_status).
       if is_op_error status then fail (OpError status)
       else ret \<lparr>ps_rssi = sx126x_rssi (hd pkt_status), ps_snr = sx126x_snr (pkt_status ! 1)\<rparr>)"

definition sx126x_get_rssi :: "'w hw \<Rightarrow> ('w, i16) phy" where
  "sx126x_get_rssi H =
     bnd (with_array 1 (intf_read_with_status H [op_value OpGetRSSIInst])) (\<lambda>(status, response).
       if is_op_error status then fail (OpError status) else ret (sx126x_rssi (hd response)))"

definition sx126x_do_cad :: "'w hw \<Rightarrow> sx126x_config \<Rightarrow> modulation_params \<Rightarrow> ('w, unit) phy" where
  "sx126x_do_cad H cfg m =
     thn (iv_rf_switch_rx H)
      (thn (reg_w_8 H R6_RxGain (if c6_rx_boost cfg then 0x96 else 0x94))
        (bnd (of_result (sf6_value (mp_sf m))) (\<lambda>spreading_factor_val.
          thn (intf_write H [op_value OpSetCADParams, cad_symbols_value CadSymbols8, spreading_factor_val + 13, 10,
                 0x00, 0x00, 0x00, 0x00] False)
            (intf_write H [op_value OpSetCAD] False))))"

definition sx126x_set_tx_continuous_wave_mode :: "'w hw \<Rightarrow> ('w, unit) phy" where
  "sx126x_set_tx_continuous_wave_mode H =
     thn (iv_rf_switch_tx H) (intf_write H [op_value OpSetTxContinuousWave] False)"

section \<open>Interrupts\<close>

text \<open>The masks of the chip and of DIO1; those of DIO2 and DIO3 stay empty.\<close>

definition sx126x_irq_masks :: "radio_mode option \<Rightarrow> u16 \<times> u16" where
  "sx126x_irq_masks radio_mode =
     (case radio_mode of
        Some Standby \<Rightarrow> (irq6_value Irq6_All, irq6_value Irq6_All)
      | Some Transmit \<Rightarrow> (irq6_value Irq6_TxDone OR irq6_value Irq6_RxTxTimeout,
                          irq6_value Irq6_TxDone OR irq6_value Irq6_RxTxTimeout)
      | Some (Receive _) \<Rightarrow> (irq6_value Irq6_All, irq6_value Irq6_All)
      | Some ChannelActivityDetection \<Rightarrow> (irq6_value Irq6_CADDone OR irq6_value Irq6_CADActivityDetected,
                                          irq6_value Irq6_CADDone OR irq6_value Irq6_CADActivityDetected)
      | _ \<Rightarrow> (irq6_value Irq6_None, irq6_value Irq6_None))"

definition sx126x_set_irq_params :: "'w hw \<Rightarrow> radio_mode option \<Rightarrow> ('w, unit) phy" where
  "sx126x_set_irq_params H radio_mode =
     (let (irq_mask, dio1_mask) = sx126x_irq_masks radio_mode;
          hi = (\<lambda>m. ucast (drop_bit 8 m AND 0x00FF)); lo = (\<lambda>m :: u16. ucast (m AND 0x00FF))
      in intf_write H [op_value OpCfgDIOIrq, hi irq_mask, lo irq_mask, hi dio1_mask, lo dio1_mask,
           hi (irq6_value Irq6_None), lo (irq6_value Irq6_None), hi (irq6_value Irq6_None), lo (irq6_value Irq6_None)]
         False)"

text \<open>What the flags mean in a mode, with the new value of the caller's flag; \<open>None\<close> is the \<open>todo!()\<close>.\<close>

definition sx126x_decode_irq ::
  "radio_mode \<Rightarrow> u16 \<Rightarrow> bool option \<Rightarrow> ((radio_error + irq_state option) \<times> bool option) run" where
  "sx126x_decode_irq radio_mode irq_flags cad =
     (case radio_mode of
        Transmit \<Rightarrow>
          Some (if irq6_is_set Irq6_TxDone irq_flags then Inr (Some IrqDone)
                else if irq6_is_set Irq6_RxTxTimeout irq_flags then Inl TransmitTimeout else Inr None, cad)
      | Receive _ \<Rightarrow>
          Some (if irq6_is_set Irq6_RxDone irq_flags then Inr (Some IrqDone)
                else if irq6_is_set Irq6_RxTxTimeout irq_flags then Inl ReceiveTimeout
                else if irq6_is_set Irq6_PreambleDetected irq_flags \<or> irq6_is_set Irq6_HeaderValid irq_flags
                then Inr (Some PreambleReceived) else Inr None, cad)
      | ChannelActivityDetection \<Rightarrow>
          Some (if irq6_is_set Irq6_CADDone irq_flags
                then (Inr (Some IrqDone), map_option (\<lambda>_. irq6_is_set Irq6_CADActivityDetected irq_flags) cad)
                else (Inr None, cad))
      | FrequencySynthesis \<Rightarrow> None
      | _ \<Rightarrow> Some (Inr None, cad))"

definition sx126x_get_irq_state :: "'w hw \<Rightarrow> radio_mode \<Rightarrow> (bool option \<times> 'w, irq_state option) phy" where
  "sx126x_get_irq_state H radio_mode =
     bnd (on_snd (with_array 2 (intf_read_with_status H [op_value OpGetIrqStatus]))) (\<lambda>(read_status, irq_status).
       \<lambda>(cad, w). do {
         (r, cad') \<leftarrow> sx126x_decode_irq radio_mode (push_bit 8 (ucast (hd irq_status)) OR ucast (irq_status ! 1)) cad;
         Some (r, cad', w)})"

definition sx126x_clear_irq_status :: "'w hw \<Rightarrow> ('w, unit) phy" where
  "sx126x_clear_irq_status H = intf_write H [op_value OpClrIrqStatus, 0xff, 0xff] False"

definition sx126x_process_irq_event ::
  "'w hw \<Rightarrow> radio_mode \<Rightarrow> bool \<Rightarrow> (bool option \<times> 'w, irq_state option) phy" where
  "sx126x_process_irq_event H radio_mode clear_interrupts =
     bnd (attempt (sx126x_get_irq_state H radio_mode)) (\<lambda>irq_state.
       thn (on_snd (when_do clear_interrupts (sx126x_clear_irq_status H)))
        (thn (on_snd (when_do (case radio_mode of Receive (RxSingle _) \<Rightarrow> irq_state = Inr (Some IrqDone) | _ \<Rightarrow> False)
               (handle_implicit_header_mode H)))
          (of_result irq_state)))"

end
