(* ===== verification/LoRaDriver.thy ===== *)
theory LoRaDriver
  imports PhyBus
begin

text \<open>
  The physical layer API (\<open>struct LoRa\<close> of \<open>lora-phy/src/lib.rs\<close>) over any implementation of the trait
  \<open>RadioKind\<close> of \<open>mod_traits.rs\<close>: a record of the trait's methods over a state of the driver, with the delay
  provider inside it. The loops that wait for interrupts are partial: \<open>None\<close> is waiting forever, or a panic.
\<close>

section \<open>The trait\<close>

text \<open>An operation with a \<open>&mut\<close> argument (receive buffer, flag) has it in the state; \<open>&self\<close> operations do not
  change the state.\<close>

record 's radio_kind =
  rk_init_lora :: "u16 \<Rightarrow> ('s, unit) phy"
  rk_set_lora_sync_word :: "u16 \<Rightarrow> ('s, unit) phy"
  rk_create_modulation_params ::
    "spreading_factor \<Rightarrow> bandwidth \<Rightarrow> coding_rate \<Rightarrow> u32 \<Rightarrow> (radio_error + modulation_params) run"
  rk_create_packet_params ::
    "u16 \<Rightarrow> bool \<Rightarrow> u8 \<Rightarrow> bool \<Rightarrow> bool \<Rightarrow> modulation_params \<Rightarrow> radio_error + packet_params"
  rk_reset :: "('s, unit) phy"
  rk_ensure_ready :: "radio_mode \<Rightarrow> ('s, unit) phy"
  rk_set_standby :: "('s, unit) phy"
  rk_set_sleep :: "bool \<Rightarrow> ('s, unit) phy"
  rk_set_tx_power_and_ramp_time :: "i32 \<Rightarrow> modulation_params option \<Rightarrow> bool \<Rightarrow> ('s, unit) phy"
  rk_set_modulation_params :: "modulation_params \<Rightarrow> ('s, unit) phy"
  rk_set_packet_params :: "packet_params \<Rightarrow> ('s, unit) phy"
  rk_calibrate_image :: "u32 \<Rightarrow> ('s, unit) phy"
  rk_set_channel :: "u32 \<Rightarrow> ('s, unit) phy"
  rk_set_payload :: "bytes \<Rightarrow> ('s, unit) phy"
  rk_do_tx :: "('s, unit) phy"
  rk_do_rx :: "phy_rx_mode \<Rightarrow> ('s, unit) phy"
  rk_get_rx_payload :: "packet_params \<Rightarrow> (bytes \<times> 's, u8) phy"
  rk_get_rx_packet_status :: "('s, packet_status) phy"
  rk_get_rssi :: "('s, i16) phy"
  rk_do_cad :: "modulation_params \<Rightarrow> ('s, unit) phy"
  rk_set_irq_params :: "radio_mode option \<Rightarrow> ('s, unit) phy"
  rk_set_tx_continuous_wave_mode :: "('s, unit) phy"
  rk_await_irq :: "('s, unit) phy"
  rk_process_irq_event :: "radio_mode \<Rightarrow> bool \<Rightarrow> (bool option \<times> 's, irq_state option) phy"
  rk_get_irq_state :: "radio_mode \<Rightarrow> (bool option \<times> 's, irq_state option) phy"
  rk_clear_irq_status :: "('s, unit) phy"

record 's lora =
  lora_kind :: 's
  lora_mode :: radio_mode
  lora_sync_word :: u16
  lora_cold_start :: bool
  lora_calibrate_image :: bool

section \<open>Effects on the driver\<close>

definition on_kind :: "('s, 'a) phy \<Rightarrow> ('s lora, 'a) phy" where
  "on_kind m l = (case m (lora_kind l) of None \<Rightarrow> None | Some (r, s) \<Rightarrow> Some (r, l\<lparr>lora_kind := s\<rparr>))"

definition on_kind_with :: "('b \<times> 's, 'a) phy \<Rightarrow> ('b \<times> 's lora, 'a) phy" where
  "on_kind_with m = (\<lambda>(b, l). case m (b, lora_kind l) of None \<Rightarrow> None
     | Some (r, b', s) \<Rightarrow> Some (r, b', l\<lparr>lora_kind := s\<rparr>))"

text \<open>A call that passes \<open>None\<close> for the flag.\<close>

definition no_flag :: "(bool option \<times> 's, 'a) phy \<Rightarrow> ('s, 'a) phy" where
  "no_flag = with_local None"

definition in_mode :: "(radio_mode \<Rightarrow> ('s lora, 'a) phy) \<Rightarrow> ('s lora, 'a) phy" where
  "in_mode f = peek (\<lambda>l. f (lora_mode l))"

definition set_mode :: "radio_mode \<Rightarrow> ('s lora, unit) phy" where
  "set_mode mode = modify (\<lambda>l. l\<lparr>lora_mode := mode\<rparr>)"

definition set_irq_for_mode :: "'s radio_kind \<Rightarrow> ('s lora, unit) phy" where
  "set_irq_for_mode K = in_mode (\<lambda>mode. on_kind (rk_set_irq_params K (Some mode)))"

definition kind_ensure_ready :: "'s radio_kind \<Rightarrow> ('s lora, unit) phy" where
  "kind_ensure_ready K = in_mode (\<lambda>mode. on_kind (rk_ensure_ready K mode))"

text \<open>\<open>if self.radio_mode != Standby { set_standby()?; self.radio_mode = Standby }\<close>\<close>

definition standby_unless_set :: "'s radio_kind \<Rightarrow> ('s lora, unit) phy" where
  "standby_unless_set K = in_mode (\<lambda>mode.
     when_do (mode \<noteq> Standby) (thn (on_kind (rk_set_standby K)) (set_mode Standby)))"

text \<open>The end of an operation whose interrupt was an error.\<close>

definition standby_after_error :: "'s radio_kind \<Rightarrow> radio_error \<Rightarrow> ('s lora, 'a) phy" where
  "standby_after_error K err =
     thn (steps [kind_ensure_ready K, on_kind (rk_set_standby K), set_mode Standby]) (fail err)"

section \<open>Initialisation\<close>

definition do_cold_start :: "'s radio_kind \<Rightarrow> ('s lora, unit) phy" where
  "do_cold_start K = steps
     [peek (\<lambda>l. on_kind (rk_init_lora K (lora_sync_word l))),
      on_kind (rk_set_tx_power_and_ramp_time K 0 None False),
      set_irq_for_mode K,
      modify (\<lambda>l. l\<lparr>lora_cold_start := False, lora_calibrate_image := True\<rparr>)]"

definition lora_init :: "'s radio_kind \<Rightarrow> ('s lora, unit) phy" where
  "lora_init K = steps
     [modify (\<lambda>l. l\<lparr>lora_cold_start := True\<rparr>),
      on_kind (rk_reset K),
      kind_ensure_ready K,
      on_kind (rk_set_standby K),
      set_mode Standby,
      do_cold_start K]"

definition lora_fresh :: "'s \<Rightarrow> u16 \<Rightarrow> 's lora" where
  "lora_fresh kind sync_word =
     \<lparr>lora_kind = kind, lora_mode = Sleep, lora_sync_word = sync_word, lora_cold_start = True,
      lora_calibrate_image = True\<rparr>"

text \<open>A failing constructor drops the half-initialised driver; the state is kept here to say what became of it.\<close>

definition with_syncword_raw :: "'s radio_kind \<Rightarrow> 's \<Rightarrow> u16 \<Rightarrow> ((radio_error + unit) \<times> 's lora) run" where
  "with_syncword_raw K kind sync_word = lora_init K (lora_fresh kind sync_word)"

definition with_syncword :: "'s radio_kind \<Rightarrow> 's \<Rightarrow> u8 \<Rightarrow> ((radio_error + unit) \<times> 's lora) run" where
  "with_syncword K kind sync_word = with_syncword_raw K kind (sync_word_from_legacy sync_word)"

definition lora_new :: "'s radio_kind \<Rightarrow> 's \<Rightarrow> bool \<Rightarrow> ((radio_error + unit) \<times> 's lora) run" where
  "lora_new K kind enable_public_network =
     with_syncword_raw K kind (if enable_public_network then LORAWAN_PUBLIC_SYNCWORD else LORAWAN_PRIVATE_SYNCWORD)"

section \<open>Modes\<close>

definition enter_standby :: "'s radio_kind \<Rightarrow> ('s lora, unit) phy" where
  "enter_standby K = on_kind (rk_set_standby K)"

definition lora_set_sync_word :: "'s radio_kind \<Rightarrow> u16 \<Rightarrow> ('s lora, unit) phy" where
  "lora_set_sync_word K sync_word = steps
     [kind_ensure_ready K,
      standby_unless_set K,
      on_kind (rk_set_lora_sync_word K sync_word),
      modify (\<lambda>l. l\<lparr>lora_sync_word := sync_word\<rparr>)]"

definition lora_sleep :: "'s radio_kind \<Rightarrow> bool \<Rightarrow> ('s lora, unit) phy" where
  "lora_sleep K warm_start_if_possible = in_mode (\<lambda>mode.
     when_do (mode \<noteq> Sleep) (steps
       [kind_ensure_ready K,
        on_kind (rk_set_sleep K warm_start_if_possible),
        when_do (\<not> warm_start_if_possible) (modify (\<lambda>l. l\<lparr>lora_cold_start := True\<rparr>)),
        set_mode Sleep]))"

definition prepare_modem :: "'s radio_kind \<Rightarrow> u32 \<Rightarrow> ('s lora, unit) phy" where
  "prepare_modem K frequency_in_hz = steps
     [kind_ensure_ready K,
      standby_unless_set K,
      peek (\<lambda>l. when_do (lora_cold_start l) (do_cold_start K)),
      peek (\<lambda>l. when_do (lora_calibrate_image l) (thn (on_kind (rk_calibrate_image K frequency_in_hz))
         (modify (\<lambda>l. l\<lparr>lora_calibrate_image := False\<rparr>))))]"

section \<open>Transmission\<close>

text \<open>The packet parameters are a \<open>&mut\<close> argument.\<close>

definition prepare_for_tx ::
  "'s radio_kind \<Rightarrow> modulation_params \<Rightarrow> i32 \<Rightarrow> bytes \<Rightarrow> (packet_params \<times> 's lora, unit) phy" where
  "prepare_for_tx K m output_power buffer = steps
     [on_snd (prepare_modem K (mp_frequency m)),
      on_snd (on_kind (rk_set_modulation_params K m)),
      on_snd (on_kind (rk_set_tx_power_and_ramp_time K output_power (Some m) True)),
      on_snd (kind_ensure_ready K),
      on_snd (standby_unless_set K),
      (\<lambda>(p, l). case set_payload_length (length buffer) p of (r, p') \<Rightarrow> Some (r, p', l)),
      peek (\<lambda>s. on_snd (on_kind (rk_set_packet_params K (fst s)))),
      on_snd (on_kind (rk_set_channel K (mp_frequency m))),
      on_snd (on_kind (rk_set_payload K buffer)),
      on_snd (set_mode Transmit),
      on_snd (set_irq_for_mode K)]"

definition wait_for_irq :: "'s radio_kind \<Rightarrow> ('s lora, unit) phy" where
  "wait_for_irq K = on_kind (rk_await_irq K)"

definition kind_process_irq :: "'s radio_kind \<Rightarrow> bool \<Rightarrow> ('s lora, irq_state option) phy" where
  "kind_process_irq K clear = in_mode (\<lambda>mode. on_kind (no_flag (rk_process_irq_event K mode clear)))"

definition lora_process_irq_event :: "'s radio_kind \<Rightarrow> ('s lora, irq_state option) phy" where
  "lora_process_irq_event K = kind_process_irq K False"

partial_function (option) tx_loop ::
  "'s radio_kind \<Rightarrow> 's lora \<Rightarrow> ((radio_error + unit) \<times> 's lora) option" where
  "tx_loop K l = Option.bind (wait_for_irq K l) (\<lambda>(r, l1).
     case r of
       Inl e \<Rightarrow> Some (Inl e, l1)
     | Inr _ \<Rightarrow> Option.bind (kind_process_irq K True l1) (\<lambda>(x, l2).
         case x of
           Inr (Some _) \<Rightarrow> set_mode Standby l2
         | Inr None \<Rightarrow> tx_loop K l2
         | Inl err \<Rightarrow> standby_after_error K err l2))"

definition lora_tx :: "'s radio_kind \<Rightarrow> ('s lora, unit) phy" where
  "lora_tx K = in_mode (\<lambda>mode.
     if mode = Transmit then thn (on_kind (rk_do_tx K)) (tx_loop K) else fail InvalidRadioMode)"

section \<open>Reception\<close>

definition prepare_for_rx ::
  "'s radio_kind \<Rightarrow> phy_rx_mode \<Rightarrow> modulation_params \<Rightarrow> packet_params \<Rightarrow> ('s lora, unit) phy" where
  "prepare_for_rx K listen_mode m p = steps
     [prepare_modem K (mp_frequency m),
      on_kind (rk_set_modulation_params K m),
      on_kind (rk_set_packet_params K p),
      on_kind (rk_set_channel K (mp_frequency m)),
      set_mode (Receive listen_mode),
      set_irq_for_mode K]"

definition rx_switch_channel :: "'s radio_kind \<Rightarrow> u32 \<Rightarrow> ('s lora, unit) phy" where
  "rx_switch_channel K frequency_in_hz = in_mode (\<lambda>mode. case mode of
     Receive listen_mode \<Rightarrow> steps
       [on_kind (rk_set_standby K),
        on_kind (rk_set_channel K frequency_in_hz),
        on_kind (rk_do_rx K listen_mode)]
   | _ \<Rightarrow> fail InvalidRadioMode)"

definition start_rx :: "'s radio_kind \<Rightarrow> ('s lora, unit) phy" where
  "start_rx K = in_mode (\<lambda>mode. case mode of
     Receive listen_mode \<Rightarrow> on_kind (rk_do_rx K listen_mode)
   | _ \<Rightarrow> fail InvalidRadioMode)"

text \<open>Payload and status of a received packet, which go together.\<close>

definition received_packet :: "'s radio_kind \<Rightarrow> packet_params \<Rightarrow> (bytes \<times> 's lora, u8 \<times> packet_status) phy" where
  "received_packet K p =
     bnd (on_kind_with (rk_get_rx_payload K p)) (\<lambda>received_len.
     bnd (on_snd (on_kind (rk_get_rx_packet_status K))) (\<lambda>rx_pkt_status.
       ret (received_len, rx_pkt_status)))"

partial_function (option) complete_rx_loop ::
  "'s radio_kind \<Rightarrow> packet_params \<Rightarrow> bytes \<times> 's lora
    \<Rightarrow> ((radio_error + u8 \<times> packet_status) \<times> bytes \<times> 's lora) option" where
  "complete_rx_loop K p s = Option.bind (on_snd (kind_process_irq K True) s) (\<lambda>(x, s1).
     case x of
       Inl err \<Rightarrow>
         (if lora_mode (snd s1) \<noteq> Receive RxContinuous then on_snd (standby_after_error K err) s1
          else Some (Inl err, s1))
     | Inr st \<Rightarrow>
         (if st = Some IrqDone then received_packet K p s1
          else Option.bind (on_snd (wait_for_irq K) s1) (\<lambda>(r, s2).
            case r of Inl e \<Rightarrow> Some (Inl e, s2) | Inr _ \<Rightarrow> complete_rx_loop K p s2)))"

fun is_receive :: "radio_mode \<Rightarrow> bool" where
  "is_receive (Receive _) = True"
| "is_receive _ = False"

definition complete_rx :: "'s radio_kind \<Rightarrow> packet_params \<Rightarrow> (bytes \<times> 's lora, u8 \<times> packet_status) phy" where
  "complete_rx K p = peek (\<lambda>s.
     if is_receive (lora_mode (snd s)) then complete_rx_loop K p else fail InvalidRadioMode)"

definition get_rx_result :: "'s radio_kind \<Rightarrow> packet_params \<Rightarrow> (bytes \<times> 's lora, u8 \<times> packet_status) phy" where
  "get_rx_result K p = peek (\<lambda>s.
     if is_receive (lora_mode (snd s)) then received_packet K p else fail InvalidRadioMode)"

definition lora_rx :: "'s radio_kind \<Rightarrow> packet_params \<Rightarrow> (bytes \<times> 's lora, u8 \<times> packet_status) phy" where
  "lora_rx K p = thn (on_snd (start_rx K)) (complete_rx K p)"

definition lora_get_irq_state :: "'s radio_kind \<Rightarrow> ('s lora, irq_state option) phy" where
  "lora_get_irq_state K = in_mode (\<lambda>mode. on_kind (no_flag (rk_get_irq_state K mode)))"

definition lora_clear_irq_status :: "'s radio_kind \<Rightarrow> ('s lora, unit) phy" where
  "lora_clear_irq_status K = on_kind (rk_clear_irq_status K)"

section \<open>Listening, activity detection and continuous wave\<close>

definition lora_create_modulation_params ::
  "'s radio_kind \<Rightarrow> spreading_factor \<Rightarrow> bandwidth \<Rightarrow> coding_rate \<Rightarrow> u32 \<Rightarrow> ('s lora, modulation_params) phy" where
  "lora_create_modulation_params K sf bw cr frequency_in_hz =
     bnd (of_run (rk_create_modulation_params K sf bw cr frequency_in_hz)) of_result"

definition lora_create_tx_packet_params ::
  "'s radio_kind \<Rightarrow> u16 \<Rightarrow> bool \<Rightarrow> bool \<Rightarrow> bool \<Rightarrow> modulation_params \<Rightarrow> radio_error + packet_params" where
  "lora_create_tx_packet_params K preamble_length implicit_header crc_on iq_inverted m =
     rk_create_packet_params K preamble_length implicit_header 0 crc_on iq_inverted m"

definition lora_create_rx_packet_params ::
  "'s radio_kind \<Rightarrow> u16 \<Rightarrow> bool \<Rightarrow> u8 \<Rightarrow> bool \<Rightarrow> bool \<Rightarrow> modulation_params \<Rightarrow> radio_error + packet_params" where
  "lora_create_rx_packet_params K preamble_length implicit_header max_payload_length crc_on iq_inverted m =
     rk_create_packet_params K preamble_length implicit_header max_payload_length crc_on iq_inverted m"

definition lora_listen :: "'s radio_kind \<Rightarrow> u32 \<Rightarrow> bandwidth \<Rightarrow> ('s lora, unit) phy" where
  "lora_listen K frequency_in_hz bw =
     thn (prepare_modem K frequency_in_hz)
      (thn (on_kind (rk_set_channel K frequency_in_hz))
        (bnd (lora_create_modulation_params K SF_7 bw CR_4_5 frequency_in_hz) (\<lambda>m. steps
          [on_kind (rk_set_modulation_params K m),
           set_mode Listen,
           on_kind (rk_do_rx K RxContinuous)])))"

definition lora_get_rssi :: "'s radio_kind \<Rightarrow> ('s lora, i16) phy" where
  "lora_get_rssi K = on_kind (rk_get_rssi K)"

definition prepare_for_cad :: "'s radio_kind \<Rightarrow> modulation_params \<Rightarrow> ('s lora, unit) phy" where
  "prepare_for_cad K m = steps
     [prepare_modem K (mp_frequency m),
      on_kind (rk_set_modulation_params K m),
      on_kind (rk_set_channel K (mp_frequency m)),
      set_mode ChannelActivityDetection,
      set_irq_for_mode K]"

text \<open>The result of the detection is the flag that \<open>process_irq_event\<close> leaves; anything but \<open>Done\<close> is
  \<open>unreachable!()\<close>.\<close>

definition cad_result :: "'s radio_kind \<Rightarrow> ('s lora, bool) phy" where
  "cad_result K l =
     (case on_kind_with (rk_process_irq_event K (lora_mode l) True) (Some False, l) of
        None \<Rightarrow> None
      | Some (r, flag, l') \<Rightarrow>
          (case r of
             Inr (Some IrqDone) \<Rightarrow>
               thn (steps [on_kind (rk_set_standby K), set_mode Standby]) (ret (flag = Some True)) l'
           | Inl err \<Rightarrow> standby_after_error K err l'
           | Inr _ \<Rightarrow> None))"

definition lora_cad :: "'s radio_kind \<Rightarrow> modulation_params \<Rightarrow> ('s lora, bool) phy" where
  "lora_cad K m = in_mode (\<lambda>mode.
     if mode = ChannelActivityDetection
     then thn (on_kind (rk_do_cad K m)) (thn (wait_for_irq K) (cad_result K))
     else fail InvalidRadioMode)"

definition continuous_wave :: "'s radio_kind \<Rightarrow> modulation_params \<Rightarrow> i32 \<Rightarrow> ('s lora, unit) phy" where
  "continuous_wave K m output_power =
     thn (prepare_modem K (mp_frequency m))
      (bnd (of_result (rk_create_packet_params K 0 False 16 False False m)) (\<lambda>p. steps
        [on_kind (rk_set_packet_params K p),
         on_kind (rk_set_modulation_params K m),
         on_kind (rk_set_tx_power_and_ramp_time K output_power (Some m) True),
         kind_ensure_ready K,
         standby_unless_set K,
         on_kind (rk_set_channel K (mp_frequency m)),
         set_mode Transmit,
         set_irq_for_mode K,
         on_kind (rk_set_tx_continuous_wave_mode K)]))"

end
