(* ===== verification/LoRaFacts.thy ===== *)
theory LoRaFacts
  imports LoRaDriver
begin

text \<open>
  What the physical layer API guarantees over any driver: the contract a driver keeps when it hands a received
  packet over, stated as a locale, and the modes.
\<close>

section \<open>Effects on the driver\<close>

lemma post_on_kind [wp]:
  "post (on_kind m) l Q = post m (lora_kind l) (\<lambda>r s. Q r (l\<lparr>lora_kind := s\<rparr>))"
  by (auto simp: post_def on_kind_def split: option.splits)

lemma post_on_kind_with [wp]:
  "post (on_kind_with m) (b, l) Q = post m (b, lora_kind l) (\<lambda>r (b', s). Q r (b', l\<lparr>lora_kind := s\<rparr>))"
  by (auto simp: post_def on_kind_with_def split: option.splits)

lemma post_no_flag [wp]: "post (no_flag m) s Q = post m (None, s) (\<lambda>r (_, s'). Q r s')"
  by (simp add: no_flag_def wp)

lemma post_in_mode [wp]: "post (in_mode f) l Q = post (f (lora_mode l)) l Q"
  by (simp add: in_mode_def wp)

lemma post_set_mode [wp]: "post (set_mode mode) l Q = Q (Inr ()) (l\<lparr>lora_mode := mode\<rparr>)"
  by (simp add: set_mode_def wp)

lemmas lora_prims = set_irq_for_mode_def kind_ensure_ready_def standby_unless_set_def standby_after_error_def
  do_cold_start_def prepare_modem_def wait_for_irq_def kind_process_irq_def steps_simps

lemma total_on_kind [total_intros]:
  "total m \<Longrightarrow> total (on_kind m)" "total m' \<Longrightarrow> total (on_kind_with m')" "total m' \<Longrightarrow> total (no_flag m')"
  "(\<And>mode. total (f mode)) \<Longrightarrow> total (in_mode f)" "total (set_mode mode)"
  unfolding total_def on_kind_def on_kind_with_def no_flag_def with_local_def in_mode_def peek_def set_mode_def modify_def
  by (auto split: option.splits prod.splits)

section \<open>Packets fit the buffer they are read into\<close>

text \<open>The part of the contract of \<open>RadioKind\<close> that the receivers rely on.\<close>

locale receives =
  fixes K :: "'s radio_kind"
  assumes payload_fits: "post (rk_get_rx_payload K p) (buf, s)
    (\<lambda>r t. length (fst t) = length buf \<and> (\<forall>n. r = Inr n \<longrightarrow> unat n \<le> length buf))"
begin

lemma received_packet_fits:
  "post (received_packet K p) (buf, l)
     (\<lambda>r t. length (fst t) = length buf \<and> (\<forall>n st. r = Inr (n, st) \<longrightarrow> unat n \<le> length buf))"
  unfolding received_packet_def wp
  by (rule post_mono [OF payload_fits]) (auto simp: wp split: sum.splits intro!: post_mono [OF post_true])

lemma complete_rx_loop_fits:
  assumes "complete_rx_loop K p s = Some (r, t)"
  shows "length (fst t) = length (fst s) \<and> (\<forall>n st. r = Inr (n, st) \<longrightarrow> unat n \<le> length (fst s))"
proof -
  have "\<forall>s x. complete_rx_loop K p s = Some x \<longrightarrow> length (fst (snd x)) = length (fst s) \<and>
    (\<forall>n st. fst x = Inr (n, st) \<longrightarrow> unat n \<le> length (fst s))" (is "\<forall>s x. _ \<longrightarrow> ?P s x")
  proof (intro allI impI)
    fix s0 :: "bytes \<times> 's lora" and x0
    assume "complete_rx_loop K p s0 = Some x0"
    then show "?P s0 x0"
    proof (rule complete_rx_loop.raw_induct [where P = "\<lambda>K' p' s x. K' = K \<and> p' = p \<longrightarrow> ?P s x", rotated, rule_format])
      show "K = K \<and> p = p" by simp
    next
      fix loop K' p' s x
      assume IH: "\<And>K' p' s x. loop K' p' s = Some x \<Longrightarrow> K' = K \<and> p' = p \<Longrightarrow> ?P s x"
        and eq: "Option.bind (on_snd (kind_process_irq K' True) s) (\<lambda>(x, s1).
          case x of
            Inl err \<Rightarrow>
              (if lora_mode (snd s1) \<noteq> Receive RxContinuous then on_snd (standby_after_error K' err) s1
               else Some (Inl err, s1))
          | Inr st \<Rightarrow>
              (if st = Some IrqDone then received_packet K' p' s1
               else Option.bind (on_snd (wait_for_irq K') s1) (\<lambda>(r, s2).
                 case r of Inl e \<Rightarrow> Some (Inl e, s2) | Inr _ \<Rightarrow> loop K' p' s2))) = Some x"
        and K: "K' = K \<and> p' = p"
      obtain b l where s: "s = (b, l)" by (cases s)
      obtain y l1 where 1: "kind_process_irq K True l = Some (y, l1)"
        using eq K by (auto simp: s on_snd_def bind_eq_Some_conv split: option.splits)
      show "?P s x"
      proof (cases y)
        case (Inl e)
        have "post (standby_after_error K e :: ('s lora, u8 \<times> packet_status) phy) l1 (\<lambda>r _. \<exists>e. r = Inl e)"
          by (auto simp: lora_prims wp intro!: post_mono [OF post_true] split: sum.splits)
        then show ?thesis using eq K 1 Inl by (auto simp: s on_snd_def post_def split: option.splits if_splits)
      next
        case (Inr st)
        show ?thesis
        proof (cases "st = Some IrqDone")
          case True
          then have "received_packet K p (b, l1) = Some (fst x, snd x)" using eq K 1 Inr by (simp add: s on_snd_def)
          then show ?thesis using postD [OF received_packet_fits] by (fastforce simp: s)
        next
          case False
          then obtain z l2 where "wait_for_irq K l1 = Some (z, l2)"
            "(case z of Inl e \<Rightarrow> Some (Inl e, b, l2) | Inr _ \<Rightarrow> loop K p (b, l2)) = Some x"
            using eq K 1 Inr by (auto simp: s on_snd_def bind_eq_Some_conv split: option.splits)
          then show ?thesis using IH [of K p "(b, l2)" x] by (auto simp: s split: sum.splits)
        qed
      qed
    qed
  qed
  then show ?thesis using assms by fastforce
qed

lemma lora_rx_fits:
  "post (lora_rx K p) (buf, l)
     (\<lambda>r t. length (fst t) = length buf \<and> (\<forall>n st. r = Inr (n, st) \<longrightarrow> unat n \<le> length buf))"
proof -
  have "post (complete_rx K p) (buf, l')
     (\<lambda>r t. length (fst t) = length buf \<and> (\<forall>n st. r = Inr (n, st) \<longrightarrow> unat n \<le> length buf))" for l'
    using complete_rx_loop_fits [of p "(buf, l')"]
    by (auto simp: post_def complete_rx_def peek_def fail_def split: if_splits)
  then show ?thesis unfolding lora_rx_def wp by (auto simp: post_def split: sum.splits)
qed

end

end
