(* ===== verification/Sx126xKind.thy ===== *)
theory Sx126xKind
  imports Sx126x LoRaFacts
begin

text \<open>
  The SX126x driver as an implementation of \<open>RadioKind\<close>, and what holds of its operations on any hardware.
\<close>

definition sx126x_kind :: "'w hw \<Rightarrow> sx126x_config \<Rightarrow> 'w radio_kind" where
  "sx126x_kind H cfg = \<lparr>
     rk_init_lora = sx126x_init_lora H cfg,
     rk_set_lora_sync_word = sx126x_set_lora_sync_word H,
     rk_create_modulation_params = (\<lambda>sf bw cr f. Some (sx126x_create_modulation_params sf bw cr f)),
     rk_create_packet_params = sx126x_create_packet_params,
     rk_reset = iv_reset H,
     rk_ensure_ready = sx126x_ensure_ready H,
     rk_set_standby = sx126x_set_standby H,
     rk_set_sleep = sx126x_set_sleep H,
     rk_set_tx_power_and_ramp_time = sx126x_set_tx_power_and_ramp_time H cfg,
     rk_set_modulation_params = sx126x_set_modulation_params H,
     rk_set_packet_params = sx126x_set_packet_params H,
     rk_calibrate_image = sx126x_calibrate_image H,
     rk_set_channel = sx126x_set_channel H,
     rk_set_payload = sx126x_set_payload H,
     rk_do_tx = sx126x_do_tx H,
     rk_do_rx = sx126x_do_rx H cfg,
     rk_get_rx_payload = sx126x_get_rx_payload H,
     rk_get_rx_packet_status = sx126x_get_rx_packet_status H,
     rk_get_rssi = sx126x_get_rssi H,
     rk_do_cad = sx126x_do_cad H cfg,
     rk_set_irq_params = sx126x_set_irq_params H,
     rk_set_tx_continuous_wave_mode = sx126x_set_tx_continuous_wave_mode H,
     rk_await_irq = iv_await_irq H,
     rk_process_irq_event = sx126x_process_irq_event H,
     rk_get_irq_state = sx126x_get_irq_state H,
     rk_clear_irq_status = sx126x_clear_irq_status H\<rparr>"

section \<open>Received packets\<close>

lemma sx126x_payload_fits:
  assumes "hw_ok H"
  shows "post (sx126x_get_rx_payload H p) (buf, w)
     (\<lambda>r t. length (fst t) = length buf \<and> (\<forall>n. r = Inr n \<longrightarrow> unat n \<le> length buf))"
proof -
  have slice: "post (on_prefix (unat n) (intf_read H c)) (b, w')
    (\<lambda>r t. length (fst t) = length b)" if "unat n \<le> length b" for n b w' and c :: bytes
    unfolding wp by (auto intro!: post_mono [OF intf_read_length(1) [OF assms]] simp: that)
  let ?ok = "\<lambda>buf r t'. length (fst t') = length buf \<and> (\<forall>n. r = Inr n \<longrightarrow> unat n \<le> length buf)"
  have tail: "post (peek (\<lambda>(receiving_buffer, _).
         if length receiving_buffer < unat n then fail (PayloadSizeMismatch (unat n) (length receiving_buffer))
         else thn (on_prefix (unat n) (intf_read H c)) (ret n))) (b, w') (?ok b)" for n c b w'
  proof (cases "length b < unat n")
    case False
    then show ?thesis
      unfolding post_peek split if_not_P [OF False] post_thn
      by (intro post_mono [OF slice]) (auto simp: wp split: sum.splits)
  qed (simp add: wp)
  have len: "post (bnd (if i then on_snd m else ret k) (\<lambda>n. peek (\<lambda>(receiving_buffer, _).
         if length receiving_buffer < unat n then fail (PayloadSizeMismatch (unat n) (length receiving_buffer))
         else thn (on_prefix (unat n) (intf_read H c)) (ret n)))) (b, w') (?ok b)" for i m k c b w'
    by (cases i) (simp add: post_bnd post_on_snd, rule post_mono [OF post_true], simp add: tail split: sum.split,
        simp add: post_bnd post_effect tail)
  show ?thesis unfolding sx126x_get_rx_payload_def post_bnd post_on_snd
    by (rule post_mono [OF post_true]) (simp add: post_effect len split: sum.split prod.split)
qed

section \<open>Power amplifier\<close>

definition pa_table_ok :: "pa_table \<Rightarrow> bool" where
  "pa_table_ok t \<longleftrightarrow> pt_entries t \<noteq> [] \<and> sint (pt_min_dbm t) \<le> sint (pe_max_dbm (last (pt_entries t)))"

lemma sint_scast_i8: "sint (scast (b :: i8) :: i32) = sint b"
  by (simp add: sint_up_scast is_up)

lemma pa_lookup_total:
  assumes "pa_table_ok t"
  obtains e v where "pa_lookup t dbm = Some (e, v)"
proof -
  have "\<not> sint (scast (pe_max_dbm (last (pt_entries t))) :: i32) < sint (scast (pt_min_dbm t) :: i32)"
    using assms by (simp add: pa_table_ok_def sint_scast_i8)
  then show thesis using assms that unfolding pa_table_ok_def pa_lookup_def i32_clamp_def Let_def by auto
qed

lemma pa_tables_ok: "pa_table_ok SX1261_PA_TABLE" "pa_table_ok SX1262_PA_TABLE" "pa_table_ok STM32WL_HP_PA_TABLE"
  by (simp_all add: pa_table_ok_def SX1261_PA_TABLE_def SX1262_PA_TABLE_def STM32WL_HP_PA_TABLE_def pa_entry_def)

end
