(* ===== verification/Emu126.thy ===== *)
theory Emu126
  imports Sx126xKind
begin

text \<open>
  The behavioural model of an SX126x that the repository's tests run the driver on
  (\<open>lora-phy/src/sx126x/test/emulator.rs\<close>), as a hardware for this library: commands change the chip when the
  SPI transaction happens, and a transmission or reception is over as soon as it is started. Nothing but the driver
  touches the chip while a wait for an interrupt is polling it, so the poll is a test.
\<close>

section \<open>The chip\<close>

datatype chip6_mode = Chip6Standby | Chip6Sleep | Chip6Rx

record pending_rx6 =
  pr6_payload :: bytes
  pr6_rssi_dbm :: i16
  pr6_snr_db :: i16

record tx_record =
  tr_frequency_raw :: u32
  tr_payload :: bytes

record chip6 =
  ch6_mode :: chip6_mode
  ch6_registers :: "u16 \<rightharpoonup> u8"
  ch6_buffer :: bytes
  ch6_tx_base_addr :: u8
  ch6_payload_length :: u8
  ch6_frequency_raw :: u32
  ch6_irq_status :: u16
  ch6_irq_mask :: u16
  ch6_dio1_mask :: u16
  ch6_rx_len :: u8
  ch6_cad_activity :: bool
  ch6_pending_rx :: "pending_rx6 option"
  ch6_tx_log :: "tx_record list"

definition chip6_new :: chip6 where
  "chip6_new = \<lparr>ch6_mode = Chip6Standby, ch6_registers = Map.empty, ch6_buffer = replicate 256 0, ch6_tx_base_addr = 0,
     ch6_payload_length = 0, ch6_frequency_raw = 0, ch6_irq_status = 0, ch6_irq_mask = 0, ch6_dio1_mask = 0,
     ch6_rx_len = 0, ch6_cad_activity = False, ch6_pending_rx = None, ch6_tx_log = []\<rparr>"

definition raise_irq6 :: "u16 \<Rightarrow> chip6 \<Rightarrow> chip6" where
  "raise_irq6 irq c = c\<lparr>ch6_irq_status := ch6_irq_status c OR (irq AND ch6_irq_mask c)\<rparr>"

definition reg_read6 :: "chip6 \<Rightarrow> u16 \<Rightarrow> u8" where
  "reg_read6 c addr = (case ch6_registers c addr of Some v \<Rightarrow> v | None \<Rightarrow> 0)"

fun write_registers6 :: "u16 \<Rightarrow> bytes \<Rightarrow> (u16 \<rightharpoonup> u8) \<Rightarrow> u16 \<rightharpoonup> u8" where
  "write_registers6 addr [] regs = regs"
| "write_registers6 addr (b # bs) regs = write_registers6 (addr + 1) bs (regs(addr \<mapsto> b))"

definition REG_RSSI_SHADOW :: u16 where "REG_RSSI_SHADOW = 0xFF00"
definition REG_SNR_SHADOW :: u16 where "REG_SNR_SHADOW = 0xFF01"

section \<open>Commands\<close>

definition exec_set_tx :: "chip6 \<Rightarrow> (bytes \<times> chip6) run" where
  "exec_set_tx c = do {
     let base = unat (ch6_tx_base_addr c);
     payload \<leftarrow> subslice (ch6_buffer c) base (base + unat (ch6_payload_length c));
     Some ([], raise_irq6 (irq6_value Irq6_TxDone)
       (c\<lparr>ch6_tx_log := ch6_tx_log c @ [\<lparr>tr_frequency_raw = ch6_frequency_raw c, tr_payload = payload\<rparr>],
          ch6_mode := Chip6Standby\<rparr>))}"

definition exec_set_rx :: "bytes \<Rightarrow> chip6 \<Rightarrow> (bytes \<times> chip6) run" where
  "exec_set_rx params c =
     (case ch6_pending_rx c of
        Some rx \<Rightarrow> do {
          buffer \<leftarrow> copy_range (ch6_buffer c) 0 (length (pr6_payload rx)) (pr6_payload rx);
          Some ([], raise_irq6 (irq6_value Irq6_RxDone)
            (c\<lparr>ch6_mode := Chip6Rx, ch6_pending_rx := None, ch6_buffer := buffer,
               ch6_rx_len := of_nat (length (pr6_payload rx)),
               ch6_registers := (ch6_registers c)(REG_RSSI_SHADOW \<mapsto> ucast (-2 * pr6_rssi_dbm rx),
                 REG_SNR_SHADOW \<mapsto> ucast (4 * pr6_snr_db rx))\<rparr>))}
      | None \<Rightarrow> do {
          p \<leftarrow> subslice params 0 3;
          Some ([], if p \<noteq> [0xFF, 0xFF, 0xFF]
            then raise_irq6 (irq6_value Irq6_RxTxTimeout) (c\<lparr>ch6_mode := Chip6Standby\<rparr>)
            else c\<lparr>ch6_mode := Chip6Rx\<rparr>)})"

definition be_params :: "bytes \<Rightarrow> nat \<Rightarrow> u16 run" where
  "be_params params i = do { a \<leftarrow> idx params i; b \<leftarrow> idx params (i + 1); Some (of_be16 a b) }"

text \<open>The commands that touch registers or the packet buffer, then the others; a byte that is no command of
  these is accepted without effect.\<close>

definition execute6_memory :: "u8 \<Rightarrow> bytes \<Rightarrow> chip6 \<Rightarrow> (bytes \<times> chip6) run option" where
  "execute6_memory opcode params c =
     (if opcode = op_value OpWriteRegister then Some (do {
        addr \<leftarrow> be_params params 0;
        Some ([], c\<lparr>ch6_registers := write_registers6 addr (drop 2 params) (ch6_registers c)\<rparr>)})
      else if opcode = op_value OpReadRegister then Some (do {
        addr \<leftarrow> be_params params 0;
        Some (map (\<lambda>i. reg_read6 c (addr + of_nat i)) [0..<256], c)})
      else if opcode = op_value OpWriteBuffer then Some (do {
        offset \<leftarrow> idx params 0;
        buffer \<leftarrow> copy_range (ch6_buffer c) (unat offset) (unat offset + length (drop 1 params)) (drop 1 params);
        Some ([], c\<lparr>ch6_buffer := buffer\<rparr>)})
      else if opcode = op_value OpReadBuffer then Some (do {
        offset \<leftarrow> idx params 0;
        Some (drop (unat offset) (ch6_buffer c), c)})
      else None)"

definition execute6 :: "u8 \<Rightarrow> bytes \<Rightarrow> chip6 \<Rightarrow> (bytes \<times> chip6) run" where
  "execute6 opcode params c =
     (case execute6_memory opcode params c of Some r \<Rightarrow> r | None \<Rightarrow>
      if opcode = op_value OpSetSleep then Some ([], c\<lparr>ch6_mode := Chip6Sleep\<rparr>)
      else if opcode = op_value OpSetStandby then Some ([], c\<lparr>ch6_mode := Chip6Standby\<rparr>)
      else if opcode = op_value OpSetRFFrequency then do {
        hi \<leftarrow> be_params params 0;
        lo \<leftarrow> be_params params 2;
        Some ([], c\<lparr>ch6_frequency_raw := push_bit 16 (ucast hi) OR ucast lo\<rparr>)}
      else if opcode = op_value OpSetBufferBaseAddress then do {
        a \<leftarrow> idx params 0; Some ([], c\<lparr>ch6_tx_base_addr := a\<rparr>)}
      else if opcode = op_value OpSetPacketParams then do {
        n \<leftarrow> idx params 3; Some ([], c\<lparr>ch6_payload_length := n\<rparr>)}
      else if opcode = op_value OpCfgDIOIrq then do {
        m \<leftarrow> be_params params 0;
        d \<leftarrow> be_params params 2;
        Some ([], c\<lparr>ch6_irq_mask := m, ch6_dio1_mask := d\<rparr>)}
      else if opcode = op_value OpClrIrqStatus then do {
        m \<leftarrow> be_params params 0; Some ([], c\<lparr>ch6_irq_status := ch6_irq_status c AND NOT m\<rparr>)}
      else if opcode = op_value OpGetIrqStatus then Some (0x00 # be16 (ch6_irq_status c), c)
      else if opcode = op_value OpSetTx then exec_set_tx c
      else if opcode = op_value OpSetRx then exec_set_rx params c
      else if opcode = op_value OpGetRxBufferStatus then Some ([0x00, ch6_rx_len c, 0x00], c)
      else if opcode = op_value OpGetPacketStatus then
        Some ([0x00, reg_read6 c REG_RSSI_SHADOW, reg_read6 c REG_SNR_SHADOW, reg_read6 c REG_RSSI_SHADOW], c)
      else if opcode = op_value OpSetCAD then
        Some ([], raise_irq6 (if ch6_cad_activity c then irq6_value Irq6_CADDone OR irq6_value Irq6_CADActivityDetected
          else irq6_value Irq6_CADDone) c)
      else Some (replicate 16 0x00, c))"

section \<open>Bus and lines\<close>

fun written :: "spi_op list \<Rightarrow> bytes" where
  "written [] = []"
| "written (SpiWrite b # ops) = b @ written ops"
| "written (SpiRead _ # ops) = written ops"

text \<open>The reads take the bytes of the response in turn, then zeros.\<close>

fun drain_reads :: "spi_op list \<Rightarrow> bytes \<Rightarrow> bytes list" where
  "drain_reads [] response = []"
| "drain_reads (SpiWrite _ # ops) response = drain_reads ops response"
| "drain_reads (SpiRead b # ops) response =
     (take (length b) response @ replicate (length b - length response) 0) # drain_reads ops (drop (length b) response)"

definition chip6_transaction :: "spi_op list \<Rightarrow> chip6 \<Rightarrow> ((unit + unit) \<times> bytes list \<times> chip6) run" where
  "chip6_transaction ops c = do {
     (response, c') \<leftarrow> (case written ops of [] \<Rightarrow> Some ([], c) | op # params \<Rightarrow> execute6 op params c);
     Some (Inr (), drain_reads ops response, c')}"

definition chip6_await_irq :: "(chip6, unit) phy" where
  "chip6_await_irq = peek (\<lambda>c. if ch6_irq_status c AND ch6_dio1_mask c \<noteq> 0 then ret () else fail Irq)"

definition chip6_hw :: "chip6 hw" where
  "chip6_hw = \<lparr>
     hw_write = (\<lambda>buf c. do { (r, _, c') \<leftarrow> chip6_transaction [SpiWrite buf] c; Some (r, c') }),
     hw_transaction = chip6_transaction,
     iv_reset = modify (\<lambda>_. chip6_new),
     iv_wait_on_busy = ret (),
     iv_await_irq = chip6_await_irq,
     iv_rf_switch_rx = ret (),
     iv_rf_switch_tx = ret (),
     iv_disable_rf_switch = ret (),
     hw_delay_ms = (\<lambda>_ c. c)\<rparr>"

text \<open>A packet arrives over the air.\<close>

definition inject_rx6 :: "bytes \<Rightarrow> i16 \<Rightarrow> i16 \<Rightarrow> chip6 \<Rightarrow> chip6" where
  "inject_rx6 payload rssi_dbm snr_db c =
     c\<lparr>ch6_pending_rx := Some \<lparr>pr6_payload = payload, pr6_rssi_dbm = rssi_dbm, pr6_snr_db = snr_db\<rparr>\<rparr>"

definition emulated_sx1261_config :: sx126x_config where
  "emulated_sx1261_config = \<lparr>c6_chip = Sx1261, c6_tcxo_ctrl = None, c6_use_dcdc = False, c6_rx_boost = True\<rparr>"

section \<open>What the driver's calls do on the chip\<close>

lemma drain_reads_lengths: "map length (drain_reads ops response) = read_lengths ops"
  by (induction ops response rule: drain_reads.induct) auto

lemma chip6_hw_ok: "hw_ok chip6_hw"
  by (auto simp: hw_ok_def chip6_hw_def chip6_transaction_def bind_eq_Some_conv drain_reads_lengths)

lemma chip6_calls [simp]:
  "iv_reset chip6_hw = modify (\<lambda>_. chip6_new)" "iv_wait_on_busy chip6_hw = ret ()"
  "iv_await_irq chip6_hw = chip6_await_irq" "iv_rf_switch_rx chip6_hw = ret ()" "iv_rf_switch_tx chip6_hw = ret ()"
  "iv_disable_rf_switch chip6_hw = ret ()" "hw_delay_ms chip6_hw n c = c"
  by (simp_all add: chip6_hw_def)

lemma chip6_write [simp]:
  "intf_write chip6_hw (op # params) z c =
     (case execute6 op params c of None \<Rightarrow> None | Some (_, c') \<Rightarrow> Some (Inr (), c'))"
  by (cases "execute6 op params c")
    (auto simp: intf_write_def thn_def bnd_def map_spi_def chip6_hw_def chip6_transaction_def when_do_def ret_def)

lemma chip6_write_with_payload [simp]:
  "intf_write_with_payload chip6_hw (op # params) payload z c =
     (case execute6 op (params @ payload) c of None \<Rightarrow> None | Some (_, c') \<Rightarrow> Some (Inr (), c'))"
  by (cases "execute6 op (params @ payload) c")
    (auto simp: intf_write_with_payload_def thn_def bnd_def map_spi_def chip6_hw_def chip6_transaction_def when_do_def ret_def)

lemma chip6_read [simp]:
  "intf_read chip6_hw (op # params) (buf, c) =
     (case execute6 op params c of None \<Rightarrow> None
      | Some (response, c') \<Rightarrow>
          Some (Inr (), take (length buf) response @ replicate (length buf - length response) 0, c'))"
  by (cases "execute6 op params c")
    (auto simp: intf_read_def thn_def bnd_def chip6_hw_def chip6_transaction_def on_snd_def ret_def)

lemma chip6_read_with_status [simp]:
  "intf_read_with_status chip6_hw (op # params) (buf, c) =
     (case execute6 op params c of None \<Rightarrow> None
      | Some (response, c') \<Rightarrow>
          Some (Inr (hd (take 1 response @ replicate (1 - length response) 0)),
            take (length buf) (drop 1 response) @ replicate (length buf - (length response - 1)) 0, c'))"
  by (cases "execute6 op params c")
    (auto simp: intf_read_with_status_def thn_def bnd_def chip6_hw_def chip6_transaction_def on_snd_def ret_def)

end
