(* ===== verification/Emu126Runs.thy ===== *)
theory Emu126Runs
  imports Emu126
begin

text \<open>
  The SX126x driver and the physical layer API on the emulated chip: what each operation does to the chip, and
  whole transmissions and receptions.
\<close>

section \<open>Operations of the driver\<close>

lemmas exec6 = execute6_def execute6_memory_def be_params_def

lemma u32_bytes:
  fixes s :: u32
  shows "push_bit 16 (ucast (of_be16 (ucast (drop_bit 24 s AND 0xFF)) (ucast (drop_bit 16 s AND 0xFF)))) OR
    ucast (of_be16 (ucast (drop_bit 8 s AND 0xFF)) (ucast (s AND 0xFF))) = s"
proof -
  have m: "(255 :: u32) = mask 8" by (simp add: mask_eq_exp_minus_1)
  show ?thesis unfolding of_be16_def m
    apply (rule bit_word_eqI)
    subgoal for n by (cases "n < 8"; cases "n < 16"; cases "n < 24") (auto simp: bit_simps)
    done
qed

lemma addr_value: "of_be16 (addr1 r) (addr2 r) = reg6_value r"
  by (cases r) (simp_all add: of_be16_def addr1_def addr2_def)

lemma emu6_reg_w [simp]:
  "reg_w_8 chip6_hw r v c = Some (Inr (), c\<lparr>ch6_registers := (ch6_registers c)(reg6_value r \<mapsto> v)\<rparr>)"
  by (simp add: reg_w_8_def exec6 addr_value idx_def)

lemma emu6_reg_r [simp]: "reg_r_8 chip6_hw r c = Some (Inr (reg_read6 c (reg6_value r)), c)"
  by (simp add: reg_r_8_def bnd_def with_array_def exec6 addr_value idx_def ret_def take_map take_upt upt_rec)

lemma emu6_modes [simp]:
  "sx126x_set_standby chip6_hw c = Some (Inr (), c\<lparr>ch6_mode := Chip6Standby\<rparr>)"
  "sx126x_set_sleep chip6_hw warm c = Some (Inr (), c\<lparr>ch6_mode := Chip6Sleep\<rparr>)"
  "sx126x_ensure_ready chip6_hw mode c = Some (Inr (), c)"
  by (auto simp: sx126x_set_standby_def sx126x_set_sleep_def sx126x_ensure_ready_def exec6 thn_def bnd_def ret_def modify_def
      steps_def split: radio_mode.split phy_rx_mode.split)

lemma values6_sf: "\<exists>v. sf6_value sf = Inr v" by (cases sf) simp_all

lemma values6_bw: "\<exists>v. bw6_value bw = Inr v" by (cases bw) simp_all

lemma values6_cr: "\<exists>v. cr6_value cr = Inr v" by (cases cr) simp_all

lemma emu6_modulation [simp]:
  "sx126x_set_modulation_params chip6_hw m c = Some (Inr (), c\<lparr>ch6_registers := (ch6_registers c)(0x889 \<mapsto>
     (if mp_bw m = BW_500KHz then reg_read6 c 0x889 AND 0xfb else reg_read6 c 0x889 OR 0x04))\<rparr>)"
  using values6_sf [of "mp_sf m"] values6_bw [of "mp_bw m"] values6_cr [of "mp_cr m"]
  by (auto simp: sx126x_set_modulation_params_def bnd_def thn_def of_result_def exec6)

lemma emu6_packet [simp]:
  "sx126x_set_packet_params chip6_hw p c = Some (Inr (), c\<lparr>ch6_payload_length := pp_payload_length p,
     ch6_registers := (ch6_registers c)(0x736 \<mapsto>
       (if pp_iq_inverted p then reg_read6 c 0x736 AND 0xfb else reg_read6 c 0x736 OR 0x04))\<rparr>)"
  by (simp add: sx126x_set_packet_params_def bnd_def thn_def exec6 idx_def reg_read6_def)

lemma emu6_channel [simp]:
  "sx126x_set_channel chip6_hw f c = Some (Inr (), c\<lparr>ch6_frequency_raw := convert_freq_in_hz_to_pll_step f\<rparr>)"
  by (simp add: sx126x_set_channel_def Let_def exec6 idx_def u32_bytes)

lemma emu6_calibrate [simp]: "sx126x_calibrate_image chip6_hw f c = Some (Inr (), c)"
  by (simp add: sx126x_calibrate_image_def exec6)

lemma u16_bytes: "of_be16 (ucast (drop_bit 8 m AND 0x00FF)) (ucast (m AND 0x00FF)) = (m :: u16)"
proof -
  have m: "(255 :: u16) = mask 8" by (simp add: mask_eq_exp_minus_1)
  show ?thesis unfolding of_be16_def m by (rule bit_word_eqI) (auto simp: bit_simps)
qed

lemma emu6_irq_params [simp]:
  "sx126x_set_irq_params chip6_hw mode c = Some (Inr (), c\<lparr>ch6_irq_mask := fst (sx126x_irq_masks mode),
     ch6_dio1_mask := snd (sx126x_irq_masks mode)\<rparr>)"
  by (simp add: sx126x_set_irq_params_def Let_def split_beta exec6 idx_def u16_bytes)

lemma emu6_clear_irq [simp]: "sx126x_clear_irq_status chip6_hw c = Some (Inr (), c\<lparr>ch6_irq_status := 0\<rparr>)"
proof -
  have "of_be16 0xFF 0xFF = - 1" by (simp add: of_be16_def)
  then show ?thesis by (simp add: sx126x_clear_irq_status_def exec6 idx_def)
qed

lemma emu6_payload:
  "length payload \<le> length (ch6_buffer c) \<Longrightarrow> sx126x_set_payload chip6_hw payload c =
     Some (Inr (), c\<lparr>ch6_buffer := payload @ drop (length payload) (ch6_buffer c)\<rparr>)"
  by (simp add: sx126x_set_payload_def exec6 idx_def)

lemma emu6_tx:
  assumes "unat (ch6_tx_base_addr c) + unat (ch6_payload_length c) \<le> length (ch6_buffer c)"
  shows "sx126x_do_tx chip6_hw c = Some (Inr (), raise_irq6 1
    (c\<lparr>ch6_tx_log := ch6_tx_log c @ [\<lparr>tr_frequency_raw = ch6_frequency_raw c, tr_payload =
        take (unat (ch6_payload_length c)) (drop (unat (ch6_tx_base_addr c)) (ch6_buffer c))\<rparr>],
       ch6_mode := Chip6Standby\<rparr>))"
  using assms by (simp add: sx126x_do_tx_def thn_def bnd_def ret_def exec6 exec_set_tx_def)

lemma replicate_few: "replicate 2 x = [x, x]" "replicate 3 x = [x, x, x]"
  by (simp_all add: numeral_2_eq_2 numeral_3_eq_3)

lemma emu6_irq_flags [simp]:
  "sx126x_get_irq_state chip6_hw mode (cad, c) =
     (case sx126x_decode_irq mode (ch6_irq_status c) cad of None \<Rightarrow> None | Some (r, cad') \<Rightarrow> Some (r, cad', c))"
  by (simp add: sx126x_get_irq_state_def bnd_def on_snd_def with_array_def exec6 be16_def replicate_few
      of_be16_be16 [unfolded of_be16_def] split: option.split)

section \<open>Transmission\<close>

abbreviation kind6 :: "chip6 radio_kind" where
  "kind6 \<equiv> sx126x_kind chip6_hw emulated_sx1261_config"

lemma emu6_tx_power:
  "sx126x_set_tx_power_and_ramp_time chip6_hw emulated_sx1261_config dbm m prep c =
     (if 15 \<le> sint dbm \<and> (\<exists>m'. m = Some m' \<and> mp_frequency m' < 400000000)
      then Some (Inl InvalidOutputPowerForFrequency, c) else Some (Inr (), c))"
proof -
  obtain e v where "pa_lookup SX1261_PA_TABLE dbm = Some (e, v)" by (rule pa_lookup_total [OF pa_tables_ok(1)])
  then show ?thesis
    by (cases m) (auto simp: sx126x_set_tx_power_and_ramp_time_def sx126x_pa_preconditions_def emulated_sx1261_config_def
      Sx1261_def default_pa_table_def bnd_def thn_def of_run_def set_pa_config_def exec6 ret_def fail_def)
qed

lemmas run_defs = steps_simps thn_def bnd_def on_snd_def on_kind_def peek_def in_mode_def set_mode_def modify_def ret_def
  fail_def when_do_def kind_ensure_ready_def standby_unless_set_def set_irq_for_mode_def of_run_def of_result_def attempt_def

text \<open>A driver and a chip that are set up: the chip's buffer starts where the driver expects it.\<close>

definition warm6 :: "chip6 lora \<Rightarrow> bool" where
  "warm6 l \<longleftrightarrow> \<not> lora_cold_start l \<and> length (ch6_buffer (lora_kind l)) = 256 \<and> ch6_tx_base_addr (lora_kind l) = 0"

lemma kind6_sel [simp]:
  "rk_init_lora kind6 = sx126x_init_lora chip6_hw emulated_sx1261_config"
  "rk_reset kind6 = modify (\<lambda>_. chip6_new)"
  "rk_ensure_ready kind6 = sx126x_ensure_ready chip6_hw"
  "rk_set_standby kind6 = sx126x_set_standby chip6_hw"
  "rk_set_tx_power_and_ramp_time kind6 = sx126x_set_tx_power_and_ramp_time chip6_hw emulated_sx1261_config"
  "rk_set_modulation_params kind6 = sx126x_set_modulation_params chip6_hw"
  "rk_set_packet_params kind6 = sx126x_set_packet_params chip6_hw"
  "rk_calibrate_image kind6 = sx126x_calibrate_image chip6_hw"
  "rk_set_channel kind6 = sx126x_set_channel chip6_hw"
  "rk_set_payload kind6 = sx126x_set_payload chip6_hw"
  "rk_do_tx kind6 = sx126x_do_tx chip6_hw"
  "rk_do_rx kind6 = sx126x_do_rx chip6_hw emulated_sx1261_config"
  "rk_get_rx_payload kind6 = sx126x_get_rx_payload chip6_hw"
  "rk_get_rx_packet_status kind6 = sx126x_get_rx_packet_status chip6_hw"
  "rk_set_irq_params kind6 = sx126x_set_irq_params chip6_hw"
  "rk_await_irq kind6 = chip6_await_irq"
  "rk_process_irq_event kind6 = sx126x_process_irq_event chip6_hw"
  by (simp_all add: sx126x_kind_def)

lemma emu6_prepare_modem:
  assumes "warm6 l"
  shows "prepare_modem kind6 f l = Some (Inr (), l\<lparr>lora_kind := (if lora_mode l = Standby then lora_kind l
      else (lora_kind l)\<lparr>ch6_mode := Chip6Standby\<rparr>), lora_mode := Standby, lora_calibrate_image := False\<rparr>)"
  using assms by (cases l) (simp add: prepare_modem_def run_defs warm6_def)

lemma emu6_prepare_tx:
  assumes "warm6 l" "length buf \<le> 255" "sint dbm < 15 \<or> 400000000 \<le> mp_frequency m"
  obtains l' p' where "prepare_for_tx kind6 m dbm buf (p, l) = Some (Inr (), p', l')" "warm6 l'" "lora_mode l' = Transmit"
    "ch6_tx_log (lora_kind l') = ch6_tx_log (lora_kind l)"
    "ch6_frequency_raw (lora_kind l') = convert_freq_in_hz_to_pll_step (mp_frequency m)"
    "take (length buf) (ch6_buffer (lora_kind l')) = buf" "ch6_payload_length (lora_kind l') = of_nat (length buf)"
    "ch6_irq_mask (lora_kind l') = 0x201" "ch6_dio1_mask (lora_kind l') = 0x201"
proof -
  define l1 where "l1 = l\<lparr>lora_kind := (if lora_mode l = Standby then lora_kind l
      else (lora_kind l)\<lparr>ch6_mode := Chip6Standby\<rparr>), lora_mode := Standby, lora_calibrate_image := False\<rparr>"
  have l1: "prepare_modem kind6 (mp_frequency m) l = Some (Inr (), l1)" using emu6_prepare_modem [OF assms(1)] by (simp add: l1_def)
  have w: "length (ch6_buffer (lora_kind l1)) = 256" "lora_mode l1 = Standby" "warm6 l1" using assms(1) by (simp_all add: l1_def warm6_def)
  have dbm: "\<not> (15 \<le> sint dbm \<and> mp_frequency m < 400000000)" using assms(3) by auto
  have buf: "\<not> 255 < length buf" "length buf \<le> 256" using assms(2) by simp_all
  let ?r = "prepare_for_tx kind6 m dbm buf (p, l)"
  have "\<exists>l' p'. ?r = Some (Inr (), p', l')"
    using dbm buf w l1 by (simp add: prepare_for_tx_def run_defs emu6_tx_power emu6_payload set_payload_length_def)
  then obtain l' p' where r: "?r = Some (Inr (), p', l')" by blast
  show thesis
    by (rule that [OF r]; insert r dbm buf w l1;
      simp add: prepare_for_tx_def run_defs emu6_tx_power emu6_payload set_payload_length_def; clarsimp simp: warm6_def l1_def
        sx126x_irq_masks_def)
qed

lemma tx_done_bit: "irq6_is_set Irq6_TxDone (x OR 1)" "(x OR 1) AND (0x201 :: u16) \<noteq> 0"
proof -
  show "irq6_is_set Irq6_TxDone (x OR 1)"
    by (simp add: irq6_is_set_def)
  have "bit ((x OR 1) AND (0x201 :: u16)) 0" by (simp add: bit_simps)
  then show "(x OR 1) AND (0x201 :: u16) \<noteq> 0" by force
qed

lemma emu6_tx_run:
  assumes "warm6 l" "lora_mode l = Transmit" "ch6_irq_mask (lora_kind l) = 0x201" "ch6_dio1_mask (lora_kind l) = 0x201"
  obtains l' where "lora_tx kind6 l = Some (Inr (), l')" "warm6 l'" "lora_mode l' = Standby"
    "ch6_tx_log (lora_kind l') = ch6_tx_log (lora_kind l) @ [\<lparr>tr_frequency_raw = ch6_frequency_raw (lora_kind l),
       tr_payload = take (unat (ch6_payload_length (lora_kind l))) (ch6_buffer (lora_kind l))\<rparr>]"
proof -
  have n: "unat (ch6_payload_length (lora_kind l)) \<le> 256"
    by (rule less_imp_le, rule order_less_le_trans [OF unsigned_less]) simp
  note d = emu6_tx [of "lora_kind l", unfolded raise_irq6_def]
  have "\<exists>l'. lora_tx kind6 l = Some (Inr (), l') \<and> warm6 l' \<and> lora_mode l' = Standby \<and>
    ch6_tx_log (lora_kind l') = ch6_tx_log (lora_kind l) @ [\<lparr>tr_frequency_raw = ch6_frequency_raw (lora_kind l),
       tr_payload = take (unat (ch6_payload_length (lora_kind l))) (ch6_buffer (lora_kind l))\<rparr>]"
    using assms n
    by (simp add: lora_tx_def run_defs warm6_def d, subst tx_loop.simps)
       (simp add: wait_for_irq_def run_defs chip6_await_irq_def kind_process_irq_def no_flag_def with_local_def
         sx126x_process_irq_event_def sx126x_decode_irq_def tx_done_bit)
  then show thesis using that by blast
qed

section \<open>Initialisation\<close>

lemma emu6_sync_word:
  "intf_write_with_payload chip6_hw [0x0D, 0x07, 0x40] (be16 w) False c =
     Some (Inr (), c\<lparr>ch6_registers := (ch6_registers c)(0x740 \<mapsto> ucast (drop_bit 8 w), 0x741 \<mapsto> ucast w)\<rparr>)"
  by (simp add: exec6 idx_def be16_def of_be16_def)

text \<open>The nine bytes of the retention list on the chip.\<close>

definition list6 :: "chip6 \<Rightarrow> bytes" where
  "list6 c = map (\<lambda>i. reg_read6 c (0x29F + of_nat i)) [0, 1, 2, 3, 4, 5, 6, 7, 8]"

lemma upt_9: "take 9 [0..<256] = [0, 1, 2, 3, 4, 5, 6, 7, 8 :: nat]"
  by (simp add: take_upt upt_conv_Cons)

lemma emu6_read_list:
  "with_array 9 (intf_read chip6_hw [0x1D, 0x02, 0x9F, 0]) c = Some (Inr ((), list6 c), c)"
  by (simp add: with_array_def exec6 idx_def of_be16_def list6_def take_map upt_9)

lemma emu6_write_list:
  "intf_write_with_payload chip6_hw [0x0D, 0x02, 0x9F] b False c =
     Some (Inr (), c\<lparr>ch6_registers := write_registers6 0x29F b (ch6_registers c)\<rparr>)"
  by (simp add: exec6 idx_def of_be16_def)

lemma emu6_retention:
  assumes "\<And>a. a \<in> {0x29F .. 0x2A7} \<Longrightarrow> ch6_registers c a = None"
  shows "\<exists>regs. update_retention_list chip6_hw c = Some (Inr (), c\<lparr>ch6_registers := regs\<rparr>)"
proof -
  have l: "list6 c = [0, 0, 0, 0, 0, 0, 0, 0, 0]"
    by (simp add: list6_def reg_read6_def assms)
  define c1 where "c1 = c\<lparr>ch6_registers := write_registers6 0x29F [1, 0x08, 0xAC, 0, 0, 0, 0, 0, 0] (ch6_registers c)\<rparr>"
  have 1: "add_register_to_retention_list chip6_hw R6_RxGain c = Some (Inr (), c1)"
    by (simp add: add_register_to_retention_list_def bnd_def emu6_read_list l of_run_def retention_add_def
        MAX_NUMBER_REGS_IN_RETENTION_def emu6_write_list addr1_def addr2_def c1_def del: chip6_write_with_payload)
  have l1: "list6 c1 = [1, 0x08, 0xAC, 0, 0, 0, 0, 0, 0]"
    by (simp add: list6_def reg_read6_def c1_def)
  have "\<exists>regs. add_register_to_retention_list chip6_hw R6_TxModulation c1 = Some (Inr (), c1\<lparr>ch6_registers := regs\<rparr>)"
    by (simp add: add_register_to_retention_list_def bnd_def emu6_read_list l1 of_run_def retention_add_def
        MAX_NUMBER_REGS_IN_RETENTION_def emu6_write_list addr1_def addr2_def idx_def del: chip6_write_with_payload)
      blast
  then show ?thesis by (auto simp: update_retention_list_def thn_def bnd_def 1 c1_def)
qed

lemma emu6_init:
  assumes "\<And>a. a \<in> {0x29F .. 0x2A7} \<Longrightarrow> ch6_registers c a = None"
  obtains regs where "sx126x_init_lora chip6_hw emulated_sx1261_config w c =
    Some (Inr (), c\<lparr>ch6_registers := regs, ch6_tx_base_addr := 0\<rparr>)"
proof -
  define c1 where "c1 = c\<lparr>ch6_registers := (ch6_registers c)(0x740 \<mapsto> ucast (drop_bit 8 w), 0x741 \<mapsto> ucast w), ch6_tx_base_addr := 0\<rparr>"
  have "ch6_registers c1 a = None" if "a \<in> {0x29F .. 0x2A7}" for a
    using assms [OF that] that by (auto simp: c1_def)
  then obtain regs where r: "update_retention_list chip6_hw c1 = Some (Inr (), c1\<lparr>ch6_registers := regs\<rparr>)"
    using emu6_retention by blast
  have b: "sx126x_set_tx_rx_buffer_base_address chip6_hw 0 0 c' = Some (Inr (), c'\<lparr>ch6_tx_base_addr := 0\<rparr>)" for c'
    by (simp add: sx126x_set_tx_rx_buffer_base_address_def exec6 idx_def)
  have "sx126x_init_lora chip6_hw emulated_sx1261_config w c = Some (Inr (), c1\<lparr>ch6_registers := regs\<rparr>)"
    using r by (simp add: sx126x_init_lora_def emulated_sx1261_config_def Sx1261_def run_defs emu6_sync_word b c1_def exec6
        addr1_def addr2_def del: chip6_write_with_payload)
  then show thesis using that [of regs] by (simp add: c1_def)
qed

lemma emu6_new:
  obtains l where "lora_new kind6 c enable_public_network = Some (Inr (), l)" "warm6 l" "lora_mode l = Standby"
    "ch6_tx_log (lora_kind l) = []" "ch6_pending_rx (lora_kind l) = None"
proof -
  define w where "w = (if enable_public_network then LORAWAN_PUBLIC_SYNCWORD else LORAWAN_PRIVATE_SYNCWORD)"
  define c0 where "c0 = chip6_new\<lparr>ch6_mode := Chip6Standby\<rparr>"
  obtain regs where r: "sx126x_init_lora chip6_hw emulated_sx1261_config w c0 =
      Some (Inr (), c0\<lparr>ch6_registers := regs, ch6_tx_base_addr := 0\<rparr>)"
    by (rule emu6_init [of c0 w]) (simp add: c0_def chip6_new_def)
  define l where "l = \<lparr>lora_kind = c0\<lparr>ch6_registers := regs, ch6_tx_base_addr := 0, ch6_irq_mask := 0xFFFF, ch6_dio1_mask := 0xFFFF\<rparr>,
      lora_mode = Standby, lora_sync_word = w, lora_cold_start = False, lora_calibrate_image = True\<rparr>"
  have "lora_new kind6 c enable_public_network = Some (Inr (), l)"
    using r by (simp add: lora_new_def with_syncword_raw_def lora_init_def do_cold_start_def run_defs lora_fresh_def emu6_tx_power
        sx126x_irq_masks_def l_def w_def c0_def)
  then show thesis by (rule that) (simp_all add: l_def c0_def warm6_def chip6_new_def)
qed

section \<open>Reception\<close>

lemma emu6_symb:
  "set_lora_symbol_num_timeout chip6_hw n c = Some (Inr (), if 0 < n
     then c\<lparr>ch6_registers := (ch6_registers c)(0x706 \<mapsto> snd (symb_timeout n) + push_bit 3 (fst (symb_timeout n)))\<rparr> else c)"
  by (cases "symb_timeout n") (auto simp: set_lora_symbol_num_timeout_def run_defs exec6)

definition delivered6 :: "pending_rx6 \<Rightarrow> chip6 \<Rightarrow> bool" where
  "delivered6 rx c \<longleftrightarrow> take (length (pr6_payload rx)) (ch6_buffer c) = pr6_payload rx \<and> length (ch6_buffer c) = 256 \<and>
     ch6_rx_len c = of_nat (length (pr6_payload rx)) \<and> ch6_tx_base_addr c = 0 \<and>
     ch6_registers c REG_RSSI_SHADOW = Some (ucast (-2 * pr6_rssi_dbm rx)) \<and>
     ch6_registers c REG_SNR_SHADOW = Some (ucast (4 * pr6_snr_db rx))"

lemma emu6_do_rx:
  assumes "ch6_pending_rx c = Some rx" "length (pr6_payload rx) \<le> 255" "length (ch6_buffer c) = 256" "ch6_tx_base_addr c = 0"
    and "\<forall>args. mode \<noteq> RxDutyCycle args" "ch6_irq_mask c = 0xFFFF"
  obtains c' where "sx126x_do_rx chip6_hw emulated_sx1261_config mode c = Some (Inr (), c')" "delivered6 rx c'"
    "\<exists>s. ch6_irq_status c' = s OR 2"
proof -
  define c1 where "c1 = snd (the (set_lora_symbol_num_timeout chip6_hw (case mode of RxSingle n \<Rightarrow> n | _ \<Rightarrow> 0) c))"
  have s: "set_lora_symbol_num_timeout chip6_hw (case mode of RxSingle n \<Rightarrow> n | _ \<Rightarrow> 0) c = Some (Inr (), c1)"
    by (simp add: c1_def emu6_symb)
  have c1: "ch6_pending_rx c1 = Some rx" "length (ch6_buffer c1) = 256" "ch6_irq_mask c1 = 0xFFFF" "ch6_tx_base_addr c1 = 0"
    using assms by (auto simp: c1_def emu6_symb)
  define c' where "c' = raise_irq6 2 (c1\<lparr>ch6_mode := Chip6Rx, ch6_pending_rx := None,
      ch6_buffer := pr6_payload rx @ drop (length (pr6_payload rx)) (ch6_buffer c1), ch6_rx_len := of_nat (length (pr6_payload rx)),
      ch6_registers := (ch6_registers c1)(0x8AC \<mapsto> 0x96, REG_RSSI_SHADOW \<mapsto> ucast (-2 * pr6_rssi_dbm rx),
        REG_SNR_SHADOW \<mapsto> ucast (4 * pr6_snr_db rx))\<rparr>)"
  have "sx126x_do_rx chip6_hw emulated_sx1261_config mode c = Some (Inr (), c')"
  proof (cases mode)
    case (RxSingle n)
    then show ?thesis using s c1 assms(2)
      by (simp add: sx126x_do_rx_def run_defs emulated_sx1261_config_def exec6 exec_set_rx_def c'_def)
  next
    case RxContinuous
    then show ?thesis using s c1 assms(2)
      by (simp add: sx126x_do_rx_def run_defs emulated_sx1261_config_def exec6 exec_set_rx_def c'_def)
  qed (use assms(5) in simp)
  moreover have "delivered6 rx c'" "\<exists>s. ch6_irq_status c' = s OR 2"
    using c1 assms(2) by (auto simp: delivered6_def c'_def raise_irq6_def REG_RSSI_SHADOW_def REG_SNR_SHADOW_def)
  ultimately show thesis using that by blast
qed

lemma emu6_read_payload:
  assumes "delivered6 rx c" "length (pr6_payload rx) \<le> 255" "length (pr6_payload rx) \<le> length buf" "\<not> pp_implicit_header p"
  shows "sx126x_get_rx_payload chip6_hw p (buf, c) =
    Some (Inr (of_nat (length (pr6_payload rx))), pr6_payload rx @ drop (length (pr6_payload rx)) buf, c)"
proof -
  have n: "unat (of_nat (length (pr6_payload rx)) :: u8) = length (pr6_payload rx)"
    using assms(2) by (simp add: unat_of_nat take_bit_nat_eq_self)
  show ?thesis using assms
    by (simp add: sx126x_get_rx_payload_def run_defs with_array_def exec6 replicate_few on_prefix_def n delivered6_def is_op_error_def
        idx_def)
qed

lemma emu6_read_status:
  assumes "delivered6 rx c"
  shows "sx126x_get_rx_packet_status chip6_hw c = Some (Inr \<lparr>ps_rssi = sx126x_rssi (ucast (-2 * pr6_rssi_dbm rx)),
    ps_snr = sx126x_snr (ucast (4 * pr6_snr_db rx))\<rparr>, c)"
  using assms by (simp add: sx126x_get_rx_packet_status_def run_defs with_array_def exec6 replicate_few is_op_error_def
     reg_read6_def delivered6_def)

lemma rx_done_bit: "irq6_is_set Irq6_RxDone (x OR 2)"
  by (simp add: irq6_is_set_def)

lemma emu6_rx_run:
  assumes "warm6 l" "lora_mode l = Receive mode" "\<forall>args. mode \<noteq> RxDutyCycle args" "ch6_irq_mask (lora_kind l) = 0xFFFF"
    and "ch6_pending_rx (lora_kind l) = Some rx" "length (pr6_payload rx) \<le> 255" "length (pr6_payload rx) \<le> length buf"
    and "\<not> pp_implicit_header p"
  obtains l' where "lora_rx kind6 p (buf, l) = Some (Inr (of_nat (length (pr6_payload rx)),
      \<lparr>ps_rssi = sx126x_rssi (ucast (-2 * pr6_rssi_dbm rx)), ps_snr = sx126x_snr (ucast (4 * pr6_snr_db rx))\<rparr>),
    pr6_payload rx @ drop (length (pr6_payload rx)) buf, l')" "warm6 l'"
proof -
  obtain c where c: "sx126x_do_rx chip6_hw emulated_sx1261_config mode (lora_kind l) = Some (Inr (), c)" "delivered6 rx c"
    "\<exists>s. ch6_irq_status c = s OR 2"
    by (rule emu6_do_rx [OF assms(5,6) _ _ assms(3,4)]) (use assms(1) in \<open>auto simp: warm6_def\<close>)
  have "\<exists>c'. sx126x_process_irq_event chip6_hw (Receive mode) True (None, c) = Some (Inr (Some IrqDone), None, c') \<and>
      delivered6 rx c'"
    using c(2,3) by (cases mode) (auto simp: sx126x_process_irq_event_def run_defs sx126x_decode_irq_def rx_done_bit
      handle_implicit_header_mode_def delivered6_def REG_RSSI_SHADOW_def REG_SNR_SHADOW_def)
  then obtain c' where c': "sx126x_process_irq_event chip6_hw (Receive mode) True (None, c) = Some (Inr (Some IrqDone), None, c')"
    "delivered6 rx c'" by blast
  have "lora_rx kind6 p (buf, l) = Some (Inr (of_nat (length (pr6_payload rx)),
      \<lparr>ps_rssi = sx126x_rssi (ucast (-2 * pr6_rssi_dbm rx)), ps_snr = sx126x_snr (ucast (4 * pr6_snr_db rx))\<rparr>),
    pr6_payload rx @ drop (length (pr6_payload rx)) buf, l\<lparr>lora_kind := c'\<rparr>)"
    using assms(2,6-8) c(1) c'
    by (simp add: lora_rx_def start_rx_def complete_rx_def run_defs, subst complete_rx_loop.simps)
       (simp add: run_defs kind_process_irq_def no_flag_def with_local_def received_packet_def on_kind_with_def emu6_read_payload
         emu6_read_status)
  moreover have "warm6 (l\<lparr>lora_kind := c'\<rparr>)" using assms(1) c'(2) by (simp add: warm6_def delivered6_def)
  ultimately show thesis by (rule that)
qed

end
