(* ===== verification/Types.thy ===== *)
theory Types
  imports Prelude
begin

text \<open>
  \<open>lorawan-encoding/src/types.rs\<close>: channel masks, data rates and the one-byte and
  three-byte wire types MAC commands are made of. A \<open>ChannelMask<N>\<close> is its array of
  \<open>N\<close> bytes (\<open>N\<close> is an argument where the code's const generic is not fixed by the
  value); an index outside it panics, as in Rust.
\<close>

text \<open>The error type of \<open>maccommands.rs\<close>, which \<open>types.rs\<close> uses.\<close>

datatype mac_error = UnknownMacCommand | BufferTooShort | InvalidIndex | InvalidDataRateRange | RFU

section \<open>Channel masks\<close>

type_synonym channel_mask = bytes

definition channel_mask_default :: "nat \<Rightarrow> channel_mask" where
  "channel_mask_default n = replicate n 0xFF"

definition mask_new_from_raw :: "nat \<Rightarrow> bytes \<Rightarrow> channel_mask run" where
  "mask_new_from_raw n data = subslice data 0 n"

definition mask_new :: "nat \<Rightarrow> bytes \<Rightarrow> (mac_error + channel_mask) run" where
  "mask_new n data =
     (if length data < n then Some (Inl BufferTooShort)
      else map_option Inr (mask_new_from_raw n data))"

definition set_bank :: "channel_mask \<Rightarrow> nat \<Rightarrow> u8 \<Rightarrow> channel_mask run" where
  "set_bank m index v = set_idx m index v"

definition mask_flag :: "nat \<Rightarrow> u8" where
  "mask_flag channel = push_bit (channel mod 8) 1"

definition set_channel :: "channel_mask \<Rightarrow> nat \<Rightarrow> bool \<Rightarrow> channel_mask run" where
  "set_channel m channel on = do {
     b \<leftarrow> idx m (channel div 8);
     set_idx m (channel div 8)
       (if on then b OR mask_flag channel else b AND NOT (mask_flag channel))}"

definition mask_get_index :: "channel_mask \<Rightarrow> nat \<Rightarrow> u8 run" where
  "mask_get_index m index = idx m index"

definition channel_enabled :: "channel_mask \<Rightarrow> nat \<Rightarrow> bool run" where
  "channel_enabled m index = do {
     b \<leftarrow> idx m (index div 8);
     Some (b AND mask_flag index \<noteq> 0)}"

definition is_enabled :: "channel_mask \<Rightarrow> nat \<Rightarrow> (mac_error + bool) run" where
  "is_enabled m index =
     (if index > length m * 8 - 1 then Some (Inl InvalidIndex)
      else map_option Inr (channel_enabled m index))"

definition mask_statuses :: "nat \<Rightarrow> channel_mask \<Rightarrow> bool list run" where
  "mask_statuses k m = those (map (channel_enabled m) [0..<k])"

text \<open>The channel a mask enables, as a set; the specification of the mask operations.\<close>

definition mask_on :: "channel_mask \<Rightarrow> nat \<Rightarrow> bool" where
  "mask_on m c \<longleftrightarrow> c div 8 < length m \<and> bit (m ! (c div 8)) (c mod 8)"

lemma and_mask_flag: "(b AND mask_flag c \<noteq> 0) = bit b (c mod 8)"
  by (simp add: mask_flag_def bit_iff_and_push_bit_not_eq_0)

lemma channel_enabled_in [simp]:
  "c < 8 * length m \<Longrightarrow> channel_enabled m c = Some (mask_on m c)"
  by (simp add: channel_enabled_def mask_on_def and_mask_flag div_less_iff_less_mult mult.commute)

lemma channel_enabled_out [simp]: "8 * length m \<le> c \<Longrightarrow> channel_enabled m c = None"
  by (simp add: channel_enabled_def less_eq_div_iff_mult_less_eq mult.commute)

lemma mask_on_less: "mask_on m c \<Longrightarrow> c < 8 * length m"
  by (simp add: mask_on_def div_less_iff_less_mult mult.commute)

lemma is_enabled_eq:
  "0 < length m \<Longrightarrow> is_enabled m c = Some (if c < 8 * length m then Inr (mask_on m c) else Inl InvalidIndex)"
  by (cases m) (auto simp: is_enabled_def)

lemma set_channel_in:
  assumes "c < 8 * length m"
  shows "\<exists>m'. set_channel m c on = Some m' \<and> length m' = length m \<and>
              (\<forall>d. mask_on m' d = (if d = c then on else mask_on m d))"
proof -
  have i: "c div 8 < length m" using assms by (simp add: div_less_iff_less_mult mult.commute)
  let ?b = "m ! (c div 8)"
  let ?v = "if on then ?b OR mask_flag c else ?b AND NOT (mask_flag c)"
  have bits: "bit ?v k = (if k = c mod 8 then on else bit ?b k)" if "k < 8" for k
    using that by (auto simp: mask_flag_def bit_simps)
  have "mask_on (m[c div 8 := ?v]) d = (if d = c then on else mask_on m d)" for d
  proof (cases "d div 8 = c div 8")
    case True
    then have "d = c \<longleftrightarrow> d mod 8 = c mod 8" by (metis div_mult_mod_eq)
    then show ?thesis using True i bits [of "d mod 8"] by (simp add: mask_on_def)
  next
    case False
    then have "d \<noteq> c" by auto
    then show ?thesis using False by (simp add: mask_on_def)
  qed
  moreover have "set_channel m c on = Some (m[c div 8 := ?v])"
    using i by (simp add: set_channel_def)
  ultimately show ?thesis by simp
qed

lemma set_channel_out [simp]: "8 * length m \<le> c \<Longrightarrow> set_channel m c on = None"
  by (simp add: set_channel_def less_eq_div_iff_mult_less_eq mult.commute)

lemma set_bank_length: "set_bank m i v = Some m' \<Longrightarrow> length m' = length m"
  by (auto simp: set_bank_def set_idx_eq_Some)

lemma those_map_Some: "(\<And>x. x \<in> set xs \<Longrightarrow> f x = Some (g x)) \<Longrightarrow> those (map f xs) = Some (map g xs)"
  by (induction xs) simp_all

lemma those_length: "those xs = Some ys \<Longrightarrow> length ys = length xs"
  by (induction xs arbitrary: ys) (auto split: option.splits)

lemma mask_statuses_in:
  "k \<le> 8 * length m \<Longrightarrow> mask_statuses k m = Some (map (mask_on m) [0..<k])"
  by (auto simp: mask_statuses_def intro!: those_map_Some)

section \<open>Data rates\<close>

datatype DR = DR0 | DR1 | DR2 | DR3 | DR4 | DR5 | DR6 | DR7
  | DR8 | DR9 | DR10 | DR11 | DR12 | DR13 | DR14 | DR15

text \<open>\<open>dr as u8\<close>\<close>

fun dr_u8 :: "DR \<Rightarrow> u8" where
  "dr_u8 DR0 = 0" | "dr_u8 DR1 = 1" | "dr_u8 DR2 = 2" | "dr_u8 DR3 = 3"
| "dr_u8 DR4 = 4" | "dr_u8 DR5 = 5" | "dr_u8 DR6 = 6" | "dr_u8 DR7 = 7"
| "dr_u8 DR8 = 8" | "dr_u8 DR9 = 9" | "dr_u8 DR10 = 10" | "dr_u8 DR11 = 11"
| "dr_u8 DR12 = 12" | "dr_u8 DR13 = 13" | "dr_u8 DR14 = 14" | "dr_u8 DR15 = 15"

definition dr_list :: "DR list" where
  "dr_list = [DR0, DR1, DR2, DR3, DR4, DR5, DR6, DR7, DR8, DR9, DR10, DR11, DR12, DR13, DR14, DR15]"

text \<open>\<open>DR::from(u8)\<close>: the match on \<open>v & 0xf\<close>, whose last arm is unreachable.\<close>

definition dr_from :: "u8 \<Rightarrow> DR" where
  "dr_from v = dr_list ! unat (v AND 0xf)"

text \<open>\<open>dr as usize\<close>\<close>

definition dr_idx :: "DR \<Rightarrow> nat" where
  "dr_idx d = unat (dr_u8 d)"

definition offset_sub :: "DR \<Rightarrow> u8 \<Rightarrow> DR" where
  "offset_sub d v = dr_from (if dr_u8 d < v then 0 else dr_u8 d - v)"

lemma dr_idx_simps [simp]:
  "dr_idx DR0 = 0" "dr_idx DR1 = 1" "dr_idx DR2 = 2" "dr_idx DR3 = 3"
  "dr_idx DR4 = 4" "dr_idx DR5 = 5" "dr_idx DR6 = 6" "dr_idx DR7 = 7"
  "dr_idx DR8 = 8" "dr_idx DR9 = 9" "dr_idx DR10 = 10" "dr_idx DR11 = 11"
  "dr_idx DR12 = 12" "dr_idx DR13 = 13" "dr_idx DR14 = 14" "dr_idx DR15 = 15"
  by (simp_all add: dr_idx_def)

lemma dr_idx_less [simp]: "dr_idx d < 16"
  by (cases d) simp_all

lemma dr_from_u8 [simp]: "dr_from (dr_u8 d) = d"
  by (cases d) (simp_all add: dr_from_def dr_list_def)

lemma dr_u8_inj: "dr_u8 a = dr_u8 b \<longleftrightarrow> a = b"
  by (metis dr_from_u8)

lemma dr_idx_inj: "dr_idx a = dr_idx b \<longleftrightarrow> a = b"
  by (metis dr_idx_def dr_u8_inj unsigned_word_eqI)

lemma dr_idx_from: "dr_idx (dr_from v) = unat v mod 16"
proof -
  have "unat (v AND 0xf) = unat v mod 16"
    by (rule unat_and_0xf)
  moreover have "dr_idx (dr_list ! k) = k" if "k < 16" for k
    using that by (auto simp: dr_list_def less_Suc_eq numeral_eq_Suc)
  ultimately show ?thesis by (simp add: dr_from_def)
qed

lemma dr_idx_offset_sub: "dr_idx (offset_sub d v) = dr_idx d - unat v"
proof (cases "dr_u8 d < v")
  case True
  then show ?thesis by (simp add: offset_sub_def dr_idx_from) (simp add: dr_idx_def word_less_nat_alt)
next
  case False
  then have "unat (dr_u8 d - v) = dr_idx d - unat v"
    by (simp add: dr_idx_def unat_sub word_le_nat_alt word_less_nat_alt)
  moreover have "dr_idx d - unat v < 16" using dr_idx_less [of d] by linarith
  ultimately show ?thesis using False by (simp add: offset_sub_def dr_idx_from)
qed

instantiation DR :: linorder
begin
definition less_eq_DR :: "DR \<Rightarrow> DR \<Rightarrow> bool" where
  "less_eq_DR a b \<longleftrightarrow> dr_idx a \<le> dr_idx b"
definition less_DR :: "DR \<Rightarrow> DR \<Rightarrow> bool" where
  "less_DR a b \<longleftrightarrow> dr_idx a < dr_idx b"
instance
  by standard (auto simp: less_eq_DR_def less_DR_def dr_idx_inj)
end

section \<open>Data rate ranges, downlink settings, redundancy and frequencies\<close>

datatype data_rate_range = DataRateRange (drr_raw: u8)

definition drr_can_build_from :: "u8 \<Rightarrow> mac_error + unit" where
  "drr_can_build_from byte =
     (if drop_bit 4 byte < byte AND 0x0f then Inl InvalidDataRateRange else Inr ())"

definition drr_new :: "u8 \<Rightarrow> mac_error + data_rate_range" where
  "drr_new byte =
     (case drr_can_build_from byte of Inl e \<Rightarrow> Inl e | Inr _ \<Rightarrow> Inr (DataRateRange byte))"

definition drr_new_range :: "DR \<Rightarrow> DR \<Rightarrow> data_rate_range" where
  "drr_new_range mn mx = DataRateRange (push_bit 4 (dr_u8 mx) OR dr_u8 mn)"

definition drr_max :: "data_rate_range \<Rightarrow> u8" where
  "drr_max r = drop_bit 4 (drr_raw r)"

definition drr_min :: "data_rate_range \<Rightarrow> u8" where
  "drr_min r = drr_raw r AND 0x0f"

lemma drr_new_range_bounds [simp]:
  "drr_min (drr_new_range a b) = dr_u8 a" "drr_max (drr_new_range a b) = dr_u8 b"
  by (cases a; cases b; simp add: drr_min_def drr_max_def drr_new_range_def)+

datatype dl_settings = DLSettings (dls_raw: u8)

definition rx1_dr_offset :: "dl_settings \<Rightarrow> u8" where
  "rx1_dr_offset s = drop_bit 4 (dls_raw s) AND 0x07"

definition rx2_data_rate :: "dl_settings \<Rightarrow> DR" where
  "rx2_data_rate s = dr_from (dls_raw s AND 0xf)"

datatype redundancy = Redundancy (red_raw: u8)

definition channel_mask_control :: "redundancy \<Rightarrow> u8" where
  "channel_mask_control r = drop_bit 4 (red_raw r) AND 0x07"

definition number_of_transmissions :: "redundancy \<Rightarrow> u8" where
  "number_of_transmissions r = red_raw r AND 0x0f"

text \<open>\<open>types::Frequency\<close> is a view of three bytes; its value is in Hz.\<close>

definition tfreq_new :: "bytes \<Rightarrow> bytes option" where
  "tfreq_new bs = (if length bs \<noteq> 3 then None else Some bs)"

definition tfreq_value :: "bytes \<Rightarrow> u32 run" where
  "tfreq_value bs = do {
     b2 \<leftarrow> idx bs 2; b1 \<leftarrow> idx bs 1; b0 \<leftarrow> idx bs 0;
     Some ((push_bit 16 (ucast b2) + push_bit 8 (ucast b1) + ucast b0) * 100)}"

end
