(* ===== verification/WireFields.thy ===== *)
theory WireFields
  imports Prelude
begin

text \<open>
  The fixed-size wire fields of \<open>lorawan-encoding/src/parser.rs\<close> (macro
  \<open>wire_value_newtype!\<close>): the bytes in transmission order, least significant first,
  with conversions to and from the logical integer and the hexadecimal text form.
  A field is its byte list; the macro's parameters \<open>$n\<close> and \<open>$int\<close> are the length
  argument and the word type. The locale \<open>wire_field\<close> is the contract of the macro, and
  every instantiation of the macro interprets it.
\<close>

section \<open>The macro\<close>

text \<open>\<open>arr\<close> copies a slice into an array of \<open>N\<close> bytes and panics on another length.\<close>

definition arr :: "nat \<Rightarrow> bytes \<Rightarrow> bytes run" where
  "arr n bs = copy_range (replicate n 0) 0 n bs"

lemma arr_eq: "arr n bs = (if length bs = n then Some bs else None)"
  by (simp add: arr_def copy_range_def)

definition wire_from_value :: "nat \<Rightarrow> 'a::len word \<Rightarrow> bytes" where
  "wire_from_value n v = take n (to_le_bytes v)"

definition wire_value :: "nat \<Rightarrow> bytes \<Rightarrow> 'a::len word" where
  "wire_value n bs = from_le_bytes (bs @ replicate (LENGTH('a) div 8 - n) 0)"

locale wire_field =
  fixes n :: nat
    and from_value :: "'a::len word \<Rightarrow> bytes"
    and val :: "bytes \<Rightarrow> 'a word"
  assumes length_from_value: "length (from_value v) = n"
    and value_from_value: "val (from_value v) = take_bit (8 * n) v"
    and from_value_value: "length bs = n \<Longrightarrow> from_value (val bs) = bs"
begin

lemma value_inj: "length a = n \<Longrightarrow> length b = n \<Longrightarrow> val a = val b \<longleftrightarrow> a = b"
  by (metis from_value_value)

lemma value_take_bit: "length bs = n \<Longrightarrow> take_bit (8 * n) (val bs) = val bs"
  by (metis from_value_value value_from_value)

lemma value_bound: "length bs = n \<Longrightarrow> unat (val bs) < 2 ^ (8 * n)"
proof -
  assume "length bs = n"
  then have "unat (val bs) = take_bit (8 * n) (unat (val bs))"
    by (metis value_take_bit unsigned_take_bit_eq)
  then show ?thesis by (metis take_bit_nat_less_exp)
qed

lemma from_value_eq_iff: "from_value v = from_value w \<longleftrightarrow> take_bit (8 * n) v = take_bit (8 * n) w"
  by (metis from_value_value length_from_value value_from_value)

end

lemma wire_field_macro:
  "8 * n \<le> LENGTH('a) \<Longrightarrow> wire_field n (wire_from_value n :: 'a::len word \<Rightarrow> bytes) (wire_value n)"
proof
  assume n: "8 * n \<le> LENGTH('a)"
  then have n': "n \<le> LENGTH('a) div 8" by (simp add: less_eq_div_iff_mult_less_eq mult.commute)
  show "length (wire_from_value n v) = n" for v :: "'a word"
    using n' by (simp add: wire_from_value_def)
  show "wire_value n (wire_from_value n v) = take_bit (8 * n) v" for v :: "'a word"
    using n' by (simp add: wire_from_value_def wire_value_def le_simps)
  show "wire_from_value n (wire_value n bs :: 'a word) = bs" if "length bs = n" for bs
    using n that to_le_bytes_from_le_bytes [of bs, where 'a = 'a]
    by (simp add: wire_from_value_def wire_value_def le_simps)
qed

section \<open>The fields\<close>

definition dev_addr_from_value :: "u32 \<Rightarrow> bytes" where "dev_addr_from_value = wire_from_value 4"
definition dev_addr_value :: "bytes \<Rightarrow> u32" where "dev_addr_value = wire_value 4"
definition dev_eui_from_value :: "u64 \<Rightarrow> bytes" where "dev_eui_from_value = wire_from_value 8"
definition dev_eui_value :: "bytes \<Rightarrow> u64" where "dev_eui_value = wire_value 8"
definition join_eui_from_value :: "u64 \<Rightarrow> bytes" where "join_eui_from_value = wire_from_value 8"
definition join_eui_value :: "bytes \<Rightarrow> u64" where "join_eui_value = wire_value 8"
definition mc_addr_from_value :: "u32 \<Rightarrow> bytes" where "mc_addr_from_value = wire_from_value 4"
definition mc_addr_value :: "bytes \<Rightarrow> u32" where "mc_addr_value = wire_value 4"
definition dev_nonce_from_value :: "u16 \<Rightarrow> bytes" where "dev_nonce_from_value = wire_from_value 2"
definition dev_nonce_value :: "bytes \<Rightarrow> u16" where "dev_nonce_value = wire_value 2"
definition join_nonce_from_value :: "u32 \<Rightarrow> bytes" where "join_nonce_from_value = wire_from_value 3"
definition join_nonce_value :: "bytes \<Rightarrow> u32" where "join_nonce_value = wire_value 3"
definition net_id_from_value :: "u32 \<Rightarrow> bytes" where "net_id_from_value = wire_from_value 3"
definition net_id_value :: "bytes \<Rightarrow> u32" where "net_id_value = wire_value 3"

interpretation dev_addr: wire_field 4 dev_addr_from_value dev_addr_value
  unfolding dev_addr_from_value_def dev_addr_value_def by (rule wire_field_macro) simp

interpretation dev_eui: wire_field 8 dev_eui_from_value dev_eui_value
  unfolding dev_eui_from_value_def dev_eui_value_def by (rule wire_field_macro) simp

interpretation join_eui: wire_field 8 join_eui_from_value join_eui_value
  unfolding join_eui_from_value_def join_eui_value_def by (rule wire_field_macro) simp

interpretation mc_addr: wire_field 4 mc_addr_from_value mc_addr_value
  unfolding mc_addr_from_value_def mc_addr_value_def by (rule wire_field_macro) simp

interpretation dev_nonce: wire_field 2 dev_nonce_from_value dev_nonce_value
  unfolding dev_nonce_from_value_def dev_nonce_value_def by (rule wire_field_macro) simp

interpretation join_nonce: wire_field 3 join_nonce_from_value join_nonce_value
  unfolding join_nonce_from_value_def join_nonce_value_def by (rule wire_field_macro) simp

interpretation net_id: wire_field 3 net_id_from_value net_id_value
  unfolding net_id_from_value_def net_id_value_def by (rule wire_field_macro) simp

definition nwk_id :: "bytes \<Rightarrow> u8 run" where
  "nwk_id dev_addr = map_option (drop_bit 1) (idx dev_addr 3)"

lemma nwk_id_value:
  "length a = 4 \<Longrightarrow> nwk_id a = Some (ucast (drop_bit 25 (dev_addr_value a)))"
proof -
  assume l: "length a = 4"
  have "drop_bit 1 (a ! 3) = (ucast (drop_bit 25 (dev_addr_value a)) :: u8)"
  proof (rule bit_word_eqI)
    fix k assume "k < LENGTH(8)"
    then have k: "k < 8" by simp
    show "bit (drop_bit 1 (a ! 3)) k = bit (ucast (drop_bit 25 (dev_addr_value a)) :: u8) k"
    proof (cases "k = 7")
      case True
      then show ?thesis by (simp add: bit_simps impossible_bit)
    next
      case False
      then have "(25 + k) div 8 = 3" "(25 + k) mod 8 = Suc k" using k by presburger+
      then show ?thesis using l k False
        by (simp add: bit_simps dev_addr_value_def wire_value_def bit_from_le_bytes)
    qed
  qed
  then show ?thesis using l by (simp add: nwk_id_def)
qed

section \<open>Frequencies\<close>

definition freq_from_hz :: "u32 \<Rightarrow> bytes" where
  "freq_from_hz hz = take 3 (to_le_bytes (hz div 100))"

definition freq_hz :: "bytes \<Rightarrow> u32" where
  "freq_hz f = from_le_bytes (f @ [0]) * 100"

lemma freq_raw: "from_le_bytes (f @ [0]) = (from_le_bytes f :: u32)"
  using from_le_bytes_zeros [of f 1] by simp

lemma length_freq_from_hz [simp]: "length (freq_from_hz hz) = 3"
  by (simp add: freq_from_hz_def)

lemma freq_hz_from_hz:
  assumes "unat hz < 2 ^ 24 * 100"
  shows "unat (freq_hz (freq_from_hz hz)) = unat hz div 100 * 100"
proof -
  have lt: "unat (hz div 100) < 2 ^ 24" using assms by (simp add: unat_div)
  have "take_bit 24 (hz div 100) = hz div 100"
    by (rule word_unat_eq_iff [THEN iffD2])
       (use lt in \<open>simp add: unsigned_take_bit_eq take_bit_nat_eq_self\<close>)
  then have "freq_hz (freq_from_hz hz) = hz div 100 * 100"
    using from_le_bytes_to_le_bytes [of 3 "hz div 100"]
    by (simp add: freq_hz_def freq_from_hz_def freq_raw)
  moreover have "unat (hz div 100 * 100) = unat (hz div 100) * 100"
    using lt by (simp add: unat_mult_lem [THEN iffD1])
  ultimately show ?thesis by (simp add: unat_div)
qed

lemma freq_from_hz_hz:
  assumes "length f = 3"
  shows "freq_from_hz (freq_hz f) = f"
proof -
  let ?r = "from_le_bytes f :: u32"
  have tk: "take 3 (to_le_bytes ?r) = f"
    using to_le_bytes_from_le_bytes [of f, where 'a = 32] assms by simp
  have "?r = take_bit 24 ?r"
    by (rule bit_word_eqI) (use assms in \<open>auto simp: bit_from_le_bytes bit_simps\<close>)
  then have "unat ?r < 2 ^ 24"
    by (metis unsigned_take_bit_eq take_bit_nat_less_exp)
  then have "unat (?r * 100) = unat ?r * 100" by (simp add: unat_word_ariths)
  then have "?r * 100 div 100 = ?r"
    by (simp add: word_unat_eq_iff unat_div)
  then show ?thesis using tk by (simp add: freq_from_hz_def freq_hz_def freq_raw)
qed

section \<open>FCtrl\<close>

record fctrl =
  fctrl_byte :: u8
  fctrl_uplink :: bool

definition fctrl_new :: "u8 \<Rightarrow> bool \<Rightarrow> fctrl" where
  "fctrl_new b up = \<lparr>fctrl_byte = b, fctrl_uplink = up\<rparr>"

definition fctrl_adr :: "fctrl \<Rightarrow> bool" where
  "fctrl_adr f \<longleftrightarrow> fctrl_byte f AND 0x80 \<noteq> 0"

definition fctrl_adr_ack_req :: "fctrl \<Rightarrow> bool" where
  "fctrl_adr_ack_req f \<longleftrightarrow> fctrl_uplink f \<and> fctrl_byte f AND 0x40 \<noteq> 0"

definition fctrl_ack :: "fctrl \<Rightarrow> bool" where
  "fctrl_ack f \<longleftrightarrow> fctrl_byte f AND 0x20 \<noteq> 0"

definition fctrl_f_pending :: "fctrl \<Rightarrow> bool" where
  "fctrl_f_pending f \<longleftrightarrow> \<not> fctrl_uplink f \<and> fctrl_byte f AND 0x10 \<noteq> 0"

definition fctrl_f_opts_len :: "fctrl \<Rightarrow> nat" where
  "fctrl_f_opts_len f = unat (fctrl_byte f AND 0x0f)"

lemma u8_test_bits:
  "(b AND 0x80 \<noteq> 0) = bit (b :: u8) 7" "(b AND 0x40 \<noteq> 0) = bit b 6"
  "(b AND 0x20 \<noteq> 0) = bit b 5" "(b AND 0x10 \<noteq> 0) = bit b 4"
  using bit_iff_and_push_bit_not_eq_0 [of b 7] bit_iff_and_push_bit_not_eq_0 [of b 6]
    bit_iff_and_push_bit_not_eq_0 [of b 5] bit_iff_and_push_bit_not_eq_0 [of b 4]
  by (simp_all add: push_bit_eq_mult)

section \<open>Hexadecimal text\<close>

text \<open>\<open>Display\<close> writes \<open>{:0width$x}\<close> of the value with \<open>width = 2 * $n\<close>. \<open>FromStr\<close> checks the
  length and calls \<open>from_str_radix(s, 16)\<close>, which (like the standard library's) takes an optional
  leading \<open>+\<close>, digits of either case, and fails on overflow. Strings are byte strings.\<close>

definition hex_char :: "nat \<Rightarrow> char" where
  "hex_char d = ''0123456789abcdef'' ! d"

fun hex_digits :: "nat \<Rightarrow> string" where
  "hex_digits v = (if v < 16 then [hex_char v] else hex_digits (v div 16) @ [hex_char (v mod 16)])"

declare hex_digits.simps [simp del]

definition wire_display :: "nat \<Rightarrow> nat \<Rightarrow> string" where
  "wire_display n v = (let s = hex_digits v in replicate (2 * n - length s) (CHR ''0'') @ s)"

definition to_digit16 :: "char \<Rightarrow> nat option" where
  "to_digit16 c = (let k = of_char c :: nat in
     if 48 \<le> k \<and> k \<le> 57 then Some (k - 48)
     else if 97 \<le> k \<and> k \<le> 102 then Some (k - 87)
     else if 65 \<le> k \<and> k \<le> 70 then Some (k - 55)
     else None)"

fun radix16_digits :: "nat \<Rightarrow> nat \<Rightarrow> string \<Rightarrow> nat option" where
  "radix16_digits bound acc [] = Some acc"
| "radix16_digits bound acc (c # cs) = (case to_digit16 c of None \<Rightarrow> None
     | Some d \<Rightarrow> if 16 * acc + d < bound then radix16_digits bound (16 * acc + d) cs else None)"

definition from_str_radix16 :: "nat \<Rightarrow> string \<Rightarrow> nat option" where
  "from_str_radix16 bound s = (case s of
      [] \<Rightarrow> None
    | c # cs \<Rightarrow> if c = CHR ''+'' then (if cs = [] then None else radix16_digits bound 0 cs)
                else radix16_digits bound 0 s)"

datatype parse_hex_error = ParseHexError

definition wire_from_str :: "nat \<Rightarrow> string \<Rightarrow> parse_hex_error + bytes" where
  "wire_from_str n s =
     (if length s \<noteq> 2 * n then Inl ParseHexError
      else case from_str_radix16 (2 ^ (if n \<le> 2 then 16 else if n \<le> 4 then 32 else 64)) s of
          None \<Rightarrow> Inl ParseHexError
        | Some v \<Rightarrow> Inr (wire_from_value n (word_of_nat v :: u64)))"

lemma hex_char_table:
  "list_all (\<lambda>d. to_digit16 (hex_char d) = Some d \<and> hex_char d \<noteq> CHR ''+'') [0..<16]"
  by code_simp

lemma to_digit16_hex_char: "d < 16 \<Longrightarrow> to_digit16 (hex_char d) = Some d"
  using hex_char_table by (simp add: list_all_iff)

lemma hex_char_not_plus: "d < 16 \<Longrightarrow> hex_char d \<noteq> CHR ''+''"
  using hex_char_table by (simp add: list_all_iff)

lemma from_str_radix16_no_plus:
  "s \<noteq> [] \<Longrightarrow> hd s \<noteq> CHR ''+'' \<Longrightarrow> from_str_radix16 b s = radix16_digits b 0 s"
  by (cases s) (simp_all add: from_str_radix16_def)

lemma radix16_append:
  "radix16_digits b acc (xs @ ys) = Option.bind (radix16_digits b acc xs) (\<lambda>a. radix16_digits b a ys)"
  by (induction b acc xs rule: radix16_digits.induct) (auto split: option.splits)

lemma radix16_hex_digits: "v < b \<Longrightarrow> radix16_digits b 0 (hex_digits v) = Some v"
proof (induction v rule: hex_digits.induct)
  case (1 v)
  show ?case
  proof (cases "v < 16")
    case True
    then show ?thesis using 1 by (subst hex_digits.simps) (simp add: to_digit16_hex_char)
  next
    case False
    then have "radix16_digits b 0 (hex_digits (v div 16)) = Some (v div 16)"
      using 1 by simp
    then show ?thesis using False 1(2)
      by (subst hex_digits.simps) (simp add: radix16_append to_digit16_hex_char)
  qed
qed

lemma radix16_zeros: "0 < b \<Longrightarrow> radix16_digits b 0 (replicate k (CHR ''0'')) = Some 0"
  using to_digit16_hex_char [of 0] by (induction k) (simp_all add: hex_char_def)

lemma length_hex_digits: "0 < k \<Longrightarrow> v < 16 ^ k \<Longrightarrow> length (hex_digits v) \<le> k"
proof (induction k arbitrary: v)
  case 0
  then show ?case by simp
next
  case (Suc k)
  show ?case
  proof (cases "v < 16")
    case True
    then show ?thesis by (subst hex_digits.simps) simp
  next
    case False
    then have "0 < k" using Suc.prems by (cases k) auto
    moreover have "v div 16 < 16 ^ k" using Suc.prems by (simp add: div_less_iff_less_mult mult.commute)
    ultimately show ?thesis using Suc.IH [of "v div 16"] False by (subst hex_digits.simps) simp
  qed
qed

lemma hex_digits_no_plus: "CHR ''+'' \<notin> set (hex_digits v)"
proof (induction v rule: hex_digits.induct)
  case (1 v)
  have "hex_char v \<noteq> CHR ''+''" if "v < 16" using that by (rule hex_char_not_plus)
  moreover have "hex_char (v mod 16) \<noteq> CHR ''+''" by (rule hex_char_not_plus) simp
  ultimately show ?case
    using 1 by (subst hex_digits.simps) (simp, metis)
qed

lemma zeros_no_plus: "CHR ''+'' \<notin> set (replicate k (CHR ''0''))"
  by (induction k) simp_all

lemma wire_display_parse:
  assumes "0 < n" "v < 2 ^ (8 * n)" "v < b"
  shows "length (wire_display n v) = 2 * n \<and> from_str_radix16 b (wire_display n v) = Some v"
proof -
  have "v < 16 ^ (2 * n)" using assms(2) by (simp add: power_mult)
  then have len: "length (hex_digits v) \<le> 2 * n" using length_hex_digits [of "2 * n" v] assms by simp
  let ?s = "wire_display n v"
  have l: "length ?s = 2 * n" using len by (simp add: wire_display_def Let_def)
  have r: "radix16_digits b 0 ?s = Some v"
    using assms by (simp add: wire_display_def Let_def radix16_append radix16_zeros radix16_hex_digits)
  have ne: "?s \<noteq> []" using l assms(1) by auto
  have "CHR ''+'' \<notin> set ?s"
    unfolding wire_display_def Let_def set_append using hex_digits_no_plus zeros_no_plus by blast
  then have "hd ?s \<noteq> CHR ''+''" using hd_in_set [OF ne] by metis
  then show ?thesis using l r from_str_radix16_no_plus [OF ne] by metis
qed

section \<open>Properties\<close>

text \<open>The text form of every wire field round-trips: formatting the value of a field of 2, 3, 4
  or 8 bytes (all instances of the macro) as zero-padded hexadecimal and parsing that text gives back
  the same bytes.\<close>

theorem wire_text_roundtrip:
  assumes "n \<in> {2, 3, 4, 8}" "length bs = n"
  shows "wire_from_str n (wire_display n (unat (wire_value n bs :: u64))) = Inr bs"
proof -
  have n: "8 * n \<le> LENGTH(64)" "0 < n" using assms(1) by auto
  note wf = wire_field_macro [OF n(1)]
  let ?v = "unat (wire_value n bs :: u64)"
  let ?b = "2 ^ (if n \<le> 2 then 16 else if n \<le> 4 then 32 else 64) :: nat"
  have v: "?v < 2 ^ (8 * n)" by (rule wire_field.value_bound [OF wf assms(2)])
  also have "\<dots> \<le> ?b" using assms(1) by auto
  finally have "?v < ?b" .
  with wire_display_parse [OF n(2) v this] show ?thesis
    using wire_field.from_value_value [OF wf assms(2)] by (simp add: wire_from_str_def)
qed

lemma wire_text_roundtrip_witness:
  "wire_from_str 4 (wire_display 4 (unat (wire_value 4 [0x04, 0x03, 0x02, 0x01] :: u64)))
     = Inr [0x04, 0x03, 0x02, 0x01]"
  by (rule wire_text_roundtrip) simp_all

text \<open>The length check of \<open>FromStr\<close> does not make the text form unique: \<open>from_str_radix\<close> takes
  a leading plus sign, so a string of the right length that starts with \<open>+\<close> and has one digit less
  is accepted as a device address.\<close>

theorem wire_from_str_accepts_plus:
  "wire_from_str 4 ''+1234567'' = Inr (dev_addr_from_value 0x01234567)"
  by (simp add: wire_from_str_def from_str_radix16_def to_digit16_def dev_addr_from_value_def
      wire_from_value_def to_le_bytes_def upt_conv_Cons)

end
