(* ===== verification/MacCommands.thy ===== *)
theory MacCommands
  imports Types WireFields
begin

text \<open>
  \<open>lorawan-encoding/src/maccommands.rs\<close> with the code that the derive macro
  \<open>CommandHandler\<close> (\<open>lorawan-macros/src/lib.rs\<close>) generates for its two command sets: the
  framing of a MAC command stream, its iterator, and the payload accessors. A command
  carries its payload bytes; a zero-length one carries nothing. The locale \<open>command_set\<close>
  is what the iterator relies on, \<open>command_codec\<close> adds the serialised form; both command
  sets interpret them.
\<close>

datatype mac_parse_error = UnknownCid u8 | Truncated u8

section \<open>Framing\<close>

text \<open>The generated arm of \<open>parse_one\<close> for a command of fixed length.\<close>

definition fixed_arm :: "u8 \<Rightarrow> nat \<Rightarrow> (bytes \<Rightarrow> 'c) \<Rightarrow> bytes \<Rightarrow> mac_parse_error + ('c \<times> nat)" where
  "fixed_arm cid len mk data =
     (if length data < 1 + len then Inl (Truncated cid)
      else Inr (mk (take len (drop 1 data)), 1 + len))"

datatype downlink_cmd = LinkCheckAns bytes | LinkADRReq bytes | DutyCycleReq bytes
  | RXParamSetupReq bytes | DevStatusReq | NewChannelReq bytes | RXTimingSetupReq bytes
  | TXParamSetupReq bytes | DlChannelReq bytes | DeviceTimeAns bytes

definition downlink_parse_one :: "bytes \<Rightarrow> (mac_parse_error + (downlink_cmd \<times> nat)) run" where
  "downlink_parse_one data = do {
     cid \<leftarrow> idx data 0;
     Some (if cid = 0x02 then fixed_arm cid 2 LinkCheckAns data
       else if cid = 0x03 then fixed_arm cid 4 LinkADRReq data
       else if cid = 0x04 then fixed_arm cid 1 DutyCycleReq data
       else if cid = 0x05 then fixed_arm cid 4 RXParamSetupReq data
       else if cid = 0x06 then fixed_arm cid 0 (\<lambda>_. DevStatusReq) data
       else if cid = 0x07 then fixed_arm cid 5 NewChannelReq data
       else if cid = 0x08 then fixed_arm cid 1 RXTimingSetupReq data
       else if cid = 0x09 then fixed_arm cid 1 TXParamSetupReq data
       else if cid = 0x0A then fixed_arm cid 4 DlChannelReq data
       else if cid = 0x0D then fixed_arm cid 5 DeviceTimeAns data
       else Inl (UnknownCid cid))}"

fun downlink_cid :: "downlink_cmd \<Rightarrow> u8" where
  "downlink_cid (LinkCheckAns _) = 0x02"
| "downlink_cid (LinkADRReq _) = 0x03"
| "downlink_cid (DutyCycleReq _) = 0x04"
| "downlink_cid (RXParamSetupReq _) = 0x05"
| "downlink_cid DevStatusReq = 0x06"
| "downlink_cid (NewChannelReq _) = 0x07"
| "downlink_cid (RXTimingSetupReq _) = 0x08"
| "downlink_cid (TXParamSetupReq _) = 0x09"
| "downlink_cid (DlChannelReq _) = 0x0A"
| "downlink_cid (DeviceTimeAns _) = 0x0D"

fun downlink_bytes :: "downlink_cmd \<Rightarrow> bytes" where
  "downlink_bytes (LinkCheckAns p) = p"
| "downlink_bytes (LinkADRReq p) = p"
| "downlink_bytes (DutyCycleReq p) = p"
| "downlink_bytes (RXParamSetupReq p) = p"
| "downlink_bytes DevStatusReq = []"
| "downlink_bytes (NewChannelReq p) = p"
| "downlink_bytes (RXTimingSetupReq p) = p"
| "downlink_bytes (TXParamSetupReq p) = p"
| "downlink_bytes (DlChannelReq p) = p"
| "downlink_bytes (DeviceTimeAns p) = p"

text \<open>\<open>len()\<close>, the constant of the \<open>#[cmd]\<close> attribute, whatever bytes the command holds.\<close>

fun downlink_len :: "downlink_cmd \<Rightarrow> nat" where
  "downlink_len (LinkCheckAns _) = 2"
| "downlink_len (LinkADRReq _) = 4"
| "downlink_len (DutyCycleReq _) = 1"
| "downlink_len (RXParamSetupReq _) = 4"
| "downlink_len DevStatusReq = 0"
| "downlink_len (NewChannelReq _) = 5"
| "downlink_len (RXTimingSetupReq _) = 1"
| "downlink_len (TXParamSetupReq _) = 1"
| "downlink_len (DlChannelReq _) = 4"
| "downlink_len (DeviceTimeAns _) = 5"

datatype uplink_cmd = LinkCheckReq | LinkADRAns bytes | DutyCycleAns | RXParamSetupAns bytes
  | DevStatusAns bytes | NewChannelAns bytes | RXTimingSetupAns | TXParamSetupAns
  | DlChannelAns bytes | DeviceTimeReq

definition uplink_parse_one :: "bytes \<Rightarrow> (mac_parse_error + (uplink_cmd \<times> nat)) run" where
  "uplink_parse_one data = do {
     cid \<leftarrow> idx data 0;
     Some (if cid = 0x02 then fixed_arm cid 0 (\<lambda>_. LinkCheckReq) data
       else if cid = 0x03 then fixed_arm cid 1 LinkADRAns data
       else if cid = 0x04 then fixed_arm cid 0 (\<lambda>_. DutyCycleAns) data
       else if cid = 0x05 then fixed_arm cid 1 RXParamSetupAns data
       else if cid = 0x06 then fixed_arm cid 2 DevStatusAns data
       else if cid = 0x07 then fixed_arm cid 1 NewChannelAns data
       else if cid = 0x08 then fixed_arm cid 0 (\<lambda>_. RXTimingSetupAns) data
       else if cid = 0x09 then fixed_arm cid 0 (\<lambda>_. TXParamSetupAns) data
       else if cid = 0x0A then fixed_arm cid 1 DlChannelAns data
       else if cid = 0x0D then fixed_arm cid 0 (\<lambda>_. DeviceTimeReq) data
       else Inl (UnknownCid cid))}"

fun uplink_cid :: "uplink_cmd \<Rightarrow> u8" where
  "uplink_cid LinkCheckReq = 0x02"
| "uplink_cid (LinkADRAns _) = 0x03"
| "uplink_cid DutyCycleAns = 0x04"
| "uplink_cid (RXParamSetupAns _) = 0x05"
| "uplink_cid (DevStatusAns _) = 0x06"
| "uplink_cid (NewChannelAns _) = 0x07"
| "uplink_cid RXTimingSetupAns = 0x08"
| "uplink_cid TXParamSetupAns = 0x09"
| "uplink_cid (DlChannelAns _) = 0x0A"
| "uplink_cid DeviceTimeReq = 0x0D"

fun uplink_bytes :: "uplink_cmd \<Rightarrow> bytes" where
  "uplink_bytes (LinkADRAns p) = p"
| "uplink_bytes (RXParamSetupAns p) = p"
| "uplink_bytes (DevStatusAns p) = p"
| "uplink_bytes (NewChannelAns p) = p"
| "uplink_bytes (DlChannelAns p) = p"
| "uplink_bytes _ = []"

fun uplink_len :: "uplink_cmd \<Rightarrow> nat" where
  "uplink_len (LinkADRAns _) = 1"
| "uplink_len (RXParamSetupAns _) = 1"
| "uplink_len (DevStatusAns _) = 2"
| "uplink_len (NewChannelAns _) = 1"
| "uplink_len (DlChannelAns _) = 1"
| "uplink_len _ = 0"

section \<open>The iterator\<close>

record mac_commands =
  mc_data :: bytes
  mc_errored :: bool

definition mc_new :: "bytes \<Rightarrow> mac_commands" where
  "mc_new data = \<lparr>mc_data = data, mc_errored = False\<rparr>"

text \<open>\<open>Iterator::next\<close>, for the \<open>parse_one\<close> of the command set.\<close>

definition mc_next ::
  "(bytes \<Rightarrow> (mac_parse_error + ('c \<times> nat)) run) \<Rightarrow> mac_commands
    \<Rightarrow> ((mac_parse_error + 'c) option \<times> mac_commands) run" where
  "mc_next parse_one it =
     (if mc_errored it \<or> mc_data it = [] then Some (None, it)
      else do {
        r \<leftarrow> parse_one (mc_data it);
        case r of
          Inr (cmd, consumed) \<Rightarrow> do {
            rest \<leftarrow> subslice (mc_data it) consumed (length (mc_data it));
            Some (Some (Inr cmd), it\<lparr>mc_data := rest\<rparr>)}
        | Inl e \<Rightarrow> Some (Some (Inl e), it\<lparr>mc_errored := True\<rparr>)})"

text \<open>A \<open>for\<close> loop over the iterator, as the list of the items it sees.\<close>

partial_function (option) mc_items ::
  "(bytes \<Rightarrow> (mac_parse_error + ('c \<times> nat)) run) \<Rightarrow> mac_commands \<Rightarrow> (mac_parse_error + 'c) list option" where
  "mc_items parse_one it =
     Option.bind (mc_next parse_one it) (\<lambda>(r, it').
       case r of None \<Rightarrow> Some []
       | Some x \<Rightarrow> Option.bind (mc_items parse_one it') (\<lambda>xs. Some (x # xs)))"

text \<open>The byte stream of a list of commands.\<close>

definition encode_cmds :: "('c \<Rightarrow> u8) \<Rightarrow> ('c \<Rightarrow> bytes) \<Rightarrow> 'c list \<Rightarrow> bytes" where
  "encode_cmds cid_of payload_of cs = concat (map (\<lambda>c. cid_of c # payload_of c) cs)"

section \<open>Command sets\<close>

locale command_set =
  fixes parse_one :: "bytes \<Rightarrow> (mac_parse_error + ('c \<times> nat)) run"
  assumes parse_one_total: "data \<noteq> [] \<Longrightarrow> parse_one data \<noteq> None"
    and parse_one_consumes: "parse_one data = Some (Inr (c, n)) \<Longrightarrow> 0 < n \<and> n \<le> length data"
begin

lemma next_cases:
  assumes "\<not> mc_errored it" "mc_data it \<noteq> []"
  obtains (err) e where "parse_one (mc_data it) = Some (Inl e)"
      "mc_next parse_one it = Some (Some (Inl e), it\<lparr>mc_errored := True\<rparr>)"
  | (cmd) c n where "parse_one (mc_data it) = Some (Inr (c, n))" "0 < n" "n \<le> length (mc_data it)"
      "mc_next parse_one it = Some (Some (Inr c), it\<lparr>mc_data := drop n (mc_data it)\<rparr>)"
proof -
  obtain r where r: "parse_one (mc_data it) = Some r" using parse_one_total assms by blast
  show thesis
  proof (cases r)
    case (Inl e)
    then show thesis using err [of e] r assms by (simp add: mc_next_def)
  next
    case (Inr p)
    then obtain c n where p: "parse_one (mc_data it) = Some (Inr (c, n))" using r by (cases p) auto
    then show thesis using cmd [OF p] parse_one_consumes [OF p] assms by (simp add: mc_next_def)
  qed
qed

lemma next_done: "mc_errored it \<or> mc_data it = [] \<Longrightarrow> mc_next parse_one it = Some (None, it)"
  by (auto simp: mc_next_def)

lemma next_total: "mc_next parse_one it \<noteq> None"
  by (cases "mc_errored it \<or> mc_data it = []") (auto simp: next_done elim: next_cases)

lemma next_fused:
  assumes "mc_next parse_one it = Some (Some (Inl e), it')"
  shows "mc_next parse_one it' = Some (None, it')"
proof (cases "mc_errored it \<or> mc_data it = []")
  case True
  then show ?thesis using assms by (simp add: next_done)
next
  case False
  then have "\<not> mc_errored it" "mc_data it \<noteq> []" by auto
  then show ?thesis using assms by (cases rule: next_cases) (auto intro: next_done)
qed

lemma items_errored: "mc_errored it \<or> mc_data it = [] \<Longrightarrow> mc_items parse_one it = Some []"
  by (subst mc_items.simps) (simp add: mc_next_def)

lemma items_Inl:
  assumes "data \<noteq> []" "parse_one data = Some (Inl e)"
  shows "mc_items parse_one (mc_new data) = Some [Inl e]"
  using assms by (subst mc_items.simps) (simp add: mc_next_def mc_new_def items_errored)

lemma items_Inr:
  assumes "data \<noteq> []" "parse_one data = Some (Inr (c, n))"
  shows "mc_items parse_one (mc_new data) =
           map_option ((#) (Inr c)) (mc_items parse_one (mc_new (drop n data)))"
  using assms parse_one_consumes [OF assms(2)]
  by (subst mc_items.simps)
     (auto simp: mc_next_def mc_new_def split: option.split; cases "mc_items parse_one
        \<lparr>mc_data = drop n data, mc_errored = False\<rparr>"; simp)

text \<open>The loop always ends, with at most one item a byte, and an error is the last item.\<close>

lemma items_total:
  "\<exists>xs. mc_items parse_one (mc_new data) = Some xs \<and> length xs \<le> length data \<and>
        (\<forall>x \<in> set (butlast xs). \<exists>c. x = Inr c)"
proof (induction "length data" arbitrary: data rule: less_induct)
  case less
  show ?case
  proof (cases "data = []")
    case True
    then show ?thesis by (simp add: items_errored mc_new_def)
  next
    case False
    then obtain r where r: "parse_one data = Some r" using parse_one_total by blast
    show ?thesis
    proof (cases r)
      case (Inl e)
      then show ?thesis using False r items_Inl [OF False] by (cases data) auto
    next
      case (Inr p)
      then obtain c n where p: "parse_one data = Some (Inr (c, n))" using r by (cases p) auto
      then have n: "0 < n" "n \<le> length data" using parse_one_consumes by auto
      then obtain xs where "mc_items parse_one (mc_new (drop n data)) = Some xs"
        "length xs \<le> length (drop n data)" "\<forall>x \<in> set (butlast xs). \<exists>c. x = Inr c"
        using less [of "drop n data"] False by auto
      then show ?thesis using items_Inr [OF False p] n by auto
    qed
  qed
qed

end

locale command_codec = command_set parse_one
  for parse_one :: "bytes \<Rightarrow> (mac_parse_error + ('c \<times> nat)) run" +
  fixes cid_of :: "'c \<Rightarrow> u8"
    and payload_of :: "'c \<Rightarrow> bytes"
    and len_of :: "'c \<Rightarrow> nat"
  assumes parse_encoded:
      "length (payload_of c) = len_of c \<Longrightarrow>
       parse_one (cid_of c # payload_of c @ rest) = Some (Inr (c, 1 + len_of c))"
    and parsed_form:
      "parse_one data = Some (Inr (c, n)) \<Longrightarrow>
       take n data = cid_of c # payload_of c \<and> length (payload_of c) = len_of c \<and> n = 1 + len_of c"
begin

abbreviation "encode \<equiv> encode_cmds cid_of payload_of"

lemma items_encode:
  assumes "\<forall>c \<in> set cs. length (payload_of c) = len_of c"
  shows "mc_items parse_one (mc_new (encode cs)) = Some (map Inr cs)"
  using assms
proof (induction cs)
  case Nil
  then show ?case by (simp add: encode_cmds_def items_errored mc_new_def)
next
  case (Cons c cs)
  have e: "encode (c # cs) = cid_of c # payload_of c @ encode cs" by (simp add: encode_cmds_def)
  have "parse_one (cid_of c # payload_of c @ encode cs) = Some (Inr (c, 1 + len_of c))"
    using Cons.prems by (intro parse_encoded) simp
  from items_Inr [OF _ this] show ?case
    using Cons by (simp add: e)
qed

lemma encode_items:
  assumes "mc_items parse_one (mc_new data) = Some (map Inr cs)"
  shows "encode cs = data"
  using assms
proof (induction cs arbitrary: data)
  case Nil
  show ?case
  proof (cases "data = []")
    case True
    then show ?thesis by (simp add: encode_cmds_def)
  next
    case False
    then obtain r where r: "parse_one data = Some r" using parse_one_total by blast
    show ?thesis
    proof (cases r)
      case (Inl e)
      then show ?thesis using Nil items_Inl [OF False] r by simp
    next
      case (Inr p)
      then obtain c n where "parse_one data = Some (Inr (c, n))" using r by (cases p) auto
      then show ?thesis using Nil items_Inr [OF False] by (cases "mc_items parse_one (mc_new (drop n data))") auto
    qed
  qed
next
  case (Cons c cs)
  have ne: "data \<noteq> []" using Cons.prems items_errored [of "mc_new data"] by (auto simp: mc_new_def)
  then obtain r where r: "parse_one data = Some r" using parse_one_total by blast
  then obtain c' n where p: "parse_one data = Some (Inr (c', n))"
    using Cons.prems items_Inl [OF ne] by (cases r) auto
  have "c' = c" "mc_items parse_one (mc_new (drop n data)) = Some (map Inr cs)"
    using Cons.prems items_Inr [OF ne p] by auto
  then have "encode (c # cs) = (cid_of c # payload_of c) @ drop n data"
    using Cons.IH [of "drop n data"] by (simp add: encode_cmds_def)
  also have "cid_of c # payload_of c = take n data" using parsed_form [OF p] \<open>c' = c\<close> by metis
  finally show ?case by simp
qed

end

lemma fixed_arm_Inr:
  "fixed_arm cid len mk data = Inr (c, n) \<longleftrightarrow>
     1 + len \<le> length data \<and> c = mk (take len (drop 1 data)) \<and> n = 1 + len"
  by (auto simp: fixed_arm_def)

interpretation downlink: command_codec downlink_parse_one downlink_cid downlink_bytes downlink_len
proof
  show "downlink_parse_one data \<noteq> None" if "data \<noteq> []" for data
    using that by (auto simp: downlink_parse_one_def idx_def)
  show "0 < n \<and> n \<le> length data" if "downlink_parse_one data = Some (Inr (c, n))" for data c n
    using that by (auto simp: downlink_parse_one_def bind_eq_Some_conv fixed_arm_Inr split: if_splits)
  show "downlink_parse_one (downlink_cid c # downlink_bytes c @ rest) = Some (Inr (c, 1 + downlink_len c))"
    if "length (downlink_bytes c) = downlink_len c" for c rest
    using that by (cases c) (simp_all add: downlink_parse_one_def idx_def fixed_arm_def)
  show "take n data = downlink_cid c # downlink_bytes c \<and>
      length (downlink_bytes c) = downlink_len c \<and> n = 1 + downlink_len c"
    if "downlink_parse_one data = Some (Inr (c, n))" for data c n
    using that
    by (cases data) (auto simp: downlink_parse_one_def fixed_arm_Inr idx_def numeral_2_eq_2 split: if_splits)
qed

interpretation uplink: command_codec uplink_parse_one uplink_cid uplink_bytes uplink_len
proof
  show "uplink_parse_one data \<noteq> None" if "data \<noteq> []" for data
    using that by (auto simp: uplink_parse_one_def idx_def)
  show "0 < n \<and> n \<le> length data" if "uplink_parse_one data = Some (Inr (c, n))" for data c n
    using that by (auto simp: uplink_parse_one_def bind_eq_Some_conv fixed_arm_Inr split: if_splits)
  show "uplink_parse_one (uplink_cid c # uplink_bytes c @ rest) = Some (Inr (c, 1 + uplink_len c))"
    if "length (uplink_bytes c) = uplink_len c" for c rest
    using that by (cases c) (simp_all add: uplink_parse_one_def idx_def fixed_arm_def)
  show "take n data = uplink_cid c # uplink_bytes c \<and>
      length (uplink_bytes c) = uplink_len c \<and> n = 1 + uplink_len c"
    if "uplink_parse_one data = Some (Inr (c, n))" for data c n
    using that
    by (cases data) (auto simp: uplink_parse_one_def fixed_arm_Inr idx_def numeral_2_eq_2 split: if_splits)
qed

section \<open>Payload accessors\<close>

text \<open>\<open>create_ack_fn!\<close> and \<open>create_value_reader_fn!\<close>\<close>

definition ack_fn :: "nat \<Rightarrow> bytes \<Rightarrow> bool run" where
  "ack_fn off p = map_option (\<lambda>b. b AND push_bit off 1 \<noteq> 0) (idx p 0)"

definition value_reader :: "nat \<Rightarrow> bytes \<Rightarrow> u8 run" where
  "value_reader i p = idx p i"

definition link_check_ans_margin :: "bytes \<Rightarrow> u8 run" where
  "link_check_ans_margin = value_reader 0"

definition link_check_ans_gateway_count :: "bytes \<Rightarrow> u8 run" where
  "link_check_ans_gateway_count = value_reader 1"

definition link_adr_req_data_rate :: "bytes \<Rightarrow> DR run" where
  "link_adr_req_data_rate p = map_option (\<lambda>b. dr_from (drop_bit 4 b)) (idx p 0)"

definition link_adr_req_tx_power :: "bytes \<Rightarrow> DR run" where
  "link_adr_req_tx_power p = map_option (\<lambda>b. dr_from (b AND 0x0f)) (idx p 0)"

definition link_adr_req_channel_mask :: "bytes \<Rightarrow> channel_mask run" where
  "link_adr_req_channel_mask p = do { s \<leftarrow> subslice p 1 3; mask_new_from_raw 2 s }"

definition link_adr_req_redundancy :: "bytes \<Rightarrow> redundancy run" where
  "link_adr_req_redundancy p = map_option Redundancy (idx p 3)"

definition link_adr_ans_channel_mask_ack :: "bytes \<Rightarrow> bool run" where
  "link_adr_ans_channel_mask_ack = ack_fn 0"

definition link_adr_ans_data_rate_ack :: "bytes \<Rightarrow> bool run" where
  "link_adr_ans_data_rate_ack = ack_fn 1"

definition link_adr_ans_powert_ack :: "bytes \<Rightarrow> bool run" where
  "link_adr_ans_powert_ack = ack_fn 2"

definition link_adr_ans_ack :: "bytes \<Rightarrow> bool run" where
  "link_adr_ans_ack p = map_option (\<lambda>b. b = 0x07) (idx p 0)"

definition max_duty_cycle_raw :: "bytes \<Rightarrow> u8 run" where
  "max_duty_cycle_raw p = map_option (\<lambda>b. b AND 0x0f) (idx p 0)"

definition rx_param_setup_req_dl_settings :: "bytes \<Rightarrow> dl_settings run" where
  "rx_param_setup_req_dl_settings p = map_option DLSettings (idx p 0)"

definition rx_param_setup_req_frequency :: "bytes \<Rightarrow> bytes run" where
  "rx_param_setup_req_frequency p = subslice p 1 (length p)"

definition rx_param_setup_ans_channel_ack :: "bytes \<Rightarrow> bool run" where
  "rx_param_setup_ans_channel_ack = ack_fn 0"

definition rx_param_setup_ans_rx2_data_rate_ack :: "bytes \<Rightarrow> bool run" where
  "rx_param_setup_ans_rx2_data_rate_ack = ack_fn 1"

definition rx_param_setup_ans_rx1_dr_offset_ack :: "bytes \<Rightarrow> bool run" where
  "rx_param_setup_ans_rx1_dr_offset_ack = ack_fn 2"

definition rx_param_setup_ans_ack :: "bytes \<Rightarrow> bool run" where
  "rx_param_setup_ans_ack p = map_option (\<lambda>b. b = 0x07) (idx p 0)"

definition dev_status_ans_battery :: "bytes \<Rightarrow> u8 run" where
  "dev_status_ans_battery = value_reader 0"

text \<open>\<open>((x << 2) as i8) >> 2\<close>: the right shift of an \<open>i8\<close> keeps the sign.\<close>

definition dev_status_ans_margin :: "bytes \<Rightarrow> i8 run" where
  "dev_status_ans_margin p = map_option (\<lambda>b. signed_drop_bit 2 (push_bit 2 b)) (idx p 1)"

definition new_channel_req_channel_index :: "bytes \<Rightarrow> u8 run" where
  "new_channel_req_channel_index = value_reader 0"

definition new_channel_req_frequency :: "bytes \<Rightarrow> bytes run" where
  "new_channel_req_frequency p = subslice p 1 4"

definition new_channel_req_data_rate_range :: "bytes \<Rightarrow> (mac_error + data_rate_range) run" where
  "new_channel_req_data_rate_range p = map_option drr_new (idx p 4)"

definition new_channel_ans_channel_freq_ack :: "bytes \<Rightarrow> bool run" where
  "new_channel_ans_channel_freq_ack = ack_fn 0"

definition new_channel_ans_data_rate_range_ack :: "bytes \<Rightarrow> bool run" where
  "new_channel_ans_data_rate_range_ack = ack_fn 1"

definition new_channel_ans_ack :: "bytes \<Rightarrow> bool run" where
  "new_channel_ans_ack p = map_option (\<lambda>b. b = 0x03) (idx p 0)"

definition rx_timing_setup_req_delay :: "bytes \<Rightarrow> u8 run" where
  "rx_timing_setup_req_delay p = map_option (\<lambda>b. b AND 0x0f) (idx p 0)"

definition tx_param_setup_req_downlink_dwell_time :: "bytes \<Rightarrow> bool run" where
  "tx_param_setup_req_downlink_dwell_time p = map_option (\<lambda>b. b AND push_bit 5 1 \<noteq> 0) (idx p 0)"

definition tx_param_setup_req_uplink_dwell_time :: "bytes \<Rightarrow> bool run" where
  "tx_param_setup_req_uplink_dwell_time p = map_option (\<lambda>b. b AND push_bit 4 1 \<noteq> 0) (idx p 0)"

definition max_eirp_table :: "u8 list" where
  "max_eirp_table = [8, 10, 12, 13, 14, 16, 18, 20, 21, 24, 26, 27, 29, 30, 33, 36]"

definition tx_param_setup_req_max_eirp :: "bytes \<Rightarrow> u8 run" where
  "tx_param_setup_req_max_eirp p = map_option (\<lambda>b. max_eirp_table ! unat (b AND 0b1111)) (idx p 0)"

definition dl_channel_req_channel_index :: "bytes \<Rightarrow> u8 run" where
  "dl_channel_req_channel_index = value_reader 0"

definition dl_channel_req_frequency :: "bytes \<Rightarrow> bytes run" where
  "dl_channel_req_frequency p = subslice p 1 4"

definition dl_channel_ans_channel_freq_ack :: "bytes \<Rightarrow> bool run" where
  "dl_channel_ans_channel_freq_ack = ack_fn 0"

definition dl_channel_ans_uplink_freq_ack :: "bytes \<Rightarrow> bool run" where
  "dl_channel_ans_uplink_freq_ack = ack_fn 1"

definition dl_channel_ans_ack :: "bytes \<Rightarrow> bool run" where
  "dl_channel_ans_ack p = map_option (\<lambda>b. b AND 0x03 = 0x03) (idx p 0)"

definition device_time_ans_seconds :: "bytes \<Rightarrow> u32 run" where
  "device_time_ans_seconds p = do {
     b3 \<leftarrow> idx p 3; b2 \<leftarrow> idx p 2; b1 \<leftarrow> idx p 1; b0 \<leftarrow> idx p 0;
     Some (from_le_bytes [b3, b2, b1, b0])}"

definition device_time_ans_nano_seconds :: "bytes \<Rightarrow> u32 run" where
  "device_time_ans_nano_seconds p = map_option (\<lambda>b. ucast b * 3906250) (idx p 4)"

text \<open>No accessor of a parsed downlink command panics.\<close>

definition downlink_readable :: "downlink_cmd \<Rightarrow> bool" where
  "downlink_readable c = (case c of
      LinkCheckAns p \<Rightarrow> link_check_ans_margin p \<noteq> None \<and> link_check_ans_gateway_count p \<noteq> None
    | LinkADRReq p \<Rightarrow> link_adr_req_data_rate p \<noteq> None \<and> link_adr_req_tx_power p \<noteq> None \<and>
        link_adr_req_channel_mask p \<noteq> None \<and> link_adr_req_redundancy p \<noteq> None
    | DutyCycleReq p \<Rightarrow> max_duty_cycle_raw p \<noteq> None
    | RXParamSetupReq p \<Rightarrow> rx_param_setup_req_dl_settings p \<noteq> None \<and>
        Option.bind (rx_param_setup_req_frequency p) tfreq_value \<noteq> None
    | DevStatusReq \<Rightarrow> True
    | NewChannelReq p \<Rightarrow> new_channel_req_channel_index p \<noteq> None \<and>
        Option.bind (new_channel_req_frequency p) tfreq_value \<noteq> None \<and>
        new_channel_req_data_rate_range p \<noteq> None
    | RXTimingSetupReq p \<Rightarrow> rx_timing_setup_req_delay p \<noteq> None
    | TXParamSetupReq p \<Rightarrow> tx_param_setup_req_downlink_dwell_time p \<noteq> None \<and>
        tx_param_setup_req_uplink_dwell_time p \<noteq> None \<and> tx_param_setup_req_max_eirp p \<noteq> None
    | DlChannelReq p \<Rightarrow> dl_channel_req_channel_index p \<noteq> None \<and>
        Option.bind (dl_channel_req_frequency p) tfreq_value \<noteq> None
    | DeviceTimeAns p \<Rightarrow> device_time_ans_seconds p \<noteq> None \<and> device_time_ans_nano_seconds p \<noteq> None)"

lemma tfreq_value_total: "length f = 3 \<Longrightarrow> tfreq_value f \<noteq> None"
  by (simp add: tfreq_value_def idx_def)

lemma downlink_readable_len: "length (downlink_bytes c) = downlink_len c \<Longrightarrow> downlink_readable c"
  by (cases c)
     (simp_all add: downlink_readable_def link_check_ans_margin_def link_check_ans_gateway_count_def
       value_reader_def idx_def link_adr_req_data_rate_def link_adr_req_tx_power_def
       link_adr_req_channel_mask_def link_adr_req_redundancy_def mask_new_from_raw_def
       max_duty_cycle_raw_def rx_param_setup_req_dl_settings_def rx_param_setup_req_frequency_def
       tfreq_value_total new_channel_req_channel_index_def new_channel_req_frequency_def
       new_channel_req_data_rate_range_def rx_timing_setup_req_delay_def
       tx_param_setup_req_downlink_dwell_time_def tx_param_setup_req_uplink_dwell_time_def
       tx_param_setup_req_max_eirp_def dl_channel_req_channel_index_def dl_channel_req_frequency_def
       device_time_ans_seconds_def device_time_ans_nano_seconds_def del: not_None_eq)

section \<open>Properties\<close>

lemma downlink_items_valid:
  "mc_items downlink_parse_one (mc_new data) = Some xs \<Longrightarrow> Inr c \<in> set xs \<Longrightarrow>
   length (downlink_bytes c) = downlink_len c"
proof (induction "length data" arbitrary: data xs rule: less_induct)
  case less
  have ne: "data \<noteq> []" using less.prems downlink.items_errored [of "mc_new data"] by (auto simp: mc_new_def)
  then obtain r where r: "downlink_parse_one data = Some r" using downlink.parse_one_total by blast
  show ?case
  proof (cases r)
    case (Inl e)
    then show ?thesis using less.prems downlink.items_Inl [OF ne] r by auto
  next
    case (Inr q)
    then obtain d n where p: "downlink_parse_one data = Some (Inr (d, n))" using r by (cases q) auto
    obtain ys where ys: "mc_items downlink_parse_one (mc_new (drop n data)) = Some ys" "xs = Inr d # ys"
      using less.prems(1) downlink.items_Inr [OF ne p] by (auto simp: map_option_case split: option.splits)
    show ?thesis
    proof (cases "c = d")
      case True
      then show ?thesis using downlink.parsed_form [OF p] by simp
    next
      case False
      then have "Inr c \<in> set ys" using less.prems(2) ys by auto
      moreover have "length (drop n data) < length data" using downlink.parse_one_consumes [OF p] ne by auto
      ultimately show ?thesis using less.hyps ys(1) by blast
    qed
  qed
qed

text \<open>Splitting a downlink MAC command stream always ends without a panic: it yields at most one
  item per byte, only the last item can be an error, the iterator yields nothing after an error, and
  every accessor of every command it yields is defined.\<close>

theorem downlink_stream_total:
  "\<exists>xs. mc_items downlink_parse_one (mc_new data) = Some xs \<and> length xs \<le> length data \<and>
     (\<forall>x \<in> set (butlast xs). \<exists>c. x = Inr c) \<and> (\<forall>c. Inr c \<in> set xs \<longrightarrow> downlink_readable c)"
proof -
  obtain xs where xs: "mc_items downlink_parse_one (mc_new data) = Some xs" "length xs \<le> length data"
    "\<forall>x \<in> set (butlast xs). \<exists>c. x = Inr c"
    using downlink.items_total [of data] by blast
  then have "\<forall>c. Inr c \<in> set xs \<longrightarrow> downlink_readable c"
    using downlink_items_valid [OF xs(1)] downlink_readable_len by blast
  then show ?thesis using xs by blast
qed

lemma downlink_stream_total_witness:
  "\<exists>xs. mc_items downlink_parse_one (mc_new [0x06, 0x02, 0x01]) = Some xs \<and> length xs \<le> 3"
  using downlink_stream_total [of "[0x06, 0x02, 0x01]"] by auto

text \<open>C24. Serialising MAC commands and splitting the bytes again is the identity, in both directions and
  for both command sets: the commands come back one by one with no error, and a stream that splits
  without an error is the serialisation of its commands.\<close>

theorem command_stream_roundtrip:
  "(\<forall>c \<in> set ds. length (downlink_bytes c) = downlink_len c) \<Longrightarrow>
   (\<forall>c \<in> set us. length (uplink_bytes c) = uplink_len c) \<Longrightarrow>
   mc_items downlink_parse_one (mc_new (encode_cmds downlink_cid downlink_bytes ds)) = Some (map Inr ds) \<and>
   mc_items uplink_parse_one (mc_new (encode_cmds uplink_cid uplink_bytes us)) = Some (map Inr us) \<and>
   (mc_items downlink_parse_one (mc_new data) = Some (map Inr ds) \<longrightarrow>
      encode_cmds downlink_cid downlink_bytes ds = data) \<and>
   (mc_items uplink_parse_one (mc_new data) = Some (map Inr us) \<longrightarrow>
      encode_cmds uplink_cid uplink_bytes us = data)"
  using downlink.items_encode uplink.items_encode downlink.encode_items uplink.encode_items by blast

lemma command_stream_roundtrip_witness:
  "mc_items downlink_parse_one (mc_new [0x06, 0x08, 0x03]) = Some (map Inr [DevStatusReq, RXTimingSetupReq [3]]) \<and>
   mc_items uplink_parse_one (mc_new [0x02, 0x03, 0x07]) = Some (map Inr [LinkCheckReq, LinkADRAns [7]])"
  using command_stream_roundtrip [of "[DevStatusReq, RXTimingSetupReq [3]]" "[LinkCheckReq, LinkADRAns [7]]"]
  by (simp add: encode_cmds_def)

end
