(* ===== verification/MacCreators.thy ===== *)
theory MacCreators
  imports MacCommands
begin

text \<open>
  \<open>lorawan-encoding/src/maccommandcreator.rs\<close>: the creators of MAC commands and
  \<open>build_mac_commands\<close>. A creator is its array of CID and payload bytes (\<open>data[0]\<close> is the
  CID); a setter updates it at constant indices, which the array has. A setter that can
  fail returns a sum. The properties are that a created command parses and that its
  accessors return what was set.
\<close>

datatype creator_error = InvalidDataRate | InvalidTxPower | MarginOutOfRange | DelayOutOfRange
  | MaxDutyCycleOutOfRange | MaxEirpOutOfRange | NanoSecondsOutOfRange | CreatorBufferTooShort

text \<open>\<open>Creator::new()\<close>, generated by the macro from the CID and the payload length.\<close>

definition creator_new :: "u8 \<Rightarrow> nat \<Rightarrow> bytes" where
  "creator_new cid len = (replicate (len + 1) 0)[0 := cid]"

section \<open>Setters\<close>

definition link_check_ans_set_margin :: "u8 \<Rightarrow> bytes \<Rightarrow> bytes" where
  "link_check_ans_set_margin margin d = d[1 := margin]"

definition link_check_ans_set_gateway_count :: "u8 \<Rightarrow> bytes \<Rightarrow> bytes" where
  "link_check_ans_set_gateway_count n d = d[2 := n]"

definition link_adr_req_set_data_rate :: "u8 \<Rightarrow> bytes \<Rightarrow> creator_error + bytes" where
  "link_adr_req_set_data_rate dr d =
     (if 0x0f < dr then Inl InvalidDataRate
      else Inr (d[1 := (d ! 1 AND 0x0f) OR push_bit 4 dr]))"

definition link_adr_req_set_tx_power :: "u8 \<Rightarrow> bytes \<Rightarrow> creator_error + bytes" where
  "link_adr_req_set_tx_power pw d =
     (if 0x0f < pw then Inl InvalidTxPower
      else Inr (d[1 := (d ! 1 AND 0xf0) OR (pw AND 0x0f)]))"

definition link_adr_req_set_channel_mask :: "channel_mask \<Rightarrow> bytes \<Rightarrow> bytes" where
  "link_adr_req_set_channel_mask m d = d[2 := m ! 0, 3 := m ! 1]"

definition link_adr_req_set_redundancy :: "redundancy \<Rightarrow> bytes \<Rightarrow> bytes" where
  "link_adr_req_set_redundancy r d = d[4 := red_raw r]"

definition link_adr_ans_set_channel_mask_ack :: "bool \<Rightarrow> bytes \<Rightarrow> bytes" where
  "link_adr_ans_set_channel_mask_ack ack d = d[1 := (d ! 1 AND 0xfe) OR of_bool ack]"

definition link_adr_ans_set_data_rate_ack :: "bool \<Rightarrow> bytes \<Rightarrow> bytes" where
  "link_adr_ans_set_data_rate_ack ack d = d[1 := (d ! 1 AND 0xfd) OR push_bit 1 (of_bool ack)]"

definition link_adr_ans_set_tx_power_ack :: "bool \<Rightarrow> bytes \<Rightarrow> bytes" where
  "link_adr_ans_set_tx_power_ack ack d = d[1 := (d ! 1 AND 0xfb) OR push_bit 2 (of_bool ack)]"

definition duty_cycle_req_set_max_duty_cycle :: "u8 \<Rightarrow> bytes \<Rightarrow> creator_error + bytes" where
  "duty_cycle_req_set_max_duty_cycle v d =
     (if 0x0f < v then Inl MaxDutyCycleOutOfRange else Inr (d[1 := (d ! 1 AND 0xf0) OR v]))"

definition rx_param_setup_req_set_dl_settings :: "dl_settings \<Rightarrow> bytes \<Rightarrow> bytes" where
  "rx_param_setup_req_set_dl_settings s d = d[1 := dls_raw s]"

text \<open>\<open>data[2..5].copy_from_slice\<close>: the frequency view may have any length, so this can panic.\<close>

definition rx_param_setup_req_set_frequency :: "bytes \<Rightarrow> bytes \<Rightarrow> bytes run" where
  "rx_param_setup_req_set_frequency f d = copy_range d 2 5 f"

definition rx_param_setup_ans_set_channel_ack :: "bool \<Rightarrow> bytes \<Rightarrow> bytes" where
  "rx_param_setup_ans_set_channel_ack ack d = d[1 := (d ! 1 AND 0xfe) OR of_bool ack]"

definition rx_param_setup_ans_set_rx2_data_rate_ack :: "bool \<Rightarrow> bytes \<Rightarrow> bytes" where
  "rx_param_setup_ans_set_rx2_data_rate_ack ack d = d[1 := (d ! 1 AND 0xfd) OR push_bit 1 (of_bool ack)]"

definition rx_param_setup_ans_set_rx1_dr_offset_ack :: "bool \<Rightarrow> bytes \<Rightarrow> bytes" where
  "rx_param_setup_ans_set_rx1_dr_offset_ack ack d = d[1 := (d ! 1 AND 0xfb) OR push_bit 2 (of_bool ack)]"

definition dev_status_ans_set_battery :: "u8 \<Rightarrow> bytes \<Rightarrow> bytes" where
  "dev_status_ans_set_battery b d = d[1 := b]"

definition dev_status_ans_set_margin :: "i8 \<Rightarrow> bytes \<Rightarrow> creator_error + bytes" where
  "dev_status_ans_set_margin m d =
     (if \<not> (-32 \<le> sint m \<and> sint m \<le> 31) then Inl MarginOutOfRange
      else Inr (d[2 := drop_bit 2 (push_bit 2 m)]))"

definition new_channel_req_set_channel_index :: "u8 \<Rightarrow> bytes \<Rightarrow> bytes" where
  "new_channel_req_set_channel_index i d = d[1 := i]"

definition new_channel_req_set_frequency :: "bytes \<Rightarrow> bytes \<Rightarrow> bytes run" where
  "new_channel_req_set_frequency f d = copy_range d 2 5 f"

definition new_channel_req_set_data_rate_range :: "data_rate_range \<Rightarrow> bytes \<Rightarrow> bytes" where
  "new_channel_req_set_data_rate_range r d = d[5 := drr_raw r]"

definition new_channel_ans_set_channel_frequency_ack :: "bool \<Rightarrow> bytes \<Rightarrow> bytes" where
  "new_channel_ans_set_channel_frequency_ack ack d = d[1 := (d ! 1 AND 0xfe) OR of_bool ack]"

definition new_channel_ans_set_data_rate_range_ack :: "bool \<Rightarrow> bytes \<Rightarrow> bytes" where
  "new_channel_ans_set_data_rate_range_ack ack d = d[1 := (d ! 1 AND 0xfd) OR push_bit 1 (of_bool ack)]"

definition rx_timing_setup_req_set_delay :: "u8 \<Rightarrow> bytes \<Rightarrow> creator_error + bytes" where
  "rx_timing_setup_req_set_delay v d =
     (if 0x0f < v then Inl DelayOutOfRange else Inr (d[1 := (d ! 1 AND 0xf0) OR v]))"

definition tx_param_setup_req_set_downlink_dwell_time :: "bool \<Rightarrow> bytes \<Rightarrow> bytes" where
  "tx_param_setup_req_set_downlink_dwell_time t d =
     d[1 := (d ! 1 AND NOT (push_bit 5 1)) OR push_bit 5 (of_bool t)]"

definition tx_param_setup_req_set_uplink_dwell_time :: "bool \<Rightarrow> bytes \<Rightarrow> bytes" where
  "tx_param_setup_req_set_uplink_dwell_time t d =
     d[1 := (d ! 1 AND NOT (push_bit 4 1)) OR push_bit 4 (of_bool t)]"

definition tx_param_setup_req_set_max_eirp :: "u8 \<Rightarrow> bytes \<Rightarrow> creator_error + bytes" where
  "tx_param_setup_req_set_max_eirp v d =
     (if 0x0F < v then Inl MaxEirpOutOfRange else Inr (d[1 := (d ! 1 AND 0xf0) OR v]))"

definition dl_channel_req_set_channel_index :: "u8 \<Rightarrow> bytes \<Rightarrow> bytes" where
  "dl_channel_req_set_channel_index i d = d[1 := i]"

definition dl_channel_req_set_frequency :: "bytes \<Rightarrow> bytes \<Rightarrow> bytes run" where
  "dl_channel_req_set_frequency f d = copy_range d 2 5 f"

definition dl_channel_ans_set_channel_frequency_ack :: "bool \<Rightarrow> bytes \<Rightarrow> bytes" where
  "dl_channel_ans_set_channel_frequency_ack ack d = d[1 := (d ! 1 AND 0xfe) OR of_bool ack]"

definition dl_channel_ans_set_uplink_frequency_exists_ack :: "bool \<Rightarrow> bytes \<Rightarrow> bytes" where
  "dl_channel_ans_set_uplink_frequency_exists_ack ack d = d[1 := (d ! 1 AND 0xfd) OR push_bit 1 (of_bool ack)]"

definition device_time_ans_set_seconds :: "u32 \<Rightarrow> bytes \<Rightarrow> bytes run" where
  "device_time_ans_set_seconds s d = copy_range d 1 5 (to_le_bytes s)"

definition device_time_ans_set_nano_seconds :: "u32 \<Rightarrow> bytes \<Rightarrow> creator_error + bytes" where
  "device_time_ans_set_nano_seconds ns d =
     (if 1000000000 < ns then Inl NanoSecondsOutOfRange
      else Inr (d[5 := ucast (ns div 3906250)]))"

section \<open>Building a stream\<close>

text \<open>\<open>dyn SerializableMacCommand\<close>: the three methods' results. \<open>payload_len\<close> is a method of its
  own, and the copy panics if it disagrees with the payload.\<close>

record mac_object =
  obj_cid :: u8
  obj_payload :: bytes
  obj_len :: nat

definition mac_commands_len :: "mac_object list \<Rightarrow> nat" where
  "mac_commands_len cmds = sum_list (map (\<lambda>mc. obj_len mc + 1) cmds)"

fun build_loop :: "mac_object list \<Rightarrow> nat \<Rightarrow> bytes \<Rightarrow> (nat \<times> bytes) run" where
  "build_loop [] i res = Some (i, res)"
| "build_loop (mc # mcs) i res = do {
     r1 \<leftarrow> set_idx res i (obj_cid mc);
     r2 \<leftarrow> copy_range r1 (i + 1) (i + 1 + obj_len mc) (obj_payload mc);
     build_loop mcs (i + 1 + obj_len mc) r2}"

definition build_mac_commands :: "mac_object list \<Rightarrow> bytes \<Rightarrow> (creator_error + (nat \<times> bytes)) run" where
  "build_mac_commands cmds out =
     (if mac_commands_len cmds > length out then Some (Inl CreatorBufferTooShort)
      else map_option Inr (build_loop cmds 0 out))"

text \<open>A creator, and a command of either set, as such an object.\<close>

definition creator_obj :: "bytes \<Rightarrow> mac_object" where
  "creator_obj d = \<lparr>obj_cid = d ! 0, obj_payload = drop 1 d, obj_len = length d - 1\<rparr>"

definition downlink_obj :: "downlink_cmd \<Rightarrow> mac_object" where
  "downlink_obj c = \<lparr>obj_cid = downlink_cid c, obj_payload = downlink_bytes c, obj_len = downlink_len c\<rparr>"

definition uplink_obj :: "uplink_cmd \<Rightarrow> mac_object" where
  "uplink_obj c = \<lparr>obj_cid = uplink_cid c, obj_payload = uplink_bytes c, obj_len = uplink_len c\<rparr>"

definition obj_encode :: "mac_object list \<Rightarrow> bytes" where
  "obj_encode cmds = concat (map (\<lambda>mc. obj_cid mc # obj_payload mc) cmds)"

lemma build_loop_eq:
  assumes "\<forall>mc \<in> set cmds. length (obj_payload mc) = obj_len mc"
    and "length xs = i" "i + mac_commands_len cmds \<le> length out"
  shows "build_loop cmds i (xs @ drop i out) =
     Some (i + mac_commands_len cmds, xs @ obj_encode cmds @ drop (i + mac_commands_len cmds) out)"
  using assms
proof (induction cmds arbitrary: i xs)
  case Nil
  then show ?case by (simp add: mac_commands_len_def obj_encode_def)
next
  case (Cons mc cmds)
  let ?j = "i + 1 + obj_len mc"
  let ?xs = "(xs @ [obj_cid mc]) @ obj_payload mc"
  have m: "mac_commands_len (mc # cmds) = 1 + obj_len mc + mac_commands_len cmds"
    by (simp add: mac_commands_len_def)
  have s1: "set_idx (xs @ drop i out) i (obj_cid mc) = Some ((xs @ [obj_cid mc]) @ drop (Suc i) out)"
    using Cons.prems m by (intro fill_set) auto
  have s2: "copy_range ((xs @ [obj_cid mc]) @ drop (i + 1) out) (i + 1) ?j (obj_payload mc) = Some (?xs @ drop ?j out)"
    using Cons.prems m by (intro fill_copy) auto
  have ih: "build_loop cmds ?j (?xs @ drop ?j out) =
      Some (?j + mac_commands_len cmds, ?xs @ obj_encode cmds @ drop (?j + mac_commands_len cmds) out)"
    using Cons.prems m by (intro Cons.IH) auto
  have e: "Suc i = i + 1" by simp
  have "build_loop (mc # cmds) i (xs @ drop i out)
      = Some (?j + mac_commands_len cmds, ?xs @ obj_encode cmds @ drop (?j + mac_commands_len cmds) out)"
    by (simp only: build_loop.simps s1 e Option.bind.simps s2 ih)
  then show ?case by (simp add: m obj_encode_def add.assoc)
qed

lemma build_mac_commands_eq:
  assumes "\<forall>mc \<in> set cmds. length (obj_payload mc) = obj_len mc"
  shows "build_mac_commands cmds out =
     Some (if mac_commands_len cmds > length out then Inl CreatorBufferTooShort
           else Inr (mac_commands_len cmds, obj_encode cmds @ drop (mac_commands_len cmds) out))"
  using build_loop_eq [OF assms, of "[]" 0 out] by (auto simp: build_mac_commands_def)

section \<open>Properties\<close>

lemma creator_new_simps:
  "creator_new c 0 = [c]" "creator_new c (Suc 0) = [c, 0]" "creator_new c 2 = [c, 0, 0]"
  "creator_new c 4 = [c, 0, 0, 0, 0]" "creator_new c 5 = [c, 0, 0, 0, 0, 0]"
  by (simp_all add: creator_new_def numeral_eq_Suc)

text \<open>The answers the device creates are read back as they were set: an uplink answer built by a
  creator parses as that answer, each acknowledgement bit has the value given to its setter whatever
  the others are, and the summary \<open>ack\<close> is their conjunction.\<close>

theorem answer_creators_roundtrip:
  "\<exists>p q r s.
     uplink_parse_one (link_adr_ans_set_tx_power_ack c (link_adr_ans_set_data_rate_ack b
       (link_adr_ans_set_channel_mask_ack a (creator_new 0x03 1)))) = Some (Inr (LinkADRAns p, 2)) \<and>
     link_adr_ans_channel_mask_ack p = Some a \<and> link_adr_ans_data_rate_ack p = Some b \<and>
     link_adr_ans_powert_ack p = Some c \<and> link_adr_ans_ack p = Some (a \<and> b \<and> c) \<and>
     uplink_parse_one (rx_param_setup_ans_set_rx1_dr_offset_ack c (rx_param_setup_ans_set_rx2_data_rate_ack b
       (rx_param_setup_ans_set_channel_ack a (creator_new 0x05 1)))) = Some (Inr (RXParamSetupAns q, 2)) \<and>
     rx_param_setup_ans_channel_ack q = Some a \<and> rx_param_setup_ans_rx2_data_rate_ack q = Some b \<and>
     rx_param_setup_ans_rx1_dr_offset_ack q = Some c \<and> rx_param_setup_ans_ack q = Some (a \<and> b \<and> c) \<and>
     uplink_parse_one (new_channel_ans_set_data_rate_range_ack b
       (new_channel_ans_set_channel_frequency_ack a (creator_new 0x07 1))) = Some (Inr (NewChannelAns r, 2)) \<and>
     new_channel_ans_channel_freq_ack r = Some a \<and> new_channel_ans_data_rate_range_ack r = Some b \<and>
     new_channel_ans_ack r = Some (a \<and> b) \<and>
     uplink_parse_one (dl_channel_ans_set_uplink_frequency_exists_ack b
       (dl_channel_ans_set_channel_frequency_ack a (creator_new 0x0A 1))) = Some (Inr (DlChannelAns s, 2)) \<and>
     dl_channel_ans_channel_freq_ack s = Some a \<and> dl_channel_ans_uplink_freq_ack s = Some b \<and>
     dl_channel_ans_ack s = Some (a \<and> b)"
  by (cases a; cases b; cases c)
     (simp_all add: creator_new_def uplink_parse_one_def fixed_arm_def idx_def ack_fn_def
       link_adr_ans_set_tx_power_ack_def link_adr_ans_set_data_rate_ack_def
       link_adr_ans_set_channel_mask_ack_def link_adr_ans_channel_mask_ack_def
       link_adr_ans_data_rate_ack_def link_adr_ans_powert_ack_def link_adr_ans_ack_def
       rx_param_setup_ans_set_rx1_dr_offset_ack_def rx_param_setup_ans_set_rx2_data_rate_ack_def
       rx_param_setup_ans_set_channel_ack_def rx_param_setup_ans_channel_ack_def
       rx_param_setup_ans_rx2_data_rate_ack_def rx_param_setup_ans_rx1_dr_offset_ack_def
       rx_param_setup_ans_ack_def new_channel_ans_set_data_rate_range_ack_def
       new_channel_ans_set_channel_frequency_ack_def new_channel_ans_channel_freq_ack_def
       new_channel_ans_data_rate_range_ack_def new_channel_ans_ack_def
       dl_channel_ans_set_uplink_frequency_exists_ack_def dl_channel_ans_set_channel_frequency_ack_def
       dl_channel_ans_channel_freq_ack_def dl_channel_ans_uplink_freq_ack_def dl_channel_ans_ack_def)

lemma margin_table:
  "list_all (\<lambda>i. signed_drop_bit 2 (push_bit 2 (drop_bit 2 (push_bit 2 (word_of_int i :: i8)))) = word_of_int i)
     [- 32..31]"
  by code_simp

lemma margin_roundtrip:
  assumes "- 32 \<le> sint m" "sint m \<le> 31"
  shows "signed_drop_bit 2 (push_bit 2 (drop_bit 2 (push_bit 2 (m :: i8)))) = m"
proof -
  have "sint m \<in> set [- 32..31]" unfolding set_upto atLeastAtMost_iff using assms by blast
  then have "signed_drop_bit 2 (push_bit 2 (drop_bit 2 (push_bit 2 (word_of_int (sint m) :: i8)))) = word_of_int (sint m)"
    using margin_table unfolding list_all_iff by blast
  moreover have "word_of_int (sint m) = m" by simp
  ultimately show ?thesis by (simp only:)
qed

text \<open>A device status answer carries the battery level and every signed margin from -32 to 31
  through its six-bit field: the margin read back is the margin set; any other margin is refused.\<close>

theorem dev_status_roundtrip:
  "(case dev_status_ans_set_margin m (dev_status_ans_set_battery bat (creator_new 0x06 2)) of
      Inl e \<Rightarrow> e = MarginOutOfRange \<and> (sint m < - 32 \<or> 31 < sint m)
    | Inr d \<Rightarrow> \<exists>p. uplink_parse_one d = Some (Inr (DevStatusAns p, 3)) \<and>
        dev_status_ans_battery p = Some bat \<and> dev_status_ans_margin p = Some m)"
  using margin_roundtrip [of m]
  by (auto simp: dev_status_ans_set_margin_def dev_status_ans_set_battery_def creator_new_simps
      uplink_parse_one_def fixed_arm_def idx_def dev_status_ans_battery_def dev_status_ans_margin_def
      value_reader_def)

lemma nibble_write:
  assumes "v \<le> 0x0f"
  shows "((b AND 0xf0) OR v) AND 0x0f = (v :: u8)" "drop_bit 4 (((b AND 0x0f) OR push_bit 4 v)) = v"
    "drop_bit 4 ((b AND 0xf0) OR v) = drop_bit 4 b" "((b AND 0x0f) OR push_bit 4 v) AND 0x0f = b AND 0x0f"
proof -
  have v: "v = v AND 0x0f"
  proof -
    have "unat v \<le> unat (0x0f :: u8)" using assms by (simp only: word_le_nat_alt)
    then have "unat v < 16" by simp
    then show ?thesis by (simp add: word_unat_eq_iff unat_and_0xf)
  qed
  have m: "(0x0f :: u8) = mask 4" by (simp add: mask_eq_exp_minus_1)
  have n: "(0xf0 :: u8) = NOT (mask 4)" by (simp add: mask_eq_exp_minus_1)
  have hi: "k < 4" if "bit v k" for k
    using that by (subst (asm) v) (simp add: m bit_simps)
  show "((b AND 0xf0) OR v) AND 0x0f = v" "drop_bit 4 ((b AND 0x0f) OR push_bit 4 v) = v"
    "drop_bit 4 ((b AND 0xf0) OR v) = drop_bit 4 b" "((b AND 0x0f) OR push_bit 4 v) AND 0x0f = b AND 0x0f"
    unfolding m n by (rule bit_word_eqI; auto simp: bit_simps dest: hi bit_imp_le_length)+
qed

text \<open>The requests a network creates are read back by the device as they were set: link ADR (data
  rate and power up to 15, mask, redundancy), RX parameters, new channel, downlink channel, RX timing
  and duty cycle; the setters refuse exactly the values that do not fit four bits.\<close>

theorem request_creators_roundtrip:
  assumes "length f = 3" "length m = 2" "dr \<le> 0x0f" "pw \<le> 0x0f" "dl \<le> 0x0f" "dc \<le> 0x0f"
  shows "\<exists>d1 d2 p q r s t u d5 d7 dA.
     link_adr_req_set_data_rate dr (creator_new 0x03 4) = Inr d1 \<and>
     link_adr_req_set_tx_power pw d1 = Inr d2 \<and>
     downlink_parse_one (link_adr_req_set_redundancy rd (link_adr_req_set_channel_mask m d2))
       = Some (Inr (LinkADRReq p, 5)) \<and>
     link_adr_req_data_rate p = Some (dr_from dr) \<and> link_adr_req_tx_power p = Some (dr_from pw) \<and>
     link_adr_req_channel_mask p = Some m \<and> link_adr_req_redundancy p = Some rd \<and>
     rx_param_setup_req_set_frequency f (rx_param_setup_req_set_dl_settings ds (creator_new 0x05 4)) = Some d5 \<and>
     downlink_parse_one d5 = Some (Inr (RXParamSetupReq q, 5)) \<and>
     rx_param_setup_req_dl_settings q = Some ds \<and> rx_param_setup_req_frequency q = Some f \<and>
     new_channel_req_set_frequency f (new_channel_req_set_channel_index ix (creator_new 0x07 5)) = Some d7 \<and>
     downlink_parse_one (new_channel_req_set_data_rate_range rg d7) = Some (Inr (NewChannelReq r, 6)) \<and>
     new_channel_req_channel_index r = Some ix \<and> new_channel_req_frequency r = Some f \<and>
     new_channel_req_data_rate_range r = Some (drr_new (drr_raw rg)) \<and>
     dl_channel_req_set_frequency f (dl_channel_req_set_channel_index ix (creator_new 0x0A 4)) = Some dA \<and>
     downlink_parse_one dA = Some (Inr (DlChannelReq s, 5)) \<and>
     dl_channel_req_channel_index s = Some ix \<and> dl_channel_req_frequency s = Some f \<and>
     (\<exists>d. rx_timing_setup_req_set_delay dl (creator_new 0x08 1) = Inr d \<and>
        downlink_parse_one d = Some (Inr (RXTimingSetupReq t, 2)) \<and> rx_timing_setup_req_delay t = Some dl) \<and>
     (\<exists>d. duty_cycle_req_set_max_duty_cycle dc (creator_new 0x04 1) = Inr d \<and>
        downlink_parse_one d = Some (Inr (DutyCycleReq u, 2)) \<and> max_duty_cycle_raw u = Some dc)"
proof -
  obtain f0 f1 f2 where f: "f = [f0, f1, f2]" using assms(1) by (auto simp: length_Suc_conv numeral_eq_Suc)
  obtain m0 m1 where m: "m = [m0, m1]" using assms(2) by (auto simp: length_Suc_conv numeral_eq_Suc)
  note setters = link_adr_req_set_data_rate_def link_adr_req_set_tx_power_def
    link_adr_req_set_channel_mask_def link_adr_req_set_redundancy_def rx_param_setup_req_set_frequency_def
    rx_param_setup_req_set_dl_settings_def new_channel_req_set_frequency_def
    new_channel_req_set_channel_index_def new_channel_req_set_data_rate_range_def
    dl_channel_req_set_frequency_def dl_channel_req_set_channel_index_def
    rx_timing_setup_req_set_delay_def duty_cycle_req_set_max_duty_cycle_def
  note getters = link_adr_req_data_rate_def link_adr_req_tx_power_def link_adr_req_channel_mask_def
    link_adr_req_redundancy_def mask_new_from_raw_def rx_param_setup_req_dl_settings_def
    rx_param_setup_req_frequency_def new_channel_req_channel_index_def new_channel_req_frequency_def
    new_channel_req_data_rate_range_def dl_channel_req_channel_index_def dl_channel_req_frequency_def
    rx_timing_setup_req_delay_def max_duty_cycle_raw_def value_reader_def
  have le: "\<not> 0x0f < dr" "\<not> 0x0f < pw" "\<not> 0x0f < dl" "\<not> 0x0f < dc" using assms(3-6) by (simp_all add: not_less)
  have a: "pw AND 0x0f = pw" "dl AND 0x0f = dl" "dc AND 0x0f = dc"
    using nibble_write(1) [of pw 0] nibble_write(1) [of dl 0] nibble_write(1) [of dc 0] assms by simp_all
  have b: "drop_bit 4 (push_bit 4 dr OR pw) = dr"
    using nibble_write(2) [OF assms(3), of pw] unfolding a(1) by (simp only: or.commute)
  then have b': "drop_bit 4 (push_bit 4 dr) OR drop_bit 4 pw = dr" by (simp only: drop_bit_or)
  have d: "push_bit 4 dr AND 0xf0 = (push_bit 4 dr :: u8)"
  proof -
    have n: "(0xf0 :: u8) = NOT (mask 4)" by (simp add: mask_eq_exp_minus_1)
    show ?thesis unfolding n by (rule bit_word_eqI) (auto simp: bit_simps)
  qed
  have c: "(push_bit 4 dr OR pw) AND 0x0f = pw"
    using nibble_write(4) [OF assms(3), of pw] unfolding a(1) by (simp only: or.commute)
  show ?thesis
    by (rule exI [of _ "[0x03, push_bit 4 dr, 0, 0, 0]"],
        rule exI [of _ "[0x03, push_bit 4 dr OR pw, 0, 0, 0]"],
        rule exI [of _ "[push_bit 4 dr OR pw, m0, m1, red_raw rd]"], rule exI [of _ "dls_raw ds # f"],
        rule exI [of _ "ix # f @ [drr_raw rg]"], rule exI [of _ "ix # f"], rule exI [of _ "[dl]"],
        rule exI [of _ "[dc]"], rule exI [of _ "0x05 # dls_raw ds # f"],
        rule exI [of _ "0x07 # ix # f @ [0]"], rule exI [of _ "0x0A # ix # f"])
       (simp add: setters getters creator_new_simps downlink_parse_one_def fixed_arm_def idx_def
          copy_range_def f m le a b' c d)
qed

lemma request_creators_roundtrip_witness:
  "\<exists>d1 d2 p. link_adr_req_set_data_rate 5 (creator_new 0x03 4) = Inr d1 \<and>
     link_adr_req_set_tx_power 2 d1 = Inr d2 \<and>
     downlink_parse_one (link_adr_req_set_redundancy (Redundancy 0x31) (link_adr_req_set_channel_mask [7, 0] d2))
       = Some (Inr (LinkADRReq p, 5)) \<and> link_adr_req_channel_mask p = Some [7, 0]"
  using request_creators_roundtrip [of "[1, 2, 3]" "[7, 0]" 5 2 1 0 "Redundancy 0x31"] by auto blast

text \<open>Writing a list of commands and splitting the written bytes gives the commands back; the
  number of bytes is the sum of the lengths with the CIDs, and the only error is an output buffer
  that is shorter than that.\<close>

theorem build_mac_commands_roundtrip:
  assumes "\<forall>c \<in> set cs. length (uplink_bytes c) = uplink_len c"
  shows "\<exists>r. build_mac_commands (map uplink_obj cs) out = Some r \<and>
     (case r of
        Inl e \<Rightarrow> e = CreatorBufferTooShort \<and> length out < mac_commands_len (map uplink_obj cs)
      | Inr (n, res) \<Rightarrow> n = mac_commands_len (map uplink_obj cs) \<and> length res = length out \<and>
          mc_items uplink_parse_one (mc_new (take n res)) = Some (map Inr cs))"
proof -
  have len: "\<forall>mc \<in> set (map uplink_obj cs). length (obj_payload mc) = obj_len mc"
    using assms by (simp add: uplink_obj_def)
  have enc: "obj_encode (map uplink_obj cs) = encode_cmds uplink_cid uplink_bytes cs"
    by (induction cs) (simp_all add: obj_encode_def encode_cmds_def uplink_obj_def)
  have l: "length (obj_encode (map uplink_obj cs)) = mac_commands_len (map uplink_obj cs)"
    using assms by (induction cs) (simp_all add: obj_encode_def mac_commands_len_def uplink_obj_def)
  show ?thesis
    using build_mac_commands_eq [OF len, of out] uplink.items_encode [OF assms] l by (auto simp: enc)
qed

lemma build_mac_commands_roundtrip_witness:
  "\<exists>n res. build_mac_commands (map uplink_obj [LinkADRAns [7], RXTimingSetupAns]) (replicate 15 0) = Some (Inr (n, res)) \<and>
     mc_items uplink_parse_one (mc_new (take n res)) = Some [Inr (LinkADRAns [7]), Inr RXTimingSetupAns]"
proof -
  have "\<forall>c \<in> set [LinkADRAns [7], RXTimingSetupAns]. length (uplink_bytes c) = uplink_len c" by simp
  from build_mac_commands_roundtrip [OF this, of "replicate 15 0"] obtain r where
    r: "build_mac_commands (map uplink_obj [LinkADRAns [7], RXTimingSetupAns]) (replicate 15 0) = Some r"
    and c: "case r of
        Inl e \<Rightarrow> e = CreatorBufferTooShort \<and>
          length (replicate 15 (0 :: u8)) < mac_commands_len (map uplink_obj [LinkADRAns [7], RXTimingSetupAns])
      | Inr (n, res) \<Rightarrow> n = mac_commands_len (map uplink_obj [LinkADRAns [7], RXTimingSetupAns]) \<and>
          length res = length (replicate 15 (0 :: u8)) \<and>
          mc_items uplink_parse_one (mc_new (take n res)) = Some (map Inr [LinkADRAns [7], RXTimingSetupAns])"
    by blast
  show ?thesis
  proof (cases r)
    case (Inl e)
    then show ?thesis using c by (simp add: mac_commands_len_def uplink_obj_def)
  next
    case (Inr q)
    then show ?thesis using r c by (cases q) auto
  qed
qed

text \<open>The network time of a \<open>DeviceTimeAns\<close> does not survive the round trip: the creator writes the
  seconds least significant byte first, the accessor reads them in the other order, so the value read
  back is the byte reversal of the value set.\<close>

theorem device_time_seconds_reversed:
  "\<exists>d p. device_time_ans_set_seconds s (creator_new 0x0D 5) = Some d \<and>
     downlink_parse_one d = Some (Inr (DeviceTimeAns p, 6)) \<and>
     device_time_ans_seconds p = Some (from_le_bytes (rev (to_le_bytes s)))"
proof -
  have "to_le_bytes s = [to_le_bytes s ! 0, to_le_bytes s ! 1, to_le_bytes s ! 2, to_le_bytes s ! 3]"
    by (simp add: to_le_bytes_def upt_conv_Cons)
  then obtain a b c d where s: "to_le_bytes s = [a, b, c, d]" by blast
  show ?thesis
    by (rule exI [of _ "[0x0D, a, b, c, d, 0]"], rule exI [of _ "[a, b, c, d, 0]"])
       (simp add: device_time_ans_set_seconds_def creator_new_simps copy_range_def s
          downlink_parse_one_def fixed_arm_def idx_def device_time_ans_seconds_def)
qed

lemma device_time_seconds_example:
  "\<exists>d p. device_time_ans_set_seconds 1 (creator_new 0x0D 5) = Some d \<and>
     downlink_parse_one d = Some (Inr (DeviceTimeAns p, 6)) \<and> device_time_ans_seconds p = Some 0x01000000"
  by (rule exI [of _ "[0x0D, 1, 0, 0, 0, 0]"], rule exI [of _ "[1, 0, 0, 0, 0]"])
     (simp add: device_time_ans_set_seconds_def creator_new_simps copy_range_def to_le_bytes_def
        downlink_parse_one_def fixed_arm_def idx_def device_time_ans_seconds_def upt_conv_Cons)

end
