(* ===== verification/UplinkQueue.thy ===== *)
theory UplinkQueue
  imports MacCreators
begin

text \<open>
  \<open>lorawan-device/src/mac/uplink/mod.rs\<close>: the MAC commands that wait for the next uplink and
  the acknowledgement of a confirmed downlink. A \<open>heapless::Vec<T, N>\<close> is the list of its
  elements, and \<open>N\<close> an argument of the operations that can exceed it: \<open>push\<close> and
  \<open>extend_from_slice\<close> leave a full vector as it is and return an error, which the code ignores
  for the first and unwraps for the second. \<open>FOPTS_MAX_LEN\<close> is 15.
\<close>

abbreviation "FOPTS_MAX_LEN \<equiv> (15 :: nat)"

definition vec_push :: "nat \<Rightarrow> 'a list \<Rightarrow> 'a \<Rightarrow> 'a list" where
  "vec_push cap xs x = (if length xs < cap then xs @ [x] else xs)"

definition vec_extend_unwrap :: "nat \<Rightarrow> 'a list \<Rightarrow> 'a list \<Rightarrow> 'a list run" where
  "vec_extend_unwrap cap xs ys = (if length xs + length ys \<le> cap then Some (xs @ ys) else None)"

record uplink_state =
  up_pending :: bytes
  up_confirmed :: bool

definition uplink_default :: uplink_state where
  "uplink_default = \<lparr>up_pending = [], up_confirmed = False\<rparr>"

definition set_downlink_confirmation :: "uplink_state \<Rightarrow> uplink_state" where
  "set_downlink_confirmation u = u\<lparr>up_confirmed := True\<rparr>"

definition clear_downlink_confirmation :: "uplink_state \<Rightarrow> uplink_state" where
  "clear_downlink_confirmation u = u\<lparr>up_confirmed := False\<rparr>"

definition confirms_downlink :: "uplink_state \<Rightarrow> bool" where
  "confirms_downlink u = up_confirmed u"

definition add_mac_command :: "mac_object \<Rightarrow> uplink_state \<Rightarrow> uplink_state run" where
  "add_mac_command cmd u =
     (if length (up_pending u) + obj_len cmd < FOPTS_MAX_LEN
      then do {
        p \<leftarrow> vec_extend_unwrap FOPTS_MAX_LEN
               (vec_push FOPTS_MAX_LEN (up_pending u) (obj_cid cmd)) (obj_payload cmd);
        Some (u\<lparr>up_pending := p\<rparr>)}
      else Some u)"

text \<open>The commands that are repeated until the network answers: \<open>matches!(cmd, ...)\<close>.\<close>

fun retained :: "uplink_cmd \<Rightarrow> bool" where
  "retained (DlChannelAns _) = True"
| "retained (RXParamSetupAns _) = True"
| "retained RXTimingSetupAns = True"
| "retained _ = False"

fun retain_loop :: "uplink_cmd list \<Rightarrow> bytes \<Rightarrow> bytes run" where
  "retain_loop [] data = Some data"
| "retain_loop (c # cs) data = do {
     data' \<leftarrow> vec_extend_unwrap FOPTS_MAX_LEN (vec_push FOPTS_MAX_LEN data (uplink_cid c)) (uplink_bytes c);
     retain_loop cs data'}"

text \<open>The chain ends in \<open>collect()\<close> into a vector of units of capacity 15, which panics when it overflows.\<close>

definition clear_mac_commands :: "bool \<Rightarrow> uplink_state \<Rightarrow> uplink_state run" where
  "clear_mac_commands retain_acks u =
     (if retain_acks
      then do {
        items \<leftarrow> mc_items uplink_parse_one (mc_new (up_pending u));
        let cs = filter retained (List.map_filter result_ok items);
        data \<leftarrow> retain_loop cs [];
        if length cs \<le> FOPTS_MAX_LEN then Some (u\<lparr>up_pending := data\<rparr>) else None}
      else Some (u\<lparr>up_pending := []\<rparr>))"

definition uplink_mac_commands :: "uplink_state \<Rightarrow> bytes" where
  "uplink_mac_commands u = up_pending u"

section \<open>The queue as a list of commands\<close>

text \<open>\<open>up_holds u cs\<close>: the pending bytes are the commands \<open>cs\<close>, which fit the FOpts field.\<close>

definition cmd_wf :: "uplink_cmd \<Rightarrow> bool" where
  "cmd_wf c \<longleftrightarrow> length (uplink_bytes c) = uplink_len c"

definition up_holds :: "uplink_state \<Rightarrow> uplink_cmd list \<Rightarrow> bool" where
  "up_holds u cs \<longleftrightarrow> up_pending u = encode_cmds uplink_cid uplink_bytes cs \<and>
     list_all cmd_wf cs \<and> length (up_pending u) \<le> FOPTS_MAX_LEN"

lemma encode_simps [simp]:
  "encode_cmds cid pl [] = []"
  "encode_cmds cid pl (c # cs) = cid c # pl c @ encode_cmds cid pl cs"
  "encode_cmds cid pl (cs @ ds) = encode_cmds cid pl cs @ encode_cmds cid pl ds"
  by (simp_all add: encode_cmds_def)

lemma up_holds_default [simp]: "up_holds uplink_default []"
  by (simp add: up_holds_def uplink_default_def)

lemma up_holds_confirmation [simp]:
  "up_holds (set_downlink_confirmation u) cs = up_holds u cs"
  "up_holds (clear_downlink_confirmation u) cs = up_holds u cs"
  by (simp_all add: up_holds_def set_downlink_confirmation_def clear_downlink_confirmation_def)

lemma up_holds_items:
  "up_holds u cs \<Longrightarrow> mc_items uplink_parse_one (mc_new (up_pending u)) = Some (map Inr cs)"
  using uplink.items_encode [of cs] by (auto simp: up_holds_def list_all_iff cmd_wf_def)

text \<open>A creator whose bytes parse as one command is that command as an object.\<close>

lemma creator_obj_uplink:
  "uplink_parse_one d = Some (Inr (c, length d)) \<Longrightarrow> creator_obj d = uplink_obj c \<and> cmd_wf c"
  using uplink.parsed_form [of d c "length d"]
  by (auto simp: creator_obj_def uplink_obj_def cmd_wf_def)

lemma add_mac_command_eq:
  assumes "up_holds u cs" "cmd_wf c"
  shows "add_mac_command (uplink_obj c) u =
     Some (if length (up_pending u) + uplink_len c < FOPTS_MAX_LEN
           then u\<lparr>up_pending := encode_cmds uplink_cid uplink_bytes (cs @ [c])\<rparr> else u)"
  using assms
  by (simp add: add_mac_command_def uplink_obj_def vec_push_def vec_extend_unwrap_def up_holds_def cmd_wf_def)

text \<open>A command is appended when it fits and dropped otherwise; the queue stays a list of commands.\<close>

lemma add_mac_command_holds:
  assumes "up_holds u cs" "cmd_wf c"
  obtains u' where "add_mac_command (uplink_obj c) u = Some u'" "up_confirmed u' = up_confirmed u"
    "up_holds u' (if length (up_pending u) + uplink_len c < FOPTS_MAX_LEN then cs @ [c] else cs)"
proof
  let ?u = "if length (up_pending u) + uplink_len c < FOPTS_MAX_LEN
    then u\<lparr>up_pending := encode_cmds uplink_cid uplink_bytes (cs @ [c])\<rparr> else u"
  show "add_mac_command (uplink_obj c) u = Some ?u" by (rule add_mac_command_eq [OF assms])
  show "up_confirmed ?u = up_confirmed u" by simp
  show "up_holds ?u (if length (up_pending u) + uplink_len c < FOPTS_MAX_LEN then cs @ [c] else cs)"
    using assms by (auto simp: up_holds_def cmd_wf_def)
qed

section \<open>Clearing\<close>

lemma map_filter_ok: "List.map_filter result_ok (map Inr cs) = cs"
  by (induction cs) (simp_all add: List.map_filter_simps)

lemma length_encode_filter:
  "length (encode_cmds cid pl (filter P cs)) \<le> length (encode_cmds cid pl cs)"
  "length cs \<le> length (encode_cmds cid pl cs)"
  by (induction cs) auto

lemma retain_loop_eq:
  "length data + length (encode_cmds uplink_cid uplink_bytes cs) \<le> FOPTS_MAX_LEN \<Longrightarrow>
   retain_loop cs data = Some (data @ encode_cmds uplink_cid uplink_bytes cs)"
  by (induction cs arbitrary: data) (simp_all add: vec_push_def vec_extend_unwrap_def)

lemma clear_mac_commands_holds:
  assumes "up_holds u cs"
  obtains u' where "clear_mac_commands keep u = Some u'" "up_confirmed u' = up_confirmed u"
    "up_holds u' (if keep then filter retained cs else [])"
proof -
  let ?f = "filter retained cs"
  let ?e = "encode_cmds uplink_cid uplink_bytes"
  have len: "length (?e ?f) \<le> FOPTS_MAX_LEN" "length ?f \<le> FOPTS_MAX_LEN"
    using assms length_encode_filter(1) [of uplink_cid uplink_bytes retained cs]
      length_encode_filter(2) [of ?f uplink_cid uplink_bytes]
    by (auto simp: up_holds_def)
  have "clear_mac_commands keep u = Some (u\<lparr>up_pending := if keep then ?e ?f else []\<rparr>)"
    using len by (simp add: clear_mac_commands_def up_holds_items [OF assms] map_filter_ok retain_loop_eq)
  then show thesis
    by (rule that) (use assms len in \<open>auto simp: up_holds_def list_all_iff\<close>)
qed

section \<open>Properties\<close>

text \<open>Queueing a MAC answer never panics and keeps the queue a stream of whole commands of at most 15
  bytes: the answer is appended when it fits into what is left of the FOpts field and is dropped
  entirely when it does not; the pending acknowledgement is untouched.\<close>

theorem uplink_queue_add:
  assumes "up_holds u cs" "cmd_wf c"
  shows "\<exists>u'. add_mac_command (uplink_obj c) u = Some u' \<and> up_confirmed u' = up_confirmed u \<and>
     up_holds u' (if length (uplink_mac_commands u) + 1 + uplink_len c \<le> FOPTS_MAX_LEN then cs @ [c] else cs)"
proof -
  have "length (uplink_mac_commands u) + 1 + uplink_len c \<le> FOPTS_MAX_LEN \<longleftrightarrow>
      length (up_pending u) + uplink_len c < FOPTS_MAX_LEN"
    by (simp add: uplink_mac_commands_def less_eq_Suc_le)
  moreover obtain u' where "add_mac_command (uplink_obj c) u = Some u'" "up_confirmed u' = up_confirmed u"
    "up_holds u' (if length (up_pending u) + uplink_len c < FOPTS_MAX_LEN then cs @ [c] else cs)"
    using add_mac_command_holds [OF assms] .
  ultimately show ?thesis by (simp only: simp_thms) blast
qed

lemma uplink_queue_add_witness:
  "\<exists>u'. add_mac_command (uplink_obj (LinkADRAns [7])) uplink_default = Some u' \<and> up_confirmed u' = False \<and>
     up_holds u' [LinkADRAns [7]]"
proof -
  have "cmd_wf (LinkADRAns [7])" "uplink_mac_commands uplink_default = []" "\<not> up_confirmed uplink_default"
    by (simp_all add: cmd_wf_def uplink_mac_commands_def uplink_default_def)
  then show ?thesis using uplink_queue_add [OF up_holds_default, of "LinkADRAns [7]"] by simp
qed

text \<open>After an uplink the queue keeps, in their order, exactly the answers that must be repeated until a
  downlink arrives (DlChannelAns, RXParamSetupAns and RXTimingSetupAns); a Class A downlink clears them
  all. Neither panics, and clearing again keeps the same commands.\<close>

theorem uplink_queue_retain:
  assumes "up_holds u cs"
  shows "\<exists>u'. clear_mac_commands keep u = Some u' \<and> up_confirmed u' = up_confirmed u \<and>
     mc_items uplink_parse_one (mc_new (uplink_mac_commands u')) =
       Some (map Inr (if keep then filter retained cs else [])) \<and>
     clear_mac_commands keep u' = Some u'"
proof -
  obtain u' where u': "clear_mac_commands keep u = Some u'" "up_confirmed u' = up_confirmed u"
    "up_holds u' (if keep then filter retained cs else [])"
    using clear_mac_commands_holds [OF assms] .
  obtain u'' where u'': "clear_mac_commands keep u' = Some u''" "up_confirmed u'' = up_confirmed u'"
    "up_holds u'' (if keep then filter retained (if keep then filter retained cs else []) else [])"
    using clear_mac_commands_holds [OF u'(3)] .
  have "u'' = u'" using u'(3) u''(2,3) by (cases u'; cases u''; cases keep) (simp_all add: up_holds_def)
  then show ?thesis using u' u''(1) up_holds_items [OF u'(3)] by (simp add: uplink_mac_commands_def)
qed

lemma uplink_queue_retain_witness:
  "\<exists>u'. clear_mac_commands True \<lparr>up_pending = [3, 7, 8, 10, 3], up_confirmed = True\<rparr> = Some u' \<and>
     mc_items uplink_parse_one (mc_new (uplink_mac_commands u')) = Some (map Inr [RXTimingSetupAns, DlChannelAns [3]])"
proof -
  have "up_holds \<lparr>up_pending = [3, 7, 8, 10, 3], up_confirmed = True\<rparr> [LinkADRAns [7], RXTimingSetupAns, DlChannelAns [3]]"
    by (simp add: up_holds_def cmd_wf_def)
  from uplink_queue_retain [OF this, of True] show ?thesis by auto
qed

end
