(* ===== verification/Radio.thy ===== *)
theory Radio
  imports Modulation
begin

text \<open>
  \<open>lorawan-device/src/radio.rs\<close>: the RF configurations that the MAC layer hands to the
  radio, power adjustment, and the radio buffer. \<open>i8\<close> and \<open>i16\<close> values are words read
  with \<open>sint\<close>; the array length \<open>N\<close> of a radio buffer is the length of its packet.
\<close>

record rf_config =
  rf_frequency :: u32
  rf_bb :: bbmp
  rf_max_payload_len :: u8

datatype rx_mode = Continuous | SingleShot u32

record rx_config =
  rxc_rf :: rf_config
  rxc_mode :: rx_mode

record tx_config =
  tx_pw :: i8
  tx_rf :: rf_config

definition i8_min :: "i8 \<Rightarrow> i8 \<Rightarrow> i8" where
  "i8_min a b = (if sint b < sint a then b else a)"

definition adjust_power :: "u8 \<Rightarrow> i8 \<Rightarrow> tx_config \<Rightarrow> tx_config" where
  "adjust_power max_power antenna_gain t =
     (let t1 = t\<lparr>tx_pw := tx_pw t - antenna_gain\<rparr>
      in t1\<lparr>tx_pw := i8_min (tx_pw t1) max_power\<rparr>)"

record rx_quality =
  rxq_rssi :: u16
  rxq_snr :: i8

definition rx_quality_new :: "u16 \<Rightarrow> i8 \<Rightarrow> rx_quality" where
  "rx_quality_new rssi snr = \<lparr>rxq_rssi = rssi, rxq_snr = snr\<rparr>"

record radio_buffer =
  rb_packet :: bytes
  rb_pos :: nat

definition rb_new :: "nat \<Rightarrow> radio_buffer" where
  "rb_new n = \<lparr>rb_packet = replicate n 0, rb_pos = 0\<rparr>"

definition rb_clear :: "radio_buffer \<Rightarrow> radio_buffer" where
  "rb_clear b = b\<lparr>rb_pos := 0\<rparr>"

definition rb_set_pos :: "nat \<Rightarrow> radio_buffer \<Rightarrow> radio_buffer" where
  "rb_set_pos pos b = b\<lparr>rb_pos := pos\<rparr>"

definition rb_extend_from_slice :: "bytes \<Rightarrow> radio_buffer \<Rightarrow> (radio_buffer \<times> (unit + unit)) run" where
  "rb_extend_from_slice buf b =
     (if rb_pos b + length buf < length (rb_packet b)
      then do {
        p \<leftarrow> copy_range (rb_packet b) (rb_pos b) (rb_pos b + length buf) buf;
        Some (b\<lparr>rb_packet := p, rb_pos := rb_pos b + length buf\<rparr>, Inr ())}
      else Some (b, Inl ()))"

definition rb_as_ref_for_read :: "radio_buffer \<Rightarrow> bytes run" where
  "rb_as_ref_for_read b = subslice (rb_packet b) 0 (rb_pos b)"

section \<open>Lemmas\<close>

definition rb_ok :: "radio_buffer \<Rightarrow> bool" where
  "rb_ok b \<longleftrightarrow> rb_pos b \<le> length (rb_packet b)"

lemma rb_read_ok: "rb_ok b \<Longrightarrow> rb_as_ref_for_read b = Some (take (rb_pos b) (rb_packet b))"
  by (simp add: rb_as_ref_for_read_def rb_ok_def)

lemma rb_new_ok [simp]: "rb_ok (rb_new n)" and rb_clear_ok [simp]: "rb_ok (rb_clear b)"
  by (simp_all add: rb_ok_def rb_new_def rb_clear_def)

lemma rb_extend_eq:
  "rb_ok b \<Longrightarrow> rb_extend_from_slice buf b =
     (if rb_pos b + length buf < length (rb_packet b)
      then Some (b\<lparr>rb_packet := take (rb_pos b) (rb_packet b) @ buf @
               drop (rb_pos b + length buf) (rb_packet b), rb_pos := rb_pos b + length buf\<rparr>, Inr ())
      else Some (b, Inl ()))"
  by (simp add: rb_extend_from_slice_def rb_ok_def)

lemma adjust_power_le:
  assumes "max_power \<le> 127"
  shows "sint (tx_pw (adjust_power max_power g t)) \<le> uint max_power"
proof -
  have "uint max_power < 128" using assms by (simp add: word_le_def)
  moreover have "- 128 \<le> uint max_power" by (rule order_trans [of _ 0]) simp_all
  ultimately have "sint max_power = uint max_power" by (simp add: sint_uint signed_take_bit_int_eq_self)
  then show ?thesis by (auto simp: adjust_power_def Let_def i8_min_def)
qed

end
