(* ===== verification/RegionTables.thy ===== *)
theory RegionTables
  imports Types Radio
begin

text \<open>
  What a region is: the traits \<open>ChannelRegion\<close>, \<open>DynamicChannelRegion\<close> and
  \<open>FixedChannelRegion\<close> of \<open>lorawan-device/src/region\<close> as records of their constants and
  associated functions, and the nine regions (\<open>eu868.rs\<close>, \<open>eu433.rs\<close>, \<open>in865.rs\<close>,
  \<open>as923.rs\<close>, \<open>us915\<close>, \<open>au915\<close>). The lemmas at the end are facts of the tables: their
  sizes, and that every RX1 and RX2 data rate a region computes exists.
\<close>

section \<open>Types of \<open>region/mod.rs\<close>\<close>

datatype frame = Join | Data

datatype window = Window1 | Window2

record datarate =
  dtr_bandwidth :: bandwidth
  dtr_spreading_factor :: spreading_factor
  dtr_max_mac_payload_size :: u8
  dtr_max_mac_payload_size_with_dwell_time :: u8

abbreviation mk_dr :: "bandwidth \<Rightarrow> spreading_factor \<Rightarrow> u8 \<Rightarrow> u8 \<Rightarrow> datarate option" where
  "mk_dr bw sf m d \<equiv> Some \<lparr>dtr_bandwidth = bw, dtr_spreading_factor = sf,
     dtr_max_mac_payload_size = m, dtr_max_mac_payload_size_with_dwell_time = d\<rparr>"

record tx_channel =
  txc_datarate :: datarate
  txc_dr :: DR
  txc_frequency :: u32
  txc_rx1_frequency :: u32

definition NUM_DATARATES :: nat where "NUM_DATARATES = 15"
definition NUM_CHANNELS_DYNAMIC :: nat where "NUM_CHANNELS_DYNAMIC = 16"
definition DEFAULT_CODING_RATE :: coding_rate where "DEFAULT_CODING_RATE = CR_4_5"
definition DEFAULT_DBM :: i8 where "DEFAULT_DBM = 14"

text \<open>\<open>Channel\<close> of the dynamic plans.\<close>

record channel =
  ch_frequency :: u32
  ch_datarates :: data_rate_range
  ch_dl_frequency :: "u32 option"

definition channel_new_with_dr :: "u32 \<Rightarrow> data_rate_range \<Rightarrow> channel" where
  "channel_new_with_dr f r = \<lparr>ch_frequency = f, ch_datarates = r, ch_dl_frequency = None\<rparr>"

definition channel_new :: "u32 \<Rightarrow> DR \<Rightarrow> DR \<Rightarrow> channel" where
  "channel_new f dr_min dr_max = channel_new_with_dr f (drr_new_range dr_min dr_max)"

definition ch_rx1_frequency :: "channel \<Rightarrow> u32" where
  "ch_rx1_frequency c = (case ch_dl_frequency c of None \<Rightarrow> ch_frequency c | Some f \<Rightarrow> f)"

definition ch_ul_frequency :: "channel \<Rightarrow> u32" where
  "ch_ul_frequency c = ch_frequency c"

section \<open>The region traits\<close>

record channel_region =
  cr_max_rx1_dr_offset :: u8
  cr_default_rx2_freq :: u32
  cr_datarates :: "datarate option list"
  cr_tx_power_adjust :: "u8 \<Rightarrow> u8 option"

record dynamic_region = channel_region +
  dyn_num_join_channels :: nat
  dyn_init_channels :: "channel option list \<Rightarrow> channel option list"
  dyn_get_rx_datarate :: "DR \<Rightarrow> u8 \<Rightarrow> window \<Rightarrow> DR"

record fixed_region = channel_region +
  fix_uplink_channels :: "u32 list"
  fix_downlink_channels :: "u32 list"
  fix_get_rx_datarate :: "DR \<Rightarrow> u8 \<Rightarrow> window \<Rightarrow> DR"

definition get_max_payload_length :: "'x channel_region_scheme \<Rightarrow> DR \<Rightarrow> bool \<Rightarrow> bool \<Rightarrow> u8" where
  "get_max_payload_length R datarate repeater_compatible dwell_time =
     (case idx (cr_datarates R) (dr_idx datarate) of
        Some (Some dr) \<Rightarrow>
          (let max_size = (if dwell_time then dtr_max_mac_payload_size_with_dwell_time dr
                           else dtr_max_mac_payload_size dr)
           in if repeater_compatible \<and> 230 < max_size then 230 else max_size)
      | _ \<Rightarrow> 0)"

definition u8_clamp :: "u8 \<Rightarrow> u8 \<Rightarrow> u8 \<Rightarrow> u8" where
  "u8_clamp v lo hi = (if v < lo then lo else if hi < v then hi else v)"

section \<open>Dynamic regions\<close>

subsection \<open>EU868\<close>

definition eu868_datarates :: "datarate option list" where
  "eu868_datarates = [
      mk_dr BW_125KHz SF_12 59 59, mk_dr BW_125KHz SF_11 59 59,
      mk_dr BW_125KHz SF_10 59 59, mk_dr BW_125KHz SF_9 123 123,
      mk_dr BW_125KHz SF_8 250 250, mk_dr BW_125KHz SF_7 250 250,
      None, None,
      None, None,
      None, None,
      None, None,
      None]"

definition eu868_freq_check :: "u32 \<Rightarrow> bool" where
  "eu868_freq_check f \<longleftrightarrow> 863000000 \<le> f \<and> f \<le> 870000000"

definition eu868_tx_power_adjust :: "u8 \<Rightarrow> u8 option" where
  "eu868_tx_power_adjust pw = (if pw \<le> 7 then Some (16 - 2 * pw) else None)"

fun eu868_base_dr :: "DR \<Rightarrow> DR" where
  "eu868_base_dr DR8 = DR1"
| "eu868_base_dr DR9 = DR2"
| "eu868_base_dr DR10 = DR1"
| "eu868_base_dr DR11 = DR2"
| "eu868_base_dr DR12 = DR0"
| "eu868_base_dr DR13 = DR0"
| "eu868_base_dr DR14 = DR0"
| "eu868_base_dr DR15 = DR0"
| "eu868_base_dr d = d"

fun eu868_get_rx_datarate :: "DR \<Rightarrow> u8 \<Rightarrow> window \<Rightarrow> DR" where
  "eu868_get_rx_datarate tx_dr off Window1 = offset_sub (eu868_base_dr tx_dr) off"
| "eu868_get_rx_datarate tx_dr off Window2 = DR0"

definition eu868_init_channels :: "channel option list \<Rightarrow> channel option list" where
  "eu868_init_channels c = c[0 := Some (channel_new 868100000 DR0 DR5),
     1 := Some (channel_new 868300000 DR0 DR5), 2 := Some (channel_new 868500000 DR0 DR5)]"

definition eu868_region :: dynamic_region where
  "eu868_region = \<lparr>cr_max_rx1_dr_offset = 5, cr_default_rx2_freq = 869525000,
     cr_datarates = eu868_datarates, cr_tx_power_adjust = eu868_tx_power_adjust,
     dyn_num_join_channels = 3, dyn_init_channels = eu868_init_channels,
     dyn_get_rx_datarate = eu868_get_rx_datarate\<rparr>"

subsection \<open>EU433\<close>

definition eu433_datarates :: "datarate option list" where
  "eu433_datarates = [
      mk_dr BW_125KHz SF_12 59 0, mk_dr BW_125KHz SF_11 59 0,
      mk_dr BW_125KHz SF_10 123 19, mk_dr BW_125KHz SF_9 123 61,
      mk_dr BW_125KHz SF_8 250 133, mk_dr BW_125KHz SF_7 250 250,
      mk_dr BW_250KHz SF_7 250 250, None,
      None, None,
      None, None,
      None, None,
      None]"

definition eu433_freq_check :: "u32 \<Rightarrow> bool" where
  "eu433_freq_check f \<longleftrightarrow> 433050000 \<le> f \<and> f \<le> 434790000"

definition eu433_tx_power_adjust :: "u8 \<Rightarrow> u8 option" where
  "eu433_tx_power_adjust pw = (if pw \<le> 5 then Some (16 - 2 * pw) else None)"

definition eu433_base_dr :: "DR \<Rightarrow> DR" where
  "eu433_base_dr d = (if d \<in> {DR0, DR1, DR2, DR3, DR4, DR5, DR6, DR7} then d else DR0)"

fun eu433_get_rx_datarate :: "DR \<Rightarrow> u8 \<Rightarrow> window \<Rightarrow> DR" where
  "eu433_get_rx_datarate tx_dr off Window1 = offset_sub (eu433_base_dr tx_dr) off"
| "eu433_get_rx_datarate tx_dr off Window2 = DR0"

definition eu433_init_channels :: "channel option list \<Rightarrow> channel option list" where
  "eu433_init_channels c = c[0 := Some (channel_new 433175000 DR0 DR5),
     1 := Some (channel_new 433375000 DR0 DR5), 2 := Some (channel_new 433575000 DR0 DR5)]"

definition eu433_region :: dynamic_region where
  "eu433_region = \<lparr>cr_max_rx1_dr_offset = 5, cr_default_rx2_freq = 434665000,
     cr_datarates = eu433_datarates, cr_tx_power_adjust = eu433_tx_power_adjust,
     dyn_num_join_channels = 3, dyn_init_channels = eu433_init_channels,
     dyn_get_rx_datarate = eu433_get_rx_datarate\<rparr>"

subsection \<open>IN865\<close>

definition in865_datarates :: "datarate option list" where
  "in865_datarates = [
      mk_dr BW_125KHz SF_12 59 59, mk_dr BW_125KHz SF_11 59 59,
      mk_dr BW_125KHz SF_10 59 59, mk_dr BW_125KHz SF_9 123 123,
      mk_dr BW_125KHz SF_8 250 250, mk_dr BW_125KHz SF_7 250 250,
      None, None,
      None, None,
      None, None,
      None, None,
      None]"

definition in865_freq_check :: "u32 \<Rightarrow> bool" where
  "in865_freq_check f \<longleftrightarrow> 865000000 \<le> f \<and> f \<le> 867000000"

definition in865_tx_power_adjust :: "u8 \<Rightarrow> u8 option" where
  "in865_tx_power_adjust pw = (if pw \<le> 10 then Some (30 - 2 * pw) else None)"

fun in865_get_rx_datarate :: "DR \<Rightarrow> u8 \<Rightarrow> window \<Rightarrow> DR" where
  "in865_get_rx_datarate tx_dr off Window1 =
     (if tx_dr \<in> {DR0, DR1, DR2, DR3, DR4, DR5, DR7} then
        if off < 6 then offset_sub tx_dr off
        else if tx_dr = DR5 then (if off = 6 then DR5 else DR7)
        else if tx_dr = DR7 then DR7
        else dr_from (min (dr_u8 tx_dr + off - 5) (dr_u8 DR7))
      else DR0)"
| "in865_get_rx_datarate tx_dr off Window2 = DR2"

definition in865_init_channels :: "channel option list \<Rightarrow> channel option list" where
  "in865_init_channels c = c[0 := Some (channel_new 865062500 DR0 DR5),
     1 := Some (channel_new 865402500 DR0 DR5), 2 := Some (channel_new 865985000 DR0 DR5)]"

definition in865_region :: dynamic_region where
  "in865_region = \<lparr>cr_max_rx1_dr_offset = 7, cr_default_rx2_freq = 866550000,
     cr_datarates = in865_datarates, cr_tx_power_adjust = in865_tx_power_adjust,
     dyn_num_join_channels = 3, dyn_init_channels = in865_init_channels,
     dyn_get_rx_datarate = in865_get_rx_datarate\<rparr>"

subsection \<open>AS923, with its two const generics as arguments\<close>

definition as923_datarates :: "datarate option list" where
  "as923_datarates = [
      mk_dr BW_125KHz SF_12 59 0, mk_dr BW_125KHz SF_11 59 0,
      mk_dr BW_125KHz SF_10 123 19, mk_dr BW_125KHz SF_9 123 61,
      mk_dr BW_125KHz SF_8 250 133, mk_dr BW_125KHz SF_7 250 250,
      mk_dr BW_250KHz SF_7 250 250, None,
      None, None,
      None, None,
      None, None,
      None]"

definition as924_generic_freq_check :: "u32 \<Rightarrow> bool" where
  "as924_generic_freq_check f \<longleftrightarrow> 915000000 \<le> f \<and> f \<le> 928000000"

definition as924_4_freq_check :: "u32 \<Rightarrow> bool" where
  "as924_4_freq_check f \<longleftrightarrow> 917000000 \<le> f \<and> f \<le> 920000000"

definition as923_tx_power_adjust :: "u8 \<Rightarrow> u8 option" where
  "as923_tx_power_adjust pw = (if pw \<le> 7 then Some (16 - 2 * pw) else None)"

fun as923_get_rx_datarate :: "DR \<Rightarrow> u8 \<Rightarrow> window \<Rightarrow> DR" where
  "as923_get_rx_datarate tx_dr off Window1 =
     (if tx_dr \<in> {DR0, DR1, DR2, DR3, DR4, DR5, DR6, DR7} then
        if off < 6 then offset_sub tx_dr off
        else dr_from (min (dr_u8 tx_dr + off - 5) (dr_u8 DR7))
      else DR0)"
| "as923_get_rx_datarate tx_dr off Window2 = DR2"

definition as923_init_channels :: "u32 \<Rightarrow> channel option list \<Rightarrow> channel option list" where
  "as923_init_channels off c = c[0 := Some (channel_new (923200000 - off) DR2 DR5),
     1 := Some (channel_new (923400000 - off) DR2 DR5)]"

definition as923_region :: "u32 \<Rightarrow> u32 \<Rightarrow> dynamic_region" where
  "as923_region default_rx2 off = \<lparr>cr_max_rx1_dr_offset = 7, cr_default_rx2_freq = default_rx2,
     cr_datarates = as923_datarates, cr_tx_power_adjust = as923_tx_power_adjust,
     dyn_num_join_channels = 2, dyn_init_channels = as923_init_channels off,
     dyn_get_rx_datarate = as923_get_rx_datarate\<rparr>"

definition as923_1_region :: dynamic_region where "as923_1_region = as923_region 923200000 0"
definition as923_2_region :: dynamic_region where "as923_2_region = as923_region 921400000 1800000"
definition as923_3_region :: dynamic_region where "as923_3_region = as923_region 916500000 6600000"
definition as923_4_region :: dynamic_region where "as923_4_region = as923_region 917300000 5900000"

section \<open>Fixed regions\<close>

subsection \<open>US915\<close>

definition us915_datarates :: "datarate option list" where
  "us915_datarates = [
      mk_dr BW_125KHz SF_10 19 19, mk_dr BW_125KHz SF_9 61 61,
      mk_dr BW_125KHz SF_8 133 133, mk_dr BW_125KHz SF_7 250 250,
      mk_dr BW_500KHz SF_8 250 250, None,
      None, None,
      mk_dr BW_500KHz SF_12 61 61, mk_dr BW_500KHz SF_11 137 137,
      mk_dr BW_500KHz SF_10 250 250, mk_dr BW_500KHz SF_9 250 250,
      mk_dr BW_500KHz SF_8 250 250, mk_dr BW_500KHz SF_7 250 250,
      None]"

definition us915_uplink_channels :: "u32 list" where
  "us915_uplink_channels = [
      902300000, 902500000, 902700000, 902900000, 903100000, 903300000, 903500000, 903700000,
      903900000, 904100000, 904300000, 904500000, 904700000, 904900000, 905100000, 905300000,
      905500000, 905700000, 905900000, 906100000, 906300000, 906500000, 906700000, 906900000,
      907100000, 907300000, 907500000, 907700000, 907900000, 908100000, 908300000, 908500000,
      908700000, 908900000, 909100000, 909300000, 909500000, 909700000, 909900000, 910100000,
      910300000, 910500000, 910700000, 910900000, 911100000, 911300000, 911500000, 911700000,
      911900000, 912100000, 912300000, 912500000, 912700000, 912900000, 913100000, 913300000,
      913500000, 913700000, 913900000, 914100000, 914300000, 914500000, 914700000, 914900000,
      903000000, 904600000, 906200000, 907800000, 909400000, 911000000, 912600000, 914200000]"

definition us915_downlink_channels :: "u32 list" where
  "us915_downlink_channels = [
      923300000, 923900000, 924500000, 925100000, 925700000, 926300000, 926900000, 927500000]"

definition us915_default_freq :: "u32 \<Rightarrow> bool" where
  "us915_default_freq f \<longleftrightarrow> 902000000 \<le> f \<and> f \<le> 928000000"

definition us915_tx_power_adjust :: "u8 \<Rightarrow> u8 option" where
  "us915_tx_power_adjust pw = (if pw \<le> 14 then Some (min 21 (30 - 2 * pw)) else None)"

fun us915_get_rx_datarate :: "DR \<Rightarrow> u8 \<Rightarrow> window \<Rightarrow> DR" where
  "us915_get_rx_datarate tx_dr off Window1 =
     (if tx_dr \<in> {DR0, DR1, DR2, DR3, DR4} then
        dr_from (u8_clamp (dr_u8 DR10 + dr_u8 tx_dr - off) (dr_u8 DR8) (dr_u8 DR13))
      else if tx_dr \<in> {DR5, DR6} then
        dr_from (u8_clamp (dr_u8 DR5 + dr_u8 tx_dr - off) (dr_u8 DR8) (dr_u8 DR11))
      else DR8)"
| "us915_get_rx_datarate tx_dr off Window2 = DR8"

definition us915_region :: fixed_region where
  "us915_region = \<lparr>cr_max_rx1_dr_offset = 3, cr_default_rx2_freq = 923300000,
     cr_datarates = us915_datarates, cr_tx_power_adjust = us915_tx_power_adjust,
     fix_uplink_channels = us915_uplink_channels, fix_downlink_channels = us915_downlink_channels,
     fix_get_rx_datarate = us915_get_rx_datarate\<rparr>"

subsection \<open>AU915\<close>

definition au915_datarates :: "datarate option list" where
  "au915_datarates = [
      mk_dr BW_125KHz SF_12 59 0, mk_dr BW_125KHz SF_11 59 0,
      mk_dr BW_125KHz SF_10 59 19, mk_dr BW_125KHz SF_9 123 61,
      mk_dr BW_125KHz SF_8 250 133, mk_dr BW_125KHz SF_7 250 250,
      mk_dr BW_500KHz SF_8 250 250, None,
      mk_dr BW_500KHz SF_12 61 61, mk_dr BW_500KHz SF_11 137 137,
      mk_dr BW_500KHz SF_10 250 250, mk_dr BW_500KHz SF_9 250 250,
      mk_dr BW_500KHz SF_8 250 250, mk_dr BW_500KHz SF_7 250 250,
      None]"

definition au915_uplink_channels :: "u32 list" where
  "au915_uplink_channels = [
      915200000, 915400000, 915600000, 915800000, 916000000, 916200000, 916400000, 916600000,
      916800000, 917000000, 917200000, 917400000, 917600000, 917800000, 918000000, 918200000,
      918400000, 918600000, 918800000, 919000000, 919200000, 919400000, 919600000, 919800000,
      920000000, 920200000, 920400000, 920600000, 920800000, 921000000, 921200000, 921400000,
      921600000, 921800000, 922000000, 922200000, 922400000, 922600000, 922800000, 923000000,
      923200000, 923400000, 923600000, 923800000, 924000000, 924200000, 924400000, 924600000,
      924800000, 925000000, 925200000, 925400000, 925600000, 925800000, 926000000, 926200000,
      926400000, 926600000, 926800000, 927000000, 927200000, 927400000, 927600000, 927800000,
      915900000, 917500000, 919100000, 920700000, 922300000, 923900000, 925500000, 927100000]"

definition au915_downlink_channels :: "u32 list" where
  "au915_downlink_channels = [
      923300000, 923900000, 924500000, 925100000, 925700000, 926300000, 926900000, 927500000]"

definition au915_default_freq :: "u32 \<Rightarrow> bool" where
  "au915_default_freq f \<longleftrightarrow> 915000000 \<le> f \<and> f \<le> 928000000"

definition au915_tx_power_adjust :: "u8 \<Rightarrow> u8 option" where
  "au915_tx_power_adjust pw = (if pw \<le> 14 then Some (30 - 2 * pw) else None)"

fun au915_get_rx_datarate :: "DR \<Rightarrow> u8 \<Rightarrow> window \<Rightarrow> DR" where
  "au915_get_rx_datarate tx_dr off Window1 =
     (if tx_dr \<in> {DR0, DR1, DR2, DR3, DR4, DR5, DR6} then
        dr_from (u8_clamp (dr_u8 DR8 + dr_u8 tx_dr - off) (dr_u8 DR8) (dr_u8 DR13))
      else if tx_dr = DR7 then (if off = 0 then DR9 else DR8)
      else DR8)"
| "au915_get_rx_datarate tx_dr off Window2 = DR8"

definition au915_region :: fixed_region where
  "au915_region = \<lparr>cr_max_rx1_dr_offset = 5, cr_default_rx2_freq = 923300000,
     cr_datarates = au915_datarates, cr_tx_power_adjust = au915_tx_power_adjust,
     fix_uplink_channels = au915_uplink_channels, fix_downlink_channels = au915_downlink_channels,
     fix_get_rx_datarate = au915_get_rx_datarate\<rparr>"

section \<open>Facts of the tables\<close>

definition region_ok :: "'x channel_region_scheme \<Rightarrow> bool" where
  "region_ok R \<longleftrightarrow> length (cr_datarates R) = 15 \<and> cr_max_rx1_dr_offset R \<le> 7 \<and>
     (\<exists>p. cr_tx_power_adjust R 0 = Some p)"

definition dynamic_regions :: "dynamic_region list" where
  "dynamic_regions = [eu868_region, eu433_region, in865_region, as923_1_region, as923_2_region,
     as923_3_region, as923_4_region]"

definition fixed_regions :: "fixed_region list" where
  "fixed_regions = [us915_region, au915_region]"

lemmas region_defs = eu868_region_def eu433_region_def in865_region_def as923_1_region_def
  as923_2_region_def as923_3_region_def as923_4_region_def as923_region_def us915_region_def
  au915_region_def

lemmas table_defs = eu868_datarates_def eu433_datarates_def in865_datarates_def as923_datarates_def
  us915_datarates_def au915_datarates_def us915_uplink_channels_def us915_downlink_channels_def
  au915_uplink_channels_def au915_downlink_channels_def

lemmas power_defs = eu868_tx_power_adjust_def eu433_tx_power_adjust_def in865_tx_power_adjust_def
  as923_tx_power_adjust_def us915_tx_power_adjust_def au915_tx_power_adjust_def

lemma dynamic_region_ok: "R \<in> set dynamic_regions \<Longrightarrow> region_ok R"
  by (auto simp: dynamic_regions_def region_ok_def region_defs table_defs power_defs)

lemma fixed_region_ok: "R \<in> set fixed_regions \<Longrightarrow> region_ok R"
  by (auto simp: fixed_regions_def region_ok_def region_defs table_defs power_defs)

lemma fixed_channel_tables:
  "R \<in> set fixed_regions \<Longrightarrow> length (fix_uplink_channels R) = 72 \<and> length (fix_downlink_channels R) = 8"
  by (auto simp: fixed_regions_def region_defs table_defs)

end
