(* ===== verification/Security.thy ===== *)
theory Security
  imports Prelude
begin

text \<open>
  \<open>keys.rs\<close> (traits \<open>Crypto\<close> and \<open>NetworkCrypto\<close>, key derivation) and
  \<open>securityhelpers.rs\<close> (MIC blocks, FRMPayload encryption). AES and CMAC are outside the
  repository: an implementation of the traits is a record of functions, a parameter of
  every definition that uses it. \<open>crypto_ok\<close> and \<open>network_crypto_ok\<close> are what the traits'
  documentation promises: a block stays 16 bytes, a MIC has four, and the decrypt
  primitive and the encrypt primitive are inverse on blocks.
\<close>

section \<open>The crypto traits\<close>

record crypto =
  encrypt_block :: "bytes \<Rightarrow> bytes"
  cmac_mic :: "bytes \<Rightarrow> bytes \<Rightarrow> bytes"

record network_crypto = crypto +
  decrypt_block :: "bytes \<Rightarrow> bytes"

definition crypto_ok :: "'x crypto_scheme \<Rightarrow> bool" where
  "crypto_ok c \<longleftrightarrow>
     (\<forall>b. length b = 16 \<longrightarrow> length (encrypt_block c b) = 16) \<and>
     (\<forall>b0 d. length (cmac_mic c b0 d) = 4)"

definition network_crypto_ok :: "'x network_crypto_scheme \<Rightarrow> bool" where
  "network_crypto_ok c \<longleftrightarrow> crypto_ok c \<and>
     (\<forall>b. length b = 16 \<longrightarrow> length (decrypt_block c b) = 16 \<and> encrypt_block c (decrypt_block c b) = b)"

lemma crypto_okD:
  "crypto_ok c \<Longrightarrow> length b = 16 \<Longrightarrow> length (encrypt_block c b) = 16"
  "crypto_ok c \<Longrightarrow> length (cmac_mic c b0 d) = 4"
  by (simp_all add: crypto_ok_def)

lemma network_crypto_okD:
  "network_crypto_ok c \<Longrightarrow> crypto_ok c"
  "network_crypto_ok c \<Longrightarrow> length b = 16 \<Longrightarrow> length (decrypt_block c b) = 16"
  "network_crypto_ok c \<Longrightarrow> length b = 16 \<Longrightarrow> encrypt_block c (decrypt_block c b) = b"
  by (simp_all add: network_crypto_ok_def)

section \<open>MIC blocks\<close>

text \<open>\<open>generate_helper_block\<close> writes into a zeroed block of 16 bytes.\<close>

definition generate_helper_block :: "bytes \<Rightarrow> u8 \<Rightarrow> u32 \<Rightarrow> bytes \<Rightarrow> bytes run" where
  "generate_helper_block data first fcnt res = do {
     r1 \<leftarrow> set_idx res 0 first;
     d0 \<leftarrow> idx data 0;
     r2 \<leftarrow> set_idx r1 5 (drop_bit 5 (d0 AND 0x20));
     addr \<leftarrow> subslice data 1 5;
     r3 \<leftarrow> copy_range r2 6 10 addr;
     r4 \<leftarrow> set_idx r3 10 (ucast (fcnt AND 0xff));
     r5 \<leftarrow> set_idx r4 11 (ucast (drop_bit 8 fcnt AND 0xff));
     r6 \<leftarrow> set_idx r5 12 (ucast (drop_bit 16 fcnt AND 0xff));
     set_idx r6 13 (ucast (drop_bit 24 fcnt AND 0xff))}"

definition calculate_data_mic :: "bytes \<Rightarrow> 'x crypto_scheme \<Rightarrow> u32 \<Rightarrow> bytes run" where
  "calculate_data_mic data c fcnt = do {
     b0 \<leftarrow> generate_helper_block data 0x49 fcnt (replicate 16 0);
     b0' \<leftarrow> set_idx b0 15 (word_of_nat (length data));
     Some (cmac_mic c b0' data)}"

definition calculate_mic :: "bytes \<Rightarrow> 'x crypto_scheme \<Rightarrow> bytes" where
  "calculate_mic data c = cmac_mic c [] data"

text \<open>The block written out, for a frame with a full header.\<close>

definition helper_block :: "bytes \<Rightarrow> u8 \<Rightarrow> u32 \<Rightarrow> bytes" where
  "helper_block data first fcnt =
     [first, 0, 0, 0, 0, drop_bit 5 (data ! 0 AND 0x20), data ! 1, data ! 2, data ! 3, data ! 4,
      ucast fcnt, ucast (drop_bit 8 fcnt), ucast (drop_bit 16 fcnt), ucast (drop_bit 24 fcnt), 0, 0]"

lemma ucast_and_ff: "ucast ((w :: u32) AND 0xff) = (ucast w :: u8)"
proof (rule bit_word_eqI)
  fix n assume "n < LENGTH(8)"
  moreover have ff: "(0xff :: u32) = mask 8" by (simp add: mask_eq_exp_minus_1)
  ultimately show "bit (ucast (w AND 0xff) :: u8) n = bit (ucast w :: u8) n"
    unfolding ff by (simp add: bit_simps)
qed

lemma take4_drop1: "5 \<le> length (d :: 'a list) \<Longrightarrow> take 4 (drop 1 d) = [d ! 1, d ! 2, d ! 3, d ! 4]"
  by (rule nth_equalityI) (auto simp: less_Suc_eq numeral_eq_Suc)

lemma zeros16: "replicate 16 (0 :: u8) = [0, 0, 0, 0, 0, 0, 0, 0, 0, 0, 0, 0, 0, 0, 0, 0]"
  by (simp add: numeral_eq_Suc)

lemma generate_helper_block_eq:
  "5 \<le> length data \<Longrightarrow>
   generate_helper_block data first fcnt (replicate 16 0) = Some (helper_block data first fcnt)"
  by (auto simp: generate_helper_block_def helper_block_def ucast_and_ff take4_drop1 [simplified]
      zeros16 copy_range_def idx_def)

lemma length_helper_block [simp]: "length (helper_block d f n) = 16"
  by (simp add: helper_block_def)

lemma helper_block_cong: "take 5 d = take 5 e \<Longrightarrow> helper_block d f n = helper_block e f n"
proof -
  assume "take 5 d = take 5 e"
  then have "d ! i = e ! i" if "i < 5" for i
    using that by (metis nth_take)
  then show ?thesis by (simp add: helper_block_def)
qed

definition data_mic :: "bytes \<Rightarrow> 'x crypto_scheme \<Rightarrow> u32 \<Rightarrow> bytes" where
  "data_mic data c fcnt =
     cmac_mic c ((helper_block data 0x49 fcnt)[15 := word_of_nat (length data)]) data"

lemma calculate_data_mic_eq:
  "5 \<le> length data \<Longrightarrow> calculate_data_mic data c fcnt = Some (data_mic data c fcnt)"
  by (simp add: calculate_data_mic_def generate_helper_block_eq data_mic_def)

lemma length_data_mic: "crypto_ok c \<Longrightarrow> length (data_mic d c n) = 4"
  by (simp add: data_mic_def crypto_okD)

section \<open>FRMPayload encryption\<close>

text \<open>The loop over the payload. The block counter \<open>ctr\<close> is a \<open>u8\<close> (its type is that of \<open>a[15]\<close>).\<close>

fun frm_loop :: "'x crypto_scheme \<Rightarrow> bytes \<Rightarrow> bytes \<Rightarrow> u8 \<Rightarrow> bytes \<Rightarrow> nat \<Rightarrow> nat \<Rightarrow> nat \<Rightarrow> bytes run" where
  "frm_loop c a s ctr buf start i 0 = Some buf"
| "frm_loop c a s ctr buf start i (Suc n) = do {
     (a', s', ctr') \<leftarrow>
       (if i mod 16 = 0
        then do { a' \<leftarrow> set_idx a 15 ctr; Some (a', encrypt_block c a', ctr + 1) }
        else Some (a, s, ctr));
     b \<leftarrow> idx buf (start + i);
     k \<leftarrow> idx s' (i mod 16);
     buf' \<leftarrow> set_idx buf (start + i) (b XOR k);
     frm_loop c a' s' ctr' buf' start (Suc i) n}"

text \<open>\<open>end - start\<close> wraps when \<open>end < start\<close>, and the loop then runs out of the buffer.\<close>

definition encrypt_frm_data_payload ::
  "bytes \<Rightarrow> nat \<Rightarrow> nat \<Rightarrow> u32 \<Rightarrow> 'x crypto_scheme \<Rightarrow> bytes run" where
  "encrypt_frm_data_payload buf start end' fcnt c =
     (if end' < start then None
      else do {
        a \<leftarrow> generate_helper_block buf 0x01 fcnt (replicate 16 0);
        frm_loop c a (replicate 16 0) 1 buf start 0 (end' - start)})"

text \<open>Its specification: exclusive-or with a key stream that depends on the header only.\<close>

definition key_byte :: "'x crypto_scheme \<Rightarrow> bytes \<Rightarrow> nat \<Rightarrow> u8" where
  "key_byte c a i = encrypt_block c (a[15 := word_of_nat (i div 16) + 1]) ! (i mod 16)"

definition xor_range :: "(nat \<Rightarrow> u8) \<Rightarrow> bytes \<Rightarrow> nat \<Rightarrow> nat \<Rightarrow> bytes" where
  "xor_range k buf i j = map (\<lambda>p. if i \<le> p \<and> p < j then buf ! p XOR k (p - i) else buf ! p) [0..<length buf]"

lemma length_xor_range [simp]: "length (xor_range k buf i j) = length buf"
  by (simp add: xor_range_def)

lemma xor_range_nth [simp]:
  "p < length buf \<Longrightarrow> xor_range k buf i j ! p = (if i \<le> p \<and> p < j then buf ! p XOR k (p - i) else buf ! p)"
  by (simp add: xor_range_def)

lemma xor_range_twice: "xor_range k (xor_range k buf i j) i j = buf"
  by (rule nth_equalityI) (simp_all add: xor.assoc)

lemma xor_range_take: "n \<le> i \<Longrightarrow> take n (xor_range k buf i j) = take n buf"
  by (rule nth_equalityI) auto

lemma xor_range_drop: "j \<le> n \<Longrightarrow> drop n (xor_range k buf i j) = drop n buf"
  by (rule nth_equalityI) (simp_all)

lemma xor_range_empty [simp]: "xor_range k buf i i = buf"
  by (rule nth_equalityI) auto

lemma ceil_div16: "(i + 15) div 16 = (if i mod 16 = 0 then i div 16 else Suc (i div 16))"
proof -
  define q r where "q = i div 16" and "r = i mod 16"
  have i: "i = 16 * q + r" "r < 16" by (simp_all add: q_def r_def)
  have "(i + 15) div 16 = (if r = 0 then q else Suc q)"
  proof (cases r)
    case (Suc k)
    then have "i + 15 = 16 * Suc q + k" "k < 16" using i by simp_all
    then show ?thesis using Suc by (simp only: div_mult_self4 div_less) simp
  qed (simp add: i)
  then show ?thesis by (simp only: q_def r_def)
qed

lemma div16_Suc: "Suc i mod 16 \<noteq> 0 \<Longrightarrow> Suc i div 16 = i div 16"
  by (simp add: div_Suc)

lemma frm_loop_inv:
  assumes "crypto_ok c" "length a = 16" "start + i + n \<le> length buf"
    and "i mod 16 \<noteq> 0 \<longrightarrow> s = encrypt_block c (a0[15 := word_of_nat (i div 16) + 1])"
    and "ctr = word_of_nat ((i + 15) div 16) + 1"
    and "\<And>v. a[15 := v] = a0[15 := v]" "length a0 = 16"
  shows "frm_loop c a s ctr buf start i n =
           Some (xor_range (\<lambda>p. key_byte c a0 (i + p)) buf (start + i) (start + i + n))"
  using assms
proof (induction n arbitrary: a s ctr buf i)
  case 0
  then show ?case by simp
next
  case (Suc n)
  define s' where "s' = encrypt_block c (a0[15 := word_of_nat (i div 16) + 1])"
  define a' where "a' = (if i mod 16 = 0 then a[15 := ctr] else a)"
  define ctr' where "ctr' = (if i mod 16 = 0 then ctr + 1 else ctr)"
  note d = ceil_div16 [of i]
  have d': "(Suc i + 15) div 16 = Suc (i div 16)" by simp
  have step: "(if i mod 16 = 0 then do { a' \<leftarrow> set_idx a 15 ctr; Some (a', encrypt_block c a', ctr + 1) }
        else Some (a, s, ctr)) = Some (a', s', ctr')"
    using Suc.prems d by (auto simp: a'_def s'_def ctr'_def)
  have ls: "length s' = 16" using Suc.prems by (simp add: s'_def crypto_okD)
  have k: "s' ! (i mod 16) = key_byte c a0 i" by (simp add: s'_def key_byte_def)
  let ?buf' = "buf[start + i := buf ! (start + i) XOR key_byte c a0 i]"
  have "frm_loop c a s ctr buf start i (Suc n) = frm_loop c a' s' ctr' ?buf' start (Suc i) n"
    using Suc.prems(3) ls by (simp only: frm_loop.simps step) (simp add: k)
  also have "\<dots> = Some (xor_range (\<lambda>p. key_byte c a0 (Suc i + p)) ?buf' (start + Suc i) (start + Suc i + n))"
  proof (rule Suc.IH)
    show "length a' = 16" using Suc.prems by (simp add: a'_def)
    show "Suc i mod 16 \<noteq> 0 \<longrightarrow> s' = encrypt_block c (a0[15 := word_of_nat (Suc i div 16) + 1])"
    proof
      assume "Suc i mod 16 \<noteq> 0"
      then have "Suc i div 16 = i div 16" by (rule div16_Suc)
      then show "s' = encrypt_block c (a0[15 := word_of_nat (Suc i div 16) + 1])" by (simp add: s'_def)
    qed
    show "ctr' = word_of_nat ((Suc i + 15) div 16) + 1"
      using Suc.prems(5) d d' by (simp add: ctr'_def del: add_Suc)
    show "a'[15 := v] = a0[15 := v]" for v using Suc.prems(6) by (simp add: a'_def)
  qed (use Suc.prems in simp_all)
  also have "xor_range (\<lambda>p. key_byte c a0 (Suc i + p)) ?buf' (start + Suc i) (start + Suc i + n)
      = xor_range (\<lambda>p. key_byte c a0 (i + p)) buf (start + i) (start + i + Suc n)"
  proof (rule nth_equalityI, goal_cases)
    case (2 p)
    consider "p = start + i" | "p < start + i" | "Suc (start + i) \<le> p" by linarith
    then show ?case
    proof cases
      case 3
      then have "Suc i + (p - (start + Suc i)) = i + (p - (start + i))" by linarith
      then show ?thesis using 2 3 by (simp only: length_xor_range length_list_update xor_range_nth) simp
    qed (use 2 in simp_all)
  qed simp
  finally show ?case by simp
qed

lemma encrypt_frm_eq:
  assumes "crypto_ok c" "5 \<le> length buf" "start \<le> end'" "end' \<le> length buf"
  shows "encrypt_frm_data_payload buf start end' fcnt c =
           Some (xor_range (key_byte c (helper_block buf 0x01 fcnt)) buf start end')"
  using assms frm_loop_inv [of c "helper_block buf 0x01 fcnt" start 0 "end' - start" buf
      "replicate 16 0" "helper_block buf 0x01 fcnt" 1]
  by (simp add: encrypt_frm_data_payload_def generate_helper_block_eq)

section \<open>Key derivation of \<open>keys.rs\<close>\<close>

text \<open>Keys (\<open>AES128\<close> and its newtypes) are their 16 bytes.\<close>

definition derive_mc_key :: "u8 \<Rightarrow> 'x crypto_scheme \<Rightarrow> bytes \<Rightarrow> bytes run" where
  "derive_mc_key first c mc_addr = do {
     b1 \<leftarrow> set_idx (replicate 16 0) 0 first;
     b2 \<leftarrow> copy_range b1 1 5 mc_addr;
     Some (encrypt_block c b2)}"

definition derive_mc_app_s_key :: "'x crypto_scheme \<Rightarrow> bytes \<Rightarrow> bytes run" where
  "derive_mc_app_s_key c mc_addr = derive_mc_key 0x01 c mc_addr"

definition derive_mc_net_s_key :: "'x crypto_scheme \<Rightarrow> bytes \<Rightarrow> bytes run" where
  "derive_mc_net_s_key c mc_addr = derive_mc_key 0x02 c mc_addr"

definition mc_ke_key_derive_from :: "'x crypto_scheme \<Rightarrow> bytes" where
  "mc_ke_key_derive_from c = encrypt_block c (replicate 16 0)"

definition mc_root_key_derive_from_app_key :: "'x crypto_scheme \<Rightarrow> bytes" where
  "mc_root_key_derive_from_app_key c = encrypt_block c ((replicate 16 0)[0 := 0x20])"

definition mc_root_key_derive_from_gen_app_key :: "'x crypto_scheme \<Rightarrow> bytes" where
  "mc_root_key_derive_from_gen_app_key c = encrypt_block c (replicate 16 0)"

lemma derive_mc_key_in:
  "length a = 4 \<Longrightarrow> derive_mc_key f c a = Some (encrypt_block c (f # a @ replicate 11 0))"
  by (simp add: derive_mc_key_def copy_range_def zeros16) (simp add: numeral_eq_Suc)

section \<open>An instance of the traits\<close>

text \<open>A small implementation that satisfies what the traits promise, so that the lemmas that assume
  \<open>crypto_ok\<close> or \<open>network_crypto_ok\<close> can be applied to concrete frames.\<close>

definition xor_crypto :: "u8 \<Rightarrow> network_crypto" where
  "xor_crypto k = \<lparr>encrypt_block = map (\<lambda>b. b XOR k),
     cmac_mic = (\<lambda>b0 d. take 4 (rev d @ b0 @ [k, 0, 0, 0])), decrypt_block = map (\<lambda>b. b XOR k)\<rparr>"

lemma xor_crypto_ok [simp]: "crypto_ok (xor_crypto k)" "network_crypto_ok (xor_crypto k)"
  by (auto simp: xor_crypto_def crypto_ok_def network_crypto_ok_def xor.assoc comp_def)

end
