(* ===== verification/Parser.thy ===== *)
theory Parser
  imports Types WireFields Security
begin

text \<open>
  \<open>lorawan-encoding/src/parser.rs\<close>: classification and structural validation of a
  physical payload, the views of data frames, join requests and join accepts, and the
  in-place decryption. A view holds the frame's bytes; every accessor slices them with
  Rust's bounds checks, so an accessor that would panic is \<open>None\<close>, and the lemmas show
  that none does on a view that parsing produced. In-place operations return the buffer.
\<close>

datatype parse_error = TooShort | UnsupportedMajorVersion | UnsupportedMessageType
  | UnexpectedMessageType | NotADataFrame | InvalidLength | TruncatedFhdr | MissingKey
  | InvalidMic | FrameBufferTooShort | FOptsTooLong | FOptsWithFPortZero

abbreviation "MHDR_LEN \<equiv> (1 :: nat)"
abbreviation "MIC_LEN \<equiv> (4 :: nat)"
abbreviation "JOIN_REQUEST_LEN \<equiv> (23 :: nat)"
abbreviation "JOIN_ACCEPT_LEN \<equiv> (17 :: nat)"
abbreviation "JOIN_ACCEPT_WITH_CFLIST_LEN \<equiv> (33 :: nat)"

section \<open>Data frames\<close>

datatype data_frame_type = UnconfirmedUp | UnconfirmedDown | ConfirmedUp | ConfirmedDown

definition from_mhdr :: "u8 \<Rightarrow> data_frame_type option" where
  "from_mhdr mhdr =
     (if drop_bit 5 mhdr = 2 then Some UnconfirmedUp
      else if drop_bit 5 mhdr = 3 then Some UnconfirmedDown
      else if drop_bit 5 mhdr = 4 then Some ConfirmedUp
      else if drop_bit 5 mhdr = 5 then Some ConfirmedDown
      else None)"

fun is_uplink :: "data_frame_type \<Rightarrow> bool" where
  "is_uplink UnconfirmedUp = True" | "is_uplink ConfirmedUp = True"
| "is_uplink UnconfirmedDown = False" | "is_uplink ConfirmedDown = False"

fun is_confirmed :: "data_frame_type \<Rightarrow> bool" where
  "is_confirmed ConfirmedUp = True" | "is_confirmed ConfirmedDown = True"
| "is_confirmed UnconfirmedUp = False" | "is_confirmed UnconfirmedDown = False"

record fhdr =
  fhdr_bytes :: bytes
  fhdr_uplink :: bool

definition fhdr_dev_addr :: "fhdr \<Rightarrow> bytes run" where
  "fhdr_dev_addr h = do { s \<leftarrow> subslice (fhdr_bytes h) 0 4; arr 4 s }"

definition fhdr_mc_addr :: "fhdr \<Rightarrow> bytes run" where
  "fhdr_mc_addr h = do { s \<leftarrow> subslice (fhdr_bytes h) 0 4; arr 4 s }"

definition fhdr_fctrl :: "fhdr \<Rightarrow> fctrl run" where
  "fhdr_fctrl h = do { b \<leftarrow> idx (fhdr_bytes h) 4; Some (fctrl_new b (fhdr_uplink h)) }"

definition fhdr_fcnt :: "fhdr \<Rightarrow> u16 run" where
  "fhdr_fcnt h = do {
     b5 \<leftarrow> idx (fhdr_bytes h) 5; b6 \<leftarrow> idx (fhdr_bytes h) 6;
     Some (from_le_bytes [b5, b6])}"

definition fhdr_f_opts :: "fhdr \<Rightarrow> bytes run" where
  "fhdr_f_opts h = subslice (fhdr_bytes h) 7 (length (fhdr_bytes h))"

record layout =
  lay_frame_type :: data_frame_type
  lay_fhdr_len :: nat
  lay_f_port_offset :: "nat option"
  lay_frm_start :: nat
  lay_frm_end :: nat

definition layout_validate :: "bytes \<Rightarrow> (parse_error + layout) run" where
  "layout_validate bs =
     (if length bs < MHDR_LEN + 7 + MIC_LEN then Some (Inl TooShort)
      else do {
        mhdr \<leftarrow> idx bs 0;
        if mhdr AND 0b11 \<noteq> 0 then Some (Inl UnsupportedMajorVersion)
        else try_run (Some (ok_or (from_mhdr mhdr) NotADataFrame)) (\<lambda>ft. do {
          b5 \<leftarrow> idx bs 5;
          let fhdr_len = 7 + unat (b5 AND 0x0f);
          let mic_offset = length bs - MIC_LEN;
          if MHDR_LEN + fhdr_len > mic_offset then Some (Inl TruncatedFhdr)
          else do {
            let after_fhdr = MHDR_LEN + fhdr_len;
            let (f_port_offset, frm_start) =
              (if after_fhdr < mic_offset then (Some after_fhdr, after_fhdr + 1)
               else (None, after_fhdr));
            Some (Inr \<lparr>lay_frame_type = ft, lay_fhdr_len = fhdr_len,
                       lay_f_port_offset = f_port_offset, lay_frm_start = frm_start,
                       lay_frm_end = mic_offset\<rparr>)}})})"

record data_view =
  dv_bytes :: bytes
  dv_layout :: layout

definition encrypted_parse :: "bytes \<Rightarrow> (parse_error + data_view) run" where
  "encrypted_parse bs =
     try_run (layout_validate bs) (\<lambda>l. Some (Inr \<lparr>dv_bytes = bs, dv_layout = l\<rparr>))"

definition dv_frame_type :: "data_view \<Rightarrow> data_frame_type" where
  "dv_frame_type v = lay_frame_type (dv_layout v)"

definition dv_is_uplink :: "data_view \<Rightarrow> bool" where
  "dv_is_uplink v = is_uplink (lay_frame_type (dv_layout v))"

definition dv_is_confirmed :: "data_view \<Rightarrow> bool" where
  "dv_is_confirmed v = is_confirmed (lay_frame_type (dv_layout v))"

definition dv_fhdr :: "data_view \<Rightarrow> fhdr run" where
  "dv_fhdr v = do {
     s \<leftarrow> subslice (dv_bytes v) MHDR_LEN (MHDR_LEN + lay_fhdr_len (dv_layout v));
     Some \<lparr>fhdr_bytes = s, fhdr_uplink = dv_is_uplink v\<rparr>}"

definition dv_f_port :: "data_view \<Rightarrow> u8 option run" where
  "dv_f_port v = (case lay_f_port_offset (dv_layout v) of
      None \<Rightarrow> Some None
    | Some off \<Rightarrow> map_option Some (idx (dv_bytes v) off))"

definition extract_mic :: "bytes \<Rightarrow> bytes run" where
  "extract_mic bs =
     (if length bs < MIC_LEN then None
      else do { s \<leftarrow> subslice bs (length bs - MIC_LEN) (length bs); arr 4 s })"

definition dv_mic :: "data_view \<Rightarrow> bytes run" where
  "dv_mic v = extract_mic (dv_bytes v)"

definition validate_data_mic :: "data_view \<Rightarrow> 'x crypto_scheme \<Rightarrow> u32 \<Rightarrow> bool run" where
  "validate_data_mic v c fcnt = do {
     without_mic \<leftarrow> subslice (dv_bytes v) 0 (length (dv_bytes v) - MIC_LEN);
     mic \<leftarrow> dv_mic v;
     m \<leftarrow> calculate_data_mic without_mic c fcnt;
     Some (mic = m)}"

datatype frm_payload = FrmData bytes | FrmMacCommands bytes | FrmNone

definition dv_frm_payload :: "data_view \<Rightarrow> frm_payload run" where
  "dv_frm_payload v = do {
     frm \<leftarrow> subslice (dv_bytes v) (lay_frm_start (dv_layout v)) (lay_frm_end (dv_layout v));
     port \<leftarrow> dv_f_port v;
     Some (case port of None \<Rightarrow> FrmNone
           | Some p \<Rightarrow> if p = 0 then FrmMacCommands frm else FrmData frm)}"

text \<open>The frame counter the payload is decrypted with: the upper half is the caller's.\<close>

definition full_fcnt :: "u32 \<Rightarrow> u16 \<Rightarrow> u32" where
  "full_fcnt fcnt wire = push_bit 16 (drop_bit 16 fcnt) OR ucast wire"

definition decrypt_in_place ::
  "bytes \<Rightarrow> 'x crypto_scheme option \<Rightarrow> 'x crypto_scheme option \<Rightarrow> u32
    \<Rightarrow> (parse_error + data_view) run" where
  "decrypt_in_place buf nwk app fcnt =
     try_run (layout_validate buf) (\<lambda>l.
       if lay_frm_start l < lay_frm_end l then do {
         uses_app_key \<leftarrow> (case lay_f_port_offset l of None \<Rightarrow> Some False
                          | Some off \<Rightarrow> map_option (\<lambda>b. b \<noteq> 0) (idx buf off));
         try_run (Some (ok_or (if uses_app_key then app else nwk) MissingKey)) (\<lambda>c. do {
           b6 \<leftarrow> idx buf 6; b7 \<leftarrow> idx buf 7;
           let wire_fcnt = from_le_bytes [b6, b7];
           buf' \<leftarrow> encrypt_frm_data_payload buf (lay_frm_start l) (lay_frm_end l)
                      (full_fcnt fcnt wire_fcnt) c;
           Some (Inr \<lparr>dv_bytes = buf', dv_layout = l\<rparr>)})}
       else Some (Inr \<lparr>dv_bytes = buf, dv_layout = l\<rparr>))"

definition check_mic_and_decrypt_in_place ::
  "bytes \<Rightarrow> 'x crypto_scheme \<Rightarrow> 'x crypto_scheme option \<Rightarrow> u32 \<Rightarrow> (parse_error + data_view) run" where
  "check_mic_and_decrypt_in_place buf nwk app fcnt =
     try_run (encrypted_parse buf) (\<lambda>v. do {
       ok \<leftarrow> validate_data_mic v nwk fcnt;
       if \<not> ok then Some (Inl InvalidMic)
       else decrypt_in_place buf (Some nwk) app fcnt})"

section \<open>Join requests\<close>

definition check_mhdr :: "bytes \<Rightarrow> u8 \<Rightarrow> parse_error + unit" where
  "check_mhdr bs mtype = (case bs of
      [] \<Rightarrow> Inl TooShort
    | mhdr # _ \<Rightarrow>
        if mhdr AND 0b11 \<noteq> 0 then Inl UnsupportedMajorVersion
        else if drop_bit 5 mhdr \<noteq> mtype then Inl UnexpectedMessageType
        else Inr ())"

definition join_request_parse :: "bytes \<Rightarrow> parse_error + bytes" where
  "join_request_parse bs = (case check_mhdr bs 0 of
      Inl e \<Rightarrow> Inl e
    | Inr _ \<Rightarrow> if length bs \<noteq> JOIN_REQUEST_LEN then Inl InvalidLength else Inr bs)"

definition jr_join_eui :: "bytes \<Rightarrow> bytes run" where
  "jr_join_eui bs = do { s \<leftarrow> subslice bs 1 9; arr 8 s }"

definition jr_dev_eui :: "bytes \<Rightarrow> bytes run" where
  "jr_dev_eui bs = do { s \<leftarrow> subslice bs 9 17; arr 8 s }"

definition jr_dev_nonce :: "bytes \<Rightarrow> bytes run" where
  "jr_dev_nonce bs = do { s \<leftarrow> subslice bs 17 19; arr 2 s }"

definition jr_validate_mic :: "bytes \<Rightarrow> 'x crypto_scheme \<Rightarrow> bool run" where
  "jr_validate_mic bs c = do {
     without_mic \<leftarrow> subslice bs 0 (JOIN_REQUEST_LEN - MIC_LEN);
     mic \<leftarrow> extract_mic bs;
     Some (mic = calculate_mic without_mic c)}"

section \<open>Join accepts\<close>

definition validate_join_accept_structure :: "bytes \<Rightarrow> parse_error + unit" where
  "validate_join_accept_structure bs = (case check_mhdr bs 1 of
      Inl e \<Rightarrow> Inl e
    | Inr _ \<Rightarrow> if length bs \<noteq> JOIN_ACCEPT_LEN \<and> length bs \<noteq> JOIN_ACCEPT_WITH_CFLIST_LEN
               then Inl InvalidLength else Inr ())"

definition join_accept_parse :: "bytes \<Rightarrow> parse_error + bytes" where
  "join_accept_parse bs = (case validate_join_accept_structure bs of
      Inl e \<Rightarrow> Inl e | Inr _ \<Rightarrow> Inr bs)"

datatype cf_list = DynamicChannel "bytes list" | FixedChannel channel_mask

text \<open>\<open>buf.chunks_exact_mut(16)\<close>: the remainder of fewer than 16 bytes is left alone.\<close>

fun map_chunks16 :: "(bytes \<Rightarrow> bytes) \<Rightarrow> bytes \<Rightarrow> bytes" where
  "map_chunks16 f bs =
     (if length bs < 16 then bs else f (take 16 bs) @ map_chunks16 f (drop 16 bs))"

declare map_chunks16.simps [simp del]

text \<open>The buffer is transformed even when the MIC then does not match, so it is returned.\<close>

definition ja_decrypt_in_place :: "bytes \<Rightarrow> 'x crypto_scheme \<Rightarrow> bytes \<times> (parse_error + bytes)" where
  "ja_decrypt_in_place buf c = (case validate_join_accept_structure buf of
      Inl e \<Rightarrow> (buf, Inl e)
    | Inr _ \<Rightarrow> (let buf' = take 1 buf @ map_chunks16 (encrypt_block c) (drop 1 buf)
                in (buf', Inr buf')))"

definition ja_validate_mic :: "bytes \<Rightarrow> 'x crypto_scheme \<Rightarrow> bool run" where
  "ja_validate_mic bs c = do {
     without_mic \<leftarrow> subslice bs 0 (length bs - MIC_LEN);
     mic \<leftarrow> extract_mic bs;
     Some (mic = calculate_mic without_mic c)}"

definition ja_check_mic_and_decrypt ::
  "bytes \<Rightarrow> 'x crypto_scheme \<Rightarrow> (bytes \<times> (parse_error + bytes)) run" where
  "ja_check_mic_and_decrypt buf c = (case ja_decrypt_in_place buf c of
      (buf', Inl e) \<Rightarrow> Some (buf', Inl e)
    | (buf', Inr d) \<Rightarrow> do {
        ok \<leftarrow> ja_validate_mic d c;
        Some (buf', if \<not> ok then Inl InvalidMic else Inr d)})"

definition ja_join_nonce :: "bytes \<Rightarrow> bytes run" where
  "ja_join_nonce bs = do { s \<leftarrow> subslice bs 1 4; arr 3 s }"

definition ja_net_id :: "bytes \<Rightarrow> bytes run" where
  "ja_net_id bs = do { s \<leftarrow> subslice bs 4 7; arr 3 s }"

definition ja_dev_addr :: "bytes \<Rightarrow> bytes run" where
  "ja_dev_addr bs = do { s \<leftarrow> subslice bs 7 11; arr 4 s }"

definition ja_dl_settings :: "bytes \<Rightarrow> dl_settings run" where
  "ja_dl_settings bs = map_option DLSettings (idx bs 11)"

definition ja_rx_delay :: "bytes \<Rightarrow> u8 run" where
  "ja_rx_delay bs = map_option (\<lambda>b. b AND 0x0f) (idx bs 12)"

definition cf_freqs :: "bytes \<Rightarrow> bytes list" where
  "cf_freqs cflist = map (\<lambda>i. take 3 (drop (3 * i) cflist)) [0..<5]"

definition ja_c_f_list :: "bytes \<Rightarrow> cf_list option run" where
  "ja_c_f_list bs =
     (if length bs = JOIN_ACCEPT_LEN then Some None
      else do {
        cflist \<leftarrow> subslice bs 13 29;
        ty \<leftarrow> idx cflist 15;
        if ty = 0 then Some (Some (DynamicChannel (cf_freqs cflist)))
        else if ty = 1 then do {
          s \<leftarrow> subslice cflist 0 9;
          m \<leftarrow> mask_new_from_raw 9 s;
          Some (Some (FixedChannel m))}
        else Some None})"

definition derive_session_key :: "bytes \<Rightarrow> u8 \<Rightarrow> bytes \<Rightarrow> 'x crypto_scheme \<Rightarrow> bytes run" where
  "derive_session_key bs first dev_nonce c = do {
     jn \<leftarrow> ja_join_nonce bs;
     nid \<leftarrow> ja_net_id bs;
     b0 \<leftarrow> set_idx (replicate 16 0) 0 first;
     b1 \<leftarrow> copy_range b0 1 4 jn;
     b2 \<leftarrow> copy_range b1 4 7 nid;
     b3 \<leftarrow> copy_range b2 7 9 dev_nonce;
     Some (encrypt_block c b3)}"

definition derive_nwkskey :: "bytes \<Rightarrow> bytes \<Rightarrow> 'x crypto_scheme \<Rightarrow> bytes run" where
  "derive_nwkskey bs dev_nonce c = derive_session_key bs 0x01 dev_nonce c"

definition derive_appskey :: "bytes \<Rightarrow> bytes \<Rightarrow> 'x crypto_scheme \<Rightarrow> bytes run" where
  "derive_appskey bs dev_nonce c = derive_session_key bs 0x02 dev_nonce c"

section \<open>Classification\<close>

datatype phy_payload = PhyJoinRequest bytes | PhyJoinAccept bytes | PhyData data_view

definition phy_parse :: "bytes \<Rightarrow> (parse_error + phy_payload) run" where
  "phy_parse bs = (case bs of
      [] \<Rightarrow> Some (Inl TooShort)
    | mhdr # _ \<Rightarrow>
        if mhdr AND 0b11 \<noteq> 0 then Some (Inl UnsupportedMajorVersion)
        else if drop_bit 5 mhdr = 0 then
          Some (case join_request_parse bs of Inl e \<Rightarrow> Inl e | Inr p \<Rightarrow> Inr (PhyJoinRequest p))
        else if drop_bit 5 mhdr = 1 then
          Some (case join_accept_parse bs of Inl e \<Rightarrow> Inl e | Inr p \<Rightarrow> Inr (PhyJoinAccept p))
        else if 2 \<le> drop_bit 5 mhdr \<and> drop_bit 5 mhdr \<le> 5 then
          try_run (encrypted_parse bs) (\<lambda>v. Some (Inr (PhyData v)))
        else Some (Inl UnsupportedMessageType))"

section \<open>The layout invariant\<close>

text \<open>What \<open>Layout::validate\<close> guarantees; every bound the accessors rely on follows from it.\<close>

definition layout_ok :: "bytes \<Rightarrow> layout \<Rightarrow> bool" where
  "layout_ok bs l \<longleftrightarrow>
     12 \<le> length bs \<and> bs ! 0 AND 0b11 = 0 \<and> from_mhdr (bs ! 0) = Some (lay_frame_type l) \<and>
     lay_fhdr_len l = 7 + unat (bs ! 5 AND 0x0f) \<and> lay_fhdr_len l + 5 \<le> length bs \<and>
     lay_frm_end l = length bs - 4 \<and>
     (if lay_fhdr_len l + 5 < length bs
      then lay_f_port_offset l = Some (lay_fhdr_len l + 1) \<and> lay_frm_start l = lay_fhdr_len l + 2
      else lay_f_port_offset l = None \<and> lay_frm_start l = lay_fhdr_len l + 1)"

lemma layout_validate_total: "layout_validate bs \<noteq> None"
  by (auto simp: layout_validate_def Let_def idx_def ok_or_def split: option.splits)

lemma layout_validate_iff: "layout_validate bs = Some (Inr l) \<longleftrightarrow> layout_ok bs l"
proof (cases "length bs < 12")
  case True
  then show ?thesis by (simp add: layout_validate_def layout_ok_def)
next
  case False
  then have "idx bs 0 = Some (bs ! 0)" "idx bs 5 = Some (bs ! 5)" by (auto simp: idx_def)
  then show ?thesis using False
    by (cases l) (auto simp: layout_validate_def layout_ok_def Let_def ok_or_def split: option.splits)
qed

lemma layout_ok_bounds:
  "layout_ok bs l \<Longrightarrow> 7 \<le> lay_fhdr_len l \<and> lay_fhdr_len l + 5 \<le> length bs \<and>
     lay_frm_start l \<le> lay_frm_end l \<and> lay_frm_end l + 4 = length bs \<and> 8 \<le> lay_frm_start l"
  by (auto simp: layout_ok_def split: if_splits)

lemma layout_ok_f_port:
  "layout_ok bs l \<Longrightarrow> lay_f_port_offset l = Some off \<Longrightarrow>
     off = lay_fhdr_len l + 1 \<and> off < length bs \<and> lay_frm_start l = off + 1"
  by (auto simp: layout_ok_def split: if_splits)

lemma layout_ok_no_port:
  "layout_ok bs l \<Longrightarrow> lay_f_port_offset l = None \<longleftrightarrow> lay_fhdr_len l + 5 = length bs"
  by (auto simp: layout_ok_def split: if_splits)

lemma layout_ok_cong:
  assumes "layout_ok bs l" "length cs = length bs" "take 8 cs = take 8 bs"
  shows "layout_ok cs l"
proof -
  have "cs ! 0 = bs ! 0" "cs ! 5 = bs ! 5"
    by (rule take_eq_nth [OF assms(3)]; simp)+
  then show ?thesis using assms(1,2) by (simp add: layout_ok_def)
qed

text \<open>A well-formed view, as the two constructors produce it.\<close>

definition view_ok :: "data_view \<Rightarrow> bool" where
  "view_ok v \<longleftrightarrow> layout_ok (dv_bytes v) (dv_layout v)"

lemma encrypted_parse_iff:
  "encrypted_parse bs = Some (Inr v) \<longleftrightarrow> dv_bytes v = bs \<and> view_ok v"
  by (cases v) (auto simp: encrypted_parse_def try_run_eq_Inr layout_validate_iff view_ok_def)

lemma encrypted_parse_total: "encrypted_parse bs \<noteq> None"
  using layout_validate_total [of bs]
  by (auto simp: encrypted_parse_def try_run_def split: option.splits sum.splits)

lemma dv_fhdr_ok:
  "view_ok v \<Longrightarrow> dv_fhdr v =
     Some \<lparr>fhdr_bytes = take (lay_fhdr_len (dv_layout v)) (drop 1 (dv_bytes v)),
           fhdr_uplink = dv_is_uplink v\<rparr>"
  using layout_ok_bounds [of "dv_bytes v" "dv_layout v"] by (simp add: dv_fhdr_def view_ok_def)

lemma fhdr_fields:
  assumes "7 \<le> length (fhdr_bytes h)"
  shows "fhdr_dev_addr h = Some (take 4 (fhdr_bytes h))"
    and "fhdr_mc_addr h = Some (take 4 (fhdr_bytes h))"
    and "fhdr_fctrl h = Some (fctrl_new (fhdr_bytes h ! 4) (fhdr_uplink h))"
    and "fhdr_fcnt h = Some (from_le_bytes [fhdr_bytes h ! 5, fhdr_bytes h ! 6])"
    and "fhdr_f_opts h = Some (drop 7 (fhdr_bytes h))"
  using assms
  by (simp_all add: fhdr_dev_addr_def fhdr_mc_addr_def fhdr_fctrl_def fhdr_fcnt_def fhdr_f_opts_def
      arr_eq)

lemma length_fhdr_bytes:
  "view_ok v \<Longrightarrow> dv_fhdr v = Some h \<Longrightarrow> length (fhdr_bytes h) = lay_fhdr_len (dv_layout v)"
  using layout_ok_bounds [of "dv_bytes v" "dv_layout v"]
  by (auto simp: dv_fhdr_ok view_ok_def)

lemma dv_f_port_ok: "view_ok v \<Longrightarrow> dv_f_port v \<noteq> None"
  using layout_ok_f_port [of "dv_bytes v" "dv_layout v"]
  by (auto simp: dv_f_port_def view_ok_def split: option.splits)

lemma extract_mic_in: "4 \<le> length bs \<Longrightarrow> extract_mic bs = Some (drop (length bs - 4) bs)"
  by (simp add: extract_mic_def arr_eq)

lemma dv_mic_ok: "view_ok v \<Longrightarrow> dv_mic v = Some (drop (length (dv_bytes v) - 4) (dv_bytes v))"
  using layout_ok_bounds [of "dv_bytes v" "dv_layout v"]
  by (simp add: dv_mic_def view_ok_def extract_mic_in)

lemma dv_frm_payload_ok: "view_ok v \<Longrightarrow> dv_frm_payload v \<noteq> None"
  using layout_ok_bounds [of "dv_bytes v" "dv_layout v"] dv_f_port_ok [of v]
  by (auto simp: dv_frm_payload_def view_ok_def)

lemma validate_data_mic_ok:
  "view_ok v \<Longrightarrow> validate_data_mic v c fcnt =
     Some (drop (length (dv_bytes v) - 4) (dv_bytes v)
             = data_mic (take (length (dv_bytes v) - 4) (dv_bytes v)) c fcnt)"
proof -
  assume v: "view_ok v"
  then have "5 \<le> length (take (length (dv_bytes v) - 4) (dv_bytes v))"
    by (auto simp: view_ok_def layout_ok_def)
  then show ?thesis using v by (simp add: validate_data_mic_def dv_mic_ok calculate_data_mic_eq)
qed

section \<open>Decryption\<close>

definition wire_fcnt :: "bytes \<Rightarrow> u16" where
  "wire_fcnt buf = from_le_bytes [buf ! 6, buf ! 7]"

definition frm_stream :: "bytes \<Rightarrow> u32 \<Rightarrow> 'x crypto_scheme \<Rightarrow> nat \<Rightarrow> u8" where
  "frm_stream buf fcnt c = key_byte c (helper_block buf 0x01 (full_fcnt fcnt (wire_fcnt buf)))"

lemma frm_stream_cong: "take 8 b = take 8 d \<Longrightarrow> frm_stream b n c = frm_stream d n c"
proof -
  assume a: "take 8 b = take 8 d"
  then have "take 5 b = take 5 d" by (rule take_eq_take) simp
  moreover have "b ! 6 = d ! 6" "b ! 7 = d ! 7" by (rule take_eq_nth [OF a]; simp)+
  ultimately show ?thesis
    by (simp add: frm_stream_def wire_fcnt_def helper_block_cong [of b d])
qed

text \<open>The key a frame's payload needs: the application key exactly on a non-zero FPort.\<close>

definition frm_key :: "bytes \<Rightarrow> layout \<Rightarrow> 'k option \<Rightarrow> 'k option \<Rightarrow> 'k option" where
  "frm_key buf l nwk app =
     (if \<exists>off. lay_f_port_offset l = Some off \<and> buf ! off \<noteq> 0 then app else nwk)"

lemma decrypt_in_place_eq:
  assumes "layout_ok buf l" "\<And>c. nwk = Some c \<Longrightarrow> crypto_ok c" "\<And>c. app = Some c \<Longrightarrow> crypto_ok c"
  shows "decrypt_in_place buf nwk app fcnt =
     Some (if lay_frm_start l < lay_frm_end l
           then (case frm_key buf l nwk app of None \<Rightarrow> Inl MissingKey
                 | Some c \<Rightarrow> Inr \<lparr>dv_bytes = xor_range (frm_stream buf fcnt c) buf
                                  (lay_frm_start l) (lay_frm_end l), dv_layout = l\<rparr>)
           else Inr \<lparr>dv_bytes = buf, dv_layout = l\<rparr>)"
proof -
  note b = layout_ok_bounds [OF assms(1)]
  have uses: "(case lay_f_port_offset l of None \<Rightarrow> Some False
       | Some off \<Rightarrow> map_option (\<lambda>b. b \<noteq> 0) (idx buf off))
     = Some (\<exists>off. lay_f_port_offset l = Some off \<and> buf ! off \<noteq> 0)"
    using layout_ok_f_port [OF assms(1)] by (auto split: option.split)
  have ix: "idx buf 6 = Some (buf ! 6)" "idx buf 7 = Some (buf ! 7)" using b by simp_all
  have enc: "encrypt_frm_data_payload buf (lay_frm_start l) (lay_frm_end l) n c =
      Some (xor_range (key_byte c (helper_block buf 0x01 n)) buf (lay_frm_start l) (lay_frm_end l))"
    if "crypto_ok c" for c :: "'a crypto_scheme" and n
    using b that by (intro encrypt_frm_eq) auto
  have "layout_validate buf = Some (Inr l)" using assms(1) by (simp add: layout_validate_iff)
  then show ?thesis using assms(2,3)
    by (auto simp: decrypt_in_place_def uses ix enc frm_key_def frm_stream_def wire_fcnt_def
        ok_or_def split: option.splits)
qed

section \<open>Join frames\<close>

lemma check_mhdr_Inr: "check_mhdr bs t = Inr u \<Longrightarrow> bs \<noteq> [] \<and> bs ! 0 AND 0b11 = 0 \<and> drop_bit 5 (bs ! 0) = t"
  by (auto simp: check_mhdr_def split: list.splits if_splits)

lemma join_request_parse_iff:
  "join_request_parse bs = Inr p \<longleftrightarrow>
     p = bs \<and> length bs = 23 \<and> bs ! 0 AND 0b11 = 0 \<and> drop_bit 5 (bs ! 0) = 0"
  by (cases bs) (auto simp: join_request_parse_def check_mhdr_def split: sum.splits)

lemma validate_join_accept_iff:
  "validate_join_accept_structure bs = Inr u \<longleftrightarrow>
     (length bs = 17 \<or> length bs = 33) \<and> bs ! 0 AND 0b11 = 0 \<and> drop_bit 5 (bs ! 0) = 1"
  by (cases bs) (auto simp: validate_join_accept_structure_def check_mhdr_def split: sum.splits)

lemma length_map_chunks16:
  "(\<And>b. length b = 16 \<Longrightarrow> length (f b) = 16) \<Longrightarrow> length (map_chunks16 f bs) = length bs"
proof (induction f bs rule: map_chunks16.induct)
  case (1 f bs)
  then show ?case by (subst map_chunks16.simps) auto
qed

lemma map_chunks16_comp:
  assumes "\<And>b. length b = 16 \<Longrightarrow> length (g b) = 16 \<and> f (g b) = b"
  shows "map_chunks16 f (map_chunks16 g bs) = bs"
  using assms
proof (induction g bs rule: map_chunks16.induct)
  case (1 g bs)
  show ?case
  proof (cases "length bs < 16")
    case True
    then show ?thesis by (simp add: map_chunks16.simps)
  next
    case False
    then have "map_chunks16 g bs = g (take 16 bs) @ map_chunks16 g (drop 16 bs)"
      by (simp add: map_chunks16.simps)
    moreover have "length (g (take 16 bs)) = 16" "f (g (take 16 bs)) = take 16 bs"
      using 1(2) [of "take 16 bs"] False by simp_all
    ultimately have "map_chunks16 f (map_chunks16 g bs)
        = take 16 bs @ map_chunks16 f (map_chunks16 g (drop 16 bs))"
      by (subst map_chunks16.simps) simp
    also have "map_chunks16 f (map_chunks16 g (drop 16 bs)) = drop 16 bs"
      using 1 False by simp
    finally show ?thesis by simp
  qed
qed

lemma ja_fields:
  assumes "length bs = 17 \<or> length bs = 33"
  shows "ja_join_nonce bs = Some (take 3 (drop 1 bs))" "ja_net_id bs = Some (take 3 (drop 4 bs))"
    "ja_dev_addr bs = Some (take 4 (drop 7 bs))" "ja_dl_settings bs = Some (DLSettings (bs ! 11))"
    "ja_rx_delay bs = Some (bs ! 12 AND 0x0f)" "extract_mic bs = Some (drop (length bs - 4) bs)"
    "ja_validate_mic bs c = Some (drop (length bs - 4) bs = calculate_mic (take (length bs - 4) bs) c)"
  using assms
  by (auto simp: ja_join_nonce_def ja_net_id_def ja_dev_addr_def ja_dl_settings_def ja_rx_delay_def
      arr_eq extract_mic_def ja_validate_mic_def)

lemma ja_c_f_list_total: "length bs = 17 \<or> length bs = 33 \<Longrightarrow> ja_c_f_list bs \<noteq> None"
  by (auto simp: ja_c_f_list_def mask_new_from_raw_def)

lemma jr_fields:
  assumes "length bs = 23"
  shows "jr_join_eui bs = Some (take 8 (drop 1 bs))" "jr_dev_eui bs = Some (take 8 (drop 9 bs))"
    "jr_dev_nonce bs = Some (take 2 (drop 17 bs))"
    "jr_validate_mic bs c = Some (drop 19 bs = calculate_mic (take 19 bs) c)"
  using assms
  by (auto simp: jr_join_eui_def jr_dev_eui_def jr_dev_nonce_def arr_eq extract_mic_def
      jr_validate_mic_def)

lemma derive_session_key_eq:
  assumes "length bs = 17 \<or> length bs = 33" "length dn = 2"
  shows "derive_session_key bs first dn c =
     Some (encrypt_block c (first # take 6 (drop 1 bs) @ dn @ replicate 7 0))"
proof -
  have "take 3 (drop 1 bs) @ take 3 (drop 4 bs) = take 6 (drop 1 bs)"
    using take_add [of 3 3 "drop 1 bs"] by simp
  then show ?thesis using assms
    by (auto simp: derive_session_key_def ja_fields copy_range_def zeros16) (simp_all add: numeral_eq_Suc)
qed

section \<open>Properties\<close>

lemma phy_parse_data:
  "phy_parse bs = Some (Inr (PhyData v)) \<Longrightarrow> encrypted_parse bs = Some (Inr v)"
  by (auto simp: phy_parse_def try_run_eq_Inr split: list.splits if_splits sum.splits)

lemma phy_parse_join_accept:
  "phy_parse bs = Some (Inr (PhyJoinAccept p)) \<Longrightarrow> p = bs \<and> (length bs = 17 \<or> length bs = 33)"
  by (auto simp: phy_parse_def try_run_eq_Inr join_accept_parse_def validate_join_accept_iff
      split: list.splits if_splits sum.splits)

lemma phy_parse_join_request:
  "phy_parse bs = Some (Inr (PhyJoinRequest p)) \<Longrightarrow> p = bs \<and> length bs = 23"
  by (auto simp: phy_parse_def try_run_eq_Inr join_request_parse_iff
      split: list.splits if_splits sum.splits)

text \<open>C23. Parsing arbitrary bytes never panics, and no accessor of a view that parsing produced ever
  does: on a data frame the header with its address, control byte, counter and options, the port, the
  MIC, the payload and the MIC check are all defined; on a join request and on a join accept every
  field accessor and the optional channel list is.\<close>

theorem parse_never_panics:
  "phy_parse bs \<noteq> None \<and>
   (\<forall>v. phy_parse bs = Some (Inr (PhyData v)) \<longrightarrow>
      dv_bytes v = bs \<and> dv_f_port v \<noteq> None \<and> dv_mic v \<noteq> None \<and> dv_frm_payload v \<noteq> None \<and>
      validate_data_mic v c fcnt \<noteq> None \<and>
      (\<exists>h. dv_fhdr v = Some h \<and> fhdr_dev_addr h \<noteq> None \<and> fhdr_fctrl h \<noteq> None \<and>
           fhdr_fcnt h \<noteq> None \<and> fhdr_f_opts h \<noteq> None)) \<and>
   (\<forall>p. phy_parse bs = Some (Inr (PhyJoinRequest p)) \<longrightarrow>
      jr_join_eui p \<noteq> None \<and> jr_dev_eui p \<noteq> None \<and> jr_dev_nonce p \<noteq> None \<and>
      jr_validate_mic p c \<noteq> None) \<and>
   (\<forall>p. phy_parse bs = Some (Inr (PhyJoinAccept p)) \<longrightarrow>
      ja_join_nonce p \<noteq> None \<and> ja_net_id p \<noteq> None \<and> ja_dev_addr p \<noteq> None \<and>
      ja_dl_settings p \<noteq> None \<and> ja_rx_delay p \<noteq> None \<and> ja_c_f_list p \<noteq> None \<and>
      ja_validate_mic p c \<noteq> None)"
proof (intro conjI allI impI)
  show "phy_parse bs \<noteq> None"
    using encrypted_parse_total [of bs]
    by (auto simp: phy_parse_def try_run_def split: list.splits option.splits sum.splits)
next
  fix v assume "phy_parse bs = Some (Inr (PhyData v))"
  then have v: "dv_bytes v = bs" "view_ok v" by (auto dest: phy_parse_data simp: encrypted_parse_iff)
  then obtain h where h: "dv_fhdr v = Some h" by (auto simp: dv_fhdr_ok)
  then have "7 \<le> length (fhdr_bytes h)"
    using length_fhdr_bytes [OF v(2) h] layout_ok_bounds v by (auto simp: view_ok_def)
  then show "\<exists>h. dv_fhdr v = Some h \<and> fhdr_dev_addr h \<noteq> None \<and> fhdr_fctrl h \<noteq> None \<and>
      fhdr_fcnt h \<noteq> None \<and> fhdr_f_opts h \<noteq> None"
    using h by (simp add: fhdr_fields)
  show "dv_bytes v = bs" "dv_f_port v \<noteq> None" "dv_mic v \<noteq> None" "dv_frm_payload v \<noteq> None"
    "validate_data_mic v c fcnt \<noteq> None"
    using v by (simp_all add: dv_f_port_ok dv_mic_ok dv_frm_payload_ok validate_data_mic_ok)
next
  fix p assume "phy_parse bs = Some (Inr (PhyJoinRequest p))"
  then have "length p = 23" by (auto dest: phy_parse_join_request)
  then show "jr_join_eui p \<noteq> None" "jr_dev_eui p \<noteq> None" "jr_dev_nonce p \<noteq> None"
    "jr_validate_mic p c \<noteq> None" by (simp_all add: jr_fields)
next
  fix p assume "phy_parse bs = Some (Inr (PhyJoinAccept p))"
  then have "length p = 17 \<or> length p = 33" by (auto dest: phy_parse_join_accept)
  then show "ja_join_nonce p \<noteq> None" "ja_net_id p \<noteq> None" "ja_dev_addr p \<noteq> None"
    "ja_dl_settings p \<noteq> None" "ja_rx_delay p \<noteq> None" "ja_c_f_list p \<noteq> None" "ja_validate_mic p c \<noteq> None"
    by (simp_all add: ja_fields ja_c_f_list_total)
qed

lemma parse_never_panics_witness:
  "\<exists>v h. phy_parse (0x40 # replicate 11 0) = Some (Inr (PhyData v)) \<and>
     dv_fhdr v = Some h \<and> fhdr_dev_addr h \<noteq> None"
proof -
  have "layout_ok (0x40 # replicate 11 0) \<lparr>lay_frame_type = UnconfirmedUp, lay_fhdr_len = 7,
      lay_f_port_offset = None, lay_frm_start = 8, lay_frm_end = 8\<rparr>"
    by (simp add: layout_ok_def from_mhdr_def)
  then have e: "encrypted_parse (0x40 # replicate 11 0) = Some (Inr \<lparr>dv_bytes = 0x40 # replicate 11 0,
      dv_layout = \<lparr>lay_frame_type = UnconfirmedUp, lay_fhdr_len = 7,
      lay_f_port_offset = None, lay_frm_start = 8, lay_frm_end = 8\<rparr>\<rparr>)" (is "_ = Some (Inr ?v)")
    by (simp add: encrypted_parse_iff view_ok_def)
  then have p: "phy_parse (0x40 # replicate 11 0) = Some (Inr (PhyData ?v))"
    by (simp add: phy_parse_def)
  then show ?thesis using parse_never_panics [of "0x40 # replicate 11 0"] by blast
qed

end
