(* ===== verification/RegionHandler.thy ===== *)
theory RegionHandler
  imports RegionTables Parser
begin

text \<open>
  The contract of the trait \<open>RegionHandler\<close> (\<open>lorawan-device/src/region/mod.rs\<close>) that the MAC
  layer relies on, as the locale \<open>region_handler\<close>: a plan keeps its invariant under the operations that
  change it, masks keep their nine banks, and the operations the MAC calls with values from the air
  return. The locale is interpreted on the dynamic plans, the fixed plans, and their union in \<open>Region\<close>.
\<close>

definition cf_list_wf :: "cf_list \<Rightarrow> bool" where
  "cf_list_wf cf = (case cf of DynamicChannel fs \<Rightarrow> length fs = 5 | FixedChannel m \<Rightarrow> length m = 9)"

text \<open>The masks of a block of \<open>LinkADRReq\<close> commands, accumulated; an RFU request leaves the mask.\<close>

fun fold_masks :: "(channel_mask \<Rightarrow> u8 \<Rightarrow> channel_mask \<Rightarrow> channel_mask option run) \<Rightarrow>
    (u8 \<times> channel_mask) list \<Rightarrow> channel_mask \<Rightarrow> channel_mask run" where
  "fold_masks upd [] m = Some m"
| "fold_masks upd ((ctl, ch) # rs) m = do {
     r \<leftarrow> upd m ctl ch;
     fold_masks upd rs (case r of Some m' \<Rightarrow> m' | None \<Rightarrow> m)}"

locale region_handler =
  fixes inv :: "'s \<Rightarrow> bool"
    and mask_get :: "'s \<Rightarrow> channel_mask"
    and mask_set :: "channel_mask \<Rightarrow> 's \<Rightarrow> 's"
    and mask_update :: "'s \<Rightarrow> channel_mask \<Rightarrow> u8 \<Rightarrow> channel_mask \<Rightarrow> channel_mask option run"
    and mask_validate :: "'s \<Rightarrow> channel_mask \<Rightarrow> DR option \<Rightarrow> bool run"
    and join_accept :: "cf_list option \<Rightarrow> 's \<Rightarrow> 's run"
    and datarate_of :: "'s \<Rightarrow> u8 \<Rightarrow> datarate option run"
  assumes get_length: "inv s \<Longrightarrow> length (mask_get s) = 9"
    and set_inv: "inv s \<Longrightarrow> length m = 9 \<Longrightarrow> inv (mask_set m s)"
    and get_set: "mask_get (mask_set m s) = m"
    and update_total: "length m = 9 \<Longrightarrow> length ch = 2 \<Longrightarrow> ctl \<noteq> 4 \<Longrightarrow>
      \<exists>r. mask_update s m ctl ch = Some r \<and> (\<forall>m'. r = Some m' \<longrightarrow> length m' = 9)"
    and validate_total: "inv s \<Longrightarrow> length m = 9 \<Longrightarrow> dr \<noteq> Some DR15 \<Longrightarrow> \<exists>b. mask_validate s m dr = Some b"
    and join_inv: "inv s \<Longrightarrow> (\<And>x. cf = Some x \<Longrightarrow> cf_list_wf x) \<Longrightarrow>
      \<exists>s'. join_accept cf s = Some s' \<and> inv s'"
    and datarate_total: "inv s \<Longrightarrow> unat n < 15 \<Longrightarrow> \<exists>d. datarate_of s n = Some d"
begin

lemma update_length:
  "length m = 9 \<Longrightarrow> length ch = 2 \<Longrightarrow> ctl \<noteq> 4 \<Longrightarrow> mask_update s m ctl ch = Some (Some m') \<Longrightarrow> length m' = 9"
  using update_total [of m ch ctl s] by auto

lemma fold_masks_total:
  assumes "length m = 9" "\<forall>(ctl, ch) \<in> set rs. ctl \<noteq> 4 \<and> length ch = 2"
  shows "\<exists>m'. fold_masks (mask_update s) rs m = Some m' \<and> length m' = 9"
  using assms
proof (induction rs arbitrary: m)
  case Nil
  then show ?case by simp
next
  case (Cons r rs)
  obtain ctl ch where r: "r = (ctl, ch)" by fastforce
  then have c: "ctl \<noteq> 4" "length ch = 2" using Cons.prems(2) by auto
  obtain x where x: "mask_update s m ctl ch = Some x" "\<forall>m'. x = Some m' \<longrightarrow> length m' = 9"
    using update_total [OF Cons.prems(1) c(2,1)] by blast
  then have "length (case x of Some m' \<Rightarrow> m' | None \<Rightarrow> m) = 9" using Cons.prems(1) by (cases x) auto
  from Cons.IH [OF this] Cons.prems(2) show ?case by (simp add: r x(1))
qed

text \<open>A block of mask changes either commits, and then the plan has exactly the accumulated mask,
  or leaves the plan; in both cases the invariant holds.\<close>

lemma commit_inv:
  assumes "inv s" "\<forall>(ctl, ch) \<in> set rs. ctl \<noteq> 4 \<and> length ch = 2" "dr \<noteq> Some DR15"
  shows "\<exists>m b. fold_masks (mask_update s) rs (mask_get s) = Some m \<and> mask_validate s m dr = Some b \<and>
    inv (if b then mask_set m s else s) \<and> (b \<longrightarrow> mask_get (mask_set m s) = m)"
proof -
  obtain m where m: "fold_masks (mask_update s) rs (mask_get s) = Some m" "length m = 9"
    using fold_masks_total [OF get_length [OF assms(1)] assms(2)] by blast
  obtain b where "mask_validate s m dr = Some b" using validate_total [OF assms(1) m(2) assms(3)] by blast
  then show ?thesis using m set_inv [OF assms(1) m(2)] get_set assms(1) by auto
qed

end

end
