(* ===== verification/DynamicPlan.thy ===== *)
theory DynamicPlan
  imports RegionHandler
begin

text \<open>
  \<open>lorawan-device/src/region/dynamic_channel_plans/mod.rs\<close>: the channel plan that the
  network may change (EU868, EU433, IN865, AS923) and its \<open>RegionHandler\<close>. The region \<open>R\<close>
  is a \<open>dynamic_region\<close> record, the random generator a function \<open>next_u32\<close> on its state.
  The two sampling loops are partial functions: a run that samples for ever is \<open>None\<close>,
  like one that panics.
\<close>

definition unwrap_ok :: "('e + 'a) run \<Rightarrow> 'a run" where
  "unwrap_ok r = Option.bind r (\<lambda>x. case x of Inl _ \<Rightarrow> None | Inr a \<Rightarrow> Some a)"

lemma unwrap_ok_simps [simp]:
  "unwrap_ok None = None" "unwrap_ok (Some (Inl e)) = None" "unwrap_ok (Some (Inr a)) = Some a"
  by (simp_all add: unwrap_ok_def)

record dyn_plan =
  dp_channels :: "channel option list"
  dp_mask :: channel_mask
  dp_frequency_valid :: "u32 \<Rightarrow> bool"

definition dyn_new :: "dynamic_region \<Rightarrow> (u32 \<Rightarrow> bool) \<Rightarrow> dyn_plan" where
  "dyn_new R freq_fn =
     \<lparr>dp_channels = dyn_init_channels R (replicate NUM_CHANNELS_DYNAMIC None),
      dp_mask = channel_mask_default 9, dp_frequency_valid = freq_fn\<rparr>"

text \<open>\<open>rposition(|x| x.is_some())\<close>\<close>

fun rposition_some :: "'a option list \<Rightarrow> nat option" where
  "rposition_some [] = None"
| "rposition_some (x # xs) = (case rposition_some xs of
      Some i \<Rightarrow> Some (Suc i)
    | None \<Rightarrow> if x \<noteq> None then Some 0 else None)"

definition get_random_in_range :: "('r \<Rightarrow> u32 \<times> 'r) \<Rightarrow> dyn_plan \<Rightarrow> 'r \<Rightarrow> (nat \<times> 'r) run" where
  "get_random_in_range next_u32 p rng = do {
     pos \<leftarrow> rposition_some (dp_channels p);
     let range = pos + 1;
     let cm = (if range > 16 then 0b11111 else if range > 8 then 0b1111 else 0b111);
     let (v, rng') = next_u32 rng;
     Some (unat (v AND cm), rng')}"

section \<open>The region handler\<close>

fun dyn_cf_loop :: "dynamic_region \<Rightarrow> nat \<Rightarrow> bytes list \<Rightarrow> dyn_plan \<Rightarrow> dyn_plan run" where
  "dyn_cf_loop R n [] p = Some p"
| "dyn_cf_loop R n (f # fs) p = do {
     let index = dyn_num_join_channels R + n;
     let value = freq_hz f;
     chans \<leftarrow> set_idx (dp_channels p) index
       (if value = 0 then None else Some (channel_new value DR0 DR5));
     dyn_cf_loop R (Suc n) fs (p\<lparr>dp_channels := chans\<rparr>)}"

definition dyn_process_join_accept :: "dynamic_region \<Rightarrow> cf_list option \<Rightarrow> dyn_plan \<Rightarrow> dyn_plan run" where
  "dyn_process_join_accept R cf p = (case cf of
      Some (DynamicChannel freqs) \<Rightarrow> dyn_cf_loop R 0 freqs p
    | Some (FixedChannel _) \<Rightarrow> Some p
    | None \<Rightarrow> Some p)"

definition dyn_channel_mask_get :: "dyn_plan \<Rightarrow> channel_mask" where
  "dyn_channel_mask_get p = dp_mask p"

definition dyn_channel_mask_set :: "channel_mask \<Rightarrow> dyn_plan \<Rightarrow> dyn_plan" where
  "dyn_channel_mask_set m p = p\<lparr>dp_mask := m\<rparr>"

fun set_banks :: "(nat \<times> u8) list \<Rightarrow> channel_mask \<Rightarrow> channel_mask run" where
  "set_banks [] m = Some m"
| "set_banks ((i, v) # bs) m = do { m' \<leftarrow> set_bank m i v; set_banks bs m' }"

text \<open>The mask argument is updated in place; \<open>None\<close> inside stands for the RFU return, which leaves it
  unchanged. In case 5 the product is a \<open>u16\<close> and the cast keeps its low byte.\<close>

definition dyn_channel_mask_update :: "channel_mask \<Rightarrow> u8 \<Rightarrow> channel_mask \<Rightarrow> channel_mask option run" where
  "dyn_channel_mask_update cmask ctl ch =
     (if ctl \<le> 4 then do {
        let base = unat ctl * 2;
        c0 \<leftarrow> mask_get_index ch 0;
        m1 \<leftarrow> set_bank cmask base c0;
        c1 \<leftarrow> mask_get_index ch 1;
        m2 \<leftarrow> set_bank m1 (base + 1) c1;
        Some (Some m2)}
      else if ctl = 5 then do {
        c0 \<leftarrow> mask_get_index ch 0;
        c1 \<leftarrow> mask_get_index ch 1;
        let w = (ucast c0 OR push_bit 8 (ucast c1) :: u16);
        map_option Some (set_banks
          [(0, ucast ((w AND 0b1) * 0xFF)), (1, ucast ((w AND 0b10) * 0xFF)),
           (2, ucast ((w AND 0b100) * 0xFF)), (3, ucast ((w AND 0b1000) * 0xFF)),
           (4, ucast ((w AND 0b10000) * 0xFF)), (5, ucast ((w AND 0b100000) * 0xFF)),
           (6, ucast ((w AND 0b1000000) * 0xFF)), (7, ucast ((w AND 0b10000000) * 0xFF)),
           (8, ucast ((w AND 0b100000000) * 0xFF))] cmask)}
      else if ctl = 6 then map_option Some (set_banks (map (\<lambda>i. (i, 0xFF)) [0..<8]) cmask)
      else Some None)"

text \<open>\<open>(0..16).any(|i| ...)\<close>, which stops at the first hit.\<close>

fun any_run :: "('a \<Rightarrow> bool run) \<Rightarrow> 'a list \<Rightarrow> bool run" where
  "any_run f [] = Some False"
| "any_run f (x # xs) = do { b \<leftarrow> f x; if b then Some True else any_run f xs }"

definition dyn_channel_mask_validate :: "channel_mask \<Rightarrow> DR option \<Rightarrow> dyn_plan \<Rightarrow> bool run" where
  "dyn_channel_mask_validate cmask dr p =
     any_run (\<lambda>i. do {
       e \<leftarrow> unwrap_ok (is_enabled cmask i);
       if e then do { c \<leftarrow> idx (dp_channels p) i; Some (c \<noteq> None) } else Some False})
       [0..<NUM_CHANNELS_DYNAMIC]"

definition region_get_datarate :: "'x channel_region_scheme \<Rightarrow> u8 \<Rightarrow> datarate option run" where
  "region_get_datarate R dr = idx (cr_datarates R) (unat dr)"

text \<open>\<open>R::datarates()[dr as usize].clone().unwrap()\<close>\<close>

definition datarate_unwrap :: "'x channel_region_scheme \<Rightarrow> DR \<Rightarrow> datarate run" where
  "datarate_unwrap R dr = Option.bind (idx (cr_datarates R) (dr_idx dr)) (\<lambda>d. d)"

partial_function (option) dyn_join_loop ::
  "('r \<Rightarrow> u32 \<times> 'r) \<Rightarrow> dynamic_region \<Rightarrow> nat \<Rightarrow> 'r \<Rightarrow> (nat \<times> 'r) option" where
  "dyn_join_loop next_u32 R index rng =
     (if index \<ge> dyn_num_join_channels R
      then (case next_u32 rng of (v, rng') \<Rightarrow> dyn_join_loop next_u32 R (unat (v AND 0b11)) rng')
      else Some (index, rng))"

partial_function (option) dyn_data_loop ::
  "('r \<Rightarrow> u32 \<times> 'r) \<Rightarrow> dyn_plan \<Rightarrow> nat \<Rightarrow> 'r \<Rightarrow> (channel \<times> 'r) option" where
  "dyn_data_loop next_u32 p channel rng =
     Option.bind (unwrap_ok (is_enabled (dp_mask p) channel)) (\<lambda>e.
     Option.bind (if e then idx (dp_channels p) channel else Some None) (\<lambda>c.
       case c of
         Some ch \<Rightarrow> Some (ch, rng)
       | None \<Rightarrow> Option.bind (get_random_in_range next_u32 p rng) (\<lambda>(channel', rng').
           dyn_data_loop next_u32 p channel' rng')))"

definition dyn_tx_channel :: "dynamic_region \<Rightarrow> DR \<Rightarrow> channel \<Rightarrow> tx_channel run" where
  "dyn_tx_channel R dr ch = do {
     d \<leftarrow> datarate_unwrap R dr;
     Some \<lparr>txc_datarate = d, txc_dr = dr, txc_frequency = ch_ul_frequency ch,
           txc_rx1_frequency = ch_rx1_frequency ch\<rparr>}"

definition dyn_select_tx_channel ::
  "('r \<Rightarrow> u32 \<times> 'r) \<Rightarrow> dynamic_region \<Rightarrow> 'r \<Rightarrow> DR \<Rightarrow> frame \<Rightarrow> dyn_plan \<Rightarrow> (tx_channel \<times> 'r) run" where
  "dyn_select_tx_channel next_u32 R rng dr fr p = (case fr of
      Join \<Rightarrow> do {
        let (v, rng') = next_u32 rng;
        (index, rng'') \<leftarrow> dyn_join_loop next_u32 R (unat (v AND 0b11)) rng';
        c \<leftarrow> idx (dp_channels p) index;
        ch \<leftarrow> c;
        t \<leftarrow> dyn_tx_channel R dr ch;
        Some (t, rng'')}
    | Data \<Rightarrow> do {
        (channel, rng') \<leftarrow> get_random_in_range next_u32 p rng;
        (ch, rng'') \<leftarrow> dyn_data_loop next_u32 p channel rng';
        t \<leftarrow> dyn_tx_channel R dr ch;
        Some (t, rng'')})"

definition rx1_dr_offset_validate :: "'x channel_region_scheme \<Rightarrow> u8 \<Rightarrow> u8 option" where
  "rx1_dr_offset_validate R v = (if v \<le> cr_max_rx1_dr_offset R then Some v else None)"

definition dyn_channel_dl_update :: "u8 \<Rightarrow> u32 \<Rightarrow> dyn_plan \<Rightarrow> ((bool \<times> bool) \<times> dyn_plan) run" where
  "dyn_channel_dl_update index freq p =
     (let freq_valid = dp_frequency_valid p freq; i = unat index in
      if NUM_CHANNELS_DYNAMIC \<le> i then Some ((freq_valid, False), p)
      else do {
        r \<leftarrow> is_enabled (dp_mask p) i;
        c \<leftarrow> (if r = Inr True then idx (dp_channels p) i else Some None);
        case c of
          Some ch \<Rightarrow>
            if ch_frequency ch \<noteq> 0 then do {
              let ch' = ch\<lparr>ch_dl_frequency := (if freq = ch_frequency ch then None else Some freq)\<rparr>;
              chans \<leftarrow> set_idx (dp_channels p) i (Some ch');
              Some ((freq_valid, True), p\<lparr>dp_channels := chans\<rparr>)}
            else Some ((freq_valid, False), p)
        | None \<Rightarrow> Some ((freq_valid, False), p)})"

text \<open>\<open>(min..=max).all(|c| datarates()[c].is_some())\<close>\<close>

definition dr_range_supported :: "'x channel_region_scheme \<Rightarrow> data_rate_range \<Rightarrow> bool run" where
  "dr_range_supported R r =
     (if unat (drr_max r) < NUM_DATARATES
      then map_option Not (any_run (\<lambda>c. map_option (\<lambda>d. d = None) (idx (cr_datarates R) c))
             [unat (drr_min r)..<Suc (unat (drr_max r))])
      else Some False)"

definition dyn_handle_new_channel ::
  "dynamic_region \<Rightarrow> u8 \<Rightarrow> u32 \<Rightarrow> data_rate_range option \<Rightarrow> dyn_plan \<Rightarrow> ((bool \<times> bool) \<times> dyn_plan) run" where
  "dyn_handle_new_channel R index freq drs p =
     (let i = unat index in
      if i < dyn_num_join_channels R then Some ((False, False), p)
      else if NUM_CHANNELS_DYNAMIC \<le> i then Some ((False, False), p)
      else if freq = 0 then do {
        chans \<leftarrow> set_idx (dp_channels p) i None;
        m \<leftarrow> set_channel (dp_mask p) i False;
        Some ((True, True), p\<lparr>dp_channels := chans, dp_mask := m\<rparr>)}
      else
        let freq_valid = dp_frequency_valid p freq in
        (case drs of
           Some r \<Rightarrow> do {
             dr_supported \<leftarrow> dr_range_supported R r;
             if freq_valid \<and> dr_supported then do {
               chans \<leftarrow> set_idx (dp_channels p) i (Some (channel_new_with_dr freq r));
               m \<leftarrow> set_channel (dp_mask p) i True;
               Some ((freq_valid, dr_supported), p\<lparr>dp_channels := chans, dp_mask := m\<rparr>)}
             else Some ((freq_valid, dr_supported), p)}
         | None \<Rightarrow> Some ((freq_valid, False), p)))"

section \<open>The invariant of a plan\<close>

definition dyn_ok :: "dynamic_region \<Rightarrow> dyn_plan \<Rightarrow> bool" where
  "dyn_ok R p \<longleftrightarrow> length (dp_channels p) = 16 \<and> length (dp_mask p) = 9 \<and>
     (\<forall>i < dyn_num_join_channels R. \<exists>c. dp_channels p ! i = Some c)"

definition dyn_region_ok :: "dynamic_region \<Rightarrow> bool" where
  "dyn_region_ok R \<longleftrightarrow> region_ok R \<and> 1 \<le> dyn_num_join_channels R \<and> dyn_num_join_channels R \<le> 3"

lemma dynamic_regions_ok: "R \<in> set dynamic_regions \<Longrightarrow> dyn_region_ok R"
  using dynamic_region_ok [of R]
  by (auto simp: dyn_region_ok_def dynamic_regions_def region_defs)

lemma dyn_new_ok: "R \<in> set dynamic_regions \<Longrightarrow> dyn_ok R (dyn_new R f)"
  by (auto simp: dynamic_regions_def dyn_ok_def dyn_new_def NUM_CHANNELS_DYNAMIC_def
      channel_mask_default_def region_defs eu868_init_channels_def eu433_init_channels_def
      in865_init_channels_def as923_init_channels_def less_Suc_eq numeral_3_eq_3 numeral_2_eq_2)

lemma dyn_cf_loop_ok:
  assumes "dyn_ok R p" "dyn_num_join_channels R + n + length fs \<le> 16"
  shows "\<exists>p'. dyn_cf_loop R n fs p = Some p' \<and> dyn_ok R p' \<and> dp_mask p' = dp_mask p \<and>
     dp_frequency_valid p' = dp_frequency_valid p \<and>
     (\<forall>i < dyn_num_join_channels R. dp_channels p' ! i = dp_channels p ! i)"
  using assms
proof (induction fs arbitrary: n p)
  case Nil
  then show ?case by simp
next
  case (Cons f fs)
  let ?i = "dyn_num_join_channels R + n"
  let ?c = "if freq_hz f = 0 then None else Some (channel_new (freq_hz f) DR0 DR5)"
  let ?p = "p\<lparr>dp_channels := (dp_channels p)[?i := ?c]\<rparr>"
  have i: "?i < length (dp_channels p)" using Cons.prems by (simp add: dyn_ok_def)
  have ok: "dyn_ok R ?p" using Cons.prems by (auto simp: dyn_ok_def)
  have "dyn_num_join_channels R + Suc n + length fs \<le> 16" using Cons.prems by simp
  from Cons.IH [OF ok this] show ?case using i
    by (auto simp: Let_def set_idx_def)
qed

lemma dyn_process_join_accept_ok:
  assumes "dyn_region_ok R" "dyn_ok R p" "\<And>cf. cf_list = Some cf \<Longrightarrow> (case cf of DynamicChannel fs \<Rightarrow> length fs = 5 | _ \<Rightarrow> True)"
  shows "\<exists>p'. dyn_process_join_accept R cf_list p = Some p' \<and> dyn_ok R p' \<and> dp_mask p' = dp_mask p \<and>
     dp_frequency_valid p' = dp_frequency_valid p \<and>
     (\<forall>i < dyn_num_join_channels R. dp_channels p' ! i = dp_channels p ! i)"
proof (cases cf_list)
  case None
  then show ?thesis using assms by (simp add: dyn_process_join_accept_def)
next
  case (Some cf)
  show ?thesis
  proof (cases cf)
    case (DynamicChannel fs)
    then have "dyn_num_join_channels R + 0 + length fs \<le> 16"
      using assms(1,3) Some by (simp add: dyn_region_ok_def)
    from dyn_cf_loop_ok [OF assms(2) this] show ?thesis
      using Some DynamicChannel by (simp add: dyn_process_join_accept_def)
  qed (use Some assms in \<open>simp add: dyn_process_join_accept_def\<close>)
qed

lemma set_banks_ok:
  "\<forall>(i, v) \<in> set bs. i < length m \<Longrightarrow> \<exists>m'. set_banks bs m = Some m' \<and> length m' = length m"
  by (induction bs m rule: set_banks.induct) (auto simp: set_bank_def)

lemma dyn_channel_mask_update_ok:
  assumes "length m = 9" "length ch = 2" "ctl \<noteq> 4"
  shows "\<exists>r. dyn_channel_mask_update m ctl ch = Some r \<and> (\<forall>m'. r = Some m' \<longrightarrow> length m' = 9)"
proof -
  have c: "mask_get_index ch 0 = Some (ch ! 0)" "mask_get_index ch 1 = Some (ch ! 1)"
    using assms by (auto simp: mask_get_index_def idx_def)
  have bs: "\<exists>r. map_option Some (set_banks bs m) = Some r \<and> (\<forall>m'. r = Some m' \<longrightarrow> length m' = 9)"
    if "\<forall>(i, v) \<in> set bs. i < 9" for bs
    using set_banks_ok [of bs m] that assms(1) by auto
  show ?thesis
  proof (cases "ctl \<le> 4")
    case True
    then have "unat ctl < 4" using assms(3) by (auto simp: word_le_nat_alt word_unat_eq_iff)
    then show ?thesis using True assms c
      by (simp add: dyn_channel_mask_update_def Let_def set_bank_def)
  next
    case False
    show ?thesis
      unfolding dyn_channel_mask_update_def c Option.bind.simps Let_def if_not_P [OF False]
      by (cases "ctl = 5"; cases "ctl = 6"; (simp only: if_True if_False refl)?; (rule bs; simp)?; simp)
  qed
qed

lemma any_run_map:
  "\<forall>x \<in> set xs. f x = Some (g x) \<Longrightarrow> any_run f xs = Some (\<exists>x \<in> set xs. g x)"
  by (induction xs) auto

lemma dyn_channel_mask_validate_eq:
  assumes "length (dp_channels p) = 16" "length m = 9"
  shows "dyn_channel_mask_validate m dr p = Some (\<exists>i < 16. mask_on m i \<and> dp_channels p ! i \<noteq> None)"
proof -
  have ne: "0 < length m" using assms by simp
  have "dyn_channel_mask_validate m dr p
      = Some (\<exists>i \<in> set [0..<NUM_CHANNELS_DYNAMIC]. mask_on m i \<and> dp_channels p ! i \<noteq> None)"
    unfolding dyn_channel_mask_validate_def
    by (rule any_run_map) (use assms in \<open>auto simp: NUM_CHANNELS_DYNAMIC_def is_enabled_eq [OF ne]\<close>)
  then show ?thesis by (auto simp: NUM_CHANNELS_DYNAMIC_def)
qed

lemma dyn_channel_dl_update_ok:
  assumes "dyn_ok R p"
  shows "\<exists>a p'. dyn_channel_dl_update index freq p = Some ((dp_frequency_valid p freq, a), p') \<and>
     dyn_ok R p' \<and> dp_mask p' = dp_mask p \<and>
     (a \<longleftrightarrow> (\<exists>c. unat index < 16 \<and> mask_on (dp_mask p) (unat index) \<and>
        dp_channels p ! unat index = Some c \<and> ch_frequency c \<noteq> 0)) \<and>
     (a \<longrightarrow> (\<exists>c'. dp_channels p' ! unat index = Some c' \<and> ch_rx1_frequency c' = freq \<and>
          map_option ch_ul_frequency (dp_channels p ! unat index) = Some (ch_ul_frequency c'))) \<and>
     (\<not> a \<longrightarrow> p' = p) \<and>
     (\<forall>i < 16. map_option ch_frequency (dp_channels p' ! i) = map_option ch_frequency (dp_channels p ! i))"
proof -
  let ?i = "unat index"
  have ne: "0 < length (dp_mask p)" using assms by (simp add: dyn_ok_def)
  have l: "length (dp_channels p) = 16" "length (dp_mask p) = 9" using assms by (simp_all add: dyn_ok_def)
  show ?thesis
  proof (cases "?i < 16 \<and> mask_on (dp_mask p) ?i")
    case False
    then show ?thesis using assms l
      by (auto simp: dyn_channel_dl_update_def Let_def NUM_CHANNELS_DYNAMIC_def is_enabled_eq [OF ne])
  next
    case True
    then have en: "is_enabled (dp_mask p) ?i = Some (Inr True)" using l by (simp add: is_enabled_eq [OF ne])
    show ?thesis
    proof (cases "dp_channels p ! ?i")
      case None
      then show ?thesis using True en assms l
        by (auto simp: dyn_channel_dl_update_def Let_def NUM_CHANNELS_DYNAMIC_def)
    next
      case (Some c)
      then show ?thesis using True en assms l
        by (auto simp: dyn_channel_dl_update_def Let_def NUM_CHANNELS_DYNAMIC_def dyn_ok_def nth_list_update
            ch_rx1_frequency_def ch_ul_frequency_def)
    qed
  qed
qed

lemma dr_range_supported_eq:
  assumes "length (cr_datarates R) = 15"
  shows "dr_range_supported R r = Some (unat (drr_max r) < 15 \<and>
     (\<forall>d \<in> {unat (drr_min r)..unat (drr_max r)}. cr_datarates R ! d \<noteq> None))"
proof (cases "unat (drr_max r) < 15")
  case True
  have "any_run (\<lambda>c. map_option (\<lambda>d. d = None) (idx (cr_datarates R) c))
      [unat (drr_min r)..<Suc (unat (drr_max r))]
    = Some (\<exists>c \<in> set [unat (drr_min r)..<Suc (unat (drr_max r))]. cr_datarates R ! c = None)"
    by (rule any_run_map) (use True assms in auto)
  then show ?thesis using True by (auto simp: dr_range_supported_def NUM_DATARATES_def)
next
  case False
  then show ?thesis by (simp add: dr_range_supported_def NUM_DATARATES_def)
qed

text \<open>Every outcome of a \<open>NewChannelReq\<close>: the two answer bits and the new plan.\<close>

lemma dyn_handle_new_channel_ok:
  assumes R: "dyn_region_ok R" and p: "dyn_ok R p"
  shows "\<exists>ans p'. dyn_handle_new_channel R index freq drs p = Some (ans, p') \<and> dyn_ok R p' \<and>
     dp_frequency_valid p' = dp_frequency_valid p \<and>
     (\<forall>i. i \<noteq> unat index \<longrightarrow> mask_on (dp_mask p') i = mask_on (dp_mask p) i \<and>
          dp_channels p' ! i = dp_channels p ! i) \<and>
     (ans \<noteq> (True, True) \<longrightarrow> p' = p) \<and>
     (ans = (True, True) \<longrightarrow> dyn_num_join_channels R \<le> unat index \<and> unat index < 16 \<and>
        (if freq = 0 then dp_channels p' ! unat index = None \<and> \<not> mask_on (dp_mask p') (unat index)
         else mask_on (dp_mask p') (unat index) \<and> dp_frequency_valid p freq \<and>
           (\<exists>r. drs = Some r \<and> dp_channels p' ! unat index = Some (channel_new_with_dr freq r) \<and>
              unat (drr_max r) < 15 \<and>
              (\<forall>d \<in> {unat (drr_min r)..unat (drr_max r)}. cr_datarates R ! d \<noteq> None))))"
proof -
  let ?i = "unat index"
  have l: "length (dp_channels p) = 16" "length (dp_mask p) = 9" using p by (simp_all add: dyn_ok_def)
  have dl: "length (cr_datarates R) = 15" using R by (simp add: dyn_region_ok_def region_ok_def)
  consider "?i < dyn_num_join_channels R \<or> 16 \<le> ?i"
    | "dyn_num_join_channels R \<le> ?i" "?i < 16" "freq = 0"
    | "dyn_num_join_channels R \<le> ?i" "?i < 16" "freq \<noteq> 0" by linarith
  then show ?thesis
  proof cases
    case 1
    then show ?thesis using p by (auto simp: dyn_handle_new_channel_def Let_def NUM_CHANNELS_DYNAMIC_def)
  next
    case 2
    then obtain m where "set_channel (dp_mask p) ?i False = Some m" "length m = 9"
      "\<forall>d. mask_on m d = (if d = ?i then False else mask_on (dp_mask p) d)"
      using set_channel_in [of ?i "dp_mask p" False] l by auto
    then show ?thesis using 2 p l
      by (auto simp: dyn_handle_new_channel_def Let_def NUM_CHANNELS_DYNAMIC_def dyn_ok_def)
  next
    case 3
    obtain m where m: "set_channel (dp_mask p) ?i True = Some m" "length m = 9"
      "\<forall>d. mask_on m d = (if d = ?i then True else mask_on (dp_mask p) d)"
      using set_channel_in [of ?i "dp_mask p" True] l 3 by auto
    show ?thesis
    proof (cases drs)
      case None
      then show ?thesis using 3 p by (simp add: dyn_handle_new_channel_def Let_def NUM_CHANNELS_DYNAMIC_def)
    next
      case (Some r)
      define sup where "sup \<longleftrightarrow> unat (drr_max r) < 15 \<and>
        (\<forall>d \<in> {unat (drr_min r)..unat (drr_max r)}. cr_datarates R ! d \<noteq> None)"
      have sup: "dr_range_supported R r = Some sup"
        using dr_range_supported_eq [OF dl] by (simp add: sup_def)
      show ?thesis
      proof (cases "dp_frequency_valid p freq \<and> sup")
        case True
        define p' where "p' = p\<lparr>dp_channels := (dp_channels p)[?i := Some (channel_new_with_dr freq r)], dp_mask := m\<rparr>"
        have "dyn_handle_new_channel R index freq drs p = Some ((True, True), p')"
          using 3 True sup l m Some
          by (simp add: dyn_handle_new_channel_def Let_def NUM_CHANNELS_DYNAMIC_def p'_def)
        moreover have "dyn_ok R p'" using 3 p m by (auto simp: dyn_ok_def p'_def)
        moreover have "dp_frequency_valid p' = dp_frequency_valid p"
          "dp_channels p' ! ?i = Some (channel_new_with_dr freq r)" "mask_on (dp_mask p') ?i"
          "\<forall>i. i \<noteq> ?i \<longrightarrow> mask_on (dp_mask p') i = mask_on (dp_mask p) i \<and> dp_channels p' ! i = dp_channels p ! i"
          using 3 l m by (auto simp: p'_def)
        ultimately show ?thesis using 3 True Some unfolding sup_def by auto
      next
        case False
        then show ?thesis using 3 sup l m Some p
          by (auto simp: dyn_handle_new_channel_def Let_def NUM_CHANNELS_DYNAMIC_def)
      qed
    qed
  qed
qed

section \<open>Channel selection\<close>

text \<open>When a join selection returns, it returned a join channel.\<close>

lemma dyn_join_loop_Some:
  assumes "dyn_join_loop next_u32 R index rng = Some r"
  shows "fst r < dyn_num_join_channels R"
  using assms
  by (rule dyn_join_loop.raw_induct [where P = "\<lambda>_ R _ _ r. fst r < dyn_num_join_channels R", rotated])
     (auto split: if_splits prod.splits)

text \<open>The stream of random words, and the channel a draw selects: a plan has at most 16 channels,
  so a draw is cut to its low three or four bits.\<close>

definition rng_state :: "('r \<Rightarrow> u32 \<times> 'r) \<Rightarrow> nat \<Rightarrow> 'r \<Rightarrow> 'r" where
  "rng_state next_u32 n rng = ((snd \<circ> next_u32) ^^ n) rng"

definition rng_draw :: "('r \<Rightarrow> u32 \<times> 'r) \<Rightarrow> nat \<Rightarrow> 'r \<Rightarrow> u32" where
  "rng_draw next_u32 n rng = fst (next_u32 (rng_state next_u32 n rng))"

lemma rng_draw_simps [simp]:
  "rng_draw next_u32 0 rng = fst (next_u32 rng)"
  "rng_draw next_u32 (Suc n) rng = rng_draw next_u32 n (snd (next_u32 rng))"
  by (simp_all add: rng_draw_def rng_state_def funpow_swap1 del: funpow.simps add: funpow_Suc_right)

definition dyn_index :: "dyn_plan \<Rightarrow> u32 \<Rightarrow> nat" where
  "dyn_index p v = unat v mod (if \<forall>i < 16. 8 \<le> i \<longrightarrow> dp_channels p ! i = None then 8 else 16)"

definition dyn_usable :: "dyn_plan \<Rightarrow> nat \<Rightarrow> bool" where
  "dyn_usable p i \<longleftrightarrow> mask_on (dp_mask p) i \<and> dp_channels p ! i \<noteq> None"

lemma rposition_some_None: "rposition_some xs = None \<Longrightarrow> x \<in> set xs \<Longrightarrow> x = None"
  by (induction xs) (auto split: option.splits if_splits)

lemma rposition_some_Some:
  "rposition_some xs = Some i \<Longrightarrow>
   i < length xs \<and> xs ! i \<noteq> None \<and> (\<forall>j. i < j \<longrightarrow> j < length xs \<longrightarrow> xs ! j = None)"
proof (induction xs arbitrary: i)
  case (Cons x xs)
  show ?case
  proof (cases "rposition_some xs")
    case None
    then have i: "i = 0" "x \<noteq> None" using Cons.prems by (auto split: if_splits)
    have "(x # xs) ! j = None" if "0 < j" "j < length (x # xs)" for j
      using rposition_some_None [OF None, of "xs ! (j - 1)"] that by (cases j) simp_all
    then show ?thesis using i by simp
  next
    case (Some k)
    then have i: "i = Suc k" using Cons.prems by simp
    have "(x # xs) ! j = None" if "Suc k < j" "j < length (x # xs)" for j
      using Cons.IH [OF Some] that by (cases j) simp_all
    then show ?thesis using i Cons.IH [OF Some] by simp
  qed
qed simp

lemma get_random_in_range_eq:
  assumes "dyn_region_ok R" "dyn_ok R p"
  shows "get_random_in_range next_u32 p rng =
    Some (dyn_index p (fst (next_u32 rng)), snd (next_u32 rng))"
proof -
  have l: "length (dp_channels p) = 16" and c0: "dp_channels p ! 0 \<noteq> None"
    using assms by (auto simp: dyn_ok_def dyn_region_ok_def)
  have "dp_channels p ! 0 \<in> set (dp_channels p)" using l by simp
  then obtain k where r: "rposition_some (dp_channels p) = Some k"
    using c0 rposition_some_None [of "dp_channels p" "dp_channels p ! 0"] by (cases "rposition_some (dp_channels p)") simp_all
  from rposition_some_Some [OF r] l
  have k: "k < 16" "dp_channels p ! k \<noteq> None" "\<And>j. k < j \<Longrightarrow> j < 16 \<Longrightarrow> dp_channels p ! j = None" by simp_all
  have iff: "(\<forall>i < 16. 8 \<le> i \<longrightarrow> dp_channels p ! i = None) \<longleftrightarrow> \<not> 8 \<le> k"
  proof
    assume "\<not> 8 \<le> k"
    then show "\<forall>i < 16. 8 \<le> i \<longrightarrow> dp_channels p ! i = None" using k(3) by simp
  next
    assume a: "\<forall>i < 16. 8 \<le> i \<longrightarrow> dp_channels p ! i = None"
    show "\<not> 8 \<le> k" using spec [OF a, of k] k(1,2) by linarith
  qed
  have u: "dyn_index p v = unat v mod (if \<not> 8 \<le> k then 8 else 16)" for v
    unfolding dyn_index_def iff ..
  obtain v rng' where v: "next_u32 rng = (v, rng')" by fastforce
  have a: "unat (v AND 7) = unat v mod 8" "unat (v AND 15) = unat v mod 16"
    using unat_and_mask [of v 3] unat_and_mask [of v 4] by (simp_all add: mask_eq_exp_minus_1)
  show ?thesis unfolding u using r k(1) v a
    by (simp add: get_random_in_range_def Let_def)
qed

lemma dyn_index_less: "dyn_index p v < 16"
proof -
  have "unat v mod 8 < 8" "unat v mod 16 < 16" by simp_all
  then show ?thesis by (auto simp: dyn_index_def)
qed

lemma dyn_data_loop_unfold:
  assumes "dyn_region_ok R" "dyn_ok R p" "c < 16"
  shows "dyn_data_loop next_u32 p c rng =
    (if dyn_usable p c then Some (the (dp_channels p ! c), rng)
     else dyn_data_loop next_u32 p (dyn_index p (fst (next_u32 rng))) (snd (next_u32 rng)))"
proof -
  have l: "length (dp_channels p) = 16" "length (dp_mask p) = 9" using assms by (simp_all add: dyn_ok_def)
  then have en: "is_enabled (dp_mask p) c = Some (Inr (mask_on (dp_mask p) c))"
    using assms(3) by (simp add: is_enabled_eq)
  show ?thesis
    by (subst dyn_data_loop.simps)
       (use assms(3) l en in \<open>auto simp: dyn_usable_def get_random_in_range_eq [OF assms(1,2)]\<close>)
qed

lemma dyn_data_loop_returns:
  assumes "dyn_region_ok R" "dyn_ok R p" "c < 16"
    "dyn_usable p c \<or> (\<exists>n. dyn_usable p (dyn_index p (rng_draw next_u32 n rng)))"
  shows "\<exists>i rng'. i < 16 \<and> dyn_usable p i \<and> dyn_data_loop next_u32 p c rng = Some (the (dp_channels p ! i), rng')"
proof -
  have "dyn_usable p c \<or> dyn_usable p (dyn_index p (rng_draw next_u32 n rng)) \<Longrightarrow> ?thesis" for n
    using assms(3)
  proof (induction n arbitrary: c rng)
    case 0
    then show ?case
      using dyn_data_loop_unfold [OF assms(1,2), of c next_u32 rng]
        dyn_data_loop_unfold [OF assms(1,2) dyn_index_less, of next_u32 p "fst (next_u32 rng)" "snd (next_u32 rng)"]
        dyn_index_less [of p "fst (next_u32 rng)"]
      by (metis rng_draw_simps(1))
  next
    case (Suc n)
    show ?case
    proof (cases "dyn_usable p c")
      case True
      then show ?thesis using dyn_data_loop_unfold [OF assms(1,2), of c next_u32 rng] Suc.prems by auto
    next
      case False
      then have "dyn_usable p (dyn_index p (rng_draw next_u32 n (snd (next_u32 rng))))"
        using Suc.prems by simp
      from Suc.IH [OF disjI2 [OF this] dyn_index_less] show ?thesis
        using dyn_data_loop_unfold [OF assms(1,2), of c next_u32 rng] False Suc.prems by simp
    qed
  qed
  then show ?thesis using assms(4) by blast
qed

lemma dyn_data_loop_Some:
  fixes next_u32 :: "'r \<Rightarrow> u32 \<times> 'r"
  assumes R: "dyn_region_ok R" and "dyn_ok R p" "c < 16" "dyn_data_loop next_u32 p c rng = Some r"
  shows "dyn_usable p c \<or> (\<exists>n. dyn_usable p (dyn_index p (rng_draw next_u32 n rng)))"
proof -
  let ?P = "\<lambda>next_u32 p c rng (r :: channel \<times> 'r). dyn_ok R p \<longrightarrow> c < 16 \<longrightarrow>
    dyn_usable p c \<or> (\<exists>n. dyn_usable p (dyn_index p (rng_draw next_u32 n rng)))"
  have "?P next_u32 p c rng r"
    using assms(4)
  proof (rule dyn_data_loop.raw_induct [where P = ?P, rotated], intro impI)
    fix f :: "('r \<Rightarrow> u32 \<times> 'r) \<Rightarrow> dyn_plan \<Rightarrow> nat \<Rightarrow> 'r \<Rightarrow> (channel \<times> 'r) option" and next_u32 :: "'r \<Rightarrow> u32 \<times> 'r" and p c rng and r :: "channel \<times> 'r"
    assume IH: "\<And>next_u32 p c rng r. f next_u32 p c rng = Some r \<Longrightarrow> ?P next_u32 p c rng r"
    assume step: "Option.bind (unwrap_ok (is_enabled (dp_mask p) c)) (\<lambda>e.
        Option.bind (if e then idx (dp_channels p) c else Some None)
          (case_option (Option.bind (get_random_in_range next_u32 p rng) (\<lambda>(c', rng'). f next_u32 p c' rng'))
             (\<lambda>ch. Some (ch, rng)))) = Some r"
    assume ok: "dyn_ok R p" and c: "c < 16"
    have l: "length (dp_channels p) = 16" "length (dp_mask p) = 9" using ok by (simp_all add: dyn_ok_def)
    then have en: "is_enabled (dp_mask p) c = Some (Inr (mask_on (dp_mask p) c))"
      using c by (simp add: is_enabled_eq)
    show "dyn_usable p c \<or> (\<exists>n. dyn_usable p (dyn_index p (rng_draw next_u32 n rng)))"
    proof (cases "dyn_usable p c")
      case False
      then have "f next_u32 p (dyn_index p (fst (next_u32 rng))) (snd (next_u32 rng)) = Some r"
        using step c l by (auto simp: en dyn_usable_def get_random_in_range_eq [OF R ok] split: if_splits)
      from IH [OF this] ok dyn_index_less
      have "dyn_usable p (dyn_index p (rng_draw next_u32 0 rng)) \<or>
          (\<exists>n. dyn_usable p (dyn_index p (rng_draw next_u32 (Suc n) rng)))" by auto
      then show ?thesis by blast
    qed simp
  qed
  then show ?thesis using assms by blast
qed

lemma dyn_join_loop_unfold:
  "dyn_join_loop next_u32 R i rng =
    (if i < dyn_num_join_channels R then Some (i, rng)
     else dyn_join_loop next_u32 R (unat (fst (next_u32 rng)) mod 4) (snd (next_u32 rng)))"
proof -
  obtain v rng' where v: "next_u32 rng = (v, rng')" by fastforce
  have "unat (v AND 3) = unat v mod 4" using unat_and_mask [of v 2] by (simp add: mask_eq_exp_minus_1)
  then show ?thesis by (subst dyn_join_loop.simps) (simp add: v)
qed

lemma dyn_join_loop_returns:
  "i < dyn_num_join_channels R \<or> unat (rng_draw next_u32 n rng) mod 4 < dyn_num_join_channels R \<Longrightarrow>
   \<exists>r. dyn_join_loop next_u32 R i rng = Some r"
proof (induction n arbitrary: i rng)
  case 0
  then show ?case
    by (subst dyn_join_loop_unfold, subst dyn_join_loop_unfold) auto
next
  case (Suc n)
  show ?case
  proof (cases "i < dyn_num_join_channels R")
    case False
    then show ?thesis using Suc by (subst dyn_join_loop_unfold) simp
  qed (subst dyn_join_loop_unfold, simp)
qed

section \<open>The contract of a region handler\<close>

interpretation dyn: region_handler "\<lambda>p. R \<in> set dynamic_regions \<and> dyn_ok R p"
  dyn_channel_mask_get dyn_channel_mask_set "\<lambda>_. dyn_channel_mask_update" "\<lambda>p m dr. dyn_channel_mask_validate m dr p"
  "dyn_process_join_accept R" "\<lambda>_. region_get_datarate R" for R
proof
  show "length (dyn_channel_mask_get s) = 9" if "R \<in> set dynamic_regions \<and> dyn_ok R s" for s
    using that by (simp add: dyn_channel_mask_get_def dyn_ok_def)
  show "R \<in> set dynamic_regions \<and> dyn_ok R (dyn_channel_mask_set m s)"
    if "R \<in> set dynamic_regions \<and> dyn_ok R s" "length m = 9" for s m
    using that by (auto simp: dyn_channel_mask_set_def dyn_ok_def)
  show "dyn_channel_mask_get (dyn_channel_mask_set m s) = m" for m s
    by (simp add: dyn_channel_mask_set_def dyn_channel_mask_get_def)
  show "\<exists>r. dyn_channel_mask_update m ctl ch = Some r \<and> (\<forall>m'. r = Some m' \<longrightarrow> length m' = 9)"
    if "length m = 9" "length ch = 2" "ctl \<noteq> 4" for m ch ctl
    by (rule dyn_channel_mask_update_ok [OF that])
  show "\<exists>b. dyn_channel_mask_validate m dr s = Some b"
    if "R \<in> set dynamic_regions \<and> dyn_ok R s" "length m = 9" for m dr s
    using that dyn_channel_mask_validate_eq [of s m dr] by (auto simp: dyn_ok_def)
  show "\<exists>s'. dyn_process_join_accept R cf s = Some s' \<and> R \<in> set dynamic_regions \<and> dyn_ok R s'"
    if "R \<in> set dynamic_regions \<and> dyn_ok R s" "\<And>x. cf = Some x \<Longrightarrow> cf_list_wf x" for s cf
  proof -
    have "\<And>x. cf = Some x \<Longrightarrow> (case x of DynamicChannel fs \<Rightarrow> length fs = 5 | _ \<Rightarrow> True)"
      using that(2) by (auto simp: cf_list_wf_def split: cf_list.splits)
    from dyn_process_join_accept_ok [OF dynamic_regions_ok [OF conjunct1 [OF that(1)]] conjunct2 [OF that(1)] this]
    show ?thesis using that(1) by blast
  qed
  show "\<exists>d. region_get_datarate R n = Some d" if "R \<in> set dynamic_regions \<and> dyn_ok R s" "unat n < 15" for s n
    using that dynamic_region_ok [of R] by (simp add: region_get_datarate_def region_ok_def)
qed

section \<open>Mask updates as sets of channels\<close>

lemma set_banks_upt:
  "n \<le> length m \<Longrightarrow> set_banks (map (\<lambda>i. (i, f i)) [k..<n]) m = Some (take k m @ map f [k..<n] @ drop (max k n) m)"
proof (induction "n - k" arbitrary: k m)
  case 0
  then show ?case by simp
next
  case (Suc d)
  then have k: "k < n" by simp
  have "set_banks (map (\<lambda>i. (i, f i)) [Suc k..<n]) (m[k := f k])
      = Some (take (Suc k) (m[k := f k]) @ map f [Suc k..<n] @ drop (max (Suc k) n) (m[k := f k]))"
    using Suc by simp
  then show ?case using k Suc.prems
    by (simp add: upt_conv_Cons set_bank_def take_Suc_conv_app_nth max_def)
qed

lemma bit_0xff: "bit (0xFF :: u8) j \<longleftrightarrow> j < 8"
proof -
  have "(0xFF :: u8) = mask 8" by (simp add: mask_eq_exp_minus_1)
  then show ?thesis by (simp only: bit_mask_iff) auto
qed

lemma bank_byte:
  assumes "i < 9" "j < 8"
  shows "bit (ucast (((w :: u16) AND 2 ^ i) * 0xFF) :: u8) j \<longleftrightarrow> bit w i \<and> i \<le> j"
proof -
  have a: "w AND 2 ^ i = (if bit w i then 2 ^ i else 0)"
    by (rule bit_eqI) (auto simp: bit_simps)
  have "(255 :: u16) = mask 8" by (simp add: mask_eq_exp_minus_1)
  then have "(2 ^ i * 255 :: u16) = push_bit i (mask 8)" by (simp add: push_bit_eq_mult mult.commute)
  then have "bit ((2 ^ i * 255) :: u16) j \<longleftrightarrow> i \<le> j"
    using assms by (auto simp only: bit_push_bit_iff bit_mask_iff) auto
  then show ?thesis using assms by (simp add: a bit_simps)
qed

lemma dyn_mask_update_banks:
  assumes "length m = 9" "length ch = 2"
  shows "\<exists>m'. dyn_channel_mask_update m 5 ch = Some (Some m') \<and> length m' = 9 \<and>
    (\<forall>c. mask_on m' c \<longleftrightarrow> c < 72 \<and> mask_on ch (c div 8) \<and> c div 8 \<le> c mod 8)"
proof -
  have c: "mask_get_index ch 0 = Some (ch ! 0)" "mask_get_index ch 1 = Some (ch ! 1)"
    using assms by (auto simp: mask_get_index_def idx_def)
  define w where "w = (ucast (ch ! 0) OR push_bit 8 (ucast (ch ! 1)) :: u16)"
  define f where "f i = (ucast ((w AND 2 ^ i) * 0xFF) :: u8)" for i
  have w: "bit w i \<longleftrightarrow> mask_on ch i" if "i < 9" for i
  proof (cases "i < 8")
    case True
    have "\<not> bit (push_bit 8 (ucast (ch ! 1)) :: u16) i" using True by (simp add: bit_push_bit_iff)
    then show ?thesis using True assms by (simp add: w_def mask_on_def bit_or_iff bit_ucast_iff)
  next
    case False
    then have i: "i = 8" using that by simp
    have "\<not> bit (ch ! 0) 8" using bit_imp_le_length [of "ch ! 0" 8] by auto
    then show ?thesis using i assms by (simp add: w_def mask_on_def bit_or_iff bit_ucast_iff bit_push_bit_iff)
  qed
  have l: "[(0, f 0), (1, f 1), (2, f 2), (3, f 3), (4, f 4), (5, f 5), (6, f 6), (7, f 7), (8, f 8)]
      = map (\<lambda>i. (i, f i)) [0..<9]"
  proof -
    have "[0..<9] = [0, 1, 2, 3, 4, 5, 6, 7, 8 :: nat]" by code_simp
    then show ?thesis by simp
  qed
  have bs: "[(0, ucast ((w AND 0b1) * 0xFF)), (1, ucast ((w AND 0b10) * 0xFF)),
           (2, ucast ((w AND 0b100) * 0xFF)), (3, ucast ((w AND 0b1000) * 0xFF)),
           (4, ucast ((w AND 0b10000) * 0xFF)), (5, ucast ((w AND 0b100000) * 0xFF)),
           (6, ucast ((w AND 0b1000000) * 0xFF)), (7, ucast ((w AND 0b10000000) * 0xFF)),
           (8, ucast ((w AND 0b100000000) * 0xFF))] = map (\<lambda>i. (i, f i)) [0..<9]"
    unfolding l [symmetric] by (simp add: f_def)
  have "dyn_channel_mask_update m 5 ch = map_option Some (set_banks (map (\<lambda>i. (i, f i)) [0..<9]) m)"
    unfolding dyn_channel_mask_update_def c Option.bind.simps Let_def w_def [symmetric] bs by simp
  then have "dyn_channel_mask_update m 5 ch = Some (Some (map f [0..<9]))"
    using set_banks_upt [of 9 m f 0] assms by simp
  moreover have "mask_on (map f [0..<9]) c \<longleftrightarrow> c < 72 \<and> mask_on ch (c div 8) \<and> c div 8 \<le> c mod 8" for c
    using bank_byte [of "c div 8" "c mod 8" w] w [of "c div 8"]
    by (auto simp: mask_on_def f_def div_less_iff_less_mult)
  ultimately show ?thesis by simp
qed

lemma dyn_mask_update_cases:
  assumes "length m = 9" "length ch = 2"
  shows "if ctl = 4 then dyn_channel_mask_update m ctl ch = None
    else if 7 \<le> ctl then dyn_channel_mask_update m ctl ch = Some None
    else \<exists>m'. dyn_channel_mask_update m ctl ch = Some (Some m') \<and> length m' = 9 \<and>
      (ctl \<le> 3 \<longrightarrow> (\<forall>c. mask_on m' c = (if c div 16 = unat ctl then mask_on ch (c mod 16) else mask_on m c))) \<and>
      (ctl = 6 \<longrightarrow> (\<forall>c. mask_on m' c \<longleftrightarrow> c < 64 \<or> mask_on m c))"
proof -
  have c: "mask_get_index ch 0 = Some (ch ! 0)" "mask_get_index ch 1 = Some (ch ! 1)"
    using assms by (auto simp: mask_get_index_def idx_def)
  show ?thesis
  proof (cases "ctl \<le> 3")
    case True
    then have k: "unat ctl \<le> 3" by (simp add: word_le_nat_alt)
    define m' where "m' = m[unat ctl * 2 := ch ! 0, unat ctl * 2 + 1 := ch ! 1]"
    have "dyn_channel_mask_update m ctl ch = Some (Some m')"
      using True k assms c by (simp add: dyn_channel_mask_update_def Let_def set_bank_def m'_def word_le_nat_alt)
    moreover have "mask_on m' c = (if c div 16 = unat ctl then mask_on ch (c mod 16) else mask_on m c)" for c
    proof -
      have d: "c div 16 = c div 8 div 2" "c mod 16 div 8 = c div 8 mod 2" "c mod 16 mod 8 = c mod 8"
        using mod_mult2_eq [of c 8 2] by (simp_all add: div_mult2_eq [symmetric])
      consider "c div 8 = unat ctl * 2" | "c div 8 = unat ctl * 2 + 1" | "c div 8 div 2 \<noteq> unat ctl"
        by linarith
      then show ?thesis
      proof cases
        case 1
        then have "c div 8 div 2 = unat ctl" "c div 8 mod 2 = 0" by simp_all
        then show ?thesis using 1 k assms d by (simp add: m'_def mask_on_def)
      next
        case 2
        have "(unat ctl * 2 + 1) mod 2 = (1 :: nat)" by presburger
        then have "c div 8 div 2 = unat ctl" "c div 8 mod 2 = 1" using 2 by simp_all
        then show ?thesis using 2 k assms d by (simp add: m'_def mask_on_def)
      next
        case 3
        then have "c div 8 \<noteq> unat ctl * 2" "c div 8 \<noteq> unat ctl * 2 + 1" by auto
        then show ?thesis using 3 d(1) by (simp add: m'_def mask_on_def)
      qed
    qed
    moreover have "length m' = 9" using assms by (simp add: m'_def)
    ultimately show ?thesis using True by (auto simp: word_le_nat_alt)
  next
    case False
    then have k: "3 < unat ctl" by (simp add: word_le_nat_alt)
    have "unat ctl = 4 \<or> unat ctl = 5 \<or> unat ctl = 6 \<or> 6 < unat ctl" using k by arith
    then consider "ctl = 4" | "ctl = 5" | "ctl = 6" | "6 < unat ctl"
      by (auto simp: word_unat_eq_iff)
    then show ?thesis
    proof cases
      case 1
      then show ?thesis using assms c by (simp add: dyn_channel_mask_update_def Let_def set_bank_def)
    next
      case 2
      then show ?thesis using dyn_mask_update_banks [OF assms] by auto
    next
      case 3
      have "dyn_channel_mask_update m ctl ch = Some (Some (replicate 8 0xFF @ drop 8 m))"
        using 3 set_banks_upt [of 8 m "\<lambda>i. 0xFF" 0] assms
        by (simp add: dyn_channel_mask_update_def Let_def map_replicate_const)
      moreover have "mask_on (replicate 8 0xFF @ drop 8 m) c \<longleftrightarrow> c < 64 \<or> mask_on m c" for c
        using bit_0xff [of "c mod 8"] assms
        by (auto simp: mask_on_def nth_append div_less_iff_less_mult)
      ultimately show ?thesis using 3 assms by simp
    next
      case 4
      then have "\<not> ctl \<le> 4" "ctl \<noteq> 5" "ctl \<noteq> 6" "7 \<le> ctl" "ctl \<noteq> 4"
        by (auto simp: word_le_nat_alt)
      then show ?thesis by (simp add: dyn_channel_mask_update_def)
    qed
  qed
qed

section \<open>Properties\<close>

text \<open>\<open>NewChannelReq\<close> on a dynamic plan: the handler never panics, keeps the plan well formed,
  never touches the join channels or another channel than the one named, changes nothing unless both
  answer bits are set, and when they are set the channel is defined and enabled (its frequency valid in
  the region, every data rate of its range one of the region's), or deleted and disabled for frequency 0.\<close>

theorem new_channel_req:
  assumes "R \<in> set dynamic_regions" "dyn_ok R p"
  shows "\<exists>ans p'. dyn_handle_new_channel R index freq drs p = Some (ans, p') \<and> dyn_ok R p' \<and>
     (\<forall>i. i \<noteq> unat index \<longrightarrow> mask_on (dp_mask p') i = mask_on (dp_mask p) i \<and>
          dp_channels p' ! i = dp_channels p ! i) \<and>
     (ans \<noteq> (True, True) \<longrightarrow> p' = p) \<and>
     (ans = (True, True) \<longrightarrow> dyn_num_join_channels R \<le> unat index \<and> unat index < 16 \<and>
        (if freq = 0 then dp_channels p' ! unat index = None \<and> \<not> mask_on (dp_mask p') (unat index)
         else mask_on (dp_mask p') (unat index) \<and> dp_frequency_valid p freq \<and>
           (\<exists>r. drs = Some r \<and> dp_channels p' ! unat index = Some (channel_new_with_dr freq r) \<and>
              unat (drr_max r) < 15 \<and>
              (\<forall>d \<in> {unat (drr_min r)..unat (drr_max r)}. cr_datarates R ! d \<noteq> None))))"
  using dyn_handle_new_channel_ok [OF dynamic_regions_ok [OF assms(1)] assms(2), of index freq drs] by blast

theorem new_channel_req_witness:
  "\<exists>ans p'. dyn_handle_new_channel eu868_region 5 868300000 (Some (DataRateRange 0x50)) (dyn_new eu868_region eu868_freq_check) = Some (ans, p') \<and>
     dyn_ok eu868_region p'"
  using new_channel_req [of eu868_region "dyn_new eu868_region eu868_freq_check" 5 868300000 "Some (DataRateRange 0x50)"]
    dyn_new_ok [of eu868_region eu868_freq_check]
  by (auto simp: dynamic_regions_def)

text \<open>\<open>DlChannelReq\<close> on a dynamic plan: the first answer bit is the validity of the frequency, the
  second says whether the channel is enabled and defined; the second alone decides whether the downlink
  frequency is stored, so a frequency the region refuses is still used for RX1 afterwards.\<close>

theorem dl_channel_req:
  assumes "dyn_ok R p"
  shows "\<exists>a p'. dyn_channel_dl_update index freq p = Some ((dp_frequency_valid p freq, a), p') \<and>
     dyn_ok R p' \<and>
     (a \<longleftrightarrow> (\<exists>c. unat index < 16 \<and> mask_on (dp_mask p) (unat index) \<and>
        dp_channels p ! unat index = Some c \<and> ch_frequency c \<noteq> 0)) \<and>
     (if a then (\<exists>c'. dp_channels p' ! unat index = Some c' \<and> ch_rx1_frequency c' = freq \<and>
          map_option ch_ul_frequency (dp_channels p ! unat index) = Some (ch_ul_frequency c'))
      else p' = p)"
  using dyn_channel_dl_update_ok [OF assms, of index freq] by (smt (verit))

theorem dl_channel_req_witness:
  "\<exists>a p'. dyn_channel_dl_update 1 1 (dyn_new eu868_region eu868_freq_check) =
     Some ((eu868_freq_check 1, a), p')"
  using dl_channel_req [of eu868_region "dyn_new eu868_region eu868_freq_check" 1 1]
    dyn_new_ok [of eu868_region eu868_freq_check]
  by (auto simp: dynamic_regions_def dyn_new_def)

text \<open>\<open>LinkADRReq\<close> masks on a dynamic plan. \<open>ChMaskCntl\<close> 0 to 3 replace exactly one block of sixteen
  channels, 6 switches the first 64 channels on, 7 and above are refused; 4, which the last branch of the
  \<open>match\<close> accepts, writes past the nine banks and panics.\<close>

theorem dyn_mask_update_outcomes:
  assumes "length m = 9" "length ch = 2"
  shows "if ctl = 4 then dyn_channel_mask_update m ctl ch = None
    else if 7 \<le> ctl then dyn_channel_mask_update m ctl ch = Some None
    else \<exists>m'. dyn_channel_mask_update m ctl ch = Some (Some m') \<and> length m' = 9 \<and>
      (ctl \<le> 3 \<longrightarrow> (\<forall>c. mask_on m' c = (if c div 16 = unat ctl then mask_on ch (c mod 16) else mask_on m c))) \<and>
      (ctl = 6 \<longrightarrow> (\<forall>c. mask_on m' c \<longleftrightarrow> c < 64 \<or> mask_on m c))"
  using assms by (rule dyn_mask_update_cases)

theorem dyn_mask_update_outcomes_witness:
  "dyn_channel_mask_update (replicate 9 0xFF) 4 [7, 0] = None"
  using dyn_mask_update_outcomes [of "replicate 9 0xFF" "[7, 0]" 4] by simp

text \<open>\<open>ChMaskCntl\<close> 5, where bit \<open>i\<close> of the mask stands for bank \<open>i\<close>: the multiplication by \<open>0xFF\<close> is
  cut to a byte, so the bank gets the bits from \<open>i\<close> upwards only (bank 8 none), not all eight.\<close>

theorem dyn_mask_banks:
  assumes "length m = 9" "length ch = 2"
  shows "\<exists>m'. dyn_channel_mask_update m 5 ch = Some (Some m') \<and> length m' = 9 \<and>
    (\<forall>c. mask_on m' c \<longleftrightarrow> c < 72 \<and> mask_on ch (c div 8) \<and> c div 8 \<le> c mod 8)"
  using assms by (rule dyn_mask_update_banks)

theorem dyn_mask_banks_witness:
  "\<exists>m'. dyn_channel_mask_update (replicate 9 0) 5 [0xFF, 1] = Some (Some m') \<and> \<not> mask_on m' 8"
  using dyn_mask_banks [of "replicate 9 0" "[0xFF, 1]"] by auto

lemma dyn_select_data_iff:
  assumes "R \<in> set dynamic_regions" "dyn_ok R p" "datarate_unwrap R dr = Some d"
  shows "(dyn_select_tx_channel next_u32 R rng dr Data p \<noteq> None) =
      (\<exists>n. dyn_usable p (dyn_index p (rng_draw next_u32 n rng))) \<and>
    (\<forall>t rng'. dyn_select_tx_channel next_u32 R rng dr Data p = Some (t, rng') \<longrightarrow>
      (\<exists>i c. i < 16 \<and> mask_on (dp_mask p) i \<and> dp_channels p ! i = Some c \<and>
        t = \<lparr>txc_datarate = d, txc_dr = dr, txc_frequency = ch_ul_frequency c, txc_rx1_frequency = ch_rx1_frequency c\<rparr>))"
proof -
  note R = dynamic_regions_ok [OF assms(1)]
  let ?i = "dyn_index p (fst (next_u32 rng))" and ?rng = "snd (next_u32 rng)"
  let ?sel = "dyn_select_tx_channel next_u32 R rng dr Data p"
  have sel: "?sel = Option.bind (dyn_data_loop next_u32 p ?i ?rng)
      (\<lambda>(ch, rng''). Option.bind (dyn_tx_channel R dr ch) (\<lambda>t. Some (t, rng'')))"
    by (simp add: dyn_select_tx_channel_def get_random_in_range_eq [OF R assms(2)])
  have hit: "(\<exists>n. dyn_usable p (dyn_index p (rng_draw next_u32 n rng))) \<longleftrightarrow>
      dyn_usable p ?i \<or> (\<exists>n. dyn_usable p (dyn_index p (rng_draw next_u32 n ?rng)))" (is "?hit \<longleftrightarrow> ?hit'")
    by (metis rng_draw_simps not0_implies_Suc)
  show ?thesis
  proof (cases ?hit')
    case True
    from dyn_data_loop_returns [OF R assms(2) dyn_index_less True]
    obtain i rng' where i: "i < 16" "dyn_usable p i"
      "dyn_data_loop next_u32 p ?i ?rng = Some (the (dp_channels p ! i), rng')" by blast
    then obtain c where c: "dp_channels p ! i = Some c" by (auto simp: dyn_usable_def)
    show ?thesis using True i c hit assms(3) unfolding sel
      by (auto simp: dyn_tx_channel_def dyn_usable_def)
  next
    case False
    have "dyn_data_loop next_u32 p ?i ?rng = None"
    proof (cases "dyn_data_loop next_u32 p ?i ?rng")
      case (Some r)
      then show ?thesis using dyn_data_loop_Some [OF R assms(2) dyn_index_less Some] False by simp
    qed simp
    then show ?thesis using False hit unfolding sel by simp
  qed
qed

text \<open>C27. The channel of a data uplink: the sampling loop returns exactly when the random stream
  ever draws an enabled and defined channel (so never, when the mask leaves none), and then the frame goes
  out on the frequencies of such a channel, at the data rate asked for.\<close>

theorem select_data_channel:
  assumes "R \<in> set dynamic_regions" "dyn_ok R p" "datarate_unwrap R dr = Some d"
  shows "(dyn_select_tx_channel next_u32 R rng dr Data p \<noteq> None) =
      (\<exists>n. dyn_usable p (dyn_index p (rng_draw next_u32 n rng))) \<and>
    (\<forall>t rng'. dyn_select_tx_channel next_u32 R rng dr Data p = Some (t, rng') \<longrightarrow>
      (\<exists>i c. i < 16 \<and> mask_on (dp_mask p) i \<and> dp_channels p ! i = Some c \<and>
        t = \<lparr>txc_datarate = d, txc_dr = dr, txc_frequency = ch_ul_frequency c, txc_rx1_frequency = ch_rx1_frequency c\<rparr>))"
  using assms by (rule dyn_select_data_iff)

theorem select_data_channel_witness:
  "dyn_select_tx_channel (\<lambda>n. (n, n + 1)) eu868_region 0 DR0 Data (dyn_new eu868_region eu868_freq_check) \<noteq> None"
proof -
  let ?p = "dyn_new eu868_region eu868_freq_check"
  have d: "datarate_unwrap eu868_region DR0 = Some (the (cr_datarates eu868_region ! 0))"
    by (simp add: datarate_unwrap_def idx_def region_defs table_defs)
  have "dyn_usable ?p (dyn_index ?p (rng_draw (\<lambda>n. (n, n + 1)) 0 (0 :: u32)))"
    by (simp add: dyn_usable_def dyn_index_def dyn_new_def mask_on_def channel_mask_default_def
        region_defs eu868_init_channels_def NUM_CHANNELS_DYNAMIC_def)
  then have n: "\<exists>n. dyn_usable ?p (dyn_index ?p (rng_draw (\<lambda>n. (n, n + 1)) n (0 :: u32)))" ..
  have R: "eu868_region \<in> set dynamic_regions" by (simp add: dynamic_regions_def)
  from select_data_channel [OF R dyn_new_ok [OF R] d, of "\<lambda>n. (n, n + 1)" "0 :: u32" eu868_freq_check] n
  show ?thesis by (simp only: )
qed

lemma dyn_select_join_returns:
  assumes "R \<in> set dynamic_regions" "dyn_ok R p" "datarate_unwrap R dr = Some d"
    "unat (rng_draw next_u32 n rng) mod 4 < dyn_num_join_channels R"
  shows "\<exists>i c rng'. i < dyn_num_join_channels R \<and> dp_channels p ! i = Some c \<and>
    dyn_select_tx_channel next_u32 R rng dr Join p =
      Some (\<lparr>txc_datarate = d, txc_dr = dr, txc_frequency = ch_ul_frequency c,
             txc_rx1_frequency = ch_rx1_frequency c\<rparr>, rng')"
proof -
  have R: "dyn_region_ok R" by (rule dynamic_regions_ok [OF assms(1)])
  have j: "i < dyn_num_join_channels R \<Longrightarrow> i < 16 \<and> (\<exists>c. dp_channels p ! i = Some c)" for i
    using R assms(2) by (auto simp: dyn_region_ok_def dyn_ok_def)
  obtain v rng1 where v: "next_u32 rng = (v, rng1)" by fastforce
  have u: "unat (v AND 3) = unat v mod 4" using unat_and_mask [of v 2] by (simp add: mask_eq_exp_minus_1)
  have "\<exists>r. dyn_join_loop next_u32 R (unat v mod 4) rng1 = Some r"
    using dyn_join_loop_returns [of "unat v mod 4" R next_u32 "n - 1" rng1] assms(4) v by (cases n) simp_all
  then obtain i rng2 where i: "dyn_join_loop next_u32 R (unat v mod 4) rng1 = Some (i, rng2)" by force
  then have "i < dyn_num_join_channels R" using dyn_join_loop_Some by fastforce
  moreover from this obtain c where "dp_channels p ! i = Some c" "i < 16" using j by blast
  ultimately show ?thesis using i v u assms(2,3)
    by (auto simp: dyn_select_tx_channel_def dyn_tx_channel_def dyn_ok_def)
qed

text \<open>The channel of a join request: the sampling loop returns exactly when the random stream ever
  draws a join channel, and the frame goes out on the frequencies of a join channel.\<close>

theorem select_join_channel:
  assumes "R \<in> set dynamic_regions" "dyn_ok R p" "datarate_unwrap R dr = Some d"
    "unat (rng_draw next_u32 n rng) mod 4 < dyn_num_join_channels R"
  shows "\<exists>i c rng'. i < dyn_num_join_channels R \<and> dp_channels p ! i = Some c \<and>
    dyn_select_tx_channel next_u32 R rng dr Join p =
      Some (\<lparr>txc_datarate = d, txc_dr = dr, txc_frequency = ch_ul_frequency c,
             txc_rx1_frequency = ch_rx1_frequency c\<rparr>, rng')"
  using assms by (rule dyn_select_join_returns)

theorem select_join_channel_witness:
  "\<exists>r. dyn_select_tx_channel (\<lambda>n. (n, n + 1)) eu868_region 3 DR0 Join (dyn_new eu868_region eu868_freq_check) = Some r"
proof -
  have d: "datarate_unwrap eu868_region DR0 = Some (the (cr_datarates eu868_region ! 0))"
    by (simp add: datarate_unwrap_def idx_def region_defs table_defs)
  have n: "unat (rng_draw (\<lambda>n. (n, n + 1)) 1 (3 :: u32)) mod 4 < dyn_num_join_channels eu868_region"
    by (simp add: region_defs)
  have R: "eu868_region \<in> set dynamic_regions" by (simp add: dynamic_regions_def)
  from select_join_channel [OF R dyn_new_ok [OF R] d n] show ?thesis by blast
qed

end
