(* ===== verification/JoinChannels.thy ===== *)
theory JoinChannels
  imports DynamicPlan
begin

text \<open>
  \<open>lorawan-device/src/region/fixed_channel_plans/join_channels.rs\<close>: the channels that the
  join requests of US915 and AU915 use: an optional bias towards one subband, then a walk through
  the nine banks that uses no channel twice before all 72 were used. A \<open>usize\<close> counter is a \<open>nat\<close>.
\<close>

datatype subband = Sb1 | Sb2 | Sb3 | Sb4 | Sb5 | Sb6 | Sb7 | Sb8

fun subband_usize :: "subband \<Rightarrow> nat" where
  "subband_usize Sb1 = 1" | "subband_usize Sb2 = 2" | "subband_usize Sb3 = 3" | "subband_usize Sb4 = 4"
| "subband_usize Sb5 = 5" | "subband_usize Sb6 = 6" | "subband_usize Sb7 = 7" | "subband_usize Sb8 = 8"

lemma subband_usize_bounds: "1 \<le> subband_usize s \<and> subband_usize s \<le> 8"
  by (cases s) simp_all

section \<open>The channels not yet used\<close>

record available_channels =
  ac_data :: channel_mask
  ac_previous :: "u8 option"

definition ac_default :: available_channels where
  "ac_default = \<lparr>ac_data = channel_mask_default 9, ac_previous = None\<rparr>"

definition ac_is_exhausted :: "available_channels \<Rightarrow> bool" where
  "ac_is_exhausted a = (\<forall>b \<in> set (ac_data a). b = 0)"

definition ac_reset :: "available_channels \<Rightarrow> available_channels" where
  "ac_reset a = a\<lparr>ac_data := channel_mask_default 9, ac_previous := None\<rparr>"

text \<open>The loop of \<open>get_next_channel_inner\<close>; a run that never finds a channel is \<open>None\<close>.\<close>

partial_function (option) ac_inner_loop ::
  "('r \<Rightarrow> u32 \<times> 'r) \<Rightarrow> channel_mask \<Rightarrow> u8 \<Rightarrow> u8 \<Rightarrow> u32 \<Rightarrow> nat \<Rightarrow> 'r \<Rightarrow> (u8 \<times> 'r) option" where
  "ac_inner_loop next_u32 m bank channel entropy used rng =
     Option.bind (unwrap_ok (is_enabled m (unat channel))) (\<lambda>e.
       if e then Some (channel, rng)
       else case (if used = 10 then (case next_u32 rng of (v, rng') \<Rightarrow> (v, 0, rng')) else (entropy, used, rng)) of
         (entropy', used', rng') \<Rightarrow>
           ac_inner_loop next_u32 m bank (ucast (drop_bit 3 entropy' AND 0b111) + bank * 8)
             (drop_bit 3 entropy') (used' + 1) rng')"

definition ac_get_next_channel_inner ::
  "('r \<Rightarrow> u32 \<times> 'r) \<Rightarrow> available_channels \<Rightarrow> 'r \<Rightarrow> (u8 \<times> 'r) run" where
  "ac_get_next_channel_inner next_u32 a rng = (case ac_previous a of
      Some previous \<Rightarrow> do {
        let nxt = (previous + 8) mod 72;
        e \<leftarrow> unwrap_ok (is_enabled (ac_data a) (unat nxt));
        if e then Some (nxt, rng)
        else
          let bank = nxt div 8; (entropy, rng') = next_u32 rng in
          ac_inner_loop next_u32 (ac_data a) bank (ucast (entropy AND 0b111) + bank * 8) entropy 1 rng'}
    | None \<Rightarrow> let (v, rng') = next_u32 rng in Some (ucast v AND 0b111111, rng'))"

definition ac_get_next ::
  "('r \<Rightarrow> u32 \<times> 'r) \<Rightarrow> available_channels \<Rightarrow> 'r \<Rightarrow> (u8 \<times> available_channels \<times> 'r) run" where
  "ac_get_next next_u32 a rng = do {
     let a0 = (if ac_is_exhausted a then ac_reset a else a);
     (channel, rng') \<leftarrow> ac_get_next_channel_inner next_u32 a0 rng;
     m \<leftarrow> set_channel (ac_data a0) (unat channel) False;
     Some (channel, a0\<lparr>ac_data := m, ac_previous := Some channel\<rparr>, rng')}"

section \<open>Join attempts\<close>

record join_channels =
  jc_max_retries :: nat
  jc_num_retries :: nat
  jc_preferred_subband :: "subband option"
  jc_available_channels :: available_channels
  jc_previous_channel :: u8

definition jc_default :: join_channels where
  "jc_default = \<lparr>jc_max_retries = 0, jc_num_retries = 0, jc_preferred_subband = None,
     jc_available_channels = ac_default, jc_previous_channel = 0\<rparr>"

definition jc_has_bias_and_not_exhausted :: "join_channels \<Rightarrow> bool" where
  "jc_has_bias_and_not_exhausted j =
     (jc_preferred_subband j \<noteq> None \<and> jc_num_retries j < jc_max_retries j \<and> jc_num_retries j \<noteq> 0)"

definition jc_set_join_bias :: "subband \<Rightarrow> nat \<Rightarrow> join_channels \<Rightarrow> join_channels" where
  "jc_set_join_bias sb max_retries j =
     j\<lparr>jc_preferred_subband := Some sb, jc_max_retries := max_retries\<rparr>"

definition jc_clear_join_bias :: "join_channels \<Rightarrow> join_channels" where
  "jc_clear_join_bias j = j\<lparr>jc_preferred_subband := None, jc_max_retries := 0\<rparr>"

definition jc_reset :: "join_channels \<Rightarrow> join_channels" where
  "jc_reset j = j\<lparr>jc_num_retries := 0, jc_available_channels := ac_default\<rparr>"

definition jc_first_data_channel ::
  "('r \<Rightarrow> u32 \<times> 'r) \<Rightarrow> join_channels \<Rightarrow> 'r \<Rightarrow> u8 option \<times> join_channels \<times> 'r" where
  "jc_first_data_channel next_u32 j rng =
     (if jc_preferred_subband j \<noteq> None \<and> jc_num_retries j \<noteq> 0 then
        let j' = jc_clear_join_bias j;
            sb = (if jc_previous_channel j' < 64 then jc_previous_channel j' div 8
                  else jc_previous_channel j' mod 8);
            (v, rng') = next_u32 rng
        in (Some (ucast (v AND 0b111) + sb * 8), j', rng')
      else (None, j, rng))"

definition jc_get_next_channel ::
  "('r \<Rightarrow> u32 \<times> 'r) \<Rightarrow> join_channels \<Rightarrow> 'r \<Rightarrow> (u8 \<times> join_channels \<times> 'r) run" where
  "jc_get_next_channel next_u32 j rng = (case (jc_preferred_subband j, jc_num_retries j < jc_max_retries j) of
      (Some sb, True) \<Rightarrow> do {
        let j1 = j\<lparr>jc_num_retries := jc_num_retries j + 1\<rparr>;
        let (v, rng') = next_u32 rng;
        let channel = ucast (v mod 8) + of_nat (subband_usize sb - 1) * 8;
        j2 \<leftarrow> (if jc_num_retries j1 = jc_max_retries j1 then do {
                 m \<leftarrow> set_channel (ac_data (jc_available_channels j1)) (unat channel) False;
                 Some (j1\<lparr>jc_available_channels := \<lparr>ac_data = m, ac_previous = Some channel\<rparr>\<rparr>)}
               else Some j1);
        Some (channel, j2\<lparr>jc_previous_channel := channel\<rparr>, rng')}
    | _ \<Rightarrow> do {
        let j1 = j\<lparr>jc_num_retries := jc_num_retries j + 1\<rparr>;
        (channel, a, rng') \<leftarrow> ac_get_next next_u32 (jc_available_channels j1) rng;
        Some (channel, j1\<lparr>jc_available_channels := a\<rparr>, rng')})"

section \<open>The walk through the banks\<close>

text \<open>The channels of a bank that are still available; the bank after \<open>q\<close>; the distance from bank
  \<open>s\<close> to bank \<open>b\<close> going up; and how often bank \<open>b\<close> was visited by a walk that began in bank \<open>s\<close>,
  made \<open>k\<close> full rounds and is now in bank \<open>q\<close>.\<close>

definition free_in :: "channel_mask \<Rightarrow> nat \<Rightarrow> nat set" where
  "free_in m b = {c. mask_on m c \<and> c div 8 = b}"

definition next_bank :: "nat \<Rightarrow> nat" where
  "next_bank q = (if q = 8 then 0 else q + 1)"

definition dist :: "nat \<Rightarrow> nat \<Rightarrow> nat" where
  "dist s b = (if s \<le> b then b - s else b + 9 - s)"

definition visits :: "nat \<Rightarrow> nat \<Rightarrow> nat \<Rightarrow> nat \<Rightarrow> nat" where
  "visits s k q b = k + (if dist s b \<le> dist s q then 1 else 0)"

lemma dist_less: "s < 9 \<Longrightarrow> b < 9 \<Longrightarrow> dist s b < 9"
  by (simp add: dist_def; arith)

lemma dist_self [simp]: "dist s s = 0"
  by (simp add: dist_def)

lemma dist_inj: "s < 9 \<Longrightarrow> b < 9 \<Longrightarrow> c < 9 \<Longrightarrow> dist s b = dist s c \<longleftrightarrow> b = c"
  unfolding dist_def by (cases "s \<le> b"; cases "s \<le> c"; simp; arith)

lemma dist_next:
  "s < 9 \<Longrightarrow> q < 9 \<Longrightarrow> next_bank q \<noteq> s \<Longrightarrow> dist s (next_bank q) = dist s q + 1"
  "s < 9 \<Longrightarrow> q < 9 \<Longrightarrow> next_bank q = s \<Longrightarrow> dist s q = 8"
  unfolding dist_def next_bank_def
  by (cases "q = 8"; cases "s \<le> q"; simp; arith)+

lemma visits_next:
  "s < 9 \<Longrightarrow> q < 9 \<Longrightarrow> visits s k q (next_bank q) = (if next_bank q = s then k + 1 else k)"
  using dist_next [of s q] by (cases "next_bank q = s") (simp_all add: visits_def)

lemma visits_full: "s < 9 \<Longrightarrow> q < 9 \<Longrightarrow> b < 9 \<Longrightarrow> next_bank q = s \<Longrightarrow> visits s k q b = k + 1"
  using dist_next(2) [of s q] dist_less [of s b] by (simp add: visits_def)

lemma visits_step:
  assumes "s < 9" "q < 9" "b < 9"
  shows "visits s (if next_bank q = s then k + 1 else k) (next_bank q) b =
    visits s k q b + (if b = next_bank q then 1 else 0)"
proof (cases "next_bank q = s")
  case True
  have "dist s b = 0 \<longleftrightarrow> b = s" using dist_inj [of s b s] assms by simp
  then show ?thesis using True visits_full [OF assms True, of k] by (simp add: visits_def)
next
  case False
  have nb: "next_bank q < 9" using assms(2) by (simp add: next_bank_def)
  have d: "dist s (next_bank q) = dist s q + 1" by (rule dist_next(1) [OF assms(1,2) False])
  have "dist s b = dist s (next_bank q) \<longleftrightarrow> b = next_bank q" by (rule dist_inj [OF assms(1,3) nb])
  then show ?thesis using False d by (auto simp: visits_def)
qed

lemma visits_start: "s < 9 \<Longrightarrow> b < 9 \<Longrightarrow> visits s 0 s b = (if b = s then 1 else 0)"
  using dist_inj [of s b s] by (simp add: visits_def)

definition ac_ok :: "available_channels \<Rightarrow> bool" where
  "ac_ok a \<longleftrightarrow> length (ac_data a) = 9 \<and>
    (case ac_previous a of
       None \<Rightarrow> \<forall>c < 72. mask_on (ac_data a) c
     | Some p \<Rightarrow> unat p < 72 \<and> (\<exists>s < 9. \<exists>k \<le> 7. \<forall>b < 9.
         card (free_in (ac_data a) b) = 8 - visits s k (unat p div 8) b))"

lemma free_in_subset: "free_in m b \<subseteq> {8 * b..<8 * b + 8}"
  by (auto simp: free_in_def)

lemma finite_free_in [simp]: "finite (free_in m b)"
  using free_in_subset finite_subset by blast

lemma free_in_all: "\<forall>c < 72. mask_on m c \<Longrightarrow> b < 9 \<Longrightarrow> free_in m b = {8 * b..<8 * b + 8}"
  by (auto simp: free_in_def)

lemma mask_default_on: "mask_on (channel_mask_default 9) c \<longleftrightarrow> c < 72"
  using bit_0xff [of "c mod 8"] by (auto simp: channel_mask_default_def mask_on_def div_less_iff_less_mult)

lemma ac_default_ok: "ac_ok ac_default" "ac_ok (ac_reset a)"
  by (simp_all add: ac_ok_def ac_default_def ac_reset_def mask_default_on) (simp_all add: channel_mask_default_def)

lemma ac_is_exhausted_iff: "ac_is_exhausted a \<longleftrightarrow> (\<forall>c. \<not> mask_on (ac_data a) c)"
proof
  assume e: "ac_is_exhausted a"
  then show "\<forall>c. \<not> mask_on (ac_data a) c" unfolding ac_is_exhausted_def mask_on_def by (metis bit_0_eq bot_apply bot_bool_def nth_mem)
next
  assume n: "\<forall>c. \<not> mask_on (ac_data a) c"
  have "ac_data a ! i = 0" if "i < length (ac_data a)" for i
  proof (rule bit_word_eqI)
    fix j :: nat
    assume "j < LENGTH(8)"
    then show "bit (ac_data a ! i) j \<longleftrightarrow> bit (0 :: u8) j"
      using n [rule_format, of "8 * i + j"] that by (simp add: mask_on_def)
  qed
  then show "ac_is_exhausted a" by (auto simp: ac_is_exhausted_def in_set_conv_nth)
qed

lemma unat_next:
  assumes "unat (p :: u8) < 72"
  shows "unat ((p + 8) mod 72) = (unat p + 8) mod 72" "unat ((p + 8) mod 72) div 8 = next_bank (unat p div 8)"
proof -
  have "unat (p + 8) = unat p + 8" using assms by (simp add: unat_word_ariths)
  then show n: "unat ((p + 8) mod 72) = (unat p + 8) mod 72" by (simp add: unat_mod)
  show "unat ((p + 8) mod 72) div 8 = next_bank (unat p div 8)"
  proof (cases "unat p < 64")
    case True
    then have "(unat p + 8) mod 72 = unat p + 8" "unat p div 8 \<noteq> 8" by simp_all
    then show ?thesis unfolding n by (simp add: next_bank_def)
  next
    case False
    then have "(unat p + 8) mod 72 = unat p - 64" using assms by (simp add: mod_if)
    moreover have "unat p div 8 = 8" using False assms by simp
    moreover have "(unat p - 64) div 8 = 0" using assms by simp
    ultimately show ?thesis unfolding n by (simp add: next_bank_def)
  qed
qed

text \<open>The bank that a walk visits next always has a channel left.\<close>

lemma ac_next_free:
  assumes "ac_ok a" "ac_previous a = Some p" "\<not> ac_is_exhausted a"
  shows "free_in (ac_data a) (next_bank (unat p div 8)) \<noteq> {}"
proof
  assume e: "free_in (ac_data a) (next_bank (unat p div 8)) = {}"
  let ?q = "unat p div 8"
  obtain s k where p: "unat p < 72" and s: "s < 9" "k \<le> 7"
    and c: "\<forall>b < 9. card (free_in (ac_data a) b) = 8 - visits s k ?q b"
    using assms by (auto simp: ac_ok_def)
  have q: "?q < 9" using p by (simp add: div_less_iff_less_mult)
  then have nb: "next_bank ?q < 9" by (simp add: next_bank_def)
  have "8 \<le> visits s k ?q (next_bank ?q)" using c nb e by auto
  then have w: "next_bank ?q = s" "k = 7" using s visits_next [OF s(1) q, of k] by (auto split: if_splits)
  obtain x where x: "mask_on (ac_data a) x" using assms(3) by (auto simp: ac_is_exhausted_iff)
  then have "x div 8 < 9" using assms(1) by (simp add: mask_on_def ac_ok_def)
  then have "card (free_in (ac_data a) (x div 8)) = 0" using c visits_full [OF s(1) q _ w(1)] w(2) by simp
  then have "free_in (ac_data a) (x div 8) = {}" by simp
  then show False using x by (auto simp: free_in_def)
qed

lemma ac_ok_use:
  assumes ok: "ac_ok a" and c: "unat c < 72" and on: "mask_on (ac_data a) (unat c)"
    and bank: "\<forall>p. ac_previous a = Some p \<longrightarrow> unat c div 8 = next_bank (unat p div 8)"
    and ne: "\<not> ac_is_exhausted a"
    and m: "length m = 9" "\<forall>d. mask_on m d = (if d = unat c then False else mask_on (ac_data a) d)"
  shows "ac_ok (a\<lparr>ac_data := m, ac_previous := Some c\<rparr>)"
proof -
  let ?b = "unat c div 8"
  have b: "?b < 9" using c by (simp add: div_less_iff_less_mult)
  have fr: "free_in m d = free_in (ac_data a) d - (if d = ?b then {unat c} else {})" for d
    using m(2) by (auto simp: free_in_def)
  have card: "card (free_in m d) = card (free_in (ac_data a) d) - (if d = ?b then 1 else 0)" for d
    using on unfolding fr by (auto simp: free_in_def intro!: card_Diff_singleton)
  show ?thesis
  proof (cases "ac_previous a")
    case None
    then have "\<forall>d < 9. card (free_in (ac_data a) d) = 8"
      using ok by (simp add: ac_ok_def free_in_all)
    then have "\<forall>d < 9. card (free_in m d) = 8 - visits ?b 0 ?b d"
      using b by (simp add: card visits_start)
    then have "\<exists>s < 9. \<exists>k \<le> 7. \<forall>d < 9. card (free_in m d) = 8 - visits s k ?b d" using b by blast
    then show ?thesis using m(1) c by (simp add: ac_ok_def)
  next
    case (Some p)
    let ?q = "unat p div 8"
    obtain s k where p: "unat p < 72" and s: "s < 9" "k \<le> 7"
      and cd: "\<forall>b < 9. card (free_in (ac_data a) b) = 8 - visits s k ?q b"
      using ok Some by (auto simp: ac_ok_def)
    have q: "?q < 9" using p by (simp add: div_less_iff_less_mult)
    have nb: "?b = next_bank ?q" using bank Some by simp
    define k' where "k' = (if next_bank ?q = s then k + 1 else k)"
    have "unat c \<in> free_in (ac_data a) ?b" using on by (simp add: free_in_def)
    then have "0 < card (free_in (ac_data a) ?b)" by (auto simp: card_gt_0_iff)
    then have "visits s k ?q ?b < 8" using cd b by simp
    then have k': "k' \<le> 7" using visits_next [OF s(1) q, of k] nb by (auto simp: k'_def)
    have "card (free_in m d) = 8 - visits s k' ?b d" if "d < 9" for d
      using cd that visits_step [OF s(1) q that, of k] by (simp add: card k'_def nb)
    then have "\<exists>s < 9. \<exists>k \<le> 7. \<forall>d < 9. card (free_in m d) = 8 - visits s k ?b d" using s(1) k' by blast
    then show ?thesis using m(1) c by (simp add: ac_ok_def)
  qed
qed

section \<open>The random channel of a bank\<close>

text \<open>The entropy of the loop: three bits at a time, a fresh word after ten uses.\<close>

fun ent_step :: "('r \<Rightarrow> u32 \<times> 'r) \<Rightarrow> u32 \<times> nat \<times> 'r \<Rightarrow> u32 \<times> nat \<times> 'r" where
  "ent_step next_u32 (e, used, rng) =
     (if used = 10 then (case next_u32 rng of (v, rng') \<Rightarrow> (drop_bit 3 v, 1, rng'))
      else (drop_bit 3 e, used + 1, rng))"

definition ent_digit :: "('r \<Rightarrow> u32 \<times> 'r) \<Rightarrow> nat \<Rightarrow> u32 \<times> nat \<times> 'r \<Rightarrow> nat" where
  "ent_digit next_u32 n st = unat (fst ((ent_step next_u32 ^^ n) st)) mod 8"

lemma ent_digit_first:
  assumes "n < 10"
  shows "ent_digit next_u32 n (e, 1, rng) = unat e div 2 ^ (3 * n) mod 8"
proof -
  have "(ent_step next_u32 ^^ n) (e, 1, rng) = (drop_bit (3 * n) e, Suc n, rng)"
    using assms by (induction n) simp_all
  moreover have "unat (drop_bit (3 * n) e) = unat e div 2 ^ (3 * n)"
    unfolding unat_drop_bit_eq by (rule drop_bit_eq_div)
  ultimately show ?thesis by (simp only: ent_digit_def fst_conv)
qed

definition bank_channel :: "u8 \<Rightarrow> u32 \<Rightarrow> u8" where
  "bank_channel bank e = ucast (e AND 0b111) + bank * 8"

lemma unat_low3: "unat (ucast (e AND 0b111 :: u32) :: u8) = unat e mod 8"
proof -
  have "unat (e AND 0b111) = unat e mod 8" using unat_and_mask [of e 3] by (simp add: mask_eq_exp_minus_1)
  moreover have "unat e mod 8 < 2 ^ 8" by (rule less_le_trans [of _ 8]) simp_all
  ultimately show ?thesis by (simp add: unsigned_ucast_eq take_bit_nat_eq_self)
qed

lemma unat_bank_channel:
  assumes "unat bank < 9"
  shows "unat (bank_channel bank e) = 8 * unat bank + unat e mod 8"
proof -
  have "unat e mod 8 < 8" by simp
  then have "8 * unat bank + unat e mod 8 < 256" using assms by linarith
  moreover have "unat (bank * 8) = unat bank * unat (8 :: u8)"
    by (rule unat_mult_lem [THEN iffD1]) (use assms in simp)
  moreover have "unat (8 :: u8) = 8" by simp
  ultimately have "unat (ucast (e AND 0b111) :: u8) + unat (bank * 8) < 2 ^ LENGTH(8)"
    by (simp add: unat_low3 mult.commute)
  then have "unat (bank_channel bank e) = unat (ucast (e AND 0b111) :: u8) + unat (bank * 8)"
    unfolding bank_channel_def by (rule unat_add_lem [THEN iffD1])
  then show ?thesis using \<open>unat (bank * 8) = _\<close> \<open>unat (8 :: u8) = 8\<close> by (simp add: unat_low3)
qed

lemma bank_channel_range:
  assumes "unat bank < 9"
  shows "unat (bank_channel bank e) < 72" "unat (bank_channel bank e) div 8 = unat bank"
proof -
  have "unat e mod 8 < 8" by simp
  then show "unat (bank_channel bank e) < 72" using assms unfolding unat_bank_channel [OF assms] by linarith
  show "unat (bank_channel bank e) div 8 = unat bank" unfolding unat_bank_channel [OF assms] by simp
qed

lemma ac_inner_loop_unfold:
  assumes "unat bank < 9" "length m = 9"
  shows "ac_inner_loop next_u32 m bank (bank_channel bank e) e used rng =
    (if mask_on m (unat (bank_channel bank e)) then Some (bank_channel bank e, rng)
     else case ent_step next_u32 (e, used, rng) of
       (e', used', rng') \<Rightarrow> ac_inner_loop next_u32 m bank (bank_channel bank e') e' used' rng')"
proof -
  have "is_enabled m (unat (bank_channel bank e)) = Some (Inr (mask_on m (unat (bank_channel bank e))))"
    using bank_channel_range(1) [OF assms(1), of e] assms(2) by (simp add: is_enabled_eq)
  then show ?thesis
    by (subst ac_inner_loop.simps) (auto simp: bank_channel_def split: prod.splits)
qed

lemma ac_inner_loop_returns:
  assumes "unat bank < 9" "length m = 9"
    "mask_on m (8 * unat bank + ent_digit next_u32 n (e, used, rng))"
  shows "\<exists>r. ac_inner_loop next_u32 m bank (bank_channel bank e) e used rng = Some r"
  using assms(3)
proof (induction n arbitrary: e used rng)
  case 0
  then show ?case
    by (simp add: ac_inner_loop_unfold [OF assms(1,2)] unat_bank_channel [OF assms(1)] ent_digit_def)
next
  case (Suc n)
  obtain e' used' rng' where st: "ent_step next_u32 (e, used, rng) = (e', used', rng')" by (rule prod_cases3)
  then have "mask_on m (8 * unat bank + ent_digit next_u32 n (e', used', rng'))"
    using Suc.prems by (simp add: ent_digit_def funpow_Suc_right del: funpow.simps ent_step.simps)
  from Suc.IH [OF this] show ?case
    by (simp add: ac_inner_loop_unfold [OF assms(1,2)] st del: ent_step.simps)
qed

lemma ac_inner_loop_Some:
  assumes "ac_inner_loop next_u32 m bank channel e used rng = Some r"
    "unat bank < 9" "length m = 9" "channel = bank_channel bank e"
  shows "mask_on m (unat (fst r)) \<and> unat (fst r) div 8 = unat bank \<and> unat (fst r) < 72"
proof -
  let ?P = "\<lambda>_ m bank channel e _ _ r. unat bank < 9 \<longrightarrow> length m = 9 \<longrightarrow> channel = bank_channel bank e \<longrightarrow>
    mask_on m (unat (fst r)) \<and> unat (fst r) div 8 = unat bank \<and> unat (fst r) < 72"
  have "?P next_u32 m bank channel e used rng r"
    using assms(1)
  proof (rule ac_inner_loop.raw_induct [where P = ?P, rotated], intro impI)
    fix f :: "('a \<Rightarrow> u32 \<times> 'a) \<Rightarrow> channel_mask \<Rightarrow> u8 \<Rightarrow> u8 \<Rightarrow> u32 \<Rightarrow> nat \<Rightarrow> 'a \<Rightarrow> (u8 \<times> 'a) option"
      and next_u32 :: "'a \<Rightarrow> u32 \<times> 'a" and m bank channel e used rng and r :: "u8 \<times> 'a"
    assume IH: "\<And>next_u32 m bank channel e used rng r. f next_u32 m bank channel e used rng = Some r \<Longrightarrow>
      unat bank < 9 \<longrightarrow> length m = 9 \<longrightarrow> channel = bank_channel bank e \<longrightarrow>
      mask_on m (unat (fst r)) \<and> unat (fst r) div 8 = unat bank \<and> unat (fst r) < 72"
    assume step: "Option.bind (unwrap_ok (is_enabled m (unat channel))) (\<lambda>en.
       if en then Some (channel, rng)
       else case (if used = 10 then (case next_u32 rng of (v, rng') \<Rightarrow> (v, 0, rng')) else (e, used, rng)) of
         (e', used', rng') \<Rightarrow> f next_u32 m bank (ucast (drop_bit 3 e' AND 0b111) + bank * 8)
             (drop_bit 3 e') (used' + 1) rng') = Some r"
    assume b: "unat bank < 9" and l: "length m = 9" and c: "channel = bank_channel bank e"
    have en: "is_enabled m (unat channel) = Some (Inr (mask_on m (unat channel)))"
      using bank_channel_range(1) [OF b, of e] l c by (simp add: is_enabled_eq)
    show "mask_on m (unat (fst r)) \<and> unat (fst r) div 8 = unat bank \<and> unat (fst r) < 72"
    proof (cases "mask_on m (unat channel)")
      case True
      then show ?thesis using step en c bank_channel_range [OF b] by auto
    next
      case False
      then obtain e' used' rng' where "f next_u32 m bank (bank_channel bank e') e' used' rng' = Some r"
        using step en by (auto simp: bank_channel_def split: prod.splits)
      from IH [OF this] b l show ?thesis by simp
    qed
  qed
  then show ?thesis using assms by blast
qed

section \<open>One attempt\<close>

definition ac_fresh :: "available_channels \<Rightarrow> available_channels" where
  "ac_fresh a = (if ac_is_exhausted a then ac_reset a else a)"

lemma ac_fresh_ok: "ac_ok a \<Longrightarrow> ac_ok (ac_fresh a) \<and> \<not> ac_is_exhausted (ac_fresh a)"
  using ac_default_ok(2) [of a]
  by (auto simp: ac_fresh_def ac_is_exhausted_iff ac_reset_def mask_default_on intro: exI [of _ 0])

lemma unat_low6: "unat (ucast (v :: u32) AND 0b111111 :: u8) < 64"
proof -
  have "unat (ucast v AND 0b111111 :: u8) = unat (ucast v :: u8) mod 64"
    using unat_and_mask [of "ucast v :: u8" 6] by (simp add: mask_eq_exp_minus_1)
  then show ?thesis by simp
qed

lemma next_channel_u8:
  assumes "unat (p :: u8) < 72"
  shows "unat ((p + 8) mod 72) < 72" "unat ((p + 8) mod 72 div 8) < 9"
    "unat ((p + 8) mod 72 div 8) = next_bank (unat p div 8)"
proof -
  show l: "unat ((p + 8) mod 72) < 72" using unat_next(1) [OF assms] by simp
  have d: "unat ((p + 8) mod 72 div 8) = unat ((p + 8) mod 72) div 8" by (simp add: unat_div)
  show "unat ((p + 8) mod 72 div 8) < 9" unfolding d using l by (simp add: div_less_iff_less_mult)
  show "unat ((p + 8) mod 72 div 8) = next_bank (unat p div 8)"
    unfolding d by (rule unat_next(2) [OF assms])
qed

lemma ac_inner_Some:
  assumes "ac_ok a" "ac_get_next_channel_inner next_u32 a rng = Some (c, rng')"
  shows "unat c < 72 \<and> mask_on (ac_data a) (unat c) \<and>
    (\<forall>p. ac_previous a = Some p \<longrightarrow> unat c div 8 = next_bank (unat p div 8)) \<and>
    (ac_previous a = None \<longrightarrow> unat c < 64)"
proof (cases "ac_previous a")
  case None
  obtain v r where "next_u32 rng = (v, r)" by fastforce
  then have "unat c < 64" using assms(2) None unat_low6 [of v] by (auto simp: ac_get_next_channel_inner_def)
  then show ?thesis using assms(1) None by (simp add: ac_ok_def)
next
  case (Some p)
  then have l: "length (ac_data a) = 9" and p: "unat p < 72" using assms(1) by (auto simp: ac_ok_def)
  note n = next_channel_u8 [OF p]
  have en: "is_enabled (ac_data a) (unat ((p + 8) mod 72)) = Some (Inr (mask_on (ac_data a) (unat ((p + 8) mod 72))))"
    using n(1) l by (simp add: is_enabled_eq)
  show ?thesis
  proof (cases "mask_on (ac_data a) (unat ((p + 8) mod 72))")
    case True
    then show ?thesis using assms(2) Some en n(1) unat_next(2) [OF p]
      by (simp add: ac_get_next_channel_inner_def Let_def)
  next
    case False
    obtain v r where v: "next_u32 rng = (v, r)" by fastforce
    have "ac_inner_loop next_u32 (ac_data a) ((p + 8) mod 72 div 8) (bank_channel ((p + 8) mod 72 div 8) v) v 1 r
        = Some (c, rng')"
      using assms(2) Some False en v by (simp add: ac_get_next_channel_inner_def Let_def bank_channel_def)
    from ac_inner_loop_Some [OF this n(2) l refl] n(3) Some show ?thesis by simp
  qed
qed

lemma ac_inner_returns:
  assumes "ac_ok a" "\<not> ac_is_exhausted a" "next_u32 rng = (v, r)"
    "\<And>j. j < 8 \<Longrightarrow> \<exists>n. ent_digit next_u32 n (v, 1, r) = j"
  shows "\<exists>x. ac_get_next_channel_inner next_u32 a rng = Some x"
proof (cases "ac_previous a")
  case None
  then show ?thesis using assms(3) by (simp add: ac_get_next_channel_inner_def)
next
  case (Some p)
  then have l: "length (ac_data a) = 9" and p: "unat p < 72" using assms(1) by (auto simp: ac_ok_def)
  note n = next_channel_u8 [OF p]
  let ?b = "(p + 8) mod 72 div 8"
  have en: "is_enabled (ac_data a) (unat ((p + 8) mod 72)) = Some (Inr (mask_on (ac_data a) (unat ((p + 8) mod 72))))"
    using n(1) l by (simp add: is_enabled_eq)
  obtain x where x: "mask_on (ac_data a) x" "x div 8 = next_bank (unat p div 8)"
    using ac_next_free [OF assms(1) Some assms(2)] by (auto simp: free_in_def)
  obtain k where k: "ent_digit next_u32 k (v, 1, r) = x mod 8" using assms(4) [of "x mod 8"] by auto
  have "8 * unat ?b + x mod 8 = x" unfolding n(3) x(2) [symmetric] by simp
  then have "mask_on (ac_data a) (8 * unat ?b + ent_digit next_u32 k (v, 1, r))" using x(1) k by simp
  from ac_inner_loop_returns [OF n(2) l this]
  show ?thesis using Some en assms(3)
    by (cases "mask_on (ac_data a) (unat ((p + 8) mod 72))")
       (simp_all add: ac_get_next_channel_inner_def Let_def bank_channel_def)
qed

lemma ac_get_next_Some:
  assumes "ac_ok a" "ac_get_next next_u32 a rng = Some (c, a', rng')"
  shows "unat c < 72 \<and> mask_on (ac_data (ac_fresh a)) (unat c) \<and> ac_ok a' \<and> ac_previous a' = Some c \<and>
    (\<forall>d. mask_on (ac_data a') d \<longleftrightarrow> mask_on (ac_data (ac_fresh a)) d \<and> d \<noteq> unat c) \<and>
    (\<forall>p. ac_previous (ac_fresh a) = Some p \<longrightarrow> unat c div 8 = next_bank (unat p div 8)) \<and>
    (ac_previous (ac_fresh a) = None \<longrightarrow> unat c < 64)"
proof -
  let ?a = "ac_fresh a"
  note ok = ac_fresh_ok [OF assms(1)]
  obtain m where i: "ac_get_next_channel_inner next_u32 ?a rng = Some (c, rng')"
    and m: "set_channel (ac_data ?a) (unat c) False = Some m" "a' = ?a\<lparr>ac_data := m, ac_previous := Some c\<rparr>"
    using assms(2) by (auto simp: ac_get_next_def Let_def ac_fresh_def [symmetric] bind_eq_Some_conv)
  from ac_inner_Some [OF conjunct1 [OF ok] i]
  have c: "unat c < 72" "mask_on (ac_data ?a) (unat c)"
    "\<forall>p. ac_previous ?a = Some p \<longrightarrow> unat c div 8 = next_bank (unat p div 8)"
    "ac_previous ?a = None \<longrightarrow> unat c < 64" by simp_all
  have l: "length (ac_data ?a) = 9" using ok by (simp add: ac_ok_def)
  have m': "length m = 9" "\<forall>d. mask_on m d = (if d = unat c then False else mask_on (ac_data ?a) d)"
    using set_channel_in [of "unat c" "ac_data ?a" False] c(1) l m(1) by auto
  have "ac_ok a'" unfolding m(2)
    by (rule ac_ok_use [OF conjunct1 [OF ok] c(1,2,3) conjunct2 [OF ok] m'])
  then show ?thesis using c m(2) m' by simp
qed

lemma ac_get_next_returns:
  assumes "ac_ok a" "next_u32 rng = (v, r)" "\<And>j. j < 8 \<Longrightarrow> \<exists>n. ent_digit next_u32 n (v, 1, r) = j"
  shows "\<exists>x. ac_get_next next_u32 a rng = Some x"
proof -
  let ?a = "ac_fresh a"
  note ok = ac_fresh_ok [OF assms(1)]
  obtain c rng' where i: "ac_get_next_channel_inner next_u32 ?a rng = Some (c, rng')"
    using ac_inner_returns [OF conjunct1 [OF ok] conjunct2 [OF ok] assms(2,3)] by auto
  have "unat c < 8 * length (ac_data ?a)"
    using ac_inner_Some [OF conjunct1 [OF ok] i] ok by (simp add: ac_ok_def)
  from set_channel_in [OF this, of False]
  obtain m where "set_channel (ac_data ?a) (unat c) False = Some m" by blast
  then show ?thesis using i by (simp add: ac_get_next_def Let_def ac_fresh_def [symmetric])
qed

definition jc_ok :: "join_channels \<Rightarrow> bool" where
  "jc_ok j \<longleftrightarrow> ac_ok (jc_available_channels j) \<and> unat (jc_previous_channel j) < 72 \<and>
     (jc_preferred_subband j \<noteq> None \<and> jc_num_retries j < jc_max_retries j \<longrightarrow>
       jc_available_channels j = ac_default)"

lemma jc_init_ok: "jc_ok jc_default" "jc_ok (jc_set_join_bias sb n jc_default)"
  by (simp_all add: jc_ok_def jc_default_def jc_set_join_bias_def ac_default_ok)

lemma jc_reset_ok: "jc_ok j \<Longrightarrow> jc_ok (jc_reset j)"
  by (simp add: jc_ok_def jc_reset_def ac_default_ok)

lemma jc_clear_ok: "jc_ok j \<Longrightarrow> jc_ok (jc_clear_join_bias j)"
  by (simp add: jc_ok_def jc_clear_join_bias_def)

lemma subband_channel:
  "unat (ucast ((v :: u32) mod 8) + of_nat (subband_usize sb - 1) * 8 :: u8) < 64"
  "unat (ucast ((v :: u32) mod 8) + of_nat (subband_usize sb - 1) * 8 :: u8) div 8 = subband_usize sb - 1"
proof -
  let ?b = "of_nat (subband_usize sb - 1) :: u8"
  have b: "unat ?b = subband_usize sb - 1" "unat ?b < 8" by (cases sb; simp)+
  have "v AND mask 3 = v mod 2 ^ 3" by (simp add: take_bit_eq_mask [symmetric] take_bit_eq_mod)
  then have "v mod 8 = v AND 7" by (simp add: mask_eq_exp_minus_1)
  then have e: "ucast (v mod 8) + ?b * 8 = bank_channel ?b v" by (simp add: bank_channel_def)
  have "unat v mod 8 < 8" by simp
  then show "unat (ucast (v mod 8) + ?b * 8) < 64" using b(2) unat_bank_channel [of ?b v] unfolding e by simp
  show "unat (ucast (v mod 8) + ?b * 8) div 8 = subband_usize sb - 1"
    using bank_channel_range(2) [of ?b v] b unfolding e by simp
qed

lemma jc_biased:
  assumes "jc_ok j" "jc_preferred_subband j = Some sb" "jc_num_retries j < jc_max_retries j"
  shows "\<exists>c j' rng'. jc_get_next_channel next_u32 j rng = Some (c, j', rng') \<and> jc_ok j' \<and>
    unat c < 64 \<and> unat c div 8 = subband_usize sb - 1 \<and> jc_num_retries j' = jc_num_retries j + 1"
proof -
  obtain v r where v: "next_u32 rng = (v, r)" by fastforce
  define c where "c = (ucast (v mod 8) + of_nat (subband_usize sb - 1) * 8 :: u8)"
  have c: "unat c < 64" "unat c div 8 = subband_usize sb - 1" using subband_channel [of v sb] by (simp_all add: c_def)
  have a: "jc_available_channels j = ac_default" using assms by (simp add: jc_ok_def)
  have l: "length (ac_data ac_default) = 9" by (simp add: ac_default_def channel_mask_default_def)
  have on: "mask_on (ac_data ac_default) d \<longleftrightarrow> d < 72" for d by (simp add: ac_default_def mask_default_on)
  obtain m where m: "set_channel (ac_data ac_default) (unat c) False = Some m" "length m = 9"
    "\<forall>d. mask_on m d = (if d = unat c then False else mask_on (ac_data ac_default) d)"
    using set_channel_in [of "unat c" "ac_data ac_default" False] c l by auto
  have ne: "\<not> ac_is_exhausted ac_default" using on [of 0] by (auto simp: ac_is_exhausted_iff)
  have "ac_ok (ac_default\<lparr>ac_data := m, ac_previous := Some c\<rparr>)"
    by (rule ac_ok_use [OF ac_default_ok(1) _ _ _ ne m(2,3)]) (use c on in \<open>simp_all add: ac_default_def\<close>)
  then have ok: "ac_ok \<lparr>ac_data = m, ac_previous = Some c\<rparr>" by (simp add: ac_default_def)
  show ?thesis
    using assms v a m(1) ok c ac_default_ok(1)
    by (cases "jc_num_retries j + 1 = jc_max_retries j")
       (simp_all add: jc_get_next_channel_def Let_def c_def [symmetric] jc_ok_def del: One_nat_def)
qed

text \<open>The walk of \<open>get_next\<close>, used when there is no bias or its retries are spent.\<close>

lemma jc_walk_eq:
  assumes "jc_preferred_subband j = None \<or> jc_max_retries j \<le> jc_num_retries j"
  shows "jc_get_next_channel next_u32 j rng = Option.bind (ac_get_next next_u32 (jc_available_channels j) rng)
    (\<lambda>(c, a, rng'). Some (c, j\<lparr>jc_num_retries := jc_num_retries j + 1, jc_available_channels := a\<rparr>, rng'))"
  using assms by (auto simp: jc_get_next_channel_def Let_def not_le split: option.splits)

lemma jc_walk_ok:
  assumes "jc_ok j" "jc_preferred_subband j = None \<or> jc_max_retries j \<le> jc_num_retries j"
    "jc_get_next_channel next_u32 j rng = Some (c, j', rng')"
  shows "jc_ok j'" "unat c < 72"
    "jc_previous_channel j' = jc_previous_channel j" "jc_num_retries j' = jc_num_retries j + 1"
proof -
  obtain a where a: "ac_get_next next_u32 (jc_available_channels j) rng = Some (c, a, rng')"
    "j' = j\<lparr>jc_num_retries := jc_num_retries j + 1, jc_available_channels := a\<rparr>"
    using assms(3) unfolding jc_walk_eq [OF assms(2)] by (auto simp: bind_eq_Some_conv)
  have "ac_ok (jc_available_channels j)" using assms(1) by (simp add: jc_ok_def)
  note s = ac_get_next_Some [OF this a(1)]
  show "jc_ok j'" "unat c < 72" "jc_previous_channel j' = jc_previous_channel j"
    "jc_num_retries j' = jc_num_retries j + 1"
    using s assms(1,2) a(2) by (auto simp: jc_ok_def)
qed

lemma jc_get_next_ok:
  assumes "jc_ok j" "jc_get_next_channel next_u32 j rng = Some (c, j', rng')"
  shows "jc_ok j' \<and> unat c < 72"
proof (cases "jc_preferred_subband j = None \<or> jc_max_retries j \<le> jc_num_retries j")
  case True
  from jc_walk_ok [OF assms(1) True assms(2)] show ?thesis by simp
next
  case False
  then obtain sb where "jc_preferred_subband j = Some sb" "jc_num_retries j < jc_max_retries j" by auto
  from jc_biased [OF assms(1) this, of next_u32 rng] assms(2) show ?thesis by auto
qed

lemma jc_first_data_channel_ok:
  assumes "jc_ok j" "jc_first_data_channel next_u32 j rng = (c, j', rng')"
  shows "jc_ok j'" "\<forall>x. c = Some x \<longrightarrow> unat x < 72 \<and>
     (unat (jc_previous_channel j) < 64 \<longrightarrow> unat x div 8 = unat (jc_previous_channel j) div 8)"
proof -
  obtain v r where v: "next_u32 rng = (v, r)" by fastforce
  let ?p = "jc_previous_channel j"
  define b where "b = (if ?p < 64 then ?p div 8 else ?p mod 8)"
  have b: "unat b < 8" "unat ?p < 64 \<longrightarrow> unat b = unat ?p div 8"
    by (auto simp: b_def unat_div unat_mod word_less_nat_alt div_less_iff_less_mult)
  have e: "ucast (v AND 0b111) + b * 8 = bank_channel b v" by (simp add: bank_channel_def)
  show "jc_ok j'" using assms jc_clear_ok [OF assms(1)] v
    by (auto simp: jc_first_data_channel_def Let_def split: if_splits)
  show "\<forall>x. c = Some x \<longrightarrow> unat x < 72 \<and>
     (unat ?p < 64 \<longrightarrow> unat x div 8 = unat ?p div 8)"
  proof (intro allI impI)
    fix x
    assume "c = Some x"
    then have "x = bank_channel b v" using assms(2) v
      by (auto simp: jc_first_data_channel_def Let_def jc_clear_join_bias_def b_def bank_channel_def split: if_splits)
    then show "unat x < 72 \<and> (unat ?p < 64 \<longrightarrow> unat x div 8 = unat ?p div 8)"
      using bank_channel_range [of b v] b by simp
  qed
qed

lemma jc_default_first: "\<exists>j'. jc_get_next_channel (\<lambda>n. (n, n + 1)) jc_default (5 :: u32) = Some (5, j', 6)"
proof -
  have a: "ac_fresh ac_default = ac_default"
    using mask_default_on [of 0] by (auto simp: ac_fresh_def ac_is_exhausted_iff ac_default_def)
  show ?thesis
    by (simp add: jc_walk_eq jc_default_def ac_get_next_def ac_fresh_def [symmetric] a Let_def)
       (simp add: ac_default_def ac_get_next_channel_inner_def set_channel_def channel_mask_default_def)
qed

section \<open>Properties\<close>

text \<open>A join attempt of a fixed plan outside its bias: the channel is one of the 72, was not used
  since the walk last began, is used up afterwards (all others stay), lies in the bank after that of the
  previous attempt, wrapping from the 500 kHz bank to bank 0 (the first attempt is a 125 kHz channel), and the
  invariant of the walk is kept, so the next bank always has a channel left.\<close>

theorem join_walk_step:
  assumes "jc_ok j" "jc_preferred_subband j = None \<or> jc_max_retries j \<le> jc_num_retries j"
    "jc_get_next_channel next_u32 j rng = Some (c, j', rng')"
  shows "let a = ac_fresh (jc_available_channels j); a' = jc_available_channels j' in
    jc_ok j' \<and> unat c < 72 \<and> mask_on (ac_data a) (unat c) \<and>
    (\<forall>d. mask_on (ac_data a') d \<longleftrightarrow> mask_on (ac_data a) d \<and> d \<noteq> unat c) \<and> ac_previous a' = Some c \<and>
    (case ac_previous a of None \<Rightarrow> unat c < 64 | Some p \<Rightarrow> unat c div 8 = next_bank (unat p div 8)) \<and>
    (\<not> ac_is_exhausted a' \<longrightarrow> free_in (ac_data a') (next_bank (unat c div 8)) \<noteq> {})"
proof -
  obtain a where a: "ac_get_next next_u32 (jc_available_channels j) rng = Some (c, a, rng')"
    "j' = j\<lparr>jc_num_retries := jc_num_retries j + 1, jc_available_channels := a\<rparr>"
    using assms(3) unfolding jc_walk_eq [OF assms(2)] by (auto simp: bind_eq_Some_conv)
  have ok: "ac_ok (jc_available_channels j)" using assms(1) by (simp add: jc_ok_def)
  note s = ac_get_next_Some [OF ok a(1)]
  have "\<not> ac_is_exhausted a \<Longrightarrow> free_in (ac_data a) (next_bank (unat c div 8)) \<noteq> {}"
    using s by (intro ac_next_free) simp_all
  then show ?thesis using s a(2) jc_walk_ok(1) [OF assms] by (auto simp: Let_def split: option.splits)
qed

theorem join_walk_step_witness:
  "\<exists>c j'. jc_get_next_channel (\<lambda>n. (n, n + 1)) jc_default (5 :: u32) = Some (c, j', 6) \<and> unat c < 64"
proof -
  have a: "ac_fresh ac_default = ac_default"
    using mask_default_on [of 0] by (auto simp: ac_fresh_def ac_is_exhausted_iff ac_default_def)
  have "\<exists>j'. jc_get_next_channel (\<lambda>n. (n, n + 1)) jc_default (5 :: u32) = Some (5, j', 6)"
    by (rule jc_default_first)
  then obtain j' where j: "jc_get_next_channel (\<lambda>n. (n, n + 1)) jc_default (5 :: u32) = Some (5, j', 6)" by blast
  have "jc_preferred_subband jc_default = None \<or> jc_max_retries jc_default \<le> jc_num_retries jc_default"
    by (simp add: jc_default_def)
  from join_walk_step [OF jc_init_ok(1) this j] show ?thesis
    using j a by (auto simp: Let_def jc_default_def)
qed

text \<open>C39. A join attempt always ends when the random stream is fair, that is when every value of three
  bits occurs among those the loop of \<open>get_next_channel_inner\<close> would draw.\<close>

theorem join_attempt_returns:
  assumes "jc_ok j" "next_u32 rng = (v, r)" "\<And>i. i < 8 \<Longrightarrow> \<exists>n. ent_digit next_u32 n (v, 1, r) = i"
  shows "\<exists>c j' rng'. jc_get_next_channel next_u32 j rng = Some (c, j', rng') \<and> jc_ok j'"
proof (cases "jc_preferred_subband j = None \<or> jc_max_retries j \<le> jc_num_retries j")
  case True
  have ok: "ac_ok (jc_available_channels j)" using assms(1) by (simp add: jc_ok_def)
  obtain c a r' where "ac_get_next next_u32 (jc_available_channels j) rng = Some (c, a, r')"
    using ac_get_next_returns [OF ok assms(2,3)] by auto
  then obtain j' where "jc_get_next_channel next_u32 j rng = Some (c, j', r')" by (simp add: jc_walk_eq [OF True])
  then show ?thesis using jc_get_next_ok [OF assms(1), of next_u32 rng c j' r'] by simp
next
  case False
  then obtain sb where "jc_preferred_subband j = Some sb" "jc_num_retries j < jc_max_retries j" by auto
  from jc_biased [OF assms(1) this, of next_u32 rng] show ?thesis by blast
qed

theorem join_attempt_returns_witness:
  "\<exists>c j' rng'. jc_get_next_channel (\<lambda>s. (16434824, s)) jc_default () = Some (c, j', rng') \<and> jc_ok j'"
proof (rule join_attempt_returns [OF jc_init_ok(1) refl])
  fix i :: nat
  assume "i < 8"
  then consider "i = 0" | "i = 1" | "i = 2" | "i = 3" | "i = 4" | "i = 5" | "i = 6" | "i = 7" by linarith
  then show "\<exists>n. ent_digit (\<lambda>s. (16434824, s)) n (16434824, 1, ()) = i"
    by cases (rule exI [of _ i], simp add: ent_digit_first del: One_nat_def)+
qed

text \<open>After a biased attempt the join may succeed on the ordinary walk; \<open>previous_channel\<close>, which
  the comment calls the channel of the previous join request, is not updated there, so the first data channel
  is taken from the bank of the biased attempt and not from the subband the join succeeded on.\<close>

theorem first_data_channel_stale:
  "do {
     (c1, j1, _) \<leftarrow> jc_get_next_channel (\<lambda>s. (0, s)) (jc_set_join_bias Sb2 1 jc_default) ();
     (c2, j2, _) \<leftarrow> jc_get_next_channel (\<lambda>s. (0, s)) j1 ();
     Some (c1, c2, fst (jc_first_data_channel (\<lambda>s. (0, s)) j2 ()))} = Some (8, 16, Some 8)"
  by code_simp

end
