(* ===== verification/FixedPlan.thy ===== *)
theory FixedPlan
  imports JoinChannels
begin

text \<open>
  \<open>lorawan-device/src/region/fixed_channel_plans/mod.rs\<close>: the 72-channel plans of US915 and
  AU915 and their \<open>RegionHandler\<close>. \<open>channel_dl_update\<close> and \<open>handle_new_channel\<close> are
  \<open>unreachable!()\<close>, a panic. The sampling loops are partial functions as in \<open>DynamicPlan\<close>.
\<close>

record fix_plan =
  fp_mask :: channel_mask
  fp_join_channels :: join_channels
  fp_frequency_valid :: "u32 \<Rightarrow> bool"

definition fix_new :: "(u32 \<Rightarrow> bool) \<Rightarrow> fix_plan" where
  "fix_new freq_fn = \<lparr>fp_mask = channel_mask_default 9, fp_join_channels = jc_default,
     fp_frequency_valid = freq_fn\<rparr>"

text \<open>\<open>set_join_bias\<close>, \<open>set_join_bias_and_noncompliant_retries\<close> and \<open>clear_join_bias\<close> of the macro
  \<open>impl_join_bias\<close>, with which a plan is prepared before it becomes a \<open>Configuration\<close>.\<close>

definition fix_set_join_bias :: "subband \<Rightarrow> fix_plan \<Rightarrow> fix_plan" where
  "fix_set_join_bias sb p = p\<lparr>fp_join_channels := jc_set_join_bias sb 1 (fp_join_channels p)\<rparr>"

definition fix_set_join_bias_and_noncompliant_retries :: "subband \<Rightarrow> nat \<Rightarrow> fix_plan \<Rightarrow> fix_plan" where
  "fix_set_join_bias_and_noncompliant_retries sb n p =
     p\<lparr>fp_join_channels := jc_set_join_bias sb n (fp_join_channels p)\<rparr>"

definition fix_clear_join_bias :: "fix_plan \<Rightarrow> fix_plan" where
  "fix_clear_join_bias p = p\<lparr>fp_join_channels := jc_clear_join_bias (fp_join_channels p)\<rparr>"

definition set_125k_channels :: "channel_mask \<Rightarrow> bool \<Rightarrow> channel_mask \<Rightarrow> channel_mask run" where
  "set_125k_channels cmask enabled extra = do {
     let v = (if enabled then 0xFF else 0x00);
     m \<leftarrow> set_banks (map (\<lambda>i. (i, v)) [0..<8]) cmask;
     e \<leftarrow> mask_get_index extra 0;
     set_bank m 8 e}"

definition fix_channel_mask_get :: "fix_plan \<Rightarrow> channel_mask" where
  "fix_channel_mask_get p = fp_mask p"

definition fix_channel_mask_set :: "channel_mask \<Rightarrow> fix_plan \<Rightarrow> fix_plan" where
  "fix_channel_mask_set m p = p\<lparr>fp_join_channels := jc_reset (fp_join_channels p), fp_mask := m\<rparr>"

definition fix_process_join_accept :: "cf_list option \<Rightarrow> fix_plan \<Rightarrow> fix_plan run" where
  "fix_process_join_accept cf p = (case cf of
      Some (FixedChannel m) \<Rightarrow> Some (fix_channel_mask_set m p)
    | _ \<Rightarrow> Some p)"

definition fix_channel_mask_update :: "channel_mask \<Rightarrow> u8 \<Rightarrow> channel_mask \<Rightarrow> channel_mask option run" where
  "fix_channel_mask_update cmask ctl ch =
     (if ctl \<le> 4 then do {
        let base = unat ctl * 2;
        c0 \<leftarrow> mask_get_index ch 0;
        m1 \<leftarrow> set_bank cmask base c0;
        c1 \<leftarrow> mask_get_index ch 1;
        m2 \<leftarrow> set_bank m1 (base + 1) c1;
        Some (Some m2)}
      else if ctl = 5 then do {
        blocks \<leftarrow> mask_get_index ch 0;
        m \<leftarrow> set_banks (map (\<lambda>i. (i, if blocks AND push_bit i 1 \<noteq> 0 then 0xFF else 0x00)) [0..<8]) cmask;
        map_option Some (set_bank m 8 blocks)}
      else if ctl = 6 then map_option Some (set_125k_channels cmask True ch)
      else if ctl = 7 then map_option Some (set_125k_channels cmask False ch)
      else Some None)"

text \<open>\<open>iter.filter(f).take(k).count()\<close>: the iterator stops at the \<open>k\<close>-th hit.\<close>

fun count_run :: "('a \<Rightarrow> bool run) \<Rightarrow> nat \<Rightarrow> 'a list \<Rightarrow> nat run" where
  "count_run f 0 xs = Some 0"
| "count_run f (Suc k) [] = Some 0"
| "count_run f (Suc k) (x # xs) = do {
     b \<leftarrow> f x;
     if b then map_option Suc (count_run f k xs) else count_run f (Suc k) xs}"

definition fix_channel_mask_validate :: "fixed_region \<Rightarrow> channel_mask \<Rightarrow> DR option \<Rightarrow> bool run" where
  "fix_channel_mask_validate R cmask dr = (case dr of
      None \<Rightarrow> Some False
    | Some dr \<Rightarrow> do {
        d \<leftarrow> idx (cr_datarates R) (dr_idx dr);
        case d of
          None \<Rightarrow> Some False
        | Some d \<Rightarrow> (case dtr_bandwidth d of
            BW_500KHz \<Rightarrow> any_run (\<lambda>i. unwrap_ok (is_enabled cmask i)) [64..<72]
          | BW_125KHz \<Rightarrow> map_option (\<lambda>n. n = 2) (count_run (\<lambda>i. unwrap_ok (is_enabled cmask i)) 2 [0..<64])
          | _ \<Rightarrow> Some True)})"

text \<open>The loop \<open>while !is_enabled(channel + off)\<close> that draws a new channel under a bit mask.\<close>

partial_function (option) fix_data_loop ::
  "('r \<Rightarrow> u32 \<times> 'r) \<Rightarrow> channel_mask \<Rightarrow> u8 \<Rightarrow> u32 \<Rightarrow> u8 \<Rightarrow> 'r \<Rightarrow> (u8 \<times> 'r) option" where
  "fix_data_loop next_u32 m off bits channel rng =
     Option.bind (unwrap_ok (is_enabled m (unat (channel + off)))) (\<lambda>e.
       if e then Some (channel, rng)
       else case next_u32 rng of (v, rng') \<Rightarrow> fix_data_loop next_u32 m off bits (ucast (v AND bits)) rng')"

definition forced_dr :: "u8 \<Rightarrow> DR" where
  "forced_dr channel = (if channel < 64 then DR0 else DR4)"

definition fix_data_channel ::
  "('r \<Rightarrow> u32 \<times> 'r) \<Rightarrow> fixed_region \<Rightarrow> 'r \<Rightarrow> DR \<Rightarrow> channel_mask \<Rightarrow> (u8 \<times> 'r) run" where
  "fix_data_channel next_u32 R rng dr m = do {
     d \<leftarrow> datarate_unwrap R dr;
     if dtr_bandwidth d = BW_500KHz then do {
       let (v, rng') = next_u32 rng;
       (c, rng'') \<leftarrow> fix_data_loop next_u32 m 64 0b111 (ucast (v AND 0b111)) rng';
       Some (64 + c, rng'')}
     else
       let (v, rng') = next_u32 rng in
       fix_data_loop next_u32 m 0 0b111111 (ucast (v AND 0b111111)) rng'}"

definition fix_choose ::
  "('r \<Rightarrow> u32 \<times> 'r) \<Rightarrow> fixed_region \<Rightarrow> 'r \<Rightarrow> DR \<Rightarrow> frame \<Rightarrow> fix_plan \<Rightarrow> (DR \<times> u8 \<times> fix_plan \<times> 'r) run" where
  "fix_choose next_u32 R rng dr fr p = (case fr of
      Join \<Rightarrow> do {
        (c, j, rng') \<leftarrow> jc_get_next_channel next_u32 (fp_join_channels p) rng;
        Some (forced_dr c, c, p\<lparr>fp_join_channels := j\<rparr>, rng')}
    | Data \<Rightarrow>
        if jc_has_bias_and_not_exhausted (fp_join_channels p) then do {
          (c, j, rng') \<leftarrow> jc_get_next_channel next_u32 (fp_join_channels p) rng;
          Some (forced_dr c, c, p\<lparr>fp_join_channels := j\<rparr>, rng')}
        else (case jc_first_data_channel next_u32 (fp_join_channels p) rng of
            (Some c, j, rng') \<Rightarrow> Some (dr, c, p\<lparr>fp_join_channels := j\<rparr>, rng')
          | (None, j, rng') \<Rightarrow> do {
              (c, rng'') \<leftarrow> fix_data_channel next_u32 R rng' dr (fp_mask p);
              Some (dr, c, p\<lparr>fp_join_channels := j\<rparr>, rng'')}))"

definition fix_select_tx_channel ::
  "('r \<Rightarrow> u32 \<times> 'r) \<Rightarrow> fixed_region \<Rightarrow> 'r \<Rightarrow> DR \<Rightarrow> frame \<Rightarrow> fix_plan \<Rightarrow> (tx_channel \<times> fix_plan \<times> 'r) run" where
  "fix_select_tx_channel next_u32 R rng datarate fr p = do {
     (dr, c, p', rng') \<leftarrow> fix_choose next_u32 R rng datarate fr p;
     d \<leftarrow> datarate_unwrap R dr;
     f \<leftarrow> idx (fix_uplink_channels R) (unat c);
     r \<leftarrow> idx (fix_downlink_channels R) (unat (c mod 8));
     Some (\<lparr>txc_datarate = d, txc_dr = dr, txc_frequency = f, txc_rx1_frequency = r\<rparr>, p', rng')}"

section \<open>Masks\<close>

definition fix_ok :: "fix_plan \<Rightarrow> bool" where
  "fix_ok p \<longleftrightarrow> length (fp_mask p) = 9 \<and> jc_ok (fp_join_channels p)"

lemma fix_new_ok: "fix_ok (fix_new f)"
  by (simp add: fix_ok_def fix_new_def jc_init_ok channel_mask_default_def)

lemma fix_bias_ok: "fix_ok (fix_set_join_bias sb (fix_new f))"
  "fix_ok (fix_set_join_bias_and_noncompliant_retries sb n (fix_new f))"
  by (simp_all add: fix_ok_def fix_new_def fix_set_join_bias_def
      fix_set_join_bias_and_noncompliant_retries_def jc_init_ok channel_mask_default_def)

lemma fix_clear_ok: "fix_ok p \<Longrightarrow> fix_ok (fix_clear_join_bias p)"
  by (simp add: fix_ok_def fix_clear_join_bias_def jc_clear_ok)

lemma fix_mask_set_ok: "fix_ok p \<Longrightarrow> length m = 9 \<Longrightarrow> fix_ok (fix_channel_mask_set m p)"
  by (simp add: fix_ok_def fix_channel_mask_set_def jc_reset_ok)

text \<open>Writing the eight banks of 125 kHz channels and the 500 kHz bank.\<close>

lemma banks9:
  assumes "length m = 9"
  shows "Option.bind (set_banks (map (\<lambda>i. (i, f i)) [0..<8]) m) (\<lambda>m'. set_bank m' 8 e)
    = Some (map f [0..<8] @ [e])"
proof -
  have "set_banks (map (\<lambda>i. (i, f i)) [0..<8]) m = Some (map f [0..<8] @ drop 8 m)"
    using set_banks_upt [of 8 m f 0] assms by simp
  moreover have "length (drop 8 m) = Suc 0" using assms by simp
  then obtain x where "drop 8 m = [x]" by (metis length_0_conv length_Suc_conv)
  ultimately show ?thesis by (simp add: set_bank_def set_idx_def list_update_append del: upt_Suc)
qed

lemma mask_on_banks9:
  "mask_on (map f [0..<8] @ [e]) c \<longleftrightarrow>
    (if c < 64 then bit (f (c div 8)) (c mod 8) else c < 72 \<and> bit e (c mod 8))"
proof (cases "c < 64")
  case True
  then show ?thesis by (simp add: mask_on_def nth_append div_less_iff_less_mult)
next
  case False
  then have "c div 8 = 8" if "c < 72" using that by simp
  then show ?thesis using False by (auto simp: mask_on_def nth_append div_less_iff_less_mult)
qed

lemma fix_mask_update_cases:
  assumes "length m = 9" "length ch = 2"
  shows "if ctl = 4 then fix_channel_mask_update m ctl ch = None
    else if 8 \<le> ctl then fix_channel_mask_update m ctl ch = Some None
    else \<exists>m'. fix_channel_mask_update m ctl ch = Some (Some m') \<and> length m' = 9 \<and>
      (ctl \<le> 3 \<longrightarrow> (\<forall>c. mask_on m' c = (if c div 16 = unat ctl then mask_on ch (c mod 16) else mask_on m c))) \<and>
      (ctl = 5 \<longrightarrow> (\<forall>c. mask_on m' c \<longleftrightarrow>
         c < 64 \<and> mask_on ch (c div 8) \<or> 64 \<le> c \<and> c < 72 \<and> mask_on ch (c - 64))) \<and>
      (ctl = 6 \<longrightarrow> (\<forall>c. mask_on m' c \<longleftrightarrow> c < 64 \<or> c < 72 \<and> mask_on ch (c - 64))) \<and>
      (ctl = 7 \<longrightarrow> (\<forall>c. mask_on m' c \<longleftrightarrow> 64 \<le> c \<and> c < 72 \<and> mask_on ch (c - 64)))"
proof -
  have c: "mask_get_index ch 0 = Some (ch ! 0)" "mask_get_index ch 1 = Some (ch ! 1)"
    using assms by (auto simp: mask_get_index_def idx_def)
  have eq4: "fix_channel_mask_update m ctl ch = dyn_channel_mask_update m ctl ch" if "ctl \<le> 4"
    using that by (simp add: fix_channel_mask_update_def dyn_channel_mask_update_def)
  have e0: "mask_on ch j \<longleftrightarrow> bit (ch ! 0) j" if "j < 8" for j
    using that assms by (simp add: mask_on_def)
  have e: "bit (ch ! 0) (c mod 8) \<longleftrightarrow> mask_on ch (c - 64)" if "64 \<le> c" "c < 72" for c
  proof -
    have "c mod 8 = c - 64" using that by (simp add: mod_if)
    then show ?thesis using e0 [of "c - 64"] that by simp
  qed
  consider "ctl \<le> 4" | "ctl = 5" | "ctl = 6" | "ctl = 7" | "8 \<le> ctl"
  proof -
    have "unat ctl \<le> 4 \<or> unat ctl = 5 \<or> unat ctl = 6 \<or> unat ctl = 7 \<or> 8 \<le> unat ctl" by arith
    then show thesis using that by (auto simp: word_le_nat_alt word_unat_eq_iff)
  qed
  then show ?thesis
  proof cases
    case 1
    then have n: "\<not> 8 \<le> ctl" "\<not> 7 \<le> ctl" "ctl \<noteq> 5" "ctl \<noteq> 6" "ctl \<noteq> 7" by (auto simp: word_le_nat_alt)
    show ?thesis using dyn_mask_update_cases [OF assms, of ctl] n unfolding eq4 [OF 1]
      by (cases "ctl = 4") (simp_all only: if_True if_False simp_thms, blast?)
  next
    case 2
    define f where "f i = (if ch ! 0 AND push_bit i 1 \<noteq> 0 then 0xFF else 0x00 :: u8)" for i
    have u: "fix_channel_mask_update m ctl ch = Some (Some (map f [0..<8] @ [ch ! 0]))"
      using banks9 [OF assms(1), of f "ch ! 0"] 2 c
      by (auto simp: fix_channel_mask_update_def f_def bind_eq_Some_conv)
    have b: "bit (f i) j \<longleftrightarrow> mask_on ch i" if "i < 8" "j < 8" for i j
      using that e0 [OF that(1)] bit_0xff [of j] by (auto simp: f_def bit_iff_and_push_bit_not_eq_0)
    have "mask_on (map f [0..<8] @ [ch ! 0]) c \<longleftrightarrow>
         c < 64 \<and> mask_on ch (c div 8) \<or> 64 \<le> c \<and> c < 72 \<and> mask_on ch (c - 64)" for c
      using b [of "c div 8" "c mod 8"] e [of c] by (auto simp: mask_on_banks9 div_less_iff_less_mult)
    then show ?thesis using u 2 by simp
  next
    case 3
    have u: "fix_channel_mask_update m ctl ch = Some (Some (map (\<lambda>_. 0xFF) [0..<8] @ [ch ! 0]))"
      using banks9 [OF assms(1), of "\<lambda>_. 0xFF" "ch ! 0"] 3 c
      by (auto simp: fix_channel_mask_update_def set_125k_channels_def bind_eq_Some_conv)
    have "mask_on (map (\<lambda>_. 0xFF) [0..<8] @ [ch ! 0]) c \<longleftrightarrow> c < 64 \<or> c < 72 \<and> mask_on ch (c - 64)" for c
      using bit_0xff [of "c mod 8"] e [of c] unfolding mask_on_banks9 by auto
    then show ?thesis using u 3 by simp
  next
    case 4
    have u: "fix_channel_mask_update m ctl ch = Some (Some (map (\<lambda>_. 0x00) [0..<8] @ [ch ! 0]))"
      using banks9 [OF assms(1), of "\<lambda>_. 0x00" "ch ! 0"] 4 c
      by (auto simp: fix_channel_mask_update_def set_125k_channels_def bind_eq_Some_conv)
    have "mask_on (map (\<lambda>_. 0x00) [0..<8] @ [ch ! 0]) c \<longleftrightarrow> 64 \<le> c \<and> c < 72 \<and> mask_on ch (c - 64)" for c
      using e [of c] unfolding mask_on_banks9 by auto
    then show ?thesis using u 4 by simp
  next
    case 5
    then have "\<not> ctl \<le> 4" "ctl \<noteq> 5" "ctl \<noteq> 6" "ctl \<noteq> 7" "ctl \<noteq> 4" by (auto simp: word_le_nat_alt)
    then show ?thesis using 5 by (simp add: fix_channel_mask_update_def)
  qed
qed

lemma count_run_map:
  "\<forall>x \<in> set xs. f x = Some (g x) \<Longrightarrow> count_run f k xs = Some (min k (length (filter g xs)))"
  by (induction f k xs rule: count_run.induct) auto

lemma fix_channel_mask_validate_eq:
  assumes "length m = 9" "length (cr_datarates R) = 15"
  shows "fix_channel_mask_validate R m dr = (case dr of
      None \<Rightarrow> Some False
    | Some x \<Rightarrow> if 15 \<le> dr_idx x then None else Some (case cr_datarates R ! dr_idx x of
        None \<Rightarrow> False
      | Some d \<Rightarrow> (case dtr_bandwidth d of
          BW_500KHz \<Rightarrow> \<exists>c \<in> {64..<72}. mask_on m c
        | BW_125KHz \<Rightarrow> 2 \<le> card {c. c < 64 \<and> mask_on m c}
        | _ \<Rightarrow> True)))"
proof -
  have en: "unwrap_ok (is_enabled m i) = Some (mask_on m i)" if "i < 72" for i
    using that assms(1) by (simp add: is_enabled_eq)
  have any: "any_run (\<lambda>i. unwrap_ok (is_enabled m i)) [64..<72] = Some (\<exists>c \<in> {64..<72}. mask_on m c)"
  proof -
    have "\<forall>i \<in> set [64..<72]. unwrap_ok (is_enabled m i) = Some (mask_on m i)" using en by simp
    from any_run_map [OF this] show ?thesis by (simp only: set_upt)
  qed
  have "count_run (\<lambda>i. unwrap_ok (is_enabled m i)) 2 [0..<64] = Some (min 2 (length (filter (mask_on m) [0..<64])))"
    by (rule count_run_map) (auto simp: en)
  moreover have "length (filter (mask_on m) [0..<64]) = card {c. c < 64 \<and> mask_on m c}"
  proof -
    have "{c. c < 64 \<and> mask_on m c} = set (filter (mask_on m) [0..<64])" by auto
    moreover have "card (set (filter (mask_on m) [0..<64])) = length (filter (mask_on m) [0..<64])"
      by (rule distinct_card) simp
    ultimately show ?thesis by (simp only:)
  qed
  ultimately have count: "map_option (\<lambda>n. n = 2) (count_run (\<lambda>i. unwrap_ok (is_enabled m i)) 2 [0..<64])
      = Some (2 \<le> card {c. c < 64 \<and> mask_on m c})" by auto
  show ?thesis unfolding fix_channel_mask_validate_def any count
    using assms(2) by (auto simp: idx_def split: option.splits bandwidth.splits)
qed

interpretation fixed: region_handler "\<lambda>p. R \<in> set fixed_regions \<and> fix_ok p"
  fix_channel_mask_get fix_channel_mask_set "\<lambda>_. fix_channel_mask_update" "\<lambda>_. fix_channel_mask_validate R"
  fix_process_join_accept "\<lambda>_. region_get_datarate R" for R
proof
  show "length (fix_channel_mask_get s) = 9" if "R \<in> set fixed_regions \<and> fix_ok s" for s
    using that by (simp add: fix_channel_mask_get_def fix_ok_def)
  show "R \<in> set fixed_regions \<and> fix_ok (fix_channel_mask_set m s)"
    if "R \<in> set fixed_regions \<and> fix_ok s" "length m = 9" for s m
    using that fix_mask_set_ok by simp
  show "fix_channel_mask_get (fix_channel_mask_set m s) = m" for m s
    by (simp add: fix_channel_mask_set_def fix_channel_mask_get_def)
  show "\<exists>r. fix_channel_mask_update m ctl ch = Some r \<and> (\<forall>m'. r = Some m' \<longrightarrow> length m' = 9)"
    if "length m = 9" "length ch = 2" "ctl \<noteq> 4" for m ch ctl
    using fix_mask_update_cases [OF that(1,2), of ctl] that(3) by (cases "8 \<le> ctl") auto
  show "\<exists>b. fix_channel_mask_validate R m dr = Some b"
    if "R \<in> set fixed_regions \<and> fix_ok s" "length m = 9" "dr \<noteq> Some DR15" for m dr s
  proof -
    have l: "length (cr_datarates R) = 15" using that(1) fixed_region_ok [of R] by (simp add: region_ok_def)
    have "x \<noteq> DR15 \<Longrightarrow> dr_idx x < 15" for x by (cases x) (simp_all add: dr_idx_def)
    then show ?thesis using that(3) unfolding fix_channel_mask_validate_eq [OF that(2) l]
      by (cases dr) (auto simp: not_le [symmetric])
  qed
  show "\<exists>s'. fix_process_join_accept cf s = Some s' \<and> R \<in> set fixed_regions \<and> fix_ok s'"
    if "R \<in> set fixed_regions \<and> fix_ok s" "\<And>x. cf = Some x \<Longrightarrow> cf_list_wf x" for s cf
    using that fix_mask_set_ok [of s]
    by (cases cf) (auto simp: fix_process_join_accept_def cf_list_wf_def split: cf_list.splits)
  show "\<exists>d. region_get_datarate R n = Some d" if "R \<in> set fixed_regions \<and> fix_ok s" "unat n < 15" for s n
    using that fixed_region_ok [of R] by (simp add: region_get_datarate_def region_ok_def)
qed

section \<open>Channel selection\<close>

lemma fix_data_loop_unfold:
  assumes "length m = 9" "\<And>v. unat (ucast (v AND bits) + off :: u8) < 72"
  shows "fix_data_loop next_u32 m off bits (ucast (v AND bits)) rng =
    (if mask_on m (unat (ucast (v AND bits) + off :: u8)) then Some (ucast (v AND bits), rng)
     else fix_data_loop next_u32 m off bits (ucast (fst (next_u32 rng) AND bits)) (snd (next_u32 rng)))"
proof -
  have "is_enabled m (unat (ucast (v AND bits) + off :: u8)) = Some (Inr (mask_on m (unat (ucast (v AND bits) + off :: u8))))"
    using assms by (simp add: is_enabled_eq)
  then show ?thesis by (subst fix_data_loop.simps) (simp split: prod.splits)
qed

lemma fix_data_loop_returns:
  assumes "length m = 9" "\<And>v. unat (ucast (v AND bits) + off :: u8) < 72"
    "mask_on m (unat (ucast (v AND bits) + off :: u8)) \<or>
     mask_on m (unat (ucast (rng_draw next_u32 n rng AND bits) + off :: u8))"
  shows "\<exists>r. fix_data_loop next_u32 m off bits (ucast (v AND bits)) rng = Some r"
  using assms(3)
proof (induction n arbitrary: v rng)
  case 0
  then show ?case
    using fix_data_loop_unfold [OF assms(1,2), of next_u32 v rng]
      fix_data_loop_unfold [OF assms(1,2), of next_u32 "fst (next_u32 rng)" "snd (next_u32 rng)"] by auto
next
  case (Suc n)
  then show ?case
    using Suc.IH [of "fst (next_u32 rng)" "snd (next_u32 rng)"]
      fix_data_loop_unfold [OF assms(1,2), of next_u32 v rng] by auto
qed

lemma fix_data_loop_Some:
  assumes "fix_data_loop next_u32 m off bits c rng = Some r" "length m = 9"
    "\<And>v. unat (ucast (v AND bits) + off :: u8) < 72" "c = ucast (v AND bits)"
  shows "(\<exists>w. fst r = ucast (w AND bits) \<and> mask_on m (unat (fst r + off))) \<and>
    (mask_on m (unat (c + off)) \<or> (\<exists>n. mask_on m (unat (ucast (rng_draw next_u32 n rng AND bits) + off :: u8))))"
proof -
  let ?P = "\<lambda>next_u32 m off bits c rng (r :: u8 \<times> 'a). length m = 9 \<longrightarrow>
    (\<forall>v. unat (ucast (v AND bits) + off :: u8) < 72) \<longrightarrow> (\<exists>v. c = ucast (v AND bits)) \<longrightarrow>
    (\<exists>w. fst r = ucast (w AND bits) \<and> mask_on m (unat (fst r + off))) \<and>
    (mask_on m (unat (c + off)) \<or> (\<exists>n. mask_on m (unat (ucast (rng_draw next_u32 n rng AND bits) + off :: u8))))"
  have "?P next_u32 m off bits c rng r"
    using assms(1)
  proof (rule fix_data_loop.raw_induct [where P = ?P, rotated], intro impI)
    fix f :: "('a \<Rightarrow> u32 \<times> 'a) \<Rightarrow> channel_mask \<Rightarrow> u8 \<Rightarrow> u32 \<Rightarrow> u8 \<Rightarrow> 'a \<Rightarrow> (u8 \<times> 'a) option"
      and next_u32 :: "'a \<Rightarrow> u32 \<times> 'a" and m off bits c rng and r :: "u8 \<times> 'a"
    assume IH: "\<And>next_u32 m off bits c rng r. f next_u32 m off bits c rng = Some r \<Longrightarrow> ?P next_u32 m off bits c rng r"
    assume step: "Option.bind (unwrap_ok (is_enabled m (unat (c + off)))) (\<lambda>e.
       if e then Some (c, rng)
       else case next_u32 rng of (v, rng') \<Rightarrow> f next_u32 m off bits (ucast (v AND bits)) rng') = Some r"
    assume l: "length m = 9" and b: "\<forall>v. unat (ucast (v AND bits) + off :: u8) < 72" and "\<exists>v. c = ucast (v AND bits)"
    then obtain v where c: "c = ucast (v AND bits)" by blast
    have en: "is_enabled m (unat (c + off)) = Some (Inr (mask_on m (unat (c + off))))"
      using b l c by (simp add: is_enabled_eq)
    show "(\<exists>w. fst r = ucast (w AND bits) \<and> mask_on m (unat (fst r + off))) \<and>
      (mask_on m (unat (c + off)) \<or> (\<exists>n. mask_on m (unat (ucast (rng_draw next_u32 n rng AND bits) + off :: u8))))"
    proof (cases "mask_on m (unat (c + off))")
      case True
      then show ?thesis using step en c by auto
    next
      case False
      then have "f next_u32 m off bits (ucast (fst (next_u32 rng) AND bits)) (snd (next_u32 rng)) = Some r"
        using step en by (simp split: prod.splits)
      from IH [OF this] l b
      have h: "\<exists>w. fst r = ucast (w AND bits) \<and> mask_on m (unat (fst r + off))"
        "mask_on m (unat (ucast (rng_draw next_u32 0 rng AND bits) + off :: u8)) \<or>
         (\<exists>n. mask_on m (unat (ucast (rng_draw next_u32 (Suc n) rng AND bits) + off :: u8)))" by auto
      then show ?thesis by blast
    qed
  qed
  then show ?thesis using assms by blast
qed

text \<open>The channel a random word selects at a data rate.\<close>

definition fix_index :: "datarate \<Rightarrow> u32 \<Rightarrow> nat" where
  "fix_index d v = (if dtr_bandwidth d = BW_500KHz then 64 + unat v mod 8 else unat v mod 64)"

lemma fix_index_words:
  "unat (ucast (v AND 0b111 :: u32) + 64 :: u8) = 64 + unat v mod 8"
  "unat (ucast (v AND 0b111111 :: u32) + 0 :: u8) = unat v mod 64"
proof -
  have "unat v mod 8 < 8" by simp
  then have "unat (ucast (v AND 0b111) :: u8) + unat (64 :: u8) < 2 ^ LENGTH(8)" by (simp add: unat_low3)
  then have "unat (ucast (v AND 0b111) + 64 :: u8) = unat (ucast (v AND 0b111) :: u8) + unat (64 :: u8)"
    by (rule unat_add_lem [THEN iffD1])
  then show "unat (ucast (v AND 0b111 :: u32) + 64 :: u8) = 64 + unat v mod 8" by (simp add: unat_low3)
  have "unat (v AND 0b111111) = unat v mod 64" using unat_and_mask [of v 6] by (simp add: mask_eq_exp_minus_1)
  moreover have "unat v mod 64 < 2 ^ 8" by (rule less_le_trans [of _ 64]) simp_all
  ultimately show "unat (ucast (v AND 0b111111 :: u32) + 0 :: u8) = unat v mod 64"
    by (simp add: unsigned_ucast_eq take_bit_nat_eq_self)
qed

lemma fix_data_loop_cases:
  assumes "length m = 9" "\<And>v. unat (ucast (v AND bits) + off :: u8) = F v" "\<And>v. F v < 72"
  shows "fix_data_loop next_u32 m off bits (ucast (fst (next_u32 rng) AND bits)) (snd (next_u32 rng)) \<noteq> None \<longleftrightarrow>
      (\<exists>n. mask_on m (F (rng_draw next_u32 n rng)))"
    "fix_data_loop next_u32 m off bits (ucast (fst (next_u32 rng) AND bits)) (snd (next_u32 rng)) = Some r \<Longrightarrow>
      mask_on m (unat (fst r + off)) \<and> (\<exists>w. fst r = ucast (w AND bits))"
proof -
  have b: "unat (ucast (v AND bits) + off :: u8) < 72" for v using assms(2,3) by simp
  have split: "(\<exists>n. mask_on m (F (rng_draw next_u32 n rng))) \<longleftrightarrow>
      mask_on m (F (fst (next_u32 rng))) \<or> (\<exists>n. mask_on m (F (rng_draw next_u32 n (snd (next_u32 rng)))))"
    by (metis rng_draw_simps not0_implies_Suc)
  show "fix_data_loop next_u32 m off bits (ucast (fst (next_u32 rng) AND bits)) (snd (next_u32 rng)) \<noteq> None \<longleftrightarrow>
      (\<exists>n. mask_on m (F (rng_draw next_u32 n rng)))" (is "?L \<noteq> None \<longleftrightarrow> _")
  proof
    assume "?L \<noteq> None"
    then obtain r where "?L = Some r" by blast
    from fix_data_loop_Some [OF this assms(1) b refl]
    show "\<exists>n. mask_on m (F (rng_draw next_u32 n rng))" unfolding split assms(2) by blast
  next
    assume "\<exists>n. mask_on m (F (rng_draw next_u32 n rng))"
    then obtain n where "mask_on m (F (fst (next_u32 rng))) \<or> mask_on m (F (rng_draw next_u32 n (snd (next_u32 rng))))"
      unfolding split by blast
    then show "?L \<noteq> None"
      using fix_data_loop_returns [OF assms(1) b, of "fst (next_u32 rng)" next_u32 n "snd (next_u32 rng)"]
      by (auto simp: assms(2))
  qed
  show "?L = Some r \<Longrightarrow> mask_on m (unat (fst r + off)) \<and> (\<exists>w. fst r = ucast (w AND bits))"
    using fix_data_loop_Some [OF _ assms(1) b refl, of next_u32 _ "snd (next_u32 rng)" r] by blast
qed

lemma fix_data_channel_cases:
  assumes "length m = 9" "datarate_unwrap R dr = Some d"
  shows "fix_data_channel next_u32 R rng dr m \<noteq> None \<longleftrightarrow>
      (\<exists>n. mask_on m (fix_index d (rng_draw next_u32 n rng)))"
    "fix_data_channel next_u32 R rng dr m = Some (c, rng') \<Longrightarrow>
      unat c < 72 \<and> mask_on m (unat c) \<and> (64 \<le> unat c \<longleftrightarrow> dtr_bandwidth d = BW_500KHz)"
proof -
  obtain v r where v: "next_u32 rng = (v, r)" by fastforce
  have s: "64 + unat v mod 8 < 72" "unat v mod 64 < 72" for v :: u32
    using mod_less_divisor [of 8 "unat v"] mod_less_divisor [of 64 "unat v"] by linarith+
  note wide = fix_data_loop_cases [OF assms(1) fix_index_words(1) s(1)]
    and narrow = fix_data_loop_cases [OF assms(1) fix_index_words(2) s(2)]
  show "fix_data_channel next_u32 R rng dr m \<noteq> None \<longleftrightarrow> (\<exists>n. mask_on m (fix_index d (rng_draw next_u32 n rng)))"
  proof (cases "dtr_bandwidth d = BW_500KHz")
    case True
    then show ?thesis using wide(1) [of next_u32 rng] v assms(2)
      by (cases "fix_data_loop next_u32 m 64 7 (ucast (v AND 7)) r")
         (auto simp: fix_data_channel_def fix_index_def)
  next
    case False
    then show ?thesis using narrow(1) [of next_u32 rng] v assms(2)
      by (simp add: fix_data_channel_def fix_index_def)
  qed
  show "fix_data_channel next_u32 R rng dr m = Some (c, rng') \<Longrightarrow>
      unat c < 72 \<and> mask_on m (unat c) \<and> (64 \<le> unat c \<longleftrightarrow> dtr_bandwidth d = BW_500KHz)"
  proof (cases "dtr_bandwidth d = BW_500KHz")
    case True
    assume "fix_data_channel next_u32 R rng dr m = Some (c, rng')"
    then obtain c' where "fix_data_loop next_u32 m 64 0b111 (ucast (v AND 0b111)) r = Some (c', rng')" "c = c' + 64"
      using True v assms(2) by (auto simp: fix_data_channel_def bind_eq_Some_conv)
    moreover from this have "mask_on m (unat (c' + 64)) \<and> (\<exists>w :: u32. c' = ucast (w AND 0b111))"
      using wide(2) [of next_u32 rng "(c', rng')"] v by simp
    then obtain w :: u32 where "c' = ucast (w AND 0b111)" "mask_on m (unat (c' + 64))" by blast
    ultimately show ?thesis using True fix_index_words(1) [of w] s(1) [of w] by simp
  next
    case False
    assume "fix_data_channel next_u32 R rng dr m = Some (c, rng')"
    then have "fix_data_loop next_u32 m 0 0b111111 (ucast (v AND 0b111111)) r = Some (c, rng')"
      using False v assms(2) by (auto simp: fix_data_channel_def)
    then obtain w :: u32 where "c = ucast (w AND 0b111111)" "mask_on m (unat (c + 0))"
      using narrow(2) [of next_u32 rng "(c, rng')"] v by auto
    moreover have "unat w mod 64 < 64" by simp
    ultimately show ?thesis using False fix_index_words(2) [of w] by auto
  qed
qed

lemma fix_choose_ok:
  assumes "fix_ok p" "fix_choose next_u32 R rng dr fr p = Some (dr', c, p', rng')"
  shows "unat c < 72 \<and> fix_ok p' \<and> fp_mask p' = fp_mask p \<and> fp_frequency_valid p' = fp_frequency_valid p \<and>
    (fr = Join \<longrightarrow> dr' = forced_dr c) \<and> (dr' = dr \<or> dr' = forced_dr c)"
proof -
  have j: "jc_ok (fp_join_channels p)" and l: "length (fp_mask p) = 9" using assms(1) by (simp_all add: fix_ok_def)
  show ?thesis
  proof (cases "fr = Join \<or> jc_has_bias_and_not_exhausted (fp_join_channels p)")
    case True
    then obtain jc where "jc_get_next_channel next_u32 (fp_join_channels p) rng = Some (c, jc, rng')"
      "dr' = forced_dr c" "p' = p\<lparr>fp_join_channels := jc\<rparr>"
      using assms(2) by (cases fr) (auto simp: fix_choose_def bind_eq_Some_conv)
    then show ?thesis using jc_get_next_ok [OF j, of next_u32 rng c jc rng'] l by (simp add: fix_ok_def)
  next
    case False
    obtain fc jc r1 where f: "jc_first_data_channel next_u32 (fp_join_channels p) rng = (fc, jc, r1)"
      by (rule prod_cases3)
    note ok = jc_first_data_channel_ok [OF j f]
    show ?thesis
    proof (cases fc)
      case None
      then have "p' = p\<lparr>fp_join_channels := jc\<rparr>" "dr' = dr" "fr = Data"
        "fix_data_channel next_u32 R r1 dr (fp_mask p) = Some (c, rng')"
        using assms(2) False f by (auto simp: fix_choose_def bind_eq_Some_conv split: frame.splits)
      moreover from this obtain d where "datarate_unwrap R dr = Some d"
        by (auto simp: fix_data_channel_def bind_eq_Some_conv)
      ultimately show ?thesis using fix_data_channel_cases(2) [OF l, of R dr d next_u32 r1 c rng'] ok(1) l by (simp add: fix_ok_def)
    next
      case (Some x)
      then have "p' = p\<lparr>fp_join_channels := jc\<rparr>" "dr' = dr" "fr = Data" "c = x"
        using assms(2) False f by (auto simp: fix_choose_def split: frame.splits)
      then show ?thesis using ok Some l by (simp add: fix_ok_def)
    qed
  qed
qed

lemma datarate_unwrap_in:
  "dr_idx dr < length (cr_datarates R) \<Longrightarrow> datarate_unwrap R dr = cr_datarates R ! dr_idx dr"
  by (simp add: datarate_unwrap_def)

lemma fix_select_tail:
  assumes "R \<in> set fixed_regions" "unat (c :: u8) < 72"
  shows "idx (fix_uplink_channels R) (unat c) = Some (fix_uplink_channels R ! unat c)"
    "idx (fix_downlink_channels R) (unat (c mod 8)) = Some (fix_downlink_channels R ! (unat c mod 8))"
proof -
  have l: "length (fix_uplink_channels R) = 72" "length (fix_downlink_channels R) = 8"
    using fixed_channel_tables [OF assms(1)] by simp_all
  show "idx (fix_uplink_channels R) (unat c) = Some (fix_uplink_channels R ! unat c)" using l assms(2) by simp
  have "unat (c mod 8) = unat c mod 8" by (simp add: unat_mod)
  then show "idx (fix_downlink_channels R) (unat (c mod 8)) = Some (fix_downlink_channels R ! (unat c mod 8))"
    using l by simp
qed

lemma fix_select_Some:
  assumes "R \<in> set fixed_regions" "fix_ok p" "fix_select_tx_channel next_u32 R rng dr fr p = Some (t, p', rng')"
  shows "fix_ok p' \<and> fp_mask p' = fp_mask p \<and> fp_frequency_valid p' = fp_frequency_valid p \<and>
    datarate_unwrap R (txc_dr t) = Some (txc_datarate t) \<and>
    (\<exists>c < 72. txc_frequency t = fix_uplink_channels R ! c \<and> txc_rx1_frequency t = fix_downlink_channels R ! (c mod 8) \<and>
       (fr = Join \<longrightarrow> txc_dr t = (if c < 64 then DR0 else DR4)) \<and> (txc_dr t = dr \<or> txc_dr t = DR0 \<or> txc_dr t = DR4))"
proof -
  obtain dr' c r1 where c: "fix_choose next_u32 R rng dr fr p = Some (dr', c, p', r1)"
    using assms(3) by (auto simp: fix_select_tx_channel_def bind_eq_Some_conv)
  note ok = fix_choose_ok [OF assms(2) c]
  have u: "unat c < 72" using ok by simp
  have "c < 64 \<longleftrightarrow> unat c < 64" by (simp add: word_less_nat_alt)
  then have f: "forced_dr c = (if unat c < 64 then DR0 else DR4)" by (simp add: forced_dr_def)
  obtain d where d: "datarate_unwrap R dr' = Some d"
    "t = \<lparr>txc_datarate = d, txc_dr = dr', txc_frequency = fix_uplink_channels R ! unat c,
       txc_rx1_frequency = fix_downlink_channels R ! (unat c mod 8)\<rparr>"
    using assms(3) c fix_select_tail [OF assms(1) u] by (auto simp: fix_select_tx_channel_def bind_eq_Some_conv)
  then show ?thesis using ok f u by (auto intro!: exI [of _ "unat c"])
qed

section \<open>Properties\<close>

text \<open>\<open>LinkADRReq\<close> masks on a fixed plan: \<open>ChMaskCntl\<close> 0 to 3 replace one block of sixteen channels; 5
  lets bit \<open>i\<close> switch the bank of eight 125 kHz channels \<open>i\<close> and the 500 kHz channel \<open>64 + i\<close>; 6 and 7 switch
  all 125 kHz channels on or off and set the 500 kHz channels from the mask; 4 panics.\<close>

theorem fix_mask_update_outcomes:
  assumes "length m = 9" "length ch = 2"
  shows "if ctl = 4 then fix_channel_mask_update m ctl ch = None
    else if 8 \<le> ctl then fix_channel_mask_update m ctl ch = Some None
    else \<exists>m'. fix_channel_mask_update m ctl ch = Some (Some m') \<and> length m' = 9 \<and>
      (ctl \<le> 3 \<longrightarrow> (\<forall>c. mask_on m' c = (if c div 16 = unat ctl then mask_on ch (c mod 16) else mask_on m c))) \<and>
      (ctl = 5 \<longrightarrow> (\<forall>c. mask_on m' c \<longleftrightarrow>
         c < 64 \<and> mask_on ch (c div 8) \<or> 64 \<le> c \<and> c < 72 \<and> mask_on ch (c - 64))) \<and>
      (ctl = 6 \<longrightarrow> (\<forall>c. mask_on m' c \<longleftrightarrow> c < 64 \<or> c < 72 \<and> mask_on ch (c - 64))) \<and>
      (ctl = 7 \<longrightarrow> (\<forall>c. mask_on m' c \<longleftrightarrow> 64 \<le> c \<and> c < 72 \<and> mask_on ch (c - 64)))"
  using assms by (rule fix_mask_update_cases)

theorem fix_mask_update_outcomes_witness:
  "fix_channel_mask_update (replicate 9 0xFF) 4 [7, 0] = None"
  using fix_mask_update_outcomes [of "replicate 9 0xFF" "[7, 0]" 4] by simp

text \<open>The channel of an uplink on a fixed plan: whatever is selected is one of the 72 channels,
  paired with its downlink channel; a join goes out at DR0 on a 125 kHz channel and at DR4 on a 500 kHz one;
  the data rate is one the region defines; the mask is not touched and the plan's invariant is kept.\<close>

theorem fixed_tx_channel:
  assumes "R \<in> set fixed_regions" "fix_ok p" "fix_select_tx_channel next_u32 R rng dr fr p = Some (t, p', rng')"
  shows "fix_ok p' \<and> fp_mask p' = fp_mask p \<and> datarate_unwrap R (txc_dr t) = Some (txc_datarate t) \<and>
    (\<exists>c < 72. txc_frequency t = fix_uplink_channels R ! c \<and> txc_rx1_frequency t = fix_downlink_channels R ! (c mod 8) \<and>
       (fr = Join \<longrightarrow> txc_dr t = (if c < 64 then DR0 else DR4)))"
  using fix_select_Some [OF assms] by blast

theorem fixed_tx_channel_witness:
  "\<exists>t p'. fix_select_tx_channel (\<lambda>n. (n, n + 1)) us915_region (5 :: u32) DR3 Join (fix_new us915_default_freq) =
     Some (t, p', 6) \<and> fix_ok p'"
proof -
  have R: "us915_region \<in> set fixed_regions" by (simp add: fixed_regions_def)
  obtain j where "jc_get_next_channel (\<lambda>n. (n, n + 1)) jc_default (5 :: u32) = Some (5, j, 6)"
    using jc_default_first by blast
  then have "\<exists>t p'. fix_select_tx_channel (\<lambda>n. (n, n + 1)) us915_region (5 :: u32) DR3 Join (fix_new us915_default_freq) =
     Some (t, p', 6)"
    by (simp add: fix_select_tx_channel_def fix_choose_def fix_new_def forced_dr_def datarate_unwrap_def
        idx_def region_defs table_defs)
  then obtain t p' where s: "fix_select_tx_channel (\<lambda>n. (n, n + 1)) us915_region (5 :: u32) DR3 Join
      (fix_new us915_default_freq) = Some (t, p', 6)" by blast
  from fixed_tx_channel [OF R fix_new_ok s] s show ?thesis by blast
qed

text \<open>A data uplink without a join bias on a fixed plan is sent on an enabled channel of the
  bandwidth of its data rate; the selection returns exactly when the random stream ever draws such a
  channel, so never when the mask has none of that bandwidth.\<close>

theorem fixed_data_channel:
  assumes "R \<in> set fixed_regions" "fix_ok p" "jc_preferred_subband (fp_join_channels p) = None"
    "datarate_unwrap R dr = Some d"
  shows "(fix_select_tx_channel next_u32 R rng dr Data p \<noteq> None) =
      (\<exists>n. mask_on (fp_mask p) (fix_index d (rng_draw next_u32 n rng))) \<and>
    (\<forall>t p' rng'. fix_select_tx_channel next_u32 R rng dr Data p = Some (t, p', rng') \<longrightarrow>
      p' = p \<and> txc_dr t = dr \<and>
      (\<exists>c < 72. mask_on (fp_mask p) c \<and> txc_frequency t = fix_uplink_channels R ! c \<and>
         (64 \<le> c \<longleftrightarrow> dtr_bandwidth d = BW_500KHz)))"
proof -
  have l: "length (fp_mask p) = 9" using assms(2) by (simp add: fix_ok_def)
  have ch: "fix_choose next_u32 R rng dr Data p = Option.bind (fix_data_channel next_u32 R rng dr (fp_mask p))
      (\<lambda>(c, rng''). Some (dr, c, p, rng''))"
    using assms(3) by (simp add: fix_choose_def jc_has_bias_and_not_exhausted_def jc_first_data_channel_def)
  note cases = fix_data_channel_cases [OF l assms(4)]
  show ?thesis
  proof (cases "fix_data_channel next_u32 R rng dr (fp_mask p)")
    case None
    then show ?thesis using cases(1) [of next_u32 rng] by (simp add: fix_select_tx_channel_def ch)
  next
    case (Some x)
    then obtain c r where x: "fix_data_channel next_u32 R rng dr (fp_mask p) = Some (c, r)" by (cases x) simp
    note c = cases(2) [OF x]
    have sel: "fix_select_tx_channel next_u32 R rng dr Data p = Some (\<lparr>txc_datarate = d, txc_dr = dr,
        txc_frequency = fix_uplink_channels R ! unat c, txc_rx1_frequency = fix_downlink_channels R ! (unat c mod 8)\<rparr>, p, r)"
      using fix_select_tail [OF assms(1), of c] c assms(4) by (simp add: fix_select_tx_channel_def ch x)
    have hit: "\<exists>n. mask_on (fp_mask p) (fix_index d (rng_draw next_u32 n rng))"
      using cases(1) [of next_u32 rng] x by simp
    show ?thesis unfolding sel using hit c by auto
  qed
qed

theorem fixed_data_channel_witness:
  "fix_select_tx_channel (\<lambda>n. (n, n + 1)) us915_region (0 :: u32) DR0 Data (fix_new us915_default_freq) \<noteq> None"
proof -
  have R: "us915_region \<in> set fixed_regions" by (simp add: fixed_regions_def)
  have b: "jc_preferred_subband (fp_join_channels (fix_new us915_default_freq)) = None"
    by (simp add: fix_new_def jc_default_def)
  obtain d where d: "datarate_unwrap us915_region DR0 = Some d" "dtr_bandwidth d = BW_125KHz"
    by (simp add: datarate_unwrap_def idx_def region_defs table_defs)
  have "mask_on (fp_mask (fix_new us915_default_freq)) (fix_index d (rng_draw (\<lambda>n. (n, n + 1)) 0 (0 :: u32)))"
    by (simp add: fix_index_def d fix_new_def mask_default_on)
  then have "\<exists>n. mask_on (fp_mask (fix_new us915_default_freq)) (fix_index d (rng_draw (\<lambda>n. (n, n + 1)) n (0 :: u32)))" ..
  with fixed_data_channel [OF R fix_new_ok b d(1), of "\<lambda>n. (n, n + 1)" 0] show ?thesis by (simp only:)
qed

text \<open>A join on a 500 kHz channel is forced to DR4, which is a 500 kHz data rate in US915 but a
  125 kHz one in AU915 (whose 500 kHz uplink rate is DR6).\<close>

theorem forced_join_bandwidth:
  "map_option dtr_bandwidth (datarate_unwrap us915_region (forced_dr 64)) = Some BW_500KHz \<and>
   map_option dtr_bandwidth (datarate_unwrap au915_region (forced_dr 64)) = Some BW_125KHz \<and>
   map_option dtr_bandwidth (datarate_unwrap au915_region DR6) = Some BW_500KHz"
  by (simp add: forced_dr_def datarate_unwrap_def idx_def region_defs table_defs)

end
