(* ===== verification/Region.thy ===== *)
theory Region
  imports FixedPlan Radio
begin

text \<open>
  \<open>lorawan-device/src/region/mod.rs\<close>: the nine regions (all region features enabled), the
  state of a region, the dispatch macros, and the \<open>Configuration\<close> the MAC layer works with. A
  \<open>Configuration\<close> has the state as its only field, so it is the state itself. The macros
  \<open>region_dispatch!\<close>, \<open>mut_region_dispatch!\<close> and \<open>region_static_dispatch!\<close> are higher-order functions
  that take the method of the dynamic and of the fixed plans.
\<close>

datatype region = AS923_1 | AS923_2 | AS923_3 | AS923_4 | AU915 | EU868 | EU433 | IN865 | US915

datatype region_state = St_AS923_1 dyn_plan | St_AS923_2 dyn_plan | St_AS923_3 dyn_plan
  | St_AS923_4 dyn_plan | St_AU915 fix_plan | St_EU868 dyn_plan | St_EU433 dyn_plan
  | St_IN865 dyn_plan | St_US915 fix_plan

fun state_new :: "region \<Rightarrow> region_state" where
  "state_new AS923_1 = St_AS923_1 (dyn_new as923_1_region as924_generic_freq_check)"
| "state_new AS923_2 = St_AS923_2 (dyn_new as923_2_region as924_generic_freq_check)"
| "state_new AS923_3 = St_AS923_3 (dyn_new as923_3_region as924_generic_freq_check)"
| "state_new AS923_4 = St_AS923_4 (dyn_new as923_4_region as924_4_freq_check)"
| "state_new AU915 = St_AU915 (fix_new au915_default_freq)"
| "state_new EU868 = St_EU868 (dyn_new eu868_region eu868_freq_check)"
| "state_new EU433 = St_EU433 (dyn_new eu433_region eu433_freq_check)"
| "state_new IN865 = St_IN865 (dyn_new in865_region in865_freq_check)"
| "state_new US915 = St_US915 (fix_new us915_default_freq)"

fun state_region :: "region_state \<Rightarrow> region" where
  "state_region (St_AS923_1 _) = AS923_1"
| "state_region (St_AS923_2 _) = AS923_2"
| "state_region (St_AS923_3 _) = AS923_3"
| "state_region (St_AS923_4 _) = AS923_4"
| "state_region (St_AU915 _) = AU915"
| "state_region (St_EU868 _) = EU868"
| "state_region (St_EU433 _) = EU433"
| "state_region (St_IN865 _) = IN865"
| "state_region (St_US915 _) = US915"

fun region_dispatch ::
  "(dynamic_region \<Rightarrow> dyn_plan \<Rightarrow> 'a) \<Rightarrow> (fixed_region \<Rightarrow> fix_plan \<Rightarrow> 'a) \<Rightarrow> region_state \<Rightarrow> 'a" where
  "region_dispatch fd ff (St_AS923_1 p) = fd as923_1_region p"
| "region_dispatch fd ff (St_AS923_2 p) = fd as923_2_region p"
| "region_dispatch fd ff (St_AS923_3 p) = fd as923_3_region p"
| "region_dispatch fd ff (St_AS923_4 p) = fd as923_4_region p"
| "region_dispatch fd ff (St_AU915 p) = ff au915_region p"
| "region_dispatch fd ff (St_EU868 p) = fd eu868_region p"
| "region_dispatch fd ff (St_EU433 p) = fd eu433_region p"
| "region_dispatch fd ff (St_IN865 p) = fd in865_region p"
| "region_dispatch fd ff (St_US915 p) = ff us915_region p"

text \<open>The mutating methods return a value and the new plan.\<close>

fun mut_region_dispatch ::
  "(dynamic_region \<Rightarrow> dyn_plan \<Rightarrow> ('a \<times> dyn_plan) run) \<Rightarrow> (fixed_region \<Rightarrow> fix_plan \<Rightarrow> ('a \<times> fix_plan) run) \<Rightarrow>
   region_state \<Rightarrow> ('a \<times> region_state) run" where
  "mut_region_dispatch fd ff (St_AS923_1 p) = map_option (map_prod id St_AS923_1) (fd as923_1_region p)"
| "mut_region_dispatch fd ff (St_AS923_2 p) = map_option (map_prod id St_AS923_2) (fd as923_2_region p)"
| "mut_region_dispatch fd ff (St_AS923_3 p) = map_option (map_prod id St_AS923_3) (fd as923_3_region p)"
| "mut_region_dispatch fd ff (St_AS923_4 p) = map_option (map_prod id St_AS923_4) (fd as923_4_region p)"
| "mut_region_dispatch fd ff (St_AU915 p) = map_option (map_prod id St_AU915) (ff au915_region p)"
| "mut_region_dispatch fd ff (St_EU868 p) = map_option (map_prod id St_EU868) (fd eu868_region p)"
| "mut_region_dispatch fd ff (St_EU433 p) = map_option (map_prod id St_EU433) (fd eu433_region p)"
| "mut_region_dispatch fd ff (St_IN865 p) = map_option (map_prod id St_IN865) (fd in865_region p)"
| "mut_region_dispatch fd ff (St_US915 p) = map_option (map_prod id St_US915) (ff us915_region p)"

section \<open>The configuration\<close>

definition config_new :: "region \<Rightarrow> region_state" where
  "config_new r = state_new r"

definition rs_get_max_payload_length :: "region_state \<Rightarrow> DR \<Rightarrow> bool \<Rightarrow> bool \<Rightarrow> u8" where
  "rs_get_max_payload_length s dr rep dwell =
     region_dispatch (\<lambda>R _. get_max_payload_length R dr rep dwell) (\<lambda>R _. get_max_payload_length R dr rep dwell) s"

definition rs_get_datarate :: "region_state \<Rightarrow> u8 \<Rightarrow> datarate option run" where
  "rs_get_datarate s dr = region_dispatch (\<lambda>R _. region_get_datarate R dr) (\<lambda>R _. region_get_datarate R dr) s"

text \<open>\<open>map(Some)\<close>: a power that exists is returned as \<open>Some (Some p)\<close>.\<close>

definition rs_check_tx_power :: "region_state \<Rightarrow> u8 \<Rightarrow> u8 option option" where
  "rs_check_tx_power s pw =
     map_option Some (region_dispatch (\<lambda>R _. cr_tx_power_adjust R pw) (\<lambda>R _. cr_tx_power_adjust R pw) s)"

definition rs_select_tx_channel ::
  "('r \<Rightarrow> u32 \<times> 'r) \<Rightarrow> 'r \<Rightarrow> DR \<Rightarrow> frame \<Rightarrow> region_state \<Rightarrow> ((tx_channel \<times> 'r) \<times> region_state) run" where
  "rs_select_tx_channel next_u32 rng dr fr s = mut_region_dispatch
     (\<lambda>R p. map_option (\<lambda>r. (r, p)) (dyn_select_tx_channel next_u32 R rng dr fr p))
     (\<lambda>R p. map_option (\<lambda>(t, p', rng'). ((t, rng'), p')) (fix_select_tx_channel next_u32 R rng dr fr p)) s"

definition rs_process_join_accept :: "cf_list option \<Rightarrow> region_state \<Rightarrow> region_state run" where
  "rs_process_join_accept cf s = map_option snd (mut_region_dispatch
     (\<lambda>R p. map_option (Pair ()) (dyn_process_join_accept R cf p))
     (\<lambda>R p. map_option (Pair ()) (fix_process_join_accept cf p)) s)"

definition rs_channel_mask_get :: "region_state \<Rightarrow> channel_mask" where
  "rs_channel_mask_get s = region_dispatch (\<lambda>_. dyn_channel_mask_get) (\<lambda>_. fix_channel_mask_get) s"

text \<open>A method that neither reads a value nor fails: the state it leaves.\<close>

fun update_dispatch :: "(dyn_plan \<Rightarrow> dyn_plan) \<Rightarrow> (fix_plan \<Rightarrow> fix_plan) \<Rightarrow> region_state \<Rightarrow> region_state" where
  "update_dispatch fd ff (St_AS923_1 p) = St_AS923_1 (fd p)"
| "update_dispatch fd ff (St_AS923_2 p) = St_AS923_2 (fd p)"
| "update_dispatch fd ff (St_AS923_3 p) = St_AS923_3 (fd p)"
| "update_dispatch fd ff (St_AS923_4 p) = St_AS923_4 (fd p)"
| "update_dispatch fd ff (St_AU915 p) = St_AU915 (ff p)"
| "update_dispatch fd ff (St_EU868 p) = St_EU868 (fd p)"
| "update_dispatch fd ff (St_EU433 p) = St_EU433 (fd p)"
| "update_dispatch fd ff (St_IN865 p) = St_IN865 (fd p)"
| "update_dispatch fd ff (St_US915 p) = St_US915 (ff p)"

definition rs_channel_mask_set :: "channel_mask \<Rightarrow> region_state \<Rightarrow> region_state" where
  "rs_channel_mask_set m s = update_dispatch (dyn_channel_mask_set m) (fix_channel_mask_set m) s"

definition rs_channel_mask_update :: "region_state \<Rightarrow> channel_mask \<Rightarrow> u8 \<Rightarrow> channel_mask \<Rightarrow> channel_mask option run" where
  "rs_channel_mask_update s m ctl ch =
     region_dispatch (\<lambda>_ _. dyn_channel_mask_update m ctl ch) (\<lambda>_ _. fix_channel_mask_update m ctl ch) s"

definition rs_channel_mask_validate :: "region_state \<Rightarrow> channel_mask \<Rightarrow> DR option \<Rightarrow> bool run" where
  "rs_channel_mask_validate s m dr =
     region_dispatch (\<lambda>_ p. dyn_channel_mask_validate m dr p) (\<lambda>R _. fix_channel_mask_validate R m dr) s"

definition rs_get_rx_datarate :: "region_state \<Rightarrow> DR \<Rightarrow> u8 \<Rightarrow> window \<Rightarrow> DR" where
  "rs_get_rx_datarate s tx_dr off w =
     region_dispatch (\<lambda>R _. dyn_get_rx_datarate R tx_dr off w) (\<lambda>R _. fix_get_rx_datarate R tx_dr off w) s"

definition rs_get_rx2_frequency :: "region_state \<Rightarrow> u32" where
  "rs_get_rx2_frequency s = region_dispatch (\<lambda>R _. cr_default_rx2_freq R) (\<lambda>R _. cr_default_rx2_freq R) s"

definition rs_get_default_datarate :: "region_state \<Rightarrow> DR" where
  "rs_get_default_datarate s = DR0"

definition rs_get_coding_rate :: "region_state \<Rightarrow> coding_rate" where
  "rs_get_coding_rate s = DEFAULT_CODING_RATE"

definition rs_frequency_valid :: "region_state \<Rightarrow> u32 \<Rightarrow> bool" where
  "rs_frequency_valid s f = region_dispatch (\<lambda>_ p. dp_frequency_valid p f) (\<lambda>_ p. fp_frequency_valid p f) s"

definition rs_has_fixed_channel_plan :: "region_state \<Rightarrow> bool" where
  "rs_has_fixed_channel_plan s = region_dispatch (\<lambda>_ _. False) (\<lambda>_ _. True) s"

text \<open>\<open>unreachable!()\<close> on a fixed plan.\<close>

definition rs_channel_dl_update :: "u8 \<Rightarrow> u32 \<Rightarrow> region_state \<Rightarrow> ((bool \<times> bool) \<times> region_state) run" where
  "rs_channel_dl_update index freq s =
     mut_region_dispatch (\<lambda>_ p. dyn_channel_dl_update index freq p) (\<lambda>_ _. None) s"

definition rs_handle_new_channel ::
  "u8 \<Rightarrow> u32 \<Rightarrow> data_rate_range option \<Rightarrow> region_state \<Rightarrow> ((bool \<times> bool) \<times> region_state) run" where
  "rs_handle_new_channel index freq drs s =
     mut_region_dispatch (\<lambda>R p. dyn_handle_new_channel R index freq drs p) (\<lambda>_ _. None) s"

definition rs_rx1_dr_offset_validate :: "region_state \<Rightarrow> u8 \<Rightarrow> u8 option" where
  "rs_rx1_dr_offset_validate s v =
     region_dispatch (\<lambda>R _. rx1_dr_offset_validate R v) (\<lambda>R _. rx1_dr_offset_validate R v) s"

text \<open>The power of index 0 is unwrapped twice.\<close>

definition rs_create_tx_config ::
  "('r \<Rightarrow> u32 \<times> 'r) \<Rightarrow> 'r \<Rightarrow> DR \<Rightarrow> frame \<Rightarrow> region_state \<Rightarrow> ((tx_config \<times> tx_channel \<times> 'r) \<times> region_state) run" where
  "rs_create_tx_config next_u32 rng dr fr s = do {
     ((t, rng'), s') \<leftarrow> rs_select_tx_channel next_u32 rng dr fr s;
     p \<leftarrow> rs_check_tx_power s' 0;
     pw \<leftarrow> p;
     Some ((\<lparr>tx_pw = pw,
             tx_rf = \<lparr>rf_frequency = txc_frequency t,
                      rf_bb = bbmp_new (dtr_spreading_factor (txc_datarate t)) (dtr_bandwidth (txc_datarate t))
                                (rs_get_coding_rate s'),
                      rf_max_payload_len = dtr_max_mac_payload_size (txc_datarate t)\<rparr>\<rparr>, t, rng'), s')}"

section \<open>The invariant\<close>

definition rs_ok :: "region_state \<Rightarrow> bool" where
  "rs_ok s = region_dispatch (\<lambda>R p. dyn_ok R p) (\<lambda>_ p. fix_ok p) s"

text \<open>Every state is a dynamic plan of a dynamic region or a fixed plan of a fixed one, and the
  dispatchers call the methods of that plan.\<close>

definition dyn_state :: "(dyn_plan \<Rightarrow> region_state) \<Rightarrow> dynamic_region \<Rightarrow> bool" where
  "dyn_state mk R \<longleftrightarrow> (mk, R) \<in> {(St_AS923_1, as923_1_region), (St_AS923_2, as923_2_region),
     (St_AS923_3, as923_3_region), (St_AS923_4, as923_4_region), (St_EU868, eu868_region),
     (St_EU433, eu433_region), (St_IN865, in865_region)}"

definition fix_state :: "(fix_plan \<Rightarrow> region_state) \<Rightarrow> fixed_region \<Rightarrow> bool" where
  "fix_state mk R \<longleftrightarrow> (mk, R) \<in> {(St_AU915, au915_region), (St_US915, us915_region)}"

lemma rs_cases:
  obtains (dynamic) R p mk where "dyn_state mk R" "s = mk p"
  | (fixed) R p mk where "fix_state mk R" "s = mk p"
proof (cases s)
  case (St_AS923_1 p)
  then show thesis by (intro dynamic [of St_AS923_1 as923_1_region p]) (simp_all add: dyn_state_def)
next
  case (St_AS923_2 p)
  then show thesis by (intro dynamic [of St_AS923_2 as923_2_region p]) (simp_all add: dyn_state_def)
next
  case (St_AS923_3 p)
  then show thesis by (intro dynamic [of St_AS923_3 as923_3_region p]) (simp_all add: dyn_state_def)
next
  case (St_AS923_4 p)
  then show thesis by (intro dynamic [of St_AS923_4 as923_4_region p]) (simp_all add: dyn_state_def)
next
  case (St_AU915 p)
  then show thesis by (intro fixed [of St_AU915 au915_region p]) (simp_all add: fix_state_def)
next
  case (St_EU868 p)
  then show thesis by (intro dynamic [of St_EU868 eu868_region p]) (simp_all add: dyn_state_def)
next
  case (St_EU433 p)
  then show thesis by (intro dynamic [of St_EU433 eu433_region p]) (simp_all add: dyn_state_def)
next
  case (St_IN865 p)
  then show thesis by (intro dynamic [of St_IN865 in865_region p]) (simp_all add: dyn_state_def)
next
  case (St_US915 p)
  then show thesis by (intro fixed [of St_US915 us915_region p]) (simp_all add: fix_state_def)
qed

lemma dyn_state_region: "dyn_state mk R \<Longrightarrow> R \<in> set dynamic_regions"
  by (auto simp: dyn_state_def dynamic_regions_def)

lemma fix_state_region: "fix_state mk R \<Longrightarrow> R \<in> set fixed_regions"
  by (auto simp: fix_state_def fixed_regions_def)

lemma dyn_dispatch:
  assumes "dyn_state mk R"
  shows "region_dispatch fd ff (mk q) = fd R q"
    "mut_region_dispatch gd gf (mk q) = map_option (map_prod id mk) (gd R q)"
    "update_dispatch ud uf (mk q) = mk (ud q)"
  using assms by (auto simp: dyn_state_def)

lemma fix_dispatch:
  assumes "fix_state mk R"
  shows "region_dispatch fd ff (mk q) = ff R q"
    "mut_region_dispatch gd gf (mk q) = map_option (map_prod id mk) (gf R q)"
    "update_dispatch ud uf (mk q) = mk (uf q)"
  using assms by (auto simp: fix_state_def)

lemmas rs_defs = rs_get_max_payload_length_def rs_get_datarate_def rs_check_tx_power_def
  rs_select_tx_channel_def rs_process_join_accept_def rs_channel_mask_get_def rs_channel_mask_set_def
  rs_channel_mask_update_def rs_channel_mask_validate_def rs_get_rx_datarate_def rs_get_rx2_frequency_def
  rs_frequency_valid_def rs_has_fixed_channel_plan_def rs_channel_dl_update_def rs_handle_new_channel_def
  rs_rx1_dr_offset_validate_def rs_ok_def

lemma state_new_ok: "rs_ok (state_new r)"
proof -
  have d: "R \<in> set dynamic_regions \<Longrightarrow> dyn_ok R (dyn_new R f)" for R f by (rule dyn_new_ok)
  show ?thesis by (cases r) (simp_all add: rs_ok_def fix_new_ok d dynamic_regions_def)
qed

lemma state_region_new: "state_region (state_new r) = r"
  by (cases r) simp_all

interpretation region: region_handler rs_ok rs_channel_mask_get rs_channel_mask_set
  rs_channel_mask_update rs_channel_mask_validate rs_process_join_accept rs_get_datarate
proof
  show "length (rs_channel_mask_get s) = 9" if "rs_ok s" for s
  proof (cases s rule: rs_cases)
    case (dynamic R p mk)
    then show ?thesis using that dyn.get_length [of R p] dyn_state_region [OF dynamic(1)]
      by (simp add: rs_defs dyn_dispatch)
  next
    case (fixed R p mk)
    then show ?thesis using that fixed.get_length [of R p] fix_state_region [OF fixed(1)]
      by (simp add: rs_defs fix_dispatch)
  qed
  show "rs_ok (rs_channel_mask_set m s)" if "rs_ok s" "length m = 9" for s m
  proof (cases s rule: rs_cases)
    case (dynamic R p mk)
    then show ?thesis using that dyn.set_inv [of R p m] dyn_state_region [OF dynamic(1)]
      by (simp add: rs_defs dyn_dispatch)
  next
    case (fixed R p mk)
    then show ?thesis using that fixed.set_inv [of R p m] fix_state_region [OF fixed(1)]
      by (simp add: rs_defs fix_dispatch)
  qed
  show "rs_channel_mask_get (rs_channel_mask_set m s) = m" for s m
    by (cases s rule: rs_cases) (simp_all add: rs_defs dyn_dispatch fix_dispatch dyn.get_set fixed.get_set)
  show "\<exists>r. rs_channel_mask_update s m ctl ch = Some r \<and> (\<forall>m'. r = Some m' \<longrightarrow> length m' = 9)"
    if "length m = 9" "length ch = 2" "ctl \<noteq> 4" for s m ch ctl
    by (cases s rule: rs_cases)
       (use that dyn.update_total [OF that] fixed.update_total [OF that] in \<open>simp_all add: rs_defs dyn_dispatch fix_dispatch\<close>)
  show "\<exists>b. rs_channel_mask_validate s m dr = Some b" if "rs_ok s" "length m = 9" "dr \<noteq> Some DR15" for s m dr
  proof (cases s rule: rs_cases)
    case (dynamic R p mk)
    then show ?thesis using that dyn.validate_total [of R p m dr] dyn_state_region [OF dynamic(1)]
      by (simp add: rs_defs dyn_dispatch)
  next
    case (fixed R p mk)
    then show ?thesis using that fixed.validate_total [of R p m dr] fix_state_region [OF fixed(1)]
      by (simp add: rs_defs fix_dispatch)
  qed
  show "\<exists>s'. rs_process_join_accept cf s = Some s' \<and> rs_ok s'"
    if "rs_ok s" "\<And>x. cf = Some x \<Longrightarrow> cf_list_wf x" for s cf
  proof (cases s rule: rs_cases)
    case (dynamic R p mk)
    then show ?thesis using that dyn.join_inv [of R p cf] dyn_state_region [OF dynamic(1)]
      by (auto simp: rs_defs dyn_dispatch)
  next
    case (fixed R p mk)
    then show ?thesis using that fixed.join_inv [of R p cf] fix_state_region [OF fixed(1)]
      by (auto simp: rs_defs fix_dispatch)
  qed
  show "\<exists>d. rs_get_datarate s n = Some d" if "rs_ok s" "unat n < 15" for s n
  proof (cases s rule: rs_cases)
    case (dynamic R p mk)
    then show ?thesis using that dyn.datarate_total [of R p n] dyn_state_region [OF dynamic(1)]
      by (simp add: rs_defs dyn_dispatch)
  next
    case (fixed R p mk)
    then show ?thesis using that fixed.datarate_total [of R p n] fix_state_region [OF fixed(1)]
      by (simp add: rs_defs fix_dispatch)
  qed
qed

section \<open>Operations of the MAC layer\<close>

lemma rs_channel_dl_update_ok:
  assumes "rs_ok s" "\<not> rs_has_fixed_channel_plan s"
  shows "\<exists>a s'. rs_channel_dl_update index freq s = Some (a, s') \<and> rs_ok s' \<and>
    rs_channel_mask_get s' = rs_channel_mask_get s"
proof (cases s rule: rs_cases)
  case (dynamic R p mk)
  then have "dyn_ok R p" using assms(1) by (simp add: rs_defs dyn_dispatch)
  from dyn_channel_dl_update_ok [OF this, of index freq] dynamic show ?thesis
    by (auto simp: rs_defs dyn_dispatch dyn_channel_mask_get_def)
next
  case (fixed R p mk)
  then show ?thesis using assms(2) by (simp add: rs_defs fix_dispatch)
qed

lemma rs_handle_new_channel_ok:
  assumes "rs_ok s" "\<not> rs_has_fixed_channel_plan s"
  shows "\<exists>a s'. rs_handle_new_channel index freq drs s = Some (a, s') \<and> rs_ok s'"
proof (cases s rule: rs_cases)
  case (dynamic R p mk)
  then have "dyn_ok R p" using assms(1) by (simp add: rs_defs dyn_dispatch)
  from dyn_handle_new_channel_ok [OF dynamic_regions_ok [OF dyn_state_region [OF dynamic(1)]] this, of index freq drs] dynamic
  show ?thesis by (auto simp: rs_defs dyn_dispatch)
next
  case (fixed R p mk)
  then show ?thesis using assms(2) by (simp add: rs_defs fix_dispatch)
qed

text \<open>The kind of plan, and so which commands are ignored, never changes.\<close>

lemma rs_kind_kept:
  "rs_has_fixed_channel_plan (rs_channel_mask_set m s) = rs_has_fixed_channel_plan s"
  "rs_channel_dl_update index freq s = Some (a, s') \<Longrightarrow> rs_has_fixed_channel_plan s' = rs_has_fixed_channel_plan s"
  "rs_handle_new_channel index freq drs s = Some (a, s') \<Longrightarrow> rs_has_fixed_channel_plan s' = rs_has_fixed_channel_plan s"
  "rs_process_join_accept cf s = Some s' \<Longrightarrow> rs_has_fixed_channel_plan s' = rs_has_fixed_channel_plan s"
  by (cases s rule: rs_cases; auto simp: rs_defs dyn_dispatch fix_dispatch)+

lemma rs_check_tx_power_0: "\<exists>p. rs_check_tx_power s 0 = Some (Some p)"
proof (cases s rule: rs_cases)
  case (dynamic R p mk)
  then show ?thesis using dynamic_region_ok [OF dyn_state_region [OF dynamic(1)]]
    by (auto simp: rs_defs dyn_dispatch region_ok_def)
next
  case (fixed R p mk)
  then show ?thesis using fixed_region_ok [OF fix_state_region [OF fixed(1)]]
    by (auto simp: rs_defs fix_dispatch region_ok_def)
qed

text \<open>A selected channel keeps the plan well formed and carries a data rate of the region.\<close>

lemma rs_select_Some:
  assumes "rs_ok s" "rs_select_tx_channel next_u32 rng dr fr s = Some ((t, rng'), s')"
  shows "rs_ok s' \<and> rs_get_datarate s' (dr_u8 (txc_dr t)) = Some (Some (txc_datarate t)) \<and>
    rs_channel_mask_get s' = rs_channel_mask_get s"
proof (cases s rule: rs_cases)
  case (dynamic R p mk)
  then have "dyn_select_tx_channel next_u32 R rng dr fr p = Some (t, rng')" "s' = s"
    using assms(2) by (auto simp: rs_defs dyn_dispatch)
  moreover from this have "datarate_unwrap R (txc_dr t) = Some (txc_datarate t)"
    by (cases fr) (auto simp: dyn_select_tx_channel_def dyn_tx_channel_def bind_eq_Some_conv split: prod.splits)
  ultimately show ?thesis using assms(1) dynamic
    by (auto simp: rs_defs dyn_dispatch datarate_unwrap_def region_get_datarate_def dr_idx_def bind_eq_Some_conv)
next
  case (fixed R p mk)
  then obtain p' where f: "fix_select_tx_channel next_u32 R rng dr fr p = Some (t, p', rng')" "s' = mk p'"
    using assms(2) by (auto simp: rs_defs fix_dispatch)
  have "fix_ok p" using assms(1) fixed by (simp add: rs_defs fix_dispatch)
  from fix_select_Some [OF fix_state_region [OF fixed(1)] this f(1)] show ?thesis using f(2) fixed
    by (auto simp: rs_defs fix_dispatch datarate_unwrap_def region_get_datarate_def dr_idx_def
        bind_eq_Some_conv fix_channel_mask_get_def)
qed

lemma rs_create_tx_config_Some:
  assumes "rs_ok s" "rs_create_tx_config next_u32 rng dr fr s = Some ((c, t, rng'), s')"
  shows "rs_ok s' \<and> rs_get_datarate s' (dr_u8 (txc_dr t)) = Some (Some (txc_datarate t)) \<and>
    rf_frequency (tx_rf c) = txc_frequency t \<and> bb_bw (rf_bb (tx_rf c)) = dtr_bandwidth (txc_datarate t) \<and>
    rs_channel_mask_get s' = rs_channel_mask_get s"
  using rs_select_Some [OF assms(1), of next_u32 rng dr fr t rng' s'] assms(2)
  by (auto simp: rs_create_tx_config_def bind_eq_Some_conv bbmp_new_def Let_def)

lemma rs_create_tx_config_iff:
  "rs_create_tx_config next_u32 rng dr fr s \<noteq> None \<longleftrightarrow> rs_select_tx_channel next_u32 rng dr fr s \<noteq> None"
proof (cases "rs_select_tx_channel next_u32 rng dr fr s")
  case (Some x)
  obtain t r s' where x: "x = ((t, r), s')" by (metis prod.collapse)
  obtain p where "rs_check_tx_power s' 0 = Some (Some p)" using rs_check_tx_power_0 by blast
  then show ?thesis using Some x by (simp add: rs_create_tx_config_def)
qed (simp add: rs_create_tx_config_def)

section \<open>The data rates of the receive windows\<close>

lemma dr_idx_min7: "dr_idx (dr_from (min x 7)) < 15"
proof -
  have "min x 7 \<le> (7 :: u8)" by simp
  then have "unat (min x 7) \<le> 7" by (simp add: word_le_nat_alt)
  then show ?thesis by (simp add: dr_idx_from)
qed

lemma dr_idx_clamp: "hi \<le> 13 \<Longrightarrow> lo \<le> hi \<Longrightarrow> dr_idx (dr_from (u8_clamp x lo hi)) < 15"
proof -
  assume "hi \<le> 13" "lo \<le> hi"
  then have "u8_clamp x lo hi \<le> 13" by (auto simp: u8_clamp_def)
  then have "unat (u8_clamp x lo hi) \<le> 13" by (simp add: word_le_nat_alt)
  then show ?thesis by (simp add: dr_idx_from)
qed

lemma dyn_rx_datarate:
  assumes "R \<in> set dynamic_regions"
  shows "dr_idx (dyn_get_rx_datarate R tx off w) < 15"
    "\<exists>d. cr_datarates R ! dr_idx (dyn_get_rx_datarate R tx off Window2) = Some d"
proof -
  have sub: "d \<noteq> DR15 \<Longrightarrow> dr_idx (offset_sub d v) < 15" for d v
    by (cases d) (simp_all add: dr_idx_offset_sub)
  have e: "eu868_base_dr d \<noteq> DR15" "eu433_base_dr d \<noteq> DR15" for d
    by (cases d; simp add: eu433_base_dr_def)+
  have w1: "dr_idx (eu868_get_rx_datarate tx off w) < 15" "dr_idx (eu433_get_rx_datarate tx off w) < 15"
    "dr_idx (in865_get_rx_datarate tx off w) < 15" "dr_idx (as923_get_rx_datarate tx off w) < 15"
    using dr_idx_min7 by (cases w; auto simp: sub e)+
  then show "dr_idx (dyn_get_rx_datarate R tx off w) < 15"
    using assms by (auto simp: dynamic_regions_def region_defs)
  show "\<exists>d. cr_datarates R ! dr_idx (dyn_get_rx_datarate R tx off Window2) = Some d"
    using assms by (auto simp: dynamic_regions_def region_defs table_defs)
qed

lemma fix_rx_datarate:
  assumes "R \<in> set fixed_regions"
  shows "dr_idx (fix_get_rx_datarate R tx off w) < 15"
    "\<exists>d. cr_datarates R ! dr_idx (fix_get_rx_datarate R tx off Window2) = Some d"
proof -
  have "dr_idx (us915_get_rx_datarate tx off w) < 15" "dr_idx (au915_get_rx_datarate tx off w) < 15"
    by (cases w; auto intro!: dr_idx_clamp)+
  then show "dr_idx (fix_get_rx_datarate R tx off w) < 15"
    using assms by (auto simp: fixed_regions_def region_defs)
  show "\<exists>d. cr_datarates R ! dr_idx (fix_get_rx_datarate R tx off Window2) = Some d"
    using assms by (auto simp: fixed_regions_def region_defs table_defs)
qed

lemma rs_rx_datarate:
  "dr_idx (rs_get_rx_datarate s tx off w) < 15"
  "\<exists>d. rs_get_datarate s (dr_u8 (rs_get_rx_datarate s tx off Window2)) = Some (Some d)"
proof -
  have i: "region_get_datarate R (dr_u8 x) = idx (cr_datarates R) (dr_idx x)" for R :: "'x channel_region_scheme" and x
    by (simp add: region_get_datarate_def dr_idx_def)
  have "dr_idx (rs_get_rx_datarate s tx off w) < 15 \<and>
    (\<exists>d. rs_get_datarate s (dr_u8 (rs_get_rx_datarate s tx off Window2)) = Some (Some d))"
  proof (cases s rule: rs_cases)
    case (dynamic R p mk)
    note R = dyn_state_region [OF dynamic(1)]
    then show ?thesis using dynamic dyn_rx_datarate [OF R, of tx off] dynamic_region_ok [OF R]
      by (simp add: rs_defs dyn_dispatch i region_ok_def)
  next
    case (fixed R p mk)
    note R = fix_state_region [OF fixed(1)]
    then show ?thesis using fixed fix_rx_datarate [OF R, of tx off] fixed_region_ok [OF R]
      by (simp add: rs_defs fix_dispatch i region_ok_def)
  qed
  then show "dr_idx (rs_get_rx_datarate s tx off w) < 15"
    "\<exists>d. rs_get_datarate s (dr_u8 (rs_get_rx_datarate s tx off Window2)) = Some (Some d)" by blast+
qed

end
