(* ===== verification/SessionState.thy ===== *)
theory SessionState
  imports UplinkQueue Region
begin

text \<open>
  The state the MAC layer keeps for a session (\<open>Session\<close> of \<open>lorawan-device/src/mac/session.rs\<close>,
  \<open>Configuration\<close> and \<open>Response\<close> of \<open>lorawan-device/src/mac/mod.rs\<close>) and its counters: the 32-bit
  downlink counter rebuilt from the 16 bits on the wire, and the end of the second receive window,
  which counts uplinks without an answer and lowers the data rate. The crate is modelled with its
  default features. Keys, addresses and nonces are their bytes.
\<close>

datatype mac_response = NoAck | SessionExpired | DownlinkReceived u32 | NoJoinAccept | JoinSuccess
  | NoUpdate | RxComplete | LinkCheckReqResponse

record session =
  ss_uplink :: uplink_state
  ss_confirmed :: bool
  ss_nwkskey :: bytes
  ss_appskey :: bytes
  ss_devaddr :: bytes
  ss_fcnt_up :: u32
  ss_fcnt_down :: "u32 option"
  ss_adr_ack_cnt :: u32

definition session_new :: "bytes \<Rightarrow> bytes \<Rightarrow> bytes \<Rightarrow> session" where
  "session_new nwkskey appskey devaddr =
     \<lparr>ss_uplink = uplink_default, ss_confirmed = False, ss_nwkskey = nwkskey, ss_appskey = appskey,
      ss_devaddr = devaddr, ss_fcnt_up = 0, ss_fcnt_down = None, ss_adr_ack_cnt = 0\<rparr>"

record session_keys =
  sk_nwkskey :: bytes
  sk_appskey :: bytes
  sk_devaddr :: bytes

definition get_session_keys :: "session \<Rightarrow> session_keys option" where
  "get_session_keys s =
     Some \<lparr>sk_nwkskey = ss_nwkskey s, sk_appskey = ss_appskey s, sk_devaddr = ss_devaddr s\<rparr>"

record mac_configuration =
  cfg_data_rate :: DR
  cfg_rx1_delay :: u32
  cfg_join_accept_delay1 :: u32
  cfg_join_accept_delay2 :: u32
  cfg_tx_power :: "u8 option"
  cfg_rx1_dr_offset :: u8
  cfg_rx2_data_rate :: "DR option"
  cfg_rx2_frequency :: "u32 option"
  cfg_adr_enabled :: bool

definition RECEIVE_DELAY1 :: u32 where "RECEIVE_DELAY1 = 1000"
definition JOIN_ACCEPT_DELAY1 :: u32 where "JOIN_ACCEPT_DELAY1 = 5000"
definition JOIN_ACCEPT_DELAY2 :: u32 where "JOIN_ACCEPT_DELAY2 = 6000"
definition MAX_FCNT_GAP :: u32 where "MAX_FCNT_GAP = 16384"
definition ADR_ACK_LIMIT :: u32 where "ADR_ACK_LIMIT = 64"
definition ADR_ACK_DELAY :: u32 where "ADR_ACK_DELAY = 32"

definition del_to_delay_ms :: "u8 \<Rightarrow> u32" where
  "del_to_delay_ms del = (if 2 \<le> del \<and> del \<le> 15 then ucast del * 1000 else RECEIVE_DELAY1)"

section \<open>The downlink frame counter\<close>

definition next_fcnt_down :: "u32 option \<Rightarrow> u16 \<Rightarrow> u32 option" where
  "next_fcnt_down prev wire = (case prev of
      None \<Rightarrow> Some (ucast wire)
    | Some lst \<Rightarrow>
        let high = lst AND 0xFFFF0000;
            reconstructed =
              (if wire \<ge> ucast lst then high OR ucast wire
               else (high + 0x10000) OR ucast wire)
        in if lst \<le> reconstructed
           then (let gap = reconstructed - lst
                 in if 0 < gap \<and> gap \<le> MAX_FCNT_GAP then Some reconstructed else None)
           else None)"

section \<open>Data rate backoff\<close>

text \<open>\<open>for candidate in (0..current).rev()\<close>\<close>

fun lower_loop :: "region_state \<Rightarrow> nat \<Rightarrow> DR option run" where
  "lower_loop region 0 = Some None"
| "lower_loop region (Suc candidate) = do {
     d \<leftarrow> rs_get_datarate region (word_of_nat candidate);
     if d \<noteq> None then Some (Some (dr_from (word_of_nat candidate)))
     else lower_loop region candidate}"

definition next_lower_datarate :: "region_state \<Rightarrow> DR \<Rightarrow> DR option run" where
  "next_lower_datarate region current =
     (if dr_u8 current = 0 then Some None else lower_loop region (unat (dr_u8 current)))"

definition saturating_add1 :: "u32 \<Rightarrow> u32" where
  "saturating_add1 n = (if n = 0xFFFFFFFF then n else n + 1)"

definition rx2_complete ::
  "mac_configuration \<Rightarrow> region_state \<Rightarrow> session \<Rightarrow> (mac_response \<times> session \<times> mac_configuration) run" where
  "rx2_complete conf region s =
     (if ss_fcnt_up s = 0xFFFFFFFF then Some (SessionExpired, s, conf)
      else do {
        let s1 = s\<lparr>ss_fcnt_up := ss_fcnt_up s + 1\<rparr>;
        (s2, conf2) \<leftarrow>
          (if cfg_adr_enabled conf
           then do {
             let cnt = saturating_add1 (ss_adr_ack_cnt s1);
             let s2 = s1\<lparr>ss_adr_ack_cnt := cnt\<rparr>;
             if cnt \<ge> ADR_ACK_LIMIT + ADR_ACK_DELAY \<and> (cnt - ADR_ACK_LIMIT) mod ADR_ACK_DELAY = 0
             then do {
               lower \<leftarrow> next_lower_datarate region (cfg_data_rate conf);
               Some (s2, case lower of None \<Rightarrow> conf | Some dr \<Rightarrow> conf\<lparr>cfg_data_rate := dr\<rparr>)}
             else Some (s2, conf)}
           else Some (s1, conf));
        Some (if ss_confirmed s2 then NoAck else RxComplete, s2, conf2)})"

section \<open>Facts about the counter\<close>

lemma u32_split: "unat (w :: u32) = 65536 * (unat w div 65536) + unat (ucast w :: u16)"
  by (simp add: unsigned_ucast_eq take_bit_eq_mod)

lemma unat_u16_less: "unat (w :: u16) < 65536"
  using unsigned_less [of w] by simp

lemma unat_high_part: "unat ((w :: u32) AND 0xFFFF0000) = 65536 * (unat w div 65536)"
proof -
  have m: "(0xFFFF0000 :: u32) = NOT (mask 16)" by (simp add: mask_eq_exp_minus_1)
  have "(w AND mask 16) + (w AND NOT (mask 16)) = w"
    by (subst disjunctive_add_eq_or) (auto intro!: bit_word_eqI simp: bit_simps)
  then have "w AND NOT (mask 16) = w - (w AND mask 16)" by (metis add_diff_cancel_left')
  moreover have le: "w AND mask 16 \<le> w" by (rule word_and_le2)
  ultimately have "unat (w AND 0xFFFF0000) = unat w - unat (w AND mask 16)"
    unfolding m by (simp only: unat_sub [OF le])
  then show ?thesis using unat_and_mask [of w 16] by (simp add: minus_mod_eq_mult_div)
qed

lemma high_or_wire:
  assumes "unat (h :: u32) = 65536 * k"
  shows "unat (h OR ucast (v :: u16)) = 65536 * k + unat v" "ucast (h OR ucast v) = v"
proof -
  have hz: "take_bit 16 h = 0"
  proof (rule unsigned_word_eqI)
    show "unat (take_bit 16 h) = unat (0 :: u32)"
      using assms by (simp only: unsigned_take_bit_eq) (simp add: take_bit_eq_mod)
  qed
  have dis: "h AND ucast v = 0"
  proof (rule bit_word_eqI)
    fix n assume n: "n < LENGTH(32)"
    have "bit (take_bit 16 h) n = False" using hz by simp
    then show "bit (h AND ucast v) n = bit (0 :: u32) n" using n
      by (auto simp: bit_simps dest: bit_imp_le_length)
  qed
  then have "h OR ucast v = h + ucast v" by (simp add: disjunctive_add_eq_or)
  moreover have "unat (h + ucast v) = unat h + unat (ucast v :: u32)"
  proof -
    have "unat h + unat (ucast v :: u32) < 2 ^ 32"
    proof -
      have "unat h < 2 ^ 32" using unsigned_less [of h] by simp
      then have "k < 65536" using assms by simp
      then show ?thesis using unat_u16_less [of v] assms by (simp add: unsigned_ucast_eq take_bit_eq_mod)
    qed
    then show ?thesis using unat_add_lem [of h "ucast v"] by simp
  qed
  moreover have "unat (ucast v :: u32) = unat v"
    using unat_u16_less [of v] by (simp add: unsigned_ucast_eq take_bit_eq_mod)
  ultimately show "unat (h OR ucast v) = 65536 * k + unat v" using assms by simp
  show "ucast (h OR ucast v) = v"
  proof (rule bit_word_eqI)
    fix n assume n: "n < LENGTH(16)"
    have "bit (take_bit 16 h) n = False" using hz by simp
    then show "bit (ucast (h OR ucast v) :: u16) n = bit v n" using n by (simp add: bit_simps)
  qed
qed

text \<open>The reconstructed value: the only one in the window above the last counter that ends in the
  wire's 16 bits.\<close>

lemma next_fcnt_down_iff:
  "next_fcnt_down (Some lst) wire = Some n \<longleftrightarrow>
     unat lst < unat n \<and> unat n \<le> unat lst + 16384 \<and> ucast n = wire"
proof -
  let ?k = "unat lst div 65536"
  let ?h = "lst AND 0xFFFF0000"
  have last: "unat lst = 65536 * ?k + unat (ucast lst :: u16)" by (rule u32_split)
  have k: "?k < 65536" using unsigned_less [of lst] by (simp add: div_less_iff_less_mult)
  have h: "unat ?h = 65536 * ?k" by (rule unat_high_part)
  have n: "unat n = 65536 * (unat n div 65536) + unat (ucast n :: u16)" by (rule u32_split)
  have nk: "unat n div 65536 < 65536" using unsigned_less [of n] by (simp add: div_less_iff_less_mult)
  note bw = unat_u16_less [of wire] and bl = unat_u16_less [of "ucast lst"] and bn = unat_u16_less [of "ucast n"]
  define r where "r = (if wire \<ge> ucast lst then ?h OR ucast wire else (?h + 0x10000) OR ucast wire)"
  have d: "next_fcnt_down (Some lst) wire =
      (if lst \<le> r then if 0 < r - lst \<and> r - lst \<le> MAX_FCNT_GAP then Some r else None else None)"
    by (simp only: next_fcnt_down_def option.case Let_def r_def)
  have eq: "next_fcnt_down (Some lst) wire = Some n \<longleftrightarrow>
      n = r \<and> unat lst < unat r \<and> unat r \<le> unat lst + 16384"
  proof (cases "lst \<le> r")
    case True
    then have "unat (r - lst) = unat r - unat lst" "unat lst \<le> unat r"
      by (simp_all add: unat_sub word_le_nat_alt)
    then show ?thesis using True
      by (auto simp: d MAX_FCNT_GAP_def word_less_nat_alt word_le_nat_alt)
  next
    case False
    then show ?thesis by (auto simp: d word_le_nat_alt)
  qed
  show ?thesis
  proof (cases "wire \<ge> ucast lst")
    case True
    then have r: "unat r = 65536 * ?k + unat wire" "ucast r = wire"
      using high_or_wire [OF h, of wire] by (simp_all add: r_def)
    have "n = r" if a: "unat lst < unat n" "unat n \<le> unat lst + 16384" "ucast n = wire"
    proof -
      have "unat n div 65536 = ?k" using a last n bl bw True by (auto simp: word_le_nat_alt)
      then have "unat n = unat r" using n r a(3) by simp
      then show ?thesis by (rule unsigned_word_eqI)
    qed
    then show ?thesis using eq r by auto
  next
    case False
    then have lt: "unat wire < unat (ucast lst :: u16)" by (simp add: word_le_nat_alt)
    show ?thesis
    proof (cases "?k + 1 < 65536")
      case True
      have "unat (?h + 0x10000) = 65536 * (?k + 1)" using h True by (simp add: unat_word_ariths)
      from high_or_wire [OF this, of wire] False
      have r: "unat r = 65536 * (?k + 1) + unat wire" "ucast r = wire" by (simp_all add: r_def)
      have "n = r" if a: "unat lst < unat n" "unat n \<le> unat lst + 16384" "ucast n = wire"
      proof -
        have "unat n div 65536 = ?k + 1" using a last n bl bn lt by auto
        then have "unat n = unat r" using n r a(3) by simp
        then show ?thesis by (rule unsigned_word_eqI)
      qed
      then show ?thesis using eq r by auto
    next
      case wrap: False
      then have "?k = 65535" using k by simp
      then have "?h + 0x10000 = 0" using h
        by (simp add: word_unat_eq_iff unat_word_ariths)
      then have r: "unat r = unat wire"
        using False bw by (simp add: r_def unsigned_ucast_eq take_bit_eq_mod)
      have "\<not> (unat lst < unat n \<and> unat n \<le> unat lst + 16384 \<and> ucast n = wire)"
        using last n nk lt \<open>?k = 65535\<close> by auto
      moreover have "\<not> unat lst < unat r" using r last lt \<open>?k = 65535\<close> by simp
      ultimately show ?thesis using eq by auto
    qed
  qed
qed

lemma next_fcnt_down_None:
  "next_fcnt_down prev wire = None \<longleftrightarrow>
     (\<exists>lst. prev = Some lst \<and>
       \<not> (\<exists>n :: u32. unat lst < unat n \<and> unat n \<le> unat lst + 16384 \<and> ucast n = wire))"
proof (cases prev)
  case None
  then show ?thesis by (simp add: next_fcnt_down_def)
next
  case (Some lst)
  have "next_fcnt_down prev wire = None \<longleftrightarrow> (\<nexists>n :: u32. next_fcnt_down (Some lst) wire = Some n)"
    using Some by (cases "next_fcnt_down (Some lst) wire") auto
  then show ?thesis using Some by (simp add: next_fcnt_down_iff)
qed

section \<open>Facts about the backoff\<close>

lemma lower_loop_total:
  assumes "rs_ok region" "n \<le> 15"
  shows "\<exists>r. lower_loop region n = Some r \<and>
    (case r of None \<Rightarrow> \<forall>k < n. rs_get_datarate region (word_of_nat k) = Some None
     | Some d \<Rightarrow> dr_idx d < n \<and> (\<exists>x. rs_get_datarate region (dr_u8 d) = Some (Some x)) \<and>
         (\<forall>k. dr_idx d < k \<and> k < n \<longrightarrow> rs_get_datarate region (word_of_nat k) = Some None))"
  using assms(2)
proof (induction n)
  case 0
  then show ?case by simp
next
  case (Suc n)
  have u: "unat (word_of_nat n :: u8) = n" using Suc.prems by (simp add: unat_of_nat)
  then obtain d where d: "rs_get_datarate region (word_of_nat n) = Some d"
    using region.datarate_total [OF assms(1), of "word_of_nat n"] Suc.prems by auto
  show ?case
  proof (cases d)
    case None
    then show ?thesis using Suc d by (auto simp: less_Suc_eq split: option.splits)
  next
    case (Some x)
    have i: "dr_idx (dr_from (word_of_nat n)) = n" using u Suc.prems by (simp add: dr_idx_from)
    then have "dr_u8 (dr_from (word_of_nat n)) = word_of_nat n"
      by (simp add: word_unat_eq_iff dr_idx_def u)
    then show ?thesis using Some d i by auto
  qed
qed

text \<open>The next lower data rate is the largest one below the current that the region defines.\<close>

lemma next_lower_datarate_total:
  assumes "rs_ok region"
  shows "\<exists>r. next_lower_datarate region dr = Some r \<and>
    (case r of None \<Rightarrow> \<forall>k < dr_idx dr. rs_get_datarate region (word_of_nat k) = Some None
     | Some d \<Rightarrow> d < dr \<and> (\<exists>x. rs_get_datarate region (dr_u8 d) = Some (Some x)) \<and>
         (\<forall>k. dr_idx d < k \<and> k < dr_idx dr \<longrightarrow> rs_get_datarate region (word_of_nat k) = Some None))"
proof -
  have z: "dr_u8 dr = 0 \<longleftrightarrow> dr_idx dr = 0" by (simp add: dr_idx_def unat_eq_0)
  have "dr_idx dr \<le> 15" using dr_idx_less [of dr] by linarith
  from lower_loop_total [OF assms this] show ?thesis
    using z by (auto simp: next_lower_datarate_def dr_idx_def [symmetric] less_DR_def split: option.splits)
qed

text \<open>Every data rate of the configuration can index the table of the region.\<close>

definition cfg_ok :: "mac_configuration \<Rightarrow> bool" where
  "cfg_ok conf \<longleftrightarrow> cfg_data_rate conf \<noteq> DR15 \<and> cfg_rx2_data_rate conf \<noteq> Some DR15"

lemma not_DR15: "d \<noteq> DR15 \<longleftrightarrow> dr_idx d < 15"
  by (cases d) simp_all

lemma cfg_ok_lower: "cfg_ok conf \<Longrightarrow> d < cfg_data_rate conf \<Longrightarrow> cfg_ok (conf\<lparr>cfg_data_rate := d\<rparr>)"
  using dr_idx_less [of "cfg_data_rate conf"] by (auto simp: cfg_ok_def not_DR15 less_DR_def)

definition adr_due :: "u32 \<Rightarrow> bool" where
  "adr_due n \<longleftrightarrow> n \<ge> ADR_ACK_LIMIT + ADR_ACK_DELAY \<and> (n - ADR_ACK_LIMIT) mod ADR_ACK_DELAY = 0"

lemma backoff_mod: "64 \<le> k \<Longrightarrow> (k - 64) mod 32 = k mod (32 :: nat)"
proof -
  assume "64 \<le> k"
  then obtain m where "k = 2 * 32 + m" by (auto dest: le_Suc_ex)
  then show ?thesis by (simp only: mod_mult_self3 diff_add_inverse) simp
qed

lemma backoff_div:
  "(Suc n - 64) div 32 = (if 96 \<le> Suc n \<and> Suc n mod 32 = 0 then Suc ((n - 64) div 32) else (n - 64) div 32)"
proof (cases "64 \<le> n")
  case True
  then have e: "Suc n - 64 = Suc (n - 64)" by simp
  moreover have "Suc (n - 64) mod 32 = Suc n mod 32"
    using True backoff_mod [of "Suc n"] unfolding e by simp
  moreover have "96 \<le> Suc n" if "Suc n mod 32 = 0"
  proof -
    have "32 dvd Suc n" using that by (simp only: dvd_eq_mod_eq_0)
    then obtain q where "Suc n = 32 * q" by (rule dvdE)
    then show ?thesis using True by (cases "q \<le> 2") auto
  qed
  ultimately show ?thesis by (auto simp: div_Suc)
next
  case False
  then show ?thesis by simp
qed

lemma adr_due_iff: "adr_due n \<longleftrightarrow> 96 \<le> unat n \<and> unat n mod 32 = 0"
proof -
  have le: "n \<ge> ADR_ACK_LIMIT + ADR_ACK_DELAY \<longleftrightarrow> 96 \<le> unat n"
    by (simp add: ADR_ACK_LIMIT_def ADR_ACK_DELAY_def word_le_nat_alt)
  have md: "(n - ADR_ACK_LIMIT) mod ADR_ACK_DELAY = 0 \<longleftrightarrow> unat n mod 32 = 0" if "96 \<le> unat n"
  proof -
    have "(64 :: u32) \<le> n" using that by (simp add: word_le_nat_alt)
    then have "unat (n - 64) = unat n - 64" by (simp add: unat_sub)
    then have "unat ((n - 64) mod 32) = (unat n - 64) mod 32" by (simp add: unat_mod)
    moreover have "(unat n - 64) mod 32 = unat n mod 32" using that by (intro backoff_mod) simp
    ultimately have "unat ((n - 64) mod 32) = unat n mod 32" by simp
    moreover have "(n - 64) mod 32 = 0 \<longleftrightarrow> unat ((n - 64) mod 32) = 0" by (rule unat_eq_0 [symmetric])
    ultimately show ?thesis by (simp only: ADR_ACK_LIMIT_def ADR_ACK_DELAY_def)
  qed
  show ?thesis by (simp only: adr_due_def le md cong: conj_cong)
qed

definition rx2_session :: "mac_configuration \<Rightarrow> session \<Rightarrow> session" where
  "rx2_session conf s = s\<lparr>ss_fcnt_up := ss_fcnt_up s + 1,
     ss_adr_ack_cnt := if cfg_adr_enabled conf then saturating_add1 (ss_adr_ack_cnt s) else ss_adr_ack_cnt s\<rparr>"

lemma rx2_session_simps [simp]:
  "ss_fcnt_up (rx2_session conf s) = ss_fcnt_up s + 1" "ss_fcnt_down (rx2_session conf s) = ss_fcnt_down s"
  "ss_uplink (rx2_session conf s) = ss_uplink s" "ss_confirmed (rx2_session conf s) = ss_confirmed s"
  "ss_nwkskey (rx2_session conf s) = ss_nwkskey s" "ss_appskey (rx2_session conf s) = ss_appskey s"
  "ss_devaddr (rx2_session conf s) = ss_devaddr s"
  "cfg_adr_enabled conf \<Longrightarrow> ss_adr_ack_cnt (rx2_session conf s) = saturating_add1 (ss_adr_ack_cnt s)"
  by (simp_all add: rx2_session_def)

lemma rx2_complete_cases:
  assumes "rs_ok region"
  obtains (expired) "ss_fcnt_up s = 0xFFFFFFFF" "rx2_complete conf region s = Some (SessionExpired, s, conf)"
  | (kept) "ss_fcnt_up s \<noteq> 0xFFFFFFFF"
      "\<not> (cfg_adr_enabled conf \<and> adr_due (saturating_add1 (ss_adr_ack_cnt s))) \<or>
       next_lower_datarate region (cfg_data_rate conf) = Some None"
      "rx2_complete conf region s = Some (if ss_confirmed s then NoAck else RxComplete, rx2_session conf s, conf)"
  | (lowered) d where "ss_fcnt_up s \<noteq> 0xFFFFFFFF" "cfg_adr_enabled conf" "adr_due (saturating_add1 (ss_adr_ack_cnt s))"
      "next_lower_datarate region (cfg_data_rate conf) = Some (Some d)"
      "rx2_complete conf region s = Some (if ss_confirmed s then NoAck else RxComplete,
         rx2_session conf s, conf\<lparr>cfg_data_rate := d\<rparr>)"
proof -
  obtain lower where l: "next_lower_datarate region (cfg_data_rate conf) = Some lower"
    using next_lower_datarate_total [OF assms] by blast
  note D = rx2_complete_def [of conf region s, folded adr_due_def]
  show thesis
  proof (cases "ss_fcnt_up s = 0xFFFFFFFF")
    case True
    then show thesis by (intro expired) (simp_all add: D)
  next
    case n: False
    show thesis
    proof (cases "cfg_adr_enabled conf \<and> adr_due (saturating_add1 (ss_adr_ack_cnt s))")
      case False
      then show thesis using n by (intro kept) (auto simp: D Let_def rx2_session_def)
    next
      case True
      show thesis
      proof (cases lower)
        case None
        then show thesis using n l True by (intro kept) (auto simp: D Let_def rx2_session_def)
      next
        case (Some d)
        then show thesis using n l True by (intro lowered [of d]) (auto simp: D Let_def rx2_session_def)
      qed
    qed
  qed
qed

lemma u32_less: "unat (w :: u32) < 4294967296"
  using unsigned_less [of w] by simp

lemma unat_u32_Suc: "w \<noteq> 0xFFFFFFFF \<Longrightarrow> unat (w + 1) = unat (w :: u32) + 1"
proof -
  assume "w \<noteq> 0xFFFFFFFF"
  then have "unat w \<noteq> 4294967295" by (simp add: word_unat_eq_iff)
  then have "unat w + 1 < 4294967296" using u32_less [of w] by linarith
  then show ?thesis by (simp add: unat_word_ariths)
qed

lemma saturating_add1_nat: "unat (saturating_add1 n) = min (unat n + 1) (2 ^ 32 - 1)"
proof (cases "n = 0xFFFFFFFF")
  case True
  then show ?thesis by (simp add: saturating_add1_def)
next
  case False
  then have "unat n \<noteq> 4294967295" by (simp add: word_unat_eq_iff)
  then show ?thesis using False unat_u32_Suc [OF False] u32_less [of n] by (simp add: saturating_add1_def)
qed

text \<open>A device that sends and never hears back.\<close>

fun silent_uplinks :: "nat \<Rightarrow> region_state \<Rightarrow> session \<Rightarrow> mac_configuration \<Rightarrow> (session \<times> mac_configuration) run" where
  "silent_uplinks 0 region s conf = Some (s, conf)"
| "silent_uplinks (Suc n) region s conf = do {
     (s1, conf1) \<leftarrow> silent_uplinks n region s conf;
     (resp, s2, conf2) \<leftarrow> rx2_complete conf1 region s1;
     Some (s2, conf2)}"

lemma silent_uplinks_inv:
  assumes "rs_ok region" "cfg_adr_enabled conf" "ss_adr_ack_cnt s = 0" "unat (ss_fcnt_up s) + n < 2 ^ 32"
  shows "\<exists>s' conf'. silent_uplinks n region s conf = Some (s', conf') \<and>
    unat (ss_adr_ack_cnt s') = n \<and> unat (ss_fcnt_up s') = unat (ss_fcnt_up s) + n \<and> cfg_adr_enabled conf' \<and>
    cfg_data_rate conf' \<le> cfg_data_rate conf \<and>
    (next_lower_datarate region (cfg_data_rate conf') = Some None \<or>
     dr_idx (cfg_data_rate conf') + (n - 64) div 32 \<le> 15)"
  using assms(4)
proof (induction n)
  case 0
  have "dr_idx (cfg_data_rate conf) \<le> 15" using dr_idx_less [of "cfg_data_rate conf"] by linarith
  then show ?case using assms by simp
next
  case (Suc n)
  then obtain s' conf' where ih: "silent_uplinks n region s conf = Some (s', conf')"
    "unat (ss_adr_ack_cnt s') = n" "unat (ss_fcnt_up s') = unat (ss_fcnt_up s) + n" "cfg_adr_enabled conf'"
    "cfg_data_rate conf' \<le> cfg_data_rate conf"
    "next_lower_datarate region (cfg_data_rate conf') = Some None \<or>
     dr_idx (cfg_data_rate conf') + (n - 64) div 32 \<le> 15" by auto
  have nm: "unat (ss_fcnt_up s') \<noteq> 4294967295" using Suc.prems ih(3) by simp
  then have nm: "ss_fcnt_up s' \<noteq> 0xFFFFFFFF" by auto
  then have up: "unat (ss_fcnt_up s' + 1) = unat (ss_fcnt_up s) + Suc n"
    using ih(3) by (simp add: unat_u32_Suc del: One_nat_def)
  have cnt: "unat (saturating_add1 (ss_adr_ack_cnt s')) = Suc n"
    using ih(2) Suc.prems by (simp add: saturating_add1_nat)
  have due: "adr_due (saturating_add1 (ss_adr_ack_cnt s')) \<longleftrightarrow> 96 \<le> Suc n \<and> Suc n mod 32 = 0"
    by (simp only: adr_due_iff cnt)
  show ?case
  proof (cases rule: rx2_complete_cases [OF assms(1), of s' conf', case_names expired kept lowered])
    case expired
    then show ?thesis using nm by simp
  next
    case kept
    have s: "silent_uplinks (Suc n) region s conf = Some (rx2_session conf' s', conf')"
      using ih(1) kept(3) by simp
    have "next_lower_datarate region (cfg_data_rate conf') = Some None \<or>
        dr_idx (cfg_data_rate conf') + (Suc n - 64) div 32 \<le> 15"
    proof (cases "96 \<le> Suc n \<and> Suc n mod 32 = 0")
      case True
      then show ?thesis using kept(2) ih(4) due by simp
    next
      case False
      then have "(Suc n - 64) div 32 = (n - 64) div 32" unfolding backoff_div by (simp only: if_False)
      then show ?thesis using ih(6) by simp
    qed
    then show ?thesis using s ih(4,5) up cnt by simp
  next
    case (lowered d)
    have s: "silent_uplinks (Suc n) region s conf = Some (rx2_session conf' s', conf'\<lparr>cfg_data_rate := d\<rparr>)"
      using ih(1) lowered(5) by simp
    have low: "dr_idx d < dr_idx (cfg_data_rate conf')"
      using next_lower_datarate_total [OF assms(1), of "cfg_data_rate conf'"] lowered(4) by (auto simp: less_DR_def)
    have "(Suc n - 64) div 32 = Suc ((n - 64) div 32)" using lowered(3) due unfolding backoff_div by simp
    then have "dr_idx d + (Suc n - 64) div 32 \<le> 15" using low ih(6) lowered(4) by auto
    moreover have "d \<le> cfg_data_rate conf" using low ih(5) by (simp add: less_eq_DR_def)
    ultimately show ?thesis using s ih(4) up cnt by simp
  qed
qed

section \<open>Properties\<close>

definition example_conf :: mac_configuration where
  "example_conf = \<lparr>cfg_data_rate = DR5, cfg_rx1_delay = 1000, cfg_join_accept_delay1 = 5000,
     cfg_join_accept_delay2 = 6000, cfg_tx_power = None, cfg_rx1_dr_offset = 0, cfg_rx2_data_rate = None,
     cfg_rx2_frequency = None, cfg_adr_enabled = True\<rparr>"

text \<open>C25. The downlink counter is rebuilt correctly: the first frame of a session is taken at face value;
  later a frame is accepted exactly when some 32-bit counter strictly above the last accepted one, and
  at most 16384 ahead, ends in the 16 bits on the wire, and then that counter, which is unique, is
  stored. So the stored counter only grows, replays are dropped, and nothing wraps past 2^32.\<close>

theorem downlink_counter_rebuilt:
  "next_fcnt_down None wire = Some (ucast wire) \<and>
   (next_fcnt_down (Some lst) wire = Some n \<longleftrightarrow>
      unat lst < unat n \<and> unat n \<le> unat lst + 16384 \<and> ucast n = wire) \<and>
   (next_fcnt_down (Some lst) wire = None \<longleftrightarrow>
      \<not> (\<exists>m :: u32. unat lst < unat m \<and> unat m \<le> unat lst + 16384 \<and> ucast m = wire))"
  using next_fcnt_down_iff [of lst wire n] next_fcnt_down_None [of "Some lst" wire]
  by (simp add: next_fcnt_down_def [of None] del: not_None_eq)

text \<open>Closing the second window without a downlink always returns: the uplink counter advances by one
  unless it is used up, which expires the session and changes nothing else; a confirmed uplink reports
  the missing acknowledgement. The configuration changes only with ADR enabled, after 96 silent
  uplinks and then every 32nd, and only to the largest supported data rate below the current one.\<close>

theorem rx2_complete_outcome:
  assumes "rs_ok region"
  shows "\<exists>resp s' conf'. rx2_complete conf region s = Some (resp, s', conf') \<and>
    (if ss_fcnt_up s = 0xFFFFFFFF then resp = SessionExpired \<and> s' = s \<and> conf' = conf
     else resp = (if ss_confirmed s then NoAck else RxComplete) \<and>
       unat (ss_fcnt_up s') = unat (ss_fcnt_up s) + 1 \<and> ss_fcnt_down s' = ss_fcnt_down s \<and>
       ss_uplink s' = ss_uplink s \<and>
       (conf' = conf \<or>
        (cfg_adr_enabled conf \<and> 96 \<le> unat (ss_adr_ack_cnt s') \<and> unat (ss_adr_ack_cnt s') mod 32 = 0 \<and>
         (\<exists>d x. conf' = conf\<lparr>cfg_data_rate := d\<rparr> \<and> d < cfg_data_rate conf \<and>
            rs_get_datarate region (dr_u8 d) = Some (Some x) \<and>
            (\<forall>k. dr_idx d < k \<and> k < dr_idx (cfg_data_rate conf) \<longrightarrow>
               rs_get_datarate region (word_of_nat k) = Some None)))))"
proof (cases rule: rx2_complete_cases [OF assms, of s conf, case_names expired kept lowered])
  case expired
  then show ?thesis by simp
next
  case kept
  then show ?thesis by (simp add: unat_u32_Suc)
next
  case (lowered d)
  then show ?thesis
    using next_lower_datarate_total [OF assms, of "cfg_data_rate conf"]
    by (auto simp: unat_u32_Suc adr_due_iff)
qed

lemma rx2_complete_outcome_witness:
  "\<exists>resp s' conf'. rx2_complete example_conf (state_new EU868) (session_new [] [] []) =
     Some (resp, s', conf') \<and> resp = RxComplete \<and> unat (ss_fcnt_up s') = 1"
proof -
  have "ss_fcnt_up (session_new [] [] []) = 0" "\<not> ss_confirmed (session_new [] [] [])"
    by (simp_all add: session_new_def)
  then show ?thesis
    using rx2_complete_outcome [OF state_new_ok [of EU868], of example_conf "session_new [] [] []"] by auto
qed

text \<open>C26. A device that no longer hears the network falls back to the most robust data rate: with ADR
  enabled, after 544 uplinks in a row without a downlink the region defines no data rate below the
  one in use, which is never above the one it started from.\<close>

theorem adr_backoff_reaches_lowest:
  assumes "rs_ok region" "cfg_adr_enabled conf" "ss_adr_ack_cnt s = 0" "unat (ss_fcnt_up s) + n < 2 ^ 32" "544 \<le> n"
  shows "\<exists>s' conf'. silent_uplinks n region s conf = Some (s', conf') \<and>
    cfg_data_rate conf' \<le> cfg_data_rate conf \<and>
    (\<forall>k < dr_idx (cfg_data_rate conf'). rs_get_datarate region (word_of_nat k) = Some None)"
proof -
  obtain s' conf' where r: "silent_uplinks n region s conf = Some (s', conf')"
    "cfg_data_rate conf' \<le> cfg_data_rate conf"
    "next_lower_datarate region (cfg_data_rate conf') = Some None \<or> dr_idx (cfg_data_rate conf') + (n - 64) div 32 \<le> 15"
    using silent_uplinks_inv [OF assms(1-4)] by blast
  have "480 div 32 \<le> (n - 64) div 32" using assms(5) by (intro div_le_mono) simp
  then have "next_lower_datarate region (cfg_data_rate conf') = Some None \<or> dr_idx (cfg_data_rate conf') = 0"
    using r(3) by auto
  then have "\<forall>k < dr_idx (cfg_data_rate conf'). rs_get_datarate region (word_of_nat k) = Some None"
    using next_lower_datarate_total [OF assms(1), of "cfg_data_rate conf'"] by auto
  then show ?thesis using r by blast
qed

lemma adr_backoff_reaches_lowest_witness:
  "\<exists>s' conf'. silent_uplinks 544 (state_new EU868) (session_new [] [] []) example_conf = Some (s', conf') \<and>
     cfg_data_rate conf' \<le> DR5 \<and>
     (\<forall>k < dr_idx (cfg_data_rate conf'). rs_get_datarate (state_new EU868) (word_of_nat k) = Some None)"
proof -
  have "cfg_adr_enabled example_conf" "ss_adr_ack_cnt (session_new [] [] []) = 0"
    "unat (ss_fcnt_up (session_new [] [] [])) + 544 < 2 ^ 32" "cfg_data_rate example_conf = DR5"
    by (simp_all add: example_conf_def session_new_def)
  then show ?thesis
    using adr_backoff_reaches_lowest [OF state_new_ok [of EU868], of example_conf "session_new [] [] []" 544] by simp
qed

end
