(* ===== verification/Creator.thy ===== *)
theory Creator
  imports Parser
begin

text \<open>
  \<open>lorawan-encoding/src/creator.rs\<close>: building join requests, join accepts and data
  frames into a caller's buffer. \<open>build_into\<close> returns the built bytes, which replace
  the front of the buffer. The lemmas give each builder's result in closed form; the
  properties are the round trips with the parser.
\<close>

section \<open>Join requests and join accepts\<close>

definition write_mic :: "bytes \<Rightarrow> 'x crypto_scheme \<Rightarrow> bytes run" where
  "write_mic out c =
     (if length out < MIC_LEN then None
      else do {
        d \<leftarrow> subslice out 0 (length out - MIC_LEN);
        copy_range out (length out - MIC_LEN) (length out) (calculate_mic d c)})"

record join_request =
  jrq_join_eui :: bytes
  jrq_dev_eui :: bytes
  jrq_dev_nonce :: bytes

definition get_front :: "bytes \<Rightarrow> nat \<Rightarrow> bytes option" where
  "get_front buf n = (if n \<le> length buf then Some (take n buf) else None)"

definition join_request_build_into ::
  "join_request \<Rightarrow> bytes \<Rightarrow> 'x crypto_scheme \<Rightarrow> (parse_error + bytes) run" where
  "join_request_build_into j buf c =
     try_run (Some (ok_or (get_front buf JOIN_REQUEST_LEN) FrameBufferTooShort)) (\<lambda>out. do {
       o1 \<leftarrow> set_idx out 0 0x00;
       o2 \<leftarrow> copy_range o1 1 9 (jrq_join_eui j);
       o3 \<leftarrow> copy_range o2 9 17 (jrq_dev_eui j);
       o4 \<leftarrow> copy_range o3 17 19 (jrq_dev_nonce j);
       o5 \<leftarrow> write_mic o4 c;
       Some (Inr o5)})"

record join_accept =
  jac_join_nonce :: bytes
  jac_net_id :: bytes
  jac_dev_addr :: bytes
  jac_dl_settings :: dl_settings
  jac_rx_delay :: u8
  jac_c_f_list :: "cf_list option"

fun write_freqs :: "bytes list \<Rightarrow> nat \<Rightarrow> bytes \<Rightarrow> bytes run" where
  "write_freqs [] i out = Some out"
| "write_freqs (f # fs) i out = do {
     out' \<leftarrow> copy_range out (13 + 3 * i) (16 + 3 * i) f;
     write_freqs fs (Suc i) out'}"

definition write_cf_list :: "cf_list option \<Rightarrow> bytes \<Rightarrow> bytes run" where
  "write_cf_list cf out = (case cf of
      None \<Rightarrow> Some out
    | Some (DynamicChannel freqs) \<Rightarrow> do {
        o1 \<leftarrow> write_freqs freqs 0 out;
        set_idx o1 28 0}
    | Some (FixedChannel m) \<Rightarrow> do {
        o1 \<leftarrow> copy_range out 13 22 m;
        o2 \<leftarrow> copy_range o1 22 28 (replicate 6 0);
        set_idx o2 28 1})"

definition join_accept_build_into ::
  "join_accept \<Rightarrow> bytes \<Rightarrow> 'x network_crypto_scheme \<Rightarrow> (parse_error + bytes) run" where
  "join_accept_build_into j buf c =
     (let len = (if jac_c_f_list j \<noteq> None then JOIN_ACCEPT_WITH_CFLIST_LEN else JOIN_ACCEPT_LEN)
      in try_run (Some (ok_or (get_front buf len) FrameBufferTooShort)) (\<lambda>out. do {
       o1 \<leftarrow> set_idx out 0 0x20;
       o2 \<leftarrow> copy_range o1 1 4 (jac_join_nonce j);
       o3 \<leftarrow> copy_range o2 4 7 (jac_net_id j);
       o4 \<leftarrow> copy_range o3 7 11 (jac_dev_addr j);
       o5 \<leftarrow> set_idx o4 11 (dls_raw (jac_dl_settings j));
       o6 \<leftarrow> set_idx o5 12 (jac_rx_delay j AND 0x0f);
       o7 \<leftarrow> write_cf_list (jac_c_f_list j) o6;
       o8 \<leftarrow> write_mic o7 c;
       Some (Inr (take MHDR_LEN o8 @ map_chunks16 (decrypt_block c) (drop MHDR_LEN o8)))}))"

section \<open>Data frames\<close>

text \<open>\<open>Payload::Data\<close> carries a \<open>NonZeroU8\<close>: see \<open>payload_ok\<close>.\<close>

datatype payload = PayloadNone | PayloadData u8 bytes | PayloadMacCommands bytes

definition payload_ok :: "payload \<Rightarrow> bool" where
  "payload_ok p = (case p of PayloadData port _ \<Rightarrow> port \<noteq> 0 | _ \<Rightarrow> True)"

record data_frame =
  df_frame_type :: data_frame_type
  df_dev_addr :: bytes
  df_adr :: bool
  df_adr_ack_req :: bool
  df_ack :: bool
  df_f_pending :: bool
  df_fcnt :: u32
  df_f_opts :: bytes
  df_payload :: payload

definition df_default :: data_frame where
  "df_default = \<lparr>df_frame_type = UnconfirmedUp, df_dev_addr = dev_addr_from_value 0, df_adr = False,
     df_adr_ack_req = False, df_ack = False, df_f_pending = False, df_fcnt = 0, df_f_opts = [],
     df_payload = PayloadNone\<rparr>"

fun mhdr_of :: "data_frame_type \<Rightarrow> u8" where
  "mhdr_of UnconfirmedUp = 0x40"
| "mhdr_of UnconfirmedDown = 0x60"
| "mhdr_of ConfirmedUp = 0x80"
| "mhdr_of ConfirmedDown = 0xa0"

definition df_mhdr :: "data_frame \<Rightarrow> u8" where
  "df_mhdr f = mhdr_of (df_frame_type f)"

definition df_fctrl :: "data_frame \<Rightarrow> u8" where
  "df_fctrl f =
     (let b = word_of_nat (length (df_f_opts f));
          b = (if df_adr f then b OR 0x80 else b);
          b = (if df_adr_ack_req f \<and> is_uplink (df_frame_type f) then b OR 0x40 else b);
          b = (if df_ack f then b OR 0x20 else b)
      in (if df_f_pending f \<and> \<not> is_uplink (df_frame_type f) then b OR 0x10 else b))"

text \<open>The three values the code computes from the payload: port, plain text and key.\<close>

definition df_select :: "data_frame \<Rightarrow> 'k \<Rightarrow> 'k option \<Rightarrow> parse_error + (u8 option \<times> bytes \<times> 'k)" where
  "df_select f nwk app = (case df_payload f of
      PayloadNone \<Rightarrow> Inr (None, [], nwk)
    | PayloadData port data \<Rightarrow> (case app of None \<Rightarrow> Inl MissingKey
                               | Some c \<Rightarrow> Inr (Some port, data, c))
    | PayloadMacCommands cmds \<Rightarrow>
        if df_f_opts f \<noteq> [] then Inl FOptsWithFPortZero else Inr (Some 0, cmds, nwk))"

definition data_frame_build_into ::
  "data_frame \<Rightarrow> bytes \<Rightarrow> 'x crypto_scheme \<Rightarrow> 'x crypto_scheme option \<Rightarrow> (parse_error + bytes) run" where
  "data_frame_build_into f buf nwk app =
     (if length (df_f_opts f) > 15 then Some (Inl FOptsTooLong)
      else try_run (Some (df_select f nwk app)) (\<lambda>(f_port, frm, enc).
        let fhdr_len = 7 + length (df_f_opts f);
            total = MHDR_LEN + fhdr_len + (if f_port = None then 0 else 1) + length frm + MIC_LEN
        in try_run (Some (ok_or (get_front buf total) FrameBufferTooShort)) (\<lambda>out. do {
          o1 \<leftarrow> set_idx out 0 (df_mhdr f);
          o2 \<leftarrow> copy_range o1 1 5 (df_dev_addr f);
          o3 \<leftarrow> set_idx o2 5 (df_fctrl f);
          o4 \<leftarrow> copy_range o3 6 8 (to_le_bytes (ucast (df_fcnt f) :: u16));
          o5 \<leftarrow> copy_range o4 8 (8 + length (df_f_opts f)) (df_f_opts f);
          (o6, cursor) \<leftarrow> (case f_port of
              None \<Rightarrow> Some (o5, MHDR_LEN + fhdr_len)
            | Some port \<Rightarrow> map_option (\<lambda>x. (x, MHDR_LEN + fhdr_len + 1))
                            (set_idx o5 (MHDR_LEN + fhdr_len) port));
          o7 \<leftarrow> copy_range o6 cursor (cursor + length frm) frm;
          o8 \<leftarrow> (if frm \<noteq> []
                then encrypt_frm_data_payload o7 cursor (cursor + length frm) (df_fcnt f) enc
                else Some o7);
          body \<leftarrow> subslice o8 0 (total - MIC_LEN);
          mic \<leftarrow> calculate_data_mic body nwk (df_fcnt f);
          o9 \<leftarrow> copy_range o8 (total - MIC_LEN) total mic;
          Some (Inr o9)})))"

section \<open>Join requests: the result in closed form\<close>

definition join_request_ok :: "join_request \<Rightarrow> bool" where
  "join_request_ok j \<longleftrightarrow>
     length (jrq_join_eui j) = 8 \<and> length (jrq_dev_eui j) = 8 \<and> length (jrq_dev_nonce j) = 2"

lemma write_mic_eq:
  assumes "crypto_ok c" "length body = n" "length out = n + 4"
  shows "write_mic (body @ drop n out) c = Some (body @ calculate_mic body c)"
  using assms crypto_okD(2) [OF assms(1), of "[]" body]
  by (simp add: write_mic_def calculate_mic_def copy_range_def)

lemma join_request_build_eq:
  assumes "join_request_ok j" "crypto_ok c" "23 \<le> length buf"
  shows "join_request_build_into j buf c =
     (let body = [0] @ jrq_join_eui j @ jrq_dev_eui j @ jrq_dev_nonce j
      in Some (Inr (body @ calculate_mic body c)))"
proof -
  let ?out = "take 23 buf"
  let ?b = "(([0] @ jrq_join_eui j) @ jrq_dev_eui j) @ jrq_dev_nonce j"
  have l: "length ?out = 23" "?out \<noteq> []" using assms by auto
  have "write_mic (?b @ drop 19 ?out) c = Some (?b @ calculate_mic ?b c)"
    using assms by (intro write_mic_eq) (auto simp: join_request_ok_def)
  then have "join_request_build_into j buf c = Some (Inr (?b @ calculate_mic ?b c))"
    using assms l
    by (simp add: join_request_build_into_def get_front_def join_request_ok_def set_idx_front
        fill_copy fill_set del: append_assoc append.simps drop_drop copy_range_in set_idx_in)
  then show ?thesis by (simp add: Let_def)
qed

section \<open>Join accepts: the result in closed form\<close>

definition cf_list_ok :: "cf_list \<Rightarrow> bool" where
  "cf_list_ok cf = (case cf of
      DynamicChannel fs \<Rightarrow> length fs = 5 \<and> (\<forall>f \<in> set fs. length f = 3)
    | FixedChannel m \<Rightarrow> length m = 9)"

definition join_accept_ok :: "join_accept \<Rightarrow> bool" where
  "join_accept_ok j \<longleftrightarrow>
     length (jac_join_nonce j) = 3 \<and> length (jac_net_id j) = 3 \<and> length (jac_dev_addr j) = 4 \<and>
     (case jac_c_f_list j of None \<Rightarrow> True | Some cf \<Rightarrow> cf_list_ok cf)"

definition cf_bytes :: "cf_list option \<Rightarrow> bytes" where
  "cf_bytes cf = (case cf of
      None \<Rightarrow> []
    | Some (DynamicChannel fs) \<Rightarrow> concat fs @ [0]
    | Some (FixedChannel m) \<Rightarrow> m @ replicate 6 0 @ [1])"

definition ja_plain :: "join_accept \<Rightarrow> bytes" where
  "ja_plain j = [0x20] @ jac_join_nonce j @ jac_net_id j @ jac_dev_addr j
     @ [dls_raw (jac_dl_settings j), jac_rx_delay j AND 0x0f] @ cf_bytes (jac_c_f_list j)"

lemma length_concat3: "\<forall>f \<in> set fs. length f = 3 \<Longrightarrow> length (concat fs) = 3 * length fs"
  by (induction fs) simp_all

lemma length_ja_plain:
  "join_accept_ok j \<Longrightarrow> length (ja_plain j) = (if jac_c_f_list j = None then 13 else 29)"
  by (auto simp: join_accept_ok_def ja_plain_def cf_bytes_def cf_list_ok_def length_concat3
      split: option.splits cf_list.splits)

lemma write_freqs_eq:
  assumes "\<forall>f \<in> set fs. length f = 3" "length xs = 13 + 3 * i" "13 + 3 * i + 3 * length fs \<le> length out"
  shows "write_freqs fs i (xs @ drop (13 + 3 * i) out)
           = Some ((xs @ concat fs) @ drop (13 + 3 * i + 3 * length fs) out)"
  using assms
proof (induction fs arbitrary: i xs)
  case Nil
  then show ?case by simp
next
  case (Cons f fs)
  have "copy_range (xs @ drop (13 + 3 * i) out) (13 + 3 * i) (16 + 3 * i) f
      = Some ((xs @ f) @ drop (16 + 3 * i) out)"
    using Cons.prems by (intro fill_copy) auto
  moreover have ih: "write_freqs fs (Suc i) ((xs @ f) @ drop (13 + 3 * Suc i) out)
      = Some (((xs @ f) @ concat fs) @ drop (13 + 3 * Suc i + 3 * length fs) out)"
    using Cons.prems by (intro Cons.IH) auto
  moreover have e: "13 + 3 * Suc i + 3 * length fs = 13 + 3 * i + 3 * length (f # fs)"
    "13 + 3 * Suc i = 16 + 3 * i" by simp_all
  ultimately show ?case
    by (simp only: write_freqs.simps Option.bind.simps concat.simps append_assoc e)
qed

lemma write_cf_list_eq:
  assumes "length xs = 13" "length out = (if cf = None then 17 else 33)"
    and "case cf of None \<Rightarrow> True | Some c \<Rightarrow> cf_list_ok c"
  shows "write_cf_list cf (xs @ drop 13 out)
           = Some ((xs @ cf_bytes cf) @ drop (if cf = None then 13 else 29) out)"
proof (cases cf)
  case None
  then show ?thesis by (simp add: write_cf_list_def cf_bytes_def)
next
  case (Some c)
  show ?thesis
  proof (cases c)
    case (DynamicChannel fs)
    then have fs: "length fs = 5" "\<forall>f \<in> set fs. length f = 3" using Some assms by (auto simp: cf_list_ok_def)
    then have "write_freqs fs 0 (xs @ drop 13 out) = Some ((xs @ concat fs) @ drop 28 out)"
      using write_freqs_eq [of fs xs 0 out] assms Some by simp
    moreover have "set_idx ((xs @ concat fs) @ drop 28 out) 28 0 = Some (((xs @ concat fs) @ [0]) @ drop (Suc 28) out)"
      using fs assms Some by (intro fill_set) (simp_all add: length_concat3)
    ultimately show ?thesis using Some DynamicChannel
      by (simp add: write_cf_list_def cf_bytes_def)
  next
    case (FixedChannel m)
    then have m: "length m = 9" using Some assms by (auto simp: cf_list_ok_def)
    have "copy_range (xs @ drop 13 out) 13 22 m = Some ((xs @ m) @ drop 22 out)"
      using m assms Some by (intro fill_copy) auto
    moreover have "copy_range ((xs @ m) @ drop 22 out) 22 28 (replicate 6 0)
        = Some (((xs @ m) @ replicate 6 0) @ drop 28 out)"
      using m assms Some by (intro fill_copy) auto
    moreover have "set_idx (((xs @ m) @ replicate 6 0) @ drop 28 out) 28 1
        = Some ((((xs @ m) @ replicate 6 0) @ [1]) @ drop (Suc 28) out)"
      using m assms Some by (intro fill_set) auto
    ultimately show ?thesis using Some FixedChannel
      by (simp add: write_cf_list_def cf_bytes_def)
  qed
qed

lemma join_accept_build_eq:
  assumes j: "join_accept_ok j" and c: "network_crypto_ok c"
    and len: "length buf \<ge> (if jac_c_f_list j = None then 17 else 33)"
  shows "join_accept_build_into j buf c =
     (let o8 = ja_plain j @ calculate_mic (ja_plain j) c
      in Some (Inr (take 1 o8 @ map_chunks16 (decrypt_block c) (drop 1 o8))))"
proof -
  define n where "n = (if jac_c_f_list j = None then 17 else (33 :: nat))"
  define out where "out = take n buf"
  define k where "k = (if jac_c_f_list j = None then 13 else (29 :: nat))"
  let ?p1 = "[0x20] @ jac_join_nonce j"
  let ?p2 = "?p1 @ jac_net_id j"
  let ?p3 = "?p2 @ jac_dev_addr j"
  let ?p4 = "?p3 @ [dls_raw (jac_dl_settings j)]"
  let ?p5 = "?p4 @ [jac_rx_delay j AND 0x0f]"
  have l: "length out = n" "17 \<le> n" "out \<noteq> []" using len by (auto simp: out_def n_def)
  have sizes: "length (jac_join_nonce j) = 3" "length (jac_net_id j) = 3" "length (jac_dev_addr j) = 4"
    using j by (simp_all add: join_accept_ok_def)
  have front: "get_front buf (if jac_c_f_list j \<noteq> None then 33 else 17) = Some out"
    using len by (auto simp: get_front_def out_def n_def)
  have s1: "set_idx out 0 0x20 = Some ([0x20] @ drop 1 out)" using l by (intro set_idx_front)
  have s2: "copy_range ([0x20] @ drop 1 out) 1 4 (jac_join_nonce j) = Some (?p1 @ drop 4 out)"
    using l sizes by (intro fill_copy) auto
  have s3: "copy_range (?p1 @ drop 4 out) 4 7 (jac_net_id j) = Some (?p2 @ drop 7 out)"
    using l sizes by (intro fill_copy) auto
  have s4: "copy_range (?p2 @ drop 7 out) 7 11 (jac_dev_addr j) = Some (?p3 @ drop 11 out)"
    using l sizes by (intro fill_copy) auto
  have s5: "set_idx (?p3 @ drop 11 out) 11 (dls_raw (jac_dl_settings j)) = Some (?p4 @ drop (Suc 11) out)"
    using l sizes by (intro fill_set) auto
  have s6: "set_idx (?p4 @ drop (Suc 11) out) 12 (jac_rx_delay j AND 0x0f) = Some (?p5 @ drop (Suc 12) out)"
    using l sizes fill_set [of ?p4 12 out "jac_rx_delay j AND 0x0f"] by simp
  have "write_cf_list (jac_c_f_list j) (?p5 @ drop 13 out)
      = Some ((?p5 @ cf_bytes (jac_c_f_list j)) @ drop k out)"
    unfolding k_def using j l sizes by (intro write_cf_list_eq) (auto simp: join_accept_ok_def n_def)
  moreover have "?p5 @ cf_bytes (jac_c_f_list j) = ja_plain j" by (simp add: ja_plain_def)
  ultimately have s7: "write_cf_list (jac_c_f_list j) (?p5 @ drop (Suc 12) out) = Some (ja_plain j @ drop k out)"
    by simp
  have s8: "write_mic (ja_plain j @ drop k out) c = Some (ja_plain j @ calculate_mic (ja_plain j) c)"
    using c l length_ja_plain [OF j]
    by (intro write_mic_eq) (auto simp: network_crypto_okD k_def n_def)
  show ?thesis
    by (simp only: join_accept_build_into_def Let_def front s1 s2 s3 s4 s5 s6 s7 s8
        ok_or_simps try_run_simps Option.bind.simps)
qed

section \<open>Data frames: the result in closed form\<close>

definition data_frame_ok :: "data_frame \<Rightarrow> bool" where
  "data_frame_ok f \<longleftrightarrow> length (df_dev_addr f) = 4 \<and> payload_ok (df_payload f)"

definition port_bytes :: "u8 option \<Rightarrow> bytes" where
  "port_bytes p = (case p of None \<Rightarrow> [] | Some b \<Rightarrow> [b])"

definition df_header :: "data_frame \<Rightarrow> bytes" where
  "df_header f = [df_mhdr f] @ df_dev_addr f @ [df_fctrl f]
     @ to_le_bytes (ucast (df_fcnt f) :: u16) @ df_f_opts f"

definition df_plain :: "data_frame \<Rightarrow> u8 option \<Rightarrow> bytes \<Rightarrow> bytes" where
  "df_plain f port frm = df_header f @ port_bytes port @ frm"

definition df_body :: "data_frame \<Rightarrow> u8 option \<Rightarrow> bytes \<Rightarrow> 'x crypto_scheme \<Rightarrow> bytes" where
  "df_body f port frm enc =
     (let p = df_plain f port frm; cur = 8 + length (df_f_opts f) + length (port_bytes port)
      in xor_range (key_byte enc (helper_block p 0x01 (df_fcnt f))) p cur (cur + length frm))"

lemma length_df_header: "length (df_dev_addr f) = 4 \<Longrightarrow> length (df_header f) = 8 + length (df_f_opts f)"
  by (simp add: df_header_def)

lemma length_df_plain:
  "length (df_dev_addr f) = 4 \<Longrightarrow>
   length (df_plain f port frm) = 8 + length (df_f_opts f) + length (port_bytes port) + length frm"
  by (simp add: df_plain_def length_df_header)

lemma xor_range_append: "j \<le> length xs \<Longrightarrow> xor_range k (xs @ ys) i j = xor_range k xs i j @ ys"
  by (rule nth_equalityI) (auto simp: nth_append)

lemma data_frame_build_eq:
  assumes sel: "df_select f nwk app = Inr (port, frm, enc)"
    and ok: "length (df_dev_addr f) = 4" "length (df_f_opts f) \<le> 15"
    and c: "crypto_ok nwk" "crypto_ok enc"
    and len: "length buf \<ge> 12 + length (df_f_opts f) + length (port_bytes port) + length frm"
  shows "data_frame_build_into f buf nwk app =
     Some (Inr (df_body f port frm enc @ data_mic (df_body f port frm enc) nwk (df_fcnt f)))"
proof -
  define fo where "fo = length (df_f_opts f)"
  define pl where "pl = length (port_bytes port)"
  define total where "total = 12 + fo + pl + length frm"
  define out where "out = take total buf"
  define cur where "cur = 8 + fo + pl"
  have l: "length out = total" "total \<ge> 12 + fo" "out \<noteq> []"
    using len by (auto simp: out_def total_def fo_def pl_def)
  have tot: "1 + (7 + length (df_f_opts f)) + (if port = None then 0 else 1) + length frm + 4 = total"
    by (auto simp: total_def fo_def pl_def port_bytes_def split: option.split)
  have front: "get_front buf total = Some out"
    using len by (auto simp: get_front_def out_def total_def fo_def pl_def)
  let ?p1 = "[df_mhdr f] @ df_dev_addr f"
  let ?p2 = "?p1 @ [df_fctrl f]"
  let ?p3 = "?p2 @ to_le_bytes (ucast (df_fcnt f) :: u16)"
  let ?p4 = "?p3 @ df_f_opts f"
  let ?p5 = "?p4 @ port_bytes port"
  let ?p6 = "?p5 @ frm"
  have p6: "?p6 = df_plain f port frm" by (simp add: df_plain_def df_header_def)
  have lp4: "length ?p4 = 8 + fo" using ok by (simp add: fo_def)
  have s1: "set_idx out 0 (df_mhdr f) = Some ([df_mhdr f] @ drop 1 out)" using l by (intro set_idx_front)
  have s2: "copy_range ([df_mhdr f] @ drop 1 out) 1 5 (df_dev_addr f) = Some (?p1 @ drop 5 out)"
    using l ok by (intro fill_copy) auto
  have s3: "set_idx (?p1 @ drop 5 out) 5 (df_fctrl f) = Some (?p2 @ drop 6 out)"
    using l ok fill_set [of ?p1 5 out "df_fctrl f"] by simp
  have s4: "copy_range (?p2 @ drop 6 out) 6 8 (to_le_bytes (ucast (df_fcnt f) :: u16)) = Some (?p3 @ drop 8 out)"
    using l ok by (intro fill_copy) auto
  have s5: "copy_range (?p3 @ drop 8 out) 8 (8 + length (df_f_opts f)) (df_f_opts f) = Some (?p4 @ drop (8 + fo) out)"
    unfolding fo_def using l ok by (intro fill_copy) (auto simp: fo_def)
  have s6: "(case port of None \<Rightarrow> Some (?p4 @ drop (8 + fo) out, 1 + (7 + length (df_f_opts f)))
       | Some p \<Rightarrow> map_option (\<lambda>x. (x, 1 + (7 + length (df_f_opts f)) + 1))
            (set_idx (?p4 @ drop (8 + fo) out) (1 + (7 + length (df_f_opts f))) p))
     = Some (?p5 @ drop cur out, cur)"
  proof (cases port)
    case None
    then show ?thesis by (simp add: port_bytes_def cur_def pl_def fo_def)
  next
    case (Some b)
    have "set_idx (?p4 @ drop (8 + fo) out) (8 + fo) b = Some ((?p4 @ [b]) @ drop (Suc (8 + fo)) out)"
      by (rule fill_set) (use l lp4 Some in \<open>simp_all add: total_def\<close>)
    then show ?thesis using Some by (simp add: port_bytes_def cur_def pl_def fo_def)
  qed
  have s7: "copy_range (?p5 @ drop cur out) cur (cur + length frm) frm = Some (df_plain f port frm @ drop (cur + length frm) out)"
    unfolding p6 [symmetric]
    by (rule fill_copy) (use l lp4 in \<open>simp_all add: cur_def pl_def total_def\<close>)
  let ?o7 = "df_plain f port frm @ drop (cur + length frm) out"
  have lpl: "length (df_plain f port frm) = cur + length frm"
    using ok by (simp add: length_df_plain cur_def fo_def pl_def)
  have body: "df_body f port frm enc = xor_range (key_byte enc (helper_block (df_plain f port frm) 0x01 (df_fcnt f)))
      (df_plain f port frm) cur (cur + length frm)"
    by (simp add: df_body_def Let_def cur_def fo_def pl_def)
  have s8: "(if frm \<noteq> [] then encrypt_frm_data_payload ?o7 cur (cur + length frm) (df_fcnt f) enc else Some ?o7)
      = Some (df_body f port frm enc @ drop (cur + length frm) out)"
  proof (cases "frm = []")
    case True
    then show ?thesis using body by simp
  next
    case False
    have "helper_block ?o7 0x01 (df_fcnt f) = helper_block (df_plain f port frm) 0x01 (df_fcnt f)"
      by (rule helper_block_cong) (use lpl in \<open>simp add: cur_def\<close>)
    then show ?thesis using False lpl c
      by (simp add: encrypt_frm_eq xor_range_append body cur_def)
  qed
  have lb: "length (df_body f port frm enc) = cur + length frm" using lpl by (simp add: body)
  have t4: "total - 4 = cur + length frm" by (simp add: total_def cur_def)
  have s9: "subslice (df_body f port frm enc @ drop (cur + length frm) out) 0 (cur + length frm) = Some (df_body f port frm enc)"
    using lb by simp
  have s10: "calculate_data_mic (df_body f port frm enc) nwk (df_fcnt f) = Some (data_mic (df_body f port frm enc) nwk (df_fcnt f))"
    using lb by (intro calculate_data_mic_eq) (simp add: cur_def)
  have "copy_range (df_body f port frm enc @ drop (cur + length frm) out) (cur + length frm) total (data_mic (df_body f port frm enc) nwk (df_fcnt f))
      = Some ((df_body f port frm enc @ data_mic (df_body f port frm enc) nwk (df_fcnt f)) @ drop total out)"
    by (rule fill_copy) (use lb l length_data_mic [OF c(1)] in \<open>auto simp: total_def cur_def\<close>)
  then have s11: "copy_range (df_body f port frm enc @ drop (cur + length frm) out) (cur + length frm) total (data_mic (df_body f port frm enc) nwk (df_fcnt f))
      = Some (df_body f port frm enc @ data_mic (df_body f port frm enc) nwk (df_fcnt f))"
    using l by simp
  have le: "\<not> 15 < length (df_f_opts f)" using ok by simp
  show ?thesis
    by (simp only: data_frame_build_into_def le if_False sel try_run_simps case_prod_conv Let_def tot
        front ok_or_simps s1 s2 s3 s4 s5 s6 s7 s8 t4 s9 s10 s11 Option.bind.simps)
qed

text \<open>When a build succeeds, the conditions of the closed form held.\<close>

lemma data_frame_build_InrD:
  assumes "data_frame_build_into f buf nwk app = Some (Inr out)"
  shows "length (df_f_opts f) \<le> 15 \<and> (\<exists>port frm enc. df_select f nwk app = Inr (port, frm, enc) \<and>
     12 + length (df_f_opts f) + length (port_bytes port) + length frm \<le> length buf)"
proof -
  have "length (df_f_opts f) \<le> 15"
    using assms by (auto simp: data_frame_build_into_def split: if_splits)
  moreover obtain port frm enc where sel: "df_select f nwk app = Inr (port, frm, enc)"
    using assms by (cases "df_select f nwk app") (auto simp: data_frame_build_into_def split: if_splits)
  moreover have "12 + length (df_f_opts f) + length (port_bytes port) + length frm \<le> length buf"
  proof (rule ccontr)
    assume "\<not> ?thesis"
    then have "get_front buf (1 + (7 + length (df_f_opts f)) + (if port = None then 0 else 1) + length frm + 4) = None"
      by (auto simp: get_front_def port_bytes_def split: option.splits)
    then have "data_frame_build_into f buf nwk app \<noteq> Some (Inr out)"
      by (simp only: data_frame_build_into_def sel try_run_simps case_prod_conv Let_def ok_or_simps) simp
    then show False using assms by simp
  qed
  ultimately show ?thesis by blast
qed

section \<open>Round trips with the parser\<close>

lemma from_mhdr_of: "from_mhdr (mhdr_of t) = Some t" "mhdr_of t AND 0b11 = 0"
  by (cases t; simp add: from_mhdr_def)+

lemma word_of_nat_low4:
  assumes "n \<le> 15"
  shows "(word_of_nat n :: u8) AND 0x0f = word_of_nat n"
  using assms by (simp add: word_unat_eq_iff unat_and_0xf unat_of_nat)

lemma df_fctrl_bits:
  assumes "length (df_f_opts f) \<le> 15"
  shows "df_fctrl f AND 0x0f = word_of_nat (length (df_f_opts f))"
    and "(df_fctrl f AND 0x80 \<noteq> 0) = df_adr f"
    and "(df_fctrl f AND 0x40 \<noteq> 0) = (df_adr_ack_req f \<and> is_uplink (df_frame_type f))"
    and "(df_fctrl f AND 0x20 \<noteq> 0) = df_ack f"
    and "(df_fctrl f AND 0x10 \<noteq> 0) = (df_f_pending f \<and> \<not> is_uplink (df_frame_type f))"
proof -
  define w :: u8 where "w = word_of_nat (length (df_f_opts f))"
  have w: "w = w AND 0x0f" using word_of_nat_low4 [OF assms] by (simp add: w_def)
  have z: "w AND 0x80 = 0" "w AND 0x40 = 0" "w AND 0x20 = 0" "w AND 0x10 = 0"
    by (subst w, simp add: and.assoc)+
  show "df_fctrl f AND 0x0f = word_of_nat (length (df_f_opts f))"
    using w by (simp add: df_fctrl_def Let_def bit.conj_disj_distrib2 flip: w_def)
  show "(df_fctrl f AND 0x80 \<noteq> 0) = df_adr f"
    using z by (simp add: df_fctrl_def Let_def bit.conj_disj_distrib2 flip: w_def)
  show "(df_fctrl f AND 0x40 \<noteq> 0) = (df_adr_ack_req f \<and> is_uplink (df_frame_type f))"
    using z by (simp add: df_fctrl_def Let_def bit.conj_disj_distrib2 flip: w_def)
  show "(df_fctrl f AND 0x20 \<noteq> 0) = df_ack f"
    using z by (simp add: df_fctrl_def Let_def bit.conj_disj_distrib2 flip: w_def)
  show "(df_fctrl f AND 0x10 \<noteq> 0) = (df_f_pending f \<and> \<not> is_uplink (df_frame_type f))"
    using z by (simp add: df_fctrl_def Let_def bit.conj_disj_distrib2 flip: w_def)
qed

lemma from_le_bytes_u16: "from_le_bytes [to_le_bytes w ! 0, to_le_bytes w ! 1] = (w :: u16)"
proof -
  have "[to_le_bytes w ! 0, to_le_bytes w ! 1] = take 2 (to_le_bytes w)"
    by (simp add: to_le_bytes_def upt_conv_Cons)
  moreover have "take_bit 16 w = w" by (rule bit_word_eqI) (simp add: bit_simps)
  ultimately show ?thesis using from_le_bytes_to_le_bytes [of 2 w] by simp
qed

lemma full_fcnt_self: "full_fcnt n (ucast n) = n"
  by (rule bit_word_eqI) (auto simp: full_fcnt_def bit_simps)

text \<open>The layout that validating a built frame finds.\<close>

definition df_layout :: "data_frame \<Rightarrow> u8 option \<Rightarrow> bytes \<Rightarrow> layout" where
  "df_layout f port frm =
     \<lparr>lay_frame_type = df_frame_type f, lay_fhdr_len = 7 + length (df_f_opts f),
      lay_f_port_offset = map_option (\<lambda>_. 8 + length (df_f_opts f)) port,
      lay_frm_start = 8 + length (df_f_opts f) + length (port_bytes port),
      lay_frm_end = 8 + length (df_f_opts f) + length (port_bytes port) + length frm\<rparr>"

lemma df_plain_nth:
  assumes "length (df_dev_addr f) = 4"
  shows "df_plain f port frm ! 0 = df_mhdr f" "df_plain f port frm ! 5 = df_fctrl f"
    "df_plain f port frm ! 6 = to_le_bytes (ucast (df_fcnt f) :: u16) ! 0"
    "df_plain f port frm ! 7 = to_le_bytes (ucast (df_fcnt f) :: u16) ! 1"
    "take 4 (drop 1 (df_plain f port frm)) = df_dev_addr f"
    "take (length (df_f_opts f)) (drop 8 (df_plain f port frm)) = df_f_opts f"
proof -
  have "to_le_bytes (ucast (df_fcnt f) :: u16) = [to_le_bytes (ucast (df_fcnt f) :: u16) ! 0,
      to_le_bytes (ucast (df_fcnt f) :: u16) ! 1]"
    by (simp add: to_le_bytes_def upt_conv_Cons)
  moreover obtain a b c d where "df_dev_addr f = [a, b, c, d]"
    using assms by (auto simp: length_Suc_conv numeral_eq_Suc)
  ultimately show "df_plain f port frm ! 0 = df_mhdr f" "df_plain f port frm ! 5 = df_fctrl f"
    "df_plain f port frm ! 6 = to_le_bytes (ucast (df_fcnt f) :: u16) ! 0"
    "df_plain f port frm ! 7 = to_le_bytes (ucast (df_fcnt f) :: u16) ! 1"
    "take 4 (drop 1 (df_plain f port frm)) = df_dev_addr f"
    "take (length (df_f_opts f)) (drop 8 (df_plain f port frm)) = df_f_opts f"
    unfolding df_plain_def df_header_def by (metis append_Cons append_Nil nth_Cons_0, simp_all)
qed

lemma df_plain_layout:
  assumes "length (df_dev_addr f) = 4" "length (df_f_opts f) \<le> 15" "port = None \<longrightarrow> frm = []" "length m = 4"
  shows "layout_ok (df_plain f port frm @ m) (df_layout f port frm)"
proof -
  let ?b = "df_plain f port frm @ m"
  have l: "length (df_plain f port frm) = 8 + length (df_f_opts f) + length (port_bytes port) + length frm"
    using assms by (simp add: length_df_plain)
  have b: "?b ! 0 = df_mhdr f" "?b ! 5 = df_fctrl f"
    using df_plain_nth [OF assms(1), of port frm] l by (simp_all add: nth_append)
  have "unat (df_fctrl f AND 0x0f) = length (df_f_opts f)"
    using assms by (simp add: df_fctrl_bits unat_of_nat)
  then show ?thesis using l b assms from_mhdr_of [of "df_frame_type f"]
    by (auto simp: layout_ok_def df_layout_def df_mhdr_def port_bytes_def split: option.split)
qed

text \<open>Reading the header of a frame whose plain bytes are known.\<close>

lemma df_plain_accessors:
  assumes "length (df_dev_addr f) = 4" "length (df_f_opts f) \<le> 15" "port = None \<longrightarrow> frm = []" "length m = 4"
    and v: "v = \<lparr>dv_bytes = df_plain f port frm @ m, dv_layout = df_layout f port frm\<rparr>"
  shows "\<exists>h fc. dv_fhdr v = Some h \<and> fhdr_dev_addr h = Some (df_dev_addr f) \<and>
     fhdr_fcnt h = Some (ucast (df_fcnt f)) \<and> fhdr_f_opts h = Some (df_f_opts f) \<and>
     fhdr_fctrl h = Some fc \<and> fctrl_adr fc = df_adr f \<and> fctrl_ack fc = df_ack f \<and>
     fctrl_adr_ack_req fc = (df_adr_ack_req f \<and> is_uplink (df_frame_type f)) \<and>
     fctrl_f_pending fc = (df_f_pending f \<and> \<not> is_uplink (df_frame_type f))"
    and "dv_frame_type v = df_frame_type f" "dv_f_port v = Some port"
    and "dv_frm_payload v = Some (case port of None \<Rightarrow> FrmNone
           | Some p \<Rightarrow> if p = 0 then FrmMacCommands frm else FrmData frm)"
proof -
  let ?n = "length (df_f_opts f)"
  let ?p = "df_plain f port frm"
  have l: "length ?p = 8 + ?n + length (port_bytes port) + length frm"
    using assms by (simp add: length_df_plain)
  note nth = df_plain_nth [OF assms(1), of port frm]
  define hb where "hb = take (7 + ?n) (drop 1 (?p @ m))"
  define up where "up = is_uplink (df_frame_type f)"
  define h where "h = \<lparr>fhdr_bytes = hb, fhdr_uplink = up\<rparr>"
  have vok: "view_ok v" using df_plain_layout [OF assms(1-4)] v by (simp add: view_ok_def)
  have h: "dv_fhdr v = Some h"
    using dv_fhdr_ok [OF vok] v by (simp add: df_layout_def dv_is_uplink_def h_def hb_def up_def)
  have lh: "7 \<le> length (fhdr_bytes h)" using l by (simp add: h_def hb_def)
  have a: "take 4 hb = df_dev_addr f" using nth(5) l by (simp add: hb_def min_def)
  have hb: "hb ! 4 = df_fctrl f" "hb ! 5 = to_le_bytes (ucast (df_fcnt f) :: u16) ! 0"
    "hb ! 6 = to_le_bytes (ucast (df_fcnt f) :: u16) ! 1"
    using nth(2-4) l by (simp_all add: hb_def nth_append)
  have c: "from_le_bytes [hb ! 5, hb ! 6] = (ucast (df_fcnt f) :: u16)"
    unfolding hb by (rule from_le_bytes_u16)
  have o: "drop 7 hb = df_f_opts f" using nth(6) l by (simp add: hb_def drop_take)
  have fields: "fhdr_dev_addr h = Some (df_dev_addr f)" "fhdr_fcnt h = Some (ucast (df_fcnt f))"
    "fhdr_f_opts h = Some (df_f_opts f)" "fhdr_fctrl h = Some (fctrl_new (df_fctrl f) up)"
    using a c o hb(1) by (simp_all add: fhdr_fields [OF lh]) (simp_all add: h_def)
  have bits: "fctrl_adr (fctrl_new (df_fctrl f) up) = df_adr f"
    "fctrl_ack (fctrl_new (df_fctrl f) up) = df_ack f"
    "fctrl_adr_ack_req (fctrl_new (df_fctrl f) up) = (df_adr_ack_req f \<and> is_uplink (df_frame_type f))"
    "fctrl_f_pending (fctrl_new (df_fctrl f) up) = (df_f_pending f \<and> \<not> is_uplink (df_frame_type f))"
    by (auto simp: fctrl_adr_def fctrl_ack_def fctrl_adr_ack_req_def fctrl_f_pending_def fctrl_new_def
        df_fctrl_bits [OF assms(2)] up_def)
  show "\<exists>h fc. dv_fhdr v = Some h \<and> fhdr_dev_addr h = Some (df_dev_addr f) \<and>
     fhdr_fcnt h = Some (ucast (df_fcnt f)) \<and> fhdr_f_opts h = Some (df_f_opts f) \<and>
     fhdr_fctrl h = Some fc \<and> fctrl_adr fc = df_adr f \<and> fctrl_ack fc = df_ack f \<and>
     fctrl_adr_ack_req fc = (df_adr_ack_req f \<and> is_uplink (df_frame_type f)) \<and>
     fctrl_f_pending fc = (df_f_pending f \<and> \<not> is_uplink (df_frame_type f))"
    using h fields bits by blast
  show "dv_frame_type v = df_frame_type f" using v by (simp add: dv_frame_type_def df_layout_def)
  have pn: "?p ! (8 + ?n) = b" if "port = Some b" for b
    using that length_df_header [OF assms(1)]
    by (simp add: df_plain_def nth_append port_bytes_def)
  show p: "dv_f_port v = Some port"
    using v l pn by (auto simp: dv_f_port_def df_layout_def port_bytes_def idx_def nth_append split: option.split)
  have "take (length frm) (drop (8 + ?n + length (port_bytes port)) (?p @ m)) = frm"
    using length_df_header [OF assms(1)] by (simp add: df_plain_def)
  then show "dv_frm_payload v = Some (case port of None \<Rightarrow> FrmNone
           | Some p \<Rightarrow> if p = 0 then FrmMacCommands frm else FrmData frm)"
    using v l p by (auto simp: dv_frm_payload_def df_layout_def split: option.split)
qed

text \<open>The whole path: the MIC of a built frame is right and decryption undoes encryption.\<close>

lemma data_frame_decrypt_eq:
  assumes ok: "data_frame_ok f" and c: "crypto_ok nwk" "\<And>c. app = Some c \<Longrightarrow> crypto_ok c"
    and b: "data_frame_build_into f buf nwk app = Some (Inr out)"
  obtains port frm enc m where "df_select f nwk app = Inr (port, frm, enc)"
    "length (df_f_opts f) \<le> 15" "port = None \<longrightarrow> frm = []" "length m = 4"
    "check_mic_and_decrypt_in_place out nwk app (df_fcnt f) =
       Some (Inr \<lparr>dv_bytes = df_plain f port frm @ m, dv_layout = df_layout f port frm\<rparr>)"
proof -
  obtain port frm enc where sel: "df_select f nwk app = Inr (port, frm, enc)"
    and n: "length (df_f_opts f) \<le> 15"
    and len: "12 + length (df_f_opts f) + length (port_bytes port) + length frm \<le> length buf"
    using data_frame_build_InrD [OF b] by blast
  have a4: "length (df_dev_addr f) = 4" using ok by (simp add: data_frame_ok_def)
  have encok: "crypto_ok enc" and pf: "port = None \<longrightarrow> frm = []"
    and key: "(if \<exists>p. port = Some p \<and> p \<noteq> 0 then app else Some nwk) = Some enc"
    using sel c ok
    by (auto simp: df_select_def data_frame_ok_def payload_ok_def split: payload.splits option.splits if_splits)
  define body where "body = df_body f port frm enc"
  define m where "m = data_mic body nwk (df_fcnt f)"
  define l where "l = df_layout f port frm"
  let ?p = "df_plain f port frm"
  let ?s = "8 + length (df_f_opts f) + length (port_bytes port)"
  have out: "out = body @ m"
    using data_frame_build_eq [OF sel a4 n c(1) encok len] b by (simp add: body_def m_def)
  have m4: "length m = 4" using c by (simp add: m_def length_data_mic)
  have lp: "length ?p = ?s + length frm" using a4 by (simp add: length_df_plain)
  have body: "body = xor_range (key_byte enc (helper_block ?p 0x01 (df_fcnt f))) ?p ?s (?s + length frm)"
    by (simp add: body_def df_body_def Let_def)
  have lb: "length body = ?s + length frm" using lp by (simp add: body)
  have t8: "take 8 body = take 8 ?p" unfolding body by (rule xor_range_take) simp
  have lok: "layout_ok out l"
    unfolding l_def out
    by (rule layout_ok_cong [OF df_plain_layout [OF a4 n pf m4]]) (use lb lp t8 in simp_all)
  have vok: "view_ok \<lparr>dv_bytes = out, dv_layout = l\<rparr>" using lok by (simp add: view_ok_def)
  have mic: "validate_data_mic \<lparr>dv_bytes = out, dv_layout = l\<rparr> nwk (df_fcnt f) = Some True"
    using validate_data_mic_ok [OF vok, of nwk "df_fcnt f"] m4 by (simp add: out flip: m_def)
  have lay: "lay_frm_start l = ?s" "lay_frm_end l = ?s + length frm" by (simp_all add: l_def df_layout_def)
  have w: "wire_fcnt out = ucast (df_fcnt f)"
  proof -
    have "out ! 6 = ?p ! 6" "out ! 7 = ?p ! 7"
      using take_eq_nth [OF t8, of 6] take_eq_nth [OF t8, of 7] lb by (simp_all add: out nth_append)
    then show ?thesis using from_le_bytes_u16 [of "ucast (df_fcnt f)"]
      by (simp only: wire_fcnt_def df_plain_nth(3,4) [OF a4, of port frm])
  qed
  have st: "frm_stream out (df_fcnt f) enc = key_byte enc (helper_block ?p 0x01 (df_fcnt f))"
  proof -
    have "take 5 out = take 5 ?p"
      using take_eq_take [OF t8, of 5] lb by (simp add: out)
    from helper_block_cong [OF this] show ?thesis by (simp add: frm_stream_def w full_fcnt_self)
  qed
  have fk: "frm_key out l (Some nwk) app = Some enc"
  proof -
    have "out ! (8 + length (df_f_opts f)) = p" if "port = Some p" for p
    proof -
      have "body ! (8 + length (df_f_opts f)) = ?p ! (8 + length (df_f_opts f))"
        unfolding body using lp that by (simp add: port_bytes_def)
      moreover have "?p ! (8 + length (df_f_opts f)) = p"
        using that length_df_header [OF a4] by (simp add: df_plain_def nth_append port_bytes_def)
      ultimately show ?thesis using lb that by (simp add: out nth_append port_bytes_def)
    qed
    then show ?thesis using key by (auto simp: frm_key_def l_def df_layout_def split: if_splits)
  qed
  have x: "xor_range (frm_stream out (df_fcnt f) enc) out ?s (?s + length frm) = ?p @ m"
    using lb by (simp add: out xor_range_append st [unfolded out]) (simp add: body xor_range_twice)
  have "decrypt_in_place out (Some nwk) app (df_fcnt f) = Some (Inr \<lparr>dv_bytes = ?p @ m, dv_layout = l\<rparr>)"
  proof (cases "frm = []")
    case True
    then show ?thesis using x c
      by (subst decrypt_in_place_eq [OF lok]) (auto simp: lay)
  next
    case False
    then show ?thesis using x c
      by (subst decrypt_in_place_eq [OF lok]) (auto simp: lay fk)
  qed
  moreover have "encrypted_parse out = Some (Inr \<lparr>dv_bytes = out, dv_layout = l\<rparr>)"
    using vok by (simp add: encrypted_parse_iff)
  ultimately have "check_mic_and_decrypt_in_place out nwk app (df_fcnt f)
      = Some (Inr \<lparr>dv_bytes = ?p @ m, dv_layout = l\<rparr>)"
    by (simp add: check_mic_and_decrypt_in_place_def mic)
  then show thesis using that [OF sel n pf m4] by (simp add: l_def)
qed

section \<open>Properties\<close>

text \<open>C22. A data frame that was built is read back as it was described: with the same keys and frame
  counter, the MIC check of the receiver passes and decryption in place gives a view with the frame
  type, device address, ADR, ACK, ADRACKReq and FPending flags (as far as the direction has them), the
  low half of the counter, the FOpts bytes and the payload of the frame, for every length.\<close>

theorem data_frame_roundtrip:
  assumes "data_frame_ok f" "crypto_ok nwk" "\<And>c. app = Some c \<Longrightarrow> crypto_ok c"
    and "data_frame_build_into f buf nwk app = Some (Inr out)"
  shows "\<exists>v h fc. check_mic_and_decrypt_in_place out nwk app (df_fcnt f) = Some (Inr v) \<and>
     dv_frame_type v = df_frame_type f \<and> dv_fhdr v = Some h \<and>
     fhdr_dev_addr h = Some (df_dev_addr f) \<and> fhdr_fcnt h = Some (ucast (df_fcnt f)) \<and>
     fhdr_f_opts h = Some (df_f_opts f) \<and> fhdr_fctrl h = Some fc \<and>
     fctrl_adr fc = df_adr f \<and> fctrl_ack fc = df_ack f \<and>
     fctrl_adr_ack_req fc = (df_adr_ack_req f \<and> is_uplink (df_frame_type f)) \<and>
     fctrl_f_pending fc = (df_f_pending f \<and> \<not> is_uplink (df_frame_type f)) \<and>
     (case df_payload f of
        PayloadNone \<Rightarrow> dv_f_port v = Some None \<and> dv_frm_payload v = Some FrmNone
      | PayloadData port d \<Rightarrow> dv_f_port v = Some (Some port) \<and> dv_frm_payload v = Some (FrmData d)
      | PayloadMacCommands d \<Rightarrow> dv_f_port v = Some (Some 0) \<and> dv_frm_payload v = Some (FrmMacCommands d))"
proof -
  from data_frame_decrypt_eq [OF assms] obtain port frm enc m where
    sel: "df_select f nwk app = Inr (port, frm, enc)" and b: "length (df_f_opts f) \<le> 15"
    "port = None \<longrightarrow> frm = []" "length m = 4"
    and d: "check_mic_and_decrypt_in_place out nwk app (df_fcnt f) =
       Some (Inr \<lparr>dv_bytes = df_plain f port frm @ m, dv_layout = df_layout f port frm\<rparr>)" .
  have a4: "length (df_dev_addr f) = 4" and po: "payload_ok (df_payload f)"
    using assms(1) by (simp_all add: data_frame_ok_def)
  note acc = df_plain_accessors [OF a4 b refl]
  have "case df_payload f of
        PayloadNone \<Rightarrow> port = None
      | PayloadData pt d \<Rightarrow> port = Some pt \<and> frm = d \<and> pt \<noteq> 0
      | PayloadMacCommands d \<Rightarrow> port = Some 0 \<and> frm = d"
    using sel po by (auto simp: df_select_def payload_ok_def split: payload.splits option.splits if_splits)
  then show ?thesis using d acc by (cases "df_payload f") auto
qed

definition example_frame :: data_frame where
  "example_frame = df_default\<lparr>df_fcnt := 70000, df_adr := True, df_payload := PayloadData 5 [1, 2, 3]\<rparr>"

lemma example_frame_ok: "data_frame_ok example_frame"
  by (simp add: data_frame_ok_def example_frame_def df_default_def payload_ok_def dev_addr.length_from_value)

lemma example_frame_built:
  "\<exists>out. data_frame_build_into example_frame (replicate 32 0) (xor_crypto 1) (Some (xor_crypto 2)) = Some (Inr out)"
  using example_frame_ok
    data_frame_build_eq [of example_frame "xor_crypto 1" "Some (xor_crypto 2)" "Some 5" "[1, 2, 3]" "xor_crypto 2" "replicate 32 0"]
  by (simp add: data_frame_ok_def df_select_def example_frame_def df_default_def port_bytes_def)

lemma data_frame_roundtrip_witness:
  "\<exists>out v. data_frame_build_into example_frame (replicate 32 0) (xor_crypto 1) (Some (xor_crypto 2)) = Some (Inr out) \<and>
     check_mic_and_decrypt_in_place out (xor_crypto 1) (Some (xor_crypto 2)) 70000 = Some (Inr v) \<and>
     dv_frm_payload v = Some (FrmData [1, 2, 3])"
proof -
  obtain out where out: "data_frame_build_into example_frame (replicate 32 0) (xor_crypto 1) (Some (xor_crypto 2)) = Some (Inr out)"
    using example_frame_built by blast
  have "crypto_ok (xor_crypto 1)" "\<And>c. Some (xor_crypto 2) = Some c \<Longrightarrow> crypto_ok c" by auto
  from data_frame_roundtrip [OF example_frame_ok this out] out show ?thesis
    by (auto simp: example_frame_def)
qed

text \<open>Building a data frame never panics, and every error is the documented one: more than 15
  bytes of FOpts, no application key for application data, MAC commands in the payload beside FOpts,
  or a buffer shorter than the frame; otherwise the frame is built.\<close>

theorem data_frame_build_outcomes:
  assumes "data_frame_ok f" "crypto_ok nwk" "\<And>c. app = Some c \<Longrightarrow> crypto_ok c"
  shows "\<exists>r. data_frame_build_into f buf nwk app = Some r \<and>
     (case r of
        Inl e \<Rightarrow> (e = FOptsTooLong \<and> 15 < length (df_f_opts f)) \<or>
          (e = MissingKey \<and> app = None \<and> (\<exists>p d. df_payload f = PayloadData p d)) \<or>
          (e = FOptsWithFPortZero \<and> df_f_opts f \<noteq> [] \<and> (\<exists>d. df_payload f = PayloadMacCommands d)) \<or>
          (e = FrameBufferTooShort \<and> length buf < 12 + length (df_f_opts f) +
             (case df_payload f of PayloadNone \<Rightarrow> 0 | PayloadData p d \<Rightarrow> 1 + length d
              | PayloadMacCommands d \<Rightarrow> 1 + length d))
      | Inr out \<Rightarrow> length out = 12 + length (df_f_opts f) +
             (case df_payload f of PayloadNone \<Rightarrow> 0 | PayloadData p d \<Rightarrow> 1 + length d
              | PayloadMacCommands d \<Rightarrow> 1 + length d))"
proof (cases "15 < length (df_f_opts f)")
  case True
  then show ?thesis by (simp add: data_frame_build_into_def)
next
  case n: False
  show ?thesis
  proof (cases "df_select f nwk app")
    case (Inl e)
    then have "data_frame_build_into f buf nwk app = Some (Inl e)" using n by (simp add: data_frame_build_into_def)
    then show ?thesis using Inl by (auto simp: df_select_def split: payload.splits option.splits if_splits)
  next
    case (Inr r)
    obtain port frm enc where r: "r = (port, frm, enc)" by (cases r) auto
    have a4: "length (df_dev_addr f) = 4" using assms by (simp add: data_frame_ok_def)
    have enc: "crypto_ok enc" and size: "length (port_bytes port) + length frm =
       (case df_payload f of PayloadNone \<Rightarrow> 0 | PayloadData p d \<Rightarrow> 1 + length d | PayloadMacCommands d \<Rightarrow> 1 + length d)"
      using Inr r assms by (auto simp: df_select_def port_bytes_def split: payload.splits option.splits if_splits)
    show ?thesis
    proof (cases "12 + length (df_f_opts f) + length (port_bytes port) + length frm \<le> length buf")
      case True
      then show ?thesis
        using data_frame_build_eq [OF Inr [unfolded r] a4 _ assms(2) enc True] n size length_data_mic [OF assms(2)]
          length_df_plain [OF a4, of port frm]
        by (simp add: df_body_def Let_def)
    next
      case False
      then have g: "get_front buf (1 + (7 + length (df_f_opts f)) + (if port = None then 0 else 1) + length frm + 4) = None"
        by (auto simp: get_front_def port_bytes_def split: option.splits)
      have "data_frame_build_into f buf nwk app = Some (Inl FrameBufferTooShort)"
        using n by (simp only: data_frame_build_into_def Inr r if_False try_run_simps case_prod_conv Let_def g ok_or_simps)
      then show ?thesis using False size by simp
    qed
  qed
qed

lemma data_frame_build_outcomes_witness:
  "\<exists>r. data_frame_build_into example_frame [] (xor_crypto 1) None = Some r"
  using data_frame_build_outcomes [OF example_frame_ok, of "xor_crypto 1" None "[]"] by auto

lemma drop_ja_plain_cf:
  assumes "join_accept_ok j"
  shows "drop 13 (ja_plain j) = cf_bytes (jac_c_f_list j)"
proof -
  have "drop (length (xs :: bytes)) (xs @ ys) = ys" for xs ys by simp
  moreover have "length ([0x20] @ jac_join_nonce j @ jac_net_id j @ jac_dev_addr j
     @ [dls_raw (jac_dl_settings j), jac_rx_delay j AND 0x0f]) = 13"
    using assms by (simp add: join_accept_ok_def)
  ultimately show ?thesis unfolding ja_plain_def by (metis append.assoc)
qed

lemma ja_plain_fields:
  assumes "join_accept_ok j"
  shows "ja_plain j ! 0 = 0x20" "take 3 (drop 1 (ja_plain j)) = jac_join_nonce j"
    "take 3 (drop 4 (ja_plain j)) = jac_net_id j" "take 4 (drop 7 (ja_plain j)) = jac_dev_addr j"
    "ja_plain j ! 11 = dls_raw (jac_dl_settings j)" "ja_plain j ! 12 = jac_rx_delay j AND 0x0f"
proof -
  obtain a b c where 1: "jac_join_nonce j = [a, b, c]"
    using assms by (auto simp: join_accept_ok_def length_Suc_conv numeral_eq_Suc)
  obtain d e f where 2: "jac_net_id j = [d, e, f]"
    using assms by (auto simp: join_accept_ok_def length_Suc_conv numeral_eq_Suc)
  obtain g h i k where 3: "jac_dev_addr j = [g, h, i, k]"
    using assms by (auto simp: join_accept_ok_def length_Suc_conv numeral_eq_Suc)
  show "ja_plain j ! 0 = 0x20" "take 3 (drop 1 (ja_plain j)) = jac_join_nonce j"
    "take 3 (drop 4 (ja_plain j)) = jac_net_id j" "take 4 (drop 7 (ja_plain j)) = jac_dev_addr j"
    "ja_plain j ! 11 = dls_raw (jac_dl_settings j)" "ja_plain j ! 12 = jac_rx_delay j AND 0x0f"
    by (simp_all add: ja_plain_def 1 2 3)
qed

lemma cf_freqs_concat:
  assumes "length fs = 5" "\<forall>f \<in> set fs. length f = 3"
  shows "cf_freqs (concat fs @ [0]) = fs"
proof -
  obtain a b c d e where fs: "fs = [a, b, c, d, e]"
    using assms(1) by (auto simp: length_Suc_conv numeral_eq_Suc)
  then have l: "length a = 3" "length b = 3" "length c = 3" "length d = 3" "length e = 3"
    using assms(2) by simp_all
  show ?thesis using l by (simp add: cf_freqs_def fs upt_conv_Cons)
qed

lemma ja_c_f_list_plain:
  assumes j: "join_accept_ok j" and m: "length m = 4"
  shows "ja_c_f_list (ja_plain j @ m) = Some (jac_c_f_list j)"
proof (cases "jac_c_f_list j")
  case None
  then show ?thesis using length_ja_plain [OF j] m by (simp add: ja_c_f_list_def)
next
  case (Some cf)
  have l: "length (ja_plain j) = 29" using length_ja_plain [OF j] Some by simp
  have ok: "cf_list_ok cf" using j Some by (simp add: join_accept_ok_def)
  have ne: "(length (ja_plain j @ m) = 17) = False" using l m by simp
  have sl: "subslice (ja_plain j @ m) 13 29 = Some (cf_bytes (Some cf))"
  proof -
    have "length (drop 13 (ja_plain j)) = 16" using l by simp
    then have "length (cf_bytes (Some cf)) = 16" using drop_ja_plain_cf [OF j] Some by simp
    then show ?thesis using l m drop_ja_plain_cf [OF j] Some by simp
  qed
  show ?thesis
  proof (cases cf)
    case (DynamicChannel fs)
    then have fs: "length fs = 5" "\<forall>f \<in> set fs. length f = 3" using ok by (auto simp: cf_list_ok_def)
    have "idx (concat fs @ [0]) 15 = Some 0" using fs by (simp add: idx_def length_concat3 nth_append)
    then show ?thesis
      unfolding ja_c_f_list_def ne if_False sl Option.bind.simps
      using Some DynamicChannel fs by (simp add: cf_bytes_def cf_freqs_concat)
  next
    case (FixedChannel mk)
    then have mk: "length mk = 9" using ok by (simp add: cf_list_ok_def)
    have "idx (mk @ replicate 6 0 @ [1]) 15 = Some 1" using mk by (simp add: idx_def nth_append)
    then show ?thesis
      unfolding ja_c_f_list_def ne if_False sl Option.bind.simps
      using Some FixedChannel mk by (simp add: cf_bytes_def mask_new_from_raw_def)
  qed
qed

lemma ja_decrypt_built:
  assumes j: "join_accept_ok j" and c: "network_crypto_ok c"
    and b: "join_accept_build_into j buf c = Some (Inr out)"
  shows "ja_decrypt_in_place out c =
     (ja_plain j @ calculate_mic (ja_plain j) c, Inr (ja_plain j @ calculate_mic (ja_plain j) c))"
proof -
  define d where "d = ja_plain j @ calculate_mic (ja_plain j) c"
  have len: "(if jac_c_f_list j = None then 17 else 33) \<le> length buf"
  proof (rule ccontr)
    assume "\<not> ?thesis"
    then have "get_front buf (if jac_c_f_list j \<noteq> None then 33 else 17) = None" by (auto simp: get_front_def)
    then have "join_accept_build_into j buf c = Some (Inl FrameBufferTooShort)"
      by (simp only: join_accept_build_into_def Let_def ok_or_simps try_run_simps)
    then show False using b by simp
  qed
  have out: "out = take 1 d @ map_chunks16 (decrypt_block c) (drop 1 d)"
    using join_accept_build_eq [OF j c len] b by (simp only: Let_def d_def) simp
  have m: "length (calculate_mic (ja_plain j) c) = 4"
    using c by (simp add: calculate_mic_def crypto_okD network_crypto_okD)
  have ld: "length d = 17 \<or> length d = 33" using length_ja_plain [OF j] m by (auto simp: d_def)
  have d0: "d ! 0 = 0x20"
    using ja_plain_fields(1) [OF j] length_ja_plain [OF j] by (auto simp: d_def nth_append split: if_splits)
  have lm: "length (map_chunks16 (decrypt_block c) (drop 1 d)) = length (drop 1 d)"
    by (rule length_map_chunks16) (rule network_crypto_okD(2) [OF c])
  have l1: "length (take 1 d) = 1" using ld by auto
  have "length out = length d" unfolding out length_append lm l1 using ld by auto
  moreover have "out ! 0 = 0x20" unfolding out nth_append l1 using d0 by simp
  ultimately have v: "validate_join_accept_structure out = Inr ()"
    using ld by (auto simp: validate_join_accept_iff)
  have "drop 1 out = map_chunks16 (decrypt_block c) (drop 1 d)" "take 1 out = take 1 d"
    unfolding out using l1 by (simp_all only: drop_append take_append) auto
  then have "take 1 out @ map_chunks16 (encrypt_block c) (drop 1 out) = d"
    by (simp only: map_chunks16_comp [where f = "encrypt_block c" and g = "decrypt_block c",
          OF conjI, OF network_crypto_okD(2) [OF c] network_crypto_okD(3) [OF c]] append_take_drop_id)
  then show ?thesis by (simp only: ja_decrypt_in_place_def v sum.case Let_def d_def)
qed

lemma join_accept_read:
  assumes "join_accept_ok j" "network_crypto_ok c" "join_accept_build_into j buf c = Some (Inr out)"
  obtains d where "ja_check_mic_and_decrypt out c = Some (d, Inr d)" "length d = 17 \<or> length d = 33"
    "take 6 (drop 1 d) = jac_join_nonce j @ jac_net_id j"
    "ja_dev_addr d = Some (jac_dev_addr j)" "ja_dl_settings d = Some (jac_dl_settings j)"
    "ja_rx_delay d = Some (jac_rx_delay j AND 0x0f)" "ja_c_f_list d = Some (jac_c_f_list j)"
proof -
  let ?m = "calculate_mic (ja_plain j) c"
  let ?d = "ja_plain j @ ?m"
  have m: "length ?m = 4" using assms(2) by (simp add: calculate_mic_def crypto_okD network_crypto_okD)
  have l: "length ?d = 17 \<or> length ?d = 33" using length_ja_plain [OF assms(1)] m by auto
  have lp: "13 \<le> length (ja_plain j)" using length_ja_plain [OF assms(1)] by simp
  have "ja_check_mic_and_decrypt out c = Some (?d, Inr ?d)"
    using ja_fields(7) [OF l, of c] m by (simp add: ja_check_mic_and_decrypt_def ja_decrypt_built [OF assms])
  moreover have "ja_dev_addr ?d = Some (jac_dev_addr j)" "ja_dl_settings ?d = Some (jac_dl_settings j)"
    "ja_rx_delay ?d = Some (jac_rx_delay j AND 0x0f)"
    using ja_plain_fields [OF assms(1)] lp by (simp_all add: ja_fields(1-5) [OF l] nth_append)
  moreover have "ja_c_f_list ?d = Some (jac_c_f_list j)" by (rule ja_c_f_list_plain [OF assms(1) m])
  moreover have "take 6 (drop 1 ?d) = jac_join_nonce j @ jac_net_id j"
    using assms(1) by (simp add: ja_plain_def join_accept_ok_def)
  ultimately show thesis using l by (intro that) simp_all
qed

text \<open>A join accept that a network built is read back by the device: with the same key, the
  device's encrypt-mode pass undoes the network's decrypt-mode pass, the MIC check passes, and every
  accessor returns the field that was put in, for no, a dynamic and a fixed channel list alike.\<close>

theorem join_accept_roundtrip:
  assumes "join_accept_ok j" "network_crypto_ok c"
    and "join_accept_build_into j buf c = Some (Inr out)"
  shows "\<exists>d. ja_check_mic_and_decrypt out c = Some (d, Inr d) \<and>
     ja_join_nonce d = Some (jac_join_nonce j) \<and> ja_net_id d = Some (jac_net_id j) \<and>
     ja_dev_addr d = Some (jac_dev_addr j) \<and> ja_dl_settings d = Some (jac_dl_settings j) \<and>
     ja_rx_delay d = Some (jac_rx_delay j AND 0x0f) \<and> ja_c_f_list d = Some (jac_c_f_list j)"
proof (rule join_accept_read [OF assms])
  fix d assume d: "ja_check_mic_and_decrypt out c = Some (d, Inr d)" "length d = 17 \<or> length d = 33"
    "take 6 (drop 1 d) = jac_join_nonce j @ jac_net_id j"
    "ja_dev_addr d = Some (jac_dev_addr j)" "ja_dl_settings d = Some (jac_dl_settings j)"
    "ja_rx_delay d = Some (jac_rx_delay j AND 0x0f)" "ja_c_f_list d = Some (jac_c_f_list j)"
  have "take 3 (drop 1 d) = take 3 (take 6 (drop 1 d))" "take 3 (drop 4 d) = drop 3 (take 6 (drop 1 d))"
    by (simp_all add: drop_take)
  then have "take 3 (drop 1 d) = jac_join_nonce j" "take 3 (drop 4 d) = jac_net_id j"
    unfolding d(3) using assms(1) by (simp_all add: join_accept_ok_def)
  then show ?thesis using d ja_fields(1,2) [OF d(2)] by auto
qed

definition example_accept :: join_accept where
  "example_accept = \<lparr>jac_join_nonce = [1, 2, 3], jac_net_id = [4, 5, 6], jac_dev_addr = [7, 8, 9, 10],
     jac_dl_settings = DLSettings 0x12, jac_rx_delay = 3,
     jac_c_f_list = Some (DynamicChannel (replicate 5 [1, 2, 3]))\<rparr>"

lemma example_accept_ok: "join_accept_ok example_accept"
  by (simp add: example_accept_def join_accept_ok_def cf_list_ok_def)

lemma join_accept_roundtrip_witness:
  "\<exists>out d. join_accept_build_into example_accept (replicate 40 0) (xor_crypto 3) = Some (Inr out) \<and>
     ja_check_mic_and_decrypt out (xor_crypto 3) = Some (d, Inr d) \<and> ja_net_id d = Some [4, 5, 6]"
proof -
  obtain out where out: "join_accept_build_into example_accept (replicate 40 0) (xor_crypto 3) = Some (Inr out)"
    using join_accept_build_eq [OF example_accept_ok xor_crypto_ok(2), of "replicate 40 0" 3]
    by (simp add: example_accept_def Let_def)
  from join_accept_roundtrip [OF example_accept_ok xor_crypto_ok(2) out] out show ?thesis
    by (auto simp: example_accept_def)
qed

lemma join_request_read:
  assumes j: "join_request_ok j" and c: "crypto_ok c" and len: "23 \<le> length buf"
    and out: "join_request_build_into j buf c = Some (Inr out)"
  shows "phy_parse out = Some (Inr (PhyJoinRequest out)) \<and>
     jr_join_eui out = Some (jrq_join_eui j) \<and> jr_dev_eui out = Some (jrq_dev_eui j) \<and>
     jr_dev_nonce out = Some (jrq_dev_nonce j) \<and> jr_validate_mic out c = Some True"
proof -
  define b where "b = [0] @ jrq_join_eui j @ jrq_dev_eui j @ jrq_dev_nonce j"
  have o: "out = b @ calculate_mic b c"
    using join_request_build_eq [OF j c len] out by (simp add: b_def Let_def)
  have m: "length (calculate_mic b c) = 4" using c by (simp add: calculate_mic_def crypto_okD)
  have lb: "length b = 19" using j by (simp add: join_request_ok_def b_def)
  have l: "length out = 23" using lb m by (simp add: o)
  have o0: "out ! 0 = 0" "out \<noteq> []" by (simp_all add: o b_def)
  then have "join_request_parse out = Inr out" using l by (simp add: join_request_parse_iff)
  then have p: "phy_parse out = Some (Inr (PhyJoinRequest out))" using o0 by (cases out) (simp_all add: phy_parse_def)
  have f: "take 8 (drop 1 out) = jrq_join_eui j" "take 8 (drop 9 out) = jrq_dev_eui j"
    "take 2 (drop 17 out) = jrq_dev_nonce j"
    using j by (simp_all add: join_request_ok_def o b_def)
  have "drop 19 out = calculate_mic b c" "take 19 out = b" using lb by (simp_all add: o)
  then have "jr_validate_mic out c = Some True" using jr_fields(4) [OF l, of c] by simp
  then show ?thesis using p f jr_fields(1-3) [OF l] by simp
qed

text \<open>A join request that a device built parses on the network side as a join request with the
  same JoinEUI, DevEUI and DevNonce, and its MIC check passes under the same key; building fails
  exactly when the buffer has fewer than 23 bytes.\<close>

theorem join_request_roundtrip:
  assumes j: "join_request_ok j" and c: "crypto_ok c"
  shows "\<exists>r. join_request_build_into j buf c = Some r \<and>
     (case r of
        Inl e \<Rightarrow> e = FrameBufferTooShort \<and> length buf < 23
      | Inr out \<Rightarrow> 23 \<le> length buf \<and> phy_parse out = Some (Inr (PhyJoinRequest out)) \<and>
          jr_join_eui out = Some (jrq_join_eui j) \<and> jr_dev_eui out = Some (jrq_dev_eui j) \<and>
          jr_dev_nonce out = Some (jrq_dev_nonce j) \<and> jr_validate_mic out c = Some True)"
proof (cases "23 \<le> length buf")
  case True
  obtain out where r: "join_request_build_into j buf c = Some (Inr out)"
    using join_request_build_eq [OF j c True] by (simp add: Let_def)
  then show ?thesis using join_request_read [OF j c True r] True by simp
next
  case False
  then show ?thesis by (simp add: join_request_build_into_def get_front_def)
qed

definition example_request :: join_request where
  "example_request = \<lparr>jrq_join_eui = replicate 8 1, jrq_dev_eui = replicate 8 2, jrq_dev_nonce = [3, 4]\<rparr>"

lemma join_request_roundtrip_witness:
  "\<exists>r. join_request_build_into example_request (replicate 23 0) (xor_crypto 3) = Some r \<and>
     (\<forall>out. r = Inr out \<longrightarrow> jr_dev_nonce out = Some [3, 4])"
proof -
  have ok: "join_request_ok example_request" by (simp add: join_request_ok_def example_request_def)
  from join_request_roundtrip [OF ok xor_crypto_ok(1), of "replicate 23 0" 3]
  obtain r where r: "join_request_build_into example_request (replicate 23 0) (xor_crypto 3) = Some r"
    and *: "case r of Inl e \<Rightarrow> e = FrameBufferTooShort \<and> length (replicate 23 (0 :: u8)) < 23
      | Inr out \<Rightarrow> 23 \<le> length (replicate 23 (0 :: u8)) \<and> phy_parse out = Some (Inr (PhyJoinRequest out)) \<and>
          jr_join_eui out = Some (jrq_join_eui example_request) \<and>
          jr_dev_eui out = Some (jrq_dev_eui example_request) \<and>
          jr_dev_nonce out = Some (jrq_dev_nonce example_request) \<and>
          jr_validate_mic out (xor_crypto 3) = Some True" by blast
  have "jr_dev_nonce out = Some [3, 4]" if "r = Inr out" for out
    using * that by (simp add: example_request_def)
  then show ?thesis using r by blast
qed

end
