(* ===== verification/Session.thy ===== *)
theory Session
  imports SessionState Creator
begin

text \<open>
  The handlers of \<open>Session\<close> (\<open>lorawan-device/src/mac/session.rs\<close>): the MAC commands of a
  downlink, the reception of a frame, and the building of an uplink. \<open>DefaultCrypto::new\<close> is a
  third-party AES behind the traits of \<open>Security\<close>; the parameter \<open>mk\<close> gives the functions it has for a
  key. The \<open>&mut\<close> arguments of a handler are the record \<open>mac_ctx\<close>, returned updated.
\<close>

record mac_ctx =
  cx_session :: session
  cx_conf :: mac_configuration
  cx_region :: region_state

section \<open>MAC commands of a downlink\<close>

text \<open>\<open>self.uplink.add_mac_command(cmd)\<close> for a creator.\<close>

definition answer :: "bytes \<Rightarrow> mac_ctx \<Rightarrow> mac_ctx run" where
  "answer cmd x = do {
     u \<leftarrow> add_mac_command (creator_obj cmd) (ss_uplink (cx_session x));
     Some (x\<lparr>cx_session := (cx_session x)\<lparr>ss_uplink := u\<rparr>\<rparr>)}"

definition handle_dev_status_req :: "i8 \<Rightarrow> mac_ctx \<Rightarrow> mac_ctx run" where
  "handle_dev_status_req snr x =
     (let cmd = dev_status_ans_set_battery 255 (creator_new 0x06 2);
          cmd = (case dev_status_ans_set_margin snr cmd of Inl _ \<Rightarrow> cmd | Inr c \<Rightarrow> c)
      in answer cmd x)"

definition handle_dl_channel_req :: "bytes \<Rightarrow> mac_ctx \<Rightarrow> mac_ctx run" where
  "handle_dl_channel_req p x =
     (if rs_has_fixed_channel_plan (cx_region x) then Some x
      else do {
        index \<leftarrow> dl_channel_req_channel_index p;
        f \<leftarrow> dl_channel_req_frequency p;
        freq \<leftarrow> tfreq_value f;
        ((ack_f, ack_c), region') \<leftarrow> rs_channel_dl_update index freq (cx_region x);
        answer (dl_channel_ans_set_uplink_frequency_exists_ack ack_c
                 (dl_channel_ans_set_channel_frequency_ack ack_f (creator_new 0x0A 1)))
          (x\<lparr>cx_region := region'\<rparr>)})"

text \<open>The arm of \<open>LinkADRReq\<close>: first what every command of a block does to the local mask.\<close>

definition link_adr_mask :: "bytes \<Rightarrow> channel_mask \<Rightarrow> mac_ctx \<Rightarrow> channel_mask run" where
  "link_adr_mask p m x = do {
     red \<leftarrow> link_adr_req_redundancy p;
     ch \<leftarrow> link_adr_req_channel_mask p;
     r \<leftarrow> rs_channel_mask_update (cx_region x) m (channel_mask_control red) ch;
     Some (case r of Some m' \<Rightarrow> m' | None \<Rightarrow> m)}"

text \<open>The data rate and the power that the last command of the block asks for; 15 keeps the current one.\<close>

definition link_adr_dr :: "bytes \<Rightarrow> mac_ctx \<Rightarrow> DR option run" where
  "link_adr_dr p x = do {
     n \<leftarrow> link_adr_req_data_rate p;
     if n = DR15 then Some (Some (cfg_data_rate (cx_conf x)))
     else do {
       d \<leftarrow> rs_get_datarate (cx_region x) (dr_u8 n);
       Some (if d \<noteq> None then Some n else None)}}"

definition link_adr_pw :: "bytes \<Rightarrow> mac_ctx \<Rightarrow> u8 option option run" where
  "link_adr_pw p x = do {
     pw \<leftarrow> link_adr_req_tx_power p;
     Some (if pw = DR15 then Some (cfg_tx_power (cx_conf x))
           else rs_check_tx_power (cx_region x) (dr_u8 pw))}"

fun repeat_answer :: "nat \<Rightarrow> bytes \<Rightarrow> mac_ctx \<Rightarrow> mac_ctx run" where
  "repeat_answer 0 cmd x = Some x"
| "repeat_answer (Suc n) cmd x = do { x' \<leftarrow> answer cmd x; repeat_answer n cmd x' }"

definition link_adr_ans :: "bool \<Rightarrow> bool \<Rightarrow> bool \<Rightarrow> bytes" where
  "link_adr_ans cm dr pw = link_adr_ans_set_tx_power_ack pw (link_adr_ans_set_data_rate_ack dr
     (link_adr_ans_set_channel_mask_ack cm (creator_new 0x03 1)))"

definition link_adr_finish :: "bytes \<Rightarrow> channel_mask \<Rightarrow> nat \<Rightarrow> mac_ctx \<Rightarrow> mac_ctx run" where
  "link_adr_finish p m num_adrreq x = do {
     dr \<leftarrow> link_adr_dr p x;
     pw \<leftarrow> link_adr_pw p x;
     cm_ack \<leftarrow> rs_channel_mask_validate (cx_region x) m dr;
     let x' = (case (dr, pw) of
         (Some d, Some q) \<Rightarrow>
           if cm_ack
           then x\<lparr>cx_conf := (cx_conf x)\<lparr>cfg_data_rate := d, cfg_tx_power := q\<rparr>,
                  cx_region := rs_channel_mask_set m (cx_region x)\<rparr>
           else x
       | _ \<Rightarrow> x);
     repeat_answer num_adrreq (link_adr_ans cm_ack (dr \<noteq> None) (pw \<noteq> None)) x'}"

definition handle_new_channel_req :: "bytes \<Rightarrow> mac_ctx \<Rightarrow> mac_ctx run" where
  "handle_new_channel_req p x =
     (if rs_has_fixed_channel_plan (cx_region x) then Some x
      else do {
        index \<leftarrow> new_channel_req_channel_index p;
        f \<leftarrow> new_channel_req_frequency p;
        freq \<leftarrow> tfreq_value f;
        drs \<leftarrow> new_channel_req_data_rate_range p;
        ((ack_f, ack_d), region') \<leftarrow> rs_handle_new_channel index freq (result_ok drs) (cx_region x);
        answer (new_channel_ans_set_data_rate_range_ack ack_d
                 (new_channel_ans_set_channel_frequency_ack ack_f (creator_new 0x07 1)))
          (x\<lparr>cx_region := region'\<rparr>)})"

definition handle_rx_param_setup_req :: "bytes \<Rightarrow> mac_ctx \<Rightarrow> mac_ctx run" where
  "handle_rx_param_setup_req p x = do {
     f \<leftarrow> rx_param_setup_req_frequency p;
     freq \<leftarrow> tfreq_value f;
     let freq_ack = rs_frequency_valid (cx_region x) freq;
     dl \<leftarrow> rx_param_setup_req_dl_settings p;
     let off = rs_rx1_dr_offset_validate (cx_region x) (rx1_dr_offset dl);
     rx2_dr \<leftarrow>
       (if rx2_data_rate dl = DR15 then Some (Some (cfg_rx2_data_rate (cx_conf x)))
        else do {
          d \<leftarrow> rs_get_datarate (cx_region x) (dr_u8 (rx2_data_rate dl));
          Some (if d \<noteq> None then Some (Some (rx2_data_rate dl)) else None)});
     let x' = (case (rx2_dr, off) of
         (Some d, Some v) \<Rightarrow>
           if freq_ack
           then x\<lparr>cx_conf := (cx_conf x)\<lparr>cfg_rx2_data_rate := d, cfg_rx2_frequency := Some freq,
                                          cfg_rx1_dr_offset := v\<rparr>\<rparr>
           else x
       | _ \<Rightarrow> x);
     answer (rx_param_setup_ans_set_channel_ack freq_ack (rx_param_setup_ans_set_rx2_data_rate_ack (rx2_dr \<noteq> None)
              (rx_param_setup_ans_set_rx1_dr_offset_ack (off \<noteq> None) (creator_new 0x05 1)))) x'}"

definition handle_rx_timing_setup_req :: "bytes \<Rightarrow> mac_ctx \<Rightarrow> mac_ctx run" where
  "handle_rx_timing_setup_req p x = do {
     d \<leftarrow> rx_timing_setup_req_delay p;
     answer (creator_new 0x08 0) (x\<lparr>cx_conf := (cx_conf x)\<lparr>cfg_rx1_delay := del_to_delay_ms d\<rparr>\<rparr>)}"

text \<open>\<open>if let Some(LinkADRReq(..)) = cmd_iter.peek()\<close>\<close>

definition peeks_link_adr :: "downlink_cmd list \<Rightarrow> bool" where
  "peeks_link_adr cs = (case cs of LinkADRReq _ # _ \<Rightarrow> True | _ \<Rightarrow> False)"

text \<open>The loop, with its local variables \<open>channel_mask\<close> and \<open>num_adrreq\<close>.\<close>

fun macs_loop :: "i8 \<Rightarrow> downlink_cmd list \<Rightarrow> channel_mask \<Rightarrow> nat \<Rightarrow> mac_ctx \<Rightarrow> mac_ctx run" where
  "macs_loop snr [] m n x = Some x"
| "macs_loop snr (DevStatusReq # cs) m n x = do {
     x' \<leftarrow> handle_dev_status_req snr x; macs_loop snr cs m n x' }"
| "macs_loop snr (DlChannelReq p # cs) m n x = do {
     x' \<leftarrow> handle_dl_channel_req p x; macs_loop snr cs m n x' }"
| "macs_loop snr (LinkADRReq p # cs) m n x = do {
     m' \<leftarrow> link_adr_mask p m x;
     if peeks_link_adr cs then macs_loop snr cs m' (n + 1) x
     else do { x' \<leftarrow> link_adr_finish p m' (n + 1) x; macs_loop snr cs m' 0 x' }}"
| "macs_loop snr (NewChannelReq p # cs) m n x = do {
     x' \<leftarrow> handle_new_channel_req p x; macs_loop snr cs m n x' }"
| "macs_loop snr (RXParamSetupReq p # cs) m n x = do {
     x' \<leftarrow> handle_rx_param_setup_req p x; macs_loop snr cs m n x' }"
| "macs_loop snr (RXTimingSetupReq p # cs) m n x = do {
     x' \<leftarrow> handle_rx_timing_setup_req p x; macs_loop snr cs m n x' }"
| "macs_loop snr (_ # cs) m n x = macs_loop snr cs m n x"

definition handle_downlink_macs :: "bytes \<Rightarrow> i8 \<Rightarrow> mac_ctx \<Rightarrow> mac_ctx run" where
  "handle_downlink_macs cmds snr x = do {
     items \<leftarrow> mc_items downlink_parse_one (mc_new cmds);
     macs_loop snr (List.map_filter result_ok items) (rs_channel_mask_get (cx_region x)) 0 x}"

section \<open>Reception\<close>

record downlink =
  dl_data :: bytes
  dl_fport :: u8

definition set_uplink :: "(uplink_state \<Rightarrow> uplink_state) \<Rightarrow> mac_ctx \<Rightarrow> mac_ctx" where
  "set_uplink f x = x\<lparr>cx_session := (cx_session x)\<lparr>ss_uplink := f (ss_uplink (cx_session x))\<rparr>\<rparr>"

text \<open>The end of \<open>handle_rx\<close>, once the MAC commands are done; \<open>D\<close> is the capacity of the downlink queue.\<close>

definition deliver_downlink ::
  "nat \<Rightarrow> u32 \<Rightarrow> data_view \<Rightarrow> downlink list \<Rightarrow> mac_ctx \<Rightarrow> (mac_response \<times> downlink list \<times> mac_ctx) run" where
  "deliver_downlink D fcnt v dl x =
     (if ss_fcnt_up (cx_session x) = 0xFFFFFFFF then Some (SessionExpired, dl, x)
      else do {
        let x' = x\<lparr>cx_session := (cx_session x)\<lparr>ss_fcnt_up := ss_fcnt_up (cx_session x) + 1\<rparr>\<rparr>;
        port \<leftarrow> dv_f_port v;
        payload \<leftarrow> dv_frm_payload v;
        dl' \<leftarrow> (case (port, payload) of
            (Some fport, FrmData data) \<Rightarrow> do {
              d \<leftarrow> vec_extend_unwrap 256 [] data;
              Some (vec_push D dl \<lparr>dl_data = d, dl_fport = fport\<rparr>)}
          | _ \<Rightarrow> Some dl);
        Some (DownlinkReceived fcnt, dl', x')})"

text \<open>A frame whose MIC is valid; the result carries the bytes, decrypted in place.\<close>

definition handle_accepted ::
  "(bytes \<Rightarrow> 'x crypto_scheme) \<Rightarrow> nat \<Rightarrow> bytes \<Rightarrow> u32 \<Rightarrow> bool \<Rightarrow> i8 \<Rightarrow> bool \<Rightarrow> downlink list \<Rightarrow> mac_ctx
    \<Rightarrow> (mac_response \<times> downlink list \<times> bytes \<times> mac_ctx) run" where
  "handle_accepted mk D bs fcnt confirmed snr ignore_mac dl x = do {
     let s = cx_session x;
     let x1 = x\<lparr>cx_session := s\<lparr>ss_fcnt_down := Some fcnt, ss_adr_ack_cnt := 0\<rparr>\<rparr>;
     r \<leftarrow> decrypt_in_place bs (Some (mk (ss_nwkskey s))) (Some (mk (ss_appskey s))) fcnt;
     v \<leftarrow> result_ok r;
     x2 \<leftarrow> (if ignore_mac then Some x1
            else do {
              h \<leftarrow> dv_fhdr v;
              opts \<leftarrow> fhdr_f_opts h;
              y \<leftarrow> handle_downlink_macs opts snr x1;
              payload \<leftarrow> dv_frm_payload v;
              case payload of FrmMacCommands cmds \<Rightarrow> handle_downlink_macs cmds snr y | _ \<Rightarrow> Some y});
     let x3 = (if confirmed then set_uplink set_downlink_confirmation x2 else x2);
     (resp, dl', x4) \<leftarrow> deliver_downlink D fcnt v dl x3;
     Some (resp, dl', dv_bytes v, x4)}"

text \<open>\<open>Session::handle_rx\<close> on the received bytes \<open>rx.as_mut_for_read()\<close>.\<close>

definition handle_rx ::
  "(bytes \<Rightarrow> 'x crypto_scheme) \<Rightarrow> nat \<Rightarrow> bytes \<Rightarrow> downlink list \<Rightarrow> u8 \<Rightarrow> i8 \<Rightarrow> bool \<Rightarrow> mac_ctx
    \<Rightarrow> (mac_response \<times> downlink list \<times> bytes \<times> mac_ctx) run" where
  "handle_rx mk D bs dl max_payload_len snr ignore_mac x = do {
     r \<leftarrow> encrypted_parse bs;
     case r of
       Inl _ \<Rightarrow> Some (NoUpdate, dl, bs, x)
     | Inr v \<Rightarrow>
         if length (dv_bytes v) > unat max_payload_len + MHDR_LEN + MIC_LEN
         then do {
           (resp, s', conf') \<leftarrow> rx2_complete (cx_conf x) (cx_region x) (cx_session x);
           Some (resp, dl, bs, x\<lparr>cx_session := s', cx_conf := conf'\<rparr>)}
         else do {
           u \<leftarrow> (if ignore_mac then Some (ss_uplink (cx_session x))
                 else clear_mac_commands False (ss_uplink (cx_session x)));
           let x1 = set_uplink (\<lambda>_. u) x;
           let confirmed = dv_is_confirmed v;
           h \<leftarrow> dv_fhdr v;
           wire \<leftarrow> fhdr_fcnt h;
           case next_fcnt_down (ss_fcnt_down (cx_session x1)) wire of
             None \<Rightarrow> Some (NoUpdate, dl, bs, x1)
           | Some fcnt \<Rightarrow> do {
               ok \<leftarrow> validate_data_mic v (mk (ss_nwkskey (cx_session x1))) fcnt;
               if ok then handle_accepted mk D bs fcnt confirmed snr ignore_mac dl x1
               else Some (NoUpdate, dl, bs, x1)}}}"

section \<open>Transmission\<close>

record send_data =
  sd_data :: bytes
  sd_fport :: u8
  sd_confirmed :: bool

text \<open>The frame of an uplink. \<open>Payload\<close> on port 0 carries the queued commands and refuses data.\<close>

definition uplink_frame ::
  "send_data \<Rightarrow> bool \<Rightarrow> bool \<Rightarrow> bool \<Rightarrow> session \<Rightarrow> data_frame run" where
  "uplink_frame data adr adr_ack_req ack s = do {
     (f_opts, payload) \<leftarrow>
       (if sd_fport data \<noteq> 0
        then Some (uplink_mac_commands (ss_uplink s), PayloadData (sd_fport data) (sd_data data))
        else if sd_data data \<noteq> [] then None
        else Some ([], PayloadMacCommands (uplink_mac_commands (ss_uplink s))));
     Some \<lparr>df_frame_type = (if ss_confirmed s then ConfirmedUp else UnconfirmedUp),
           df_dev_addr = ss_devaddr s, df_adr = adr, df_adr_ack_req = adr_ack_req, df_ack = ack,
           df_f_pending = False, df_fcnt = ss_fcnt_up s, df_f_opts = f_opts, df_payload = payload\<rparr>}"

definition prepare_buffer ::
  "(bytes \<Rightarrow> 'x crypto_scheme) \<Rightarrow> send_data \<Rightarrow> radio_buffer \<Rightarrow> mac_configuration \<Rightarrow> region_state \<Rightarrow> session
    \<Rightarrow> (u32 \<times> radio_buffer \<times> session) run" where
  "prepare_buffer mk data tx_buffer conf region s = do {
     let tx1 = rb_clear tx_buffer;
     let fcnt = ss_fcnt_up s;
     let ack = confirms_downlink (ss_uplink s);
     let s1 = (if ack then s\<lparr>ss_uplink := clear_downlink_confirmation (ss_uplink s)\<rparr> else s);
     let adr = cfg_adr_enabled conf;
     adr_ack_req \<leftarrow> (if adr \<and> ss_adr_ack_cnt s1 \<ge> ADR_ACK_LIMIT
                     then map_option (\<lambda>d. d \<noteq> None) (next_lower_datarate region (cfg_data_rate conf))
                     else Some False);
     let s2 = s1\<lparr>ss_confirmed := sd_confirmed data\<rparr>;
     frame \<leftarrow> uplink_frame data adr adr_ack_req ack s2;
     r \<leftarrow> data_frame_build_into frame (replicate 256 0) (mk (ss_nwkskey s2)) (Some (mk (ss_appskey s2)));
     packet \<leftarrow> result_ok r;
     (tx2, ok) \<leftarrow> rb_extend_from_slice packet (rb_clear tx1);
     if ok = Inl () then None
     else do {
       u \<leftarrow> clear_mac_commands True (ss_uplink s2);
       Some (fcnt, tx2, s2\<lparr>ss_uplink := u\<rparr>)}}"

end
