(* ===== verification/SessionFacts.thy ===== *)
theory SessionFacts
  imports Session
begin

text \<open>
  What the handlers of \<open>Session\<close> guarantee: the MAC commands of a downlink keep the invariant of
  the session and always return, unless a \<open>LinkADRReq\<close> carries \<open>ChMaskCntl\<close> 4; a received frame
  changes the session only when its MIC and counter are valid; accepted counters grow; what an
  uplink carries is what the network decrypts.
\<close>

section \<open>The invariant\<close>

definition up_ok :: "uplink_state \<Rightarrow> bool" where
  "up_ok u \<longleftrightarrow> (\<exists>cs. up_holds u cs)"

definition ctx_ok :: "mac_ctx \<Rightarrow> bool" where
  "ctx_ok x \<longleftrightarrow> rs_ok (cx_region x) \<and> cfg_ok (cx_conf x) \<and> up_ok (ss_uplink (cx_session x))"

text \<open>MAC commands touch nothing of the session but the queue of answers.\<close>

definition same_session :: "mac_ctx \<Rightarrow> mac_ctx \<Rightarrow> bool" where
  "same_session x y \<longleftrightarrow>
     (\<exists>u. cx_session y = (cx_session x)\<lparr>ss_uplink := u\<rparr> \<and> up_confirmed u = up_confirmed (ss_uplink (cx_session x)))"

lemma same_session_refl [simp]: "same_session x x"
proof -
  have "cx_session x = (cx_session x)\<lparr>ss_uplink := ss_uplink (cx_session x)\<rparr>" by simp
  then show ?thesis unfolding same_session_def by blast
qed

lemma same_session_trans: "same_session x y \<Longrightarrow> same_session y z \<Longrightarrow> same_session x z"
  by (auto simp: same_session_def)

lemma same_session_D:
  assumes "same_session x y"
  shows "ss_confirmed (cx_session y) = ss_confirmed (cx_session x)"
    "ss_nwkskey (cx_session y) = ss_nwkskey (cx_session x)" "ss_appskey (cx_session y) = ss_appskey (cx_session x)"
    "ss_devaddr (cx_session y) = ss_devaddr (cx_session x)" "ss_fcnt_up (cx_session y) = ss_fcnt_up (cx_session x)"
    "ss_fcnt_down (cx_session y) = ss_fcnt_down (cx_session x)"
    "ss_adr_ack_cnt (cx_session y) = ss_adr_ack_cnt (cx_session x)"
    "up_confirmed (ss_uplink (cx_session y)) = up_confirmed (ss_uplink (cx_session x))"
  using assms by (auto simp: same_session_def)

text \<open>A handler that returns, keeps the invariant and touches only the queue of the session.\<close>

definition keeps :: "(mac_ctx \<Rightarrow> mac_ctx run) \<Rightarrow> mac_ctx \<Rightarrow> bool" where
  "keeps f x \<longleftrightarrow> (\<exists>y. f x = Some y \<and> ctx_ok y \<and> same_session x y)"

lemma keepsE:
  assumes "keeps f x"
  obtains y where "f x = Some y" "ctx_ok y" "same_session x y"
  using assms by (auto simp: keeps_def)

lemma keeps_bind: "keeps f x \<Longrightarrow> (\<And>y. ctx_ok y \<Longrightarrow> keeps g y) \<Longrightarrow> keeps (\<lambda>x. f x \<bind> g) x"
  by (fastforce simp: keeps_def intro: same_session_trans)

section \<open>Answers\<close>

definition is_answer :: "bytes \<Rightarrow> bool" where
  "is_answer d \<longleftrightarrow> (\<exists>c. uplink_parse_one d = Some (Inr (c, length d)))"

named_theorems answer_intros "creators of answers that the device sends"

lemma is_answer_bytes:
  "is_answer [0x03, a]" "is_answer [0x05, a]" "is_answer [0x06, a, b]" "is_answer [0x07, a]"
  "is_answer [0x08]" "is_answer [0x0A, a]"
  by (simp_all add: is_answer_def uplink_parse_one_def fixed_arm_def)

lemma creator_new_bytes: "creator_new c 0 = [c]" "creator_new c 1 = [c, 0]" "creator_new c 2 = [c, 0, 0]"
  by (simp_all add: creator_new_def numeral_2_eq_2)

lemma is_answer_creators [answer_intros]:
  "is_answer (dev_status_ans_set_battery b (creator_new 0x06 2))"
  "dev_status_ans_set_margin m (dev_status_ans_set_battery b (creator_new 0x06 2)) = Inr d \<Longrightarrow> is_answer d"
  "is_answer (dl_channel_ans_set_uplink_frequency_exists_ack c (dl_channel_ans_set_channel_frequency_ack f (creator_new 0x0A 1)))"
  "is_answer (new_channel_ans_set_data_rate_range_ack c (new_channel_ans_set_channel_frequency_ack f (creator_new 0x07 1)))"
  "is_answer (rx_param_setup_ans_set_channel_ack f (rx_param_setup_ans_set_rx2_data_rate_ack g
     (rx_param_setup_ans_set_rx1_dr_offset_ack h (creator_new 0x05 1))))"
  "is_answer (creator_new 0x08 0)" "is_answer (link_adr_ans cm dr pw)"
  unfolding creator_new_bytes link_adr_ans_def dl_channel_ans_set_uplink_frequency_exists_ack_def
    dl_channel_ans_set_channel_frequency_ack_def new_channel_ans_set_data_rate_range_ack_def
    new_channel_ans_set_channel_frequency_ack_def rx_param_setup_ans_set_channel_ack_def
    rx_param_setup_ans_set_rx2_data_rate_ack_def rx_param_setup_ans_set_rx1_dr_offset_ack_def
    link_adr_ans_set_tx_power_ack_def link_adr_ans_set_data_rate_ack_def link_adr_ans_set_channel_mask_ack_def
    dev_status_ans_set_battery_def dev_status_ans_set_margin_def
  by (auto simp: list_update.simps is_answer_bytes numeral_2_eq_2 simp del: of_bool_eq split: if_splits)

lemma answer_Some:
  assumes "is_answer d" "up_ok (ss_uplink (cx_session x))"
  obtains u where "answer d x = Some (set_uplink (\<lambda>_. u) x)" "up_ok u"
    "up_confirmed u = up_confirmed (ss_uplink (cx_session x))"
proof -
  obtain c where "uplink_parse_one d = Some (Inr (c, length d))" using assms(1) by (auto simp: is_answer_def)
  then have c: "creator_obj d = uplink_obj c" "cmd_wf c" by (simp_all add: creator_obj_uplink)
  obtain cs where cs: "up_holds (ss_uplink (cx_session x)) cs" using assms(2) by (auto simp: up_ok_def)
  obtain u where "add_mac_command (uplink_obj c) (ss_uplink (cx_session x)) = Some u"
    "up_confirmed u = up_confirmed (ss_uplink (cx_session x))"
    "up_holds u (if length (up_pending (ss_uplink (cx_session x))) + uplink_len c < FOPTS_MAX_LEN then cs @ [c] else cs)"
    by (rule add_mac_command_holds [OF cs c(2)])
  then show thesis using c by (intro that [of u]) (auto simp: answer_def set_uplink_def up_ok_def)
qed

lemma answer_keeps:
  assumes "is_answer d" "ctx_ok x"
  shows "keeps (answer d) x"
proof -
  have "up_ok (ss_uplink (cx_session x))" using assms(2) by (simp add: ctx_ok_def)
  then obtain u where "answer d x = Some (set_uplink (\<lambda>_. u) x)" "up_ok u"
    "up_confirmed u = up_confirmed (ss_uplink (cx_session x))"
    by (rule answer_Some [OF assms(1)])
  then show ?thesis using assms(2) by (auto simp: keeps_def ctx_ok_def set_uplink_def same_session_def)
qed

text \<open>The same when the handler first updated the configuration or the region.\<close>

lemma keeps_answer:
  assumes "is_answer d" "ctx_ok y" "cx_session y = cx_session x"
  shows "\<exists>z. answer d y = Some z \<and> ctx_ok z \<and> same_session x z"
  using answer_keeps [OF assms(1,2)] assms(3) by (auto simp: keeps_def same_session_def)

section \<open>The commands\<close>

lemma dev_status_keeps: "ctx_ok x \<Longrightarrow> keeps (handle_dev_status_req snr) x"
  by (auto simp: keeps_def handle_dev_status_req_def Let_def split: sum.split intro!: keeps_answer answer_intros)

lemma dl_channel_keeps:
  assumes "length p = 4" "ctx_ok x"
  shows "keeps (handle_dl_channel_req p) x"
proof (cases "rs_has_fixed_channel_plan (cx_region x)")
  case True
  then show ?thesis using assms(2) by (simp add: keeps_def handle_dl_channel_req_def)
next
  case False
  have "downlink_readable (DlChannelReq p)" using assms(1) by (intro downlink_readable_len) simp
  then obtain i f fr where r: "dl_channel_req_channel_index p = Some i" "dl_channel_req_frequency p = Some f"
    "tfreq_value f = Some fr" by (auto simp: downlink_readable_def bind_eq_Some_conv)
  have "rs_ok (cx_region x)" using assms(2) by (simp add: ctx_ok_def)
  from rs_channel_dl_update_ok [OF this False, of i fr] obtain a b s' where
    s: "rs_channel_dl_update i fr (cx_region x) = Some ((a, b), s')" "rs_ok s'" by auto
  then have "ctx_ok (x\<lparr>cx_region := s'\<rparr>)" using assms(2) by (simp add: ctx_ok_def)
  from keeps_answer [OF answer_intros(3) this] show ?thesis
    using False r s by (simp add: keeps_def handle_dl_channel_req_def)
qed

lemma new_channel_keeps:
  assumes "length p = 5" "ctx_ok x"
  shows "keeps (handle_new_channel_req p) x"
proof (cases "rs_has_fixed_channel_plan (cx_region x)")
  case True
  then show ?thesis using assms(2) by (simp add: keeps_def handle_new_channel_req_def)
next
  case False
  have "downlink_readable (NewChannelReq p)" using assms(1) by (intro downlink_readable_len) simp
  then obtain i f fr drs where r: "new_channel_req_channel_index p = Some i" "new_channel_req_frequency p = Some f"
    "tfreq_value f = Some fr" "new_channel_req_data_rate_range p = Some drs"
    by (auto simp: downlink_readable_def bind_eq_Some_conv)
  have "rs_ok (cx_region x)" using assms(2) by (simp add: ctx_ok_def)
  from rs_handle_new_channel_ok [OF this False, of i fr "result_ok drs"] obtain a b s' where
    s: "rs_handle_new_channel i fr (result_ok drs) (cx_region x) = Some ((a, b), s')" "rs_ok s'" by auto
  then have "ctx_ok (x\<lparr>cx_region := s'\<rparr>)" using assms(2) by (simp add: ctx_ok_def)
  from keeps_answer [OF answer_intros(4) this] show ?thesis
    using False r s by (simp add: keeps_def handle_new_channel_req_def)
qed

lemma rx_timing_keeps:
  assumes "length p = 1" "ctx_ok x"
  shows "keeps (handle_rx_timing_setup_req p) x"
proof -
  have "downlink_readable (RXTimingSetupReq p)" using assms(1) by (intro downlink_readable_len) simp
  then obtain d where d: "rx_timing_setup_req_delay p = Some d" by (auto simp: downlink_readable_def)
  have "ctx_ok (x\<lparr>cx_conf := (cx_conf x)\<lparr>cfg_rx1_delay := del_to_delay_ms d\<rparr>\<rparr>)"
    using assms(2) by (simp add: ctx_ok_def cfg_ok_def)
  from keeps_answer [OF answer_intros(6) this] show ?thesis
    using d by (simp add: keeps_def handle_rx_timing_setup_req_def)
qed

text \<open>A data rate other than 15 can be looked up.\<close>

lemma rs_get_datarate_total: "rs_ok s \<Longrightarrow> d \<noteq> DR15 \<Longrightarrow> \<exists>r. rs_get_datarate s (dr_u8 d) = Some r"
  using region.datarate_total [of s "dr_u8 d"] by (simp add: not_DR15 dr_idx_def)

lemma rx_param_keeps:
  assumes "length p = 4" "ctx_ok x"
  shows "keeps (handle_rx_param_setup_req p) x"
proof -
  have "downlink_readable (RXParamSetupReq p)" using assms(1) by (intro downlink_readable_len) simp
  then obtain dl f fr where r: "rx_param_setup_req_dl_settings p = Some dl" "rx_param_setup_req_frequency p = Some f"
    "tfreq_value f = Some fr" by (auto simp: downlink_readable_def bind_eq_Some_conv)
  obtain d where d: "(if rx2_data_rate dl = DR15 then Some (Some (cfg_rx2_data_rate (cx_conf x)))
        else do {
          d \<leftarrow> rs_get_datarate (cx_region x) (dr_u8 (rx2_data_rate dl));
          Some (if d \<noteq> None then Some (Some (rx2_data_rate dl)) else None)}) = Some d"
    "d \<noteq> Some (Some DR15)"
    using rs_get_datarate_total [of "cx_region x" "rx2_data_rate dl"] assms(2)
    by (cases "rx2_data_rate dl = DR15") (auto simp: ctx_ok_def cfg_ok_def)
  let ?off = "rs_rx1_dr_offset_validate (cx_region x) (rx1_dr_offset dl)"
  let ?y = "case (d, ?off) of
         (Some d, Some v) \<Rightarrow>
           if rs_frequency_valid (cx_region x) fr
           then x\<lparr>cx_conf := (cx_conf x)\<lparr>cfg_rx2_data_rate := d, cfg_rx2_frequency := Some fr,
                                          cfg_rx1_dr_offset := v\<rparr>\<rparr>
           else x
       | _ \<Rightarrow> x"
  have "ctx_ok ?y" "cx_session ?y = cx_session x" using d(2) assms(2)
    by (auto simp: ctx_ok_def cfg_ok_def split: option.split)
  from keeps_answer [OF answer_intros(5) this] show ?thesis
    by (simp only: keeps_def handle_rx_param_setup_req_def r d Option.bind.simps Let_def)
qed

section \<open>Link ADR\<close>

definition adr_ctl :: "bytes \<Rightarrow> u8" where
  "adr_ctl p = channel_mask_control (Redundancy (p ! 3))"

definition adr_ch :: "bytes \<Rightarrow> channel_mask" where
  "adr_ch p = take 2 (drop 1 p)"

lemma link_adr_fields:
  assumes "length p = 4"
  shows "link_adr_req_redundancy p = Some (Redundancy (p ! 3))"
    "link_adr_req_channel_mask p = Some (adr_ch p)" "length (adr_ch p) = 2"
  using assms by (simp_all add: link_adr_req_redundancy_def link_adr_req_channel_mask_def mask_new_from_raw_def adr_ch_def)

lemma link_adr_mask_Some:
  assumes "length p = 4" "length m = 9" "adr_ctl p \<noteq> 4"
  obtains m' where "link_adr_mask p m x = Some m'" "length m' = 9"
proof -
  obtain r where r: "rs_channel_mask_update (cx_region x) m (adr_ctl p) (adr_ch p) = Some r"
    "\<forall>m'. r = Some m' \<longrightarrow> length m' = 9"
    using region.update_total [OF assms(2) link_adr_fields(3) [OF assms(1)] assms(3)] by blast
  show thesis
  proof (rule that)
    show "link_adr_mask p m x = Some (case r of Some m' \<Rightarrow> m' | None \<Rightarrow> m)"
      using r(1) by (simp add: link_adr_mask_def link_adr_fields [OF assms(1)] adr_ctl_def)
    show "length (case r of Some m' \<Rightarrow> m' | None \<Rightarrow> m) = 9" using r(2) assms(2) by (cases r) auto
  qed
qed

lemma link_adr_dr_Some:
  assumes "length p = 4" "ctx_ok x"
  obtains dr where "link_adr_dr p x = Some dr" "dr \<noteq> Some DR15"
proof -
  have "downlink_readable (LinkADRReq p)" using assms(1) by (intro downlink_readable_len) simp
  then obtain d where d: "link_adr_req_data_rate p = Some d" by (auto simp: downlink_readable_def)
  show thesis
  proof (cases "d = DR15")
    case True
    then show thesis using d assms(2) by (intro that) (auto simp: link_adr_dr_def ctx_ok_def cfg_ok_def)
  next
    case False
    then obtain r where "rs_get_datarate (cx_region x) (dr_u8 d) = Some r"
      using rs_get_datarate_total assms(2) by (auto simp: ctx_ok_def)
    then show thesis using d False
      by (intro that [of "if r \<noteq> None then Some d else None"]) (simp_all add: link_adr_dr_def)
  qed
qed

lemma link_adr_pw_Some:
  assumes "length p = 4"
  obtains pw where "link_adr_pw p x = Some pw"
proof -
  have "downlink_readable (LinkADRReq p)" using assms by (intro downlink_readable_len) simp
  then obtain w where "link_adr_req_tx_power p = Some w" by (auto simp: downlink_readable_def)
  then show thesis by (intro that) (simp add: link_adr_pw_def)
qed

lemma repeat_answer_keeps: "is_answer d \<Longrightarrow> ctx_ok x \<Longrightarrow> keeps (repeat_answer n d) x"
proof (induction n arbitrary: x)
  case 0
  then show ?case by (simp add: keeps_def)
next
  case (Suc n)
  obtain y where "answer d x = Some y" "ctx_ok y" "same_session x y"
    using answer_keeps [OF Suc.prems] by (rule keepsE)
  moreover obtain z where "repeat_answer n d y = Some z" "ctx_ok z" "same_session y z"
    using Suc.IH [OF Suc.prems(1) calculation(2)] by (rule keepsE)
  ultimately show ?case by (auto simp: keeps_def intro: same_session_trans)
qed

lemma link_adr_finish_keeps:
  assumes "length p = 4" "length m = 9" "ctx_ok x"
  shows "keeps (link_adr_finish p m n) x"
proof -
  obtain dr where dr: "link_adr_dr p x = Some dr" "dr \<noteq> Some DR15" by (rule link_adr_dr_Some [OF assms(1,3)])
  obtain pw where pw: "link_adr_pw p x = Some pw" by (rule link_adr_pw_Some [OF assms(1)])
  have rok: "rs_ok (cx_region x)" using assms(3) by (simp add: ctx_ok_def)
  obtain b where b: "rs_channel_mask_validate (cx_region x) m dr = Some b"
    using region.validate_total [OF rok assms(2) dr(2)] by blast
  define y where "y = (case (dr, pw) of
         (Some d, Some q) \<Rightarrow>
           if b
           then x\<lparr>cx_conf := (cx_conf x)\<lparr>cfg_data_rate := d, cfg_tx_power := q\<rparr>,
                  cx_region := rs_channel_mask_set m (cx_region x)\<rparr>
           else x
       | _ \<Rightarrow> x)"
  have y: "ctx_ok y" "cx_session y = cx_session x"
    using assms(3) dr(2) region.set_inv [OF rok assms(2)]
    by (auto simp: y_def ctx_ok_def cfg_ok_def split: option.split)
  have "link_adr_finish p m n x = repeat_answer n (link_adr_ans b (dr \<noteq> None) (pw \<noteq> None)) y"
    by (simp only: link_adr_finish_def dr pw b Option.bind.simps Let_def y_def)
  moreover obtain z where "repeat_answer n (link_adr_ans b (dr \<noteq> None) (pw \<noteq> None)) y = Some z" "ctx_ok z"
      "same_session y z"
    using repeat_answer_keeps [OF answer_intros(7) y(1)] by (rule keepsE)
  ultimately show ?thesis using y(2) by (auto simp: keeps_def same_session_def)
qed

section \<open>All commands of a downlink\<close>

text \<open>A command with a whole payload, and no \<open>LinkADRReq\<close> whose \<open>ChMaskCntl\<close> is 4.\<close>

fun ctl4 :: "downlink_cmd \<Rightarrow> bool" where
  "ctl4 (LinkADRReq p) \<longleftrightarrow> adr_ctl p = 4"
| "ctl4 _ \<longleftrightarrow> False"

definition dcmd_wf :: "downlink_cmd \<Rightarrow> bool" where
  "dcmd_wf c \<longleftrightarrow> length (downlink_bytes c) = downlink_len c"

text \<open>\<open>ChMaskCntl\<close> 4 panics: its second bank does not exist.\<close>

lemma rs_mask_update_4: "length m = 9 \<Longrightarrow> length ch = 2 \<Longrightarrow> rs_channel_mask_update s m 4 ch = None"
  by (cases s rule: rs_cases)
     (simp_all add: rs_defs dyn_dispatch fix_dispatch dyn_channel_mask_update_def fix_channel_mask_update_def
       mask_get_index_def set_bank_def)

lemma link_adr_mask_4: "length p = 4 \<Longrightarrow> length m = 9 \<Longrightarrow> adr_ctl p = 4 \<Longrightarrow> link_adr_mask p m x = None"
  using rs_mask_update_4 [of m "adr_ch p" "cx_region x"]
  by (simp add: link_adr_mask_def link_adr_fields adr_ctl_def)

lemma macs_loop_outcome:
  assumes "list_all dcmd_wf cs" "length m = 9" "ctx_ok x"
  shows "if list_ex ctl4 cs then macs_loop snr cs m n x = None else keeps (macs_loop snr cs m n) x"
  using assms
proof (induction cs arbitrary: m n x)
  case Nil
  then show ?case by (simp add: keeps_def)
next
  case (Cons c cs)
  have wf: "length (downlink_bytes c) = downlink_len c" using Cons.prems(1) by (simp add: dcmd_wf_def)
  have ih: "if list_ex ctl4 cs then macs_loop snr cs m' n' y = None else keeps (macs_loop snr cs m' n') y"
    if "length m' = 9" "ctx_ok y" for m' n' y
    using Cons.IH Cons.prems(1) that by simp
  have seq: "if list_ex ctl4 cs then f x \<bind> macs_loop snr cs m' n' = None
      else keeps (\<lambda>x. f x \<bind> macs_loop snr cs m' n') x" if m: "length m' = 9" and f: "keeps f x" for f m' n'
  proof -
    obtain y where y: "f x = Some y" "ctx_ok y" "same_session x y" using f by (rule keepsE)
    show ?thesis using ih [OF m y(2), of n'] y by (auto simp: keeps_def intro!: same_session_trans [OF y(3)])
  qed
  show ?case
  proof (cases c)
    case (LinkADRReq p)
    then have p: "length p = 4" using wf by simp
    show ?thesis
    proof (cases "adr_ctl p = 4")
      case True
      then show ?thesis using link_adr_mask_4 [OF p Cons.prems(2)] LinkADRReq by simp
    next
      case False
      obtain m' where m': "link_adr_mask p m x = Some m'" "length m' = 9"
        by (rule link_adr_mask_Some [OF p Cons.prems(2) False])
      note fin = seq [OF m'(2) link_adr_finish_keeps [OF p m'(2) Cons.prems(3)]]
      show ?thesis using ih [OF m'(2) Cons.prems(3), of "Suc n"] fin [of "Suc n" 0] m'(1) LinkADRReq False
        by (cases "peeks_link_adr cs") (simp_all add: keeps_def split: if_splits)
    qed
  next
    case DevStatusReq
    then show ?thesis using seq [OF Cons.prems(2) dev_status_keeps [OF Cons.prems(3)], of snr n]
      by (simp add: keeps_def split: if_splits)
  next
    case (DlChannelReq p)
    then show ?thesis using seq [OF Cons.prems(2) dl_channel_keeps [OF _ Cons.prems(3)], of p n] wf
      by (simp add: keeps_def split: if_splits)
  next
    case (NewChannelReq p)
    then show ?thesis using seq [OF Cons.prems(2) new_channel_keeps [OF _ Cons.prems(3)], of p n] wf
      by (simp add: keeps_def split: if_splits)
  next
    case (RXParamSetupReq p)
    then show ?thesis using seq [OF Cons.prems(2) rx_param_keeps [OF _ Cons.prems(3)], of p n] wf
      by (simp add: keeps_def split: if_splits)
  next
    case (RXTimingSetupReq p)
    then show ?thesis using seq [OF Cons.prems(2) rx_timing_keeps [OF _ Cons.prems(3)], of p n] wf
      by (simp add: keeps_def split: if_splits)
  qed (use ih [OF Cons.prems(2,3), of n] in \<open>simp_all add: keeps_def split: if_splits\<close>)
qed

text \<open>The commands a downlink field carries: the well-formed prefix.\<close>

definition mac_cmds :: "bytes \<Rightarrow> downlink_cmd list" where
  "mac_cmds bs = (case mc_items downlink_parse_one (mc_new bs) of
      None \<Rightarrow> [] | Some items \<Rightarrow> List.map_filter result_ok items)"

lemma map_filter_result_ok: "c \<in> set (List.map_filter result_ok xs) \<longleftrightarrow> Inr c \<in> set xs"
  by (induction xs) (auto simp: List.map_filter_simps split: option.splits)

lemma mac_cmds_wf: "list_all dcmd_wf (mac_cmds bs)"
proof -
  obtain xs where xs: "mc_items downlink_parse_one (mc_new bs) = Some xs"
    using downlink.items_total by blast
  have "dcmd_wf c" if "c \<in> set (mac_cmds bs)" for c
    using downlink_items_valid [OF xs, of c] that xs by (simp add: mac_cmds_def dcmd_wf_def map_filter_result_ok)
  then show ?thesis by (simp add: list_all_iff)
qed

lemma handle_downlink_macs_eq:
  "handle_downlink_macs bs snr x = macs_loop snr (mac_cmds bs) (rs_channel_mask_get (cx_region x)) 0 x"
proof -
  obtain xs where "mc_items downlink_parse_one (mc_new bs) = Some xs"
    using downlink.items_total by blast
  then show ?thesis by (simp add: handle_downlink_macs_def mac_cmds_def)
qed

section \<open>A received frame\<close>

lemma wire_fcnt_fhdr:
  assumes "view_ok v"
  obtains h where "dv_fhdr v = Some h" "fhdr_fcnt h = Some (wire_fcnt (dv_bytes v))"
    "fhdr_f_opts h = Some (drop 7 (fhdr_bytes h))" "7 \<le> length (fhdr_bytes h)"
proof -
  define h where "h = \<lparr>fhdr_bytes = take (lay_fhdr_len (dv_layout v)) (drop 1 (dv_bytes v)), fhdr_uplink = dv_is_uplink v\<rparr>"
  have b: "7 \<le> lay_fhdr_len (dv_layout v)" "lay_fhdr_len (dv_layout v) + 5 \<le> length (dv_bytes v)"
    using assms layout_ok_bounds [of "dv_bytes v" "dv_layout v"] by (simp_all add: view_ok_def)
  then have l: "7 \<le> length (fhdr_bytes h)" by (simp add: h_def)
  have "fhdr_bytes h ! 5 = dv_bytes v ! 6" "fhdr_bytes h ! 6 = dv_bytes v ! 7"
    using b by (simp_all add: h_def)
  then show thesis
    using that [of h] fhdr_fields [OF l] l dv_fhdr_ok [OF assms] by (simp add: wire_fcnt_def h_def)
qed

text \<open>Decryption with both keys succeeds and keeps the layout.\<close>

lemma decrypted:
  assumes "view_ok w" "crypto_ok n" "crypto_ok a"
  obtains v where "decrypt_in_place (dv_bytes w) (Some n) (Some a) fcnt = Some (Inr v)" "view_ok v"
    "dv_layout v = dv_layout w" "length (dv_bytes v) = length (dv_bytes w)" "take 8 (dv_bytes v) = take 8 (dv_bytes w)"
proof -
  let ?l = "dv_layout w" and ?b = "dv_bytes w"
  have l: "layout_ok ?b ?l" using assms(1) by (simp add: view_ok_def)
  note b = layout_ok_bounds [OF l]
  define key where "key = (if \<exists>off. lay_f_port_offset ?l = Some off \<and> ?b ! off \<noteq> 0 then a else n)"
  have k: "frm_key ?b ?l (Some n) (Some a) = Some key" by (auto simp: frm_key_def key_def)
  define v where "v = (if lay_frm_start ?l < lay_frm_end ?l
     then \<lparr>dv_bytes = xor_range (frm_stream ?b fcnt key) ?b (lay_frm_start ?l) (lay_frm_end ?l), dv_layout = ?l\<rparr>
     else \<lparr>dv_bytes = ?b, dv_layout = ?l\<rparr>)"
  have "decrypt_in_place ?b (Some n) (Some a) fcnt = Some (Inr v)"
    using decrypt_in_place_eq [OF l, of "Some n" "Some a" fcnt] assms(2,3) k by (simp add: v_def)
  moreover have len: "length (dv_bytes v) = length ?b" by (simp add: v_def)
  moreover have t8: "take 8 (dv_bytes v) = take 8 ?b"
    by (rule nth_equalityI) (use len b in \<open>auto simp: v_def xor_range_nth\<close>)
  moreover have "layout_ok (dv_bytes v) ?l" using t8 by (rule layout_ok_cong [OF l len])
  moreover have "dv_layout v = ?l" by (simp add: v_def)
  ultimately show thesis using that [of v] by (simp add: view_ok_def)
qed

text \<open>The MAC commands of a decrypted frame, in the order they are handled.\<close>

definition f_opts_cmds :: "data_view \<Rightarrow> downlink_cmd list" where
  "f_opts_cmds v = (case dv_fhdr v of None \<Rightarrow> []
     | Some h \<Rightarrow> (case fhdr_f_opts h of None \<Rightarrow> [] | Some bs \<Rightarrow> mac_cmds bs))"

definition frm_cmds :: "data_view \<Rightarrow> downlink_cmd list" where
  "frm_cmds v = (case dv_frm_payload v of Some (FrmMacCommands bs) \<Rightarrow> mac_cmds bs | _ \<Rightarrow> [])"

definition frame_cmds :: "data_view \<Rightarrow> downlink_cmd list" where
  "frame_cmds v = f_opts_cmds v @ frm_cmds v"

lemma deliver_downlink_Some:
  assumes "view_ok v" "length (dv_bytes v) \<le> 260"
  obtains (expired) "ss_fcnt_up (cx_session x) = 0xFFFFFFFF" "deliver_downlink D fcnt v dl x = Some (SessionExpired, dl, x)"
  | (data) fport data where "ss_fcnt_up (cx_session x) \<noteq> 0xFFFFFFFF"
      "dv_f_port v = Some (Some fport)" "dv_frm_payload v = Some (FrmData data)"
      "deliver_downlink D fcnt v dl x = Some (DownlinkReceived fcnt,
        vec_push D dl \<lparr>dl_data = data, dl_fport = fport\<rparr>,
        x\<lparr>cx_session := (cx_session x)\<lparr>ss_fcnt_up := ss_fcnt_up (cx_session x) + 1\<rparr>\<rparr>)"
  | (silent) "ss_fcnt_up (cx_session x) \<noteq> 0xFFFFFFFF" "\<nexists>data. dv_frm_payload v = Some (FrmData data)"
      "deliver_downlink D fcnt v dl x = Some (DownlinkReceived fcnt, dl,
        x\<lparr>cx_session := (cx_session x)\<lparr>ss_fcnt_up := ss_fcnt_up (cx_session x) + 1\<rparr>\<rparr>)"
proof (cases "ss_fcnt_up (cx_session x) = 0xFFFFFFFF")
  case True
  then show thesis by (intro expired) (simp_all add: deliver_downlink_def)
next
  case False
  obtain port where port: "dv_f_port v = Some port" using dv_f_port_ok [OF assms(1)] by auto
  obtain pl where pl: "dv_frm_payload v = Some pl" using dv_frm_payload_ok [OF assms(1)] by auto
  show thesis
  proof (cases pl)
    case (FrmData d)
    then obtain p where p: "port = Some p"
      using pl port by (auto simp: dv_frm_payload_def bind_eq_Some_conv split: option.splits)
    have "length d \<le> 256"
      using pl FrmData port p assms layout_ok_bounds [of "dv_bytes v" "dv_layout v"]
      by (auto simp: dv_frm_payload_def view_ok_def bind_eq_Some_conv subslice_eq_Some split: if_splits)
    then show thesis using False port pl FrmData p
      by (intro data [of p d]) (simp_all add: deliver_downlink_def Let_def vec_extend_unwrap_def)
  next
    case other: (FrmMacCommands d)
    have "\<nexists>data. dv_frm_payload v = Some (FrmData data)" using pl other by simp
    moreover have "deliver_downlink D fcnt v dl x = Some (DownlinkReceived fcnt, dl,
        x\<lparr>cx_session := (cx_session x)\<lparr>ss_fcnt_up := ss_fcnt_up (cx_session x) + 1\<rparr>\<rparr>)"
      using False port pl other by (cases port) (simp_all add: deliver_downlink_def Let_def)
    ultimately show thesis by (rule silent [OF False])
  next
    case other: FrmNone
    have "\<nexists>data. dv_frm_payload v = Some (FrmData data)" using pl other by simp
    moreover have "deliver_downlink D fcnt v dl x = Some (DownlinkReceived fcnt, dl,
        x\<lparr>cx_session := (cx_session x)\<lparr>ss_fcnt_up := ss_fcnt_up (cx_session x) + 1\<rparr>\<rparr>)"
      using False port pl other by (cases port) (simp_all add: deliver_downlink_def Let_def)
    ultimately show thesis by (rule silent [OF False])
  qed
qed

text \<open>What the handler does with an accepted frame, as one equation over the decrypted view.\<close>

definition after_commands :: "bool \<Rightarrow> i8 \<Rightarrow> data_view \<Rightarrow> mac_ctx \<Rightarrow> mac_ctx run" where
  "after_commands ignore_mac snr v x =
     (if ignore_mac then Some x
      else do {
        y \<leftarrow> macs_loop snr (f_opts_cmds v) (rs_channel_mask_get (cx_region x)) 0 x;
        macs_loop snr (frm_cmds v) (rs_channel_mask_get (cx_region y)) 0 y})"

definition accept_ctx :: "u32 \<Rightarrow> mac_ctx \<Rightarrow> mac_ctx" where
  "accept_ctx fcnt x = x\<lparr>cx_session := (cx_session x)\<lparr>ss_fcnt_down := Some fcnt, ss_adr_ack_cnt := 0\<rparr>\<rparr>"

lemma handle_accepted_eq:
  assumes "view_ok w" "crypto_ok (mk (ss_nwkskey (cx_session x)))" "crypto_ok (mk (ss_appskey (cx_session x)))"
  obtains v where
    "decrypt_in_place (dv_bytes w) (Some (mk (ss_nwkskey (cx_session x)))) (Some (mk (ss_appskey (cx_session x)))) fcnt
       = Some (Inr v)" "view_ok v" "length (dv_bytes v) = length (dv_bytes w)"
    "handle_accepted mk D (dv_bytes w) fcnt confirmed snr ignore_mac dl x = do {
       y \<leftarrow> after_commands ignore_mac snr v (accept_ctx fcnt x);
       (resp, dl', z) \<leftarrow> deliver_downlink D fcnt v dl
          (if confirmed then set_uplink set_downlink_confirmation y else y);
       Some (resp, dl', dv_bytes v, z)}"
proof -
  obtain v where v: "decrypt_in_place (dv_bytes w) (Some (mk (ss_nwkskey (cx_session x))))
      (Some (mk (ss_appskey (cx_session x)))) fcnt = Some (Inr v)" "view_ok v" "length (dv_bytes v) = length (dv_bytes w)"
    using decrypted [OF assms] by metis
  obtain h where h: "dv_fhdr v = Some h" "fhdr_f_opts h = Some (drop 7 (fhdr_bytes h))"
    using wire_fcnt_fhdr [OF v(2)] by metis
  obtain pl where pl: "dv_frm_payload v = Some pl" using dv_frm_payload_ok [OF v(2)] by auto
  have frm: "(case pl of FrmMacCommands cmds \<Rightarrow> handle_downlink_macs cmds snr y | _ \<Rightarrow> Some y)
      = macs_loop snr (frm_cmds v) (rs_channel_mask_get (cx_region y)) 0 y" for y
    by (cases pl) (simp_all add: frm_cmds_def pl handle_downlink_macs_eq)
  have opts: "handle_downlink_macs (drop 7 (fhdr_bytes h)) snr y
      = macs_loop snr (f_opts_cmds v) (rs_channel_mask_get (cx_region y)) 0 y" for y
    by (simp add: f_opts_cmds_def h handle_downlink_macs_eq)
  have "handle_accepted mk D (dv_bytes w) fcnt confirmed snr ignore_mac dl x = do {
       y \<leftarrow> after_commands ignore_mac snr v (accept_ctx fcnt x);
       (resp, dl', z) \<leftarrow> deliver_downlink D fcnt v dl
          (if confirmed then set_uplink set_downlink_confirmation y else y);
       Some (resp, dl', dv_bytes v, z)}"
    by (simp only: handle_accepted_def v h pl opts frm Let_def Option.bind.simps result_ok_simps
        after_commands_def accept_ctx_def)
  with v show thesis by (rule that)
qed

lemma macs_outcome:
  assumes "ctx_ok x" "list_all dcmd_wf cs"
  shows "if list_ex ctl4 cs then macs_loop snr cs (rs_channel_mask_get (cx_region x)) n x = None
    else keeps (\<lambda>x. macs_loop snr cs (rs_channel_mask_get (cx_region x)) n x) x"
proof -
  have "length (rs_channel_mask_get (cx_region x)) = 9"
    using assms(1) by (intro region.get_length) (simp add: ctx_ok_def)
  from macs_loop_outcome [OF assms(2) this assms(1), of snr n] show ?thesis by (simp add: keeps_def split: if_splits)
qed

lemma frame_cmds_wf: "list_all dcmd_wf (f_opts_cmds v)" "list_all dcmd_wf (frm_cmds v)"
  by (auto simp: f_opts_cmds_def frm_cmds_def mac_cmds_wf split: option.split frm_payload.split)

lemma after_commands_outcome:
  assumes "ctx_ok x"
  shows "if \<not> ignore_mac \<and> list_ex ctl4 (frame_cmds v) then after_commands ignore_mac snr v x = None
    else keeps (after_commands ignore_mac snr v) x"
proof (cases ignore_mac)
  case True
  then show ?thesis using assms by (simp add: keeps_def after_commands_def)
next
  case False
  note o1 = macs_outcome [OF assms frame_cmds_wf(1) [of v], of snr 0]
  show ?thesis
  proof (cases "list_ex ctl4 (f_opts_cmds v)")
    case True
    then show ?thesis using o1 False by (simp add: after_commands_def frame_cmds_def)
  next
    case n: False
    then obtain y where y: "macs_loop snr (f_opts_cmds v) (rs_channel_mask_get (cx_region x)) 0 x = Some y"
      "ctx_ok y" "same_session x y" using o1 by (auto elim: keepsE)
    then show ?thesis using macs_outcome [OF y(2) frame_cmds_wf(2) [of v], of snr 0] n False
      by (auto simp: after_commands_def frame_cmds_def keeps_def intro!: same_session_trans [OF y(3)])
  qed
qed

text \<open>The four ways a reception ends.\<close>

lemma handle_rx_cases:
  assumes "rs_ok (cx_region x)"
  obtains (garbage) e where "encrypted_parse bs = Some (Inl e)"
      "handle_rx mk D bs dl len snr ignore_mac x = Some (NoUpdate, dl, bs, x)"
  | (oversize) w resp s' conf' where "encrypted_parse bs = Some (Inr w)" "unat len + 5 < length bs"
      "rx2_complete (cx_conf x) (cx_region x) (cx_session x) = Some (resp, s', conf')"
      "handle_rx mk D bs dl len snr ignore_mac x = Some (resp, dl, bs, x\<lparr>cx_session := s', cx_conf := conf'\<rparr>)"
  | (rejected) w u where "encrypted_parse bs = Some (Inr w)" "length bs \<le> unat len + 5"
      "u = (if ignore_mac then ss_uplink (cx_session x) else (ss_uplink (cx_session x))\<lparr>up_pending := []\<rparr>)"
      "\<And>n. next_fcnt_down (ss_fcnt_down (cx_session x)) (wire_fcnt bs) = Some n \<Longrightarrow>
         validate_data_mic w (mk (ss_nwkskey (cx_session x))) n = Some False"
      "handle_rx mk D bs dl len snr ignore_mac x = Some (NoUpdate, dl, bs, set_uplink (\<lambda>_. u) x)"
  | (accepted) w u n where "encrypted_parse bs = Some (Inr w)" "length bs \<le> unat len + 5"
      "u = (if ignore_mac then ss_uplink (cx_session x) else (ss_uplink (cx_session x))\<lparr>up_pending := []\<rparr>)"
      "next_fcnt_down (ss_fcnt_down (cx_session x)) (wire_fcnt bs) = Some n"
      "validate_data_mic w (mk (ss_nwkskey (cx_session x))) n = Some True"
      "handle_rx mk D bs dl len snr ignore_mac x =
         handle_accepted mk D bs n (dv_is_confirmed w) snr ignore_mac dl (set_uplink (\<lambda>_. u) x)"
proof -
  obtain r where r: "encrypted_parse bs = Some r" using encrypted_parse_total [of bs] by auto
  show thesis
  proof (cases r)
    case (Inl e)
    then show thesis using r by (intro garbage) (simp_all add: handle_rx_def)
  next
    case (Inr w)
    then have w: "dv_bytes w = bs" "view_ok w" using r by (auto simp: encrypted_parse_iff)
    show thesis
    proof (cases "unat len + 5 < length bs")
      case True
      obtain resp s' conf' where c: "rx2_complete (cx_conf x) (cx_region x) (cx_session x) = Some (resp, s', conf')"
        by (rule rx2_complete_cases [OF assms, of "cx_session x" "cx_conf x"]) blast+
      then show thesis using r Inr True w by (intro oversize) (simp_all add: handle_rx_def)
    next
      case False
      define u where "u = (if ignore_mac then ss_uplink (cx_session x) else (ss_uplink (cx_session x))\<lparr>up_pending := []\<rparr>)"
      have clr: "(if ignore_mac then Some (ss_uplink (cx_session x))
          else clear_mac_commands False (ss_uplink (cx_session x))) = Some u"
        by (simp add: u_def clear_mac_commands_def)
      obtain h where h: "dv_fhdr w = Some h" "fhdr_fcnt h = Some (wire_fcnt bs)"
        using wire_fcnt_fhdr [OF w(2)] w(1) by metis
      define ok where "ok n = (drop (length (dv_bytes w) - 4) (dv_bytes w) =
          data_mic (take (length (dv_bytes w) - 4) (dv_bytes w)) (mk (ss_nwkskey (cx_session x))) n)" for n
      then have ok: "validate_data_mic w (mk (ss_nwkskey (cx_session x))) n = Some (ok n)" for n
        using validate_data_mic_ok [OF w(2)] by simp
      have n: "\<not> length (dv_bytes w) > unat len + MHDR_LEN + MIC_LEN" using False w by simp
      have eq: "handle_rx mk D bs dl len snr ignore_mac x =
          (case next_fcnt_down (ss_fcnt_down (cx_session x)) (wire_fcnt bs) of
             None \<Rightarrow> Some (NoUpdate, dl, bs, set_uplink (\<lambda>_. u) x)
           | Some fcnt \<Rightarrow> if ok fcnt then handle_accepted mk D bs fcnt (dv_is_confirmed w) snr ignore_mac dl
                (set_uplink (\<lambda>_. u) x) else Some (NoUpdate, dl, bs, set_uplink (\<lambda>_. u) x))"
      proof -
        have "ss_fcnt_down (cx_session (set_uplink (\<lambda>_. u) x)) = ss_fcnt_down (cx_session x)"
          "ss_nwkskey (cx_session (set_uplink (\<lambda>_. u) x)) = ss_nwkskey (cx_session x)"
          by (simp_all add: set_uplink_def)
        then show ?thesis
          by (simp only: handle_rx_def r Inr clr h n Let_def Option.bind.simps sum.case if_False ok)
      qed
      show thesis
      proof (cases "next_fcnt_down (ss_fcnt_down (cx_session x)) (wire_fcnt bs)")
        case None
        then show thesis using r Inr False eq by (intro rejected [OF _ _ u_def]) simp_all
      next
        case (Some n)
        show thesis
        proof (cases "ok n")
          case True
          then show thesis using r Inr False eq Some ok by (intro accepted [OF _ _ u_def Some]) simp_all
        next
          case no: False
          then show thesis using r Inr False eq Some ok by (intro rejected [OF _ _ u_def]) auto
        qed
      qed
    qed
  qed
qed

lemma ctx_ok_set_uplink: "ctx_ok x \<Longrightarrow> up_ok u \<Longrightarrow> ctx_ok (set_uplink (\<lambda>_. u) x)"
  by (simp add: ctx_ok_def set_uplink_def)

lemma up_ok_cleared: "up_ok u \<Longrightarrow> up_ok (if b then u else u\<lparr>up_pending := []\<rparr>)"
  by (auto simp: up_ok_def up_holds_def intro: exI [of _ "[]"])

text \<open>An accepted frame: the handler returns and keeps the invariant, or panics on \<open>ChMaskCntl\<close> 4.\<close>

lemma handle_accepted_cases:
  assumes "view_ok w" "length (dv_bytes w) \<le> 260" "ctx_ok x"
    and "crypto_ok (mk (ss_nwkskey (cx_session x)))" "crypto_ok (mk (ss_appskey (cx_session x)))"
  obtains (panic) v where "\<not> ignore_mac" "list_ex ctl4 (frame_cmds v)"
      "decrypt_in_place (dv_bytes w) (Some (mk (ss_nwkskey (cx_session x)))) (Some (mk (ss_appskey (cx_session x)))) n = Some (Inr v)"
      "handle_accepted mk D (dv_bytes w) n c snr ignore_mac dl x = None"
  | (returns) v resp dl' bs' y where
    "decrypt_in_place (dv_bytes w) (Some (mk (ss_nwkskey (cx_session x)))) (Some (mk (ss_appskey (cx_session x)))) n = Some (Inr v)"
    "ignore_mac \<or> \<not> list_ex ctl4 (frame_cmds v)"
    "handle_accepted mk D (dv_bytes w) n c snr ignore_mac dl x = Some (resp, dl', bs', y)" "ctx_ok y"
    "resp = (if ss_fcnt_up (cx_session x) = 0xFFFFFFFF then SessionExpired else DownlinkReceived n)"
    "ss_fcnt_down (cx_session y) = Some n" "ss_adr_ack_cnt (cx_session y) = 0"
    "ss_fcnt_up (cx_session y) = ss_fcnt_up (cx_session x) + (if ss_fcnt_up (cx_session x) = 0xFFFFFFFF then 0 else 1)"
    "ss_nwkskey (cx_session y) = ss_nwkskey (cx_session x)" "ss_appskey (cx_session y) = ss_appskey (cx_session x)"
    "ss_devaddr (cx_session y) = ss_devaddr (cx_session x)"
    "up_confirmed (ss_uplink (cx_session y)) = (c \<or> up_confirmed (ss_uplink (cx_session x)))"
proof -
  obtain v where v: "decrypt_in_place (dv_bytes w) (Some (mk (ss_nwkskey (cx_session x))))
      (Some (mk (ss_appskey (cx_session x)))) n = Some (Inr v)" "view_ok v" "length (dv_bytes v) = length (dv_bytes w)"
    and eq: "handle_accepted mk D (dv_bytes w) n c snr ignore_mac dl x = do {
       y \<leftarrow> after_commands ignore_mac snr v (accept_ctx n x);
       (resp, dl', z) \<leftarrow> deliver_downlink D n v dl (if c then set_uplink set_downlink_confirmation y else y);
       Some (resp, dl', dv_bytes v, z)}"
    by (rule handle_accepted_eq [OF assms(1,4,5), where D = D and fcnt = n and confirmed = c and snr = snr
        and ignore_mac = ignore_mac and dl = dl])
  have "ctx_ok (accept_ctx n x)" using assms(3) by (simp add: ctx_ok_def accept_ctx_def)
  note out = after_commands_outcome [OF this, of ignore_mac v snr]
  show thesis
  proof (cases "\<not> ignore_mac \<and> list_ex ctl4 (frame_cmds v)")
    case True
    have "after_commands ignore_mac snr v (accept_ctx n x) = None" by (rule out [unfolded if_P [OF True]])
    then have "handle_accepted mk D (dv_bytes w) n c snr ignore_mac dl x = None"
      by (simp only: eq Option.bind.simps)
    then show thesis using v(1) True by (intro panic [of v]) simp_all
  next
    case safe: False
  obtain y where
    y: "after_commands ignore_mac snr v (accept_ctx n x) = Some y" "ctx_ok y" "same_session (accept_ctx n x) y"
    using out [unfolded if_not_P [OF safe]] by (rule keepsE)
  define z where "z = (if c then set_uplink set_downlink_confirmation y else y)"
  have z: "ctx_ok z" using y(2) by (auto simp: z_def ctx_ok_def set_uplink_def up_ok_def)
  have zs: "ss_fcnt_down (cx_session z) = Some n" "ss_adr_ack_cnt (cx_session z) = 0"
    "ss_fcnt_up (cx_session z) = ss_fcnt_up (cx_session x)" "ss_nwkskey (cx_session z) = ss_nwkskey (cx_session x)"
    "ss_appskey (cx_session z) = ss_appskey (cx_session x)" "ss_devaddr (cx_session z) = ss_devaddr (cx_session x)"
    "up_confirmed (ss_uplink (cx_session z)) = (c \<or> up_confirmed (ss_uplink (cx_session x)))"
    using same_session_D [OF y(3)] by (simp_all add: z_def set_uplink_def accept_ctx_def set_downlink_confirmation_def)
  have l: "length (dv_bytes v) \<le> 260" using v(3) assms(2) by simp
  obtain resp dl' z' where d: "deliver_downlink D n v dl z = Some (resp, dl', z')"
    "resp = (if ss_fcnt_up (cx_session x) = 0xFFFFFFFF then SessionExpired else DownlinkReceived n)"
    "z' = (if ss_fcnt_up (cx_session x) = 0xFFFFFFFF then z
       else z\<lparr>cx_session := (cx_session z)\<lparr>ss_fcnt_up := ss_fcnt_up (cx_session z) + 1\<rparr>\<rparr>)"
    by (rule deliver_downlink_Some [OF v(2) l, of z D n dl]) (use zs in auto)
  have h: "handle_accepted mk D (dv_bytes w) n c snr ignore_mac dl x = Some (resp, dl', dv_bytes v, z')"
    by (simp add: eq y(1) z_def [symmetric] d(1))
  have zf: "ctx_ok z'" "ss_fcnt_down (cx_session z') = Some n" "ss_adr_ack_cnt (cx_session z') = 0"
    "ss_fcnt_up (cx_session z') = ss_fcnt_up (cx_session x) + (if ss_fcnt_up (cx_session x) = 0xFFFFFFFF then 0 else 1)"
    "ss_nwkskey (cx_session z') = ss_nwkskey (cx_session x)" "ss_appskey (cx_session z') = ss_appskey (cx_session x)"
    "ss_devaddr (cx_session z') = ss_devaddr (cx_session x)"
    "up_confirmed (ss_uplink (cx_session z')) = (c \<or> up_confirmed (ss_uplink (cx_session x)))"
    unfolding d(3) using z zs by (cases "ss_fcnt_up (cx_session x) = 0xFFFFFFFF"; simp add: ctx_ok_def)+
  have "ignore_mac \<or> \<not> list_ex ctl4 (frame_cmds v)" using safe by blast
  then show thesis by (rule returns [OF v(1) _ h zf(1) d(2) zf(2-8)])
  qed
qed

end
