(* ===== verification/SessionProperties.thy ===== *)
theory SessionProperties
  imports SessionFacts
begin

text \<open>
  The properties of a session: which frames change it, replays and reflections, the atomic
  block of \<open>LinkADRReq\<close> commands, and what an uplink delivers to the network.
\<close>

lemma handle_rx_outcome:
  assumes "ctx_ok x" "crypto_ok (mk (ss_nwkskey (cx_session x)))" "crypto_ok (mk (ss_appskey (cx_session x)))"
  shows "(\<exists>resp dl' bs' y. handle_rx mk D bs dl len snr ignore_mac x = Some (resp, dl', bs', y) \<and> ctx_ok y \<and>
      ((\<exists>w n. encrypted_parse bs = Some (Inr w) \<and> length bs \<le> unat len + 5 \<and>
          next_fcnt_down (ss_fcnt_down (cx_session x)) (wire_fcnt bs) = Some n \<and>
          validate_data_mic w (mk (ss_nwkskey (cx_session x))) n = Some True \<and>
          ss_fcnt_down (cx_session y) = Some n \<and> ss_adr_ack_cnt (cx_session y) = 0 \<and>
          resp = (if ss_fcnt_up (cx_session x) = 0xFFFFFFFF then SessionExpired else DownlinkReceived n) \<and>
          ss_fcnt_up (cx_session y) = ss_fcnt_up (cx_session x) + (if ss_fcnt_up (cx_session x) = 0xFFFFFFFF then 0 else 1) \<and>
          ss_nwkskey (cx_session y) = ss_nwkskey (cx_session x) \<and> ss_appskey (cx_session y) = ss_appskey (cx_session x) \<and>
          ss_devaddr (cx_session y) = ss_devaddr (cx_session x)) \<or>
       (dl' = dl \<and> bs' = bs \<and> resp = NoUpdate \<and> cx_region y = cx_region x \<and> cx_conf y = cx_conf x \<and>
          (cx_session y = cx_session x \<or>
           \<not> ignore_mac \<and> cx_session y = (cx_session x)\<lparr>ss_uplink := (ss_uplink (cx_session x))\<lparr>up_pending := []\<rparr>\<rparr>)) \<or>
       (dl' = dl \<and> bs' = bs \<and> cx_region y = cx_region x \<and> unat len + 5 < length bs \<and>
          rx2_complete (cx_conf x) (cx_region x) (cx_session x) = Some (resp, cx_session y, cx_conf y)))) \<or>
    (handle_rx mk D bs dl len snr ignore_mac x = None \<and> \<not> ignore_mac \<and>
      (\<exists>w n v. encrypted_parse bs = Some (Inr w) \<and>
         next_fcnt_down (ss_fcnt_down (cx_session x)) (wire_fcnt bs) = Some n \<and>
         validate_data_mic w (mk (ss_nwkskey (cx_session x))) n = Some True \<and>
         decrypt_in_place bs (Some (mk (ss_nwkskey (cx_session x)))) (Some (mk (ss_appskey (cx_session x)))) n = Some (Inr v) \<and>
         list_ex ctl4 (frame_cmds v)))"
    (is "?ret \<or> ?panic")
proof -
  have rok: "rs_ok (cx_region x)" using assms(1) by (simp add: ctx_ok_def)
  have uok: "up_ok (ss_uplink (cx_session x))" using assms(1) by (simp add: ctx_ok_def)
  show ?thesis
  proof (rule handle_rx_cases [OF rok, of bs mk D dl len snr ignore_mac])
    fix e assume "handle_rx mk D bs dl len snr ignore_mac x = Some (NoUpdate, dl, bs, x)"
    then show ?thesis using assms(1) by simp
  next
    fix w resp s' conf'
    assume a: "unat len + 5 < length bs" "rx2_complete (cx_conf x) (cx_region x) (cx_session x) = Some (resp, s', conf')"
      "handle_rx mk D bs dl len snr ignore_mac x = Some (resp, dl, bs, x\<lparr>cx_session := s', cx_conf := conf'\<rparr>)"
    have "ctx_ok (x\<lparr>cx_session := s', cx_conf := conf'\<rparr>)"
      by (rule rx2_complete_cases [OF rok, of "cx_session x" "cx_conf x"])
         (use a(2) assms(1) next_lower_datarate_total [OF rok, of "cfg_data_rate (cx_conf x)"] in
           \<open>auto simp: ctx_ok_def intro: cfg_ok_lower\<close>)
    then show ?thesis using a by simp
  next
    fix w u assume a: "u = (if ignore_mac then ss_uplink (cx_session x) else (ss_uplink (cx_session x))\<lparr>up_pending := []\<rparr>)"
      "handle_rx mk D bs dl len snr ignore_mac x = Some (NoUpdate, dl, bs, set_uplink (\<lambda>_. u) x)"
    have "ctx_ok (set_uplink (\<lambda>_. u) x)" unfolding a(1) by (rule ctx_ok_set_uplink [OF assms(1) up_ok_cleared [OF uok]])
    then show ?thesis using a by (simp add: set_uplink_def)
  next
    fix w u n assume a: "encrypted_parse bs = Some (Inr w)" "length bs \<le> unat len + 5"
      "u = (if ignore_mac then ss_uplink (cx_session x) else (ss_uplink (cx_session x))\<lparr>up_pending := []\<rparr>)"
      "next_fcnt_down (ss_fcnt_down (cx_session x)) (wire_fcnt bs) = Some n"
      "validate_data_mic w (mk (ss_nwkskey (cx_session x))) n = Some True"
      "handle_rx mk D bs dl len snr ignore_mac x =
         handle_accepted mk D bs n (dv_is_confirmed w) snr ignore_mac dl (set_uplink (\<lambda>_. u) x)"
    define z where "z = set_uplink (\<lambda>_. u) x"
    have zs: "ss_fcnt_up (cx_session z) = ss_fcnt_up (cx_session x)" "ss_nwkskey (cx_session z) = ss_nwkskey (cx_session x)"
      "ss_appskey (cx_session z) = ss_appskey (cx_session x)" "ss_devaddr (cx_session z) = ss_devaddr (cx_session x)"
      by (simp_all add: z_def set_uplink_def)
    have w: "view_ok w" "dv_bytes w = bs" using a(1) by (simp_all add: encrypted_parse_iff)
    obtain k where k: "k = unat len" "k < 256" using u8_lt_256 [of len] by blast
    have "length bs \<le> k + 5" using a(2) k(1) by simp
    with k(2) have "length bs \<le> 260" by linarith
    then have l: "length (dv_bytes w) \<le> 260" using w(2) by simp
    have z: "ctx_ok z" unfolding z_def a(3) by (rule ctx_ok_set_uplink [OF assms(1) up_ok_cleared [OF uok]])
    have c: "crypto_ok (mk (ss_nwkskey (cx_session z)))" "crypto_ok (mk (ss_appskey (cx_session z)))"
      using assms(2,3) zs by simp_all
    note h = a(6) [folded z_def]
    show ?thesis
    proof (rule handle_accepted_cases [OF w(1) l z c, of ignore_mac n D "dv_is_confirmed w" snr dl])
      fix v assume "\<not> ignore_mac" "list_ex ctl4 (frame_cmds v)"
        "decrypt_in_place (dv_bytes w) (Some (mk (ss_nwkskey (cx_session z)))) (Some (mk (ss_appskey (cx_session z)))) n = Some (Inr v)"
        "handle_accepted mk D (dv_bytes w) n (dv_is_confirmed w) snr ignore_mac dl z = None"
      then have ?panic using a(1,4,5) h w(2) zs by auto
      then show ?thesis ..
    next
      fix v resp dl' bs' y
      assume "handle_accepted mk D (dv_bytes w) n (dv_is_confirmed w) snr ignore_mac dl z = Some (resp, dl', bs', y)" "ctx_ok y"
        "resp = (if ss_fcnt_up (cx_session z) = 0xFFFFFFFF then SessionExpired else DownlinkReceived n)"
        "ss_fcnt_down (cx_session y) = Some n" "ss_adr_ack_cnt (cx_session y) = 0"
        "ss_fcnt_up (cx_session y) = ss_fcnt_up (cx_session z) + (if ss_fcnt_up (cx_session z) = 0xFFFFFFFF then 0 else 1)"
        "ss_nwkskey (cx_session y) = ss_nwkskey (cx_session z)" "ss_appskey (cx_session y) = ss_appskey (cx_session z)"
        "ss_devaddr (cx_session y) = ss_devaddr (cx_session z)"
      then have ?ret using a(1,2,4,5) h w(2) zs by auto
      then show ?thesis ..
    qed
  qed
qed

text \<open>C13. \<open>Session::handle_rx\<close> returns and keeps the invariant of the session, the configuration and the
  region, whatever the bytes, unless the frame is authentic, fresh, received in a Class A window and
  carries a \<open>LinkADRReq\<close> whose \<open>ChMaskCntl\<close> is 4, which panics. This is about that method alone: what its
  callers do with the response is not part of it.\<close>

theorem handle_rx_returns:
  assumes "ctx_ok x" "crypto_ok (mk (ss_nwkskey (cx_session x)))" "crypto_ok (mk (ss_appskey (cx_session x)))"
  shows "(\<exists>resp dl' bs' y. handle_rx mk D bs dl len snr ignore_mac x = Some (resp, dl', bs', y) \<and> ctx_ok y) \<or>
    (handle_rx mk D bs dl len snr ignore_mac x = None \<and> \<not> ignore_mac \<and> (\<exists>w n v. encrypted_parse bs = Some (Inr w) \<and>
         next_fcnt_down (ss_fcnt_down (cx_session x)) (wire_fcnt bs) = Some n \<and>
         validate_data_mic w (mk (ss_nwkskey (cx_session x))) n = Some True \<and>
         decrypt_in_place bs (Some (mk (ss_nwkskey (cx_session x)))) (Some (mk (ss_appskey (cx_session x)))) n = Some (Inr v) \<and>
         list_ex ctl4 (frame_cmds v)))"
  using handle_rx_outcome [OF assms, of D bs dl len snr ignore_mac] by blast

definition example_ctx :: mac_ctx where
  "example_ctx = \<lparr>cx_session = session_new (replicate 16 1) (replicate 16 2) [1, 2, 3, 4],
     cx_conf = example_conf, cx_region = state_new EU868\<rparr>"

lemma example_ctx_ok: "ctx_ok example_ctx"
  by (simp add: ctx_ok_def example_ctx_def state_new_ok cfg_ok_def example_conf_def session_new_def up_ok_def
      del: state_new.simps) (rule exI [of _ "[]"], simp)

lemma handle_rx_returns_witness:
  "\<exists>resp dl' bs' y. handle_rx (\<lambda>k. xor_crypto (k ! 0)) 1 [0x60, 1, 2] [] 51 7 False example_ctx = Some (resp, dl', bs', y) \<and> ctx_ok y"
proof -
  have "encrypted_parse [0x60, 1, 2] = Some (Inl TooShort)" by (simp add: encrypted_parse_def layout_validate_def)
  then have "\<nexists>w. encrypted_parse [0x60, 1, 2] = Some (Inr w)" by simp
  then show ?thesis
    using handle_rx_returns [OF example_ctx_ok, of "\<lambda>k. xor_crypto (k ! 0)" 1 "[0x60, 1, 2]" "[]" 51 7 False] by simp
qed

text \<open>C14. Only an authentic and fresh frame moves the session forward. If a frame's MIC is not valid for the
  counter rebuilt from it (or it does not parse, or no counter can be rebuilt), then whatever the
  bytes are the region, the keys, the downlink counter and the downlink queue stay as they were; at most
  the pending answers are dropped, or, for an oversized frame, the second receive window is closed.\<close>

theorem unauthentic_frame_ignored:
  assumes "ctx_ok x" "crypto_ok (mk (ss_nwkskey (cx_session x)))" "crypto_ok (mk (ss_appskey (cx_session x)))"
    and "\<And>w n. encrypted_parse bs = Some (Inr w) \<Longrightarrow>
      next_fcnt_down (ss_fcnt_down (cx_session x)) (wire_fcnt bs) = Some n \<Longrightarrow>
      validate_data_mic w (mk (ss_nwkskey (cx_session x))) n = Some False"
  shows "\<exists>resp y. handle_rx mk D bs dl len snr ignore_mac x = Some (resp, dl, bs, y) \<and> ctx_ok y \<and>
      cx_region y = cx_region x \<and> ss_fcnt_down (cx_session y) = ss_fcnt_down (cx_session x) \<and>
      ss_nwkskey (cx_session y) = ss_nwkskey (cx_session x) \<and> ss_appskey (cx_session y) = ss_appskey (cx_session x) \<and>
      (resp = NoUpdate \<and> cx_conf y = cx_conf x \<and> ss_fcnt_up (cx_session y) = ss_fcnt_up (cx_session x) \<and>
         (ss_uplink (cx_session y) = ss_uplink (cx_session x) \<or>
          \<not> ignore_mac \<and> ss_uplink (cx_session y) = (ss_uplink (cx_session x))\<lparr>up_pending := []\<rparr>) \<or>
       unat len + 5 < length bs \<and>
         rx2_complete (cx_conf x) (cx_region x) (cx_session x) = Some (resp, cx_session y, cx_conf y))"
proof -
  have no: "\<not> (\<exists>w n. encrypted_parse bs = Some (Inr w) \<and>
      next_fcnt_down (ss_fcnt_down (cx_session x)) (wire_fcnt bs) = Some n \<and>
      validate_data_mic w (mk (ss_nwkskey (cx_session x))) n = Some True)"
    using assms(4) by fastforce
  then obtain resp dl' bs' y where h: "handle_rx mk D bs dl len snr ignore_mac x = Some (resp, dl', bs', y)" "ctx_ok y"
    "(dl' = dl \<and> bs' = bs \<and> resp = NoUpdate \<and> cx_region y = cx_region x \<and> cx_conf y = cx_conf x \<and>
          (cx_session y = cx_session x \<or>
           \<not> ignore_mac \<and> cx_session y = (cx_session x)\<lparr>ss_uplink := (ss_uplink (cx_session x))\<lparr>up_pending := []\<rparr>\<rparr>)) \<or>
     (dl' = dl \<and> bs' = bs \<and> cx_region y = cx_region x \<and> unat len + 5 < length bs \<and>
          rx2_complete (cx_conf x) (cx_region x) (cx_session x) = Some (resp, cx_session y, cx_conf y))"
    using handle_rx_outcome [OF assms(1-3), of D bs dl len snr ignore_mac] by blast
  have rok: "rs_ok (cx_region x)" using assms(1) by (simp add: ctx_ok_def)
  have r2: "ss_fcnt_down s' = ss_fcnt_down (cx_session x) \<and> ss_nwkskey s' = ss_nwkskey (cx_session x) \<and>
      ss_appskey s' = ss_appskey (cx_session x)"
    if "rx2_complete (cx_conf x) (cx_region x) (cx_session x) = Some (r, s', c')" for r s' c'
    by (rule rx2_complete_cases [OF rok, of "cx_session x" "cx_conf x"]) (use that in auto)
  show ?thesis using h(1,2) by (intro exI [of _ resp] exI [of _ y]) (use h(3) r2 in auto)
qed

lemma unauthentic_frame_ignored_witness:
  "\<exists>resp y. handle_rx (\<lambda>k. xor_crypto (k ! 0)) 1 [0x60, 1, 2] [] 51 7 False example_ctx = Some (resp, [], [0x60, 1, 2], y) \<and>
     cx_region y = state_new EU868"
proof -
  have "encrypted_parse [0x60, 1, 2] = Some (Inl TooShort)" by (simp add: encrypted_parse_def layout_validate_def)
  then have n: "encrypted_parse [0x60, 1, 2] = Some (Inr w) \<Longrightarrow> P" for w P by simp
  have "cx_region example_ctx = state_new EU868" by (simp add: example_ctx_def)
  then show ?thesis
    using unauthentic_frame_ignored [OF example_ctx_ok, of "\<lambda>k. xor_crypto (k ! 0)" "[0x60, 1, 2]" 1 "[]" 51 7 False] n
    by (simp del: state_new.simps) blast
qed

section \<open>Replays\<close>

text \<open>C15. A replay is dropped, for a frame that is not longer than the window allows (the payload limit and 5 more
  bytes): a frame sent with a counter \<open>n\<close> at or below the last
  accepted one, \<open>k\<close>, is refused on its counter alone, with no effect but the dropped answers of a Class A window, as long as
  \<open>k\<close> is below \<open>n + 49152\<close>. Later on a counter can be rebuilt from it again, but it is never \<open>n\<close>: it lies
  above \<open>k\<close>, and unless the MIC is valid for that counter the frame is dropped in the same way.\<close>

theorem replay_dropped:
  assumes "rs_ok (cx_region x)" "encrypted_parse bs = Some (Inr w)" "length bs \<le> unat len + 5"
    and "wire_fcnt bs = ucast (n :: u32)" "ss_fcnt_down (cx_session x) = Some k" "n \<le> k"
  shows "(unat k < unat n + 49152 \<longrightarrow> handle_rx mk D bs dl len snr ignore_mac x =
      Some (NoUpdate, dl, bs, set_uplink (\<lambda>u. if ignore_mac then u else u\<lparr>up_pending := []\<rparr>) x)) \<and>
    (\<forall>f. next_fcnt_down (Some k) (wire_fcnt bs) = Some f \<longrightarrow> k < f \<and> f \<noteq> n \<and>
      (validate_data_mic w (mk (ss_nwkskey (cx_session x))) f = Some False \<longrightarrow> handle_rx mk D bs dl len snr ignore_mac x =
        Some (NoUpdate, dl, bs, set_uplink (\<lambda>u. if ignore_mac then u else u\<lparr>up_pending := []\<rparr>) x)))"
proof -
  have none: "next_fcnt_down (Some k) (ucast n) = None" if near: "unat k < unat n + 49152"
  proof -
    have False if m: "unat k < unat m" "unat m \<le> unat k + 16384" "ucast m = (ucast n :: u16)" for m :: u32
    proof -
      have "unat m = 65536 * (unat m div 65536) + unat (ucast n :: u16)" using u32_split [of m] m(3) by simp
      moreover have "unat n = 65536 * (unat n div 65536) + unat (ucast n :: u16)" by (rule u32_split)
      moreover have "unat n \<le> unat k" using assms(6) by (simp add: word_le_nat_alt)
      ultimately have "unat n div 65536 < unat m div 65536" "unat m div 65536 < unat n div 65536 + 1"
        using m(1,2) near by linarith+
      then show False by simp
    qed
    then show ?thesis unfolding next_fcnt_down_None by blast
  qed
  have drop: "handle_rx mk D bs dl len snr ignore_mac x =
      Some (NoUpdate, dl, bs, set_uplink (\<lambda>u. if ignore_mac then u else u\<lparr>up_pending := []\<rparr>) x)"
    if "\<And>f. next_fcnt_down (Some k) (wire_fcnt bs) = Some f \<Longrightarrow> validate_data_mic w (mk (ss_nwkskey (cx_session x))) f = Some False"
    by (rule handle_rx_cases [OF assms(1), of bs mk D dl len snr ignore_mac])
       (use assms(2,3,5) that in \<open>auto simp: set_uplink_def\<close>)
  have above: "k < f \<and> f \<noteq> n" if "next_fcnt_down (Some k) (wire_fcnt bs) = Some f" for f
    using that assms(6) by (auto simp: next_fcnt_down_iff word_less_nat_alt word_le_nat_alt)
  show ?thesis using drop above none assms(4) by auto
qed

definition example_downlink :: bytes where
  "example_downlink = [0x60, 1, 2, 3, 4, 0, 9, 0, 0, 0, 0, 0]"

lemma replay_dropped_witness:
  "handle_rx (\<lambda>k. xor_crypto (k ! 0)) 1 example_downlink [] 51 7 True
     (example_ctx\<lparr>cx_session := (cx_session example_ctx)\<lparr>ss_fcnt_down := Some 12\<rparr>\<rparr>) =
   Some (NoUpdate, [], example_downlink, example_ctx\<lparr>cx_session := (cx_session example_ctx)\<lparr>ss_fcnt_down := Some 12\<rparr>\<rparr>)"
proof -
  let ?x = "example_ctx\<lparr>cx_session := (cx_session example_ctx)\<lparr>ss_fcnt_down := Some 12\<rparr>\<rparr>"
  let ?l = "\<lparr>lay_frame_type = UnconfirmedDown, lay_fhdr_len = 7, lay_f_port_offset = None, lay_frm_start = 8, lay_frm_end = 8\<rparr>"
  have "layout_ok example_downlink ?l" by (simp add: layout_ok_def from_mhdr_def example_downlink_def)
  then have "encrypted_parse example_downlink = Some (Inr \<lparr>dv_bytes = example_downlink, dv_layout = ?l\<rparr>)"
    by (simp add: encrypted_parse_iff view_ok_def)
  moreover have "wire_fcnt example_downlink = ucast (9 :: u32)" by (simp add: wire_fcnt_def example_downlink_def)
  moreover have "rs_ok (cx_region ?x)" using example_ctx_ok by (simp add: ctx_ok_def)
  ultimately show ?thesis
    using replay_dropped [of ?x example_downlink _ 51 9 12 "\<lambda>k. xor_crypto (k ! 0)" 1 "[]" 7 True]
    by (simp add: set_uplink_def example_downlink_def)
qed

section \<open>The block of \<open>LinkADRReq\<close> commands\<close>







end
