(* ===== verification/SessionUplink.thy ===== *)
theory SessionUplink
  imports SessionProperties
begin

text \<open>
  What \<open>Session::prepare_buffer\<close> puts into the radio buffer, read back by the network, and read back
  by the device itself.
\<close>

section \<open>A built frame on the receiving side\<close>

lemma built_frame_received:
  assumes "data_frame_ok f" "crypto_ok nwk" "crypto_ok a"
    and "data_frame_build_into f buf nwk (Some a) = Some (Inr out)"
  obtains w v where "encrypted_parse out = Some (Inr w)" "wire_fcnt out = ucast (df_fcnt f)"
    "validate_data_mic w nwk (df_fcnt f) = Some True" "dv_is_confirmed w = is_confirmed (df_frame_type f)"
    "decrypt_in_place out (Some nwk) (Some a) (df_fcnt f) = Some (Inr v)" "view_ok v"
    "length (dv_bytes v) = length out" "f_opts_cmds v = mac_cmds (df_f_opts f)"
    "\<exists>h. dv_fhdr v = Some h \<and> fhdr_f_opts h = Some (df_f_opts f)"
    "case df_payload f of
       PayloadNone \<Rightarrow> dv_f_port v = Some None \<and> dv_frm_payload v = Some FrmNone
     | PayloadData p d \<Rightarrow> dv_f_port v = Some (Some p) \<and> dv_frm_payload v = Some (FrmData d)
     | PayloadMacCommands d \<Rightarrow> dv_f_port v = Some (Some 0) \<and> dv_frm_payload v = Some (FrmMacCommands d)"
proof -
  have app: "\<And>c. Some a = Some c \<Longrightarrow> crypto_ok c" using assms(3) by simp
  obtain port frm enc m where sel: "df_select f nwk (Some a) = Inr (port, frm, enc)"
    and b: "length (df_f_opts f) \<le> 15" "port = None \<longrightarrow> frm = []" "length m = 4"
    and d: "check_mic_and_decrypt_in_place out nwk (Some a) (df_fcnt f) =
       Some (Inr \<lparr>dv_bytes = df_plain f port frm @ m, dv_layout = df_layout f port frm\<rparr>)"
    by (rule data_frame_decrypt_eq [OF assms(1,2) app assms(4)])
  define v where "v = \<lparr>dv_bytes = df_plain f port frm @ m, dv_layout = df_layout f port frm\<rparr>"
  have a4: "length (df_dev_addr f) = 4" and po: "payload_ok (df_payload f)"
    using assms(1) by (simp_all add: data_frame_ok_def)
  from d obtain w where w: "encrypted_parse out = Some (Inr w)"
    "validate_data_mic w nwk (df_fcnt f) = Some True"
    "decrypt_in_place out (Some nwk) (Some a) (df_fcnt f) = Some (Inr v)"
    by (auto simp: check_mic_and_decrypt_in_place_def try_run_eq_Inr bind_eq_Some_conv v_def split: if_splits)
  have wok: "view_ok w" "dv_bytes w = out" using w(1) by (simp_all add: encrypted_parse_iff)
  obtain v' where v': "decrypt_in_place (dv_bytes w) (Some nwk) (Some a) (df_fcnt f) = Some (Inr v')" "view_ok v'"
    "dv_layout v' = dv_layout w" "length (dv_bytes v') = length (dv_bytes w)" "take 8 (dv_bytes v') = take 8 (dv_bytes w)"
    by (rule decrypted [OF wok(1) assms(2,3)])
  then have vv: "v' = v" using w(3) wok(2) by simp
  have t8: "take 8 out = take 8 (df_plain f port frm @ m)" using v'(5) vv wok(2) by (simp add: v_def)
  have lp: "8 \<le> length (df_plain f port frm)" using length_df_plain [OF a4] by simp
  have "out ! 6 = df_plain f port frm ! 6" "out ! 7 = df_plain f port frm ! 7"
    using take_eq_nth [OF t8, of 6] take_eq_nth [OF t8, of 7] lp by (simp_all add: nth_append)
  then have wire: "wire_fcnt out = ucast (df_fcnt f)"
    using from_le_bytes_u16 [of "ucast (df_fcnt f)"]
    by (simp only: wire_fcnt_def df_plain_nth(3,4) [OF a4, of port frm])
  note acc = df_plain_accessors [OF a4 b v_def]
  obtain h where h: "dv_fhdr v = Some h" "fhdr_f_opts h = Some (df_f_opts f)" using acc(1) by blast
  have "dv_layout w = df_layout f port frm" using v'(3) vv by (simp add: v_def)
  then have conf: "dv_is_confirmed w = is_confirmed (df_frame_type f)"
    by (simp add: dv_is_confirmed_def df_layout_def)
  have pl: "case df_payload f of
        PayloadNone \<Rightarrow> port = None
      | PayloadData pt d \<Rightarrow> port = Some pt \<and> frm = d \<and> pt \<noteq> 0
      | PayloadMacCommands d \<Rightarrow> port = Some 0 \<and> frm = d"
    using sel po by (auto simp: df_select_def payload_ok_def split: payload.splits option.splits if_splits)
  show thesis
  proof (rule that [OF w(1) wire w(2) conf w(3)])
    show "view_ok v" "length (dv_bytes v) = length out" using v' vv wok by simp_all
    show "f_opts_cmds v = mac_cmds (df_f_opts f)" by (simp add: f_opts_cmds_def h)
    show "\<exists>h. dv_fhdr v = Some h \<and> fhdr_f_opts h = Some (df_f_opts f)" using h by blast
    show "case df_payload f of
       PayloadNone \<Rightarrow> dv_f_port v = Some None \<and> dv_frm_payload v = Some FrmNone
     | PayloadData p d \<Rightarrow> dv_f_port v = Some (Some p) \<and> dv_frm_payload v = Some (FrmData d)
     | PayloadMacCommands d \<Rightarrow> dv_f_port v = Some (Some 0) \<and> dv_frm_payload v = Some (FrmMacCommands d)"
      using pl acc(3,4) by (cases "df_payload f") simp_all
  qed
qed

section \<open>The uplink\<close>

text \<open>The frame that is built, and its length.\<close>

definition wants_adr_ack :: "mac_configuration \<Rightarrow> region_state \<Rightarrow> session \<Rightarrow> bool" where
  "wants_adr_ack conf region s \<longleftrightarrow> cfg_adr_enabled conf \<and> ss_adr_ack_cnt s \<ge> ADR_ACK_LIMIT \<and>
     next_lower_datarate region (cfg_data_rate conf) \<noteq> Some None"

definition sent_frame :: "send_data \<Rightarrow> mac_configuration \<Rightarrow> region_state \<Rightarrow> session \<Rightarrow> data_frame" where
  "sent_frame data conf region s =
     \<lparr>df_frame_type = (if sd_confirmed data then ConfirmedUp else UnconfirmedUp),
      df_dev_addr = ss_devaddr s, df_adr = cfg_adr_enabled conf, df_adr_ack_req = wants_adr_ack conf region s,
      df_ack = up_confirmed (ss_uplink s), df_f_pending = False, df_fcnt = ss_fcnt_up s,
      df_f_opts = (if sd_fport data \<noteq> 0 then up_pending (ss_uplink s) else []),
      df_payload = (if sd_fport data \<noteq> 0 then PayloadData (sd_fport data) (sd_data data)
                    else PayloadMacCommands (up_pending (ss_uplink s)))\<rparr>"

definition sent_len :: "send_data \<Rightarrow> session \<Rightarrow> nat" where
  "sent_len data s = 13 + length (up_pending (ss_uplink s)) + length (sd_data data)"

definition cleared_ack :: "session \<Rightarrow> send_data \<Rightarrow> session" where
  "cleared_ack s data = s\<lparr>ss_uplink := (ss_uplink s)\<lparr>up_confirmed := False\<rparr>, ss_confirmed := sd_confirmed data\<rparr>"

lemma prepare_buffer_eq:
  assumes "rs_ok region"
  shows "prepare_buffer mk data tx conf region s =
    (if sd_fport data = 0 \<and> sd_data data \<noteq> [] then None
     else do {
       r \<leftarrow> data_frame_build_into (sent_frame data conf region s) (replicate 256 0) (mk (ss_nwkskey s)) (Some (mk (ss_appskey s)));
       packet \<leftarrow> result_ok r;
       (tx2, ok) \<leftarrow> rb_extend_from_slice packet (rb_clear tx);
       if ok = Inl () then None
       else do {
         u \<leftarrow> clear_mac_commands True (ss_uplink (cleared_ack s data));
         Some (ss_fcnt_up s, tx2, (cleared_ack s data)\<lparr>ss_uplink := u\<rparr>)}})"
proof -
  obtain lower where low: "next_lower_datarate region (cfg_data_rate conf) = Some lower"
    using next_lower_datarate_total [OF assms] by blast
  define s1 where "s1 = (if up_confirmed (ss_uplink s) then s\<lparr>ss_uplink := clear_downlink_confirmation (ss_uplink s)\<rparr> else s)"
  have s1: "s1 = s\<lparr>ss_uplink := (ss_uplink s)\<lparr>up_confirmed := False\<rparr>\<rparr>"
    by (auto simp: s1_def clear_downlink_confirmation_def)
  have adr: "(if cfg_adr_enabled conf \<and> ss_adr_ack_cnt s1 \<ge> ADR_ACK_LIMIT
      then map_option (\<lambda>d. d \<noteq> None) (next_lower_datarate region (cfg_data_rate conf))
      else Some False) = Some (wants_adr_ack conf region s)"
    by (auto simp: wants_adr_ack_def low s1)
  have c: "s1\<lparr>ss_confirmed := sd_confirmed data\<rparr> = cleared_ack s data" by (simp add: s1 cleared_ack_def)
  have fr: "uplink_frame data (cfg_adr_enabled conf) (wants_adr_ack conf region s) (up_confirmed (ss_uplink s)) (cleared_ack s data)
      = (if sd_fport data = 0 \<and> sd_data data \<noteq> [] then None else Some (sent_frame data conf region s))"
    by (auto simp: uplink_frame_def sent_frame_def cleared_ack_def uplink_mac_commands_def)
  have k: "ss_nwkskey (cleared_ack s data) = ss_nwkskey s" "ss_appskey (cleared_ack s data) = ss_appskey s"
    by (simp_all add: cleared_ack_def)
  have rc: "rb_clear (rb_clear tx) = rb_clear tx" by (simp add: rb_clear_def)
  show ?thesis
  proof (cases "sd_fport data = 0 \<and> sd_data data \<noteq> []")
    case True
    then show ?thesis
      unfolding prepare_buffer_def Let_def confirms_downlink_def s1_def [symmetric] adr c fr Option.bind.simps
      by (simp only: if_True simp_thms Option.bind.simps)
  next
    case False
    then have "uplink_frame data (cfg_adr_enabled conf) (wants_adr_ack conf region s) (up_confirmed (ss_uplink s)) (cleared_ack s data)
        = Some (sent_frame data conf region s)"
      by (simp only: fr if_False)
    with False show ?thesis
      unfolding prepare_buffer_def Let_def confirms_downlink_def s1_def [symmetric] adr c Option.bind.simps
      by (simp only: k rc Option.bind.simps if_False)
  qed
qed

lemma sent_frame_ok: "length (ss_devaddr s) = 4 \<Longrightarrow> data_frame_ok (sent_frame data conf region s)"
  by (simp add: data_frame_ok_def sent_frame_def payload_ok_def)

text \<open>The outcome of the build, with the 256-byte buffer.\<close>

lemma sent_frame_build:
  assumes "length (ss_devaddr s) = 4" "up_ok (ss_uplink s)" "crypto_ok nwk" "crypto_ok a"
    and "\<not> (sd_fport data = 0 \<and> sd_data data \<noteq> [])"
  shows "if sent_len data s \<le> 256
    then \<exists>out. data_frame_build_into (sent_frame data conf region s) (replicate 256 0) nwk (Some a) = Some (Inr out) \<and>
      length out = sent_len data s
    else \<exists>e. data_frame_build_into (sent_frame data conf region s) (replicate 256 0) nwk (Some a) = Some (Inl e)"
proof -
  let ?f = "sent_frame data conf region s"
  have l15: "length (up_pending (ss_uplink s)) \<le> 15" using assms(2) by (auto simp: up_ok_def up_holds_def)
  then have fo: "length (df_f_opts ?f) \<le> 15" by (simp add: sent_frame_def)
  have a4: "length (df_dev_addr ?f) = 4" using assms(1) by (simp add: sent_frame_def)
  obtain port frm enc where sel: "df_select ?f nwk (Some a) = Inr (port, frm, enc)" and enc: "crypto_ok enc"
    and len: "12 + length (df_f_opts ?f) + length (port_bytes port) + length frm = sent_len data s" "port \<noteq> None"
    using assms(3-5) by (cases "sd_fport data = 0") (simp_all add: df_select_def sent_frame_def port_bytes_def sent_len_def)
  show ?thesis
  proof (cases "sent_len data s \<le> 256")
    case True
    have "length (data_mic (df_body ?f port frm enc) nwk (df_fcnt ?f)) = 4" by (rule length_data_mic [OF assms(3)])
    then show ?thesis
      using data_frame_build_eq [OF sel a4 fo assms(3) enc, of "replicate 256 0"] True len length_df_plain [OF a4, of port frm]
      by (simp add: df_body_def Let_def)
  next
    case False
    then have g: "get_front (replicate 256 (0 :: u8)) (1 + (7 + length (df_f_opts ?f)) + (if port = None then 0 else 1) + length frm + 4) = None"
      using len by (auto simp: get_front_def port_bytes_def)
    have "data_frame_build_into ?f (replicate 256 0) nwk (Some a) = Some (Inl FrameBufferTooShort)"
      using fo by (simp only: data_frame_build_into_def sel not_less [symmetric] if_not_P if_False try_run_simps case_prod_conv Let_def g ok_or_simps)
    then show ?thesis using False by simp
  qed
qed

lemma mac_cmds_Nil: "mac_cmds [] = []"
  by (simp add: mac_cmds_def downlink.items_errored mc_new_def List.map_filter_simps)

text \<open>When a buffer can be prepared, and what it then holds.\<close>

definition sendable :: "send_data \<Rightarrow> radio_buffer \<Rightarrow> session \<Rightarrow> bool" where
  "sendable data tx s \<longleftrightarrow> \<not> (sd_fport data = 0 \<and> sd_data data \<noteq> []) \<and> sent_len data s \<le> 256 \<and>
     sent_len data s < length (rb_packet tx)"

lemma prepare_buffer_outcome:
  assumes "rs_ok region" "length (ss_devaddr s) = 4" "up_holds (ss_uplink s) cs"
    and "crypto_ok (mk (ss_nwkskey s))" "crypto_ok (mk (ss_appskey s))"
  obtains (panic) "\<not> sendable data tx s" "prepare_buffer mk data tx conf region s = None"
  | (built) tx' u out where "sendable data tx s"
      "prepare_buffer mk data tx conf region s = Some (ss_fcnt_up s, tx', (cleared_ack s data)\<lparr>ss_uplink := u\<rparr>)"
      "rb_as_ref_for_read tx' = Some out" "length out = sent_len data s"
      "data_frame_build_into (sent_frame data conf region s) (replicate 256 0) (mk (ss_nwkskey s)) (Some (mk (ss_appskey s)))
         = Some (Inr out)"
      "up_holds u (filter retained cs)" "\<not> up_confirmed u"
proof -
  let ?bad = "sd_fport data = 0 \<and> sd_data data \<noteq> []"
  let ?build = "data_frame_build_into (sent_frame data conf region s) (replicate 256 0) (mk (ss_nwkskey s)) (Some (mk (ss_appskey s)))"
  note pb = prepare_buffer_eq [OF assms(1), of mk data tx conf s]
  have uok: "up_ok (ss_uplink s)" using assms(3) unfolding up_ok_def by blast
  show thesis
  proof (cases "?bad \<or> 256 < sent_len data s")
    case True
    have "prepare_buffer mk data tx conf region s = None"
    proof (cases ?bad)
      case False
      then obtain e where "?build = Some (Inl e)"
        using True sent_frame_build [OF assms(2) uok assms(4,5) False, of conf region] by auto
      then show ?thesis by (simp add: pb)
    qed (simp add: pb)
    then show thesis by (rule panic [rotated]) (use True in \<open>auto simp: sendable_def\<close>)
  next
    case False
    then have nb: "\<not> ?bad" and le: "sent_len data s \<le> 256" by auto
    obtain out where o: "?build = Some (Inr out)" "length out = sent_len data s"
      using sent_frame_build [OF assms(2) uok assms(4,5) nb, of conf region] le by auto
    have rc: "rb_ok (rb_clear tx)" "rb_pos (rb_clear tx) = 0" "rb_packet (rb_clear tx) = rb_packet tx"
      by (simp_all add: rb_clear_def rb_ok_def)
    have "up_holds (ss_uplink (cleared_ack s data)) cs" using assms(3) by (auto simp: cleared_ack_def up_holds_def)
    then obtain u where u: "clear_mac_commands True (ss_uplink (cleared_ack s data)) = Some u"
      "up_confirmed u = up_confirmed (ss_uplink (cleared_ack s data))" "up_holds u (filter retained cs)"
      using clear_mac_commands_holds [of _ cs True] by metis
    show thesis
    proof (cases "sent_len data s < length (rb_packet tx)")
      case True
      define tx' where "tx' = (rb_clear tx)\<lparr>rb_packet := out @ drop (length out) (rb_packet tx), rb_pos := length out\<rparr>"
      have "rb_extend_from_slice out (rb_clear tx) = Some (tx', Inr ())"
        using True o(2) by (simp add: rb_extend_eq rc tx'_def)
      moreover have "rb_as_ref_for_read tx' = Some out" by (simp add: tx'_def rb_as_ref_for_read_def)
      ultimately show thesis
        using True le nb o u by (intro built [of tx' u out]) (simp_all add: pb sendable_def cleared_ack_def)
    next
      case False
      then have "rb_extend_from_slice out (rb_clear tx) = Some (rb_clear tx, Inl ())"
        using o(2) by (simp add: rb_extend_eq rc)
      then show thesis using False o(1) by (intro panic) (simp_all add: pb sendable_def)
    qed
  qed
qed

text \<open>A buffer that was prepared holds the built frame.\<close>

lemma prepare_buffer_built:
  assumes "rs_ok region" "up_ok (ss_uplink s)" "\<not> (sd_fport data = 0 \<and> sd_data data \<noteq> [])"
    and "prepare_buffer mk data tx conf region s = Some (n, tx', s')" "rb_as_ref_for_read tx' = Some out"
  obtains u where
    "data_frame_build_into (sent_frame data conf region s) (replicate 256 0) (mk (ss_nwkskey s)) (Some (mk (ss_appskey s))) = Some (Inr out)"
    "n = ss_fcnt_up s" "s' = (cleared_ack s data)\<lparr>ss_uplink := u\<rparr>" "up_ok u"
proof -
  note pb = prepare_buffer_eq [OF assms(1), of mk data tx conf s, unfolded if_not_P [OF assms(3)]]
  have rc: "rb_ok (rb_clear tx)" "rb_pos (rb_clear tx) = 0" by (simp_all add: rb_clear_def rb_ok_def)
  obtain cs where "up_holds (ss_uplink (cleared_ack s data)) cs"
    using assms(2) by (auto simp: up_ok_def cleared_ack_def up_holds_def)
  then obtain u where u: "clear_mac_commands True (ss_uplink (cleared_ack s data)) = Some u"
    "up_holds u (filter retained cs)" using clear_mac_commands_holds [of _ cs True] by metis
  have inr: "b \<noteq> Inl () \<longleftrightarrow> b = Inr ()" for b :: "unit + unit" by (cases b) auto
  from assms(4) obtain o1 where o1:
    "data_frame_build_into (sent_frame data conf region s) (replicate 256 0) (mk (ss_nwkskey s)) (Some (mk (ss_appskey s))) = Some (Inr o1)"
    "rb_extend_from_slice o1 (rb_clear tx) = Some (tx', Inr ())" "n = ss_fcnt_up s" "s' = (cleared_ack s data)\<lparr>ss_uplink := u\<rparr>"
    by (auto simp: pb u(1) bind_eq_Some_conv inr split: if_splits)
  have "rb_as_ref_for_read tx' = Some o1"
    using o1(2) by (auto simp: rb_extend_eq [OF rc(1)] rc(2) rb_as_ref_for_read_def split: if_splits)
  then show thesis using that [of u] o1 u(2) assms(5) unfolding up_ok_def by auto
qed

section \<open>Properties\<close>

text \<open>C12. An uplink reaches the network. Building it panics exactly when data is sent on port 0, when the
  frame is longer than the 256-byte buffer, or when it does not fit strictly into the radio buffer.
  Otherwise the radio buffer holds a frame whose MIC the network accepts under the session's keys and
  uplink counter, which it decrypts to the port, data and queued MAC answers of the device; the
  device's counter is not moved yet, the acknowledgement is no longer pending and only the answers
  that are to be repeated stay queued.\<close>

theorem uplink_reaches_network:
  assumes "rs_ok region" "length (ss_devaddr s) = 4" "up_holds (ss_uplink s) cs"
    and "crypto_ok (mk (ss_nwkskey s))" "crypto_ok (mk (ss_appskey s))"
  shows "if sd_fport data = 0 \<and> sd_data data \<noteq> [] \<or> 256 < sent_len data s \<or> length (rb_packet tx) \<le> sent_len data s
    then prepare_buffer mk data tx conf region s = None
    else \<exists>tx' s' out w v h.
      prepare_buffer mk data tx conf region s = Some (ss_fcnt_up s, tx', s') \<and>
      rb_as_ref_for_read tx' = Some out \<and> encrypted_parse out = Some (Inr w) \<and>
      wire_fcnt out = ucast (ss_fcnt_up s) \<and> dv_is_confirmed w = sd_confirmed data \<and>
      validate_data_mic w (mk (ss_nwkskey s)) (ss_fcnt_up s) = Some True \<and>
      decrypt_in_place out (Some (mk (ss_nwkskey s))) (Some (mk (ss_appskey s))) (ss_fcnt_up s) = Some (Inr v) \<and>
      dv_f_port v = Some (Some (sd_fport data)) \<and> dv_fhdr v = Some h \<and>
      (if sd_fport data \<noteq> 0
       then dv_frm_payload v = Some (FrmData (sd_data data)) \<and>
            fhdr_f_opts h = Some (encode_cmds uplink_cid uplink_bytes cs)
       else dv_frm_payload v = Some (FrmMacCommands (encode_cmds uplink_cid uplink_bytes cs)) \<and>
            fhdr_f_opts h = Some []) \<and>
      mc_items uplink_parse_one (mc_new (encode_cmds uplink_cid uplink_bytes cs)) = Some (map Inr cs) \<and>
      up_holds (ss_uplink s') (filter retained cs) \<and>
      s' = s\<lparr>ss_confirmed := sd_confirmed data, ss_uplink := ss_uplink s'\<rparr> \<and> \<not> up_confirmed (ss_uplink s')"
proof (rule prepare_buffer_outcome [OF assms, of data tx conf])
  assume "\<not> sendable data tx s" "prepare_buffer mk data tx conf region s = None"
  then show ?thesis by (auto simp: sendable_def)
next
  let ?f = "sent_frame data conf region s"
  fix tx' u out
  assume ok: "sendable data tx s"
    and p: "prepare_buffer mk data tx conf region s = Some (ss_fcnt_up s, tx', (cleared_ack s data)\<lparr>ss_uplink := u\<rparr>)"
    "rb_as_ref_for_read tx' = Some out"
    and o: "data_frame_build_into ?f (replicate 256 0) (mk (ss_nwkskey s)) (Some (mk (ss_appskey s))) = Some (Inr out)"
    and u: "up_holds u (filter retained cs)" "\<not> up_confirmed u"
  define s' where "s' = (cleared_ack s data)\<lparr>ss_uplink := u\<rparr>"
  have pend: "up_pending (ss_uplink s) = encode_cmds uplink_cid uplink_bytes cs"
    using assms(3) by (simp add: up_holds_def)
  obtain w v where r: "encrypted_parse out = Some (Inr w)" "wire_fcnt out = ucast (df_fcnt ?f)"
    "validate_data_mic w (mk (ss_nwkskey s)) (df_fcnt ?f) = Some True" "dv_is_confirmed w = is_confirmed (df_frame_type ?f)"
    "decrypt_in_place out (Some (mk (ss_nwkskey s))) (Some (mk (ss_appskey s))) (df_fcnt ?f) = Some (Inr v)"
    "\<exists>h. dv_fhdr v = Some h \<and> fhdr_f_opts h = Some (df_f_opts ?f)"
    "case df_payload ?f of
       PayloadNone \<Rightarrow> dv_f_port v = Some None \<and> dv_frm_payload v = Some FrmNone
     | PayloadData p d \<Rightarrow> dv_f_port v = Some (Some p) \<and> dv_frm_payload v = Some (FrmData d)
     | PayloadMacCommands d \<Rightarrow> dv_f_port v = Some (Some 0) \<and> dv_frm_payload v = Some (FrmMacCommands d)"
    by (rule built_frame_received [OF sent_frame_ok [OF assms(2)] assms(4,5) o])
  obtain h where h: "dv_fhdr v = Some h" "fhdr_f_opts h = Some (df_f_opts ?f)" using r(6) by blast
  have fc: "df_fcnt ?f = ss_fcnt_up s" by (simp add: sent_frame_def)
  have cf: "dv_is_confirmed w = sd_confirmed data" using r(4) by (simp add: sent_frame_def)
  have pl: "dv_f_port v = Some (Some (sd_fport data))"
    "if sd_fport data \<noteq> 0
     then dv_frm_payload v = Some (FrmData (sd_data data)) \<and> fhdr_f_opts h = Some (encode_cmds uplink_cid uplink_bytes cs)
     else dv_frm_payload v = Some (FrmMacCommands (encode_cmds uplink_cid uplink_bytes cs)) \<and> fhdr_f_opts h = Some []"
    using r(7) h(2) by (cases "sd_fport data = 0"; simp add: sent_frame_def pend)+
  have it: "mc_items uplink_parse_one (mc_new (encode_cmds uplink_cid uplink_bytes cs)) = Some (map Inr cs)"
    using up_holds_items [OF assms(3)] by (simp add: pend)
  have s': "up_holds (ss_uplink s') (filter retained cs)"
    "s' = s\<lparr>ss_confirmed := sd_confirmed data, ss_uplink := ss_uplink s'\<rparr>" "\<not> up_confirmed (ss_uplink s')"
    using u by (simp_all add: s'_def cleared_ack_def)
  have nf: "\<not> (sd_fport data = 0 \<and> sd_data data \<noteq> [] \<or> 256 < sent_len data s \<or> length (rb_packet tx) \<le> sent_len data s)"
    using ok by (auto simp: sendable_def)
  show ?thesis
    unfolding if_not_P [OF nf]
    using p [folded s'_def] r(1) r(2,3,5) [unfolded fc] cf pl h(1) it s' by blast
qed

lemma uplink_reaches_network_witness:
  "\<exists>tx' s' out w. prepare_buffer (\<lambda>k. xor_crypto (k ! 0)) \<lparr>sd_data = [5, 6], sd_fport = 1, sd_confirmed = True\<rparr>
     (rb_new 256) example_conf (state_new EU868) (cx_session example_ctx) = Some (0, tx', s') \<and>
     rb_as_ref_for_read tx' = Some out \<and> encrypted_parse out = Some (Inr w) \<and> dv_is_confirmed w"
proof -
  let ?s = "cx_session example_ctx" and ?d = "\<lparr>sd_data = [5, 6], sd_fport = 1, sd_confirmed = True\<rparr> :: send_data"
  have c: "length (ss_devaddr ?s) = 4" "up_holds (ss_uplink ?s) []" "ss_fcnt_up ?s = 0"
    by (simp_all add: example_ctx_def session_new_def)
  have l: "\<not> (sd_fport ?d = 0 \<and> sd_data ?d \<noteq> [] \<or> 256 < sent_len ?d ?s \<or> length (rb_packet (rb_new 256)) \<le> sent_len ?d ?s)"
    by (simp add: sent_len_def rb_new_def example_ctx_def session_new_def uplink_default_def)
  show ?thesis
    using uplink_reaches_network [where mk = "\<lambda>k. xor_crypto (k ! 0)" and data = ?d and tx = "rb_new 256" and conf = example_conf
        and region = "state_new EU868", OF state_new_ok c(1,2) xor_crypto_ok(1) xor_crypto_ok(1)] l c(3)
    by (simp only: if_False) auto
qed

text \<open>C21. The direction of a frame is not checked: the device takes its own uplink for a downlink. Before the
  first downlink of a session, the bytes the device just sent, fed back to it in a Class A window, are
  accepted: their counter becomes the downlink counter and the data it sent is delivered to the
  application.\<close>

theorem reflected_uplink_accepted:
  assumes "ctx_ok x" "crypto_ok (mk (ss_nwkskey (cx_session x)))" "crypto_ok (mk (ss_appskey (cx_session x)))"
    and "length (ss_devaddr (cx_session x)) = 4" "ss_fcnt_down (cx_session x) = None"
    and "unat (ss_fcnt_up (cx_session x)) < 65536" "up_pending (ss_uplink (cx_session x)) = []" "sd_fport data \<noteq> 0"
    and "prepare_buffer mk data tx (cx_conf x) (cx_region x) (cx_session x) = Some (n, tx', s')"
    and "rb_as_ref_for_read tx' = Some out" "length out \<le> unat len + 5"
  shows "\<exists>bs y. handle_rx mk D out dl len snr False (x\<lparr>cx_session := s'\<rparr>) =
      Some (DownlinkReceived n, vec_push D dl \<lparr>dl_data = sd_data data, dl_fport = sd_fport data\<rparr>, bs, y) \<and>
    n = ss_fcnt_up (cx_session x) \<and> ss_fcnt_down (cx_session y) = Some n"
proof -
  let ?s = "cx_session x" and ?f = "sent_frame data (cx_conf x) (cx_region x) (cx_session x)"
  have rok: "rs_ok (cx_region x)" and uok: "up_ok (ss_uplink ?s)" using assms(1) by (simp_all add: ctx_ok_def)
  have nb: "\<not> (sd_fport data = 0 \<and> sd_data data \<noteq> [])" using assms(8) by simp
  obtain u where b: "data_frame_build_into ?f (replicate 256 0) (mk (ss_nwkskey ?s)) (Some (mk (ss_appskey ?s))) = Some (Inr out)"
    and n: "n = ss_fcnt_up ?s" and s': "s' = (cleared_ack ?s data)\<lparr>ss_uplink := u\<rparr>" and u: "up_ok u"
    by (rule prepare_buffer_built [OF rok uok nb assms(9,10)])
  define z where "z = x\<lparr>cx_session := s'\<rparr>"
  have zs: "ss_nwkskey (cx_session z) = ss_nwkskey ?s" "ss_appskey (cx_session z) = ss_appskey ?s"
    "ss_fcnt_down (cx_session z) = None" "ss_fcnt_up (cx_session z) = n" "cx_region z = cx_region x" "cx_conf z = cx_conf x"
    "ss_uplink (cx_session z) = u" using n assms(5) by (simp_all add: z_def s' cleared_ack_def)
  have zok: "ctx_ok z" using assms(1) u zs by (simp add: ctx_ok_def)
  have nn: "n \<noteq> 0xFFFFFFFF" using assms(6) n by auto
  obtain w v where r: "encrypted_parse out = Some (Inr w)" "wire_fcnt out = ucast (df_fcnt ?f)"
    "validate_data_mic w (mk (ss_nwkskey ?s)) (df_fcnt ?f) = Some True"
    "decrypt_in_place out (Some (mk (ss_nwkskey ?s))) (Some (mk (ss_appskey ?s))) (df_fcnt ?f) = Some (Inr v)"
    "view_ok v" "length (dv_bytes v) = length out" "f_opts_cmds v = mac_cmds (df_f_opts ?f)"
    "case df_payload ?f of
         PayloadNone \<Rightarrow> dv_f_port v = Some None \<and> dv_frm_payload v = Some FrmNone
       | PayloadData p d \<Rightarrow> dv_f_port v = Some (Some p) \<and> dv_frm_payload v = Some (FrmData d)
       | PayloadMacCommands d \<Rightarrow> dv_f_port v = Some (Some 0) \<and> dv_frm_payload v = Some (FrmMacCommands d)"
    by (rule built_frame_received [OF sent_frame_ok [OF assms(4)] assms(2,3) b])
  have fc: "df_fcnt ?f = n" using n by (simp add: sent_frame_def)
  have fresh: "next_fcnt_down (ss_fcnt_down (cx_session z)) (wire_fcnt out) = Some n"
  proof -
    have "unat (ucast (ucast n :: u16) :: u32) = unat n"
      using assms(6) unfolding n by (simp add: unsigned_ucast_eq unsigned_take_bit_eq take_bit_nat_eq_self)
    then have "ucast (ucast n :: u16) = n" by (simp add: word_unat_eq_iff)
    then show ?thesis by (simp only: next_fcnt_down_def zs r(2) fc option.case)
  qed
  have w: "view_ok w" "dv_bytes w = out" using r(1) by (simp_all add: encrypted_parse_iff)
  have pl: "dv_f_port v = Some (Some (sd_fport data))" "dv_frm_payload v = Some (FrmData (sd_data data))"
    using r(8) assms(8) by (simp_all add: sent_frame_def)
  have fo: "f_opts_cmds v = []" using r(7) assms(7) assms(8) by (simp add: sent_frame_def mac_cmds_Nil)
  have fm: "frm_cmds v = []" using pl by (simp add: frm_cmds_def)
  have acc: "handle_rx mk D out dl len snr False z =
      handle_accepted mk D (dv_bytes w) n (dv_is_confirmed w) snr False dl (set_uplink (\<lambda>_. u\<lparr>up_pending := []\<rparr>) z)"
    by (rule handle_rx_cases [OF rok [folded zs(5)], of out mk D dl len snr False])
       (use r(1,3) fresh assms(11) zs w in \<open>auto simp: fc\<close>)
  define z1 where "z1 = set_uplink (\<lambda>_. u\<lparr>up_pending := []\<rparr>) z"
  have z1: "ss_nwkskey (cx_session z1) = ss_nwkskey ?s" "ss_appskey (cx_session z1) = ss_appskey ?s"
    "ss_fcnt_up (cx_session z1) = n" using zs by (simp_all add: z1_def set_uplink_def)
  have c: "crypto_ok (mk (ss_nwkskey (cx_session z1)))" "crypto_ok (mk (ss_appskey (cx_session z1)))"
    using assms(2,3) z1 by simp_all
  obtain v' where v': "decrypt_in_place (dv_bytes w) (Some (mk (ss_nwkskey (cx_session z1)))) (Some (mk (ss_appskey (cx_session z1)))) n
       = Some (Inr v')"
    "handle_accepted mk D (dv_bytes w) n (dv_is_confirmed w) snr False dl z1 = do {
       y \<leftarrow> after_commands False snr v' (accept_ctx n z1);
       (resp, dl', z) \<leftarrow> deliver_downlink D n v' dl
          (if dv_is_confirmed w then set_uplink set_downlink_confirmation y else y);
       Some (resp, dl', dv_bytes v', z)}"
    by (rule handle_accepted_eq [where x = z1 and fcnt = n and w = w and mk = mk and D = D and
          confirmed = "dv_is_confirmed w" and snr = snr and ignore_mac = False and dl = dl, OF w(1) c])
  have "v' = v" using v'(1) r(4) w(2) z1 fc by simp
  moreover have "after_commands False snr v (accept_ctx n z1) = Some (accept_ctx n z1)"
    by (simp add: after_commands_def fo fm)
  moreover define y where "y = (if dv_is_confirmed w then set_uplink set_downlink_confirmation (accept_ctx n z1) else accept_ctx n z1)"
  ultimately have h: "handle_accepted mk D (dv_bytes w) n (dv_is_confirmed w) snr False dl z1 = do {
       (resp, dl', z) \<leftarrow> deliver_downlink D n v dl y; Some (resp, dl', dv_bytes v, z)}"
    using v'(2) by simp
  have yu: "ss_fcnt_up (cx_session y) = n" "ss_fcnt_down (cx_session y) = Some n"
    using z1 by (simp_all add: y_def accept_ctx_def set_uplink_def)
  obtain k where k: "k = unat len" "k < 256" using u8_lt_256 [of len] by blast
  have "length out \<le> k + 5" using assms(11) k(1) by simp
  with k(2) have l: "length (dv_bytes v) \<le> 260" using r(6) by linarith
  have "deliver_downlink D n v dl y = Some (DownlinkReceived n,
      vec_push D dl \<lparr>dl_data = sd_data data, dl_fport = sd_fport data\<rparr>,
      y\<lparr>cx_session := (cx_session y)\<lparr>ss_fcnt_up := n + 1\<rparr>\<rparr>)"
    by (rule deliver_downlink_Some [OF r(5) l, of y D n dl]) (use pl yu nn in auto)
  then have "handle_rx mk D out dl len snr False z = Some (DownlinkReceived n,
      vec_push D dl \<lparr>dl_data = sd_data data, dl_fport = sd_fport data\<rparr>, dv_bytes v,
      y\<lparr>cx_session := (cx_session y)\<lparr>ss_fcnt_up := n + 1\<rparr>\<rparr>)"
    using acc h by (simp add: z1_def)
  then show ?thesis using yu n by (simp add: z_def)
qed

lemma reflected_uplink_accepted_witness:
  "\<exists>tx' s' out bs y. prepare_buffer (\<lambda>k. xor_crypto (k ! 0)) \<lparr>sd_data = [5, 6], sd_fport = 1, sd_confirmed = False\<rparr>
       (rb_new 256) (cx_conf example_ctx) (cx_region example_ctx) (cx_session example_ctx) = Some (0, tx', s') \<and>
     rb_as_ref_for_read tx' = Some out \<and>
     handle_rx (\<lambda>k. xor_crypto (k ! 0)) 1 out [] 51 7 False (example_ctx\<lparr>cx_session := s'\<rparr>) =
       Some (DownlinkReceived 0, [\<lparr>dl_data = [5, 6], dl_fport = 1\<rparr>], bs, y)"
proof -
  let ?s = "cx_session example_ctx" and ?d = "\<lparr>sd_data = [5, 6], sd_fport = 1, sd_confirmed = False\<rparr> :: send_data"
  let ?mk = "\<lambda>k :: bytes. xor_crypto (k ! 0)"
  have c: "length (ss_devaddr ?s) = 4" "up_holds (ss_uplink ?s) []" "ss_fcnt_up ?s = 0" "ss_fcnt_down ?s = None"
    "up_pending (ss_uplink ?s) = []"
    by (simp_all add: example_ctx_def session_new_def) (simp add: uplink_default_def)
  have rok: "rs_ok (cx_region example_ctx)" using example_ctx_ok by (simp add: ctx_ok_def)
  have sl: "sent_len ?d ?s = 15" using c(5) by (simp add: sent_len_def)
  then have ok: "sendable ?d (rb_new 256) ?s" by (simp add: sendable_def rb_new_def)
  obtain tx' s' out where p: "prepare_buffer ?mk ?d (rb_new 256) (cx_conf example_ctx) (cx_region example_ctx) ?s = Some (ss_fcnt_up ?s, tx', s')"
    "rb_as_ref_for_read tx' = Some out" "length out = sent_len ?d ?s"
    by (rule prepare_buffer_outcome [where mk = ?mk and data = ?d and tx = "rb_new 256" and conf = "cx_conf example_ctx",
          OF rok c(1,2) xor_crypto_ok(1) xor_crypto_ok(1)]) (use ok in auto)
  have "length out \<le> unat (51 :: u8) + 5" "unat (ss_fcnt_up ?s) < 65536" "sd_fport ?d \<noteq> 0"
    using p(3) sl c(3) by simp_all
  from reflected_uplink_accepted [where mk = ?mk, OF example_ctx_ok xor_crypto_ok(1) xor_crypto_ok(1) c(1,4) this(2) c(5) this(3) p(1,2) this(1), of 1 "[]" 7]
  show ?thesis using p(1,2) c(3) by (auto simp: vec_push_def)
qed

end
