(* ===== verification/Otaa.thy ===== *)
theory Otaa
  imports SessionUplink
begin

text \<open>
  Over-the-air activation: \<open>lorawan-device/src/mac/otaa.rs\<close> and \<open>Session::derive_new\<close>. The join
  request is written into the radio buffer with a nonce drawn from the generator; a join accept under
  the root key configures the region and the windows and derives the session.
\<close>

record network_credentials =
  nc_deveui :: bytes
  nc_appeui :: bytes
  nc_appkey :: bytes

definition network_credentials_new :: "bytes \<Rightarrow> bytes \<Rightarrow> bytes \<Rightarrow> network_credentials" where
  "network_credentials_new appeui deveui appkey = \<lparr>nc_deveui = deveui, nc_appeui = appeui, nc_appkey = appkey\<rparr>"

record otaa =
  ot_dev_nonce :: bytes
  ot_credentials :: network_credentials

definition otaa_new :: "network_credentials \<Rightarrow> otaa" where
  "otaa_new c = \<lparr>ot_dev_nonce = dev_nonce_from_value 0, ot_credentials = c\<rparr>"

text \<open>\<open>request.build_into(buf.as_mut(), ..)\<close> writes the front of the whole buffer.\<close>

definition otaa_prepare_buffer ::
  "(bytes \<Rightarrow> 'x crypto_scheme) \<Rightarrow> ('r \<Rightarrow> u32 \<times> 'r) \<Rightarrow> 'r \<Rightarrow> radio_buffer \<Rightarrow> otaa
    \<Rightarrow> (u16 \<times> 'r \<times> radio_buffer \<times> otaa) run" where
  "otaa_prepare_buffer mk next_u32 rng buf ot = do {
     let (r, rng') = next_u32 rng;
     let ot' = ot\<lparr>ot_dev_nonce := dev_nonce_from_value (ucast r)\<rparr>;
     let buf1 = rb_clear buf;
     let request = \<lparr>jrq_join_eui = nc_appeui (ot_credentials ot'), jrq_dev_eui = nc_deveui (ot_credentials ot'),
                    jrq_dev_nonce = ot_dev_nonce ot'\<rparr>;
     r \<leftarrow> join_request_build_into request (rb_packet buf1) (mk (nc_appkey (ot_credentials ot')));
     out \<leftarrow> result_ok r;
     p \<leftarrow> copy_range (rb_packet buf1) 0 (length out) out;
     Some (dev_nonce_value (ot_dev_nonce ot'), rng', rb_set_pos (length out) (buf1\<lparr>rb_packet := p\<rparr>), ot')}"

text \<open>\<open>Session::derive_new\<close>\<close>

definition derive_new ::
  "(bytes \<Rightarrow> 'x crypto_scheme) \<Rightarrow> bytes \<Rightarrow> bytes \<Rightarrow> network_credentials \<Rightarrow> session run" where
  "derive_new mk decrypt devnonce credentials = do {
     nwkskey \<leftarrow> derive_nwkskey decrypt devnonce (mk (nc_appkey credentials));
     appskey \<leftarrow> derive_appskey decrypt devnonce (mk (nc_appkey credentials));
     devaddr \<leftarrow> ja_dev_addr decrypt;
     Some (session_new nwkskey appskey devaddr)}"

text \<open>The received bytes are transformed in place, so they are part of the result.\<close>

definition otaa_handle_rx ::
  "(bytes \<Rightarrow> 'x crypto_scheme) \<Rightarrow> bytes \<Rightarrow> region_state \<Rightarrow> mac_configuration \<Rightarrow> otaa
    \<Rightarrow> (session option \<times> bytes \<times> region_state \<times> mac_configuration) run" where
  "otaa_handle_rx mk rx region conf ot = do {
     (rx', r) \<leftarrow> ja_check_mic_and_decrypt rx (mk (nc_appkey (ot_credentials ot)));
     case r of
       Inl _ \<Rightarrow> Some (None, rx', region, conf)
     | Inr decrypt \<Rightarrow> do {
         cf \<leftarrow> ja_c_f_list decrypt;
         region' \<leftarrow> rs_process_join_accept cf region;
         del \<leftarrow> ja_rx_delay decrypt;
         let conf1 = conf\<lparr>cfg_rx1_delay := del_to_delay_ms del\<rparr>;
         dl \<leftarrow> ja_dl_settings decrypt;
         let conf2 = (case rs_rx1_dr_offset_validate region' (rx1_dr_offset dl) of
                        Some v \<Rightarrow> conf1\<lparr>cfg_rx1_dr_offset := v\<rparr> | None \<Rightarrow> conf1);
         d \<leftarrow> rs_get_datarate region' (dr_u8 (rx2_data_rate dl));
         let conf3 = (if d \<noteq> None then conf2\<lparr>cfg_rx2_data_rate := Some (rx2_data_rate dl)\<rparr> else conf2);
         s \<leftarrow> derive_new mk decrypt (ot_dev_nonce ot) (ot_credentials ot);
         Some (Some s, rx', region', conf3)}}"

definition otaa_rx2_complete :: "otaa \<Rightarrow> mac_response" where
  "otaa_rx2_complete ot = NoJoinAccept"

section \<open>Well-formed activations\<close>

definition credentials_ok :: "network_credentials \<Rightarrow> bool" where
  "credentials_ok c \<longleftrightarrow> length (nc_deveui c) = 8 \<and> length (nc_appeui c) = 8 \<and> length (nc_appkey c) = 16"

definition otaa_ok :: "otaa \<Rightarrow> bool" where
  "otaa_ok ot \<longleftrightarrow> length (ot_dev_nonce ot) = 2 \<and> credentials_ok (ot_credentials ot)"

lemma length_dev_nonce [simp]: "length (dev_nonce_from_value v) = 2"
  by (simp add: dev_nonce_from_value_def wire_from_value_def)

lemma dev_nonce_value_from_value [simp]: "dev_nonce_value (dev_nonce_from_value v) = v"
  using dev_nonce.value_from_value [of v] by (simp add: word_eq_iff_unsigned take_bit_word_eq_self)

text \<open>The request that is in the buffer.\<close>

definition sent_request :: "otaa \<Rightarrow> join_request" where
  "sent_request ot = \<lparr>jrq_join_eui = nc_appeui (ot_credentials ot), jrq_dev_eui = nc_deveui (ot_credentials ot),
     jrq_dev_nonce = ot_dev_nonce ot\<rparr>"

lemma otaa_prepare_buffer_outcome:
  assumes "credentials_ok (ot_credentials ot)" "crypto_ok (mk (nc_appkey (ot_credentials ot)))" "next_u32 rng = (r, rng')"
  obtains (panic) "length (rb_packet buf) < 23" "otaa_prepare_buffer mk next_u32 rng buf ot = None"
  | (built) buf' ot' out where "23 \<le> length (rb_packet buf)" "ot' = ot\<lparr>ot_dev_nonce := dev_nonce_from_value (ucast r)\<rparr>"
      "otaa_prepare_buffer mk next_u32 rng buf ot = Some (ucast r, rng', buf', ot')" "otaa_ok ot'" "rb_ok buf'"
      "rb_as_ref_for_read buf' = Some out" "length (rb_packet buf') = length (rb_packet buf)"
      "join_request_build_into (sent_request ot') (rb_packet buf) (mk (nc_appkey (ot_credentials ot))) = Some (Inr out)"
proof (cases "23 \<le> length (rb_packet buf)")
  case False
  then have "otaa_prepare_buffer mk next_u32 rng buf ot = None"
    by (simp add: otaa_prepare_buffer_def assms(3) join_request_build_into_def get_front_def rb_clear_def)
  then show thesis using False by (intro panic) simp_all
next
  case True
  define ot' where "ot' = ot\<lparr>ot_dev_nonce := dev_nonce_from_value (ucast r)\<rparr>"
  define body where "body = [0] @ nc_appeui (ot_credentials ot) @ nc_deveui (ot_credentials ot) @ ot_dev_nonce ot'"
  define out where "out = body @ calculate_mic body (mk (nc_appkey (ot_credentials ot)))"
  have ok: "join_request_ok (sent_request ot')" using assms(1)
    by (simp add: join_request_ok_def sent_request_def ot'_def credentials_ok_def)
  have b: "join_request_build_into (sent_request ot') (rb_packet buf) (mk (nc_appkey (ot_credentials ot))) = Some (Inr out)"
    using join_request_build_eq [OF ok assms(2) True] by (simp add: sent_request_def out_def body_def ot'_def Let_def)
  have l: "length out = 23" using assms(1,2)
    by (simp add: out_def body_def ot'_def credentials_ok_def calculate_mic_def crypto_okD)
  define buf' where "buf' = buf\<lparr>rb_packet := out @ drop 23 (rb_packet buf), rb_pos := 23\<rparr>"
  have "otaa_prepare_buffer mk next_u32 rng buf ot = Some (ucast r, rng', buf', ot')"
    using b True l by (simp add: otaa_prepare_buffer_def assms(3) rb_clear_def rb_set_pos_def sent_request_def ot'_def buf'_def)
  moreover have "otaa_ok ot'" using assms(1) by (simp add: otaa_ok_def ot'_def)
  moreover have "rb_ok buf'" "rb_as_ref_for_read buf' = Some out" "length (rb_packet buf') = length (rb_packet buf)"
    using l True by (simp_all add: rb_ok_def buf'_def rb_as_ref_for_read_def)
  ultimately show thesis using b True ot'_def by (intro built)
qed

section \<open>Join accepts\<close>

lemma rs_get_datarate_15:
  "rs_get_datarate s 15 = None"
proof (cases s rule: rs_cases)
  case (dynamic R p mk)
  then show ?thesis using dynamic_region_ok [OF dyn_state_region [OF dynamic(1)]]
    by (simp add: rs_defs dyn_dispatch region_get_datarate_def region_ok_def)
next
  case (fixed R p mk)
  then show ?thesis using fixed_region_ok [OF fix_state_region [OF fixed(1)]]
    by (simp add: rs_defs fix_dispatch region_get_datarate_def region_ok_def)
qed

lemma dr_u8_15: "dr_u8 d = 15 \<longleftrightarrow> d = DR15" "d \<noteq> DR15 \<Longrightarrow> unat (dr_u8 d) < 15"
  by (cases d; simp)+

lemma c_f_list_wf:
  assumes "ja_c_f_list bs = Some (Some x)"
  shows "cf_list_wf x"
  using assms by (auto simp: ja_c_f_list_def cf_list_wf_def cf_freqs_def mask_new_from_raw_def
      subslice_eq_Some bind_eq_Some_conv split: if_splits)

text \<open>The session key of a join accept.\<close>

definition join_key :: "'x crypto_scheme \<Rightarrow> u8 \<Rightarrow> bytes \<Rightarrow> bytes \<Rightarrow> bytes" where
  "join_key c first nonces dev_nonce = encrypt_block c (first # nonces @ dev_nonce @ replicate 7 0)"

lemma derive_new_eq:
  assumes "length d = 17 \<or> length d = 33" "length dn = 2"
  shows "derive_new mk d dn c = Some (session_new (join_key (mk (nc_appkey c)) 1 (take 6 (drop 1 d)) dn)
     (join_key (mk (nc_appkey c)) 2 (take 6 (drop 1 d)) dn) (take 4 (drop 7 d)))"
  using ja_fields(3) [OF assms(1)]
  by (simp add: derive_new_def derive_nwkskey_def derive_appskey_def derive_session_key_eq [OF assms] join_key_def)

text \<open>The check of a join accept always returns, with the buffer transformed in place.\<close>

lemma ja_check_cases:
  assumes "crypto_ok c"
  obtains rx' r where "ja_check_mic_and_decrypt rx c = Some (rx', r)" "length rx' = length rx"
    "\<And>d. r = Inr d \<Longrightarrow> d = rx' \<and> (length d = 17 \<or> length d = 33)"
proof (cases "validate_join_accept_structure rx")
  case (Inl e)
  then show thesis by (intro that [of rx "Inl e"]) (simp_all add: ja_check_mic_and_decrypt_def ja_decrypt_in_place_def)
next
  case (Inr u)
  define d where "d = take 1 rx @ map_chunks16 (encrypt_block c) (drop 1 rx)"
  have l: "length rx = 17 \<or> length rx = 33" using Inr by (simp add: validate_join_accept_iff)
  have "length (map_chunks16 (encrypt_block c) (drop 1 rx)) = length (drop 1 rx)"
    by (rule length_map_chunks16) (use crypto_okD(1) [OF assms] in simp)
  then have ld: "length d = length rx" using l by (auto simp: d_def)
  then have "length d = 17 \<or> length d = 33" using l by simp
  note v = ja_fields(7) [OF this, of c]
  have dec: "ja_decrypt_in_place rx c = (d, Inr d)"
    using Inr by (simp only: ja_decrypt_in_place_def sum.case Let_def d_def)
  show thesis using ld l
    by (intro that [of d "if drop (length d - 4) d = calculate_mic (take (length d - 4) d) c then Inr d else Inl InvalidMic"])
       (simp_all add: ja_check_mic_and_decrypt_def dec v split: if_splits)
qed

lemma otaa_handle_rx_outcome:
  assumes "rs_ok region" "cfg_ok conf" "otaa_ok ot" "crypto_ok (mk (nc_appkey (ot_credentials ot)))"
  obtains (refused) rx' e where "ja_check_mic_and_decrypt rx (mk (nc_appkey (ot_credentials ot))) = Some (rx', Inl e)"
      "length rx' = length rx" "otaa_handle_rx mk rx region conf ot = Some (None, rx', region, conf)"
  | (panic) d dl where "ja_check_mic_and_decrypt rx (mk (nc_appkey (ot_credentials ot))) = Some (d, Inr d)"
      "ja_dl_settings d = Some dl" "rx2_data_rate dl = DR15" "otaa_handle_rx mk rx region conf ot = None"
  | (joined) d dl cf del region' conf' where
      "ja_check_mic_and_decrypt rx (mk (nc_appkey (ot_credentials ot))) = Some (d, Inr d)" "length d = length rx"
      "length d = 17 \<or> length d = 33" "ja_dl_settings d = Some dl" "rx2_data_rate dl \<noteq> DR15"
      "otaa_handle_rx mk rx region conf ot =
         Some (Some (session_new (join_key (mk (nc_appkey (ot_credentials ot))) 1 (take 6 (drop 1 d)) (ot_dev_nonce ot))
                 (join_key (mk (nc_appkey (ot_credentials ot))) 2 (take 6 (drop 1 d)) (ot_dev_nonce ot)) (take 4 (drop 7 d))),
               d, region', conf')"
      "rs_ok region'" "cfg_ok conf'" "cfg_data_rate conf' = cfg_data_rate conf" "cfg_tx_power conf' = cfg_tx_power conf"
      "ja_rx_delay d = Some del" "cfg_rx1_delay conf' = del_to_delay_ms del"
      "ja_c_f_list d = Some cf" "rs_process_join_accept cf region = Some region'"
      "cfg_rx2_data_rate conf' = Some (rx2_data_rate dl) \<or> cfg_rx2_data_rate conf' = cfg_rx2_data_rate conf"
proof (rule ja_check_cases [OF assms(4), of rx])
  let ?c = "mk (nc_appkey (ot_credentials ot))"
  fix rx' r assume r: "ja_check_mic_and_decrypt rx ?c = Some (rx', r)" "length rx' = length rx"
    "\<And>d. r = Inr d \<Longrightarrow> d = rx' \<and> (length d = 17 \<or> length d = 33)"
  show thesis
  proof (cases r)
    case (Inl e)
    then show thesis using r by (intro refused) (simp_all add: otaa_handle_rx_def)
  next
    case (Inr d)
    have d: "rx' = d" "length d = 17 \<or> length d = 33" using r(3) [OF Inr] by (blast, blast)
    have chk: "ja_check_mic_and_decrypt rx ?c = Some (d, Inr d)" using r(1) Inr d(1) by simp
    obtain cf where cf: "ja_c_f_list d = Some cf" using ja_c_f_list_total [OF d(2)] by auto
    have "cf = Some x \<Longrightarrow> cf_list_wf x" for x using c_f_list_wf cf by simp
    from region.join_inv [OF assms(1) this] obtain region' where g: "rs_process_join_accept cf region = Some region'" "rs_ok region'"
      by blast
    obtain dl where dl: "ja_dl_settings d = Some dl" using ja_fields(4) [OF d(2)] by blast
    obtain del where del: "ja_rx_delay d = Some del" using ja_fields(5) [OF d(2)] by blast
    have dn: "length (ot_dev_nonce ot) = 2" using assms(3) by (simp add: otaa_ok_def)
    note drv = derive_new_eq [OF d(2) dn, of mk "ot_credentials ot"]
    show thesis
    proof (cases "rx2_data_rate dl = DR15")
      case True
      have "otaa_handle_rx mk rx region conf ot = None"
        by (simp add: otaa_handle_rx_def chk cf g(1) dl del True rs_get_datarate_15 Let_def)
      then show thesis using chk dl True by (intro panic)
    next
      case False
      obtain n where n: "rs_get_datarate region' (dr_u8 (rx2_data_rate dl)) = Some n"
        using region.datarate_total [OF g(2) dr_u8_15(2) [OF False]] by blast
      define conf1 where "conf1 = conf\<lparr>cfg_rx1_delay := del_to_delay_ms del\<rparr>"
      define conf2 where "conf2 = (case rs_rx1_dr_offset_validate region' (rx1_dr_offset dl) of
                        Some v \<Rightarrow> conf1\<lparr>cfg_rx1_dr_offset := v\<rparr> | None \<Rightarrow> conf1)"
      define conf3 where "conf3 = (if n \<noteq> None then conf2\<lparr>cfg_rx2_data_rate := Some (rx2_data_rate dl)\<rparr> else conf2)"
      have c3: "cfg_data_rate conf3 = cfg_data_rate conf" "cfg_tx_power conf3 = cfg_tx_power conf"
        "cfg_rx1_delay conf3 = del_to_delay_ms del"
        "cfg_rx2_data_rate conf3 = Some (rx2_data_rate dl) \<or> cfg_rx2_data_rate conf3 = cfg_rx2_data_rate conf"
        by (simp_all add: conf3_def conf2_def conf1_def split: option.split)
      then have ok: "cfg_ok conf3" using assms(2) False by (auto simp: cfg_ok_def)
      have "otaa_handle_rx mk rx region conf ot =
         Some (Some (session_new (join_key ?c 1 (take 6 (drop 1 d)) (ot_dev_nonce ot))
                 (join_key ?c 2 (take 6 (drop 1 d)) (ot_dev_nonce ot)) (take 4 (drop 7 d))), d, region', conf3)"
        by (simp only: otaa_handle_rx_def chk cf g(1) dl del n drv Let_def conf1_def [symmetric] conf2_def [symmetric]
            conf3_def [symmetric] Option.bind.simps case_prod_conv sum.case)
      then show thesis using chk d g dl False cf del c3 ok r(2) by (intro joined) simp_all
    qed
  qed
qed

section \<open>Properties\<close>

text \<open>C11. The join handshake establishes the same session on both sides. The request that the device puts into
  its radio buffer parses at the network as a join request with the device's EUIs and a valid MIC; when
  the network answers with a join accept built under the same root key, whose RX2 data rate is not 15,
  the device's session has the keys that the network derives from its own nonces and the nonce it read
  from the request, the address it assigned and fresh counters; the channel list and the receive delay
  of the accept are applied.\<close>

theorem join_handshake:
  assumes "credentials_ok (ot_credentials ot)" "network_crypto_ok (mk (nc_appkey (ot_credentials ot)))"
    and "otaa_prepare_buffer mk next_u32 rng buf ot = Some (n, rng', buf', ot')" "rb_as_ref_for_read buf' = Some req"
    and "join_accept_ok j" "join_accept_build_into j nbuf (mk (nc_appkey (ot_credentials ot))) = Some (Inr acc)"
    and "rx2_data_rate (jac_dl_settings j) \<noteq> DR15" "rs_ok region" "cfg_ok conf"
  shows "\<exists>dn s d region' conf'.
     phy_parse req = Some (Inr (PhyJoinRequest req)) \<and>
     jr_validate_mic req (mk (nc_appkey (ot_credentials ot))) = Some True \<and>
     jr_join_eui req = Some (nc_appeui (ot_credentials ot)) \<and> jr_dev_eui req = Some (nc_deveui (ot_credentials ot)) \<and>
     jr_dev_nonce req = Some dn \<and> n = dev_nonce_value dn \<and>
     otaa_handle_rx mk acc region conf ot' = Some (Some s, d, region', conf') \<and>
     s = session_new (join_key (mk (nc_appkey (ot_credentials ot))) 1 (jac_join_nonce j @ jac_net_id j) dn)
           (join_key (mk (nc_appkey (ot_credentials ot))) 2 (jac_join_nonce j @ jac_net_id j) dn) (jac_dev_addr j) \<and>
     rs_process_join_accept (jac_c_f_list j) region = Some region' \<and>
     cfg_rx1_delay conf' = del_to_delay_ms (jac_rx_delay j AND 0x0f) \<and> rs_ok region' \<and> cfg_ok conf'"
proof -
  let ?cr = "ot_credentials ot"
  let ?c = "mk (nc_appkey ?cr)"
  have c: "crypto_ok ?c" using assms(2) by (rule network_crypto_okD)
  obtain r rr where r: "next_u32 rng = (r, rr)" by fastforce
  have b: "ot' = ot\<lparr>ot_dev_nonce := dev_nonce_from_value (ucast r)\<rparr>" "n = ucast r" "otaa_ok ot'" "23 \<le> length (rb_packet buf)"
    "join_request_build_into (sent_request ot') (rb_packet buf) ?c = Some (Inr req)"
    by (rule otaa_prepare_buffer_outcome [of ot mk next_u32 rng r rr buf, OF assms(1) c r]; use assms(3,4) in simp)+
  have cr: "ot_credentials ot' = ?cr" "length (ot_dev_nonce ot') = 2" using b(1) by simp_all
  have ok: "join_request_ok (sent_request ot')" using assms(1) cr
    by (simp add: join_request_ok_def sent_request_def credentials_ok_def)
  note q = join_request_read [OF ok c b(4,5)]
  obtain d where d: "ja_check_mic_and_decrypt acc ?c = Some (d, Inr d)" "length d = 17 \<or> length d = 33"
    "take 6 (drop 1 d) = jac_join_nonce j @ jac_net_id j"
    "ja_dev_addr d = Some (jac_dev_addr j)" "ja_dl_settings d = Some (jac_dl_settings j)"
    "ja_rx_delay d = Some (jac_rx_delay j AND 0x0f)" "ja_c_f_list d = Some (jac_c_f_list j)"
    by (rule join_accept_read [OF assms(5,2,6)])
  have da: "take 4 (drop 7 d) = jac_dev_addr j" using d(4) ja_fields(3) [OF d(2)] by simp
  have "\<exists>d' region' conf'. otaa_handle_rx mk acc region conf ot' = Some (Some (session_new
        (join_key ?c 1 (jac_join_nonce j @ jac_net_id j) (ot_dev_nonce ot'))
        (join_key ?c 2 (jac_join_nonce j @ jac_net_id j) (ot_dev_nonce ot')) (jac_dev_addr j)), d', region', conf') \<and>
      rs_process_join_accept (jac_c_f_list j) region = Some region' \<and>
      cfg_rx1_delay conf' = del_to_delay_ms (jac_rx_delay j AND 0x0f) \<and> rs_ok region' \<and> cfg_ok conf'"
    by (rule otaa_handle_rx_outcome [where mk = mk and ot = ot' and rx = acc, OF assms(8,9) b(3)]) (use c d da assms(7) cr in auto)
  then show ?thesis using q cr b(1,2) by (fastforce simp: sent_request_def)
qed

definition example_otaa :: otaa where
  "example_otaa = otaa_new (network_credentials_new (replicate 8 1) (replicate 8 2) (replicate 16 3))"

lemma example_otaa_ok: "credentials_ok (ot_credentials example_otaa)" "otaa_ok example_otaa"
  by (simp_all add: example_otaa_def otaa_new_def network_credentials_new_def credentials_ok_def otaa_ok_def)

lemma example_accept_built:
  assumes "join_accept_ok j" "jac_c_f_list j = jac_c_f_list example_accept"
  obtains acc where "join_accept_build_into j (replicate 40 0) (xor_crypto k) = Some (Inr acc)"
  using join_accept_build_eq [OF assms(1) xor_crypto_ok(2), of "replicate 40 0" k] assms(2)
  by (auto simp: example_accept_def Let_def)

lemma join_handshake_witness:
  "\<exists>rng' buf' ot' req acc s d region' conf'.
     otaa_prepare_buffer (\<lambda>k. xor_crypto (k ! 0)) (\<lambda>r. (r, r + 1)) 7 (rb_new 256) example_otaa = Some (7, rng', buf', ot') \<and>
     rb_as_ref_for_read buf' = Some req \<and> jr_validate_mic req (xor_crypto 3) = Some True \<and>
     otaa_handle_rx (\<lambda>k. xor_crypto (k ! 0)) acc (state_new EU868) example_conf ot' = Some (Some s, d, region', conf') \<and>
     ss_devaddr s = [7, 8, 9, 10] \<and> cfg_rx1_delay conf' = 3000"
proof -
  let ?mk = "\<lambda>k :: bytes. xor_crypto (k ! 0)" and ?next = "\<lambda>r :: u32. (r, r + 1)"
  have k: "nc_appkey (ot_credentials example_otaa) ! 0 = 3"
    by (simp add: example_otaa_def otaa_new_def network_credentials_new_def)
  obtain buf' ot' req where p: "otaa_prepare_buffer ?mk ?next 7 (rb_new 256) example_otaa = Some (ucast (7 :: u32), 7 + 1, buf', ot')"
    "rb_as_ref_for_read buf' = Some req"
    by (rule otaa_prepare_buffer_outcome [of example_otaa ?mk ?next 7 7 "7 + 1" "rb_new 256", OF example_otaa_ok(1) xor_crypto_ok(1) refl])
       (auto simp: rb_new_def)
  obtain acc where acc: "join_accept_build_into example_accept (replicate 40 0) (xor_crypto 3) = Some (Inr acc)"
    by (rule example_accept_built [OF example_accept_ok refl])
  have acc': "join_accept_build_into example_accept (replicate 40 0) (?mk (nc_appkey (ot_credentials example_otaa))) = Some (Inr acc)"
    using acc k by simp
  have r: "rx2_data_rate (jac_dl_settings example_accept) \<noteq> DR15"
    by (simp add: example_accept_def rx2_data_rate_def dr_from_def dr_list_def)
  have cf: "cfg_ok example_conf" by (simp add: cfg_ok_def example_conf_def)
  have d: "del_to_delay_ms (jac_rx_delay example_accept AND 0x0f) = 3000"
    by (simp add: example_accept_def del_to_delay_ms_def)
  show ?thesis
    using join_handshake [of example_otaa ?mk ?next 7 "rb_new 256" _ _ buf' ot' req example_accept "replicate 40 0" acc "state_new EU868" example_conf,
        OF example_otaa_ok(1) xor_crypto_ok(2) p(1,2) example_accept_ok acc' r state_new_ok cf] p d k
    by (fastforce simp: session_new_def example_accept_def simp del: state_new.simps)
qed

text \<open>A join accept that is authentic but names data rate 15 for the second window panics: the table of
  the region has fifteen entries.\<close>

theorem join_accept_dr15_panics:
  assumes "otaa_ok ot" "network_crypto_ok (mk (nc_appkey (ot_credentials ot)))" "rs_ok region" "cfg_ok conf"
    and "join_accept_ok j" "join_accept_build_into j nbuf (mk (nc_appkey (ot_credentials ot))) = Some (Inr acc)"
    and "rx2_data_rate (jac_dl_settings j) = DR15"
  shows "otaa_handle_rx mk acc region conf ot = None"
proof -
  have c: "crypto_ok (mk (nc_appkey (ot_credentials ot)))" using assms(2) by (rule network_crypto_okD)
  obtain d where d: "ja_check_mic_and_decrypt acc (mk (nc_appkey (ot_credentials ot))) = Some (d, Inr d)"
    "ja_dl_settings d = Some (jac_dl_settings j)"
    by (rule join_accept_read [OF assms(5,2,6)])
  show ?thesis
    by (rule otaa_handle_rx_outcome [where mk = mk and ot = ot and rx = acc, OF assms(3,4,1) c]) (use d assms(7) in auto)
qed

lemma join_accept_dr15_panics_witness:
  "\<exists>acc. join_accept_build_into (example_accept\<lparr>jac_dl_settings := DLSettings 0x0F\<rparr>) (replicate 40 0) (xor_crypto 3) = Some (Inr acc) \<and>
     otaa_handle_rx (\<lambda>k. xor_crypto (k ! 0)) acc (state_new EU868) example_conf example_otaa = None"
proof -
  let ?j = "example_accept\<lparr>jac_dl_settings := DLSettings 0x0F\<rparr>" and ?mk = "\<lambda>k :: bytes. xor_crypto (k ! 0)"
  have k: "nc_appkey (ot_credentials example_otaa) ! 0 = 3"
    by (simp add: example_otaa_def otaa_new_def network_credentials_new_def)
  have ok: "join_accept_ok ?j" using example_accept_ok by (simp add: join_accept_ok_def)
  obtain acc where acc: "join_accept_build_into ?j (replicate 40 0) (xor_crypto 3) = Some (Inr acc)"
    by (rule example_accept_built [OF ok]) simp_all
  have acc': "join_accept_build_into ?j (replicate 40 0) (?mk (nc_appkey (ot_credentials example_otaa))) = Some (Inr acc)"
    using acc k by simp
  have r: "rx2_data_rate (jac_dl_settings ?j) = DR15" by (simp add: rx2_data_rate_def dr_from_def dr_list_def)
  have cf: "cfg_ok example_conf" by (simp add: cfg_ok_def example_conf_def)
  show ?thesis
    using join_accept_dr15_panics [of example_otaa ?mk "state_new EU868" example_conf ?j, OF example_otaa_ok(2) xor_crypto_ok(2)
        state_new_ok cf ok acc' r] acc by blast
qed

end
