(* ===== verification/Mac.thy ===== *)
theory Mac
  imports Otaa
begin

text \<open>
  \<open>lorawan-device/src/mac/mod.rs\<close>: the state machine of the MAC layer, \<open>Unjoined\<close>, \<open>Otaa\<close> or
  \<open>Joined\<close>, with its configuration and region, one definition per method. A method that writes the
  radio buffer or draws random numbers returns them; a \<open>Result\<close> is a sum.
\<close>

section \<open>Types\<close>

record rx_windows =
  rw_rx1 :: rf_config
  rw_rx2 :: rf_config

definition rw_get :: "window \<Rightarrow> rx_windows \<Rightarrow> rf_config" where
  "rw_get w r = (case w of Window1 \<Rightarrow> rw_rx1 r | Window2 \<Rightarrow> rw_rx2 r)"

definition rw_rx_config :: "u32 \<Rightarrow> window \<Rightarrow> rx_windows \<Rightarrow> rx_config" where
  "rw_rx_config buffer_ms w r = \<lparr>rxc_rf = rw_get w r, rxc_mode = SingleShot buffer_ms\<rparr>"

record board_eirp =
  be_max_power :: u8
  be_antenna_gain :: i8

datatype mac_state = Joined session | Joining otaa | Unjoined

datatype mac_layer_error = NotJoined

record mac =
  mac_conf :: mac_configuration
  mac_region :: region_state
  mac_eirp :: board_eirp
  mac_state :: mac_state

definition mac_new :: "region_state \<Rightarrow> u8 \<Rightarrow> i8 \<Rightarrow> mac" where
  "mac_new region max_power antenna_gain =
     \<lparr>mac_conf = \<lparr>cfg_data_rate = rs_get_default_datarate region, cfg_rx1_delay = RECEIVE_DELAY1,
        cfg_join_accept_delay1 = JOIN_ACCEPT_DELAY1, cfg_join_accept_delay2 = JOIN_ACCEPT_DELAY2,
        cfg_tx_power = None, cfg_rx1_dr_offset = 0, cfg_rx2_data_rate = None, cfg_rx2_frequency = None,
        cfg_adr_enabled = True\<rparr>,
      mac_region = region, mac_eirp = \<lparr>be_max_power = max_power, be_antenna_gain = antenna_gain\<rparr>,
      mac_state = Unjoined\<rparr>"

section \<open>Receive windows\<close>

definition build_rf_config :: "u32 \<Rightarrow> DR \<Rightarrow> DR \<Rightarrow> window \<Rightarrow> mac \<Rightarrow> rf_config run" where
  "build_rf_config frequency dr tx_dr w m = do {
     d \<leftarrow> rs_get_datarate (mac_region m) (dr_u8 dr);
     datarate \<leftarrow> (case d of
         Some d \<Rightarrow> Some d
       | None \<Rightarrow> do {
           d2 \<leftarrow> rs_get_datarate (mac_region m)
                  (dr_u8 (rs_get_rx_datarate (mac_region m) tx_dr (cfg_rx1_dr_offset (mac_conf m)) Window2));
           d2});
     Some \<lparr>rf_frequency = frequency,
           rf_bb = bbmp_new (dtr_spreading_factor datarate) (dtr_bandwidth datarate) (rs_get_coding_rate (mac_region m)),
           rf_max_payload_len = dtr_max_mac_payload_size datarate\<rparr>}"

definition rx2_rf_config :: "DR \<Rightarrow> mac \<Rightarrow> rf_config run" where
  "rx2_rf_config tx_dr m =
     (let frequency = (case cfg_rx2_frequency (mac_conf m) of
            Some f \<Rightarrow> f | None \<Rightarrow> rs_get_rx2_frequency (mac_region m));
          dr = (case cfg_rx2_data_rate (mac_conf m) of
            Some d \<Rightarrow> d
          | None \<Rightarrow> rs_get_rx_datarate (mac_region m) tx_dr (cfg_rx1_dr_offset (mac_conf m)) Window2)
      in build_rf_config frequency dr tx_dr Window2 m)"

definition mac_rx_windows :: "tx_channel \<Rightarrow> mac \<Rightarrow> rx_windows run" where
  "mac_rx_windows t m = do {
     let rx1_dr = rs_get_rx_datarate (mac_region m) (txc_dr t) (cfg_rx1_dr_offset (mac_conf m)) Window1;
     rx1 \<leftarrow> build_rf_config (txc_rx1_frequency t) rx1_dr (txc_dr t) Window1 m;
     rx2 \<leftarrow> rx2_rf_config (txc_dr t) m;
     Some \<lparr>rw_rx1 = rx1, rw_rx2 = rx2\<rparr>}"

definition get_rxc_config :: "mac \<Rightarrow> rx_config run" where
  "get_rxc_config m = do {
     rf \<leftarrow> rx2_rf_config (cfg_data_rate (mac_conf m)) m;
     Some \<lparr>rxc_rf = rf, rxc_mode = Continuous\<rparr>}"

definition get_rx_delay :: "frame \<Rightarrow> window \<Rightarrow> mac \<Rightarrow> u32" where
  "get_rx_delay fr w m = (case fr of
      Join \<Rightarrow> (case w of Window1 \<Rightarrow> cfg_join_accept_delay1 (mac_conf m)
                        | Window2 \<Rightarrow> cfg_join_accept_delay2 (mac_conf m))
    | Data \<Rightarrow> (case w of Window1 \<Rightarrow> cfg_rx1_delay (mac_conf m)
                        | Window2 \<Rightarrow> cfg_rx1_delay (mac_conf m) + 1000))"

section \<open>Joining and sending\<close>

definition mac_join_otaa ::
  "(bytes \<Rightarrow> 'x crypto_scheme) \<Rightarrow> ('r \<Rightarrow> u32 \<times> 'r) \<Rightarrow> 'r \<Rightarrow> network_credentials \<Rightarrow> radio_buffer \<Rightarrow> mac
    \<Rightarrow> ((tx_config \<times> rx_windows \<times> u16) \<times> 'r \<times> radio_buffer \<times> mac) run" where
  "mac_join_otaa mk next_u32 rng credentials buf m = do {
     (dev_nonce, rng1, buf', ot) \<leftarrow> otaa_prepare_buffer mk next_u32 rng buf (otaa_new credentials);
     let m1 = m\<lparr>mac_state := Joining ot\<rparr>;
     ((tx, ch, rng2), region') \<leftarrow> rs_create_tx_config next_u32 rng1 (cfg_data_rate (mac_conf m1)) Join (mac_region m1);
     let m2 = m1\<lparr>mac_region := region'\<rparr>;
     let tx' = adjust_power (be_max_power (mac_eirp m2)) (be_antenna_gain (mac_eirp m2)) tx;
     w \<leftarrow> mac_rx_windows ch m2;
     Some ((tx', w, dev_nonce), rng2, buf', m2)}"

definition mac_join_abp :: "bytes \<Rightarrow> bytes \<Rightarrow> bytes \<Rightarrow> mac \<Rightarrow> mac" where
  "mac_join_abp nwkskey appskey devaddr m = m\<lparr>mac_state := Joined (session_new nwkskey appskey devaddr)\<rparr>"

definition mac_set_session :: "session \<Rightarrow> mac \<Rightarrow> mac" where
  "mac_set_session s m = m\<lparr>mac_state := Joined s\<rparr>"

definition mac_send ::
  "(bytes \<Rightarrow> 'x crypto_scheme) \<Rightarrow> ('r \<Rightarrow> u32 \<times> 'r) \<Rightarrow> 'r \<Rightarrow> radio_buffer \<Rightarrow> send_data \<Rightarrow> mac
    \<Rightarrow> ((mac_layer_error + (tx_config \<times> rx_windows \<times> u32)) \<times> 'r \<times> radio_buffer \<times> mac) run" where
  "mac_send mk next_u32 rng buf data m = (case mac_state m of
      Joined s \<Rightarrow> do {
        (fcnt, buf', s') \<leftarrow> prepare_buffer mk data buf (mac_conf m) (mac_region m) s;
        let m1 = m\<lparr>mac_state := Joined s'\<rparr>;
        ((tx, ch, rng'), region') \<leftarrow> rs_create_tx_config next_u32 rng (cfg_data_rate (mac_conf m1)) Data (mac_region m1);
        let m2 = m1\<lparr>mac_region := region'\<rparr>;
        let power = (case cfg_tx_power (mac_conf m2) of Some p \<Rightarrow> p | None \<Rightarrow> be_max_power (mac_eirp m2));
        let tx' = adjust_power power (be_antenna_gain (mac_eirp m2)) tx;
        w \<leftarrow> mac_rx_windows ch m2;
        Some (Inr (tx', w, fcnt), rng', buf', m2)}
    | Joining _ \<Rightarrow> Some (Inl NotJoined, rng, buf, m)
    | Unjoined \<Rightarrow> Some (Inl NotJoined, rng, buf, m))"

text \<open>\<open>add_uplink\<close> drops the error of its match and returns \<open>Ok\<close> in every state.\<close>

definition mac_add_uplink :: "mac_object \<Rightarrow> mac \<Rightarrow> ((mac_layer_error + unit) \<times> mac) run" where
  "mac_add_uplink cmd m = (case mac_state m of
      Joined s \<Rightarrow> do {
        u \<leftarrow> add_mac_command cmd (ss_uplink s);
        Some (Inr (), m\<lparr>mac_state := Joined (s\<lparr>ss_uplink := u\<rparr>)\<rparr>)}
    | Joining _ \<Rightarrow> Some (Inr (), m)
    | Unjoined \<Rightarrow> Some (Inr (), m))"

section \<open>Receiving\<close>

text \<open>The session works on \<open>rx.as_mut_for_read()\<close>, so what it writes is in the buffer afterwards.\<close>

definition session_rx ::
  "(bytes \<Rightarrow> 'x crypto_scheme) \<Rightarrow> nat \<Rightarrow> radio_buffer \<Rightarrow> downlink list \<Rightarrow> u8 \<Rightarrow> i8 \<Rightarrow> bool \<Rightarrow> session \<Rightarrow> mac
    \<Rightarrow> (mac_response \<times> radio_buffer \<times> downlink list \<times> mac) run" where
  "session_rx mk D buf dl max_payload_len snr ignore_mac s m = do {
     rx \<leftarrow> rb_as_ref_for_read buf;
     (resp, dl', rx', x) \<leftarrow> handle_rx mk D rx dl max_payload_len snr ignore_mac
        \<lparr>cx_session = s, cx_conf = mac_conf m, cx_region = mac_region m\<rparr>;
     p \<leftarrow> copy_range (rb_packet buf) 0 (rb_pos buf) rx';
     Some (resp, buf\<lparr>rb_packet := p\<rparr>, dl',
       m\<lparr>mac_conf := cx_conf x, mac_region := cx_region x, mac_state := Joined (cx_session x)\<rparr>)}"

definition mac_handle_rx ::
  "(bytes \<Rightarrow> 'x crypto_scheme) \<Rightarrow> nat \<Rightarrow> radio_buffer \<Rightarrow> downlink list \<Rightarrow> i8 \<Rightarrow> rf_config \<Rightarrow> mac
    \<Rightarrow> (mac_response \<times> radio_buffer \<times> downlink list \<times> mac) run" where
  "mac_handle_rx mk D buf dl snr rf m = (case mac_state m of
      Joined s \<Rightarrow> session_rx mk D buf dl (rf_max_payload_len rf) snr False s m
    | Joining ot \<Rightarrow> do {
        rx \<leftarrow> rb_as_ref_for_read buf;
        (s, rx', region', conf') \<leftarrow> otaa_handle_rx mk rx (mac_region m) (mac_conf m) ot;
        p \<leftarrow> copy_range (rb_packet buf) 0 (rb_pos buf) rx';
        let m' = m\<lparr>mac_region := region', mac_conf := conf'\<rparr>;
        Some (case s of
            Some s \<Rightarrow> (JoinSuccess, buf\<lparr>rb_packet := p\<rparr>, dl, m'\<lparr>mac_state := Joined s\<rparr>)
          | None \<Rightarrow> (NoUpdate, buf\<lparr>rb_packet := p\<rparr>, dl, m'))}
    | Unjoined \<Rightarrow> Some (NoUpdate, buf, dl, m))"

definition mac_handle_rxc ::
  "(bytes \<Rightarrow> 'x crypto_scheme) \<Rightarrow> nat \<Rightarrow> radio_buffer \<Rightarrow> downlink list \<Rightarrow> i8 \<Rightarrow> rf_config \<Rightarrow> mac
    \<Rightarrow> ((mac_layer_error + mac_response) \<times> radio_buffer \<times> downlink list \<times> mac) run" where
  "mac_handle_rxc mk D buf dl snr rf m = (case mac_state m of
      Joined s \<Rightarrow> map_option (map_prod Inr id) (session_rx mk D buf dl (rf_max_payload_len rf) snr True s m)
    | Joining _ \<Rightarrow> Some (Inl NotJoined, buf, dl, m)
    | Unjoined \<Rightarrow> Some (Inl NotJoined, buf, dl, m))"

definition mac_rx2_complete :: "mac \<Rightarrow> (mac_response \<times> mac) run" where
  "mac_rx2_complete m = (case mac_state m of
      Joined s \<Rightarrow> do {
        (resp, s', conf') \<leftarrow> rx2_complete (mac_conf m) (mac_region m) s;
        Some (resp, m\<lparr>mac_conf := conf', mac_state := Joined s'\<rparr>)}
    | Joining ot \<Rightarrow> Some (otaa_rx2_complete ot, m)
    | Unjoined \<Rightarrow> Some (NoUpdate, m))"

section \<open>Queries\<close>

definition mac_get_session_keys :: "mac \<Rightarrow> session_keys option" where
  "mac_get_session_keys m = (case mac_state m of
      Joined s \<Rightarrow> get_session_keys s | Joining _ \<Rightarrow> None | Unjoined \<Rightarrow> None)"

definition mac_get_session :: "mac \<Rightarrow> session option" where
  "mac_get_session m = (case mac_state m of
      Joined s \<Rightarrow> Some s | Joining _ \<Rightarrow> None | Unjoined \<Rightarrow> None)"

definition mac_is_joined :: "mac \<Rightarrow> bool" where
  "mac_is_joined m = (case mac_state m of Joined _ \<Rightarrow> True | _ \<Rightarrow> False)"

definition mac_get_fcnt_up :: "mac \<Rightarrow> u32 option" where
  "mac_get_fcnt_up m = (case mac_state m of
      Joined s \<Rightarrow> Some (ss_fcnt_up s) | Joining _ \<Rightarrow> None | Unjoined \<Rightarrow> None)"

end
