(* ===== verification/MacFacts.thy ===== *)
theory MacFacts
  imports Mac
begin

text \<open>
  The invariant of the MAC layer and the outcome of each of its methods: which ones always return,
  what a state that satisfies the invariant becomes, and which counters move.
\<close>

section \<open>The invariant\<close>

definition session_ok :: "session \<Rightarrow> bool" where
  "session_ok s \<longleftrightarrow> up_ok (ss_uplink s) \<and> length (ss_devaddr s) = 4 \<and> length (ss_nwkskey s) = 16 \<and>
     length (ss_appskey s) = 16"

definition mac_ok :: "mac \<Rightarrow> bool" where
  "mac_ok m \<longleftrightarrow> rs_ok (mac_region m) \<and> cfg_ok (mac_conf m) \<and>
     (case mac_state m of Joined s \<Rightarrow> session_ok s | Joining ot \<Rightarrow> otaa_ok ot | Unjoined \<Rightarrow> True)"

text \<open>The cipher that \<open>DefaultCrypto::new\<close> gives for a 16-byte key has 16-byte blocks and 4-byte MICs.\<close>

definition cipher_ok :: "(bytes \<Rightarrow> 'x crypto_scheme) \<Rightarrow> bool" where
  "cipher_ok mk \<longleftrightarrow> (\<forall>k. length k = 16 \<longrightarrow> crypto_ok (mk k))"

lemma cipher_okD: "cipher_ok mk \<Longrightarrow> length k = 16 \<Longrightarrow> crypto_ok (mk k)"
  by (simp add: cipher_ok_def)

lemma session_cipher:
  assumes "cipher_ok mk" "session_ok s"
  shows "crypto_ok (mk (ss_nwkskey s))" "crypto_ok (mk (ss_appskey s))"
  using assms by (simp_all add: session_ok_def cipher_okD)

lemma session_new_ok:
  "length nwk = 16 \<Longrightarrow> length app = 16 \<Longrightarrow> length addr = 4 \<Longrightarrow> session_ok (session_new nwk app addr)"
  by (auto simp: session_ok_def session_new_def up_ok_def intro: exI [of _ "[]"])

lemma session_ok_same:
  "session_ok s \<Longrightarrow> up_ok (ss_uplink s') \<Longrightarrow> ss_nwkskey s' = ss_nwkskey s \<Longrightarrow> ss_appskey s' = ss_appskey s \<Longrightarrow>
   ss_devaddr s' = ss_devaddr s \<Longrightarrow> session_ok s'"
  by (simp add: session_ok_def)

lemma mac_new_ok: "rs_ok region \<Longrightarrow> mac_ok (mac_new region p g)"
  by (simp add: mac_ok_def mac_new_def cfg_ok_def rs_get_default_datarate_def)

section \<open>Receive windows\<close>

lemma build_rf_config_total:
  assumes "rs_ok (mac_region m)" "dr \<noteq> DR15"
  obtains rf where "build_rf_config f dr tx w m = Some rf" "rf_frequency rf = f"
    "\<And>d. rs_get_datarate (mac_region m) (dr_u8 dr) = Some (Some d) \<Longrightarrow>
       bb_bw (rf_bb rf) = dtr_bandwidth d \<and> bb_sf (rf_bb rf) = dtr_spreading_factor d \<and>
       rf_max_payload_len rf = dtr_max_mac_payload_size d"
proof -
  obtain r where r: "rs_get_datarate (mac_region m) (dr_u8 dr) = Some r"
    using region.datarate_total [OF assms(1) dr_u8_15(2) [OF assms(2)]] by blast
  obtain d where d: "rs_get_datarate (mac_region m)
      (dr_u8 (rs_get_rx_datarate (mac_region m) tx (cfg_rx1_dr_offset (mac_conf m)) Window2)) = Some (Some d)"
    using rs_rx_datarate(2) by blast
  show thesis
    by (cases r; rule that) (auto simp: build_rf_config_def r d bbmp_new_def Let_def)
qed

lemma rx_datarate_not_15: "rs_get_rx_datarate s tx off w \<noteq> DR15"
  using rs_rx_datarate(1) [of s tx off w] by (simp add: not_DR15)

lemma rx2_rf_config_total:
  assumes "mac_ok m"
  obtains rf where "rx2_rf_config tx m = Some rf"
    "rf_frequency rf = (case cfg_rx2_frequency (mac_conf m) of Some f \<Rightarrow> f | None \<Rightarrow> rs_get_rx2_frequency (mac_region m))"
proof -
  have "(case cfg_rx2_data_rate (mac_conf m) of Some d \<Rightarrow> d
      | None \<Rightarrow> rs_get_rx_datarate (mac_region m) tx (cfg_rx1_dr_offset (mac_conf m)) Window2) \<noteq> DR15"
    using assms rx_datarate_not_15 by (auto simp: mac_ok_def cfg_ok_def split: option.split)
  then show thesis
    by (rule build_rf_config_total [rotated]) (use assms that in \<open>auto simp: mac_ok_def rx2_rf_config_def Let_def\<close>)
qed

lemma mac_rx_windows_total:
  assumes "mac_ok m"
  obtains w where "mac_rx_windows t m = Some w" "rf_frequency (rw_rx1 w) = txc_rx1_frequency t"
    "rf_frequency (rw_rx2 w) =
       (case cfg_rx2_frequency (mac_conf m) of Some f \<Rightarrow> f | None \<Rightarrow> rs_get_rx2_frequency (mac_region m))"
proof -
  have rok: "rs_ok (mac_region m)" using assms by (simp add: mac_ok_def)
  obtain r1 where r1: "build_rf_config (txc_rx1_frequency t)
      (rs_get_rx_datarate (mac_region m) (txc_dr t) (cfg_rx1_dr_offset (mac_conf m)) Window1) (txc_dr t) Window1 m = Some r1"
    "rf_frequency r1 = txc_rx1_frequency t"
    by (rule build_rf_config_total [OF rok rx_datarate_not_15])
  obtain r2 where r2: "rx2_rf_config (txc_dr t) m = Some r2"
    "rf_frequency r2 = (case cfg_rx2_frequency (mac_conf m) of Some f \<Rightarrow> f | None \<Rightarrow> rs_get_rx2_frequency (mac_region m))"
    by (rule rx2_rf_config_total [OF assms])
  show thesis using r1 r2 by (intro that [of "\<lparr>rw_rx1 = r1, rw_rx2 = r2\<rparr>"]) (simp_all add: mac_rx_windows_def)
qed

section \<open>Joining and sending\<close>

text \<open>Once the buffer is prepared, an uplink only fails to return when no channel can be drawn.\<close>

lemma transmission_outcome:
  assumes "mac_ok m"
  obtains (stuck) "rs_create_tx_config next_u32 rng dr fr (mac_region m) = None"
  | (tx) tx ch rng' region' w where
      "rs_create_tx_config next_u32 rng dr fr (mac_region m) = Some ((tx, ch, rng'), region')"
      "mac_rx_windows ch (m\<lparr>mac_region := region'\<rparr>) = Some w" "mac_ok (m\<lparr>mac_region := region'\<rparr>)"
      "rf_frequency (tx_rf tx) = txc_frequency ch" "rf_frequency (rw_rx1 w) = txc_rx1_frequency ch"
proof (cases "rs_create_tx_config next_u32 rng dr fr (mac_region m)")
  case (Some x)
  obtain tx ch rng' region' where x: "x = ((tx, ch, rng'), region')" by (metis prod_cases3 prod.collapse)
  have rok: "rs_ok (mac_region m)" using assms by (simp add: mac_ok_def)
  note c = rs_create_tx_config_Some [OF rok Some [unfolded x]]
  then have ok: "mac_ok (m\<lparr>mac_region := region'\<rparr>)" using assms by (simp add: mac_ok_def)
  obtain w where "mac_rx_windows ch (m\<lparr>mac_region := region'\<rparr>) = Some w" "rf_frequency (rw_rx1 w) = txc_rx1_frequency ch"
    by (rule mac_rx_windows_total [OF ok])
  then show thesis using c Some x ok by (intro tx) auto
qed (rule stuck)

lemma mac_join_outcome:
  assumes "mac_ok m" "cipher_ok mk" "credentials_ok c"
  obtains (panic) "length (rb_packet buf) < 23" "mac_join_otaa mk next_u32 rng c buf m = None"
  | (stuck) rng1 where "rs_create_tx_config next_u32 rng1 (cfg_data_rate (mac_conf m)) Join (mac_region m) = None"
      "rng1 = snd (next_u32 rng)" "mac_join_otaa mk next_u32 rng c buf m = None"
  | (sent) n tx w rng' buf' ot region' where
      "mac_join_otaa mk next_u32 rng c buf m = Some ((tx, w, n), rng', buf', m\<lparr>mac_state := Joining ot, mac_region := region'\<rparr>)"
      "otaa_prepare_buffer mk next_u32 rng buf (otaa_new c) = Some (n, snd (next_u32 rng), buf', ot)"
      "otaa_ok ot" "ot_credentials ot = c" "rb_ok buf'"
      "mac_ok (m\<lparr>mac_state := Joining ot, mac_region := region'\<rparr>)"
proof -
  obtain r rng1 where r: "next_u32 rng = (r, rng1)" by fastforce
  have cr: "credentials_ok (ot_credentials (otaa_new c))" "crypto_ok (mk (nc_appkey (ot_credentials (otaa_new c))))"
    using assms(2,3) by (simp_all add: otaa_new_def credentials_ok_def cipher_okD)
  show thesis
  proof (rule otaa_prepare_buffer_outcome [of "otaa_new c" mk next_u32 rng r rng1 buf, OF cr r])
    assume "length (rb_packet buf) < 23" "otaa_prepare_buffer mk next_u32 rng buf (otaa_new c) = None"
    then show thesis by (intro panic) (simp_all add: mac_join_otaa_def)
  next
    fix buf' ot out
    assume p: "ot = (otaa_new c)\<lparr>ot_dev_nonce := dev_nonce_from_value (ucast r)\<rparr>"
      "otaa_prepare_buffer mk next_u32 rng buf (otaa_new c) = Some (ucast r, rng1, buf', ot)" "otaa_ok ot" "rb_ok buf'"
    define m1 where "m1 = m\<lparr>mac_state := Joining ot\<rparr>"
    have m1: "mac_ok m1" "mac_region m1 = mac_region m" "mac_conf m1 = mac_conf m" "mac_eirp m1 = mac_eirp m"
      using assms(1) p(3) by (simp_all add: mac_ok_def m1_def)
    show thesis
    proof (rule transmission_outcome [OF m1(1), of next_u32 rng1 "cfg_data_rate (mac_conf m)" Join])
      assume "rs_create_tx_config next_u32 rng1 (cfg_data_rate (mac_conf m)) Join (mac_region m1) = None"
      then show thesis using p r m1
        by (intro stuck [of rng1]) (simp_all add: mac_join_otaa_def m1_def [symmetric])
    next
      fix tx ch rng' region' w
      assume t: "rs_create_tx_config next_u32 rng1 (cfg_data_rate (mac_conf m)) Join (mac_region m1) = Some ((tx, ch, rng'), region')"
        "mac_rx_windows ch (m1\<lparr>mac_region := region'\<rparr>) = Some w" "mac_ok (m1\<lparr>mac_region := region'\<rparr>)"
      have "mac_join_otaa mk next_u32 rng c buf m = Some ((adjust_power (be_max_power (mac_eirp m)) (be_antenna_gain (mac_eirp m)) tx,
          w, ucast r), rng', buf', m1\<lparr>mac_region := region'\<rparr>)"
        using p(2) t m1 by (simp add: mac_join_otaa_def m1_def [symmetric])
      then show thesis using p r t(3) unfolding m1_def by (intro sent) (simp_all add: otaa_new_def)
    qed
  qed
qed

lemma mac_send_outcome:
  assumes "mac_ok m" "cipher_ok mk" "mac_state m = Joined s"
  obtains (panic) "\<not> sendable data buf s" "mac_send mk next_u32 rng buf data m = None"
  | (stuck) "rs_create_tx_config next_u32 rng (cfg_data_rate (mac_conf m)) Data (mac_region m) = None"
      "mac_send mk next_u32 rng buf data m = None"
  | (sent) tx w rng' buf' s' region' where "sendable data buf s"
      "mac_send mk next_u32 rng buf data m =
         Some (Inr (tx, w, ss_fcnt_up s), rng', buf', m\<lparr>mac_state := Joined s', mac_region := region'\<rparr>)"
      "prepare_buffer mk data buf (mac_conf m) (mac_region m) s = Some (ss_fcnt_up s, buf', s')"
      "ss_fcnt_up s' = ss_fcnt_up s" "ss_fcnt_down s' = ss_fcnt_down s" "rb_ok buf'"
      "mac_ok (m\<lparr>mac_state := Joined s', mac_region := region'\<rparr>)"
proof -
  have ok: "rs_ok (mac_region m)" "session_ok s" using assms(1,3) by (simp_all add: mac_ok_def)
  obtain cs where cs: "up_holds (ss_uplink s) cs" using ok(2) by (auto simp: session_ok_def up_ok_def)
  have l: "length (ss_devaddr s) = 4" using ok(2) by (simp add: session_ok_def)
  show thesis
  proof (rule prepare_buffer_outcome [where mk = mk and data = data and tx = buf and conf = "mac_conf m",
        OF ok(1) l cs session_cipher [OF assms(2) ok(2)]])
    assume "\<not> sendable data buf s" "prepare_buffer mk data buf (mac_conf m) (mac_region m) s = None"
    then show thesis by (intro panic) (simp_all add: mac_send_def assms(3))
  next
    fix buf' u out
    let ?s = "(cleared_ack s data)\<lparr>ss_uplink := u\<rparr>"
    assume p: "sendable data buf s"
      "prepare_buffer mk data buf (mac_conf m) (mac_region m) s = Some (ss_fcnt_up s, buf', ?s)" "up_holds u (filter retained cs)"
      and "rb_as_ref_for_read buf' = Some out"
    then have b: "rb_ok buf'" by (simp add: rb_as_ref_for_read_def subslice_eq_Some rb_ok_def)
    define m1 where "m1 = m\<lparr>mac_state := Joined ?s\<rparr>"
    have s: "session_ok ?s" "ss_fcnt_up ?s = ss_fcnt_up s" "ss_fcnt_down ?s = ss_fcnt_down s"
      using ok(2) p(3) by (auto simp: session_ok_def cleared_ack_def up_ok_def)
    have m1: "mac_ok m1" "mac_region m1 = mac_region m" "mac_conf m1 = mac_conf m" "mac_eirp m1 = mac_eirp m"
      using assms(1) s(1) by (simp_all add: mac_ok_def m1_def)
    show thesis
    proof (rule transmission_outcome [OF m1(1), of next_u32 rng "cfg_data_rate (mac_conf m)" Data])
      assume "rs_create_tx_config next_u32 rng (cfg_data_rate (mac_conf m)) Data (mac_region m1) = None"
      then show thesis using p m1
        by (intro stuck) (simp_all add: mac_send_def assms(3) m1_def [symmetric])
    next
      fix tx ch rng' region' w
      assume t: "rs_create_tx_config next_u32 rng (cfg_data_rate (mac_conf m)) Data (mac_region m1) = Some ((tx, ch, rng'), region')"
        "mac_rx_windows ch (m1\<lparr>mac_region := region'\<rparr>) = Some w" "mac_ok (m1\<lparr>mac_region := region'\<rparr>)"
      have "\<exists>tx. mac_send mk next_u32 rng buf data m = Some (Inr (tx, w, ss_fcnt_up s), rng', buf', m1\<lparr>mac_region := region'\<rparr>)"
        using p(2) t m1 by (simp add: mac_send_def assms(3) m1_def [symmetric] Let_def)
      then show thesis using p s t(3) b unfolding m1_def by (elim exE) (intro sent; simp)
    qed
  qed
qed

section \<open>Receiving\<close>

text \<open>Decryption in place keeps the length of the frame, so it can be written back.\<close>

lemma handle_rx_length:
  assumes "rs_ok (cx_region x)" "crypto_ok (mk (ss_nwkskey (cx_session x)))" "crypto_ok (mk (ss_appskey (cx_session x)))"
    and "handle_rx mk D bs dl len snr ignore_mac x = Some (resp, dl', bs', y)"
  shows "length bs' = length bs"
proof (rule handle_rx_cases [OF assms(1), of bs mk D dl len snr ignore_mac])
  fix w u n
  let ?x = "set_uplink (\<lambda>_. u) x"
  assume a: "encrypted_parse bs = Some (Inr w)"
    "handle_rx mk D bs dl len snr ignore_mac x = handle_accepted mk D bs n (dv_is_confirmed w) snr ignore_mac dl ?x"
  have w: "view_ok w" "dv_bytes w = bs" using a(1) by (simp_all add: encrypted_parse_iff)
  have c: "crypto_ok (mk (ss_nwkskey (cx_session ?x)))" "crypto_ok (mk (ss_appskey (cx_session ?x)))"
    using assms(2,3) by (simp_all add: set_uplink_def)
  have h: "handle_accepted mk D (dv_bytes w) n (dv_is_confirmed w) snr ignore_mac dl ?x = Some (resp, dl', bs', y)"
    using a(2) assms(4) w(2) by simp
  show ?thesis
    by (rule handle_accepted_eq [where x = ?x and fcnt = n and w = w and mk = mk and D = D and
          confirmed = "dv_is_confirmed w" and snr = snr and ignore_mac = ignore_mac and dl = dl, OF w(1) c])
       (use h w(2) in \<open>auto simp: bind_eq_Some_conv\<close>)
qed (use assms(4) in auto)

text \<open>What a received frame does to a session and its counters.\<close>

definition fresh_counter :: "u32 option \<Rightarrow> u32 \<Rightarrow> bool" where
  "fresh_counter prev n \<longleftrightarrow> (case prev of None \<Rightarrow> unat n < 65536 | Some k \<Rightarrow> unat k < unat n \<and> unat n \<le> unat k + 16384)"

lemma fresh_counter_next: "next_fcnt_down prev wire = Some n \<Longrightarrow> fresh_counter prev n"
proof (cases prev)
  case None
  assume "next_fcnt_down prev wire = Some n"
  then have "n = ucast wire" using None by (simp add: next_fcnt_down_def)
  moreover have "unat wire < 2 ^ 32" by (rule less_le_trans [OF unat_u16_less]) simp
  then have "unat (ucast wire :: u32) = unat wire" unfolding unsigned_ucast_eq by (simp add: take_bit_nat_eq_self)
  ultimately show ?thesis using None unat_u16_less [of wire] by (simp add: fresh_counter_def)
next
  case (Some k)
  assume "next_fcnt_down prev wire = Some n"
  then show ?thesis using next_fcnt_down_iff [of k wire n] Some by (simp add: fresh_counter_def)
qed

definition rx_counters :: "mac_response \<Rightarrow> session \<Rightarrow> session \<Rightarrow> bool" where
  "rx_counters resp s s' \<longleftrightarrow> (case resp of
      NoUpdate \<Rightarrow> ss_fcnt_up s' = ss_fcnt_up s \<and> ss_fcnt_down s' = ss_fcnt_down s
    | DownlinkReceived n \<Rightarrow> ss_fcnt_up s \<noteq> 0xFFFFFFFF \<and> ss_fcnt_up s' = ss_fcnt_up s + 1 \<and>
        ss_fcnt_down s' = Some n \<and> fresh_counter (ss_fcnt_down s) n
    | SessionExpired \<Rightarrow> ss_fcnt_up s = 0xFFFFFFFF \<and> ss_fcnt_up s' = ss_fcnt_up s \<and>
        (ss_fcnt_down s' = ss_fcnt_down s \<or> (\<exists>n. ss_fcnt_down s' = Some n \<and> fresh_counter (ss_fcnt_down s) n))
    | NoAck \<Rightarrow> ss_fcnt_up s \<noteq> 0xFFFFFFFF \<and> ss_fcnt_up s' = ss_fcnt_up s + 1 \<and> ss_fcnt_down s' = ss_fcnt_down s
    | RxComplete \<Rightarrow> ss_fcnt_up s \<noteq> 0xFFFFFFFF \<and> ss_fcnt_up s' = ss_fcnt_up s + 1 \<and> ss_fcnt_down s' = ss_fcnt_down s
    | _ \<Rightarrow> False)"

lemma rx2_complete_counters:
  assumes "rs_ok region" "rx2_complete conf region s = Some (resp, s', conf')"
  shows "rx_counters resp s s' \<and> resp \<noteq> NoUpdate \<and> ss_uplink s' = ss_uplink s \<and> ss_nwkskey s' = ss_nwkskey s \<and>
    ss_appskey s' = ss_appskey s \<and> ss_devaddr s' = ss_devaddr s"
  by (rule rx2_complete_cases [OF assms(1), of s conf])
     (use assms(2) in \<open>auto simp: rx_counters_def split: if_splits\<close>)

lemma handle_rx_counters:
  assumes "ctx_ok x" "session_ok (cx_session x)" "cipher_ok mk"
    and "handle_rx mk D bs dl len snr ignore_mac x = Some (resp, dl', bs', y)"
  shows "ctx_ok y \<and> session_ok (cx_session y) \<and> rx_counters resp (cx_session x) (cx_session y)"
proof -
  have rok: "rs_ok (cx_region x)" using assms(1) by (simp add: ctx_ok_def)
  note o = handle_rx_outcome [where mk = mk, OF assms(1) session_cipher [OF assms(3,2)], of D bs dl len snr ignore_mac]
  have y: "ctx_ok y" using o assms(4) by auto
  then have uy: "up_ok (ss_uplink (cx_session y))" by (simp add: ctx_ok_def)
  have same: "ss_nwkskey (cx_session y) = ss_nwkskey (cx_session x) \<and> ss_appskey (cx_session y) = ss_appskey (cx_session x) \<and>
      ss_devaddr (cx_session y) = ss_devaddr (cx_session x) \<and> rx_counters resp (cx_session x) (cx_session y)"
    using o unfolding assms(4)
    by (elim disjE exE conjE; simp)
       (auto simp: rx_counters_def dest: fresh_counter_next rx2_complete_counters [OF rok])
  then show ?thesis using y session_ok_same [OF assms(2) uy] by blast
qed

text \<open>The two frames that make reception panic, both of which need a key of the device.\<close>

definition ctl4_frame :: "(bytes \<Rightarrow> 'x crypto_scheme) \<Rightarrow> session \<Rightarrow> bytes \<Rightarrow> bool" where
  "ctl4_frame mk s bs \<longleftrightarrow> (\<exists>w n v. encrypted_parse bs = Some (Inr w) \<and>
     next_fcnt_down (ss_fcnt_down s) (wire_fcnt bs) = Some n \<and> validate_data_mic w (mk (ss_nwkskey s)) n = Some True \<and>
     decrypt_in_place bs (Some (mk (ss_nwkskey s))) (Some (mk (ss_appskey s))) n = Some (Inr v) \<and>
     list_ex ctl4 (frame_cmds v))"

definition dr15_accept :: "(bytes \<Rightarrow> 'x crypto_scheme) \<Rightarrow> otaa \<Rightarrow> bytes \<Rightarrow> bool" where
  "dr15_accept mk ot bs \<longleftrightarrow> (\<exists>d dl. ja_check_mic_and_decrypt bs (mk (nc_appkey (ot_credentials ot))) = Some (d, Inr d) \<and>
     ja_dl_settings d = Some dl \<and> rx2_data_rate dl = DR15)"

lemma session_rx_outcome:
  assumes "mac_ok m" "cipher_ok mk" "mac_state m = Joined s" "rb_as_ref_for_read buf = Some rx"
  obtains (panic) "session_rx mk D buf dl len snr ignore_mac s m = None" "\<not> ignore_mac" "ctl4_frame mk s rx"
  | (returns) resp buf' dl' s' region' conf' where
      "session_rx mk D buf dl len snr ignore_mac s m =
         Some (resp, buf', dl', m\<lparr>mac_conf := conf', mac_region := region', mac_state := Joined s'\<rparr>)"
      "mac_ok (m\<lparr>mac_conf := conf', mac_region := region', mac_state := Joined s'\<rparr>)" "rx_counters resp s s'"
      "rb_pos buf' = rb_pos buf" "length (rb_packet buf') = length (rb_packet buf)"
proof -
  let ?x = "\<lparr>cx_session = s, cx_conf = mac_conf m, cx_region = mac_region m\<rparr>"
  have ok: "session_ok (cx_session ?x)" "ctx_ok ?x"
    using assms(1,3) by (simp_all add: mac_ok_def ctx_ok_def session_ok_def)
  note c = session_cipher [OF assms(2) ok(1)]
  have rx: "length rx = rb_pos buf" "rb_pos buf \<le> length (rb_packet buf)"
    using assms(4) by (auto simp: rb_as_ref_for_read_def subslice_eq_Some)
  show thesis
  proof (cases "handle_rx mk D rx dl len snr ignore_mac ?x")
    case None
    then have "session_rx mk D buf dl len snr ignore_mac s m = None" by (simp add: session_rx_def assms(4))
    moreover have "\<not> ignore_mac \<and> ctl4_frame mk s rx"
      using handle_rx_outcome [where mk = mk, OF ok(2) c, of D rx dl len snr ignore_mac] None
      by (auto simp: ctl4_frame_def)
    ultimately show thesis by (intro panic) simp_all
  next
    case (Some r)
    obtain resp dl' rx' y where r: "r = (resp, dl', rx', y)" by (metis prod_cases4)
    note h = Some [unfolded r]
    have y: "ctx_ok y" "session_ok (cx_session y)" "rx_counters resp s (cx_session y)"
      using handle_rx_counters [OF ok(2,1) assms(2) h] by simp_all
    have rok: "rs_ok (cx_region ?x)" using ok(2) by (simp add: ctx_ok_def)
    have l: "length rx' = rb_pos buf" using handle_rx_length [where mk = mk, OF rok c h] rx(1) by simp
    define buf' where "buf' = buf\<lparr>rb_packet := rx' @ drop (rb_pos buf) (rb_packet buf)\<rparr>"
    have "session_rx mk D buf dl len snr ignore_mac s m =
         Some (resp, buf', dl', m\<lparr>mac_conf := cx_conf y, mac_region := cx_region y, mac_state := Joined (cx_session y)\<rparr>)"
      using h l rx(2) by (simp add: session_rx_def assms(4) buf'_def)
    moreover have "mac_ok (m\<lparr>mac_conf := cx_conf y, mac_region := cx_region y, mac_state := Joined (cx_session y)\<rparr>)"
      using y by (simp add: mac_ok_def ctx_ok_def)
    moreover have "rb_pos buf' = rb_pos buf" "length (rb_packet buf') = length (rb_packet buf)"
      using l rx(2) by (simp_all add: buf'_def)
    ultimately show thesis using y(3) by (intro returns)
  qed
qed

lemma otaa_rx_outcome:
  assumes "mac_ok m" "cipher_ok mk" "mac_state m = Joining ot" "rb_as_ref_for_read buf = Some rx"
  obtains (panic) "mac_handle_rx mk D buf dl snr rf m = None" "dr15_accept mk ot rx"
  | (refused) buf' e rx' where "mac_handle_rx mk D buf dl snr rf m = Some (NoUpdate, buf', dl, m)"
      "ja_check_mic_and_decrypt rx (mk (nc_appkey (ot_credentials ot))) = Some (rx', Inl e)"
      "rb_pos buf' = rb_pos buf" "length (rb_packet buf') = length (rb_packet buf)"
  | (joined) buf' d nwk app addr region' conf' where
      "mac_handle_rx mk D buf dl snr rf m = Some (JoinSuccess, buf', dl,
         m\<lparr>mac_region := region', mac_conf := conf', mac_state := Joined (session_new nwk app addr)\<rparr>)"
      "ja_check_mic_and_decrypt rx (mk (nc_appkey (ot_credentials ot))) = Some (d, Inr d)"
      "mac_ok (m\<lparr>mac_region := region', mac_conf := conf', mac_state := Joined (session_new nwk app addr)\<rparr>)"
      "rb_pos buf' = rb_pos buf" "length (rb_packet buf') = length (rb_packet buf)"
proof -
  let ?c = "mk (nc_appkey (ot_credentials ot))"
  have ok: "rs_ok (mac_region m)" "cfg_ok (mac_conf m)" "otaa_ok ot" using assms(1,3) by (simp_all add: mac_ok_def)
  have c: "crypto_ok ?c" using assms(2) ok(3) by (simp add: otaa_ok_def credentials_ok_def cipher_okD)
  have rx: "length rx = rb_pos buf" "rb_pos buf \<le> length (rb_packet buf)"
    using assms(4) by (auto simp: rb_as_ref_for_read_def subslice_eq_Some)
  show thesis
  proof (rule otaa_handle_rx_outcome [where mk = mk and ot = ot and rx = rx, OF ok c])
    fix rx' e
    assume a: "ja_check_mic_and_decrypt rx ?c = Some (rx', Inl e)" "length rx' = length rx"
      "otaa_handle_rx mk rx (mac_region m) (mac_conf m) ot = Some (None, rx', mac_region m, mac_conf m)"
    let ?buf = "buf\<lparr>rb_packet := rx' @ drop (rb_pos buf) (rb_packet buf)\<rparr>"
    have "mac_handle_rx mk D buf dl snr rf m = Some (NoUpdate, ?buf, dl, m)"
      using a rx by (simp add: mac_handle_rx_def assms(3,4))
    then show thesis using a rx by (intro refused [of ?buf rx' e]) simp_all
  next
    fix d dl'
    assume "ja_check_mic_and_decrypt rx ?c = Some (d, Inr d)" "ja_dl_settings d = Some dl'" "rx2_data_rate dl' = DR15"
      "otaa_handle_rx mk rx (mac_region m) (mac_conf m) ot = None"
    then show thesis by (intro panic) (auto simp: mac_handle_rx_def assms(3,4) dr15_accept_def)
  next
    fix d dl' cf del region' conf'
    let ?s = "session_new (join_key ?c 1 (take 6 (drop 1 d)) (ot_dev_nonce ot))
                 (join_key ?c 2 (take 6 (drop 1 d)) (ot_dev_nonce ot)) (take 4 (drop 7 d))"
    assume a: "ja_check_mic_and_decrypt rx ?c = Some (d, Inr d)" "length d = length rx" "length d = 17 \<or> length d = 33"
      "otaa_handle_rx mk rx (mac_region m) (mac_conf m) ot = Some (Some ?s, d, region', conf')" "rs_ok region'" "cfg_ok conf'"
    let ?buf = "buf\<lparr>rb_packet := d @ drop (rb_pos buf) (rb_packet buf)\<rparr>"
    have k: "length (join_key ?c b (take 6 (drop 1 d)) (ot_dev_nonce ot)) = 16" for b
      unfolding join_key_def using a(3) ok(3) by (intro crypto_okD(1) [OF c]) (auto simp: otaa_ok_def)
    have "length (take 4 (drop 7 d)) = 4" using a(3) by auto
    then have "session_ok ?s" by (rule session_new_ok [OF k k])
    then have "mac_ok (m\<lparr>mac_region := region', mac_conf := conf', mac_state := Joined ?s\<rparr>)" using a by (simp add: mac_ok_def)
    moreover have "mac_handle_rx mk D buf dl snr rf m = Some (JoinSuccess, ?buf, dl,
         m\<lparr>mac_region := region', mac_conf := conf', mac_state := Joined ?s\<rparr>)"
      using a rx by (simp add: mac_handle_rx_def assms(3,4))
    ultimately show thesis using a rx by (intro joined [of ?buf]) simp_all
  qed
qed

end
