(* ===== verification/MacRuns.thy ===== *)
theory MacRuns
  imports MacFacts
begin

text \<open>
  Runs of the MAC layer: its methods as the steps of a transition relation, the invariant on every
  reachable state, and the refinement of an abstract pair of frame counters.
\<close>

section \<open>Steps\<close>

text \<open>What is seen of a call: the nonce of a join request, the session that is installed, the counter of
  an uplink, and the response of a reception or of a closed window.\<close>

datatype mac_event = EvJoin u16 | EvActivate session | EvQueue | EvSent u32 | EvResponse mac_response

text \<open>The premises on lengths are those of the newtypes of keys, addresses and EUIs; a queued command comes
  from a creator of the uplink set.\<close>

inductive mac_step :: "(bytes \<Rightarrow> 'x crypto_scheme) \<Rightarrow> ('r \<Rightarrow> u32 \<times> 'r) \<Rightarrow> mac \<Rightarrow> mac_event \<Rightarrow> mac \<Rightarrow> bool"
  for mk next_u32 where
  step_join: "credentials_ok c \<Longrightarrow> mac_join_otaa mk next_u32 rng c buf m = Some ((tx, w, n), rng', buf', m') \<Longrightarrow>
     mac_step mk next_u32 m (EvJoin n) m'"
| step_abp: "length nwk = 16 \<Longrightarrow> length app = 16 \<Longrightarrow> length addr = 4 \<Longrightarrow>
     mac_step mk next_u32 m (EvActivate (session_new nwk app addr)) (mac_join_abp nwk app addr m)"
| step_set: "session_ok s \<Longrightarrow> mac_step mk next_u32 m (EvActivate s) (mac_set_session s m)"
| step_send: "mac_send mk next_u32 rng buf data m = Some (Inr (tx, w, n), rng', buf', m') \<Longrightarrow>
     mac_step mk next_u32 m (EvSent n) m'"
| step_queue: "is_answer d \<Longrightarrow> mac_add_uplink (creator_obj d) m = Some (Inr (), m') \<Longrightarrow> mac_step mk next_u32 m EvQueue m'"
| step_rx: "rb_ok buf \<Longrightarrow> mac_handle_rx mk D buf dl snr rf m = Some (resp, buf', dl', m') \<Longrightarrow>
     mac_step mk next_u32 m (EvResponse resp) m'"
| step_rxc: "rb_ok buf \<Longrightarrow> mac_handle_rxc mk D buf dl snr rf m = Some (Inr resp, buf', dl', m') \<Longrightarrow>
     mac_step mk next_u32 m (EvResponse resp) m'"
| step_timeout: "mac_rx2_complete m = Some (resp, m') \<Longrightarrow> mac_step mk next_u32 m (EvResponse resp) m'"

inductive mac_run :: "(bytes \<Rightarrow> 'x crypto_scheme) \<Rightarrow> ('r \<Rightarrow> u32 \<times> 'r) \<Rightarrow> mac \<Rightarrow> mac_event list \<Rightarrow> mac \<Rightarrow> bool"
  for mk next_u32 where
  run_nil: "mac_run mk next_u32 m [] m"
| run_cons: "mac_step mk next_u32 m e m' \<Longrightarrow> mac_run mk next_u32 m' es m'' \<Longrightarrow> mac_run mk next_u32 m (e # es) m''"

inductive_cases run_consE: "mac_run mk next_u32 m (e # es) m''"

section \<open>The abstract counters\<close>

text \<open>The uplink counter and the last accepted downlink counter of the session, if there is one.\<close>

type_synonym counters = "(u32 \<times> u32 option) option"

definition counters_of :: "mac \<Rightarrow> counters" where
  "counters_of m = (case mac_state m of Joined s \<Rightarrow> Some (ss_fcnt_up s, ss_fcnt_down s) | _ \<Rightarrow> None)"

definition completed :: "counters \<Rightarrow> counters \<Rightarrow> bool" where
  "completed a b \<longleftrightarrow> (\<exists>u d. a = Some (u, d) \<and> u \<noteq> 0xFFFFFFFF \<and> b = Some (u + 1, d))"

text \<open>What the counters promise: an uplink goes out under the current counter; an exchange that ends
  without a downlink advances the uplink counter by one; one that ends with a downlink also installs a
  fresh downlink counter; a new session starts over; nothing else moves them.\<close>

fun counter_step :: "counters \<Rightarrow> mac_event \<Rightarrow> counters \<Rightarrow> bool" where
  "counter_step a (EvJoin _) b = (b = None)"
| "counter_step a (EvActivate s) b = (b = Some (ss_fcnt_up s, ss_fcnt_down s))"
| "counter_step a EvQueue b = (b = a)"
| "counter_step a (EvSent n) b = (b = a \<and> (\<exists>d. a = Some (n, d)))"
| "counter_step a (EvResponse JoinSuccess) b = (a = None \<and> b = Some (0, None))"
| "counter_step a (EvResponse (DownlinkReceived n)) b =
     (\<exists>u d. a = Some (u, d) \<and> u \<noteq> 0xFFFFFFFF \<and> fresh_counter d n \<and> b = Some (u + 1, Some n))"
| "counter_step a (EvResponse SessionExpired) b =
     (\<exists>d. a = Some (0xFFFFFFFF, d) \<and> (b = a \<or> (\<exists>n. fresh_counter d n \<and> b = Some (0xFFFFFFFF, Some n))))"
| "counter_step a (EvResponse NoAck) b = completed a b"
| "counter_step a (EvResponse RxComplete) b = completed a b"
| "counter_step a (EvResponse NoUpdate) b = (b = a)"
| "counter_step a (EvResponse NoJoinAccept) b = (b = a \<and> a = None)"
| "counter_step a (EvResponse LinkCheckReqResponse) b = False"

inductive counter_run :: "counters \<Rightarrow> mac_event list \<Rightarrow> counters \<Rightarrow> bool" where
  crun_nil: "counter_run a [] a"
| crun_cons: "counter_step a e b \<Longrightarrow> counter_run b es c \<Longrightarrow> counter_run a (e # es) c"

section \<open>Simulation\<close>

lemma rx_counters_step:
  "rx_counters resp s s' \<Longrightarrow>
   counter_step (Some (ss_fcnt_up s, ss_fcnt_down s)) (EvResponse resp) (Some (ss_fcnt_up s', ss_fcnt_down s'))"
  by (cases resp) (auto simp: rx_counters_def completed_def)

lemma counters_Joined: "mac_state m = Joined s \<Longrightarrow> counters_of m = Some (ss_fcnt_up s, ss_fcnt_down s)"
  by (simp add: counters_of_def)

lemma rb_ok_read: "rb_ok buf \<Longrightarrow> \<exists>rx. rb_as_ref_for_read buf = Some rx"
  using rb_read_ok by blast

lemma session_rx_step:
  assumes "mac_ok m" "cipher_ok mk" "mac_state m = Joined s" "rb_ok buf"
    and "session_rx mk D buf dl len snr ignore_mac s m = Some (resp, buf', dl', m')"
  shows "mac_ok m' \<and> counter_step (counters_of m) (EvResponse resp) (counters_of m') \<and> rb_ok buf' \<and>
    mac_state m' \<noteq> Unjoined"
proof -
  obtain rx where rx: "rb_as_ref_for_read buf = Some rx" using rb_ok_read [OF assms(4)] by blast
  show ?thesis
    by (rule session_rx_outcome [OF assms(1-3) rx, of D dl len snr ignore_mac])
       (use assms(3-5) in \<open>auto simp: counters_of_def rb_ok_def dest: rx_counters_step\<close>)
qed

lemma handle_rx_step:
  assumes "mac_ok m" "cipher_ok mk" "rb_ok buf" "mac_handle_rx mk D buf dl snr rf m = Some (resp, buf', dl', m')"
  shows "mac_ok m' \<and> counter_step (counters_of m) (EvResponse resp) (counters_of m') \<and> rb_ok buf' \<and>
    (mac_state m \<noteq> Unjoined \<longrightarrow> mac_state m' \<noteq> Unjoined)"
proof (cases "mac_state m")
  case (Joined s)
  then show ?thesis using session_rx_step [OF assms(1,2) Joined assms(3)] assms(4) by (simp add: mac_handle_rx_def)
next
  case (Joining ot)
  obtain rx where rx: "rb_as_ref_for_read buf = Some rx" using rb_ok_read [OF assms(3)] by blast
  show ?thesis
    by (rule otaa_rx_outcome [OF assms(1,2) Joining rx, of D dl snr rf])
       (use assms(1,3,4) Joining in \<open>auto simp: counters_of_def session_new_def rb_ok_def\<close>)
next
  case Unjoined
  then show ?thesis using assms by (simp add: mac_handle_rx_def counters_of_def)
qed

lemma timeout_step:
  assumes "mac_ok m" "mac_rx2_complete m = Some (resp, m')"
  shows "mac_ok m' \<and> counter_step (counters_of m) (EvResponse resp) (counters_of m')"
proof (cases "mac_state m")
  case (Joined s)
  have ok: "rs_ok (mac_region m)" "cfg_ok (mac_conf m)" "session_ok s" using assms(1) Joined by (simp_all add: mac_ok_def)
  obtain s' conf' where r: "rx2_complete (mac_conf m) (mac_region m) s = Some (resp, s', conf')"
    "m' = m\<lparr>mac_conf := conf', mac_state := Joined s'\<rparr>"
    using assms(2) Joined by (auto simp: mac_rx2_complete_def bind_eq_Some_conv)
  note c = rx2_complete_counters [OF ok(1) r(1)]
  have "cfg_ok conf'"
    by (rule rx2_complete_cases [OF ok(1), of s "mac_conf m"])
       (use r(1) ok(2) next_lower_datarate_total [OF ok(1), of "cfg_data_rate (mac_conf m)"] in \<open>auto intro: cfg_ok_lower\<close>)
  then show ?thesis using ok c r(2) Joined rx_counters_step [of resp s s']
    by (auto simp: mac_ok_def counters_of_def session_ok_def)
qed (use assms in \<open>auto simp: mac_rx2_complete_def otaa_rx2_complete_def counters_of_def\<close>)

lemma send_step:
  assumes "mac_ok m" "cipher_ok mk" "mac_send mk next_u32 rng buf data m = Some (Inr (tx, w, n), rng', buf', m')"
  shows "mac_ok m' \<and> counter_step (counters_of m) (EvSent n) (counters_of m')"
proof -
  obtain s where s: "mac_state m = Joined s" using assms(3) by (cases "mac_state m") (simp_all add: mac_send_def)
  show ?thesis
    by (rule mac_send_outcome [OF assms(1,2) s, of data buf next_u32 rng]) (use assms(3) s in \<open>auto simp: counters_of_def\<close>)
qed

lemma join_step:
  assumes "mac_ok m" "cipher_ok mk" "credentials_ok c"
    and "mac_join_otaa mk next_u32 rng c buf m = Some ((tx, w, n), rng', buf', m')"
  shows "mac_ok m' \<and> counter_step (counters_of m) (EvJoin n) (counters_of m')"
  by (rule mac_join_outcome [OF assms(1-3), of buf next_u32 rng]) (use assms(4) in \<open>auto simp: counters_of_def\<close>)

lemma queue_step:
  assumes "mac_ok m" "is_answer d" "mac_add_uplink (creator_obj d) m = Some (Inr (), m')"
  shows "mac_ok m' \<and> counters_of m' = counters_of m"
proof (cases "mac_state m")
  case (Joined s)
  then have s: "session_ok s" using assms(1) by (simp add: mac_ok_def)
  obtain c where c: "uplink_parse_one d = Some (Inr (c, length d))" using assms(2) by (auto simp: is_answer_def)
  obtain cs where cs: "up_holds (ss_uplink s) cs" using s by (auto simp: session_ok_def up_ok_def)
  obtain u where u: "add_mac_command (creator_obj d) (ss_uplink s) = Some u" "up_ok u"
    using add_mac_command_holds [OF cs, of c] creator_obj_uplink [OF c] unfolding up_ok_def by metis
  then show ?thesis using assms(1,3) Joined s
    by (auto simp: mac_add_uplink_def mac_ok_def counters_of_def session_ok_def)
qed (use assms in \<open>auto simp: mac_add_uplink_def\<close>)

lemma mac_step_simulation:
  assumes "mac_step mk next_u32 m e m'" "mac_ok m" "cipher_ok mk"
  shows "mac_ok m' \<and> counter_step (counters_of m) e (counters_of m')"
  using assms(1)
proof cases
  case (step_join c rng buf tx w n rng' buf')
  show ?thesis unfolding step_join(1) by (rule join_step [OF assms(2,3) step_join(2,3)])
next
  case (step_abp nwk app addr)
  then show ?thesis using assms(2) session_new_ok by (simp add: mac_ok_def mac_join_abp_def counters_of_def)
next
  case (step_set s)
  then show ?thesis using assms(2) by (simp add: mac_ok_def mac_set_session_def counters_of_def)
next
  case (step_send rng buf data tx w n rng' buf')
  show ?thesis unfolding step_send(1) by (rule send_step [OF assms(2,3) step_send(2)])
next
  case (step_queue d)
  then show ?thesis using queue_step [OF assms(2)] by simp
next
  case (step_rx buf D dl snr rf resp buf' dl')
  show ?thesis unfolding step_rx(1) using handle_rx_step [OF assms(2,3) step_rx(2,3)] by blast
next
  case (step_rxc buf D dl snr rf resp buf' dl')
  then obtain s where s: "mac_state m = Joined s" by (cases "mac_state m") (simp_all add: mac_handle_rxc_def)
  then show ?thesis using step_rxc session_rx_step [OF assms(2,3) s] by (auto simp: mac_handle_rxc_def)
next
  case (step_timeout resp)
  show ?thesis unfolding step_timeout(1) by (rule timeout_step [OF assms(2) step_timeout(2)])
qed

lemma mac_run_simulation:
  assumes "mac_run mk next_u32 m es m'" "mac_ok m" "cipher_ok mk"
  shows "mac_ok m' \<and> counter_run (counters_of m) es (counters_of m')"
  using assms
  by (induction rule: mac_run.induct) (auto dest: mac_step_simulation intro: counter_run.intros)

end
