(* ===== verification/MacRates.thy ===== *)
theory MacRates
  imports MacRuns
begin

text \<open>
  The data rates that the MAC layer stores: whatever a join accept or a MAC command asks for, the data rate of the
  uplinks and the one of the second receive window are ones that the table of the region defines, and the region
  stays the one the device was made for.
\<close>

section \<open>Rates that a region defines\<close>

definition datarate_defined :: "region \<Rightarrow> DR \<Rightarrow> bool" where
  "datarate_defined r d \<longleftrightarrow> (case rs_get_datarate (state_new r) (dr_u8 d) of Some (Some _) \<Rightarrow> True | _ \<Rightarrow> False)"

definition rates_defined :: "region \<Rightarrow> mac_configuration \<Rightarrow> bool" where
  "rates_defined r conf \<longleftrightarrow> datarate_defined r (cfg_data_rate conf) \<and>
     (case cfg_rx2_data_rate conf of Some d \<Rightarrow> datarate_defined r d | None \<Rightarrow> True)"

text \<open>The table depends on the region only, not on its channels.\<close>

lemma rs_get_datarate_region: "rs_get_datarate s = rs_get_datarate (state_new (state_region s))"
  by (cases s) (simp_all add: rs_get_datarate_def fun_eq_iff)

lemma datarate_defined_state:
  "datarate_defined (state_region s) d \<longleftrightarrow> (case rs_get_datarate s (dr_u8 d) of Some (Some _) \<Rightarrow> True | _ \<Rightarrow> False)"
  using rs_get_datarate_region [of s] by (simp add: datarate_defined_def)

lemma datarate_definedI: "rs_get_datarate s (dr_u8 d) = Some r \<Longrightarrow> r \<noteq> None \<Longrightarrow> datarate_defined (state_region s) d"
  by (auto simp: datarate_defined_state)

lemma default_rate_defined: "datarate_defined r DR0"
  by (induction r) code_simp+

section \<open>The region stays\<close>

named_theorems region_stays \<open>the operations of the region's channels, none of which changes the region\<close>

lemma mut_region_dispatch_region: "mut_region_dispatch fd ff s = Some (v, s') \<Longrightarrow> state_region s' = state_region s"
  by (cases s) auto

lemma rs_select_tx_channel_region [region_stays]:
  "rs_select_tx_channel next_u32 rng dr fr s = Some (r, s') \<Longrightarrow> state_region s' = state_region s"
  unfolding rs_select_tx_channel_def by (rule mut_region_dispatch_region)

lemma rs_create_tx_config_region [region_stays]:
  "rs_create_tx_config next_u32 rng dr fr s = Some (r, s') \<Longrightarrow> state_region s' = state_region s"
  by (auto simp: rs_create_tx_config_def bind_eq_Some_conv dest: region_stays)

lemma rs_process_join_accept_region [region_stays]:
  "rs_process_join_accept cf s = Some s' \<Longrightarrow> state_region s' = state_region s"
  by (auto simp: rs_process_join_accept_def dest: mut_region_dispatch_region)

lemma rs_channel_dl_update_region [region_stays]:
  "rs_channel_dl_update i f s = Some (r, s') \<Longrightarrow> state_region s' = state_region s"
  unfolding rs_channel_dl_update_def by (rule mut_region_dispatch_region)

lemma rs_handle_new_channel_region [region_stays]:
  "rs_handle_new_channel i f drs s = Some (r, s') \<Longrightarrow> state_region s' = state_region s"
  unfolding rs_handle_new_channel_def by (rule mut_region_dispatch_region)

lemma rs_channel_mask_set_region [simp]: "state_region (rs_channel_mask_set m s) = state_region s"
  by (cases s) (simp_all add: rs_channel_mask_set_def)

section \<open>The commands of a downlink\<close>

text \<open>From \<open>x\<close> to \<open>y\<close> the region stays, and defined data rates are replaced by defined ones only.\<close>

definition steady :: "mac_ctx \<Rightarrow> mac_ctx \<Rightarrow> bool" where
  "steady x y \<longleftrightarrow> state_region (cx_region y) = state_region (cx_region x) \<and>
     (rates_defined (state_region (cx_region x)) (cx_conf x) \<longrightarrow> rates_defined (state_region (cx_region x)) (cx_conf y))"

lemma steady_refl [simp]: "steady x x"
  by (simp add: steady_def)

lemma steady_trans: "steady x y \<Longrightarrow> steady y z \<Longrightarrow> steady x z"
  by (auto simp: steady_def)

lemma steady_session [simp]: "steady x (x\<lparr>cx_session := s\<rparr>)"
  by (simp add: steady_def)

lemma answer_steady: "answer cmd x = Some y \<Longrightarrow> steady x y"
  by (auto simp: answer_def bind_eq_Some_conv)

lemma answered_steady: "answer cmd y = Some z \<Longrightarrow> steady x y \<Longrightarrow> steady x z"
  by (blast intro: answer_steady steady_trans)

lemma repeat_answer_steady: "repeat_answer n cmd x = Some y \<Longrightarrow> steady x y"
  by (induction n arbitrary: x) (auto simp: bind_eq_Some_conv intro: answer_steady steady_trans)

lemma dev_status_steady: "handle_dev_status_req snr x = Some y \<Longrightarrow> steady x y"
  unfolding handle_dev_status_req_def Let_def by (rule answer_steady)

lemma dl_channel_steady: "handle_dl_channel_req p x = Some y \<Longrightarrow> steady x y"
  by (auto simp: handle_dl_channel_req_def bind_eq_Some_conv steady_def split: if_splits
      dest!: region_stays answer_steady)

lemma new_channel_steady: "handle_new_channel_req p x = Some y \<Longrightarrow> steady x y"
  by (auto simp: handle_new_channel_req_def bind_eq_Some_conv steady_def split: if_splits
      dest!: region_stays answer_steady)

lemma rx_timing_steady: "handle_rx_timing_setup_req p x = Some y \<Longrightarrow> steady x y"
  by (auto simp: handle_rx_timing_setup_req_def bind_eq_Some_conv steady_def rates_defined_def dest!: answer_steady)

lemma run_bindE:
  assumes "m \<bind> f = Some y"
  obtains x where "m = Some x" "f x = Some y"
  using assms by (auto simp: bind_eq_Some_conv)

lemma rx_param_steady:
  assumes "handle_rx_param_setup_req p x = Some y"
  shows "steady x y"
proof -
  obtain dl freq rx2 where r: "(if rx2_data_rate dl = DR15 then Some (Some (cfg_rx2_data_rate (cx_conf x)))
        else do {
          d \<leftarrow> rs_get_datarate (cx_region x) (dr_u8 (rx2_data_rate dl));
          Some (if d \<noteq> None then Some (Some (rx2_data_rate dl)) else None)}) = Some rx2"
    and a: "answer (rx_param_setup_ans_set_channel_ack (rs_frequency_valid (cx_region x) freq)
        (rx_param_setup_ans_set_rx2_data_rate_ack (rx2 \<noteq> None)
           (rx_param_setup_ans_set_rx1_dr_offset_ack (rs_rx1_dr_offset_validate (cx_region x) (rx1_dr_offset dl) \<noteq> None)
              (creator_new 0x05 1))))
       (case (rx2, rs_rx1_dr_offset_validate (cx_region x) (rx1_dr_offset dl)) of
         (Some d, Some v) \<Rightarrow>
           if rs_frequency_valid (cx_region x) freq
           then x\<lparr>cx_conf := (cx_conf x)\<lparr>cfg_rx2_data_rate := d, cfg_rx2_frequency := Some freq,
                                          cfg_rx1_dr_offset := v\<rparr>\<rparr>
           else x
       | _ \<Rightarrow> x) = Some y"
    using assms unfolding handle_rx_param_setup_req_def Let_def by (elim run_bindE) (rule that, assumption+)
  have d: "d = cfg_rx2_data_rate (cx_conf x) \<or> (\<exists>n. d = Some n \<and> datarate_defined (state_region (cx_region x)) n)"
    if "rx2 = Some d" for d
    using r that by (auto simp: bind_eq_Some_conv split: if_splits intro: datarate_definedI)
  from a show ?thesis
    by (rule answered_steady) (use d in \<open>auto simp: steady_def rates_defined_def split: option.split\<close>)
qed

lemma link_adr_finish_steady:
  assumes "link_adr_finish p m n x = Some y"
  shows "steady x y"
proof -
  obtain dr pw cm where r: "link_adr_dr p x = Some dr"
    and a: "repeat_answer n (link_adr_ans cm (dr \<noteq> None) (pw \<noteq> None)) (case (dr, pw) of
         (Some d, Some q) \<Rightarrow>
           if cm
           then x\<lparr>cx_conf := (cx_conf x)\<lparr>cfg_data_rate := d, cfg_tx_power := q\<rparr>,
                  cx_region := rs_channel_mask_set m (cx_region x)\<rparr>
           else x
       | _ \<Rightarrow> x) = Some y"
    using assms unfolding link_adr_finish_def Let_def by (elim run_bindE) (rule that, assumption+)
  have d: "d = cfg_data_rate (cx_conf x) \<or> datarate_defined (state_region (cx_region x)) d" if "dr = Some d" for d
    using r that by (auto simp: link_adr_dr_def bind_eq_Some_conv split: if_splits intro: datarate_definedI)
  from repeat_answer_steady [OF a] show ?thesis
    by (rule steady_trans [rotated]) (use d in \<open>auto simp: steady_def rates_defined_def split: option.split\<close>)
qed

lemmas command_steady = dev_status_steady dl_channel_steady new_channel_steady rx_timing_steady rx_param_steady
  link_adr_finish_steady

lemma macs_loop_steady: "macs_loop snr cs m n x = Some y \<Longrightarrow> steady x y"
  by (induction snr cs m n x rule: macs_loop.induct)
     (auto simp: bind_eq_Some_conv split: if_splits; blast intro: command_steady steady_trans)+

lemma downlink_macs_steady: "handle_downlink_macs cmds snr x = Some y \<Longrightarrow> steady x y"
  by (auto simp: handle_downlink_macs_def bind_eq_Some_conv intro: macs_loop_steady)

section \<open>Frames\<close>

lemma set_uplink_steady [simp]: "steady x (set_uplink f y) \<longleftrightarrow> steady x y"
  by (simp add: steady_def set_uplink_def)

lemma steady_session_iff [simp]: "steady x (y\<lparr>cx_session := s\<rparr>) \<longleftrightarrow> steady x y"
  "steady (x\<lparr>cx_session := s\<rparr>) y \<longleftrightarrow> steady x y"
  by (simp_all add: steady_def)

lemma deliver_downlink_steady: "deliver_downlink D fcnt v dl x = Some (resp, dl', y) \<Longrightarrow> steady x y"
  by (auto simp: deliver_downlink_def bind_eq_Some_conv Let_def split: if_splits)

lemma handle_accepted_steady:
  assumes "handle_accepted mk D bs fcnt confirmed snr ignore_mac dl x = Some (resp, dl', bs', y)"
  shows "steady x y"
proof -
  let ?x1 = "x\<lparr>cx_session := (cx_session x)\<lparr>ss_fcnt_down := Some fcnt, ss_adr_ack_cnt := 0\<rparr>\<rparr>"
  obtain v x2 where m: "(if ignore_mac then Some ?x1
            else do {
              h \<leftarrow> dv_fhdr v;
              opts \<leftarrow> fhdr_f_opts h;
              y \<leftarrow> handle_downlink_macs opts snr ?x1;
              payload \<leftarrow> dv_frm_payload v;
              case payload of FrmMacCommands cmds \<Rightarrow> handle_downlink_macs cmds snr y | _ \<Rightarrow> Some y}) = Some x2"
    and d: "deliver_downlink D fcnt v dl (if confirmed then set_uplink set_downlink_confirmation x2 else x2) = Some (resp, dl', y)"
    using assms unfolding handle_accepted_def Let_def by (auto simp: bind_eq_Some_conv)
  have "steady ?x1 x2"
  proof (cases ignore_mac)
    case False
    then obtain opts y1 payload where "handle_downlink_macs opts snr ?x1 = Some y1"
      "(case payload of FrmMacCommands cmds \<Rightarrow> handle_downlink_macs cmds snr y1 | _ \<Rightarrow> Some y1) = Some x2"
      using m by (auto elim!: run_bindE)
    then show ?thesis using downlink_macs_steady steady_trans by (cases payload) fastforce+
  qed (use m in simp)
  moreover have "steady (if confirmed then set_uplink set_downlink_confirmation x2 else x2) y"
    using d by (rule deliver_downlink_steady)
  ultimately show ?thesis using steady_trans [of x x2 y] by (auto simp: steady_def set_uplink_def split: if_splits)
qed

lemma rx2_complete_rates:
  assumes "rx2_complete conf region s = Some (resp, s', conf')" "rs_ok region" "rates_defined (state_region region) conf"
  shows "rates_defined (state_region region) conf'"
proof -
  obtain r where n: "next_lower_datarate region (cfg_data_rate conf) = Some r"
    "case r of None \<Rightarrow> True | Some d \<Rightarrow> \<exists>x. rs_get_datarate region (dr_u8 d) = Some (Some x)"
    using next_lower_datarate_total [OF assms(2), of "cfg_data_rate conf"] by (force split: option.splits)
  have r: "datarate_defined (state_region region) d" if "r = Some d" for d
    using n(2) that by (auto intro: datarate_definedI)
  have "conf' = conf \<or> (\<exists>d. r = Some d \<and> conf' = conf\<lparr>cfg_data_rate := d\<rparr>)" using assms(1) n(1)
    by (auto simp: rx2_complete_def Let_def split: if_splits option.splits)
  then show ?thesis using r assms(3) by (auto simp: rates_defined_def)
qed

lemma handle_rx_steady:
  assumes "handle_rx mk D bs dl max_payload_len snr ignore_mac x = Some (resp, dl', bs', y)" "rs_ok (cx_region x)"
  shows "steady x y"
proof -
  have longer: "steady x (x\<lparr>cx_session := s', cx_conf := conf'\<rparr>)"
    if "rx2_complete (cx_conf x) (cx_region x) (cx_session x) = Some (resp, s', conf')" for s' conf'
    using rx2_complete_rates [OF that assms(2)] by (simp add: steady_def)
  have accepted: "steady x z" if "handle_accepted mk D bs f c snr ignore_mac dl (set_uplink (\<lambda>_. u) x) = Some (resp, dl', bs', z)" for f c u z
    using handle_accepted_steady [OF that] by (simp add: steady_def set_uplink_def)
  obtain r where p: "encrypted_parse bs = Some r" using assms(1) unfolding handle_rx_def by (rule run_bindE)
  then show ?thesis
  proof (cases r)
    case (Inr v)
    show ?thesis
    proof (cases "length (dv_bytes v) > unat max_payload_len + MHDR_LEN + MIC_LEN")
      case True
      then show ?thesis using assms(1) p Inr longer by (auto simp: handle_rx_def elim!: run_bindE)
    next
      case False
      then obtain u wire where "(case next_fcnt_down (ss_fcnt_down (cx_session (set_uplink (\<lambda>_. u) x))) wire of
             None \<Rightarrow> Some (NoUpdate, dl, bs, set_uplink (\<lambda>_. u) x)
           | Some fcnt \<Rightarrow> do {
               ok \<leftarrow> validate_data_mic v (mk (ss_nwkskey (cx_session (set_uplink (\<lambda>_. u) x)))) fcnt;
               if ok then handle_accepted mk D bs fcnt (dv_is_confirmed v) snr ignore_mac dl (set_uplink (\<lambda>_. u) x)
               else Some (NoUpdate, dl, bs, set_uplink (\<lambda>_. u) x)}) = Some (resp, dl', bs', y)"
        using assms(1) unfolding handle_rx_def p Inr Option.bind.simps sum.case if_not_P [OF False] Let_def
        by (elim run_bindE) (rule that, assumption)
      then show ?thesis using accepted
        by (auto elim!: run_bindE split: option.splits if_splits)
    qed
  qed (use assms(1) in \<open>simp add: handle_rx_def\<close>)
qed

section \<open>Steps and runs of the MAC layer\<close>

definition mac_steady :: "mac \<Rightarrow> mac \<Rightarrow> bool" where
  "mac_steady m m' \<longleftrightarrow> state_region (mac_region m') = state_region (mac_region m) \<and>
     (rates_defined (state_region (mac_region m)) (mac_conf m) \<longrightarrow> rates_defined (state_region (mac_region m)) (mac_conf m'))"

lemma otaa_handle_rx_rates:
  assumes "otaa_handle_rx mk rx region conf ot = Some (s, rx', region', conf')"
  shows "state_region region' = state_region region \<and>
    (rates_defined (state_region region) conf \<longrightarrow> rates_defined (state_region region) conf')"
proof -
  obtain rx2 r where r: "ja_check_mic_and_decrypt rx (mk (nc_appkey (ot_credentials ot))) = Some (rx2, r)"
    using assms by (auto simp: otaa_handle_rx_def bind_eq_Some_conv)
  show ?thesis
  proof (cases r)
    case (Inr a)
    then obtain cf del dl d where a: "rs_process_join_accept cf region = Some region'"
      "rs_get_datarate region' (dr_u8 (rx2_data_rate dl)) = Some d"
      "conf' = (let conf1 = conf\<lparr>cfg_rx1_delay := del_to_delay_ms del\<rparr>;
          conf2 = (case rs_rx1_dr_offset_validate region' (rx1_dr_offset dl) of
                        Some v \<Rightarrow> conf1\<lparr>cfg_rx1_dr_offset := v\<rparr> | None \<Rightarrow> conf1)
        in (if d \<noteq> None then conf2\<lparr>cfg_rx2_data_rate := Some (rx2_data_rate dl)\<rparr> else conf2))"
      using assms r unfolding otaa_handle_rx_def by (auto elim!: run_bindE simp: Let_def)
    have rates: "cfg_data_rate conf' = cfg_data_rate conf"
      "cfg_rx2_data_rate conf' = (if d \<noteq> None then Some (rx2_data_rate dl) else cfg_rx2_data_rate conf)"
      unfolding a(3) Let_def by (auto split: option.splits)
    have "state_region region' = state_region region" using a(1) by (rule region_stays)
    then show ?thesis using datarate_definedI [OF a(2)] by (auto simp: rates_defined_def rates)
  qed (use assms r in \<open>simp add: otaa_handle_rx_def\<close>)
qed

lemma session_rx_steady:
  assumes "session_rx mk D buf dl n snr ign s m = Some (resp, buf', dl', m')" "rs_ok (mac_region m)"
  shows "mac_steady m m'"
  using assms(1) handle_rx_steady [of mk D _ dl n snr ign "\<lparr>cx_session = s, cx_conf = mac_conf m, cx_region = mac_region m\<rparr>"] assms(2)
  by (auto simp: session_rx_def bind_eq_Some_conv mac_steady_def steady_def)

lemma mac_step_steady:
  assumes "mac_step mk next_u32 m e m'" "mac_ok m"
  shows "mac_steady m m'"
proof -
  have ok: "rs_ok (mac_region m)" using assms(2) by (simp add: mac_ok_def)
  from assms(1) show ?thesis
  proof cases
    case step_join
    then show ?thesis by (auto simp: mac_join_otaa_def mac_steady_def bind_eq_Some_conv Let_def dest!: region_stays)
  next
    case step_send
    then show ?thesis
      by (auto simp: mac_send_def mac_steady_def bind_eq_Some_conv Let_def split: mac_state.splits dest!: region_stays)
  next
    case step_queue
    then show ?thesis by (auto simp: mac_add_uplink_def mac_steady_def bind_eq_Some_conv split: mac_state.splits)
  next
    case (step_rx buf D dl snr rf resp buf' dl')
    show ?thesis
    proof (cases "mac_state m")
      case (Joining ot)
      then show ?thesis using step_rx
        by (auto simp: mac_handle_rx_def mac_steady_def bind_eq_Some_conv Let_def split: option.splits dest!: otaa_handle_rx_rates)
    qed (use step_rx ok in \<open>auto simp: mac_handle_rx_def mac_steady_def dest: session_rx_steady\<close>)
  next
    case step_rxc
    then show ?thesis using ok
      by (auto simp: mac_handle_rxc_def split: mac_state.splits dest!: session_rx_steady)
  next
    case step_timeout
    then show ?thesis using rx2_complete_rates [OF _ ok]
      by (auto simp: mac_rx2_complete_def mac_steady_def bind_eq_Some_conv split: mac_state.splits)
  qed (auto simp: mac_steady_def mac_join_abp_def mac_set_session_def)
qed

lemma mac_run_steady:
  assumes "mac_run mk next_u32 m es m'" "mac_ok m" "cipher_ok mk"
  shows "mac_steady m m'"
  using assms
proof (induction rule: mac_run.induct)
  case (run_nil m)
  then show ?case by (simp add: mac_steady_def)
next
  case (run_cons m e m1 es m2)
  have "mac_ok m1" using mac_step_simulation [OF run_cons.hyps(1) run_cons.prems] by blast
  then have "mac_steady m1 m2" using run_cons.IH run_cons.prems(2) by blast
  then show ?case using mac_step_steady [OF run_cons.hyps(1) run_cons.prems(1)] by (auto simp: mac_steady_def)
qed

lemma mac_new_rates: "rates_defined r (mac_conf (mac_new (config_new r) max_power gain))"
  by (simp add: mac_new_def rates_defined_def rs_get_default_datarate_def default_rate_defined)

end
