(* ===== verification/MacProperties.thy ===== *)
theory MacProperties
  imports MacRates
begin

text \<open>
  The properties of the MAC layer: its invariant on every reachable state, the refinement of the
  abstract counters and what it means for a session, the calls that always return, and the windows that
  belong to an uplink.
\<close>

section \<open>Counters of a session\<close>

fun new_session :: "mac_event \<Rightarrow> bool" where
  "new_session (EvJoin _) = True"
| "new_session (EvActivate _) = True"
| "new_session (EvResponse r) = (r = JoinSuccess)"
| "new_session _ = False"

fun completes :: "mac_event \<Rightarrow> bool" where
  "completes (EvResponse r) = (case r of DownlinkReceived _ \<Rightarrow> True | NoAck \<Rightarrow> True | RxComplete \<Rightarrow> True | _ \<Rightarrow> False)"
| "completes _ = False"

fun downs :: "mac_event list \<Rightarrow> u32 list" where
  "downs [] = []"
| "downs (EvResponse (DownlinkReceived n) # es) = n # downs es"
| "downs (_ # es) = downs es"

fun sends :: "mac_event list \<Rightarrow> u32 list" where
  "sends [] = []"
| "sends (EvSent n # es) = n # sends es"
| "sends (_ # es) = sends es"

lemma downs_Cons: "downs (e # es) = (case e of EvResponse (DownlinkReceived n) \<Rightarrow> [n] | _ \<Rightarrow> []) @ downs es"
  by (cases e) (simp_all split: mac_response.split)

lemma sends_Cons: "sends (e # es) = (case e of EvSent n \<Rightarrow> [n] | _ \<Rightarrow> []) @ sends es"
  by (cases e) simp_all

definition after :: "u32 option \<Rightarrow> u32 \<Rightarrow> bool" where
  "after prev n \<longleftrightarrow> (case prev of None \<Rightarrow> True | Some k \<Rightarrow> k < n)"

lemma fresh_after: "fresh_counter d n \<Longrightarrow> after d n"
  by (auto simp: fresh_counter_def after_def word_less_nat_alt split: option.splits)

lemma after_trans: "after d n \<Longrightarrow> after (Some n) m \<Longrightarrow> after d m"
  by (auto simp: after_def split: option.splits)

text \<open>One step that does not start a session.\<close>

lemma counter_step_kept:
  assumes "counter_step (Some (u, d)) e b" "\<not> new_session e"
  shows "\<exists>u' d'. b = Some (u', d') \<and> unat u' = unat u + (if completes e then 1 else 0) \<and>
    (\<forall>n. after d' n \<longrightarrow> after d n) \<and>
    (case e of EvSent n \<Rightarrow> n = u | EvResponse (DownlinkReceived n) \<Rightarrow> after d n \<and> d' = Some n | _ \<Rightarrow> True)"
proof (cases e)
  case (EvResponse r)
  show ?thesis
  proof (cases r)
    case (DownlinkReceived n)
    then have n: "u \<noteq> 0xFFFFFFFF" "after d n" "b = Some (u + 1, Some n)"
      using assms EvResponse fresh_after by auto
    then show ?thesis using DownlinkReceived EvResponse after_trans [OF n(2)] by (simp add: unat_u32_Suc)
  next
    case SessionExpired
    then consider "b = Some (u, d)" | n where "fresh_counter d n" "b = Some (u, Some n)"
      using assms EvResponse by auto
    then show ?thesis
    proof cases
      case 1
      then show ?thesis using SessionExpired EvResponse by simp
    next
      case (2 n)
      then show ?thesis using SessionExpired EvResponse after_trans [OF fresh_after [OF 2(1)]] by simp
    qed
  qed (use assms EvResponse in \<open>simp_all add: completed_def unat_u32_Suc\<close>)
qed (use assms in simp_all)

lemma counter_run_kept:
  assumes "counter_run a es b" "a = Some (u, d)" "\<forall>e \<in> set es. \<not> new_session e"
  shows "\<exists>u' d'. b = Some (u', d') \<and> unat u' = unat u + length (filter completes es) \<and>
     sorted_wrt (<) (downs es) \<and> (\<forall>n \<in> set (downs es). after d n) \<and> sorted (sends es) \<and> (\<forall>n \<in> set (sends es). u \<le> n)"
  using assms
proof (induction arbitrary: u d rule: counter_run.induct)
  case (crun_nil a)
  then show ?case by simp
next
  case (crun_cons a e b es c)
  then obtain u1 d1 where s: "b = Some (u1, d1)" "unat u1 = unat u + (if completes e then 1 else 0)"
    "\<forall>n. after d1 n \<longrightarrow> after d n"
    "case e of EvSent n \<Rightarrow> n = u | EvResponse (DownlinkReceived n) \<Rightarrow> after d n \<and> d1 = Some n | _ \<Rightarrow> True"
    using counter_step_kept [of u d e b] by auto
  obtain u' d' where r: "c = Some (u', d')" "unat u' = unat u1 + length (filter completes es)"
    "sorted_wrt (<) (downs es)" "\<forall>n \<in> set (downs es). after d1 n" "sorted (sends es)" "\<forall>n \<in> set (sends es). u1 \<le> n"
    using crun_cons.IH [OF s(1)] crun_cons.prems(2) by auto
  have le: "u \<le> u1" using s(2) by (simp add: word_le_nat_alt)
  then have up: "\<forall>n \<in> set (sends es). u \<le> n" using r(6) by (meson order_trans)
  have "sorted_wrt (<) (downs (e # es))" "\<forall>n \<in> set (downs (e # es)). after d n"
    using r(3,4) s(3,4) by (auto simp: downs_Cons after_def split: mac_event.split mac_response.split)
  moreover have "sorted (sends (e # es))" "\<forall>n \<in> set (sends (e # es)). u \<le> n"
    using r(5) up s(4) by (auto simp: sends_Cons split: mac_event.split)
  ultimately show ?case using r(1,2) s(2) by simp
qed

section \<open>Properties\<close>

text \<open>C3. The states of the MAC layer are well formed: from a new device for a region, every sequence of joins,
  activations, uplinks, queued commands, received frames of any content and closed windows leads to a
  state of the same region whose channel plan is well formed, whose data rate for uplinks and whose data rate for the
  second window (when one was set) are defined in that region's table, whatever a join accept,
  \<open>LinkADRReq\<close>, \<open>RXParamSetupReq\<close> or the ADR back-off asked for, and whose session has keys, an address and a queue of
  answers of the shape the frame builders rely on. (The application's own \<open>set_datarate\<close> is not among the steps.)\<close>

theorem mac_reachable_ok:
  assumes "mac_run mk next_u32 (mac_new (config_new r) max_power gain) es m" "cipher_ok mk"
  shows "mac_ok m \<and> state_region (mac_region m) = r \<and> rates_defined r (mac_conf m)"
proof -
  have new: "mac_ok (mac_new (config_new r) max_power gain)"
    unfolding config_new_def by (rule mac_new_ok [OF state_new_ok])
  have "state_region (mac_region (mac_new (config_new r) max_power gain)) = r"
    by (cases r) (simp_all add: mac_new_def config_new_def)
  then have "state_region (mac_region m) = r" "rates_defined r (mac_conf m)"
    using mac_run_steady [OF assms(1) new assms(2)] mac_new_rates by (simp_all add: mac_steady_def)
  then show ?thesis using mac_run_simulation [OF assms(1) new assms(2)] by blast
qed

text \<open>C2. The MAC layer implements the abstract frame counters: every run of its methods, seen through the
  two counters of the session, is a run of the abstract machine, in which an uplink goes out under the
  current counter, an exchange advances it by one exactly once, a downlink is accepted only with a
  counter above the last one and at most 16384 ahead, and only joining or activating starts over.\<close>

theorem mac_counters_refine:
  assumes "mac_run mk next_u32 m es m'" "mac_ok m" "cipher_ok mk"
  shows "counter_run (counters_of m) es (counters_of m')"
  using mac_run_simulation [OF assms] by blast

text \<open>C1. Within a session, whatever is received: the counters of the accepted downlinks strictly increase, so
  no frame is delivered twice, and all lie above the one the session started with; the uplink counter is
  exactly the number of completed exchanges further, never wraps, and the uplinks go out in its order.\<close>

theorem session_counters:
  assumes "mac_run mk next_u32 m es m'" "mac_ok m" "cipher_ok mk"
    and "mac_state m = Joined s" "\<forall>e \<in> set es. \<not> new_session e"
  shows "\<exists>s'. mac_state m' = Joined s' \<and>
     unat (ss_fcnt_up s') = unat (ss_fcnt_up s) + length (filter completes es) \<and>
     sorted_wrt (<) (downs es) \<and> (\<forall>n \<in> set (downs es). after (ss_fcnt_down s) n) \<and> sorted (sends es)"
proof -
  have "counter_run (counters_of m) es (counters_of m')" using mac_run_simulation [OF assms(1-3)] by blast
  from counter_run_kept [OF this counters_Joined [OF assms(4)] assms(5)]
  show ?thesis by (cases "mac_state m'") (auto simp: counters_of_def)
qed

text \<open>A run to apply them to.\<close>

definition example_mac :: mac where
  "example_mac = mac_join_abp (replicate 16 1) (replicate 16 2) [1, 2, 3, 4] (mac_new (config_new EU868) 14 0)"

lemma example_mac_state: "mac_state example_mac = Joined (session_new (replicate 16 1) (replicate 16 2) [1, 2, 3, 4])"
  by (simp add: example_mac_def mac_join_abp_def)

lemma xor_cipher_ok: "cipher_ok (\<lambda>k. xor_crypto (k ! 0))"
  by (simp add: cipher_ok_def)

lemma example_activation:
  "mac_step (\<lambda>k. xor_crypto (k ! 0)) (\<lambda>n :: u32. (n, n + 1)) (mac_new (config_new EU868) 14 0)
     (EvActivate (session_new (replicate 16 1) (replicate 16 2) [1, 2, 3, 4])) example_mac"
  unfolding example_mac_def by (rule step_abp) simp_all

lemma example_mac_ok: "mac_ok example_mac"
proof -
  have "rs_ok (config_new EU868)" unfolding config_new_def by (rule state_new_ok)
  from mac_step_simulation [OF example_activation mac_new_ok [OF this] xor_cipher_ok] show ?thesis by blast
qed

text \<open>Two windows that close without a downlink.\<close>

lemma example_timeouts:
  obtains m where "mac_run (\<lambda>k. xor_crypto (k ! 0)) (\<lambda>n :: u32. (n, n + 1)) example_mac
     [EvResponse RxComplete, EvResponse RxComplete] m"
proof -
  have s: "\<exists>m' s'. mac_rx2_complete m = Some (RxComplete, m') \<and> mac_state m' = Joined s' \<and>
      ss_fcnt_up s' = ss_fcnt_up s + 1 \<and> \<not> ss_confirmed s'"
    if "mac_ok m" "mac_state m = Joined s" "\<not> ss_confirmed s" "ss_fcnt_up s \<noteq> 0xFFFFFFFF" for m s
  proof -
    have rok: "rs_ok (mac_region m)" using that(1) by (simp add: mac_ok_def)
    show ?thesis
      by (rule rx2_complete_cases [OF rok, of s "mac_conf m"]) (use that in \<open>auto simp: mac_rx2_complete_def\<close>)
  qed
  have c0: "\<not> ss_confirmed (session_new n a d)" "ss_fcnt_up (session_new n a d) = 0" for n a d
    by (simp_all add: session_new_def)
  obtain m1 s1 where m1: "mac_rx2_complete example_mac = Some (RxComplete, m1)" "mac_state m1 = Joined s1"
    "ss_fcnt_up s1 = 1" "\<not> ss_confirmed s1"
    using s [OF example_mac_ok example_mac_state] by (auto simp: c0)
  have ok: "mac_ok m1" using timeout_step [OF example_mac_ok m1(1)] by blast
  obtain m2 where m2: "mac_rx2_complete m1 = Some (RxComplete, m2)" using s [OF ok m1(2,4)] m1(3) by auto
  show thesis by (rule that, rule run_cons [OF step_timeout [OF m1(1)]], rule run_cons [OF step_timeout [OF m2] run_nil])
qed

lemma mac_reachable_ok_witness:
  "\<exists>es m. mac_run (\<lambda>k. xor_crypto (k ! 0)) (\<lambda>n :: u32. (n, n + 1)) (mac_new (config_new EU868) 14 0) es m \<and>
     length es = 3 \<and> mac_ok m \<and> rates_defined EU868 (mac_conf m)"
proof -
  obtain m where r: "mac_run (\<lambda>k. xor_crypto (k ! 0)) (\<lambda>n :: u32. (n, n + 1)) example_mac
     [EvResponse RxComplete, EvResponse RxComplete] m" by (rule example_timeouts)
  note run = run_cons [OF example_activation r]
  show ?thesis using run mac_reachable_ok [OF run xor_cipher_ok]
    by (intro exI [of _ "[_, EvResponse RxComplete, EvResponse RxComplete]"] exI [of _ m]) auto
qed

lemma mac_counters_refine_witness:
  "\<exists>m. counter_run (Some (0, None)) [EvResponse RxComplete, EvResponse RxComplete] (counters_of m)"
proof -
  obtain m where r: "mac_run (\<lambda>k. xor_crypto (k ! 0)) (\<lambda>n :: u32. (n, n + 1)) example_mac
     [EvResponse RxComplete, EvResponse RxComplete] m" by (rule example_timeouts)
  have "counters_of example_mac = Some (0, None)"
    using counters_Joined [OF example_mac_state] by (simp add: session_new_def)
  with mac_counters_refine [OF r example_mac_ok xor_cipher_ok] show ?thesis by auto
qed

lemma session_counters_witness:
  "\<exists>m s. mac_run (\<lambda>k. xor_crypto (k ! 0)) (\<lambda>n :: u32. (n, n + 1)) example_mac
     [EvResponse RxComplete, EvResponse RxComplete] m \<and> mac_state m = Joined s \<and> unat (ss_fcnt_up s) = 2"
proof -
  obtain m where r: "mac_run (\<lambda>k. xor_crypto (k ! 0)) (\<lambda>n :: u32. (n, n + 1)) example_mac
     [EvResponse RxComplete, EvResponse RxComplete] m" by (rule example_timeouts)
  have "\<forall>e \<in> set [EvResponse RxComplete, EvResponse RxComplete]. \<not> new_session e" by simp
  from session_counters [OF r example_mac_ok xor_cipher_ok example_mac_state this] r show ?thesis
    by (auto simp: session_new_def)
qed

section \<open>Calls that return\<close>

lemma mac_rx2_complete_total:
  assumes "mac_ok m"
  shows "\<exists>resp m'. mac_rx2_complete m = Some (resp, m')"
proof (cases "mac_state m")
  case (Joined s)
  have rok: "rs_ok (mac_region m)" using assms by (simp add: mac_ok_def)
  show ?thesis by (rule rx2_complete_cases [OF rok, of s "mac_conf m"]; simp add: mac_rx2_complete_def Joined)
qed (simp_all add: mac_rx2_complete_def)

text \<open>C6. The methods of the MAC layer that receive: closing the second window (\<open>rx2_complete\<close>), the handler of frames of
  a Class C window (\<open>handle_rxc\<close>) and the configuration of such a window (\<open>get_rxc_config\<close>) return in every well-formed
  state and for every content of the buffer; the handler of frames of a Class A window (\<open>handle_rx\<close>) returns too, except
  for two kinds of authentic frames, a data frame with a \<open>LinkADRReq\<close> of \<open>ChMaskCntl\<close> 4 and a join accept
  with RX2 data rate 15. This is the MAC layer alone: its callers convert the response, and there an oversized
  frame makes \<open>rxc_listen\<close> panic and a frame on a multicast port the non-blocking device.\<close>

theorem mac_reception_returns:
  assumes "mac_ok m" "cipher_ok mk" "rb_as_ref_for_read buf = Some rx"
  shows "mac_rx2_complete m \<noteq> None \<and> mac_handle_rxc mk D buf dl snr rf m \<noteq> None \<and> get_rxc_config m \<noteq> None \<and>
    (mac_handle_rx mk D buf dl snr rf m = None \<longrightarrow>
       (\<exists>s. mac_state m = Joined s \<and> ctl4_frame mk s rx) \<or> (\<exists>ot. mac_state m = Joining ot \<and> dr15_accept mk ot rx))"
proof (intro conjI impI)
  show "mac_rx2_complete m \<noteq> None" using mac_rx2_complete_total [OF assms(1)] by auto
  show "mac_handle_rxc mk D buf dl snr rf m \<noteq> None"
  proof (cases "mac_state m")
    case (Joined s)
    show ?thesis
      by (rule session_rx_outcome [OF assms(1,2) Joined assms(3), of D dl "rf_max_payload_len rf" snr True])
         (simp_all add: mac_handle_rxc_def Joined)
  qed (simp_all add: mac_handle_rxc_def)
  show "get_rxc_config m \<noteq> None"
    by (rule rx2_rf_config_total [OF assms(1), of "cfg_data_rate (mac_conf m)"]) (simp add: get_rxc_config_def)
  assume none: "mac_handle_rx mk D buf dl snr rf m = None"
  show "(\<exists>s. mac_state m = Joined s \<and> ctl4_frame mk s rx) \<or> (\<exists>ot. mac_state m = Joining ot \<and> dr15_accept mk ot rx)"
  proof (cases "mac_state m")
    case (Joined s)
    show ?thesis
      by (rule session_rx_outcome [OF assms(1,2) Joined assms(3), of D dl "rf_max_payload_len rf" snr False])
         (use none Joined in \<open>simp_all add: mac_handle_rx_def\<close>)
  next
    case (Joining ot)
    show ?thesis
      by (rule otaa_rx_outcome [OF assms(1,2) Joining assms(3), of D dl snr rf]) (use none Joining in simp_all)
  qed (use none in \<open>simp add: mac_handle_rx_def\<close>)
qed

lemma mac_reception_returns_witness:
  "mac_handle_rx (\<lambda>k. xor_crypto (k ! 0)) 1 (rb_new 256) [] 7 \<lparr>rf_frequency = 868100000, rf_bb = bbmp_new SF_7 BW_125KHz CR_4_5,
     rf_max_payload_len = 51\<rparr> example_mac \<noteq> None"
proof -
  have r: "rb_as_ref_for_read (rb_new 256) = Some []" by (simp add: rb_as_ref_for_read_def rb_new_def)
  have "\<not> ctl4_frame mk s []" for mk :: "bytes \<Rightarrow> unit network_crypto_ext crypto_scheme" and s
    by (auto simp: ctl4_frame_def encrypted_parse_def layout_validate_def)
  then show ?thesis using mac_reception_returns [OF example_mac_ok xor_cipher_ok r] example_mac_state by fastforce
qed

section \<open>Uplinks\<close>

text \<open>The channel a transmission uses.\<close>

lemma mac_send_channel:
  assumes "mac_ok m" "cipher_ok mk" "mac_send mk next_u32 rng buf data m = Some (Inr (tx, w, n), rng', buf', m')"
    and "maxp = (case cfg_tx_power (mac_conf m) of Some p \<Rightarrow> p | None \<Rightarrow> be_max_power (mac_eirp m))"
  obtains t s tx0 where
    "rs_select_tx_channel next_u32 rng (cfg_data_rate (mac_conf m)) Data (mac_region m) = Some ((t, rng'), mac_region m')"
    "tx = adjust_power maxp (be_antenna_gain (mac_eirp m)) tx0" "rf_frequency (tx_rf tx) = txc_frequency t"
    "rf_max_payload_len (tx_rf tx) = dtr_max_mac_payload_size (txc_datarate t)" "rf_frequency (rw_rx1 w) = txc_rx1_frequency t"
    "rf_frequency (rw_rx2 w) = (case cfg_rx2_frequency (mac_conf m) of Some f \<Rightarrow> f | None \<Rightarrow> rs_get_rx2_frequency (mac_region m'))"
    "mac_state m = Joined s" "n = ss_fcnt_up s" "mac_conf m' = mac_conf m"
proof -
  obtain s where s: "mac_state m = Joined s" using assms(3) by (cases "mac_state m") (simp_all add: mac_send_def)
  have ok': "mac_ok m'" using send_step [OF assms(1-3)] by blast
  from assms(3) obtain s' tx0 t where c:
    "prepare_buffer mk data buf (mac_conf m) (mac_region m) s = Some (n, buf', s')"
    "rs_create_tx_config next_u32 rng (cfg_data_rate (mac_conf m)) Data (mac_region m) = Some ((tx0, t, rng'), mac_region m')"
    "tx = adjust_power maxp (be_antenna_gain (mac_eirp m)) tx0" "mac_rx_windows t m' = Some w" "mac_conf m' = mac_conf m"
    unfolding assms(4) by (auto simp: mac_send_def s bind_eq_Some_conv Let_def cong: option.case_cong)
  have n: "n = ss_fcnt_up s"
    by (rule mac_send_outcome [OF assms(1,2) s, of data buf next_u32 rng]) (use assms(3) in auto)
  from c(2) obtain pw where sel: "rs_select_tx_channel next_u32 rng (cfg_data_rate (mac_conf m)) Data (mac_region m) = Some ((t, rng'), mac_region m')"
    and tx0: "tx_rf tx0 = \<lparr>rf_frequency = txc_frequency t, rf_bb = pw, rf_max_payload_len = dtr_max_mac_payload_size (txc_datarate t)\<rparr>"
    by (auto simp: rs_create_tx_config_def bind_eq_Some_conv)
  have tx: "tx_rf tx = tx_rf tx0" by (simp add: c(3) adjust_power_def Let_def)
  have "rf_frequency (rw_rx1 w) = txc_rx1_frequency t \<and>
     rf_frequency (rw_rx2 w) = (case cfg_rx2_frequency (mac_conf m) of Some f \<Rightarrow> f | None \<Rightarrow> rs_get_rx2_frequency (mac_region m'))"
    by (rule mac_rx_windows_total [OF ok', of t]) (use c(4,5) in simp)
  then show thesis using sel tx0 tx n s c(3,5) by (intro that) auto
qed

text \<open>C17. The transmission and its windows belong together: an uplink goes out on a channel that the region's
  plan selects for the configured data rate, the first window listens on the frequency paired with
  that very channel, the second on the network's or the region's RX2 frequency, the power is at most
  the one the network assigned (or the board's maximum when it assigned none), and the frame counter is the session's.\<close>

theorem uplink_windows:
  assumes "mac_ok m" "cipher_ok mk" "mac_send mk next_u32 rng buf data m = Some (Inr (tx, w, n), rng', buf', m')"
    and "maxp = (case cfg_tx_power (mac_conf m) of Some p \<Rightarrow> p | None \<Rightarrow> be_max_power (mac_eirp m))" "maxp \<le> 127"
  shows "\<exists>t s. rs_select_tx_channel next_u32 rng (cfg_data_rate (mac_conf m)) Data (mac_region m) = Some ((t, rng'), mac_region m') \<and>
    rf_frequency (tx_rf tx) = txc_frequency t \<and> rf_max_payload_len (tx_rf tx) = dtr_max_mac_payload_size (txc_datarate t) \<and>
    rf_frequency (rw_rx1 w) = txc_rx1_frequency t \<and>
    rf_frequency (rw_rx2 w) = (case cfg_rx2_frequency (mac_conf m) of Some f \<Rightarrow> f | None \<Rightarrow> rs_get_rx2_frequency (mac_region m')) \<and>
    sint (tx_pw tx) \<le> uint maxp \<and> mac_get_session m = Some s \<and> n = ss_fcnt_up s \<and> mac_conf m' = mac_conf m"
proof (rule mac_send_channel [OF assms(1-4)])
  fix t s tx0
  assume "tx = adjust_power maxp (be_antenna_gain (mac_eirp m)) tx0"
  then have "sint (tx_pw tx) \<le> uint maxp" using adjust_power_le [OF assms(5)] by simp
  moreover assume "rs_select_tx_channel next_u32 rng (cfg_data_rate (mac_conf m)) Data (mac_region m) = Some ((t, rng'), mac_region m')"
    "rf_frequency (tx_rf tx) = txc_frequency t" "rf_max_payload_len (tx_rf tx) = dtr_max_mac_payload_size (txc_datarate t)"
    "rf_frequency (rw_rx1 w) = txc_rx1_frequency t"
    "rf_frequency (rw_rx2 w) = (case cfg_rx2_frequency (mac_conf m) of Some f \<Rightarrow> f | None \<Rightarrow> rs_get_rx2_frequency (mac_region m'))"
    "mac_state m = Joined s" "n = ss_fcnt_up s" "mac_conf m' = mac_conf m"
  ultimately show ?thesis by (auto simp: mac_get_session_def)
qed

abbreviation example_data :: send_data where
  "example_data \<equiv> \<lparr>sd_data = [5, 6], sd_fport = 1, sd_confirmed = False\<rparr>"

lemma example_send:
  obtains tx w rng' buf' m' where "mac_send (\<lambda>k. xor_crypto (k ! 0)) (\<lambda>n. (n, n + 1)) 0 (rb_new 256) example_data example_mac
     = Some (Inr (tx, w, 0), rng', buf', m')" "rb_ok buf'"
proof -
  let ?next = "\<lambda>n :: u32. (n, n + 1)" and ?mk = "\<lambda>k :: bytes. xor_crypto (k ! 0)" and ?m = example_mac
  let ?s = "session_new (replicate 16 1) (replicate 16 2) [1, 2, 3, 4]" and ?p = "dyn_new eu868_region eu868_freq_check"
  have m: "mac_region ?m = St_EU868 ?p" "cfg_data_rate (mac_conf ?m) = DR0" "cfg_tx_power (mac_conf ?m) = None"
    "be_max_power (mac_eirp ?m) = 14" "cfg_rx2_frequency (mac_conf ?m) = None"
    by (simp_all add: example_mac_def mac_join_abp_def mac_new_def config_new_def rs_get_default_datarate_def)
  have d: "datarate_unwrap eu868_region DR0 = Some (the (cr_datarates eu868_region ! 0))"
    by (simp add: datarate_unwrap_def idx_def region_defs table_defs)
  have u: "dyn_usable ?p (dyn_index ?p (rng_draw ?next 0 0))"
    by (simp add: dyn_usable_def dyn_index_def dyn_new_def mask_on_def channel_mask_default_def
        region_defs eu868_init_channels_def NUM_CHANNELS_DYNAMIC_def)
  have R: "eu868_region \<in> set dynamic_regions" by (simp add: dynamic_regions_def)
  have "dyn_select_tx_channel ?next eu868_region 0 DR0 Data ?p \<noteq> None"
    using dyn_select_data_iff [OF R dyn_new_ok [OF R] d, of ?next 0 eu868_freq_check] u by blast
  then have "rs_create_tx_config ?next 0 (cfg_data_rate (mac_conf ?m)) Data (mac_region ?m) \<noteq> None"
    unfolding rs_create_tx_config_iff m by (simp add: rs_select_tx_channel_def)
  moreover have "sendable example_data (rb_new 256) ?s"
    by (simp add: sendable_def sent_len_def rb_new_def session_new_def uplink_default_def)
  moreover have "ss_fcnt_up ?s = 0" by (simp add: session_new_def)
  ultimately show thesis
    by (rule_tac mac_send_outcome [OF example_mac_ok xor_cipher_ok example_mac_state, of example_data "rb_new 256" ?next 0])
       (auto intro: that)
qed

lemma uplink_windows_witness:
  "\<exists>tx w rng' buf' m'. mac_send (\<lambda>k. xor_crypto (k ! 0)) (\<lambda>n. (n, n + 1)) 0 (rb_new 256)
       \<lparr>sd_data = [5, 6], sd_fport = 1, sd_confirmed = False\<rparr> example_mac = Some (Inr (tx, w, 0), rng', buf', m') \<and>
     rf_frequency (rw_rx2 w) = rs_get_rx2_frequency (mac_region m') \<and> sint (tx_pw tx) \<le> 14"
proof -
  obtain tx w rng' buf' m' where r: "mac_send (\<lambda>k. xor_crypto (k ! 0)) (\<lambda>n. (n, n + 1)) 0 (rb_new 256) example_data example_mac
     = Some (Inr (tx, w, 0), rng', buf', m')" by (rule example_send)
  have m: "14 = (case cfg_tx_power (mac_conf example_mac) of Some p \<Rightarrow> p | None \<Rightarrow> be_max_power (mac_eirp example_mac))"
    "cfg_rx2_frequency (mac_conf example_mac) = None"
    by (simp_all add: example_mac_def mac_join_abp_def mac_new_def)
  from uplink_windows [OF example_mac_ok xor_cipher_ok r m(1)] r m(2) show ?thesis by auto
qed

end
