(* ===== verification/NbDevice.thy ===== *)
theory NbDevice
  imports MacProperties
begin

text \<open>
  The non-blocking device (\<open>lorawan-device/src/nb_device/{mod,state,radio}.rs\<close>): one definition per state
  of its state machine, and the methods of \<open>Device\<close>. The radio implements the trait \<open>PhyRxTx\<close> (and
  \<open>Timings\<close>) outside the crate, so it is a parameter: a record of the trait's functions over a state of
  its own.
\<close>

section \<open>The radio\<close>

datatype 'p radio_event = TxRequest tx_config bytes | RxRequest rf_config | CancelRx | PhyEvent 'p

datatype 'q radio_response = RadioIdle | Txing | Rxing | TxDone u32 | RxDone rx_quality | PhyResponse 'q

record ('w, 'p, 'q, 'e) phy =
  phy_handle_event :: "'p radio_event \<Rightarrow> 'w \<Rightarrow> ('e + 'q radio_response) \<times> 'w"
  phy_received_packet :: "'w \<Rightarrow> bytes"
  phy_window_offset_ms :: "'w \<Rightarrow> u32"
  phy_window_duration_ms :: "'w \<Rightarrow> u32"
  phy_antenna_gain :: i8
  phy_max_radio_power :: u8

section \<open>Events, responses and states\<close>

datatype 'p nb_event = NbJoin network_credentials | NbSendData send_data | NbRadioEvent "'p radio_event" | NbTimeoutFired

datatype nb_response = NbNoUpdate | TimeoutRequest u32 | JoinRequestSending | NbJoinSuccess | NbNoJoinAccept
  | UplinkSending u32 | NbDownlinkReceived u32 | NbNoAck | ReadyToSend | NbSessionExpired | NbRxComplete

datatype nb_state_error = RadioEventWhileIdle | RadioEventWhileWaitingForRxWindow | NewSessionWhileWaitingForRxWindow
  | SendDataWhileWaitingForRxWindow | TxRequestDuringTx | NewSessionWhileWaitingForRx | SendDataWhileWaitingForRx
  | BufferTooSmall | UnexpectedRadioResponse

datatype 'e nb_error = NbRadio 'e | NbState nb_state_error | NbMac mac_layer_error

text \<open>\<open>impl From<Response> for nb_device::Response\<close>; \<open>unimplemented!()\<close> panics.\<close>

fun nb_response_of :: "mac_response \<Rightarrow> nb_response run" where
  "nb_response_of SessionExpired = Some NbSessionExpired"
| "nb_response_of (DownlinkReceived fcnt) = Some (NbDownlinkReceived fcnt)"
| "nb_response_of NoAck = Some NbNoAck"
| "nb_response_of NoJoinAccept = Some NbNoJoinAccept"
| "nb_response_of JoinSuccess = Some NbJoinSuccess"
| "nb_response_of NoUpdate = Some NbNoUpdate"
| "nb_response_of RxComplete = Some NbRxComplete"
| "nb_response_of LinkCheckReqResponse = None"

datatype rx_slot = Rx1 u32 | Rx2 u32

fun slot_window :: "rx_slot \<Rightarrow> window" where
  "slot_window (Rx1 _) = Window1"
| "slot_window (Rx2 _) = Window2"

datatype nb_state = Idle | SendingData frame rx_windows | WaitingForRxWindow frame rx_windows rx_slot
  | WaitingForRx frame rx_windows rx_slot rf_config

record ('w, 'r) nb_shared =
  sh_radio :: 'w
  sh_rng :: 'r
  sh_tx_buffer :: radio_buffer
  sh_mac :: mac
  sh_downlink :: "downlink list"

type_synonym ('w, 'r, 'e) nb_outcome = "((nb_state \<times> ('e nb_error + nb_response)) \<times> ('w, 'r) nb_shared) run"

section \<open>The state machine\<close>

text \<open>\<open>radio.handle_event(event)\<close>, with the radio's new state put back.\<close>

definition sh_radio_event ::
  "('w, 'p, 'q, 'e) phy \<Rightarrow> 'p radio_event \<Rightarrow> ('w, 'r) nb_shared \<Rightarrow> ('e + 'q radio_response) \<times> ('w, 'r) nb_shared" where
  "sh_radio_event R ev sh = (let (r, w) = phy_handle_event R ev (sh_radio sh) in (r, sh\<lparr>sh_radio := w\<rparr>))"

text \<open>The \<open>i32\<close> sum wraps like the word sum in a release build.\<close>

definition data_rxwindow1_timeout ::
  "('w, 'p, 'q, 'e) phy \<Rightarrow> frame \<Rightarrow> rx_windows \<Rightarrow> u32 \<Rightarrow> ('w, 'r) nb_shared \<Rightarrow> ('w, 'r, 'e) nb_outcome" where
  "data_rxwindow1_timeout R fr w timestamp_ms sh =
     (let delay = get_rx_delay fr Window1 (sh_mac sh);
          t1 = delay + timestamp_ms + phy_window_offset_ms R (sh_radio sh)
      in Some ((WaitingForRxWindow fr w (Rx1 t1), Inr (TimeoutRequest t1)), sh))"

text \<open>The end of \<open>Idle::handle_event\<close>: the transmission is handed to the radio.\<close>

definition idle_radio_tx ::
  "('w, 'p, 'q, 'e) phy \<Rightarrow> frame \<Rightarrow> tx_config \<Rightarrow> rx_windows \<Rightarrow> u32 \<Rightarrow> ('w, 'r) nb_shared \<Rightarrow> ('w, 'r, 'e) nb_outcome" where
  "idle_radio_tx R fr tx w fcnt_up sh = do {
     packet \<leftarrow> rb_as_ref_for_read (sh_tx_buffer sh);
     (case sh_radio_event R (TxRequest tx packet) sh of
        (Inr Txing, sh') \<Rightarrow> Some ((SendingData fr w, Inr (UplinkSending fcnt_up)), sh')
      | (Inr (TxDone ms), sh') \<Rightarrow> data_rxwindow1_timeout R fr w ms sh'
      | (Inr _, sh') \<Rightarrow> Some ((Idle, Inl (NbState UnexpectedRadioResponse)), sh')
      | (Inl e, sh') \<Rightarrow> Some ((Idle, Inl (NbRadio e)), sh'))}"

definition idle_handle_event ::
  "(bytes \<Rightarrow> 'x crypto_scheme) \<Rightarrow> ('r \<Rightarrow> u32 \<times> 'r) \<Rightarrow> ('w, 'p, 'q, 'e) phy \<Rightarrow> 'p nb_event \<Rightarrow> ('w, 'r) nb_shared
    \<Rightarrow> ('w, 'r, 'e) nb_outcome" where
  "idle_handle_event mk next_u32 R event sh = (case event of
      NbJoin creds \<Rightarrow> do {
        ((tx, w, dev_nonce), rng', buf', m') \<leftarrow>
          mac_join_otaa mk next_u32 (sh_rng sh) creds (sh_tx_buffer sh) (sh_mac sh);
        idle_radio_tx R Join tx w (ucast dev_nonce) (sh\<lparr>sh_rng := rng', sh_tx_buffer := buf', sh_mac := m'\<rparr>)}
    | NbTimeoutFired \<Rightarrow> Some ((Idle, Inr NbNoUpdate), sh)
    | NbRadioEvent _ \<Rightarrow> Some ((Idle, Inl (NbState RadioEventWhileIdle)), sh)
    | NbSendData data \<Rightarrow> do {
        (r, rng', buf', m') \<leftarrow> mac_send mk next_u32 (sh_rng sh) (sh_tx_buffer sh) data (sh_mac sh);
        let sh' = sh\<lparr>sh_rng := rng', sh_tx_buffer := buf', sh_mac := m'\<rparr>;
        (case r of
           Inl e \<Rightarrow> Some ((Idle, Inl (NbMac e)), sh')
         | Inr (tx, w, fcnt_up) \<Rightarrow> idle_radio_tx R Data tx w fcnt_up sh')})"

definition sending_handle_event ::
  "('w, 'p, 'q, 'e) phy \<Rightarrow> frame \<Rightarrow> rx_windows \<Rightarrow> 'p nb_event \<Rightarrow> ('w, 'r) nb_shared \<Rightarrow> ('w, 'r, 'e) nb_outcome" where
  "sending_handle_event R fr w event sh = (case event of
      NbRadioEvent ev \<Rightarrow>
        (case sh_radio_event R ev sh of
           (Inr (TxDone ms), sh') \<Rightarrow> data_rxwindow1_timeout R fr w ms sh'
         | (Inr _, sh') \<Rightarrow> None
         | (Inl e, sh') \<Rightarrow> Some ((SendingData fr w, Inl (NbRadio e)), sh'))
    | NbTimeoutFired \<Rightarrow> Some ((SendingData fr w, Inr NbNoUpdate), sh)
    | NbJoin _ \<Rightarrow> Some ((SendingData fr w, Inl (NbState TxRequestDuringTx)), sh)
    | NbSendData _ \<Rightarrow> Some ((SendingData fr w, Inl (NbState TxRequestDuringTx)), sh))"

text \<open>When the window that just opened is to be closed.\<close>

definition window_close :: "('w, 'p, 'q, 'e) phy \<Rightarrow> frame \<Rightarrow> rx_slot \<Rightarrow> ('w, 'r) nb_shared \<Rightarrow> u32" where
  "window_close R fr slot sh =
     (let duration = phy_window_duration_ms R (sh_radio sh)
      in case slot of
        Rx1 time \<Rightarrow>
          (let between = get_rx_delay fr Window2 (sh_mac sh) - get_rx_delay fr (slot_window slot) (sh_mac sh)
           in if between > duration then time + duration else time + between)
      | Rx2 time \<Rightarrow> time + duration)"

definition waiting_window_handle_event ::
  "('w, 'p, 'q, 'e) phy \<Rightarrow> frame \<Rightarrow> rx_windows \<Rightarrow> rx_slot \<Rightarrow> 'p nb_event \<Rightarrow> ('w, 'r) nb_shared \<Rightarrow> ('w, 'r, 'e) nb_outcome" where
  "waiting_window_handle_event R fr w slot event sh = (case event of
      NbTimeoutFired \<Rightarrow>
        (let rf = rw_get (slot_window slot) w
         in case sh_radio_event R (RxRequest rf) sh of
              (Inr _, sh') \<Rightarrow> Some ((WaitingForRx fr w slot rf, Inr (TimeoutRequest (window_close R fr slot sh'))), sh')
            | (Inl e, sh') \<Rightarrow> Some ((WaitingForRxWindow fr w slot, Inl (NbRadio e)), sh'))
    | NbRadioEvent _ \<Rightarrow> Some ((WaitingForRxWindow fr w slot, Inl (NbState RadioEventWhileWaitingForRxWindow)), sh)
    | NbJoin _ \<Rightarrow> Some ((WaitingForRxWindow fr w slot, Inl (NbState NewSessionWhileWaitingForRxWindow)), sh)
    | NbSendData _ \<Rightarrow> Some ((WaitingForRxWindow fr w slot, Inl (NbState SendDataWhileWaitingForRxWindow)), sh))"

text \<open>A received packet is copied from the radio into the buffer of the device and handed to the MAC.\<close>

definition waiting_rx_done ::
  "(bytes \<Rightarrow> 'x crypto_scheme) \<Rightarrow> nat \<Rightarrow> ('w, 'p, 'q, 'e) phy \<Rightarrow> frame \<Rightarrow> rx_windows \<Rightarrow> rx_slot \<Rightarrow> rf_config \<Rightarrow> rx_quality
    \<Rightarrow> ('w, 'r) nb_shared \<Rightarrow> ('w, 'r, 'e) nb_outcome" where
  "waiting_rx_done mk D R fr w slot rf quality sh = do {
     (buf, ok) \<leftarrow> rb_extend_from_slice (phy_received_packet R (sh_radio sh)) (rb_clear (sh_tx_buffer sh));
     if ok = Inl () then Some ((WaitingForRx fr w slot rf, Inl (NbState BufferTooSmall)), sh\<lparr>sh_tx_buffer := buf\<rparr>)
     else do {
       (resp, buf', dl', m') \<leftarrow> mac_handle_rx mk D buf (sh_downlink sh) (rxq_snr quality) rf (sh_mac sh);
       let sh' = sh\<lparr>sh_tx_buffer := buf', sh_downlink := dl', sh_mac := m'\<rparr>;
       (case resp of
          NoUpdate \<Rightarrow> Some ((WaitingForRx fr w slot rf, Inr NbNoUpdate), sh')
        | r \<Rightarrow> do { r' \<leftarrow> nb_response_of r; Some ((Idle, Inr r'), sh')})}}"

definition waiting_rx_handle_event ::
  "(bytes \<Rightarrow> 'x crypto_scheme) \<Rightarrow> nat \<Rightarrow> ('w, 'p, 'q, 'e) phy \<Rightarrow> frame \<Rightarrow> rx_windows \<Rightarrow> rx_slot \<Rightarrow> rf_config \<Rightarrow> 'p nb_event
    \<Rightarrow> ('w, 'r) nb_shared \<Rightarrow> ('w, 'r, 'e) nb_outcome" where
  "waiting_rx_handle_event mk D R fr w slot rf event sh = (case event of
      NbRadioEvent ev \<Rightarrow>
        (case sh_radio_event R ev sh of
           (Inr (RxDone quality), sh') \<Rightarrow> waiting_rx_done mk D R fr w slot rf quality sh'
         | (Inr _, sh') \<Rightarrow> Some ((WaitingForRx fr w slot rf, Inr NbNoUpdate), sh')
         | (Inl e, sh') \<Rightarrow> Some ((WaitingForRx fr w slot rf, Inl (NbRadio e)), sh'))
    | NbTimeoutFired \<Rightarrow>
        (case sh_radio_event R CancelRx sh of
           (Inl e, sh') \<Rightarrow> Some ((WaitingForRx fr w slot rf, Inl (NbRadio e)), sh')
         | (Inr _, sh') \<Rightarrow>
             (case slot of
                Rx1 t1 \<Rightarrow>
                  (let between = get_rx_delay fr Window2 (sh_mac sh') - get_rx_delay fr Window1 (sh_mac sh');
                       t2 = t1 + between
                   in Some ((WaitingForRxWindow fr w (Rx2 t2), Inr (TimeoutRequest t2)), sh'))
              | Rx2 _ \<Rightarrow> do {
                  (resp, m') \<leftarrow> mac_rx2_complete (sh_mac sh');
                  r \<leftarrow> nb_response_of resp;
                  Some ((Idle, Inr r), sh'\<lparr>sh_mac := m'\<rparr>)}))
    | NbJoin _ \<Rightarrow> Some ((WaitingForRx fr w slot rf, Inl (NbState NewSessionWhileWaitingForRx)), sh)
    | NbSendData _ \<Rightarrow> Some ((WaitingForRx fr w slot rf, Inl (NbState SendDataWhileWaitingForRx)), sh))"

definition state_handle_event ::
  "(bytes \<Rightarrow> 'x crypto_scheme) \<Rightarrow> nat \<Rightarrow> ('r \<Rightarrow> u32 \<times> 'r) \<Rightarrow> ('w, 'p, 'q, 'e) phy \<Rightarrow> nb_state \<Rightarrow> 'p nb_event
    \<Rightarrow> ('w, 'r) nb_shared \<Rightarrow> ('w, 'r, 'e) nb_outcome" where
  "state_handle_event mk D next_u32 R s event sh = (case s of
      Idle \<Rightarrow> idle_handle_event mk next_u32 R event sh
    | SendingData fr w \<Rightarrow> sending_handle_event R fr w event sh
    | WaitingForRxWindow fr w slot \<Rightarrow> waiting_window_handle_event R fr w slot event sh
    | WaitingForRx fr w slot rf \<Rightarrow> waiting_rx_handle_event mk D R fr w slot rf event sh)"

section \<open>The device\<close>

record ('w, 'r) nb_device =
  nd_state :: nb_state
  nd_shared :: "('w, 'r) nb_shared"

definition nb_new :: "('w, 'p, 'q, 'e) phy \<Rightarrow> nat \<Rightarrow> region_state \<Rightarrow> 'w \<Rightarrow> 'r \<Rightarrow> ('w, 'r) nb_device" where
  "nb_new R N region radio rng =
     \<lparr>nd_state = Idle,
      nd_shared = \<lparr>sh_radio = radio, sh_rng = rng, sh_tx_buffer = rb_new N,
        sh_mac = mac_new region (phy_max_radio_power R) (phy_antenna_gain R), sh_downlink = []\<rparr>\<rparr>"

definition nb_handle_event ::
  "(bytes \<Rightarrow> 'x crypto_scheme) \<Rightarrow> nat \<Rightarrow> ('r \<Rightarrow> u32 \<times> 'r) \<Rightarrow> ('w, 'p, 'q, 'e) phy \<Rightarrow> 'p nb_event \<Rightarrow> ('w, 'r) nb_device
    \<Rightarrow> (('e nb_error + nb_response) \<times> ('w, 'r) nb_device) run" where
  "nb_handle_event mk D next_u32 R event d = do {
     ((s', result), sh') \<leftarrow> state_handle_event mk D next_u32 R (nd_state d) event (nd_shared d);
     Some (result, \<lparr>nd_state = s', nd_shared = sh'\<rparr>)}"

datatype join_mode = OTAA bytes bytes bytes | ABP bytes bytes bytes

definition nb_set_mac :: "(mac \<Rightarrow> mac) \<Rightarrow> ('w, 'r) nb_device \<Rightarrow> ('w, 'r) nb_device" where
  "nb_set_mac f d = d\<lparr>nd_shared := (nd_shared d)\<lparr>sh_mac := f (sh_mac (nd_shared d))\<rparr>\<rparr>"

text \<open>\<open>OTAA\<close> carries the EUIs and the key in the order deveui, appeui, appkey; \<open>ABP\<close> carries nwkskey, appskey, devaddr.\<close>

definition nb_join ::
  "(bytes \<Rightarrow> 'x crypto_scheme) \<Rightarrow> nat \<Rightarrow> ('r \<Rightarrow> u32 \<times> 'r) \<Rightarrow> ('w, 'p, 'q, 'e) phy \<Rightarrow> join_mode \<Rightarrow> ('w, 'r) nb_device
    \<Rightarrow> (('e nb_error + nb_response) \<times> ('w, 'r) nb_device) run" where
  "nb_join mk D next_u32 R mode d = (case mode of
      OTAA deveui appeui appkey \<Rightarrow> nb_handle_event mk D next_u32 R (NbJoin (network_credentials_new appeui deveui appkey)) d
    | ABP nwkskey appskey devaddr \<Rightarrow> Some (Inr NbJoinSuccess, nb_set_mac (mac_join_abp nwkskey appskey devaddr) d))"

definition nb_send ::
  "(bytes \<Rightarrow> 'x crypto_scheme) \<Rightarrow> nat \<Rightarrow> ('r \<Rightarrow> u32 \<times> 'r) \<Rightarrow> ('w, 'p, 'q, 'e) phy \<Rightarrow> bytes \<Rightarrow> u8 \<Rightarrow> bool \<Rightarrow> ('w, 'r) nb_device
    \<Rightarrow> (('e nb_error + nb_response) \<times> ('w, 'r) nb_device) run" where
  "nb_send mk D next_u32 R data fport confirmed d =
     nb_handle_event mk D next_u32 R (NbSendData \<lparr>sd_data = data, sd_fport = fport, sd_confirmed = confirmed\<rparr>) d"

definition nb_set_datarate :: "DR \<Rightarrow> ('w, 'r) nb_device \<Rightarrow> ('w, 'r) nb_device" where
  "nb_set_datarate dr = nb_set_mac (\<lambda>m. m\<lparr>mac_conf := (mac_conf m)\<lparr>cfg_data_rate := dr\<rparr>\<rparr>)"

definition nb_set_adr :: "bool \<Rightarrow> ('w, 'r) nb_device \<Rightarrow> ('w, 'r) nb_device" where
  "nb_set_adr enabled = nb_set_mac (\<lambda>m.
     let m' = m\<lparr>mac_conf := (mac_conf m)\<lparr>cfg_adr_enabled := enabled\<rparr>\<rparr>
     in if enabled then m'
        else case mac_state m' of Joined s \<Rightarrow> m'\<lparr>mac_state := Joined (s\<lparr>ss_adr_ack_cnt := 0\<rparr>)\<rparr> | _ \<Rightarrow> m')"

definition nb_ready_to_send_data :: "('w, 'r) nb_device \<Rightarrow> bool" where
  "nb_ready_to_send_data d \<longleftrightarrow> nd_state d = Idle \<and> mac_is_joined (sh_mac (nd_shared d))"

text \<open>\<open>Vec::pop\<close> takes the last element.\<close>

definition nb_take_downlink :: "('w, 'r) nb_device \<Rightarrow> downlink option \<times> ('w, 'r) nb_device" where
  "nb_take_downlink d =
     (let dl = sh_downlink (nd_shared d)
      in if dl = [] then (None, d)
         else (Some (last dl), d\<lparr>nd_shared := (nd_shared d)\<lparr>sh_downlink := butlast dl\<rparr>\<rparr>))"

end
