(* ===== verification/AsyncDevice.thy ===== *)
theory AsyncDevice
  imports NbDevice
begin

text \<open>
  The asynchronous device (\<open>lorawan-device/src/async_device/{mod,radio}.rs\<close>). An \<open>await\<close> is a call whose result
  is the value the future completes with; a future that never completes is the value \<open>None\<close>, and one that is
  dropped before it completes is outside the model. The radio and the timer implement traits outside the crate, so they are
  parameters: a record of the traits' functions over states of their own, with one more function for the race
  between a reception and the timer that \<open>select\<close> decides.
\<close>

section \<open>Radio and timer\<close>

datatype rx_status = Rx nat rx_quality | RxTimeout

text \<open>A reception gets the whole buffer as \<open>&mut [u8]\<close> and gives it back. In a race, \<open>None\<close> is the timer.\<close>

record ('w, 't, 'e) async_phy =
  ap_tx :: "tx_config \<Rightarrow> bytes \<Rightarrow> 'w \<Rightarrow> (('e + u32) \<times> 'w) run"
  ap_setup_rx :: "rx_config \<Rightarrow> 'w \<Rightarrow> (('e + unit) \<times> 'w) run"
  ap_rx_continuous :: "bytes \<Rightarrow> 'w \<Rightarrow> (('e + nat \<times> rx_quality) \<times> bytes \<times> 'w) run"
  ap_rx_single :: "bytes \<Rightarrow> 'w \<Rightarrow> (('e + rx_status) \<times> bytes \<times> 'w) run"
  ap_low_power :: "'w \<Rightarrow> (('e + unit) \<times> 'w) run"
  ap_lead_time_ms :: "'w \<Rightarrow> u32"
  ap_window_buffer :: "'w \<Rightarrow> u32"
  ap_antenna_gain :: i8
  ap_max_radio_power :: u8
  ap_timer_reset :: "'t \<Rightarrow> 't"
  ap_timer_at :: "u64 \<Rightarrow> 't \<Rightarrow> 't"
  ap_race :: "u64 \<Rightarrow> bytes \<Rightarrow> 'w \<Rightarrow> 't \<Rightarrow> (('e + nat \<times> rx_quality) option \<times> bytes \<times> 'w \<times> 't) run"

section \<open>Device, responses and errors\<close>

record ('w, 't, 'r) async_device =
  ad_radio :: 'w
  ad_rng :: 'r
  ad_timer :: 't
  ad_mac :: mac
  ad_buffer :: radio_buffer
  ad_downlink :: "downlink list"
  ad_class_c :: bool

datatype 'e async_error = AsyncRadio 'e | AsyncMac mac_layer_error

datatype send_response = SendDownlinkReceived u32 | SendSessionExpired | SendNoAck | SendRxComplete

datatype join_response = JoinedSuccess | JoinedNoAccept

datatype listen_response = ListenSessionExpired | ListenDownlinkReceived u32

text \<open>The conversions from the response of the MAC layer; the others are a \<open>panic!\<close>.\<close>

fun send_response_of :: "mac_response \<Rightarrow> send_response run" where
  "send_response_of SessionExpired = Some SendSessionExpired"
| "send_response_of (DownlinkReceived fcnt) = Some (SendDownlinkReceived fcnt)"
| "send_response_of NoAck = Some SendNoAck"
| "send_response_of RxComplete = Some SendRxComplete"
| "send_response_of _ = None"

fun join_response_of :: "mac_response \<Rightarrow> join_response run" where
  "join_response_of NoJoinAccept = Some JoinedNoAccept"
| "join_response_of JoinSuccess = Some JoinedSuccess"
| "join_response_of _ = None"

fun listen_response_of :: "mac_response \<Rightarrow> listen_response run" where
  "listen_response_of SessionExpired = Some ListenSessionExpired"
| "listen_response_of (DownlinkReceived fcnt) = Some (ListenDownlinkReceived fcnt)"
| "listen_response_of _ = None"

type_synonym ('w, 't, 'r, 'e, 'a) async_outcome = "(('e async_error + 'a) \<times> ('w, 't, 'r) async_device) run"

text \<open>The \<open>?\<close> operator on an outcome.\<close>

definition async_try ::
  "('w, 't, 'r, 'e, 'a) async_outcome \<Rightarrow> ('a \<Rightarrow> ('w, 't, 'r) async_device \<Rightarrow> ('w, 't, 'r, 'e, 'b) async_outcome)
    \<Rightarrow> ('w, 't, 'r, 'e, 'b) async_outcome" where
  "async_try m f = do {
     (r, d) \<leftarrow> m;
     case r of Inl e \<Rightarrow> Some (Inl e, d) | Inr x \<Rightarrow> f x d}"

section \<open>Calls to the radio\<close>

text \<open>\<open>.await.map_err(Error::Radio)\<close>, with the radio's new state put back.\<close>

definition radio_result :: "(('e + 'a) \<times> 'w) run \<Rightarrow> ('w, 't, 'r) async_device \<Rightarrow> ('w, 't, 'r, 'e, 'a) async_outcome" where
  "radio_result x d = do {
     (r, w) \<leftarrow> x;
     Some (case r of Inl e \<Rightarrow> Inl (AsyncRadio e) | Inr y \<Rightarrow> Inr y, d\<lparr>ad_radio := w\<rparr>)}"

definition async_tx ::
  "('w, 't, 'e) async_phy \<Rightarrow> tx_config \<Rightarrow> ('w, 't, 'r) async_device \<Rightarrow> ('w, 't, 'r, 'e, u32) async_outcome" where
  "async_tx E tx d = do {
     packet \<leftarrow> rb_as_ref_for_read (ad_buffer d);
     radio_result (ap_tx E tx packet (ad_radio d)) d}"

definition async_setup_rx ::
  "('w, 't, 'e) async_phy \<Rightarrow> rx_config \<Rightarrow> ('w, 't, 'r) async_device \<Rightarrow> ('w, 't, 'r, 'e, unit) async_outcome" where
  "async_setup_rx E cfg d = radio_result (ap_setup_rx E cfg (ad_radio d)) d"

definition async_low_power ::
  "('w, 't, 'e) async_phy \<Rightarrow> ('w, 't, 'r) async_device \<Rightarrow> ('w, 't, 'r, 'e, unit) async_outcome" where
  "async_low_power E d = radio_result (ap_low_power E (ad_radio d)) d"

definition async_timer_at ::
  "('w, 't, 'e) async_phy \<Rightarrow> u32 \<Rightarrow> ('w, 't, 'r) async_device \<Rightarrow> ('w, 't, 'r) async_device" where
  "async_timer_at E duration d = d\<lparr>ad_timer := ap_timer_at E (ucast duration) (ad_timer d)\<rparr>"

definition ad_set_packet :: "bytes \<Rightarrow> ('w, 't, 'r) async_device \<Rightarrow> ('w, 't, 'r) async_device" where
  "ad_set_packet p d = d\<lparr>ad_buffer := (ad_buffer d)\<lparr>rb_packet := p\<rparr>\<rparr>"

text \<open>\<open>rx_single\<close> and \<open>rx_continuous\<close> into the whole radio buffer.\<close>

definition async_rx_single ::
  "('w, 't, 'e) async_phy \<Rightarrow> ('w, 't, 'r) async_device \<Rightarrow> ('w, 't, 'r, 'e, rx_status) async_outcome" where
  "async_rx_single E d = do {
     (r, p, w) \<leftarrow> ap_rx_single E (rb_packet (ad_buffer d)) (ad_radio d);
     radio_result (Some (r, w)) (ad_set_packet p d)}"

definition async_rx_continuous ::
  "('w, 't, 'e) async_phy \<Rightarrow> ('w, 't, 'r) async_device \<Rightarrow> ('w, 't, 'r, 'e, nat \<times> rx_quality) async_outcome" where
  "async_rx_continuous E d = do {
     (r, p, w) \<leftarrow> ap_rx_continuous E (rb_packet (ad_buffer d)) (ad_radio d);
     radio_result (Some (r, w)) (ad_set_packet p d)}"

section \<open>Handling a received frame\<close>

text \<open>With the default features \<open>handle_mac_response\<close> only clears the buffer and cannot fail.\<close>

definition handle_mac_response ::
  "mac_response \<Rightarrow> ('w, 't, 'r) async_device \<Rightarrow> mac_response option \<times> ('w, 't, 'r) async_device" where
  "handle_mac_response response d =
     (case response of NoUpdate \<Rightarrow> None | r \<Rightarrow> Some r, d\<lparr>ad_buffer := rb_clear (ad_buffer d)\<rparr>)"

definition async_handle_rx ::
  "(bytes \<Rightarrow> 'x crypto_scheme) \<Rightarrow> nat \<Rightarrow> nat \<Rightarrow> rx_quality \<Rightarrow> rf_config \<Rightarrow> ('w, 't, 'r) async_device
    \<Rightarrow> (mac_response option \<times> ('w, 't, 'r) async_device) run" where
  "async_handle_rx mk D s q rf d = do {
     (resp, buf', dl', m') \<leftarrow>
       mac_handle_rx mk D (rb_set_pos s (ad_buffer d)) (ad_downlink d) (rxq_snr q) rf (ad_mac d);
     Some (handle_mac_response resp (d\<lparr>ad_buffer := buf', ad_downlink := dl', ad_mac := m'\<rparr>))}"

definition async_handle_rxc ::
  "(bytes \<Rightarrow> 'x crypto_scheme) \<Rightarrow> nat \<Rightarrow> nat \<Rightarrow> rx_quality \<Rightarrow> rf_config \<Rightarrow> ('w, 't, 'r) async_device
    \<Rightarrow> ('w, 't, 'r, 'e, mac_response option) async_outcome" where
  "async_handle_rxc mk D s q rf d = do {
     (r, buf', dl', m') \<leftarrow>
       mac_handle_rxc mk D (rb_set_pos s (ad_buffer d)) (ad_downlink d) (rxq_snr q) rf (ad_mac d);
     let d' = d\<lparr>ad_buffer := buf', ad_downlink := dl', ad_mac := m'\<rparr>;
     Some (case r of
         Inl e \<Rightarrow> (Inl (AsyncMac e), d')
       | Inr resp \<Rightarrow> (case handle_mac_response resp d' of (x, d2) \<Rightarrow> (Inr x, d2)))}"

section \<open>Windows\<close>

definition window_complete ::
  "('w, 't, 'e) async_phy \<Rightarrow> ('w, 't, 'r) async_device \<Rightarrow> ('w, 't, 'r, 'e, unit) async_outcome" where
  "window_complete E d =
     (if ad_class_c d
      then do { rf_config \<leftarrow> get_rxc_config (ad_mac d); async_setup_rx E rf_config d }
      else async_low_power E d)"

datatype rxc_window_response = RxcRx nat rx_quality | RxcTimeout u32

text \<open>The timeout future is the one created by \<open>timer.at(duration)\<close>; after an error of the radio it is awaited.\<close>

definition rxc_listen_until_timeout ::
  "('w, 't, 'e) async_phy \<Rightarrow> u32 \<Rightarrow> ('w, 't, 'r) async_device
    \<Rightarrow> (rxc_window_response \<times> ('w, 't, 'r) async_device) run" where
  "rxc_listen_until_timeout E window_duration d = do {
     (r, p, w, t) \<leftarrow> ap_race E (ucast window_duration) (rb_packet (ad_buffer d)) (ad_radio d) (ad_timer d);
     let d' = (ad_set_packet p d)\<lparr>ad_radio := w, ad_timer := t\<rparr>;
     Some (case r of
         Some (Inr (sz, q)) \<Rightarrow> (RxcRx sz q, d')
       | Some (Inl _) \<Rightarrow> (RxcTimeout 0, async_timer_at E window_duration d')
       | None \<Rightarrow> (RxcTimeout window_duration, d'))}"

text \<open>The loop keeps processing frames until the timeout fires.\<close>

partial_function (option) rxc_loop ::
  "(bytes \<Rightarrow> 'x crypto_scheme) \<Rightarrow> nat \<Rightarrow> ('w, 't, 'e) async_phy \<Rightarrow> rx_config \<Rightarrow> u32 \<Rightarrow> mac_response option
    \<Rightarrow> ('w, 't, 'r) async_device
    \<Rightarrow> (('e async_error + mac_response option) \<times> ('w, 't, 'r) async_device) option" where
  "rxc_loop mk D E cfg duration response d =
     Option.bind (rxc_listen_until_timeout E duration d) (\<lambda>(x, d1).
        case x of
          RxcTimeout _ \<Rightarrow> Some (Inr response, d1)
        | RxcRx sz q \<Rightarrow>
            Option.bind (async_handle_rxc mk D sz q (rxc_rf cfg) d1) (\<lambda>(r, d2).
              case r of
                Inl e \<Rightarrow> Some (Inl e, d2)
              | Inr y \<Rightarrow> rxc_loop mk D E cfg duration (case y of None \<Rightarrow> response | Some z \<Rightarrow> Some z) d2))"

definition between_windows ::
  "(bytes \<Rightarrow> 'x crypto_scheme) \<Rightarrow> nat \<Rightarrow> ('w, 't, 'e) async_phy \<Rightarrow> u32 \<Rightarrow> ('w, 't, 'r) async_device
    \<Rightarrow> ('w, 't, 'r, 'e, mac_response option) async_outcome" where
  "between_windows mk D E duration d =
     (if \<not> ad_class_c d
      then async_try (async_low_power E d) (\<lambda>_ d1. Some (Inr None, async_timer_at E duration d1))
      else do {
        rx_config \<leftarrow> get_rxc_config (ad_mac d);
        async_try (async_setup_rx E rx_config d) (\<lambda>_ d1. rxc_loop mk D E rx_config duration None d1)})"

definition rx_listen ::
  "(bytes \<Rightarrow> 'x crypto_scheme) \<Rightarrow> nat \<Rightarrow> ('w, 't, 'e) async_phy \<Rightarrow> rf_config \<Rightarrow> ('w, 't, 'r) async_device
    \<Rightarrow> ('w, 't, 'r, 'e, mac_response option) async_outcome" where
  "rx_listen mk D E rf_config d = async_try (async_rx_single E d) (\<lambda>st d1. do {
     (response, d2) \<leftarrow> (case st of
         Rx s q \<Rightarrow> async_handle_rx mk D s q rf_config d1
       | RxTimeout \<Rightarrow> Some (None, d1));
     async_try (window_complete E d2) (\<lambda>_ d3. Some (Inr response, d3))})"

text \<open>The start of a window, in milliseconds after the timer's reset.\<close>

definition rx_start_delay ::
  "('w, 't, 'e) async_phy \<Rightarrow> frame \<Rightarrow> u32 \<Rightarrow> window \<Rightarrow> ('w, 't, 'r) async_device \<Rightarrow> u32" where
  "rx_start_delay E fr window_delay win d =
     get_rx_delay fr win (ad_mac d) + window_delay - ap_lead_time_ms E (ad_radio d)"

text \<open>One window: wait for it, configure the radio, listen.\<close>

definition rx_window ::
  "(bytes \<Rightarrow> 'x crypto_scheme) \<Rightarrow> nat \<Rightarrow> ('w, 't, 'e) async_phy \<Rightarrow> frame \<Rightarrow> u32 \<Rightarrow> rx_windows \<Rightarrow> window
    \<Rightarrow> ('w, 't, 'r) async_device \<Rightarrow> ('w, 't, 'r, 'e, mac_response option) async_outcome" where
  "rx_window mk D E fr window_delay w win d =
     async_try (between_windows mk D E (rx_start_delay E fr window_delay win d) d) (\<lambda>_ d1.
       let rx_config = rw_rx_config (ap_window_buffer E (ad_radio d1)) win w
       in async_try (async_setup_rx E rx_config d1) (\<lambda>_ d2. rx_listen mk D E (rxc_rf rx_config) d2))"

text \<open>The second window, and the end of the exchange when it brings nothing.\<close>

definition rx2_downlink ::
  "(bytes \<Rightarrow> 'x crypto_scheme) \<Rightarrow> nat \<Rightarrow> ('w, 't, 'e) async_phy \<Rightarrow> frame \<Rightarrow> u32 \<Rightarrow> rx_windows
    \<Rightarrow> ('w, 't, 'r) async_device \<Rightarrow> ('w, 't, 'r, 'e, mac_response) async_outcome" where
  "rx2_downlink mk D E fr window_delay w d =
     async_try (rx_window mk D E fr window_delay w Window2 d) (\<lambda>r d1.
       case r of
         Some response \<Rightarrow> Some (Inr response, d1)
       | None \<Rightarrow> do {
           (resp, m') \<leftarrow> mac_rx2_complete (ad_mac d1);
           Some (Inr resp, d1\<lparr>ad_mac := m'\<rparr>)})"

definition rx_downlink ::
  "(bytes \<Rightarrow> 'x crypto_scheme) \<Rightarrow> nat \<Rightarrow> ('w, 't, 'e) async_phy \<Rightarrow> frame \<Rightarrow> u32 \<Rightarrow> rx_windows
    \<Rightarrow> ('w, 't, 'r) async_device \<Rightarrow> ('w, 't, 'r, 'e, mac_response) async_outcome" where
  "rx_downlink mk D E fr window_delay w d =
     async_try (rx_window mk D E fr window_delay w Window1 (d\<lparr>ad_buffer := rb_clear (ad_buffer d)\<rparr>)) (\<lambda>r d1.
       case r of
         Some response \<Rightarrow> Some (Inr response, d1)
       | None \<Rightarrow> rx2_downlink mk D E fr window_delay w d1)"

section \<open>The device\<close>

definition async_new_with_session ::
  "('w, 't, 'e) async_phy \<Rightarrow> nat \<Rightarrow> region_state \<Rightarrow> 'w \<Rightarrow> 't \<Rightarrow> 'r \<Rightarrow> session option \<Rightarrow> ('w, 't, 'r) async_device" where
  "async_new_with_session E N region radio timer rng session =
     (let m = mac_new region (ap_max_radio_power E) (ap_antenna_gain E);
          m' = (case session of Some s \<Rightarrow> mac_set_session s m | None \<Rightarrow> m)
      in \<lparr>ad_radio = radio, ad_rng = rng, ad_timer = timer, ad_mac = m', ad_buffer = rb_new N,
          ad_downlink = [], ad_class_c = False\<rparr>)"

definition async_new ::
  "('w, 't, 'e) async_phy \<Rightarrow> nat \<Rightarrow> region_state \<Rightarrow> 'w \<Rightarrow> 't \<Rightarrow> 'r \<Rightarrow> ('w, 't, 'r) async_device" where
  "async_new E N region radio timer rng = async_new_with_session E N region radio timer rng None"

definition async_enable_class_c :: "('w, 't, 'r) async_device \<Rightarrow> ('w, 't, 'r) async_device" where
  "async_enable_class_c d = d\<lparr>ad_class_c := True\<rparr>"

definition async_disable_class_c :: "('w, 't, 'r) async_device \<Rightarrow> ('w, 't, 'r) async_device" where
  "async_disable_class_c d = d\<lparr>ad_class_c := False\<rparr>"

definition async_set_datarate :: "DR \<Rightarrow> ('w, 't, 'r) async_device \<Rightarrow> ('w, 't, 'r) async_device" where
  "async_set_datarate dr d = d\<lparr>ad_mac := (ad_mac d)\<lparr>mac_conf := (mac_conf (ad_mac d))\<lparr>cfg_data_rate := dr\<rparr>\<rparr>\<rparr>"

definition async_set_adr :: "bool \<Rightarrow> ('w, 't, 'r) async_device \<Rightarrow> ('w, 't, 'r) async_device" where
  "async_set_adr enabled d =
     (let m = (ad_mac d)\<lparr>mac_conf := (mac_conf (ad_mac d))\<lparr>cfg_adr_enabled := enabled\<rparr>\<rparr>
      in d\<lparr>ad_mac :=
           if enabled then m
           else case mac_state m of Joined s \<Rightarrow> m\<lparr>mac_state := Joined (s\<lparr>ss_adr_ack_cnt := 0\<rparr>)\<rparr> | _ \<Rightarrow> m\<rparr>)"

text \<open>The transmission and what follows it, common to \<open>join\<close> and \<open>send\<close>.\<close>

definition transmit ::
  "(bytes \<Rightarrow> 'x crypto_scheme) \<Rightarrow> nat \<Rightarrow> ('w, 't, 'e) async_phy \<Rightarrow> frame \<Rightarrow> tx_config \<Rightarrow> rx_windows
    \<Rightarrow> ('w, 't, 'r) async_device \<Rightarrow> ('w, 't, 'r, 'e, mac_response) async_outcome" where
  "transmit mk D E fr tx w d = async_try (async_tx E tx d) (\<lambda>ms d1.
     rx_downlink mk D E fr ms w (d1\<lparr>ad_timer := ap_timer_reset E (ad_timer d1)\<rparr>))"

definition async_join ::
  "(bytes \<Rightarrow> 'x crypto_scheme) \<Rightarrow> nat \<Rightarrow> ('r \<Rightarrow> u32 \<times> 'r) \<Rightarrow> ('w, 't, 'e) async_phy \<Rightarrow> join_mode
    \<Rightarrow> ('w, 't, 'r) async_device \<Rightarrow> ('w, 't, 'r, 'e, join_response) async_outcome" where
  "async_join mk D next_u32 E mode d = (case mode of
      OTAA deveui appeui appkey \<Rightarrow> do {
        ((tx, w, _), rng', buf', m') \<leftarrow>
          mac_join_otaa mk next_u32 (ad_rng d) (network_credentials_new appeui deveui appkey) (ad_buffer d) (ad_mac d);
        async_try (transmit mk D E Join tx w (d\<lparr>ad_rng := rng', ad_buffer := buf', ad_mac := m'\<rparr>)) (\<lambda>resp d1. do {
          r \<leftarrow> join_response_of resp;
          Some (Inr r, d1)})}
    | ABP nwkskey appskey devaddr \<Rightarrow>
        Some (Inr JoinedSuccess, d\<lparr>ad_mac := mac_join_abp nwkskey appskey devaddr (ad_mac d)\<rparr>))"

definition async_send ::
  "(bytes \<Rightarrow> 'x crypto_scheme) \<Rightarrow> nat \<Rightarrow> ('r \<Rightarrow> u32 \<times> 'r) \<Rightarrow> ('w, 't, 'e) async_phy \<Rightarrow> bytes \<Rightarrow> u8 \<Rightarrow> bool
    \<Rightarrow> ('w, 't, 'r) async_device \<Rightarrow> ('w, 't, 'r, 'e, send_response) async_outcome" where
  "async_send mk D next_u32 E data fport confirmed d = do {
     (r, rng', buf', m') \<leftarrow> mac_send mk next_u32 (ad_rng d) (ad_buffer d)
        \<lparr>sd_data = data, sd_fport = fport, sd_confirmed = confirmed\<rparr> (ad_mac d);
     let d1 = d\<lparr>ad_rng := rng', ad_buffer := buf', ad_mac := m'\<rparr>;
     (case r of
        Inl e \<Rightarrow> Some (Inl (AsyncMac e), d1)
      | Inr (tx, w, _) \<Rightarrow> async_try (transmit mk D E Data tx w d1) (\<lambda>resp d2. do {
          x \<leftarrow> send_response_of resp;
          Some (Inr x, d2)}))}"

text \<open>\<open>Vec::pop\<close> takes the last element.\<close>

definition async_take_downlink :: "('w, 't, 'r) async_device \<Rightarrow> downlink option \<times> ('w, 't, 'r) async_device" where
  "async_take_downlink d =
     (let dl = ad_downlink d
      in if dl = [] then (None, d) else (Some (last dl), d\<lparr>ad_downlink := butlast dl\<rparr>))"

section \<open>Class C\<close>

partial_function (option) rxc_listen_loop ::
  "(bytes \<Rightarrow> 'x crypto_scheme) \<Rightarrow> nat \<Rightarrow> ('w, 't, 'e) async_phy \<Rightarrow> rx_config \<Rightarrow> ('w, 't, 'r) async_device
    \<Rightarrow> (('e async_error + listen_response) \<times> ('w, 't, 'r) async_device) option" where
  "rxc_listen_loop mk D E cfg d =
     Option.bind (async_rx_continuous E d) (\<lambda>(x, d1).
       case x of
         Inl e \<Rightarrow> Some (Inl e, d1)
       | Inr (sz, q) \<Rightarrow>
           Option.bind (async_handle_rxc mk D sz q (rxc_rf cfg) d1) (\<lambda>(r, d2).
             case r of
               Inl e \<Rightarrow> Some (Inl e, d2)
             | Inr y \<Rightarrow>
                 (case y of
                    Some response \<Rightarrow> Option.bind (listen_response_of response) (\<lambda>z. Some (Inr z, d2))
                  | None \<Rightarrow> rxc_listen_loop mk D E cfg d2)))"

definition rxc_listen ::
  "(bytes \<Rightarrow> 'x crypto_scheme) \<Rightarrow> nat \<Rightarrow> ('w, 't, 'e) async_phy \<Rightarrow> ('w, 't, 'r) async_device
    \<Rightarrow> ('w, 't, 'r, 'e, listen_response) async_outcome" where
  "rxc_listen mk D E d = do {
     rx_config \<leftarrow> get_rxc_config (ad_mac d);
     rxc_listen_loop mk D E rx_config d}"

end
