(* ===== verification/NbFacts.thy ===== *)
theory NbFacts
  imports NbDevice
begin

text \<open>
  The invariant of the non-blocking device and the properties of its state machine: the answers to
  events that come at the wrong time, the schedule of the receive windows, and the frame counters of the
  uplinks that reach the radio.
\<close>

section \<open>The invariant\<close>

definition busy :: "nb_state \<Rightarrow> bool" where
  "busy s \<longleftrightarrow> s \<noteq> Idle"

text \<open>While a data exchange is under way there is a session, and while a join is, at least an activation.\<close>

definition frame_ok :: "frame \<Rightarrow> mac \<Rightarrow> bool" where
  "frame_ok fr m \<longleftrightarrow> (case fr of Data \<Rightarrow> mac_is_joined m | Join \<Rightarrow> mac_state m \<noteq> Unjoined)"

definition state_ok :: "nb_state \<Rightarrow> mac \<Rightarrow> bool" where
  "state_ok s m \<longleftrightarrow> (case s of Idle \<Rightarrow> True | SendingData fr _ \<Rightarrow> frame_ok fr m
     | WaitingForRxWindow fr _ _ \<Rightarrow> frame_ok fr m | WaitingForRx fr _ _ _ \<Rightarrow> frame_ok fr m)"

definition nb_ok :: "('w, 'r) nb_device \<Rightarrow> bool" where
  "nb_ok d \<longleftrightarrow> mac_ok (sh_mac (nd_shared d)) \<and> rb_ok (sh_tx_buffer (nd_shared d)) \<and>
     state_ok (nd_state d) (sh_mac (nd_shared d))"

abbreviation nd_mac :: "('w, 'r) nb_device \<Rightarrow> mac" where
  "nd_mac d \<equiv> sh_mac (nd_shared d)"

lemma joined_counters: "mac_is_joined m \<longleftrightarrow> counters_of m \<noteq> None"
  by (simp add: mac_is_joined_def counters_of_def split: mac_state.split)

lemma sh_radio_event_keeps:
  "sh_radio_event R ev sh = (r, sh') \<Longrightarrow> sh_mac sh' = sh_mac sh \<and> sh_tx_buffer sh' = sh_tx_buffer sh \<and> sh_rng sh' = sh_rng sh
     \<and> sh_downlink sh' = sh_downlink sh"
  by (auto simp: sh_radio_event_def Let_def split: prod.splits)

text \<open>How the counters move in a call: an idle device leaves them, but for a join; a busy one leaves them
  until it is idle again, which takes one response.\<close>

definition nb_moves :: "nb_state \<Rightarrow> counters \<Rightarrow> nb_state \<Rightarrow> counters \<Rightarrow> bool" where
  "nb_moves s c s' c' \<longleftrightarrow>
     (if busy s \<and> \<not> busy s' then \<exists>r. r \<noteq> NoUpdate \<and> counter_step c (EvResponse r) c' else c' = c)"

definition sh_ok :: "('w, 'r) nb_shared \<Rightarrow> bool" where
  "sh_ok sh \<longleftrightarrow> mac_ok (sh_mac sh) \<and> rb_ok (sh_tx_buffer sh)"

lemma frame_ok_joined: "counters_of m \<noteq> None \<Longrightarrow> frame_ok fr m"
  by (cases fr) (auto simp: frame_ok_def joined_counters counters_of_def split: mac_state.splits)

lemma busy_simps [simp]: "\<not> busy Idle" "busy (SendingData fr w)" "busy (WaitingForRxWindow fr w slot)" "busy (WaitingForRx fr w slot rf)"
  by (simp_all add: busy_def)

lemma state_ok_simps [simp]: "state_ok Idle m" "state_ok (SendingData fr w) m = frame_ok fr m"
  "state_ok (WaitingForRxWindow fr w slot) m = frame_ok fr m" "state_ok (WaitingForRx fr w slot rf) m = frame_ok fr m"
  by (simp_all add: state_ok_def)

text \<open>A handler that only talks to the radio.\<close>

definition radio_only :: "('w, 'r) nb_shared \<Rightarrow> ('w, 'r) nb_shared \<Rightarrow> bool" where
  "radio_only sh sh' \<longleftrightarrow> sh_mac sh' = sh_mac sh \<and> sh_tx_buffer sh' = sh_tx_buffer sh"

lemma radio_only_refl [simp]: "radio_only sh sh"
  by (simp add: radio_only_def)

lemma radio_only_event: "sh_radio_event R ev sh = (r, sh') \<Longrightarrow> radio_only sh sh'"
  by (simp add: radio_only_def sh_radio_event_keeps)

lemma window1_eq: "data_rxwindow1_timeout R fr w ms sh = Some ((s', res), sh') \<longleftrightarrow>
    s' = WaitingForRxWindow fr w (Rx1 (get_rx_delay fr Window1 (sh_mac sh) + ms + phy_window_offset_ms R (sh_radio sh))) \<and>
    res = Inr (TimeoutRequest (get_rx_delay fr Window1 (sh_mac sh) + ms + phy_window_offset_ms R (sh_radio sh))) \<and> sh' = sh"
  by (auto simp: data_rxwindow1_timeout_def Let_def)

lemma idle_radio_tx_ok:
  assumes "idle_radio_tx R fr tx w n sh = Some ((s', res), sh')"
  shows "radio_only sh sh' \<and> (frame_ok fr (sh_mac sh) \<longrightarrow> state_ok s' (sh_mac sh))"
proof -
  obtain packet r sh1 where e: "sh_radio_event R (TxRequest tx packet) sh = (r, sh1)" "rb_as_ref_for_read (sh_tx_buffer sh) = Some packet"
    using assms by (auto simp: idle_radio_tx_def bind_eq_Some_conv) (metis prod.exhaust)
  note k = radio_only_event [OF e(1)]
  then show ?thesis using assms
    by (auto simp: idle_radio_tx_def e window1_eq radio_only_def split: sum.splits radio_response.splits)
qed

lemma sending_ok:
  assumes "sending_handle_event R fr w ev sh = Some ((s', res), sh')"
  shows "radio_only sh sh' \<and> busy s' \<and> (frame_ok fr (sh_mac sh) \<longrightarrow> state_ok s' (sh_mac sh))"
proof (cases ev)
  case (NbRadioEvent e)
  obtain r sh1 where r: "sh_radio_event R e sh = (r, sh1)" by fastforce
  note k = radio_only_event [OF r]
  then show ?thesis using assms
    by (auto simp: sending_handle_event_def NbRadioEvent r window1_eq radio_only_def split: sum.splits radio_response.splits)
qed (use assms in \<open>auto simp: sending_handle_event_def\<close>)

lemma waiting_window_ok:
  assumes "waiting_window_handle_event R fr w slot ev sh = Some ((s', res), sh')"
  shows "radio_only sh sh' \<and> busy s' \<and> (frame_ok fr (sh_mac sh) \<longrightarrow> state_ok s' (sh_mac sh))"
proof (cases ev)
  case NbTimeoutFired
  obtain r sh1 where r: "sh_radio_event R (RxRequest (rw_get (slot_window slot) w)) sh = (r, sh1)" by fastforce
  note k = radio_only_event [OF r]
  then show ?thesis using assms
    by (cases r) (auto simp: waiting_window_handle_event_def NbTimeoutFired r Let_def)
qed (use assms in \<open>auto simp: waiting_window_handle_event_def\<close>)

lemma nb_response_of_total: "counter_step c (EvResponse r) c' \<Longrightarrow> \<exists>x. nb_response_of r = Some x"
  by (cases r) simp_all

lemma sh_ok_radio_only: "radio_only sh sh' \<Longrightarrow> sh_ok sh \<Longrightarrow> sh_ok sh'"
  by (simp add: radio_only_def sh_ok_def)

text \<open>What a handler of a busy state guarantees.\<close>

definition exchange_ok :: "frame \<Rightarrow> nb_state \<Rightarrow> ('w, 'r) nb_shared \<Rightarrow> nb_state \<Rightarrow> ('w, 'r) nb_shared \<Rightarrow> bool" where
  "exchange_ok fr s sh s' sh' \<longleftrightarrow>
     (sh_ok sh \<and> frame_ok fr (sh_mac sh) \<longrightarrow>
        sh_ok sh' \<and> state_ok s' (sh_mac sh') \<and> nb_moves s (counters_of (sh_mac sh)) s' (counters_of (sh_mac sh')))"

lemma exchange_radio_only:
  "radio_only sh sh' \<Longrightarrow> busy s' \<Longrightarrow> (frame_ok fr (sh_mac sh) \<Longrightarrow> state_ok s' (sh_mac sh)) \<Longrightarrow> exchange_ok fr s sh s' sh'"
  using sh_ok_radio_only by (auto simp: exchange_ok_def nb_moves_def radio_only_def)

lemma exchange_trans: "radio_only sh sh1 \<Longrightarrow> exchange_ok fr s sh1 s' sh' \<Longrightarrow> exchange_ok fr s sh s' sh'"
  using sh_ok_radio_only by (auto simp: exchange_ok_def radio_only_def)

lemma waiting_rx_done_ok:
  assumes "cipher_ok mk" "waiting_rx_done mk D R fr w slot rf q sh = Some ((s', res), sh')"
  shows "exchange_ok fr (WaitingForRx fr w slot rf) sh s' sh'"
proof -
  let ?s = "WaitingForRx fr w slot rf"
  obtain buf ok where b: "rb_extend_from_slice (phy_received_packet R (sh_radio sh)) (rb_clear (sh_tx_buffer sh)) = Some (buf, ok)"
    using assms(2) by (auto simp: waiting_rx_done_def bind_eq_Some_conv)
  have bok: "rb_ok buf"
    using b by (auto simp: rb_extend_eq rb_clear_ok rb_ok_def rb_clear_def split: if_splits)
  show ?thesis
  proof (cases "ok = Inl ()")
    case True
    then have "s' = ?s" "sh' = sh\<lparr>sh_tx_buffer := buf\<rparr>" using assms(2) b by (simp_all add: waiting_rx_done_def)
    then show ?thesis using bok by (simp add: exchange_ok_def sh_ok_def nb_moves_def)
  next
    case False
    then obtain resp buf' dl' m' where h0:
      "mac_handle_rx mk D buf (sh_downlink sh) (rxq_snr q) rf (sh_mac sh) = Some (resp, buf', dl', m')"
      using assms(2) b by (auto simp: waiting_rx_done_def bind_eq_Some_conv)
    have "sh' = sh\<lparr>sh_tx_buffer := buf', sh_downlink := dl', sh_mac := m'\<rparr> \<and> s' = (if resp = NoUpdate then ?s else Idle)"
      by (cases resp) (use assms(2) b False h0 in \<open>auto simp: waiting_rx_done_def Let_def\<close>)
    with h0 have h: "mac_handle_rx mk D buf (sh_downlink sh) (rxq_snr q) rf (sh_mac sh) = Some (resp, buf', dl', m')"
      "sh' = sh\<lparr>sh_tx_buffer := buf', sh_downlink := dl', sh_mac := m'\<rparr>"
      "s' = (if resp = NoUpdate then ?s else Idle)" by blast+
    show ?thesis unfolding exchange_ok_def
    proof (intro impI)
      assume a: "sh_ok sh \<and> frame_ok fr (sh_mac sh)"
      then have "mac_ok (sh_mac sh)" by (simp add: sh_ok_def)
      note c = handle_rx_step [OF this assms(1) bok h(1)]
      have fr: "frame_ok fr m'" if "resp = NoUpdate"
        using a c that by (cases fr) (auto simp: frame_ok_def joined_counters)
      show "sh_ok sh' \<and> state_ok s' (sh_mac sh') \<and> nb_moves ?s (counters_of (sh_mac sh)) s' (counters_of (sh_mac sh'))"
        using c fr by (auto simp: h(2,3) sh_ok_def nb_moves_def)
    qed
  qed
qed

lemma waiting_rx_ok:
  assumes "cipher_ok mk" "waiting_rx_handle_event mk D R fr w slot rf ev sh = Some ((s', res), sh')"
  shows "exchange_ok fr (WaitingForRx fr w slot rf) sh s' sh'"
proof (cases ev)
  case (NbRadioEvent e)
  obtain r sh1 where r: "sh_radio_event R e sh = (r, sh1)" by fastforce
  note k = radio_only_event [OF r]
  show ?thesis
  proof (cases "\<exists>q. r = Inr (RxDone q)")
    case True
    then obtain q where "r = Inr (RxDone q)" by blast
    then have "waiting_rx_done mk D R fr w slot rf q sh1 = Some ((s', res), sh')"
      using assms(2) by (simp add: waiting_rx_handle_event_def NbRadioEvent r)
    then show ?thesis by (rule exchange_trans [OF k waiting_rx_done_ok [OF assms(1)]])
  next
    case False
    then have "s' = WaitingForRx fr w slot rf" "sh' = sh1" using assms(2)
      by (auto simp: waiting_rx_handle_event_def NbRadioEvent r split: sum.splits radio_response.splits)
    then show ?thesis by (auto intro: exchange_radio_only [OF k])
  qed
next
  case NbTimeoutFired
  obtain r sh1 where r: "sh_radio_event R CancelRx sh = (r, sh1)" by fastforce
  note k = radio_only_event [OF r]
  show ?thesis
  proof (cases "\<exists>x t. r = Inr x \<and> slot = Rx2 t")
    case True
    then obtain resp m' x where c: "mac_rx2_complete (sh_mac sh1) = Some (resp, m')" "nb_response_of resp = Some x"
      "s' = Idle" "sh' = sh1\<lparr>sh_mac := m'\<rparr>"
      using assms(2) by (auto simp: waiting_rx_handle_event_def NbTimeoutFired r bind_eq_Some_conv)
    have "exchange_ok fr (WaitingForRx fr w slot rf) sh1 s' sh'" unfolding exchange_ok_def
    proof (intro impI)
      assume a: "sh_ok sh1 \<and> frame_ok fr (sh_mac sh1)"
      then have m: "mac_ok (sh_mac sh1)" by (simp add: sh_ok_def)
      note t = timeout_step [OF m c(1)]
      have "resp \<noteq> NoUpdate"
      proof (cases "mac_state (sh_mac sh1)")
        case (Joined s)
        have rok: "rs_ok (mac_region (sh_mac sh1))" using m by (simp add: mac_ok_def)
        obtain s' conf' where "rx2_complete (mac_conf (sh_mac sh1)) (mac_region (sh_mac sh1)) s = Some (resp, s', conf')"
          using c(1) Joined by (auto simp: mac_rx2_complete_def bind_eq_Some_conv)
        from rx2_complete_counters [OF rok this] show ?thesis by simp
      next
        case Unjoined
        then show ?thesis using a by (cases fr) (simp_all add: frame_ok_def mac_is_joined_def)
      qed (use c(1) in \<open>simp add: mac_rx2_complete_def otaa_rx2_complete_def\<close>)
      then show "sh_ok sh' \<and> state_ok s' (sh_mac sh') \<and>
          nb_moves (WaitingForRx fr w slot rf) (counters_of (sh_mac sh1)) s' (counters_of (sh_mac sh'))"
        using a t by (auto simp: c(3,4) sh_ok_def nb_moves_def)
    qed
    then show ?thesis by (rule exchange_trans [OF k])
  next
    case False
    then have "radio_only sh sh'" "busy s'" "frame_ok fr (sh_mac sh) \<longrightarrow> state_ok s' (sh_mac sh)"
      using assms(2) k by (auto simp: waiting_rx_handle_event_def NbTimeoutFired r Let_def split: sum.splits rx_slot.splits)
    then show ?thesis by (auto intro: exchange_radio_only)
  qed
qed (use assms(2) in \<open>auto simp: waiting_rx_handle_event_def intro!: exchange_radio_only\<close>)

lemma idle_ok:
  assumes "cipher_ok mk" "sh_ok sh" "idle_handle_event mk next_u32 R ev sh = Some ((s', res), sh')"
    and "\<And>c. ev = NbJoin c \<Longrightarrow> credentials_ok c"
  shows "sh_ok sh' \<and> state_ok s' (sh_mac sh') \<and>
    ((\<forall>c. ev \<noteq> NbJoin c) \<longrightarrow> counters_of (sh_mac sh') = counters_of (sh_mac sh))"
proof (cases ev)
  case (NbJoin c)
  obtain tx w n rng' buf' m' where j: "mac_join_otaa mk next_u32 (sh_rng sh) c (sh_tx_buffer sh) (sh_mac sh) = Some ((tx, w, n), rng', buf', m')"
    "idle_radio_tx R Join tx w (ucast n) (sh\<lparr>sh_rng := rng', sh_tx_buffer := buf', sh_mac := m'\<rparr>) = Some ((s', res), sh')"
    using assms(3) by (auto simp: idle_handle_event_def NbJoin bind_eq_Some_conv)
  have m: "mac_ok (sh_mac sh)" using assms(2) by (simp add: sh_ok_def)
  have "mac_ok m' \<and> rb_ok buf' \<and> mac_state m' \<noteq> Unjoined"
    by (rule mac_join_outcome [OF m assms(1) assms(4) [OF NbJoin], of "sh_tx_buffer sh" next_u32 "sh_rng sh"])
       (use j(1) in auto)
  then show ?thesis using idle_radio_tx_ok [OF j(2)] NbJoin by (simp add: radio_only_def sh_ok_def frame_ok_def)
next
  case (NbSendData data)
  have m: "mac_ok (sh_mac sh)" using assms(2) by (simp add: sh_ok_def)
  obtain r rng' buf' m' where j: "mac_send mk next_u32 (sh_rng sh) (sh_tx_buffer sh) data (sh_mac sh) = Some (r, rng', buf', m')"
    using assms(3) by (auto simp: idle_handle_event_def NbSendData bind_eq_Some_conv)
  show ?thesis
  proof (cases r)
    case (Inl e)
    then have "buf' = sh_tx_buffer sh" "m' = sh_mac sh"
      using j by (auto simp: mac_send_def bind_eq_Some_conv Let_def split: mac_state.splits)
    then show ?thesis using assms(2,3) Inl j by (auto simp: idle_handle_event_def NbSendData sh_ok_def)
  next
    case (Inr t)
    obtain tx w n where t: "t = (tx, w, n)" by (metis prod_cases3)
    then obtain s where s: "mac_state (sh_mac sh) = Joined s"
      using j Inr by (cases "mac_state (sh_mac sh)") (simp_all add: mac_send_def)
    have k: "rb_ok buf'" "mac_ok m'" "counters_of m' = counters_of (sh_mac sh)" "counters_of m' \<noteq> None"
      by (rule mac_send_outcome [OF m assms(1) s, of data "sh_tx_buffer sh" next_u32 "sh_rng sh"];
          use j Inr t s in \<open>simp add: counters_of_def\<close>)+
    have "idle_radio_tx R Data tx w n (sh\<lparr>sh_rng := rng', sh_tx_buffer := buf', sh_mac := m'\<rparr>) = Some ((s', res), sh')"
      using assms(3) j Inr t by (simp add: idle_handle_event_def NbSendData)
    from idle_radio_tx_ok [OF this] show ?thesis using k frame_ok_joined [OF k(4)] by (simp add: radio_only_def sh_ok_def)
  qed
qed (use assms in \<open>auto simp: idle_handle_event_def\<close>)

end
