(* ===== verification/NbProperties.thy ===== *)
theory NbProperties
  imports NbFacts
begin

text \<open>
  The properties of the non-blocking device: its invariant, what it answers to requests that come during
  an exchange, when its receive windows open, and the counters of the uplinks it hands to the radio.
\<close>

fun is_join :: "'p nb_event \<Rightarrow> bool" where
  "is_join (NbJoin _) = True"
| "is_join _ = False"

lemma nb_handle_event_step:
  assumes "nb_ok d" "cipher_ok mk" "\<And>c. ev = NbJoin c \<Longrightarrow> credentials_ok c"
    and "nb_handle_event mk D next_u32 R ev d = Some (res, d')"
  shows "nb_ok d' \<and>
    (\<not> is_join ev \<longrightarrow> nb_moves (nd_state d) (counters_of (nd_mac d)) (nd_state d') (counters_of (nd_mac d')))"
proof -
  obtain s' sh' where h: "state_handle_event mk D next_u32 R (nd_state d) ev (nd_shared d) = Some ((s', res), sh')"
    "d' = \<lparr>nd_state = s', nd_shared = sh'\<rparr>"
    using assms(4) by (auto simp: nb_handle_event_def bind_eq_Some_conv)
  have sh: "sh_ok (nd_shared d)" "state_ok (nd_state d) (nd_mac d)" using assms(1) by (simp_all add: nb_ok_def sh_ok_def)
  show ?thesis
  proof (cases "nd_state d")
    case Idle
    then have "idle_handle_event mk next_u32 R ev (nd_shared d) = Some ((s', res), sh')"
      using h(1) by (simp add: state_handle_event_def)
    from idle_ok [OF assms(2) sh(1) this assms(3)] show ?thesis
      using Idle h(2) by (cases ev) (simp_all add: nb_ok_def sh_ok_def nb_moves_def)
  next
    case (SendingData fr w)
    then have "sending_handle_event R fr w ev (nd_shared d) = Some ((s', res), sh')"
      using h(1) by (simp add: state_handle_event_def)
    from sending_ok [OF this] show ?thesis using SendingData h(2) sh
      by (auto simp: nb_ok_def sh_ok_def radio_only_def nb_moves_def)
  next
    case (WaitingForRxWindow fr w slot)
    then have "waiting_window_handle_event R fr w slot ev (nd_shared d) = Some ((s', res), sh')"
      using h(1) by (simp add: state_handle_event_def)
    from waiting_window_ok [OF this] show ?thesis using WaitingForRxWindow h(2) sh
      by (auto simp: nb_ok_def sh_ok_def radio_only_def nb_moves_def)
  next
    case (WaitingForRx fr w slot rf)
    then have "waiting_rx_handle_event mk D R fr w slot rf ev (nd_shared d) = Some ((s', res), sh')"
      using h(1) by (simp add: state_handle_event_def)
    from waiting_rx_ok [OF assms(2) this] show ?thesis using WaitingForRx h(2) sh
      by (simp add: exchange_ok_def nb_ok_def sh_ok_def)
  qed
qed

section \<open>The counters of the uplinks\<close>

text \<open>What the radio is asked to send over a sequence of events: for every request to send that an idle device with a
  session gets, the counter of the frame that it hands to the radio, and whether the radio took it, that is,
  whether the device then went on with the exchange (it stays idle when the radio answers \<open>TxRequest\<close> with
  an error or with another response).\<close>

fun is_send :: "'p nb_event \<Rightarrow> bool" where
  "is_send (NbSendData _) = True"
| "is_send _ = False"

fun nb_uplinks ::
  "(bytes \<Rightarrow> 'x crypto_scheme) \<Rightarrow> nat \<Rightarrow> ('r \<Rightarrow> u32 \<times> 'r) \<Rightarrow> ('w, 'p, 'q, 'e) phy \<Rightarrow> 'p nb_event list \<Rightarrow> ('w, 'r) nb_device
    \<Rightarrow> ((u32 \<times> bool) list \<times> ('w, 'r) nb_device) run" where
  "nb_uplinks mk D next_u32 R [] d = Some ([], d)"
| "nb_uplinks mk D next_u32 R (ev # evs) d = do {
     (res, d') \<leftarrow> nb_handle_event mk D next_u32 R ev d;
     (us, d'') \<leftarrow> nb_uplinks mk D next_u32 R evs d';
     Some (if nd_state d = Idle \<and> is_send ev
           then (case mac_get_fcnt_up (nd_mac d) of Some n \<Rightarrow> (n, nd_state d' \<noteq> Idle) # us | None \<Rightarrow> us) else us, d'')}"

text \<open>Counting from \<open>k\<close>: a frame that the radio took uses its number up, one that it refused does not.\<close>

fun counts_up :: "nat \<Rightarrow> (u32 \<times> bool) list \<Rightarrow> bool" where
  "counts_up k [] \<longleftrightarrow> True"
| "counts_up k ((n, taken) # us) \<longleftrightarrow> unat n = k \<and> counts_up (if taken then k + 1 else k) us"

lemma counts_up_ge: "counts_up k us \<Longrightarrow> u \<in> set us \<Longrightarrow> k \<le> unat (fst u)"
  by (induction k us rule: counts_up.induct) (fastforce split: if_splits)+

lemma counts_up_sorted: "counts_up k us \<Longrightarrow> sorted_wrt (<) (map fst (filter snd us))"
proof (induction k us rule: counts_up.induct)
  case (2 k n taken us)
  then show ?case using counts_up_ge [of "k + 1" us] by (auto simp: word_less_nat_alt Suc_le_eq)
qed simp

lemma idle_keeps:
  assumes "nb_handle_event mk D next_u32 R ev d = Some (res, d')" "nd_state d = Idle" "\<not> is_send ev" "\<not> is_join ev"
  shows "nd_state d' = Idle"
  using assms by (cases ev) (auto simp: nb_handle_event_def state_handle_event_def idle_handle_event_def)

text \<open>The number that the next uplink will have.\<close>

definition next_fcnt :: "nb_state \<Rightarrow> u32 \<Rightarrow> nat" where
  "next_fcnt s u = unat u + (if busy s then 1 else 0)"

lemma counter_step_response:
  assumes "counter_step (Some (u, dn)) (EvResponse r) c" "r \<noteq> NoUpdate"
  shows "\<exists>u' dn'. c = Some (u', dn') \<and> (unat u' = unat u + 1 \<or> u' = 0xFFFFFFFF) \<and> unat u \<le> unat u'"
  using assms by (cases r) (auto simp: completed_def unat_u32_Suc)

lemma nb_moves_next:
  assumes "nb_moves s (Some (u, dn)) s' c"
  shows "\<exists>u' dn'. c = Some (u', dn') \<and> unat u \<le> unat u' \<and>
    (u' = 0xFFFFFFFF \<or> next_fcnt s' u' = next_fcnt s u + (if \<not> busy s \<and> busy s' then 1 else 0)) \<and>
    (\<not> (busy s \<and> \<not> busy s') \<longrightarrow> u' = u)"
proof (cases "busy s \<and> \<not> busy s'")
  case True
  then obtain r where r: "counter_step (Some (u, dn)) (EvResponse r) c" "r \<noteq> NoUpdate" using assms by (auto simp: nb_moves_def)
  show ?thesis using counter_step_response [OF r] True by (auto simp: next_fcnt_def)
next
  case False
  then show ?thesis using assms by (auto simp: nb_moves_def next_fcnt_def)
qed

lemma nb_uplinks_sorted:
  assumes "nb_uplinks mk D next_u32 R evs d = Some (us, d')" "nb_ok d" "cipher_ok mk" "\<forall>ev \<in> set evs. \<not> is_join ev"
    and "counters_of (nd_mac d) = Some (u, dn)"
  shows "\<exists>u' dn'. counters_of (nd_mac d') = Some (u', dn') \<and> unat u \<le> unat u' \<and>
    (u' \<noteq> 0xFFFFFFFF \<longrightarrow> counts_up (next_fcnt (nd_state d) u) us)"
  using assms
proof (induction evs arbitrary: d us u dn)
  case Nil
  then show ?case by auto
next
  case (Cons ev evs)
  obtain res d1 us1 where h: "nb_handle_event mk D next_u32 R ev d = Some (res, d1)"
    "nb_uplinks mk D next_u32 R evs d1 = Some (us1, d')"
    "us = (if nd_state d = Idle \<and> is_send ev
           then (case mac_get_fcnt_up (nd_mac d) of Some n \<Rightarrow> (n, nd_state d1 \<noteq> Idle) # us1 | None \<Rightarrow> us1) else us1)"
    using Cons.prems(1) by (auto simp: bind_eq_Some_conv)
  have nj: "\<not> is_join ev" using Cons.prems(4) by simp
  then have "\<And>c. ev = NbJoin c \<Longrightarrow> credentials_ok c" by auto
  note st = nb_handle_event_step [OF Cons.prems(2,3) this h(1)]
  then have "nb_moves (nd_state d) (Some (u, dn)) (nd_state d1) (counters_of (nd_mac d1))"
    using nj Cons.prems(5) by simp
  then obtain u1 dn1 where m: "counters_of (nd_mac d1) = Some (u1, dn1)" "unat u \<le> unat u1"
    "u1 = 0xFFFFFFFF \<or> next_fcnt (nd_state d1) u1 = next_fcnt (nd_state d) u + (if \<not> busy (nd_state d) \<and> busy (nd_state d1) then 1 else 0)"
    "\<not> (busy (nd_state d) \<and> \<not> busy (nd_state d1)) \<longrightarrow> u1 = u"
    using nb_moves_next by blast
  obtain u' dn' where r: "counters_of (nd_mac d') = Some (u', dn')" "unat u1 \<le> unat u'"
    "u' \<noteq> 0xFFFFFFFF \<longrightarrow> counts_up (next_fcnt (nd_state d1) u1) us1"
    using Cons.IH [OF h(2) _ Cons.prems(3) _ m(1)] st Cons.prems(4) by auto
  have "counts_up (next_fcnt (nd_state d) u) us" if "u' \<noteq> 0xFFFFFFFF"
  proof -
    have "u1 \<noteq> 0xFFFFFFFF"
    proof
      assume "u1 = 0xFFFFFFFF"
      then have "unat (0xFFFFFFFF :: u32) \<le> unat u'" using r(2) by simp
      then have "0xFFFFFFFF \<le> u'" by (simp only: word_le_nat_alt)
      moreover have "(0xFFFFFFFF :: u32) = - 1" by simp
      then have "u' \<le> 0xFFFFFFFF" by (simp only: word_order.extremum)
      ultimately have "u' = 0xFFFFFFFF" by (intro order.antisym)
      then show False using that by simp
    qed
    then have nx: "next_fcnt (nd_state d1) u1 = next_fcnt (nd_state d) u + (if \<not> busy (nd_state d) \<and> busy (nd_state d1) then 1 else 0)"
      using m(3) by blast
    have us1: "counts_up (next_fcnt (nd_state d1) u1) us1" using r(3) that by blast
    have get: "mac_get_fcnt_up (nd_mac d) = Some u"
      using Cons.prems(5) by (auto simp: mac_get_fcnt_up_def counters_of_def split: mac_state.splits)
    show ?thesis
    proof (cases "nd_state d = Idle \<and> is_send ev")
      case True
      then have "us = (u, nd_state d1 \<noteq> Idle) # us1" using h(3) get by simp
      then show ?thesis using us1 nx True by (auto simp: next_fcnt_def busy_def)
    next
      case False
      then have "us = us1" unfolding h(3) by (rule if_not_P)
      moreover have "\<not> busy (nd_state d1)" if "\<not> busy (nd_state d)"
        using idle_keeps [OF h(1) _ _ nj] False that by (simp add: busy_def)
      ultimately show ?thesis using us1 nx by (auto split: if_splits)
    qed
  qed
  then show ?case using r(1,2) m(2) by auto
qed

section \<open>Properties\<close>

text \<open>C18. Every event leaves the non-blocking device well formed: its MAC layer satisfies its invariant, its
  buffer can be read, and while a data exchange is under way there is a session. A device that is not in
  an exchange never changes its frame counters but by joining; an exchange changes them only in the
  call that ends it.\<close>

theorem nb_device_invariant:
  assumes "nb_ok d" "cipher_ok mk" "\<forall>c. ev = NbJoin c \<longrightarrow> credentials_ok c"
    and "nb_handle_event mk D next_u32 R ev d = Some (res, d')"
  shows "nb_ok d' \<and>
    (\<not> is_join ev \<and> (nd_state d = Idle \<or> nd_state d' \<noteq> Idle) \<longrightarrow> counters_of (nd_mac d') = counters_of (nd_mac d))"
  using nb_handle_event_step [OF assms(1,2) _ assms(4)] assms(3) by (auto simp: nb_moves_def busy_def)

text \<open>C7. The frame counters of the non-blocking device: over any sequence of events, whatever the radio answers or
  receives, the frames that a device with a session hands to its radio carry the numbers from the session's counter on (from
  the one after it, when an exchange is under way), one by one: a frame that the radio takes uses its number up, and a frame that
  the radio refuses, with an error or another answer to \<open>TxRequest\<close>, does not, so the next one carries the
  same number again. Hence no counter is used by two frames that the radio took. This is as long as the
  32-bit counter is not used up and the device does not join anew.\<close>

theorem nb_uplink_counters:
  assumes "nb_uplinks mk D next_u32 R evs d = Some (us, d')" "nb_ok d" "cipher_ok mk" "\<forall>ev \<in> set evs. \<not> is_join ev"
    and "mac_state (nd_mac d) = Joined s" "mac_get_fcnt_up (nd_mac d') \<noteq> Some 0xFFFFFFFF"
  shows "counts_up (unat (ss_fcnt_up s) + (if nd_state d = Idle then 0 else 1)) us \<and>
    sorted_wrt (<) (map fst (filter snd us))"
proof -
  obtain u' dn' where r: "counters_of (nd_mac d') = Some (u', dn')"
    "u' \<noteq> 0xFFFFFFFF \<longrightarrow> counts_up (next_fcnt (nd_state d) (ss_fcnt_up s)) us"
    using nb_uplinks_sorted [OF assms(1-4) counters_Joined [OF assms(5)]] by blast
  have "u' \<noteq> 0xFFFFFFFF" using r(1) assms(6) by (auto simp: counters_of_def mac_get_fcnt_up_def split: mac_state.splits)
  then have "counts_up (next_fcnt (nd_state d) (ss_fcnt_up s)) us" using r(2) by blast
  then show ?thesis using counts_up_sorted by (auto simp: next_fcnt_def busy_def)
qed

text \<open>While an exchange is under way, a request to send or to join is refused with an error that names the
  state, and neither the device nor the radio is touched.\<close>

theorem nb_busy_refuses:
  assumes "nd_state d \<noteq> Idle" "ev = NbSendData data \<or> ev = NbJoin creds"
  shows "\<exists>e. nb_handle_event mk D next_u32 R ev d = Some (Inl (NbState e), d) \<and>
    (case nd_state d of SendingData _ _ \<Rightarrow> e = TxRequestDuringTx
       | WaitingForRxWindow _ _ _ \<Rightarrow> e = (if is_join ev then NewSessionWhileWaitingForRxWindow else SendDataWhileWaitingForRxWindow)
       | _ \<Rightarrow> e = (if is_join ev then NewSessionWhileWaitingForRx else SendDataWhileWaitingForRx))"
  using assms
  by (cases "nd_state d")
     (auto simp: nb_handle_event_def state_handle_event_def sending_handle_event_def waiting_window_handle_event_def
        waiting_rx_handle_event_def)

text \<open>The receive windows open on time: the first one, a receive delay (and the radio's offset) after the
  end of the transmission; when it closes without a frame the second one is requested exactly one second
  after the first for data, and after the difference of the two join accept delays for a join.\<close>

theorem nb_window_schedule:
  assumes "\<And>w. phy_handle_event R CancelRx w = (Inr (resp w), radio w)"
    and "nd_state d = WaitingForRx fr w (Rx1 t1) rf"
  shows "data_rxwindow1_timeout R fr w ms sh =
      Some ((WaitingForRxWindow fr w (Rx1 (get_rx_delay fr Window1 (sh_mac sh) + ms + phy_window_offset_ms R (sh_radio sh))),
        Inr (TimeoutRequest (get_rx_delay fr Window1 (sh_mac sh) + ms + phy_window_offset_ms R (sh_radio sh)))), sh) \<and>
    (\<exists>d' t2. nb_handle_event mk D next_u32 R NbTimeoutFired d = Some (Inr (TimeoutRequest t2), d') \<and>
      nd_state d' = WaitingForRxWindow fr w (Rx2 t2) \<and> nd_mac d' = nd_mac d \<and>
      t2 = t1 + (case fr of Data \<Rightarrow> 1000
        | Join \<Rightarrow> cfg_join_accept_delay2 (mac_conf (nd_mac d)) - cfg_join_accept_delay1 (mac_conf (nd_mac d))))"
  using assms
  by (cases fr) (auto simp: data_rxwindow1_timeout_def nb_handle_event_def state_handle_event_def waiting_rx_handle_event_def
      sh_radio_event_def Let_def get_rx_delay_def)

section \<open>A device to apply them to\<close>

text \<open>A radio whose transmissions end at once, and an exchange without a downlink.\<close>

definition example_phy :: "(u32, unit, unit, unit) phy" where
  "example_phy = \<lparr>phy_handle_event = (\<lambda>ev w. (Inr (case ev of TxRequest _ _ \<Rightarrow> TxDone w | _ \<Rightarrow> RadioIdle), w)),
     phy_received_packet = (\<lambda>_. []), phy_window_offset_ms = (\<lambda>_. 0), phy_window_duration_ms = (\<lambda>_. 100),
     phy_antenna_gain = 0, phy_max_radio_power = 14\<rparr>"

definition example_device :: "(u32, u32) nb_device" where
  "example_device = \<lparr>nd_state = Idle, nd_shared = \<lparr>sh_radio = 0, sh_rng = 0, sh_tx_buffer = rb_new 256,
     sh_mac = example_mac, sh_downlink = []\<rparr>\<rparr>"

lemma example_device_ok: "nb_ok example_device"
  by (simp add: nb_ok_def example_device_def example_mac_ok)

lemma example_uplink:
  obtains d where "nb_handle_event (\<lambda>k. xor_crypto (k ! 0)) 1 (\<lambda>n. (n, n + 1)) example_phy (NbSendData example_data) example_device
      = Some (Inr (TimeoutRequest (get_rx_delay Data Window1 (nd_mac d))), d)"
    "\<exists>w. nd_state d = WaitingForRxWindow Data w (Rx1 (get_rx_delay Data Window1 (nd_mac d)))" "nb_ok d"
    "counters_of (nd_mac d) = Some (0, None)"
proof -
  obtain tx w rng' buf' m' where r: "mac_send (\<lambda>k. xor_crypto (k ! 0)) (\<lambda>n. (n, n + 1)) 0 (rb_new 256) example_data example_mac
     = Some (Inr (tx, w, 0), rng', buf', m')" "rb_ok buf'" by (rule example_send)
  obtain packet where p: "rb_as_ref_for_read buf' = Some packet" using rb_ok_read [OF r(2)] by blast
  define d :: "(u32, u32) nb_device" where
    "d = \<lparr>nd_state = WaitingForRxWindow Data w (Rx1 (get_rx_delay Data Window1 m')),
       nd_shared = \<lparr>sh_radio = 0, sh_rng = rng', sh_tx_buffer = buf', sh_mac = m', sh_downlink = []\<rparr>\<rparr>"
  have h: "nb_handle_event (\<lambda>k. xor_crypto (k ! 0)) 1 (\<lambda>n. (n, n + 1)) example_phy (NbSendData example_data) example_device
      = Some (Inr (TimeoutRequest (get_rx_delay Data Window1 m')), d)"
    by (simp add: nb_handle_event_def state_handle_event_def example_device_def idle_handle_event_def r(1) idle_radio_tx_def
        p sh_radio_event_def example_phy_def data_rxwindow1_timeout_def Let_def d_def)
  have "counters_of example_mac = Some (0, None)"
    using counters_Joined [OF example_mac_state] by (simp add: session_new_def)
  then have "nb_ok d \<and> counters_of (nd_mac d) = Some (0, None)"
    using nb_handle_event_step [OF example_device_ok xor_cipher_ok _ h] by (auto simp: nb_moves_def d_def example_device_def)
  then show thesis using h by (intro that [of d]) (simp_all add: d_def)
qed

lemma example_silence:
  assumes "nb_ok d" "nd_state d = WaitingForRxWindow Data w (Rx1 t)" "counters_of (nd_mac d) = Some (0, None)"
  obtains d' where "nb_uplinks mk 1 next_u32 example_phy [NbTimeoutFired, NbTimeoutFired, NbTimeoutFired, NbTimeoutFired] d = Some ([], d')"
    "nd_state d' = Idle" "mac_get_fcnt_up (nd_mac d') \<noteq> Some 0xFFFFFFFF"
proof -
  have m: "mac_ok (nd_mac d)" using assms(1) by (simp add: nb_ok_def)
  obtain resp m' where r: "mac_rx2_complete (nd_mac d) = Some (resp, m')" using mac_rx2_complete_total [OF m] by blast
  note st = timeout_step [OF m r]
  then obtain x where x: "nb_response_of resp = Some x" using nb_response_of_total by blast
  define d' where "d' = \<lparr>nd_state = Idle, nd_shared = (nd_shared d)\<lparr>sh_mac := m'\<rparr>\<rparr>"
  have ev: "phy_handle_event example_phy (RxRequest rf) w = (Inr RadioIdle, w)"
    "phy_handle_event example_phy CancelRx w = (Inr RadioIdle, w)" for rf w
    by (simp_all add: example_phy_def)
  have "nb_uplinks mk 1 next_u32 example_phy [NbTimeoutFired, NbTimeoutFired, NbTimeoutFired, NbTimeoutFired] d = Some ([], d')"
    using assms(2) r x
    by (simp add: nb_handle_event_def state_handle_event_def waiting_window_handle_event_def waiting_rx_handle_event_def
        sh_radio_event_def ev Let_def d'_def)
  moreover have "mac_get_fcnt_up m' \<noteq> Some 0xFFFFFFFF"
  proof -
    have "\<exists>u dn. counters_of m' = Some (u, dn) \<and> (u = 0 \<or> u = 1)"
      using st assms(3) by (cases resp) (auto simp: completed_def)
    then show ?thesis by (auto simp: counters_of_def mac_get_fcnt_up_def split: mac_state.splits)
  qed
  ultimately show thesis by (intro that [of d']) (simp_all add: d'_def)
qed

lemma nb_device_invariant_witness:
  "\<exists>d res. nb_handle_event (\<lambda>k. xor_crypto (k ! 0)) 1 (\<lambda>n. (n, n + 1)) example_phy (NbSendData example_data) example_device
     = Some (res, d) \<and> nb_ok d"
proof -
  obtain d where h: "nb_handle_event (\<lambda>k. xor_crypto (k ! 0)) 1 (\<lambda>n. (n, n + 1)) example_phy (NbSendData example_data) example_device
      = Some (Inr (TimeoutRequest (get_rx_delay Data Window1 (nd_mac d))), d)" by (rule example_uplink)
  show ?thesis using nb_device_invariant [OF example_device_ok xor_cipher_ok _ h] h by blast
qed

lemma nb_uplink_counters_witness:
  "\<exists>us d. nb_uplinks (\<lambda>k. xor_crypto (k ! 0)) 1 (\<lambda>n. (n, n + 1)) example_phy
     [NbSendData example_data, NbTimeoutFired, NbTimeoutFired, NbTimeoutFired, NbTimeoutFired] example_device = Some (us, d) \<and>
     us = [(0, True)] \<and> counts_up 0 us"
proof -
  let ?evs = "[NbSendData example_data, NbTimeoutFired, NbTimeoutFired, NbTimeoutFired, NbTimeoutFired]"
  obtain d w where h: "nb_handle_event (\<lambda>k. xor_crypto (k ! 0)) 1 (\<lambda>n. (n, n + 1)) example_phy (NbSendData example_data) example_device
      = Some (Inr (TimeoutRequest (get_rx_delay Data Window1 (nd_mac d))), d)"
    "nd_state d = WaitingForRxWindow Data w (Rx1 (get_rx_delay Data Window1 (nd_mac d)))" "nb_ok d"
    "counters_of (nd_mac d) = Some (0, None)" by (rule example_uplink) blast
  obtain d' where r: "nb_uplinks (\<lambda>k. xor_crypto (k ! 0)) 1 (\<lambda>n. (n, n + 1)) example_phy
      [NbTimeoutFired, NbTimeoutFired, NbTimeoutFired, NbTimeoutFired] d = Some ([], d')" "mac_get_fcnt_up (nd_mac d') \<noteq> Some 0xFFFFFFFF"
    by (rule example_silence [OF h(3,2,4)])
  have u: "mac_get_fcnt_up (nd_mac example_device) = Some 0"
    by (simp add: example_device_def mac_get_fcnt_up_def example_mac_state session_new_def)
  have e: "nd_state example_device = Idle" "nd_state d \<noteq> Idle" using h(2) by (simp_all add: example_device_def)
  have all: "nb_uplinks (\<lambda>k. xor_crypto (k ! 0)) 1 (\<lambda>n. (n, n + 1)) example_phy ?evs example_device = Some ([(0, True)], d')"
    by (subst nb_uplinks.simps(2)) (simp only: h(1) r(1) u e is_send.simps Option.bind.simps case_prod_conv simp_thms if_True option.case not_False_eq_True)
  have s: "mac_state (nd_mac example_device) = Joined (session_new (replicate 16 1) (replicate 16 2) [1, 2, 3, 4])"
    by (simp add: example_device_def example_mac_state)
  have "\<forall>ev \<in> set ?evs. \<not> is_join ev" by simp
  from nb_uplink_counters [OF all example_device_ok xor_cipher_ok this s r(2)] all show ?thesis
    by (auto simp: e session_new_def)
qed

lemma nb_busy_refuses_witness:
  "\<exists>d :: (u32, u32) nb_device. nd_state d \<noteq> Idle \<and>
     nb_handle_event (\<lambda>k. xor_crypto (k ! 0)) 1 (\<lambda>n. (n, n + 1)) example_phy (NbSendData example_data) d =
       Some (Inl (NbState SendDataWhileWaitingForRxWindow), d)"
proof -
  obtain d :: "(u32, u32) nb_device" and w where h:
    "nd_state d = WaitingForRxWindow Data w (Rx1 (get_rx_delay Data Window1 (nd_mac d)))"
    by (rule example_uplink) blast
  then have "nd_state d \<noteq> Idle" by simp
  from nb_busy_refuses [OF this, of "NbSendData example_data" example_data _ "\<lambda>k. xor_crypto (k ! 0)" 1 "\<lambda>n. (n, n + 1)" example_phy] h
  show ?thesis by (intro exI [of _ d]) auto
qed

definition example_rf :: rf_config where
  "example_rf = \<lparr>rf_frequency = 868100000, rf_bb = bbmp_new SF_7 BW_125KHz CR_4_5, rf_max_payload_len = 51\<rparr>"

definition example_windows :: rx_windows where
  "example_windows = \<lparr>rw_rx1 = example_rf, rw_rx2 = example_rf\<rparr>"

lemma nb_window_schedule_witness:
  "\<exists>d'. nb_handle_event (\<lambda>k. xor_crypto (k ! 0)) 1 (\<lambda>n. (n, n + 1)) example_phy NbTimeoutFired
     (example_device\<lparr>nd_state := WaitingForRx Data example_windows (Rx1 5) example_rf\<rparr>) = Some (Inr (TimeoutRequest 1005), d')"
proof -
  have p: "phy_handle_event example_phy CancelRx x = (Inr ((\<lambda>_. RadioIdle) x), (\<lambda>x. x) x)" for x by (simp add: example_phy_def)
  have s: "nd_state (example_device\<lparr>nd_state := WaitingForRx Data example_windows (Rx1 5) example_rf\<rparr>) = WaitingForRx Data example_windows (Rx1 5) example_rf" by simp
  show ?thesis using nb_window_schedule [OF p s, of 0 "nd_shared example_device" "\<lambda>k. xor_crypto (k ! 0)" 1 "\<lambda>n. (n, n + 1)"] by auto
qed

end
