(* ===== verification/AsyncFacts.thy ===== *)
theory AsyncFacts
  imports AsyncDevice NbProperties
begin

text \<open>
  What the calls of the asynchronous device do to its MAC layer. Every call is a run of the steps of
  \<open>MacRuns\<close>, so all that holds of such runs holds of the device; a call that returns a response ends
  with the step that gave this response.
\<close>

section \<open>Radios and devices that are well formed\<close>

text \<open>A slice keeps its length, and a radio reports a length of data that fits the slice it was given.\<close>

definition async_phy_ok :: "('w, 't, 'e) async_phy \<Rightarrow> bool" where
  "async_phy_ok E \<longleftrightarrow>
     (\<forall>p w r p' w'. ap_rx_single E p w = Some (r, p', w') \<longrightarrow>
        length p' = length p \<and> (\<forall>s q. r = Inr (Rx s q) \<longrightarrow> s \<le> length p)) \<and>
     (\<forall>p w r p' w'. ap_rx_continuous E p w = Some (r, p', w') \<longrightarrow>
        length p' = length p \<and> (\<forall>s q. r = Inr (s, q) \<longrightarrow> s \<le> length p)) \<and>
     (\<forall>n p w t r p' w' t'. ap_race E n p w t = Some (r, p', w', t') \<longrightarrow>
        length p' = length p \<and> (\<forall>s q. r = Some (Inr (s, q)) \<longrightarrow> s \<le> length p))"

definition async_ok :: "('w, 't, 'r) async_device \<Rightarrow> bool" where
  "async_ok d \<longleftrightarrow> mac_ok (ad_mac d) \<and> rb_ok (ad_buffer d)"

lemma async_phy_okD:
  "async_phy_ok E \<Longrightarrow> ap_rx_single E p w = Some (r1, p', w') \<Longrightarrow> length p' = length p \<and> (\<forall>s q. r1 = Inr (Rx s q) \<longrightarrow> s \<le> length p)"
  "async_phy_ok E \<Longrightarrow> ap_rx_continuous E p w = Some (r2, p', w') \<Longrightarrow> length p' = length p \<and> (\<forall>s q. r2 = Inr (s, q) \<longrightarrow> s \<le> length p)"
  "async_phy_ok E \<Longrightarrow> ap_race E n p w t = Some (r3, p', w', t') \<Longrightarrow>
     length p' = length p \<and> (\<forall>s q. r3 = Some (Inr (s, q)) \<longrightarrow> s \<le> length p)"
  unfolding async_phy_ok_def by blast+

lemma async_okD: "async_ok d \<Longrightarrow> mac_ok (ad_mac d)" "async_ok d \<Longrightarrow> rb_ok (ad_buffer d)"
  by (simp_all add: async_ok_def)

section \<open>Runs of receptions\<close>

lemma mac_run_append: "mac_run mk next_u32 m es m' \<Longrightarrow> mac_run mk next_u32 m' fs m'' \<Longrightarrow> mac_run mk next_u32 m (es @ fs) m''"
  by (induction rule: mac_run.induct) (auto intro: run_cons)

lemma mac_run_single: "mac_step mk next_u32 m e m' \<Longrightarrow> mac_run mk next_u32 m [e] m'"
  by (rule run_cons [OF _ run_nil])

definition heard ::
  "(bytes \<Rightarrow> 'x crypto_scheme) \<Rightarrow> ('r \<Rightarrow> u32 \<times> 'r) \<Rightarrow> ('w, 't, 'r) async_device \<Rightarrow> mac_response list
    \<Rightarrow> ('w, 't, 'r) async_device \<Rightarrow> bool" where
  "heard mk next_u32 d rs d' \<longleftrightarrow> mac_run mk next_u32 (ad_mac d) (map EvResponse rs) (ad_mac d') \<and> async_ok d'"

lemma heard_trans [trans]: "heard mk n d rs d1 \<Longrightarrow> heard mk n d1 ss d' \<Longrightarrow> heard mk n d (rs @ ss) d'"
  by (auto simp: heard_def intro: mac_run_append)

lemma heard_quiet: "async_ok d \<Longrightarrow> ad_mac d' = ad_mac d \<Longrightarrow> rb_ok (ad_buffer d') \<Longrightarrow> heard mk n d [] d'"
  by (simp add: heard_def async_ok_def run_nil)

lemma heard_okD: "heard mk n d rs d' \<Longrightarrow> async_ok d'"
  by (simp add: heard_def)

lemma async_tryE:
  assumes "async_try m f = Some (r, d')"
  obtains (err) e where "m = Some (Inl e, d')" "r = Inl e" | (ok) x d1 where "m = Some (Inr x, d1)" "f x d1 = Some (r, d')"
proof -
  obtain x d1 where "m = Some (x, d1)" using assms by (auto simp: async_try_def bind_eq_Some_conv)
  then show thesis using assms that by (cases x) (simp_all add: async_try_def)
qed

section \<open>Calls to the radio\<close>

lemma radio_result_eq:
  "radio_result x d = Some (r, d') \<longleftrightarrow>
     (\<exists>z w. x = Some (z, w) \<and> d' = d\<lparr>ad_radio := w\<rparr> \<and> r = (case z of Inl e \<Rightarrow> Inl (AsyncRadio e) | Inr y \<Rightarrow> Inr y))"
  by (auto simp: radio_result_def bind_eq_Some_conv)

text \<open>A call whose result is known.\<close>

lemma radio_result_known:
  "map_option fst x = Some (Inr y) \<Longrightarrow> radio_result x d = Some (Inr y, d\<lparr>ad_radio := snd (the x)\<rparr>)"
  by (auto simp: radio_result_def)

lemma radio_result_failed:
  "map_option fst z = Some (Inl e) \<Longrightarrow> radio_result z d = Some (Inl (AsyncRadio e), d\<lparr>ad_radio := snd (the z)\<rparr>)"
  by (auto simp: radio_result_def)

definition quiet :: "('w, 't, 'r) async_device \<Rightarrow> ('w, 't, 'r) async_device \<Rightarrow> bool" where
  "quiet d d' \<longleftrightarrow> ad_mac d' = ad_mac d \<and> ad_buffer d' = ad_buffer d \<and> ad_class_c d' = ad_class_c d \<and>
     ad_downlink d' = ad_downlink d \<and> ad_rng d' = ad_rng d"

lemma quiet_heard: "quiet d d' \<Longrightarrow> async_ok d \<Longrightarrow> heard mk n d [] d'"
  by (simp add: quiet_def heard_quiet async_okD)

lemma radio_calls_quiet:
  "async_setup_rx E cfg d = Some (r, d') \<Longrightarrow> quiet d d'"
  "async_low_power E d = Some (r1, d') \<Longrightarrow> quiet d d'"
  "async_tx E tx d = Some (r2, d') \<Longrightarrow> quiet d d'"
  by (auto simp: async_setup_rx_def async_low_power_def async_tx_def radio_result_eq quiet_def bind_eq_Some_conv)

lemma timer_at_quiet: "quiet d (async_timer_at E ms d)"
  by (simp add: async_timer_at_def quiet_def)

lemma window_complete_quiet: "window_complete E d = Some (r, d') \<Longrightarrow> quiet d d'"
  by (auto simp: window_complete_def bind_eq_Some_conv dest: radio_calls_quiet split: if_splits)

text \<open>A reception into the buffer leaves it readable up to the reported length.\<close>

lemma rx_single_heard:
  assumes "async_phy_ok E" "async_rx_single E d = Some (r, d')"
  shows "ad_mac d' = ad_mac d \<and> (rb_ok (ad_buffer d) \<longrightarrow> rb_ok (ad_buffer d')) \<and> rb_pos (ad_buffer d') = rb_pos (ad_buffer d) \<and>
    (\<forall>s q. r = Inr (Rx s q) \<longrightarrow> s \<le> length (rb_packet (ad_buffer d')))"
proof -
  obtain x p w where x: "ap_rx_single E (rb_packet (ad_buffer d)) (ad_radio d) = Some (x, p, w)"
    using assms(2) by (auto simp: async_rx_single_def bind_eq_Some_conv)
  show ?thesis using async_phy_okD(1) [OF assms(1) x] assms(2)
    by (auto simp: async_rx_single_def x radio_result_eq ad_set_packet_def rb_ok_def split: sum.splits)
qed

lemma rx_continuous_heard:
  assumes "async_phy_ok E" "async_rx_continuous E d = Some (r, d')"
  shows "ad_mac d' = ad_mac d \<and> (rb_ok (ad_buffer d) \<longrightarrow> rb_ok (ad_buffer d')) \<and>
    (\<forall>s q. r = Inr (s, q) \<longrightarrow> s \<le> length (rb_packet (ad_buffer d')))"
proof -
  obtain x p w where x: "ap_rx_continuous E (rb_packet (ad_buffer d)) (ad_radio d) = Some (x, p, w)"
    using assms(2) by (auto simp: async_rx_continuous_def bind_eq_Some_conv)
  show ?thesis using async_phy_okD(2) [OF assms(1) x] assms(2)
    by (auto simp: async_rx_continuous_def x radio_result_eq ad_set_packet_def rb_ok_def split: sum.splits)
qed

lemma race_heard:
  assumes "async_phy_ok E" "rxc_listen_until_timeout E n d = Some (x, d')"
  shows "ad_mac d' = ad_mac d \<and> (rb_ok (ad_buffer d) \<longrightarrow> rb_ok (ad_buffer d')) \<and>
    (\<forall>s q. x = RxcRx s q \<longrightarrow> s \<le> length (rb_packet (ad_buffer d')))"
proof -
  obtain r p w t where r: "ap_race E (ucast n) (rb_packet (ad_buffer d)) (ad_radio d) (ad_timer d) = Some (r, p, w, t)"
    using assms(2) by (auto simp: rxc_listen_until_timeout_def bind_eq_Some_conv)
  show ?thesis using async_phy_okD(3) [OF assms(1) r] assms(2)
    by (auto simp: rxc_listen_until_timeout_def r Let_def ad_set_packet_def async_timer_at_def rb_ok_def
        split: option.splits sum.splits prod.splits)
qed

section \<open>Receptions\<close>

text \<open>What is reported of a response: everything but \<open>NoUpdate\<close>.\<close>

definition reported :: "mac_response \<Rightarrow> mac_response option" where
  "reported r = (case r of NoUpdate \<Rightarrow> None | r \<Rightarrow> Some r)"

lemma reported_simps [simp]: "reported r = None \<longleftrightarrow> r = NoUpdate" "None = reported r \<longleftrightarrow> r = NoUpdate"
  "reported r = Some x \<longleftrightarrow> x = r \<and> r \<noteq> NoUpdate" "Some x = reported r \<longleftrightarrow> x = r \<and> r \<noteq> NoUpdate"
  by (cases r; auto simp: reported_def)+

lemma reported_other: "r \<noteq> NoUpdate \<Longrightarrow> reported r = Some r"
  by simp

lemma handle_mac_response_eq:
  "handle_mac_response r d = (reported r, d\<lparr>ad_buffer := rb_clear (ad_buffer d)\<rparr>)"
  by (simp add: handle_mac_response_def reported_def)

lemma set_pos_ok: "s \<le> length (rb_packet b) \<Longrightarrow> rb_ok (rb_set_pos s b)"
  by (simp add: rb_ok_def rb_set_pos_def)

lemma async_handle_rx_heard:
  assumes "async_ok d" "cipher_ok mk" "s \<le> length (rb_packet (ad_buffer d))"
    and "async_handle_rx mk D s q rf d = Some (x, d')"
  obtains r where "heard mk n d [r] d'" "x = reported r"
proof -
  obtain resp buf' dl' m' where h: "mac_handle_rx mk D (rb_set_pos s (ad_buffer d)) (ad_downlink d) (rxq_snr q) rf (ad_mac d)
      = Some (resp, buf', dl', m')" "x = reported resp"
    "ad_mac d' = m'" "ad_buffer d' = rb_clear buf'"
    using assms(4) by (auto simp: async_handle_rx_def bind_eq_Some_conv handle_mac_response_eq)
  note ok = set_pos_ok [OF assms(3)]
  have "heard mk n d [resp] d'"
    using handle_rx_step [OF async_okD(1) [OF assms(1)] assms(2) ok h(1)] mac_run_single [OF step_rx [OF ok h(1), of n]] h(3,4)
    by (simp add: heard_def async_ok_def)
  then show thesis using h(2) by (rule that)
qed

lemma async_handle_rxc_heard:
  assumes "async_ok d" "cipher_ok mk" "s \<le> length (rb_packet (ad_buffer d))"
    and "async_handle_rxc mk D s q rf d = Some (x, d')"
  obtains (refused) "x = Inl (AsyncMac NotJoined)" "heard mk n d [] d'" "\<not> mac_is_joined (ad_mac d)"
  | (handled) r where "heard mk n d [r] d'" "x = Inr (reported r)" "mac_is_joined (ad_mac d)"
proof -
  note ok = set_pos_ok [OF assms(3)]
  obtain r buf' dl' m' where h: "mac_handle_rxc mk D (rb_set_pos s (ad_buffer d)) (ad_downlink d) (rxq_snr q) rf (ad_mac d)
      = Some (r, buf', dl', m')" using assms(4) by (auto simp: async_handle_rxc_def bind_eq_Some_conv)
  show thesis
  proof (cases "mac_state (ad_mac d)")
    case (Joined s')
    then obtain resp where r: "r = Inr resp" using h by (auto simp: mac_handle_rxc_def)
    then have d': "x = Inr (reported resp)" "ad_mac d' = m'" "ad_buffer d' = rb_clear buf'"
      using assms(4) h by (auto simp: async_handle_rxc_def handle_mac_response_eq)
    have st: "mac_step mk n (ad_mac d) (EvResponse resp) m'" using step_rxc [OF ok] h r by blast
    then have "heard mk n d [resp] d'"
      using mac_step_simulation [OF st async_okD(1) [OF assms(1)] assms(2)] mac_run_single [OF st] d'
      by (simp add: heard_def async_ok_def)
    then show thesis using d'(1) Joined by (intro handled) (simp_all add: mac_is_joined_def)
  next
    case (Joining ot)
    then show thesis using assms h ok
      by (intro refused) (auto simp: async_handle_rxc_def mac_handle_rxc_def mac_is_joined_def intro!: heard_quiet)
  next
    case Unjoined
    then show thesis using assms h ok
      by (intro refused) (auto simp: async_handle_rxc_def mac_handle_rxc_def mac_is_joined_def intro!: heard_quiet)
  qed
qed

section \<open>Waiting for a window\<close>

text \<open>One round of the Class C loop.\<close>

lemma rxc_round:
  assumes "async_phy_ok E" "cipher_ok mk" "async_ok d" "rxc_listen_until_timeout E duration d = Some (x, d1)"
  shows "heard mk n d [] d1" "x = RxcRx s q \<Longrightarrow> s \<le> length (rb_packet (ad_buffer d1))"
  using race_heard [OF assms(1,4)] assms(3) by (auto intro: heard_quiet dest: async_okD)

lemma rxc_loop_heard:
  fixes mk :: "bytes \<Rightarrow> 'x crypto_scheme" and E :: "('w, 't, 'e) async_phy" and d :: "('w, 't, 'r) async_device"
  assumes "rxc_loop mk D E cfg duration response d = Some (r, d')" "async_phy_ok E" "cipher_ok mk" "async_ok d"
  shows "\<exists>rs. heard mk n d rs d' \<and> (\<not> mac_is_joined (ad_mac d) \<longrightarrow> rs = [])"
proof -
  let ?P = "\<lambda>mk D E cfg duration response d y. async_phy_ok E \<longrightarrow> cipher_ok mk \<longrightarrow> async_ok d \<longrightarrow>
     (\<exists>rs. heard mk n d rs (snd y) \<and> (\<not> mac_is_joined (ad_mac d) \<longrightarrow> rs = []))"
  have "?P mk D E cfg duration response d (r, d')"
    using assms(1)
  proof (rule rxc_loop.raw_induct [where P = ?P, rotated], intro impI)
    fix f :: "(bytes \<Rightarrow> 'x crypto_scheme) \<Rightarrow> nat \<Rightarrow> ('w, 't, 'e) async_phy \<Rightarrow> rx_config \<Rightarrow> u32 \<Rightarrow> mac_response option
        \<Rightarrow> ('w, 't, 'r) async_device \<Rightarrow> (('e async_error + mac_response option) \<times> ('w, 't, 'r) async_device) option"
      and mk D E cfg duration response d y
    assume IH: "\<And>mk D E cfg duration response d y. f mk D E cfg duration response d = Some y \<Longrightarrow> ?P mk D E cfg duration response d y"
    assume step: "Option.bind (rxc_listen_until_timeout E duration d) (\<lambda>(x, d1).
        case x of
          RxcTimeout _ \<Rightarrow> Some (Inr response, d1)
        | RxcRx sz q \<Rightarrow>
            Option.bind (async_handle_rxc mk D sz q (rxc_rf cfg) d1) (\<lambda>(r, d2).
              case r of
                Inl e \<Rightarrow> Some (Inl e, d2)
              | Inr y \<Rightarrow> f mk D E cfg duration (case y of None \<Rightarrow> response | Some z \<Rightarrow> Some z) d2)) = Some y"
    assume ok: "async_phy_ok E" "cipher_ok mk" "async_ok d"
    obtain x d1 where x: "rxc_listen_until_timeout E duration d = Some (x, d1)"
      using step by (auto simp: bind_eq_Some_conv)
    note h = rxc_round [OF ok x]
    have j1: "mac_is_joined (ad_mac d1) = mac_is_joined (ad_mac d)" using race_heard [OF ok(1) x] by simp
    show "\<exists>rs. heard mk n d rs (snd y) \<and> (\<not> mac_is_joined (ad_mac d) \<longrightarrow> rs = [])"
    proof (cases x)
      case (RxcTimeout t)
      then show ?thesis using step x h(1) by (auto intro: exI [of _ "[]"])
    next
      case (RxcRx s q)
      note d1 = heard_okD [OF h(1)]
      obtain z d2 where z: "async_handle_rxc mk D s q (rxc_rf cfg) d1 = Some (z, d2)"
        "(case z of Inl e \<Rightarrow> Some (Inl e, d2)
            | Inr y \<Rightarrow> f mk D E cfg duration (case y of None \<Rightarrow> response | Some z \<Rightarrow> Some z) d2) = Some y"
        using step x RxcRx by (auto simp: bind_eq_Some_conv)
      show ?thesis
      proof (rule async_handle_rxc_heard [where n = n, OF d1 ok(2) h(2) [OF RxcRx] z(1)])
        assume "z = Inl (AsyncMac NotJoined)" "heard mk n d1 [] d2"
        then show ?thesis using z(2) heard_trans [OF h(1)] by force
      next
        fix r assume r: "heard mk n d1 [r] d2" "z = Inr (reported r)" "mac_is_joined (ad_mac d1)"
        then obtain rs where "heard mk n d2 rs (snd y)" using IH z(2) ok heard_okD [OF r(1)] by fastforce
        then show ?thesis using heard_trans [OF h(1) heard_trans [OF r(1)]] r(3) j1 by blast
      qed
    qed
  qed
  then show ?thesis using assms(2-4) by simp
qed

lemma between_windows_heard:
  assumes "async_phy_ok E" "cipher_ok mk" "async_ok d" "between_windows mk D E duration d = Some (r, d')"
  shows "\<exists>rs. heard mk n d rs d' \<and> (\<not> mac_is_joined (ad_mac d) \<longrightarrow> rs = [])"
proof (cases "ad_class_c d")
  case True
  then obtain cfg where c: "async_try (async_setup_rx E cfg d) (\<lambda>_ d1. rxc_loop mk D E cfg duration None d1) = Some (r, d')"
    using assms(4) by (auto simp: between_windows_def bind_eq_Some_conv)
  then show ?thesis
  proof (rule async_tryE)
    fix e assume "async_setup_rx E cfg d = Some (Inl e, d')"
    from quiet_heard [OF radio_calls_quiet(1) [OF this] assms(3)] show ?thesis by blast
  next
    fix x d1 assume d1: "async_setup_rx E cfg d = Some (Inr x, d1)" "rxc_loop mk D E cfg duration None d1 = Some (r, d')"
    note h = quiet_heard [where mk = mk and n = n, OF radio_calls_quiet(1) [OF d1(1)] assms(3)]
    have "ad_mac d1 = ad_mac d" using radio_calls_quiet(1) [OF d1(1)] by (simp add: quiet_def)
    then obtain rs where "heard mk n d1 rs d'" "\<not> mac_is_joined (ad_mac d) \<longrightarrow> rs = []"
      using rxc_loop_heard [where n = n, OF d1(2) assms(1,2) heard_okD [OF h]] by auto
    then show ?thesis using heard_trans [OF h] by auto
  qed
next
  case False
  then have "async_try (async_low_power E d) (\<lambda>_ d1. Some (Inr None, async_timer_at E duration d1)) = Some (r, d')"
    using assms(4) by (simp add: between_windows_def)
  then show ?thesis
  proof (rule async_tryE)
    fix e assume "async_low_power E d = Some (Inl e, d')"
    from quiet_heard [OF radio_calls_quiet(2) [OF this] assms(3)] show ?thesis by blast
  next
    fix x d1 assume d1: "async_low_power E d = Some (Inr x, d1)" "Some (Inr None, async_timer_at E duration d1) = Some (r, d')"
    note h = quiet_heard [where mk = mk and n = n, OF radio_calls_quiet(2) [OF d1(1)] assms(3)]
    show ?thesis using d1(2) heard_trans [OF h quiet_heard [OF timer_at_quiet heard_okD [OF h]]] by auto
  qed
qed

section \<open>Listening in a window\<close>

text \<open>Listening hears at most one frame, and a response that it returns is the one of that frame.\<close>

lemma rx_listen_heard:
  assumes "async_phy_ok E" "cipher_ok mk" "async_ok d" "rx_listen mk D E rf d = Some (x, d')"
  obtains rs where "heard mk n d rs d'" "\<And>y. x = Inr (Some y) \<Longrightarrow> rs = [y] \<and> y \<noteq> NoUpdate"
    "x = Inr None \<Longrightarrow> rs = [] \<or> rs = [NoUpdate]"
proof -
  from assms(4) [unfolded rx_listen_def] show thesis
  proof (rule async_tryE)
    fix e assume a: "async_rx_single E d = Some (Inl e, d')" "x = Inl e"
    have "heard mk n d [] d'" using rx_single_heard [OF assms(1) a(1)] assms(3) by (auto intro: heard_quiet dest: async_okD)
    then show thesis using a(2) by (intro that) auto
  next
    fix st d1
    assume d1: "async_rx_single E d = Some (Inr st, d1)"
      "do { (response, d2) \<leftarrow> (case st of Rx s q \<Rightarrow> async_handle_rx mk D s q rf d1 | RxTimeout \<Rightarrow> Some (None, d1));
            async_try (window_complete E d2) (\<lambda>_ d3. Some (Inr response, d3))} = Some (x, d')"
    note k = rx_single_heard [OF assms(1) d1(1)]
    have h1: "heard mk n d [] d1" using k assms(3) by (auto intro: heard_quiet dest: async_okD)
    obtain y d2 where y: "(case st of Rx s q \<Rightarrow> async_handle_rx mk D s q rf d1 | RxTimeout \<Rightarrow> Some (None, d1)) = Some (y, d2)"
      "async_try (window_complete E d2) (\<lambda>_ d3. Some (Inr y, d3)) = Some (x, d')"
      using d1(2) by (auto simp: bind_eq_Some_conv)
    have "\<exists>rs. heard mk n d1 rs d2 \<and> (rs = [] \<and> y = None \<or> (\<exists>r. rs = [r] \<and> y = reported r))"
    proof (cases st)
      case (Rx s q)
      then have l: "s \<le> length (rb_packet (ad_buffer d1))" and a: "async_handle_rx mk D s q rf d1 = Some (y, d2)"
        using k y(1) by auto
      show ?thesis by (rule async_handle_rx_heard [where n = n, OF heard_okD [OF h1] assms(2) l a]) blast
    next
      case RxTimeout
      then show ?thesis using y(1) quiet_heard [of d1 d1] heard_okD [OF h1] by (auto simp: quiet_def)
    qed
    then obtain rs where rs: "heard mk n d1 rs d2" "rs = [] \<and> y = None \<or> (\<exists>r. rs = [r] \<and> y = reported r)" by blast
    have h2: "heard mk n d rs d2" using heard_trans [OF h1 rs(1)] by simp
    have q: "quiet d2 d' \<and> (x = Inr y \<or> (\<exists>e. x = Inl e))"
      using y(2) by (rule async_tryE) (auto dest: window_complete_quiet)
    then have "heard mk n d rs d'" using heard_trans [OF h2 quiet_heard [OF _ heard_okD [OF h2]]] by auto
    then show thesis using rs(2) q by (intro that) auto
  qed
qed

text \<open>A window: first what is heard between the windows, then at most one frame.\<close>

lemma rx_window_heard:
  assumes "async_phy_ok E" "cipher_ok mk" "async_ok d" "rx_window mk D E fr ms w win d = Some (x, d')"
  obtains (err) rs e where "x = Inl e" "heard mk n d rs d'"
  | (silent) rs ss where "x = Inr None" "heard mk n d (rs @ ss) d'" "\<not> mac_is_joined (ad_mac d) \<longrightarrow> rs = []" "set ss \<subseteq> {NoUpdate}"
  | (frame) rs y where "x = Inr (Some y)" "heard mk n d (rs @ [y]) d'" "\<not> mac_is_joined (ad_mac d) \<longrightarrow> rs = []" "y \<noteq> NoUpdate"
proof -
  from assms(4) [unfolded rx_window_def Let_def] show thesis
  proof (rule async_tryE)
    fix e assume a: "between_windows mk D E (rx_start_delay E fr ms win d) d = Some (Inl e, d')" "x = Inl e"
    obtain rs where "heard mk n d rs d'" using between_windows_heard [OF assms(1-3) a(1)] by blast
    then show thesis using a(2) by (intro err)
  next
    fix y d1
    assume b: "between_windows mk D E (rx_start_delay E fr ms win d) d = Some (Inr y, d1)"
      "async_try (async_setup_rx E (rw_rx_config (ap_window_buffer E (ad_radio d1)) win w) d1)
         (\<lambda>_. rx_listen mk D E (rxc_rf (rw_rx_config (ap_window_buffer E (ad_radio d1)) win w))) = Some (x, d')"
    let ?cfg = "rw_rx_config (ap_window_buffer E (ad_radio d1)) win w"
    obtain rs where rs: "heard mk n d rs d1" "\<not> mac_is_joined (ad_mac d) \<longrightarrow> rs = []"
      using between_windows_heard [OF assms(1-3) b(1)] by blast
    from b(2) show thesis
    proof (rule async_tryE)
      fix e assume e: "async_setup_rx E ?cfg d1 = Some (Inl e, d')" "x = Inl e"
      have "heard mk n d rs d'"
        using heard_trans [OF rs(1) quiet_heard [OF radio_calls_quiet(1) [OF e(1)] heard_okD [OF rs(1)]]] by simp
      then show thesis using e(2) by (intro err)
    next
      fix z d2 assume z: "async_setup_rx E ?cfg d1 = Some (Inr z, d2)" "rx_listen mk D E (rxc_rf ?cfg) d2 = Some (x, d')"
      have h: "heard mk n d rs d2"
        using heard_trans [OF rs(1) quiet_heard [OF radio_calls_quiet(1) [OF z(1)] heard_okD [OF rs(1)]]] by simp
      show thesis
      proof (rule rx_listen_heard [where n = n, OF assms(1,2) heard_okD [OF h] z(2)])
        fix ss assume ss: "heard mk n d2 ss d'" "\<And>y. x = Inr (Some y) \<Longrightarrow> ss = [y] \<and> y \<noteq> NoUpdate"
          "x = Inr None \<Longrightarrow> ss = [] \<or> ss = [NoUpdate]"
        note t = heard_trans [OF h ss(1)]
        consider e where "x = Inl e" | "x = Inr None" | y where "x = Inr (Some y)" by (metis old.sum.exhaust option.exhaust)
        then show thesis
        proof cases
          case (1 e)
          then show thesis using t by (intro err)
        next
          case 2
          then show thesis using t ss(3) rs(2) by (intro silent [of rs ss]) auto
        next
          case (3 y)
          then show thesis using t ss(2) [OF 3] rs(2) by (intro frame) auto
        qed
      qed
    qed
  qed
qed

section \<open>An exchange\<close>

text \<open>Receptions keep an activation, and an activated device answers the end of its second window.\<close>

definition activated :: "mac \<Rightarrow> bool" where
  "activated m \<longleftrightarrow> mac_state m \<noteq> Unjoined"

lemma rx2_complete_activated:
  assumes "mac_ok m" "activated m" "mac_rx2_complete m = Some (r, m')"
  shows "activated m' \<and> r \<noteq> NoUpdate"
proof (cases "mac_state m")
  case (Joined s)
  have rok: "rs_ok (mac_region m)" using assms(1) by (simp add: mac_ok_def)
  obtain s' conf' where c: "rx2_complete (mac_conf m) (mac_region m) s = Some (r, s', conf')"
    "m' = m\<lparr>mac_conf := conf', mac_state := Joined s'\<rparr>"
    using assms(3) Joined by (auto simp: mac_rx2_complete_def bind_eq_Some_conv)
  show ?thesis using rx2_complete_counters [OF rok c(1)] c(2) by (simp add: activated_def)
qed (use assms in \<open>auto simp: mac_rx2_complete_def activated_def otaa_rx2_complete_def\<close>)

lemma response_step_activated:
  assumes "mac_step mk next_u32 m (EvResponse r) m'" "mac_ok m" "cipher_ok mk" "activated m"
  shows "activated m'"
  using assms(1)
proof cases
  case (step_rx buf D dl snr rf buf' dl')
  then show ?thesis using handle_rx_step [OF assms(2,3) step_rx(1,2)] assms(4) by (simp add: activated_def)
next
  case (step_rxc buf D dl snr rf buf' dl')
  then obtain s where s: "mac_state m = Joined s" by (cases "mac_state m") (simp_all add: mac_handle_rxc_def)
  then show ?thesis using step_rxc session_rx_step [OF assms(2,3) s] by (auto simp: mac_handle_rxc_def activated_def)
next
  case step_timeout
  then show ?thesis using rx2_complete_activated [OF assms(2,4)] by blast
qed

lemma responses_activated:
  assumes "mac_run mk next_u32 m es m'" "es = map EvResponse rs" "mac_ok m" "cipher_ok mk" "activated m"
  shows "activated m'"
  using assms
proof (induction arbitrary: rs rule: mac_run.induct)
  case (run_cons m e m1 es m')
  then obtain r ss where r: "e = EvResponse r" "es = map EvResponse ss" by auto
  have st: "mac_step mk next_u32 m (EvResponse r) m1" using run_cons.hyps(1) r(1) by simp
  have "mac_ok m1" using mac_step_simulation [OF st run_cons.prems(2,3)] by blast
  from run_cons.IH [OF r(2) this run_cons.prems(3) response_step_activated [OF st run_cons.prems(2-4)]] show ?case .
qed simp

lemma heard_activated: "heard mk n d rs d' \<Longrightarrow> async_ok d \<Longrightarrow> cipher_ok mk \<Longrightarrow> activated (ad_mac d) \<Longrightarrow> activated (ad_mac d')"
  unfolding heard_def using responses_activated async_okD(1) by blast

lemma heard_counters:
  "heard mk n d rs d' \<Longrightarrow> async_ok d \<Longrightarrow> cipher_ok mk \<Longrightarrow>
   counter_run (counters_of (ad_mac d)) (map EvResponse rs) (counters_of (ad_mac d'))"
  unfolding heard_def using mac_run_simulation async_okD(1) by blast

lemma no_updates_counters: "counter_run a (map EvResponse rs) b \<Longrightarrow> set rs \<subseteq> {NoUpdate} \<Longrightarrow> b = a"
proof (induction rs arbitrary: a)
  case Nil
  then show ?case by (auto elim: counter_run.cases)
next
  case (Cons r rs)
  then obtain c where "counter_step a (EvResponse r) c" "counter_run c (map EvResponse rs) b" by (auto elim: counter_run.cases)
  then show ?case using Cons by auto
qed

text \<open>The second window and both windows: the response is the one of the last step, and a device without a
  session has heard nothing that counts before.\<close>

lemma rx2_downlink_heard:
  assumes "async_phy_ok E" "cipher_ok mk" "async_ok d" "activated (ad_mac d)" "rx2_downlink mk D E fr ms w d = Some (x, d')"
  obtains (err) rs e where "x = Inl e" "heard mk n d rs d'"
  | (finished) rs y where "x = Inr y" "heard mk n d (rs @ [y]) d'" "y \<noteq> NoUpdate"
      "\<not> mac_is_joined (ad_mac d) \<longrightarrow> set rs \<subseteq> {NoUpdate}"
proof -
  from assms(5) [unfolded rx2_downlink_def] show thesis
  proof (rule async_tryE)
    fix e assume e: "rx_window mk D E fr ms w Window2 d = Some (Inl e, d')" "x = Inl e"
    show thesis by (rule rx_window_heard [where n = n, OF assms(1-3) e(1)]) (use e(2) err in auto)
  next
    fix r d1
    assume b: "rx_window mk D E fr ms w Window2 d = Some (Inr r, d1)"
      "(case r of Some response \<Rightarrow> Some (Inr response, d1)
        | None \<Rightarrow> do { (resp, m') \<leftarrow> mac_rx2_complete (ad_mac d1); Some (Inr resp, d1\<lparr>ad_mac := m'\<rparr>)}) = Some (x, d')"
    show thesis
    proof (rule rx_window_heard [where n = n, OF assms(1-3) b(1)])
      fix rs y assume "Inr r = Inr (Some y)" "heard mk n d (rs @ [y]) d1" "\<not> mac_is_joined (ad_mac d) \<longrightarrow> rs = []" "y \<noteq> NoUpdate"
      then show thesis using b(2) by (intro finished [of y rs]) auto
    next
      fix rs ss assume g: "Inr r = Inr None" "heard mk n d (rs @ ss) d1" "\<not> mac_is_joined (ad_mac d) \<longrightarrow> rs = []" "set ss \<subseteq> {NoUpdate}"
      obtain resp m' where t: "mac_rx2_complete (ad_mac d1) = Some (resp, m')" "x = Inr resp" "d' = d1\<lparr>ad_mac := m'\<rparr>"
        using b(2) g(1) by (auto simp: bind_eq_Some_conv)
      note ok = heard_okD [OF g(2)]
      have nn: "resp \<noteq> NoUpdate"
        using rx2_complete_activated [OF async_okD(1) [OF ok] heard_activated [OF g(2) assms(3,2,4)] t(1)] by blast
      have "heard mk n d1 [resp] d'"
        using mac_run_single [OF step_timeout [OF t(1), of mk n]] timeout_step [OF async_okD(1) [OF ok] t(1)] ok t(3)
        by (simp add: heard_def async_ok_def)
      from heard_trans [OF g(2) this] show thesis using t(2) nn g(3,4) by (intro finished [of resp "rs @ ss"]) auto
    qed auto
  qed
qed

lemma rx_downlink_heard:
  assumes "async_phy_ok E" "cipher_ok mk" "async_ok d" "activated (ad_mac d)" "rx_downlink mk D E fr ms w d = Some (x, d')"
  obtains (err) rs e where "x = Inl e" "heard mk n d rs d'"
  | (finished) rs y where "x = Inr y" "heard mk n d (rs @ [y]) d'" "y \<noteq> NoUpdate"
      "\<not> mac_is_joined (ad_mac d) \<longrightarrow> set rs \<subseteq> {NoUpdate}"
proof -
  define d0 where "d0 = d\<lparr>ad_buffer := rb_clear (ad_buffer d)\<rparr>"
  have m0: "ad_mac d0 = ad_mac d" by (simp add: d0_def)
  have h0: "heard mk n d [] d0" using assms(3) by (intro heard_quiet) (simp_all add: d0_def)
  note ok0 = heard_okD [OF h0]
  from assms(5) [unfolded rx_downlink_def d0_def [symmetric]] show thesis
  proof (rule async_tryE)
    fix e assume a: "rx_window mk D E fr ms w Window1 d0 = Some (Inl e, d')" "x = Inl e"
    show thesis by (rule rx_window_heard [where n = n, OF assms(1,2) ok0 a(1)]) (use a(2) err heard_trans [OF h0] in auto)
  next
    fix r d1
    assume a: "rx_window mk D E fr ms w Window1 d0 = Some (Inr r, d1)"
      "(case r of Some response \<Rightarrow> Some (Inr response, d1) | None \<Rightarrow> rx2_downlink mk D E fr ms w d1) = Some (x, d')"
    show thesis
    proof (rule rx_window_heard [where n = n, OF assms(1,2) ok0 a(1)])
      fix rs y assume f: "Inr r = Inr (Some y)" "heard mk n d0 (rs @ [y]) d1" "\<not> mac_is_joined (ad_mac d0) \<longrightarrow> rs = []" "y \<noteq> NoUpdate"
      then show thesis using a(2) m0 heard_trans [OF h0 f(2)] by (intro finished [of y rs]) auto
    next
      fix rs ss assume f: "Inr r = Inr None" "heard mk n d0 (rs @ ss) d1" "\<not> mac_is_joined (ad_mac d0) \<longrightarrow> rs = []" "set ss \<subseteq> {NoUpdate}"
      have h1: "heard mk n d (rs @ ss) d1" using heard_trans [OF h0 f(2)] by simp
      have nj: "\<not> mac_is_joined (ad_mac d1) \<and> set (rs @ ss) \<subseteq> {NoUpdate}" if "\<not> mac_is_joined (ad_mac d)"
      proof -
        have "set (rs @ ss) \<subseteq> {NoUpdate}" using f(3,4) that m0 by auto
        with no_updates_counters [OF heard_counters [OF h1 assms(3,2)]] that show ?thesis by (simp add: joined_counters)
      qed
      have b: "rx2_downlink mk D E fr ms w d1 = Some (x, d')" using a(2) f(1) by simp
      show thesis
      proof (rule rx2_downlink_heard [where n = n, OF assms(1,2) heard_okD [OF h1] heard_activated [OF h1 assms(3,2,4)] b])
        fix us e assume "x = Inl e" "heard mk n d1 us d'"
        then show thesis using heard_trans [OF h1] by (intro err)
      next
        fix us y assume "x = Inr y" "heard mk n d1 (us @ [y]) d'" "y \<noteq> NoUpdate" "\<not> mac_is_joined (ad_mac d1) \<longrightarrow> set us \<subseteq> {NoUpdate}"
        then show thesis using nj heard_trans [OF h1, of "us @ [y]"] by (intro finished [of y "(rs @ ss) @ us"]) auto
      qed
    qed auto
  qed
qed

end
