(* ===== verification/AsyncRuns.thy ===== *)
theory AsyncRuns
  imports AsyncFacts
begin

text \<open>
  The calls of the asynchronous device as runs of the MAC layer, the responses they can give, and what a
  sequence of calls does to the frame counters and lets the application see of them.
\<close>

section \<open>Calls as runs of the MAC layer\<close>

lemma transmit_heard:
  assumes "async_phy_ok E" "cipher_ok mk" "async_ok d" "activated (ad_mac d)" "transmit mk D E fr tx w d = Some (x, d')"
  obtains (err) rs e where "x = Inl e" "heard mk n d rs d'"
  | (finished) rs y where "x = Inr y" "heard mk n d (rs @ [y]) d'" "y \<noteq> NoUpdate"
      "\<not> mac_is_joined (ad_mac d) \<longrightarrow> set rs \<subseteq> {NoUpdate}"
proof -
  from assms(5) [unfolded transmit_def] show thesis
  proof (rule async_tryE)
    fix e assume "async_tx E tx d = Some (Inl e, d')" "x = Inl e"
    then show thesis using quiet_heard [OF radio_calls_quiet(3) assms(3)] by (intro err)
  next
    fix ms d1
    assume a: "async_tx E tx d = Some (Inr ms, d1)"
      "rx_downlink mk D E fr ms w (d1\<lparr>ad_timer := ap_timer_reset E (ad_timer d1)\<rparr>) = Some (x, d')"
    let ?d = "d1\<lparr>ad_timer := ap_timer_reset E (ad_timer d1)\<rparr>"
    have m: "ad_mac ?d = ad_mac d" "ad_buffer ?d = ad_buffer d" using radio_calls_quiet(3) [OF a(1)] by (simp_all add: quiet_def)
    have h: "heard mk n d [] ?d" using m assms(3) by (intro heard_quiet) (simp_all add: async_okD)
    have act: "activated (ad_mac ?d)" using m assms(4) by simp
    show thesis
    proof (rule rx_downlink_heard [where n = n, OF assms(1,2) heard_okD [OF h] act a(2)])
      fix rs e assume "x = Inl e" "heard mk n ?d rs d'"
      then show thesis using heard_trans [OF h] by (intro err) auto
    next
      fix rs y assume "x = Inr y" "heard mk n ?d (rs @ [y]) d'" "y \<noteq> NoUpdate"
        "\<not> mac_is_joined (ad_mac ?d) \<longrightarrow> set rs \<subseteq> {NoUpdate}"
      then show thesis using heard_trans [OF h, of "rs @ [y]"] m by (intro finished [of y rs]) auto
    qed
  qed
qed

text \<open>The responses that a run of receptions can give with and without a session.\<close>

lemma counter_run_Cons: "counter_run a (e # es) c \<longleftrightarrow> (\<exists>b. counter_step a e b \<and> counter_run b es c)"
  by (auto elim: counter_run.cases intro: crun_cons)

lemma counter_run_Nil: "counter_run a [] c \<longleftrightarrow> c = a"
  by (auto elim: counter_run.cases intro: crun_nil)

lemma counter_run_append:
  "counter_run a (es @ fs) c \<longleftrightarrow> (\<exists>b. counter_run a es b \<and> counter_run b fs c)"
  by (induction es arbitrary: a) (auto simp: counter_run_Cons counter_run_Nil)

lemma counter_run_Some:
  "counter_run (Some c) (map EvResponse rs) b \<Longrightarrow> b \<noteq> None \<and> (\<forall>r \<in> set rs. \<not> new_session (EvResponse r))"
proof (induction rs arbitrary: c)
  case Nil
  then show ?case by (simp add: counter_run_Nil)
next
  case (Cons r rs)
  then obtain c1 where c1: "counter_step (Some c) (EvResponse r) c1" "counter_run c1 (map EvResponse rs) b"
    by (auto simp: counter_run_Cons)
  then have k: "c1 \<noteq> None \<and> \<not> new_session (EvResponse r)" by (cases r) (auto simp: completed_def)
  then obtain c' where "c1 = Some c'" by blast
  then have "b \<noteq> None \<and> (\<forall>r \<in> set rs. \<not> new_session (EvResponse r))" using Cons.IH [of c'] c1(2) by blast
  then show ?case using k by simp
qed

lemma session_responses:
  assumes "heard mk n d (rs @ [y]) d'" "async_ok d" "cipher_ok mk" "mac_is_joined (ad_mac d)" "y \<noteq> NoUpdate"
  shows "\<exists>x. send_response_of y = Some x"
proof -
  obtain c where c: "counters_of (ad_mac d) = Some c" using assms(4) by (auto simp: joined_counters)
  obtain b where b: "counter_run (Some c) (map EvResponse rs) b" "counter_step b (EvResponse y) (counters_of (ad_mac d'))"
    using heard_counters [OF assms(1-3)] by (auto simp: c counter_run_append counter_run_Cons counter_run_Nil)
  obtain c' where "b = Some c'" using counter_run_Some [OF b(1)] by auto
  then show ?thesis using b(2) assms(5) by (cases y) auto
qed

lemma join_responses:
  assumes "heard mk n d (rs @ [y]) d'" "async_ok d" "cipher_ok mk" "\<not> mac_is_joined (ad_mac d)" "y \<noteq> NoUpdate"
    "set rs \<subseteq> {NoUpdate}"
  shows "\<exists>x. join_response_of y = Some x"
proof -
  have c: "counters_of (ad_mac d) = None" using assms(4) joined_counters by blast
  obtain b where b: "counter_run None (map EvResponse rs) b" "counter_step b (EvResponse y) (counters_of (ad_mac d'))"
    using heard_counters [OF assms(1-3)] by (auto simp: c counter_run_append counter_run_Cons counter_run_Nil)
  then show ?thesis using no_updates_counters [OF b(1) assms(6)] assms(5) by (cases y) (auto simp: completed_def)
qed

text \<open>Class C outside of an exchange.\<close>

lemma rxc_listen_heard:
  fixes mk :: "bytes \<Rightarrow> 'x crypto_scheme" and E :: "('w, 't, 'e) async_phy" and d :: "('w, 't, 'r) async_device"
  assumes "rxc_listen_loop mk D E cfg d = Some (x, d')" "async_phy_ok E" "cipher_ok mk" "async_ok d"
  shows "\<exists>rs. heard mk n d rs d' \<and> (\<forall>y. x = Inr y \<longrightarrow> rs \<noteq> [] \<and> listen_response_of (last rs) = Some y)"
proof -
  let ?Q = "\<lambda>mk d y. \<exists>rs. heard mk n d rs (snd y) \<and> (\<forall>z. fst y = Inr z \<longrightarrow> rs \<noteq> [] \<and> listen_response_of (last rs) = Some z)"
  let ?P = "\<lambda>mk D E cfg d y. async_phy_ok E \<longrightarrow> cipher_ok mk \<longrightarrow> async_ok d \<longrightarrow> ?Q mk d y"
  have "?P mk D E cfg d (x, d')"
    using assms(1)
  proof (rule rxc_listen_loop.raw_induct [where P = ?P, rotated], intro impI)
    fix f :: "(bytes \<Rightarrow> 'x crypto_scheme) \<Rightarrow> nat \<Rightarrow> ('w, 't, 'e) async_phy \<Rightarrow> rx_config
        \<Rightarrow> ('w, 't, 'r) async_device \<Rightarrow> (('e async_error + listen_response) \<times> ('w, 't, 'r) async_device) option"
      and mk D E cfg d y
    assume IH: "\<And>mk D E cfg d y. f mk D E cfg d = Some y \<Longrightarrow> ?P mk D E cfg d y"
    assume step: "Option.bind (async_rx_continuous E d) (\<lambda>(x, d1).
       case x of
         Inl e \<Rightarrow> Some (Inl e, d1)
       | Inr (sz, q) \<Rightarrow>
           Option.bind (async_handle_rxc mk D sz q (rxc_rf cfg) d1) (\<lambda>(r, d2).
             case r of
               Inl e \<Rightarrow> Some (Inl e, d2)
             | Inr y \<Rightarrow>
                 (case y of
                    Some response \<Rightarrow> Option.bind (listen_response_of response) (\<lambda>z. Some (Inr z, d2))
                  | None \<Rightarrow> f mk D E cfg d2))) = Some y"
    assume ok: "async_phy_ok E" "cipher_ok mk" "async_ok d"
    obtain r d1 where r: "async_rx_continuous E d = Some (r, d1)" using step by (auto simp: bind_eq_Some_conv)
    note k = rx_continuous_heard [OF ok(1) r]
    have h: "heard mk n d [] d1" using k ok(3) by (auto intro: heard_quiet dest: async_okD)
    show "?Q mk d y"
    proof (cases r)
      case (Inl e)
      then show ?thesis using step r h by (auto intro!: exI [of _ "[]"])
    next
      case (Inr sq)
      obtain s q where sq: "sq = (s, q)" by fastforce
      then have l: "s \<le> length (rb_packet (ad_buffer d1))" using k Inr by simp
      obtain z d2 where z: "async_handle_rxc mk D s q (rxc_rf cfg) d1 = Some (z, d2)"
        "(case z of Inl e \<Rightarrow> Some (Inl e, d2)
            | Inr y \<Rightarrow> (case y of Some response \<Rightarrow> Option.bind (listen_response_of response) (\<lambda>z. Some (Inr z, d2))
                | None \<Rightarrow> f mk D E cfg d2)) = Some y"
        using step r Inr sq by (auto simp: bind_eq_Some_conv)
      show ?thesis
      proof (rule async_handle_rxc_heard [where n = n, OF heard_okD [OF h] ok(2) l z(1)])
        assume "z = Inl (AsyncMac NotJoined)" "heard mk n d1 [] d2"
        then show ?thesis using z(2) heard_trans [OF h] by (intro exI [of _ "[]"]) auto
      next
        fix resp assume a: "heard mk n d1 [resp] d2" "z = Inr (reported resp)"
        have h2: "heard mk n d [resp] d2" using heard_trans [OF h a(1)] by simp
        show ?thesis
        proof (cases "resp = NoUpdate")
          case True
          then have "f mk D E cfg d2 = Some y" using z(2) a(2) by (simp add: reported_def)
          then obtain rs where "heard mk n d2 rs (snd y)" "\<forall>z. fst y = Inr z \<longrightarrow> rs \<noteq> [] \<and> listen_response_of (last rs) = Some z"
            using IH ok(1,2) heard_okD [OF h2] by blast
          then show ?thesis using heard_trans [OF h2] by (intro exI [of _ "[resp] @ rs"]) auto
        next
          case False
          then show ?thesis using z(2) a(2) h2
            by (intro exI [of _ "[resp]"]) (auto simp: bind_eq_Some_conv reported_other)
        qed
      qed
    qed
  qed
  then show ?thesis using assms(2-4) by simp
qed

section \<open>Counters over a sequence of calls\<close>

text \<open>The calls of an application, and what it sees of the counters: the counter under which a \<open>send\<close> that returns
  any response went out, \<open>SessionExpired\<close> included, and the counters of the downlinks that are reported to it.\<close>

datatype async_call = CallJoin join_mode | CallSend bytes u8 bool | CallListen | CallTake | CallClassC bool

datatype async_obs = Used u32 | Reported u32

fun send_obs :: "u32 \<Rightarrow> 'e async_error + send_response \<Rightarrow> async_obs list" where
  "send_obs u (Inl e) = []"
| "send_obs u (Inr (SendDownlinkReceived n)) = [Used u, Reported n]"
| "send_obs u (Inr SendSessionExpired) = [Used u]"
| "send_obs u (Inr SendNoAck) = [Used u]"
| "send_obs u (Inr SendRxComplete) = [Used u]"

fun listen_obs :: "'e async_error + listen_response \<Rightarrow> async_obs list" where
  "listen_obs (Inr (ListenDownlinkReceived n)) = [Reported n]"
| "listen_obs _ = []"

fun perform ::
  "(bytes \<Rightarrow> 'x crypto_scheme) \<Rightarrow> nat \<Rightarrow> ('r \<Rightarrow> u32 \<times> 'r) \<Rightarrow> ('w, 't, 'e) async_phy \<Rightarrow> async_call
    \<Rightarrow> ('w, 't, 'r) async_device \<Rightarrow> (async_obs list \<times> ('w, 't, 'r) async_device) run" where
  "perform mk D next_u32 E (CallJoin mode) d = do {
     (_, d') \<leftarrow> async_join mk D next_u32 E mode d; Some ([], d')}"
| "perform mk D next_u32 E (CallSend data fport confirmed) d = do {
     (r, d') \<leftarrow> async_send mk D next_u32 E data fport confirmed d;
     Some (case mac_get_fcnt_up (ad_mac d) of None \<Rightarrow> [] | Some u \<Rightarrow> send_obs u r, d')}"
| "perform mk D next_u32 E CallListen d = do {
     (r, d') \<leftarrow> rxc_listen mk D E d; Some (listen_obs r, d')}"
| "perform mk D next_u32 E CallTake d = Some ([], snd (async_take_downlink d))"
| "perform mk D next_u32 E (CallClassC on) d =
     Some ([], if on then async_enable_class_c d else async_disable_class_c d)"

fun perform_all ::
  "(bytes \<Rightarrow> 'x crypto_scheme) \<Rightarrow> nat \<Rightarrow> ('r \<Rightarrow> u32 \<times> 'r) \<Rightarrow> ('w, 't, 'e) async_phy \<Rightarrow> async_call list
    \<Rightarrow> ('w, 't, 'r) async_device \<Rightarrow> (async_obs list \<times> ('w, 't, 'r) async_device) run" where
  "perform_all mk D next_u32 E [] d = Some ([], d)"
| "perform_all mk D next_u32 E (c # cs) d = do {
     (o1, d1) \<leftarrow> perform mk D next_u32 E c d;
     (o2, d2) \<leftarrow> perform_all mk D next_u32 E cs d1;
     Some (o1 @ o2, d2)}"

fun used :: "async_obs list \<Rightarrow> u32 list" where
  "used [] = []"
| "used (Used n # os) = n # used os"
| "used (Reported n # os) = used os"

fun received :: "async_obs list \<Rightarrow> u32 list" where
  "received [] = []"
| "received (Used n # os) = received os"
| "received (Reported n # os) = n # received os"

lemma used_append: "used (xs @ ys) = used xs @ used ys"
  by (induction xs rule: used.induct) simp_all

lemma received_append: "received (xs @ ys) = received xs @ received ys"
  by (induction xs rule: received.induct) simp_all

text \<open>One counter after another: the same one only at the end of the 32-bit range, where the code stops counting.\<close>

definition fcnt_follows :: "u32 \<Rightarrow> u32 \<Rightarrow> bool" where
  "fcnt_follows m n \<longleftrightarrow> m < n \<or> m = 0xFFFFFFFF \<and> n = 0xFFFFFFFF"

lemma fcnt_max: "(n :: u32) \<le> 0xFFFFFFFF"
proof -
  have "(0xFFFFFFFF :: u32) = - 1" by simp
  then show ?thesis by (simp only: word_order.extremum)
qed

lemma fcnt_follows_le: "fcnt_follows m k \<Longrightarrow> k \<le> n \<Longrightarrow> fcnt_follows m n"
proof -
  assume "fcnt_follows m k" "k \<le> n"
  then show ?thesis using fcnt_max [of n] unfolding fcnt_follows_def by (metis order.antisym order.strict_trans2)
qed

text \<open>How far a run of receptions moves the counters of a session.\<close>

definition moved :: "u32 \<Rightarrow> u32 option \<Rightarrow> u32 \<Rightarrow> u32 option \<Rightarrow> bool" where
  "moved u dn u' dn' \<longleftrightarrow> u \<le> u' \<and> (\<forall>n. after dn' n \<longrightarrow> after dn n)"

lemma moved_refl [simp]: "moved u dn u dn"
  by (simp add: moved_def)

lemma moved_trans: "moved u dn u1 dn1 \<Longrightarrow> moved u1 dn1 u' dn' \<Longrightarrow> moved u dn u' dn'"
  by (auto simp: moved_def)

lemma response_moves:
  assumes "counter_step (Some (u, dn)) (EvResponse y) b" "y \<noteq> JoinSuccess"
  obtains u' dn' where "b = Some (u', dn')" "moved u dn u' dn'" "completes (EvResponse y) \<Longrightarrow> u < u'"
    "\<And>n. y = DownlinkReceived n \<Longrightarrow> dn' = Some n \<and> after dn n" "y = SessionExpired \<Longrightarrow> u' = 0xFFFFFFFF"
proof -
  have "\<not> new_session (EvResponse y)" using assms(2) by simp
  from counter_step_kept [OF assms(1) this] obtain u' dn' where k: "b = Some (u', dn')"
    "unat u' = unat u + (if completes (EvResponse y) then 1 else 0)" "\<forall>n. after dn' n \<longrightarrow> after dn n"
    "case EvResponse y of EvSent n \<Rightarrow> n = u | EvResponse (DownlinkReceived n) \<Rightarrow> after dn n \<and> dn' = Some n | _ \<Rightarrow> True"
    by blast
  show thesis
  proof (rule that [OF k(1)])
    show "moved u dn u' dn'" using k(2,3) by (simp add: moved_def word_le_nat_alt)
    show "u < u'" if "completes (EvResponse y)" using k(2) that by (simp add: word_less_nat_alt)
    show "u' = 0xFFFFFFFF" if "y = SessionExpired" using assms(1) that k(1) by auto
  qed (use k(4) in auto)
qed

lemma responses_move:
  "counter_run (Some (u, dn)) (map EvResponse rs) b \<Longrightarrow> \<exists>u' dn'. b = Some (u', dn') \<and> moved u dn u' dn'"
proof (induction rs arbitrary: u dn)
  case Nil
  then show ?case by (simp add: counter_run_Nil)
next
  case (Cons r rs)
  then obtain c1 where c1: "counter_step (Some (u, dn)) (EvResponse r) c1" "counter_run c1 (map EvResponse rs) b"
    by (auto simp: counter_run_Cons)
  have "r \<noteq> JoinSuccess" using counter_run_Some [OF Cons.prems] by auto
  then obtain u1 dn1 where u1: "c1 = Some (u1, dn1)" "moved u dn u1 dn1" by (rule response_moves [OF c1(1)])
  show ?case using Cons.IH [OF c1(2) [unfolded u1(1)]] moved_trans [OF u1(2)] by blast
qed

text \<open>The end of an exchange or of listening: the last response decides.\<close>

lemma last_response_moves:
  assumes "heard mk n d (rs @ [y]) d'" "async_ok d" "cipher_ok mk" "counters_of (ad_mac d) = Some (u, dn)"
  obtains u' dn' where "counters_of (ad_mac d') = Some (u', dn')" "moved u dn u' dn'" "completes (EvResponse y) \<Longrightarrow> u < u'"
    "\<And>k. y = DownlinkReceived k \<Longrightarrow> dn' = Some k \<and> after dn k" "y = SessionExpired \<Longrightarrow> u' = 0xFFFFFFFF"
proof -
  have r: "counter_run (Some (u, dn)) (map EvResponse (rs @ [y])) (counters_of (ad_mac d'))"
    using heard_counters [OF assms(1-3)] assms(4) by simp
  obtain b where b: "counter_run (Some (u, dn)) (map EvResponse rs) b" "counter_step b (EvResponse y) (counters_of (ad_mac d'))"
    using r by (auto simp: counter_run_append counter_run_Cons counter_run_Nil)
  obtain u1 dn1 where u1: "b = Some (u1, dn1)" "moved u dn u1 dn1" using responses_move [OF b(1)] by blast
  have "y \<noteq> JoinSuccess" using counter_run_Some [OF r] by auto
  then show thesis
  proof (rule response_moves [OF b(2) [unfolded u1(1)]])
    fix u' dn' assume k: "counters_of (ad_mac d') = Some (u', dn')" "moved u1 dn1 u' dn'" "completes (EvResponse y) \<Longrightarrow> u1 < u'"
      "\<And>k. y = DownlinkReceived k \<Longrightarrow> dn' = Some k \<and> after dn1 k" "y = SessionExpired \<Longrightarrow> u' = 0xFFFFFFFF"
    show thesis using k u1(2) moved_trans [OF u1(2) k(2)]
      by (intro that [of u' dn']) (auto simp: moved_def)
  qed
qed

text \<open>What a call does to the counters and what it lets the application see of them.\<close>

definition obs_ok :: "u32 \<Rightarrow> u32 option \<Rightarrow> async_obs list \<Rightarrow> u32 \<Rightarrow> u32 option \<Rightarrow> bool" where
  "obs_ok u dn os u' dn' \<longleftrightarrow> moved u dn u' dn' \<and>
     sorted_wrt fcnt_follows (used os) \<and> (\<forall>n \<in> set (used os). u \<le> n \<and> fcnt_follows n u') \<and>
     sorted_wrt (<) (received os) \<and> (\<forall>n \<in> set (received os). after dn n \<and> (\<forall>k. after dn' k \<longrightarrow> n < k))"

lemma obs_ok_Nil [simp]: "obs_ok u dn [] u' dn' \<longleftrightarrow> moved u dn u' dn'"
  by (simp add: obs_ok_def)

lemma obs_ok_append:
  assumes "obs_ok u dn os u1 dn1" "obs_ok u1 dn1 ps u' dn'"
  shows "obs_ok u dn (os @ ps) u' dn'"
  unfolding obs_ok_def used_append received_append sorted_wrt_append set_append
proof (intro conjI ballI)
  show "moved u dn u' dn'" using assms moved_trans unfolding obs_ok_def by blast
  show "fcnt_follows x y" if "x \<in> set (used os)" "y \<in> set (used ps)" for x y
    using assms that unfolding obs_ok_def by (meson fcnt_follows_le)
  show "fcnt_follows x u'" if "x \<in> set (used os) \<union> set (used ps)" for x
    using assms that unfolding obs_ok_def moved_def by (meson UnE fcnt_follows_le)
qed (use assms in \<open>auto simp: obs_ok_def moved_def\<close>)

text \<open>The exchange of a device with a session.\<close>

lemma send_counters:
  assumes "async_send mk D next_u32 E data fport confirmed d = Some (r, d')" "async_phy_ok E" "cipher_ok mk" "async_ok d"
    and c: "counters_of (ad_mac d) = Some (u, dn)"
  obtains u' dn' where "counters_of (ad_mac d') = Some (u', dn')" "async_ok d'" "obs_ok u dn (send_obs u r) u' dn'"
proof -
  obtain s where s: "mac_state (ad_mac d) = Joined s" "ss_fcnt_up s = u" "ss_fcnt_down s = dn"
    using c by (auto simp: counters_of_def split: mac_state.splits)
  let ?data = "\<lparr>sd_data = data, sd_fport = fport, sd_confirmed = confirmed\<rparr>"
  show thesis
  proof (rule mac_send_outcome [OF async_okD(1) [OF assms(4)] assms(3) s(1), of ?data "ad_buffer d" next_u32 "ad_rng d"])
    fix tx w rng' buf' s' region'
    let ?d = "d\<lparr>ad_rng := rng', ad_buffer := buf', ad_mac := (ad_mac d)\<lparr>mac_state := Joined s', mac_region := region'\<rparr>\<rparr>"
    assume a: "mac_send mk next_u32 (ad_rng d) (ad_buffer d) ?data (ad_mac d) =
        Some (Inr (tx, w, ss_fcnt_up s), rng', buf', (ad_mac d)\<lparr>mac_state := Joined s', mac_region := region'\<rparr>)"
      "ss_fcnt_up s' = ss_fcnt_up s" "ss_fcnt_down s' = ss_fcnt_down s" "rb_ok buf'"
      "mac_ok ((ad_mac d)\<lparr>mac_state := Joined s', mac_region := region'\<rparr>)"
    have ok: "async_ok ?d" "activated (ad_mac ?d)" "counters_of (ad_mac ?d) = Some (u, dn)" "mac_is_joined (ad_mac ?d)"
      using a s by (simp_all add: async_ok_def activated_def counters_of_def mac_is_joined_def)
    have "async_try (transmit mk D E Data tx w ?d) (\<lambda>resp d2. do {x \<leftarrow> send_response_of resp; Some (Inr x, d2)}) = Some (r, d')"
      using assms(1) a(1) by (simp add: async_send_def)
    then show thesis
    proof (rule async_tryE)
      fix e assume e: "transmit mk D E Data tx w ?d = Some (Inl e, d')" "r = Inl e"
      show thesis
      proof (rule transmit_heard [where n = next_u32, OF assms(2,3) ok(1,2) e(1)])
        fix rs e' assume h: "heard mk next_u32 ?d rs d'"
        obtain u' dn' where "counters_of (ad_mac d') = Some (u', dn')" "moved u dn u' dn'"
          using heard_counters [OF h ok(1) assms(3)] responses_move unfolding ok(3) by blast
        then show thesis using e(2) heard_okD [OF h] by (intro that) auto
      qed auto
    next
      fix y d2 assume t: "transmit mk D E Data tx w ?d = Some (Inr y, d2)"
        "do {x \<leftarrow> send_response_of y; Some (Inr x, d2)} = Some (r, d')"
      show thesis
      proof (rule transmit_heard [where n = next_u32, OF assms(2,3) ok(1,2) t(1)])
        fix rs y' assume "Inr y = Inr y'" "heard mk next_u32 ?d (rs @ [y']) d2"
        then have h: "heard mk next_u32 ?d (rs @ [y]) d2" by simp
        show thesis
        proof (rule last_response_moves [OF h ok(1) assms(3) ok(3)])
          fix u' dn' assume m: "counters_of (ad_mac d2) = Some (u', dn')" "moved u dn u' dn'" "completes (EvResponse y) \<Longrightarrow> u < u'"
            "\<And>k. y = DownlinkReceived k \<Longrightarrow> dn' = Some k \<and> after dn k" "y = SessionExpired \<Longrightarrow> u' = 0xFFFFFFFF"
          have "u = 0xFFFFFFFF \<or> u < 0xFFFFFFFF" using fcnt_max [of u] by (simp only: order.order_iff_strict) blast
          then have "obs_ok u dn (send_obs u r) u' dn' \<and> d' = d2"
            using t(2) m(2-5) by (cases y) (auto simp: obs_ok_def after_def fcnt_follows_def moved_def)
          then show thesis using m(1) heard_okD [OF h] by (intro that) auto
        qed
      qed auto
    qed
  qed (use assms(1) in \<open>simp_all add: async_send_def\<close>)
qed

lemma listen_counters:
  assumes "rxc_listen mk D E d = Some (r, d')" "async_phy_ok E" "cipher_ok mk" "async_ok d"
    and c: "counters_of (ad_mac d) = Some (u, dn)"
  obtains u' dn' where "counters_of (ad_mac d') = Some (u', dn')" "async_ok d'" "obs_ok u dn (listen_obs r) u' dn'"
proof -
  obtain cfg where "rxc_listen_loop mk D E cfg d = Some (r, d')" using assms(1) by (auto simp: rxc_listen_def bind_eq_Some_conv)
  from rxc_listen_heard [OF this assms(2-4)] obtain rs where h: "heard mk next_u32 d rs d'"
    "\<forall>y. r = Inr y \<longrightarrow> rs \<noteq> [] \<and> listen_response_of (last rs) = Some y" by blast
  note ok = heard_okD [OF h(1)]
  show thesis
  proof (cases r)
    case (Inl e)
    obtain u' dn' where "counters_of (ad_mac d') = Some (u', dn')" "moved u dn u' dn'"
      using heard_counters [OF h(1) assms(4,3)] responses_move unfolding c by blast
    then show thesis using ok Inl by (intro that) auto
  next
    case (Inr y)
    define x where "x = last rs"
    have x: "listen_response_of x = Some y" "heard mk next_u32 d (butlast rs @ [x]) d'" using h Inr by (simp_all add: x_def)
    show thesis
    proof (rule last_response_moves [OF x(2) assms(4,3) c])
      fix u' dn' assume m: "counters_of (ad_mac d') = Some (u', dn')" "moved u dn u' dn'"
        "\<And>k. x = DownlinkReceived k \<Longrightarrow> dn' = Some k \<and> after dn k"
      have "obs_ok u dn (listen_obs r) u' dn'" using x(1) m(2,3) Inr by (cases x) (auto simp: obs_ok_def after_def)
      then show thesis using m(1) ok by (intro that)
    qed
  qed
qed

fun is_call_join :: "async_call \<Rightarrow> bool" where
  "is_call_join (CallJoin _) = True"
| "is_call_join _ = False"

lemma perform_counters:
  assumes "perform mk D next_u32 E c d = Some (os, d')" "\<not> is_call_join c" "async_phy_ok E" "cipher_ok mk" "async_ok d"
    and k: "counters_of (ad_mac d) = Some (u, dn)"
  shows "\<exists>u' dn'. counters_of (ad_mac d') = Some (u', dn') \<and> async_ok d' \<and> obs_ok u dn os u' dn'"
proof (cases c)
  case (CallSend data fport confirmed)
  have "mac_get_fcnt_up (ad_mac d) = Some u" using k by (auto simp: counters_of_def mac_get_fcnt_up_def split: mac_state.splits)
  then obtain r where r: "async_send mk D next_u32 E data fport confirmed d = Some (r, d')" "os = send_obs u r"
    using assms(1) CallSend by (auto simp: bind_eq_Some_conv)
  show ?thesis by (rule send_counters [OF r(1) assms(3-5) k]) (use r(2) in blast)
next
  case CallListen
  then obtain r where r: "rxc_listen mk D E d = Some (r, d')" "os = listen_obs r" using assms(1) by (auto simp: bind_eq_Some_conv)
  show ?thesis by (rule listen_counters [OF r(1) assms(3-5) k]) (use r(2) in blast)
next
  case CallTake
  then show ?thesis using assms(1,5) k by (auto simp: async_take_downlink_def Let_def async_ok_def)
next
  case (CallClassC on)
  then show ?thesis using assms(1,5) k
    by (auto simp: async_enable_class_c_def async_disable_class_c_def async_ok_def split: if_splits)
qed (use assms(2) in simp)

lemma perform_all_counters:
  assumes "perform_all mk D next_u32 E cs d = Some (os, d')" "\<forall>c \<in> set cs. \<not> is_call_join c" "async_phy_ok E" "cipher_ok mk" "async_ok d"
    and "counters_of (ad_mac d) = Some (u, dn)"
  shows "\<exists>u' dn'. counters_of (ad_mac d') = Some (u', dn') \<and> async_ok d' \<and> obs_ok u dn os u' dn'"
  using assms
proof (induction cs arbitrary: d os u dn)
  case Nil
  then show ?case by simp
next
  case (Cons c cs)
  obtain o1 d1 o2 where h: "perform mk D next_u32 E c d = Some (o1, d1)" "perform_all mk D next_u32 E cs d1 = Some (o2, d')" "os = o1 @ o2"
    using Cons.prems(1) by (auto simp: bind_eq_Some_conv)
  obtain u1 dn1 where s: "counters_of (ad_mac d1) = Some (u1, dn1)" "async_ok d1" "obs_ok u dn o1 u1 dn1"
    using perform_counters [OF h(1) _ Cons.prems(3-6)] Cons.prems(2) by auto
  obtain u' dn' where "counters_of (ad_mac d') = Some (u', dn')" "async_ok d'" "obs_ok u1 dn1 o2 u' dn'"
    using Cons.IH [OF h(2) _ Cons.prems(3,4) s(2,1)] Cons.prems(2) by auto
  then show ?case using obs_ok_append [OF s(3)] h(3) by blast
qed

end
