(* ===== verification/AsyncProperties.thy ===== *)
theory AsyncProperties
  imports AsyncRuns
begin

text \<open>
  The properties of the asynchronous device: the counters that a sequence of calls uses and reports, the
  responses that a call converts, the schedule of the windows, the agreement with the non-blocking
  device, and three situations in which a call does not do what its caller expects.
\<close>

section \<open>Properties\<close>

text \<open>C8. The frame counters of the asynchronous device: over any sequence of sends, of listening in Class C and of
  switching Class C on and off (no joins), whatever the radio hears and wherever it fails, each send that returns a response
  goes out under a counter above those of the earlier ones, except that the last counter, 0xFFFFFFFF, may be used by
  several of them, since the code stops counting there and answers \<open>SessionExpired\<close>; and no downlink
  is reported twice, the counters of those reported strictly increase. Sends that end with an error of the radio are not
  counted: their counter may be used again.\<close>

theorem async_counters:
  assumes "perform_all mk D next_u32 E cs d = Some (os, d')" "async_ok d" "async_phy_ok E" "cipher_ok mk"
    and "\<forall>c \<in> set cs. \<not> is_call_join c" "mac_state (ad_mac d) = Joined s"
  shows "sorted_wrt (\<lambda>m n. m < n \<or> m = 0xFFFFFFFF \<and> n = 0xFFFFFFFF) (used os) \<and> (\<forall>n \<in> set (used os). ss_fcnt_up s \<le> n) \<and>
    sorted_wrt (<) (received os) \<and> (\<forall>n \<in> set (received os). after (ss_fcnt_down s) n) \<and> async_ok d'"
  using perform_all_counters [OF assms(1,5,3,4,2) counters_Joined [OF assms(6)]]
  by (auto simp: obs_ok_def fcnt_follows_def [abs_def])

text \<open>The conversions of responses never panic: a call to send or to join fails to return only where building
  the frame or one of its receptions does, never in turning the response of the MAC layer into its own.\<close>

theorem responses_convert:
  assumes "async_phy_ok E" "cipher_ok mk" "async_ok d" "transmit mk D E fr tx w d = Some (Inr resp, d')"
  shows "(mac_is_joined (ad_mac d) \<longrightarrow> (\<exists>x. send_response_of resp = Some x)) \<and>
    ((\<exists>ot. mac_state (ad_mac d) = Joining ot) \<longrightarrow> (\<exists>x. join_response_of resp = Some x))"
proof (cases "activated (ad_mac d)")
  case True
  show ?thesis
  proof (rule transmit_heard [where n = "\<lambda>r. (0, r)", OF assms(1-3) True assms(4)])
    fix rs y assume "Inr resp = Inr y" "heard mk (\<lambda>r. (0, r)) d (rs @ [y]) d'" "y \<noteq> NoUpdate"
      "\<not> mac_is_joined (ad_mac d) \<longrightarrow> set rs \<subseteq> {NoUpdate}"
    then show ?thesis using session_responses [OF _ assms(3,2)] join_responses [OF _ assms(3,2)]
      by (auto simp: mac_is_joined_def)
  qed auto
qed (simp add: activated_def mac_is_joined_def)

text \<open>C10. A frame that is too long stops a Class C device: when the radio hears, while listening outside of an
  exchange, any well-formed data frame longer than the data rate allows, whether or not it is for this
  device and without any key, \<open>rxc_listen\<close> panics, because the response that the MAC layer gives as at the
  end of a second window has no counterpart among the responses of \<open>rxc_listen\<close>.\<close>

theorem oversized_frame_stops_listening:
  fixes E :: "('w, 't, 'e) async_phy" and d :: "('w, 't, 'r) async_device"
  assumes "async_ok d" "mac_state (ad_mac d) = Joined s" "ss_fcnt_up s \<noteq> 0xFFFFFFFF"
    and "get_rxc_config (ad_mac d) = Some cfg" "encrypted_parse bs = Some (Inr v)"
    and "ap_rx_continuous E (rb_packet (ad_buffer d)) (ad_radio d) = Some (Inr (length bs, q), bs @ rest, w)"
    and "unat (rf_max_payload_len (rxc_rf cfg)) + 5 < length bs"
  shows "rxc_listen mk D E d = None"
proof -
  let ?buf = "rb_set_pos (length bs) ((ad_buffer d)\<lparr>rb_packet := bs @ rest\<rparr>)"
  have rok: "rs_ok (mac_region (ad_mac d))" using assms(1) by (simp add: async_ok_def mac_ok_def)
  have rx: "rb_as_ref_for_read ?buf = Some bs" by (simp add: rb_as_ref_for_read_def rb_set_pos_def subslice_def)
  have v: "dv_bytes v = bs" using assms(5) by (simp add: encrypted_parse_iff)
  obtain resp s' conf' where r: "rx2_complete (mac_conf (ad_mac d)) (mac_region (ad_mac d)) s = Some (resp, s', conf')"
    "listen_response_of resp = None" "resp \<noteq> NoUpdate"
    by (rule rx2_complete_cases [OF rok, of s "mac_conf (ad_mac d)"]) (use assms(3) in auto)
  have "handle_rx mk D bs (ad_downlink d) (rf_max_payload_len (rxc_rf cfg)) (rxq_snr q) True
      \<lparr>cx_session = s, cx_conf = mac_conf (ad_mac d), cx_region = mac_region (ad_mac d)\<rparr> =
    Some (resp, ad_downlink d, bs, \<lparr>cx_session = s', cx_conf = conf', cx_region = mac_region (ad_mac d)\<rparr>)"
    using assms(5,7) by (simp add: handle_rx_def v r(1))
  then have "\<exists>d2. async_handle_rxc mk D (length bs) q (rxc_rf cfg) ((ad_set_packet (bs @ rest) d)\<lparr>ad_radio := w\<rparr>) =
      Some (Inr (Some resp) :: 'e async_error + mac_response option, d2)"
    using rx r(3) assms(2)
    by (simp add: async_handle_rxc_def mac_handle_rxc_def session_rx_def ad_set_packet_def handle_mac_response_eq reported_other
        rb_set_pos_def copy_range_def)
  then show ?thesis using r(2) assms(4,6)
    by (auto simp: rxc_listen_def rxc_listen_loop.simps async_rx_continuous_def radio_result_def Let_def)
qed

lemma race_frame:
  assumes "\<And>k p r t. map_option fst (ap_race E k p r t) = Some (Some (Inr (sz, q)))"
  obtains d1 where "rxc_listen_until_timeout E k d = Some (RxcRx sz q, d1)" "ad_mac d1 = ad_mac d"
proof -
  obtain p w t where "ap_race E (ucast k) (rb_packet (ad_buffer d)) (ad_radio d) (ad_timer d) = Some (Some (Inr (sz, q)), p, w, t)"
    using assms [of "ucast k" "rb_packet (ad_buffer d)" "ad_radio d" "ad_timer d"] by auto
  then show thesis
    by (intro that [of "(ad_set_packet p d)\<lparr>ad_radio := w, ad_timer := t\<rparr>"])
       (simp_all add: rxc_listen_until_timeout_def Let_def ad_set_packet_def)
qed

lemma class_c_window_refused:
  assumes "ad_class_c d" "mac_ok (ad_mac d)" "mac_state (ad_mac d) = Joining ot"
    and "\<And>c r. map_option fst (ap_setup_rx E c r) = Some (Inr ())" "\<And>k p r t. map_option fst (ap_race E k p r t) = Some (Some (Inr (sz, q)))"
  shows "\<exists>d'. rx_window mk D E fr ms w win d = Some (Inl (AsyncMac NotJoined), d')"
proof -
  obtain cfg where c: "get_rxc_config (ad_mac d) = Some cfg"
    by (rule rx2_rf_config_total [OF assms(2), of "cfg_data_rate (mac_conf (ad_mac d))"]) (simp add: get_rxc_config_def)
  define d1 where "d1 = d\<lparr>ad_radio := snd (the (ap_setup_rx E cfg (ad_radio d)))\<rparr>"
  have s: "async_setup_rx E cfg d = Some (Inr (), d1)"
    by (simp add: async_setup_rx_def radio_result_known [OF assms(4)] d1_def)
  let ?n = "rx_start_delay E fr ms win d"
  obtain d2 where l: "rxc_listen_until_timeout E ?n d1 = Some (RxcRx sz q, d2)" "ad_mac d2 = ad_mac d1"
    by (rule race_frame [OF assms(5)])
  have "mac_state (ad_mac d2) = Joining ot" using assms(3) l(2) by (simp add: d1_def)
  then have "\<exists>d3. rxc_loop mk D E cfg ?n None d1 = Some (Inl (AsyncMac NotJoined), d3)"
    by (subst rxc_loop.simps) (simp add: l(1) async_handle_rxc_def mac_handle_rxc_def)
  then show ?thesis using assms(1) c s
    by (auto simp: rx_window_def between_windows_def async_try_def)
qed

text \<open>C20. A Class C device cannot join where anybody talks: any frame that the radio hears between the end of
  the join request and the first window, of whatever content, ends \<open>join\<close> with the error \<open>NotJoined\<close> before a
  join accept can arrive.\<close>

theorem class_c_join_aborted:
  assumes "ad_class_c d" "async_ok d" "cipher_ok mk" "length deveui = 8" "length appeui = 8" "length appkey = 16"
    and "mac_join_otaa mk next_u32 (ad_rng d) (network_credentials_new appeui deveui appkey) (ad_buffer d) (ad_mac d)
      = Some ((tx, w, n), rng', buf', m')"
    and "\<And>t p r. map_option fst (ap_tx E t p r) = Some (Inr ms)" "\<And>c r. map_option fst (ap_setup_rx E c r) = Some (Inr ())"
    and "\<And>k p r t. map_option fst (ap_race E k p r t) = Some (Some (Inr (sz, q)))"
  shows "\<exists>d'. async_join mk D next_u32 E (OTAA deveui appeui appkey) d = Some (Inl (AsyncMac NotJoined), d')"
proof -
  let ?c = "network_credentials_new appeui deveui appkey"
  have "credentials_ok ?c" using assms(4-6) by (simp add: credentials_ok_def network_credentials_new_def)
  note o = mac_join_outcome [OF async_okD(1) [OF assms(2)] assms(3) this, of "ad_buffer d" next_u32 "ad_rng d"]
  obtain ot where m: "mac_state m' = Joining ot" "mac_ok m'" "rb_ok buf'"
    by (rule o) (use assms(7) in auto)
  define d1 where "d1 = d\<lparr>ad_rng := rng', ad_buffer := buf', ad_mac := m'\<rparr>"
  obtain packet where p: "rb_as_ref_for_read buf' = Some packet" using rb_ok_read [OF m(3)] by blast
  define d2 where "d2 = d1\<lparr>ad_radio := snd (the (ap_tx E tx packet (ad_radio d1))), ad_timer := ap_timer_reset E (ad_timer d1),
      ad_buffer := rb_clear buf'\<rparr>"
  have "ad_class_c d2" "mac_ok (ad_mac d2)" "mac_state (ad_mac d2) = Joining ot" using m assms(1) by (simp_all add: d1_def d2_def)
  from class_c_window_refused [OF this assms(9,10)] obtain d3 where
    r: "rx_window mk D E Join ms w Window1 d2 = Some (Inl (AsyncMac NotJoined), d3)" by blast
  have "async_tx E tx d1 = Some (Inr ms, d1\<lparr>ad_radio := snd (the (ap_tx E tx packet (ad_radio d1)))\<rparr>)"
    by (simp add: async_tx_def radio_result_known [OF assms(8)] p d1_def)
  then have "transmit mk D E Join tx w d1 = Some (Inl (AsyncMac NotJoined), d3)"
    using r by (simp add: transmit_def async_try_def rx_downlink_def d2_def d1_def)
  then show ?thesis using assms(7) by (simp add: async_join_def async_try_def d1_def)
qed

text \<open>What a successful \<open>mac_send\<close> leaves behind.\<close>

lemma sent_ok:
  assumes "mac_ok m" "cipher_ok mk" "mac_send mk next_u32 rng buf data m = Some (Inr (tx, w, n), rng', buf', m')"
  obtains dn where "counters_of m = Some (n, dn)" "counters_of m' = Some (n, dn)" "mac_ok m'" "rb_ok buf'"
proof -
  obtain dn where c: "counters_of m = Some (n, dn)" "counters_of m' = Some (n, dn)" "mac_ok m'"
    using send_step [OF assms] by auto
  obtain s where s: "mac_state m = Joined s" using c(1) by (auto simp: counters_of_def split: mac_state.splits)
  have "rb_ok buf'"
    by (rule mac_send_outcome [OF assms(1,2) s, of data buf next_u32 rng]) (use assms(3) in auto)
  with c show thesis by (rule that)
qed

text \<open>An uplink of a device with a session that is handed to a radio that can transmit.\<close>

lemma send_transmitted:
  assumes "async_ok d" "cipher_ok mk"
    and "mac_send mk next_u32 (ad_rng d) (ad_buffer d) \<lparr>sd_data = data, sd_fport = fport, sd_confirmed = confirmed\<rparr> (ad_mac d)
      = Some (Inr (tx, w, n), rng', buf', m')"
    and "rb_as_ref_for_read buf' = Some packet" "ap_tx E tx packet (ad_radio d) = Some (Inr ms, r)"
  obtains d2 where "async_send mk D next_u32 E data fport confirmed d =
      async_try (rx_downlink mk D E Data ms w d2) (\<lambda>resp d3. do {x \<leftarrow> send_response_of resp; Some (Inr x, d3)})"
    "ad_mac d2 = m'" "ad_class_c d2 = ad_class_c d" "ad_timer d2 = ap_timer_reset E (ad_timer d)" "async_ok d2"
    "\<exists>dn. counters_of m' = Some (n, dn)" "mac_is_joined m'" "ad_radio d2 = r"
proof -
  obtain dn where c: "counters_of (ad_mac d) = Some (n, dn)" "counters_of m' = Some (n, dn)" "mac_ok m'" and b: "rb_ok buf'"
    by (rule sent_ok [OF async_okD(1) [OF assms(1)] assms(2,3)])
  define d1 where "d1 = d\<lparr>ad_rng := rng', ad_buffer := buf', ad_mac := m'\<rparr>"
  define d2 where "d2 = d1\<lparr>ad_radio := r, ad_timer := ap_timer_reset E (ad_timer d1)\<rparr>"
  have "async_tx E tx d1 = Some (Inr ms, d1\<lparr>ad_radio := r\<rparr>)"
    using assms(4,5) by (simp add: async_tx_def radio_result_def d1_def)
  then have "transmit mk D E Data tx w d1 = rx_downlink mk D E Data ms w d2"
    by (simp add: transmit_def async_try_def d2_def)
  then have "async_send mk D next_u32 E data fport confirmed d =
      async_try (rx_downlink mk D E Data ms w d2) (\<lambda>resp d3. do {x \<leftarrow> send_response_of resp; Some (Inr x, d3)})"
    using assms(3) by (simp add: async_send_def d1_def)
  then show thesis using b c
    by (intro that [of d2]) (simp_all add: d1_def d2_def async_ok_def joined_counters)
qed

text \<open>C9. An error of the radio after the transmission loses the counter: when the first window cannot be
  configured, \<open>send\<close> returns the error although the uplink has gone out, its counter is not advanced, and the
  next uplink carries the same counter with other data.\<close>

theorem radio_error_repeats_counter:
  assumes "\<not> ad_class_c d" "async_ok d" "cipher_ok mk"
    and "mac_send mk next_u32 (ad_rng d) (ad_buffer d) \<lparr>sd_data = data, sd_fport = fport, sd_confirmed = confirmed\<rparr> (ad_mac d)
      = Some (Inr (tx, w, n), rng', buf', m')"
    and "\<And>t p r. map_option fst (ap_tx E t p r) = Some (Inr ms)" "\<And>r. map_option fst (ap_low_power E r) = Some (Inr ())" "\<And>c r. map_option fst (ap_setup_rx E c r) = Some (Inl e)"
  shows "\<exists>d'. async_send mk D next_u32 E data fport confirmed d = Some (Inl (AsyncRadio e), d') \<and>
    (\<forall>tx2 w2 n2 rng2 buf2 m2 more. mac_send mk next_u32 (ad_rng d') (ad_buffer d') more (ad_mac d')
       = Some (Inr (tx2, w2, n2), rng2, buf2, m2) \<longrightarrow> n2 = n)"
proof -
  obtain d2 where d2: "async_send mk D next_u32 E data fport confirmed d =
      async_try (rx_downlink mk D E Data ms w d2) (\<lambda>resp d3. do {x \<leftarrow> send_response_of resp; Some (Inr x, d3)})"
    "ad_mac d2 = m'" "ad_class_c d2 = ad_class_c d" "async_ok d2" "\<exists>dn. counters_of m' = Some (n, dn)"
  proof -
    obtain dn where "rb_ok buf'" by (rule sent_ok [OF async_okD(1) [OF assms(2)] assms(3,4)])
    then obtain packet where p: "rb_as_ref_for_read buf' = Some packet" using rb_ok_read by blast
    obtain r where r: "ap_tx E tx packet (ad_radio d) = Some (Inr ms, r)"
      using assms(5) [of tx packet "ad_radio d"] by auto
    show thesis by (rule send_transmitted [OF assms(2-4) p r]) (rule that)
  qed
  obtain d' where d': "rx_downlink mk D E Data ms w d2 = Some (Inl (AsyncRadio e), d')" "ad_mac d' = m'"
    using assms(1,6,7) d2(2,3)
    by (simp add: rx_downlink_def rx_window_def between_windows_def async_low_power_def async_setup_rx_def
        radio_result_known [OF assms(6)] radio_result_failed [OF assms(7)] async_try_def async_timer_at_def Let_def)
  have "n2 = n" if "mac_send mk next_u32 (ad_rng d') (ad_buffer d') more (ad_mac d') = Some (Inr (tx2, w2, n2), rng2, buf2, m2)"
    for tx2 w2 n2 rng2 buf2 m2 more
    using send_step [OF _ assms(3) that] async_okD(1) [OF d2(4)] d2(2,5) d'(2) by auto
  then show ?thesis using d2(1) d'(1) by (auto simp: async_try_def)
qed

section \<open>An exchange without a downlink\<close>

text \<open>A radio that works and hears nothing: while \<open>idle\<close> it can be put to sleep and set up for the windows it is
  \<open>good\<close> for, after which it is \<open>ready\<close> for a reception that times out.\<close>

definition silent_phy ::
  "('w \<Rightarrow> bool) \<Rightarrow> ('w \<Rightarrow> bool) \<Rightarrow> (rx_config \<Rightarrow> bool) \<Rightarrow> u32 \<Rightarrow> ('w, 't, 'e) async_phy \<Rightarrow> bool" where
  "silent_phy idle ready good lead E \<longleftrightarrow>
     (\<forall>c r. idle r \<and> good c \<longrightarrow> (\<exists>r'. ap_setup_rx E c r = Some (Inr (), r') \<and> ready r')) \<and>
     (\<forall>r. idle r \<longrightarrow> (\<exists>r'. ap_low_power E r = Some (Inr (), r') \<and> idle r')) \<and>
     (\<forall>p r. ready r \<longrightarrow> (\<exists>r'. ap_rx_single E p r = Some (Inr RxTimeout, p, r') \<and> idle r')) \<and>
     (\<forall>r. idle r \<longrightarrow> ap_lead_time_ms E r = lead)"

lemma silent_phyD:
  assumes "silent_phy idle ready good lead E"
  shows "idle r \<Longrightarrow> good c \<Longrightarrow> \<exists>r'. ap_setup_rx E c r = Some (Inr (), r') \<and> ready r'"
    "idle r \<Longrightarrow> \<exists>r'. ap_low_power E r = Some (Inr (), r') \<and> idle r'"
    "ready r \<Longrightarrow> \<exists>r'. ap_rx_single E p r = Some (Inr RxTimeout, p, r') \<and> idle r'"
    "idle r \<Longrightarrow> ap_lead_time_ms E r = lead"
  using assms unfolding silent_phy_def by blast+

lemma silent_low_power:
  assumes "silent_phy idle ready good lead E" "idle (ad_radio d)"
  obtains w where "async_low_power E d = Some (Inr (), d\<lparr>ad_radio := w\<rparr>)" "idle w"
proof -
  obtain w where "ap_low_power E (ad_radio d) = Some (Inr (), w)" "idle w" using silent_phyD(2) [OF assms] by blast
  then show thesis by (intro that) (simp_all add: async_low_power_def radio_result_def)
qed

lemma silent_listen:
  assumes "silent_phy idle ready good lead E" "\<not> ad_class_c d" "ready (ad_radio d)"
  obtains d' where "rx_listen mk D E rf d = Some (Inr None, d')" "ad_mac d' = ad_mac d" "ad_class_c d' = ad_class_c d"
    "ad_timer d' = ad_timer d" "idle (ad_radio d')"
proof -
  obtain w where w: "ap_rx_single E (rb_packet (ad_buffer d)) (ad_radio d) = Some (Inr RxTimeout, rb_packet (ad_buffer d), w)" "idle w"
    using silent_phyD(3) [OF assms(1,3)] by blast
  define d1 where "d1 = (ad_set_packet (rb_packet (ad_buffer d)) d)\<lparr>ad_radio := w\<rparr>"
  have s: "async_rx_single E d = Some (Inr RxTimeout, d1)"
    by (simp add: async_rx_single_def w radio_result_def d1_def)
  have c: "\<not> ad_class_c d1" "idle (ad_radio d1)" using assms(2) w(2) by (simp_all add: d1_def ad_set_packet_def)
  obtain w' where w': "async_low_power E d1 = Some (Inr (), d1\<lparr>ad_radio := w'\<rparr>)" "idle w'"
    by (rule silent_low_power [OF assms(1) c(2)])
  have "rx_listen mk D E rf d = Some (Inr None, d1\<lparr>ad_radio := w'\<rparr>)"
    by (simp add: rx_listen_def s async_try_def window_complete_def c w')
  then show thesis by (rule that) (simp_all add: d1_def ad_set_packet_def w')
qed

lemma silent_window:
  assumes "silent_phy idle ready good lead E" "\<not> ad_class_c d" "idle (ad_radio d)" "\<And>b. good (rw_rx_config b win w)"
  obtains d' where "rx_window mk D E fr ms w win d = Some (Inr None, d')" "ad_mac d' = ad_mac d" "ad_class_c d' = ad_class_c d"
    "ad_timer d' = ap_timer_at E (ucast (get_rx_delay fr win (ad_mac d) + ms - lead)) (ad_timer d)" "idle (ad_radio d')"
proof -
  obtain w1 where w1: "async_low_power E d = Some (Inr (), d\<lparr>ad_radio := w1\<rparr>)" "idle w1"
    by (rule silent_low_power [OF assms(1,3)])
  define d1 where "d1 = async_timer_at E (rx_start_delay E fr ms win d) (d\<lparr>ad_radio := w1\<rparr>)"
  define cfg where "cfg = rw_rx_config (ap_window_buffer E (ad_radio d1)) win w"
  have r1: "ad_radio d1 = w1" by (simp add: d1_def async_timer_at_def)
  obtain w2 where w2: "ap_setup_rx E cfg w1 = Some (Inr (), w2)" "ready w2"
    using silent_phyD(1) [OF assms(1) w1(2)] assms(4) unfolding cfg_def by blast
  define d2 where "d2 = d1\<lparr>ad_radio := w2\<rparr>"
  have d2: "\<not> ad_class_c d2" "ad_mac d2 = ad_mac d" "ad_class_c d2 = ad_class_c d" "ready (ad_radio d2)"
    "ad_timer d2 = ap_timer_at E (ucast (get_rx_delay fr win (ad_mac d) + ms - lead)) (ad_timer d)"
    using assms(2) w2(2) by (simp_all add: d2_def d1_def async_timer_at_def rx_start_delay_def silent_phyD(4) [OF assms(1,3)])
  have b: "between_windows mk D E (rx_start_delay E fr ms win d) d = Some (Inr None, d1)"
    using assms(2) by (simp add: between_windows_def w1 async_try_def d1_def)
  have s: "async_setup_rx E cfg d1 = Some (Inr (), d2)" by (simp add: async_setup_rx_def radio_result_def r1 w2 d2_def)
  obtain d' where d': "rx_listen mk D E (rxc_rf cfg) d2 = Some (Inr None, d')" "ad_mac d' = ad_mac d2" "ad_class_c d' = ad_class_c d2"
    "ad_timer d' = ad_timer d2" "idle (ad_radio d')" by (rule silent_listen [OF assms(1) d2(1,4)])
  have "rx_window mk D E fr ms w win d = Some (Inr None, d')"
    unfolding rx_window_def b async_try_def by (simp add: Let_def cfg_def [symmetric] s d'(1))
  then show thesis using d' d2 by (intro that) simp_all
qed

lemma silent_send:
  assumes "silent_phy idle ready good lead E" "\<not> ad_class_c d" "async_ok d" "cipher_ok mk"
    and "mac_send mk next_u32 (ad_rng d) (ad_buffer d) \<lparr>sd_data = data, sd_fport = fport, sd_confirmed = confirmed\<rparr> (ad_mac d)
      = Some (Inr (tx, w, n), rng', buf', m')"
    and "rb_as_ref_for_read buf' = Some packet" "ap_tx E tx packet (ad_radio d) = Some (Inr ms, r)" "idle r"
    and "\<And>b win. good (rw_rx_config b win w)"
  shows "\<exists>resp m'' x d'. mac_rx2_complete m' = Some (resp, m'') \<and> send_response_of resp = Some x \<and>
    async_send mk D next_u32 E data fport confirmed d = Some (Inr x, d') \<and> ad_mac d' = m'' \<and>
    ad_timer d' = ap_timer_at E (ucast (cfg_rx1_delay (mac_conf m') + 1000 + ms - lead))
      (ap_timer_at E (ucast (cfg_rx1_delay (mac_conf m') + ms - lead)) (ap_timer_reset E (ad_timer d))) \<and> idle (ad_radio d')"
proof -
  obtain d2 where d2: "async_send mk D next_u32 E data fport confirmed d =
      async_try (rx_downlink mk D E Data ms w d2) (\<lambda>resp d3. do {x \<leftarrow> send_response_of resp; Some (Inr x, d3)})"
    "ad_mac d2 = m'" "ad_class_c d2 = ad_class_c d" "ad_timer d2 = ap_timer_reset E (ad_timer d)" "async_ok d2"
    "\<exists>dn. counters_of m' = Some (n, dn)" "ad_radio d2 = r"
    by (rule send_transmitted [OF assms(3-7)])
  have ok: "mac_ok m'" using async_okD(1) [OF d2(5)] d2(2) by simp
  obtain resp m'' where t: "mac_rx2_complete m' = Some (resp, m'')" using mac_rx2_complete_total [OF ok] by blast
  have "activated m'" using d2(6) by (auto simp: counters_of_def activated_def split: mac_state.splits)
  then have nn: "resp \<noteq> NoUpdate" using rx2_complete_activated [OF ok _ t] by blast
  obtain x where x: "send_response_of resp = Some x"
    using timeout_step [OF ok t] d2(6) nn by (cases resp) (auto simp: completed_def)
  define d3 where "d3 = d2\<lparr>ad_buffer := rb_clear (ad_buffer d2)\<rparr>"
  have c3: "\<not> ad_class_c d3" "idle (ad_radio d3)" using assms(2,8) d2(3,7) by (simp_all add: d3_def)
  obtain d4 where d4: "rx_window mk D E Data ms w Window1 d3 = Some (Inr None, d4)" "ad_mac d4 = ad_mac d3" "ad_class_c d4 = ad_class_c d3"
    "ad_timer d4 = ap_timer_at E (ucast (get_rx_delay Data Window1 (ad_mac d3) + ms - lead)) (ad_timer d3)" "idle (ad_radio d4)"
    by (rule silent_window [OF assms(1) c3 assms(9)])
  have c4: "\<not> ad_class_c d4" using c3 d4(3) by simp
  obtain d5 where d5: "rx_window mk D E Data ms w Window2 d4 = Some (Inr None, d5)" "ad_mac d5 = ad_mac d4" "ad_class_c d5 = ad_class_c d4"
    "ad_timer d5 = ap_timer_at E (ucast (get_rx_delay Data Window2 (ad_mac d4) + ms - lead)) (ad_timer d4)" "idle (ad_radio d5)"
    by (rule silent_window [OF assms(1) c4 d4(5) assms(9)])
  have m: "ad_mac d3 = m'" "ad_mac d4 = m'" "ad_mac d5 = m'" using d2(2) d4(2) d5(2) by (simp_all add: d3_def)
  have "rx_downlink mk D E Data ms w d2 = Some (Inr resp, d5\<lparr>ad_mac := m''\<rparr>)"
    unfolding rx_downlink_def d3_def [symmetric] d4(1) async_try_def
    by (simp add: rx2_downlink_def d5(1) async_try_def m t)
  then have "async_send mk D next_u32 E data fport confirmed d = Some (Inr x, d5\<lparr>ad_mac := m''\<rparr>)"
    unfolding d2(1) by (simp add: async_try_def x)
  then show ?thesis using t x d5(4,5) d4(4) d2(4) m by (auto simp: get_rx_delay_def d3_def)
qed

text \<open>An exchange without a downlink: \<open>send\<close> waits for both windows and ends the exchange. The timer counts
  from the end of the transmission; the first window is awaited for the receive delay plus what the
  radio reports for the transmission less its lead time, the second one second longer; the response is
  the one of the MAC layer at the end of the second window, and the MAC layer has changed by the uplink and
  that end only.\<close>

theorem silent_exchange:
  assumes "silent_phy idle ready good lead E" "\<not> ad_class_c d" "async_ok d" "cipher_ok mk"
    and "mac_send mk next_u32 (ad_rng d) (ad_buffer d) \<lparr>sd_data = data, sd_fport = fport, sd_confirmed = confirmed\<rparr> (ad_mac d)
      = Some (Inr (tx, w, n), rng', buf', m')"
    and "rb_as_ref_for_read buf' = Some packet" "ap_tx E tx packet (ad_radio d) = Some (Inr ms, r)" "idle r"
    and "\<And>b win. good (rw_rx_config b win w)"
  shows "\<exists>resp m'' x d'. mac_rx2_complete m' = Some (resp, m'') \<and> send_response_of resp = Some x \<and>
    async_send mk D next_u32 E data fport confirmed d = Some (Inr x, d') \<and> ad_mac d' = m'' \<and>
    ad_timer d' = ap_timer_at E (ucast (cfg_rx1_delay (mac_conf m') + 1000 + ms - lead))
      (ap_timer_at E (ucast (cfg_rx1_delay (mac_conf m') + ms - lead)) (ap_timer_reset E (ad_timer d))) \<and> idle (ad_radio d')"
  using assms by (rule silent_send)

section \<open>Agreement with the non-blocking device\<close>

text \<open>A radio of the non-blocking device that works and hears nothing.\<close>

definition nb_silent :: "('w, 'p, 'q, 'e) phy \<Rightarrow> bool" where
  "nb_silent R \<longleftrightarrow> (\<forall>t p w. \<exists>ms w'. phy_handle_event R (TxRequest t p) w = (Inr (TxDone ms), w')) \<and>
     (\<forall>rf w. \<exists>x w'. phy_handle_event R (RxRequest rf) w = (Inr x, w')) \<and> (\<forall>w. \<exists>x w'. phy_handle_event R CancelRx w = (Inr x, w'))"

lemma nb_silent_radio:
  assumes "nb_silent R"
  shows "\<exists>ms sh1. sh_radio_event R (TxRequest t p) sh = (Inr (TxDone ms), sh1) \<and> sh_mac sh1 = sh_mac sh"
    and "\<exists>x sh1. sh_radio_event R (RxRequest rf) sh = (Inr x, sh1) \<and> sh_mac sh1 = sh_mac sh"
    and "\<exists>x sh1. sh_radio_event R CancelRx sh = (Inr x, sh1) \<and> sh_mac sh1 = sh_mac sh"
proof -
  obtain ms w1 where "phy_handle_event R (TxRequest t p) (sh_radio sh) = (Inr (TxDone ms), w1)"
    using assms unfolding nb_silent_def by blast
  then show "\<exists>ms sh1. sh_radio_event R (TxRequest t p) sh = (Inr (TxDone ms), sh1) \<and> sh_mac sh1 = sh_mac sh"
    by (simp add: sh_radio_event_def)
  obtain x w1 where "phy_handle_event R (RxRequest rf) (sh_radio sh) = (Inr x, w1)" using assms unfolding nb_silent_def by blast
  then show "\<exists>x sh1. sh_radio_event R (RxRequest rf) sh = (Inr x, sh1) \<and> sh_mac sh1 = sh_mac sh"
    by (simp add: sh_radio_event_def)
  obtain x w1 where "phy_handle_event R CancelRx (sh_radio sh) = (Inr x, w1)" using assms unfolding nb_silent_def by blast
  then show "\<exists>x sh1. sh_radio_event R CancelRx sh = (Inr x, sh1) \<and> sh_mac sh1 = sh_mac sh"
    by (simp add: sh_radio_event_def)
qed

text \<open>The timeouts of an exchange that hears nothing.\<close>

lemma nb_window_opens:
  assumes "nb_silent R" "nd_state d = WaitingForRxWindow fr w slot"
  obtains t d1 where "nb_handle_event mk D next_u32 R NbTimeoutFired d = Some (Inr (TimeoutRequest t), d1)"
    "nd_state d1 = WaitingForRx fr w slot (rw_get (slot_window slot) w)" "nd_mac d1 = nd_mac d"
proof -
  obtain x sh1 where "sh_radio_event R (RxRequest (rw_get (slot_window slot) w)) (nd_shared d) = (Inr x, sh1)" "sh_mac sh1 = nd_mac d"
    using nb_silent_radio(2) [OF assms(1)] by blast
  then show thesis
    by (intro that [of "window_close R fr slot sh1" "\<lparr>nd_state = WaitingForRx fr w slot (rw_get (slot_window slot) w), nd_shared = sh1\<rparr>"])
       (simp_all add: nb_handle_event_def state_handle_event_def waiting_window_handle_event_def assms(2) Let_def)
qed

lemma nb_window1_closes:
  assumes "nb_silent R" "nd_state d = WaitingForRx fr w (Rx1 t1) rf"
  obtains t2 d1 where "nb_handle_event mk D next_u32 R NbTimeoutFired d = Some (Inr (TimeoutRequest t2), d1)"
    "nd_state d1 = WaitingForRxWindow fr w (Rx2 t2)" "nd_mac d1 = nd_mac d"
proof -
  obtain x sh1 where c: "sh_radio_event R CancelRx (nd_shared d) = (Inr x, sh1)" "sh_mac sh1 = nd_mac d"
    using nb_silent_radio(3) [OF assms(1)] by blast
  define t2 where "t2 = t1 + (get_rx_delay fr Window2 (sh_mac sh1) - get_rx_delay fr Window1 (sh_mac sh1))"
  show thesis using c
    by (intro that [of t2 "\<lparr>nd_state = WaitingForRxWindow fr w (Rx2 t2), nd_shared = sh1\<rparr>"])
       (simp_all add: nb_handle_event_def state_handle_event_def waiting_rx_handle_event_def assms(2) Let_def t2_def)
qed

lemma nb_window2_closes:
  assumes "nb_silent R" "nd_state d = WaitingForRx fr w (Rx2 t2) rf" "mac_rx2_complete (nd_mac d) = Some (resp, m')"
    "nb_response_of resp = Some x"
  obtains d1 where "nb_handle_event mk D next_u32 R NbTimeoutFired d = Some (Inr x, d1)" "nd_state d1 = Idle" "nd_mac d1 = m'"
proof -
  obtain y sh1 where c: "sh_radio_event R CancelRx (nd_shared d) = (Inr y, sh1)" "sh_mac sh1 = nd_mac d"
    using nb_silent_radio(3) [OF assms(1)] by blast
  then show thesis using assms(3,4)
    by (intro that [of "\<lparr>nd_state = Idle, nd_shared = sh1\<lparr>sh_mac := m'\<rparr>\<rparr>"])
       (simp_all add: nb_handle_event_def state_handle_event_def waiting_rx_handle_event_def assms(2))
qed

lemma nb_send_starts:
  assumes "nb_silent R" "nd_state d = Idle" "rb_ok buf'"
    and "mac_send mk next_u32 (sh_rng (nd_shared d)) (sh_tx_buffer (nd_shared d)) data (nd_mac d) = Some (Inr (tx, w, n), rng', buf', m')"
  obtains t d1 where "nb_handle_event mk D next_u32 R (NbSendData data) d = Some (Inr (TimeoutRequest t), d1)"
    "nd_state d1 = WaitingForRxWindow Data w (Rx1 t)" "nd_mac d1 = m'"
proof -
  define sh where "sh = (nd_shared d)\<lparr>sh_rng := rng', sh_tx_buffer := buf', sh_mac := m'\<rparr>"
  obtain packet where p: "rb_as_ref_for_read buf' = Some packet" using rb_ok_read [OF assms(3)] by blast
  obtain ms sh1 where c: "sh_radio_event R (TxRequest tx packet) sh = (Inr (TxDone ms), sh1)" "sh_mac sh1 = sh_mac sh"
    using nb_silent_radio(1) [OF assms(1)] by blast
  define t where "t = get_rx_delay Data Window1 m' + ms + phy_window_offset_ms R (sh_radio sh1)"
  define d1 where "d1 = \<lparr>nd_state = WaitingForRxWindow Data w (Rx1 t), nd_shared = sh1\<rparr>"
  have "nb_handle_event mk D next_u32 R (NbSendData data) d = Some (Inr (TimeoutRequest t), d1)"
    using p c assms(2,4)
    by (simp add: nb_handle_event_def state_handle_event_def idle_handle_event_def sh_def [symmetric] idle_radio_tx_def
        data_rxwindow1_timeout_def t_def d1_def) (simp add: sh_def Let_def)
  moreover have "nd_state d1 = WaitingForRxWindow Data w (Rx1 t)" by (simp add: d1_def)
  moreover have "nd_mac d1 = m'" using c(2) by (simp add: d1_def sh_def)
  ultimately show thesis by (rule that)
qed

lemma nb_silent_exchange:
  assumes "nb_silent R" "nd_state nd = Idle" "rb_ok buf'" "counters_of (nd_mac nd) = Some (n, dn)"
    and "mac_send mk next_u32 (sh_rng (nd_shared nd)) (sh_tx_buffer (nd_shared nd)) data (nd_mac nd) = Some (Inr (tx, w, n), rng', buf', m')"
    and "mac_rx2_complete m' = Some (resp, m'')" "nb_response_of resp = Some x"
  obtains nd' where "nb_uplinks mk D next_u32 R [NbSendData data, NbTimeoutFired, NbTimeoutFired, NbTimeoutFired, NbTimeoutFired] nd
      = Some ([(n, True)], nd')" "nd_state nd' = Idle" "nd_mac nd' = m''"
proof -
  obtain t1 d1 where d1: "nb_handle_event mk D next_u32 R (NbSendData data) nd = Some (Inr (TimeoutRequest t1), d1)"
    "nd_state d1 = WaitingForRxWindow Data w (Rx1 t1)" "nd_mac d1 = m'"
    by (rule nb_send_starts [OF assms(1-3,5)])
  obtain t2 d2 where d2: "nb_handle_event mk D next_u32 R NbTimeoutFired d1 = Some (Inr (TimeoutRequest t2), d2)"
    "nd_state d2 = WaitingForRx Data w (Rx1 t1) (rw_get (slot_window (Rx1 t1)) w)" "nd_mac d2 = nd_mac d1"
    by (rule nb_window_opens [OF assms(1) d1(2)])
  obtain t3 d3 where d3: "nb_handle_event mk D next_u32 R NbTimeoutFired d2 = Some (Inr (TimeoutRequest t3), d3)"
    "nd_state d3 = WaitingForRxWindow Data w (Rx2 t3)" "nd_mac d3 = nd_mac d2"
    by (rule nb_window1_closes [OF assms(1) d2(2)])
  obtain t4 d4 where d4: "nb_handle_event mk D next_u32 R NbTimeoutFired d3 = Some (Inr (TimeoutRequest t4), d4)"
    "nd_state d4 = WaitingForRx Data w (Rx2 t3) (rw_get (slot_window (Rx2 t3)) w)" "nd_mac d4 = nd_mac d3"
    by (rule nb_window_opens [OF assms(1) d3(2)])
  have m: "mac_rx2_complete (nd_mac d4) = Some (resp, m'')" using assms(6) d1(3) d2(3) d3(3) d4(3) by simp
  obtain d5 where d5: "nb_handle_event mk D next_u32 R NbTimeoutFired d4 = Some (Inr x, d5)" "nd_state d5 = Idle" "nd_mac d5 = m''"
    by (rule nb_window2_closes [OF assms(1) d4(2) m assms(7)])
  have u: "mac_get_fcnt_up (nd_mac nd) = Some n"
    using assms(4) by (auto simp: counters_of_def mac_get_fcnt_up_def split: mac_state.splits)
  have "nb_uplinks mk D next_u32 R [NbSendData data, NbTimeoutFired, NbTimeoutFired, NbTimeoutFired, NbTimeoutFired] nd = Some ([(n, True)], d5)"
    using assms(2) u by (simp add: d1(1,2) d2(1,2) d3(1,2) d4(1,2) d5(1,2))
  then show thesis using d5(2,3) by (rule that)
qed

text \<open>C19. The two drivers agree: started on the same MAC layer, buffer and generator, with radios that work and
  hear nothing, \<open>send\<close> of the asynchronous device and the events of the non-blocking device (send and four
  timeouts) hand the same counter to the radio and leave the same MAC layer.\<close>

theorem drivers_agree:
  assumes "silent_phy idle ready good lead E" "nb_silent R" "\<not> ad_class_c d" "async_ok d" "cipher_ok mk"
    and "nd_state nd = Idle" "nd_mac nd = ad_mac d" "sh_rng (nd_shared nd) = ad_rng d" "sh_tx_buffer (nd_shared nd) = ad_buffer d"
    and "mac_send mk next_u32 (ad_rng d) (ad_buffer d) \<lparr>sd_data = data, sd_fport = fport, sd_confirmed = confirmed\<rparr> (ad_mac d)
      = Some (Inr (tx, w, n), rng', buf', m')"
    and "rb_as_ref_for_read buf' = Some packet" "ap_tx E tx packet (ad_radio d) = Some (Inr ms, r)" "idle r"
    and "\<And>b win. good (rw_rx_config b win w)"
  shows "\<exists>x d' nd'. async_send mk D next_u32 E data fport confirmed d = Some (Inr x, d') \<and>
    nb_uplinks mk D next_u32 R [NbSendData \<lparr>sd_data = data, sd_fport = fport, sd_confirmed = confirmed\<rparr>,
      NbTimeoutFired, NbTimeoutFired, NbTimeoutFired, NbTimeoutFired] nd = Some ([(n, True)], nd') \<and>
    nd_state nd' = Idle \<and> nd_mac nd' = ad_mac d'"
proof -
  obtain resp m'' x d' where a: "mac_rx2_complete m' = Some (resp, m'')"
    "async_send mk D next_u32 E data fport confirmed d = Some (Inr x, d')" "ad_mac d' = m''"
    using silent_send [OF assms(1,3-5,10-14), of D] by blast
  let ?data = "\<lparr>sd_data = data, sd_fport = fport, sd_confirmed = confirmed\<rparr>"
  obtain dn where c: "counters_of (ad_mac d) = Some (n, dn)" "counters_of m' = Some (n, dn)" "mac_ok m'" and b: "rb_ok buf'"
    by (rule sent_ok [OF async_okD(1) [OF assms(4)] assms(5,10)])
  obtain y where y: "nb_response_of resp = Some y" using nb_response_of_total timeout_step [OF c(3) a(1)] by blast
  have send: "mac_send mk next_u32 (sh_rng (nd_shared nd)) (sh_tx_buffer (nd_shared nd)) ?data (nd_mac nd)
      = Some (Inr (tx, w, n), rng', buf', m')" using assms(7-10) by simp
  have n: "counters_of (nd_mac nd) = Some (n, dn)" using c(1) assms(7) by simp
  obtain nd' where "nb_uplinks mk D next_u32 R [NbSendData ?data, NbTimeoutFired, NbTimeoutFired, NbTimeoutFired, NbTimeoutFired] nd
      = Some ([(n, True)], nd')" "nd_state nd' = Idle" "nd_mac nd' = m''"
    by (rule nb_silent_exchange [OF assms(2,6) b n send a(1) y])
  then show ?thesis using a(2,3) by (intro exI [of _ x] exI [of _ d'] exI [of _ nd']) simp
qed

section \<open>Devices to apply them to\<close>

definition example_async_phy :: "(unit, u64 list, unit) async_phy" where
  "example_async_phy = \<lparr>ap_tx = (\<lambda>_ _ w. Some (Inr 0, w)), ap_setup_rx = (\<lambda>_ w. Some (Inr (), w)),
     ap_rx_continuous = (\<lambda>p w. if length p < 100 then Some (Inl (), p, w)
       else Some (Inr (100, rx_quality_new 0 0), 0x60 # replicate 99 0 @ drop 100 p, w)),
     ap_rx_single = (\<lambda>p w. Some (Inr RxTimeout, p, w)), ap_low_power = (\<lambda>w. Some (Inr (), w)), ap_lead_time_ms = (\<lambda>_. 10),
     ap_window_buffer = (\<lambda>_. 10), ap_antenna_gain = 0, ap_max_radio_power = 14, ap_timer_reset = (\<lambda>_. []),
     ap_timer_at = (\<lambda>n t. t @ [n]), ap_race = (\<lambda>_ p w t. Some (None, p, w, t))\<rparr>"

definition example_async :: "(unit, u64 list, u32) async_device" where
  "example_async = \<lparr>ad_radio = (), ad_rng = 0, ad_timer = [], ad_mac = example_mac, ad_buffer = rb_new 256,
     ad_downlink = [], ad_class_c = False\<rparr>"

lemma example_async_ok: "async_ok example_async"
  by (simp add: async_ok_def example_async_def example_mac_ok)

lemma example_async_silent: "silent_phy (\<lambda>_. True) (\<lambda>_. True) (\<lambda>_. True) 10 example_async_phy"
  by (simp add: silent_phy_def example_async_phy_def)

lemma example_async_sel [simp]: "ad_rng example_async = 0" "ad_buffer example_async = rb_new 256" "ad_mac example_async = example_mac"
  "ad_timer example_async = []" "\<not> ad_class_c example_async"
  by (simp_all add: example_async_def)

lemma example_async_sends:
  obtains tx w rng' buf' m' packet where "mac_send (\<lambda>k. xor_crypto (k ! 0)) (\<lambda>n. (n, n + 1)) (ad_rng example_async)
    (ad_buffer example_async) example_data (ad_mac example_async) = Some (Inr (tx, w, 0), rng', buf', m')"
    "rb_as_ref_for_read buf' = Some packet"
proof -
  obtain tx w rng' buf' m' where r: "mac_send (\<lambda>k. xor_crypto (k ! 0)) (\<lambda>n. (n, n + 1)) (ad_rng example_async)
    (ad_buffer example_async) example_data (ad_mac example_async) = Some (Inr (tx, w, 0), rng', buf', m')"
    unfolding example_async_sel by (rule example_send)
  obtain dn where "rb_ok buf'" by (rule sent_ok [OF async_okD(1) [OF example_async_ok] xor_cipher_ok r])
  then show thesis using rb_ok_read r by (blast intro: that)
qed

lemma example_async_tx: "ap_tx example_async_phy tx p r = Some (Inr 0, r)"
  by (simp add: example_async_phy_def)

lemma silent_exchange_witness:
  "\<exists>x d'. async_send (\<lambda>k. xor_crypto (k ! 0)) 1 (\<lambda>n. (n, n + 1)) example_async_phy [5, 6] 1 False example_async = Some (Inr x, d') \<and>
     length (ad_timer d') = 2"
proof -
  obtain tx w rng' buf' m' packet where r: "mac_send (\<lambda>k. xor_crypto (k ! 0)) (\<lambda>n. (n, n + 1)) (ad_rng example_async)
    (ad_buffer example_async) example_data (ad_mac example_async) = Some (Inr (tx, w, 0), rng', buf', m')"
    and p: "rb_as_ref_for_read buf' = Some packet" by (rule example_async_sends)
  from silent_exchange [OF example_async_silent example_async_sel(5) example_async_ok xor_cipher_ok r p example_async_tx, of 1] show ?thesis
    by (auto simp: example_async_phy_def)
qed

lemma example_async_phy_ok: "async_phy_ok example_async_phy"
  by (auto simp: async_phy_ok_def example_async_phy_def)

text \<open>The send of the example, and that it does not end with an expired session.\<close>

lemma example_async_exchange:
  obtains x d' where "async_send (\<lambda>k. xor_crypto (k ! 0)) 1 (\<lambda>n. (n, n + 1)) example_async_phy [5, 6] 1 False example_async
      = Some (Inr x, d')" "x \<noteq> SendSessionExpired"
proof -
  obtain tx w rng' buf' m' packet where r: "mac_send (\<lambda>k. xor_crypto (k ! 0)) (\<lambda>n. (n, n + 1)) (ad_rng example_async)
    (ad_buffer example_async) example_data (ad_mac example_async) = Some (Inr (tx, w, 0), rng', buf', m')"
    and p: "rb_as_ref_for_read buf' = Some packet" by (rule example_async_sends)
  obtain resp m'' x d' where e: "mac_rx2_complete m' = Some (resp, m'')" "send_response_of resp = Some x"
    "async_send (\<lambda>k. xor_crypto (k ! 0)) 1 (\<lambda>n. (n, n + 1)) example_async_phy [5, 6] 1 False example_async = Some (Inr x, d')"
    using silent_send [OF example_async_silent example_async_sel(5) example_async_ok xor_cipher_ok r p example_async_tx, of 1] by blast
  have st: "mac_ok m' \<and> counter_step (counters_of (ad_mac example_async)) (EvSent 0) (counters_of m')"
    by (rule send_step [OF async_okD(1) [OF example_async_ok] xor_cipher_ok r])
  then have "x \<noteq> SendSessionExpired" using timeout_step [OF _ e(1)] e(2) by (cases resp) auto
  then show thesis using e(3) by (intro that)
qed

lemma async_counters_witness:
  "\<exists>os d'. perform_all (\<lambda>k. xor_crypto (k ! 0)) 1 (\<lambda>n. (n, n + 1)) example_async_phy
     [CallSend [5, 6] 1 False, CallTake] example_async = Some (os, d') \<and> used os = [0] \<and> async_ok d'"
proof -
  obtain x d' where e: "async_send (\<lambda>k. xor_crypto (k ! 0)) 1 (\<lambda>n. (n, n + 1)) example_async_phy [5, 6] 1 False example_async
      = Some (Inr x, d')" "x \<noteq> SendSessionExpired" by (rule example_async_exchange)
  have u: "mac_get_fcnt_up example_mac = Some 0" by (simp add: mac_get_fcnt_up_def example_mac_state session_new_def)
  have p: "perform_all (\<lambda>k. xor_crypto (k ! 0)) 1 (\<lambda>n. (n, n + 1)) example_async_phy [CallSend [5, 6] 1 False, CallTake] example_async
      = Some (send_obs 0 (Inr x :: unit async_error + send_response), snd (async_take_downlink d'))" using e(1) u by simp
  have s: "mac_state (ad_mac example_async) = Joined (session_new (replicate 16 1) (replicate 16 2) [1, 2, 3, 4])"
    by (simp add: example_mac_state)
  have "used (send_obs 0 (Inr x :: unit async_error + send_response)) = [0]" using e(2) by (cases x) simp_all
  then show ?thesis using p async_counters [OF p example_async_ok example_async_phy_ok xor_cipher_ok _ s] by auto
qed

lemma responses_convert_witness:
  "\<exists>tx w d resp d'. transmit (\<lambda>k. xor_crypto (k ! 0)) 1 example_async_phy Data tx w (d :: (unit, u64 list, u32) async_device)
     = Some (Inr resp, d') \<and> mac_is_joined (ad_mac d) \<and> (\<exists>x. send_response_of resp = Some x)"
proof -
  obtain tx w rng' buf' m' packet where r: "mac_send (\<lambda>k. xor_crypto (k ! 0)) (\<lambda>n. (n, n + 1)) (ad_rng example_async)
    (ad_buffer example_async) example_data (ad_mac example_async) = Some (Inr (tx, w, 0), rng', buf', m')"
    and p: "rb_as_ref_for_read buf' = Some packet" by (rule example_async_sends)
  obtain dn where c: "counters_of m' = Some (0, dn)" "mac_ok m'" "rb_ok buf'"
    by (rule sent_ok [OF async_okD(1) [OF example_async_ok] xor_cipher_ok r])
  define d where "d = example_async\<lparr>ad_rng := rng', ad_buffer := buf', ad_mac := m'\<rparr>"
  have d: "async_ok d" "mac_is_joined (ad_mac d)" using c by (simp_all add: d_def async_ok_def joined_counters)
  obtain x d' where e: "async_send (\<lambda>k. xor_crypto (k ! 0)) 1 (\<lambda>n. (n, n + 1)) example_async_phy [5, 6] 1 False example_async
      = Some (Inr x, d')" by (rule example_async_exchange)
  then have "async_try (transmit (\<lambda>k. xor_crypto (k ! 0)) 1 example_async_phy Data tx w d)
      (\<lambda>resp d2. do {x \<leftarrow> send_response_of resp; Some (Inr x, d2)}) = Some (Inr x, d')"
    using r by (simp add: async_send_def d_def)
  then show ?thesis
  proof (rule async_tryE)
    fix resp d1 assume t: "transmit (\<lambda>k. xor_crypto (k ! 0)) 1 example_async_phy Data tx w d = Some (Inr resp, d1)"
    show ?thesis using responses_convert [OF example_async_phy_ok xor_cipher_ok d(1) t] t d(2) by blast
  qed simp
qed

lemma oversized_frame_stops_listening_witness:
  "rxc_listen (\<lambda>k. xor_crypto (k ! 0)) 1 example_async_phy example_async = None"
proof -
  have "map_option (\<lambda>c. rf_max_payload_len (rxc_rf c)) (get_rxc_config example_mac) = Some 59" by code_simp
  then obtain cfg where c: "get_rxc_config (ad_mac example_async) = Some cfg" "rf_max_payload_len (rxc_rf cfg) = 59" by auto
  define bs :: bytes where "bs = 0x60 # replicate 99 0"
  have "case encrypted_parse bs of Some (Inr v) \<Rightarrow> True | _ \<Rightarrow> False" unfolding bs_def by code_simp
  then obtain v where v: "encrypted_parse bs = Some (Inr v)" by (auto split: option.splits sum.splits)
  have s: "mac_state (ad_mac example_async) = Joined (session_new (replicate 16 1) (replicate 16 2) [1, 2, 3, 4])"
    "ss_fcnt_up (session_new (replicate 16 1) (replicate 16 2) [1, 2, 3, 4]) \<noteq> 0xFFFFFFFF"
    by (simp_all add: example_mac_state session_new_def)
  have l: "length bs = 100" by (simp add: bs_def)
  have "length (rb_packet (ad_buffer example_async)) = 256" by (simp add: rb_new_def)
  then have "ap_rx_continuous example_async_phy (rb_packet (ad_buffer example_async)) (ad_radio example_async)
      = Some (Inr (length bs, rx_quality_new 0 0), bs @ drop 100 (rb_packet (ad_buffer example_async)), ad_radio example_async)"
    unfolding l by (simp add: example_async_phy_def bs_def)
  from oversized_frame_stops_listening [OF example_async_ok s c(1) v this] show ?thesis using c(2) l by simp
qed

lemma radio_error_repeats_counter_witness:
  "\<exists>d'. async_send (\<lambda>k. xor_crypto (k ! 0)) 1 (\<lambda>n. (n, n + 1)) (example_async_phy\<lparr>ap_setup_rx := \<lambda>_ w. Some (Inl (), w)\<rparr>)
     [5, 6] 1 False example_async = Some (Inl (AsyncRadio ()), d')"
proof -
  obtain tx w rng' buf' m' packet where r: "mac_send (\<lambda>k. xor_crypto (k ! 0)) (\<lambda>n. (n, n + 1)) (ad_rng example_async)
    (ad_buffer example_async) example_data (ad_mac example_async) = Some (Inr (tx, w, 0), rng', buf', m')"
    and p: "rb_as_ref_for_read buf' = Some packet" by (rule example_async_sends)
  let ?E = "example_async_phy\<lparr>ap_setup_rx := \<lambda>_ w. Some (Inl (), w)\<rparr>"
  have E: "map_option fst (ap_tx ?E t p x) = Some (Inr 0)" "map_option fst (ap_low_power ?E x) = Some (Inr ())" "map_option fst (ap_setup_rx ?E c x) = Some (Inl ())" for t p x c
    by (simp_all add: example_async_phy_def)
  show ?thesis
    using radio_error_repeats_counter [OF example_async_sel(5) example_async_ok xor_cipher_ok r, of ?E 0 "()" 1, OF E] by blast
qed

lemma drivers_agree_witness:
  "\<exists>x d' nd'. async_send (\<lambda>k. xor_crypto (k ! 0)) 1 (\<lambda>n. (n, n + 1)) example_async_phy [5, 6] 1 False example_async = Some (Inr x, d') \<and>
     nb_uplinks (\<lambda>k. xor_crypto (k ! 0)) 1 (\<lambda>n. (n, n + 1)) example_phy
       [NbSendData example_data, NbTimeoutFired, NbTimeoutFired, NbTimeoutFired, NbTimeoutFired] example_device = Some ([(0, True)], nd') \<and>
     nd_mac nd' = ad_mac d'"
proof -
  obtain tx w rng' buf' m' packet where r: "mac_send (\<lambda>k. xor_crypto (k ! 0)) (\<lambda>n. (n, n + 1)) (ad_rng example_async)
    (ad_buffer example_async) example_data (ad_mac example_async) = Some (Inr (tx, w, 0), rng', buf', m')"
    and p: "rb_as_ref_for_read buf' = Some packet" by (rule example_async_sends)
  have n: "nb_silent example_phy" by (simp add: nb_silent_def example_phy_def)
  have d: "nd_state example_device = Idle" "nd_mac example_device = ad_mac example_async"
    "sh_rng (nd_shared example_device) = ad_rng example_async" "sh_tx_buffer (nd_shared example_device) = ad_buffer example_async"
    by (simp_all add: example_device_def)
  from drivers_agree [OF example_async_silent n example_async_sel(5) example_async_ok xor_cipher_ok d r p example_async_tx, of 1] show ?thesis by blast
qed

text \<open>A join over the air in the region EU868.\<close>

lemma example_joins:
  obtains tx w n rng' buf' m' where "mac_join_otaa (\<lambda>k. xor_crypto (k ! 0)) (\<lambda>n. (n, n + 1)) (0 :: u32)
      (network_credentials_new (replicate 8 1) (replicate 8 2) (replicate 16 3)) (rb_new 256) example_mac
    = Some ((tx, w, n), rng', buf', m')"
proof -
  let ?next = "\<lambda>n :: u32. (n, n + 1)" and ?c = "network_credentials_new (replicate 8 1) (replicate 8 2) (replicate 16 3)"
    and ?p = "dyn_new eu868_region eu868_freq_check"
  have m: "mac_region example_mac = St_EU868 ?p" "cfg_data_rate (mac_conf example_mac) = DR0"
    by (simp_all add: example_mac_def mac_join_abp_def mac_new_def config_new_def rs_get_default_datarate_def)
  have d: "datarate_unwrap eu868_region DR0 = Some (the (cr_datarates eu868_region ! 0))"
    by (simp add: datarate_unwrap_def idx_def region_defs table_defs)
  have n: "unat (rng_draw ?next 0 1) mod 4 < dyn_num_join_channels eu868_region" by (simp add: region_defs)
  have R: "eu868_region \<in> set dynamic_regions" by (simp add: dynamic_regions_def)
  have "dyn_select_tx_channel ?next eu868_region 1 DR0 Join ?p \<noteq> None"
    using dyn_select_join_returns [OF R dyn_new_ok [OF R] d n] by blast
  then have "rs_create_tx_config ?next 1 (cfg_data_rate (mac_conf example_mac)) Join (mac_region example_mac) \<noteq> None"
    unfolding rs_create_tx_config_iff m by (simp add: rs_select_tx_channel_def)
  moreover have "credentials_ok ?c" by (simp add: credentials_ok_def network_credentials_new_def)
  ultimately show thesis
    by (rule_tac mac_join_outcome [OF example_mac_ok xor_cipher_ok, of ?c "rb_new 256" ?next 0]) (auto intro: that simp: rb_new_def)
qed

lemma class_c_join_aborted_witness:
  "\<exists>d'. async_join (\<lambda>k. xor_crypto (k ! 0)) 1 (\<lambda>n. (n, n + 1)) (example_async_phy\<lparr>ap_race := \<lambda>_ p w t. Some (Some (Inr (0, rx_quality_new 0 0)), p, w, t)\<rparr>)
     (OTAA (replicate 8 2) (replicate 8 1) (replicate 16 3)) (async_enable_class_c example_async) = Some (Inl (AsyncMac NotJoined), d')"
proof -
  let ?E = "example_async_phy\<lparr>ap_race := \<lambda>_ p w t. Some (Some (Inr (0, rx_quality_new 0 0)), p, w, t)\<rparr>" and ?d = "async_enable_class_c example_async"
  obtain tx w n rng' buf' m' where "mac_join_otaa (\<lambda>k. xor_crypto (k ! 0)) (\<lambda>n. (n, n + 1)) (0 :: u32)
      (network_credentials_new (replicate 8 1) (replicate 8 2) (replicate 16 3)) (rb_new 256) example_mac
    = Some ((tx, w, n), rng', buf', m')" by (rule example_joins)
  then have j: "mac_join_otaa (\<lambda>k. xor_crypto (k ! 0)) (\<lambda>n. (n, n + 1)) (ad_rng ?d)
      (network_credentials_new (replicate 8 1) (replicate 8 2) (replicate 16 3)) (ad_buffer ?d) (ad_mac ?d)
    = Some ((tx, w, n), rng', buf', m')" by (simp add: async_enable_class_c_def)
  have d: "ad_class_c ?d" "async_ok ?d" using example_async_ok by (simp_all add: async_enable_class_c_def async_ok_def)
  have E: "map_option fst (ap_tx ?E t p x) = Some (Inr 0)" "map_option fst (ap_setup_rx ?E c x) = Some (Inr ())"
    "map_option fst (ap_race ?E k p x y) = Some (Some (Inr (0, rx_quality_new 0 0)))" for t p x c k y
    by (simp_all add: example_async_phy_def)
  show ?thesis
    by (rule class_c_join_aborted [OF d xor_cipher_ok _ _ _ j, of ?E 0 0 "rx_quality_new 0 0", OF _ _ _ E]) simp_all
qed

end
