(* ===== verification/LorawanRadio.thy ===== *)
theory LorawanRadio
  imports AsyncProperties Sx126xKind
begin

text \<open>
  The radio of the asynchronous device (\<open>lora-phy/src/lorawan_radio.rs\<close>): \<open>LorawanRadio\<close> drives a \<open>LoRa\<close> and
  implements \<open>PhyRxTx\<close> and \<open>Timings\<close>, the parameters of \<open>AsyncDevice\<close>. With it the device runs over the
  drivers of this library instead of over an arbitrary radio.
\<close>

section \<open>The radio\<close>

definition DEFAULT_RX_WINDOW_LEAD_TIME :: u32 where "DEFAULT_RX_WINDOW_LEAD_TIME = 50"

record 's lorawan_radio =
  lr_lora :: "'s lora"
  lr_rx_pkt_params :: "packet_params option"
  lr_rx_window_lead_time :: u32
  lr_rx_window_buffer :: u32

datatype lorawan_radio_error = RadioErr radio_error | NoRxParams

definition lorawan_radio_from :: "'s lora \<Rightarrow> 's lorawan_radio" where
  "lorawan_radio_from l =
     \<lparr>lr_lora = l, lr_rx_pkt_params = None, lr_rx_window_lead_time = DEFAULT_RX_WINDOW_LEAD_TIME,
      lr_rx_window_buffer = DEFAULT_RX_WINDOW_LEAD_TIME\<rparr>"

definition set_rx_window_lead_time :: "u32 \<Rightarrow> 's lorawan_radio \<Rightarrow> 's lorawan_radio" where
  "set_rx_window_lead_time lt r = r\<lparr>lr_rx_window_lead_time := lt\<rparr>"

definition set_rx_window_buffer :: "u32 \<Rightarrow> 's lorawan_radio \<Rightarrow> 's lorawan_radio" where
  "set_rx_window_buffer buffer r = r\<lparr>lr_rx_window_buffer := buffer\<rparr>"

definition get_rx_window_buffer :: "'s lorawan_radio \<Rightarrow> u32" where
  "get_rx_window_buffer r = lr_rx_window_lead_time r"

definition get_rx_window_lead_time_ms :: "'s lorawan_radio \<Rightarrow> u32" where
  "get_rx_window_lead_time_ms r = lr_rx_window_lead_time r"

definition phy_rx_mode_from :: "rx_mode \<Rightarrow> bbmp \<Rightarrow> phy_rx_mode" where
  "phy_rx_mode_from mode bb =
     (case mode of Continuous \<Rightarrow> RxContinuous | SingleShot ms \<Rightarrow> RxSingle (13 + delay_in_symbols bb ms))"

section \<open>Sending and receiving\<close>

text \<open>A call on the driver, its error converted.\<close>

definition on_lora :: "('s lora, 'a) phy \<Rightarrow> 's lorawan_radio \<Rightarrow> ((lorawan_radio_error + 'a) \<times> 's lorawan_radio) run" where
  "on_lora m r = (case m (lr_lora r) of None \<Rightarrow> None
     | Some (x, l) \<Rightarrow> Some (case x of Inl e \<Rightarrow> Inl (RadioErr e) | Inr y \<Rightarrow> Inr y, r\<lparr>lr_lora := l\<rparr>))"

definition modulation_for :: "'s radio_kind \<Rightarrow> rf_config \<Rightarrow> ('s lora, modulation_params) phy" where
  "modulation_for K rf =
     lora_create_modulation_params K (bb_sf (rf_bb rf)) (bb_bw (rf_bb rf)) (bb_cr (rf_bb rf)) (rf_frequency rf)"

definition lr_tx ::
  "'s radio_kind \<Rightarrow> tx_config \<Rightarrow> bytes \<Rightarrow> 's lorawan_radio \<Rightarrow> ((lorawan_radio_error + u32) \<times> 's lorawan_radio) run" where
  "lr_tx K config buffer = on_lora
     (bnd (modulation_for K (tx_rf config)) (\<lambda>m.
      bnd (of_result (lora_create_tx_packet_params K 8 False True False m)) (\<lambda>p.
        thn (with_local p (prepare_for_tx K m (scast (tx_pw config)) buffer))
          (thn (lora_tx K) (ret 0)))))"

definition lr_setup_rx ::
  "'s radio_kind \<Rightarrow> rx_config \<Rightarrow> 's lorawan_radio \<Rightarrow> ((lorawan_radio_error + unit) \<times> 's lorawan_radio) run" where
  "lr_setup_rx K config r =
     (case on_lora
        (bnd (modulation_for K (rxc_rf config)) (\<lambda>m.
         bnd (of_result (lora_create_rx_packet_params K 8 False 255 True True m)) (\<lambda>p.
           thn (prepare_for_rx K (phy_rx_mode_from (rxc_mode config) (rf_bb (rxc_rf config))) m p) (ret p)))) r of
        None \<Rightarrow> None
      | Some (x, r') \<Rightarrow> Some (case x of
            Inl e \<Rightarrow> (Inl e, r')
          | Inr p \<Rightarrow> (Inr (), r'\<lparr>lr_rx_pkt_params := Some p\<rparr>)))"

text \<open>\<open>LoRa::rx\<close> into the caller's buffer with the parameters of the last \<open>setup_rx\<close>.\<close>

definition lr_rx ::
  "'s radio_kind \<Rightarrow> bytes \<Rightarrow> 's lorawan_radio
    \<Rightarrow> ((lorawan_radio_error + (radio_error + u8 \<times> packet_status)) \<times> bytes \<times> 's lorawan_radio) run" where
  "lr_rx K buf r = (case lr_rx_pkt_params r of
       None \<Rightarrow> Some (Inl NoRxParams, buf, r)
     | Some p \<Rightarrow> (case lora_rx K p (buf, lr_lora r) of None \<Rightarrow> None
         | Some (x, buf', l) \<Rightarrow> Some (Inr x, buf', r\<lparr>lr_lora := l\<rparr>)))"

definition quality_of :: "packet_status \<Rightarrow> rx_quality" where
  "quality_of q = rx_quality_new (ps_rssi q) (ucast (ps_snr q))"

definition lr_rx_single ::
  "'s radio_kind \<Rightarrow> bytes \<Rightarrow> 's lorawan_radio \<Rightarrow> ((lorawan_radio_error + rx_status) \<times> bytes \<times> 's lorawan_radio) run" where
  "lr_rx_single K buf r = do {
     (x, buf', r') \<leftarrow> lr_rx K buf r;
     Some (case x of
         Inl e \<Rightarrow> Inl e
       | Inr (Inr (len, q)) \<Rightarrow> Inr (Rx (unat len) (quality_of q))
       | Inr (Inl e) \<Rightarrow> if e = ReceiveTimeout then Inr RxTimeout else Inl (RadioErr e), buf', r')}"

definition lr_rx_continuous ::
  "'s radio_kind \<Rightarrow> bytes \<Rightarrow> 's lorawan_radio
    \<Rightarrow> ((lorawan_radio_error + nat \<times> rx_quality) \<times> bytes \<times> 's lorawan_radio) run" where
  "lr_rx_continuous K buf r = do {
     (x, buf', r') \<leftarrow> lr_rx K buf r;
     Some (case x of
         Inl e \<Rightarrow> Inl e
       | Inr (Inr (len, q)) \<Rightarrow> Inr (unat len, quality_of q)
       | Inr (Inl e) \<Rightarrow> Inl (RadioErr e), buf', r')}"

definition lr_low_power ::
  "'s radio_kind \<Rightarrow> 's lorawan_radio \<Rightarrow> ((lorawan_radio_error + unit) \<times> 's lorawan_radio) run" where
  "lr_low_power K = on_lora (lora_sleep K False)"

text \<open>The timer, and the race of a reception against it, which may cut the reception off, stay parameters.\<close>

type_synonym ('w, 't, 'e) rx_race =
  "u64 \<Rightarrow> bytes \<Rightarrow> 'w \<Rightarrow> 't \<Rightarrow> (('e + nat \<times> rx_quality) option \<times> bytes \<times> 'w \<times> 't) run"

definition lorawan_phy ::
  "'s radio_kind \<Rightarrow> u8 \<Rightarrow> i8 \<Rightarrow> ('t \<Rightarrow> 't) \<Rightarrow> (u64 \<Rightarrow> 't \<Rightarrow> 't) \<Rightarrow> ('s lorawan_radio, 't, lorawan_radio_error) rx_race
    \<Rightarrow> ('s lorawan_radio, 't, lorawan_radio_error) async_phy" where
  "lorawan_phy K P G timer_reset timer_at race =
     \<lparr>ap_tx = lr_tx K, ap_setup_rx = lr_setup_rx K, ap_rx_continuous = lr_rx_continuous K,
      ap_rx_single = lr_rx_single K, ap_low_power = lr_low_power K, ap_lead_time_ms = get_rx_window_lead_time_ms,
      ap_window_buffer = get_rx_window_buffer, ap_antenna_gain = G, ap_max_radio_power = P,
      ap_timer_reset = timer_reset, ap_timer_at = timer_at, ap_race = race\<rparr>"

section \<open>The radio keeps the contract of the device\<close>

definition race_fits :: "('w, 't, 'e) rx_race \<Rightarrow> bool" where
  "race_fits race \<longleftrightarrow> (\<forall>n p w t r p' w' t'. race n p w t = Some (r, p', w', t') \<longrightarrow>
     length p' = length p \<and> (\<forall>s q. r = Some (Inr (s, q)) \<longrightarrow> s \<le> length p))"

context receives
begin

lemma lr_rx_fits:
  assumes "lr_rx K buf r = Some (x, buf', r')"
  shows "length buf' = length buf \<and> (\<forall>n st. x = Inr (Inr (n, st)) \<longrightarrow> unat n \<le> length buf)"
proof (cases "lr_rx_pkt_params r")
  case (Some p)
  then obtain y l where "lora_rx K p (buf, lr_lora r) = Some (y, buf', l)" "x = Inr y"
    using assms by (auto simp: lr_rx_def split: option.splits)
  then show ?thesis using postD [OF lora_rx_fits] by fastforce
qed (use assms in \<open>auto simp: lr_rx_def\<close>)

lemma lr_rx_single_fits:
  assumes "lr_rx_single K p w = Some (r, p', w')"
  shows "length p' = length p \<and> (\<forall>s q. r = Inr (Rx s q) \<longrightarrow> s \<le> length p)"
proof -
  obtain x where x: "lr_rx K p w = Some (x, p', w')"
    "r = (case x of Inl e \<Rightarrow> Inl e | Inr (Inr (len, q)) \<Rightarrow> Inr (Rx (unat len) (quality_of q))
       | Inr (Inl e) \<Rightarrow> if e = ReceiveTimeout then Inr RxTimeout else Inl (RadioErr e))"
    using assms by (auto simp: lr_rx_single_def bind_eq_Some_conv)
  show ?thesis using lr_rx_fits [OF x(1)] by (auto simp: x(2) split: sum.splits prod.splits if_splits)
qed

lemma lr_rx_continuous_fits:
  assumes "lr_rx_continuous K p w = Some (r, p', w')"
  shows "length p' = length p \<and> (\<forall>s q. r = Inr (s, q) \<longrightarrow> s \<le> length p)"
proof -
  obtain x where x: "lr_rx K p w = Some (x, p', w')"
    "r = (case x of Inl e \<Rightarrow> Inl e | Inr (Inr (len, q)) \<Rightarrow> Inr (unat len, quality_of q) | Inr (Inl e) \<Rightarrow> Inl (RadioErr e))"
    using assms by (auto simp: lr_rx_continuous_def bind_eq_Some_conv)
  show ?thesis using lr_rx_fits [OF x(1)] by (auto simp: x(2) split: sum.splits prod.splits)
qed

lemma lorawan_phy_ok: "race_fits race \<Longrightarrow> async_phy_ok (lorawan_phy K P G timer_reset timer_at race)"
  unfolding async_phy_ok_def race_fits_def lorawan_phy_def
  by (simp add: lr_rx_single_fits lr_rx_continuous_fits)

end

end
