(* ===== verification/Emu126Stack.thy ===== *)
theory Emu126Stack
  imports Emu126Runs LorawanRadio
begin

text \<open>
  The LoRaWAN radio over the SX126x driver over the emulated chip, across transmissions, receive windows that bring
  nothing, and sleep, after which the chip is initialised again.
\<close>

section \<open>The chip between operations\<close>

definition filled_list6 :: bytes where
  "filled_list6 = [2, 0x08, 0xAC, 0x08, 0x89, 0, 0, 0, 0]"

definition settled6 :: "chip6 \<Rightarrow> bool" where
  "settled6 c \<longleftrightarrow> length (ch6_buffer c) = 256 \<and> ch6_irq_status c = 0 \<and> ch6_pending_rx c = None \<and>
     list6 c \<in> {replicate 9 0, filled_list6}"

text \<open>What an operation on the chip leaves alone.\<close>

definition kept6 :: "chip6 \<Rightarrow> chip6 \<Rightarrow> bool" where
  "kept6 c c' \<longleftrightarrow> length (ch6_buffer c') = length (ch6_buffer c) \<and> ch6_irq_status c' = ch6_irq_status c \<and>
     ch6_pending_rx c' = ch6_pending_rx c \<and> list6 c' = list6 c \<and> ch6_tx_log c' = ch6_tx_log c"

lemma kept6_settled: "kept6 c c' \<Longrightarrow> settled6 c \<Longrightarrow> settled6 c'"
  by (simp add: kept6_def settled6_def)

lemma kept6_refl [simp]: "kept6 c c"
  by (simp add: kept6_def)

lemma list6_register [simp]:
  "a \<notin> {0x29F .. 0x2A7} \<Longrightarrow> list6 (c\<lparr>ch6_registers := regs(a \<mapsto> v)\<rparr>) = list6 (c\<lparr>ch6_registers := regs\<rparr>)"
proof -
  assume a: "a \<notin> {0x29F .. 0x2A7}"
  have "a \<noteq> b" if "b \<in> {0x29F, 0x2A0, 0x2A1, 0x2A2, 0x2A3, 0x2A4, 0x2A5, 0x2A6, 0x2A7}" for b
    using a that by auto
  then show ?thesis by (auto simp: list6_def reg_read6_def)
qed

lemma list6_others [simp]:
  "list6 (c\<lparr>ch6_mode := m\<rparr>) = list6 c" "list6 (c\<lparr>ch6_buffer := b\<rparr>) = list6 c" "list6 (c\<lparr>ch6_tx_base_addr := a\<rparr>) = list6 c"
  "list6 (c\<lparr>ch6_payload_length := n\<rparr>) = list6 c" "list6 (c\<lparr>ch6_frequency_raw := f\<rparr>) = list6 c"
  "list6 (c\<lparr>ch6_irq_status := s\<rparr>) = list6 c" "list6 (c\<lparr>ch6_irq_mask := s\<rparr>) = list6 c" "list6 (c\<lparr>ch6_dio1_mask := s\<rparr>) = list6 c"
  "list6 (c\<lparr>ch6_tx_log := l\<rparr>) = list6 c" "list6 (c\<lparr>ch6_registers := ch6_registers c\<rparr>) = list6 c"
  by (simp_all add: list6_def reg_read6_def)

section \<open>Initialisation after sleep\<close>

lemma retention_of_zeros:
  assumes "list6 c = replicate 9 0"
  shows "\<exists>regs. update_retention_list chip6_hw c = Some (Inr (), c\<lparr>ch6_registers := regs\<rparr>) \<and>
    list6 (c\<lparr>ch6_registers := regs\<rparr>) = filled_list6"
proof -
  have l: "list6 c = [0, 0, 0, 0, 0, 0, 0, 0, 0]" using assms by (simp add: replicate_few eval_nat_numeral)
  define c1 where "c1 = c\<lparr>ch6_registers := write_registers6 0x29F [1, 0x08, 0xAC, 0, 0, 0, 0, 0, 0] (ch6_registers c)\<rparr>"
  have 1: "add_register_to_retention_list chip6_hw R6_RxGain c = Some (Inr (), c1)"
    by (simp add: add_register_to_retention_list_def bnd_def emu6_read_list l of_run_def retention_add_def
        MAX_NUMBER_REGS_IN_RETENTION_def emu6_write_list addr1_def addr2_def c1_def del: chip6_write_with_payload)
  have l1: "list6 c1 = [1, 0x08, 0xAC, 0, 0, 0, 0, 0, 0]"
    by (simp add: list6_def reg_read6_def c1_def)
  define c2 where "c2 = c1\<lparr>ch6_registers := write_registers6 0x29F filled_list6 (ch6_registers c1)\<rparr>"
  have "add_register_to_retention_list chip6_hw R6_TxModulation c1 = Some (Inr (), c2)"
    by (simp add: add_register_to_retention_list_def bnd_def emu6_read_list l1 of_run_def retention_add_def
        MAX_NUMBER_REGS_IN_RETENTION_def emu6_write_list addr1_def addr2_def idx_def c2_def filled_list6_def
        del: chip6_write_with_payload)
  moreover have "list6 c2 = filled_list6" by (simp add: list6_def reg_read6_def c2_def filled_list6_def)
  moreover have "c2 = c\<lparr>ch6_registers := ch6_registers c2\<rparr>" by (simp add: c2_def c1_def)
  ultimately show ?thesis by (intro exI [of _ "ch6_registers c2"]) (simp add: update_retention_list_def thn_def bnd_def 1)
qed

lemma retention_of_filled:
  assumes "list6 c = filled_list6"
  shows "update_retention_list chip6_hw c = Some (Inr (), c)"
proof -
  have u: "[0..<2] = [0, 1 :: nat]" by (simp add: upt_rec)
  have "add_register_to_retention_list chip6_hw r c = Some (Inr (), c)" if "r \<in> {R6_RxGain, R6_TxModulation}" for r
    using that by (auto simp: add_register_to_retention_list_def bnd_def emu6_read_list assms filled_list6_def of_run_def ret_def
        addr1_def addr2_def idx_def u MAX_NUMBER_REGS_IN_RETENTION_def)
  then show ?thesis by (simp add: update_retention_list_def thn_def bnd_def)
qed

lemma emu6_init_again:
  assumes "settled6 c"
  obtains c' where "sx126x_init_lora chip6_hw emulated_sx1261_config w c = Some (Inr (), c')"
    "settled6 c'" "ch6_tx_base_addr c' = 0" "ch6_tx_log c' = ch6_tx_log c"
proof -
  define c1 where "c1 = c\<lparr>ch6_registers := (ch6_registers c)(0x740 \<mapsto> ucast (drop_bit 8 w), 0x741 \<mapsto> ucast w), ch6_tx_base_addr := 0\<rparr>"
  have l: "list6 c1 = list6 c" by (simp add: c1_def list6_def reg_read6_def)
  obtain regs where r: "update_retention_list chip6_hw c1 = Some (Inr (), c1\<lparr>ch6_registers := regs\<rparr>)"
    "list6 (c1\<lparr>ch6_registers := regs\<rparr>) = filled_list6"
  proof (cases "list6 c1 = filled_list6")
    case True
    then show ?thesis using retention_of_filled [OF True] that [of "ch6_registers c1"] by simp
  next
    case False
    then have "list6 c1 = replicate 9 0" using assms l by (simp add: settled6_def)
    then show ?thesis using retention_of_zeros that by blast
  qed
  have b: "sx126x_set_tx_rx_buffer_base_address chip6_hw 0 0 c' = Some (Inr (), c'\<lparr>ch6_tx_base_addr := 0\<rparr>)" for c'
    by (simp add: sx126x_set_tx_rx_buffer_base_address_def exec6 idx_def)
  have "sx126x_init_lora chip6_hw emulated_sx1261_config w c = Some (Inr (), c1\<lparr>ch6_registers := regs\<rparr>)"
    using r by (simp add: sx126x_init_lora_def emulated_sx1261_config_def Sx1261_def run_defs emu6_sync_word b c1_def exec6
        addr1_def addr2_def del: chip6_write_with_payload)
  then show thesis using assms r(2) by (intro that [of "c1\<lparr>ch6_registers := regs\<rparr>"]) (simp_all add: settled6_def c1_def)
qed

definition idle6 :: "tx_record list \<Rightarrow> chip6 lora \<Rightarrow> bool" where
  "idle6 log l \<longleftrightarrow> settled6 (lora_kind l) \<and> (\<not> lora_cold_start l \<longrightarrow> ch6_tx_base_addr (lora_kind l) = 0) \<and>
     ch6_tx_log (lora_kind l) = log"

lemma idle6_warm: "idle6 log l \<Longrightarrow> \<not> lora_cold_start l \<Longrightarrow> warm6 l"
  by (simp add: idle6_def warm6_def settled6_def)

text \<open>However the chip was left, the modem can be prepared.\<close>

lemma idle6_prepare_modem:
  assumes "idle6 log l"
  obtains l' where "prepare_modem kind6 f l = Some (Inr (), l')" "idle6 log l'" "\<not> lora_cold_start l'" "lora_mode l' = Standby"
proof -
  define c1 where "c1 = (if lora_mode l = Standby then lora_kind l else (lora_kind l)\<lparr>ch6_mode := Chip6Standby\<rparr>)"
  define l1 where "l1 = l\<lparr>lora_kind := c1, lora_mode := Standby\<rparr>"
  have c1: "settled6 c1" "ch6_tx_log c1 = log" "\<not> lora_cold_start l \<longrightarrow> ch6_tx_base_addr c1 = 0"
    using assms by (auto simp: c1_def idle6_def settled6_def)
  obtain c2 where c2: "sx126x_init_lora chip6_hw emulated_sx1261_config (lora_sync_word l) c1 = Some (Inr (), c2)"
    "settled6 c2" "ch6_tx_base_addr c2 = 0" "ch6_tx_log c2 = ch6_tx_log c1"
    by (rule emu6_init_again [OF c1(1)])
  define c3 where "c3 = (if lora_cold_start l then c2\<lparr>ch6_irq_mask := 0xFFFF, ch6_dio1_mask := 0xFFFF\<rparr> else c1)"
  define l' where "l' = l\<lparr>lora_kind := c3, lora_mode := Standby, lora_cold_start := False, lora_calibrate_image := False\<rparr>"
  have s: "kind_ensure_ready kind6 l = Some (Inr (), l)" "standby_unless_set kind6 l = Some (Inr (), l1)"
    by (cases l, simp add: run_defs l1_def c1_def)+
  have l1: "lora_kind l1 = c1" "lora_mode l1 = Standby" "lora_cold_start l1 = lora_cold_start l" "lora_sync_word l1 = lora_sync_word l"
    by (simp_all add: l1_def)
  have l': "lora_calibrate_image (l'\<lparr>lora_calibrate_image := True\<rparr>)" "l'\<lparr>lora_calibrate_image := False\<rparr> = l'"
    by (simp_all add: l'_def)
  have m: "mode = Standby \<Longrightarrow> sx126x_irq_masks (Some mode) = (0xFFFF, 0xFFFF)" for mode by (simp add: sx126x_irq_masks_def)
  have cold: "do_cold_start kind6 l1 = Some (Inr (), l'\<lparr>lora_calibrate_image := True\<rparr>)" if "lora_cold_start l"
    using that c2(1) by (simp add: do_cold_start_def run_defs l1 emu6_tx_power m) (simp add: l1_def c3_def l'_def)
  have "prepare_modem kind6 f l = Some (Inr (), l')"
  proof (cases "lora_cold_start l")
    case True
    then show ?thesis
      by (simp add: prepare_modem_def steps_simps thn_def bnd_def peek_def when_do_def ret_def modify_def s l1 cold l' on_kind_def)
  next
    case False
    then have "l1\<lparr>lora_calibrate_image := False\<rparr> = l'" by (cases l) (simp add: l1_def l'_def c3_def)
    moreover have "l1 = l'" if "\<not> lora_calibrate_image l1"
      using that False by (cases l) (simp add: l1_def l'_def c3_def)
    ultimately show ?thesis using False
      by (auto simp: prepare_modem_def steps_simps thn_def bnd_def peek_def when_do_def ret_def modify_def s l1 on_kind_def)
  qed
  moreover have "idle6 log l'" using c1 c2 by (auto simp: idle6_def l'_def c3_def settled6_def)
  ultimately show thesis by (rule that) (simp_all add: l'_def)
qed

section \<open>Transmission\<close>

lemma idle6_prepare_tx:
  assumes "idle6 log l" "length buf \<le> 255" "400000000 \<le> mp_frequency m"
  obtains l' p' where "prepare_for_tx kind6 m dbm buf (p, l) = Some (Inr (), p', l')" "idle6 log l'" "\<not> lora_cold_start l'"
    "lora_mode l' = Transmit" "ch6_frequency_raw (lora_kind l') = convert_freq_in_hz_to_pll_step (mp_frequency m)"
    "take (length buf) (ch6_buffer (lora_kind l')) = buf" "ch6_payload_length (lora_kind l') = of_nat (length buf)"
    "ch6_irq_mask (lora_kind l') = 0x201" "ch6_dio1_mask (lora_kind l') = 0x201"
proof -
  obtain l1 where l1: "prepare_modem kind6 (mp_frequency m) l = Some (Inr (), l1)" "idle6 log l1" "\<not> lora_cold_start l1"
    "lora_mode l1 = Standby" by (rule idle6_prepare_modem [OF assms(1)])
  have w: "length (ch6_buffer (lora_kind l1)) = 256" using l1(2) by (simp add: idle6_def settled6_def)
  have dbm: "\<not> (15 \<le> sint dbm \<and> mp_frequency m < 400000000)" using assms(3) by auto
  have buf: "\<not> 255 < length buf" "length buf \<le> 256" using assms(2) by simp_all
  let ?r = "prepare_for_tx kind6 m dbm buf (p, l)"
  have "\<exists>l' p'. ?r = Some (Inr (), p', l')"
    using dbm buf w l1 by (simp add: prepare_for_tx_def run_defs emu6_tx_power emu6_payload set_payload_length_def)
  then obtain l' p' where r: "?r = Some (Inr (), p', l')" by blast
  show thesis
    by (rule that [OF r]; insert r dbm buf w l1;
      simp add: prepare_for_tx_def run_defs emu6_tx_power emu6_payload set_payload_length_def; clarsimp simp: idle6_def settled6_def
        sx126x_irq_masks_def)
qed

lemma idle6_tx:
  assumes "idle6 log l" "\<not> lora_cold_start l" "lora_mode l = Transmit" "ch6_irq_mask (lora_kind l) = 0x201" "ch6_dio1_mask (lora_kind l) = 0x201"
  obtains l' where "lora_tx kind6 l = Some (Inr (), l')" "\<not> lora_cold_start l'" "lora_mode l' = Standby"
    "idle6 (log @ [\<lparr>tr_frequency_raw = ch6_frequency_raw (lora_kind l),
       tr_payload = take (unat (ch6_payload_length (lora_kind l))) (ch6_buffer (lora_kind l))\<rparr>]) l'"
proof -
  have n: "unat (ch6_payload_length (lora_kind l)) \<le> 256"
    by (rule less_imp_le, rule order_less_le_trans [OF unsigned_less]) simp
  note d = emu6_tx [of "lora_kind l", unfolded raise_irq6_def]
  have "\<exists>l'. lora_tx kind6 l = Some (Inr (), l') \<and> \<not> lora_cold_start l' \<and> lora_mode l' = Standby \<and>
    idle6 (log @ [\<lparr>tr_frequency_raw = ch6_frequency_raw (lora_kind l),
       tr_payload = take (unat (ch6_payload_length (lora_kind l))) (ch6_buffer (lora_kind l))\<rparr>]) l'"
    using assms n
    by (simp add: lora_tx_def run_defs idle6_def settled6_def d, subst tx_loop.simps)
       (simp add: wait_for_irq_def run_defs chip6_await_irq_def kind_process_irq_def no_flag_def with_local_def
         sx126x_process_irq_event_def sx126x_decode_irq_def irq6_is_set_def)
  then show thesis using that by blast
qed

lemma modulation6:
  assumes "400000000 \<le> rf_frequency rf"
  obtains m where "modulation_for kind6 rf l = Some (Inr m, l)" "mp_frequency m = rf_frequency rf"
proof -
  have "\<exists>m. sx126x_create_modulation_params sf bw cr (rf_frequency rf) = Inr m \<and> mp_frequency m = rf_frequency rf" for sf bw cr
    using values6_sf [of sf] values6_bw [of bw] values6_cr [of cr] assms by (auto simp: sx126x_create_modulation_params_def)
  then obtain m where "sx126x_create_modulation_params (bb_sf (rf_bb rf)) (bb_bw (rf_bb rf)) (bb_cr (rf_bb rf)) (rf_frequency rf) = Inr m"
    "mp_frequency m = rf_frequency rf" by blast
  then show thesis by (intro that) (simp_all add: modulation_for_def lora_create_modulation_params_def run_defs sx126x_kind_def)
qed

text \<open>A whole transmission through the LoRaWAN radio: exactly the given bytes go out, on the given channel.\<close>

lemma lr_tx_sends:
  assumes "idle6 log (lr_lora r)" "length buf \<le> 255" "400000000 \<le> rf_frequency (tx_rf tx)"
  obtains l' where "lr_tx kind6 tx buf r = Some (Inr 0, r\<lparr>lr_lora := l'\<rparr>)"
    "idle6 (log @ [\<lparr>tr_frequency_raw = convert_freq_in_hz_to_pll_step (rf_frequency (tx_rf tx)), tr_payload = buf\<rparr>]) l'"
proof -
  obtain m where m: "modulation_for kind6 (tx_rf tx) (lr_lora r) = Some (Inr m, lr_lora r)" "mp_frequency m = rf_frequency (tx_rf tx)"
    by (rule modulation6 [OF assms(3)])
  obtain p where p: "lora_create_tx_packet_params kind6 8 False True False m = Inr p"
    by (simp add: lora_create_tx_packet_params_def sx126x_kind_def sx126x_create_packet_params_def)
  have f: "400000000 \<le> mp_frequency m" using assms(3) m(2) by simp
  obtain l1 p' where 1: "prepare_for_tx kind6 m (scast (tx_pw tx)) buf (p, lr_lora r) = Some (Inr (), p', l1)" "idle6 log l1"
    "\<not> lora_cold_start l1" "lora_mode l1 = Transmit" "ch6_frequency_raw (lora_kind l1) = convert_freq_in_hz_to_pll_step (mp_frequency m)"
    "take (length buf) (ch6_buffer (lora_kind l1)) = buf" "ch6_payload_length (lora_kind l1) = of_nat (length buf)"
    "ch6_irq_mask (lora_kind l1) = 0x201" "ch6_dio1_mask (lora_kind l1) = 0x201"
    by (rule idle6_prepare_tx [OF assms(1,2) f])
  have n: "unat (of_nat (length buf) :: u8) = length buf" using assms(2) by (simp add: unat_of_nat take_bit_nat_eq_self)
  obtain l2 where 2: "lora_tx kind6 l1 = Some (Inr (), l2)" "idle6 (log @ [\<lparr>tr_frequency_raw = ch6_frequency_raw (lora_kind l1),
       tr_payload = take (unat (ch6_payload_length (lora_kind l1))) (ch6_buffer (lora_kind l1))\<rparr>]) l2"
    by (rule idle6_tx [OF 1(2-4,8,9)])
  have "lr_tx kind6 tx buf r = Some (Inr 0, r\<lparr>lr_lora := l2\<rparr>)"
    by (simp add: lr_tx_def on_lora_def bnd_def thn_def with_local_def m(1) p of_result_def 1(1) 2(1) ret_def)
  then show thesis using 2(2) 1(5-7) m(2) n by (intro that) simp_all
qed

section \<open>Windows that bring nothing, and sleep\<close>

lemma idle6_prepare_rx:
  assumes "idle6 log l"
  obtains l' where "prepare_for_rx kind6 mode m p l = Some (Inr (), l')" "idle6 log l'" "\<not> lora_cold_start l'"
    "lora_mode l' = Receive mode" "ch6_irq_mask (lora_kind l') = 0xFFFF" "ch6_dio1_mask (lora_kind l') = 0xFFFF"
proof -
  obtain l1 where l1: "prepare_modem kind6 (mp_frequency m) l = Some (Inr (), l1)" "idle6 log l1" "\<not> lora_cold_start l1"
    "lora_mode l1 = Standby" by (rule idle6_prepare_modem [OF assms])
  have "\<exists>l'. prepare_for_rx kind6 mode m p l = Some (Inr (), l')"
    using l1 by (simp add: prepare_for_rx_def run_defs)
  then obtain l' where r: "prepare_for_rx kind6 mode m p l = Some (Inr (), l')" by blast
  show thesis
    by (rule that [OF r]; insert r l1; simp add: prepare_for_rx_def run_defs; clarsimp simp: idle6_def settled6_def
        sx126x_irq_masks_def)
qed

lemma idle6_rx_timeout:
  assumes "idle6 log l" "\<not> lora_cold_start l" "lora_mode l = Receive (RxSingle n)" "ch6_irq_mask (lora_kind l) = 0xFFFF"
  obtains l' where "lora_rx kind6 p (buf, l) = Some (Inl ReceiveTimeout, buf, l')" "idle6 log l'"
proof -
  define c1 where "c1 = snd (the (set_lora_symbol_num_timeout chip6_hw n (lora_kind l)))"
  have s: "set_lora_symbol_num_timeout chip6_hw n (lora_kind l) = Some (Inr (), c1)" by (simp add: c1_def emu6_symb)
  have c1: "settled6 c1" "ch6_tx_log c1 = log" "ch6_tx_base_addr c1 = 0" "ch6_irq_mask c1 = 0xFFFF"
    using assms by (auto simp: c1_def emu6_symb idle6_def settled6_def)
  define c2 where "c2 = c1\<lparr>ch6_registers := (ch6_registers c1)(0x8AC \<mapsto> 0x96), ch6_mode := Chip6Standby, ch6_irq_status := 0x200\<rparr>"
  have d: "sx126x_do_rx chip6_hw emulated_sx1261_config (RxSingle n) (lora_kind l) = Some (Inr (), c2)"
    using c1 s by (simp add: sx126x_do_rx_def run_defs emulated_sx1261_config_def exec6 exec_set_rx_def c2_def settled6_def raise_irq6_def
        timeout_1_def timeout_2_def timeout_3_def)
  define c3 where "c3 = c2\<lparr>ch6_irq_status := 0\<rparr>"
  have p: "sx126x_process_irq_event chip6_hw (Receive (RxSingle n)) True (None, c2) = Some (Inl ReceiveTimeout, None, c3)"
    by (simp add: sx126x_process_irq_event_def run_defs sx126x_decode_irq_def c2_def c3_def irq6_is_set_def)
  have "lora_rx kind6 p (buf, l) = Some (Inl ReceiveTimeout, buf, l\<lparr>lora_kind := c3\<lparr>ch6_mode := Chip6Standby\<rparr>, lora_mode := Standby\<rparr>)"
    using assms(3) d p
    by (simp add: lora_rx_def start_rx_def complete_rx_def run_defs, subst complete_rx_loop.simps)
       (simp add: run_defs kind_process_irq_def no_flag_def with_local_def standby_after_error_def)
  moreover have "idle6 log (l\<lparr>lora_kind := c3\<lparr>ch6_mode := Chip6Standby\<rparr>, lora_mode := Standby\<rparr>)"
    using c1 by (simp add: idle6_def settled6_def c3_def c2_def)
  ultimately show thesis by (rule that)
qed

lemma idle6_sleep:
  assumes "idle6 log l"
  obtains l' where "lora_sleep kind6 warm l = Some (Inr (), l')" "idle6 log l'" "lora_mode l' = Sleep"
proof -
  have "\<exists>l'. lora_sleep kind6 warm l = Some (Inr (), l') \<and> idle6 log l' \<and> lora_mode l' = Sleep"
    using assms by (cases "lora_mode l = Sleep") (auto simp: lora_sleep_def run_defs sx126x_kind_def idle6_def settled6_def)
  then show thesis using that by blast
qed

end
