(* ===== verification/Sx127xParams.thy ===== *)
theory Sx127xParams
  imports PhyBus
begin

text \<open>
  The constants of the SX127x driver (\<open>lora-phy/src/sx127x/radio_kind_params.rs\<close>): operating modes, the
  mapping of the DIO lines, interrupt masks, registers and the other enumerations with the numbers they stand for.
\<close>

section \<open>Enumerations\<close>

datatype lora_mode = Mode7_Sleep | Mode7_Standby | Mode7_Tx | Mode7_RxContinuous | Mode7_RxSingle
  | Mode7_Cad

fun lora_mode_code :: "lora_mode \<Rightarrow> u8" where
  "lora_mode_code Mode7_Sleep = 0x00"
| "lora_mode_code Mode7_Standby = 0x01"
| "lora_mode_code Mode7_Tx = 0x03"
| "lora_mode_code Mode7_RxContinuous = 0x05"
| "lora_mode_code Mode7_RxSingle = 0x06"
| "lora_mode_code Mode7_Cad = 0x07"

datatype dio_mapping1_dio0 = Dio0_RxDone | Dio0_TxDone | Dio0_CadDone | Dio0_Other | Dio0_Mask

fun dio0_value :: "dio_mapping1_dio0 \<Rightarrow> u8" where
  "dio0_value Dio0_RxDone = push_bit 6 0"
| "dio0_value Dio0_TxDone = push_bit 6 1"
| "dio0_value Dio0_CadDone = push_bit 6 2"
| "dio0_value Dio0_Other = push_bit 6 3"
| "dio0_value Dio0_Mask = 0x3f"

datatype dio_mapping1_dio1 = Dio1_RxTimeOut | Dio1_FhssChangeChannel | Dio1_CadDetected | Dio1_Other
  | Dio1_Mask

fun dio1_value :: "dio_mapping1_dio1 \<Rightarrow> u8" where
  "dio1_value Dio1_RxTimeOut = push_bit 4 0"
| "dio1_value Dio1_FhssChangeChannel = push_bit 4 1"
| "dio1_value Dio1_CadDetected = push_bit 4 2"
| "dio1_value Dio1_Other = push_bit 4 3"
| "dio1_value Dio1_Mask = 0xcf"

datatype dio_mapping1_dio3 = Dio3_CadDone | Dio3_ValidHeader | Dio3_PayloadCrcError | Dio3_Other | Dio3_Mask

fun dio3_value :: "dio_mapping1_dio3 \<Rightarrow> u8" where
  "dio3_value Dio3_CadDone = 0"
| "dio3_value Dio3_ValidHeader = 1"
| "dio3_value Dio3_PayloadCrcError = 2"
| "dio3_value Dio3_Other = 3"
| "dio3_value Dio3_Mask = 0xfc"

datatype sx127x_irq = Irq7_None | Irq7_CADActivityDetected | Irq7_FhssChangedChannel | Irq7_CADDone
  | Irq7_TxDone | Irq7_HeaderValid | Irq7_CRCError | Irq7_RxDone | Irq7_RxTimeout | Irq7_All

fun irq7_value :: "sx127x_irq \<Rightarrow> u8" where
  "irq7_value Irq7_None = 0x00"
| "irq7_value Irq7_CADActivityDetected = 0x01"
| "irq7_value Irq7_FhssChangedChannel = 0x02"
| "irq7_value Irq7_CADDone = 0x04"
| "irq7_value Irq7_TxDone = 0x08"
| "irq7_value Irq7_HeaderValid = 0x10"
| "irq7_value Irq7_CRCError = 0x20"
| "irq7_value Irq7_RxDone = 0x40"
| "irq7_value Irq7_RxTimeout = 0x80"
| "irq7_value Irq7_All = 0xFF"

datatype sx127x_register = RegFifo | RegOpMode | RegFrfMsb | RegFrfMid | RegFrfLsb | RegPaConfig | RegPaRamp
  | RegOcp | RegLna | RegFifoAddrPtr | RegFifoTxBaseAddr | RegFifoRxBaseAddr | RegFifoRxCurrentAddr
  | RegIrqFlagsMask | RegIrqFlags | RegRxNbBytes | RegPktSnrValue | RegModemStat | RegPktRssiValue
  | RegRssiValue | RegModemConfig1 | RegModemConfig2 | RegSymbTimeoutLsb | RegPreambleMsb | RegPreambleLsb
  | RegPayloadLength | RegMaxPayloadLength | RegModemConfig3 | RegFreqErrorMsb | RegFreqErrorMid
  | RegFreqErrorLsb | RegRssiWideband | RegIfFreq1 | RegIfFreq2 | RegDetectionOptimize | RegInvertiq
  | RegHighBwOptimize1 | RegDetectionThreshold | RegSyncWord | RegHighBwOptimize2 | RegInvertiq2
  | RegDioMapping1 | RegVersion | RegPaDacSX1272 | RegPaDacSX1276 | RegTcxoSX1276 | RegTcxoSX1272

fun reg7_value :: "sx127x_register \<Rightarrow> u8" where
  "reg7_value RegFifo = 0x00"
| "reg7_value RegOpMode = 0x01"
| "reg7_value RegFrfMsb = 0x06"
| "reg7_value RegFrfMid = 0x07"
| "reg7_value RegFrfLsb = 0x08"
| "reg7_value RegPaConfig = 0x09"
| "reg7_value RegPaRamp = 0x0a"
| "reg7_value RegOcp = 0x0b"
| "reg7_value RegLna = 0x0c"
| "reg7_value RegFifoAddrPtr = 0x0d"
| "reg7_value RegFifoTxBaseAddr = 0x0e"
| "reg7_value RegFifoRxBaseAddr = 0x0f"
| "reg7_value RegFifoRxCurrentAddr = 0x10"
| "reg7_value RegIrqFlagsMask = 0x11"
| "reg7_value RegIrqFlags = 0x12"
| "reg7_value RegRxNbBytes = 0x13"
| "reg7_value RegPktSnrValue = 0x19"
| "reg7_value RegModemStat = 0x18"
| "reg7_value RegPktRssiValue = 0x1a"
| "reg7_value RegRssiValue = 0x1b"
| "reg7_value RegModemConfig1 = 0x1d"
| "reg7_value RegModemConfig2 = 0x1e"
| "reg7_value RegSymbTimeoutLsb = 0x1f"
| "reg7_value RegPreambleMsb = 0x20"
| "reg7_value RegPreambleLsb = 0x21"
| "reg7_value RegPayloadLength = 0x22"
| "reg7_value RegMaxPayloadLength = 0x23"
| "reg7_value RegModemConfig3 = 0x26"
| "reg7_value RegFreqErrorMsb = 0x28"
| "reg7_value RegFreqErrorMid = 0x29"
| "reg7_value RegFreqErrorLsb = 0x2a"
| "reg7_value RegRssiWideband = 0x2c"
| "reg7_value RegIfFreq1 = 0x2f"
| "reg7_value RegIfFreq2 = 0x30"
| "reg7_value RegDetectionOptimize = 0x31"
| "reg7_value RegInvertiq = 0x33"
| "reg7_value RegHighBwOptimize1 = 0x36"
| "reg7_value RegDetectionThreshold = 0x37"
| "reg7_value RegSyncWord = 0x39"
| "reg7_value RegHighBwOptimize2 = 0x3a"
| "reg7_value RegInvertiq2 = 0x3b"
| "reg7_value RegDioMapping1 = 0x40"
| "reg7_value RegVersion = 0x42"
| "reg7_value RegPaDacSX1272 = 0x5a"
| "reg7_value RegPaDacSX1276 = 0x4d"
| "reg7_value RegTcxoSX1276 = 0x4b"
| "reg7_value RegTcxoSX1272 = 0x58"

datatype sx127x_ramp = Ramp7_3_4Ms | Ramp7_2Ms | Ramp7_1Ms | Ramp7_500Us | Ramp7_250Us | Ramp7_125Us
  | Ramp7_100Us | Ramp7_62Us | Ramp7_50Us | Ramp7_40Us | Ramp7_31Us | Ramp7_25Us | Ramp7_20Us | Ramp7_15Us
  | Ramp7_12Us | Ramp7_10Us

fun ramp7_value :: "sx127x_ramp \<Rightarrow> u8" where
  "ramp7_value Ramp7_3_4Ms = 0x00"
| "ramp7_value Ramp7_2Ms = 0x01"
| "ramp7_value Ramp7_1Ms = 0x02"
| "ramp7_value Ramp7_500Us = 0x03"
| "ramp7_value Ramp7_250Us = 0x04"
| "ramp7_value Ramp7_125Us = 0x05"
| "ramp7_value Ramp7_100Us = 0x06"
| "ramp7_value Ramp7_62Us = 0x07"
| "ramp7_value Ramp7_50Us = 0x08"
| "ramp7_value Ramp7_40Us = 0x09"
| "ramp7_value Ramp7_31Us = 0x0a"
| "ramp7_value Ramp7_25Us = 0x0b"
| "ramp7_value Ramp7_20Us = 0x0c"
| "ramp7_value Ramp7_15Us = 0x0d"
| "ramp7_value Ramp7_12Us = 0x0e"
| "ramp7_value Ramp7_10Us = 0x0f"

datatype lna_gain = G1 | G2 | G3 | G4 | G5 | G6

fun lna_value :: "lna_gain \<Rightarrow> u8" where
  "lna_value G1 = 0x20"
| "lna_value G2 = 0x40"
| "lna_value G3 = 0x60"
| "lna_value G4 = 0x80"
| "lna_value G5 = 0xa0"
| "lna_value G6 = 0xc0"

datatype pa_dac = PaDac_20DbmOn | PaDac_20DbmOff

fun pa_dac_value :: "pa_dac \<Rightarrow> u8" where
  "pa_dac_value PaDac_20DbmOn = 0x87"
| "pa_dac_value PaDac_20DbmOff = 0x84"

datatype pa_config = PaBoost | MaxPower7NoPaBoost

fun pa_config_value :: "pa_config \<Rightarrow> u8" where
  "pa_config_value PaBoost = 0x80"
| "pa_config_value MaxPower7NoPaBoost = 0x70"

datatype ocp_trim = Ocp_45Ma | Ocp_50Ma | Ocp_55Ma | Ocp_60Ma | Ocp_65Ma | Ocp_70Ma | Ocp_75Ma | Ocp_80Ma
  | Ocp_85Ma | Ocp_90Ma | Ocp_95Ma | Ocp_100Ma | Ocp_105Ma | Ocp_110Ma | Ocp_115Ma | Ocp_120Ma | Ocp_130Ma
  | Ocp_140Ma | Ocp_150Ma | Ocp_160Ma | Ocp_170Ma | Ocp_180Ma | Ocp_190Ma | Ocp_200Ma | Ocp_210Ma
  | Ocp_220Ma | Ocp_230Ma | Ocp_240Ma

fun ocp_trim_code :: "ocp_trim \<Rightarrow> u8" where
  "ocp_trim_code Ocp_45Ma = 0x00"
| "ocp_trim_code Ocp_50Ma = 0x01"
| "ocp_trim_code Ocp_55Ma = 0x02"
| "ocp_trim_code Ocp_60Ma = 0x03"
| "ocp_trim_code Ocp_65Ma = 0x04"
| "ocp_trim_code Ocp_70Ma = 0x05"
| "ocp_trim_code Ocp_75Ma = 0x06"
| "ocp_trim_code Ocp_80Ma = 0x07"
| "ocp_trim_code Ocp_85Ma = 0x08"
| "ocp_trim_code Ocp_90Ma = 0x09"
| "ocp_trim_code Ocp_95Ma = 0x0a"
| "ocp_trim_code Ocp_100Ma = 0x0b"
| "ocp_trim_code Ocp_105Ma = 0x0c"
| "ocp_trim_code Ocp_110Ma = 0x0d"
| "ocp_trim_code Ocp_115Ma = 0x0e"
| "ocp_trim_code Ocp_120Ma = 0x0f"
| "ocp_trim_code Ocp_130Ma = 0x10"
| "ocp_trim_code Ocp_140Ma = 0x11"
| "ocp_trim_code Ocp_150Ma = 0x12"
| "ocp_trim_code Ocp_160Ma = 0x13"
| "ocp_trim_code Ocp_170Ma = 0x14"
| "ocp_trim_code Ocp_180Ma = 0x15"
| "ocp_trim_code Ocp_190Ma = 0x16"
| "ocp_trim_code Ocp_200Ma = 0x17"
| "ocp_trim_code Ocp_210Ma = 0x18"
| "ocp_trim_code Ocp_220Ma = 0x19"
| "ocp_trim_code Ocp_230Ma = 0x1a"
| "ocp_trim_code Ocp_240Ma = 0x1b"

text \<open>The value of a mode has the LoRa flag, that of a trim the bit that switches the protection on.\<close>

definition lora_mode_value :: "lora_mode \<Rightarrow> u8" where
  "lora_mode_value m = lora_mode_code m OR 0x80"

definition ocp_trim_value :: "ocp_trim \<Rightarrow> u8" where
  "ocp_trim_value t = ocp_trim_code t OR 0x20"

definition lna_boosted_value :: "lna_gain \<Rightarrow> u8" where
  "lna_boosted_value g = lna_value g OR 0x03"

definition irq7_is_set_in :: "sx127x_irq \<Rightarrow> u8 \<Rightarrow> bool" where
  "irq7_is_set_in i flags \<longleftrightarrow> irq7_value i AND flags = irq7_value i"

definition read_addr :: "sx127x_register \<Rightarrow> u8" where
  "read_addr r = reg7_value r AND 0x7f"

definition write_addr :: "sx127x_register \<Rightarrow> u8" where
  "write_addr r = reg7_value r OR 0x80"

fun sf7_value :: "spreading_factor \<Rightarrow> radio_error + u8" where
  "sf7_value SF_5 = Inl UnavailableSpreadingFactor"
| "sf7_value SF_6 = Inr 0x06"
| "sf7_value SF_7 = Inr 0x07"
| "sf7_value SF_8 = Inr 0x08"
| "sf7_value SF_9 = Inr 0x09"
| "sf7_value SF_10 = Inr 0x0A"
| "sf7_value SF_11 = Inr 0x0B"
| "sf7_value SF_12 = Inr 0x0C"

fun cr7_value :: "coding_rate \<Rightarrow> radio_error + u8" where
  "cr7_value CR_4_5 = Inr 0x01"
| "cr7_value CR_4_6 = Inr 0x02"
| "cr7_value CR_4_7 = Inr 0x03"
| "cr7_value CR_4_8 = Inr 0x04"

fun cr7_denominator_value :: "coding_rate \<Rightarrow> radio_error + u8" where
  "cr7_denominator_value CR_4_5 = Inr 0x05"
| "cr7_denominator_value CR_4_6 = Inr 0x06"
| "cr7_denominator_value CR_4_7 = Inr 0x07"
| "cr7_denominator_value CR_4_8 = Inr 0x08"

section \<open>Variants\<close>

text \<open>The implementations of the trait \<open>Sx127xVariant\<close>.\<close>

datatype sx127x_chip = Sx1272 | Sx1276

fun bw7_value :: "sx127x_chip \<Rightarrow> bandwidth \<Rightarrow> radio_error + u8" where
  "bw7_value Sx1272 bw = (case bw of BW_125KHz \<Rightarrow> Inr 0x00 | BW_250KHz \<Rightarrow> Inr 0x01 | BW_500KHz \<Rightarrow> Inr 0x02
     | _ \<Rightarrow> Inl UnavailableBandwidth)"
| "bw7_value Sx1276 bw = Inr (case bw of BW_7KHz \<Rightarrow> 0x00 | BW_10KHz \<Rightarrow> 0x01 | BW_15KHz \<Rightarrow> 0x02 | BW_20KHz \<Rightarrow> 0x03
     | BW_31KHz \<Rightarrow> 0x04 | BW_41KHz \<Rightarrow> 0x05 | BW_62KHz \<Rightarrow> 0x06 | BW_125KHz \<Rightarrow> 0x07 | BW_250KHz \<Rightarrow> 0x08 | BW_500KHz \<Rightarrow> 0x09)"

fun reg_txco :: "sx127x_chip \<Rightarrow> sx127x_register" where
  "reg_txco Sx1272 = RegTcxoSX1272"
| "reg_txco Sx1276 = RegTcxoSX1276"

fun ramp7_chip_value :: "sx127x_chip \<Rightarrow> sx127x_ramp \<Rightarrow> u8" where
  "ramp7_chip_value Sx1272 r = ramp7_value r OR push_bit 4 1"
| "ramp7_chip_value Sx1276 r = ramp7_value r"

end
