(* ===== verification/Sx127x.thy ===== *)
theory Sx127x
  imports Sx127xParams
begin

text \<open>
  The SX127x driver (\<open>lora-phy/src/sx127x/{mod,sx1272,sx1276}.rs\<close>). Its state is the hardware and the flag
  that the SX1276 variant keeps; the configuration is an argument. The \<open>i32\<close> arithmetic on output powers, whose
  operands are clamped to a few dBm, is over \<open>int\<close>.
\<close>

section \<open>Constants, configuration and state\<close>

definition TCXO_FOR_OSCILLATOR :: u8 where "TCXO_FOR_OSCILLATOR = 0x10"
definition SX127X_MIN_LORA_SYMB_NUM_TIMEOUT :: u16 where "SX127X_MIN_LORA_SYMB_NUM_TIMEOUT = 4"
definition SX127X_MAX_LORA_SYMB_NUM_TIMEOUT :: u16 where "SX127X_MAX_LORA_SYMB_NUM_TIMEOUT = 1023"
definition SX1272_RSSI_OFFSET :: i16 where "SX1272_RSSI_OFFSET = -139"
definition SX1276_RSSI_OFFSET_LF :: i16 where "SX1276_RSSI_OFFSET_LF = -164"
definition SX1276_RSSI_OFFSET_HF :: i16 where "SX1276_RSSI_OFFSET_HF = -157"
definition SX1276_RF_MID_BAND_THRESH :: u32 where "SX1276_RF_MID_BAND_THRESH = 525000000"

record sx127x_config =
  c7_chip :: sx127x_chip
  c7_tcxo_used :: bool
  c7_tx_boost :: bool
  c7_rx_boost :: bool

record 'w sx127x =
  x7_intf :: 'w
  x7_sensitivity_quirk :: bool

definition sx127x_new :: "'w \<Rightarrow> 'w sx127x" where
  "sx127x_new w = \<lparr>x7_intf = w, x7_sensitivity_quirk = False\<rparr>"

section \<open>Pure helpers\<close>

definition freq_to_pll_step :: "u32 \<Rightarrow> u32" where
  "freq_to_pll_step freq_in_hz = ucast (push_bit 19 (ucast freq_in_hz :: u64) div 32000000)"

definition pll_step_to_freq :: "u32 \<Rightarrow> u32" where
  "pll_step_to_freq pll_step = ucast (drop_bit 19 ((ucast pll_step :: u64) * 32000000))"

text \<open>The operands are not negative, so \<open>i16\<close> division is that of words.\<close>

definition linearize_rssi :: "u8 \<Rightarrow> i16" where
  "linearize_rssi rssi = (ucast rssi * 16 + 7) div 15"

definition clamp :: "int \<Rightarrow> int \<Rightarrow> i32 \<Rightarrow> int" where
  "clamp lo hi x = (if sint x < lo then lo else if hi < sint x then hi else sint x)"

section \<open>Registers\<close>

definition on_intf :: "('w, 'a) phy \<Rightarrow> ('w sx127x, 'a) phy" where
  "on_intf m x = (case m (x7_intf x) of None \<Rightarrow> None | Some (r, w) \<Rightarrow> Some (r, x\<lparr>x7_intf := w\<rparr>))"

definition write_register :: "'w hw \<Rightarrow> sx127x_register \<Rightarrow> u8 \<Rightarrow> ('w sx127x, unit) phy" where
  "write_register H register value = on_intf (intf_write H [write_addr register, value] False)"

definition read_register :: "'w hw \<Rightarrow> sx127x_register \<Rightarrow> ('w sx127x, u8) phy" where
  "read_register H register =
     bnd (on_intf (with_array 1 (intf_read H [read_addr register]))) (\<lambda>(_, buf). ret (hd buf))"

definition read_buffer :: "'w hw \<Rightarrow> sx127x_register \<Rightarrow> (bytes \<times> 'w sx127x, unit) phy" where
  "read_buffer H register = (\<lambda>(buf, x).
     case intf_read H [read_addr register] (buf, x7_intf x) of None \<Rightarrow> None
     | Some (r, buf', w) \<Rightarrow> Some (r, buf', x\<lparr>x7_intf := w\<rparr>))"

definition write_buffer :: "'w hw \<Rightarrow> sx127x_register \<Rightarrow> bytes \<Rightarrow> ('w sx127x, unit) phy" where
  "write_buffer H register buf = on_intf (intf_write_with_payload H [write_addr register] buf False)"

text \<open>A register is read, changed and written back.\<close>

definition update_register :: "'w hw \<Rightarrow> sx127x_register \<Rightarrow> (u8 \<Rightarrow> u8) \<Rightarrow> ('w sx127x, unit) phy" where
  "update_register H register f = bnd (read_register H register) (\<lambda>val. write_register H register (f val))"

definition sx127x_set_lora_symbol_num_timeout :: "'w hw \<Rightarrow> u16 \<Rightarrow> ('w sx127x, unit) phy" where
  "sx127x_set_lora_symbol_num_timeout H symbol_num =
     (let val = min symbol_num SX127X_MAX_LORA_SYMB_NUM_TIMEOUT;
          symbol_num_msb = ucast (drop_bit 8 val AND 0x03);
          symbol_num_lsb = ucast (val AND 0xff)
      in thn (update_register H RegModemConfig2 (\<lambda>config_2. config_2 AND 0xfc OR symbol_num_msb))
           (write_register H RegSymbTimeoutLsb symbol_num_lsb))"

definition set_ocp :: "'w hw \<Rightarrow> ocp_trim \<Rightarrow> ('w sx127x, unit) phy" where
  "set_ocp H trim = write_register H RegOcp (ocp_trim_value trim)"

section \<open>The variant SX1272\<close>

definition sx1272_set_tx_power :: "'w hw \<Rightarrow> i32 \<Rightarrow> bool \<Rightarrow> ('w sx127x, unit) phy" where
  "sx1272_set_tx_power H p_out tx_boost =
     (if tx_boost then
        if 17 < sint p_out then
          (let val = word_of_int (clamp 5 20 p_out - 5) AND 0x0f in
           thn (write_register H RegPaConfig (push_bit 7 1 OR val)) (write_register H RegPaDacSX1272 0x87))
        else
          (let val = word_of_int (clamp 2 17 p_out - 2) AND 0x0f in
           thn (write_register H RegPaConfig (push_bit 7 1 OR val)) (write_register H RegPaDacSX1272 0x84))
      else
        (let val = word_of_int (clamp (-1) 14 p_out + 1) AND 0x0f in
         thn (write_register H RegPaConfig val) (write_register H RegPaDacSX1272 0x84)))"

definition sx1272_set_modulation_params :: "'w hw \<Rightarrow> modulation_params \<Rightarrow> ('w sx127x, unit) phy" where
  "sx1272_set_modulation_params H m =
     bnd (of_result (bw7_value Sx1272 (mp_bw m))) (\<lambda>bw_val.
     bnd (of_result (sf7_value (mp_sf m))) (\<lambda>sf_val.
     bnd (read_register H RegModemConfig1) (\<lambda>cfg1.
     bnd (of_result (cr7_value (mp_cr m))) (\<lambda>cr_val.
     thn (write_register H RegModemConfig1 (cfg1 AND 0x06 OR push_bit 6 bw_val OR push_bit 3 cr_val OR mp_ldro m))
       (update_register H RegModemConfig2 (\<lambda>cfg2. cfg2 AND 0x0f OR push_bit 4 sf_val))))))"

definition sx1272_set_packet_params :: "'w hw \<Rightarrow> packet_params \<Rightarrow> ('w sx127x, unit) phy" where
  "sx1272_set_packet_params H p =
     update_register H RegModemConfig1 (\<lambda>modemcfg1.
       modemcfg1 AND 0xF9 OR push_bit 2 (of_bool (pp_implicit_header p)) OR push_bit 1 (of_bool (pp_crc_on p)))"

section \<open>The variant SX1276\<close>

definition sx1276_init_lora :: "'w hw \<Rightarrow> ('w sx127x, unit) phy" where
  "sx1276_init_lora H =
     bnd (read_register H RegVersion) (\<lambda>chip_version. modify (\<lambda>x. x\<lparr>x7_sensitivity_quirk := chip_version = 0x12\<rparr>))"

definition sx1276_set_tx_power :: "'w hw \<Rightarrow> i32 \<Rightarrow> bool \<Rightarrow> ('w sx127x, unit) phy" where
  "sx1276_set_tx_power H p_out tx_boost =
     (if tx_boost then
        (let txp = clamp 2 20 p_out;
             output_power = (if 17 < txp then txp - 5 else txp - 2)
         in steps
              ((if 17 < txp
                then [write_register H RegPaDacSX1276 (pa_dac_value PaDac_20DbmOn), set_ocp H Ocp_240Ma]
                else [write_register H RegPaDacSX1276 (pa_dac_value PaDac_20DbmOff), set_ocp H Ocp_100Ma]) @
               [write_register H RegPaConfig (pa_config_value PaBoost OR word_of_int output_power)]))
      else
        (let txp = clamp (-4) 14 p_out;
             (max_power, output_power) =
               (if 0 < txp then (pa_config_value MaxPower7NoPaBoost, txp) else (0x00, txp + 4))
         in steps
              [write_register H RegPaDacSX1276 (pa_dac_value PaDac_20DbmOff), set_ocp H Ocp_100Ma,
               write_register H RegPaConfig (max_power OR word_of_int output_power)]))"

definition bw500_optimize :: "bandwidth \<Rightarrow> u32 \<Rightarrow> u8 option" where
  "bw500_optimize bw frequency_in_hz =
     (if bw = BW_500KHz \<and> 862000000 \<le> frequency_in_hz \<and> frequency_in_hz \<le> 1020000000 then Some 0x64
      else if bw = BW_500KHz \<and> 410000000 \<le> frequency_in_hz \<and> frequency_in_hz \<le> 525000000 then Some 0x7f
      else None)"

text \<open>Errata 2.1, sensitivity at 500 kHz, and errata 2.3, spurious reception.\<close>

definition sx1276_errata_2_1 :: "'w hw \<Rightarrow> modulation_params \<Rightarrow> ('w sx127x, unit) phy" where
  "sx1276_errata_2_1 H m = peek (\<lambda>x.
     when_do (x7_sensitivity_quirk x)
       (case bw500_optimize (mp_bw m) (mp_frequency m) of
          Some val_2 \<Rightarrow> thn (write_register H RegHighBwOptimize1 0x02) (write_register H RegHighBwOptimize2 val_2)
        | None \<Rightarrow> write_register H RegHighBwOptimize1 0x03))"

definition sx1276_errata_2_3 :: "'w hw \<Rightarrow> modulation_params \<Rightarrow> ('w sx127x, unit) phy" where
  "sx1276_errata_2_3 H m =
     bnd (read_register H RegDetectionOptimize) (\<lambda>detect_optimize.
       if mp_bw m = BW_500KHz then write_register H RegDetectionOptimize (detect_optimize OR 0x80)
       else if 62500 \<le> bw_hz (mp_bw m) then steps
         [write_register H RegDetectionOptimize (detect_optimize AND 0x7f),
          write_register H RegIfFreq1 0x40,
          write_register H RegIfFreq2 0x00]
       else ret ())"

definition sx1276_set_modulation_params :: "'w hw \<Rightarrow> modulation_params \<Rightarrow> ('w sx127x, unit) phy" where
  "sx1276_set_modulation_params H m =
     bnd (of_result (bw7_value Sx1276 (mp_bw m))) (\<lambda>bw_val.
     bnd (of_result (sf7_value (mp_sf m))) (\<lambda>sf_val.
     bnd (of_result (cr7_denominator_value (mp_cr m))) (\<lambda>coding_rate_denominator_val. steps
       [update_register H RegModemConfig2 (\<lambda>config_2. config_2 AND 0x0f OR (push_bit 4 sf_val AND 0xf0)),
        update_register H RegModemConfig1 (\<lambda>config_1. config_1 AND 0x0f OR push_bit 4 bw_val),
        update_register H RegModemConfig1 (\<lambda>config_1. config_1 AND 0xf1 OR push_bit 1 (coding_rate_denominator_val - 4)),
        update_register H RegModemConfig3 (\<lambda>config_3. config_3 AND 0xf3 OR (if mp_ldro m \<noteq> 0 then 0x08 else 0x00)),
        sx1276_errata_2_1 H m,
        sx1276_errata_2_3 H m])))"

definition sx1276_set_packet_params :: "'w hw \<Rightarrow> packet_params \<Rightarrow> ('w sx127x, unit) phy" where
  "sx1276_set_packet_params H p =
     thn (update_register H RegModemConfig1 (\<lambda>config_1. if pp_implicit_header p then config_1 OR 0x01 else config_1 AND 0xfe))
       (update_register H RegModemConfig2 (\<lambda>config_2. if pp_crc_on p then config_2 OR 0x04 else config_2 AND 0xfb))"

definition sx1276_rssi_offset :: "'w hw \<Rightarrow> ('w sx127x, i16) phy" where
  "sx1276_rssi_offset H =
     bnd (read_register H RegFrfMsb) (\<lambda>msb.
     bnd (read_register H RegFrfMid) (\<lambda>mid.
     bnd (read_register H RegFrfLsb) (\<lambda>lsb.
       let frequency_in_hz = pll_step_to_freq (push_bit 16 (ucast msb) + push_bit 8 (ucast mid) + ucast lsb)
       in ret (if SX1276_RF_MID_BAND_THRESH < frequency_in_hz then SX1276_RSSI_OFFSET_HF else SX1276_RSSI_OFFSET_LF))))"

definition sx1276_set_tx_continuous_wave_mode :: "'w hw \<Rightarrow> ('w sx127x, unit) phy" where
  "sx1276_set_tx_continuous_wave_mode H = steps
     [on_intf (iv_rf_switch_tx H),
      update_register H RegPaConfig (\<lambda>pa_config. pa_config OR 0x80),
      write_register H RegOpMode 0x83,
      update_register H RegModemConfig2 (\<lambda>modem_config. modem_config OR 0x08)]"

section \<open>The methods of the variants\<close>

fun v7_init_lora :: "sx127x_chip \<Rightarrow> 'w hw \<Rightarrow> ('w sx127x, unit) phy" where
  "v7_init_lora Sx1272 H = ret ()"
| "v7_init_lora Sx1276 H = sx1276_init_lora H"

fun v7_set_tx_power :: "sx127x_chip \<Rightarrow> 'w hw \<Rightarrow> i32 \<Rightarrow> bool \<Rightarrow> ('w sx127x, unit) phy" where
  "v7_set_tx_power Sx1272 H = sx1272_set_tx_power H"
| "v7_set_tx_power Sx1276 H = sx1276_set_tx_power H"

fun v7_set_modulation_params :: "sx127x_chip \<Rightarrow> 'w hw \<Rightarrow> modulation_params \<Rightarrow> ('w sx127x, unit) phy" where
  "v7_set_modulation_params Sx1272 H = sx1272_set_modulation_params H"
| "v7_set_modulation_params Sx1276 H = sx1276_set_modulation_params H"

fun v7_set_packet_params :: "sx127x_chip \<Rightarrow> 'w hw \<Rightarrow> packet_params \<Rightarrow> ('w sx127x, unit) phy" where
  "v7_set_packet_params Sx1272 H = sx1272_set_packet_params H"
| "v7_set_packet_params Sx1276 H = sx1276_set_packet_params H"

fun v7_rssi_offset :: "sx127x_chip \<Rightarrow> 'w hw \<Rightarrow> ('w sx127x, i16) phy" where
  "v7_rssi_offset Sx1272 H = ret SX1272_RSSI_OFFSET"
| "v7_rssi_offset Sx1276 H = sx1276_rssi_offset H"

text \<open>\<open>todo!()\<close> on the SX1272.\<close>

fun v7_set_tx_continuous_wave_mode :: "sx127x_chip \<Rightarrow> 'w hw \<Rightarrow> ('w sx127x, unit) phy" where
  "v7_set_tx_continuous_wave_mode Sx1272 H = panic"
| "v7_set_tx_continuous_wave_mode Sx1276 H = sx1276_set_tx_continuous_wave_mode H"

section \<open>Set-up\<close>

definition sx127x_set_tx_rx_buffer_base_address :: "'w hw \<Rightarrow> nat \<Rightarrow> nat \<Rightarrow> ('w sx127x, unit) phy" where
  "sx127x_set_tx_rx_buffer_base_address H tx_base_addr rx_base_addr =
     (if 255 < tx_base_addr \<or> 255 < rx_base_addr then fail (InvalidBaseAddress tx_base_addr rx_base_addr)
      else thn (write_register H RegFifoTxBaseAddr (of_nat tx_base_addr))
             (write_register H RegFifoRxBaseAddr (of_nat rx_base_addr)))"

definition sx127x_init_lora :: "'w hw \<Rightarrow> sx127x_config \<Rightarrow> u16 \<Rightarrow> ('w sx127x, unit) phy" where
  "sx127x_init_lora H cfg sync_word =
     bnd (of_result (sync_word_to_legacy sync_word)) (\<lambda>w. steps
       [when_do (c7_tcxo_used cfg) (write_register H (reg_txco (c7_chip cfg)) TCXO_FOR_OSCILLATOR),
        write_register H RegSyncWord w,
        sx127x_set_tx_rx_buffer_base_address H 0 0,
        v7_init_lora (c7_chip cfg) H])"

definition sx127x_set_lora_sync_word :: "'w hw \<Rightarrow> u16 \<Rightarrow> ('w sx127x, unit) phy" where
  "sx127x_set_lora_sync_word H sync_word =
     bnd (of_result (sync_word_to_legacy sync_word)) (write_register H RegSyncWord)"

text \<open>The division by the bandwidth in symbols is a panic when that is 0.\<close>

definition sx127x_ldro :: "u8 \<Rightarrow> bandwidth \<Rightarrow> u8 run" where
  "sx127x_ldro sf_val bw =
     (let d = bw_hz bw div push_bit (unat sf_val) 1
      in if d = 0 then None else Some (if 16 < 1000 div d then 1 else 0))"

definition sx127x_create_modulation_params ::
  "sx127x_chip \<Rightarrow> spreading_factor \<Rightarrow> bandwidth \<Rightarrow> coding_rate \<Rightarrow> u32 \<Rightarrow> (radio_error + modulation_params) run" where
  "sx127x_create_modulation_params chip sf bw cr frequency_in_hz =
     try_run (Some (sf7_value sf)) (\<lambda>sf_val.
     try_run (Some (cr7_value cr)) (\<lambda>_.
     try_run (Some (bw7_value chip bw)) (\<lambda>_.
       if (bw = BW_250KHz \<or> bw = BW_500KHz) \<and> frequency_in_hz < 400000000
       then Some (Inl InvalidBandwidthForFrequency)
       else do {
         low_data_rate_optimize \<leftarrow> sx127x_ldro sf_val bw;
         Some (Inr \<lparr>mp_sf = sf, mp_bw = bw, mp_cr = cr, mp_ldro = low_data_rate_optimize,
           mp_frequency = frequency_in_hz\<rparr>)})))"

definition sx127x_create_packet_params ::
  "u16 \<Rightarrow> bool \<Rightarrow> u8 \<Rightarrow> bool \<Rightarrow> bool \<Rightarrow> modulation_params \<Rightarrow> radio_error + packet_params" where
  "sx127x_create_packet_params preamble_length implicit_header payload_length crc_on iq_inverted m =
     (if mp_sf m = SF_6 \<and> \<not> implicit_header then Inl InvalidSF6ExplicitHeaderRequest
      else Inr \<lparr>pp_preamble_length = preamble_length, pp_implicit_header = implicit_header,
        pp_payload_length = payload_length, pp_crc_on = crc_on, pp_iq_inverted = iq_inverted\<rparr>)"

section \<open>Modes\<close>

definition sx127x_ensure_ready :: "radio_mode \<Rightarrow> ('w sx127x, unit) phy" where
  "sx127x_ensure_ready mode = ret ()"

definition sx127x_set_standby :: "'w hw \<Rightarrow> ('w sx127x, unit) phy" where
  "sx127x_set_standby H =
     thn (write_register H RegOpMode (lora_mode_value Mode7_Standby)) (on_intf (iv_disable_rf_switch H))"

definition sx127x_set_sleep :: "'w hw \<Rightarrow> bool \<Rightarrow> ('w sx127x, unit) phy" where
  "sx127x_set_sleep H warm_start_if_possible =
     thn (on_intf (iv_disable_rf_switch H))
       (on_intf (intf_write H [write_addr RegOpMode, lora_mode_value Mode7_Sleep] True))"

definition sx127x_reset :: "'w hw \<Rightarrow> ('w sx127x, unit) phy" where
  "sx127x_reset H = thn (on_intf (iv_reset H)) (sx127x_set_sleep H False)"

section \<open>Radio parameters\<close>

definition sx127x_set_tx_power_and_ramp_time ::
  "'w hw \<Rightarrow> sx127x_config \<Rightarrow> i32 \<Rightarrow> modulation_params option \<Rightarrow> bool \<Rightarrow> ('w sx127x, unit) phy" where
  "sx127x_set_tx_power_and_ramp_time H cfg p_out mdltn_params is_tx_prep =
     thn (v7_set_tx_power (c7_chip cfg) H p_out (c7_tx_boost cfg))
       (write_register H RegPaRamp
          (ramp7_chip_value (c7_chip cfg) (if is_tx_prep then Ramp7_40Us else Ramp7_250Us)))"

definition sx127x_set_modulation_params :: "'w hw \<Rightarrow> sx127x_config \<Rightarrow> modulation_params \<Rightarrow> ('w sx127x, unit) phy" where
  "sx127x_set_modulation_params H cfg m =
     bnd (of_result (sf7_value (mp_sf m))) (\<lambda>sf_val.
     bnd (of_result (bw7_value (c7_chip cfg) (mp_bw m))) (\<lambda>bw_val.
     bnd (of_result (cr7_denominator_value (mp_cr m))) (\<lambda>coding_rate_denominator_val.
     let (opt, thr) = (if mp_sf m = SF_6 then (0x05, 0x0c) else (0x03, 0x0a))
     in steps
       [update_register H RegDetectionOptimize (\<lambda>reg_val. reg_val AND 0xF8 OR opt),
        write_register H RegDetectionThreshold thr,
        v7_set_modulation_params (c7_chip cfg) H m])))"

definition sx127x_set_packet_params :: "'w hw \<Rightarrow> sx127x_config \<Rightarrow> packet_params \<Rightarrow> ('w sx127x, unit) phy" where
  "sx127x_set_packet_params H cfg p =
     (let (iq1, iq2) = (if pp_iq_inverted p then (push_bit 6 1, 0x19) else (push_bit 0 1, 0x1d))
      in steps
        [write_register H RegPreambleMsb (ucast (drop_bit 8 (pp_preamble_length p) AND 0x00ff)),
         write_register H RegPreambleLsb (ucast (pp_preamble_length p AND 0x00ff)),
         v7_set_packet_params (c7_chip cfg) H p,
         when_do (pp_implicit_header p) (write_register H RegPayloadLength (pp_payload_length p)),
         write_register H RegInvertiq (push_bit 1 0x13 OR iq1),
         write_register H RegInvertiq2 iq2])"

definition sx127x_calibrate_image :: "u32 \<Rightarrow> ('w sx127x, unit) phy" where
  "sx127x_calibrate_image frequency_in_hz = ret ()"

definition sx127x_set_channel :: "'w hw \<Rightarrow> u32 \<Rightarrow> ('w sx127x, unit) phy" where
  "sx127x_set_channel H frequency_in_hz =
     (let frf = freq_to_pll_step frequency_in_hz in steps
       [write_register H RegFrfMsb (ucast (drop_bit 16 (frf AND 0x00FF0000))),
        write_register H RegFrfMid (ucast (drop_bit 8 (frf AND 0x0000FF00))),
        write_register H RegFrfLsb (ucast (frf AND 0x000000FF))])"

section \<open>Interrupts\<close>

definition sx127x_clear_irq_status :: "'w hw \<Rightarrow> ('w sx127x, unit) phy" where
  "sx127x_clear_irq_status H = write_register H RegIrqFlags 0xff"

definition sx127x_set_irq_params :: "'w hw \<Rightarrow> radio_mode option \<Rightarrow> ('w sx127x, unit) phy" where
  "sx127x_set_irq_params H radio_mode =
     thn (sx127x_clear_irq_status H)
      (case radio_mode of
         Some Transmit \<Rightarrow>
           thn (write_register H RegIrqFlagsMask (irq7_value Irq7_All XOR irq7_value Irq7_TxDone))
             (update_register H RegDioMapping1 (\<lambda>dio. dio AND dio0_value Dio0_Mask OR dio0_value Dio0_TxDone))
       | Some (Receive _) \<Rightarrow>
           thn (write_register H RegIrqFlagsMask (irq7_value Irq7_All XOR
                  (irq7_value Irq7_RxDone OR irq7_value Irq7_RxTimeout OR irq7_value Irq7_CRCError OR
                   irq7_value Irq7_HeaderValid)))
             (update_register H RegDioMapping1 (\<lambda>dio.
                dio AND dio0_value Dio0_Mask AND dio1_value Dio1_Mask AND dio3_value Dio3_Mask OR
                (dio0_value Dio0_RxDone OR dio1_value Dio1_RxTimeOut OR dio3_value Dio3_ValidHeader)))
       | Some ChannelActivityDetection \<Rightarrow>
           thn (write_register H RegIrqFlagsMask (irq7_value Irq7_All XOR
                  (irq7_value Irq7_CADDone OR irq7_value Irq7_CADActivityDetected)))
             (update_register H RegDioMapping1 (\<lambda>dio. dio AND dio0_value Dio0_Mask OR dio0_value Dio0_CadDone))
       | _ \<Rightarrow>
           thn (write_register H RegIrqFlagsMask (irq7_value Irq7_All))
             (update_register H RegDioMapping1 (\<lambda>dio. dio AND dio0_value Dio0_Mask OR dio0_value Dio0_Other)))"

text \<open>What the flags mean in a mode; \<open>None\<close> is a \<open>todo!()\<close>.\<close>

definition sx127x_decode_irq ::
  "radio_mode \<Rightarrow> u8 \<Rightarrow> bool option \<Rightarrow> ((radio_error + irq_state option) \<times> bool option) run" where
  "sx127x_decode_irq radio_mode irq_flags cad =
     (case radio_mode of
        Transmit \<Rightarrow> Some (Inr (if irq7_is_set_in Irq7_TxDone irq_flags then Some IrqDone else None), cad)
      | Receive (RxDutyCycle _) \<Rightarrow> None
      | Receive _ \<Rightarrow>
          Some (if irq7_is_set_in Irq7_RxDone irq_flags then Inr (Some IrqDone)
                else if irq7_is_set_in Irq7_RxTimeout irq_flags then Inl ReceiveTimeout
                else if irq7_is_set_in Irq7_HeaderValid irq_flags then Inr (Some PreambleReceived) else Inr None, cad)
      | ChannelActivityDetection \<Rightarrow>
          Some (if irq7_is_set_in Irq7_CADDone irq_flags
                then (Inr (Some IrqDone), map_option (\<lambda>_. irq7_is_set_in Irq7_CADActivityDetected irq_flags) cad)
                else (Inr None, cad))
      | FrequencySynthesis \<Rightarrow> None
      | _ \<Rightarrow> Some (Inr None, cad))"

definition sx127x_get_irq_state :: "'w hw \<Rightarrow> radio_mode \<Rightarrow> (bool option \<times> 'w sx127x, irq_state option) phy" where
  "sx127x_get_irq_state H radio_mode =
     bnd (on_snd (read_register H RegIrqFlags)) (\<lambda>irq_flags. \<lambda>(cad, x). do {
       (r, cad') \<leftarrow> sx127x_decode_irq radio_mode irq_flags cad;
       Some (r, cad', x)})"

definition sx127x_process_irq_event ::
  "'w hw \<Rightarrow> radio_mode \<Rightarrow> bool \<Rightarrow> (bool option \<times> 'w sx127x, irq_state option) phy" where
  "sx127x_process_irq_event H radio_mode clear_interrupts =
     bnd (attempt (sx127x_get_irq_state H radio_mode)) (\<lambda>irq_state.
       thn (on_snd (when_do clear_interrupts (sx127x_clear_irq_status H))) (of_result irq_state))"

section \<open>Sending and receiving\<close>

definition sx127x_set_payload :: "'w hw \<Rightarrow> bytes \<Rightarrow> ('w sx127x, unit) phy" where
  "sx127x_set_payload H payload = steps
     [write_register H RegFifoAddrPtr 0x00,
      write_register H RegPayloadLength 0x00,
      write_buffer H RegFifo payload,
      write_register H RegPayloadLength (of_nat (length payload))]"

definition sx127x_do_tx :: "'w hw \<Rightarrow> ('w sx127x, unit) phy" where
  "sx127x_do_tx H =
     thn (on_intf (iv_rf_switch_tx H)) (write_register H RegOpMode (lora_mode_value Mode7_Tx))"

definition sx127x_do_rx :: "'w hw \<Rightarrow> sx127x_config \<Rightarrow> phy_rx_mode \<Rightarrow> ('w sx127x, unit) phy" where
  "sx127x_do_rx H cfg rx_mode =
     bnd (of_result (case rx_mode of
            RxDutyCycle _ \<Rightarrow> Inl DutyCycleUnsupported
          | RxSingle ns \<Rightarrow> Inr (max ns SX127X_MIN_LORA_SYMB_NUM_TIMEOUT, Mode7_RxSingle)
          | RxContinuous \<Rightarrow> Inr (0, Mode7_RxContinuous))) (\<lambda>(num_symbols, mode). steps
       [on_intf (iv_rf_switch_rx H),
        sx127x_set_lora_symbol_num_timeout H num_symbols,
        write_register H RegLna (if c7_rx_boost cfg then lna_boosted_value G1 else lna_value G1),
        write_register H RegFifoAddrPtr 0x00,
        sx127x_clear_irq_status H,
        write_register H RegOpMode (lora_mode_value mode)])"

definition sx127x_get_rx_payload :: "'w hw \<Rightarrow> packet_params \<Rightarrow> (bytes \<times> 'w sx127x, u8) phy" where
  "sx127x_get_rx_payload H p =
     bnd (if pp_implicit_header p then ret (pp_payload_length p) else on_snd (read_register H RegRxNbBytes))
       (\<lambda>payload_length. peek (\<lambda>(receiving_buffer, _).
         if length receiving_buffer < unat payload_length
         then fail (PayloadSizeMismatch (unat payload_length) (length receiving_buffer))
         else bnd (on_snd (read_register H RegFifoRxCurrentAddr)) (\<lambda>fifo_addr.
           thn (on_snd (write_register H RegFifoAddrPtr fifo_addr))
            (thn (on_prefix (unat payload_length) (read_buffer H RegFifo))
             (thn (on_snd (write_register H RegFifoAddrPtr 0x00)) (ret payload_length))))))"

definition sx127x_get_rx_packet_status :: "'w hw \<Rightarrow> sx127x_config \<Rightarrow> ('w sx127x, packet_status) phy" where
  "sx127x_get_rx_packet_status H cfg =
     bnd (read_register H RegPktSnrValue) (\<lambda>packet_snr.
       let snr = word_of_int (sint packet_snr sdiv 4) :: i16
       in bnd (read_register H RegPktRssiValue) (\<lambda>packet_rssi.
          bnd (v7_rssi_offset (c7_chip cfg) H) (\<lambda>rssi_offset.
            ret \<lparr>ps_rssi = (if 0 \<le> sint snr then rssi_offset + linearize_rssi packet_rssi
                           else rssi_offset + linearize_rssi packet_rssi + snr), ps_snr = snr\<rparr>)))"

definition sx127x_get_rssi :: "'w hw \<Rightarrow> sx127x_config \<Rightarrow> ('w sx127x, i16) phy" where
  "sx127x_get_rssi H cfg =
     bnd (read_register H RegRssiValue) (\<lambda>rssi_value.
     bnd (v7_rssi_offset (c7_chip cfg) H) (\<lambda>rssi_offset. ret (rssi_offset + ucast rssi_value)))"

definition sx127x_do_cad :: "'w hw \<Rightarrow> sx127x_config \<Rightarrow> modulation_params \<Rightarrow> ('w sx127x, unit) phy" where
  "sx127x_do_cad H cfg m = steps
     [on_intf (iv_rf_switch_rx H),
      write_register H RegLna (if c7_rx_boost cfg then lna_boosted_value G1 else lna_value G1),
      write_register H RegOpMode (lora_mode_value Mode7_Cad)]"

end
