(* ===== verification/Sx127xKind.thy ===== *)
theory Sx127xKind
  imports Sx127x LoRaFacts
begin

text \<open>
  The SX127x driver as an implementation of \<open>RadioKind\<close>, and what holds of its operations on any hardware.
\<close>

definition sx127x_kind :: "'w hw \<Rightarrow> sx127x_config \<Rightarrow> 'w sx127x radio_kind" where
  "sx127x_kind H cfg = \<lparr>
     rk_init_lora = sx127x_init_lora H cfg,
     rk_set_lora_sync_word = sx127x_set_lora_sync_word H,
     rk_create_modulation_params = sx127x_create_modulation_params (c7_chip cfg),
     rk_create_packet_params = sx127x_create_packet_params,
     rk_reset = sx127x_reset H,
     rk_ensure_ready = sx127x_ensure_ready,
     rk_set_standby = sx127x_set_standby H,
     rk_set_sleep = sx127x_set_sleep H,
     rk_set_tx_power_and_ramp_time = sx127x_set_tx_power_and_ramp_time H cfg,
     rk_set_modulation_params = sx127x_set_modulation_params H cfg,
     rk_set_packet_params = sx127x_set_packet_params H cfg,
     rk_calibrate_image = sx127x_calibrate_image,
     rk_set_channel = sx127x_set_channel H,
     rk_set_payload = sx127x_set_payload H,
     rk_do_tx = sx127x_do_tx H,
     rk_do_rx = sx127x_do_rx H cfg,
     rk_get_rx_payload = sx127x_get_rx_payload H,
     rk_get_rx_packet_status = sx127x_get_rx_packet_status H cfg,
     rk_get_rssi = sx127x_get_rssi H cfg,
     rk_do_cad = sx127x_do_cad H cfg,
     rk_set_irq_params = sx127x_set_irq_params H,
     rk_set_tx_continuous_wave_mode = v7_set_tx_continuous_wave_mode (c7_chip cfg) H,
     rk_await_irq = on_intf (iv_await_irq H),
     rk_process_irq_event = sx127x_process_irq_event H,
     rk_get_irq_state = sx127x_get_irq_state H,
     rk_clear_irq_status = sx127x_clear_irq_status H\<rparr>"

section \<open>Received packets\<close>

lemma post_on_intf [wp]: "post (on_intf m) x Q = post m (x7_intf x) (\<lambda>r w. Q r (x\<lparr>x7_intf := w\<rparr>))"
  by (auto simp: post_def on_intf_def split: option.splits)

lemma post_read_buffer [wp]:
  "post (read_buffer H register) (buf, x) Q =
     post (intf_read H [read_addr register]) (buf, x7_intf x) (\<lambda>r (b, w). Q r (b, x\<lparr>x7_intf := w\<rparr>))"
  unfolding post_def read_buffer_def by (auto split: option.splits)

lemma sx127x_payload_fits:
  assumes "hw_ok H"
  shows "post (sx127x_get_rx_payload H p) (buf, x)
     (\<lambda>r t. length (fst t) = length buf \<and> (\<forall>n. r = Inr n \<longrightarrow> unat n \<le> length buf))"
proof -
  have slice: "post (on_prefix (unat n) (read_buffer H c)) (b, y) (\<lambda>r t. length (fst t) = length b)"
    if "unat n \<le> length b" for n b c and y :: "'a sx127x"
    unfolding wp by (auto intro!: post_mono [OF intf_read_length(1) [OF assms]] simp: that)
  let ?ok = "\<lambda>buf r t'. length (fst t') = length buf \<and> (\<forall>n. r = Inr n \<longrightarrow> unat n \<le> length buf)"
  have tail: "post (peek (\<lambda>(receiving_buffer, _).
         if length receiving_buffer < unat n
         then fail (PayloadSizeMismatch (unat n) (length receiving_buffer))
         else bnd (on_snd (read_register H RegFifoRxCurrentAddr)) (\<lambda>fifo_addr.
           thn (on_snd (write_register H RegFifoAddrPtr fifo_addr))
            (thn (on_prefix (unat n) (read_buffer H RegFifo))
             (thn (on_snd (write_register H RegFifoAddrPtr 0x00)) (ret n)))))) (b, y) (?ok b)" for n b y
  proof (cases "length b < unat n")
    case False
    then have s: "post (on_prefix (unat n) (read_buffer H RegFifo)) (b, z) (\<lambda>r t. length (fst t) = length b)"
      for z :: "'a sx127x" by (intro slice) simp
    show ?thesis using False
      by (auto simp: post_peek post_bnd post_thn post_on_snd post_effect split: sum.splits
            intro!: post_mono [OF post_true] post_mono [OF s])
  qed (simp add: wp)
  show ?thesis
    by (cases "pp_implicit_header p")
      (simp add: sx127x_get_rx_payload_def post_bnd post_effect tail,
       simp add: sx127x_get_rx_payload_def post_bnd post_on_snd, rule post_mono [OF post_true], simp add: tail split: sum.split)
qed

end
