(* ===== verification/Lr1110Params.thy ===== *)
theory Lr1110Params
  imports PhyBus
begin

text \<open>
  The constants of the LR1110 driver (\<open>lora-phy/src/lr1110/radio_kind_params.rs\<close>): op codes of 16 bits, interrupt
  masks of 32 bits, the enumerations with the numbers they stand for, the records of GFSK and LR-FHSS
  parameters, the status registers and the timings of the chip.
\<close>

text \<open>The bytes of a \<open>u32\<close>, most significant first, and back.\<close>

definition be32 :: "u32 \<Rightarrow> bytes" where
  "be32 w = [ucast (drop_bit 24 w), ucast (drop_bit 16 w), ucast (drop_bit 8 w), ucast w]"

definition of_be32 :: "u8 \<Rightarrow> u8 \<Rightarrow> u8 \<Rightarrow> u8 \<Rightarrow> u32" where
  "of_be32 a b c d = push_bit 24 (ucast a) OR push_bit 16 (ucast b) OR push_bit 8 (ucast c) OR ucast d"

section \<open>Commands\<close>

datatype lr_system_op = SysGetStatus | SysGetVersion | SysGetErrors | SysClearErrors | SysCalibrate
  | SysSetRegMode | SysCalibrateImage | SysSetDioAsRfSwitch | SysSetDioIrqParams | SysClearIrq | SysCfgLfClk
  | SysSetTcxoMode | SysReboot | SysGetVbat | SysGetTemp | SysSetSleep | SysSetStandby | SysSetFs
  | SysGetRandom | SysEraseInfoPage | SysWriteInfoPage | SysReadInfoPage | SysReadUid | SysReadJoinEui
  | SysReadPin | SysEnableSpiCrc | SysDriveDioInSleepMode

fun lr_system_op_value :: "lr_system_op \<Rightarrow> u16" where
  "lr_system_op_value SysGetStatus = 0x0100"
| "lr_system_op_value SysGetVersion = 0x0101"
| "lr_system_op_value SysGetErrors = 0x010D"
| "lr_system_op_value SysClearErrors = 0x010E"
| "lr_system_op_value SysCalibrate = 0x010F"
| "lr_system_op_value SysSetRegMode = 0x0110"
| "lr_system_op_value SysCalibrateImage = 0x0111"
| "lr_system_op_value SysSetDioAsRfSwitch = 0x0112"
| "lr_system_op_value SysSetDioIrqParams = 0x0113"
| "lr_system_op_value SysClearIrq = 0x0114"
| "lr_system_op_value SysCfgLfClk = 0x0116"
| "lr_system_op_value SysSetTcxoMode = 0x0117"
| "lr_system_op_value SysReboot = 0x0118"
| "lr_system_op_value SysGetVbat = 0x0119"
| "lr_system_op_value SysGetTemp = 0x011A"
| "lr_system_op_value SysSetSleep = 0x011B"
| "lr_system_op_value SysSetStandby = 0x011C"
| "lr_system_op_value SysSetFs = 0x011D"
| "lr_system_op_value SysGetRandom = 0x0120"
| "lr_system_op_value SysEraseInfoPage = 0x0121"
| "lr_system_op_value SysWriteInfoPage = 0x0122"
| "lr_system_op_value SysReadInfoPage = 0x0123"
| "lr_system_op_value SysReadUid = 0x0125"
| "lr_system_op_value SysReadJoinEui = 0x0126"
| "lr_system_op_value SysReadPin = 0x0127"
| "lr_system_op_value SysEnableSpiCrc = 0x0128"
| "lr_system_op_value SysDriveDioInSleepMode = 0x012A"

datatype lr_radio_op = RadResetStats | RadGetStats | RadGetPktType | RadGetRxBufferStatus | RadGetPktStatus
  | RadGetRssiInst | RadSetGfskSyncWord | RadSetLoRaPublicNetwork | RadSetRx | RadSetTx | RadSetRfFrequency
  | RadAutoTxRx | RadSetCadParams | RadSetPktType | RadSetModulationParam | RadSetPktParam | RadSetTxParams
  | RadSetPktAdrs | RadSetRxTxFallbackMode | RadSetRxDutyCycle | RadSetPaCfg | RadStopTimeoutOnPreamble
  | RadSetCad | RadSetTxCw | RadSetTxInfinitePreamble | RadSetLoRaSyncTimeout | RadSetGfskCrcParams
  | RadSetGfskWhiteningParams | RadSetRxBoosted | RadSetRssiCalibration | RadSetLoRaSyncWord
  | RadSetLrFhssSyncWord | RadCfgBluetoothLowEnergyBeaconningCompatibility | RadGetLoRaRxInfo
  | RadBluetoothLowEnergyBeaconningCompatibilitySend

fun lr_radio_op_value :: "lr_radio_op \<Rightarrow> u16" where
  "lr_radio_op_value RadResetStats = 0x0200"
| "lr_radio_op_value RadGetStats = 0x0201"
| "lr_radio_op_value RadGetPktType = 0x0202"
| "lr_radio_op_value RadGetRxBufferStatus = 0x0203"
| "lr_radio_op_value RadGetPktStatus = 0x0204"
| "lr_radio_op_value RadGetRssiInst = 0x0205"
| "lr_radio_op_value RadSetGfskSyncWord = 0x0206"
| "lr_radio_op_value RadSetLoRaPublicNetwork = 0x0208"
| "lr_radio_op_value RadSetRx = 0x0209"
| "lr_radio_op_value RadSetTx = 0x020A"
| "lr_radio_op_value RadSetRfFrequency = 0x020B"
| "lr_radio_op_value RadAutoTxRx = 0x020C"
| "lr_radio_op_value RadSetCadParams = 0x020D"
| "lr_radio_op_value RadSetPktType = 0x020E"
| "lr_radio_op_value RadSetModulationParam = 0x020F"
| "lr_radio_op_value RadSetPktParam = 0x0210"
| "lr_radio_op_value RadSetTxParams = 0x0211"
| "lr_radio_op_value RadSetPktAdrs = 0x0212"
| "lr_radio_op_value RadSetRxTxFallbackMode = 0x0213"
| "lr_radio_op_value RadSetRxDutyCycle = 0x0214"
| "lr_radio_op_value RadSetPaCfg = 0x0215"
| "lr_radio_op_value RadStopTimeoutOnPreamble = 0x0217"
| "lr_radio_op_value RadSetCad = 0x0218"
| "lr_radio_op_value RadSetTxCw = 0x0219"
| "lr_radio_op_value RadSetTxInfinitePreamble = 0x021A"
| "lr_radio_op_value RadSetLoRaSyncTimeout = 0x021B"
| "lr_radio_op_value RadSetGfskCrcParams = 0x0224"
| "lr_radio_op_value RadSetGfskWhiteningParams = 0x0225"
| "lr_radio_op_value RadSetRxBoosted = 0x0227"
| "lr_radio_op_value RadSetRssiCalibration = 0x0229"
| "lr_radio_op_value RadSetLoRaSyncWord = 0x022B"
| "lr_radio_op_value RadSetLrFhssSyncWord = 0x022D"
| "lr_radio_op_value RadCfgBluetoothLowEnergyBeaconningCompatibility = 0x022E"
| "lr_radio_op_value RadGetLoRaRxInfo = 0x0230"
| "lr_radio_op_value RadBluetoothLowEnergyBeaconningCompatibilitySend = 0x0231"

datatype lr_regmem_op = MemWriteRegMem32 | MemReadRegMem32 | MemWriteMem8 | MemReadMem8 | MemWriteBuffer8
  | MemReadBuffer8 | MemClearRxBuffer | MemWriteRegMem32Mask

fun lr_regmem_op_value :: "lr_regmem_op \<Rightarrow> u16" where
  "lr_regmem_op_value MemWriteRegMem32 = 0x0105"
| "lr_regmem_op_value MemReadRegMem32 = 0x0106"
| "lr_regmem_op_value MemWriteMem8 = 0x0107"
| "lr_regmem_op_value MemReadMem8 = 0x0108"
| "lr_regmem_op_value MemWriteBuffer8 = 0x0109"
| "lr_regmem_op_value MemReadBuffer8 = 0x010A"
| "lr_regmem_op_value MemClearRxBuffer = 0x010B"
| "lr_regmem_op_value MemWriteRegMem32Mask = 0x010C"

datatype lr_bootloader_op = BootGetStatus | BootGetVersion | BootEraseFlash | BootWriteFlashEncrypted
  | BootReboot | BootGetPin | BootReadChipEui | BootReadJoinEui

fun lr_bootloader_op_value :: "lr_bootloader_op \<Rightarrow> u16" where
  "lr_bootloader_op_value BootGetStatus = 0x0100"
| "lr_bootloader_op_value BootGetVersion = 0x0101"
| "lr_bootloader_op_value BootEraseFlash = 0x8000"
| "lr_bootloader_op_value BootWriteFlashEncrypted = 0x8003"
| "lr_bootloader_op_value BootReboot = 0x8005"
| "lr_bootloader_op_value BootGetPin = 0x800B"
| "lr_bootloader_op_value BootReadChipEui = 0x800C"
| "lr_bootloader_op_value BootReadJoinEui = 0x800D"

datatype lr_fhss_op = FhssBuildFrame

fun lr_fhss_op_value :: "lr_fhss_op \<Rightarrow> u16" where
  "lr_fhss_op_value FhssBuildFrame = 0x022C"

text \<open>The two bytes a command starts with.\<close>

definition sys_bytes :: "lr_system_op \<Rightarrow> bytes" where "sys_bytes c = be16 (lr_system_op_value c)"
definition rad_bytes :: "lr_radio_op \<Rightarrow> bytes" where "rad_bytes c = be16 (lr_radio_op_value c)"
definition mem_bytes :: "lr_regmem_op \<Rightarrow> bytes" where "mem_bytes c = be16 (lr_regmem_op_value c)"
definition boot_bytes :: "lr_bootloader_op \<Rightarrow> bytes" where "boot_bytes c = be16 (lr_bootloader_op_value c)"
definition fhss_bytes :: "lr_fhss_op \<Rightarrow> bytes" where "fhss_bytes c = be16 (lr_fhss_op_value c)"

section \<open>Interrupts\<close>

datatype lr_irq = LrIrq_None | LrIrq_TxDone | LrIrq_RxDone | LrIrq_PreambleDetected
  | LrIrq_SyncWordHeaderValid | LrIrq_HeaderError | LrIrq_CrcError | LrIrq_CadDone | LrIrq_CadDetected
  | LrIrq_Timeout | LrIrq_LrFhssIntraPktHop | LrIrq_RttofReqValid | LrIrq_RttofReqDiscarded
  | LrIrq_RttofRespDone | LrIrq_RttofExchValid | LrIrq_RttofTimeout | LrIrq_GnssScanDone
  | LrIrq_WifiScanDone | LrIrq_Eol | LrIrq_CmdError | LrIrq_Error | LrIrq_FskLenError | LrIrq_FskAddrError
  | LrIrq_LoRaRxTimestamp

fun lr_irq_value :: "lr_irq \<Rightarrow> u32" where
  "lr_irq_value LrIrq_None = 0x00000000"
| "lr_irq_value LrIrq_TxDone = 0x00000004"
| "lr_irq_value LrIrq_RxDone = 0x00000008"
| "lr_irq_value LrIrq_PreambleDetected = 0x00000010"
| "lr_irq_value LrIrq_SyncWordHeaderValid = 0x00000020"
| "lr_irq_value LrIrq_HeaderError = 0x00000040"
| "lr_irq_value LrIrq_CrcError = 0x00000080"
| "lr_irq_value LrIrq_CadDone = 0x00000100"
| "lr_irq_value LrIrq_CadDetected = 0x00000200"
| "lr_irq_value LrIrq_Timeout = 0x00000400"
| "lr_irq_value LrIrq_LrFhssIntraPktHop = 0x00000800"
| "lr_irq_value LrIrq_RttofReqValid = 0x00004000"
| "lr_irq_value LrIrq_RttofReqDiscarded = 0x00008000"
| "lr_irq_value LrIrq_RttofRespDone = 0x00010000"
| "lr_irq_value LrIrq_RttofExchValid = 0x00020000"
| "lr_irq_value LrIrq_RttofTimeout = 0x00040000"
| "lr_irq_value LrIrq_GnssScanDone = 0x00080000"
| "lr_irq_value LrIrq_WifiScanDone = 0x00100000"
| "lr_irq_value LrIrq_Eol = 0x00200000"
| "lr_irq_value LrIrq_CmdError = 0x00400000"
| "lr_irq_value LrIrq_Error = 0x00800000"
| "lr_irq_value LrIrq_FskLenError = 0x01000000"
| "lr_irq_value LrIrq_FskAddrError = 0x02000000"
| "lr_irq_value LrIrq_LoRaRxTimestamp = 0x08000000"

definition lr_irq_is_set :: "lr_irq \<Rightarrow> u32 \<Rightarrow> bool" where
  "lr_irq_is_set irq m \<longleftrightarrow> lr_irq_value irq AND m = lr_irq_value irq"

section \<open>Enumerations\<close>

datatype lr_packet_type = LrPkt_None | LrPkt_Gfsk | LrPkt_LoRa | LrPkt_Bpsk | LrPkt_LrFhss | LrPkt_Rttof

fun lr_packet_type_value :: "lr_packet_type \<Rightarrow> u8" where
  "lr_packet_type_value LrPkt_None = 0x00"
| "lr_packet_type_value LrPkt_Gfsk = 0x01"
| "lr_packet_type_value LrPkt_LoRa = 0x02"
| "lr_packet_type_value LrPkt_Bpsk = 0x03"
| "lr_packet_type_value LrPkt_LrFhss = 0x04"
| "lr_packet_type_value LrPkt_Rttof = 0x05"

datatype lr_standby_mode = LrStandby_Rc | LrStandby_Xosc

fun lr_standby_mode_value :: "lr_standby_mode \<Rightarrow> u8" where
  "lr_standby_mode_value LrStandby_Rc = 0x00"
| "lr_standby_mode_value LrStandby_Xosc = 0x01"

datatype lr_regulator_mode = LrReg_Ldo | LrReg_Dcdc

fun lr_regulator_mode_value :: "lr_regulator_mode \<Rightarrow> u8" where
  "lr_regulator_mode_value LrReg_Ldo = 0x00"
| "lr_regulator_mode_value LrReg_Dcdc = 0x01"

datatype lr_tcxo_voltage = LrCtrl1V6 | LrCtrl1V7 | LrCtrl1V8 | LrCtrl2V2 | LrCtrl2V4 | LrCtrl2V7 | LrCtrl3V0
  | LrCtrl3V3

fun lr_tcxo_voltage_value :: "lr_tcxo_voltage \<Rightarrow> u8" where
  "lr_tcxo_voltage_value LrCtrl1V6 = 0x00"
| "lr_tcxo_voltage_value LrCtrl1V7 = 0x01"
| "lr_tcxo_voltage_value LrCtrl1V8 = 0x02"
| "lr_tcxo_voltage_value LrCtrl2V2 = 0x03"
| "lr_tcxo_voltage_value LrCtrl2V4 = 0x04"
| "lr_tcxo_voltage_value LrCtrl2V7 = 0x05"
| "lr_tcxo_voltage_value LrCtrl3V0 = 0x06"
| "lr_tcxo_voltage_value LrCtrl3V3 = 0x07"

datatype lr_pa_selection = LrPa_Lp | LrPa_Hp | LrPa_Hf

fun lr_pa_selection_value :: "lr_pa_selection \<Rightarrow> u8" where
  "lr_pa_selection_value LrPa_Lp = 0x00"
| "lr_pa_selection_value LrPa_Hp = 0x01"
| "lr_pa_selection_value LrPa_Hf = 0x02"

datatype lr_pa_supply = LrSupply_Vreg | LrSupply_Vbat

fun lr_pa_supply_value :: "lr_pa_supply \<Rightarrow> u8" where
  "lr_pa_supply_value LrSupply_Vreg = 0x00"
| "lr_pa_supply_value LrSupply_Vbat = 0x01"

datatype lr_ramp_time = LrRamp16Us | LrRamp32Us | LrRamp48Us | LrRamp64Us | LrRamp80Us | LrRamp96Us
  | LrRamp112Us | LrRamp128Us | LrRamp144Us | LrRamp160Us | LrRamp176Us | LrRamp192Us | LrRamp208Us
  | LrRamp240Us | LrRamp272Us | LrRamp304Us

fun lr_ramp_time_value :: "lr_ramp_time \<Rightarrow> u8" where
  "lr_ramp_time_value LrRamp16Us = 0x00"
| "lr_ramp_time_value LrRamp32Us = 0x01"
| "lr_ramp_time_value LrRamp48Us = 0x02"
| "lr_ramp_time_value LrRamp64Us = 0x03"
| "lr_ramp_time_value LrRamp80Us = 0x04"
| "lr_ramp_time_value LrRamp96Us = 0x05"
| "lr_ramp_time_value LrRamp112Us = 0x06"
| "lr_ramp_time_value LrRamp128Us = 0x07"
| "lr_ramp_time_value LrRamp144Us = 0x08"
| "lr_ramp_time_value LrRamp160Us = 0x09"
| "lr_ramp_time_value LrRamp176Us = 0x0A"
| "lr_ramp_time_value LrRamp192Us = 0x0B"
| "lr_ramp_time_value LrRamp208Us = 0x0C"
| "lr_ramp_time_value LrRamp240Us = 0x0D"
| "lr_ramp_time_value LrRamp272Us = 0x0E"
| "lr_ramp_time_value LrRamp304Us = 0x0F"

datatype lr_cad_symbols = LrCad_1 | LrCad_2 | LrCad_4 | LrCad_8 | LrCad_16

fun lr_cad_symbols_value :: "lr_cad_symbols \<Rightarrow> u8" where
  "lr_cad_symbols_value LrCad_1 = 0x00"
| "lr_cad_symbols_value LrCad_2 = 0x01"
| "lr_cad_symbols_value LrCad_4 = 0x02"
| "lr_cad_symbols_value LrCad_8 = 0x03"
| "lr_cad_symbols_value LrCad_16 = 0x04"

datatype lr_cad_exit_mode = LrCadExit_StandbyRc | LrCadExit_Rx | LrCadExit_Tx

fun lr_cad_exit_mode_value :: "lr_cad_exit_mode \<Rightarrow> u8" where
  "lr_cad_exit_mode_value LrCadExit_StandbyRc = 0x00"
| "lr_cad_exit_mode_value LrCadExit_Rx = 0x01"
| "lr_cad_exit_mode_value LrCadExit_Tx = 0x10"

datatype lr_crc = LrCrc_Off | LrCrc_On

fun lr_crc_value :: "lr_crc \<Rightarrow> u8" where
  "lr_crc_value LrCrc_Off = 0x00"
| "lr_crc_value LrCrc_On = 0x01"

datatype lr_header_type = LrHeader_Explicit | LrHeader_Implicit

fun lr_header_type_value :: "lr_header_type \<Rightarrow> u8" where
  "lr_header_type_value LrHeader_Explicit = 0x00"
| "lr_header_type_value LrHeader_Implicit = 0x01"

datatype lr_iq = LrIq_Standard | LrIq_Inverted

fun lr_iq_value :: "lr_iq \<Rightarrow> u8" where
  "lr_iq_value LrIq_Standard = 0x00"
| "lr_iq_value LrIq_Inverted = 0x01"

datatype lr_fallback_mode = LrFallback_StandbyRc | LrFallback_StandbyXosc | LrFallback_Fs

fun lr_fallback_mode_value :: "lr_fallback_mode \<Rightarrow> u8" where
  "lr_fallback_mode_value LrFallback_StandbyRc = 0x01"
| "lr_fallback_mode_value LrFallback_StandbyXosc = 0x02"
| "lr_fallback_mode_value LrFallback_Fs = 0x03"

datatype lr_intermediary_mode = LrInter_Sleep | LrInter_StandbyRc | LrInter_StandbyXosc | LrInter_Fs

fun lr_intermediary_mode_value :: "lr_intermediary_mode \<Rightarrow> u8" where
  "lr_intermediary_mode_value LrInter_Sleep = 0x00"
| "lr_intermediary_mode_value LrInter_StandbyRc = 0x01"
| "lr_intermediary_mode_value LrInter_StandbyXosc = 0x02"
| "lr_intermediary_mode_value LrInter_Fs = 0x03"

text \<open>The modulation parameters on the wire; the narrowest bandwidth is not supported.\<close>

fun lr_sf_value :: "spreading_factor \<Rightarrow> radio_error + u8" where
  "lr_sf_value SF_5 = Inr 0x05"
| "lr_sf_value SF_6 = Inr 0x06"
| "lr_sf_value SF_7 = Inr 0x07"
| "lr_sf_value SF_8 = Inr 0x08"
| "lr_sf_value SF_9 = Inr 0x09"
| "lr_sf_value SF_10 = Inr 0x0A"
| "lr_sf_value SF_11 = Inr 0x0B"
| "lr_sf_value SF_12 = Inr 0x0C"

fun lr_bw_value :: "bandwidth \<Rightarrow> radio_error + u8" where
  "lr_bw_value BW_7KHz = Inl InvalidBandwidthForFrequency"
| "lr_bw_value BW_10KHz = Inr 0x08"
| "lr_bw_value BW_15KHz = Inr 0x01"
| "lr_bw_value BW_20KHz = Inr 0x09"
| "lr_bw_value BW_31KHz = Inr 0x02"
| "lr_bw_value BW_41KHz = Inr 0x0A"
| "lr_bw_value BW_62KHz = Inr 0x03"
| "lr_bw_value BW_125KHz = Inr 0x04"
| "lr_bw_value BW_250KHz = Inr 0x05"
| "lr_bw_value BW_500KHz = Inr 0x06"

fun lr_cr_value :: "coding_rate \<Rightarrow> radio_error + u8" where
  "lr_cr_value CR_4_5 = Inr 0x01"
| "lr_cr_value CR_4_6 = Inr 0x02"
| "lr_cr_value CR_4_7 = Inr 0x03"
| "lr_cr_value CR_4_8 = Inr 0x04"

section \<open>GFSK\<close>

datatype gfsk_pulse_shape = Pulse_Off | Pulse_Bt03 | Pulse_Bt05 | Pulse_Bt07 | Pulse_Bt1

fun gfsk_pulse_shape_value :: "gfsk_pulse_shape \<Rightarrow> u8" where
  "gfsk_pulse_shape_value Pulse_Off = 0x00"
| "gfsk_pulse_shape_value Pulse_Bt03 = 0x08"
| "gfsk_pulse_shape_value Pulse_Bt05 = 0x09"
| "gfsk_pulse_shape_value Pulse_Bt07 = 0x0A"
| "gfsk_pulse_shape_value Pulse_Bt1 = 0x0B"

datatype gfsk_bandwidth = GfskBw4800 | GfskBw5800 | GfskBw7300 | GfskBw9700 | GfskBw11700 | GfskBw14600
  | GfskBw19500 | GfskBw23400 | GfskBw29300 | GfskBw39000 | GfskBw46900 | GfskBw58600 | GfskBw78200
  | GfskBw93800 | GfskBw117300 | GfskBw156200 | GfskBw187200 | GfskBw234300 | GfskBw312000 | GfskBw373600
  | GfskBw467000

fun gfsk_bandwidth_value :: "gfsk_bandwidth \<Rightarrow> u8" where
  "gfsk_bandwidth_value GfskBw4800 = 0x1F"
| "gfsk_bandwidth_value GfskBw5800 = 0x17"
| "gfsk_bandwidth_value GfskBw7300 = 0x0F"
| "gfsk_bandwidth_value GfskBw9700 = 0x1E"
| "gfsk_bandwidth_value GfskBw11700 = 0x16"
| "gfsk_bandwidth_value GfskBw14600 = 0x0E"
| "gfsk_bandwidth_value GfskBw19500 = 0x1D"
| "gfsk_bandwidth_value GfskBw23400 = 0x15"
| "gfsk_bandwidth_value GfskBw29300 = 0x0D"
| "gfsk_bandwidth_value GfskBw39000 = 0x1C"
| "gfsk_bandwidth_value GfskBw46900 = 0x14"
| "gfsk_bandwidth_value GfskBw58600 = 0x0C"
| "gfsk_bandwidth_value GfskBw78200 = 0x1B"
| "gfsk_bandwidth_value GfskBw93800 = 0x13"
| "gfsk_bandwidth_value GfskBw117300 = 0x0B"
| "gfsk_bandwidth_value GfskBw156200 = 0x1A"
| "gfsk_bandwidth_value GfskBw187200 = 0x12"
| "gfsk_bandwidth_value GfskBw234300 = 0x0A"
| "gfsk_bandwidth_value GfskBw312000 = 0x19"
| "gfsk_bandwidth_value GfskBw373600 = 0x11"
| "gfsk_bandwidth_value GfskBw467000 = 0x09"

datatype gfsk_preamble_detector = Detect_Off | Detect_Bits8 | Detect_Bits16 | Detect_Bits24 | Detect_Bits32

fun gfsk_preamble_detector_value :: "gfsk_preamble_detector \<Rightarrow> u8" where
  "gfsk_preamble_detector_value Detect_Off = 0x00"
| "gfsk_preamble_detector_value Detect_Bits8 = 0x04"
| "gfsk_preamble_detector_value Detect_Bits16 = 0x05"
| "gfsk_preamble_detector_value Detect_Bits24 = 0x06"
| "gfsk_preamble_detector_value Detect_Bits32 = 0x07"

datatype gfsk_address_filtering = Filter_Disabled | Filter_Node | Filter_NodeAndBroadcast

fun gfsk_address_filtering_value :: "gfsk_address_filtering \<Rightarrow> u8" where
  "gfsk_address_filtering_value Filter_Disabled = 0x00"
| "gfsk_address_filtering_value Filter_Node = 0x01"
| "gfsk_address_filtering_value Filter_NodeAndBroadcast = 0x02"

datatype gfsk_header_type = GfskHeader_Fixed | GfskHeader_Variable

fun gfsk_header_type_value :: "gfsk_header_type \<Rightarrow> u8" where
  "gfsk_header_type_value GfskHeader_Fixed = 0x00"
| "gfsk_header_type_value GfskHeader_Variable = 0x01"

datatype gfsk_crc_type = GfskCrc_Off | GfskCrc_Crc1Byte | GfskCrc_Crc2Bytes | GfskCrc_Crc1ByteInv
  | GfskCrc_Crc2BytesInv

fun gfsk_crc_type_value :: "gfsk_crc_type \<Rightarrow> u8" where
  "gfsk_crc_type_value GfskCrc_Off = 0x01"
| "gfsk_crc_type_value GfskCrc_Crc1Byte = 0x00"
| "gfsk_crc_type_value GfskCrc_Crc2Bytes = 0x02"
| "gfsk_crc_type_value GfskCrc_Crc1ByteInv = 0x04"
| "gfsk_crc_type_value GfskCrc_Crc2BytesInv = 0x06"

datatype gfsk_dc_free = DcFree_Off | DcFree_Whitening

fun gfsk_dc_free_value :: "gfsk_dc_free \<Rightarrow> u8" where
  "gfsk_dc_free_value DcFree_Off = 0x00"
| "gfsk_dc_free_value DcFree_Whitening = 0x01"

definition GFSK_SYNC_WORD_MAX_LENGTH :: nat where "GFSK_SYNC_WORD_MAX_LENGTH = 8"

record gfsk_modulation_params =
  gm_bitrate_bps :: u32
  gm_pulse_shape :: gfsk_pulse_shape
  gm_bandwidth :: gfsk_bandwidth
  gm_freq_dev_hz :: u32

definition gfsk_modulation_params_default :: gfsk_modulation_params where
  "gfsk_modulation_params_default =
     \<lparr>gm_bitrate_bps = 50000, gm_pulse_shape = Pulse_Bt1, gm_bandwidth = GfskBw117300, gm_freq_dev_hz = 25000\<rparr>"

record gfsk_packet_params =
  gp_preamble_length :: u16
  gp_preamble_detector :: gfsk_preamble_detector
  gp_sync_word_length_bits :: u8
  gp_address_filtering :: gfsk_address_filtering
  gp_header_type :: gfsk_header_type
  gp_payload_length :: u8
  gp_crc_type :: gfsk_crc_type
  gp_dc_free :: gfsk_dc_free

definition gfsk_packet_params_default :: gfsk_packet_params where
  "gfsk_packet_params_default =
     \<lparr>gp_preamble_length = 32, gp_preamble_detector = Detect_Bits16, gp_sync_word_length_bits = 32,
      gp_address_filtering = Filter_Disabled, gp_header_type = GfskHeader_Variable, gp_payload_length = 255,
      gp_crc_type = GfskCrc_Crc2Bytes, gp_dc_free = DcFree_Whitening\<rparr>"

definition GFSK_DEFAULT_SYNC_WORD :: bytes where
  "GFSK_DEFAULT_SYNC_WORD = [0xC1, 0x94, 0xC1, 0x94, 0x00, 0x00, 0x00, 0x00]"

record gfsk_stats =
  gs_nb_pkt_received :: u16
  gs_nb_pkt_crc_error :: u16
  gs_nb_pkt_len_error :: u16

record lora_stats =
  ls_nb_pkt_received :: u16
  ls_nb_pkt_crc_error :: u16
  ls_nb_pkt_header_error :: u16
  ls_nb_pkt_false_sync :: u16

datatype radio_stats = GfskStats gfsk_stats | LoRaStats lora_stats

section \<open>Sleep, calibration and clocks\<close>

record lr_sleep_params =
  lsp_warm_start :: bool
  lsp_rtc_wakeup :: bool

definition lr_sleep_params_value :: "lr_sleep_params \<Rightarrow> u8" where
  "lr_sleep_params_value p = (if lsp_warm_start p then 0x01 else 0) OR (if lsp_rtc_wakeup p then 0x02 else 0)"

record calibration_params =
  cp_rc64k_enable :: bool
  cp_rc13m_enable :: bool
  cp_pll_enable :: bool
  cp_adc_pulse_enable :: bool
  cp_adc_bulkn_enable :: bool
  cp_adc_bulkp_enable :: bool
  cp_img_enable :: bool

definition calibration_params_value :: "calibration_params \<Rightarrow> u8" where
  "calibration_params_value p =
     push_bit 4 (of_bool (cp_img_enable p)) OR push_bit 3 (of_bool (cp_adc_bulkp_enable p)) OR
     push_bit 2 (of_bool (cp_adc_bulkn_enable p)) OR push_bit 1 (of_bool (cp_adc_pulse_enable p)) OR
     of_bool (cp_pll_enable p)"

definition LR1110_XTAL_FREQ_HZ :: u32 where "LR1110_XTAL_FREQ_HZ = 32000000"
definition LR1110_RTC_FREQ_HZ :: u32 where "LR1110_RTC_FREQ_HZ = 32768"

definition lr_convert_freq_in_hz_to_pll_step :: "u32 \<Rightarrow> u32" where
  "lr_convert_freq_in_hz_to_pll_step f = ucast (push_bit 25 (ucast f :: u64) div ucast LR1110_XTAL_FREQ_HZ)"

definition convert_time_in_ms_to_rtc_step :: "u32 \<Rightarrow> u32" where
  "convert_time_in_ms_to_rtc_step t = ucast ((ucast t :: u64) * ucast LR1110_RTC_FREQ_HZ div 1000)"

section \<open>LR-FHSS\<close>

datatype fhss_modulation_type = Fhss_Gmsk488

fun fhss_modulation_type_value :: "fhss_modulation_type \<Rightarrow> u8" where
  "fhss_modulation_type_value Fhss_Gmsk488 = 0x00"

datatype fhss_coding_rate = FhssCr5_6 | FhssCr2_3 | FhssCr1_2 | FhssCr1_3

fun fhss_coding_rate_value :: "fhss_coding_rate \<Rightarrow> u8" where
  "fhss_coding_rate_value FhssCr5_6 = 0x00"
| "fhss_coding_rate_value FhssCr2_3 = 0x01"
| "fhss_coding_rate_value FhssCr1_2 = 0x02"
| "fhss_coding_rate_value FhssCr1_3 = 0x03"

datatype fhss_grid = FhssGrid25391Hz | FhssGrid3906Hz

fun fhss_grid_value :: "fhss_grid \<Rightarrow> u8" where
  "fhss_grid_value FhssGrid25391Hz = 0x00"
| "fhss_grid_value FhssGrid3906Hz = 0x01"

datatype fhss_bandwidth = FhssBw39063Hz | FhssBw85938Hz | FhssBw136719Hz | FhssBw183594Hz | FhssBw335938Hz
  | FhssBw386719Hz | FhssBw722656Hz | FhssBw773438Hz | FhssBw1523438Hz | FhssBw1574219Hz

fun fhss_bandwidth_value :: "fhss_bandwidth \<Rightarrow> u8" where
  "fhss_bandwidth_value FhssBw39063Hz = 0x00"
| "fhss_bandwidth_value FhssBw85938Hz = 0x01"
| "fhss_bandwidth_value FhssBw136719Hz = 0x02"
| "fhss_bandwidth_value FhssBw183594Hz = 0x03"
| "fhss_bandwidth_value FhssBw335938Hz = 0x04"
| "fhss_bandwidth_value FhssBw386719Hz = 0x05"
| "fhss_bandwidth_value FhssBw722656Hz = 0x06"
| "fhss_bandwidth_value FhssBw773438Hz = 0x07"
| "fhss_bandwidth_value FhssBw1523438Hz = 0x08"
| "fhss_bandwidth_value FhssBw1574219Hz = 0x09"

fun hop_sequence_count :: "fhss_bandwidth \<Rightarrow> fhss_grid \<Rightarrow> u16" where
  "hop_sequence_count FhssBw39063Hz FhssGrid25391Hz = 1"
| "hop_sequence_count FhssBw85938Hz FhssGrid25391Hz = 1"
| "hop_sequence_count FhssBw136719Hz FhssGrid25391Hz = 1"
| "hop_sequence_count FhssBw183594Hz FhssGrid25391Hz = 1"
| "hop_sequence_count FhssBw335938Hz FhssGrid25391Hz = 44"
| "hop_sequence_count FhssBw386719Hz FhssGrid25391Hz = 50"
| "hop_sequence_count FhssBw722656Hz FhssGrid25391Hz = 88"
| "hop_sequence_count FhssBw773438Hz FhssGrid25391Hz = 94"
| "hop_sequence_count FhssBw1523438Hz FhssGrid25391Hz = 176"
| "hop_sequence_count FhssBw1574219Hz FhssGrid25391Hz = 182"
| "hop_sequence_count FhssBw39063Hz FhssGrid3906Hz = 1"
| "hop_sequence_count FhssBw85938Hz FhssGrid3906Hz = 85"
| "hop_sequence_count FhssBw136719Hz FhssGrid3906Hz = 170"
| "hop_sequence_count FhssBw183594Hz FhssGrid3906Hz = 255"
| "hop_sequence_count FhssBw335938Hz FhssGrid3906Hz = 340"
| "hop_sequence_count FhssBw386719Hz FhssGrid3906Hz = 383"
| "hop_sequence_count FhssBw722656Hz FhssGrid3906Hz = 639"
| "hop_sequence_count FhssBw773438Hz FhssGrid3906Hz = 682"
| "hop_sequence_count FhssBw1523438Hz FhssGrid3906Hz = 1192"
| "hop_sequence_count FhssBw1574219Hz FhssGrid3906Hz = 1235"

record lr_fhss_v1_params =
  fh_sync_word :: bytes
  fh_modulation_type :: fhss_modulation_type
  fh_coding_rate :: fhss_coding_rate
  fh_grid :: fhss_grid
  fh_enable_hopping :: bool
  fh_bandwidth :: fhss_bandwidth
  fh_header_count :: u8

record lr_fhss_params =
  fp_lr_fhss_params :: lr_fhss_v1_params
  fp_device_offset :: i8

definition LR_FHSS_DEFAULT_SYNC_WORD :: bytes where
  "LR_FHSS_DEFAULT_SYNC_WORD = [0x2C, 0x0F, 0x79, 0x95]"

definition lr_fhss_get_hop_sequence_count :: "lr_fhss_params \<Rightarrow> u16" where
  "lr_fhss_get_hop_sequence_count p =
     hop_sequence_count (fh_bandwidth (fp_lr_fhss_params p)) (fh_grid (fp_lr_fhss_params p))"

section \<open>Status\<close>

datatype chip_type = Chip_Lr1110 | Chip_Lr1120 | Chip_Lr1121 | Chip_Unknown

definition chip_type_from :: "u8 \<Rightarrow> chip_type" where
  "chip_type_from v =
     (if v = 0x01 then Chip_Lr1110
      else if v = 0x02 then Chip_Lr1120
      else if v = 0x03 then Chip_Lr1121
      else Chip_Unknown)"

record lr_version =
  ver_hw :: u8
  ver_chip_type :: chip_type
  ver_fw :: u16

definition fw_major :: "lr_version \<Rightarrow> u8" where "fw_major v = ucast (drop_bit 8 (ver_fw v))"
definition fw_minor :: "lr_version \<Rightarrow> u8" where "fw_minor v = ucast (ver_fw v AND 0xFF)"

datatype chip_mode = Mode_Sleep | Mode_StandbyRc | Mode_StandbyXosc | Mode_Fs | Mode_Rx | Mode_Tx | Mode_Loc
  | Mode_Unknown

definition chip_mode_from :: "u8 \<Rightarrow> chip_mode" where
  "chip_mode_from v =
     (if v = 0x00 then Mode_Sleep
      else if v = 0x01 then Mode_StandbyRc
      else if v = 0x02 then Mode_StandbyXosc
      else if v = 0x03 then Mode_Fs
      else if v = 0x04 then Mode_Rx
      else if v = 0x05 then Mode_Tx
      else if v = 0x06 then Mode_Loc
      else Mode_Unknown)"

datatype reset_status = Reset_Cleared | Reset_Analog | Reset_External | Reset_System | Reset_Watchdog
  | Reset_IocdRestart | Reset_RtcRestart | Reset_Unknown

definition reset_status_from :: "u8 \<Rightarrow> reset_status" where
  "reset_status_from v =
     (if v = 0x00 then Reset_Cleared
      else if v = 0x01 then Reset_Analog
      else if v = 0x02 then Reset_External
      else if v = 0x03 then Reset_System
      else if v = 0x04 then Reset_Watchdog
      else if v = 0x05 then Reset_IocdRestart
      else if v = 0x06 then Reset_RtcRestart
      else Reset_Unknown)"

datatype command_status = Cmd_Fail | Cmd_PeripheralError | Cmd_Ok | Cmd_Data

definition command_status_from :: "u8 \<Rightarrow> command_status" where
  "command_status_from v =
     (if v = 0x00 then Cmd_Fail
      else if v = 0x01 then Cmd_PeripheralError
      else if v = 0x02 then Cmd_Ok
      else if v = 0x03 then Cmd_Data
      else Cmd_Fail)"

record stat1 =
  st1_command_status :: command_status
  st1_is_interrupt_active :: bool

definition stat1_from :: "u8 \<Rightarrow> stat1" where
  "stat1_from v = \<lparr>st1_command_status = command_status_from (drop_bit 1 v), st1_is_interrupt_active = (v AND 0x01 \<noteq> 0)\<rparr>"

record stat2 =
  st2_reset_status :: reset_status
  st2_chip_mode :: chip_mode
  st2_is_running_from_flash :: bool

definition stat2_from :: "u8 \<Rightarrow> stat2" where
  "stat2_from v =
     \<lparr>st2_reset_status = reset_status_from (drop_bit 4 (v AND 0xF0)),
      st2_chip_mode = chip_mode_from (drop_bit 1 (v AND 0x0E)), st2_is_running_from_flash = (v AND 0x01 \<noteq> 0)\<rparr>"

record system_status =
  ss_stat1 :: stat1
  ss_stat2 :: stat2
  ss_irq_status :: u32

text \<open>The status of the boot loader; its first register keeps the number of the command status.\<close>

datatype bootloader_command_status = BootCmd_Fail | BootCmd_Perr | BootCmd_Ok | BootCmd_Data

definition bootloader_command_status_from :: "u8 \<Rightarrow> bootloader_command_status" where
  "bootloader_command_status_from v =
     (if v AND 0x07 = 0x00 then BootCmd_Fail
      else if v AND 0x07 = 0x01 then BootCmd_Perr
      else if v AND 0x07 = 0x02 then BootCmd_Ok
      else if v AND 0x07 = 0x03 then BootCmd_Data
      else BootCmd_Fail)"

record bootloader_version =
  bv_hw :: u8
  bv_chip_type :: u8
  bv_fw :: u16

record bootloader_stat1 =
  bs1_command_status :: u8
  bs1_is_interrupt_active :: bool

definition bootloader_stat1_from_byte :: "u8 \<Rightarrow> bootloader_stat1" where
  "bootloader_stat1_from_byte b = \<lparr>bs1_command_status = drop_bit 1 b, bs1_is_interrupt_active = (b AND 0x01 \<noteq> 0)\<rparr>"

definition bootloader_stat1_status :: "bootloader_stat1 \<Rightarrow> bootloader_command_status" where
  "bootloader_stat1_status s = bootloader_command_status_from (bs1_command_status s)"

record bootloader_stat2 =
  bs2_is_running_from_flash :: bool
  bs2_chip_mode :: u8
  bs2_reset_status :: u8

definition bootloader_stat2_from_byte :: "u8 \<Rightarrow> bootloader_stat2" where
  "bootloader_stat2_from_byte b =
     \<lparr>bs2_is_running_from_flash = (b AND 0x01 \<noteq> 0), bs2_chip_mode = drop_bit 1 (b AND 0x0F),
      bs2_reset_status = drop_bit 4 (b AND 0xF0)\<rparr>"

record bootloader_status =
  bl_stat1 :: bootloader_stat1
  bl_stat2 :: bootloader_stat2
  bl_irq_status :: u32

section \<open>Timings\<close>

definition RX_DONE_IRQ_PROCESSING_TIME_IN_US :: u32 where "RX_DONE_IRQ_PROCESSING_TIME_IN_US = 74"
definition TX_DONE_IRQ_PROCESSING_TIME_IN_US :: u32 where "TX_DONE_IRQ_PROCESSING_TIME_IN_US = 111"

fun ramp_to_us :: "lr_ramp_time \<Rightarrow> u32" where
  "ramp_to_us LrRamp16Us = 16"
| "ramp_to_us LrRamp32Us = 32"
| "ramp_to_us LrRamp48Us = 48"
| "ramp_to_us LrRamp64Us = 64"
| "ramp_to_us LrRamp80Us = 80"
| "ramp_to_us LrRamp96Us = 96"
| "ramp_to_us LrRamp112Us = 112"
| "ramp_to_us LrRamp128Us = 128"
| "ramp_to_us LrRamp144Us = 144"
| "ramp_to_us LrRamp160Us = 160"
| "ramp_to_us LrRamp176Us = 176"
| "ramp_to_us LrRamp192Us = 192"
| "ramp_to_us LrRamp208Us = 208"
| "ramp_to_us LrRamp240Us = 240"
| "ramp_to_us LrRamp272Us = 272"
| "ramp_to_us LrRamp304Us = 304"

fun lora_rx_input_delay_in_us :: "bandwidth \<Rightarrow> u32" where
  "lora_rx_input_delay_in_us BW_500KHz = 16"
| "lora_rx_input_delay_in_us BW_250KHz = 31"
| "lora_rx_input_delay_in_us BW_125KHz = 57"
| "lora_rx_input_delay_in_us BW_62KHz = 114"
| "lora_rx_input_delay_in_us BW_41KHz = 171"
| "lora_rx_input_delay_in_us BW_31KHz = 228"
| "lora_rx_input_delay_in_us BW_20KHz = 342"
| "lora_rx_input_delay_in_us BW_15KHz = 456"
| "lora_rx_input_delay_in_us BW_10KHz = 684"
| "lora_rx_input_delay_in_us BW_7KHz = 912"

definition lora_symbol_time_in_us :: "spreading_factor \<Rightarrow> bandwidth \<Rightarrow> u32" where
  "lora_symbol_time_in_us sf bw = push_bit (unat (sf_factor sf)) 1 * 1000000 div bw_hz bw"

definition delay_between_last_bit_sent_and_rx_done_in_us :: "spreading_factor \<Rightarrow> bandwidth \<Rightarrow> u32" where
  "delay_between_last_bit_sent_and_rx_done_in_us sf bw =
     lora_rx_input_delay_in_us bw + 2 * lora_symbol_time_in_us sf bw + RX_DONE_IRQ_PROCESSING_TIME_IN_US"

definition delay_between_last_bit_sent_and_tx_done_in_us :: "lr_ramp_time \<Rightarrow> u32" where
  "delay_between_last_bit_sent_and_tx_done_in_us ramp_time = ramp_to_us ramp_time + TX_DONE_IRQ_PROCESSING_TIME_IN_US"

section \<open>RF switch\<close>

record rf_switch_params =
  rf_enable :: u8
  rf_standby :: u8
  rf_rx :: u8
  rf_tx_lp :: u8
  rf_tx_hp :: u8
  rf_tx_hf :: u8
  rf_gnss :: u8
  rf_wifi :: u8

definition rf_switch_params_default :: rf_switch_params where
  "rf_switch_params_default =
     \<lparr>rf_enable = 0x01, rf_standby = 0x00, rf_rx = 0x01, rf_tx_lp = 0x02, rf_tx_hp = 0x02, rf_tx_hf = 0x00,
      rf_gnss = 0x00, rf_wifi = 0x00\<rparr>"

section \<open>Lemmas\<close>

lemma of_be32_be32 [simp]:
  "of_be32 (ucast (drop_bit 24 w)) (ucast (drop_bit 16 w)) (ucast (drop_bit 8 w)) (ucast w) = w"
proof (rule bit_word_eqI)
  fix n assume "n < LENGTH(32)"
  then consider "n < 8" | "8 \<le> n" "n < 16" | "16 \<le> n" "n < 24" | "24 \<le> n" "n < 32" by force
  then show "bit (of_be32 (ucast (drop_bit 24 w)) (ucast (drop_bit 16 w)) (ucast (drop_bit 8 w)) (ucast w)) n = bit w n"
    by cases (auto simp: of_be32_def bit_simps)
qed

lemma u8_bits_above: "\<not> bit (b :: u8) (16 + n)" "\<not> bit (b :: u8) (24 + n)"
  by (auto dest: bit_imp_le_length)

lemma be32_of_be32 [simp]: "be32 (of_be32 a b c d) = [a, b, c, d]"
  by (auto simp: be32_def of_be32_def bit_simps u8_bits_above intro!: bit_word_eqI)

end
