(* ===== verification/Lr1110Interface.thy ===== *)
theory Lr1110Interface
  imports PhyBus
begin

text \<open>
  \<open>Lr1110SpiInterface\<close> of \<open>lora-phy/src/lr1110_interface.rs\<close>: a command is one transaction and its answer another one,
  which starts with the status register Stat1. \<open>SpiDevice::read\<close> is, by its documentation, the transaction of one
  read operation.
\<close>

definition lr_spi_write :: "'w hw \<Rightarrow> bytes \<Rightarrow> ('w, unit) phy" where
  "lr_spi_write H write_buffer = (\<lambda>w. map_spi (hw_write H write_buffer w))"

text \<open>The buffer of the caller is filled also when the read is then refused.\<close>

definition lr_spi_read :: "'w hw \<Rightarrow> (bytes \<times> 'w, unit) phy" where
  "lr_spi_read H = (\<lambda>(buf, w). do {
     (r, bufs, w') \<leftarrow> hw_transaction H [SpiRead buf] w;
     Some (case r of Inl _ \<Rightarrow> Inl SPI | Inr _ \<Rightarrow> Inr (), hd bufs, w')})"

definition lr_spi_response :: "'w hw \<Rightarrow> (bytes \<times> 'w, u8) phy" where
  "lr_spi_response H = (\<lambda>(buf, w). do {
     (r, bufs, w') \<leftarrow> hw_transaction H [SpiRead [0], SpiRead buf] w;
     Some (case r of Inl _ \<Rightarrow> Inl SPI | Inr _ \<Rightarrow> Inr (hd (hd bufs)), bufs ! 1, w')})"

definition lr_intf_write :: "'w hw \<Rightarrow> bytes \<Rightarrow> bool \<Rightarrow> ('w, unit) phy" where
  "lr_intf_write H write_buffer is_sleep_command = steps
     [iv_wait_on_busy H, lr_spi_write H write_buffer, when_do (\<not> is_sleep_command) (iv_wait_on_busy H)]"

definition lr_intf_write_with_payload :: "'w hw \<Rightarrow> bytes \<Rightarrow> bytes \<Rightarrow> bool \<Rightarrow> ('w, unit) phy" where
  "lr_intf_write_with_payload H write_buffer payload is_sleep_command =
     thn (\<lambda>w. do {
           (r, _, w') \<leftarrow> hw_transaction H [SpiWrite write_buffer, SpiWrite payload] w;
           map_spi (Some (r, w'))})
       (when_do (\<not> is_sleep_command) (iv_wait_on_busy H))"

text \<open>Bits 3 to 1 of Stat1 below 2 say that the command failed.\<close>

definition lr_stat1_failed :: "u8 \<Rightarrow> bool" where
  "lr_stat1_failed stat1 \<longleftrightarrow> drop_bit 1 stat1 AND 0x07 < 2"

definition lr_intf_read :: "'w hw \<Rightarrow> bytes \<Rightarrow> (bytes \<times> 'w, unit) phy" where
  "lr_intf_read H write_buffer =
     thn (when_do (write_buffer \<noteq> []) (on_snd (thn (iv_wait_on_busy H) (lr_spi_write H write_buffer))))
      (thn (on_snd (iv_wait_on_busy H))
        (bnd (lr_spi_response H) (\<lambda>stat1. if lr_stat1_failed stat1 then fail (OpError stat1) else ret ())))"

definition lr_intf_read_with_status :: "'w hw \<Rightarrow> bytes \<Rightarrow> (bytes \<times> 'w, u8) phy" where
  "lr_intf_read_with_status H write_buffer =
     thn (when_do (write_buffer \<noteq> []) (on_snd (lr_spi_write H write_buffer)))
      (thn (on_snd (iv_wait_on_busy H)) (lr_spi_response H))"

definition lr_intf_direct_read :: "'w hw \<Rightarrow> (bytes \<times> 'w, unit) phy" where
  "lr_intf_direct_read H = thn (on_snd (iv_wait_on_busy H)) (lr_spi_read H)"

definition lr_intf_wakeup :: "'w hw \<Rightarrow> ('w, unit) phy" where
  "lr_intf_wakeup H = bnd (with_array 1 (lr_spi_read H)) (\<lambda>_. iv_wait_on_busy H)"

section \<open>Lemmas\<close>

lemma lr_intf_read_length:
  fixes H :: "'a hw"
  assumes "hw_ok H"
  shows "post (lr_intf_read H c) (buf, w) (\<lambda>_ s. length (fst s) = length buf)"
proof -
  have "length (bufs ! 1) = length buf" if "hw_transaction H [SpiRead [0], SpiRead buf] w = Some (r, bufs, w')" for bufs r w w'
    using assms that by (fastforce simp: hw_ok_def)
  then have r: "post (lr_spi_response H) (buf, w) (\<lambda>_ s. length (fst s) = length buf)" for w
    by (auto simp: lr_spi_response_def post_def bind_eq_Some_conv)
  let ?ok = "\<lambda>_ s. length (fst s) = length buf"
  let ?answer = "bnd (lr_spi_response H) (\<lambda>stat1. if lr_stat1_failed stat1 then fail (OpError stat1) else ret ())"
  have answer: "post ?answer (buf, w) ?ok" for w
    unfolding post_bnd by (rule post_mono [OF r]) (auto simp: wp split: sum.splits)
  have tail: "post (thn (on_snd m) ?answer) (buf, w) ?ok" for m :: "('a, unit) phy" and w
    unfolding post_thn post_on_snd by (rule post_mono [OF post_true]) (simp add: answer split: sum.split)
  have "post (thn (on_snd k) (thn (on_snd m) ?answer)) (buf, w) ?ok" for k m :: "('a, unit) phy"
    unfolding post_thn [of "on_snd k"] post_on_snd [of k]
    by (rule post_mono [OF post_true]) (simp add: tail split: sum.split)
  then show ?thesis using tail unfolding lr_intf_read_def
    by (cases "c = []") (simp_all add: when_do_def post_thn [of "ret ()"] post_effect)
qed

end
