(* ===== verification/Lr1110.thy ===== *)
theory Lr1110
  imports Lr1110Params Lr1110Interface
begin

text \<open>
  The LR1110 driver (\<open>lora-phy/src/lr1110/mod.rs\<close>), first part: the power tables and the methods that send one command
  or read one answer: system functions, GFSK, LR-FHSS, statistics, the boot loader and the memory of the chip. Every
  one is the transfers it makes over the hardware \<open>H\<close>.
\<close>

section \<open>Power tables\<close>

text \<open>Rows of configured power, duty cycle and number of slices.\<close>

record pa_cfg =
  pc_configured_power :: i8
  pc_pa_duty_cycle :: u8
  pc_pa_hp_sel :: u8

definition pa_cfg_row :: "i8 \<times> u8 \<times> u8 \<Rightarrow> pa_cfg" where
  "pa_cfg_row = (\<lambda>(p, d, h). \<lparr>pc_configured_power = p, pc_pa_duty_cycle = d, pc_pa_hp_sel = h\<rparr>)"

definition LP_MIN :: i8 where "LP_MIN = -17"
definition LP_MAX :: i8 where "LP_MAX = 15"
definition HP_MIN :: i8 where "HP_MIN = -9"
definition HP_MAX :: i8 where "HP_MAX = 22"
definition HF_MIN :: i8 where "HF_MIN = -18"
definition HF_MAX :: i8 where "HF_MAX = 13"
definition HP_VREG_VBAT_SWITCH :: i8 where "HP_VREG_VBAT_SWITCH = 8"

definition LR11XX_PA_LP_LF_CFG_TABLE :: "pa_cfg list" where
  "LR11XX_PA_LP_LF_CFG_TABLE = map pa_cfg_row
    [(-15, 0, 0), (-14, 0, 0), (-13, 0, 0), (-12, 0, 0), (-11, 0, 0), (-9, 0, 0), (-8, 0, 0), (-7, 0, 0),
     (-6, 0, 0), (-5, 0, 0), (-4, 0, 0), (-3, 0, 0), (-2, 0, 0), (-1, 0, 0), (0, 0, 0), (1, 0, 0), (2, 0, 0),
     (3, 0, 0), (3, 1, 0), (4, 1, 0), (7, 0, 0), (8, 0, 0), (9, 0, 0), (10, 0, 0), (12, 0, 0), (13, 0, 0),
     (14, 0, 0), (13, 1, 0), (13, 2, 0), (14, 2, 0), (14, 3, 0), (14, 4, 0), (14, 7, 0)]"

definition LR11XX_PA_HP_LF_CFG_TABLE :: "pa_cfg list" where
  "LR11XX_PA_HP_LF_CFG_TABLE = map pa_cfg_row
    [(9, 0, 0), (10, 0, 0), (11, 0, 0), (12, 0, 0), (13, 0, 0), (13, 1, 0), (13, 2, 0), (17, 2, 0), (14, 4, 0),
     (12, 0, 1), (13, 0, 1), (13, 1, 1), (13, 2, 1), (15, 0, 2), (15, 4, 1), (14, 2, 2), (14, 1, 3),
     (17, 4, 2), (22, 0, 1), (22, 1, 1), (22, 2, 1), (22, 3, 1), (22, 0, 3), (22, 1, 3), (22, 4, 2),
     (22, 1, 4), (22, 2, 4), (22, 1, 6), (22, 3, 5), (22, 3, 7), (22, 4, 6), (22, 4, 7)]"

definition LR11XX_PA_HF_CFG_TABLE :: "pa_cfg list" where
  "LR11XX_PA_HF_CFG_TABLE = map pa_cfg_row
    [(-18, 4, 0), (-18, 4, 0), (-17, 4, 0), (-16, 4, 0), (-15, 4, 0), (-14, 4, 0), (-14, 4, 0), (-12, 4, 0),
     (-10, 4, 0), (-9, 4, 0), (-8, 4, 0), (-7, 4, 0), (-6, 4, 0), (-5, 4, 0), (-4, 4, 0), (-3, 4, 0),
     (-2, 3, 0), (-1, 4, 0), (0, 4, 0), (1, 0, 0), (2, 0, 0), (4, 4, 0), (5, 4, 0), (6, 4, 0), (7, 4, 0),
     (8, 4, 0), (9, 4, 0), (10, 4, 0), (11, 4, 0), (12, 3, 0), (13, 4, 0), (13, 0, 0)]"

definition LR1110_MAX_LORA_SYMB_NUM_TIMEOUT :: u8 where "LR1110_MAX_LORA_SYMB_NUM_TIMEOUT = 248"
definition LR_BRD_TCXO_WAKEUP_TIME :: u32 where "LR_BRD_TCXO_WAKEUP_TIME = 10"
definition LR_RX_CONTINUOUS_TIMEOUT :: u32 where "LR_RX_CONTINUOUS_TIMEOUT = 0xFFFFFF"

record lr_config =
  lc_pa_selection :: lr_pa_selection
  lc_dio_as_rf_switch :: "rf_switch_params option"
  lc_tcxo_ctrl :: "lr_tcxo_voltage option"
  lc_use_dcdc :: bool
  lc_rx_boost :: bool

section \<open>Commands\<close>

definition lr_write_command :: "'w hw \<Rightarrow> bytes \<Rightarrow> ('w, unit) phy" where
  "lr_write_command H data = lr_intf_write H data False"

text \<open>The answer of a command in an array of \<open>n\<close> bytes.\<close>

definition lr_query :: "'w hw \<Rightarrow> nat \<Rightarrow> bytes \<Rightarrow> ('w, bytes) phy" where
  "lr_query H n cmd = bnd (with_array n (lr_intf_read H cmd)) (\<lambda>(_, rbuffer). ret rbuffer)"

definition lr_read_command_with_status :: "'w hw \<Rightarrow> bytes \<Rightarrow> (bytes \<times> 'w, u8) phy" where
  "lr_read_command_with_status H cmd = lr_intf_read_with_status H cmd"

text \<open>The methods for extensions in other crates.\<close>

definition execute_command :: "'w hw \<Rightarrow> bytes \<Rightarrow> ('w, unit) phy" where
  "execute_command H cmd = lr_intf_write H cmd False"

definition execute_command_with_response :: "'w hw \<Rightarrow> bytes \<Rightarrow> (bytes \<times> 'w, unit) phy" where
  "execute_command_with_response H cmd = lr_intf_read H cmd"

definition execute_command_with_payload :: "'w hw \<Rightarrow> bytes \<Rightarrow> bytes \<Rightarrow> ('w, unit) phy" where
  "execute_command_with_payload H cmd payload = lr_intf_write_with_payload H cmd payload False"

definition lr_write_buffer :: "'w hw \<Rightarrow> bytes \<Rightarrow> ('w, unit) phy" where
  "lr_write_buffer H data = lr_intf_write_with_payload H (mem_bytes MemWriteBuffer8) data False"

text \<open>The read fills the slice of the caller's buffer that has the given length.\<close>

definition lr_read_buffer :: "'w hw \<Rightarrow> u8 \<Rightarrow> u8 \<Rightarrow> (bytes \<times> 'w, unit) phy" where
  "lr_read_buffer H offset len =
     on_prefix (unat len) (lr_intf_read H (mem_bytes MemReadBuffer8 @ [offset, len]))"

definition lr_set_lora_symbol_num_timeout :: "'w hw \<Rightarrow> u16 \<Rightarrow> ('w, unit) phy" where
  "lr_set_lora_symbol_num_timeout H symbol_num =
     lr_write_command H (rad_bytes RadSetLoRaSyncTimeout @ [ucast (min symbol_num (ucast LR1110_MAX_LORA_SYMB_NUM_TIMEOUT))])"

definition lr_set_pa_config :: "'w hw \<Rightarrow> lr_pa_selection \<Rightarrow> lr_pa_supply \<Rightarrow> u8 \<Rightarrow> u8 \<Rightarrow> ('w, unit) phy" where
  "lr_set_pa_config H pa_sel pa_supply pa_duty_cycle pa_hp_sel =
     lr_write_command H (rad_bytes RadSetPaCfg @
       [lr_pa_selection_value pa_sel, lr_pa_supply_value pa_supply, pa_duty_cycle, pa_hp_sel])"

definition lr_timeout_1 :: "u32 \<Rightarrow> u8" where "lr_timeout_1 t = ucast (drop_bit 16 t AND 0xFF)"
definition lr_timeout_2 :: "u32 \<Rightarrow> u8" where "lr_timeout_2 t = ucast (drop_bit 8 t AND 0xFF)"
definition lr_timeout_3 :: "u32 \<Rightarrow> u8" where "lr_timeout_3 t = ucast (t AND 0xFF)"

text \<open>The three bytes of a time in steps of the clock, as every command writes them.\<close>

definition be24 :: "u32 \<Rightarrow> bytes" where
  "be24 t = [lr_timeout_1 t, lr_timeout_2 t, lr_timeout_3 t]"

section \<open>LR-FHSS\<close>

definition lr_fhss_init :: "'w hw \<Rightarrow> ('w, unit) phy" where
  "lr_fhss_init H = steps
     [lr_write_command H (rad_bytes RadSetPktType @ [lr_packet_type_value LrPkt_LrFhss]),
      lr_write_command H (rad_bytes RadSetModulationParam @ be32 0x8001E848 @ [0x0B])]"

definition lr_fhss_set_sync_word :: "'w hw \<Rightarrow> bytes \<Rightarrow> ('w, unit) phy" where
  "lr_fhss_set_sync_word H sync_word =
     lr_write_command H (rad_bytes RadSetLrFhssSyncWord @ [sync_word ! 0, sync_word ! 1, sync_word ! 2, sync_word ! 3])"

definition lr_fhss_build_frame :: "'w hw \<Rightarrow> lr_fhss_params \<Rightarrow> u16 \<Rightarrow> bytes \<Rightarrow> ('w, unit) phy" where
  "lr_fhss_build_frame H params hop_sequence_id payload =
     (let p = fp_lr_fhss_params params
      in thn (lr_fhss_set_sync_word H (fh_sync_word p))
           (lr_intf_write_with_payload H (fhss_bytes FhssBuildFrame @
              [fh_header_count p, fhss_coding_rate_value (fh_coding_rate p),
               fhss_modulation_type_value (fh_modulation_type p), fhss_grid_value (fh_grid p),
               of_bool (fh_enable_hopping p), fhss_bandwidth_value (fh_bandwidth p),
               ucast (drop_bit 8 hop_sequence_id AND 0xFF), ucast (hop_sequence_id AND 0xFF), fp_device_offset params])
             payload False))"

section \<open>System\<close>

definition HIGH_ACP_WORKAROUND_REG :: u32 where "HIGH_ACP_WORKAROUND_REG = 0x00F30054"

definition apply_high_acp_workaround :: "'w hw \<Rightarrow> ('w, unit) phy" where
  "apply_high_acp_workaround H = lr_write_command H
     (mem_bytes MemWriteRegMem32Mask @ be32 HIGH_ACP_WORKAROUND_REG @ be32 (push_bit 30 1) @ be32 0)"

definition lr_set_tcxo_mode :: "'w hw \<Rightarrow> lr_tcxo_voltage \<Rightarrow> u32 \<Rightarrow> ('w, unit) phy" where
  "lr_set_tcxo_mode H voltage timeout =
     lr_write_command H (sys_bytes SysSetTcxoMode @ [lr_tcxo_voltage_value voltage] @ be24 timeout)"

definition lr_init_system :: "'w hw \<Rightarrow> lr_config \<Rightarrow> ('w, unit) phy" where
  "lr_init_system H cfg =
     thn (when_do (lc_use_dcdc cfg)
            (lr_write_command H (sys_bytes SysSetRegMode @ [lr_regulator_mode_value LrReg_Dcdc])))
       (case lc_tcxo_ctrl cfg of None \<Rightarrow> ret ()
        | Some voltage \<Rightarrow> steps
            [lr_write_command H (sys_bytes SysClearErrors),
             lr_set_tcxo_mode H voltage (LR_BRD_TCXO_WAKEUP_TIME * 32768 div 1000),
             lr_write_command H (sys_bytes SysCalibrate @ [0x7F])])"

definition lr_wakeup :: "'w hw \<Rightarrow> ('w, unit) phy" where
  "lr_wakeup H = lr_intf_wakeup H"

definition set_dio_as_rf_switch :: "'w hw \<Rightarrow> rf_switch_params \<Rightarrow> ('w, unit) phy" where
  "set_dio_as_rf_switch H c = lr_write_command H (sys_bytes SysSetDioAsRfSwitch @
     [rf_enable c AND 0x1f, rf_standby c AND 0x1f, rf_rx c AND 0x1f, rf_tx_lp c AND 0x1f, rf_tx_hp c AND 0x1f,
      rf_tx_hf c AND 0x1f, rf_gnss c AND 0x1f, rf_wifi c AND 0x1f])"

definition lr_get_version :: "'w hw \<Rightarrow> ('w, lr_version) phy" where
  "lr_get_version H = bnd (lr_query H 4 (sys_bytes SysGetVersion)) (\<lambda>b.
     ret \<lparr>ver_hw = b ! 0, ver_chip_type = chip_type_from (b ! 1), ver_fw = of_be16 (b ! 2) (b ! 3)\<rparr>)"

text \<open>This read goes through \<open>read\<close>, which takes the first byte of the answer for itself.\<close>

definition lr_get_status :: "'w hw \<Rightarrow> ('w, system_status) phy" where
  "lr_get_status H = bnd (lr_query H 6 []) (\<lambda>b.
     ret \<lparr>ss_stat1 = stat1_from (b ! 0), ss_stat2 = stat2_from (b ! 1),
          ss_irq_status = of_be32 (b ! 2) (b ! 3) (b ! 4) (b ! 5)\<rparr>)"

definition lr_get_temp :: "'w hw \<Rightarrow> ('w, u16) phy" where
  "lr_get_temp H = bnd (lr_query H 2 (sys_bytes SysGetTemp)) (\<lambda>b. ret (of_be16 (b ! 0) (b ! 1)))"

definition lr_get_vbat :: "'w hw \<Rightarrow> ('w, u8) phy" where
  "lr_get_vbat H = bnd (lr_query H 1 (sys_bytes SysGetVbat)) (\<lambda>b. ret (b ! 0))"

definition lr_get_random_number :: "'w hw \<Rightarrow> ('w, u32) phy" where
  "lr_get_random_number H = bnd (lr_query H 4 (sys_bytes SysGetRandom)) (\<lambda>b.
     ret (of_be32 (b ! 0) (b ! 1) (b ! 2) (b ! 3)))"

definition lr_read_uid :: "'w hw \<Rightarrow> ('w, bytes) phy" where
  "lr_read_uid H = lr_query H 8 (sys_bytes SysReadUid)"

definition lr_read_join_eui :: "'w hw \<Rightarrow> ('w, bytes) phy" where
  "lr_read_join_eui H = lr_query H 8 (sys_bytes SysReadJoinEui)"

definition lr_get_errors :: "'w hw \<Rightarrow> ('w, u16) phy" where
  "lr_get_errors H = bnd (lr_query H 2 (sys_bytes SysGetErrors)) (\<lambda>b. ret (of_be16 (b ! 0) (b ! 1)))"

definition lr_clear_errors :: "'w hw \<Rightarrow> ('w, unit) phy" where
  "lr_clear_errors H = lr_write_command H (sys_bytes SysClearErrors)"

definition lr_clear_all_irq :: "'w hw \<Rightarrow> ('w, unit) phy" where
  "lr_clear_all_irq H = lr_write_command H (sys_bytes SysClearIrq @ [0xFF, 0xFF, 0xFF, 0xFF])"

definition lr_set_standby_mode :: "'w hw \<Rightarrow> bool \<Rightarrow> ('w, unit) phy" where
  "lr_set_standby_mode H use_xosc = thn (iv_disable_rf_switch H)
     (lr_write_command H (sys_bytes SysSetStandby @
        [lr_standby_mode_value (if use_xosc then LrStandby_Xosc else LrStandby_Rc)]))"

definition get_irq_flags :: "'w hw \<Rightarrow> ('w, u32) phy" where
  "get_irq_flags H = bnd (with_array 6 (lr_intf_direct_read H)) (\<lambda>(_, b).
     ret (of_be32 (b ! 2) (b ! 3) (b ! 4) (b ! 5)))"

text \<open>What the flags mean in a mode, with the new value of the caller's flag.\<close>

definition interpret_irq_flags ::
  "u32 \<Rightarrow> radio_mode \<Rightarrow> bool option \<Rightarrow> (radio_error + irq_state option) \<times> bool option" where
  "interpret_irq_flags irq_flags radio_mode cad =
     (case radio_mode of
        Transmit \<Rightarrow>
          (if lr_irq_is_set LrIrq_TxDone irq_flags then Inr (Some IrqDone)
           else if lr_irq_is_set LrIrq_Timeout irq_flags then Inl TransmitTimeout
           else if irq_flags = 0 then Inr (Some IrqDone) else Inr None, cad)
      | Receive _ \<Rightarrow>
          (if lr_irq_is_set LrIrq_RxDone irq_flags then Inr (Some IrqDone)
           else if lr_irq_is_set LrIrq_Timeout irq_flags then Inl ReceiveTimeout
           else if lr_irq_is_set LrIrq_PreambleDetected irq_flags \<or> lr_irq_is_set LrIrq_SyncWordHeaderValid irq_flags
           then Inr (Some PreambleReceived) else Inr None, cad)
      | ChannelActivityDetection \<Rightarrow>
          (if lr_irq_is_set LrIrq_CadDone irq_flags
           then (Inr (Some IrqDone), map_option (\<lambda>_. lr_irq_is_set LrIrq_CadDetected irq_flags) cad)
           else (Inr None, cad))
      | _ \<Rightarrow> (Inr None, cad))"

definition clear_irq_flags :: "'w hw \<Rightarrow> u32 \<Rightarrow> ('w, unit) phy" where
  "clear_irq_flags H irq_flags =
     (if irq_flags = 0 then ret () else lr_write_command H (sys_bytes SysClearIrq @ be32 irq_flags))"

section \<open>GFSK\<close>

definition set_gfsk_mod_params :: "'w hw \<Rightarrow> gfsk_modulation_params \<Rightarrow> ('w, unit) phy" where
  "set_gfsk_mod_params H params = lr_write_command H (rad_bytes RadSetModulationParam @
     be32 (gm_bitrate_bps params) @ [gfsk_pulse_shape_value (gm_pulse_shape params),
     gfsk_bandwidth_value (gm_bandwidth params)] @ be32 (gm_freq_dev_hz params))"

definition set_gfsk_pkt_params :: "'w hw \<Rightarrow> gfsk_packet_params \<Rightarrow> ('w, unit) phy" where
  "set_gfsk_pkt_params H params = lr_write_command H (rad_bytes RadSetPktParam @ be16 (gp_preamble_length params) @
     [gfsk_preamble_detector_value (gp_preamble_detector params), gp_sync_word_length_bits params,
      gfsk_address_filtering_value (gp_address_filtering params), gfsk_header_type_value (gp_header_type params),
      gp_payload_length params, gfsk_crc_type_value (gp_crc_type params), gfsk_dc_free_value (gp_dc_free params)])"

definition set_gfsk_sync_word :: "'w hw \<Rightarrow> bytes \<Rightarrow> ('w, unit) phy" where
  "set_gfsk_sync_word H sync_word =
     (if GFSK_SYNC_WORD_MAX_LENGTH < length sync_word
      then fail (PayloadSizeMismatch GFSK_SYNC_WORD_MAX_LENGTH (length sync_word))
      else bnd (of_run (copy_range (rad_bytes RadSetGfskSyncWord @ replicate 8 0) 2 (2 + length sync_word) sync_word))
             (lr_write_command H))"

definition set_gfsk_crc_params :: "'w hw \<Rightarrow> u32 \<Rightarrow> u32 \<Rightarrow> ('w, unit) phy" where
  "set_gfsk_crc_params H seed polynomial =
     lr_write_command H (rad_bytes RadSetGfskCrcParams @ be32 seed @ be32 polynomial)"

definition set_gfsk_whitening_params :: "'w hw \<Rightarrow> u16 \<Rightarrow> ('w, unit) phy" where
  "set_gfsk_whitening_params H seed = lr_write_command H (rad_bytes RadSetGfskWhiteningParams @ be16 seed)"

definition set_gfsk_pkt_address :: "'w hw \<Rightarrow> u8 \<Rightarrow> u8 \<Rightarrow> ('w, unit) phy" where
  "set_gfsk_pkt_address H node_address broadcast_address =
     lr_write_command H (rad_bytes RadSetPktAdrs @ [node_address, broadcast_address])"

text \<open>\<open>-((b as i16) / 2)\<close>\<close>

definition lr_half_rssi :: "u8 \<Rightarrow> i16" where
  "lr_half_rssi b = - (ucast b div 2)"

definition get_gfsk_packet_status :: "'w hw \<Rightarrow> ('w, u8 \<times> i16 \<times> i16) phy" where
  "get_gfsk_packet_status H = bnd (lr_query H 4 (rad_bytes RadGetPktStatus)) (\<lambda>b.
     ret (b ! 2, lr_half_rssi (b ! 0), lr_half_rssi (b ! 1)))"

section \<open>Statistics and advanced features\<close>

definition lora_stats_of :: "bytes \<Rightarrow> lora_stats" where
  "lora_stats_of b = \<lparr>ls_nb_pkt_received = of_be16 (b ! 0) (b ! 1), ls_nb_pkt_crc_error = of_be16 (b ! 2) (b ! 3),
     ls_nb_pkt_header_error = of_be16 (b ! 4) (b ! 5), ls_nb_pkt_false_sync = of_be16 (b ! 6) (b ! 7)\<rparr>"

definition get_stats :: "'w hw \<Rightarrow> ('w, radio_stats) phy" where
  "get_stats H = bnd (lr_query H 8 (rad_bytes RadGetStats)) (\<lambda>b. ret (LoRaStats (lora_stats_of b)))"

definition get_gfsk_stats :: "'w hw \<Rightarrow> ('w, gfsk_stats) phy" where
  "get_gfsk_stats H = bnd (lr_query H 6 (rad_bytes RadGetStats)) (\<lambda>b.
     ret \<lparr>gs_nb_pkt_received = of_be16 (b ! 0) (b ! 1), gs_nb_pkt_crc_error = of_be16 (b ! 2) (b ! 3),
          gs_nb_pkt_len_error = of_be16 (b ! 4) (b ! 5)\<rparr>)"

definition get_lora_stats :: "'w hw \<Rightarrow> ('w, lora_stats) phy" where
  "get_lora_stats H = bnd (lr_query H 8 (rad_bytes RadGetStats)) (\<lambda>b. ret (lora_stats_of b))"

definition reset_stats :: "'w hw \<Rightarrow> ('w, unit) phy" where
  "reset_stats H = lr_write_command H (rad_bytes RadResetStats)"

definition set_rx_duty_cycle :: "'w hw \<Rightarrow> u32 \<Rightarrow> u32 \<Rightarrow> u8 \<Rightarrow> ('w, unit) phy" where
  "set_rx_duty_cycle H rx_period_rtc sleep_period_rtc rx_period_type =
     lr_write_command H (rad_bytes RadSetRxDutyCycle @ be24 rx_period_rtc @ be24 sleep_period_rtc @ [rx_period_type])"

definition set_auto_tx_rx :: "'w hw \<Rightarrow> u32 \<Rightarrow> lr_intermediary_mode \<Rightarrow> u32 \<Rightarrow> ('w, unit) phy" where
  "set_auto_tx_rx H delay_rtc intermediary_mode timeout_rtc =
     lr_write_command H (rad_bytes RadAutoTxRx @ be24 delay_rtc @ [lr_intermediary_mode_value intermediary_mode] @
       be24 timeout_rtc)"

definition set_rx_tx_fallback_mode :: "'w hw \<Rightarrow> lr_fallback_mode \<Rightarrow> ('w, unit) phy" where
  "set_rx_tx_fallback_mode H fallback_mode =
     lr_write_command H (rad_bytes RadSetRxTxFallbackMode @ [lr_fallback_mode_value fallback_mode])"

definition get_rssi_inst :: "'w hw \<Rightarrow> ('w, i16) phy" where
  "get_rssi_inst H = bnd (lr_query H 1 (rad_bytes RadGetRssiInst)) (\<lambda>b. ret (lr_half_rssi (b ! 0)))"

section \<open>Boot loader\<close>

text \<open>The answer goes into the last four of six zeros.\<close>

definition bootloader_get_status :: "'w hw \<Rightarrow> ('w, bootloader_status) phy" where
  "bootloader_get_status H = thn (iv_wait_on_busy H) (bnd (lr_query H 4 (boot_bytes BootGetStatus)) (\<lambda>tail.
     let b = [0, 0] @ tail
     in ret \<lparr>bl_stat1 = bootloader_stat1_from_byte (b ! 0), bl_stat2 = bootloader_stat2_from_byte (b ! 1),
             bl_irq_status = of_be32 (b ! 2) (b ! 3) (b ! 4) (b ! 5)\<rparr>))"

definition bootloader_clear_reset_status :: "'w hw \<Rightarrow> ('w, unit) phy" where
  "bootloader_clear_reset_status H = lr_write_command H (boot_bytes BootGetStatus)"

definition bootloader_get_version :: "'w hw \<Rightarrow> ('w, bootloader_version) phy" where
  "bootloader_get_version H = bnd (lr_query H 4 (boot_bytes BootGetVersion)) (\<lambda>b.
     ret \<lparr>bv_hw = b ! 0, bv_chip_type = b ! 1, bv_fw = of_be16 (b ! 2) (b ! 3)\<rparr>)"

definition bootloader_erase_flash :: "'w hw \<Rightarrow> ('w, unit) phy" where
  "bootloader_erase_flash H = lr_write_command H (boot_bytes BootEraseFlash)"

text \<open>The words of a slice, each with its most significant byte first.\<close>

definition words_bytes :: "u32 list \<Rightarrow> bytes" where
  "words_bytes ws = concat (map be32 ws)"

definition BOOTLOADER_FLASH_BLOCK_SIZE_WORDS :: nat where "BOOTLOADER_FLASH_BLOCK_SIZE_WORDS = 64"

definition bootloader_write_flash_encrypted :: "'w hw \<Rightarrow> u32 \<Rightarrow> u32 list \<Rightarrow> ('w, unit) phy" where
  "bootloader_write_flash_encrypted H offset data =
     (if BOOTLOADER_FLASH_BLOCK_SIZE_WORDS < length data
      then fail (PayloadSizeMismatch BOOTLOADER_FLASH_BLOCK_SIZE_WORDS (length data))
      else lr_write_command H (boot_bytes BootWriteFlashEncrypted @ be32 offset @ words_bytes data))"

definition bootloader_reboot :: "'w hw \<Rightarrow> bool \<Rightarrow> ('w, unit) phy" where
  "bootloader_reboot H stay_in_bootloader =
     lr_write_command H (boot_bytes BootReboot @ [if stay_in_bootloader then 0x03 else 0x00])"

definition bootloader_read_pin :: "'w hw \<Rightarrow> ('w, bytes) phy" where
  "bootloader_read_pin H = lr_query H 4 (boot_bytes BootGetPin)"

definition bootloader_read_chip_eui :: "'w hw \<Rightarrow> ('w, bytes) phy" where
  "bootloader_read_chip_eui H = lr_query H 8 (boot_bytes BootReadChipEui)"

definition bootloader_read_join_eui :: "'w hw \<Rightarrow> ('w, bytes) phy" where
  "bootloader_read_join_eui H = lr_query H 8 (boot_bytes BootReadJoinEui)"

section \<open>Registers and memory\<close>

definition REGMEM_MAX_READ_WRITE_WORDS :: nat where "REGMEM_MAX_READ_WRITE_WORDS = 64"

definition regmem_write_regmem32 :: "'w hw \<Rightarrow> u32 \<Rightarrow> u32 list \<Rightarrow> ('w, unit) phy" where
  "regmem_write_regmem32 H address data =
     (if REGMEM_MAX_READ_WRITE_WORDS < length data
      then fail (PayloadSizeMismatch REGMEM_MAX_READ_WRITE_WORDS (length data))
      else thn (iv_wait_on_busy H)
             (lr_intf_write_with_payload H (mem_bytes MemWriteRegMem32 @ be32 address) (words_bytes data) False))"

text \<open>The words that are written back into the caller's buffer, four bytes each.\<close>

fun bytes_words :: "bytes \<Rightarrow> u32 list" where
  "bytes_words (a # b # c # d # bs) = of_be32 a b c d # bytes_words bs"
| "bytes_words _ = []"

text \<open>The caller's buffer is changed only when the read succeeds.\<close>

definition regmem_read_regmem32 :: "'w hw \<Rightarrow> u32 \<Rightarrow> (u32 list \<times> 'w, nat) phy" where
  "regmem_read_regmem32 H address = peek (\<lambda>(buffer, _).
     if REGMEM_MAX_READ_WRITE_WORDS < length buffer
     then fail (PayloadSizeMismatch REGMEM_MAX_READ_WRITE_WORDS (length buffer))
     else bnd (on_snd (lr_query H (length buffer * 4)
                 (mem_bytes MemReadRegMem32 @ be32 address @ [of_nat (length buffer)])))
            (\<lambda>rbuffer. thn (modify (\<lambda>(_, w). (bytes_words rbuffer, w))) (ret (length buffer))))"

definition regmem_write_mem8 :: "'w hw \<Rightarrow> u32 \<Rightarrow> bytes \<Rightarrow> ('w, unit) phy" where
  "regmem_write_mem8 H address data = thn (iv_wait_on_busy H)
     (lr_intf_write_with_payload H (mem_bytes MemWriteMem8 @ be32 address) data False)"

text \<open>The length on the wire is a byte, whatever the length of the buffer.\<close>

definition regmem_read_mem8 :: "'w hw \<Rightarrow> u32 \<Rightarrow> (bytes \<times> 'w, nat) phy" where
  "regmem_read_mem8 H address = peek (\<lambda>(buffer, _).
     thn (lr_intf_read H (mem_bytes MemReadMem8 @ be32 address @ [of_nat (length buffer)])) (ret (length buffer)))"

definition regmem_write_buffer8 :: "'w hw \<Rightarrow> bytes \<Rightarrow> ('w, unit) phy" where
  "regmem_write_buffer8 H data = thn (iv_wait_on_busy H)
     (lr_intf_write_with_payload H (mem_bytes MemWriteBuffer8) data False)"

definition regmem_read_buffer8 :: "'w hw \<Rightarrow> u8 \<Rightarrow> (bytes \<times> 'w, nat) phy" where
  "regmem_read_buffer8 H offset = peek (\<lambda>(buffer, _).
     thn (lr_intf_read H (mem_bytes MemReadBuffer8 @ [offset, of_nat (length buffer)])) (ret (length buffer)))"

definition regmem_clear_rxbuffer :: "'w hw \<Rightarrow> ('w, unit) phy" where
  "regmem_clear_rxbuffer H = lr_write_command H (mem_bytes MemClearRxBuffer)"

definition regmem_write_regmem32_mask :: "'w hw \<Rightarrow> u32 \<Rightarrow> u32 \<Rightarrow> u32 \<Rightarrow> ('w, unit) phy" where
  "regmem_write_regmem32_mask H address bits data =
     lr_write_command H (mem_bytes MemWriteRegMem32Mask @ be32 address @ be32 bits @ be32 data)"

section \<open>Lemmas\<close>

lemma length_op_bytes [simp]:
  "length (sys_bytes a) = 2" "length (rad_bytes b) = 2" "length (mem_bytes c) = 2" "length (boot_bytes d) = 2"
  "length (fhss_bytes e) = 2"
  by (simp_all add: sys_bytes_def rad_bytes_def mem_bytes_def boot_bytes_def fhss_bytes_def be16_def)

lemma op_bytes_nonempty [simp]:
  "sys_bytes a @ x \<noteq> []" "rad_bytes b @ x \<noteq> []" "mem_bytes c @ x \<noteq> []" "boot_bytes d @ x \<noteq> []"
  "sys_bytes a \<noteq> []" "rad_bytes b \<noteq> []" "mem_bytes c \<noteq> []" "boot_bytes d \<noteq> []"
  by (simp_all add: sys_bytes_def rad_bytes_def mem_bytes_def boot_bytes_def be16_def)

lemma bytes_words_words_bytes: "bytes_words (words_bytes ws) = ws"
  by (induction ws) (simp_all add: words_bytes_def be32_def)

lemma words_bytes_length [simp]: "length (words_bytes ws) = 4 * length ws"
  by (induction ws) (simp_all add: words_bytes_def be32_def)

end
