(* ===== verification/Lr1110Kind.thy ===== *)
theory Lr1110Kind
  imports Lr1110 LoRaFacts
begin

text \<open>
  The LR1110 driver, second part: its implementation of \<open>RadioKind\<close> (\<open>lora-phy/src/lr1110/mod.rs\<close>), and what holds of it
  on any hardware.
\<close>

section \<open>Initialisation and parameters\<close>

definition lr_set_lora_sync_word :: "'w hw \<Rightarrow> u16 \<Rightarrow> ('w, unit) phy" where
  "lr_set_lora_sync_word H sync_word =
     bnd (of_result (sync_word_to_legacy sync_word)) (\<lambda>word. lr_write_command H (rad_bytes RadSetLoRaSyncWord @ [word]))"

definition lr_set_tx_rx_buffer_base_address :: "nat \<Rightarrow> nat \<Rightarrow> ('w, unit) phy" where
  "lr_set_tx_rx_buffer_base_address tx_base_addr rx_base_addr = ret ()"

definition lr_init_lora :: "'w hw \<Rightarrow> lr_config \<Rightarrow> u16 \<Rightarrow> ('w, unit) phy" where
  "lr_init_lora H cfg sync_word = steps
     [lr_init_system H cfg,
      (case lc_dio_as_rf_switch cfg of Some c \<Rightarrow> set_dio_as_rf_switch H c | None \<Rightarrow> ret ()),
      lr_write_command H (rad_bytes RadSetPktType @ [lr_packet_type_value LrPkt_LoRa]),
      lr_set_lora_sync_word H sync_word,
      lr_set_tx_rx_buffer_base_address 0 0]"

definition lr_create_modulation_params ::
  "spreading_factor \<Rightarrow> bandwidth \<Rightarrow> coding_rate \<Rightarrow> u32 \<Rightarrow> radio_error + modulation_params" where
  "lr_create_modulation_params sf bw cr frequency_in_hz =
     (case lr_sf_value sf of Inl e \<Rightarrow> Inl e | Inr _ \<Rightarrow>
      case lr_bw_value bw of Inl e \<Rightarrow> Inl e | Inr _ \<Rightarrow>
      case lr_cr_value cr of Inl e \<Rightarrow> Inl e | Inr _ \<Rightarrow>
        if (bw = BW_250KHz \<or> bw = BW_500KHz) \<and> frequency_in_hz < 400000000 then Inl InvalidBandwidthForFrequency
        else Inr \<lparr>mp_sf = sf, mp_bw = bw, mp_cr = cr,
          mp_ldro = (if (sf = SF_11 \<or> sf = SF_12) \<and> bw = BW_125KHz \<or> sf = SF_12 \<and> bw = BW_250KHz then 1 else 0),
          mp_frequency = frequency_in_hz\<rparr>)"

definition lr_create_packet_params ::
  "u16 \<Rightarrow> bool \<Rightarrow> u8 \<Rightarrow> bool \<Rightarrow> bool \<Rightarrow> modulation_params \<Rightarrow> radio_error + packet_params" where
  "lr_create_packet_params preamble_length implicit_header payload_length crc_on iq_inverted m =
     Inr \<lparr>pp_preamble_length =
            (if (mp_sf m = SF_5 \<or> mp_sf m = SF_6) \<and> preamble_length < 12 then 12 else preamble_length),
          pp_implicit_header = implicit_header, pp_payload_length = payload_length, pp_crc_on = crc_on,
          pp_iq_inverted = iq_inverted\<rparr>"

section \<open>Modes\<close>

definition lr_ensure_ready :: "'w hw \<Rightarrow> radio_mode \<Rightarrow> ('w, unit) phy" where
  "lr_ensure_ready H mode = (case mode of Sleep \<Rightarrow> lr_intf_wakeup H | _ \<Rightarrow> iv_wait_on_busy H)"

definition lr_set_standby :: "'w hw \<Rightarrow> ('w, unit) phy" where
  "lr_set_standby H = thn (lr_write_command H (sys_bytes SysSetStandby @ [lr_standby_mode_value LrStandby_Rc]))
     (iv_disable_rf_switch H)"

definition lr_set_sleep :: "'w hw \<Rightarrow> bool \<Rightarrow> ('w, unit) phy" where
  "lr_set_sleep H warm_start_if_possible = steps
     [iv_disable_rf_switch H,
      lr_intf_write H (sys_bytes SysSetSleep @
        [lr_sleep_params_value \<lparr>lsp_warm_start = warm_start_if_possible, lsp_rtc_wakeup = False\<rparr>, 0x00, 0x00, 0x00, 0x00])
        True,
      modify (hw_delay_ms H 2)]"

section \<open>Power\<close>

text \<open>\<open>table[(clamped - MIN) as usize]\<close>: the clamped request and its row.\<close>

definition lr_pa_row :: "pa_cfg list \<Rightarrow> i8 \<Rightarrow> i8 \<Rightarrow> i32 \<Rightarrow> (i32 \<times> pa_cfg) run" where
  "lr_pa_row table lo hi output_power = do {
     clamped \<leftarrow> (if sint hi < sint lo then None
       else Some (if sint output_power < sint lo then scast lo else if sint hi < sint output_power then scast hi else output_power));
     row \<leftarrow> idx table (unat (clamped - scast lo));
     Some (clamped, row)}"

definition lr_pa_select ::
  "lr_pa_selection \<Rightarrow> i32 \<Rightarrow> modulation_params option \<Rightarrow> (radio_error + u8 \<times> u8 \<times> u8 \<times> lr_pa_supply) run" where
  "lr_pa_select pa output_power mdltn_params =
     (case pa of
        LrPa_Lp \<Rightarrow> do {
          (clamped, row) \<leftarrow> lr_pa_row LR11XX_PA_LP_LF_CFG_TABLE LP_MIN LP_MAX output_power;
          Some (if 0x04 < pc_pa_duty_cycle row \<and> (case mdltn_params of Some m \<Rightarrow> mp_frequency m < 400000000 | None \<Rightarrow> False)
            then Inl InvalidOutputPowerForFrequency
            else Inr (pc_configured_power row, pc_pa_duty_cycle row, pc_pa_hp_sel row, LrSupply_Vreg))}
      | LrPa_Hp \<Rightarrow> do {
          (clamped, row) \<leftarrow> lr_pa_row LR11XX_PA_HP_LF_CFG_TABLE HP_MIN HP_MAX output_power;
          Some (Inr (pc_configured_power row, pc_pa_duty_cycle row, pc_pa_hp_sel row,
            if sint clamped \<le> sint HP_VREG_VBAT_SWITCH then LrSupply_Vreg else LrSupply_Vbat))}
      | LrPa_Hf \<Rightarrow> do {
          (clamped, row) \<leftarrow> lr_pa_row LR11XX_PA_HF_CFG_TABLE HF_MIN HF_MAX output_power;
          Some (Inr (pc_configured_power row, pc_pa_duty_cycle row, pc_pa_hp_sel row, LrSupply_Vreg))})"

definition lr_set_tx_power_and_ramp_time ::
  "'w hw \<Rightarrow> lr_config \<Rightarrow> i32 \<Rightarrow> modulation_params option \<Rightarrow> bool \<Rightarrow> ('w, unit) phy" where
  "lr_set_tx_power_and_ramp_time H cfg output_power mdltn_params is_tx_prep =
     bnd (bnd (of_run (lr_pa_select (lc_pa_selection cfg) output_power mdltn_params)) of_result)
       (\<lambda>(tx_power, pa_duty_cycle, pa_hp_sel, pa_supply).
         thn (lr_set_pa_config H (lc_pa_selection cfg) pa_supply pa_duty_cycle pa_hp_sel)
           (lr_write_command H (rad_bytes RadSetTxParams @ [tx_power, lr_ramp_time_value LrRamp208Us])))"

section \<open>Radio parameters\<close>

definition lr_set_modulation_params :: "'w hw \<Rightarrow> modulation_params \<Rightarrow> ('w, unit) phy" where
  "lr_set_modulation_params H m =
     bnd (of_result (lr_sf_value (mp_sf m))) (\<lambda>spreading_factor_val.
     bnd (of_result (lr_bw_value (mp_bw m))) (\<lambda>bandwidth_val.
     bnd (of_result (lr_cr_value (mp_cr m))) (\<lambda>coding_rate_val.
       lr_write_command H (rad_bytes RadSetModulationParam @
         [spreading_factor_val, bandwidth_val, coding_rate_val, mp_ldro m]))))"

definition lr_set_packet_params :: "'w hw \<Rightarrow> packet_params \<Rightarrow> ('w, unit) phy" where
  "lr_set_packet_params H p = lr_write_command H (rad_bytes RadSetPktParam @ be16 (pp_preamble_length p) @
     [lr_header_type_value (if pp_implicit_header p then LrHeader_Implicit else LrHeader_Explicit), pp_payload_length p,
      lr_crc_value (if pp_crc_on p then LrCrc_On else LrCrc_Off),
      lr_iq_value (if pp_iq_inverted p then LrIq_Inverted else LrIq_Standard)])"

definition lr_cal_freq :: "u32 \<Rightarrow> bytes" where
  "lr_cal_freq frequency_in_hz =
     (if 900000000 < frequency_in_hz then [0xE1, 0xE9]
      else if 850000000 < frequency_in_hz then [0xD7, 0xDB]
      else if 770000000 < frequency_in_hz then [0xC1, 0xC5]
      else if 460000000 < frequency_in_hz then [0x75, 0x81]
      else [0x6B, 0x6F])"

definition lr_calibrate_image :: "'w hw \<Rightarrow> u32 \<Rightarrow> ('w, unit) phy" where
  "lr_calibrate_image H frequency_in_hz = lr_write_command H (sys_bytes SysCalibrateImage @ lr_cal_freq frequency_in_hz)"

definition lr_set_channel :: "'w hw \<Rightarrow> u32 \<Rightarrow> ('w, unit) phy" where
  "lr_set_channel H frequency_in_hz = lr_write_command H (rad_bytes RadSetRfFrequency @ be32 frequency_in_hz)"

section \<open>Sending and receiving\<close>

definition lr_set_payload :: "'w hw \<Rightarrow> bytes \<Rightarrow> ('w, unit) phy" where
  "lr_set_payload H payload = lr_write_buffer H payload"

definition lr_do_tx :: "'w hw \<Rightarrow> lr_config \<Rightarrow> ('w, unit) phy" where
  "lr_do_tx H cfg = steps
     [iv_rf_switch_tx H,
      lr_clear_all_irq H,
      (case lc_tcxo_ctrl cfg of Some voltage \<Rightarrow> lr_set_tcxo_mode H voltage 0x000CD0 | None \<Rightarrow> ret ()),
      apply_high_acp_workaround H,
      lr_write_command H (rad_bytes RadSetTx @ be24 0)]"

text \<open>Milliseconds in steps of the 32768 Hz clock, by way of 64 bits.\<close>

definition ms_to_rtc :: "u32 \<Rightarrow> u32" where
  "ms_to_rtc t = ucast ((ucast t :: u64) * 32768 div 1000)"

definition lr_set_rx_boosted :: "'w hw \<Rightarrow> lr_config \<Rightarrow> ('w, unit) phy" where
  "lr_set_rx_boosted H cfg = when_do (lc_rx_boost cfg) (lr_write_command H (rad_bytes RadSetRxBoosted @ [0x01]))"

definition lr_do_rx :: "'w hw \<Rightarrow> lr_config \<Rightarrow> phy_rx_mode \<Rightarrow> ('w, unit) phy" where
  "lr_do_rx H cfg rx_mode = steps
     [iv_rf_switch_rx H,
      lr_write_command H (rad_bytes RadStopTimeoutOnPreamble @ [0x01]),
      lr_set_lora_symbol_num_timeout H (case rx_mode of RxSingle n \<Rightarrow> n | _ \<Rightarrow> 0),
      lr_set_rx_boosted H cfg,
      (case rx_mode of
         RxDutyCycle args \<Rightarrow>
           lr_write_command H (rad_bytes RadSetRxDutyCycle @ be24 (ms_to_rtc (dc_rx_time args)) @
             be24 (ms_to_rtc (dc_sleep_time args)) @ [0x00])
       | _ \<Rightarrow>
           thn (apply_high_acp_workaround H)
             (lr_write_command H (rad_bytes RadSetRx @
                be24 (if rx_mode = RxContinuous then LR_RX_CONTINUOUS_TIMEOUT else 0))))]"

text \<open>The receive buffer is the first component of the state.\<close>

definition lr_get_rx_payload :: "'w hw \<Rightarrow> packet_params \<Rightarrow> (bytes \<times> 'w, u8) phy" where
  "lr_get_rx_payload H p =
     bnd (on_snd (lr_query H 2 (rad_bytes RadGetRxBufferStatus))) (\<lambda>st.
       peek (\<lambda>(receiving_buffer, _).
         if length receiving_buffer < unat (st ! 0)
         then fail (PayloadSizeMismatch (unat (st ! 0)) (length receiving_buffer))
         else thn (lr_read_buffer H (st ! 1) (st ! 0)) (ret (st ! 0))))"

definition lr_rssi :: "u8 \<Rightarrow> i16" where
  "lr_rssi b = ucast (signed_drop_bit 1 (- (ucast b :: i32)))"

definition lr_snr :: "u8 \<Rightarrow> i16" where
  "lr_snr b = scast (signed_drop_bit 2 (b + 2 :: i8))"

definition lr_get_rx_packet_status :: "'w hw \<Rightarrow> ('w, packet_status) phy" where
  "lr_get_rx_packet_status H = bnd (lr_query H 3 (rad_bytes RadGetPktStatus)) (\<lambda>st.
     ret \<lparr>ps_rssi = lr_rssi (st ! 0), ps_snr = lr_snr (st ! 1)\<rparr>)"

definition lr_get_rssi :: "'w hw \<Rightarrow> ('w, i16) phy" where
  "lr_get_rssi H = bnd (lr_query H 1 (rad_bytes RadGetRssiInst)) (\<lambda>response. ret (lr_rssi (response ! 0)))"

definition lr_do_cad :: "'w hw \<Rightarrow> lr_config \<Rightarrow> modulation_params \<Rightarrow> ('w, unit) phy" where
  "lr_do_cad H cfg m =
     thn (iv_rf_switch_rx H)
      (thn (lr_set_rx_boosted H cfg)
        (bnd (of_result (lr_sf_value (mp_sf m))) (\<lambda>spreading_factor_val. steps
          [lr_write_command H (rad_bytes RadSetCadParams @ [lr_cad_symbols_value LrCad_8, spreading_factor_val + 13, 10,
             lr_cad_exit_mode_value LrCadExit_StandbyRc, 0x00, 0x00, 0x00]),
           apply_high_acp_workaround H,
           lr_write_command H (rad_bytes RadSetCad)])))"

section \<open>Interrupts\<close>

definition lr_dio1_mask :: "radio_mode option \<Rightarrow> u32" where
  "lr_dio1_mask radio_mode =
     (case radio_mode of
        Some Standby \<Rightarrow> 0xFFFFFFFF
      | Some Transmit \<Rightarrow> lr_irq_value LrIrq_TxDone OR lr_irq_value LrIrq_Timeout
      | Some (Receive _) \<Rightarrow> 0xFFFFFFFF
      | Some ChannelActivityDetection \<Rightarrow> lr_irq_value LrIrq_CadDone OR lr_irq_value LrIrq_CadDetected
      | _ \<Rightarrow> 0x00000000)"

definition lr_set_irq_params :: "'w hw \<Rightarrow> radio_mode option \<Rightarrow> ('w, unit) phy" where
  "lr_set_irq_params H radio_mode =
     lr_write_command H (sys_bytes SysSetDioIrqParams @ be32 (lr_dio1_mask radio_mode) @ be32 (lr_dio1_mask radio_mode))"

definition lr_set_tx_continuous_wave_mode :: "'w hw \<Rightarrow> ('w, unit) phy" where
  "lr_set_tx_continuous_wave_mode H = thn (iv_rf_switch_tx H) (lr_write_command H (rad_bytes RadSetTxCw))"

definition lr_interpret :: "u32 \<Rightarrow> radio_mode \<Rightarrow> (bool option \<times> 'w, irq_state option) phy" where
  "lr_interpret irq_flags radio_mode =
     (\<lambda>(cad, w). case interpret_irq_flags irq_flags radio_mode cad of (r, cad') \<Rightarrow> Some (r, cad', w))"

definition lr_get_irq_state :: "'w hw \<Rightarrow> radio_mode \<Rightarrow> (bool option \<times> 'w, irq_state option) phy" where
  "lr_get_irq_state H radio_mode =
     bnd (on_snd (get_irq_flags H)) (\<lambda>irq_flags. lr_interpret irq_flags radio_mode)"

definition lr_clear_irq_status :: "'w hw \<Rightarrow> ('w, unit) phy" where
  "lr_clear_irq_status H = clear_irq_flags H 0xFFFFFFFF"

definition lr_process_irq_event :: "'w hw \<Rightarrow> radio_mode \<Rightarrow> bool \<Rightarrow> (bool option \<times> 'w, irq_state option) phy" where
  "lr_process_irq_event H radio_mode clear_interrupts =
     bnd (on_snd (get_irq_flags H)) (\<lambda>irq_flags.
       thn (on_snd (when_do clear_interrupts (clear_irq_flags H irq_flags))) (lr_interpret irq_flags radio_mode))"

section \<open>The driver\<close>

definition lr1110_kind :: "'w hw \<Rightarrow> lr_config \<Rightarrow> 'w radio_kind" where
  "lr1110_kind H cfg = \<lparr>
     rk_init_lora = lr_init_lora H cfg,
     rk_set_lora_sync_word = lr_set_lora_sync_word H,
     rk_create_modulation_params = (\<lambda>sf bw cr f. Some (lr_create_modulation_params sf bw cr f)),
     rk_create_packet_params = lr_create_packet_params,
     rk_reset = iv_reset H,
     rk_ensure_ready = lr_ensure_ready H,
     rk_set_standby = lr_set_standby H,
     rk_set_sleep = lr_set_sleep H,
     rk_set_tx_power_and_ramp_time = lr_set_tx_power_and_ramp_time H cfg,
     rk_set_modulation_params = lr_set_modulation_params H,
     rk_set_packet_params = lr_set_packet_params H,
     rk_calibrate_image = lr_calibrate_image H,
     rk_set_channel = lr_set_channel H,
     rk_set_payload = lr_set_payload H,
     rk_do_tx = lr_do_tx H cfg,
     rk_do_rx = lr_do_rx H cfg,
     rk_get_rx_payload = lr_get_rx_payload H,
     rk_get_rx_packet_status = lr_get_rx_packet_status H,
     rk_get_rssi = lr_get_rssi H,
     rk_do_cad = lr_do_cad H cfg,
     rk_set_irq_params = lr_set_irq_params H,
     rk_set_tx_continuous_wave_mode = lr_set_tx_continuous_wave_mode H,
     rk_await_irq = iv_await_irq H,
     rk_process_irq_event = lr_process_irq_event H,
     rk_get_irq_state = lr_get_irq_state H,
     rk_clear_irq_status = lr_clear_irq_status H\<rparr>"

lemma lr1110_payload_fits:
  assumes "hw_ok H"
  shows "post (lr_get_rx_payload H p) (buf, w)
     (\<lambda>r t. length (fst t) = length buf \<and> (\<forall>n. r = Inr n \<longrightarrow> unat n \<le> length buf))"
proof -
  let ?ok = "\<lambda>r t. length (fst t) = length buf \<and> (\<forall>n. r = Inr n \<longrightarrow> unat n \<le> length buf)"
  have slice: "post (lr_read_buffer H off n) (buf, w') (\<lambda>r t. length (fst t) = length buf)"
    if "unat n \<le> length buf" for off n w'
    unfolding lr_read_buffer_def wp by (auto intro!: post_mono [OF lr_intf_read_length [OF assms]] simp: that)
  have tail: "post (peek (\<lambda>(receiving_buffer, _).
         if length receiving_buffer < unat n then fail (PayloadSizeMismatch (unat n) (length receiving_buffer))
         else thn (lr_read_buffer H off n) (ret n))) (buf, w') ?ok" for off n w'
  proof (cases "length buf < unat n")
    case False
    then show ?thesis
      unfolding post_peek split if_not_P [OF False] post_thn
      by (intro post_mono [OF slice]) (auto simp: wp split: sum.splits)
  qed (simp add: wp)
  show ?thesis unfolding lr_get_rx_payload_def post_bnd [of "on_snd _"] post_on_snd
    by (rule post_mono [OF post_true]) (simp add: tail split: sum.split)
qed

end
