(* ===== verification/PhyStack.thy ===== *)
theory PhyStack
  imports Emu126Stack Sx127xKind Lr1110Kind AsyncProperties SessionUplink
begin

text \<open>
  The whole stack: the asynchronous device over the LoRaWAN radio over a driver, on any hardware that fills the
  buffers it is given, and an exchange from the application's data down to the packet on the air.
\<close>

section \<open>Any hardware\<close>

text \<open>What the drivers rely on of the SPI peripheral: it fills exactly the buffers of a read.\<close>

locale spi_hardware =
  fixes H :: "'w hw"
  assumes hardware_ok: "hw_ok H"

sublocale spi_hardware < sx126x: receives "sx126x_kind H cfg6" for cfg6
  by unfold_locales (simp add: sx126x_kind_def sx126x_payload_fits [OF hardware_ok])

sublocale spi_hardware < sx127x: receives "sx127x_kind H cfg7" for cfg7
  by unfold_locales (simp add: sx127x_kind_def sx127x_payload_fits [OF hardware_ok])

sublocale spi_hardware < lr1110: receives "lr1110_kind H cfg11" for cfg11
  by unfold_locales (simp add: lr1110_kind_def lr1110_payload_fits [OF hardware_ok])

context spi_hardware
begin

lemma sx126x_phy_ok: "race_fits race \<Longrightarrow> async_phy_ok (lorawan_phy (sx126x_kind H cfg6) P G timer_reset timer_at race)"
  by (rule sx126x.lorawan_phy_ok)

lemma sx127x_phy_ok: "race_fits race \<Longrightarrow> async_phy_ok (lorawan_phy (sx127x_kind H cfg7) P G timer_reset timer_at race)"
  by (rule sx127x.lorawan_phy_ok)

lemma lr1110_phy_ok: "race_fits race \<Longrightarrow> async_phy_ok (lorawan_phy (lr1110_kind H cfg11) P G timer_reset timer_at race)"
  by (rule lr1110.lorawan_phy_ok)

end

interpretation emulated_chip: spi_hardware chip6_hw
  by unfold_locales (rule chip6_hw_ok)

lemma sx126x_stack_ok:
  "hw_ok H \<Longrightarrow> race_fits race \<Longrightarrow> async_phy_ok (lorawan_phy (sx126x_kind H cfg6) P G timer_reset timer_at race)"
  by (rule spi_hardware.sx126x_phy_ok) (unfold_locales)

lemma sx127x_stack_ok:
  "hw_ok H \<Longrightarrow> race_fits race \<Longrightarrow> async_phy_ok (lorawan_phy (sx127x_kind H cfg7) P G timer_reset timer_at race)"
  by (rule spi_hardware.sx127x_phy_ok) (unfold_locales)

lemma lr1110_stack_ok:
  "hw_ok H \<Longrightarrow> race_fits race \<Longrightarrow> async_phy_ok (lorawan_phy (lr1110_kind H cfg11) P G timer_reset timer_at race)"
  by (rule spi_hardware.lr1110_phy_ok) (unfold_locales)

definition no_reuse ::
  "(bytes \<Rightarrow> 'x crypto_scheme) \<Rightarrow> nat \<Rightarrow> ('r \<Rightarrow> u32 \<times> 'r) \<Rightarrow> ('w, 't, 'e) async_phy \<Rightarrow> bool" where
  "no_reuse mk D next_u32 E \<longleftrightarrow> (\<forall>cs (d :: ('w, 't, 'r) async_device) os d' s.
     async_ok d \<and> mac_state (ad_mac d) = Joined s \<and> (\<forall>c \<in> set cs. \<not> is_call_join c) \<and>
     perform_all mk D next_u32 E cs d = Some (os, d') \<longrightarrow>
       sorted_wrt (\<lambda>m n. m < n \<or> m = 0xFFFFFFFF \<and> n = 0xFFFFFFFF) (used os) \<and> (\<forall>n \<in> set (used os). ss_fcnt_up s \<le> n) \<and>
       sorted_wrt (<) (received os) \<and> (\<forall>n \<in> set (received os). after (ss_fcnt_down s) n))"

lemma no_reuse_of_ok: "async_phy_ok E \<Longrightarrow> cipher_ok mk \<Longrightarrow> no_reuse mk D next_u32 E"
  unfolding no_reuse_def fcnt_follows_def [abs_def, symmetric]
  by (metis (no_types, lifting) perform_all_counters [OF _ _ _ _ _ counters_Joined] obs_ok_def)

text \<open>C5. The guarantee about frame counters holds for the device over the SX126x, the SX127x and the LR1110 driver, on
  any hardware that fills the buffers of a read: whatever the chip answers, however its interrupts arrive and wherever a
  transfer fails, a device with a session that performs any sequence of calls other than joins uses strictly
  increasing counters for the sends that return a response, but for the last counter, 0xFFFFFFFF, which several of them may
  use (the code stops counting there and answers \<open>SessionExpired\<close>); and it never reports a downlink twice. A send that
  ends with an error of the radio is not counted: its counter may be used again.\<close>

theorem stack_counters:
  assumes "hw_ok H" "cipher_ok mk" "race_fits race6" "race_fits race7" "race_fits race11"
  shows "no_reuse mk D next_u32 (lorawan_phy (sx126x_kind H cfg6) P G timer_reset timer_at race6) \<and>
    no_reuse mk D next_u32 (lorawan_phy (sx127x_kind H cfg7) P G timer_reset timer_at race7) \<and>
    no_reuse mk D next_u32 (lorawan_phy (lr1110_kind H cfg11) P G timer_reset timer_at race11)"
  using assms by (simp add: no_reuse_of_ok sx126x_stack_ok sx127x_stack_ok lr1110_stack_ok)

section \<open>A transmission and two silent windows over the emulated chip\<close>

definition radio_idle :: "u32 \<Rightarrow> tx_record list \<Rightarrow> chip6 lorawan_radio \<Rightarrow> bool" where
  "radio_idle lead log r \<longleftrightarrow> idle6 log (lr_lora r) \<and> lr_rx_window_lead_time r = lead"

definition radio_ready :: "u32 \<Rightarrow> tx_record list \<Rightarrow> chip6 lorawan_radio \<Rightarrow> bool" where
  "radio_ready lead log r \<longleftrightarrow> radio_idle lead log r \<and> \<not> lora_cold_start (lr_lora r) \<and>
     (\<exists>n. lora_mode (lr_lora r) = Receive (RxSingle n)) \<and> ch6_irq_mask (lora_kind (lr_lora r)) = 0xFFFF \<and>
     lr_rx_pkt_params r \<noteq> None"

definition window_ok :: "rx_config \<Rightarrow> bool" where
  "window_ok c \<longleftrightarrow> 400000000 \<le> rf_frequency (rxc_rf c) \<and> (\<exists>ms. rxc_mode c = SingleShot ms)"

lemma radio_setup_rx:
  assumes "radio_idle lead log r" "window_ok c"
  shows "\<exists>r'. lr_setup_rx kind6 c r = Some (Inr (), r') \<and> radio_ready lead log r'"
proof -
  obtain m where m: "modulation_for kind6 (rxc_rf c) (lr_lora r) = Some (Inr m, lr_lora r)"
    using modulation6 assms(2) unfolding window_ok_def by blast
  obtain p where p: "lora_create_rx_packet_params kind6 8 False 255 True True m = Inr p"
    by (simp add: lora_create_rx_packet_params_def sx126x_kind_def sx126x_create_packet_params_def)
  obtain n where n: "phy_rx_mode_from (rxc_mode c) (rf_bb (rxc_rf c)) = RxSingle n"
    using assms(2) by (auto simp: window_ok_def phy_rx_mode_from_def)
  obtain l' where l': "prepare_for_rx kind6 (RxSingle n) m p (lr_lora r) = Some (Inr (), l')" "idle6 log l'" "\<not> lora_cold_start l'"
    "lora_mode l' = Receive (RxSingle n)" "ch6_irq_mask (lora_kind l') = 0xFFFF"
    by (rule idle6_prepare_rx [of log "lr_lora r"]) (use assms(1) in \<open>auto simp: radio_idle_def\<close>)
  have "lr_setup_rx kind6 c r = Some (Inr (), r\<lparr>lr_lora := l', lr_rx_pkt_params := Some p\<rparr>)"
    by (simp add: lr_setup_rx_def on_lora_def bnd_def thn_def m p of_result_def n l'(1) ret_def)
  then show ?thesis using l' assms(1) by (simp add: radio_ready_def radio_idle_def)
qed

lemma radio_low_power:
  assumes "radio_idle lead log r"
  shows "\<exists>r'. lr_low_power kind6 r = Some (Inr (), r') \<and> radio_idle lead log r'"
proof -
  obtain l' where "lora_sleep kind6 False (lr_lora r) = Some (Inr (), l')" "idle6 log l'"
    using idle6_sleep assms unfolding radio_idle_def by blast
  then show ?thesis using assms by (simp add: lr_low_power_def on_lora_def radio_idle_def)
qed

lemma radio_rx_timeout:
  assumes "radio_ready lead log r"
  shows "\<exists>r'. lr_rx_single kind6 buf r = Some (Inr RxTimeout, buf, r') \<and> radio_idle lead log r'"
proof -
  obtain p n where r: "lr_rx_pkt_params r = Some p" "lora_mode (lr_lora r) = Receive (RxSingle n)" "idle6 log (lr_lora r)"
    "\<not> lora_cold_start (lr_lora r)" "ch6_irq_mask (lora_kind (lr_lora r)) = 0xFFFF"
    using assms by (auto simp: radio_ready_def radio_idle_def)
  obtain l' where "lora_rx kind6 p (buf, lr_lora r) = Some (Inl ReceiveTimeout, buf, l')" "idle6 log l'"
    by (rule idle6_rx_timeout [OF r(3,4,2,5)])
  then show ?thesis using r(1) assms by (simp add: lr_rx_single_def lr_rx_def radio_ready_def radio_idle_def)
qed

lemma radio_lead_time: "radio_idle lead log r \<Longrightarrow> get_rx_window_lead_time_ms r = lead"
  by (simp add: radio_idle_def get_rx_window_lead_time_ms_def)

lemma emulated_silent:
  "silent_phy (radio_idle lead log) (radio_ready lead log) window_ok lead
     (lorawan_phy kind6 P G timer_reset timer_at race)"
  by (simp add: silent_phy_def lorawan_phy_def radio_setup_rx radio_low_power radio_rx_timeout
      radio_lead_time)

text \<open>What the MAC layer puts into the buffer is a frame that the network reads.\<close>

lemma sent_frame_readable:
  assumes "mac_ok m" "cipher_ok mk" "mac_state m = Joined s" "sd_fport data \<noteq> 0"
    and "mac_send mk next_u32 rng buf data m = Some (Inr (tx, w, n), rng', buf', m')" "rb_as_ref_for_read buf' = Some out"
  obtains v w' where "encrypted_parse out = Some (Inr w')" "validate_data_mic w' (mk (ss_nwkskey s)) n = Some True"
    "decrypt_in_place out (Some (mk (ss_nwkskey s))) (Some (mk (ss_appskey s))) n = Some (Inr v)"
    "dv_f_port v = Some (Some (sd_fport data))" "dv_frm_payload v = Some (FrmData (sd_data data))"
proof -
  have ok: "rs_ok (mac_region m)" "session_ok s" using assms(1,3) by (simp_all add: mac_ok_def)
  obtain s' where p: "prepare_buffer mk data buf (mac_conf m) (mac_region m) s = Some (n, buf', s')"
    by (rule mac_send_outcome [OF assms(1-3), of data buf next_u32 rng]) (use assms(5) in auto)
  obtain u where b: "data_frame_build_into (sent_frame data (mac_conf m) (mac_region m) s) (replicate 256 0) (mk (ss_nwkskey s))
      (Some (mk (ss_appskey s))) = Some (Inr out)" "n = ss_fcnt_up s"
    by (rule prepare_buffer_built [OF ok(1) _ _ p assms(6)]) (use ok(2) assms(4) in \<open>auto simp: session_ok_def\<close>)
  have l: "length (ss_devaddr s) = 4" using ok(2) by (simp add: session_ok_def)
  show thesis
    by (rule built_frame_received [OF sent_frame_ok [OF l] session_cipher [OF assms(2) ok(2)] b(1)])
       (use assms(4) b(2) in \<open>auto simp: sent_frame_def intro: that\<close>)
qed

text \<open>C4. An uplink through the whole stack, from the application's data to the air and back to sleep: over the SX126x
  driver and the chip of the driver's tests, \<open>send\<close> puts exactly one packet on the air, on the channel the MAC layer
  chose, whose bytes the network accepts and decrypts to the application's data, listens in two windows that bring
  nothing, and returns. This holds whatever state the driver was left in, also when the chip has to be initialised again
  after sleeping. Frames of 256 bytes, which the MAC
  layer can build, are not covered.\<close>

theorem uplink_on_the_air:
  fixes P G timer_reset timer_at race
  defines "E \<equiv> lorawan_phy kind6 P G timer_reset timer_at race"
  assumes "radio_idle lead log (ad_radio d)" "\<not> ad_class_c d" "async_ok d" "cipher_ok mk" "mac_state (ad_mac d) = Joined s"
    and "mac_send mk next_u32 (ad_rng d) (ad_buffer d) \<lparr>sd_data = data, sd_fport = fport, sd_confirmed = confirmed\<rparr> (ad_mac d)
      = Some (Inr (tx, w, n), rng', buf', m')"
    and "rb_as_ref_for_read buf' = Some frame" "length frame \<le> 255" "fport \<noteq> 0"
    and "400000000 \<le> rf_frequency (tx_rf tx)" "400000000 \<le> rf_frequency (rw_rx1 w)" "400000000 \<le> rf_frequency (rw_rx2 w)"
  shows "\<exists>x d' v w'. async_send mk D next_u32 E data fport confirmed d = Some (Inr x, d') \<and>
    radio_idle lead (log @ [\<lparr>tr_frequency_raw = convert_freq_in_hz_to_pll_step (rf_frequency (tx_rf tx)), tr_payload = frame\<rparr>])
      (ad_radio d') \<and>
    encrypted_parse frame = Some (Inr w') \<and> validate_data_mic w' (mk (ss_nwkskey s)) n = Some True \<and>
    decrypt_in_place frame (Some (mk (ss_nwkskey s))) (Some (mk (ss_appskey s))) n = Some (Inr v) \<and>
    dv_f_port v = Some (Some fport) \<and> dv_frm_payload v = Some (FrmData data)"
proof -
  let ?log = "log @ [\<lparr>tr_frequency_raw = convert_freq_in_hz_to_pll_step (rf_frequency (tx_rf tx)), tr_payload = frame\<rparr>]"
  have i: "idle6 log (lr_lora (ad_radio d))" using assms(2) by (simp add: radio_idle_def)
  obtain l' where l': "lr_tx kind6 tx frame (ad_radio d) = Some (Inr 0, (ad_radio d)\<lparr>lr_lora := l'\<rparr>)" "idle6 ?log l'"
    by (rule lr_tx_sends [OF i assms(9,11)])
  have t: "ap_tx E tx frame (ad_radio d) = Some (Inr 0, (ad_radio d)\<lparr>lr_lora := l'\<rparr>)"
    using l'(1) by (simp add: E_def lorawan_phy_def)
  have r: "radio_idle lead ?log ((ad_radio d)\<lparr>lr_lora := l'\<rparr>)" using l'(2) assms(2) by (simp add: radio_idle_def)
  have win: "window_ok (rw_rx_config b win w)" for b win
    using assms(12,13) by (cases win) (simp_all add: window_ok_def rw_rx_config_def rw_get_def)
  obtain x d' where send: "async_send mk D next_u32 E data fport confirmed d = Some (Inr x, d')" "radio_idle lead ?log (ad_radio d')"
    using silent_send [OF emulated_silent [of lead ?log P G timer_reset timer_at race, folded E_def] assms(3-5,7,8) t r win, of D]
    by blast
  obtain v w' where "encrypted_parse frame = Some (Inr w')" "validate_data_mic w' (mk (ss_nwkskey s)) n = Some True"
    "decrypt_in_place frame (Some (mk (ss_nwkskey s))) (Some (mk (ss_appskey s))) n = Some (Inr v)"
    "dv_f_port v = Some (Some fport)" "dv_frm_payload v = Some (FrmData data)"
    by (rule sent_frame_readable [OF async_okD(1) [OF assms(4)] assms(5,6) _ assms(7,8)]) (use assms(10) in auto)
  then show ?thesis using send by blast
qed

section \<open>A device on the emulated chip\<close>

lemma emulated_new:
  obtains l where "lora_new kind6 chip6_new True = Some (Inr (), l)" "idle6 [] l"
proof -
  define l0 where "l0 = \<lparr>lora_kind = chip6_new, lora_mode = Standby, lora_sync_word = LORAWAN_PUBLIC_SYNCWORD, lora_cold_start = True,
      lora_calibrate_image = True\<rparr>"
  have s: "settled6 chip6_new" by (simp add: settled6_def chip6_new_def list6_def reg_read6_def eval_nat_numeral)
  obtain c where c: "sx126x_init_lora chip6_hw emulated_sx1261_config LORAWAN_PUBLIC_SYNCWORD chip6_new = Some (Inr (), c)"
    "settled6 c" "ch6_tx_base_addr c = 0" "ch6_tx_log c = ch6_tx_log chip6_new" by (rule emu6_init_again [OF s])
  define l where "l = l0\<lparr>lora_kind := c\<lparr>ch6_irq_mask := 0xFFFF, ch6_dio1_mask := 0xFFFF\<rparr>, lora_cold_start := False\<rparr>"
  have r: "chip6_new\<lparr>ch6_mode := Chip6Standby\<rparr> = chip6_new" by (simp add: chip6_new_def)
  have "lora_new kind6 chip6_new True = Some (Inr (), l)"
    using c(1) by (simp add: lora_new_def with_syncword_raw_def lora_init_def do_cold_start_def run_defs lora_fresh_def emu6_tx_power
        sx126x_irq_masks_def r l_def l0_def)
  moreover have "idle6 [] l" using c by (simp add: l_def l0_def idle6_def settled6_def chip6_new_def)
  ultimately show thesis by (rule that)
qed

definition example_stack :: "chip6 lora \<Rightarrow> (chip6 lorawan_radio, u64 list, u32) async_device" where
  "example_stack l = \<lparr>ad_radio = lorawan_radio_from l, ad_rng = 0, ad_timer = [], ad_mac = example_mac, ad_buffer = rb_new 256,
     ad_downlink = [], ad_class_c = False\<rparr>"

lemma example_channel:
  "\<exists>t r. rs_select_tx_channel (\<lambda>n :: u32. (n, n + 1)) 0 DR0 Data (mac_region example_mac) = Some ((t, r), mac_region example_mac) \<and>
     txc_frequency t = 868100000 \<and> txc_rx1_frequency t = 868100000"
proof -
  let ?next = "\<lambda>n :: u32. (n, n + 1)" and ?p = "dyn_new eu868_region eu868_freq_check"
  have m: "mac_region example_mac = St_EU868 ?p"
    by (simp add: example_mac_def mac_join_abp_def mac_new_def config_new_def rs_get_default_datarate_def)
  have R: "eu868_region \<in> set dynamic_regions" by (simp add: dynamic_regions_def)
  have ok: "dyn_region_ok eu868_region" "dyn_ok eu868_region ?p" using dynamic_regions_ok R dyn_new_ok [OF R] by blast+
  have u: "dyn_usable ?p (dyn_index ?p 0)" "dyn_index ?p 0 < 16" "ch_ul_frequency (the (dp_channels ?p ! dyn_index ?p 0)) = 868100000"
    "ch_rx1_frequency (the (dp_channels ?p ! dyn_index ?p 0)) = 868100000" by code_simp+
  have d: "datarate_unwrap eu868_region DR0 = Some (the (cr_datarates eu868_region ! 0))"
    by (simp add: datarate_unwrap_def idx_def region_defs table_defs)
  have "\<exists>t r. dyn_select_tx_channel ?next eu868_region 0 DR0 Data ?p = Some (t, r) \<and> txc_frequency t = 868100000 \<and>
      txc_rx1_frequency t = 868100000"
    using u d by (simp add: dyn_select_tx_channel_def get_random_in_range_eq [OF ok] dyn_data_loop_unfold [OF ok] dyn_tx_channel_def)
  then show ?thesis by (auto simp: m rs_select_tx_channel_def)
qed

lemma stack_counters_witness:
  "no_reuse (\<lambda>k. xor_crypto (k ! 0)) 1 (\<lambda>n. (n, n + 1)) (lorawan_phy kind6 14 0 (\<lambda>_. []) (\<lambda>n t. t @ [n]) (\<lambda>_ p w t. Some (None, p, w, t)))"
  using stack_counters [OF chip6_hw_ok xor_cipher_ok, of "\<lambda>_ p w t. Some (None, p, w, t)" "\<lambda>_ p w t. Some (None, p, w, t)"
      "\<lambda>_ p w t. Some (None, p, w, t)" 1
      "\<lambda>n. (n, n + 1)" emulated_sx1261_config 14 0 "\<lambda>_. []" "\<lambda>n t. t @ [n]"]
  by (simp add: race_fits_def)

text \<open>What the example sends, and where.\<close>

lemma example_air:
  obtains tx w rng' buf' m' frame where "mac_send (\<lambda>k. xor_crypto (k ! 0)) (\<lambda>n. (n, n + 1)) 0 (rb_new 256) example_data example_mac
     = Some (Inr (tx, w, 0), rng', buf', m')" "rb_as_ref_for_read buf' = Some frame" "length frame = 15"
    "rf_frequency (tx_rf tx) = 868100000" "rf_frequency (rw_rx1 w) = 868100000" "rf_frequency (rw_rx2 w) = 869525000"
proof -
  let ?mk = "\<lambda>k :: bytes. xor_crypto (k ! 0)" and ?next = "\<lambda>n :: u32. (n, n + 1)"
    and ?s = "session_new (replicate 16 1) (replicate 16 2) [1, 2, 3, 4]"
  obtain tx w rng' buf' m' where s: "mac_send ?mk ?next 0 (rb_new 256) example_data example_mac = Some (Inr (tx, w, 0), rng', buf', m')"
    "rb_ok buf'" by (rule example_send)
  obtain frame where f: "rb_as_ref_for_read buf' = Some frame" using rb_ok_read [OF s(2)] by blast
  have ok: "rs_ok (mac_region example_mac)" "session_ok ?s" using example_mac_ok by (simp_all add: mac_ok_def example_mac_state)
  have h: "length (ss_devaddr ?s) = 4" "up_holds (ss_uplink ?s) []" by (simp_all add: session_new_def)
  obtain s' where p: "prepare_buffer ?mk example_data (rb_new 256) (mac_conf example_mac) (mac_region example_mac) ?s = Some (0, buf', s')"
    by (rule mac_send_outcome [OF example_mac_ok xor_cipher_ok example_mac_state, of example_data "rb_new 256" ?next 0]) (use s in auto)
  have l: "length frame = sent_len example_data ?s"
    by (rule prepare_buffer_outcome [where mk = ?mk and data = example_data and tx = "rb_new 256" and conf = "mac_conf example_mac",
        OF ok(1) h xor_crypto_ok(1) xor_crypto_ok(1)]) (use p f in auto)
  obtain t r where c: "rs_select_tx_channel ?next 0 DR0 Data (mac_region example_mac) = Some ((t, r), mac_region example_mac)"
    "txc_frequency t = 868100000" "txc_rx1_frequency t = 868100000" using example_channel by blast
  have cf: "cfg_data_rate (mac_conf example_mac) = DR0" "cfg_rx2_frequency (mac_conf example_mac) = None"
    "rs_get_rx2_frequency (mac_region example_mac) = 869525000" by code_simp+
  show thesis
  proof (rule mac_send_channel [OF example_mac_ok xor_cipher_ok s(1) refl])
    fix t' s0 tx0
    assume "rs_select_tx_channel ?next 0 (cfg_data_rate (mac_conf example_mac)) Data (mac_region example_mac) = Some ((t', rng'), mac_region m')"
    then have "t' = t" "mac_region m' = mac_region example_mac" using c(1) cf(1) by simp_all
    moreover assume "rf_frequency (tx_rf tx) = txc_frequency t'" "rf_frequency (rw_rx1 w) = txc_rx1_frequency t'"
      "rf_frequency (rw_rx2 w) = (case cfg_rx2_frequency (mac_conf example_mac) of Some f \<Rightarrow> f | None \<Rightarrow> rs_get_rx2_frequency (mac_region m'))"
    ultimately show thesis using that [OF s(1) f] l c cf by (simp add: sent_len_def session_new_def uplink_default_def)
  qed
qed

lemma uplink_on_the_air_witness:
  "\<exists>l x d' frame. lora_new kind6 chip6_new True = Some (Inr (), l) \<and>
     async_send (\<lambda>k. xor_crypto (k ! 0)) 1 (\<lambda>n. (n, n + 1))
       (lorawan_phy kind6 14 0 (\<lambda>_. []) (\<lambda>n t. t @ [n]) (\<lambda>_ p w t. Some (None, p, w, t))) [5, 6] 1 False (example_stack l) = Some (Inr x, d') \<and>
     ch6_tx_log (lora_kind (lr_lora (ad_radio d'))) =
       [\<lparr>tr_frequency_raw = convert_freq_in_hz_to_pll_step 868100000, tr_payload = frame\<rparr>] \<and> length frame = 15"
proof -
  obtain l where l: "lora_new kind6 chip6_new True = Some (Inr (), l)" "idle6 [] l" by (rule emulated_new)
  obtain tx w rng' buf' m' frame where s: "mac_send (\<lambda>k. xor_crypto (k ! 0)) (\<lambda>n. (n, n + 1)) 0 (rb_new 256) example_data example_mac
     = Some (Inr (tx, w, 0), rng', buf', m')" "rb_as_ref_for_read buf' = Some frame" "length frame = 15"
    "rf_frequency (tx_rf tx) = 868100000" "rf_frequency (rw_rx1 w) = 868100000" "rf_frequency (rw_rx2 w) = 869525000"
    by (rule example_air)
  let ?d = "example_stack l" and ?race = "\<lambda>_ p w t. Some (None, p, w, t)"
  have d: "radio_idle 50 [] (ad_radio ?d)" "\<not> ad_class_c ?d" "async_ok ?d"
    "mac_state (ad_mac ?d) = Joined (session_new (replicate 16 1) (replicate 16 2) [1, 2, 3, 4])"
    using l(2) example_mac_ok by (simp_all add: example_stack_def radio_idle_def lorawan_radio_from_def DEFAULT_RX_WINDOW_LEAD_TIME_def
      async_ok_def example_mac_state)
  have m: "mac_send (\<lambda>k. xor_crypto (k ! 0)) (\<lambda>n. (n, n + 1)) (ad_rng ?d) (ad_buffer ?d) example_data (ad_mac ?d)
     = Some (Inr (tx, w, 0), rng', buf', m')" using s(1) by (simp add: example_stack_def)
  have "length frame \<le> 255" "(1 :: u8) \<noteq> 0" "400000000 \<le> rf_frequency (tx_rf tx)" "400000000 \<le> rf_frequency (rw_rx1 w)"
    "400000000 \<le> rf_frequency (rw_rx2 w)" using s(3-6) by simp_all
  from uplink_on_the_air [OF d(1-3) xor_cipher_ok d(4) m s(2) this, of 1 14 0 "\<lambda>_. []" "\<lambda>n t. t @ [n]" ?race] s(3,4) l(1)
  show ?thesis by (auto simp: radio_idle_def idle6_def)
qed

end
