(* ===== verification/Fixture1110.thy ===== *)
theory Fixture1110
  imports Lr1110Kind Emu126
begin

text \<open>
  The recorder that the repository's tests run the LR1110 driver on (\<open>lora-phy/src/lr1110/test/fixtures.rs\<close>), as a
  hardware: it keeps the bytes of every transaction, and answers reads with responses prepared per command. What the
  driver puts on the wire, and what it makes of an answer, is computed on it.
\<close>

section \<open>The recorder\<close>

datatype fixture_op = FxWrite bytes | FxRead nat

record lr_fixture =
  fx_ops :: "fixture_op list"
  fx_read_responses :: "bytes \<rightharpoonup> bytes"
  fx_direct_read_responses :: "bytes list"
  fx_last_cmd :: bytes
  fx_stat1 :: u8

definition fixture_new :: lr_fixture where
  "fixture_new = \<lparr>fx_ops = [], fx_read_responses = Map.empty, fx_direct_read_responses = [], fx_last_cmd = [],
     fx_stat1 = 0x06\<rparr>"

definition prime_read :: "bytes \<Rightarrow> bytes \<Rightarrow> lr_fixture \<Rightarrow> lr_fixture" where
  "prime_read command response f = f\<lparr>fx_read_responses := (fx_read_responses f)(command \<mapsto> response)\<rparr>"

definition prime_direct_read :: "bytes \<Rightarrow> lr_fixture \<Rightarrow> lr_fixture" where
  "prime_direct_read response f = f\<lparr>fx_direct_read_responses := fx_direct_read_responses f @ [response]\<rparr>"

text \<open>A transaction that mixes writes and reads fails the assertion.\<close>

definition fixture_record :: "spi_op list \<Rightarrow> lr_fixture \<Rightarrow> (bytes list \<times> lr_fixture) run" where
  "fixture_record ops f =
     (let cmd = written ops; lens = read_lengths ops
      in if lens = [] then Some ([], f\<lparr>fx_last_cmd := cmd, fx_ops := fx_ops f @ [FxWrite cmd]\<rparr>)
         else if cmd \<noteq> [] then None
         else let (response, rest) =
                (if length lens = 1
                 then (case fx_direct_read_responses f of [] \<Rightarrow> ([], []) | r # rs \<Rightarrow> (r, rs))
                 else (fx_stat1 f # (case fx_read_responses f (fx_last_cmd f) of Some d \<Rightarrow> d | None \<Rightarrow> []),
                       fx_direct_read_responses f))
              in Some (drain_reads ops response,
                   f\<lparr>fx_direct_read_responses := rest, fx_ops := fx_ops f @ [FxRead (sum_list lens)]\<rparr>))"

definition fixture_hw :: "lr_fixture hw" where
  "fixture_hw = \<lparr>
     hw_write = (\<lambda>buf f. Some (Inr (), f\<lparr>fx_last_cmd := buf, fx_ops := fx_ops f @ [FxWrite buf]\<rparr>)),
     hw_transaction = (\<lambda>ops f. do { (bufs, f') \<leftarrow> fixture_record ops f; Some (Inr (), bufs, f') }),
     iv_reset = ret (),
     iv_wait_on_busy = ret (),
     iv_await_irq = ret (),
     iv_rf_switch_rx = ret (),
     iv_rf_switch_tx = ret (),
     iv_disable_rf_switch = ret (),
     hw_delay_ms = (\<lambda>_ f. f)\<rparr>"

definition fixture_config :: lr_config where
  "fixture_config = \<lparr>lc_pa_selection = LrPa_Hp, lc_dio_as_rf_switch = Some rf_switch_params_default, lc_tcxo_ctrl = None,
     lc_use_dcdc = False, lc_rx_boost = False\<rparr>"

section \<open>Transfers\<close>

lemma fixture_hw_ok: "hw_ok fixture_hw"
  by (auto simp: hw_ok_def fixture_hw_def fixture_record_def bind_eq_Some_conv drain_reads_lengths Let_def
      split: if_splits prod.splits)

definition fx_wrote :: "bytes \<Rightarrow> lr_fixture \<Rightarrow> lr_fixture" where
  "fx_wrote cmd f = f\<lparr>fx_last_cmd := cmd, fx_ops := fx_ops f @ [FxWrite cmd]\<rparr>"

definition fx_did_read :: "nat \<Rightarrow> lr_fixture \<Rightarrow> lr_fixture" where
  "fx_did_read n f = f\<lparr>fx_ops := fx_ops f @ [FxRead n]\<rparr>"

definition padded :: "nat \<Rightarrow> bytes \<Rightarrow> bytes" where
  "padded n response = take n response @ replicate (n - length response) 0"

lemma fx_wrote_sel [simp]:
  "fx_ops (fx_wrote c f) = fx_ops f @ [FxWrite c]" "fx_last_cmd (fx_wrote c f) = c"
  "fx_read_responses (fx_wrote c f) = fx_read_responses f" "fx_stat1 (fx_wrote c f) = fx_stat1 f"
  "fx_direct_read_responses (fx_wrote c f) = fx_direct_read_responses f"
  by (simp_all add: fx_wrote_def)

lemma fx_did_read_sel [simp]:
  "fx_ops (fx_did_read n f) = fx_ops f @ [FxRead n]" "fx_read_responses (fx_did_read n f) = fx_read_responses f"
  "fx_stat1 (fx_did_read n f) = fx_stat1 f" "fx_direct_read_responses (fx_did_read n f) = fx_direct_read_responses f"
  by (simp_all add: fx_did_read_def)

lemma fixture_calls [simp]:
  "iv_wait_on_busy fixture_hw = ret ()" "iv_rf_switch_rx fixture_hw = ret ()" "iv_rf_switch_tx fixture_hw = ret ()"
  "iv_disable_rf_switch fixture_hw = ret ()"
  "hw_write fixture_hw c f = Some (Inr (), fx_wrote c f)"
  "hw_transaction fixture_hw [SpiWrite c, SpiWrite p] f = Some (Inr (), [], fx_wrote (c @ p) f)"
  "hw_transaction fixture_hw [SpiRead [b], SpiRead buf] f = Some (Inr (),
     [[fx_stat1 f], padded (length buf) (case fx_read_responses f (fx_last_cmd f) of Some d \<Rightarrow> d | None \<Rightarrow> [])],
     fx_did_read (1 + length buf) f)"
  "hw_transaction fixture_hw [SpiRead buf] (f\<lparr>fx_direct_read_responses := d # ds\<rparr>) = Some (Inr (),
     [padded (length buf) d], fx_did_read (length buf) (f\<lparr>fx_direct_read_responses := ds\<rparr>))"
  by (simp_all add: fixture_hw_def fixture_record_def Let_def fx_wrote_def fx_did_read_def padded_def split: option.split)

lemmas fx_run = thn_def bnd_def ret_def when_do_def on_snd_def steps_simps fail_def

lemma fixture_write [simp]: "lr_intf_write fixture_hw c z f = Some (Inr (), fx_wrote c f)"
  by (simp add: lr_intf_write_def lr_spi_write_def map_spi_def fx_run)

lemma fixture_write_command [simp]: "lr_write_command fixture_hw c f = Some (Inr (), fx_wrote c f)"
  by (simp add: lr_write_command_def)

lemma fixture_write_with_payload [simp]:
  "lr_intf_write_with_payload fixture_hw c p z f = Some (Inr (), fx_wrote (c @ p) f)"
  by (simp add: lr_intf_write_with_payload_def map_spi_def fx_run)

lemma fixture_query:
  assumes "c \<noteq> []"
  shows "lr_query fixture_hw n c f =
     Some (if lr_stat1_failed (fx_stat1 f) then Inl (OpError (fx_stat1 f))
       else Inr (padded n (case fx_read_responses f c of Some d \<Rightarrow> d | None \<Rightarrow> [])),
       fx_did_read (1 + n) (fx_wrote c f))"
  using assms
  by (simp add: lr_query_def with_array_def lr_intf_read_def lr_spi_response_def lr_spi_write_def map_spi_def fx_run)

lemma fixture_get_irq_flags:
  assumes "fx_direct_read_responses f = [s1, s2, a, b, c, d] # ds"
  shows "get_irq_flags fixture_hw f =
     Some (Inr (of_be32 a b c d), fx_did_read 6 (f\<lparr>fx_direct_read_responses := ds\<rparr>))"
proof -
  have "f = f\<lparr>fx_direct_read_responses := [s1, s2, a, b, c, d] # ds\<rparr>" using assms by simp
  then have "hw_transaction fixture_hw [SpiRead buf] f = Some (Inr (), [padded (length buf) [s1, s2, a, b, c, d]],
     fx_did_read (length buf) (f\<lparr>fx_direct_read_responses := ds\<rparr>))" for buf
    by (metis fixture_calls(8))
  then show ?thesis
    by (simp add: get_irq_flags_def with_array_def lr_intf_direct_read_def lr_spi_read_def padded_def fx_run)
qed

section \<open>Interrupts\<close>

text \<open>C33. Handling an interrupt clears the flags that were read and no other: whatever the chip raises between the read
  and the write is still there for the next event. The bytes of the status go back as they came.\<close>

theorem lr_events_kept:
  assumes "fx_direct_read_responses f = [s1, s2, a, b, c, d] # ds"
  shows "\<exists>f'. lr_process_irq_event fixture_hw mode True (cad, f) =
       (case interpret_irq_flags (of_be32 a b c d) mode cad of (r, cad') \<Rightarrow> Some (r, cad', f')) \<and>
     fx_ops f' = fx_ops f @ FxRead 6 #
       (if [a, b, c, d] = [0, 0, 0, 0] then [] else [FxWrite ([0x01, 0x14] @ [a, b, c, d])])"
proof -
  have "[a, b, c, d] = [0, 0, 0, 0]" if "of_be32 a b c d = 0"
    using be32_of_be32 [of a b c d] unfolding that by (simp add: be32_def)
  moreover have "of_be32 0 0 0 0 = 0" by (simp add: of_be32_def)
  ultimately have "of_be32 a b c d = 0 \<longleftrightarrow> [a, b, c, d] = [0, 0, 0, 0]" by auto
  then show ?thesis
    by (auto simp: lr_process_irq_event_def fixture_get_irq_flags [OF assms] lr_interpret_def clear_irq_flags_def fx_run
        sys_bytes_def be16_def split: prod.split)
qed

theorem lr_events_kept_witness:
  "\<exists>f'. lr_process_irq_event fixture_hw (Receive RxContinuous) True
       (None, prime_direct_read [0x07, 0, 0, 0, 0, 0x38] fixture_new) = Some (Inr (Some IrqDone), None, f') \<and>
     fx_ops f' = [FxRead 6, FxWrite [0x01, 0x14, 0, 0, 0, 0x38]]"
  using lr_events_kept [where f = "prime_direct_read [0x07, 0, 0, 0, 0, 0x38] fixture_new" and mode = "Receive RxContinuous"
      and cad = None and ds = "[]"]
  by (simp add: prime_direct_read_def fixture_new_def interpret_irq_flags_def of_be32_def lr_irq_is_set_def)

end
