(* ===== verification/Lr1110Facts.thy ===== *)
theory Lr1110Facts
  imports Fixture1110
begin

text \<open>
  What the LR1110 driver guarantees: powers within the limits of the amplifiers, interrupts that mean what they mean on
  the SX126x, the memory of the chip read back as it was written, and a status that is read one byte late.
\<close>

section \<open>The system status\<close>

text \<open>A chip with the status bytes \<open>st\<close> shifts them out in every read that follows no command.\<close>

definition shows_status :: "'w hw \<Rightarrow> bytes \<Rightarrow> 'w \<Rightarrow> bool" where
  "shows_status H st w \<longleftrightarrow> iv_wait_on_busy H w = Some (Inr (), w) \<and>
     (\<forall>ops. written ops = [] \<longrightarrow> hw_transaction H ops w = Some (Inr (), drain_reads ops st, w))"

text \<open>C37. The chip answers with Stat1, Stat2 and the interrupt flags. \<open>get_irq_flags\<close> reads them where they are.
  \<open>get_status\<close>, meant to return the same bytes, goes through \<open>read\<close>, which keeps Stat1 for itself: it takes Stat2 for
  Stat1 and the first byte of the flags for Stat2, and its flags are one byte off.\<close>

theorem lr_status_shifted:
  assumes "shows_status H [s1, s2, a, b, c, d] w"
  shows "get_irq_flags H w = Some (Inr (of_be32 a b c d), w) \<and>
    lr_get_status H w = Some (if lr_stat1_failed s1 then Inl (OpError s1)
      else Inr \<lparr>ss_stat1 = stat1_from s2, ss_stat2 = stat2_from a, ss_irq_status = of_be32 b c d 0\<rparr>, w)"
proof -
  have w: "iv_wait_on_busy H w = Some (Inr (), w)"
    and r: "hw_transaction H [SpiRead buf] w = Some (Inr (), [padded (length buf) [s1, s2, a, b, c, d]], w)"
      "hw_transaction H [SpiRead [x], SpiRead buf] w = Some (Inr (), [[s1], padded (length buf) [s2, a, b, c, d]], w)" for x buf
    using assms by (simp_all add: shows_status_def padded_def)
  have "get_irq_flags H w = Some (Inr (of_be32 a b c d), w)"
    by (simp add: get_irq_flags_def with_array_def lr_intf_direct_read_def lr_spi_read_def fx_run w r padded_def)
  moreover have "lr_query H 6 [] w = Some (if lr_stat1_failed s1 then Inl (OpError s1) else Inr [s2, a, b, c, d, 0], w)"
    by (simp add: lr_query_def with_array_def lr_intf_read_def lr_spi_response_def fx_run w r padded_def)
  ultimately show ?thesis by (simp add: lr_get_status_def bnd_def ret_def)
qed

definition idle_chip_hw :: "unit hw" where
  "idle_chip_hw = \<lparr>
     hw_write = (\<lambda>_ w. Some (Inr (), w)),
     hw_transaction = (\<lambda>ops w. Some (Inr (), drain_reads ops [0x07, 0x05, 0, 0, 0, 0x08], w)),
     iv_reset = ret (), iv_wait_on_busy = ret (), iv_await_irq = ret (), iv_rf_switch_rx = ret (),
     iv_rf_switch_tx = ret (), iv_disable_rf_switch = ret (), hw_delay_ms = (\<lambda>_ w. w)\<rparr>"

theorem lr_status_shifted_witness:
  "get_irq_flags idle_chip_hw () = Some (Inr 0x08, ()) \<and>
   lr_get_status idle_chip_hw () = Some (Inr \<lparr>ss_stat1 = stat1_from 0x05, ss_stat2 = stat2_from 0, ss_irq_status = 0x0800\<rparr>, ())"
proof -
  have "shows_status idle_chip_hw [0x07, 0x05, 0, 0, 0, 0x08] ()"
    by (simp add: shows_status_def idle_chip_hw_def ret_def)
  from lr_status_shifted [OF this] show ?thesis
    by (simp add: lr_stat1_failed_def of_be32_def)
qed

section \<open>Power\<close>

lemma lr_pa_row_in:
  assumes "sint lo \<le> sint hi" "length table = nat (sint hi - sint lo + 1)"
  obtains c where "lr_pa_row table lo hi x = Some (c, table ! nat (sint c - sint lo))"
    "sint c = max (sint lo) (min (sint hi) (sint x))"
proof -
  define c where "c = (if sint x < sint lo then scast lo else if sint hi < sint x then scast hi else x)"
  have s: "sint (scast b :: i32) = sint b" for b :: i8 by (rule sint_scast_i8)
  have c: "sint c = max (sint lo) (min (sint hi) (sint x))" using assms(1) by (auto simp: c_def s)
  have lo: "- 128 \<le> sint lo" "sint hi < 128" using sint_ge [of lo] sint_lt [of hi] by simp_all
  have d: "0 \<le> sint c - sint lo" "sint c - sint lo \<le> sint hi - sint lo" "sint c - sint lo < 256"
    using c assms(1) lo by auto
  have "sint (c - scast lo) = sint c - sint lo"
    unfolding sint_word_ariths s using d by (intro signed_take_bit_int_eq_self) simp_all
  then have "uint (c - scast lo) = sint c - sint lo"
    using d by (simp add: uint_sint take_bit_int_eq_self)
  then have u: "unat (c - scast lo) = nat (sint c - sint lo)" by (simp add: unat_eq_nat_uint)
  have "idx table (unat (c - scast lo)) = Some (table ! nat (sint c - sint lo))"
    unfolding u using d assms(2) by (simp add: idx_def)
  then show thesis using assms(1) c by (intro that [of c]) (auto simp: lr_pa_row_def c_def)
qed

definition lr_pa_limits :: "lr_pa_selection \<Rightarrow> pa_cfg \<Rightarrow> bool" where
  "lr_pa_limits pa row \<longleftrightarrow> pc_pa_duty_cycle row \<le> 7 \<and> pc_pa_hp_sel row \<le> 7 \<and>
     (case pa of
        LrPa_Lp \<Rightarrow> - 17 \<le> sint (pc_configured_power row) \<and> sint (pc_configured_power row) \<le> 15 \<and> pc_pa_hp_sel row = 0
      | LrPa_Hp \<Rightarrow> - 9 \<le> sint (pc_configured_power row) \<and> sint (pc_configured_power row) \<le> 22 \<and> pc_pa_duty_cycle row \<le> 4
      | LrPa_Hf \<Rightarrow> - 18 \<le> sint (pc_configured_power row) \<and> sint (pc_configured_power row) \<le> 13 \<and>
          pc_pa_duty_cycle row \<le> 4 \<and> pc_pa_hp_sel row = 0)"

lemmas lr_pa_tables = LR11XX_PA_LP_LF_CFG_TABLE_def LR11XX_PA_HP_LF_CFG_TABLE_def LR11XX_PA_HF_CFG_TABLE_def

lemma lr_pa_rows:
  "\<forall>row \<in> set LR11XX_PA_LP_LF_CFG_TABLE. lr_pa_limits LrPa_Lp row"
  "\<forall>row \<in> set LR11XX_PA_HP_LF_CFG_TABLE. lr_pa_limits LrPa_Hp row"
  "\<forall>row \<in> set LR11XX_PA_HF_CFG_TABLE. lr_pa_limits LrPa_Hf row"
  by (simp_all add: lr_pa_tables pa_cfg_row_def lr_pa_limits_def)

lemma lr_pa_lengths:
  "length LR11XX_PA_LP_LF_CFG_TABLE = nat (sint LP_MAX - sint LP_MIN + 1)"
  "length LR11XX_PA_HP_LF_CFG_TABLE = nat (sint HP_MAX - sint HP_MIN + 1)"
  "length LR11XX_PA_HF_CFG_TABLE = nat (sint HF_MAX - sint HF_MIN + 1)"
  by (simp_all add: lr_pa_tables LP_MIN_def LP_MAX_def HP_MIN_def HP_MAX_def HF_MIN_def HF_MAX_def)

lemma lr_lp_duty: "\<forall>row \<in> set (butlast LR11XX_PA_LP_LF_CFG_TABLE). pc_pa_duty_cycle row \<le> 4"
  by (simp add: lr_pa_tables pa_cfg_row_def)

text \<open>C35. For every amplifier and every request in dBm, also one out of range, the driver finds a row and no more than the
  amplifier allows: the configured power and the number of slices stay within its limits, and the duty cycle is above 4
  only at 15 dBm on the low-power amplifier, which is refused below 400 MHz. The battery supplies the high-power
  amplifier above 8 dBm and no other.\<close>

theorem lr_power_programmed:
  "case lr_pa_select pa dbm m of
     None \<Rightarrow> False
   | Some (Inl e) \<Rightarrow> e = InvalidOutputPowerForFrequency \<and> pa = LrPa_Lp \<and> 15 \<le> sint dbm \<and>
       (\<exists>p. m = Some p \<and> mp_frequency p < 400000000)
   | Some (Inr (level, duty, slices, supply)) \<Rightarrow>
       lr_pa_limits pa \<lparr>pc_configured_power = level, pc_pa_duty_cycle = duty, pc_pa_hp_sel = slices\<rparr> \<and>
       (4 < duty \<longrightarrow> pa = LrPa_Lp \<and> 15 \<le> sint dbm \<and> (\<forall>p. m = Some p \<longrightarrow> 400000000 \<le> mp_frequency p)) \<and>
       (supply = LrSupply_Vbat \<longleftrightarrow> pa = LrPa_Hp \<and> 8 < sint dbm)"
proof (cases pa)
  case LrPa_Lp
  obtain c where c: "lr_pa_row LR11XX_PA_LP_LF_CFG_TABLE LP_MIN LP_MAX dbm =
      Some (c, LR11XX_PA_LP_LF_CFG_TABLE ! nat (sint c - sint LP_MIN))" "sint c = max (- 17) (min 15 (sint dbm))"
    using lr_pa_row_in [OF _ lr_pa_lengths(1), of dbm] by (auto simp: LP_MIN_def LP_MAX_def)
  define i where "i = nat (sint c - sint LP_MIN)"
  have i: "i < 33" "i = 32 \<longleftrightarrow> 15 \<le> sint dbm" using c(2) by (auto simp: i_def LP_MIN_def)
  have len: "length LR11XX_PA_LP_LF_CFG_TABLE = 33" by (simp add: lr_pa_tables)
  let ?row = "LR11XX_PA_LP_LF_CFG_TABLE ! i"
  have "15 \<le> sint dbm" if "4 < pc_pa_duty_cycle ?row"
  proof (rule ccontr)
    assume n: "\<not> 15 \<le> sint dbm"
    have "?row = butlast LR11XX_PA_LP_LF_CFG_TABLE ! i" using i n len by (simp add: nth_butlast)
    then have "pc_pa_duty_cycle ?row \<le> 4" using lr_lp_duty i n len nth_mem [of i "butlast LR11XX_PA_LP_LF_CFG_TABLE"] by auto
    then show False using that by simp
  qed
  moreover have "lr_pa_limits LrPa_Lp ?row" using lr_pa_rows(1) i(1) len by simp
  ultimately show ?thesis
    using LrPa_Lp by (auto simp: lr_pa_select_def c(1) i_def [symmetric] lr_pa_limits_def
        split: option.splits if_splits)
next
  case LrPa_Hp
  obtain c where c: "lr_pa_row LR11XX_PA_HP_LF_CFG_TABLE HP_MIN HP_MAX dbm =
      Some (c, LR11XX_PA_HP_LF_CFG_TABLE ! nat (sint c - sint HP_MIN))" "sint c = max (- 9) (min 22 (sint dbm))"
    using lr_pa_row_in [OF _ lr_pa_lengths(2), of dbm] by (auto simp: HP_MIN_def HP_MAX_def)
  define i where "i = nat (sint c - sint HP_MIN)"
  have "i < length LR11XX_PA_HP_LF_CFG_TABLE" using c(2) by (auto simp: i_def HP_MIN_def lr_pa_tables)
  then have "lr_pa_limits LrPa_Hp (LR11XX_PA_HP_LF_CFG_TABLE ! i)" using lr_pa_rows(2) by simp
  moreover have "sint c \<le> 8 \<longleftrightarrow> \<not> 8 < sint dbm" using c(2) by auto
  ultimately show ?thesis using LrPa_Hp
    by (auto simp: lr_pa_select_def c(1) i_def [symmetric] lr_pa_limits_def HP_VREG_VBAT_SWITCH_def)
next
  case LrPa_Hf
  obtain c where c: "lr_pa_row LR11XX_PA_HF_CFG_TABLE HF_MIN HF_MAX dbm =
      Some (c, LR11XX_PA_HF_CFG_TABLE ! nat (sint c - sint HF_MIN))" "sint c = max (- 18) (min 13 (sint dbm))"
    using lr_pa_row_in [OF _ lr_pa_lengths(3), of dbm] by (auto simp: HF_MIN_def HF_MAX_def)
  define i where "i = nat (sint c - sint HF_MIN)"
  have "i < length LR11XX_PA_HF_CFG_TABLE" using c(2) by (auto simp: i_def HF_MIN_def lr_pa_tables)
  then have "lr_pa_limits LrPa_Hf (LR11XX_PA_HF_CFG_TABLE ! i)" using lr_pa_rows(3) by simp
  then show ?thesis using LrPa_Hf
    by (auto simp: lr_pa_select_def c(1) i_def [symmetric] lr_pa_limits_def)
qed

text \<open>A board on the low-power amplifier that asks for its 15 dBm at 433 MHz and at 868 MHz.\<close>

theorem lr_power_programmed_witness:
  "lr_pa_limits LrPa_Lp \<lparr>pc_configured_power = 14, pc_pa_duty_cycle = 7, pc_pa_hp_sel = 0\<rparr> \<and>
   lr_pa_select LrPa_Lp 30 None = Some (Inr (14, 7, 0, LrSupply_Vreg))"
proof -
  have "lr_pa_select LrPa_Lp 30 None = Some (Inr (14, 7, 0, LrSupply_Vreg))"
    by (simp add: lr_pa_select_def lr_pa_row_def LP_MIN_def LP_MAX_def lr_pa_tables pa_cfg_row_def idx_def)
  then show ?thesis using lr_power_programmed [of LrPa_Lp 30 None] by simp
qed

section \<open>Interrupts\<close>

text \<open>The flags of the two chips that stand for the same event.\<close>

definition same_events :: "u32 \<Rightarrow> u16 \<Rightarrow> bool" where
  "same_events f g \<longleftrightarrow>
     (lr_irq_is_set LrIrq_TxDone f \<longleftrightarrow> irq6_is_set Irq6_TxDone g) \<and>
     (lr_irq_is_set LrIrq_RxDone f \<longleftrightarrow> irq6_is_set Irq6_RxDone g) \<and>
     (lr_irq_is_set LrIrq_Timeout f \<longleftrightarrow> irq6_is_set Irq6_RxTxTimeout g) \<and>
     (lr_irq_is_set LrIrq_PreambleDetected f \<longleftrightarrow> irq6_is_set Irq6_PreambleDetected g) \<and>
     (lr_irq_is_set LrIrq_SyncWordHeaderValid f \<longleftrightarrow> irq6_is_set Irq6_HeaderValid g) \<and>
     (lr_irq_is_set LrIrq_CadDone f \<longleftrightarrow> irq6_is_set Irq6_CADDone g) \<and>
     (lr_irq_is_set LrIrq_CadDetected f \<longleftrightarrow> irq6_is_set Irq6_CADActivityDetected g)"

text \<open>For the same events the LR1110 and the SX126x driver report the same to the physical layer in every mode, with two
  exceptions: a status without any flag ends a transmission on the LR1110 and is nothing on the SX126x, and in the
  mode of frequency synthesis, where the SX126x driver panics, the LR1110 driver reports nothing.\<close>

theorem interrupts_agree:
  assumes "same_events f g"
  shows "interpret_irq_flags f mode cad =
    (case sx126x_decode_irq mode g cad of
       None \<Rightarrow> (Inr None, cad)
     | Some (r, cad') \<Rightarrow> if mode = Transmit \<and> f = 0 then (Inr (Some IrqDone), cad) else (r, cad'))"
proof -
  have "\<not> lr_irq_is_set LrIrq_TxDone 0" "\<not> lr_irq_is_set LrIrq_Timeout 0" by (simp_all add: lr_irq_is_set_def)
  then show ?thesis using assms
    by (cases mode) (auto simp: same_events_def interpret_irq_flags_def sx126x_decode_irq_def split: phy_rx_mode.split)
qed

theorem interrupts_agree_witness:
  "interpret_irq_flags 0 Transmit None = (Inr (Some IrqDone), None) \<and> sx126x_decode_irq Transmit 0 None = Some (Inr None, None)"
proof -
  have "same_events 0 0" by (simp add: same_events_def lr_irq_is_set_def irq6_is_set_def)
  from interrupts_agree [OF this, of Transmit None] show ?thesis
    by (simp add: sx126x_decode_irq_def irq6_is_set_def)
qed

section \<open>Memory\<close>

text \<open>Words written to the memory of the chip and given back as the answer of the read of as many words arrive as they
  were; the bytes on the bus are the address and the words, most significant byte first. More than 64 words are
  refused before anything is sent.\<close>

theorem regmem_words_roundtrip:
  fixes address :: u32
  assumes "length buffer = length ws" "\<not> lr_stat1_failed (fx_stat1 f)"
  defines "read_cmd \<equiv> mem_bytes MemReadRegMem32 @ be32 address @ [of_nat (length ws)]"
  shows "if length ws \<le> 64
    then regmem_write_regmem32 fixture_hw address ws f =
           Some (Inr (), fx_wrote (mem_bytes MemWriteRegMem32 @ be32 address @ words_bytes ws) f) \<and>
         (\<exists>f'. regmem_read_regmem32 fixture_hw address (buffer, prime_read read_cmd (words_bytes ws) f) =
           Some (Inr (length ws), ws, f'))
    else regmem_write_regmem32 fixture_hw address ws f = Some (Inl (PayloadSizeMismatch 64 (length ws)), f)"
proof -
  have "lr_query fixture_hw (length ws * 4) read_cmd (prime_read read_cmd (words_bytes ws) f) =
     Some (Inr (words_bytes ws), fx_did_read (1 + length ws * 4) (fx_wrote read_cmd (prime_read read_cmd (words_bytes ws) f)))"
    using assms(2) by (subst fixture_query) (simp_all add: read_cmd_def prime_read_def padded_def mult.commute)
  then show ?thesis using assms(1)
    by (simp add: regmem_write_regmem32_def regmem_read_regmem32_def REGMEM_MAX_READ_WRITE_WORDS_def peek_def fx_run
        modify_def read_cmd_def bytes_words_words_bytes)
qed

theorem regmem_words_roundtrip_witness:
  "\<exists>f'. regmem_read_regmem32 fixture_hw 0x00F30054 ([0, 0],
     prime_read (mem_bytes MemReadRegMem32 @ be32 0x00F30054 @ [2]) (words_bytes [0xDEADBEEF, 1]) fixture_new) =
     Some (Inr 2, [0xDEADBEEF, 1], f')"
proof -
  have "\<not> lr_stat1_failed (fx_stat1 fixture_new)" by (simp add: fixture_new_def lr_stat1_failed_def)
  from regmem_words_roundtrip [OF _ this, of "[0, 0]" "[0xDEADBEEF, 1]" "0x00F30054"] show ?thesis by (simp add: numeral_2_eq_2)
qed

section \<open>Modulation and timing\<close>

text \<open>Where the LR1110 supports a bandwidth, its modulation parameters are those of the SX126x.\<close>

lemma lr_modulation_params_eq:
  "bw \<noteq> BW_7KHz \<Longrightarrow> lr_create_modulation_params sf bw cr f = sx126x_create_modulation_params sf bw cr f"
  by (cases sf; cases bw; cases cr) (simp_all add: lr_create_modulation_params_def sx126x_create_modulation_params_def)

text \<open>The symbol time of the timing helpers is the one of \<open>lora-modulation\<close>.\<close>

lemma lr_symbol_time: "lora_symbol_time_in_us sf bw = t_sym_us (bbmp_new sf bw cr)"
  by (cases sf; cases bw) (simp_all add: lora_symbol_time_in_us_def bbmp_new_def)

end
