(* ===== verification/PhyNumbers.thy ===== *)
theory PhyNumbers
  imports Complex_Main Emu126 Sx127xKind Lr1110Facts
begin

text \<open>
  What the drivers compute from frequencies, powers, symbol counts, sync words and the chips' readings, against what
  these numbers mean.
\<close>

section \<open>Frequencies\<close>

lemma PLL_STEP_SCALED [simp]: "SX126X_PLL_STEP_SCALED = 15625"
  by (simp add: SX126X_PLL_STEP_SCALED_def SX126X_PLL_STEP_SHIFT_AMOUNT_def SX126X_XTAL_FREQ_def drop_bit_eq_div)

lemma uint_sub_le: "uint (y :: 'a::len word) \<le> uint x \<Longrightarrow> uint (x - y) = uint x - uint y"
  by (simp add: uint_sub_if')

lemma uint_shift14: "uint (w :: u32) < 2 ^ 18 \<Longrightarrow> uint (push_bit 14 w) = uint w * 2 ^ 14"
  by (simp add: push_bit_eq_mult uint_word_ariths)

lemma uint_add_le: "uint (x :: u32) + uint y < 2 ^ 32 \<Longrightarrow> uint (x + y) = uint x + uint y"
  by (simp add: uint_word_ariths)

lemma split_15625:
  fixes n :: int
  assumes "0 \<le> n"
  obtains q r where "n = 15625 * q + r" "0 \<le> q" "0 \<le> r" "r < 15625" "q = n div 15625"
  using assms that [of "n div 15625" "n mod 15625"] by simp

text \<open>The chip's frequency is \<open>15625 / 2 ^ 14\<close> Hz times the register, and the register holds the nearest step.\<close>

lemma uint_pll_step_126x:
  assumes "uint f < 15625 * 2 ^ 18"
  shows "uint (convert_freq_in_hz_to_pll_step f) = (uint f * 2 ^ 14 + 7812) div 15625"
proof -
  obtain q r where f: "uint f = 15625 * q + r" "0 \<le> q" "0 \<le> r" "r < 15625" "q = uint f div 15625"
    by (rule split_15625 [of "uint f"]) simp
  have q: "uint (f div 15625) = q" using f by (simp add: uint_div)
  have "15625 * q < 2 ^ 32" using f(1,3) uint_lt2p [of f] by simp
  define g where "g = f div 15625 * 15625"
  have "uint g = 15625 * q" unfolding g_def
    using \<open>15625 * q < 2 ^ 32\<close> q f(2) uint_mult_lem [of "f div 15625" 15625] by (simp add: mult.commute)
  then have "uint (f - g) = r" using uint_sub_le [of g f] f(1,3) by simp
  then have r: "uint (f - f div 15625 * 15625) = r" unfolding g_def .
  have q18: "q < 2 ^ 18" using assms f(1,3) by simp
  have 1: "uint (push_bit 14 (f div 15625)) = q * 2 ^ 14"
    using uint_shift14 [of "f div 15625"] q q18 by simp
  have 2: "uint (push_bit 14 (f - f div 15625 * 15625) + 7812) = r * 2 ^ 14 + 7812"
  proof -
    have "uint (push_bit 14 (f - f div 15625 * 15625)) = r * 2 ^ 14" by (subst uint_shift14) (use r f(3,4) in simp_all)
    then show ?thesis by (subst uint_add_le) (use f(3,4) in simp_all)
  qed
  have 3: "uint ((push_bit 14 (f - f div 15625 * 15625) + 7812) div 15625) = (r * 2 ^ 14 + 7812) div 15625"
    using 2 by (simp add: uint_div)
  have 4: "0 \<le> (r * 2 ^ 14 + 7812) div 15625" "(r * 2 ^ 14 + 7812) div 15625 < 2 ^ 14" using f(3,4) by auto
  have half: "drop_bit 1 (15625 :: u32) = 7812" by (simp add: drop_bit_eq_div)
  have "uint (convert_freq_in_hz_to_pll_step f) = (q * 2 ^ 14 + (r * 2 ^ 14 + 7812) div 15625) mod 2 ^ 32"
    by (simp only: convert_freq_in_hz_to_pll_step_def Let_def PLL_STEP_SCALED SX126X_PLL_STEP_SHIFT_AMOUNT_def half
        uint_word_ariths 1 3 word_size) simp
  also have "\<dots> = q * 2 ^ 14 + (r * 2 ^ 14 + 7812) div 15625"
    using q18 f(2) 4 by (intro mod_pos_pos_trivial) auto
  also have "\<dots> = (uint f * 2 ^ 14 + 7812) div 15625"
  proof -
    have "uint f * 2 ^ 14 + 7812 = (r * 2 ^ 14 + 7812) + (q * 2 ^ 14) * 15625" using f(1) by simp
    then show ?thesis by simp
  qed
  finally show ?thesis .
qed

lemma uint_pll_step_127x: "uint (freq_to_pll_step f) = uint f * 256 div 15625"
proof -
  have f: "uint f < 2 ^ 32" using uint_lt2p [of f] by simp
  have "uint (push_bit 19 (ucast f :: u64)) = uint f * 2 ^ 19"
    using f by (simp add: push_bit_eq_mult uint_word_ariths unsigned_ucast_eq take_bit_int_eq_self)
  then have "uint (push_bit 19 (ucast f :: u64) div 32000000) = uint f * 2 ^ 19 div 32000000"
    by (simp add: uint_div)
  moreover have "uint f * 2 ^ 19 div 32000000 = uint f * 256 div 15625"
    using div_mult_mult1 [of "2048 :: int" "uint f * 256" 15625] by simp
  moreover have "0 \<le> uint f * 256 div 15625" "uint f * 256 div 15625 < 2 ^ 32"
    using f by (simp_all add: pos_imp_zdiv_nonneg_iff div_less_iff_less_mult)
  ultimately show ?thesis
    by (simp add: freq_to_pll_step_def unsigned_ucast_eq take_bit_int_eq_self_iff)
qed

lemma uint_pll_freq_127x:
  assumes "uint s < 2 ^ 24"
  shows "uint (pll_step_to_freq s) = uint s * 15625 div 256"
proof -
  have "uint ((ucast s :: u64) * 32000000) = uint s * 32000000"
    using assms by (simp add: uint_word_ariths unsigned_ucast_eq take_bit_int_eq_self)
  then have "uint (drop_bit 19 ((ucast s :: u64) * 32000000)) = uint s * 32000000 div 2 ^ 19"
    by (simp add: drop_bit_eq_div uint_div)
  moreover have "uint s * 32000000 div 2 ^ 19 = uint s * 15625 div 256"
    using div_mult_mult1 [of "2048 :: int" "uint s * 15625" 256] by simp
  moreover have "0 \<le> uint s * 15625 div 256" "uint s * 15625 div 256 < 2 ^ 32"
    using assms by (simp_all add: pos_imp_zdiv_nonneg_iff div_less_iff_less_mult)
  ultimately show ?thesis
    by (simp add: pll_step_to_freq_def unsigned_ucast_eq take_bit_int_eq_self_iff)
qed

text \<open>The number that bytes give, the most significant first.\<close>

definition be_value :: "bytes \<Rightarrow> int" where
  "be_value bs = foldl (\<lambda>n b. 256 * n + uint b) 0 bs"

lemma uint_low_byte: "uint (ucast x :: u8) = uint (x :: u32) mod 256"
  by (simp add: unsigned_ucast_eq take_bit_eq_mod)

lemma ucast_low_byte: "(ucast (x AND 0xFF :: u32) :: u8) = ucast x"
proof -
  have m: "(0xFF :: u32) = mask 8" by (simp add: mask_eq_exp_minus_1)
  show ?thesis unfolding m by (rule bit_word_eqI) (auto simp: bit_simps)
qed

lemma base_256: "0 \<le> n \<Longrightarrow> 256 * (n div 256) + n mod 256 = (n :: int)"
  by simp

lemma be_value_u32: "be_value [ucast (drop_bit 24 s), ucast (drop_bit 16 s), ucast (drop_bit 8 s), ucast (s :: u32)] = uint s"
proof -
  define n where "n = uint s"
  have n: "0 \<le> n" "n < 2 ^ 32" using uint_lt2p [of s] by (simp_all add: n_def)
  have d: "uint (drop_bit 24 s) = n div 2 ^ 24" "uint (drop_bit 16 s) = n div 2 ^ 16" "uint (drop_bit 8 s) = n div 2 ^ 8"
    by (simp_all add: n_def drop_bit_eq_div uint_div)
  define a b c where "a = n div 2 ^ 24" and "b = n div 2 ^ 16" and "c = n div 2 ^ 8"
  have v: "be_value [ucast (drop_bit 24 s), ucast (drop_bit 16 s), ucast (drop_bit 8 s), ucast s] =
      256 * (256 * (256 * (a mod 256) + b mod 256) + c mod 256) + n mod 256"
    by (simp only: be_value_def foldl_Cons foldl_Nil uint_low_byte d a_def b_def c_def) (simp add: n_def)
  have q: "a = b div 256" "b = c div 256" "c = n div 256"
    using zdiv_zmult2_eq [of 256 n "2 ^ 16"] zdiv_zmult2_eq [of 256 n "2 ^ 8"] by (simp_all add: a_def b_def c_def)
  have "a mod 256 = a" using n by (intro mod_pos_pos_trivial) (simp_all add: a_def)
  moreover have "256 * a + b mod 256 = b" "256 * b + c mod 256 = c" "256 * c + n mod 256 = n" by (simp_all add: q)
  ultimately show ?thesis unfolding v n_def [symmetric] by (simp only:)
qed

lemma be_value_24:
  assumes "uint (s :: u32) < 2 ^ 24"
  shows "be_value [ucast (drop_bit 16 s), ucast (drop_bit 8 s), ucast s] = uint s"
proof -
  have "uint (drop_bit 24 s) = 0" using assms by (simp add: drop_bit_eq_div uint_div)
  then have "drop_bit 24 s = 0" by (simp only: unsigned_eq_0_iff)
  then show ?thesis using be_value_u32 [of s] by (simp add: be_value_def)
qed

lemma ucast_byte_16: "(ucast (drop_bit 16 (x AND 0x00FF0000 :: u32)) :: u8) = ucast (drop_bit 16 x)"
proof -
  have m: "(0x00FF0000 :: u32) = push_bit 16 (mask 8)" by (simp add: mask_eq_exp_minus_1)
  show ?thesis unfolding m by (rule bit_word_eqI) (auto simp: bit_simps)
qed

lemma ucast_byte_8: "(ucast (drop_bit 8 (x AND 0x0000FF00 :: u32)) :: u8) = ucast (drop_bit 8 x)"
proof -
  have m: "(0x0000FF00 :: u32) = push_bit 8 (mask 8)" by (simp add: mask_eq_exp_minus_1)
  show ?thesis unfolding m by (rule bit_word_eqI) (auto simp: bit_simps)
qed
text \<open>The steps that the two drivers compute, and what the one of the SX127x reads back as.\<close>

lemma carrier_steps:
  assumes "uint f < 15625 * 2 ^ 16"
  shows "\<bar>uint (convert_freq_in_hz_to_pll_step f) * 15625 - uint f * 2 ^ 14\<bar> \<le> 7812 \<and>
    uint (freq_to_pll_step f) < 2 ^ 24 \<and>
    uint (pll_step_to_freq (freq_to_pll_step f)) \<le> uint f \<and>
    uint f \<le> uint (pll_step_to_freq (freq_to_pll_step f)) + 62 \<and>
    (uint f mod 15625 = 0 \<longrightarrow> pll_step_to_freq (freq_to_pll_step f) = f)"
proof -
  let ?s = "uint f * 256 div 15625"
  have s: "?s < 2 ^ 24" "0 \<le> ?s" using assms by (simp_all add: pos_imp_zdiv_nonneg_iff div_less_iff_less_mult)
  have bk: "uint (pll_step_to_freq (freq_to_pll_step f)) = ?s * 15625 div 256"
    using uint_pll_freq_127x [of "freq_to_pll_step f"] s by (simp add: uint_pll_step_127x)
  obtain q r where f: "uint f = 15625 * q + r" "0 \<le> q" "0 \<le> r" "r < 15625" "q = uint f div 15625"
    by (rule split_15625 [of "uint f"]) simp
  have "\<bar>uint (convert_freq_in_hz_to_pll_step f) * 15625 - uint f * 2 ^ 14\<bar> \<le> 7812"
    using uint_pll_step_126x [of f] assms by simp
  moreover have "?s * 15625 div 256 \<le> uint f" "uint f \<le> ?s * 15625 div 256 + 62" by auto
  moreover have "pll_step_to_freq (freq_to_pll_step f) = f" if "uint f mod 15625 = 0"
  proof -
    have "uint f = 15625 * q" using that f(5) mult_div_mod_eq [of 15625 "uint f"] by simp
    then have "uint (pll_step_to_freq (freq_to_pll_step f)) = uint f" by (simp only: bk) simp
    then show ?thesis by (simp only: word_uint_eq_iff)
  qed
  ultimately show ?thesis using s by (simp add: bk uint_pll_step_127x)
qed

text \<open>C34. The carrier that \<open>set_channel\<close> programs, byte by byte, for every frequency below 1.024 GHz (the limit of the 24-bit
  register of the SX127x). To the SX126x goes the command 0x86 with four bytes, the most significant first, that give the step of
  15625 / 2^14 Hz nearest to the frequency. In the SX127x the registers 6, 7 and 8, in this order, get the three bytes of the
  last step of 15625 / 2^8 Hz that is not above the frequency; read back it is at most 62 Hz low, and exact for multiples of
  15625 Hz. To the LR1110 goes the command 0x020B with the frequency in Hz in four bytes.\<close>

theorem carrier_programmed:
  assumes "uint f < 15625 * 2 ^ 16"
  shows "(\<exists>a b c d. sx126x_set_channel H f = intf_write H [0x86, a, b, c, d] False \<and>
      \<bar>be_value [a, b, c, d] * 15625 - uint f * 2 ^ 14\<bar> \<le> 7812) \<and>
    (\<exists>a b c. sx127x_set_channel H f = steps [on_intf (intf_write H [0x06 OR 0x80, a] False),
        on_intf (intf_write H [0x07 OR 0x80, b] False), on_intf (intf_write H [0x08 OR 0x80, c] False)] \<and>
      be_value [a, b, c] * 15625 \<le> uint f * 2 ^ 8 \<and> uint f * 2 ^ 8 < (be_value [a, b, c] + 1) * 15625) \<and>
    (uint (pll_step_to_freq (freq_to_pll_step f)) \<le> uint f \<and> uint f \<le> uint (pll_step_to_freq (freq_to_pll_step f)) + 62 \<and>
      (uint f mod 15625 = 0 \<longrightarrow> pll_step_to_freq (freq_to_pll_step f) = f)) \<and>
    (\<exists>a b c d. lr_set_channel H f = lr_write_command H [0x02, 0x0B, a, b, c, d] \<and> be_value [a, b, c, d] = uint f)"
proof (intro conjI)
  note st = carrier_steps [OF assms]
  let ?s = "convert_freq_in_hz_to_pll_step f" and ?t = "freq_to_pll_step f"
  have "sx126x_set_channel H f =
      intf_write H [0x86, ucast (drop_bit 24 ?s), ucast (drop_bit 16 ?s), ucast (drop_bit 8 ?s), ucast ?s] False"
    by (simp only: sx126x_set_channel_def Let_def ucast_low_byte op_value.simps)
  then show "\<exists>a b c d. sx126x_set_channel H f = intf_write H [0x86, a, b, c, d] False \<and>
      \<bar>be_value [a, b, c, d] * 15625 - uint f * 2 ^ 14\<bar> \<le> 7812" using st be_value_u32 [of ?s] by metis
  have w: "sx127x_set_channel H f = steps [on_intf (intf_write H [0x06 OR 0x80, ucast (drop_bit 16 ?t)] False),
      on_intf (intf_write H [0x07 OR 0x80, ucast (drop_bit 8 ?t)] False), on_intf (intf_write H [0x08 OR 0x80, ucast ?t] False)]"
    by (simp only: sx127x_set_channel_def Let_def write_register_def write_addr_def reg7_value.simps ucast_low_byte
        ucast_byte_16 ucast_byte_8)
  have b: "be_value [ucast (drop_bit 16 ?t), ucast (drop_bit 8 ?t), ucast ?t] = uint f * 256 div 15625"
    using st be_value_24 [of ?t] by (simp only: uint_pll_step_127x)
  have "uint f * 256 div 15625 * 15625 \<le> uint f * 2 ^ 8 \<and> uint f * 2 ^ 8 < (uint f * 256 div 15625 + 1) * 15625"
    by (rule split_15625 [of "uint f * 256"]) auto
  then show "\<exists>a b c. sx127x_set_channel H f = steps [on_intf (intf_write H [0x06 OR 0x80, a] False),
        on_intf (intf_write H [0x07 OR 0x80, b] False), on_intf (intf_write H [0x08 OR 0x80, c] False)] \<and>
      be_value [a, b, c] * 15625 \<le> uint f * 2 ^ 8 \<and> uint f * 2 ^ 8 < (be_value [a, b, c] + 1) * 15625"
    using w b by metis
  have op: "(523 :: u8) = 0x0B" by simp
  have "lr_set_channel H f = lr_write_command H [0x02, 0x0B, ucast (drop_bit 24 f), ucast (drop_bit 16 f), ucast (drop_bit 8 f), ucast f]"
    by (simp add: lr_set_channel_def rad_bytes_def be16_def be32_def op)
  then show "\<exists>a b c d. lr_set_channel H f = lr_write_command H [0x02, 0x0B, a, b, c, d] \<and> be_value [a, b, c, d] = uint f"
    using be_value_u32 [of f] by metis
qed (use carrier_steps [OF assms] in simp_all)

theorem carrier_programmed_witness:
  "\<exists>a b c d. sx126x_set_channel chip6_hw 868100000 = intf_write chip6_hw [0x86, a, b, c, d] False \<and>
     \<bar>be_value [a, b, c, d] * 15625 - 868100000 * 2 ^ 14\<bar> \<le> 7812"
  using carrier_programmed [of 868100000 chip6_hw] by auto

section \<open>Transmit power of the SX126x\<close>

text \<open>The dBm that come out when the value \<open>v\<close> is programmed with the amplifier set up as in row \<open>e\<close>.\<close>

definition pa_output :: "pa_table_entry \<Rightarrow> u8 \<Rightarrow> int" where
  "pa_output e v = sint v + sint (pe_max_dbm e) - sint (pe_tx_params_at_max e)"

definition pa_target :: "pa_table \<Rightarrow> i32 \<Rightarrow> int" where
  "pa_target t dbm = max (sint (pt_min_dbm t)) (min (sint dbm) (sint (pe_max_dbm (last (pt_entries t)))))"

definition pa_rows_ok :: "pa_table \<Rightarrow> bool" where
  "pa_rows_ok t \<longleftrightarrow> (\<forall>e \<in> set (pt_entries t). \<bar>sint (pe_tx_params_at_max e)\<bar> + \<bar>sint (pe_max_dbm e)\<bar> + \<bar>sint (pt_min_dbm t)\<bar> < 64) \<and>
     sorted (map (sint \<circ> pe_max_dbm) (pt_entries t))"

lemma sint_i8_sub:
  fixes a b :: i8
  assumes "\<bar>sint a\<bar> + \<bar>sint b\<bar> < 128"
  shows "sint (a - b) = sint a - sint b"
  using assms by (subst sint_word_ariths) (simp add: signed_take_bit_int_eq_self)

lemma find_sorted:
  assumes "sorted (map g xs)" "find (\<lambda>e. c \<le> g e) xs = Some e" "e' \<in> set xs" "c \<le> g e'"
  shows "g e \<le> (g e' :: int)"
  using assms by (induction xs) (auto split: if_splits)

lemma pa_lookup_output:
  assumes "pa_table_ok t" "pa_rows_ok t"
  obtains e v where "pa_lookup t dbm = Some (e, v)" "e \<in> set (pt_entries t)" "pa_output e v = pa_target t dbm"
    "\<And>e'. e' \<in> set (pt_entries t) \<Longrightarrow> pa_target t dbm \<le> sint (pe_max_dbm e') \<Longrightarrow> sint (pe_max_dbm e) \<le> sint (pe_max_dbm e')"
    "sint v \<le> sint (pe_tx_params_at_max e)"
proof -
  let ?row = "last (pt_entries t)"
  define c where "c = (if sint dbm < sint (pt_min_dbm t) then scast (pt_min_dbm t)
    else if sint (pe_max_dbm ?row) < sint dbm then scast (pe_max_dbm ?row) else dbm)"
  define txp where "txp = (ucast c :: i8)"
  have lh: "sint (pt_min_dbm t) \<le> sint (pe_max_dbm ?row)" and ne: "pt_entries t \<noteq> []" and row: "?row \<in> set (pt_entries t)"
    using assms(1) by (auto simp: pa_table_ok_def)
  have c: "sint c = pa_target t dbm" using lh by (simp add: c_def pa_target_def sint_scast_i8)
  have small: "\<bar>sint (pe_tx_params_at_max e)\<bar> + \<bar>sint (pe_max_dbm e)\<bar> + \<bar>sint (pt_min_dbm t)\<bar> < 64" if "e \<in> set (pt_entries t)" for e
    using assms(2) that by (simp add: pa_rows_ok_def)
  have range: "sint (pt_min_dbm t) \<le> sint c" "sint c \<le> sint (pe_max_dbm ?row)" using lh by (auto simp: c pa_target_def)
  have "sint txp = signed_take_bit 7 (uint c)" by (simp add: txp_def signed_ucast_eq)
  also have "\<dots> = signed_take_bit 7 (sint c)" by (simp add: sint_uint signed_take_bit_signed_take_bit)
  finally have txp: "sint txp = pa_target t dbm"
    using range small [OF row] c by (simp add: signed_take_bit_int_eq_self)
  define e where "e = (case find (\<lambda>e. sint txp \<le> sint (pe_max_dbm e)) (pt_entries t) of Some e \<Rightarrow> e | None \<Rightarrow> ?row)"
  have "\<exists>e'. find (\<lambda>e. sint txp \<le> sint (pe_max_dbm e)) (pt_entries t) = Some e'"
    using range(2) c txp row by (metis (lifting) find_None_iff not_None_eq)
  then have f: "find (\<lambda>e. sint txp \<le> sint (pe_max_dbm e)) (pt_entries t) = Some e" by (auto simp: e_def)
  then have e: "e \<in> set (pt_entries t)" "sint txp \<le> sint (pe_max_dbm e)" by (auto simp: find_Some_iff)
  let ?v = "pe_tx_params_at_max e - (pe_max_dbm e - txp)"
  have d: "sint (pe_max_dbm e - txp) = sint (pe_max_dbm e) - sint txp"
    using small [OF e(1)] small [OF row] range c txp by (intro sint_i8_sub) auto
  have v: "sint ?v = sint (pe_tx_params_at_max e) - (sint (pe_max_dbm e) - sint txp)"
    using small [OF e(1)] small [OF row] range c txp e(2) d by (subst sint_i8_sub) auto
  have "pa_lookup t dbm = Some (e, ?v)"
    using ne lh unfolding pa_lookup_def i32_clamp_def Let_def sint_scast_i8
    by (simp add: e_def txp_def c_def)
  then show thesis
  proof (rule that)
    show "pa_output e ?v = pa_target t dbm" using v txp by (simp add: pa_output_def)
    show "sint (pe_max_dbm e) \<le> sint (pe_max_dbm e')"
      if "e' \<in> set (pt_entries t)" "pa_target t dbm \<le> sint (pe_max_dbm e')" for e'
      using find_sorted [of "sint \<circ> pe_max_dbm" "pt_entries t" "sint txp" e e'] f assms(2) that txp
      by (simp add: pa_rows_ok_def comp_def)
    show "sint ?v \<le> sint (pe_tx_params_at_max e)" using v e(2) by simp
  qed (rule e(1))
qed

lemma pa_rows: "pa_rows_ok SX1261_PA_TABLE" "pa_rows_ok SX1262_PA_TABLE" "pa_rows_ok STM32WL_HP_PA_TABLE"
  by (simp_all add: pa_rows_ok_def SX1261_PA_TABLE_def SX1262_PA_TABLE_def STM32WL_HP_PA_TABLE_def pa_entry_def)

text \<open>For the amplifier tables of the crate, every request in dBm, also one out of range, is served with the nearest
  power the table reaches, from the row with the smallest maximum that reaches it.\<close>

theorem power_programmed:
  assumes "t \<in> {SX1261_PA_TABLE, SX1262_PA_TABLE, STM32WL_HP_PA_TABLE}"
  shows "\<exists>e v. pa_lookup t dbm = Some (e, v) \<and> e \<in> set (pt_entries t) \<and> pa_output e v = pa_target t dbm \<and>
    (\<forall>e' \<in> set (pt_entries t). pa_target t dbm \<le> sint (pe_max_dbm e') \<longrightarrow> sint (pe_max_dbm e) \<le> sint (pe_max_dbm e'))"
proof -
  have "pa_table_ok t" "pa_rows_ok t" using assms pa_tables_ok pa_rows by auto
  then show ?thesis by (rule pa_lookup_output [of t dbm]) blast
qed

theorem power_programmed_witness:
  "\<exists>e v. pa_lookup SX1262_PA_TABLE 18 = Some (e, v) \<and> pa_output e v = 18"
  using power_programmed [of SX1262_PA_TABLE 18] by (auto simp: pa_target_def SX1262_PA_TABLE_def pa_entry_def)

section \<open>Symbol timeouts of the SX126x\<close>

definition symb_count :: "u8 \<times> u8 \<Rightarrow> nat" where
  "symb_count = (\<lambda>(mant, ex). unat mant * 2 ^ (2 * unat ex + 1))"

lemma symb_timeout_eq:
  fixes n :: u16
  defines "m \<equiv> min (unat n) 248"
  shows "symb_timeout n = (if (m + 1) div 2 \<le> 31 then (of_nat ((m + 1) div 2), 0) else (of_nat (((m + 1) div 2 + 3) div 4), 1))"
proof -
  define h where "h = (m + 1) div 2"
  have m: "m \<le> 248" by (simp add: m_def)
  then have h: "h \<le> 124" by (simp add: h_def)
  have "unat (min n (ucast SX126X_MAX_LORA_SYMB_NUM_TIMEOUT)) = m"
    by (simp add: m_def SX126X_MAX_LORA_SYMB_NUM_TIMEOUT_def min_def word_le_nat_alt)
  then have "unat (min n (ucast SX126X_MAX_LORA_SYMB_NUM_TIMEOUT) + 1) = m + 1" using m by (simp add: unat_word_ariths)
  then have "unat (drop_bit 1 (min n (ucast SX126X_MAX_LORA_SYMB_NUM_TIMEOUT) + 1)) = h"
    by (simp add: drop_bit_eq_div unat_div_distrib h_def)
  then have start: "ucast (drop_bit 1 (min n (ucast SX126X_MAX_LORA_SYMB_NUM_TIMEOUT) + 1)) = (of_nat h :: u8)"
    by (simp add: word_unat_eq_iff unsigned_ucast_eq unat_of_nat take_bit_eq_mod)
  have u: "unat (of_nat h :: u8) = h" using h by (simp add: unat_of_nat take_bit_nat_eq_self)
  have hs: "Suc m div 2 = h" by (simp add: h_def)
  show ?thesis
  proof (cases "h \<le> 31")
    case True
    then have "\<not> (31 :: u8) < of_nat h" using u by (simp add: word_less_nat_alt)
    then show ?thesis using True unfolding symb_timeout_def start by (simp add: hs symb_timeout_loop.simps [of "of_nat h"])
  next
    case False
    have gt: "(31 :: u8) < of_nat h" using False u by (simp add: word_less_nat_alt)
    have "unat (of_nat h + 3 :: u8) = h + 3" using h u by (simp add: unat_word_ariths)
    then have "unat (drop_bit 2 (of_nat h + 3 :: u8)) = (h + 3) div 4" by (simp add: drop_bit_eq_div unat_div_distrib)
    moreover have le: "(h + 3) div 4 \<le> 31" using h by simp
    ultimately have d: "drop_bit 2 (of_nat h + 3 :: u8) = of_nat ((h + 3) div 4)" by (metis of_nat_unat ucast_id)
    have "\<not> (31 :: u8) < of_nat ((h + 3) div 4)"
      using le by (simp add: word_less_nat_alt unat_of_nat take_bit_nat_eq_self)
    then show ?thesis using False gt unfolding symb_timeout_def start
      by (simp add: hs symb_timeout_loop.simps [of "of_nat h"] d
          symb_timeout_loop.simps [of "of_nat ((h + 3) div 4)"])
  qed
qed

text \<open>The chip's format, a mantissa of five bits and a power of four, is met: the number of symbols programmed covers the
  request, by less than eight symbols more, but never more than the 248 the chip can count, although the API documents
  requests up to 254.\<close>

theorem symbol_timeout_programmed:
  "unat (fst (symb_timeout n)) \<le> 31 \<and> unat (snd (symb_timeout n)) \<le> 1 \<and>
   min (unat n) 248 \<le> symb_count (symb_timeout n) \<and>
   symb_count (symb_timeout n) < min (unat n) 248 + 8 \<and> symb_count (symb_timeout n) \<le> 248"
proof -
  define m where "m = min (unat n) 248"
  have m: "m \<le> 248" by (simp add: m_def)
  have u: "unat (of_nat k :: u8) = k" if "k \<le> 31" for k
    using that by (simp add: unat_of_nat take_bit_nat_eq_self)
  show ?thesis
  proof (cases "(m + 1) div 2 \<le> 31")
    case True
    have "2 * ((m + 1) div 2) \<ge> m" "2 * ((m + 1) div 2) < m + 8" "2 * ((m + 1) div 2) \<le> 248" using True by auto
    then show ?thesis using True
      by (simp add: symb_timeout_eq [of n, folded m_def] symb_count_def u flip: m_def)
  next
    case False
    define k where "k = ((m + 1) div 2 + 3) div 4"
    have k: "k \<le> 31" "8 * k \<ge> m" "8 * k < m + 8" "8 * k \<le> 248" using False m by (auto simp: k_def)
    have "symb_timeout n = (of_nat k, 1)" using False by (simp add: symb_timeout_eq [of n, folded m_def] k_def)
    then show ?thesis using k by (simp add: symb_count_def u mult.commute flip: m_def)
  qed
qed

section \<open>Sync words\<close>

lemma nibbles: "(b AND 0xF0) OR (b AND 0x0F) = (b :: u8)"
proof -
  have "(0xF0 :: u8) OR 0x0F = - 1" by simp
  then show ?thesis by (metis and.right_neutral bit.conj_disj_distrib)
qed

lemma of_be16_bytes: "ucast (drop_bit 8 (of_be16 hi lo)) = hi" "(ucast (of_be16 hi lo) :: u8) = lo"
  by (auto intro!: bit_word_eqI simp: of_be16_def bit_simps)

lemma of_be16_of_bytes: "of_be16 (ucast (drop_bit 8 w)) (ucast w) = (w :: u16)"
  by (rule bit_word_eqI) (auto simp: of_be16_def bit_simps)

text \<open>A byte becomes the word an SX126x takes and back; exactly the words made this way can be written to an SX127x.\<close>

theorem sync_word_exact: "sync_word_to_legacy w = Inr b \<longleftrightarrow> w = sync_word_from_legacy b"
proof -
  have m4: "(0x0F :: u8) = mask 4" "(0xF0 :: u8) = push_bit 4 (mask 4)" by (simp_all add: mask_eq_exp_minus_1)
  have shl: "push_bit 4 (b AND 0x0F) = push_bit 4 (b AND 0x0F) AND 0xF0"
    unfolding m4 by (rule bit_word_eqI) (auto simp: bit_simps)
  have shr: "drop_bit 4 (push_bit 4 (b AND 0x0F)) = b AND 0x0F"
    unfolding m4 by (rule bit_word_eqI) (auto simp: bit_simps)
  have dr: "drop_bit 4 (x OR y) = drop_bit 4 x OR drop_bit 4 (y :: u8)" for x y by simp
  show ?thesis
  proof
    assume a: "sync_word_to_legacy w = Inr b"
    define hi lo where "hi = (ucast (drop_bit 8 w) :: u8)" and "lo = (ucast w :: u8)"
    have h: "hi AND 0x0F = 4" "lo AND 0x0F = 4" "b = hi AND 0xF0 OR drop_bit 4 lo"
      using a by (auto simp: sync_word_to_legacy_def Let_def hi_def lo_def split: if_splits)
    have "b AND 0xF0 = hi AND 0xF0"
      unfolding h(3) m4 by (rule bit_word_eqI) (auto simp: bit_simps dest: bit_imp_le_length)
    moreover have "push_bit 4 (b AND 0x0F) = lo AND 0xF0"
      unfolding h(3) m4 by (rule bit_word_eqI) (auto simp: bit_simps dest: bit_imp_le_length)
    ultimately have "sync_word_from_legacy b = of_be16 hi lo"
      using nibbles [of hi] nibbles [of lo] h by (simp add: sync_word_from_legacy_def)
    then show "w = sync_word_from_legacy b" by (simp add: hi_def lo_def of_be16_of_bytes)
  next
    assume w: "w = sync_word_from_legacy b"
    have "(b AND 0xF0 OR 0x04) AND 0x0F = 4" by (simp add: bit.conj_disj_distrib2 and.assoc)
    moreover have "(push_bit 4 (b AND 0x0F) OR 0x04) AND 0x0F = 4"
      by (subst shl) (simp add: bit.conj_disj_distrib2 and.assoc)
    moreover have "(b AND 0xF0 OR 0x04) AND 0xF0 OR drop_bit 4 (push_bit 4 (b AND 0x0F) OR 0x04) = b"
      unfolding dr shr by (simp add: bit.conj_disj_distrib2 and.assoc nibbles drop_bit_eq_div)
    ultimately show "sync_word_to_legacy w = Inr b"
      by (simp add: w sync_word_to_legacy_def sync_word_from_legacy_def of_be16_bytes Let_def)
  qed
qed

lemma lorawan_sync_words:
  "sync_word_to_legacy LORAWAN_PUBLIC_SYNCWORD = Inr 0x34" "sync_word_to_legacy LORAWAN_PRIVATE_SYNCWORD = Inr 0x12"
  by (simp_all add: sync_word_exact sync_word_from_legacy_def of_be16_def LORAWAN_PUBLIC_SYNCWORD_def
      LORAWAN_PRIVATE_SYNCWORD_def)

section \<open>Signal readings\<close>

lemma uint_u8_int:
  obtains k where "uint (b :: u8) = int k" "k < 256"
  using zero_le_imp_eq_int [of "uint b"] uint_lt2p [of b] by auto

lemma sint_ucast_up: "sint (ucast (b :: u8) :: 32 word) = uint b" "sint (ucast (b :: u8) :: 16 word) = uint b"
proof -
  obtain k where "uint b = int k" "k < 256" by (rule uint_u8_int)
  then show "sint (ucast b :: 32 word) = uint b" "sint (ucast b :: 16 word) = uint b"
    unfolding signed_ucast_eq by (auto intro!: signed_take_bit_int_eq_self)
qed

lemma sint_low_half:
  fixes w :: i32
  assumes "- 128 \<le> sint w" "sint w < 128"
  shows "sint (ucast w :: i16) = sint w"
proof -
  have "sint (ucast w :: i16) = signed_take_bit 15 (uint w)" by (simp add: signed_ucast_eq)
  also have "\<dots> = signed_take_bit 15 (sint w)" by (simp add: sint_uint signed_take_bit_signed_take_bit)
  also have "\<dots> = sint w" using assms by (intro signed_take_bit_int_eq_self) simp_all
  finally show ?thesis .
qed

lemma sint_rssi_126x: "sint (sx126x_rssi b) = - uint b div 2"
proof -
  have b: "uint b < 256" "0 \<le> uint b" using uint_lt2p [of b] by simp_all
  obtain k where k: "uint b = int k" "k < 256" by (rule uint_u8_int)
  then have "signed_take_bit 31 (- uint b) = - uint b" by (intro signed_take_bit_int_eq_self) simp_all
  then have "sint (- ucast b :: i32) = - uint b" by (subst sint_word_ariths) (simp add: sint_ucast_up)
  then have "sint (signed_drop_bit 1 (- ucast b :: i32)) = - uint b div 2"
    by (simp add: sint_signed_drop_bit_eq drop_bit_eq_div)
  moreover have "- uint b div 2 \<ge> - 128" "- uint b div 2 < 128" using k by auto
  ultimately show ?thesis unfolding sx126x_rssi_def by (simp add: sint_low_half)
qed

lemma sint_snr_126x: "sint b < 126 \<Longrightarrow> sint (sx126x_snr b) = (sint b + 2) div 4"
proof -
  assume b: "sint b < 126"
  have l: "- 128 \<le> sint b" using sint_ge [of b] by simp
  have "signed_take_bit 7 (sint b + 2) = sint b + 2" using b l by (intro signed_take_bit_int_eq_self) simp_all
  then have "sint (b + 2) = sint b + 2" by (subst sint_word_ariths) simp
  then have "sint (signed_drop_bit 2 (b + 2)) = (sint b + 2) div 4" by (simp add: sint_signed_drop_bit_eq drop_bit_eq_div)
  then show ?thesis unfolding sx126x_snr_def by (simp add: sint_up_scast is_up)
qed

text \<open>A reading the chip gives in half dBm or quarter dB becomes dBm, rounded down, and dB, rounded to the nearest.
  The addition in the second one overflows an \<open>i8\<close> for the two largest readings: a signal of 31.5 dB or more above the
  noise is reported as -32 dB (in a build with overflow checks the driver panics). The RSSI of the SX127x is its reading
  times 16/15, rounded to the nearest.\<close>

theorem readings_converted:
  "sint (sx126x_rssi b) = \<lfloor>- real_of_int (uint b) / 2\<rfloor> \<and>
   (sint b < 126 \<longrightarrow> sint (sx126x_snr b) = \<lfloor>real_of_int (sint b) / 4 + 1 / 2\<rfloor>) \<and>
   (126 \<le> sint b \<longrightarrow> sx126x_snr b = - 32) \<and>
   \<bar>15 * uint (linearize_rssi b) - 16 * uint b\<bar> \<le> 7"
proof -
  have b: "uint b < 256" "0 \<le> uint b" using uint_lt2p [of b] by simp_all
  have 1: "\<lfloor>- real_of_int (uint b) / 2\<rfloor> = - uint b div 2" using floor_divide_of_int_eq [of "- uint b" 2, where ?'a = real] by simp
  have e: "real_of_int (sint b) / 4 + 1 / 2 = real_of_int (sint b + 2) / real_of_int 4" by (simp add: add_divide_distrib)
  have 2: "\<lfloor>real_of_int (sint b) / 4 + 1 / 2\<rfloor> = (sint b + 2) div 4" unfolding e by (rule floor_divide_of_int_eq)
  have 3: "sx126x_snr b = - 32" if "126 \<le> sint b"
  proof -
    have "sint b = 126 \<or> sint b = 127" using that sint_lt [of b] by auto
    moreover have "sint (126 :: i8) = 126" "sint (127 :: i8) = 127" by simp_all
    ultimately have "b = 126 \<or> b = 127" by (metis word_eq_iff_signed)
    then show ?thesis by (auto simp: sx126x_snr_def)
  qed
  have "uint (ucast b * 16 + 7 :: i16) = uint b * 16 + 7"
    using b by (simp add: uint_word_ariths unsigned_ucast_eq take_bit_int_eq_self)
  then have "uint (linearize_rssi b) = (uint b * 16 + 7) div 15" by (simp add: linearize_rssi_def uint_div)
  moreover have "\<bar>15 * ((uint b * 16 + 7) div 15) - 16 * uint b\<bar> \<le> 7"
  proof -
    define x where "x = uint b * 16 + 7"
    have "15 * (x div 15) = x - x mod 15" by (simp add: minus_mod_eq_mult_div)
    moreover have "0 \<le> x mod 15" "x mod 15 < 15" by simp_all
    ultimately have "\<bar>15 * (x div 15) - (x - 7)\<bar> \<le> 7" by linarith
    then show ?thesis by (simp add: x_def)
  qed
  ultimately have "\<bar>15 * uint (linearize_rssi b) - 16 * uint b\<bar> \<le> 7" by (simp only:)
  then show ?thesis using 3 sint_snr_126x [of b] unfolding 1 2 sint_rssi_126x by blast
qed

theorem readings_converted_witness: "sint (sx126x_snr 40) = \<lfloor>real_of_int (sint (40 :: u8)) / 4 + 1 / 2\<rfloor>"
  using readings_converted [of 40] by simp

section \<open>Low data rate optimisation\<close>

text \<open>C38. The modem of the chip and the time-on-air formula must agree on the optimisation for long symbols (16.384 ms and
  more). Over the bandwidths of LoRaWAN the SX126x and the LR1110 driver do. The SX127x driver, which divides twice in whole numbers,
  leaves it off for SF11 at 125 kHz and SF12 at 250 kHz, where symbols last exactly 16.384 ms: the frames it sends there
  are not coded as \<open>time_on_air_us\<close>, an SX126x or a gateway expects.\<close>

theorem ldro_agreement:
  assumes "bw \<in> {BW_125KHz, BW_250KHz, BW_500KHz}"
  shows "(sx126x_create_modulation_params sf bw cr f = Inr m \<longrightarrow> (mp_ldro m = 1 \<longleftrightarrow> ldro (bbmp_of_modulation m))) \<and>
    (lr_create_modulation_params sf bw cr f = Inr m \<longrightarrow> (mp_ldro m = 1 \<longleftrightarrow> ldro (bbmp_of_modulation m))) \<and>
    (sx127x_create_modulation_params chip sf bw cr f = Some (Inr m) \<longrightarrow>
      (mp_ldro m = 1 \<longleftrightarrow> ldro (bbmp_of_modulation m) \<and> (sf, bw) \<notin> {(SF_11, BW_125KHz), (SF_12, BW_250KHz)}))"
proof -
  have "mp_ldro m = 1 \<longleftrightarrow> ldro (bbmp_of_modulation m)" if "sx126x_create_modulation_params sf bw cr f = Inr m"
    using that assms by (cases sf; cases bw) (auto simp: sx126x_create_modulation_params_def bbmp_of_modulation_def bbmp_new_def
      split: sum.splits if_splits)
  moreover have "mp_ldro m = 1 \<longleftrightarrow> ldro (bbmp_of_modulation m) \<and> (sf, bw) \<notin> {(SF_11, BW_125KHz), (SF_12, BW_250KHz)}"
    if "sx127x_create_modulation_params chip sf bw cr f = Some (Inr m)"
    using that assms by (cases sf; cases bw) (auto simp: sx127x_create_modulation_params_def bbmp_of_modulation_def bbmp_new_def
      sx127x_ldro_def try_run_eq_Inr split: sum.splits if_splits)
  moreover have "lr_create_modulation_params sf bw cr f = sx126x_create_modulation_params sf bw cr f"
    using assms by (intro lr_modulation_params_eq) auto
  ultimately show ?thesis by simp
qed

theorem ldro_agreement_witness:
  "\<exists>m. sx127x_create_modulation_params Sx1276 SF_11 BW_125KHz CR_4_5 868100000 = Some (Inr m) \<and> mp_ldro m \<noteq> 1 \<and>
     ldro (bbmp_of_modulation m)"
proof -
  define m where "m = \<lparr>mp_sf = SF_11, mp_bw = BW_125KHz, mp_cr = CR_4_5, mp_ldro = 0, mp_frequency = 868100000\<rparr>"
  have m: "sx127x_create_modulation_params Sx1276 SF_11 BW_125KHz CR_4_5 868100000 = Some (Inr m)"
    by (simp add: sx127x_create_modulation_params_def sx127x_ldro_def m_def)
  moreover have "ldro (bbmp_of_modulation m)" by (simp add: m_def bbmp_of_modulation_def bbmp_new_def)
  ultimately show ?thesis using ldro_agreement [of BW_125KHz SF_11 CR_4_5 868100000 m Sx1276] by auto
qed

end
