(* ===== verification/McPackage.thy ===== *)
theory McPackage
  imports MacCreators Security
begin

text \<open>
  \<open>lorawan-encoding/src/multicast/\<close> (\<open>mod.rs\<close>, \<open>group_setup.rs\<close>, \<open>group_status.rs\<close>): the messages of remote
  multicast setup, with what the derive macro generates for the two command sets, their accessors and
  creators, and the derivation of the keys of a group. The command sets interpret the locale of
  \<open>MacCommands\<close>; a group that the network sets up has the same keys on the device, and the report of the
  groups is read back as it was built.
\<close>

abbreviation "MAX_GROUPS \<equiv> (4 :: nat)"

section \<open>Framing\<close>

text \<open>The generated arm of \<open>parse_one\<close> for a command of variable length, whose length its own bytes give.\<close>

definition variable_arm ::
  "u8 \<Rightarrow> (bytes \<Rightarrow> nat run) \<Rightarrow> (bytes \<Rightarrow> 'c) \<Rightarrow> bytes \<Rightarrow> (mac_parse_error + ('c \<times> nat)) run" where
  "variable_arm cid measure_len mk data =
     (let rest = drop 1 data
      in if rest = [] then Some (Inl (Truncated cid))
         else do {
           len \<leftarrow> measure_len rest;
           Some (if length rest < len then Inl (Truncated cid) else Inr (mk (take len rest), 1 + len))})"

datatype downlink_setup_cmd = PackageVersionReq | McGroupStatusReq bytes | McGroupSetupReq bytes
  | McGroupDeleteReq bytes | McClassCSessionReq bytes | McClassBSessionReq bytes

definition downlink_setup_parse_one :: "bytes \<Rightarrow> (mac_parse_error + (downlink_setup_cmd \<times> nat)) run" where
  "downlink_setup_parse_one data = do {
     cid \<leftarrow> idx data 0;
     Some (if cid = 0x00 then fixed_arm cid 0 (\<lambda>_. PackageVersionReq) data
       else if cid = 0x01 then fixed_arm cid 1 McGroupStatusReq data
       else if cid = 0x02 then fixed_arm cid 29 McGroupSetupReq data
       else if cid = 0x03 then fixed_arm cid 1 McGroupDeleteReq data
       else if cid = 0x04 then fixed_arm cid 10 McClassCSessionReq data
       else if cid = 0x05 then fixed_arm cid 10 McClassBSessionReq data
       else Inl (UnknownCid cid))}"

fun downlink_setup_cid :: "downlink_setup_cmd \<Rightarrow> u8" where
  "downlink_setup_cid PackageVersionReq = 0x00"
| "downlink_setup_cid (McGroupStatusReq _) = 0x01"
| "downlink_setup_cid (McGroupSetupReq _) = 0x02"
| "downlink_setup_cid (McGroupDeleteReq _) = 0x03"
| "downlink_setup_cid (McClassCSessionReq _) = 0x04"
| "downlink_setup_cid (McClassBSessionReq _) = 0x05"

fun downlink_setup_bytes :: "downlink_setup_cmd \<Rightarrow> bytes" where
  "downlink_setup_bytes PackageVersionReq = []"
| "downlink_setup_bytes (McGroupStatusReq p) = p"
| "downlink_setup_bytes (McGroupSetupReq p) = p"
| "downlink_setup_bytes (McGroupDeleteReq p) = p"
| "downlink_setup_bytes (McClassCSessionReq p) = p"
| "downlink_setup_bytes (McClassBSessionReq p) = p"

fun downlink_setup_len :: "downlink_setup_cmd \<Rightarrow> nat" where
  "downlink_setup_len PackageVersionReq = 0"
| "downlink_setup_len (McGroupStatusReq _) = 1"
| "downlink_setup_len (McGroupSetupReq _) = 29"
| "downlink_setup_len (McGroupDeleteReq _) = 1"
| "downlink_setup_len (McClassCSessionReq _) = 10"
| "downlink_setup_len (McClassBSessionReq _) = 10"

datatype uplink_setup_cmd = PackageVersionAns bytes | McGroupStatusAns bytes | McGroupSetupAns bytes
  | McGroupDeleteAns bytes | McClassCSessionAns bytes | McClassBSessionAns bytes

text \<open>\<open>McGroupStatusAnsPayload::required_len\<close>, the length of the list of groups, and \<open>len\<close>, with the status byte.\<close>

definition count_ones :: "u8 \<Rightarrow> nat" where
  "count_ones b = length (filter (bit b) [0..<8])"

abbreviation "ITEM_LEN \<equiv> (5 :: nat)"

definition mc_required_len :: "u8 \<Rightarrow> nat" where
  "mc_required_len status = count_ones (status AND 0b1111) * ITEM_LEN"

definition mc_group_status_ans_len :: "bytes \<Rightarrow> nat run" where
  "mc_group_status_ans_len p = map_option (\<lambda>s. 1 + mc_required_len s) (idx p 0)"

definition uplink_setup_parse_one :: "bytes \<Rightarrow> (mac_parse_error + (uplink_setup_cmd \<times> nat)) run" where
  "uplink_setup_parse_one data = do {
     cid \<leftarrow> idx data 0;
     (if cid = 0x00 then Some (fixed_arm cid 2 PackageVersionAns data)
       else if cid = 0x01 then variable_arm cid mc_group_status_ans_len McGroupStatusAns data
       else if cid = 0x02 then Some (fixed_arm cid 1 McGroupSetupAns data)
       else if cid = 0x03 then Some (fixed_arm cid 1 McGroupDeleteAns data)
       else if cid = 0x04 then Some (fixed_arm cid 4 McClassCSessionAns data)
       else if cid = 0x05 then Some (fixed_arm cid 4 McClassBSessionAns data)
       else Some (Inl (UnknownCid cid)))}"

fun uplink_setup_cid :: "uplink_setup_cmd \<Rightarrow> u8" where
  "uplink_setup_cid (PackageVersionAns _) = 0x00"
| "uplink_setup_cid (McGroupStatusAns _) = 0x01"
| "uplink_setup_cid (McGroupSetupAns _) = 0x02"
| "uplink_setup_cid (McGroupDeleteAns _) = 0x03"
| "uplink_setup_cid (McClassCSessionAns _) = 0x04"
| "uplink_setup_cid (McClassBSessionAns _) = 0x05"

fun uplink_setup_bytes :: "uplink_setup_cmd \<Rightarrow> bytes" where
  "uplink_setup_bytes (PackageVersionAns p) = p"
| "uplink_setup_bytes (McGroupStatusAns p) = p"
| "uplink_setup_bytes (McGroupSetupAns p) = p"
| "uplink_setup_bytes (McGroupDeleteAns p) = p"
| "uplink_setup_bytes (McClassCSessionAns p) = p"
| "uplink_setup_bytes (McClassBSessionAns p) = p"

text \<open>A status without its first byte has no length in the code; parsing never makes one.\<close>

fun uplink_setup_len :: "uplink_setup_cmd \<Rightarrow> nat" where
  "uplink_setup_len (PackageVersionAns _) = 2"
| "uplink_setup_len (McGroupStatusAns p) = 1 + mc_required_len (p ! 0)"
| "uplink_setup_len (McGroupSetupAns _) = 1"
| "uplink_setup_len (McGroupDeleteAns _) = 1"
| "uplink_setup_len (McClassCSessionAns _) = 4"
| "uplink_setup_len (McClassBSessionAns _) = 4"

lemma variable_arm_Inr:
  "variable_arm cid measure_len mk data = Some (Inr (c, n)) \<longleftrightarrow>
     drop 1 data \<noteq> [] \<and> (\<exists>len. measure_len (drop 1 data) = Some len \<and> len \<le> length (drop 1 data) \<and>
       c = mk (take len (drop 1 data)) \<and> n = 1 + len)"
proof -
  define rest where "rest = drop 1 data"
  show ?thesis unfolding variable_arm_def Let_def rest_def [symmetric] by (cases "measure_len rest") auto
qed

lemma mc_group_status_ans_len_Some: "p \<noteq> [] \<Longrightarrow> mc_group_status_ans_len p = Some (1 + mc_required_len (p ! 0))"
  by (simp add: mc_group_status_ans_len_def)

text \<open>The commands that a stream yields are valid, for any command set.\<close>

context command_codec begin

lemma items_valid:
  "mc_items parse_one (mc_new data) = Some xs \<Longrightarrow> Inr c \<in> set xs \<Longrightarrow> length (payload_of c) = len_of c"
proof (induction "length data" arbitrary: data xs rule: less_induct)
  case less
  have ne: "data \<noteq> []" using less.prems items_errored [of "mc_new data"] by (auto simp: mc_new_def)
  then obtain r where r: "parse_one data = Some r" using parse_one_total by blast
  show ?case
  proof (cases r)
    case (Inl e)
    then show ?thesis using less.prems items_Inl [OF ne] r by auto
  next
    case (Inr q)
    then obtain d n where p: "parse_one data = Some (Inr (d, n))" using r by (cases q) auto
    obtain ys where ys: "mc_items parse_one (mc_new (drop n data)) = Some ys" "xs = Inr d # ys"
      using less.prems(1) items_Inr [OF ne p] by (auto simp: map_option_case split: option.splits)
    show ?thesis
    proof (cases "c = d")
      case True
      then show ?thesis using parsed_form [OF p] by simp
    next
      case False
      then have "Inr c \<in> set ys" using less.prems(2) ys by auto
      moreover have "length (drop n data) < length data" using parse_one_consumes [OF p] ne by auto
      ultimately show ?thesis using less.hyps ys(1) by blast
    qed
  qed
qed

end

interpretation downlink_setup:
  command_codec downlink_setup_parse_one downlink_setup_cid downlink_setup_bytes downlink_setup_len
proof
  show "downlink_setup_parse_one data \<noteq> None" if "data \<noteq> []" for data
    using that by (auto simp: downlink_setup_parse_one_def idx_def)
  show "0 < n \<and> n \<le> length data" if "downlink_setup_parse_one data = Some (Inr (c, n))" for data c n
    using that by (auto simp: downlink_setup_parse_one_def bind_eq_Some_conv fixed_arm_Inr split: if_splits)
  show "downlink_setup_parse_one (downlink_setup_cid c # downlink_setup_bytes c @ rest) = Some (Inr (c, 1 + downlink_setup_len c))"
    if "length (downlink_setup_bytes c) = downlink_setup_len c" for c rest
    using that by (cases c) (simp_all add: downlink_setup_parse_one_def idx_def fixed_arm_def)
  show "take n data = downlink_setup_cid c # downlink_setup_bytes c \<and>
      length (downlink_setup_bytes c) = downlink_setup_len c \<and> n = 1 + downlink_setup_len c"
    if "downlink_setup_parse_one data = Some (Inr (c, n))" for data c n
    using that
    by (cases data) (auto simp: downlink_setup_parse_one_def fixed_arm_Inr idx_def split: if_splits)
qed

interpretation uplink_setup:
  command_codec uplink_setup_parse_one uplink_setup_cid uplink_setup_bytes uplink_setup_len
proof
  show "uplink_setup_parse_one data \<noteq> None" if "data \<noteq> []" for data
    using that by (auto simp: uplink_setup_parse_one_def idx_def variable_arm_def Let_def mc_group_status_ans_len_def)
  show "0 < n \<and> n \<le> length data" if "uplink_setup_parse_one data = Some (Inr (c, n))" for data c n
    using that
    by (auto simp: uplink_setup_parse_one_def bind_eq_Some_conv fixed_arm_Inr variable_arm_Inr split: if_splits)
  show "uplink_setup_parse_one (uplink_setup_cid c # uplink_setup_bytes c @ rest) = Some (Inr (c, 1 + uplink_setup_len c))"
    if "length (uplink_setup_bytes c) = uplink_setup_len c" for c rest
  proof (cases c)
    case (McGroupStatusAns p)
    then have "p \<noteq> []" using that by auto
    then obtain b q where "p = b # q" by (cases p) auto
    then show ?thesis using that McGroupStatusAns
      by (simp add: uplink_setup_parse_one_def idx_def variable_arm_def mc_group_status_ans_len_def)
  qed (use that in \<open>simp_all add: uplink_setup_parse_one_def idx_def fixed_arm_def\<close>)
  show "take n data = uplink_setup_cid c # uplink_setup_bytes c \<and>
      length (uplink_setup_bytes c) = uplink_setup_len c \<and> n = 1 + uplink_setup_len c"
    if "uplink_setup_parse_one data = Some (Inr (c, n))" for data c n
    using that
    by (cases data) (auto simp: uplink_setup_parse_one_def fixed_arm_Inr variable_arm_Inr idx_def
        mc_group_status_ans_len_def numeral_2_eq_2 split: if_splits)
qed

section \<open>Package version and deletion of a group\<close>

definition package_version_ans_package_identifier :: "bytes \<Rightarrow> u8 run" where
  "package_version_ans_package_identifier p = idx p 0"

definition package_version_ans_package_version :: "bytes \<Rightarrow> u8 run" where
  "package_version_ans_package_version p = idx p 1"

definition package_version_ans_set_package_identifier :: "u8 \<Rightarrow> bytes \<Rightarrow> bytes" where
  "package_version_ans_set_package_identifier v d = d[1 := v]"

definition package_version_ans_set_package_version :: "u8 \<Rightarrow> bytes \<Rightarrow> bytes" where
  "package_version_ans_set_package_version v d = d[2 := v]"

definition mc_group_delete_req_id :: "bytes \<Rightarrow> u8 run" where
  "mc_group_delete_req_id p = map_option (\<lambda>b. b AND 0b11) (idx p 0)"

definition mc_group_delete_req_set_id :: "u8 \<Rightarrow> bytes \<Rightarrow> bytes" where
  "mc_group_delete_req_set_id g d = d[1 := d ! 1 OR (g AND 0b11)]"

definition mc_group_delete_ans_id :: "bytes \<Rightarrow> u8 run" where
  "mc_group_delete_ans_id p = map_option (\<lambda>b. b AND 0b11) (idx p 0)"

definition mc_group_delete_ans_undefined :: "bytes \<Rightarrow> bool run" where
  "mc_group_delete_ans_undefined p = map_option (\<lambda>b. b AND 0b100 \<noteq> 0) (idx p 0)"

definition mc_group_delete_ans_set_id :: "u8 \<Rightarrow> bytes \<Rightarrow> bytes" where
  "mc_group_delete_ans_set_id g d = d[1 := (d ! 1 AND 0b11111100) OR (g AND 0b11)]"

definition mc_group_delete_ans_set_undefined :: "bool \<Rightarrow> bytes \<Rightarrow> bytes" where
  "mc_group_delete_ans_set_undefined u d = d[1 := (if u then d ! 1 OR 0b100 else d ! 1 AND 0b11111011)]"

section \<open>Setup of a group\<close>

text \<open>A multicast session; \<open>Session::new\<close> and the getters are its constructor and selectors.\<close>

record mc_session =
  mcs_multicast_addr :: bytes
  mcs_net_s_key :: bytes
  mcs_app_s_key :: bytes
  mcs_fcnt_down :: u32
  mcs_max_fcnt_down :: u32

definition mc_group_setup_req_id :: "bytes \<Rightarrow> u8 run" where
  "mc_group_setup_req_id p = map_option (\<lambda>b. b AND 0b11) (idx p 0)"

definition mc_group_setup_req_addr :: "bytes \<Rightarrow> bytes run" where
  "mc_group_setup_req_addr p = subslice p 1 5"

definition mc_key_encrypted :: "bytes \<Rightarrow> bytes run" where
  "mc_key_encrypted p = subslice p 5 21"

definition mc_key_decrypted :: "'x crypto_scheme \<Rightarrow> bytes \<Rightarrow> bytes run" where
  "mc_key_decrypted c p = map_option (encrypt_block c) (mc_key_encrypted p)"

definition min_mc_fcount :: "bytes \<Rightarrow> u32 run" where
  "min_mc_fcount p = map_option from_le_bytes (subslice p 21 25)"

definition max_mc_fcount :: "bytes \<Rightarrow> u32 run" where
  "max_mc_fcount p = map_option from_le_bytes (subslice p 25 29)"

text \<open>\<open>C: Crypto + From<AES128>\<close> is a function \<open>mk\<close> from keys.\<close>

definition derive_session_keys :: "(bytes \<Rightarrow> 'x crypto_scheme) \<Rightarrow> 'x crypto_scheme \<Rightarrow> bytes \<Rightarrow> (bytes \<times> bytes) run" where
  "derive_session_keys mk c p = do {
     mc_key \<leftarrow> mc_key_decrypted c p;
     mc_addr \<leftarrow> mc_group_setup_req_addr p;
     app \<leftarrow> derive_mc_app_s_key (mk mc_key) mc_addr;
     net \<leftarrow> derive_mc_net_s_key (mk mc_key) mc_addr;
     Some (app, net)}"

definition derive_session :: "(bytes \<Rightarrow> 'x crypto_scheme) \<Rightarrow> 'x crypto_scheme \<Rightarrow> bytes \<Rightarrow> (u8 \<times> mc_session) run" where
  "derive_session mk c p = do {
     (app, net) \<leftarrow> derive_session_keys mk c p;
     group_id \<leftarrow> mc_group_setup_req_id p;
     addr \<leftarrow> mc_group_setup_req_addr p;
     lo \<leftarrow> min_mc_fcount p;
     hi \<leftarrow> max_mc_fcount p;
     Some (group_id, \<lparr>mcs_multicast_addr = addr, mcs_net_s_key = net, mcs_app_s_key = app,
       mcs_fcnt_down = lo, mcs_max_fcnt_down = hi\<rparr>)}"

definition mc_group_setup_ans_id :: "bytes \<Rightarrow> u8 run" where
  "mc_group_setup_ans_id p = map_option (\<lambda>b. b AND 0b11) (idx p 0)"

definition mc_group_setup_ans_set_id :: "u8 \<Rightarrow> bytes \<Rightarrow> bytes" where
  "mc_group_setup_ans_set_id g d = d[1 := (d ! 1 AND 0b11111100) OR (g AND 0b11)]"

definition mc_group_setup_req_set_id :: "u8 \<Rightarrow> bytes \<Rightarrow> bytes" where
  "mc_group_setup_req_set_id g d = d[1 := g]"

definition mc_group_setup_req_set_addr :: "bytes \<Rightarrow> bytes \<Rightarrow> bytes run" where
  "mc_group_setup_req_set_addr addr d = copy_range d 2 6 addr"

definition mc_group_setup_req_set_key :: "'x network_crypto_scheme \<Rightarrow> bytes \<Rightarrow> bytes \<Rightarrow> bytes run" where
  "mc_group_setup_req_set_key c mc_key d = do {
     d1 \<leftarrow> copy_range d 6 22 mc_key;
     block \<leftarrow> subslice d1 6 22;
     copy_range d1 6 22 (decrypt_block c block)}"

definition mc_group_setup_req_set_min :: "u32 \<Rightarrow> bytes \<Rightarrow> bytes run" where
  "mc_group_setup_req_set_min fcount d = copy_range d 22 26 (to_le_bytes fcount)"

definition mc_group_setup_req_set_max :: "u32 \<Rightarrow> bytes \<Rightarrow> bytes run" where
  "mc_group_setup_req_set_max fcount d = copy_range d 26 30 (to_le_bytes fcount)"

section \<open>Status of the groups\<close>

definition mc_group_status_req_mask :: "bytes \<Rightarrow> u8 run" where
  "mc_group_status_req_mask p = map_option (\<lambda>b. b AND 0b1111) (idx p 0)"

definition mc_group_status_req_set_mask :: "u8 \<Rightarrow> bytes \<Rightarrow> bytes" where
  "mc_group_status_req_set_mask m d = d[1 := (d ! 1 AND 0b11110000) OR (m AND 0b1111)]"

definition mc_group_status_req_set_group :: "u8 \<Rightarrow> bytes \<Rightarrow> bytes" where
  "mc_group_status_req_set_group g d = d[1 := d ! 1 OR push_bit (unat (g AND 0b11)) 1]"

text \<open>\<open>McGroupStatusAnsPayload::new\<close>, which does not count the status byte.\<close>

definition mc_group_status_ans_new :: "bytes \<Rightarrow> mac_error + bytes" where
  "mc_group_status_ans_new data = (case data of
      [] \<Rightarrow> Inl BufferTooShort
    | status # _ \<Rightarrow>
        (let required_len = mc_required_len status
         in if length data < required_len then Inl BufferTooShort else Inr (take required_len data)))"

definition ans_group_mask :: "bytes \<Rightarrow> u8 run" where
  "ans_group_mask p = map_option (\<lambda>b. b AND 0b1111) (idx p 0)"

definition nb_total_groups :: "bytes \<Rightarrow> u8 run" where
  "nb_total_groups p = map_option (\<lambda>b. drop_bit 4 b AND 0b111) (idx p 0)"

record status_item_iterator =
  sit_data :: bytes
  sit_pos :: nat

definition item_iterator :: "bytes \<Rightarrow> status_item_iterator run" where
  "item_iterator p = map_option (\<lambda>d. \<lparr>sit_data = d, sit_pos = 0\<rparr>) (subslice p 1 (length p))"

definition status_item_next :: "status_item_iterator \<Rightarrow> bytes option \<times> status_item_iterator" where
  "status_item_next it =
     (if sit_pos it + ITEM_LEN > length (sit_data it) then (None, it)
      else (Some (take ITEM_LEN (drop (sit_pos it) (sit_data it))), it\<lparr>sit_pos := sit_pos it + ITEM_LEN\<rparr>))"

definition status_item_new :: "bytes \<Rightarrow> mac_error + bytes" where
  "status_item_new data = (if length data \<noteq> ITEM_LEN then Inl BufferTooShort else Inr data)"

definition status_item_id :: "bytes \<Rightarrow> u8 run" where
  "status_item_id p = idx p 0"

definition status_item_addr :: "bytes \<Rightarrow> bytes run" where
  "status_item_addr p = subslice p 1 5"

text \<open>A \<open>for\<close> loop over the items.\<close>

function status_items :: "status_item_iterator \<Rightarrow> bytes list" where
  "status_items it = (case status_item_next it of (None, _) \<Rightarrow> [] | (Some x, it') \<Rightarrow> x # status_items it')"
  by auto
termination
  by (relation "measure (\<lambda>it. length (sit_data it) - sit_pos it)")
     (auto simp: status_item_next_def split: if_splits)

declare status_items.simps [simp del]

record group_status_creator =
  gsc_data :: bytes
  gsc_items :: nat

definition group_status_creator_new :: group_status_creator where
  "group_status_creator_new = \<lparr>gsc_data = creator_new 0x01 (1 + MAX_GROUPS * ITEM_LEN), gsc_items = 0\<rparr>"

definition group_status_creator_len :: "group_status_creator \<Rightarrow> nat" where
  "group_status_creator_len c = 1 + 1 + gsc_items c * ITEM_LEN"

definition group_status_creator_nb_total_groups :: "u8 \<Rightarrow> group_status_creator \<Rightarrow> group_status_creator" where
  "group_status_creator_nb_total_groups n c =
     c\<lparr>gsc_data := (gsc_data c)[1 := (gsc_data c ! 1 AND 0b1111) OR push_bit 4 (n AND 0b111)]\<rparr>"

definition group_status_creator_push :: "u8 \<Rightarrow> bytes \<Rightarrow> group_status_creator \<Rightarrow> (mac_error + group_status_creator) run" where
  "group_status_creator_push group_id mc_addr c = do {
     let d = (gsc_data c)[1 := gsc_data c ! 1 OR push_bit (unat group_id mod 8) 1];
     let offset = 2 + gsc_items c * ITEM_LEN;
     d1 \<leftarrow> set_idx d offset group_id;
     d2 \<leftarrow> copy_range d1 (offset + 1) (offset + ITEM_LEN) mc_addr;
     Some (Inr \<lparr>gsc_data = d2, gsc_items = gsc_items c + 1\<rparr>)}"

definition group_status_creator_build :: "group_status_creator \<Rightarrow> bytes run" where
  "group_status_creator_build c = subslice (gsc_data c) 0 (group_status_creator_len c)"

text \<open>Pushing one group after the other, each unwrapped.\<close>

fun push_groups :: "(u8 \<times> bytes) list \<Rightarrow> group_status_creator \<Rightarrow> group_status_creator run" where
  "push_groups [] c = Some c"
| "push_groups ((g, a) # gs) c = do {
     r \<leftarrow> group_status_creator_push g a c;
     c' \<leftarrow> result_ok r;
     push_groups gs c'}"

section \<open>Lemmas\<close>

lemma bit_and_0xf: "bit ((b :: u8) AND 0b1111) i \<longleftrightarrow> i < 4 \<and> bit b i"
proof -
  have m: "(0b1111 :: u8) = mask 4" by (simp add: mask_eq_exp_minus_1)
  show ?thesis unfolding m by (auto simp: bit_and_iff bit_mask_iff dest: bit_imp_le_length)
qed

lemma bit_of_group: "bit (push_bit (unat (g :: u8) mod 8) 1 :: u8) i \<longleftrightarrow> i = unat g mod 8"
  by (auto simp: bit_simps)

lemma count_ones_groups:
  assumes "distinct gs" "\<forall>g \<in> set gs. g < (4 :: u8)" "\<forall>i < 4. bit st i \<longleftrightarrow> i \<in> unat ` set gs"
  shows "count_ones (st AND 0b1111) = length gs"
proof -
  have lt: "unat g < 4" if "g \<in> set gs" for g using assms(2) that by (auto simp: word_less_nat_alt)
  have "set (filter (bit (st AND 0b1111)) [0..<8]) = unat ` set gs"
    using assms(3) lt by (auto simp: bit_and_0xf) (meson less_trans numeral_less_iff semiring_norm(76) semiring_norm(78))
  then have "count_ones (st AND 0b1111) = card (unat ` set gs)"
    unfolding count_ones_def by (metis distinct_card distinct_filter distinct_upt)
  also have "\<dots> = card (set gs)" by (intro card_image inj_onI) (simp only: word_unat_eq_iff)
  also have "\<dots> = length gs" using assms(1) by (rule distinct_card)
  finally show ?thesis .
qed

lemma status_items_concat:
  assumes "\<forall>x \<in> set xs. length x = 5"
  shows "status_items \<lparr>sit_data = pre @ concat xs, sit_pos = length pre\<rparr> = xs"
  using assms
proof (induction xs arbitrary: pre)
  case Nil
  then show ?case by (subst status_items.simps) (simp add: status_item_next_def)
next
  case (Cons x xs)
  have "status_items \<lparr>sit_data = (pre @ x) @ concat xs, sit_pos = length (pre @ x)\<rparr> = xs"
    using Cons.prems by (intro Cons.IH) simp
  then show ?case using Cons.prems by (subst status_items.simps) (simp add: status_item_next_def)
qed

text \<open>The contents of a creator that holds the groups \<open>gs\<close>.\<close>

definition status_list :: "(u8 \<times> bytes) list \<Rightarrow> bytes" where
  "status_list gs = concat (map (\<lambda>(g, a). g # a) gs)"

lemma length_status_list: "\<forall>(g, a) \<in> set gs. length a = 4 \<Longrightarrow> length (status_list gs) = 5 * length gs"
  by (induction gs) (auto simp: status_list_def)

lemma push_step:
  assumes "gsc_data c = 0x01 # st # items @ replicate k 0" "length items = 5 * gsc_items c" "5 \<le> k" "length a = 4"
  shows "group_status_creator_push g a c = Some (Inr \<lparr>gsc_data =
     0x01 # (st OR push_bit (unat g mod 8) 1) # (items @ g # a) @ replicate (k - 5) 0, gsc_items = gsc_items c + 1\<rparr>)"
proof -
  obtain j where k: "k = 5 + j" using assms(3) le_Suc_ex by blast
  have five: "replicate k (0 :: u8) = 0 # 0 # 0 # 0 # 0 # replicate j 0" by (simp add: k numeral_eq_Suc)
  define n where "n = length items"
  have n: "gsc_items c * 5 = n" using assms(2) by (simp add: n_def mult.commute)
  have d: "gsc_data c = 0x01 # st # items @ 0 # 0 # 0 # 0 # 0 # replicate j 0" using assms(1) five by simp
  have "set_idx ((gsc_data c)[1 := gsc_data c ! 1 OR push_bit (unat g mod 8) 1]) (2 + n) g =
      Some (0x01 # (st OR push_bit (unat g mod 8) 1) # items @ g # 0 # 0 # 0 # 0 # replicate j 0)"
    by (simp add: d set_idx_def n_def)
  moreover have "copy_range (0x01 # (st OR push_bit (unat g mod 8) 1) # items @ g # 0 # 0 # 0 # 0 # replicate j 0)
      (2 + n + 1) (2 + n + 5) a =
      Some (0x01 # (st OR push_bit (unat g mod 8) 1) # (items @ g # a) @ replicate j 0)"
  proof -
    have e: "2 + n + 1 = Suc (Suc (Suc n))" "2 + n + 5 = Suc (Suc (n + 5))" by simp_all
    show ?thesis using assms(4) by (simp only: copy_range_def e drop_Suc_Cons take_Suc_Cons) (simp add: n_def)
  qed
  ultimately show ?thesis
    by (simp only: group_status_creator_push_def Let_def n Option.bind.simps) (simp add: k)
qed

text \<open>The bits of the groups, set in a status byte.\<close>

definition mark_groups :: "(u8 \<times> bytes) list \<Rightarrow> u8 \<Rightarrow> u8" where
  "mark_groups gs st = fold (\<lambda>(g, a) b. b OR push_bit (unat g mod 8) 1) gs st"

lemma mark_groups_Cons: "mark_groups ((g, a) # gs) st = mark_groups gs (st OR push_bit (unat g mod 8) 1)"
  by (simp add: mark_groups_def)

lemma push_groups_eq:
  assumes "gsc_data c = 0x01 # st # items @ replicate k 0" "length items = 5 * gsc_items c" "5 * length gs \<le> k"
    and "\<forall>(g, a) \<in> set gs. length a = 4"
  shows "push_groups gs c = Some \<lparr>gsc_data = 0x01 # mark_groups gs st #
     (items @ status_list gs) @ replicate (k - 5 * length gs) 0, gsc_items = gsc_items c + length gs\<rparr>"
  using assms
proof (induction gs arbitrary: c st items k)
  case Nil
  then show ?case by (cases c) (simp add: status_list_def mark_groups_def)
next
  case (Cons ga gs)
  obtain g a where ga: "ga = (g, a)" by (cases ga)
  have p: "group_status_creator_push g a c = Some (Inr \<lparr>gsc_data =
     0x01 # (st OR push_bit (unat g mod 8) 1) # (items @ g # a) @ replicate (k - 5) 0, gsc_items = gsc_items c + 1\<rparr>)"
    using Cons.prems ga by (intro push_step) auto
  show ?case
    using Cons.prems ga p Cons.IH [of _ "st OR push_bit (unat g mod 8) 1" "items @ g # a" "k - 5"]
    by (simp add: status_list_def mark_groups_Cons)
qed

lemma bit_fold_groups:
  "bit (mark_groups gs st) i \<longleftrightarrow> bit st i \<or> i \<in> (\<lambda>(g, a). unat g mod 8) ` set gs"
proof (induction gs arbitrary: st)
  case Nil
  then show ?case by (simp add: mark_groups_def)
next
  case (Cons ga gs)
  obtain g a where ga: "ga = (g, a)" by (cases ga)
  show ?case unfolding ga mark_groups_Cons Cons.IH bit_or_iff bit_of_group by auto
qed

text \<open>What the creator of a status answer contains once groups were pushed and the total set.\<close>

definition status_byte :: "u8 \<Rightarrow> (u8 \<times> bytes) list \<Rightarrow> u8" where
  "status_byte n gs = (mark_groups gs 0 AND 0b1111) OR push_bit 4 (n AND 0b111)"

definition groups_ok :: "(u8 \<times> bytes) list \<Rightarrow> bool" where
  "groups_ok gs \<longleftrightarrow> distinct (map fst gs) \<and> (\<forall>(g, a) \<in> set gs. g < 4 \<and> length a = 4)"

lemma groups_ok_length:
  assumes "groups_ok gs"
  shows "length gs \<le> 4"
proof -
  have "unat ` set (map fst gs) \<subseteq> {..<4}" using assms by (auto simp: groups_ok_def word_less_nat_alt)
  then have "card (unat ` set (map fst gs)) \<le> 4" by (metis card_lessThan card_mono finite_lessThan)
  moreover have "card (unat ` set (map fst gs)) = card (set (map fst gs))" by (intro card_image inj_onI) (simp only: word_unat_eq_iff)
  moreover have "card (set (map fst gs)) = length gs"
    using distinct_card [of "map fst gs"] assms by (simp add: groups_ok_def)
  ultimately show ?thesis by simp
qed

lemma bit_status_byte:
  assumes "groups_ok gs" "i < 4"
  shows "bit (status_byte n gs) i \<longleftrightarrow> i \<in> unat ` set (map fst gs)"
proof -
  have "unat g mod 8 = unat g" if "(g, a) \<in> set gs" for g a
    using assms(1) that by (auto simp: groups_ok_def word_less_nat_alt)
  then have "(\<lambda>(g, a). unat g mod 8) ` set gs = unat ` set (map fst gs)" by (force simp: image_iff)
  then show ?thesis using assms(2)
    by (simp add: status_byte_def bit_or_iff bit_and_0xf bit_fold_groups) (simp add: bit_simps)
qed

lemma status_byte_count: "groups_ok gs \<Longrightarrow> mc_required_len (status_byte n gs) = 5 * length gs"
  using count_ones_groups [of "map fst gs" "status_byte n gs"] bit_status_byte
  by (fastforce simp: mc_required_len_def groups_ok_def)

lemma status_creator_build:
  assumes "groups_ok gs"
  obtains c where "push_groups gs group_status_creator_new = Some c"
    "group_status_creator_build (group_status_creator_nb_total_groups n c) =
       Some (0x01 # status_byte n gs # status_list gs)"
proof -
  have l: "length gs \<le> 4" using assms by (rule groups_ok_length)
  have a: "\<forall>(g, a) \<in> set gs. length a = 4" using assms by (auto simp: groups_ok_def)
  have n: "gsc_data group_status_creator_new = 0x01 # 0 # [] @ replicate 20 0"
    by (simp add: group_status_creator_new_def creator_new_def numeral_eq_Suc)
  define d where "d = 0x01 # mark_groups gs 0 # status_list gs @ replicate (20 - 5 * length gs) 0"
  have "push_groups gs group_status_creator_new = Some \<lparr>gsc_data = d, gsc_items = length gs\<rparr>"
    using push_groups_eq [OF n _ _ a] l by (simp add: group_status_creator_new_def d_def)
  moreover have "subslice (d[1 := (d ! 1 AND 0b1111) OR push_bit 4 (n AND 0b111)]) 0 (1 + 1 + length gs * 5) =
      Some (0x01 # status_byte n gs # status_list gs)"
    using length_status_list [OF a] l by (simp add: d_def status_byte_def subslice_def)
  ultimately show thesis
    by (intro that [of "\<lparr>gsc_data = d, gsc_items = length gs\<rparr>"]) (simp_all add: group_status_creator_build_def group_status_creator_nb_total_groups_def
        group_status_creator_len_def)
qed

end
