(* ===== verification/Multicast.thy ===== *)
theory Multicast
  imports McPackage MacFacts
begin

text \<open>
  \<open>lorawan-device/src/mac/multicast.rs\<close>, what the feature \<open>multicast\<close> adds below the MAC layer: the sessions of up
  to four groups, the reception of multicast frames, the messages of remote setup and the queue of their
  answers. Reception is described completely: which frames are accepted, what the counter of the group
  becomes, and which counters can never be accepted.
\<close>

section \<open>State\<close>

datatype multicast_response = McNewSession u8 | McSessionExpired u8 | McNoUpdate
  | McGroupSetupTransmitRequest u8 | McTransmitRequest | McDownlinkReceived u8 u32

definition REMOTE_MULTICAST_SETUP_PORT :: u8 where "REMOTE_MULTICAST_SETUP_PORT = 200"

text \<open>A \<open>RangeInclusive\<close> is its two ends.\<close>

definition DEFAULT_MC_PORT_RANGE :: "u8 \<times> u8" where "DEFAULT_MC_PORT_RANGE = (201, 205)"

record multicast =
  mcast_ke_key :: "bytes option"
  mcast_sessions :: "mc_session option list"
  mcast_range :: "u8 \<times> u8"
  mcast_setup_port :: u8
  mcast_pending :: bytes

definition multicast_new :: multicast where
  "multicast_new = \<lparr>mcast_ke_key = None, mcast_sessions = [None, None, None, None],
     mcast_range = DEFAULT_MC_PORT_RANGE, mcast_setup_port = REMOTE_MULTICAST_SETUP_PORT, mcast_pending = []\<rparr>"

definition multicast_set_range :: "u8 \<times> u8 \<Rightarrow> multicast \<Rightarrow> multicast" where
  "multicast_set_range r m = m\<lparr>mcast_range := r\<rparr>"

definition is_in_range :: "u8 \<Rightarrow> multicast \<Rightarrow> bool" where
  "is_in_range port m \<longleftrightarrow> fst (mcast_range m) \<le> port \<and> port \<le> snd (mcast_range m)"

definition multicast_set_remote_setup_port :: "u8 \<Rightarrow> multicast \<Rightarrow> multicast" where
  "multicast_set_remote_setup_port port m = m\<lparr>mcast_setup_port := port\<rparr>"

definition is_remote_setup_port :: "u8 \<Rightarrow> multicast \<Rightarrow> bool" where
  "is_remote_setup_port port m \<longleftrightarrow> mcast_setup_port m = port"

definition is_for_async_mc_response :: "multicast_response \<Rightarrow> bool" where
  "is_for_async_mc_response r =
     (case r of McNewSession _ \<Rightarrow> True | McSessionExpired _ \<Rightarrow> True | McDownlinkReceived _ _ \<Rightarrow> True | _ \<Rightarrow> False)"

definition is_new_session :: "multicast_response \<Rightarrow> bool" where
  "is_new_session r = (case r of McNewSession _ \<Rightarrow> True | _ \<Rightarrow> False)"

definition is_transmit_request :: "multicast_response \<Rightarrow> bool" where
  "is_transmit_request r =
     (case r of McTransmitRequest \<Rightarrow> True | McGroupSetupTransmitRequest _ \<Rightarrow> True | _ \<Rightarrow> False)"

section \<open>Reception\<close>

text \<open>\<open>matching_session\<close>: the first group with the address.\<close>

fun find_session :: "nat \<Rightarrow> bytes \<Rightarrow> mc_session option list \<Rightarrow> (nat \<times> mc_session) option" where
  "find_session i addr [] = None"
| "find_session i addr (s # ss) = (case s of
     Some x \<Rightarrow> if mcs_multicast_addr x = addr then Some (i, x) else find_session (Suc i) addr ss
   | None \<Rightarrow> find_session (Suc i) addr ss)"

definition matching_session :: "bytes \<Rightarrow> multicast \<Rightarrow> (nat \<times> mc_session) option" where
  "matching_session addr m = find_session 0 addr (mcast_sessions m)"

text \<open>A frame whose MIC and counter are accepted.\<close>

definition multicast_accepted ::
  "(bytes \<Rightarrow> 'x crypto_scheme) \<Rightarrow> nat \<Rightarrow> bytes \<Rightarrow> downlink list \<Rightarrow> nat \<Rightarrow> mc_session \<Rightarrow> u32 \<Rightarrow> multicast
    \<Rightarrow> (multicast_response \<times> downlink list \<times> bytes \<times> multicast) run" where
  "multicast_accepted mk D bs dl i s fcnt m = do {
     let m' = m\<lparr>mcast_sessions := (mcast_sessions m)[i := Some (s\<lparr>mcs_fcnt_down := fcnt\<rparr>)]\<rparr>;
     r \<leftarrow> decrypt_in_place bs (Some (mk (mcs_net_s_key s))) (Some (mk (mcs_app_s_key s))) fcnt;
     v \<leftarrow> result_ok r;
     if fcnt = mcs_max_fcnt_down s then Some (McSessionExpired (of_nat i), dl, dv_bytes v, m')
     else do {
       port \<leftarrow> dv_f_port v;
       payload \<leftarrow> dv_frm_payload v;
       dl' \<leftarrow> (case (port, payload) of
           (Some fport, FrmData data) \<Rightarrow> do {
             d \<leftarrow> vec_extend_unwrap 256 [] data;
             Some (vec_push D dl \<lparr>dl_data = d, dl_fport = fport\<rparr>)}
         | _ \<Rightarrow> Some dl);
       Some (McDownlinkReceived (of_nat i) fcnt, dl', dv_bytes v, m')}}"

definition multicast_handle_rx ::
  "(bytes \<Rightarrow> 'x crypto_scheme) \<Rightarrow> nat \<Rightarrow> bytes \<Rightarrow> downlink list \<Rightarrow> multicast
    \<Rightarrow> (multicast_response \<times> downlink list \<times> bytes \<times> multicast) run" where
  "multicast_handle_rx mk D bs dl m = do {
     r \<leftarrow> encrypted_parse bs;
     case r of
       Inl _ \<Rightarrow> Some (McNoUpdate, dl, bs, m)
     | Inr v \<Rightarrow> do {
         h \<leftarrow> dv_fhdr v;
         mc_addr \<leftarrow> fhdr_mc_addr h;
         case matching_session mc_addr m of
           None \<Rightarrow> Some (McNoUpdate, dl, bs, m)
         | Some (i, s) \<Rightarrow> do {
             wire \<leftarrow> fhdr_fcnt h;
             let fcnt = ucast wire;
             ok \<leftarrow> validate_data_mic v (mk (mcs_net_s_key s)) fcnt;
             if ok \<and> (mcs_fcnt_down s < fcnt \<or> fcnt = 0) then multicast_accepted mk D bs dl i s fcnt m
             else Some (McNoUpdate, dl, bs, m)}}}"

section \<open>Remote setup\<close>

text \<open>\<open>pending_uplinks.extend_from_slice(..).unwrap()\<close>\<close>

definition mc_queue :: "bytes \<Rightarrow> multicast \<Rightarrow> multicast run" where
  "mc_queue ans m = map_option (\<lambda>p. m\<lparr>mcast_pending := p\<rparr>) (vec_extend_unwrap 256 (mcast_pending m) ans)"

text \<open>The groups that are set up, in their order, as the loop over \<open>sessions\<close> meets them.\<close>

definition active_groups :: "multicast \<Rightarrow> (nat \<times> mc_session) list" where
  "active_groups m = List.map_filter (\<lambda>(i, s). map_option (Pair i) s) (enumerate 0 (mcast_sessions m))"

definition requested_groups :: "u8 \<Rightarrow> multicast \<Rightarrow> (u8 \<times> bytes) list" where
  "requested_groups bm m =
     map (\<lambda>(i, s). (of_nat i, mcs_multicast_addr s)) (filter (\<lambda>(i, _). bm AND push_bit i 1 \<noteq> 0) (active_groups m))"

definition group_status_answer :: "bytes \<Rightarrow> multicast \<Rightarrow> multicast run" where
  "group_status_answer p m = do {
     bm \<leftarrow> mc_group_status_req_mask p;
     c \<leftarrow> push_groups (requested_groups bm m) group_status_creator_new;
     ans \<leftarrow> group_status_creator_build
       (group_status_creator_nb_total_groups (of_nat (length (active_groups m))) c);
     mc_queue ans m}"

definition group_delete_answer :: "bytes \<Rightarrow> multicast \<Rightarrow> multicast run" where
  "group_delete_answer p m = do {
     g \<leftarrow> mc_group_delete_req_id p;
     let ans = creator_new 0x03 1;
     s \<leftarrow> idx (mcast_sessions m) (unat g);
     if s \<noteq> None
     then mc_queue (mc_group_delete_ans_set_id g ans) (m\<lparr>mcast_sessions := (mcast_sessions m)[unat g := None]\<rparr>)
     else mc_queue (mc_group_delete_ans_set_undefined True ans) m}"

definition package_version_answer :: bytes where
  "package_version_answer =
     package_version_ans_set_package_version 2 (package_version_ans_set_package_identifier 2 (creator_new 0x00 2))"

definition group_setup_answer ::
  "(bytes \<Rightarrow> 'x crypto_scheme) \<Rightarrow> bytes \<Rightarrow> bytes \<Rightarrow> multicast \<Rightarrow> (u8 \<times> multicast) run" where
  "group_setup_answer mk key p m = do {
     (g, s) \<leftarrow> derive_session mk (mk key) p;
     sessions \<leftarrow> set_idx (mcast_sessions m) (unat g) (Some s);
     m' \<leftarrow> mc_queue (mc_group_setup_ans_set_id g (creator_new 0x02 1)) (m\<lparr>mcast_sessions := sessions\<rparr>);
     Some (g, m')}"

text \<open>One message; the first argument of the state is the group of the last setup, the \<open>new_session\<close> of the code.\<close>

definition setup_message ::
  "(bytes \<Rightarrow> 'x crypto_scheme) \<Rightarrow> bytes \<Rightarrow> downlink_setup_cmd \<Rightarrow> u8 option \<Rightarrow> multicast
    \<Rightarrow> (u8 option \<times> multicast) run" where
  "setup_message mk key c new_session m = (case c of
      McGroupSetupReq p \<Rightarrow> map_option (map_prod Some id) (group_setup_answer mk key p m)
    | PackageVersionReq \<Rightarrow> map_option (Pair new_session) (mc_queue package_version_answer m)
    | McGroupDeleteReq p \<Rightarrow> map_option (Pair new_session) (group_delete_answer p m)
    | McGroupStatusReq p \<Rightarrow> map_option (Pair new_session) (group_status_answer p m)
    | _ \<Rightarrow> Some (new_session, m))"

fun setup_loop ::
  "(bytes \<Rightarrow> 'x crypto_scheme) \<Rightarrow> bytes \<Rightarrow> (mac_parse_error + downlink_setup_cmd) list \<Rightarrow> u8 option \<Rightarrow> multicast
    \<Rightarrow> (u8 option \<times> multicast) run" where
  "setup_loop mk key [] new_session m = Some (new_session, m)"
| "setup_loop mk key (Inl _ # ms) new_session m = Some (new_session, m)"
| "setup_loop mk key (Inr c # ms) new_session m = do {
     (new_session', m') \<leftarrow> setup_message mk key c new_session m;
     setup_loop mk key ms new_session' m'}"

definition handle_setup_message ::
  "(bytes \<Rightarrow> 'x crypto_scheme) \<Rightarrow> bytes \<Rightarrow> multicast \<Rightarrow> (multicast_response \<times> multicast) run" where
  "handle_setup_message mk data m = (case mcast_ke_key m of
      None \<Rightarrow> Some (McNoUpdate, m)
    | Some key \<Rightarrow> do {
        items \<leftarrow> mc_items downlink_setup_parse_one (mc_new data);
        (new_session, m') \<leftarrow> setup_loop mk key items None m;
        Some (if mcast_pending m' = [] then McNoUpdate
          else (case new_session of Some g \<Rightarrow> McGroupSetupTransmitRequest g | None \<Rightarrow> McTransmitRequest), m')})"

definition multicast_setup_send ::
  "(bytes \<Rightarrow> 'x crypto_scheme) \<Rightarrow> mac_state \<Rightarrow> radio_buffer \<Rightarrow> mac_configuration \<Rightarrow> region_state \<Rightarrow> multicast
    \<Rightarrow> ((mac_layer_error + u32) \<times> mac_state \<times> radio_buffer \<times> multicast) run" where
  "multicast_setup_send mk st buf conf region m = (case st of
      Joined s \<Rightarrow> do {
        (response, buf', s') \<leftarrow> prepare_buffer mk
          \<lparr>sd_data = mcast_pending m, sd_fport = mcast_setup_port m, sd_confirmed = False\<rparr> buf conf region s;
        Some (Inr response, Joined s', buf', m\<lparr>mcast_pending := []\<rparr>)}
    | Joining _ \<Rightarrow> Some (Inl NotJoined, st, buf, m)
    | Unjoined \<Rightarrow> Some (Inl NotJoined, st, buf, m))"

end
