(* ===== verification/MulticastDevice.thy ===== *)
theory MulticastDevice
  imports Multicast AsyncDevice
begin

text \<open>
  The device built with the feature \<open>multicast\<close>: what the feature changes in \<open>mac/session.rs\<close>, \<open>mac/mod.rs\<close> and
  \<open>async_device/mod.rs\<close>. The state of the feature, the field \<open>multicast\<close> of \<open>Mac\<close>, is passed next to the device of
  \<open>AsyncDevice\<close>; a definition ends in \<open>_mc\<close> when it is a function of the default build with the feature on.
\<close>

section \<open>The session\<close>

datatype mc_mac_response = MacResponse mac_response | MulticastResponse multicast_response

definition deliver_downlink_mc ::
  "(bytes \<Rightarrow> 'x crypto_scheme) \<Rightarrow> nat \<Rightarrow> u32 \<Rightarrow> data_view \<Rightarrow> downlink list \<Rightarrow> mac_ctx \<Rightarrow> multicast
    \<Rightarrow> (mc_mac_response \<times> downlink list \<times> mac_ctx \<times> multicast) run" where
  "deliver_downlink_mc mk D fcnt v dl x mc =
     (if ss_fcnt_up (cx_session x) = 0xFFFFFFFF then Some (MacResponse SessionExpired, dl, x, mc)
      else do {
        let x' = x\<lparr>cx_session := (cx_session x)\<lparr>ss_fcnt_up := ss_fcnt_up (cx_session x) + 1\<rparr>\<rparr>;
        port \<leftarrow> dv_f_port v;
        payload \<leftarrow> dv_frm_payload v;
        (case (port, payload) of
            (Some fport, FrmData data) \<Rightarrow>
              if is_remote_setup_port fport mc
              then do {
                (resp, mc') \<leftarrow> handle_setup_message mk data mc;
                Some (MulticastResponse resp, dl, x', mc')}
              else do {
                d \<leftarrow> vec_extend_unwrap 256 [] data;
                Some (MacResponse (DownlinkReceived fcnt), vec_push D dl \<lparr>dl_data = d, dl_fport = fport\<rparr>, x', mc)}
          | _ \<Rightarrow> Some (MacResponse (DownlinkReceived fcnt), dl, x', mc))})"

definition handle_accepted_mc ::
  "(bytes \<Rightarrow> 'x crypto_scheme) \<Rightarrow> nat \<Rightarrow> bytes \<Rightarrow> u32 \<Rightarrow> bool \<Rightarrow> i8 \<Rightarrow> bool \<Rightarrow> downlink list \<Rightarrow> mac_ctx \<Rightarrow> multicast
    \<Rightarrow> (mc_mac_response \<times> downlink list \<times> bytes \<times> mac_ctx \<times> multicast) run" where
  "handle_accepted_mc mk D bs fcnt confirmed snr ignore_mac dl x mc = do {
     let s = cx_session x;
     let x1 = x\<lparr>cx_session := s\<lparr>ss_fcnt_down := Some fcnt, ss_adr_ack_cnt := 0\<rparr>\<rparr>;
     r \<leftarrow> decrypt_in_place bs (Some (mk (ss_nwkskey s))) (Some (mk (ss_appskey s))) fcnt;
     v \<leftarrow> result_ok r;
     x2 \<leftarrow> (if ignore_mac then Some x1
            else do {
              h \<leftarrow> dv_fhdr v;
              opts \<leftarrow> fhdr_f_opts h;
              y \<leftarrow> handle_downlink_macs opts snr x1;
              payload \<leftarrow> dv_frm_payload v;
              case payload of FrmMacCommands cmds \<Rightarrow> handle_downlink_macs cmds snr y | _ \<Rightarrow> Some y});
     let x3 = (if confirmed then set_uplink set_downlink_confirmation x2 else x2);
     (resp, dl', x4, mc') \<leftarrow> deliver_downlink_mc mk D fcnt v dl x3 mc;
     Some (resp, dl', dv_bytes v, x4, mc')}"

text \<open>\<open>Session::handle_rx\<close>: a frame on a port of the range goes to the multicast layer, before its counter is rebuilt.\<close>

definition handle_rx_mc ::
  "(bytes \<Rightarrow> 'x crypto_scheme) \<Rightarrow> nat \<Rightarrow> bytes \<Rightarrow> downlink list \<Rightarrow> u8 \<Rightarrow> i8 \<Rightarrow> bool \<Rightarrow> mac_ctx \<Rightarrow> multicast
    \<Rightarrow> (mc_mac_response \<times> downlink list \<times> bytes \<times> mac_ctx \<times> multicast) run" where
  "handle_rx_mc mk D bs dl max_payload_len snr ignore_mac x mc = do {
     r \<leftarrow> encrypted_parse bs;
     case r of
       Inl _ \<Rightarrow> Some (MacResponse NoUpdate, dl, bs, x, mc)
     | Inr v \<Rightarrow>
         if length (dv_bytes v) > unat max_payload_len + MHDR_LEN + MIC_LEN
         then do {
           (resp, s', conf') \<leftarrow> rx2_complete (cx_conf x) (cx_region x) (cx_session x);
           Some (MacResponse resp, dl, bs, x\<lparr>cx_session := s', cx_conf := conf'\<rparr>, mc)}
         else do {
           u \<leftarrow> (if ignore_mac then Some (ss_uplink (cx_session x))
                 else clear_mac_commands False (ss_uplink (cx_session x)));
           let x1 = set_uplink (\<lambda>_. u) x;
           port \<leftarrow> dv_f_port v;
           if (case port of Some p \<Rightarrow> is_in_range p mc | None \<Rightarrow> False)
           then do {
             (resp, dl', bs', mc') \<leftarrow> multicast_handle_rx mk D bs dl mc;
             Some (MulticastResponse resp, dl', bs', x1, mc')}
           else do {
             let confirmed = dv_is_confirmed v;
             h \<leftarrow> dv_fhdr v;
             wire \<leftarrow> fhdr_fcnt h;
             case next_fcnt_down (ss_fcnt_down (cx_session x1)) wire of
               None \<Rightarrow> Some (MacResponse NoUpdate, dl, bs, x1, mc)
             | Some fcnt \<Rightarrow> do {
                 ok \<leftarrow> validate_data_mic v (mk (ss_nwkskey (cx_session x1))) fcnt;
                 if ok then handle_accepted_mc mk D bs fcnt confirmed snr ignore_mac dl x1 mc
                 else Some (MacResponse NoUpdate, dl, bs, x1, mc)}}}}"

section \<open>The MAC layer\<close>

definition session_rx_mc ::
  "(bytes \<Rightarrow> 'x crypto_scheme) \<Rightarrow> nat \<Rightarrow> radio_buffer \<Rightarrow> downlink list \<Rightarrow> u8 \<Rightarrow> i8 \<Rightarrow> bool \<Rightarrow> session \<Rightarrow> mac \<Rightarrow> multicast
    \<Rightarrow> (mc_mac_response \<times> radio_buffer \<times> downlink list \<times> mac \<times> multicast) run" where
  "session_rx_mc mk D buf dl max_payload_len snr ignore_mac s m mc = do {
     rx \<leftarrow> rb_as_ref_for_read buf;
     (resp, dl', rx', x, mc') \<leftarrow> handle_rx_mc mk D rx dl max_payload_len snr ignore_mac
        \<lparr>cx_session = s, cx_conf = mac_conf m, cx_region = mac_region m\<rparr> mc;
     p \<leftarrow> copy_range (rb_packet buf) 0 (rb_pos buf) rx';
     Some (resp, buf\<lparr>rb_packet := p\<rparr>, dl',
       m\<lparr>mac_conf := cx_conf x, mac_region := cx_region x, mac_state := Joined (cx_session x)\<rparr>, mc')}"

text \<open>The arms of \<open>handle_rx\<close> and \<open>handle_rxc\<close> for a device that is not joined do not depend on the feature.\<close>

definition mac_handle_rx_mc ::
  "(bytes \<Rightarrow> 'x crypto_scheme) \<Rightarrow> nat \<Rightarrow> radio_buffer \<Rightarrow> downlink list \<Rightarrow> i8 \<Rightarrow> rf_config \<Rightarrow> mac \<Rightarrow> multicast
    \<Rightarrow> (mc_mac_response \<times> radio_buffer \<times> downlink list \<times> mac \<times> multicast) run" where
  "mac_handle_rx_mc mk D buf dl snr rf m mc = (case mac_state m of
      Joined s \<Rightarrow> session_rx_mc mk D buf dl (rf_max_payload_len rf) snr False s m mc
    | _ \<Rightarrow> map_option (\<lambda>(resp, buf', dl', m'). (MacResponse resp, buf', dl', m', mc)) (mac_handle_rx mk D buf dl snr rf m))"

definition mac_handle_rxc_mc ::
  "(bytes \<Rightarrow> 'x crypto_scheme) \<Rightarrow> nat \<Rightarrow> radio_buffer \<Rightarrow> downlink list \<Rightarrow> i8 \<Rightarrow> rf_config \<Rightarrow> mac \<Rightarrow> multicast
    \<Rightarrow> ((mac_layer_error + mc_mac_response) \<times> radio_buffer \<times> downlink list \<times> mac \<times> multicast) run" where
  "mac_handle_rxc_mc mk D buf dl snr rf m mc = (case mac_state m of
      Joined s \<Rightarrow> map_option (map_prod Inr id) (session_rx_mc mk D buf dl (rf_max_payload_len rf) snr True s m mc)
    | _ \<Rightarrow> Some (Inl NotJoined, buf, dl, m, mc))"

text \<open>\<open>Mac::multicast_setup_send\<close>\<close>

definition mac_multicast_setup_send ::
  "(bytes \<Rightarrow> 'x crypto_scheme) \<Rightarrow> ('r \<Rightarrow> u32 \<times> 'r) \<Rightarrow> 'r \<Rightarrow> radio_buffer \<Rightarrow> mac \<Rightarrow> multicast
    \<Rightarrow> ((mac_layer_error + tx_config \<times> u32) \<times> 'r \<times> radio_buffer \<times> mac \<times> multicast) run" where
  "mac_multicast_setup_send mk next_u32 rng buf m mc = do {
     (r, st', buf', mc') \<leftarrow> multicast_setup_send mk (mac_state m) buf (mac_conf m) (mac_region m) mc;
     let m1 = m\<lparr>mac_state := st'\<rparr>;
     (case r of
        Inl e \<Rightarrow> Some (Inl e, rng, buf', m1, mc')
      | Inr fcnt_up \<Rightarrow> do {
          ((tx, _, rng'), region') \<leftarrow> rs_create_tx_config next_u32 rng (cfg_data_rate (mac_conf m1)) Data (mac_region m1);
          let m2 = m1\<lparr>mac_region := region'\<rparr>;
          let power = (case cfg_tx_power (mac_conf m2) of Some p \<Rightarrow> p | None \<Rightarrow> be_max_power (mac_eirp m2));
          Some (Inr (adjust_power power (be_antenna_gain (mac_eirp m2)) tx, fcnt_up), rng', buf', m2, mc')})}"

section \<open>The asynchronous device\<close>

type_synonym ('w, 't, 'r, 'e, 'a) mc_outcome =
  "(('e async_error + 'a) \<times> ('w, 't, 'r) async_device \<times> multicast) run"

definition mc_try ::
  "('w, 't, 'r, 'e, 'a) mc_outcome \<Rightarrow> ('a \<Rightarrow> ('w, 't, 'r) async_device \<Rightarrow> multicast \<Rightarrow> ('w, 't, 'r, 'e, 'b) mc_outcome)
    \<Rightarrow> ('w, 't, 'r, 'e, 'b) mc_outcome" where
  "mc_try x f = do {
     (r, d, mc) \<leftarrow> x;
     case r of Inl e \<Rightarrow> Some (Inl e, d, mc) | Inr y \<Rightarrow> f y d mc}"

text \<open>A call that does not touch the state of the feature.\<close>

definition with_mc :: "multicast \<Rightarrow> ('w, 't, 'r, 'e, 'a) async_outcome \<Rightarrow> ('w, 't, 'r, 'e, 'a) mc_outcome" where
  "with_mc mc x = map_option (\<lambda>(r, d). (r, d, mc)) x"

text \<open>The transmission of queued answers: no receive window follows, and with Class C the radio listens again.\<close>

definition async_setup_answer ::
  "(bytes \<Rightarrow> 'x crypto_scheme) \<Rightarrow> ('r \<Rightarrow> u32 \<times> 'r) \<Rightarrow> ('w, 't, 'e) async_phy \<Rightarrow> rx_config option
    \<Rightarrow> ('w, 't, 'r) async_device \<Rightarrow> multicast \<Rightarrow> ('w, 't, 'r, 'e, unit) mc_outcome" where
  "async_setup_answer mk next_u32 E rx_config d mc = do {
     (r, rng', buf', m', mc') \<leftarrow> mac_multicast_setup_send mk next_u32 (ad_rng d) (ad_buffer d) (ad_mac d) mc;
     let d1 = d\<lparr>ad_rng := rng', ad_buffer := buf', ad_mac := m'\<rparr>;
     (case r of
        Inl e \<Rightarrow> Some (Inl (AsyncMac e), d1, mc')
      | Inr (tx, _) \<Rightarrow> with_mc mc' (async_try (async_tx E tx d1) (\<lambda>_ d2.
          case rx_config of Some cfg \<Rightarrow> async_setup_rx E cfg d2 | None \<Rightarrow> Some (Inr (), d2))))}"

definition handle_mac_response_mc ::
  "(bytes \<Rightarrow> 'x crypto_scheme) \<Rightarrow> ('r \<Rightarrow> u32 \<times> 'r) \<Rightarrow> ('w, 't, 'e) async_phy \<Rightarrow> mc_mac_response \<Rightarrow> rx_config option
    \<Rightarrow> ('w, 't, 'r) async_device \<Rightarrow> multicast \<Rightarrow> ('w, 't, 'r, 'e, mc_mac_response option) mc_outcome" where
  "handle_mac_response_mc mk next_u32 E response rx_config d mc =
     (let d1 = d\<lparr>ad_buffer := rb_clear (ad_buffer d)\<rparr>
      in case response of
           MacResponse r \<Rightarrow> Some (Inr (if r = NoUpdate then None else Some (MacResponse r)), d1, mc)
         | MulticastResponse r \<Rightarrow>
             mc_try (if is_transmit_request r then async_setup_answer mk next_u32 E rx_config d1 mc else Some (Inr (), d1, mc))
               (\<lambda>_ d2 mc2.
                  let r' = (case r of McGroupSetupTransmitRequest g \<Rightarrow> McNewSession g | _ \<Rightarrow> r)
                  in Some (Inr (if is_for_async_mc_response r' then Some (MulticastResponse r') else None), d2, mc2)))"

definition async_handle_rx_mc ::
  "(bytes \<Rightarrow> 'x crypto_scheme) \<Rightarrow> nat \<Rightarrow> ('r \<Rightarrow> u32 \<times> 'r) \<Rightarrow> ('w, 't, 'e) async_phy \<Rightarrow> nat \<Rightarrow> rx_quality \<Rightarrow> rf_config
    \<Rightarrow> ('w, 't, 'r) async_device \<Rightarrow> multicast \<Rightarrow> ('w, 't, 'r, 'e, mc_mac_response option) mc_outcome" where
  "async_handle_rx_mc mk D next_u32 E s q rf d mc = do {
     (resp, buf', dl', m', mc') \<leftarrow>
       mac_handle_rx_mc mk D (rb_set_pos s (ad_buffer d)) (ad_downlink d) (rxq_snr q) rf (ad_mac d) mc;
     handle_mac_response_mc mk next_u32 E resp None (d\<lparr>ad_buffer := buf', ad_downlink := dl', ad_mac := m'\<rparr>) mc'}"

definition async_handle_rxc_mc ::
  "(bytes \<Rightarrow> 'x crypto_scheme) \<Rightarrow> nat \<Rightarrow> ('r \<Rightarrow> u32 \<times> 'r) \<Rightarrow> ('w, 't, 'e) async_phy \<Rightarrow> nat \<Rightarrow> rx_quality \<Rightarrow> rx_config
    \<Rightarrow> ('w, 't, 'r) async_device \<Rightarrow> multicast \<Rightarrow> ('w, 't, 'r, 'e, mc_mac_response option) mc_outcome" where
  "async_handle_rxc_mc mk D next_u32 E s q cfg d mc = do {
     (r, buf', dl', m', mc') \<leftarrow>
       mac_handle_rxc_mc mk D (rb_set_pos s (ad_buffer d)) (ad_downlink d) (rxq_snr q) (rxc_rf cfg) (ad_mac d) mc;
     let d' = d\<lparr>ad_buffer := buf', ad_downlink := dl', ad_mac := m'\<rparr>;
     (case r of
         Inl e \<Rightarrow> Some (Inl (AsyncMac e), d', mc')
       | Inr resp \<Rightarrow> handle_mac_response_mc mk next_u32 E resp (Some cfg) d' mc')}"

text \<open>In the loop between the windows, \<open>continue\<close> leaves the future of the timeout behind, so that the loop ends: a valid
  frame after a new session opens the window at once.\<close>

definition holds_new_session :: "mc_mac_response option \<Rightarrow> bool" where
  "holds_new_session r = (case r of Some (MulticastResponse x) \<Rightarrow> is_new_session x | _ \<Rightarrow> False)"

partial_function (option) rxc_loop_mc ::
  "(bytes \<Rightarrow> 'x crypto_scheme) \<Rightarrow> nat \<Rightarrow> ('r \<Rightarrow> u32 \<times> 'r) \<Rightarrow> ('w, 't, 'e) async_phy \<Rightarrow> rx_config \<Rightarrow> u32
    \<Rightarrow> mc_mac_response option \<Rightarrow> ('w, 't, 'r) async_device \<Rightarrow> multicast
    \<Rightarrow> (('e async_error + mc_mac_response option) \<times> ('w, 't, 'r) async_device \<times> multicast) option" where
  "rxc_loop_mc mk D next_u32 E cfg duration response d mc =
     Option.bind (rxc_listen_until_timeout E duration d) (\<lambda>(x, d1).
        case x of
          RxcTimeout _ \<Rightarrow> Some (Inr response, d1, mc)
        | RxcRx sz q \<Rightarrow>
            Option.bind (async_handle_rxc_mc mk D next_u32 E sz q cfg d1 mc) (\<lambda>(r, d2, mc2).
              case r of
                Inl e \<Rightarrow> Some (Inl e, d2, mc2)
              | Inr y \<Rightarrow>
                  (case y of
                     None \<Rightarrow> rxc_loop_mc mk D next_u32 E cfg duration response d2 mc2
                   | Some z \<Rightarrow>
                       if holds_new_session response then Some (Inr response, d2, mc2)
                       else rxc_loop_mc mk D next_u32 E cfg duration (Some z) d2 mc2)))"

definition between_windows_mc ::
  "(bytes \<Rightarrow> 'x crypto_scheme) \<Rightarrow> nat \<Rightarrow> ('r \<Rightarrow> u32 \<times> 'r) \<Rightarrow> ('w, 't, 'e) async_phy \<Rightarrow> u32
    \<Rightarrow> ('w, 't, 'r) async_device \<Rightarrow> multicast \<Rightarrow> ('w, 't, 'r, 'e, mc_mac_response option) mc_outcome" where
  "between_windows_mc mk D next_u32 E duration d mc =
     (if \<not> ad_class_c d
      then with_mc mc (async_try (async_low_power E d) (\<lambda>_ d1. Some (Inr None, async_timer_at E duration d1)))
      else do {
        rx_config \<leftarrow> get_rxc_config (ad_mac d);
        mc_try (with_mc mc (async_setup_rx E rx_config d))
          (\<lambda>_ d1 mc1. rxc_loop_mc mk D next_u32 E rx_config duration None d1 mc1)})"

definition rx_listen_mc ::
  "(bytes \<Rightarrow> 'x crypto_scheme) \<Rightarrow> nat \<Rightarrow> ('r \<Rightarrow> u32 \<times> 'r) \<Rightarrow> ('w, 't, 'e) async_phy \<Rightarrow> rf_config
    \<Rightarrow> ('w, 't, 'r) async_device \<Rightarrow> multicast \<Rightarrow> ('w, 't, 'r, 'e, mc_mac_response option) mc_outcome" where
  "rx_listen_mc mk D next_u32 E rf_config d mc = mc_try (with_mc mc (async_rx_single E d)) (\<lambda>st d1 mc1.
     mc_try (case st of
         Rx s q \<Rightarrow> async_handle_rx_mc mk D next_u32 E s q rf_config d1 mc1
       | RxTimeout \<Rightarrow> Some (Inr None, d1, mc1)) (\<lambda>response d2 mc2.
     mc_try (with_mc mc2 (window_complete E d2)) (\<lambda>_ d3 mc3. Some (Inr response, d3, mc3))))"

definition rx_window_mc ::
  "(bytes \<Rightarrow> 'x crypto_scheme) \<Rightarrow> nat \<Rightarrow> ('r \<Rightarrow> u32 \<times> 'r) \<Rightarrow> ('w, 't, 'e) async_phy \<Rightarrow> frame \<Rightarrow> u32 \<Rightarrow> rx_windows \<Rightarrow> window
    \<Rightarrow> ('w, 't, 'r) async_device \<Rightarrow> multicast \<Rightarrow> ('w, 't, 'r, 'e, mc_mac_response option) mc_outcome" where
  "rx_window_mc mk D next_u32 E fr window_delay w win d mc =
     mc_try (between_windows_mc mk D next_u32 E (rx_start_delay E fr window_delay win d) d mc) (\<lambda>_ d1 mc1.
       let rx_config = rw_rx_config (ap_window_buffer E (ad_radio d1)) win w
       in mc_try (with_mc mc1 (async_setup_rx E rx_config d1))
            (\<lambda>_ d2 mc2. rx_listen_mc mk D next_u32 E (rxc_rf rx_config) d2 mc2))"

definition rx2_downlink_mc ::
  "(bytes \<Rightarrow> 'x crypto_scheme) \<Rightarrow> nat \<Rightarrow> ('r \<Rightarrow> u32 \<times> 'r) \<Rightarrow> ('w, 't, 'e) async_phy \<Rightarrow> frame \<Rightarrow> u32 \<Rightarrow> rx_windows
    \<Rightarrow> ('w, 't, 'r) async_device \<Rightarrow> multicast \<Rightarrow> ('w, 't, 'r, 'e, mc_mac_response) mc_outcome" where
  "rx2_downlink_mc mk D next_u32 E fr window_delay w d mc =
     mc_try (rx_window_mc mk D next_u32 E fr window_delay w Window2 d mc) (\<lambda>r d1 mc1.
       case r of
         Some response \<Rightarrow> Some (Inr response, d1, mc1)
       | None \<Rightarrow> do {
           (resp, m') \<leftarrow> mac_rx2_complete (ad_mac d1);
           Some (Inr (MacResponse resp), d1\<lparr>ad_mac := m'\<rparr>, mc1)})"

definition rx_downlink_mc ::
  "(bytes \<Rightarrow> 'x crypto_scheme) \<Rightarrow> nat \<Rightarrow> ('r \<Rightarrow> u32 \<times> 'r) \<Rightarrow> ('w, 't, 'e) async_phy \<Rightarrow> frame \<Rightarrow> u32 \<Rightarrow> rx_windows
    \<Rightarrow> ('w, 't, 'r) async_device \<Rightarrow> multicast \<Rightarrow> ('w, 't, 'r, 'e, mc_mac_response) mc_outcome" where
  "rx_downlink_mc mk D next_u32 E fr window_delay w d mc =
     mc_try (rx_window_mc mk D next_u32 E fr window_delay w Window1 (d\<lparr>ad_buffer := rb_clear (ad_buffer d)\<rparr>) mc)
       (\<lambda>r d1 mc1. case r of
          Some response \<Rightarrow> Some (Inr response, d1, mc1)
        | None \<Rightarrow> rx2_downlink_mc mk D next_u32 E fr window_delay w d1 mc1)"

section \<open>Calls of the application\<close>

text \<open>The conversions to \<open>SendResponse\<close> and \<open>ListenResponse\<close>; a multicast response that is not for the application panics.\<close>

datatype mc_send_response = SendPlain send_response | SendMulticast multicast_response

datatype mc_listen_response = ListenPlain listen_response | ListenMulticast multicast_response

definition async_mc_response :: "multicast_response \<Rightarrow> multicast_response run" where
  "async_mc_response r = (if is_for_async_mc_response r then Some r else None)"

definition send_response_of_mc :: "mc_mac_response \<Rightarrow> mc_send_response run" where
  "send_response_of_mc r = (case r of
      MacResponse x \<Rightarrow> map_option SendPlain (send_response_of x)
    | MulticastResponse x \<Rightarrow> map_option SendMulticast (async_mc_response x))"

definition listen_response_of_mc :: "mc_mac_response \<Rightarrow> mc_listen_response run" where
  "listen_response_of_mc r = (case r of
      MacResponse x \<Rightarrow> map_option ListenPlain (listen_response_of x)
    | MulticastResponse x \<Rightarrow> map_option ListenMulticast (async_mc_response x))"

definition async_send_mc ::
  "(bytes \<Rightarrow> 'x crypto_scheme) \<Rightarrow> nat \<Rightarrow> ('r \<Rightarrow> u32 \<times> 'r) \<Rightarrow> ('w, 't, 'e) async_phy \<Rightarrow> bytes \<Rightarrow> u8 \<Rightarrow> bool
    \<Rightarrow> ('w, 't, 'r) async_device \<Rightarrow> multicast \<Rightarrow> ('w, 't, 'r, 'e, mc_send_response) mc_outcome" where
  "async_send_mc mk D next_u32 E data fport confirmed d mc = do {
     (r, rng', buf', m') \<leftarrow> mac_send mk next_u32 (ad_rng d) (ad_buffer d)
        \<lparr>sd_data = data, sd_fport = fport, sd_confirmed = confirmed\<rparr> (ad_mac d);
     let d1 = d\<lparr>ad_rng := rng', ad_buffer := buf', ad_mac := m'\<rparr>;
     (case r of
        Inl e \<Rightarrow> Some (Inl (AsyncMac e), d1, mc)
      | Inr (tx, w, _) \<Rightarrow> mc_try (with_mc mc (async_tx E tx d1)) (\<lambda>ms d2 mc2.
          mc_try (rx_downlink_mc mk D next_u32 E Data ms w (d2\<lparr>ad_timer := ap_timer_reset E (ad_timer d2)\<rparr>) mc2)
            (\<lambda>resp d3 mc3. do {
               x \<leftarrow> send_response_of_mc resp;
               Some (Inr x, d3, mc3)})))}"

partial_function (option) rxc_listen_loop_mc ::
  "(bytes \<Rightarrow> 'x crypto_scheme) \<Rightarrow> nat \<Rightarrow> ('r \<Rightarrow> u32 \<times> 'r) \<Rightarrow> ('w, 't, 'e) async_phy \<Rightarrow> rx_config
    \<Rightarrow> ('w, 't, 'r) async_device \<Rightarrow> multicast
    \<Rightarrow> (('e async_error + mc_listen_response) \<times> ('w, 't, 'r) async_device \<times> multicast) option" where
  "rxc_listen_loop_mc mk D next_u32 E cfg d mc =
     Option.bind (async_rx_continuous E d) (\<lambda>(x, d1).
       case x of
         Inl e \<Rightarrow> Some (Inl e, d1, mc)
       | Inr (sz, q) \<Rightarrow>
           Option.bind (async_handle_rxc_mc mk D next_u32 E sz q cfg d1 mc) (\<lambda>(r, d2, mc2).
             case r of
               Inl e \<Rightarrow> Some (Inl e, d2, mc2)
             | Inr y \<Rightarrow>
                 (case y of
                    Some response \<Rightarrow> Option.bind (listen_response_of_mc response) (\<lambda>z. Some (Inr z, d2, mc2))
                  | None \<Rightarrow> rxc_listen_loop_mc mk D next_u32 E cfg d2 mc2)))"

definition rxc_listen_mc ::
  "(bytes \<Rightarrow> 'x crypto_scheme) \<Rightarrow> nat \<Rightarrow> ('r \<Rightarrow> u32 \<times> 'r) \<Rightarrow> ('w, 't, 'e) async_phy
    \<Rightarrow> ('w, 't, 'r) async_device \<Rightarrow> multicast \<Rightarrow> ('w, 't, 'r, 'e, mc_listen_response) mc_outcome" where
  "rxc_listen_mc mk D next_u32 E d mc = do {
     rx_config \<leftarrow> get_rxc_config (ad_mac d);
     rxc_listen_loop_mc mk D next_u32 E rx_config d mc}"

section \<open>Configuration\<close>

datatype mc_group = McGroup0 | McGroup1 | McGroup2 | McGroup3

definition set_multicast_ke_key :: "(bytes \<Rightarrow> 'x crypto_scheme) \<Rightarrow> bytes \<Rightarrow> multicast \<Rightarrow> multicast" where
  "set_multicast_ke_key mk mc_root_key mc = mc\<lparr>mcast_ke_key := Some (mc_ke_key_derive_from (mk mc_root_key))\<rparr>"

definition set_multicast_ke_key_from_gen_app_key :: "(bytes \<Rightarrow> 'x crypto_scheme) \<Rightarrow> bytes \<Rightarrow> multicast \<Rightarrow> multicast" where
  "set_multicast_ke_key_from_gen_app_key mk key mc =
     set_multicast_ke_key mk (mc_root_key_derive_from_gen_app_key (mk key)) mc"

definition set_multicast_ke_key_from_app_key :: "(bytes \<Rightarrow> 'x crypto_scheme) \<Rightarrow> bytes \<Rightarrow> multicast \<Rightarrow> multicast" where
  "set_multicast_ke_key_from_app_key mk key mc = set_multicast_ke_key mk (mc_root_key_derive_from_app_key (mk key)) mc"

definition set_multicast_session :: "mc_group \<Rightarrow> mc_session \<Rightarrow> multicast \<Rightarrow> multicast" where
  "set_multicast_session slot s mc =
     (let index = (case slot of McGroup0 \<Rightarrow> 0 | McGroup1 \<Rightarrow> 1 | McGroup2 \<Rightarrow> 2 | McGroup3 \<Rightarrow> 3)
      in mc\<lparr>mcast_sessions := (mcast_sessions mc)[index := Some s]\<rparr>)"

section \<open>The non-blocking device\<close>

text \<open>The conversion to the response of the non-blocking device has no arm for the responses of the feature: \<open>unimplemented!()\<close>
  panics.\<close>

fun nb_response_of_mc :: "mc_mac_response \<Rightarrow> nb_response run" where
  "nb_response_of_mc (MacResponse r) = nb_response_of r"
| "nb_response_of_mc (MulticastResponse _) = None"

definition waiting_rx_done_mc ::
  "(bytes \<Rightarrow> 'x crypto_scheme) \<Rightarrow> nat \<Rightarrow> ('w, 'p, 'q, 'e) phy \<Rightarrow> frame \<Rightarrow> rx_windows \<Rightarrow> rx_slot \<Rightarrow> rf_config \<Rightarrow> rx_quality
    \<Rightarrow> ('w, 'r) nb_shared \<Rightarrow> multicast \<Rightarrow> (((nb_state \<times> ('e nb_error + nb_response)) \<times> ('w, 'r) nb_shared) \<times> multicast) run" where
  "waiting_rx_done_mc mk D R fr w slot rf quality sh mc = do {
     (buf, ok) \<leftarrow> rb_extend_from_slice (phy_received_packet R (sh_radio sh)) (rb_clear (sh_tx_buffer sh));
     if ok = Inl () then Some (((WaitingForRx fr w slot rf, Inl (NbState BufferTooSmall)), sh\<lparr>sh_tx_buffer := buf\<rparr>), mc)
     else do {
       (resp, buf', dl', m', mc') \<leftarrow> mac_handle_rx_mc mk D buf (sh_downlink sh) (rxq_snr quality) rf (sh_mac sh) mc;
       let sh' = sh\<lparr>sh_tx_buffer := buf', sh_downlink := dl', sh_mac := m'\<rparr>;
       (case resp of
          MacResponse NoUpdate \<Rightarrow> Some (((WaitingForRx fr w slot rf, Inr NbNoUpdate), sh'), mc')
        | r \<Rightarrow> do { r' \<leftarrow> nb_response_of_mc r; Some (((Idle, Inr r'), sh'), mc')})}}"

text \<open>Every other event of the state machine is handled as in the default build.\<close>

definition nb_handle_event_mc ::
  "(bytes \<Rightarrow> 'x crypto_scheme) \<Rightarrow> nat \<Rightarrow> ('r \<Rightarrow> u32 \<times> 'r) \<Rightarrow> ('w, 'p, 'q, 'e) phy \<Rightarrow> 'p nb_event \<Rightarrow> ('w, 'r) nb_device
    \<Rightarrow> multicast \<Rightarrow> (('e nb_error + nb_response) \<times> ('w, 'r) nb_device \<times> multicast) run" where
  "nb_handle_event_mc mk D next_u32 R event d mc =
     (let default_arm = map_option (\<lambda>(r, d'). (r, d', mc)) (nb_handle_event mk D next_u32 R event d)
      in case (nd_state d, event) of
           (WaitingForRx fr w slot rf, NbRadioEvent ev) \<Rightarrow>
             (case sh_radio_event R ev (nd_shared d) of
                (Inr (RxDone quality), sh) \<Rightarrow> do {
                  (((s', result), sh'), mc') \<leftarrow> waiting_rx_done_mc mk D R fr w slot rf quality sh mc;
                  Some (result, \<lparr>nd_state = s', nd_shared = sh'\<rparr>, mc')}
              | _ \<Rightarrow> default_arm)
         | _ \<Rightarrow> default_arm)"

end
