(* ===== verification/McPackageFacts.thy ===== *)
theory McPackageFacts
  imports McPackage
begin

text \<open>
  What the two ends of remote multicast setup agree on: the keys and counters of a group, the report of the groups,
  the answers; and the constructor of the report that cuts it short.
\<close>

section \<open>Streams of setup messages\<close>

text \<open>Serialising setup messages and splitting the bytes again is the identity, in both directions.\<close>

theorem setup_stream_roundtrip:
  "(\<forall>c \<in> set ds. length (downlink_setup_bytes c) = downlink_setup_len c) \<Longrightarrow>
   (\<forall>c \<in> set us. length (uplink_setup_bytes c) = uplink_setup_len c) \<Longrightarrow>
   mc_items downlink_setup_parse_one (mc_new (encode_cmds downlink_setup_cid downlink_setup_bytes ds)) = Some (map Inr ds) \<and>
   mc_items uplink_setup_parse_one (mc_new (encode_cmds uplink_setup_cid uplink_setup_bytes us)) = Some (map Inr us)"
  using downlink_setup.items_encode uplink_setup.items_encode by blast

lemma setup_stream_roundtrip_witness:
  "mc_items downlink_setup_parse_one (mc_new [0x00, 0x03, 0x02]) = Some (map Inr [PackageVersionReq, McGroupDeleteReq [2]]) \<and>
   mc_items uplink_setup_parse_one (mc_new [0x01, 0x12, 1, 5, 6, 7, 8, 0x02, 0x01]) =
     Some (map Inr [McGroupStatusAns [0x12, 1, 5, 6, 7, 8], McGroupSetupAns [1]])"
  using setup_stream_roundtrip [of "[PackageVersionReq, McGroupDeleteReq [2]]"
      "[McGroupStatusAns [0x12, 1, 5, 6, 7, 8], McGroupSetupAns [1]]"]
  by (simp add: encode_cmds_def mc_required_len_def count_ones_def upt_conv_Cons)

section \<open>Setup of a group\<close>

lemma from_to_le_u32: "from_le_bytes (to_le_bytes w) = (w :: u32)"
  using from_le_bytes_to_le_bytes [of 4 w] take_bit_length_eq [of w] by (simp add: to_le_bytes_def)

text \<open>The request that sets up a group, as the network builds it.\<close>

definition group_setup_request ::
  "'x network_crypto_scheme \<Rightarrow> u8 \<Rightarrow> bytes \<Rightarrow> bytes \<Rightarrow> u32 \<Rightarrow> u32 \<Rightarrow> bytes run" where
  "group_setup_request c g addr mc_key lo hi = do {
     d1 \<leftarrow> mc_group_setup_req_set_addr addr (mc_group_setup_req_set_id g (creator_new 0x02 29));
     d2 \<leftarrow> mc_group_setup_req_set_key c mc_key d1;
     d3 \<leftarrow> mc_group_setup_req_set_min lo d2;
     mc_group_setup_req_set_max hi d3}"

lemma group_setup_request_eq:
  assumes "network_crypto_ok c" "length addr = 4" "length mc_key = 16"
  shows "group_setup_request c g addr mc_key lo hi =
     Some (0x02 # (g # addr) @ decrypt_block c mc_key @ to_le_bytes lo @ to_le_bytes hi)"
proof -
  have dk: "length (decrypt_block c mc_key) = 16" using network_crypto_okD(2) [OF assms(1,3)] .
  have z: "creator_new 0x02 29 = 0x02 # 0 # replicate 4 0 @ replicate 16 0 @ replicate 4 0 @ replicate 4 0"
    by (simp add: creator_new_def flip: replicate_add) (simp add: numeral_eq_Suc)
  have s1: "mc_group_setup_req_set_addr addr (mc_group_setup_req_set_id g (creator_new 0x02 29)) =
      Some (0x02 # g # addr @ replicate 16 0 @ replicate 4 0 @ replicate 4 0)"
    using assms(2) by (simp add: mc_group_setup_req_set_addr_def mc_group_setup_req_set_id_def z copy_range_def)
  have s2: "mc_group_setup_req_set_key c mc_key (0x02 # g # addr @ replicate 16 0 @ replicate 4 0 @ replicate 4 0) =
      Some (0x02 # g # addr @ decrypt_block c mc_key @ replicate 4 0 @ replicate 4 0)"
    using assms dk by (simp add: mc_group_setup_req_set_key_def copy_range_def subslice_def)
  have s3: "mc_group_setup_req_set_min lo (0x02 # g # addr @ decrypt_block c mc_key @ replicate 4 0 @ replicate 4 0) =
      Some (0x02 # g # addr @ decrypt_block c mc_key @ to_le_bytes lo @ replicate 4 0)"
    using assms(2) dk by (simp add: mc_group_setup_req_set_min_def copy_range_def)
  have s4: "mc_group_setup_req_set_max hi (0x02 # g # addr @ decrypt_block c mc_key @ to_le_bytes lo @ replicate 4 0) =
      Some (0x02 # g # addr @ decrypt_block c mc_key @ to_le_bytes lo @ to_le_bytes hi)"
    using assms(2) dk by (simp add: mc_group_setup_req_set_max_def copy_range_def)
  show ?thesis by (simp add: group_setup_request_def s1 s2 s3 s4)
qed

lemma group_setup_read:
  fixes g lo hi p
  assumes "length addr = 4" "length block = 16"
  defines "p \<equiv> (g # addr) @ block @ to_le_bytes lo @ to_le_bytes hi"
  shows "length p = 29" "mc_group_setup_req_id p = Some (g AND 0b11)" "mc_group_setup_req_addr p = Some addr"
    "mc_key_encrypted p = Some block" "min_mc_fcount p = Some lo" "max_mc_fcount p = Some hi"
  using assms
  by (simp_all add: mc_group_setup_req_id_def mc_group_setup_req_addr_def mc_key_encrypted_def min_mc_fcount_def
      max_mc_fcount_def subslice_def from_to_le_u32 idx_def)

definition mc_session_key :: "'x crypto_scheme \<Rightarrow> u8 \<Rightarrow> bytes \<Rightarrow> bytes" where
  "mc_session_key c first addr = encrypt_block c (first # addr @ replicate 11 0)"

lemma derive_session_eq:
  assumes "length p = 29"
  shows "derive_session mk c p = Some (p ! 0 AND 0b11,
     \<lparr>mcs_multicast_addr = take 4 (drop 1 p),
      mcs_net_s_key = mc_session_key (mk (encrypt_block c (take 16 (drop 5 p)))) 0x02 (take 4 (drop 1 p)),
      mcs_app_s_key = mc_session_key (mk (encrypt_block c (take 16 (drop 5 p)))) 0x01 (take 4 (drop 1 p)),
      mcs_fcnt_down = from_le_bytes (take 4 (drop 21 p)), mcs_max_fcnt_down = from_le_bytes (take 4 (drop 25 p))\<rparr>)"
proof -
  have l: "length (take 4 (drop 1 p)) = 4" using assms by simp
  show ?thesis using assms
    by (simp add: derive_session_def derive_session_keys_def mc_group_setup_req_id_def mc_group_setup_req_addr_def
        mc_key_decrypted_def mc_key_encrypted_def min_mc_fcount_def max_mc_fcount_def derive_mc_app_s_key_def
        derive_mc_net_s_key_def derive_mc_key_in [OF l, simplified] mc_session_key_def)
qed

text \<open>C32. A group that the network sets up exists on the device with the network's parameters: the device parses the
  request, takes the low two bits of the group's number, and derives the two session keys from the key that
  the network encrypted with the decrypt primitive, over the address of the group; the counters are those of the
  request.\<close>

theorem group_setup_agrees:
  assumes "network_crypto_ok c" "length addr = 4" "length mc_key = 16" "encrypt_block device = encrypt_block c"
  shows "\<exists>d p. group_setup_request c g addr mc_key lo hi = Some d \<and>
     downlink_setup_parse_one (d @ rest) = Some (Inr (McGroupSetupReq p, 30)) \<and>
     derive_session mk device p = Some (g AND 0b11,
       \<lparr>mcs_multicast_addr = addr, mcs_net_s_key = mc_session_key (mk mc_key) 0x02 addr,
        mcs_app_s_key = mc_session_key (mk mc_key) 0x01 addr, mcs_fcnt_down = lo, mcs_max_fcnt_down = hi\<rparr>)"
proof -
  let ?p = "(g # addr) @ decrypt_block c mc_key @ to_le_bytes lo @ to_le_bytes hi"
  have dk: "length (decrypt_block c mc_key) = 16" using network_crypto_okD(2) [OF assms(1,3)] .
  note rd = group_setup_read [OF assms(2) dk, of g lo hi]
  have "downlink_setup_parse_one (downlink_setup_cid (McGroupSetupReq ?p) # downlink_setup_bytes (McGroupSetupReq ?p) @ rest)
      = Some (Inr (McGroupSetupReq ?p, 1 + downlink_setup_len (McGroupSetupReq ?p)))"
    using rd(1) by (intro downlink_setup.parse_encoded) simp
  then have "downlink_setup_parse_one ((0x02 # ?p) @ rest) = Some (Inr (McGroupSetupReq ?p, 30))" by simp
  moreover have "derive_session mk device ?p = Some (g AND 0b11,
       \<lparr>mcs_multicast_addr = addr, mcs_net_s_key = mc_session_key (mk mc_key) 0x02 addr,
        mcs_app_s_key = mc_session_key (mk mc_key) 0x01 addr, mcs_fcnt_down = lo, mcs_max_fcnt_down = hi\<rparr>)"
    using rd network_crypto_okD(3) [OF assms(1,3)] assms(2,4)
    by (simp add: derive_session_def derive_session_keys_def mc_key_decrypted_def derive_mc_app_s_key_def
        derive_mc_net_s_key_def derive_mc_key_in mc_session_key_def)
  ultimately show ?thesis using group_setup_request_eq [OF assms(1-3), of g lo hi] by auto
qed

lemma group_setup_agrees_witness:
  "\<exists>d p s. group_setup_request (xor_crypto 0x5A) 1 [1, 2, 3, 4] (replicate 16 7) 5 100 = Some d \<and>
     downlink_setup_parse_one d = Some (Inr (McGroupSetupReq p, 30)) \<and>
     derive_session (\<lambda>k. xor_crypto (k ! 0)) (xor_crypto 0x5A) p = Some (1, s) \<and> mcs_fcnt_down s = 5"
  using group_setup_agrees [of "xor_crypto 0x5A" "[1, 2, 3, 4]" "replicate 16 7" "xor_crypto 0x5A" 1 5 100 "[]"
      "\<lambda>k. xor_crypto (k ! 0)"]
  by auto

section \<open>Status of the groups\<close>

lemma status_list_items: "status_list gs = concat (map (\<lambda>(g, a). g # a) gs)"
  by (simp add: status_list_def)

text \<open>A report of distinct groups, built as the device builds it, is read back: total and mask in the status byte, and
  the groups with their addresses in their order.\<close>

theorem group_status_roundtrip:
  assumes "groups_ok gs"
  shows "\<exists>c d p it. push_groups gs group_status_creator_new = Some c \<and>
     group_status_creator_build (group_status_creator_nb_total_groups n c) = Some d \<and>
     uplink_setup_parse_one (d @ rest) = Some (Inr (McGroupStatusAns p, length d)) \<and>
     nb_total_groups p = Some (n AND 0b111) \<and>
     (\<exists>m. ans_group_mask p = Some m \<and> (\<forall>i < 8. bit m i \<longleftrightarrow> i \<in> unat ` set (map fst gs))) \<and>
     item_iterator p = Some it \<and> status_items it = map (\<lambda>(g, a). g # a) gs"
proof -
  let ?p = "status_byte n gs # status_list gs"
  obtain c where c: "push_groups gs group_status_creator_new = Some c"
    "group_status_creator_build (group_status_creator_nb_total_groups n c) = Some (0x01 # ?p)"
    by (rule status_creator_build [OF assms])
  have a: "\<forall>(g, a) \<in> set gs. length a = 4" using assms by (auto simp: groups_ok_def)
  have len: "length ?p = 1 + mc_required_len (status_byte n gs)"
    using length_status_list [OF a] status_byte_count [OF assms] by simp
  have "uplink_setup_parse_one (uplink_setup_cid (McGroupStatusAns ?p) # uplink_setup_bytes (McGroupStatusAns ?p) @ rest)
      = Some (Inr (McGroupStatusAns ?p, 1 + uplink_setup_len (McGroupStatusAns ?p)))"
    using len by (intro uplink_setup.parse_encoded) simp
  then have "uplink_setup_parse_one ((0x01 # ?p) @ rest) = Some (Inr (McGroupStatusAns ?p, length (0x01 # ?p)))"
    using len by simp
  moreover have "nb_total_groups ?p = Some (n AND 0b111)"
  proof -
    have m: "(0b1111 :: u8) = mask 4" "(0b111 :: u8) = mask 3" by (simp_all add: mask_eq_exp_minus_1)
    have "drop_bit 4 (status_byte n gs) AND 0b111 = n AND 0b111"
      unfolding status_byte_def m
      by (rule bit_word_eqI) (auto simp: bit_simps)
    then show ?thesis by (simp add: nb_total_groups_def)
  qed
  moreover have "bit (status_byte n gs AND 0b1111) i \<longleftrightarrow> i \<in> unat ` set (map fst gs)" if "i < 8" for i
  proof (cases "i < 4")
    case True
    then show ?thesis using bit_status_byte [OF assms True] by (simp add: bit_and_0xf)
  next
    case False
    then show ?thesis using assms by (auto simp: bit_and_0xf groups_ok_def word_less_nat_alt)
  qed
  moreover have "status_items \<lparr>sit_data = status_list gs, sit_pos = 0\<rparr> = map (\<lambda>(g, a). g # a) gs"
  proof -
    have "\<forall>x \<in> set (map (\<lambda>(g, a). g # a) gs). length x = 5" using a by auto
    from status_items_concat [OF this, of "[]"] show ?thesis by (simp add: status_list_def)
  qed
  ultimately show ?thesis using c
    by (intro exI [of _ c] exI [of _ "0x01 # ?p"] exI [of _ ?p] exI [of _ "\<lparr>sit_data = status_list gs, sit_pos = 0\<rparr>"])
       (simp add: ans_group_mask_def item_iterator_def)
qed

lemma group_status_roundtrip_witness:
  "\<exists>c d p it. push_groups [(0, [1, 2, 3, 4]), (2, [5, 6, 7, 8])] group_status_creator_new = Some c \<and>
     group_status_creator_build (group_status_creator_nb_total_groups 3 c) = Some d \<and>
     uplink_setup_parse_one d = Some (Inr (McGroupStatusAns p, length d)) \<and> nb_total_groups p = Some 3 \<and>
     item_iterator p = Some it \<and> status_items it = [[0, 1, 2, 3, 4], [2, 5, 6, 7, 8]]"
proof -
  have "groups_ok [(0, [1, 2, 3, 4]), (2, [5, 6, 7, 8])]" by (simp add: groups_ok_def)
  from group_status_roundtrip [OF this, of 3 "[]"] show ?thesis by (simp del: push_groups.simps) blast
qed

text \<open>The constructor \<open>McGroupStatusAnsPayload::new\<close> refuses no complete report, but drops its last byte, so that the
  last group is missing from the list; for a report of no group it returns a payload that no accessor can read.\<close>

theorem group_status_new_cut:
  assumes "groups_ok gs" "gs \<noteq> []"
  shows "\<exists>p it. mc_group_status_ans_new (status_byte n gs # status_list gs) = Inr p \<and>
     item_iterator p = Some it \<and> status_items it = map (\<lambda>(g, a). g # a) (butlast gs) \<and>
     mc_group_status_ans_new (status_byte n [] # rest) = Inr [] \<and> ans_group_mask [] = None"
proof -
  have a: "\<forall>(g, a) \<in> set gs. length a = 4" using assms by (auto simp: groups_ok_def)
  have e: "groups_ok []" by (simp add: groups_ok_def)
  obtain bs g b where gs: "gs = bs @ [(g, b)]" using assms(2) by (metis rev_exhaust surj_pair)
  have ab: "\<forall>(g, a) \<in> set bs. length a = 4" "length b = 4" using a gs by auto
  define p where "p = status_byte n gs # status_list bs @ g # take 3 b"
  have "status_list gs = status_list bs @ g # b" by (simp add: gs status_list_def)
  then have new: "mc_group_status_ans_new (status_byte n gs # status_list gs) = Inr p"
    using status_byte_count [OF assms(1), of n] length_status_list [OF ab(1)] ab(2)
    by (simp add: mc_group_status_ans_new_def gs p_def take_Cons')
  have items: "status_items \<lparr>sit_data = pre @ concat xs @ ys, sit_pos = length pre\<rparr> = xs"
    if "\<forall>x \<in> set xs. length x = 5" "length ys < 5" for xs ys pre
    using that(1)
  proof (induction xs arbitrary: pre)
    case Nil
    then show ?case using that(2) by (subst status_items.simps) (simp add: status_item_next_def)
  next
    case (Cons x xs)
    have "status_items \<lparr>sit_data = (pre @ x) @ concat xs @ ys, sit_pos = length (pre @ x)\<rparr> = xs"
      using Cons.prems by (intro Cons.IH) simp
    then show ?case using Cons.prems by (subst status_items.simps) (simp add: status_item_next_def)
  qed
  have "status_items \<lparr>sit_data = status_list bs @ g # take 3 b, sit_pos = 0\<rparr> = map (\<lambda>(g, a). g # a) bs"
  proof -
    have "\<forall>x \<in> set (map (\<lambda>(g, a). g # a) bs). length x = 5" using ab by auto
    from items [OF this, of "g # take 3 b" "[]"] show ?thesis by (simp add: status_list_def)
  qed
  moreover have "item_iterator p = Some \<lparr>sit_data = status_list bs @ g # take 3 b, sit_pos = 0\<rparr>"
    using ab(2) by (simp add: item_iterator_def p_def)
  moreover have "mc_group_status_ans_new (status_byte n [] # rest) = Inr []"
    using status_byte_count [OF e, of n] by (simp add: mc_group_status_ans_new_def)
  ultimately show ?thesis using new by (simp add: gs ans_group_mask_def)
qed

lemma group_status_new_cut_witness:
  "\<exists>p it. mc_group_status_ans_new [0x31, 0, 1, 2, 3, 4] = Inr p \<and> item_iterator p = Some it \<and> status_items it = []"
proof -
  have "groups_ok [(0, [1, 2, 3, 4])]" by (simp add: groups_ok_def)
  from group_status_new_cut [OF this, of 3 "[]"] show ?thesis
    by (auto simp: status_byte_def mark_groups_def status_list_def)
qed

section \<open>Answers\<close>

text \<open>The answers that the device queues are read back as they were set.\<close>

theorem setup_answers_roundtrip:
  assumes "g < 4"
  shows "\<exists>p q r. uplink_setup_parse_one (mc_group_setup_ans_set_id g (creator_new 0x02 1)) = Some (Inr (McGroupSetupAns p, 2)) \<and>
     mc_group_setup_ans_id p = Some g \<and>
     uplink_setup_parse_one (mc_group_delete_ans_set_undefined u (mc_group_delete_ans_set_id g (creator_new 0x03 1))) =
       Some (Inr (McGroupDeleteAns q, 2)) \<and>
     mc_group_delete_ans_id q = Some g \<and> mc_group_delete_ans_undefined q = Some u \<and>
     uplink_setup_parse_one (package_version_ans_set_package_version v
       (package_version_ans_set_package_identifier i (creator_new 0x00 2))) = Some (Inr (PackageVersionAns r, 3)) \<and>
     package_version_ans_package_identifier r = Some i \<and> package_version_ans_package_version r = Some v"
proof -
  have "g \<in> {0, 1, 2, 3}"
  proof -
    have "unat g < 4" using assms by (simp add: word_less_nat_alt)
    then have "unat g = 0 \<or> unat g = 1 \<or> unat g = 2 \<or> unat g = 3" by linarith
    then show ?thesis by (auto simp: word_unat_eq_iff)
  qed
  then show ?thesis
    by (cases u) (auto simp: creator_new_simps uplink_setup_parse_one_def fixed_arm_def idx_def
        mc_group_setup_ans_set_id_def mc_group_setup_ans_id_def mc_group_delete_ans_set_undefined_def
        mc_group_delete_ans_set_id_def mc_group_delete_ans_id_def mc_group_delete_ans_undefined_def
        package_version_ans_set_package_version_def package_version_ans_set_package_identifier_def
        package_version_ans_package_identifier_def package_version_ans_package_version_def)
qed

lemma setup_answers_roundtrip_witness:
  "\<exists>p. uplink_setup_parse_one (mc_group_setup_ans_set_id 3 (creator_new 0x02 1)) = Some (Inr (McGroupSetupAns p, 2)) \<and>
     mc_group_setup_ans_id p = Some 3"
  using setup_answers_roundtrip [of 3 True 0 0] by auto

end
