(* ===== verification/MulticastFacts.thy ===== *)
theory MulticastFacts
  imports Multicast McPackageFacts
begin

text \<open>
  What a device with the feature \<open>multicast\<close> guarantees below the MAC layer: its invariant \<open>multicast_ok\<close>, which
  multicast frames are accepted and what they change, and the outcome of a message of remote setup. Three
  properties state where the code departs from what it documents: counter 0 is accepted again and again, the first
  frame of a group is refused, and the queue of answers overflows.
\<close>

section \<open>Invariant\<close>

definition mc_session_ok :: "mc_session \<Rightarrow> bool" where
  "mc_session_ok s \<longleftrightarrow> length (mcs_multicast_addr s) = 4 \<and> length (mcs_net_s_key s) = 16 \<and> length (mcs_app_s_key s) = 16"

definition multicast_ok :: "multicast \<Rightarrow> bool" where
  "multicast_ok m \<longleftrightarrow> length (mcast_sessions m) = MAX_GROUPS \<and> (\<forall>s. Some s \<in> set (mcast_sessions m) \<longrightarrow> mc_session_ok s) \<and>
     (\<forall>k. mcast_ke_key m = Some k \<longrightarrow> length k = 16) \<and> length (mcast_pending m) \<le> 256"

lemma multicast_new_ok: "multicast_ok multicast_new"
  by (simp add: multicast_ok_def multicast_new_def)

lemma multicast_ok_session:
  assumes "multicast_ok m" "mc_session_ok s"
  shows "multicast_ok (m\<lparr>mcast_sessions := (mcast_sessions m)[i := Some s]\<rparr>)"
  using assms set_update_subset_insert [of "mcast_sessions m" i "Some s"] by (auto simp: multicast_ok_def)

section \<open>Reception\<close>

lemma find_session_Some:
  "find_session i addr ss = Some (j, s) \<Longrightarrow>
     i \<le> j \<and> j - i < length ss \<and> ss ! (j - i) = Some s \<and> mcs_multicast_addr s = addr"
proof (induction ss arbitrary: i)
  case (Cons x ss)
  show ?case
  proof (cases "\<exists>y. x = Some y \<and> mcs_multicast_addr y = addr")
    case True
    then show ?thesis using Cons.prems by auto
  next
    case False
    then have "find_session (Suc i) addr ss = Some (j, s)" using Cons.prems by (auto split: option.splits if_splits)
    from Cons.IH [OF this] show ?thesis by (auto simp: Suc_diff_le nth_Cons')
  qed
qed simp

lemma find_session_update:
  "find_session i addr ss = Some (j, s) \<Longrightarrow> mcs_multicast_addr s' = addr \<Longrightarrow>
     find_session i addr (ss[j - i := Some s']) = Some (j, s')"
proof (induction ss arbitrary: i)
  case (Cons x ss)
  show ?case
  proof (cases "\<exists>y. x = Some y \<and> mcs_multicast_addr y = addr")
    case True
    then show ?thesis using Cons.prems by auto
  next
    case False
    then have f: "find_session (Suc i) addr ss = Some (j, s)" using Cons.prems(1) by (auto split: option.splits if_splits)
    then have "j - i = Suc (j - Suc i)" using find_session_Some [OF f] by arith
    then show ?thesis using Cons.IH [OF f Cons.prems(2)] False by (auto split: option.splits)
  qed
qed simp

text \<open>The address and the counter of a frame, and whether the session of a group accepts it.\<close>

definition frame_addr :: "bytes \<Rightarrow> bytes" where
  "frame_addr bs = take 4 (drop 1 bs)"

definition frame_counter :: "bytes \<Rightarrow> u32" where
  "frame_counter bs = ucast (wire_fcnt bs)"

definition mc_authentic :: "(bytes \<Rightarrow> 'x crypto_scheme) \<Rightarrow> bytes \<Rightarrow> mc_session \<Rightarrow> bool" where
  "mc_authentic mk bs s \<longleftrightarrow>
     drop (length bs - 4) bs = data_mic (take (length bs - 4) bs) (mk (mcs_net_s_key s)) (frame_counter bs)"

lemma multicast_handle_rx_eq:
  assumes "encrypted_parse bs = Some (Inr w)"
  shows "multicast_handle_rx mk D bs dl m = (case matching_session (frame_addr bs) m of
      None \<Rightarrow> Some (McNoUpdate, dl, bs, m)
    | Some (i, s) \<Rightarrow> if mc_authentic mk bs s \<and> (mcs_fcnt_down s < frame_counter bs \<or> frame_counter bs = 0)
        then multicast_accepted mk D bs dl i s (frame_counter bs) m else Some (McNoUpdate, dl, bs, m))"
proof -
  have w: "dv_bytes w = bs" "view_ok w" using assms by (auto simp: encrypted_parse_iff)
  obtain h where h: "dv_fhdr w = Some h" "fhdr_fcnt h = Some (wire_fcnt bs)" "7 \<le> length (fhdr_bytes h)"
    using wire_fcnt_fhdr [OF w(2)] w(1) by metis
  have "take 4 (fhdr_bytes h) = frame_addr bs"
    using h(1,3) dv_fhdr_ok [OF w(2)] w(1) by (auto simp: frame_addr_def)
  then have a: "fhdr_mc_addr h = Some (frame_addr bs)" using fhdr_fields(2) [OF h(3)] by simp
  have ok: "validate_data_mic w (mk (mcs_net_s_key s)) (frame_counter bs) = Some (mc_authentic mk bs s)" for s
    using validate_data_mic_ok [OF w(2)] by (simp add: w mc_authentic_def)
  show ?thesis
    by (auto simp: multicast_handle_rx_def assms h a ok Let_def simp flip: frame_counter_def split: option.split)
qed

lemma multicast_handle_rx_garbage:
  "encrypted_parse bs = Some (Inl e) \<Longrightarrow> multicast_handle_rx mk D bs dl m = Some (McNoUpdate, dl, bs, m)"
  by (simp add: multicast_handle_rx_def)

text \<open>The data of a decrypted frame, pushed to the queue of the application.\<close>

definition delivered :: "nat \<Rightarrow> data_view \<Rightarrow> downlink list \<Rightarrow> downlink list" where
  "delivered D v dl = (case (dv_f_port v, dv_frm_payload v) of
      (Some (Some fport), Some (FrmData d)) \<Rightarrow> vec_push D dl \<lparr>dl_data = d, dl_fport = fport\<rparr>
    | _ \<Rightarrow> dl)"

lemma multicast_accepted_eq:
  assumes "encrypted_parse bs = Some (Inr w)" "length bs \<le> 260" "cipher_ok mk" "mc_session_ok s"
  obtains v where "length (dv_bytes v) = length bs"
    "\<And>i m dl. multicast_accepted mk D bs dl i s n m =
       (let m' = m\<lparr>mcast_sessions := (mcast_sessions m)[i := Some (s\<lparr>mcs_fcnt_down := n\<rparr>)]\<rparr>
        in Some (if n = mcs_max_fcnt_down s then (McSessionExpired (of_nat i), dl, dv_bytes v, m')
                 else (McDownlinkReceived (of_nat i) n, delivered D v dl, dv_bytes v, m')))"
    "decrypt_in_place bs (Some (mk (mcs_net_s_key s))) (Some (mk (mcs_app_s_key s))) n = Some (Inr v)"
proof -
  have w: "dv_bytes w = bs" "view_ok w" using assms(1) by (auto simp: encrypted_parse_iff)
  have c: "crypto_ok (mk (mcs_net_s_key s))" "crypto_ok (mk (mcs_app_s_key s))"
    using assms(3,4) by (auto simp: mc_session_ok_def intro: cipher_okD)
  obtain v where v: "decrypt_in_place bs (Some (mk (mcs_net_s_key s))) (Some (mk (mcs_app_s_key s))) n = Some (Inr v)"
    "view_ok v" "length (dv_bytes v) = length bs"
    using decrypted [OF w(2) c] w(1) by metis
  obtain port where port: "dv_f_port v = Some port" using dv_f_port_ok [OF v(2)] by auto
  obtain pl where pl: "dv_frm_payload v = Some pl" using dv_frm_payload_ok [OF v(2)] by auto
  have d: "length d \<le> 256" if "pl = FrmData d" for d
    using pl that port v assms(2) layout_ok_bounds [of "dv_bytes v" "dv_layout v"]
    by (auto simp: dv_frm_payload_def view_ok_def bind_eq_Some_conv subslice_eq_Some split: option.splits if_splits)
  have "multicast_accepted mk D bs dl i s n m =
       (let m' = m\<lparr>mcast_sessions := (mcast_sessions m)[i := Some (s\<lparr>mcs_fcnt_down := n\<rparr>)]\<rparr>
        in Some (if n = mcs_max_fcnt_down s then (McSessionExpired (of_nat i), dl, dv_bytes v, m')
                 else (McDownlinkReceived (of_nat i) n, delivered D v dl, dv_bytes v, m')))" for i m dl
    using v(1) port pl d
    by (cases port; cases pl) (simp_all add: multicast_accepted_def delivered_def vec_extend_unwrap_def Let_def)
  with v show thesis by (intro that [of v]) simp_all
qed

lemma matching_session_ok:
  assumes "matching_session a m = Some (i, s)" "multicast_ok m"
  shows "i < MAX_GROUPS" "mc_session_ok s" "mcs_multicast_addr s = a" "mcast_sessions m ! i = Some s"
  using find_session_Some [of 0 a "mcast_sessions m" i s] assms nth_mem [of i "mcast_sessions m"]
  by (auto simp: matching_session_def multicast_ok_def)

lemma find_session_first:
  "find_session k addr ss = Some (k + i, s) \<longleftrightarrow> i < length ss \<and> ss ! i = Some s \<and> mcs_multicast_addr s = addr \<and>
     (\<forall>j < i. \<forall>x. ss ! j = Some x \<longrightarrow> mcs_multicast_addr x \<noteq> addr)"
proof (induction ss arbitrary: k i)
  case (Cons y ss)
  have no: "find_session (Suc k) addr ss \<noteq> Some (k, s)" using find_session_Some [of "Suc k" addr ss k s] by auto
  show ?case
  proof (cases i)
    case 0
    then show ?thesis using no by (auto split: option.split)
  next
    case (Suc n)
    then show ?thesis using Cons.IH [of "Suc k" n] by (auto simp: All_less_Suc2 split: option.split)
  qed
qed simp

text \<open>Group \<open>i\<close> with session \<open>s\<close> has to take the frame: the frame is a data frame, the group is the first that
  has its address, the last four bytes are the MIC of the bytes before them under the group's network key and the frame's
  counter, and that counter is above the one of the group or 0. The maximum counter of the group is not looked at.\<close>

definition mc_takes :: "(bytes \<Rightarrow> 'x crypto_scheme) \<Rightarrow> bytes \<Rightarrow> multicast \<Rightarrow> nat \<Rightarrow> mc_session \<Rightarrow> bool" where
  "mc_takes mk bs m i s \<longleftrightarrow> (\<exists>w. encrypted_parse bs = Some (Inr w)) \<and>
     i < MAX_GROUPS \<and> mcast_sessions m ! i = Some s \<and> mcs_multicast_addr s = frame_addr bs \<and>
     (\<forall>j < i. \<forall>x. mcast_sessions m ! j = Some x \<longrightarrow> mcs_multicast_addr x \<noteq> frame_addr bs) \<and>
     mc_authentic mk bs s \<and> (mcs_fcnt_down s < frame_counter bs \<or> frame_counter bs = 0)"

lemma mc_takes_matching:
  assumes "multicast_ok m"
  shows "mc_takes mk bs m i s \<longleftrightarrow> (\<exists>w. encrypted_parse bs = Some (Inr w)) \<and> matching_session (frame_addr bs) m = Some (i, s) \<and>
    mc_authentic mk bs s \<and> (mcs_fcnt_down s < frame_counter bs \<or> frame_counter bs = 0)"
  using find_session_first [of 0 "frame_addr bs" "mcast_sessions m" i s] assms
  by (auto simp: mc_takes_def matching_session_def multicast_ok_def)

definition mc_stored :: "nat \<Rightarrow> mc_session \<Rightarrow> u32 \<Rightarrow> multicast \<Rightarrow> multicast" where
  "mc_stored i s n m = m\<lparr>mcast_sessions := (mcast_sessions m)[i := Some (s\<lparr>mcs_fcnt_down := n\<rparr>)]\<rparr>"

text \<open>C28. What receiving at most 260 bytes as a multicast frame does, exactly. When a group has to take the frame
  (it is a data frame to the first group with its address, with a valid MIC under the network key of that group and a counter
  above that of the last frame, or 0), the frame is decrypted with the group's keys, its counter becomes the counter of the
  group and nothing else of the state changes; its data is pushed to the queue of the application and
  \<open>DownlinkReceived\<close> reports the group and the counter, unless the counter equals the maximum of the group:
  then the data is dropped and the response is \<open>SessionExpired\<close>. A counter above the maximum is delivered like any
  other. In every other case nothing changes and the response is \<open>NoUpdate\<close>. It always returns.\<close>

theorem multicast_reception:
  assumes "cipher_ok mk" "multicast_ok m" "length bs \<le> 260"
  shows "(\<forall>i s. mc_takes mk bs m i s \<longrightarrow> multicast_ok (mc_stored i s (frame_counter bs) m) \<and>
      (\<exists>v. decrypt_in_place bs (Some (mk (mcs_net_s_key s))) (Some (mk (mcs_app_s_key s))) (frame_counter bs) = Some (Inr v) \<and>
         multicast_handle_rx mk D bs dl m = Some (if frame_counter bs = mcs_max_fcnt_down s
           then (McSessionExpired (of_nat i), dl, dv_bytes v, mc_stored i s (frame_counter bs) m)
           else (McDownlinkReceived (of_nat i) (frame_counter bs), delivered D v dl, dv_bytes v,
                 mc_stored i s (frame_counter bs) m)))) \<and>
    ((\<nexists>i s. mc_takes mk bs m i s) \<longrightarrow> multicast_handle_rx mk D bs dl m = Some (McNoUpdate, dl, bs, m))"
proof (intro conjI allI impI)
  fix i s assume t: "mc_takes mk bs m i s"
  then obtain w where w: "encrypted_parse bs = Some (Inr w)" by (auto simp: mc_takes_def)
  have s: "matching_session (frame_addr bs) m = Some (i, s)" "mc_authentic mk bs s"
    "mcs_fcnt_down s < frame_counter bs \<or> frame_counter bs = 0" using t mc_takes_matching [OF assms(2)] by blast+
  note ok = matching_session_ok [OF s(1) assms(2)]
  show "multicast_ok (mc_stored i s (frame_counter bs) m)" unfolding mc_stored_def
    using ok(2) by (intro multicast_ok_session assms(2)) (simp add: mc_session_ok_def)
  obtain v where v: "multicast_accepted mk D bs dl i s (frame_counter bs) m =
       (let m' = m\<lparr>mcast_sessions := (mcast_sessions m)[i := Some (s\<lparr>mcs_fcnt_down := frame_counter bs\<rparr>)]\<rparr>
        in Some (if frame_counter bs = mcs_max_fcnt_down s then (McSessionExpired (of_nat i), dl, dv_bytes v, m')
                 else (McDownlinkReceived (of_nat i) (frame_counter bs), delivered D v dl, dv_bytes v, m')))"
    "decrypt_in_place bs (Some (mk (mcs_net_s_key s))) (Some (mk (mcs_app_s_key s))) (frame_counter bs) = Some (Inr v)"
    by (rule multicast_accepted_eq [OF w assms(3,1) ok(2), where D = D and n = "frame_counter bs"]) blast
  have "multicast_handle_rx mk D bs dl m = multicast_accepted mk D bs dl i s (frame_counter bs) m"
    using s by (simp add: multicast_handle_rx_eq [OF w])
  then show "\<exists>v. decrypt_in_place bs (Some (mk (mcs_net_s_key s))) (Some (mk (mcs_app_s_key s))) (frame_counter bs) = Some (Inr v) \<and>
         multicast_handle_rx mk D bs dl m = Some (if frame_counter bs = mcs_max_fcnt_down s
           then (McSessionExpired (of_nat i), dl, dv_bytes v, mc_stored i s (frame_counter bs) m)
           else (McDownlinkReceived (of_nat i) (frame_counter bs), delivered D v dl, dv_bytes v,
                 mc_stored i s (frame_counter bs) m))" using v by (auto simp: mc_stored_def Let_def)
next
  assume none: "\<nexists>i s. mc_takes mk bs m i s"
  obtain r where r: "encrypted_parse bs = Some r" using encrypted_parse_total [of bs] by auto
  show "multicast_handle_rx mk D bs dl m = Some (McNoUpdate, dl, bs, m)"
  proof (cases r)
    case (Inl e)
    then show ?thesis using r by (simp add: multicast_handle_rx_garbage)
  next
    case (Inr w)
    then show ?thesis using none mc_takes_matching [OF assms(2), of mk bs] r
      by (auto simp: multicast_handle_rx_eq split: option.split)
  qed
qed

section \<open>Counters\<close>

text \<open>A frame with counter 0 that a group accepted once is accepted again, and its data is delivered again, as often
  as it is replayed: the state after it is the state before the next time.\<close>

theorem multicast_zero_replayed:
  assumes "cipher_ok mk" "multicast_ok m" "length bs \<le> 260"
    and "multicast_handle_rx mk D bs dl m = Some (McDownlinkReceived g 0, dl', bs', m')"
  shows "\<exists>v. dl' = delivered D v dl \<and>
     (\<forall>dl1. multicast_handle_rx mk D bs dl1 m' = Some (McDownlinkReceived g 0, delivered D v dl1, bs', m'))"
proof -
  obtain w where w: "encrypted_parse bs = Some (Inr w)"
  proof -
    obtain r where r: "encrypted_parse bs = Some r" using encrypted_parse_total [of bs] by auto
    then show thesis using that assms(4) by (cases r) (auto simp: multicast_handle_rx_garbage)
  qed
  note eq = multicast_handle_rx_eq [OF w]
  obtain i s where s: "matching_session (frame_addr bs) m = Some (i, s)" "mc_authentic mk bs s"
    and acc: "multicast_accepted mk D bs dl i s (frame_counter bs) m = Some (McDownlinkReceived g 0, dl', bs', m')"
    using assms(4) eq [of mk D dl m] by (auto split: option.splits if_splits)
  note ok = matching_session_ok [OF s(1) assms(2)]
  obtain v where v: "\<And>j m dl. multicast_accepted mk D bs dl j s (frame_counter bs) m =
       (let m' = m\<lparr>mcast_sessions := (mcast_sessions m)[j := Some (s\<lparr>mcs_fcnt_down := frame_counter bs\<rparr>)]\<rparr>
        in Some (if frame_counter bs = mcs_max_fcnt_down s then (McSessionExpired (of_nat j), dl, dv_bytes v, m')
                 else (McDownlinkReceived (of_nat j) (frame_counter bs), delivered D v dl, dv_bytes v, m')))"
      "decrypt_in_place bs (Some (mk (mcs_net_s_key s))) (Some (mk (mcs_app_s_key s))) (frame_counter bs) = Some (Inr v)"
    by (rule multicast_accepted_eq [OF w assms(3,1) ok(2), where D = D and n = "frame_counter bs"]) blast
  have z: "frame_counter bs = 0" "g = of_nat i" "dl' = delivered D v dl" "bs' = dv_bytes v" "mcs_max_fcnt_down s \<noteq> 0"
    and m': "m' = m\<lparr>mcast_sessions := (mcast_sessions m)[i := Some (s\<lparr>mcs_fcnt_down := 0\<rparr>)]\<rparr>"
    using acc by (auto simp: v Let_def split: if_splits)
  define s' where "s' = s\<lparr>mcs_fcnt_down := 0\<rparr>"
  have s': "matching_session (frame_addr bs) m' = Some (i, s')"
    using find_session_update [of 0 "frame_addr bs" "mcast_sessions m" i s s'] s(1) ok(3)
    by (simp add: matching_session_def m' s'_def)
  have same: "m'\<lparr>mcast_sessions := (mcast_sessions m')[i := Some s']\<rparr> = m'" by (simp add: m' s'_def)
  have "multicast_accepted mk D bs dl1 i s' 0 m' = Some (McDownlinkReceived g 0, delivered D v dl1, bs', m')" for dl1
  proof -
    have "multicast_accepted mk D bs dl1 i s' 0 m' = multicast_accepted mk D bs dl1 i s 0 m'"
      by (simp add: multicast_accepted_def s'_def)
    then show ?thesis using v(1) [of dl1 i m'] z same by (simp add: Let_def s'_def)
  qed
  moreover have "mc_authentic mk bs s'" using s(2) by (simp add: mc_authentic_def s'_def)
  ultimately have "multicast_handle_rx mk D bs dl1 m' = Some (McDownlinkReceived g 0, delivered D v dl1, bs', m')" for dl1
    by (simp add: eq s' z(1))
  then show ?thesis using z(3) by blast
qed

section \<open>Remote setup\<close>

definition setup_cmds :: "bytes \<Rightarrow> downlink_setup_cmd list" where
  "setup_cmds data = (case mc_items downlink_setup_parse_one (mc_new data) of
      None \<Rightarrow> [] | Some xs \<Rightarrow> List.map_filter result_ok xs)"

fun setup_all ::
  "(bytes \<Rightarrow> 'x crypto_scheme) \<Rightarrow> bytes \<Rightarrow> downlink_setup_cmd list \<Rightarrow> u8 option \<Rightarrow> multicast \<Rightarrow> (u8 option \<times> multicast) run" where
  "setup_all mk key [] new_session m = Some (new_session, m)"
| "setup_all mk key (c # cs) new_session m = do {
     (new_session', m') \<leftarrow> setup_message mk key c new_session m;
     setup_all mk key cs new_session' m'}"

lemma setup_loop_all:
  "\<forall>x \<in> set (butlast xs). \<exists>c. x = Inr c \<Longrightarrow>
     setup_loop mk key xs new m = setup_all mk key (List.map_filter result_ok xs) new m"
proof (induction xs arbitrary: new m)
  case (Cons x xs)
  show ?case
  proof (cases x)
    case (Inl e)
    then have "xs = []" using Cons.prems by (cases xs) auto
    then show ?thesis using Inl by (simp add: map_filter_simps)
  next
    case (Inr c)
    have "\<forall>x \<in> set (butlast xs). \<exists>c. x = Inr c" using Cons.prems by (cases xs) auto
    then have ih: "setup_loop mk key xs n k = setup_all mk key (List.map_filter result_ok xs) n k" for n k
      by (rule Cons.IH)
    show ?thesis by (cases "setup_message mk key c new m") (auto simp: Inr map_filter_simps ih)
  qed
qed (simp add: map_filter_simps)

lemma handle_setup_message_eq:
  "mcast_ke_key m = Some key \<Longrightarrow> handle_setup_message mk data m = do {
     (new, m') \<leftarrow> setup_all mk key (setup_cmds data) None m;
     Some (if mcast_pending m' = [] then McNoUpdate
       else (case new of Some g \<Rightarrow> McGroupSetupTransmitRequest g | None \<Rightarrow> McTransmitRequest), m')}"
  using downlink_setup.items_total [of data]
  by (auto simp: handle_setup_message_def setup_cmds_def setup_loop_all)

lemma setup_cmds_valid: "c \<in> set (setup_cmds data) \<Longrightarrow> length (downlink_setup_bytes c) = downlink_setup_len c"
  by (cases "mc_items downlink_setup_parse_one (mc_new data)")
     (auto simp: setup_cmds_def map_filter_result_ok map_filter_simps dest: downlink_setup.items_valid)

lemma derive_session_ok:
  assumes "cipher_ok mk" "length key = 16" "length p = 29"
  obtains g s where "derive_session mk (mk key) p = Some (g, s)" "g < 4" "mc_session_ok s"
    "mcs_multicast_addr s = take 4 (drop 1 p)" "min_mc_fcount p = Some (mcs_fcnt_down s)"
proof -
  note eq = derive_session_eq [OF assms(3), of mk "mk key"]
  have k: "length (encrypt_block (mk key) (take 16 (drop 5 p))) = 16"
    using crypto_okD(1) [OF cipher_okD [OF assms(1,2)]] assms(3) by simp
  have s: "length (mc_session_key (mk (encrypt_block (mk key) (take 16 (drop 5 p)))) f (take 4 (drop 1 p))) = 16" for f
    using crypto_okD(1) [OF cipher_okD [OF assms(1) k]] assms(3) by (simp add: mc_session_key_def)
  have "unat (p ! 0 AND 0b11) < 4" using unat_and_mask [of "p ! 0" 2] by (simp add: mask_eq_exp_minus_1)
  then have "p ! 0 AND 0b11 < 4" by (simp add: word_less_nat_alt)
  then show thesis using s assms(3) by (intro that [OF eq]) (simp_all add: mc_session_ok_def min_mc_fcount_def)
qed

text \<open>An upper bound of the answer to each message.\<close>

fun answer_bound :: "downlink_setup_cmd \<Rightarrow> nat" where
  "answer_bound PackageVersionReq = 3"
| "answer_bound (McGroupStatusReq _) = 22"
| "answer_bound (McGroupSetupReq _) = 2"
| "answer_bound (McGroupDeleteReq _) = 2"
| "answer_bound (McClassCSessionReq _) = 0"
| "answer_bound (McClassBSessionReq _) = 0"

text \<open>What a message keeps: the invariant, the ports and the key.\<close>

definition setup_keeps :: "multicast \<Rightarrow> multicast \<Rightarrow> bool" where
  "setup_keeps m m' \<longleftrightarrow> multicast_ok m' \<and> mcast_ke_key m' = mcast_ke_key m \<and> mcast_range m' = mcast_range m \<and>
     mcast_setup_port m' = mcast_setup_port m"

lemma setup_keeps_trans: "setup_keeps a b \<Longrightarrow> setup_keeps b c \<Longrightarrow> setup_keeps a c"
  by (simp add: setup_keeps_def)

lemma mc_queue_Some:
  assumes "multicast_ok m" "length (mcast_pending m) + length ans \<le> 256"
  obtains m' where "mc_queue ans m = Some m'" "m' = m\<lparr>mcast_pending := mcast_pending m @ ans\<rparr>" "multicast_ok m'"
  using assms by (intro that) (auto simp: mc_queue_def vec_extend_unwrap_def multicast_ok_def)

lemma map_fst_active:
  "map fst (List.map_filter (\<lambda>(i, s). map_option (Pair i) s) zs) = map fst (filter (\<lambda>(i, s). s \<noteq> None) zs)"
  by (induction zs) (auto simp: map_filter_simps split: option.split)

lemma active_groups_iff:
  "(i, s) \<in> set (active_groups m) \<longleftrightarrow> i < length (mcast_sessions m) \<and> mcast_sessions m ! i = Some s"
proof -
  have "(i, s) \<in> set (List.map_filter (\<lambda>(i, s). map_option (Pair i) s) zs) \<longleftrightarrow> (i, Some s) \<in> set zs"
    for zs :: "(nat \<times> mc_session option) list"
    by (induction zs) (auto simp: map_filter_simps split: option.split)
  then show ?thesis by (simp add: active_groups_def in_set_enumerate_eq)
qed

lemma distinct_active_groups: "distinct (map fst (active_groups m))"
  unfolding active_groups_def map_fst_active by (intro distinct_map_filter) simp

lemma requested_groups_ok:
  assumes "multicast_ok m"
  shows "groups_ok (requested_groups bm m)"
proof -
  let ?f = "filter (\<lambda>(i, _). bm AND push_bit i 1 \<noteq> 0) (active_groups m)"
  have lt: "fst x < 4" if "x \<in> set (active_groups m)" for x
    using that assms active_groups_iff [of "fst x" "snd x" m] by (simp add: multicast_ok_def)
  have addr: "length (mcs_multicast_addr (snd x)) = 4" if "x \<in> set (active_groups m)" for x
    using that assms active_groups_iff [of "fst x" "snd x" m] nth_mem [of "fst x" "mcast_sessions m"]
    by (auto simp: multicast_ok_def mc_session_ok_def)
  have small: "unat (of_nat n :: u8) = n" if "n < 4" for n using that by (simp add: unat_of_nat)
  have d: "distinct (map fst ?f)" using distinct_active_groups [of m] by (rule distinct_map_filter)
  have "map fst (requested_groups bm m) = map of_nat (map fst ?f)"
    by (auto simp: requested_groups_def case_prod_beta)
  moreover have "distinct (map (of_nat :: nat \<Rightarrow> u8) (map fst ?f))"
  proof -
    have "inj_on (of_nat :: nat \<Rightarrow> u8) (set (map fst ?f))"
      using small lt by (intro inj_on_inverseI [where g = unat]) auto
    with d show ?thesis by (subst distinct_map) blast
  qed
  moreover have "g < 4 \<and> length a = 4" if "(g, a) \<in> set (requested_groups bm m)" for g a
    using that lt addr small by (force simp: requested_groups_def word_less_nat_alt)
  ultimately show ?thesis by (auto simp: groups_ok_def)
qed

lemma setup_message_outcome:
  assumes "cipher_ok mk" "multicast_ok m" "length key = 16" "length (downlink_setup_bytes c) = downlink_setup_len c"
    and "length (mcast_pending m) + answer_bound c \<le> 256"
  obtains new' m' where "setup_message mk key c new m = Some (new', m')" "setup_keeps m m'"
    "length (mcast_pending m') \<le> length (mcast_pending m) + answer_bound c"
proof -
  have len: "length (mcast_sessions m) = 4" using assms(2) by (simp add: multicast_ok_def)
  have queue: "\<exists>m'. mc_queue ans k = Some m' \<and> setup_keeps m m' \<and> length (mcast_pending m') \<le> length (mcast_pending m) + n"
    if "multicast_ok k" "setup_keeps m k" "mcast_pending k = mcast_pending m" "length ans \<le> n"
      "length (mcast_pending m) + n \<le> 256" for ans k n
  proof -
    have "length (mcast_pending k) + length ans \<le> 256" using that by simp
    from mc_queue_Some [OF that(1) this] obtain m' where "mc_queue ans k = Some m'"
      "m' = k\<lparr>mcast_pending := mcast_pending k @ ans\<rparr>" "multicast_ok m'" .
    then show ?thesis using that by (auto simp: setup_keeps_def)
  qed
  have refl: "setup_keeps m m" using assms(2) by (simp add: setup_keeps_def)
  show thesis
  proof (cases c)
    case PackageVersionReq
    have "length package_version_answer = 3"
      by (simp add: package_version_answer_def package_version_ans_set_package_version_def
          package_version_ans_set_package_identifier_def creator_new_def)
    with queue [OF assms(2) refl, of package_version_answer 3] assms(5) show thesis
      by (auto simp: PackageVersionReq setup_message_def intro: that)
  next
    case (McGroupStatusReq p)
    define bm where "bm = p ! 0 AND 0b1111"
    have bm: "mc_group_status_req_mask p = Some bm" using assms(4) by (simp add: McGroupStatusReq mc_group_status_req_mask_def bm_def)
    define n :: u8 where "n = of_nat (length (active_groups m))"
    have ok: "groups_ok (requested_groups bm m)" using assms(2) by (rule requested_groups_ok)
    obtain k where k: "push_groups (requested_groups bm m) group_status_creator_new = Some k"
      "group_status_creator_build (group_status_creator_nb_total_groups n k) =
         Some (0x01 # status_byte n (requested_groups bm m) # status_list (requested_groups bm m))"
      by (rule status_creator_build [OF ok])
    have "\<forall>(g, a) \<in> set (requested_groups bm m). length a = 4" using ok by (auto simp: groups_ok_def)
    then have "length (0x01 # status_byte n (requested_groups bm m) # status_list (requested_groups bm m)) \<le> 22"
      using length_status_list [of "requested_groups bm m"] groups_ok_length [OF ok] by simp
    with queue [OF assms(2) refl, of "0x01 # status_byte n (requested_groups bm m) # status_list (requested_groups bm m)" 22]
      assms(5) show thesis
      by (auto simp: McGroupStatusReq setup_message_def group_status_answer_def bm k simp flip: n_def intro: that)
  next
    case (McGroupSetupReq p)
    then have "length p = 29" using assms(4) by simp
    then obtain g s where g: "derive_session mk (mk key) p = Some (g, s)" "g < 4" "mc_session_ok s"
      by (rule derive_session_ok [OF assms(1,3)])
    let ?m = "m\<lparr>mcast_sessions := (mcast_sessions m)[unat g := Some s]\<rparr>"
    have m: "multicast_ok ?m" using assms(2) g(3) by (rule multicast_ok_session)
    then have "setup_keeps m ?m" by (simp add: setup_keeps_def)
    from queue [OF m this, of "mc_group_setup_ans_set_id g (creator_new 0x02 1)" 2] assms(5) g len show thesis
      by (auto simp: McGroupSetupReq setup_message_def group_setup_answer_def mc_group_setup_ans_set_id_def
          creator_new_simps word_less_nat_alt intro: that)
  next
    case (McGroupDeleteReq p)
    define g where "g = p ! 0 AND 0b11"
    have g: "mc_group_delete_req_id p = Some g" using assms(4) by (simp add: McGroupDeleteReq mc_group_delete_req_id_def g_def)
    have "unat g < 4" using unat_and_mask [of "p ! 0" 2] by (simp add: g_def mask_eq_exp_minus_1)
    then have i: "idx (mcast_sessions m) (unat g) = Some (mcast_sessions m ! unat g)" using len by simp
    let ?m = "m\<lparr>mcast_sessions := (mcast_sessions m)[unat g := None]\<rparr>"
    have m: "multicast_ok ?m"
      using assms(2) set_update_subset_insert [of "mcast_sessions m" "unat g" None] by (auto simp: multicast_ok_def)
    then have "setup_keeps m ?m" by (simp add: setup_keeps_def)
    from queue [OF m this, of "mc_group_delete_ans_set_id g (creator_new 0x03 1)" 2]
      queue [OF assms(2) refl, of "mc_group_delete_ans_set_undefined True (creator_new 0x03 1)" 2] assms(5)
    show thesis
      by (cases "mcast_sessions m ! unat g = None") (auto simp: McGroupDeleteReq setup_message_def group_delete_answer_def g i Let_def mc_group_delete_ans_set_id_def
          mc_group_delete_ans_set_undefined_def creator_new_simps intro: that)
  qed (use that refl in \<open>simp_all add: setup_message_def\<close>)
qed

lemma setup_all_outcome:
  assumes "cipher_ok mk" "length key = 16" "\<forall>c \<in> set cs. length (downlink_setup_bytes c) = downlink_setup_len c"
    and "multicast_ok m" "length (mcast_pending m) + sum_list (map answer_bound cs) \<le> 256"
  shows "\<exists>new' m'. setup_all mk key cs new m = Some (new', m') \<and> setup_keeps m m'"
  using assms(3-5)
proof (induction cs arbitrary: new m)
  case Nil
  then show ?case by (simp add: setup_keeps_def)
next
  case (Cons c cs)
  obtain new1 m1 where m1: "setup_message mk key c new m = Some (new1, m1)" "setup_keeps m m1"
    "length (mcast_pending m1) \<le> length (mcast_pending m) + answer_bound c"
    using Cons.prems by (elim setup_message_outcome [OF assms(1) Cons.prems(2) assms(2), of c new, rotated 2]) auto
  obtain new' m' where "setup_all mk key cs new1 m1 = Some (new', m')" "setup_keeps m1 m'"
    using Cons.IH [of m1 new1] Cons.prems m1 by (auto simp: setup_keeps_def)
  then show ?case using m1 setup_keeps_trans by auto
qed

text \<open>A message of remote setup whose answers fit into the queue is handled: the call returns, keeps the invariant, the
  ports and the key, and asks for a transmission exactly when there is something to send.\<close>

theorem setup_messages_handled:
  assumes "cipher_ok mk" "multicast_ok m"
    and "length (mcast_pending m) + sum_list (map answer_bound (setup_cmds data)) \<le> 256"
  shows "\<exists>resp m'. handle_setup_message mk data m = Some (resp, m') \<and> setup_keeps m m' \<and>
     (if mcast_ke_key m = None then resp = McNoUpdate \<and> m' = m
      else is_transmit_request resp \<longleftrightarrow> mcast_pending m' \<noteq> [])"
proof (cases "mcast_ke_key m")
  case None
  then show ?thesis using assms(2) by (simp add: handle_setup_message_def setup_keeps_def)
next
  case (Some key)
  then have "length key = 16" using assms(2) by (simp add: multicast_ok_def)
  then obtain new' m' where "setup_all mk key (setup_cmds data) None m = Some (new', m')" "setup_keeps m m'"
    using setup_all_outcome [OF assms(1) _ _ assms(2,3), of key None] setup_cmds_valid by blast
  then show ?thesis using Some
    by (cases new') (simp_all add: handle_setup_message_eq is_transmit_request_def)
qed

text \<open>The answers have no other bound: a message of \<open>n\<close> bytes 0, that is of \<open>n\<close> version requests, panics exactly when three
  bytes for each no longer fit into the queue, as with 86 requests in one frame.\<close>

lemma setup_cmds_versions: "setup_cmds (replicate n 0) = replicate n PackageVersionReq"
proof -
  have "encode_cmds downlink_setup_cid downlink_setup_bytes (replicate n PackageVersionReq) = replicate n 0"
    by (induction n) (simp_all add: encode_cmds_def)
  moreover have "mc_items downlink_setup_parse_one
      (mc_new (encode_cmds downlink_setup_cid downlink_setup_bytes (replicate n PackageVersionReq))) =
      Some (map Inr (replicate n PackageVersionReq))"
    by (rule downlink_setup.items_encode) simp
  moreover have "List.map_filter result_ok (map Inr cs) = cs" for cs :: "downlink_setup_cmd list"
    by (induction cs) (simp_all add: map_filter_simps)
  ultimately show ?thesis by (simp add: setup_cmds_def del: map_replicate)
qed

lemma setup_all_versions:
  "setup_all mk key (replicate n PackageVersionReq) new m = (if length (mcast_pending m) + 3 * n \<le> 256 \<or> n = 0
     then Some (new, m\<lparr>mcast_pending := mcast_pending m @ concat (replicate n package_version_answer)\<rparr>) else None)"
proof (induction n arbitrary: m)
  case (Suc n)
  have l: "length package_version_answer = 3"
    by (simp add: package_version_answer_def package_version_ans_set_package_version_def
        package_version_ans_set_package_identifier_def creator_new_def)
  show ?case using Suc
    by (auto simp: setup_message_def mc_queue_def vec_extend_unwrap_def l)
qed simp

theorem setup_queue_overflow:
  assumes "mcast_ke_key m \<noteq> None"
  shows "handle_setup_message mk (replicate n 0) m = None \<longleftrightarrow> n \<noteq> 0 \<and> 256 < length (mcast_pending m) + 3 * n"
  using assms by (auto simp: handle_setup_message_eq setup_cmds_versions setup_all_versions split: if_splits)

lemma setup_queue_overflow_witness:
  "handle_setup_message (\<lambda>k. xor_crypto (k ! 0)) (replicate 86 0)
     (multicast_new\<lparr>mcast_ke_key := Some (replicate 16 1)\<rparr>) = None"
  using setup_queue_overflow [of "multicast_new\<lparr>mcast_ke_key := Some (replicate 16 1)\<rparr>" "\<lambda>k. xor_crypto (k ! 0)" 86]
  by (simp add: multicast_new_def)

lemma setup_messages_handled_witness:
  "\<exists>resp m'. handle_setup_message (\<lambda>k. xor_crypto (k ! 0)) [0, 0]
     (multicast_new\<lparr>mcast_ke_key := Some (replicate 16 1)\<rparr>) = Some (resp, m') \<and> multicast_ok m'"
proof -
  have "cipher_ok (\<lambda>k. xor_crypto (k ! 0))" by (simp add: cipher_ok_def)
  moreover have "multicast_ok (multicast_new\<lparr>mcast_ke_key := Some (replicate 16 1)\<rparr>)"
    by (simp add: multicast_ok_def multicast_new_def)
  moreover have "setup_cmds [0, 0] = [PackageVersionReq, PackageVersionReq]"
    using setup_cmds_versions [of 2] by (simp add: numeral_2_eq_2)
  ultimately show ?thesis
    using setup_messages_handled [of "\<lambda>k. xor_crypto (k ! 0)" "multicast_new\<lparr>mcast_ke_key := Some (replicate 16 1)\<rparr>" "[0, 0]"]
    by (auto simp: setup_keeps_def multicast_new_def)
qed

section \<open>The first frame of a group\<close>

lemma find_session_unique:
  assumes "i < length ss" "ss ! i = Some s" "mcs_multicast_addr s = addr"
    and "\<And>j x. j < length ss \<Longrightarrow> j \<noteq> i \<Longrightarrow> ss ! j = Some x \<Longrightarrow> mcs_multicast_addr x \<noteq> addr"
  shows "find_session k addr ss = Some (k + i, s)"
  using assms
proof (induction ss arbitrary: i k)
  case (Cons y ss)
  show ?case
  proof (cases i)
    case 0
    then show ?thesis using Cons.prems by simp
  next
    case (Suc n)
    have "find_session (Suc k) addr ss = Some (Suc k + n, s)"
    proof (rule Cons.IH)
      show "mcs_multicast_addr x \<noteq> addr" if "j < length ss" "j \<noteq> n" "ss ! j = Some x" for j x
        using Cons.prems(4) [of "Suc j" x] that Suc by simp
    qed (use Cons.prems Suc in simp_all)
    moreover have "y = Some x \<Longrightarrow> mcs_multicast_addr x \<noteq> addr" for x using Cons.prems(4) [of 0 x] Suc by simp
    ultimately show ?thesis using Suc by (auto split: option.split)
  qed
qed simp

lemma setup_cmds_single: "length p = 29 \<Longrightarrow> setup_cmds (0x02 # p) = [McGroupSetupReq p]"
  using downlink_setup.items_encode [of "[McGroupSetupReq p]"]
  by (simp add: encode_cmds_def setup_cmds_def map_filter_simps)

text \<open>The network sets up a group with \<open>minMcFCount\<close> \<open>lo\<close>, documented as the counter of the next frame it will send. The
  device then refuses the frame with that counter, and every frame with a smaller one other than 0; as frames
  carry 16 bits of the counter and the device does not extend them, a group with \<open>lo\<close> from 65535 on never
  receives anything but counter 0.\<close>

theorem multicast_first_frame_refused:
  assumes "cipher_ok mk" "multicast_ok m" "mcast_ke_key m = Some key" "length p = 29"
    and "handle_setup_message mk (0x02 # p) m = Some (resp, m')"
    and "\<forall>j < MAX_GROUPS. \<forall>s. j \<noteq> unat (p ! 0 AND 0b11) \<longrightarrow> mcast_sessions m ! j = Some s \<longrightarrow>
           mcs_multicast_addr s \<noteq> frame_addr bs"
    and "frame_addr bs = take 4 (drop 1 p)" "min_mc_fcount p = Some lo"
    and "frame_counter bs \<le> lo" "frame_counter bs \<noteq> 0"
  shows "multicast_handle_rx mk D bs dl m' = Some (McNoUpdate, dl, bs, m')"
proof -
  have key: "length key = 16" using assms(2,3) by (simp add: multicast_ok_def)
  obtain g s where d: "derive_session mk (mk key) p = Some (g, s)" "g < 4" "mc_session_ok s"
    "mcs_multicast_addr s = take 4 (drop 1 p)" "min_mc_fcount p = Some (mcs_fcnt_down s)"
    by (rule derive_session_ok [OF assms(1) key assms(4)])
  have g: "g = p ! 0 AND 0b11" using d(1) derive_session_eq [OF assms(4), of mk "mk key"] by simp
  have len: "length (mcast_sessions m) = 4" using assms(2) by (simp add: multicast_ok_def)
  have "mcast_sessions m' = (mcast_sessions m)[unat g := Some s]"
    using assms(5) d(1,2) len
    by (auto simp: handle_setup_message_eq [OF assms(3)] setup_cmds_single [OF assms(4)] setup_message_def
        group_setup_answer_def mc_queue_def bind_eq_Some_conv set_idx_eq_Some)
  then have "matching_session (frame_addr bs) m' = Some (0 + unat g, s)"
    unfolding matching_session_def
    using assms(6,7) d len g by (intro find_session_unique) (auto simp: word_less_nat_alt nth_list_update)
  moreover have "\<not> (mcs_fcnt_down s < frame_counter bs \<or> frame_counter bs = 0)" using assms(8-10) d(5) by auto
  moreover obtain r where r: "encrypted_parse bs = Some r" using encrypted_parse_total [of bs] by auto
  ultimately show ?thesis by (cases r) (auto simp: multicast_handle_rx_garbage multicast_handle_rx_eq)
qed

section \<open>Examples\<close>

text \<open>A group with address 1.2.3.4, and a frame for it with counter 0.\<close>

definition example_multicast :: multicast where
  "example_multicast = multicast_new\<lparr>mcast_ke_key := Some (replicate 16 1), mcast_sessions := [Some
     \<lparr>mcs_multicast_addr = [1, 2, 3, 4], mcs_net_s_key = replicate 16 1, mcs_app_s_key = replicate 16 2,
      mcs_fcnt_down = 5, mcs_max_fcnt_down = 100\<rparr>, None, None, None]\<rparr>"

definition example_mc_frame :: bytes where
  "example_mc_frame = [0x60, 1, 2, 3, 4, 0, 0, 0, 201, 7, 7, 201, 0, 0]"

lemma example_multicast_ok: "multicast_ok example_multicast" "cipher_ok (\<lambda>k. xor_crypto (k ! 0))"
  by (auto simp: multicast_ok_def example_multicast_def multicast_new_def mc_session_ok_def cipher_ok_def)

lemma example_mc_parse:
  "encrypted_parse example_mc_frame = Some (Inr \<lparr>dv_bytes = example_mc_frame, dv_layout =
      \<lparr>lay_frame_type = UnconfirmedDown, lay_fhdr_len = 7, lay_f_port_offset = Some 8, lay_frm_start = 9, lay_frm_end = 10\<rparr>\<rparr>)"
  by (simp add: encrypted_parse_iff view_ok_def layout_ok_def example_mc_frame_def from_mhdr_def)

lemma example_mc_accepted:
  obtains v m' where "length (dv_bytes v) = 14" "\<And>dl. multicast_handle_rx (\<lambda>k. xor_crypto (k ! 0)) 4 example_mc_frame dl
     example_multicast = Some (McDownlinkReceived 0 0, delivered 4 v dl, dv_bytes v, m')"
proof -
  note w = example_mc_parse
  have c: "frame_counter example_mc_frame = 0" by (simp add: frame_counter_def wire_fcnt_def example_mc_frame_def)
  define s where "s = \<lparr>mcs_multicast_addr = [1, 2, 3, 4], mcs_net_s_key = replicate 16 1, mcs_app_s_key = replicate 16 2,
      mcs_fcnt_down = 5, mcs_max_fcnt_down = 100\<rparr>"
  have m: "matching_session (frame_addr example_mc_frame) example_multicast = Some (0, s)"
    by (simp add: matching_session_def frame_addr_def example_mc_frame_def example_multicast_def s_def)
  have a: "mc_authentic (\<lambda>k. xor_crypto (k ! 0)) example_mc_frame s"
    by (simp add: mc_authentic_def c data_mic_def xor_crypto_def) (simp add: example_mc_frame_def)
  have l: "length example_mc_frame \<le> 260" by (simp add: example_mc_frame_def)
  have ok: "mc_session_ok s" by (simp add: mc_session_ok_def s_def)
  obtain v where v: "length (dv_bytes v) = length example_mc_frame"
    "\<And>i m dl. multicast_accepted (\<lambda>k. xor_crypto (k ! 0)) 4 example_mc_frame dl i s 0 m =
       (let m' = m\<lparr>mcast_sessions := (mcast_sessions m)[i := Some (s\<lparr>mcs_fcnt_down := 0\<rparr>)]\<rparr>
        in Some (if 0 = mcs_max_fcnt_down s then (McSessionExpired (of_nat i), dl, dv_bytes v, m')
                 else (McDownlinkReceived (of_nat i) 0, delivered 4 v dl, dv_bytes v, m')))"
    by (rule multicast_accepted_eq [OF w l example_multicast_ok(2) ok, where D = 4 and n = 0]) blast
  have "multicast_handle_rx (\<lambda>k. xor_crypto (k ! 0)) 4 example_mc_frame dl example_multicast =
      multicast_accepted (\<lambda>k. xor_crypto (k ! 0)) 4 example_mc_frame dl 0 s 0 example_multicast" for dl
    using a by (simp add: multicast_handle_rx_eq [OF w] m c)
  moreover have "mcs_max_fcnt_down s \<noteq> 0" "length example_mc_frame = 14" by (simp_all add: s_def example_mc_frame_def)
  ultimately show thesis using v by (intro that [of v]) (simp_all add: Let_def)
qed

lemma multicast_reception_witness:
  "\<exists>s v. mc_takes (\<lambda>k. xor_crypto (k ! 0)) example_mc_frame example_multicast 0 s \<and>
     multicast_handle_rx (\<lambda>k. xor_crypto (k ! 0)) 4 example_mc_frame [] example_multicast =
       Some (McDownlinkReceived 0 0, delivered 4 v [], dv_bytes v, mc_stored 0 s 0 example_multicast)"
proof -
  let ?mk = "\<lambda>k :: bytes. xor_crypto (k ! 0)"
  have l: "length example_mc_frame \<le> 260" by (simp add: example_mc_frame_def)
  have c: "frame_counter example_mc_frame = 0" by (simp add: frame_counter_def wire_fcnt_def example_mc_frame_def)
  obtain dl' bs' m' where r: "multicast_handle_rx ?mk 4 example_mc_frame [] example_multicast =
     Some (McDownlinkReceived 0 0, dl', bs', m')" by (rule example_mc_accepted) blast
  note t = multicast_reception [OF example_multicast_ok(2,1) l, of 4 "[]"]
  obtain i s where s: "mc_takes ?mk example_mc_frame example_multicast i s" using t r by force
  have "i = 0" "mcs_max_fcnt_down s = 100"
    using s by (auto simp: mc_takes_def example_multicast_def frame_addr_def example_mc_frame_def nth_Cons' split: if_splits)
  then show ?thesis using t s c by fastforce
qed

lemma multicast_zero_replayed_witness:
  "\<exists>m' v bs'. \<forall>dl. multicast_handle_rx (\<lambda>k. xor_crypto (k ! 0)) 4 example_mc_frame dl m' =
     Some (McDownlinkReceived 0 0, delivered 4 v dl, bs', m')"
proof -
  obtain dl' bs' m' where r: "multicast_handle_rx (\<lambda>k. xor_crypto (k ! 0)) 4 example_mc_frame [] example_multicast =
     Some (McDownlinkReceived 0 0, dl', bs', m')" by (rule example_mc_accepted) blast
  have "length example_mc_frame \<le> 260" by (simp add: example_mc_frame_def)
  from multicast_zero_replayed [OF example_multicast_ok(2,1) this r] show ?thesis by blast
qed

definition example_setup :: bytes where
  "example_setup = [1, 9, 9, 9, 9] @ replicate 16 0 @ [8, 0, 0, 0, 100, 0, 0, 0]"

lemma multicast_first_frame_refused_witness:
  "\<exists>resp m'. handle_setup_message (\<lambda>k. xor_crypto (k ! 0)) (0x02 # example_setup) example_multicast = Some (resp, m') \<and>
     multicast_handle_rx (\<lambda>k. xor_crypto (k ! 0)) 4 [0x60, 9, 9, 9, 9, 0, 8, 0, 201, 7, 7, 201, 0, 8] [] m' =
       Some (McNoUpdate, [], [0x60, 9, 9, 9, 9, 0, 8, 0, 201, 7, 7, 201, 0, 8], m')"
proof -
  let ?mk = "\<lambda>k :: bytes. xor_crypto (k ! 0)" and ?bs = "[0x60, 9, 9, 9, 9, 0, 8, 0, 201, 7, 7, 201, 0, 8] :: bytes"
  have p: "length example_setup = 29" by (simp add: example_setup_def)
  have k: "mcast_ke_key example_multicast = Some (replicate 16 1)" by (simp add: example_multicast_def)
  have "\<exists>new' m'. setup_all ?mk (replicate 16 1) [McGroupSetupReq example_setup] None example_multicast = Some (new', m') \<and>
      setup_keeps example_multicast m'"
    by (rule setup_all_outcome [OF example_multicast_ok(2) _ _ example_multicast_ok(1)])
       (simp_all add: p example_multicast_def multicast_new_def)
  then obtain resp m' where h: "handle_setup_message ?mk (0x02 # example_setup) example_multicast = Some (resp, m')"
    by (auto simp: handle_setup_message_eq [OF k] setup_cmds_single [OF p] simp del: setup_all.simps)
  have "multicast_handle_rx ?mk 4 ?bs [] m' = Some (McNoUpdate, [], ?bs, m')"
  proof (rule multicast_first_frame_refused [OF example_multicast_ok(2,1) k p h])
    show "min_mc_fcount example_setup = Some 8" by (simp add: min_mc_fcount_def example_setup_def subslice_def)
    show "frame_counter ?bs \<le> 8" "frame_counter ?bs \<noteq> 0" by (simp_all add: frame_counter_def wire_fcnt_def)
    show "frame_addr ?bs = take 4 (drop 1 example_setup)" by (simp add: frame_addr_def example_setup_def)
    show "\<forall>j < MAX_GROUPS. \<forall>s. j \<noteq> unat (example_setup ! 0 AND 0b11) \<longrightarrow> mcast_sessions example_multicast ! j = Some s \<longrightarrow>
        mcs_multicast_addr s \<noteq> frame_addr ?bs"
    proof -
      have "mcs_multicast_addr s = [1, 2, 3, 4]" if "j < 4" "mcast_sessions example_multicast ! j = Some s" for j s
        using that nth_mem [of j "mcast_sessions example_multicast"] by (auto simp: example_multicast_def)
      then show ?thesis by (auto simp: frame_addr_def)
    qed
  qed
  with h show ?thesis by blast
qed

end
