(* ===== verification/MulticastProperties.thy ===== *)
theory MulticastProperties
  imports MulticastDevice MulticastFacts AsyncProperties
begin

text \<open>
  What the feature \<open>multicast\<close> changes for the device: nothing for frames on other ports; but the exchange that follows an
  uplink and the answers of remote setup both leave the counter of uplinks where it was.
\<close>

section \<open>Frames on other ports\<close>

lemma decrypted_port:
  assumes "view_ok w" "crypto_ok n" "crypto_ok a" "decrypt_in_place (dv_bytes w) (Some n) (Some a) fcnt = Some (Inr v)"
  shows "dv_f_port v = dv_f_port w"
proof -
  have l: "layout_ok (dv_bytes w) (dv_layout w)" using assms(1) by (simp add: view_ok_def)
  have lay: "dv_layout v = dv_layout w" and len: "length (dv_bytes v) = length (dv_bytes w)"
    and same: "\<And>i. i < lay_frm_start (dv_layout w) \<Longrightarrow> i < length (dv_bytes w) \<Longrightarrow> dv_bytes v ! i = dv_bytes w ! i"
    using assms(4) decrypt_in_place_eq [OF l, of "Some n" "Some a" fcnt] assms(2,3)
    by (auto split: if_splits option.splits)
  show ?thesis
    using layout_ok_f_port [OF l] same len by (auto simp: dv_f_port_def lay split: option.split)
qed

lemma deliver_downlink_conservative:
  assumes "view_ok v" "\<And>p. dv_f_port v = Some (Some p) \<Longrightarrow> \<not> is_remote_setup_port p mc"
  shows "deliver_downlink_mc mk D n v dl x mc =
    map_option (\<lambda>(r, dl', y). (MacResponse r, dl', y, mc)) (deliver_downlink D n v dl x)"
proof -
  obtain port where port: "dv_f_port v = Some port" using dv_f_port_ok [OF assms(1)] by auto
  obtain pl where pl: "dv_frm_payload v = Some pl" using dv_frm_payload_ok [OF assms(1)] by auto
  show ?thesis using assms(2) port pl
    by (cases port; cases pl)
       (auto simp: deliver_downlink_mc_def deliver_downlink_def Let_def vec_extend_unwrap_def)
qed

lemma handle_accepted_conservative:
  assumes "view_ok w" "dv_bytes w = bs" "crypto_ok (mk (ss_nwkskey (cx_session x)))" "crypto_ok (mk (ss_appskey (cx_session x)))"
    and "\<And>p. dv_f_port w = Some (Some p) \<Longrightarrow> \<not> is_remote_setup_port p mc"
  shows "handle_accepted_mc mk D bs n c snr ignore_mac dl x mc =
    map_option (\<lambda>(r, dl', bs', y). (MacResponse r, dl', bs', y, mc)) (handle_accepted mk D bs n c snr ignore_mac dl x)"
proof -
  obtain v where v: "decrypt_in_place bs (Some (mk (ss_nwkskey (cx_session x)))) (Some (mk (ss_appskey (cx_session x)))) n = Some (Inr v)"
    "view_ok v"
    using decrypted [OF assms(1,3,4)] assms(2) by metis
  have "dv_f_port v = dv_f_port w" using decrypted_port [OF assms(1,3,4)] v assms(2) by simp
  then have d: "deliver_downlink_mc mk D n v dl y mc =
      map_option (\<lambda>(r, dl', z). (MacResponse r, dl', z, mc)) (deliver_downlink D n v dl y)" for y
    using assms(5) by (intro deliver_downlink_conservative v(2)) auto
  show ?thesis
    unfolding handle_accepted_mc_def handle_accepted_def Let_def v(1) Option.bind.simps result_ok_simps d
    by (auto simp: map_option_bind option.map_comp comp_def case_prod_beta bind_map_option
        intro!: Option.bind_cong split: option.split)
qed

text \<open>C31. For a frame whose port is neither in the range of the multicast ports nor the port of remote setup, the session
  with the feature does what it does without: same response, same state, same queue and buffer, and the state of
  the feature is left alone. What holds of the default build holds of such frames.\<close>

theorem multicast_conservative:
  assumes "rs_ok (cx_region x)" "crypto_ok (mk (ss_nwkskey (cx_session x)))" "crypto_ok (mk (ss_appskey (cx_session x)))"
    and "\<And>w p. encrypted_parse bs = Some (Inr w) \<Longrightarrow> dv_f_port w = Some (Some p) \<Longrightarrow>
           \<not> is_in_range p mc \<and> \<not> is_remote_setup_port p mc"
  shows "handle_rx_mc mk D bs dl len snr ignore_mac x mc =
    map_option (\<lambda>(r, dl', bs', y). (MacResponse r, dl', bs', y, mc)) (handle_rx mk D bs dl len snr ignore_mac x)"
proof -
  obtain r where r: "encrypted_parse bs = Some r" using encrypted_parse_total [of bs] by auto
  show ?thesis
  proof (cases r)
    case (Inl e)
    then show ?thesis using r by (simp add: handle_rx_mc_def handle_rx_def)
  next
    case (Inr w)
    then have w: "dv_bytes w = bs" "view_ok w" using r by (auto simp: encrypted_parse_iff)
    obtain port where port: "dv_f_port w = Some port" using dv_f_port_ok [OF w(2)] by auto
    have out: "\<not> (case port of Some p \<Rightarrow> is_in_range p mc | None \<Rightarrow> False)"
      using assms(4) [OF r [unfolded Inr]] port by (auto split: option.split)
    have acc: "handle_accepted_mc mk D bs n c snr b dl (set_uplink (\<lambda>_. u) x) mc =
        map_option (\<lambda>(r, dl', bs', y). (MacResponse r, dl', bs', y, mc))
          (handle_accepted mk D bs n c snr b dl (set_uplink (\<lambda>_. u) x))" for n c u b
      using assms(2,3) assms(4) [OF r [unfolded Inr]] w
      by (intro handle_accepted_conservative [of w]) (auto simp: set_uplink_def)
    show ?thesis
      unfolding handle_rx_mc_def handle_rx_def r Inr Option.bind.simps sum.case port Let_def if_not_P [OF out]
      by (auto simp: map_option_bind option.map_comp comp_def case_prod_beta bind_map_option acc
          intro!: Option.bind_cong split: option.split)
  qed
qed

text \<open>An uplink of a joined network: the frame is on port 1.\<close>

lemma multicast_conservative_witness:
  "handle_rx_mc (\<lambda>k. xor_crypto (k ! 0)) 4 [0x60, 1, 2, 3, 4, 0, 0, 0, 1, 7, 7, 1, 0, 0] [] 200 0 False example_ctx example_multicast =
     map_option (\<lambda>(r, dl', bs', y). (MacResponse r, dl', bs', y, example_multicast))
       (handle_rx (\<lambda>k. xor_crypto (k ! 0)) 4 [0x60, 1, 2, 3, 4, 0, 0, 0, 1, 7, 7, 1, 0, 0] [] 200 0 False example_ctx)"
proof (rule multicast_conservative)
  show "rs_ok (cx_region example_ctx)" using example_ctx_ok by (simp add: ctx_ok_def)
  fix w p
  assume "encrypted_parse [0x60, 1, 2, 3, 4, 0, 0, 0, 1, 7, 7, 1, 0, 0] = Some (Inr w)" "dv_f_port w = Some (Some p)"
  then have "p = 1" by (auto simp: encrypted_parse_iff view_ok_def layout_ok_def dv_f_port_def)
  then show "\<not> is_in_range p example_multicast \<and> \<not> is_remote_setup_port p example_multicast"
    by (simp add: is_in_range_def is_remote_setup_port_def example_multicast_def multicast_new_def word_le_nat_alt
        DEFAULT_MC_PORT_RANGE_def REMOTE_MULTICAST_SETUP_PORT_def)
qed simp_all

section \<open>Multicast frames and the counter of uplinks\<close>

lemma handle_setup_message_response:
  "handle_setup_message mk data mc = Some (r, mc') \<Longrightarrow> \<not> is_for_async_mc_response r"
  by (auto simp: handle_setup_message_def is_for_async_mc_response_def bind_eq_Some_conv split: option.splits if_splits prod.splits)

lemma deliver_downlink_mc_group:
  "deliver_downlink_mc mk D n v dl x mc = Some (MulticastResponse r, dl', y, mc') \<Longrightarrow> \<not> is_for_async_mc_response r"
proof -
  assume a: "deliver_downlink_mc mk D n v dl x mc = Some (MulticastResponse r, dl', y, mc')"
  obtain port pl where "dv_f_port v = Some port" "dv_frm_payload v = Some pl" "ss_fcnt_up (cx_session x) \<noteq> 0xFFFFFFFF"
    using a by (auto simp: deliver_downlink_mc_def Let_def bind_eq_Some_conv split: if_splits)
  with a show ?thesis
    by (cases port; cases pl) (auto simp: deliver_downlink_mc_def Let_def bind_eq_Some_conv handle_setup_message_response
        split: if_splits)
qed

text \<open>A frame of a group changes nothing of the session but the queue of answers.\<close>

lemma handle_rx_mc_group:
  assumes "handle_rx_mc mk D bs dl len snr ignore_mac x mc = Some (MulticastResponse r, dl', bs', y, mc')"
    and "is_for_async_mc_response r"
  shows "ss_fcnt_up (cx_session y) = ss_fcnt_up (cx_session x)"
proof -
  have no: "handle_accepted_mc mk D bs n c snr ignore_mac dl z mc \<noteq> Some (MulticastResponse r, dl', bs', y, mc')" for n c z
    using assms(2) deliver_downlink_mc_group
    by (fastforce simp: handle_accepted_mc_def Let_def bind_eq_Some_conv)
  obtain e where e: "encrypted_parse bs = Some e" using encrypted_parse_total [of bs] by auto
  then obtain w where w: "e = Inr w" using assms(1) by (cases e) (auto simp: handle_rx_mc_def)
  have size: "\<not> length (dv_bytes w) > unat len + MHDR_LEN + MIC_LEN"
    using assms(1) e w by (auto simp: handle_rx_mc_def bind_eq_Some_conv)
  define u where "u = (if ignore_mac then Some (ss_uplink (cx_session x)) else clear_mac_commands False (ss_uplink (cx_session x)))"
  obtain port where p: "dv_f_port w = Some port"
    using dv_f_port_ok [of w] e w by (auto simp: encrypted_parse_iff)
  have "u \<noteq> None"
  proof
    assume "u = None"
    then show False
      using assms(1)
      by (simp only: handle_rx_mc_def e w Option.bind.simps sum.case if_not_P [OF size] u_def [symmetric] Let_def option.distinct)
  qed
  then obtain k where k: "u = Some k" "dv_f_port w = Some port" using p by auto
  show ?thesis
  proof (cases "case port of Some p \<Rightarrow> is_in_range p mc | None \<Rightarrow> False")
    case True
    then have "y = set_uplink (\<lambda>_. k) x"
      using assms(1)
      by (simp only: handle_rx_mc_def e w Option.bind.simps sum.case if_not_P [OF size] u_def [symmetric] k Let_def if_P)
         (auto simp: bind_eq_Some_conv)
    then show ?thesis by (simp add: set_uplink_def)
  next
    case False
    then show ?thesis
      using assms(1) no
      by (simp only: handle_rx_mc_def e w Option.bind.simps sum.case if_not_P [OF size] u_def [symmetric] k Let_def if_not_P)
         (auto simp: bind_eq_Some_conv split: option.splits if_splits)
  qed
qed

text \<open>\<open>send\<close> and the answers of remote setup use the counter of the session and leave it where it is.\<close>

lemma prepare_buffer_counter:
  "prepare_buffer mk data buf conf region s = Some (n, buf', s') \<Longrightarrow> n = ss_fcnt_up s \<and> ss_fcnt_up s' = ss_fcnt_up s"
  by (auto simp: prepare_buffer_def Let_def bind_eq_Some_conv clear_mac_commands_def split: if_splits)

lemma mac_send_counter:
  "mac_send mk next_u32 rng buf data m = Some (Inr (tx, w, n), rng', buf', m') \<Longrightarrow>
     mac_get_fcnt_up m = Some n \<and> mac_get_fcnt_up m' = Some n"
  by (auto simp: mac_send_def mac_get_fcnt_up_def Let_def bind_eq_Some_conv split: mac_state.splits
      dest!: prepare_buffer_counter)

lemma setup_send_counter:
  assumes "mac_multicast_setup_send mk next_u32 rng buf m mc = Some (Inr (tx, n), rng', buf', m', mc')"
  shows "mac_get_fcnt_up m = Some n \<and> mac_get_fcnt_up m' = Some n \<and> mcast_pending mc' = []"
proof -
  obtain x st' buf1 mc1 where a: "multicast_setup_send mk (mac_state m) buf (mac_conf m) (mac_region m) mc = Some (x, st', buf1, mc1)"
    using assms by (auto simp: mac_multicast_setup_send_def bind_eq_Some_conv)
  obtain k where k: "x = Inr k" using assms a by (cases x) (auto simp: mac_multicast_setup_send_def)
  have b: "n = k \<and> mac_state m' = st' \<and> mc' = mc1"
    using assms by (auto simp: mac_multicast_setup_send_def a k Let_def bind_eq_Some_conv)
  obtain s where s: "mac_state m = Joined s" using a k by (cases "mac_state m") (auto simp: multicast_setup_send_def)
  show ?thesis
    using a b k s
    by (auto simp: multicast_setup_send_def mac_get_fcnt_up_def bind_eq_Some_conv
        dest!: prepare_buffer_counter split: mac_state.split)
qed

lemma mc_tryE:
  assumes "mc_try m f = Some (r, d', mc')"
  obtains (err) e where "m = Some (Inl e, d', mc')" "r = Inl e"
    | (ok) x d1 mc1 where "m = Some (Inr x, d1, mc1)" "f x d1 mc1 = Some (r, d', mc')"
proof -
  obtain x d1 mc1 where "m = Some (x, d1, mc1)" using assms by (auto simp: mc_try_def bind_eq_Some_conv)
  then show thesis using assms that by (cases x) (simp_all add: mc_try_def)
qed

lemma mc_try_ok [simp]: "mc_try (Some (Inr x, d, mc)) f = f x d mc"
  by (simp add: mc_try_def)

lemma with_mc_Some: "with_mc mc x = Some (r, d, mc') \<longleftrightarrow> x = Some (r, d) \<and> mc' = mc"
  by (auto simp: with_mc_def)

lemma mac_rx_group:
  assumes "mac_handle_rx_mc mk D buf dl snr rf m mc = Some (MulticastResponse r, buf', dl', m', mc')" "is_for_async_mc_response r"
  shows "mac_get_fcnt_up m' = mac_get_fcnt_up m"
proof (cases "mac_state m")
  case (Joined s)
  with assms show ?thesis
    by (auto simp: mac_handle_rx_mc_def session_rx_mc_def mac_get_fcnt_up_def bind_eq_Some_conv dest!: handle_rx_mc_group)
qed (use assms in \<open>auto simp: mac_handle_rx_mc_def\<close>)

lemma async_rx_group:
  assumes "async_handle_rx_mc mk D next_u32 E sz q rf d mc = Some (Inr (Some (MulticastResponse r)), d', mc')"
    and "\<And>g. r \<noteq> McNewSession g"
  shows "mac_get_fcnt_up (ad_mac d') = mac_get_fcnt_up (ad_mac d) \<and> ad_class_c d' = ad_class_c d \<and> is_for_async_mc_response r"
proof -
  obtain resp buf' dl' m' mc1 where a: "mac_handle_rx_mc mk D (rb_set_pos sz (ad_buffer d)) (ad_downlink d) (rxq_snr q) rf (ad_mac d) mc
      = Some (resp, buf', dl', m', mc1)"
    "handle_mac_response_mc mk next_u32 E resp None (d\<lparr>ad_buffer := buf', ad_downlink := dl', ad_mac := m'\<rparr>) mc1
      = Some (Inr (Some (MulticastResponse r)), d', mc')"
    using assms(1) by (auto simp: async_handle_rx_mc_def bind_eq_Some_conv)
  obtain r0 where r0: "resp = MulticastResponse r0"
    using a(2) by (cases resp) (auto simp: handle_mac_response_mc_def Let_def split: if_splits)
  have "\<not> is_transmit_request r0"
  proof
    assume t: "is_transmit_request r0"
    then show False using a(2) assms(2) r0
      by (cases r0) (auto simp: handle_mac_response_mc_def Let_def is_transmit_request_def is_for_async_mc_response_def
          elim!: mc_tryE split: if_splits)
  qed
  then have "r0 = r \<and> is_for_async_mc_response r \<and> ad_mac d' = m' \<and> ad_class_c d' = ad_class_c d"
    using a(2) r0
    by (cases r0) (auto simp: handle_mac_response_mc_def Let_def is_transmit_request_def is_for_async_mc_response_def)
  then show ?thesis using mac_rx_group a(1) r0 by auto
qed

lemma window_group:
  assumes "rx_window_mc mk D next_u32 E fr delay w win d mc = Some (Inr (Some (MulticastResponse r)), d', mc')"
    and "\<not> ad_class_c d" "\<And>g. r \<noteq> McNewSession g"
  shows "mac_get_fcnt_up (ad_mac d') = mac_get_fcnt_up (ad_mac d) \<and> is_for_async_mc_response r"
proof -
  obtain y d1 mc1 cfg d2 rf where d1: "between_windows_mc mk D next_u32 E (rx_start_delay E fr delay win d) d mc = Some (Inr y, d1, mc1)"
    and d2: "async_setup_rx E cfg d1 = Some (Inr (), d2)"
    and l: "rx_listen_mc mk D next_u32 E rf d2 mc1 = Some (Inr (Some (MulticastResponse r)), d', mc')"
    using assms(1) by (auto simp: rx_window_mc_def Let_def with_mc_Some elim!: mc_tryE)
  have q1: "ad_mac d1 = ad_mac d \<and> ad_class_c d1 = ad_class_c d"
    using d1 assms(2)
    by (auto simp: between_windows_mc_def with_mc_Some async_timer_at_def quiet_def elim!: async_tryE dest!: radio_calls_quiet)
  have q2: "ad_mac d2 = ad_mac d1 \<and> ad_class_c d2 = ad_class_c d1" using radio_calls_quiet(1) [OF d2] by (simp add: quiet_def)
  obtain sz q d3 d4 z where d3: "async_rx_single E d2 = Some (Inr (Rx sz q), d3)"
    and d4: "async_handle_rx_mc mk D next_u32 E sz q rf d3 mc1 = Some (Inr (Some (MulticastResponse r)), d4, mc')"
    and d': "window_complete E d4 = Some (Inr z, d')"
    using l by (auto simp: rx_listen_mc_def with_mc_Some split: rx_status.splits elim!: mc_tryE)
  have q3: "ad_mac d3 = ad_mac d2 \<and> ad_class_c d3 = ad_class_c d2"
    using d3 by (auto simp: async_rx_single_def radio_result_eq ad_set_packet_def bind_eq_Some_conv)
  have "ad_mac d' = ad_mac d4" using window_complete_quiet [OF d'] by (simp add: quiet_def)
  then show ?thesis using async_rx_group [OF d4 assms(3)] q1 q2 q3 by simp
qed

section \<open>An exchange that leaves the counter of uplinks alone\<close>

text \<open>C29. A device of Class A sends with counter \<open>n\<close>, and the first frame it hears is a multicast frame that it accepts.
  The exchange is then complete, \<open>send\<close> reports the multicast response, and the counter is still \<open>n\<close>: neither
  \<open>rx2_complete\<close> nor the reception advances it, so the next uplink carries the same counter, and with it the
  same key stream.\<close>

theorem multicast_repeats_counter:
  assumes "\<not> ad_class_c d"
    and "mac_send mk next_u32 (ad_rng d) (ad_buffer d) \<lparr>sd_data = data, sd_fport = fport, sd_confirmed = confirmed\<rparr> (ad_mac d)
      = Some (Inr (tx, w, n), rng', buf', m')"
    and "async_tx E tx (d\<lparr>ad_rng := rng', ad_buffer := buf', ad_mac := m'\<rparr>) = Some (Inr ms, d2)"
    and "rx_window_mc mk D next_u32 E Data ms w Window1
      (d2\<lparr>ad_timer := ap_timer_reset E (ad_timer d2), ad_buffer := rb_clear (ad_buffer d2)\<rparr>) mc
      = Some (Inr (Some (MulticastResponse r)), d', mc')"
    and "\<And>g. r \<noteq> McNewSession g"
  shows "async_send_mc mk D next_u32 E data fport confirmed d mc = Some (Inr (SendMulticast r), d', mc') \<and>
    mac_get_fcnt_up (ad_mac d') = Some n \<and>
    (\<forall>data2 tx2 w2 k rng2 buf2 m2. mac_send mk next_u32 (ad_rng d') (ad_buffer d') data2 (ad_mac d')
       = Some (Inr (tx2, w2, k), rng2, buf2, m2) \<longrightarrow> k = n)"
proof -
  let ?d = "d2\<lparr>ad_timer := ap_timer_reset E (ad_timer d2), ad_buffer := rb_clear (ad_buffer d2)\<rparr>"
  have q: "ad_mac d2 = m' \<and> ad_class_c d2 = ad_class_c d" using radio_calls_quiet(3) [OF assms(3)] by (simp add: quiet_def)
  have g: "mac_get_fcnt_up (ad_mac d') = mac_get_fcnt_up (ad_mac ?d) \<and> is_for_async_mc_response r"
    by (rule window_group [OF assms(4) _ assms(5)]) (use q assms(1) in simp)
  then have n: "mac_get_fcnt_up (ad_mac d') = Some n" using mac_send_counter [OF assms(2)] q by simp
  have "rx_downlink_mc mk D next_u32 E Data ms w (d2\<lparr>ad_timer := ap_timer_reset E (ad_timer d2)\<rparr>) mc
      = Some (Inr (MulticastResponse r), d', mc')"
    using assms(4) by (simp add: rx_downlink_mc_def)
  then have "async_send_mc mk D next_u32 E data fport confirmed d mc = Some (Inr (SendMulticast r), d', mc')"
    using assms(2,3) g by (simp add: async_send_mc_def Let_def with_mc_def send_response_of_mc_def async_mc_response_def)
  with n show ?thesis using mac_send_counter by fastforce
qed

text \<open>An answer of remote setup is transmitted with the counter of the session, and the counter stays: the next uplink
  of the application has the counter of the answer.\<close>

theorem setup_answer_repeats_counter:
  assumes "is_transmit_request r" "mac_get_fcnt_up (ad_mac d) = Some n"
    and "handle_mac_response_mc mk next_u32 E (MulticastResponse r) cfg d mc = Some (Inr y, d', mc')"
  shows "(\<exists>tx rng' buf' m'. mac_multicast_setup_send mk next_u32 (ad_rng d) (rb_clear (ad_buffer d)) (ad_mac d) mc
        = Some (Inr (tx, n), rng', buf', m', mc') \<and> ad_mac d' = m' \<and> ad_buffer d' = buf') \<and> mcast_pending mc' = [] \<and>
    (\<forall>data tx w k rng' buf' m'. mac_send mk next_u32 (ad_rng d') (ad_buffer d') data (ad_mac d')
       = Some (Inr (tx, w, k), rng', buf', m') \<longrightarrow> k = n)"
proof -
  let ?d = "d\<lparr>ad_buffer := rb_clear (ad_buffer d)\<rparr>"
  obtain z d2 mc2 where a: "async_setup_answer mk next_u32 E cfg ?d mc = Some (Inr z, d2, mc2)" "d' = d2" "mc' = mc2"
    using assms(1,3) by (auto simp: handle_mac_response_mc_def Let_def elim!: mc_tryE)
  obtain x rng' buf' m' mc1 where s: "mac_multicast_setup_send mk next_u32 (ad_rng d) (rb_clear (ad_buffer d)) (ad_mac d) mc
      = Some (x, rng', buf', m', mc1)"
    using a(1) by (auto simp: async_setup_answer_def bind_eq_Some_conv)
  obtain tx k where k: "x = Inr (tx, k)" using a(1) s by (cases x) (auto simp: async_setup_answer_def)
  note c = setup_send_counter [OF s [unfolded k]]
  have "mc2 = mc1 \<and> ad_mac d2 = m' \<and> ad_buffer d2 = buf'"
    using a(1) s k
    by (auto simp: async_setup_answer_def with_mc_Some quiet_def elim!: async_tryE split: option.splits dest!: radio_calls_quiet)
  then show ?thesis using c s k a(2,3) assms(2) mac_send_counter by fastforce
qed

text \<open>Between the windows with Class C: once a new group is set up, the next valid frame ends the wait for the window, whatever
  is left of it.\<close>

lemma window_opens_early:
  assumes "holds_new_session response" "rxc_listen_until_timeout E duration d = Some (RxcRx sz q, d1)"
    and "async_handle_rxc_mc mk D next_u32 E sz q cfg d1 mc = Some (Inr (Some z), d2, mc2)"
  shows "rxc_loop_mc mk D next_u32 E cfg duration response d mc = Some (Inr response, d2, mc2)"
  using assms by (subst rxc_loop_mc.simps) simp

section \<open>The non-blocking device\<close>

lemma handle_rx_mc_in_range:
  assumes "encrypted_parse bs = Some (Inr w)" "dv_f_port w = Some (Some p)" "is_in_range p mc"
    and "length bs \<le> unat len + MHDR_LEN + MIC_LEN" "handle_rx_mc mk D bs dl len snr ignore_mac x mc = Some (resp, y)"
  shows "\<exists>r. resp = MulticastResponse r"
proof -
  have "dv_bytes w = bs" using assms(1) by (simp add: encrypted_parse_iff)
  then show ?thesis using assms by (auto simp: handle_rx_mc_def bind_eq_Some_conv Let_def)
qed

text \<open>C30. With the feature \<open>multicast\<close> the non-blocking device panics on any frame, from anybody, whose port is in the range of the
  multicast ports, also when no group is set up: the conversion of the response is not implemented. The MIC of the
  frame is not even looked at.\<close>

theorem nb_multicast_panics:
  assumes "nd_state d = WaitingForRx fr w slot rf" "mac_state (nd_mac d) = Joined s"
    and "phy_handle_event R ev (sh_radio (nd_shared d)) = (Inr (RxDone quality), r)" "phy_received_packet R r = bs"
    and "encrypted_parse bs = Some (Inr v)" "dv_f_port v = Some (Some p)" "is_in_range p mc"
    and "length bs \<le> unat (rf_max_payload_len rf) + MHDR_LEN + MIC_LEN" "length bs < length (rb_packet (sh_tx_buffer (nd_shared d)))"
  shows "nb_handle_event_mc mk D next_u32 R (NbRadioEvent ev) d mc = None"
proof -
  let ?sh = "(nd_shared d)\<lparr>sh_radio := r\<rparr>"
  let ?buf = "\<lparr>rb_packet = bs @ drop (length bs) (rb_packet (sh_tx_buffer (nd_shared d))), rb_pos = length bs\<rparr>"
  have e: "rb_extend_from_slice bs (rb_clear (sh_tx_buffer (nd_shared d))) = Some (?buf, Inr ())"
    using assms(9) by (simp add: rb_extend_from_slice_def rb_clear_def copy_range_def)
  have b: "rb_as_ref_for_read ?buf = Some bs" using assms(9) by (simp add: rb_as_ref_for_read_def subslice_def)
  have m: "\<exists>x. resp = MulticastResponse x"
    if rx: "mac_handle_rx_mc mk D ?buf dl snr rf (sh_mac ?sh) mc = Some (resp, z)" for dl snr resp z
  proof -
    obtain y where "handle_rx_mc mk D bs dl (rf_max_payload_len rf) snr False
        \<lparr>cx_session = s, cx_conf = mac_conf (nd_mac d), cx_region = mac_region (nd_mac d)\<rparr> mc = Some (resp, y)"
      using rx assms(2) by (auto simp: mac_handle_rx_mc_def session_rx_mc_def b bind_eq_Some_conv)
    then show ?thesis using handle_rx_mc_in_range [OF assms(5-8)] by blast
  qed
  have "waiting_rx_done_mc mk D R fr w slot rf quality ?sh mc = None"
  proof (cases "mac_handle_rx_mc mk D ?buf (sh_downlink ?sh) (rxq_snr quality) rf (sh_mac ?sh) mc")
    case None
    then show ?thesis using assms(4) e by (simp add: waiting_rx_done_mc_def)
  next
    case (Some x)
    obtain r' buf' dl' m' mc' where "x = (MulticastResponse r', buf', dl', m', mc')" using m Some by (cases x) blast
    then show ?thesis using assms(4) e Some by (simp add: waiting_rx_done_mc_def Let_def)
  qed
  then show ?thesis using assms(1,3) by (simp add: nb_handle_event_mc_def sh_radio_event_def Let_def)
qed

section \<open>Devices to apply them to\<close>

text \<open>Every data rate allows frames of at least 24 bytes.\<close>

lemma table_payloads:
  "R \<in> set dynamic_regions \<Longrightarrow> Some d \<in> set (cr_datarates R) \<Longrightarrow> 19 \<le> unat (dtr_max_mac_payload_size d)"
  "F \<in> set fixed_regions \<Longrightarrow> Some d \<in> set (cr_datarates F) \<Longrightarrow> 19 \<le> unat (dtr_max_mac_payload_size d)"
  by (auto simp: dynamic_regions_def fixed_regions_def region_defs table_defs)

lemma idx_mem: "idx xs i = Some x \<Longrightarrow> x \<in> set xs"
  by (auto simp: idx_def split: if_splits)

lemma idx_payloads:
  "R \<in> set dynamic_regions \<Longrightarrow> idx (cr_datarates R) i = Some (Some d) \<Longrightarrow> 19 \<le> unat (dtr_max_mac_payload_size d)"
  "F \<in> set fixed_regions \<Longrightarrow> idx (cr_datarates F) i = Some (Some d) \<Longrightarrow> 19 \<le> unat (dtr_max_mac_payload_size d)"
  by (blast dest: idx_mem intro: table_payloads)+

lemma datarate_payload:
  "rs_get_datarate s i = Some (Some d) \<Longrightarrow> 19 \<le> unat (dtr_max_mac_payload_size d)"
  by (cases s) (auto simp: rs_get_datarate_def region_get_datarate_def dynamic_regions_def fixed_regions_def
      dest!: idx_payloads [rotated])

lemma sent_payload:
  assumes "mac_send mk next_u32 rng buf data m = Some (Inr (tx, w, n), rng', buf', m')"
  shows "19 \<le> unat (rf_max_payload_len (rw_rx1 w))"
proof -
  obtain t m1 where "mac_rx_windows t m1 = Some w"
    using assms by (auto simp: mac_send_def bind_eq_Some_conv Let_def split: mac_state.splits)
  then obtain f dr tdr where "build_rf_config f dr tdr Window1 m1 = Some (rw_rx1 w)"
    by (auto simp: mac_rx_windows_def bind_eq_Some_conv)
  then obtain d i where d: "rs_get_datarate (mac_region m1) i = Some (Some d)"
    "rf_max_payload_len (rw_rx1 w) = dtr_max_mac_payload_size d"
    by (auto simp: build_rf_config_def bind_eq_Some_conv split: option.splits)
       (metis rf_config.select_convs(3))+
  then show ?thesis using datarate_payload by simp
qed

text \<open>A radio that hears the multicast frame in every window.\<close>

definition example_group_phy :: "(unit, u64 list, unit) async_phy" where
  "example_group_phy = example_async_phy\<lparr>ap_rx_single :=
     (\<lambda>p w. Some (Inr (Rx 14 (rx_quality_new 0 0)), example_mc_frame @ replicate 242 0, w))\<rparr>"

lemma example_group_rx:
  assumes "mac_state (ad_mac d) = Joined s" "19 \<le> unat (rf_max_payload_len rf)"
    and "rb_packet (ad_buffer d) = example_mc_frame @ replicate 242 0"
  shows "\<exists>d' mc'. async_handle_rx_mc (\<lambda>k. xor_crypto (k ! 0)) 4 next_u32 E 14 q rf d example_multicast
    = Some (Inr (Some (MulticastResponse (McDownlinkReceived 0 0))), d', mc') \<and> ad_class_c d' = ad_class_c d"
proof -
  let ?mk = "\<lambda>k :: bytes. xor_crypto (k ! 0)"
  obtain v mc1 where v: "length (dv_bytes v) = 14"
    "\<And>dl. multicast_handle_rx ?mk 4 example_mc_frame dl example_multicast =
      Some (McDownlinkReceived 0 0, delivered 4 v dl, dv_bytes v, mc1)" by (rule example_mc_accepted) (rule that)
  have b: "rb_as_ref_for_read (rb_set_pos 14 (ad_buffer d)) = Some example_mc_frame"
    using assms(3) by (simp add: rb_as_ref_for_read_def rb_set_pos_def subslice_def example_mc_frame_def)
  have p: "is_in_range 201 example_multicast"
    by (simp add: is_in_range_def example_multicast_def multicast_new_def DEFAULT_MC_PORT_RANGE_def word_le_nat_alt)
  obtain u where u: "clear_mac_commands False (ss_uplink s) = Some u" by (auto simp: clear_mac_commands_def)
  have l: "\<not> unat (rf_max_payload_len rf) + MHDR_LEN + MIC_LEN < length example_mc_frame"
    using assms(2) by (simp add: example_mc_frame_def)
  have "dv_f_port (the_view) = Some (Some 201)" if "the_view = \<lparr>dv_bytes = example_mc_frame, dv_layout =
      \<lparr>lay_frame_type = UnconfirmedDown, lay_fhdr_len = 7, lay_f_port_offset = Some 8, lay_frm_start = 9, lay_frm_end = 10\<rparr>\<rparr>"
    for the_view using that by (simp add: dv_f_port_def example_mc_frame_def)
  then have h: "\<exists>y. handle_rx_mc ?mk 4 example_mc_frame dl (rf_max_payload_len rf) snr False
      \<lparr>cx_session = s, cx_conf = c, cx_region = R\<rparr> example_multicast =
      Some (MulticastResponse (McDownlinkReceived 0 0), delivered 4 v dl, dv_bytes v, y, mc1)" for dl snr c R
    using l u p v(2) by (simp add: handle_rx_mc_def example_mc_parse Let_def)
  obtain y where y: "handle_rx_mc ?mk 4 example_mc_frame (ad_downlink d) (rf_max_payload_len rf) (rxq_snr q) False
      \<lparr>cx_session = s, cx_conf = mac_conf (ad_mac d), cx_region = mac_region (ad_mac d)\<rparr> example_multicast =
      Some (MulticastResponse (McDownlinkReceived 0 0), delivered 4 v (ad_downlink d), dv_bytes v, y, mc1)"
    using h by blast
  obtain p where c: "copy_range (rb_packet (rb_set_pos 14 (ad_buffer d))) 0 (rb_pos (rb_set_pos 14 (ad_buffer d))) (dv_bytes v) = Some p"
    using assms(3) v(1) by (simp add: copy_range_def example_mc_frame_def rb_set_pos_def)
  have "\<exists>buf' m'. mac_handle_rx_mc ?mk 4 (rb_set_pos 14 (ad_buffer d)) (ad_downlink d) (rxq_snr q) rf (ad_mac d) example_multicast
      = Some (MulticastResponse (McDownlinkReceived 0 0), buf', delivered 4 v (ad_downlink d), m', mc1)"
    by (simp add: mac_handle_rx_mc_def assms(1) session_rx_mc_def b y c)
  then obtain buf' m' where "mac_handle_rx_mc ?mk 4 (rb_set_pos 14 (ad_buffer d)) (ad_downlink d) (rxq_snr q) rf (ad_mac d)
      example_multicast = Some (MulticastResponse (McDownlinkReceived 0 0), buf', delivered 4 v (ad_downlink d), m', mc1)" by blast
  then show ?thesis
    by (simp add: async_handle_rx_mc_def handle_mac_response_mc_def Let_def is_transmit_request_def is_for_async_mc_response_def)
qed

lemma multicast_repeats_counter_witness:
  "\<exists>d' mc'. async_send_mc (\<lambda>k. xor_crypto (k ! 0)) 4 (\<lambda>n. (n, n + 1)) example_group_phy [5, 6] 1 False example_async
     example_multicast = Some (Inr (SendMulticast (McDownlinkReceived 0 0)), d', mc') \<and>
     mac_get_fcnt_up (ad_mac example_async) = Some 0 \<and> mac_get_fcnt_up (ad_mac d') = Some 0"
proof -
  let ?mk = "\<lambda>k :: bytes. xor_crypto (k ! 0)" and ?E = example_group_phy
  obtain tx w rng' buf' m' packet where r: "mac_send ?mk (\<lambda>n. (n, n + 1)) (ad_rng example_async)
    (ad_buffer example_async) example_data (ad_mac example_async) = Some (Inr (tx, w, 0), rng', buf', m')"
    and p: "rb_as_ref_for_read buf' = Some packet" by (rule example_async_sends)
  let ?d2 = "example_async\<lparr>ad_rng := rng', ad_buffer := buf', ad_mac := m'\<rparr>"
  let ?d = "?d2\<lparr>ad_timer := ap_timer_reset ?E (ad_timer ?d2), ad_buffer := rb_clear (ad_buffer ?d2)\<rparr>"
  have t: "async_tx ?E tx ?d2 = Some (Inr 0, ?d2)"
    using p by (simp add: async_tx_def radio_result_def example_group_phy_def example_async_phy_def)
  obtain s where s: "mac_state m' = Joined s" using mac_send_counter [OF r] by (cases "mac_state m'") (auto simp: mac_get_fcnt_up_def)
  define d3 where "d3 = (async_timer_at ?E (rx_start_delay ?E Data 0 Window1 ?d) ?d)"
  define d4 where "d4 = ad_set_packet (example_mc_frame @ replicate 242 0) d3"
  have f: "mac_state (ad_mac d4) = Joined s" "rb_packet (ad_buffer d4) = example_mc_frame @ replicate 242 0" "\<not> ad_class_c d4"
    using s by (simp_all add: d4_def d3_def ad_set_packet_def async_timer_at_def example_async_def)
  obtain d5 mc5 where d5: "async_handle_rx_mc ?mk 4 (\<lambda>n :: u32. (n, n + 1)) ?E 14 (rx_quality_new 0 0) (rw_rx1 w) d4 example_multicast
      = Some (Inr (Some (MulticastResponse (McDownlinkReceived 0 0))), d5, mc5)" "\<not> ad_class_c d5"
    using example_group_rx [OF f(1) sent_payload [OF r] f(2), of "\<lambda>n :: u32. (n, n + 1)" ?E "rx_quality_new 0 0"] f(3)
    by auto
  have win: "rx_window_mc ?mk 4 (\<lambda>n :: u32. (n, n + 1)) ?E Data 0 w Window1 ?d example_multicast
      = Some (Inr (Some (MulticastResponse (McDownlinkReceived 0 0))), d5, mc5)"
  proof -
    have "between_windows_mc ?mk 4 (\<lambda>n :: u32. (n, n + 1)) ?E (rx_start_delay ?E Data 0 Window1 ?d) ?d example_multicast
        = Some (Inr None, d3, example_multicast)"
      by (simp add: between_windows_mc_def example_async_def async_low_power_def radio_result_def async_try_def with_mc_def d3_def
          example_group_phy_def example_async_phy_def)
    moreover have "async_setup_rx ?E cfg d3 = Some (Inr (), d3)" for cfg
      by (simp add: async_setup_rx_def radio_result_def example_group_phy_def example_async_phy_def)
    moreover have "async_rx_single ?E d3 = Some (Inr (Rx 14 (rx_quality_new 0 0)), d4)"
      by (simp add: async_rx_single_def radio_result_def example_group_phy_def d4_def ad_set_packet_def)
    moreover have "window_complete ?E d5 = Some (Inr (), d5)"
      using d5(2) by (simp add: window_complete_def async_low_power_def radio_result_def example_group_phy_def example_async_phy_def)
    ultimately show ?thesis
      using d5(1) by (simp add: rx_window_mc_def rx_listen_mc_def with_mc_def Let_def rw_rx_config_def rw_get_def)
  qed
  show ?thesis
    using multicast_repeats_counter [OF example_async_sel(5) r t win] mac_send_counter [OF r] by auto
qed

text \<open>A device with a queued answer. Its port and data are those of the uplink above.\<close>

definition example_answering :: multicast where
  "example_answering = multicast_set_remote_setup_port 1 (example_multicast\<lparr>mcast_pending := [5, 6]\<rparr>)"

lemma setup_answer_repeats_counter_witness:
  "\<exists>y d' mc'. handle_mac_response_mc (\<lambda>k. xor_crypto (k ! 0)) (\<lambda>n. (n, n + 1)) example_async_phy
      (MulticastResponse McTransmitRequest) None example_async example_answering = Some (Inr y, d', mc') \<and>
     mcast_pending example_answering = [5, 6] \<and> mcast_pending mc' = []"
proof -
  let ?mk = "\<lambda>k :: bytes. xor_crypto (k ! 0)" and ?next = "\<lambda>n :: u32. (n, n + 1)"
  let ?b = "rb_clear (ad_buffer example_async)"
  obtain tx w rng' buf' m' packet where r: "mac_send ?mk ?next (ad_rng example_async)
    (ad_buffer example_async) example_data (ad_mac example_async) = Some (Inr (tx, w, 0), rng', buf', m')"
    and p: "rb_as_ref_for_read buf' = Some packet" by (rule example_async_sends)
  have b: "?b = ad_buffer example_async" by (simp add: rb_clear_def rb_new_def)
  have sd: "\<lparr>sd_data = mcast_pending example_answering, sd_fport = mcast_setup_port example_answering, sd_confirmed = False\<rparr> = example_data"
    by (simp add: example_answering_def multicast_set_remote_setup_port_def)
  obtain tx' m1 where s: "mac_multicast_setup_send ?mk ?next (ad_rng example_async) ?b (ad_mac example_async) example_answering
      = Some (Inr (tx', 0), rng', buf', m1, example_answering\<lparr>mcast_pending := []\<rparr>)"
    using r unfolding b mac_multicast_setup_send_def multicast_setup_send_def sd mac_send_def
    by (cases "mac_state (ad_mac example_async)") (auto simp: bind_eq_Some_conv Let_def)
  then obtain d2 where a: "handle_mac_response_mc ?mk ?next example_async_phy (MulticastResponse McTransmitRequest) None example_async
      example_answering = Some (Inr None, d2, example_answering\<lparr>mcast_pending := []\<rparr>)"
    using p by (auto simp: handle_mac_response_mc_def Let_def is_transmit_request_def async_setup_answer_def async_tx_def
        example_async_phy_def radio_result_def async_try_def with_mc_def is_for_async_mc_response_def)
  have "mac_get_fcnt_up (ad_mac example_async) = Some 0" using mac_send_counter [OF r] by simp
  from setup_answer_repeats_counter [OF _ this a] a show ?thesis
    by (simp add: is_transmit_request_def example_answering_def multicast_set_remote_setup_port_def)
qed

text \<open>A device without a group, and a frame without a valid MIC.\<close>

definition example_mc_phy :: "(unit, unit, unit, unit) phy" where
  "example_mc_phy = \<lparr>phy_handle_event = (\<lambda>_ w. (Inr (RxDone (rx_quality_new 0 0)), w)),
     phy_received_packet = (\<lambda>_. [0x60, 9, 9, 9, 9, 0, 0, 0, 201, 7, 1, 2, 3, 4]),
     phy_window_offset_ms = (\<lambda>_. 0), phy_window_duration_ms = (\<lambda>_. 100), phy_antenna_gain = 0, phy_max_radio_power = 14\<rparr>"

definition example_listening :: "(unit, u32) nb_device" where
  "example_listening = \<lparr>nd_state = WaitingForRx Data \<lparr>rw_rx1 = example_rf, rw_rx2 = example_rf\<rparr> (Rx1 0) example_rf,
     nd_shared = \<lparr>sh_radio = (), sh_rng = 0, sh_tx_buffer = rb_new 256, sh_mac = example_mac, sh_downlink = []\<rparr>\<rparr>"

lemma nb_multicast_panics_witness:
  "nb_handle_event_mc (\<lambda>k. xor_crypto (k ! 0)) 4 (\<lambda>n. (n, n + 1)) example_mc_phy (NbRadioEvent (PhyEvent ())) example_listening multicast_new = None"
proof (rule nb_multicast_panics)
  let ?bs = "[0x60, 9, 9, 9, 9, 0, 0, 0, 201, 7, 1, 2, 3, 4] :: bytes"
  show "encrypted_parse ?bs = Some (Inr \<lparr>dv_bytes = ?bs, dv_layout =
      \<lparr>lay_frame_type = UnconfirmedDown, lay_fhdr_len = 7, lay_f_port_offset = Some 8, lay_frm_start = 9, lay_frm_end = 10\<rparr>\<rparr>)"
    by (simp add: encrypted_parse_iff view_ok_def layout_ok_def from_mhdr_def)
  show "length ?bs \<le> unat (rf_max_payload_len example_rf) + MHDR_LEN + MIC_LEN" by (simp add: example_rf_def)
  show "is_in_range 201 multicast_new"
    by (simp add: is_in_range_def multicast_new_def DEFAULT_MC_PORT_RANGE_def word_le_nat_alt)
qed (simp_all add: example_listening_def example_mc_phy_def example_mac_state dv_f_port_def rb_new_def)

end
