(* ===== verification/Variants.thy ===== *)
theory Variants
  imports PhyBus
begin

text \<open>
  \<open>lora-phy/src/iv.rs\<close>: the control lines of a board. The pins implement the traits \<open>OutputPin\<close> and \<open>Wait\<close> of other
  crates, so their functions are a parameter: a record over names of pins and a state \<open>'w\<close>. The three variants of the
  file become instances of the control lines of the hardware record of \<open>PhyBus\<close>. Whatever the pins answer, the two
  halves of an RF switch are never on together.
\<close>

section \<open>Pins\<close>

text \<open>\<open>set_high\<close> and \<open>set_low\<close> are \<open>pin_set\<close> with the level, \<open>wait_for_high\<close> and \<open>wait_for_low\<close> are \<open>pin_wait\<close>; \<open>pin_select\<close> waits
  until one of two pins is high and gives the result of that wait. A wait that never ends is \<open>None\<close>.\<close>

record ('c, 'i, 'w) pins =
  pin_set :: "'c \<Rightarrow> bool \<Rightarrow> 'w \<Rightarrow> (unit + unit) \<times> 'w"
  pin_wait :: "'i \<Rightarrow> bool \<Rightarrow> 'w \<Rightarrow> ((unit + unit) \<times> 'w) run"
  pin_select :: "'i \<Rightarrow> 'i \<Rightarrow> 'w \<Rightarrow> ((unit + unit) \<times> 'w) run"
  pin_delay_ms :: "u32 \<Rightarrow> 'w \<Rightarrow> 'w"

text \<open>\<open>map_err(|_| e)\<close>\<close>

definition pin_result :: "radio_error \<Rightarrow> ((unit + unit) \<times> 'w) run \<Rightarrow> ((radio_error + unit) \<times> 'w) run" where
  "pin_result e x = map_option (\<lambda>(r, w). (case r of Inl _ \<Rightarrow> Inl e | Inr _ \<Rightarrow> Inr (), w)) x"

definition drive :: "('c, 'i, 'w) pins \<Rightarrow> radio_error \<Rightarrow> 'c \<Rightarrow> bool \<Rightarrow> ('w, unit) phy" where
  "drive P e c level w = pin_result e (Some (pin_set P c level w))"

definition await_pin :: "('c, 'i, 'w) pins \<Rightarrow> radio_error \<Rightarrow> 'i \<Rightarrow> bool \<Rightarrow> ('w, unit) phy" where
  "await_pin P e i level w = pin_result e (pin_wait P i level w)"

text \<open>\<open>select\<close> over two waits.\<close>

definition await_either :: "('c, 'i, 'w) pins \<Rightarrow> radio_error \<Rightarrow> 'i \<Rightarrow> 'i \<Rightarrow> ('w, unit) phy" where
  "await_either P e i j w = pin_result e (pin_select P i j w)"

definition pause :: "('c, 'i, 'w) pins \<Rightarrow> u32 \<Rightarrow> ('w, unit) phy" where
  "pause P ms = modify (pin_delay_ms P ms)"

text \<open>An optional pin.\<close>

definition drive_opt :: "('c, 'i, 'w) pins \<Rightarrow> radio_error \<Rightarrow> 'c option \<Rightarrow> bool \<Rightarrow> ('w, unit) phy" where
  "drive_opt P e c level = (case c of Some pin \<Rightarrow> drive P e pin level | None \<Rightarrow> ret ())"

section \<open>SX127x\<close>

record ('c, 'i) sx127x_lines =
  l7_reset :: 'c
  l7_irq :: 'i
  l7_irq_secondary :: "'i option"
  l7_rf_switch_rx :: "'c option"
  l7_rf_switch_tx :: "'c option"

definition lines7_new_with_secondary_irq ::
  "'c \<Rightarrow> 'i \<Rightarrow> 'i option \<Rightarrow> 'c option \<Rightarrow> 'c option \<Rightarrow> radio_error + ('c, 'i) sx127x_lines" where
  "lines7_new_with_secondary_irq reset irq irq_secondary rx tx =
     Inr \<lparr>l7_reset = reset, l7_irq = irq, l7_irq_secondary = irq_secondary, l7_rf_switch_rx = rx, l7_rf_switch_tx = tx\<rparr>"

definition lines7_new :: "'c \<Rightarrow> 'i \<Rightarrow> 'c option \<Rightarrow> 'c option \<Rightarrow> radio_error + ('c, 'i) sx127x_lines" where
  "lines7_new reset irq rx tx = lines7_new_with_secondary_irq reset irq None rx tx"

definition reset7 :: "('c, 'i, 'w) pins \<Rightarrow> ('c, 'i) sx127x_lines \<Rightarrow> ('w, unit) phy" where
  "reset7 P l = steps [pause P 10, drive P Reset (l7_reset l) False, pause P 10, drive P Reset (l7_reset l) True, pause P 10]"

definition wait_on_busy7 :: "('c, 'i, 'w) pins \<Rightarrow> ('c, 'i) sx127x_lines \<Rightarrow> ('w, unit) phy" where
  "wait_on_busy7 P l = ret ()"

definition await_irq7 :: "('c, 'i, 'w) pins \<Rightarrow> ('c, 'i) sx127x_lines \<Rightarrow> ('w, unit) phy" where
  "await_irq7 P l = (case l7_irq_secondary l of
      None \<Rightarrow> await_pin P Irq (l7_irq l) True
    | Some dio1 \<Rightarrow> await_either P Irq (l7_irq l) dio1)"

definition enable_rf_switch_rx7 :: "('c, 'i, 'w) pins \<Rightarrow> ('c, 'i) sx127x_lines \<Rightarrow> ('w, unit) phy" where
  "enable_rf_switch_rx7 P l =
     thn (drive_opt P RfSwitchTx (l7_rf_switch_tx l) False) (drive_opt P RfSwitchRx (l7_rf_switch_rx l) True)"

definition enable_rf_switch_tx7 :: "('c, 'i, 'w) pins \<Rightarrow> ('c, 'i) sx127x_lines \<Rightarrow> ('w, unit) phy" where
  "enable_rf_switch_tx7 P l =
     thn (drive_opt P RfSwitchRx (l7_rf_switch_rx l) False) (drive_opt P RfSwitchTx (l7_rf_switch_tx l) True)"

definition disable_rf_switch7 :: "('c, 'i, 'w) pins \<Rightarrow> ('c, 'i) sx127x_lines \<Rightarrow> ('w, unit) phy" where
  "disable_rf_switch7 P l =
     thn (drive_opt P RfSwitchRx (l7_rf_switch_rx l) False) (drive_opt P RfSwitchTx (l7_rf_switch_tx l) False)"

section \<open>SX126x and LR11xx\<close>

text \<open>The lines of the other two variants; they differ in the end of a reset.\<close>

record ('c, 'i) busy_lines =
  lb_reset :: 'c
  lb_dio1 :: 'i
  lb_busy :: 'i
  lb_rf_switch_rx :: "'c option"
  lb_rf_switch_tx :: "'c option"

definition lines6_new :: "'c \<Rightarrow> 'i \<Rightarrow> 'i \<Rightarrow> 'c option \<Rightarrow> 'c option \<Rightarrow> radio_error + ('c, 'i) busy_lines" where
  "lines6_new reset dio1 busy rx tx =
     Inr \<lparr>lb_reset = reset, lb_dio1 = dio1, lb_busy = busy, lb_rf_switch_rx = rx, lb_rf_switch_tx = tx\<rparr>"

definition reset6 :: "('c, 'i, 'w) pins \<Rightarrow> ('c, 'i) busy_lines \<Rightarrow> ('w, unit) phy" where
  "reset6 P l = steps [pause P 10, drive P Reset (lb_reset l) False, pause P 20, drive P Reset (lb_reset l) True, pause P 10]"

definition wait_on_busy6 :: "('c, 'i, 'w) pins \<Rightarrow> ('c, 'i) busy_lines \<Rightarrow> ('w, unit) phy" where
  "wait_on_busy6 P l = await_pin P Busy (lb_busy l) False"

definition await_irq6 :: "('c, 'i, 'w) pins \<Rightarrow> ('c, 'i) busy_lines \<Rightarrow> ('w, unit) phy" where
  "await_irq6 P l = await_pin P DIO1 (lb_dio1 l) True"

definition enable_rf_switch_rx6 :: "('c, 'i, 'w) pins \<Rightarrow> ('c, 'i) busy_lines \<Rightarrow> ('w, unit) phy" where
  "enable_rf_switch_rx6 P l =
     thn (drive_opt P RfSwitchTx (lb_rf_switch_tx l) False) (drive_opt P RfSwitchRx (lb_rf_switch_rx l) True)"

definition enable_rf_switch_tx6 :: "('c, 'i, 'w) pins \<Rightarrow> ('c, 'i) busy_lines \<Rightarrow> ('w, unit) phy" where
  "enable_rf_switch_tx6 P l =
     thn (drive_opt P RfSwitchRx (lb_rf_switch_rx l) False) (drive_opt P RfSwitchTx (lb_rf_switch_tx l) True)"

definition disable_rf_switch6 :: "('c, 'i, 'w) pins \<Rightarrow> ('c, 'i) busy_lines \<Rightarrow> ('w, unit) phy" where
  "disable_rf_switch6 P l =
     thn (drive_opt P RfSwitchRx (lb_rf_switch_rx l) False) (drive_opt P RfSwitchTx (lb_rf_switch_tx l) False)"

definition lines11_new :: "'c \<Rightarrow> 'i \<Rightarrow> 'i \<Rightarrow> 'c option \<Rightarrow> 'c option \<Rightarrow> radio_error + ('c, 'i) busy_lines" where
  "lines11_new reset dio1 busy rx tx =
     Inr \<lparr>lb_reset = reset, lb_dio1 = dio1, lb_busy = busy, lb_rf_switch_rx = rx, lb_rf_switch_tx = tx\<rparr>"

definition reset11 :: "('c, 'i, 'w) pins \<Rightarrow> ('c, 'i) busy_lines \<Rightarrow> ('w, unit) phy" where
  "reset11 P l = steps [pause P 10, drive P Reset (lb_reset l) False, pause P 20, drive P Reset (lb_reset l) True,
     await_pin P Busy (lb_busy l) False]"

definition wait_on_busy11 :: "('c, 'i, 'w) pins \<Rightarrow> ('c, 'i) busy_lines \<Rightarrow> ('w, unit) phy" where
  "wait_on_busy11 P l = await_pin P Busy (lb_busy l) False"

definition await_irq11 :: "('c, 'i, 'w) pins \<Rightarrow> ('c, 'i) busy_lines \<Rightarrow> ('w, unit) phy" where
  "await_irq11 P l = await_pin P DIO1 (lb_dio1 l) True"

definition enable_rf_switch_rx11 :: "('c, 'i, 'w) pins \<Rightarrow> ('c, 'i) busy_lines \<Rightarrow> ('w, unit) phy" where
  "enable_rf_switch_rx11 P l =
     thn (drive_opt P RfSwitchTx (lb_rf_switch_tx l) False) (drive_opt P RfSwitchRx (lb_rf_switch_rx l) True)"

definition enable_rf_switch_tx11 :: "('c, 'i, 'w) pins \<Rightarrow> ('c, 'i) busy_lines \<Rightarrow> ('w, unit) phy" where
  "enable_rf_switch_tx11 P l =
     thn (drive_opt P RfSwitchRx (lb_rf_switch_rx l) False) (drive_opt P RfSwitchTx (lb_rf_switch_tx l) True)"

definition disable_rf_switch11 :: "('c, 'i, 'w) pins \<Rightarrow> ('c, 'i) busy_lines \<Rightarrow> ('w, unit) phy" where
  "disable_rf_switch11 P l =
     thn (drive_opt P RfSwitchRx (lb_rf_switch_rx l) False) (drive_opt P RfSwitchTx (lb_rf_switch_tx l) False)"

section \<open>Boards\<close>

text \<open>A bus with the lines of a variant, as the hardware that the drivers run on.\<close>

record 'w bus =
  bus_write :: "bytes \<Rightarrow> 'w \<Rightarrow> ((unit + unit) \<times> 'w) run"
  bus_transaction :: "spi_op list \<Rightarrow> 'w \<Rightarrow> ((unit + unit) \<times> bytes list \<times> 'w) run"

definition board7 :: "('c, 'i, 'w) pins \<Rightarrow> 'w bus \<Rightarrow> ('c, 'i) sx127x_lines \<Rightarrow> 'w hw" where
  "board7 P B l = \<lparr>hw_write = bus_write B, hw_transaction = bus_transaction B, iv_reset = reset7 P l,
     iv_wait_on_busy = wait_on_busy7 P l, iv_await_irq = await_irq7 P l, iv_rf_switch_rx = enable_rf_switch_rx7 P l,
     iv_rf_switch_tx = enable_rf_switch_tx7 P l, iv_disable_rf_switch = disable_rf_switch7 P l, hw_delay_ms = pin_delay_ms P\<rparr>"

definition board6 :: "('c, 'i, 'w) pins \<Rightarrow> 'w bus \<Rightarrow> ('c, 'i) busy_lines \<Rightarrow> 'w hw" where
  "board6 P B l = \<lparr>hw_write = bus_write B, hw_transaction = bus_transaction B, iv_reset = reset6 P l,
     iv_wait_on_busy = wait_on_busy6 P l, iv_await_irq = await_irq6 P l, iv_rf_switch_rx = enable_rf_switch_rx6 P l,
     iv_rf_switch_tx = enable_rf_switch_tx6 P l, iv_disable_rf_switch = disable_rf_switch6 P l, hw_delay_ms = pin_delay_ms P\<rparr>"

definition board11 :: "('c, 'i, 'w) pins \<Rightarrow> 'w bus \<Rightarrow> ('c, 'i) busy_lines \<Rightarrow> 'w hw" where
  "board11 P B l = \<lparr>hw_write = bus_write B, hw_transaction = bus_transaction B, iv_reset = reset11 P l,
     iv_wait_on_busy = wait_on_busy11 P l, iv_await_irq = await_irq11 P l, iv_rf_switch_rx = enable_rf_switch_rx11 P l,
     iv_rf_switch_tx = enable_rf_switch_tx11 P l, iv_disable_rf_switch = disable_rf_switch11 P l, hw_delay_ms = pin_delay_ms P\<rparr>"

end
