(* ===== verification/VariantFacts.thy ===== *)
theory VariantFacts
  imports Variants
begin

text \<open>
  The RF switch of a board. The six ways in which the code drives the two control lines of a switch share a locale,
  interpreted on the three variants; whatever the pins answer, and whatever the order of the calls, the receive and the
  transmit side of a switch are never on together.
\<close>

section \<open>Pins that do what they are told\<close>

text \<open>A pin that was set has that level; one that failed has its old level or the new one; nothing else changes a level.\<close>

definition pins_ok :: "('c, 'i, 'w) pins \<Rightarrow> ('w \<Rightarrow> 'c \<Rightarrow> bool) \<Rightarrow> bool" where
  "pins_ok P level \<longleftrightarrow>
     (\<forall>c b w. level (snd (pin_set P c b w)) = (level w)(c := b) \<or>
        (fst (pin_set P c b w) = Inl () \<and> level (snd (pin_set P c b w)) = level w)) \<and>
     (\<forall>i b w r w'. pin_wait P i b w = Some (r, w') \<longrightarrow> level w' = level w) \<and>
     (\<forall>i j w r w'. pin_select P i j w = Some (r, w') \<longrightarrow> level w' = level w) \<and>
     (\<forall>ms w. level (pin_delay_ms P ms w) = level w)"

text \<open>The sides of a switch, for the lines that are there.\<close>

definition exclusive :: "'c option \<Rightarrow> 'c option \<Rightarrow> ('c \<Rightarrow> bool) \<Rightarrow> bool" where
  "exclusive rx tx lv \<longleftrightarrow> (\<forall>a b. rx = Some a \<longrightarrow> tx = Some b \<longrightarrow> \<not> (lv a \<and> lv b))"

definition stays :: "('w \<Rightarrow> bool) \<Rightarrow> ('w, 'a) phy \<Rightarrow> bool" where
  "stays I m \<longleftrightarrow> (\<forall>w r w'. I w \<longrightarrow> m w = Some (r, w') \<longrightarrow> I w')"

lemma thn_outcome:
  assumes "thn m k w = Some (r, w')"
  obtains (stop) e where "m w = Some (Inl e, w')" "r = Inl e" | (go) x w1 where "m w = Some (Inr x, w1)" "k w1 = Some (r, w')"
proof -
  obtain y w1 where y: "m w = Some (y, w1)" using assms by (cases "m w") (auto simp: thn_def bnd_def)
  show thesis using y assms stop go by (cases y) (simp_all add: thn_def bnd_def)
qed

lemma stays_thn: "stays I m \<Longrightarrow> stays I k \<Longrightarrow> stays I (thn m k)"
  unfolding stays_def by (blast elim: thn_outcome)

lemma stays_steps: "(\<And>m. m \<in> set ms \<Longrightarrow> stays I m) \<Longrightarrow> stays I (steps ms)"
proof (induction ms)
  case Nil
  then show ?case by (simp add: steps_def stays_def ret_def)
next
  case (Cons m ms)
  have "steps (m # ms) = thn m (steps ms)" by (simp add: steps_def)
  moreover have "stays I m" "stays I (steps ms)" using Cons by simp_all
  ultimately show ?case using stays_thn by metis
qed

text \<open>The accesses a reset is made of.\<close>

definition reset_access :: "('c, 'i, 'w) pins \<Rightarrow> 'c \<Rightarrow> ('w, unit) phy \<Rightarrow> bool" where
  "reset_access P rst m \<longleftrightarrow>
     (\<exists>ms. m = pause P ms) \<or> (\<exists>b. m = drive P Reset rst b) \<or> (\<exists>e i b. m = await_pin P e i b)"

lemma reset_accesses [simp]:
  "reset_access P rst (pause P ms)" "reset_access P rst (drive P Reset rst b)" "reset_access P rst (await_pin P e i b)"
  unfolding reset_access_def by blast+

lemma drive_outcome:
  assumes "pins_ok P level" "drive P e c b w = Some (r, w')"
  shows "level w' = (level w)(c := b) \<or> (r = Inl e \<and> level w' = level w)"
proof -
  obtain x w1 where x: "pin_set P c b w = (x, w1)" by fastforce
  moreover have "level (snd (pin_set P c b w)) = (level w)(c := b) \<or>
      (fst (pin_set P c b w) = Inl () \<and> level (snd (pin_set P c b w)) = level w)"
    using assms(1) unfolding pins_ok_def by blast
  ultimately have "level w1 = (level w)(c := b) \<or> (x = Inl () \<and> level w1 = level w)" by simp
  then show ?thesis using assms(2) x by (cases x) (auto simp: drive_def pin_result_def)
qed

lemma drive_opt_outcome:
  assumes "pins_ok P level" "drive_opt P e c b w = Some (r, w')"
  shows "(\<forall>p. c = Some p \<longrightarrow> level w' = (level w)(p := b)) \<and> (c = None \<longrightarrow> level w' = level w) \<or> (r = Inl e \<and> level w' = level w)"
  using drive_outcome [OF assms(1)] assms(2) by (cases c) (auto simp: drive_opt_def ret_def)

text \<open>No two of the lines are the same pin.\<close>

definition apart :: "'c \<Rightarrow> 'c option \<Rightarrow> 'c option \<Rightarrow> bool" where
  "apart rst rx tx \<longleftrightarrow> rx \<noteq> Some rst \<and> tx \<noteq> Some rst \<and> (rx = None \<or> rx \<noteq> tx)"

section \<open>The switch\<close>

locale rf_switch =
  fixes P :: "('c, 'i, 'w) pins" and rx tx :: "'c option" and rst :: 'c
    and reset busy irq rx_on tx_on off :: "('w, unit) phy"
  assumes reset_lines: "\<exists>ms. reset = steps ms \<and> list_all (reset_access P rst) ms"
    and busy_lines: "busy = ret () \<or> (\<exists>e i b. busy = await_pin P e i b)"
    and irq_lines: "(\<exists>e i b. irq = await_pin P e i b) \<or> (\<exists>e i j. irq = await_either P e i j)"
    and rx_on_lines: "rx_on = thn (drive_opt P RfSwitchTx tx False) (drive_opt P RfSwitchRx rx True)"
    and tx_on_lines: "tx_on = thn (drive_opt P RfSwitchRx rx False) (drive_opt P RfSwitchTx tx True)"
    and off_lines: "off = thn (drive_opt P RfSwitchRx rx False) (drive_opt P RfSwitchTx tx False)"
begin

lemma waits_stay:
  assumes "pins_ok P level"
  shows "stays (\<lambda>w. exclusive rx tx (level w)) (await_pin P e i b)"
    "stays (\<lambda>w. exclusive rx tx (level w)) (await_either P e i j)"
    "stays (\<lambda>w. exclusive rx tx (level w)) (pause P ms)"
    "stays (\<lambda>w. exclusive rx tx (level w)) (ret ())"
  using assms by (auto simp: pins_ok_def stays_def await_pin_def await_either_def pin_result_def pause_def modify_def ret_def)

lemma reset_pin_stays:
  assumes "pins_ok P level" "apart rst rx tx"
  shows "stays (\<lambda>w. exclusive rx tx (level w)) (drive P Reset rst b)"
  using assms(2) drive_outcome [OF assms(1)] by (fastforce simp: stays_def exclusive_def apart_def)

lemma lines_stay:
  assumes "pins_ok P level" "apart rst rx tx"
  shows "stays (\<lambda>w. exclusive rx tx (level w)) reset" "stays (\<lambda>w. exclusive rx tx (level w)) busy"
    "stays (\<lambda>w. exclusive rx tx (level w)) irq"
  subgoal using reset_lines waits_stay [OF assms(1)] reset_pin_stays [OF assms]
    by (auto simp: reset_access_def list_all_iff intro!: stays_steps)
  subgoal using busy_lines waits_stay [OF assms(1)] by auto
  subgoal using irq_lines waits_stay [OF assms(1)] by auto
  done

lemma rx_on_outcome:
  assumes "pins_ok P level" "apart rst rx tx" "rx_on w = Some (r, w')"
  shows "(exclusive rx tx (level w) \<longrightarrow> exclusive rx tx (level w')) \<and>
    (r = Inr () \<longrightarrow> (\<forall>p. rx = Some p \<longrightarrow> level w' p) \<and> (\<forall>p. tx = Some p \<longrightarrow> \<not> level w' p))"
  using assms(3) [unfolded rx_on_lines]
proof (cases rule: thn_outcome)
  case (stop e)
  then show ?thesis using drive_opt_outcome [OF assms(1) stop(1)] by (auto simp: exclusive_def)
next
  case (go x w1)
  then show ?thesis using drive_opt_outcome [OF assms(1) go(1)] drive_opt_outcome [OF assms(1) go(2)] assms(2)
    by (cases rx; cases tx) (auto simp: exclusive_def apart_def)
qed

lemma tx_on_outcome:
  assumes "pins_ok P level" "apart rst rx tx" "tx_on w = Some (r, w')"
  shows "(exclusive rx tx (level w) \<longrightarrow> exclusive rx tx (level w')) \<and>
    (r = Inr () \<longrightarrow> (\<forall>p. tx = Some p \<longrightarrow> level w' p) \<and> (\<forall>p. rx = Some p \<longrightarrow> \<not> level w' p))"
  using assms(3) [unfolded tx_on_lines]
proof (cases rule: thn_outcome)
  case (stop e)
  then show ?thesis using drive_opt_outcome [OF assms(1) stop(1)] by (auto simp: exclusive_def)
next
  case (go x w1)
  then show ?thesis using drive_opt_outcome [OF assms(1) go(1)] drive_opt_outcome [OF assms(1) go(2)] assms(2)
    by (cases rx; cases tx) (auto simp: exclusive_def apart_def)
qed

lemma off_outcome:
  assumes "pins_ok P level" "apart rst rx tx" "off w = Some (r, w')"
  shows "(exclusive rx tx (level w) \<longrightarrow> exclusive rx tx (level w')) \<and>
    (r = Inr () \<longrightarrow> (\<forall>p. tx = Some p \<longrightarrow> \<not> level w' p) \<and> (\<forall>p. rx = Some p \<longrightarrow> \<not> level w' p))"
  using assms(3) [unfolded off_lines]
proof (cases rule: thn_outcome)
  case (stop e)
  then show ?thesis using drive_opt_outcome [OF assms(1) stop(1)] by (auto simp: exclusive_def)
next
  case (go x w1)
  then show ?thesis using drive_opt_outcome [OF assms(1) go(1)] drive_opt_outcome [OF assms(1) go(2)] assms(2)
    by (cases rx; cases tx) (auto simp: exclusive_def apart_def)
qed

end

interpretation switch7: rf_switch P "l7_rf_switch_rx l" "l7_rf_switch_tx l" "l7_reset l" "reset7 P l" "wait_on_busy7 P l"
  "await_irq7 P l" "enable_rf_switch_rx7 P l" "enable_rf_switch_tx7 P l" "disable_rf_switch7 P l" for P l
proof unfold_locales
  show "\<exists>ms. reset7 P l = steps ms \<and> list_all (reset_access P (l7_reset l)) ms"
    by (rule exI, rule conjI, rule reset7_def) simp
  show "(\<exists>e i b. await_irq7 P l = await_pin P e i b) \<or> (\<exists>e i j. await_irq7 P l = await_either P e i j)"
    by (cases "l7_irq_secondary l") (simp_all add: await_irq7_def, blast+)
qed (auto simp: wait_on_busy7_def enable_rf_switch_rx7_def enable_rf_switch_tx7_def disable_rf_switch7_def)

interpretation switch6: rf_switch P "lb_rf_switch_rx l" "lb_rf_switch_tx l" "lb_reset l" "reset6 P l" "wait_on_busy6 P l"
  "await_irq6 P l" "enable_rf_switch_rx6 P l" "enable_rf_switch_tx6 P l" "disable_rf_switch6 P l" for P l
proof unfold_locales
  show "\<exists>ms. reset6 P l = steps ms \<and> list_all (reset_access P (lb_reset l)) ms"
    by (rule exI, rule conjI, rule reset6_def) simp
qed (auto simp: wait_on_busy6_def await_irq6_def enable_rf_switch_rx6_def enable_rf_switch_tx6_def disable_rf_switch6_def
    split: option.split)

interpretation switch11: rf_switch P "lb_rf_switch_rx l" "lb_rf_switch_tx l" "lb_reset l" "reset11 P l" "wait_on_busy11 P l"
  "await_irq11 P l" "enable_rf_switch_rx11 P l" "enable_rf_switch_tx11 P l" "disable_rf_switch11 P l" for P l
proof unfold_locales
  show "\<exists>ms. reset11 P l = steps ms \<and> list_all (reset_access P (lb_reset l)) ms"
    by (rule exI, rule conjI, rule reset11_def) simp
qed (auto simp: wait_on_busy11_def await_irq11_def enable_rf_switch_rx11_def enable_rf_switch_tx11_def disable_rf_switch11_def
    split: option.split)

section \<open>Any sequence of accesses\<close>

text \<open>The bus does not touch the lines.\<close>

definition bus_quiet :: "'w bus \<Rightarrow> ('w \<Rightarrow> 'c \<Rightarrow> bool) \<Rightarrow> bool" where
  "bus_quiet B level \<longleftrightarrow> (\<forall>bs w r w'. bus_write B bs w = Some (r, w') \<longrightarrow> level w' = level w) \<and>
     (\<forall>ops w r bufs w'. bus_transaction B ops w = Some (r, bufs, w') \<longrightarrow> level w' = level w)"

datatype line_access = AccReset | AccBusy | AccIrq | AccRx | AccTx | AccOff | AccWrite bytes | AccTransfer "spi_op list" | AccDelay u32

fun access :: "'w hw \<Rightarrow> line_access \<Rightarrow> 'w \<Rightarrow> 'w run" where
  "access H AccReset w = map_option snd (iv_reset H w)"
| "access H AccBusy w = map_option snd (iv_wait_on_busy H w)"
| "access H AccIrq w = map_option snd (iv_await_irq H w)"
| "access H AccRx w = map_option snd (iv_rf_switch_rx H w)"
| "access H AccTx w = map_option snd (iv_rf_switch_tx H w)"
| "access H AccOff w = map_option snd (iv_disable_rf_switch H w)"
| "access H (AccWrite bs) w = map_option snd (hw_write H bs w)"
| "access H (AccTransfer ops) w = map_option (snd \<circ> snd) (hw_transaction H ops w)"
| "access H (AccDelay ms) w = Some (hw_delay_ms H ms w)"

fun accesses :: "'w hw \<Rightarrow> line_access list \<Rightarrow> 'w \<Rightarrow> 'w run" where
  "accesses H [] w = Some w"
| "accesses H (a # as) w = do { w1 \<leftarrow> access H a w; accesses H as w1 }"

text \<open>A board with one of the three variants, and its lines.\<close>

definition board_lines ::
  "('c, 'i, 'w) pins \<Rightarrow> 'w bus \<Rightarrow> 'w hw \<Rightarrow> 'c \<Rightarrow> 'c option \<Rightarrow> 'c option \<Rightarrow> bool" where
  "board_lines P B H rst rx tx \<longleftrightarrow>
     (\<exists>l. H = board7 P B l \<and> rst = l7_reset l \<and> rx = l7_rf_switch_rx l \<and> tx = l7_rf_switch_tx l) \<or>
     (\<exists>l. H = board6 P B l \<and> rst = lb_reset l \<and> rx = lb_rf_switch_rx l \<and> tx = lb_rf_switch_tx l) \<or>
     (\<exists>l. H = board11 P B l \<and> rst = lb_reset l \<and> rx = lb_rf_switch_rx l \<and> tx = lb_rf_switch_tx l)"

lemma board_lines_switch:
  assumes "board_lines P B H rst rx tx"
  shows "rf_switch P rx tx rst (iv_reset H) (iv_wait_on_busy H) (iv_await_irq H) (iv_rf_switch_rx H) (iv_rf_switch_tx H)
      (iv_disable_rf_switch H)" "hw_write H = bus_write B" "hw_transaction H = bus_transaction B" "hw_delay_ms H = pin_delay_ms P"
  using assms by (auto simp: board_lines_def board7_def board6_def board11_def
      intro: switch7.rf_switch_axioms switch6.rf_switch_axioms switch11.rf_switch_axioms)

lemma access_exclusive:
  assumes "pins_ok P level" "bus_quiet B level" "board_lines P B H rst rx tx" "apart rst rx tx"
    and "exclusive rx tx (level w)" "access H a w = Some w'"
  shows "exclusive rx tx (level w')"
proof -
  note b = board_lines_switch [OF assms(3)]
  have line: "exclusive rx tx (level w')" if "stays (\<lambda>w. exclusive rx tx (level w)) m" "map_option snd (m w) = Some w'" for m
    using that assms(5) by (auto simp: stays_def)
  have s: "stays (\<lambda>w. exclusive rx tx (level w)) (iv_rf_switch_rx H)" "stays (\<lambda>w. exclusive rx tx (level w)) (iv_rf_switch_tx H)"
    "stays (\<lambda>w. exclusive rx tx (level w)) (iv_disable_rf_switch H)"
    using rf_switch.rx_on_outcome [OF b(1) assms(1,4)] rf_switch.tx_on_outcome [OF b(1) assms(1,4)]
      rf_switch.off_outcome [OF b(1) assms(1,4)] unfolding stays_def by blast+
  note l = rf_switch.lines_stay [OF b(1) assms(1,4)]
  have same: ?thesis if "level w' = level w" using that assms(5) by simp
  show ?thesis
  proof (cases a)
    case (AccWrite bs)
    then show ?thesis using assms(2,6) b(2) by (intro same) (auto simp: bus_quiet_def)
  next
    case (AccTransfer ops)
    then show ?thesis using assms(2,6) b(3) by (intro same) (auto simp: bus_quiet_def)
  next
    case (AccDelay ms)
    then show ?thesis using assms(1,6) b(4) by (intro same) (auto simp: pins_ok_def)
  qed (use assms(6) line [OF l(1)] line [OF l(2)] line [OF l(3)] line [OF s(1)] line [OF s(2)] line [OF s(3)] in simp_all)
qed

lemma accesses_exclusive:
  assumes "pins_ok P level" "bus_quiet B level" "board_lines P B H rst rx tx" "apart rst rx tx"
  shows "exclusive rx tx (level w) \<Longrightarrow> accesses H as w = Some w1 \<Longrightarrow> exclusive rx tx (level w1)"
proof (induction "as" arbitrary: w)
  case (Cons a as)
  obtain w2 where w2: "access H a w = Some w2" "accesses H as w2 = Some w1" using Cons.prems(2) by (auto simp: bind_eq_Some_conv)
  have "exclusive rx tx (level w2)" by (rule access_exclusive [OF assms Cons.prems(1) w2(1)])
  then show ?case using w2(2) by (rule Cons.IH)
qed simp

text \<open>C36. On a board with any of the three variants, after any sequence of accesses of a driver, in any order and with any
  failures, the receive and the transmit side of the RF switch are not on together; and when switching to one side
  succeeds, that side is on and the other off.\<close>

theorem rf_switch_exclusive:
  assumes "pins_ok P level" "bus_quiet B level" "board_lines P B H rst rx tx" "apart rst rx tx"
    and "exclusive rx tx (level w)" "accesses H as w = Some w1"
  shows "exclusive rx tx (level w1) \<and>
    (\<forall>w2. iv_rf_switch_rx H w1 = Some (Inr (), w2) \<longrightarrow>
       (\<forall>p. rx = Some p \<longrightarrow> level w2 p) \<and> (\<forall>p. tx = Some p \<longrightarrow> \<not> level w2 p)) \<and>
    (\<forall>w2. iv_rf_switch_tx H w1 = Some (Inr (), w2) \<longrightarrow>
       (\<forall>p. tx = Some p \<longrightarrow> level w2 p) \<and> (\<forall>p. rx = Some p \<longrightarrow> \<not> level w2 p))"
proof -
  note b = board_lines_switch [OF assms(3)]
  have "(\<forall>p. rx = Some p \<longrightarrow> level w2 p) \<and> (\<forall>p. tx = Some p \<longrightarrow> \<not> level w2 p)"
    if "iv_rf_switch_rx H w1 = Some (Inr (), w2)" for w2
    using rf_switch.rx_on_outcome [OF b(1) assms(1,4) that] by simp
  moreover have "(\<forall>p. tx = Some p \<longrightarrow> level w2 p) \<and> (\<forall>p. rx = Some p \<longrightarrow> \<not> level w2 p)"
    if "iv_rf_switch_tx H w1 = Some (Inr (), w2)" for w2
    using rf_switch.tx_on_outcome [OF b(1) assms(1,4) that] by simp
  ultimately show ?thesis using accesses_exclusive [OF assms] by simp
qed

text \<open>Pins whose levels are the state; pin 0 is the reset, 1 and 2 the switch.\<close>

definition example_pins :: "(nat, nat, nat \<Rightarrow> bool) pins" where
  "example_pins = \<lparr>pin_set = (\<lambda>c b w. (Inr (), w(c := b))), pin_wait = (\<lambda>_ _ w. Some (Inr (), w)),
     pin_select = (\<lambda>_ _ w. Some (Inr (), w)), pin_delay_ms = (\<lambda>_ w. w)\<rparr>"

definition example_bus :: "(nat \<Rightarrow> bool) bus" where
  "example_bus = \<lparr>bus_write = (\<lambda>_ w. Some (Inr (), w)), bus_transaction = (\<lambda>ops w. Some (Inr (), map (\<lambda>n. replicate n 0) (read_lengths ops), w))\<rparr>"

definition example_lines :: "(nat, nat) busy_lines" where
  "example_lines = \<lparr>lb_reset = 0, lb_dio1 = 0, lb_busy = 1, lb_rf_switch_rx = Some 1, lb_rf_switch_tx = Some 2\<rparr>"

lemma rf_switch_exclusive_witness:
  "\<exists>w. accesses (board6 example_pins example_bus example_lines) [AccReset, AccTx, AccRx] (\<lambda>_. False) = Some w \<and>
     w 1 \<and> exclusive (Some 1) (Some 2) w"
proof -
  let ?H = "board6 example_pins example_bus example_lines"
  obtain w where w: "accesses ?H [AccReset, AccTx, AccRx] (\<lambda>_. False) = Some w" "w 1"
    by (simp add: board6_def reset6_def enable_rf_switch_tx6_def enable_rf_switch_rx6_def example_lines_def steps_def thn_def bnd_def
        ret_def pause_def modify_def drive_def drive_opt_def pin_result_def example_pins_def)
  have "exclusive (Some 1) (Some 2) ((\<lambda>w :: nat \<Rightarrow> bool. w) w)"
  proof (rule rf_switch_exclusive [THEN conjunct1, OF _ _ _ _ _ w(1)])
    show "pins_ok example_pins (\<lambda>w. w)" by (simp add: pins_ok_def example_pins_def)
    show "bus_quiet example_bus (\<lambda>w. w)" by (simp add: bus_quiet_def example_bus_def)
    show "board_lines example_pins example_bus ?H 0 (Some 1) (Some 2)" by (auto simp: board_lines_def example_lines_def)
  qed (simp_all add: apart_def exclusive_def)
  with w show ?thesis by blast
qed

end
