(* ===== verification/Spec2Isabelle.thy ===== *)
theory Spec2Isabelle
  imports TimeOnAir PhyStack PhyNumbers MulticastProperties VariantFacts
begin

text \<open>
  A verification library for lora-rs, a LoRaWAN end device in Rust.

  The program. Four crates make up the stack. \<open>lora-modulation\<close> describes a modulation and computes time
  on air. \<open>lorawan-encoding\<close> (with the derive macros of \<open>lorawan-macros\<close>) parses and builds LoRaWAN
  frames, their cryptography and the MAC commands inside them. \<open>lorawan-device\<close> is the device: the channel
  plans of the regions, the session with its frame counters, the MAC layer that ties them together, and
  two drivers of that layer, a non-blocking and an asynchronous one. \<open>lora-phy\<close> drives the radio chips SX126x,
  SX127x and LR1110 over SPI, and is a radio of the asynchronous device.
  A call goes down like this: the application asks the device to send; the device asks the MAC layer,
  whose session builds the frame into the radio buffer (through the creators and the MIC and payload
  encryption of the encoding crate) and whose region selects a channel; the frame goes to the radio, and
  two receive windows follow. What the radio receives goes up through the same layers: the frame is
  parsed, its counter rebuilt, its MIC checked, it is decrypted in place, its MAC commands change the
  configuration and the region and queue answers, and its data is put into the downlink queue.

  Conventions. A machine integer is a word of its width, so arithmetic wraps as in a release build; a
  byte array or slice is a list of bytes; an array index or slice range is checked. A call that does not
  return, because it panics or because a sampling loop never ends, is \<open>None\<close> of type \<open>'a run\<close>; a
  \<open>Result\<close> is a sum with the error on the left; \<open>&mut\<close> arguments are returned updated. Sampling loops are
  \<open>partial_function (option)\<close> over an arbitrary generator \<open>next_u32\<close> with a state of its own, so a loop that
  does not end is a value and that it ends is a theorem; there is no fuel anywhere. The crates are
  modelled with their default features, with all regions and with class C; what the feature \<open>multicast\<close> changes
  has definitions of its own, whose names end in \<open>_mc\<close>, and what \<open>certification\<close>, \<open>serde\<close> and \<open>defmt-03\<close> add is left out.

  Parameters stand for code outside the repository. The block cipher and CMAC behind the traits \<open>Crypto\<close>
  and \<open>NetworkCrypto\<close> are a record of functions (\<open>Security\<close>), and \<open>mk\<close> gives it for a key; the hypotheses on
  it (\<open>crypto_ok\<close>, \<open>network_crypto_ok\<close>, \<open>cipher_ok\<close>) say that blocks have 16 bytes, that MICs have 4 and
  that decryption undoes encryption, nothing about secrecy. The random generator is \<open>next_u32\<close>. The radio
  behind the trait \<open>PhyRxTx\<close> is a record of functions, without any hypothesis in \<open>NbDevice\<close>; in \<open>AsyncDevice\<close>,
  where it writes into the buffer of the device, it keeps the length of the slice it is given and reports a
  length within it (\<open>async_phy_ok\<close>), and the timer and the race of a reception against it belong to the record. \<open>PhyStack\<close> fills the record with
  \<open>lora-phy\<close>; what is then left as a parameter is the hardware behind the traits \<open>SpiDevice\<close>, \<open>InterfaceVariant\<close> and
  \<open>DelayNs\<close>, a record \<open>hw\<close> of state-passing functions that may fail or answer anything, of which \<open>hw_ok\<close> only
  says that a read fills the buffer it is given. A bounded
  vector of the crate heapless is a list with its capacity written out (\<open>vec_push\<close>, \<open>vec_extend_unwrap\<close>);
  the capacity \<open>D\<close> of the downlink queue and the size of the radio buffer are parameters.

  The theories, in the order in which they build on each other.

  \<^item> \<open>Prelude\<close>: words, checked buffers, little-endian conversion, the two result types.
  \<^item> \<open>Modulation\<close> (\<open>lora-modulation/src/lib.rs\<close>): modulation parameters and time on air. \<open>TimeOnAir\<close> states the
    formula of the data sheet over the reals and shows that the code computes it for the bandwidths of LoRaWAN, but for
    very short payloads.
  \<^item> \<open>Types\<close> (\<open>types.rs\<close>), \<open>WireFields\<close> (the newtypes of \<open>parser.rs\<close> and their text form, whose common laws are the
    locale \<open>wire_field\<close>), \<open>Security\<close> (\<open>securityhelpers.rs\<close>, \<open>keys.rs\<close>).
  \<^item> \<open>Parser\<close> (\<open>parser.rs\<close>) and \<open>Creator\<close> (\<open>creator.rs\<close>): frames. The layout that validation establishes carries
    every accessor, so parsing and reading never panic; what is built is read back, for data frames, join
    requests and join accepts.
  \<^item> \<open>MacCommands\<close> (\<open>maccommands.rs\<close> as the derive macro expands it) and \<open>MacCreators\<close> (\<open>maccommandcreator.rs\<close>): the two
    command sets share the locale \<open>command_set\<close>; a stream of commands is read back, iteration ends, and
    every creator produces the command its accessors read.
  \<^item> \<open>Radio\<close> (\<open>radio.rs\<close>), \<open>RegionTables\<close> (the tables of the nine regions), \<open>RegionHandler\<close> (the contract of the trait
    \<open>RegionHandler\<close> as a locale), \<open>DynamicPlan\<close>, \<open>JoinChannels\<close> and \<open>FixedPlan\<close> (the two kinds of channel plan, and the walk
    over the join channels of fixed plans), \<open>Region\<close> (the union of the nine). The locale is interpreted on
    dynamic plans, fixed plans and the union, and the MAC layer uses the last interpretation.
  \<^item> \<open>UplinkQueue\<close> (\<open>mac/uplink/mod.rs\<close>), \<open>SessionState\<close> and \<open>Session\<close> (\<open>mac/session.rs\<close>): the queue of MAC answers, the
    counters, reception and transmission. \<open>SessionFacts\<close> computes what every handler does from an
    invariant, \<open>SessionProperties\<close> and \<open>SessionUplink\<close> hold the properties of reception and of uplinks.
  \<^item> \<open>Otaa\<close> (\<open>mac/otaa.rs\<close>): the join handshake, from the request to equal keys on both sides.
  \<^item> \<open>Mac\<close> (\<open>mac/mod.rs\<close>): the MAC layer, one definition per method. \<open>MacFacts\<close> gives its invariant \<open>mac_ok\<close> and the
    outcome of each method; \<open>MacRuns\<close> makes the methods the steps of a transition relation and shows that
    it simulates an abstract machine of two frame counters; \<open>MacRates\<close> shows that the region stays and that the
    data rates it stores are ones of the region's table; \<open>MacProperties\<close> draws the conclusions for
    reachable states, sessions, reception and windows.
  \<^item> \<open>NbDevice\<close> (\<open>nb_device/\<close>): the non-blocking device, one definition per state of its state machine.
    \<open>NbFacts\<close> and \<open>NbProperties\<close> show its invariant, that it refuses requests while busy, when its windows open,
    and that the frames it hands to the radio are numbered one by one, a number being used again only after the
    radio refused the frame.
  \<^item> \<open>AsyncDevice\<close> (\<open>async_device/\<close>): the asynchronous device with Class C. An \<open>await\<close> is a call that returns what the
    future completes with; the loops that receive until a timeout or until a response are partial functions.
    \<open>AsyncFacts\<close> shows that every call is a run of the steps of \<open>MacRuns\<close> that ends with the response it returns,
    \<open>AsyncRuns\<close> follows the counters through sequences of calls, and \<open>AsyncProperties\<close> holds what the
    application can rely on, the agreement of the two drivers, and three calls that fail their caller.

  \<^item> \<open>McPackage\<close> (\<open>multicast/\<close> of \<open>lorawan-encoding\<close>): the messages of remote multicast setup, two more interpretations of the
    locale of command sets. \<open>Multicast\<close> (\<open>mac/multicast.rs\<close>): the groups of a device, the reception of their frames and the answers of
    remote setup. \<open>MulticastDevice\<close>: the functions of the session, the MAC layer and both devices that the feature changes.
    \<open>McPackageFacts\<close>, \<open>MulticastFacts\<close> and \<open>MulticastProperties\<close> show that a group has the same keys on both sides, which
    frames a group accepts, that frames on other ports are handled as in the default build, and where the feature reuses
    counters of uplinks or panics.
  \<^item> \<open>PhyBus\<close> (\<open>mod_params.rs\<close>, \<open>mod_traits.rs\<close>, \<open>interface.rs\<close> of \<open>lora-phy\<close>): the parameters of the radios, the hardware record,
    the trait \<open>RadioKind\<close> as a record, and the SPI interface. \<open>LoRaDriver\<close> (\<open>lib.rs\<close>): the physical layer API over any
    radio kind; \<open>LoRaFacts\<close> holds the locale \<open>receives\<close> of radio kinds that never report more bytes than the buffer has.
  \<^item> \<open>Sx126xParams\<close>, \<open>Sx126x\<close>, \<open>Sx126xKind\<close> (\<open>sx126x/\<close>) and \<open>Sx127xParams\<close>, \<open>Sx127x\<close>, \<open>Sx127xKind\<close> (\<open>sx127x/\<close>): registers and op
    codes, every operation as the transfers it makes, and the two drivers as radio kinds. \<open>PhyNumbers\<close> compares what
    they compute with what it stands for: carrier, power, symbol timeout, readings, optimisation of slow modulations.
  \<^item> \<open>Lr1110Params\<close> (\<open>lr1110/radio_kind_params.rs\<close>), \<open>Lr1110Interface\<close> (\<open>lr1110_interface.rs\<close>), \<open>Lr1110\<close> and \<open>Lr1110Kind\<close>
    (\<open>lr1110/mod.rs\<close>): the third driver, its methods and its implementation of \<open>RadioKind\<close>. \<open>Fixture1110\<close>
    (\<open>lr1110/test/fixtures.rs\<close>) is the recorder its tests run on, as a hardware record; \<open>Lr1110Facts\<close> shows the limits of
    its amplifiers, the meaning of its interrupts, the round trip through the memory of the chip and a status that
    is read one byte late.
  \<^item> \<open>Variants\<close> (\<open>iv.rs\<close>): the three sets of control lines of boards, over a record of the functions of pins, as instances
    of the lines of the hardware record. \<open>VariantFacts\<close>: their RF switches are instances of one locale, and the two sides of
    a switch are never on together.
  \<^item> \<open>LorawanRadio\<close> (\<open>lorawan_radio.rs\<close>): the adapter to the asynchronous device.
  \<^item> \<open>Emu126\<close> (\<open>sx126x/test/emulator.rs\<close>): the chip the repository tests the SX126x driver on, as a hardware record.
    \<open>Emu126Runs\<close> and \<open>Emu126Stack\<close> compute what each operation does to it, up to transmissions, silent windows and
    waking up; \<open>PhyStack\<close> puts the device on top, on any hardware and on this chip.

  What the properties show. Frames, commands, text forms and the join handshake are round trips against
  the network's side of the same crate. Reception in the MAC layer is safe: for every content of the radio buffer its
  handlers return with the invariant kept, except for two kinds of frames that need a key of the device and panic
  (a \<open>LinkADRReq\<close> with \<open>ChMaskCntl\<close> 4, and a join accept with RX2 data rate 15). The devices above it are not: without
  any key an oversized frame makes \<open>rxc_listen\<close> panic, and, with the feature \<open>multicast\<close>, a frame on a multicast port the
  non-blocking device, as two theorems state. A frame that is not authentic
  and fresh moves nothing but the queue of answers (or closes the second window, when it is oversized);
  accepted counters strictly increase. The uplinks of a session have strictly increasing counters up to 0xFFFFFFFF, where
  the code stops counting and uses the last one again; the theorems say so, and which errors make a counter be used
  again before. Loops that draw channels return exactly when the generator ever
  draws a usable one. Some theorems state what the code does where it departs from the standard or from
  its own documentation, for example that a device accepts its own uplink as a downlink.

  Bounds. The buffer of an uplink has 256 bytes and the queue of answers 15, as in the code. The radio
  buffer may have any size; when it is too small to hold the frame strictly, sending panics, which the
  theorems say. Time stamps are 32-bit words and wrap.

  Not modelled. Futures of the asynchronous device that are dropped or never complete; certification (off by
  default); the default cryptography, the hexadecimal form of keys and
  the pseudorandom generator, which call third-party crates; serialisation, logging, tests, benchmarks
  and examples; \<open>max_duty_cycle\<close>, which computes a float; plain getters that only return a field, and
  \<open>get_session_mut\<close>, which lends the session to the application.
\<close>

end
